(* ===== verification/Prelude.thy ===== *)
theory Prelude
  imports Main "HOL-Library.Word"
begin

unbundle bit_operations_syntax

text \<open>
  Shared vocabulary of the development: the C integer types of the 32-bit RISC-V target, the
  byte-addressed memory, the assertion macros, the error numbers and the generic lemmas on words,
  lists and memory that the component theories use.

  The target is ILP32: pointers, \<open>size_t\<close> and \<open>unsigned long\<close> are 32 bits wide, and the byte order
  is little endian.  Pointer arithmetic is arithmetic on \<open>32 word\<close>.
\<close>

section \<open>C types\<close>

type_synonym u8 = "8 word"
type_synonym u16 = "16 word"
type_synonym u32 = "32 word"
type_synonym u64 = "64 word"
type_synonym addr = "32 word"
type_synonym mem = "addr \<Rightarrow> u8"

abbreviation NULL :: addr where
  "NULL \<equiv> 0"

section \<open>Lemma collections\<close>

named_theorems mem_simps \<open>reading back what a memory or register update wrote\<close>
named_theorems word_nat \<open>reading word arithmetic as arithmetic on natural numbers\<close>
named_theorems sdk_defs \<open>definitions that component proofs unfold together\<close>

section \<open>Error numbers\<close>

text \<open>The \<open>errno\<close> values that the drivers return negated (newlib's numbering).\<close>

definition EINVAL :: int where "EINVAL = 22"
definition ENOMEM :: int where "ENOMEM = 12"
definition ENOSPC :: int where "ENOSPC = 28"
definition ENOSYS :: int where "ENOSYS = 88"
definition ENOTSUP :: int where "ENOTSUP = 134"

lemmas errno_defs = EINVAL_def ENOMEM_def ENOSPC_def ENOSYS_def ENOTSUP_def

section \<open>The machine state\<close>

text \<open>
  Data memory, the build option \<open>__ASSERT_ON\<close> and the number of failed assertions reported so far.
  A failed \<open>__ASSERT\<close> prints and then calls \<open>assert_post_action\<close>; the repository's implementation
  of that hook is weak and empty, so control continues after the report.
\<close>

record machine =
  ram :: mem
  assert_on :: bool
  asserts :: nat

definition assert_post_action :: "machine \<Rightarrow> machine" where
  "assert_post_action s = s"

definition assert_printf :: "machine \<Rightarrow> machine" where
  "assert_printf s = s\<lparr>asserts := Suc (asserts s)\<rparr>"

definition ASSERT_NO_MSG :: "bool \<Rightarrow> machine \<Rightarrow> machine" where
  "ASSERT_NO_MSG test s =
     (if assert_on s \<and> \<not> test then assert_post_action (assert_printf s) else s)"

section \<open>Byte memory\<close>

text \<open>\<open>mem_write\<close> stores bytes at consecutive addresses in ascending order, \<open>mem_read\<close> loads them.\<close>

primrec mem_write :: "mem \<Rightarrow> addr \<Rightarrow> u8 list \<Rightarrow> mem" where
  "mem_write m a [] = m"
| "mem_write m a (b # bs) = mem_write (m(a := b)) (a + 1) bs"

definition mem_read :: "mem \<Rightarrow> addr \<Rightarrow> nat \<Rightarrow> u8 list" where
  "mem_read m a n = map (\<lambda>i. m (a + of_nat i)) [0..<n]"

section \<open>Lemmas on words\<close>

lemma unat_of_nat_u32 [word_nat]: "n < 2 ^ 32 \<Longrightarrow> unat (of_nat n :: u32) = n"
  by (simp add: unat_of_nat take_bit_nat_eq_self)

lemma unat_of_nat_u16 [word_nat]: "n < 2 ^ 16 \<Longrightarrow> unat (of_nat n :: u16) = n"
  by (simp add: unat_of_nat take_bit_nat_eq_self)

lemma of_nat_u32_inj: "a < 2 ^ 32 \<Longrightarrow> b < 2 ^ 32 \<Longrightarrow> (of_nat a = (of_nat b :: u32)) = (a = b)"
  by (simp add: word_of_nat_eq_iff take_bit_nat_eq_self)

lemma unat_u16_less: "unat (x :: u16) < 65536"
  using unsigned_less [of x] by simp

lemma unat_u8_less: "unat (x :: u8) < 256"
  using unsigned_less [of x] by simp

lemma unat_u32_less: "unat (x :: u32) < 4294967296"
  using unsigned_less [of x] by simp

lemma unat_ucast_u16_u32 [simp]: "unat (ucast (x :: u16) :: u32) = unat x"
  using unat_u16_less [of x] by (simp add: unsigned_ucast_eq take_bit_nat_eq_self)

lemma unat_ucast_u8_u32 [simp]: "unat (ucast (x :: u8) :: u32) = unat x"
  using unat_u8_less [of x] by (simp add: unsigned_ucast_eq take_bit_nat_eq_self)

lemma unat_add_no_wrap_u32 [word_nat]:
  "unat a + unat b < 2 ^ 32 \<Longrightarrow> unat (a + b :: u32) = unat a + unat b"
  by (simp add: unat_word_ariths)

lemma unat_add_no_wrap_u16 [word_nat]:
  "unat a + unat b < 2 ^ 16 \<Longrightarrow> unat (a + b :: u16) = unat a + unat b"
  by (simp add: unat_word_ariths)

lemma unat_sub_le [word_nat]: "unat b \<le> unat a \<Longrightarrow> unat (a - b :: 'a::len word) = unat a - unat b"
  by (simp add: unat_sub word_le_nat_alt)

lemma mod_sum_borrow:
  assumes "a = (x + b) mod N" and "a < b" and "x < N" and "b < (N :: nat)"
  shows "x = N - (b - a)"
proof -
  have "N \<le> x + b"
    using assms(1,2) by (metis mod_less not_le not_add_less2)
  with assms show ?thesis by (simp add: le_mod_geq)
qed

lemma unat_sub_neg:
  assumes "unat a < unat (b :: u32)"
  shows "unat (a - b) = 2 ^ 32 - unat (b - a)"
proof -
  have "unat (a - b + b) = (unat (a - b) + unat b) mod 2 ^ LENGTH(32)"
    by (rule unat_word_ariths(1))
  then have "unat a = (unat (a - b) + unat b) mod 4294967296"
    by (simp only: diff_add_cancel) simp
  then have "unat (a - b) = 4294967296 - (unat b - unat a)"
    using assms by (rule mod_sum_borrow) (rule unat_u32_less)+
  moreover have "unat (b - a) = unat b - unat a"
    using assms by (intro unat_sub_le) simp
  ultimately show ?thesis by simp
qed

text \<open>A constant that is one run of ones, bit by bit.\<close>

lemma bit_field:
  "w = push_bit k (mask n :: 'a::len word) \<Longrightarrow> bit w i \<longleftrightarrow> k \<le> i \<and> i < k + n \<and> i < LENGTH('a)"
  by (auto simp: bit_simps)

section \<open>Lemmas on memory\<close>

lemma length_mem_read [simp]: "length (mem_read m a n) = n"
  by (simp add: mem_read_def)

lemma mem_read_0 [simp]: "mem_read m a 0 = []"
  by (simp add: mem_read_def)

lemma nth_mem_read [simp]: "i < n \<Longrightarrow> mem_read m a n ! i = m (a + of_nat i)"
  by (simp add: mem_read_def)

lemma mem_read_append:
  "mem_read m a (j + k) = mem_read m a j @ mem_read m (a + of_nat j) k"
  by (rule nth_equalityI) (auto simp: nth_append add.assoc simp flip: of_nat_add)

lemma mem_read_Suc: "mem_read m a (Suc n) = m a # mem_read m (a + 1) n"
  using mem_read_append [of m a 1 n] by (simp add: mem_read_def)

lemma mem_read_cong: "(\<And>i. i < n \<Longrightarrow> m (a + of_nat i) = m' (a + of_nat i)) \<Longrightarrow> mem_read m a n = mem_read m' a n"
  by (simp add: mem_read_def)

lemma mem_write_apply:
  "length bs \<le> 2 ^ 32 \<Longrightarrow>
   mem_write m a bs x = (if unat (x - a) < length bs then bs ! unat (x - a) else m x)"
proof (induction bs arbitrary: m a)
  case Nil
  then show ?case by simp
next
  case (Cons b bs)
  show ?case
  proof (cases "x = a")
    case True
    with Cons show ?thesis by (simp add: unsigned_minus_1_eq_mask mask_eq_exp_minus_1)
  next
    case False
    then have "unat (x - a) \<noteq> 0" by (simp add: unat_eq_0)
    then have "unat (x - a) = Suc (unat (x - (a + 1)))"
      using unat_sub_le [of 1 "x - a"] by (simp add: diff_diff_eq)
    with False Cons show ?thesis by simp
  qed
qed

lemma mem_write_append:
  "mem_write m a (xs @ ys) = mem_write (mem_write m a xs) (a + of_nat (length xs)) ys"
  by (induction xs arbitrary: m a) (simp_all add: add.assoc)

lemma mem_read_write_same [mem_simps]:
  assumes "length bs \<le> 2 ^ 32"
  shows "mem_read (mem_write m a bs) a (length bs) = bs"
proof (rule nth_equalityI)
  fix i
  assume "i < length (mem_read (mem_write m a bs) a (length bs))"
  then have "i < length bs" by simp
  with assms show "mem_read (mem_write m a bs) a (length bs) ! i = bs ! i"
    by (simp add: mem_write_apply unat_of_nat_u32)
qed simp

lemma mem_read_write_disjoint [mem_simps]:
  assumes "length bs \<le> 2 ^ 32" and "\<And>i. i < n \<Longrightarrow> length bs \<le> unat (b + of_nat i - a)"
  shows "mem_read (mem_write m a bs) b n = mem_read m b n"
proof (rule mem_read_cong)
  fix i
  assume "i < n"
  from assms(2) [OF this] assms(1) show "mem_write m a bs (b + of_nat i) = m (b + of_nat i)"
    by (simp add: mem_write_apply)
qed

lemma mem_read_write_apart:
  assumes "unat b + n \<le> unat a \<and> unat a + length bs \<le> 2 ^ 32 \<or> unat a + length bs \<le> unat b \<and> unat b + n \<le> 2 ^ 32"
  shows "mem_read (mem_write m a bs) b n = mem_read m b n"
proof (rule mem_read_write_disjoint)
  show "length bs \<le> 2 ^ 32" using assms by auto
  fix i assume i: "i < n"
  then have b: "unat (b + of_nat i) = unat b + i"
    using assms by (subst unat_add_no_wrap_u32) (auto simp: unat_of_nat_u32)
  show "length bs \<le> unat (b + of_nat i - a)"
  proof (cases "unat a \<le> unat b + i")
    case True
    with assms i b show ?thesis by (auto simp: unat_sub_le)
  next
    case False
    have "unat (b + of_nat i - a) = 2 ^ 32 - unat (a - (b + of_nat i))"
      by (rule unat_sub_neg) (use False b in simp)
    moreover have "unat (a - (b + of_nat i)) \<le> unat a" using False b by (simp add: unat_sub_le)
    ultimately show ?thesis using assms i False by auto
  qed
qed

text \<open>A byte string as a number, least significant byte first, and back.\<close>

primrec le_val :: "u8 list \<Rightarrow> 'a::len word" where
  "le_val [] = 0"
| "le_val (b # bs) = ucast b OR push_bit 8 (le_val bs)"

definition le_bytes :: "nat \<Rightarrow> 'a::len word \<Rightarrow> u8 list" where
  "le_bytes n v = map (\<lambda>i. ucast (drop_bit (8 * i) v)) [0..<n]"

lemma length_le_bytes [simp]: "length (le_bytes n v) = n"
  by (simp add: le_bytes_def)

lemma bit_le_val:
  "bit (le_val bs :: 'a::len word) i \<longleftrightarrow>
     i < LENGTH('a) \<and> i div 8 < length bs \<and> bit (bs ! (i div 8)) (i mod 8)"
proof (induction bs arbitrary: i)
  case Nil
  then show ?case by simp
next
  case (Cons b bs)
  show ?case
  proof (cases "i < 8")
    case True
    then show ?thesis by (auto simp: bit_simps)
  next
    case False
    then obtain j where j: "i = j + 8" by (metis add.commute le_Suc_ex not_less)
    have "bit b (j + 8) = False"
      using bit_imp_le_length [of b "j + 8"] by auto
    moreover have "(j + 8) div 8 = Suc (j div 8)" by simp
    ultimately show ?thesis using j by (auto simp: bit_simps Cons.IH)
  qed
qed

lemma le_val_append:
  "le_val (xs @ ys) = (le_val xs OR push_bit (8 * length xs) (le_val ys) :: 'a::len word)"
proof (rule bit_word_eqI)
  fix n
  assume "n < LENGTH('a)"
  show "bit (le_val (xs @ ys) :: 'a word) n =
    bit (le_val xs OR push_bit (8 * length xs) (le_val ys) :: 'a word) n"
  proof (cases "n < 8 * length xs")
    case True
    then have "n div 8 < length xs" by (simp add: div_less_iff_less_mult)
    with True show ?thesis by (auto simp: bit_le_val bit_simps nth_append)
  next
    case False
    then obtain k where k: "n = 8 * length xs + k" by (metis le_Suc_ex not_less)
    then have "n div 8 = length xs + k div 8" "n mod 8 = k mod 8" by simp_all
    with k show ?thesis by (auto simp: bit_le_val bit_simps nth_append)
  qed
qed

lemma ucast_le_val:
  assumes "8 * length xs \<le> LENGTH('a::len)"
  shows "ucast (le_val xs :: 'a word) = (le_val xs :: 'b::len word)"
proof (rule bit_word_eqI)
  fix n
  have "n < LENGTH('a)" if "n div 8 < length xs"
    using assms that by (simp add: div_less_iff_less_mult)
  then show "bit (ucast (le_val xs :: 'a word) :: 'b word) n = bit (le_val xs :: 'b word) n" if "n < LENGTH('b)"
    using that by (auto simp: bit_le_val bit_simps)
qed

lemma le_val_le_bytes: "le_val (le_bytes n v) = (take_bit (8 * n) v :: 'a::len word)"
  by (rule bit_word_eqI)
     (auto simp: bit_le_val bit_simps le_bytes_def div_less_iff_less_mult)

lemma le_bytes_append:
  "le_bytes (j + k) v = le_bytes j v @ le_bytes k (drop_bit (8 * j) v)"
  by (rule nth_equalityI) (auto simp: le_bytes_def nth_append drop_bit_drop_bit algebra_simps)

lemma le_bytes_le_val:
  assumes "length bs = n" and "8 * n \<le> LENGTH('a)"
  shows "le_bytes n (le_val bs :: 'a::len word) = bs"
proof (rule nth_equalityI)
  fix i assume i: "i < length (le_bytes n (le_val bs :: 'a word))"
  then have "i < n" by simp
  show "le_bytes n (le_val bs :: 'a word) ! i = bs ! i"
  proof (rule bit_word_eqI)
    fix k assume "k < LENGTH(8)"
    then have "k < 8" by simp
    moreover from \<open>i < n\<close> \<open>k < 8\<close> have "8 * i + k < 8 * n" by simp
    ultimately show "bit (le_bytes n (le_val bs :: 'a word) ! i) k = bit (bs ! i) k"
      using assms \<open>i < n\<close> by (auto simp: le_bytes_def bit_simps bit_le_val)
  qed
qed (simp add: assms(1))

section \<open>Bits of a byte\<close>

lemma bit_255: "bit (0xFF :: int) n \<longleftrightarrow> n < 8"
proof -
  have "(0xFF :: int) = mask 8" by (simp add: mask_eq_exp_minus_1)
  then show ?thesis by (simp only: bit_mask_iff possible_bit_int) simp
qed

lemma bit_byte_len: "bit (c :: u8) n \<Longrightarrow> n < 8"
  using bit_imp_le_length [of c n] by simp

end
