(* ===== verification/Byteorder.thy ===== *)
theory Byteorder
  imports Prelude
begin

unbundle bit_operations_syntax

text \<open>
  The byte order helpers of \<^verbatim>\<open>include/sys/byteorder.h\<close>: the swap macros, the \<open>sys_put_*\<close> and
  \<open>sys_get_*\<close> accessors for 16, 24, 32, 48 and 64 bit values in both byte orders, and the two
  routines that reverse memory.  Each accessor is shown to store or load the byte string it
  documents; the locale \<open>codec\<close> states the contract that the buffer operations rely on, and it is
  interpreted on all ten accessor pairs.
\<close>

section \<open>Swap macros\<close>

definition bswap_16 :: "u16 \<Rightarrow> u16" where
  "bswap_16 x = (drop_bit 8 x AND 0xff) OR push_bit 8 (x AND 0xff)"

definition bswap_24 :: "u32 \<Rightarrow> u32" where
  "bswap_24 x = (drop_bit 16 x AND 0xff) OR (x AND 0xff00) OR push_bit 16 (x AND 0xff)"

definition bswap_32 :: "u32 \<Rightarrow> u32" where
  "bswap_32 x = (drop_bit 24 x AND 0xff) OR (drop_bit 8 x AND 0xff00)
     OR push_bit 8 (x AND 0xff00) OR push_bit 24 (x AND 0xff)"

definition bswap_48 :: "u64 \<Rightarrow> u64" where
  "bswap_48 x = (drop_bit 40 x AND 0xff) OR (drop_bit 24 x AND 0xff00)
     OR (drop_bit 8 x AND 0xff0000) OR push_bit 8 (x AND 0xff0000)
     OR push_bit 24 (x AND 0xff00) OR push_bit 40 (x AND 0xff)"

definition bswap_64 :: "u64 \<Rightarrow> u64" where
  "bswap_64 x = (drop_bit 56 x AND 0xff) OR (drop_bit 40 x AND 0xff00)
     OR (drop_bit 24 x AND 0xff0000) OR (drop_bit 8 x AND 0xff000000)
     OR push_bit 8 (x AND 0xff000000) OR push_bit 24 (x AND 0xff0000)
     OR push_bit 40 (x AND 0xff00) OR push_bit 56 (x AND 0xff)"

section \<open>Storing\<close>

definition sys_put_be16 :: "u16 \<Rightarrow> addr \<Rightarrow> mem \<Rightarrow> mem" where
  "sys_put_be16 val dst m = (let m = m(dst := ucast (drop_bit 8 val)) in m(dst + 1 := ucast val))"

definition sys_put_be24 :: "u32 \<Rightarrow> addr \<Rightarrow> mem \<Rightarrow> mem" where
  "sys_put_be24 val dst m =
     (let m = m(dst := ucast (drop_bit 16 val)) in sys_put_be16 (ucast val) (dst + 1) m)"

definition sys_put_be32 :: "u32 \<Rightarrow> addr \<Rightarrow> mem \<Rightarrow> mem" where
  "sys_put_be32 val dst m =
     (let m = sys_put_be16 (ucast (drop_bit 16 val)) dst m in sys_put_be16 (ucast val) (dst + 2) m)"

definition sys_put_be48 :: "u64 \<Rightarrow> addr \<Rightarrow> mem \<Rightarrow> mem" where
  "sys_put_be48 val dst m =
     (let m = sys_put_be16 (ucast (drop_bit 32 val)) dst m in sys_put_be32 (ucast val) (dst + 2) m)"

definition sys_put_be64 :: "u64 \<Rightarrow> addr \<Rightarrow> mem \<Rightarrow> mem" where
  "sys_put_be64 val dst m =
     (let m = sys_put_be32 (ucast (drop_bit 32 val)) dst m in sys_put_be32 (ucast val) (dst + 4) m)"

definition sys_put_le16 :: "u16 \<Rightarrow> addr \<Rightarrow> mem \<Rightarrow> mem" where
  "sys_put_le16 val dst m = (let m = m(dst := ucast val) in m(dst + 1 := ucast (drop_bit 8 val)))"

definition sys_put_le24 :: "u32 \<Rightarrow> addr \<Rightarrow> mem \<Rightarrow> mem" where
  "sys_put_le24 val dst m =
     (let m = sys_put_le16 (ucast val) dst m in m(dst + 2 := ucast (drop_bit 16 val)))"

definition sys_put_le32 :: "u32 \<Rightarrow> addr \<Rightarrow> mem \<Rightarrow> mem" where
  "sys_put_le32 val dst m =
     (let m = sys_put_le16 (ucast val) dst m in sys_put_le16 (ucast (drop_bit 16 val)) (dst + 2) m)"

definition sys_put_le48 :: "u64 \<Rightarrow> addr \<Rightarrow> mem \<Rightarrow> mem" where
  "sys_put_le48 val dst m =
     (let m = sys_put_le32 (ucast val) dst m in sys_put_le16 (ucast (drop_bit 32 val)) (dst + 4) m)"

definition sys_put_le64 :: "u64 \<Rightarrow> addr \<Rightarrow> mem \<Rightarrow> mem" where
  "sys_put_le64 val dst m =
     (let m = sys_put_le32 (ucast val) dst m in sys_put_le32 (ucast (drop_bit 32 val)) (dst + 4) m)"

section \<open>Loading\<close>

definition sys_get_be16 :: "addr \<Rightarrow> mem \<Rightarrow> u16" where
  "sys_get_be16 src m = push_bit 8 (ucast (m src)) OR ucast (m (src + 1))"

definition sys_get_be24 :: "addr \<Rightarrow> mem \<Rightarrow> u32" where
  "sys_get_be24 src m = push_bit 16 (ucast (m src)) OR ucast (sys_get_be16 (src + 1) m)"

definition sys_get_be32 :: "addr \<Rightarrow> mem \<Rightarrow> u32" where
  "sys_get_be32 src m = push_bit 16 (ucast (sys_get_be16 src m)) OR ucast (sys_get_be16 (src + 2) m)"

definition sys_get_be48 :: "addr \<Rightarrow> mem \<Rightarrow> u64" where
  "sys_get_be48 src m = push_bit 16 (ucast (sys_get_be32 src m)) OR ucast (sys_get_be16 (src + 4) m)"

definition sys_get_be64 :: "addr \<Rightarrow> mem \<Rightarrow> u64" where
  "sys_get_be64 src m = push_bit 32 (ucast (sys_get_be32 src m)) OR ucast (sys_get_be32 (src + 4) m)"

definition sys_get_le16 :: "addr \<Rightarrow> mem \<Rightarrow> u16" where
  "sys_get_le16 src m = push_bit 8 (ucast (m (src + 1))) OR ucast (m src)"

definition sys_get_le24 :: "addr \<Rightarrow> mem \<Rightarrow> u32" where
  "sys_get_le24 src m = push_bit 16 (ucast (m (src + 2))) OR ucast (sys_get_le16 src m)"

definition sys_get_le32 :: "addr \<Rightarrow> mem \<Rightarrow> u32" where
  "sys_get_le32 src m = push_bit 16 (ucast (sys_get_le16 (src + 2) m)) OR ucast (sys_get_le16 src m)"

definition sys_get_le48 :: "addr \<Rightarrow> mem \<Rightarrow> u64" where
  "sys_get_le48 src m = push_bit 16 (ucast (sys_get_le32 (src + 2) m)) OR ucast (sys_get_le16 src m)"

definition sys_get_le64 :: "addr \<Rightarrow> mem \<Rightarrow> u64" where
  "sys_get_le64 src m = push_bit 32 (ucast (sys_get_le32 (src + 4) m)) OR ucast (sys_get_le32 src m)"

section \<open>Reversing memory\<close>

text \<open>The copy loop of \<open>sys_memcpy_swap\<close>, and the routine with its overlap assertion.\<close>

primrec memcpy_swap_loop :: "nat \<Rightarrow> addr \<Rightarrow> addr \<Rightarrow> mem \<Rightarrow> mem" where
  "memcpy_swap_loop 0 pdst psrc m = m"
| "memcpy_swap_loop (Suc len) pdst psrc m =
     memcpy_swap_loop len (pdst + 1) (psrc - 1) (m(pdst := m psrc))"

definition sys_memcpy_swap :: "addr \<Rightarrow> addr \<Rightarrow> u32 \<Rightarrow> machine \<Rightarrow> machine" where
  "sys_memcpy_swap pdst psrc len s =
     (let s = ASSERT_NO_MSG ((psrc < pdst \<and> psrc + len \<le> pdst) \<or>
                             (psrc > pdst \<and> pdst + len \<le> psrc)) s;
          psrc = psrc + (len - 1)
      in s\<lparr>ram := memcpy_swap_loop (unat len) pdst psrc (ram s)\<rparr>)"

text \<open>One round of the loop of \<open>sys_mem_swap\<close>, and the loop from index \<open>i\<close> on.\<close>

definition swap_bytes :: "addr \<Rightarrow> addr \<Rightarrow> mem \<Rightarrow> mem" where
  "swap_bytes p q m = (let tmp = m p; m = m(p := m q) in m(q := tmp))"

function mem_swap_loop :: "nat \<Rightarrow> addr \<Rightarrow> nat \<Rightarrow> mem \<Rightarrow> mem" where
  "mem_swap_loop i buf len m =
     (if i < len div 2 then
        mem_swap_loop (Suc i) buf len (swap_bytes (buf + of_nat i) (buf + of_nat (len - 1 - i)) m)
      else m)"
  by pat_completeness auto
termination
  by (relation "measure (\<lambda>(i, buf, len, m). len div 2 - i)") auto

declare mem_swap_loop.simps [simp del]

definition sys_mem_swap :: "addr \<Rightarrow> u32 \<Rightarrow> mem \<Rightarrow> mem" where
  "sys_mem_swap buf len m = mem_swap_loop 0 buf (unat len) m"

section \<open>The accessors and the byte strings they stand for\<close>

lemma le_bytes_0 [simp]: "le_bytes 0 v = []"
  by (simp add: le_bytes_def)

lemma le_bytes_Suc: "le_bytes (Suc n) v = ucast v # le_bytes n (drop_bit 8 v)"
  using le_bytes_append [of 1 n v] by (simp add: le_bytes_def)

lemma le_bytes_ucast:
  assumes "8 * n \<le> LENGTH('b::len)" "8 * n \<le> LENGTH('a::len)"
  shows "le_bytes n (ucast (v :: 'a word) :: 'b word) = le_bytes n v"
proof (rule nth_equalityI)
  fix i
  assume "i < length (le_bytes n (ucast v :: 'b word))"
  then have i: "i < n" by simp
  show "le_bytes n (ucast v :: 'b word) ! i = le_bytes n v ! i"
  proof (rule bit_word_eqI)
    fix k
    assume "k < LENGTH(8)"
    with i assms have "8 * i + k < LENGTH('b)" by simp
    then show "bit (le_bytes n (ucast v :: 'b word) ! i) k = bit (le_bytes n v ! i) k"
      using i by (auto simp: le_bytes_def bit_simps add.commute)
  qed
qed simp

lemma rev_le_bytes_Suc: "rev (le_bytes (Suc n) v) = rev (le_bytes n (drop_bit 8 v)) @ [ucast v]"
  by (simp add: le_bytes_Suc)

lemma sys_put_le16_eq: "sys_put_le16 v a m = mem_write m a (le_bytes 2 v)"
  by (simp add: sys_put_le16_def numeral_2_eq_2 le_bytes_Suc)

lemma sys_put_be16_eq: "sys_put_be16 v a m = mem_write m a (rev (le_bytes 2 v))"
  by (simp add: sys_put_be16_def numeral_2_eq_2 le_bytes_Suc)


text \<open>A wider store writes the bytes of its two halves one after the other.\<close>

lemma sys_put_le24_eq: "sys_put_le24 v a m = mem_write m a (le_bytes 3 v)"
proof -
  have "le_bytes 3 v = le_bytes 2 v @ [ucast (drop_bit 16 v)]"
    using le_bytes_append [of 2 1 v] by (simp add: le_bytes_Suc)
  then show ?thesis
    by (simp add: sys_put_le24_def sys_put_le16_eq mem_write_append le_bytes_ucast)
qed

lemma sys_put_le32_eq: "sys_put_le32 v a m = mem_write m a (le_bytes 4 v)"
  using le_bytes_append [of 2 2 v]
  by (simp add: sys_put_le32_def sys_put_le16_eq mem_write_append le_bytes_ucast)

lemma sys_put_le48_eq: "sys_put_le48 v a m = mem_write m a (le_bytes 6 v)"
  using le_bytes_append [of 4 2 v]
  by (simp add: sys_put_le48_def sys_put_le16_eq sys_put_le32_eq mem_write_append le_bytes_ucast)

lemma sys_put_le64_eq: "sys_put_le64 v a m = mem_write m a (le_bytes 8 v)"
  using le_bytes_append [of 4 4 v]
  by (simp add: sys_put_le64_def sys_put_le32_eq mem_write_append le_bytes_ucast)

lemma sys_put_be24_eq: "sys_put_be24 v a m = mem_write m a (rev (le_bytes 3 v))"
proof -
  have "le_bytes 3 v = le_bytes 2 v @ [ucast (drop_bit 16 v)]"
    using le_bytes_append [of 2 1 v] by (simp add: le_bytes_Suc)
  then show ?thesis
    by (simp add: sys_put_be24_def sys_put_be16_eq le_bytes_ucast)
qed

lemma sys_put_be32_eq: "sys_put_be32 v a m = mem_write m a (rev (le_bytes 4 v))"
  using le_bytes_append [of 2 2 v]
  by (simp add: sys_put_be32_def sys_put_be16_eq mem_write_append le_bytes_ucast)

lemma sys_put_be48_eq: "sys_put_be48 v a m = mem_write m a (rev (le_bytes 6 v))"
  using le_bytes_append [of 4 2 v]
  by (simp add: sys_put_be48_def sys_put_be16_eq sys_put_be32_eq mem_write_append le_bytes_ucast)

lemma sys_put_be64_eq: "sys_put_be64 v a m = mem_write m a (rev (le_bytes 8 v))"
  using le_bytes_append [of 4 4 v]
  by (simp add: sys_put_be64_def sys_put_be32_eq mem_write_append le_bytes_ucast)

lemma le_val_single: "le_val [b] = ucast b"
  by simp

lemma sys_get_le16_eq: "sys_get_le16 a m = le_val (mem_read m a 2)"
  by (simp add: sys_get_le16_def numeral_2_eq_2 mem_read_Suc or.commute)

lemma sys_get_be16_eq: "sys_get_be16 a m = le_val (rev (mem_read m a 2))"
  by (simp add: sys_get_be16_def numeral_2_eq_2 mem_read_Suc or.commute)

lemma sys_get_le24_eq: "sys_get_le24 a m = le_val (mem_read m a 3)"
  using mem_read_append [of m a 2 1]
  by (simp add: sys_get_le24_def sys_get_le16_eq mem_read_Suc le_val_append ucast_le_val or.commute)

lemma sys_get_le32_eq: "sys_get_le32 a m = le_val (mem_read m a 4)"
  using mem_read_append [of m a 2 2]
  by (simp add: sys_get_le32_def sys_get_le16_eq le_val_append ucast_le_val or.commute)

lemma sys_get_le48_eq: "sys_get_le48 a m = le_val (mem_read m a 6)"
  using mem_read_append [of m a 2 4]
  by (simp add: sys_get_le48_def sys_get_le16_eq sys_get_le32_eq le_val_append ucast_le_val or.commute)

lemma sys_get_le64_eq: "sys_get_le64 a m = le_val (mem_read m a 8)"
  using mem_read_append [of m a 4 4]
  by (simp add: sys_get_le64_def sys_get_le32_eq le_val_append ucast_le_val or.commute)

lemma sys_get_be24_eq: "sys_get_be24 a m = le_val (rev (mem_read m a 3))"
proof -
  have "mem_read m a 3 = m a # mem_read m (a + 1) 2"
    using mem_read_Suc [of m a 2] by (simp add: eval_nat_numeral)
  then show ?thesis
    by (simp add: sys_get_be24_def sys_get_be16_eq le_val_append ucast_le_val or.commute)
qed

lemma sys_get_be32_eq: "sys_get_be32 a m = le_val (rev (mem_read m a 4))"
  using mem_read_append [of m a 2 2]
  by (simp add: sys_get_be32_def sys_get_be16_eq le_val_append ucast_le_val or.commute)

lemma sys_get_be48_eq: "sys_get_be48 a m = le_val (rev (mem_read m a 6))"
  using mem_read_append [of m a 4 2]
  by (simp add: sys_get_be48_def sys_get_be16_eq sys_get_be32_eq le_val_append ucast_le_val or.commute)

lemma sys_get_be64_eq: "sys_get_be64 a m = le_val (rev (mem_read m a 8))"
  using mem_read_append [of m a 4 4]
  by (simp add: sys_get_be64_def sys_get_be32_eq le_val_append ucast_le_val or.commute)

section \<open>The swap macros reverse the bytes\<close>

lemma bit_and_byte_mask:
  assumes "m = push_bit k (mask 8)"
  shows "bit (x AND m :: 'a::len word) n \<longleftrightarrow> bit x n \<and> k \<le> n \<and> n < k + 8"
  using bit_imp_le_length [of x n] unfolding assms by (auto simp: bit_simps)

lemma byte_masks:
  "bit (x AND 0xff :: 'a::len word) n \<longleftrightarrow> bit x n \<and> 0 \<le> n \<and> n < 0 + 8"
  "bit (x AND 0xff00) n \<longleftrightarrow> bit x n \<and> 8 \<le> n \<and> n < 8 + 8"
  "bit (x AND 0xff0000) n \<longleftrightarrow> bit x n \<and> 16 \<le> n \<and> n < 16 + 8"
  "bit (x AND 0xff000000) n \<longleftrightarrow> bit x n \<and> 24 \<le> n \<and> n < 24 + 8"
  by (rule bit_and_byte_mask, simp add: mask_eq_exp_minus_1 push_bit_eq_mult)+

lemmas bit_bswap_simps = bit_or_iff byte_masks bit_drop_bit_eq bit_push_bit_iff comp_def

text \<open>A macro that moves byte \<open>q\<close> of \<open>k\<close> to byte \<open>k - 1 - q\<close> reverses the byte string of its argument.\<close>

lemma byte_reversal:
  assumes len: "length bs = k" and k: "8 * k \<le> LENGTH('a::len)"
    and low: "\<And>x q r. q < k \<Longrightarrow> r < 8 \<Longrightarrow> bit (f x) (8 * q + r) = bit x (8 * (k - 1 - q) + r)"
    and high: "\<And>x n. 8 * k \<le> n \<Longrightarrow> \<not> bit (f x) n"
  shows "f (le_val bs :: 'a word) = (le_val (rev bs) :: 'a word)"
proof (rule bit_word_eqI)
  fix n
  assume "n < LENGTH('a)"
  define q r where "q = n div 8" and "r = n mod 8"
  then have n: "n = 8 * q + r" and r: "r < 8" by simp_all
  show "bit (f (le_val bs)) n = bit (le_val (rev bs) :: 'a word) n"
  proof (cases "q < k")
    case True
    moreover from this r k have "8 * (k - 1 - q) + r < LENGTH('a)" by linarith
    moreover have "(8 * (k - 1 - q) + r) div 8 = k - 1 - q" using r by simp
    moreover have "k - 1 - q = k - Suc q" by simp
    ultimately show ?thesis
      using len r k \<open>n < LENGTH('a)\<close> by (auto simp: n low bit_le_val rev_nth)
  next
    case False
    with r have "8 * k \<le> n" by (simp add: n)
    with False show ?thesis using len r by (simp add: high bit_le_val n)
  qed
qed

lemma bswap_16_rev: "length bs = 2 \<Longrightarrow> bswap_16 (le_val bs) = le_val (rev bs)"
proof (erule byte_reversal)
  fix x :: u16 and q r :: nat
  assume "q < 2" "r < 8"
  then consider "q = 0" | "q = 1" by linarith
  then show "bit (bswap_16 x) (8 * q + r) = bit x (8 * (2 - 1 - q) + r)"
    unfolding bswap_16_def bit_bswap_simps using \<open>r < 8\<close> by cases auto
qed (auto simp: bswap_16_def bit_bswap_simps simp del: push_bit_and drop_bit_and)

lemma bswap_24_rev: "length bs = 3 \<Longrightarrow> bswap_24 (le_val bs) = le_val (rev bs)"
proof (erule byte_reversal)
  fix x :: u32 and q r :: nat
  assume "q < 3" "r < 8"
  then consider "q = 0" | "q = 1" | "q = 2" by linarith
  then show "bit (bswap_24 x) (8 * q + r) = bit x (8 * (3 - 1 - q) + r)"
    unfolding bswap_24_def bit_bswap_simps using \<open>r < 8\<close> by cases auto
qed (auto simp: bswap_24_def bit_bswap_simps simp del: push_bit_and drop_bit_and)

lemma bswap_32_rev: "length bs = 4 \<Longrightarrow> bswap_32 (le_val bs) = le_val (rev bs)"
proof (erule byte_reversal)
  fix x :: u32 and q r :: nat
  assume "q < 4" "r < 8"
  then consider "q = 0" | "q = 1" | "q = 2" | "q = 3" by linarith
  then show "bit (bswap_32 x) (8 * q + r) = bit x (8 * (4 - 1 - q) + r)"
    unfolding bswap_32_def bit_bswap_simps using \<open>r < 8\<close> by cases auto
qed (auto simp: bswap_32_def bit_bswap_simps simp del: push_bit_and drop_bit_and)

lemma bswap_48_rev: "length bs = 6 \<Longrightarrow> bswap_48 (le_val bs) = le_val (rev bs)"
proof (erule byte_reversal)
  fix x :: u64 and q r :: nat
  assume "q < 6" "r < 8"
  then consider "q = 0" | "q = 1" | "q = 2" | "q = 3" | "q = 4" | "q = 5" by linarith
  then show "bit (bswap_48 x) (8 * q + r) = bit x (8 * (6 - 1 - q) + r)"
    unfolding bswap_48_def bit_bswap_simps using \<open>r < 8\<close> by cases auto
qed (auto simp: bswap_48_def bit_bswap_simps simp del: push_bit_and drop_bit_and)

lemma bswap_64_rev: "length bs = 8 \<Longrightarrow> bswap_64 (le_val bs) = le_val (rev bs)"
proof (erule byte_reversal)
  fix x :: u64 and q r :: nat
  assume "q < 8" "r < 8"
  then consider "q = 0" | "q = 1" | "q = 2" | "q = 3" | "q = 4" | "q = 5" | "q = 6" | "q = 7"
    by linarith
  then show "bit (bswap_64 x) (8 * q + r) = bit x (8 * (8 - 1 - q) + r)"
    unfolding bswap_64_def bit_bswap_simps using \<open>r < 8\<close> by cases auto
qed (auto simp: bswap_64_def bit_bswap_simps simp del: push_bit_and drop_bit_and)

section \<open>Memory reversal\<close>

lemma memcpy_swap_loop_frame:
  "n \<le> unat (x - pdst) \<Longrightarrow> n \<le> 2 ^ 32 \<Longrightarrow> memcpy_swap_loop n pdst psrc m x = m x"
proof (induction n arbitrary: pdst psrc m)
  case 0
  then show ?case by simp
next
  case (Suc n)
  then have ne: "x \<noteq> pdst" and pos: "1 \<le> unat (x - pdst)" by auto
  have "unat (x - (pdst + 1)) = unat (x - pdst) - 1"
    using unat_sub_le [of 1 "x - pdst"] pos by (simp add: diff_diff_eq)
  with Suc ne show ?case by simp
qed

lemma memcpy_swap_loop_read:
  assumes "n \<le> 2 ^ 32" and "\<And>i. i < n \<Longrightarrow> n \<le> unat (psrc - of_nat i - pdst)"
  shows "mem_read (memcpy_swap_loop n pdst psrc m) pdst n = map (\<lambda>i. m (psrc - of_nat i)) [0..<n]"
  using assms
proof (induction n arbitrary: pdst psrc m)
  case 0
  then show ?case by simp
next
  case (Suc n)
  let ?m' = "m(pdst := m psrc)"
  have frame: "memcpy_swap_loop n (pdst + 1) (psrc - 1) ?m' pdst = m psrc"
    using Suc.prems(1) memcpy_swap_loop_frame [of n pdst "pdst + 1"]
    by (simp add: unsigned_minus_1_eq_mask mask_eq_exp_minus_1)
  have far: "psrc - 1 - of_nat i \<noteq> pdst" "n \<le> unat (psrc - 1 - of_nat i - (pdst + 1))" if "i < n" for i
  proof -
    let ?o = "psrc - of_nat (Suc i) - pdst"
    have o: "Suc n \<le> unat ?o" using Suc.prems(2) [of "Suc i"] that by simp
    then have "?o \<noteq> 0" by auto
    then show "psrc - 1 - of_nat i \<noteq> pdst" by (auto simp: algebra_simps)
    have "unat (?o - 1) = unat ?o - 1" using o unat_sub_le [of 1 ?o] by simp
    moreover have "psrc - 1 - of_nat i - (pdst + 1) = ?o - 1" by (simp add: algebra_simps)
    ultimately show "n \<le> unat (psrc - 1 - of_nat i - (pdst + 1))" using o by simp
  qed
  have "mem_read (memcpy_swap_loop n (pdst + 1) (psrc - 1) ?m') (pdst + 1) n =
    map (\<lambda>i. ?m' (psrc - 1 - of_nat i)) [0..<n]"
    using Suc.prems(1) far(2) by (intro Suc.IH) simp_all
  also have "\<dots> = map (\<lambda>i. m (psrc - of_nat (Suc i))) [0..<n]"
    using far(1) by (auto simp: algebra_simps)
  finally show ?case
    by (simp add: mem_read_Suc frame map_upt_Suc del: upt_Suc)
qed

lemma mem_read_descending:
  "map (\<lambda>i. m (a + (of_nat n - 1) - of_nat i)) [0..<n] = rev (mem_read m a n)"
proof (rule nth_equalityI)
  fix i
  assume "i < length (map (\<lambda>i. m (a + (of_nat n - 1) - of_nat i)) [0..<n])"
  then have i: "i < n" by simp
  then have "of_nat (n - Suc i) = (of_nat n - 1 - of_nat i :: u32)" by (simp add: of_nat_diff)
  with i show "map (\<lambda>i. m (a + (of_nat n - 1) - of_nat i)) [0..<n] ! i = rev (mem_read m a n) ! i"
    by (simp add: rev_nth algebra_simps)
qed simp

text \<open>The swap of indices \<open>i\<close> and \<open>len - 1 - i\<close> for every \<open>i\<close> below the middle, as a map on offsets.\<close>

lemma swap_bytes_apply:
  "swap_bytes p q m x = m (if x = q then p else if x = p then q else x)"
  by (simp add: swap_bytes_def)

lemma mem_swap_loop_read:
  assumes "i \<le> n div 2" and "n < 2 ^ 32" and "j < n"
  shows "mem_swap_loop i buf n m (buf + of_nat j) =
    m (buf + of_nat (if i \<le> j \<and> j < n - i then n - 1 - j else j))"
  using assms
proof (induction i buf n m rule: mem_swap_loop.induct)
  case (1 i buf n m)
  have inj: "buf + of_nat a = buf + of_nat b \<longleftrightarrow> a = b" if "a < n" "b < n" for a b
    using that "1.prems"(2) by (simp add: of_nat_u32_inj)
  show ?case
  proof (cases "i < n div 2")
    case False
    with "1.prems"(1) have "n = 2 * i \<or> n = 2 * i + 1" by linarith
    then have "n - 1 - j = j" if "i \<le> j" "j < n - i"
      using that by auto
    with False show ?thesis by (auto simp: mem_swap_loop.simps [of i])
  next
    case True
    define k where "k = n - 1 - i"
    define l where "l = (if Suc i \<le> j \<and> j < n - Suc i then n - 1 - j else j)"
    from True "1.prems"(3) have lt: "i < n" "k < n" "l < n" by (auto simp: k_def l_def)
    have "mem_swap_loop i buf n m (buf + of_nat j) =
        mem_swap_loop (Suc i) buf n (swap_bytes (buf + of_nat i) (buf + of_nat k) m) (buf + of_nat j)"
      using True by (simp add: mem_swap_loop.simps [of i buf n m] k_def)
    also have "\<dots> = swap_bytes (buf + of_nat i) (buf + of_nat k) m (buf + of_nat l)"
      unfolding l_def k_def using "1.prems" True by (intro "1.IH") auto
    also have "\<dots> = m (buf + of_nat (if l = k then i else if l = i then k else l))"
      using inj [OF lt(3,2)] inj [OF lt(3,1)] by (simp add: swap_bytes_apply)
    also have "(if l = k then i else if l = i then k else l) =
        (if i \<le> j \<and> j < n - i then n - 1 - j else j)"
    proof (cases "Suc i \<le> j \<and> j < n - Suc i")
      case True
      then have "n - 1 - j \<noteq> n - 1 - i" "n - 1 - j \<noteq> i" "i \<le> j" "j < n - i" by linarith+
      with True show ?thesis by (simp add: k_def l_def)
    next
      case False
      have "2 * i + 2 \<le> n" using \<open>i < n div 2\<close> by linarith
      with False "1.prems"(3) consider "j = i" | "j = n - 1 - i" | "j < i" | "n - i \<le> j"
        by linarith
      then show ?thesis using False \<open>2 * i + 2 \<le> n\<close> "1.prems"(3) by cases (auto simp: k_def l_def)
    qed
    finally show ?thesis .
  qed
qed

lemma mem_swap_loop_rev:
  "n < 2 ^ 32 \<Longrightarrow> mem_read (mem_swap_loop 0 buf n m) buf n = rev (mem_read m buf n)"
  by (rule nth_equalityI) (auto simp: mem_swap_loop_read rev_nth)

lemma mem_swap_loop_frame:
  "n \<le> unat (x - buf) \<Longrightarrow> n < 2 ^ 32 \<Longrightarrow> mem_swap_loop i buf n m x = m x"
proof (induction i buf n m rule: mem_swap_loop.induct)
  case (1 i buf n m)
  have "x \<noteq> buf + of_nat k" if "k < n" for k
    using that "1.prems" by (auto simp: unat_of_nat_u32)
  then have "i < n div 2 \<Longrightarrow>
      swap_bytes (buf + of_nat i) (buf + of_nat (n - 1 - i)) m x = m x"
    by (simp add: swap_bytes_apply del: of_nat_diff)
  with 1 show ?case
    by (cases "i < n div 2") (simp_all add: mem_swap_loop.simps [of i buf n m] del: of_nat_diff)
qed

text \<open>Every source byte that \<open>memcpy_swap_loop\<close> reads lies outside the destination.\<close>

lemma descending_source_far:
  assumes "unat src + unat n \<le> unat dst \<or> unat dst + unat n \<le> unat src"
    and "unat src + unat n < 2 ^ 32" and "unat dst + unat n < 2 ^ 32" and "i < unat n"
  shows "unat n \<le> unat (src + (n - 1) - of_nat i - dst :: u32)"
proof -
  define k where "k = unat n - 1 - i"
  let ?a = "src + of_nat k"
  have "of_nat k = n - 1 - of_nat i"
    unfolding k_def using assms(4) by simp
  then have eq: "src + (n - 1) - of_nat i - dst = ?a - dst" by (simp add: algebra_simps)
  have k: "k < unat n" using assms(4) by (simp add: k_def)
  then have a: "unat ?a = unat src + k"
    using assms unat_u32_less [of n] by (simp add: unat_add_no_wrap_u32 unat_of_nat_u32)
  show ?thesis
  proof (cases "unat dst \<le> unat ?a")
    case True
    with assms a k show ?thesis by (simp add: eq unat_sub_le)
  next
    case False
    have "unat (?a - dst) = 2 ^ 32 - unat (dst - ?a)"
      using False by (intro unat_sub_neg) simp
    with False a k assms show ?thesis by (simp add: eq unat_sub_le)
  qed
qed

section \<open>The accessor contract\<close>

text \<open>
  What a client may rely on: a store of \<open>width\<close> bytes at the given address, a load that depends on
  those bytes only, and a decoder that returns what was stored up to the value's normal form
  (the low 24 or 48 bits for the widths that are narrower than their C type).
\<close>

locale codec =
  fixes width :: nat
    and put :: "'v \<Rightarrow> addr \<Rightarrow> mem \<Rightarrow> mem"
    and get :: "addr \<Rightarrow> mem \<Rightarrow> 'v"
    and enc :: "'v \<Rightarrow> u8 list"
    and dec :: "u8 list \<Rightarrow> 'v"
    and norm :: "'v \<Rightarrow> 'v"
  assumes width_le: "width \<le> 8"
    and length_enc: "length (enc v) = width"
    and put_enc: "put v a m = mem_write m a (enc v)"
    and get_dec: "get a m = dec (mem_read m a width)"
    and dec_enc: "dec (enc v) = norm v"
begin

lemma get_put: "get a (put v a m) = norm v"
proof -
  have "mem_read (mem_write m a (enc v)) a (length (enc v)) = enc v"
    using width_le by (intro mem_read_write_same) (simp add: length_enc)
  then show ?thesis by (simp add: get_dec put_enc length_enc dec_enc)
qed

lemma put_frame: "width \<le> unat (x - a) \<Longrightarrow> put v a m x = m x"
  using width_le by (simp add: put_enc mem_write_apply length_enc)

end

interpretation le16: codec 2 sys_put_le16 sys_get_le16 "le_bytes 2" le_val id
  by unfold_locales (simp_all add: sys_put_le16_eq sys_get_le16_eq le_val_le_bytes take_bit_word_eq_self)

interpretation be16: codec 2 sys_put_be16 sys_get_be16 "\<lambda>v. rev (le_bytes 2 v)" "\<lambda>bs. le_val (rev bs)" id
  by unfold_locales (simp_all add: sys_put_be16_eq sys_get_be16_eq le_val_le_bytes take_bit_word_eq_self)

interpretation le24: codec 3 sys_put_le24 sys_get_le24 "le_bytes 3" le_val "take_bit 24"
  by unfold_locales (simp_all add: sys_put_le24_eq sys_get_le24_eq le_val_le_bytes)

interpretation be24: codec 3 sys_put_be24 sys_get_be24 "\<lambda>v. rev (le_bytes 3 v)" "\<lambda>bs. le_val (rev bs)"
    "take_bit 24"
  by unfold_locales (simp_all add: sys_put_be24_eq sys_get_be24_eq le_val_le_bytes)

interpretation le32: codec 4 sys_put_le32 sys_get_le32 "le_bytes 4" le_val id
  by unfold_locales (simp_all add: sys_put_le32_eq sys_get_le32_eq le_val_le_bytes take_bit_word_eq_self)

interpretation be32: codec 4 sys_put_be32 sys_get_be32 "\<lambda>v. rev (le_bytes 4 v)" "\<lambda>bs. le_val (rev bs)" id
  by unfold_locales (simp_all add: sys_put_be32_eq sys_get_be32_eq le_val_le_bytes take_bit_word_eq_self)

interpretation le48: codec 6 sys_put_le48 sys_get_le48 "le_bytes 6" le_val "take_bit 48"
  by unfold_locales (simp_all add: sys_put_le48_eq sys_get_le48_eq le_val_le_bytes)

interpretation be48: codec 6 sys_put_be48 sys_get_be48 "\<lambda>v. rev (le_bytes 6 v)" "\<lambda>bs. le_val (rev bs)"
    "take_bit 48"
  by unfold_locales (simp_all add: sys_put_be48_eq sys_get_be48_eq le_val_le_bytes)

interpretation le64: codec 8 sys_put_le64 sys_get_le64 "le_bytes 8" le_val id
  by unfold_locales (simp_all add: sys_put_le64_eq sys_get_le64_eq le_val_le_bytes take_bit_word_eq_self)

interpretation be64: codec 8 sys_put_be64 sys_get_be64 "\<lambda>v. rev (le_bytes 8 v)" "\<lambda>bs. le_val (rev bs)" id
  by unfold_locales (simp_all add: sys_put_be64_eq sys_get_be64_eq le_val_le_bytes take_bit_word_eq_self)

section \<open>Properties\<close>

text \<open>Every pair of accessors round trips: loading at the address of a store returns the stored
  value, for 24 and 48 bit accesses its low 24 or 48 bits.\<close>

theorem sys_put_get_roundtrip:
  "sys_get_le16 a (sys_put_le16 v16 a m) = v16 \<and> sys_get_be16 a (sys_put_be16 v16 a m) = v16 \<and>
   sys_get_le24 a (sys_put_le24 v32 a m) = take_bit 24 v32 \<and>
   sys_get_be24 a (sys_put_be24 v32 a m) = take_bit 24 v32 \<and>
   sys_get_le32 a (sys_put_le32 v32 a m) = v32 \<and> sys_get_be32 a (sys_put_be32 v32 a m) = v32 \<and>
   sys_get_le48 a (sys_put_le48 v64 a m) = take_bit 48 v64 \<and>
   sys_get_be48 a (sys_put_be48 v64 a m) = take_bit 48 v64 \<and>
   sys_get_le64 a (sys_put_le64 v64 a m) = v64 \<and> sys_get_be64 a (sys_put_be64 v64 a m) = v64"
  by (simp add: le16.get_put be16.get_put le24.get_put be24.get_put le32.get_put be32.get_put
      le48.get_put be48.get_put le64.get_put be64.get_put)

text \<open>\<open>sys_mem_swap\<close> reverses the buffer in place and touches nothing outside it.\<close>

theorem sys_mem_swap_reverses:
  "mem_read (sys_mem_swap buf n m) buf (unat n) = rev (mem_read m buf (unat n)) \<and>
   (\<forall>x. unat n \<le> unat (x - buf) \<longrightarrow> sys_mem_swap buf n m x = m x)"
  using unat_u32_less [of n] by (simp add: sys_mem_swap_def mem_swap_loop_rev mem_swap_loop_frame)

theorem sys_mem_swap_reverses_witness:
  "mem_read (sys_mem_swap 8 3 ucast) 8 3 = [10, 9, 8] \<and> sys_mem_swap 8 3 ucast 20 = 20"
  using sys_mem_swap_reverses [of 8 3 ucast] by (simp add: mem_read_def upt_rec)

text \<open>\<open>sys_memcpy_swap\<close> copies the source in reverse order into a destination that does not
  overlap it, leaves everything outside the destination alone, and reports no failed assertion.\<close>

theorem sys_memcpy_swap_reverses:
  assumes "unat src + unat n \<le> unat dst \<or> unat dst + unat n \<le> unat src"
    and "unat src + unat n < 2 ^ 32" and "unat dst + unat n < 2 ^ 32" and "n \<noteq> 0"
  shows "mem_read (ram (sys_memcpy_swap dst src n s)) dst (unat n) = rev (mem_read (ram s) src (unat n))
    \<and> (\<forall>x. unat n \<le> unat (x - dst) \<longrightarrow> ram (sys_memcpy_swap dst src n s) x = ram s x)
    \<and> asserts (sys_memcpy_swap dst src n s) = asserts s"
proof -
  have ok: "(src < dst \<and> src + n \<le> dst) \<or> (src > dst \<and> dst + n \<le> src)"
    using assms unat_gt_0 [of n] by (auto simp: word_less_nat_alt word_le_nat_alt unat_add_no_wrap_u32)
  have "unat n \<le> unat (src + (n - 1) - of_nat i - dst)" if "i < unat n" for i
    by (rule descending_source_far) (use assms that in auto)
  then have "mem_read (memcpy_swap_loop (unat n) dst (src + (n - 1)) (ram s)) dst (unat n) =
      rev (mem_read (ram s) src (unat n))"
    using mem_read_descending [of "ram s" src "unat n"] unat_u32_less [of n]
    by (simp add: memcpy_swap_loop_read)
  with ok unat_u32_less [of n] show ?thesis
    by (simp add: sys_memcpy_swap_def ASSERT_NO_MSG_def memcpy_swap_loop_frame)
qed

theorem sys_memcpy_swap_reverses_witness:
  "mem_read (ram (sys_memcpy_swap 16 4 3 \<lparr>ram = ucast, assert_on = True, asserts = 0\<rparr>)) 16 3 = [6, 5, 4]
   \<and> asserts (sys_memcpy_swap 16 4 3 \<lparr>ram = ucast, assert_on = True, asserts = 0\<rparr>) = 0"
  using sys_memcpy_swap_reverses [of 4 3 16 "\<lparr>ram = ucast, assert_on = True, asserts = 0\<rparr>"]
  by (simp add: mem_read_def upt_rec)

end
