(* ===== verification/Buf.thy ===== *)
theory Buf
  imports Byteorder
begin

unbundle bit_operations_syntax

text \<open>
  The simple network buffer of \<^verbatim>\<open>subsys/buf/buf.c\<close> and \<^verbatim>\<open>include/buf/buf.h\<close>.  A buffer descriptor
  points into its storage: \<open>__buf\<close> is the start of the storage, \<open>size\<close> its length, \<open>data\<close> the start
  of the payload and \<open>len\<close> its length.  \<open>add\<close>/\<open>remove\<close> work at the tail, \<open>push\<close>/\<open>pull\<close> at the head.

  Operations take the descriptor and the machine and return both updated.  Arithmetic has the
  widths of the code: \<open>len\<close> and \<open>size\<close> are \<open>uint16_t\<close>, room computations are \<open>size_t\<close>, and an
  assignment to \<open>len\<close> truncates.  The locale \<open>buf_field\<close> proves the behaviour of the typed
  operations once, and it is interpreted for the ten widths and byte orders.
\<close>

section \<open>Descriptor\<close>

record buf_simple =
  bs_data :: addr
  bs_len :: u16
  bs_size :: u16
  bs_buf :: addr

record buf_simple_state =
  st_offset :: u16
  st_len :: u16

text \<open>\<open>BUF_SIMPLE_DEFINE\<close>: an empty buffer on the given storage.\<close>

definition BUF_SIMPLE_DEFINE :: "addr \<Rightarrow> u16 \<Rightarrow> buf_simple" where
  "BUF_SIMPLE_DEFINE storage sz = \<lparr>bs_data = storage, bs_len = 0, bs_size = sz, bs_buf = storage\<rparr>"

text \<open>\<open>sizeof(struct buf_simple)\<close>, and \<open>BUF_SIMPLE\<close>: a descriptor at \<open>self\<close> with its storage behind it.\<close>

definition sizeof_buf_simple :: u32 where
  "sizeof_buf_simple = 12"

definition BUF_SIMPLE :: "u16 \<Rightarrow> buf_simple" where
  "BUF_SIMPLE sz = \<lparr>bs_data = NULL, bs_len = 0, bs_size = sz, bs_buf = NULL\<rparr>"

definition buf_simple_init :: "addr \<Rightarrow> buf_simple \<Rightarrow> u32 \<Rightarrow> buf_simple" where
  "buf_simple_init self b reserve_head =
     (let b = (if bs_buf b = NULL then b\<lparr>bs_buf := self + sizeof_buf_simple\<rparr> else b)
      in b\<lparr>bs_data := bs_buf b + reserve_head, bs_len := 0\<rparr>)"

definition buf_simple_init_with_data :: "buf_simple \<Rightarrow> addr \<Rightarrow> u32 \<Rightarrow> buf_simple" where
  "buf_simple_init_with_data b dat sz =
     b\<lparr>bs_buf := dat, bs_data := dat, bs_size := ucast sz, bs_len := ucast sz\<rparr>"

definition buf_simple_reset :: "buf_simple \<Rightarrow> buf_simple" where
  "buf_simple_reset b = b\<lparr>bs_len := 0, bs_data := bs_buf b\<rparr>"

definition buf_simple_clone :: "buf_simple \<Rightarrow> buf_simple \<Rightarrow> buf_simple" where
  "buf_simple_clone original clone = original"

definition buf_simple_tail :: "buf_simple \<Rightarrow> addr" where
  "buf_simple_tail b = bs_data b + ucast (bs_len b)"

definition buf_simple_headroom :: "buf_simple \<Rightarrow> u32" where
  "buf_simple_headroom b = bs_data b - bs_buf b"

definition buf_simple_tailroom :: "buf_simple \<Rightarrow> u32" where
  "buf_simple_tailroom b = ucast (bs_size b) - buf_simple_headroom b - ucast (bs_len b)"

definition buf_simple_max_len :: "buf_simple \<Rightarrow> u16" where
  "buf_simple_max_len b = ucast (ucast (bs_size b) - buf_simple_headroom b)"

definition buf_simple_save :: "buf_simple \<Rightarrow> buf_simple_state" where
  "buf_simple_save b = \<lparr>st_offset = ucast (buf_simple_headroom b), st_len = bs_len b\<rparr>"

definition buf_simple_restore :: "buf_simple \<Rightarrow> buf_simple_state \<Rightarrow> buf_simple" where
  "buf_simple_restore b st = b\<lparr>bs_data := bs_buf b + ucast (st_offset st), bs_len := st_len st\<rparr>"

section \<open>Memory access\<close>

text \<open>\<open>memcpy\<close>, and the little-endian load behind \<open>UNALIGNED_GET\<close>.\<close>

definition memcpy :: "addr \<Rightarrow> addr \<Rightarrow> u32 \<Rightarrow> mem \<Rightarrow> mem" where
  "memcpy dst src n m = mem_write m dst (mem_read m src (unat n))"

definition UNALIGNED_GET :: "nat \<Rightarrow> addr \<Rightarrow> mem \<Rightarrow> 'a::len word" where
  "UNALIGNED_GET width p m = le_val (mem_read m p width)"

section \<open>Adding at the tail\<close>

definition buf_simple_add :: "buf_simple \<Rightarrow> u32 \<Rightarrow> machine \<Rightarrow> addr \<times> buf_simple \<times> machine" where
  "buf_simple_add b n s =
     (let tail = buf_simple_tail b;
          s = ASSERT_NO_MSG (buf_simple_tailroom b \<ge> n) s;
          b = b\<lparr>bs_len := ucast (ucast (bs_len b) + n)\<rparr>
      in (tail, b, s))"

definition buf_simple_add_mem :: "buf_simple \<Rightarrow> addr \<Rightarrow> u32 \<Rightarrow> machine \<Rightarrow> addr \<times> buf_simple \<times> machine" where
  "buf_simple_add_mem b src n s =
     (let (p, b, s) = buf_simple_add b n s in (p, b, s\<lparr>ram := memcpy p src n (ram s)\<rparr>))"

definition buf_simple_add_u8 :: "buf_simple \<Rightarrow> u8 \<Rightarrow> machine \<Rightarrow> addr \<times> buf_simple \<times> machine" where
  "buf_simple_add_u8 b val s =
     (let (p, b, s) = buf_simple_add b 1 s in (p, b, s\<lparr>ram := (ram s)(p := val)\<rparr>))"

definition buf_simple_add_le16 :: "buf_simple \<Rightarrow> u16 \<Rightarrow> machine \<Rightarrow> buf_simple \<times> machine" where
  "buf_simple_add_le16 b val s =
     (let (p, b, s) = buf_simple_add b 2 s in (b, s\<lparr>ram := sys_put_le16 val p (ram s)\<rparr>))"

definition buf_simple_add_be16 :: "buf_simple \<Rightarrow> u16 \<Rightarrow> machine \<Rightarrow> buf_simple \<times> machine" where
  "buf_simple_add_be16 b val s =
     (let (p, b, s) = buf_simple_add b 2 s in (b, s\<lparr>ram := sys_put_be16 val p (ram s)\<rparr>))"

definition buf_simple_add_le24 :: "buf_simple \<Rightarrow> u32 \<Rightarrow> machine \<Rightarrow> buf_simple \<times> machine" where
  "buf_simple_add_le24 b val s =
     (let (p, b, s) = buf_simple_add b 3 s in (b, s\<lparr>ram := sys_put_le24 val p (ram s)\<rparr>))"

definition buf_simple_add_be24 :: "buf_simple \<Rightarrow> u32 \<Rightarrow> machine \<Rightarrow> buf_simple \<times> machine" where
  "buf_simple_add_be24 b val s =
     (let (p, b, s) = buf_simple_add b 3 s in (b, s\<lparr>ram := sys_put_be24 val p (ram s)\<rparr>))"

definition buf_simple_add_le32 :: "buf_simple \<Rightarrow> u32 \<Rightarrow> machine \<Rightarrow> buf_simple \<times> machine" where
  "buf_simple_add_le32 b val s =
     (let (p, b, s) = buf_simple_add b 4 s in (b, s\<lparr>ram := sys_put_le32 val p (ram s)\<rparr>))"

definition buf_simple_add_be32 :: "buf_simple \<Rightarrow> u32 \<Rightarrow> machine \<Rightarrow> buf_simple \<times> machine" where
  "buf_simple_add_be32 b val s =
     (let (p, b, s) = buf_simple_add b 4 s in (b, s\<lparr>ram := sys_put_be32 val p (ram s)\<rparr>))"

definition buf_simple_add_le48 :: "buf_simple \<Rightarrow> u64 \<Rightarrow> machine \<Rightarrow> buf_simple \<times> machine" where
  "buf_simple_add_le48 b val s =
     (let (p, b, s) = buf_simple_add b 6 s in (b, s\<lparr>ram := sys_put_le48 val p (ram s)\<rparr>))"

definition buf_simple_add_be48 :: "buf_simple \<Rightarrow> u64 \<Rightarrow> machine \<Rightarrow> buf_simple \<times> machine" where
  "buf_simple_add_be48 b val s =
     (let (p, b, s) = buf_simple_add b 6 s in (b, s\<lparr>ram := sys_put_be48 val p (ram s)\<rparr>))"

definition buf_simple_add_le64 :: "buf_simple \<Rightarrow> u64 \<Rightarrow> machine \<Rightarrow> buf_simple \<times> machine" where
  "buf_simple_add_le64 b val s =
     (let (p, b, s) = buf_simple_add b 8 s in (b, s\<lparr>ram := sys_put_le64 val p (ram s)\<rparr>))"

definition buf_simple_add_be64 :: "buf_simple \<Rightarrow> u64 \<Rightarrow> machine \<Rightarrow> buf_simple \<times> machine" where
  "buf_simple_add_be64 b val s =
     (let (p, b, s) = buf_simple_add b 8 s in (b, s\<lparr>ram := sys_put_be64 val p (ram s)\<rparr>))"

section \<open>Removing at the tail\<close>

definition buf_simple_remove_mem :: "buf_simple \<Rightarrow> u32 \<Rightarrow> machine \<Rightarrow> addr \<times> buf_simple \<times> machine" where
  "buf_simple_remove_mem b n s =
     (let s = ASSERT_NO_MSG (ucast (bs_len b) \<ge> n) s;
          b = b\<lparr>bs_len := ucast (ucast (bs_len b) - n)\<rparr>
      in (bs_data b + ucast (bs_len b), b, s))"

definition buf_simple_remove_u8 :: "buf_simple \<Rightarrow> machine \<Rightarrow> u8 \<times> buf_simple \<times> machine" where
  "buf_simple_remove_u8 b s = (let (p, b, s) = buf_simple_remove_mem b 1 s in (ram s p, b, s))"

definition buf_simple_remove_le16 :: "buf_simple \<Rightarrow> machine \<Rightarrow> u16 \<times> buf_simple \<times> machine" where
  "buf_simple_remove_le16 b s =
     (let (p, b, s) = buf_simple_remove_mem b 2 s in (UNALIGNED_GET 2 p (ram s), b, s))"

definition buf_simple_remove_be16 :: "buf_simple \<Rightarrow> machine \<Rightarrow> u16 \<times> buf_simple \<times> machine" where
  "buf_simple_remove_be16 b s =
     (let (p, b, s) = buf_simple_remove_mem b 2 s in (bswap_16 (UNALIGNED_GET 2 p (ram s)), b, s))"

definition buf_simple_remove_le24 :: "buf_simple \<Rightarrow> machine \<Rightarrow> u32 \<times> buf_simple \<times> machine" where
  "buf_simple_remove_le24 b s =
     (let (p, b, s) = buf_simple_remove_mem b 3 s in (UNALIGNED_GET 3 p (ram s), b, s))"

definition buf_simple_remove_be24 :: "buf_simple \<Rightarrow> machine \<Rightarrow> u32 \<times> buf_simple \<times> machine" where
  "buf_simple_remove_be24 b s =
     (let (p, b, s) = buf_simple_remove_mem b 3 s in (bswap_24 (UNALIGNED_GET 3 p (ram s)), b, s))"

definition buf_simple_remove_le32 :: "buf_simple \<Rightarrow> machine \<Rightarrow> u32 \<times> buf_simple \<times> machine" where
  "buf_simple_remove_le32 b s =
     (let (p, b, s) = buf_simple_remove_mem b 4 s in (UNALIGNED_GET 4 p (ram s), b, s))"

definition buf_simple_remove_be32 :: "buf_simple \<Rightarrow> machine \<Rightarrow> u32 \<times> buf_simple \<times> machine" where
  "buf_simple_remove_be32 b s =
     (let (p, b, s) = buf_simple_remove_mem b 4 s in (bswap_32 (UNALIGNED_GET 4 p (ram s)), b, s))"

definition buf_simple_remove_le48 :: "buf_simple \<Rightarrow> machine \<Rightarrow> u64 \<times> buf_simple \<times> machine" where
  "buf_simple_remove_le48 b s =
     (let (p, b, s) = buf_simple_remove_mem b 6 s in (UNALIGNED_GET 6 p (ram s), b, s))"

definition buf_simple_remove_be48 :: "buf_simple \<Rightarrow> machine \<Rightarrow> u64 \<times> buf_simple \<times> machine" where
  "buf_simple_remove_be48 b s =
     (let (p, b, s) = buf_simple_remove_mem b 6 s in (bswap_48 (UNALIGNED_GET 6 p (ram s)), b, s))"

definition buf_simple_remove_le64 :: "buf_simple \<Rightarrow> machine \<Rightarrow> u64 \<times> buf_simple \<times> machine" where
  "buf_simple_remove_le64 b s =
     (let (p, b, s) = buf_simple_remove_mem b 8 s in (UNALIGNED_GET 8 p (ram s), b, s))"

definition buf_simple_remove_be64 :: "buf_simple \<Rightarrow> machine \<Rightarrow> u64 \<times> buf_simple \<times> machine" where
  "buf_simple_remove_be64 b s =
     (let (p, b, s) = buf_simple_remove_mem b 8 s in (bswap_64 (UNALIGNED_GET 8 p (ram s)), b, s))"

section \<open>Pushing at the head\<close>

definition buf_simple_push :: "buf_simple \<Rightarrow> u32 \<Rightarrow> machine \<Rightarrow> addr \<times> buf_simple \<times> machine" where
  "buf_simple_push b n s =
     (let s = ASSERT_NO_MSG (buf_simple_headroom b \<ge> n) s;
          b = b\<lparr>bs_data := bs_data b - n, bs_len := ucast (ucast (bs_len b) + n)\<rparr>
      in (bs_data b, b, s))"

definition buf_simple_push_mem :: "buf_simple \<Rightarrow> addr \<Rightarrow> u32 \<Rightarrow> machine \<Rightarrow> addr \<times> buf_simple \<times> machine" where
  "buf_simple_push_mem b src n s =
     (let (p, b, s) = buf_simple_push b n s in (p, b, s\<lparr>ram := memcpy p src n (ram s)\<rparr>))"

definition buf_simple_push_u8 :: "buf_simple \<Rightarrow> u8 \<Rightarrow> machine \<Rightarrow> buf_simple \<times> machine" where
  "buf_simple_push_u8 b val s =
     (let (p, b, s) = buf_simple_push b 1 s in (b, s\<lparr>ram := (ram s)(p := val)\<rparr>))"

definition buf_simple_push_le16 :: "buf_simple \<Rightarrow> u16 \<Rightarrow> machine \<Rightarrow> buf_simple \<times> machine" where
  "buf_simple_push_le16 b val s =
     (let (p, b, s) = buf_simple_push b 2 s in (b, s\<lparr>ram := sys_put_le16 val p (ram s)\<rparr>))"

definition buf_simple_push_be16 :: "buf_simple \<Rightarrow> u16 \<Rightarrow> machine \<Rightarrow> buf_simple \<times> machine" where
  "buf_simple_push_be16 b val s =
     (let (p, b, s) = buf_simple_push b 2 s in (b, s\<lparr>ram := sys_put_be16 val p (ram s)\<rparr>))"

definition buf_simple_push_le24 :: "buf_simple \<Rightarrow> u32 \<Rightarrow> machine \<Rightarrow> buf_simple \<times> machine" where
  "buf_simple_push_le24 b val s =
     (let (p, b, s) = buf_simple_push b 3 s in (b, s\<lparr>ram := sys_put_le24 val p (ram s)\<rparr>))"

definition buf_simple_push_be24 :: "buf_simple \<Rightarrow> u32 \<Rightarrow> machine \<Rightarrow> buf_simple \<times> machine" where
  "buf_simple_push_be24 b val s =
     (let (p, b, s) = buf_simple_push b 3 s in (b, s\<lparr>ram := sys_put_be24 val p (ram s)\<rparr>))"

definition buf_simple_push_le32 :: "buf_simple \<Rightarrow> u32 \<Rightarrow> machine \<Rightarrow> buf_simple \<times> machine" where
  "buf_simple_push_le32 b val s =
     (let (p, b, s) = buf_simple_push b 4 s in (b, s\<lparr>ram := sys_put_le32 val p (ram s)\<rparr>))"

definition buf_simple_push_be32 :: "buf_simple \<Rightarrow> u32 \<Rightarrow> machine \<Rightarrow> buf_simple \<times> machine" where
  "buf_simple_push_be32 b val s =
     (let (p, b, s) = buf_simple_push b 4 s in (b, s\<lparr>ram := sys_put_be32 val p (ram s)\<rparr>))"

definition buf_simple_push_le48 :: "buf_simple \<Rightarrow> u64 \<Rightarrow> machine \<Rightarrow> buf_simple \<times> machine" where
  "buf_simple_push_le48 b val s =
     (let (p, b, s) = buf_simple_push b 6 s in (b, s\<lparr>ram := sys_put_le48 val p (ram s)\<rparr>))"

definition buf_simple_push_be48 :: "buf_simple \<Rightarrow> u64 \<Rightarrow> machine \<Rightarrow> buf_simple \<times> machine" where
  "buf_simple_push_be48 b val s =
     (let (p, b, s) = buf_simple_push b 6 s in (b, s\<lparr>ram := sys_put_be48 val p (ram s)\<rparr>))"

definition buf_simple_push_le64 :: "buf_simple \<Rightarrow> u64 \<Rightarrow> machine \<Rightarrow> buf_simple \<times> machine" where
  "buf_simple_push_le64 b val s =
     (let (p, b, s) = buf_simple_push b 8 s in (b, s\<lparr>ram := sys_put_le64 val p (ram s)\<rparr>))"

definition buf_simple_push_be64 :: "buf_simple \<Rightarrow> u64 \<Rightarrow> machine \<Rightarrow> buf_simple \<times> machine" where
  "buf_simple_push_be64 b val s =
     (let (p, b, s) = buf_simple_push b 8 s in (b, s\<lparr>ram := sys_put_be64 val p (ram s)\<rparr>))"

section \<open>Pulling from the head\<close>

definition buf_simple_pull :: "buf_simple \<Rightarrow> u32 \<Rightarrow> machine \<Rightarrow> addr \<times> buf_simple \<times> machine" where
  "buf_simple_pull b n s =
     (let s = ASSERT_NO_MSG (ucast (bs_len b) \<ge> n) s;
          b = b\<lparr>bs_len := ucast (ucast (bs_len b) - n), bs_data := bs_data b + n\<rparr>
      in (bs_data b, b, s))"

definition buf_simple_pull_mem :: "buf_simple \<Rightarrow> u32 \<Rightarrow> machine \<Rightarrow> addr \<times> buf_simple \<times> machine" where
  "buf_simple_pull_mem b n s =
     (let dat = bs_data b;
          s = ASSERT_NO_MSG (ucast (bs_len b) \<ge> n) s;
          b = b\<lparr>bs_len := ucast (ucast (bs_len b) - n)\<rparr>;
          b = b\<lparr>bs_data := bs_data b + n\<rparr>
      in (dat, b, s))"

definition buf_simple_pull_u8 :: "buf_simple \<Rightarrow> machine \<Rightarrow> u8 \<times> buf_simple \<times> machine" where
  "buf_simple_pull_u8 b s =
     (let val = ram s (bs_data b); (p, b, s) = buf_simple_pull b 1 s in (val, b, s))"

definition buf_simple_pull_le16 :: "buf_simple \<Rightarrow> machine \<Rightarrow> u16 \<times> buf_simple \<times> machine" where
  "buf_simple_pull_le16 b s =
     (let val = UNALIGNED_GET 2 (bs_data b) (ram s); (p, b, s) = buf_simple_pull b 2 s in (val, b, s))"

definition buf_simple_pull_be16 :: "buf_simple \<Rightarrow> machine \<Rightarrow> u16 \<times> buf_simple \<times> machine" where
  "buf_simple_pull_be16 b s =
     (let val = UNALIGNED_GET 2 (bs_data b) (ram s); (p, b, s) = buf_simple_pull b 2 s in (bswap_16 val, b, s))"

definition buf_simple_pull_le24 :: "buf_simple \<Rightarrow> machine \<Rightarrow> u32 \<times> buf_simple \<times> machine" where
  "buf_simple_pull_le24 b s =
     (let val = UNALIGNED_GET 3 (bs_data b) (ram s); (p, b, s) = buf_simple_pull b 3 s in (val, b, s))"

definition buf_simple_pull_be24 :: "buf_simple \<Rightarrow> machine \<Rightarrow> u32 \<times> buf_simple \<times> machine" where
  "buf_simple_pull_be24 b s =
     (let val = UNALIGNED_GET 3 (bs_data b) (ram s); (p, b, s) = buf_simple_pull b 3 s in (bswap_24 val, b, s))"

definition buf_simple_pull_le32 :: "buf_simple \<Rightarrow> machine \<Rightarrow> u32 \<times> buf_simple \<times> machine" where
  "buf_simple_pull_le32 b s =
     (let val = UNALIGNED_GET 4 (bs_data b) (ram s); (p, b, s) = buf_simple_pull b 4 s in (val, b, s))"

definition buf_simple_pull_be32 :: "buf_simple \<Rightarrow> machine \<Rightarrow> u32 \<times> buf_simple \<times> machine" where
  "buf_simple_pull_be32 b s =
     (let val = UNALIGNED_GET 4 (bs_data b) (ram s); (p, b, s) = buf_simple_pull b 4 s in (bswap_32 val, b, s))"

definition buf_simple_pull_le48 :: "buf_simple \<Rightarrow> machine \<Rightarrow> u64 \<times> buf_simple \<times> machine" where
  "buf_simple_pull_le48 b s =
     (let val = UNALIGNED_GET 6 (bs_data b) (ram s); (p, b, s) = buf_simple_pull b 6 s in (val, b, s))"

definition buf_simple_pull_be48 :: "buf_simple \<Rightarrow> machine \<Rightarrow> u64 \<times> buf_simple \<times> machine" where
  "buf_simple_pull_be48 b s =
     (let val = UNALIGNED_GET 6 (bs_data b) (ram s); (p, b, s) = buf_simple_pull b 6 s in (bswap_48 val, b, s))"

definition buf_simple_pull_le64 :: "buf_simple \<Rightarrow> machine \<Rightarrow> u64 \<times> buf_simple \<times> machine" where
  "buf_simple_pull_le64 b s =
     (let val = UNALIGNED_GET 8 (bs_data b) (ram s); (p, b, s) = buf_simple_pull b 8 s in (val, b, s))"

definition buf_simple_pull_be64 :: "buf_simple \<Rightarrow> machine \<Rightarrow> u64 \<times> buf_simple \<times> machine" where
  "buf_simple_pull_be64 b s =
     (let val = UNALIGNED_GET 8 (bs_data b) (ram s); (p, b, s) = buf_simple_pull b 8 s in (bswap_64 val, b, s))"

section \<open>Invariant and abstraction\<close>

text \<open>
  A descriptor is well formed when its payload lies inside its storage.  Its abstraction is the byte
  string of the payload; headroom and tailroom say how far it can grow.
\<close>

definition bs_wf :: "buf_simple \<Rightarrow> bool" where
  "bs_wf b \<longleftrightarrow> unat (buf_simple_headroom b) + unat (bs_len b) \<le> unat (bs_size b)"

definition bs_bytes :: "buf_simple \<Rightarrow> mem \<Rightarrow> u8 list" where
  "bs_bytes b m = mem_read m (bs_data b) (unat (bs_len b))"

text \<open>Every typed store is one of these two: reserve room, then write a byte string there.\<close>

definition add_bytes :: "buf_simple \<Rightarrow> u8 list \<Rightarrow> machine \<Rightarrow> buf_simple \<times> machine" where
  "add_bytes b bs s =
     (let (p, b, s) = buf_simple_add b (of_nat (length bs)) s
      in (b, s\<lparr>ram := mem_write (ram s) p bs\<rparr>))"

definition push_bytes :: "buf_simple \<Rightarrow> u8 list \<Rightarrow> machine \<Rightarrow> buf_simple \<times> machine" where
  "push_bytes b bs s =
     (let (p, b, s) = buf_simple_push b (of_nat (length bs)) s
      in (b, s\<lparr>ram := mem_write (ram s) p bs\<rparr>))"

section \<open>Room\<close>

lemmas buf_basic_defs = buf_simple_headroom_def buf_simple_tail_def bs_wf_def bs_bytes_def

lemma length_bs_bytes [simp]: "length (bs_bytes b m) = unat (bs_len b)"
  by (simp add: bs_bytes_def)

lemma bs_wf_bounds:
  assumes "bs_wf b"
  shows "unat (buf_simple_headroom b) < 65536" "unat (bs_len b) < 65536" "unat (bs_size b) < 65536"
  using assms unat_u16_less [of "bs_size b"] unat_u16_less [of "bs_len b"] by (simp_all add: bs_wf_def)

lemma unat_tailroom:
  assumes "bs_wf b"
  shows "unat (buf_simple_tailroom b) =
    unat (bs_size b) - unat (buf_simple_headroom b) - unat (bs_len b)"
proof -
  have h: "unat (ucast (bs_size b) - buf_simple_headroom b) = unat (bs_size b) - unat (buf_simple_headroom b)"
    using assms by (subst unat_sub_le) (simp_all add: bs_wf_def)
  have "unat (ucast (bs_len b) :: u32) \<le> unat (ucast (bs_size b) - buf_simple_headroom b)"
    using assms by (simp add: h bs_wf_def)
  then have "unat (ucast (bs_size b) - buf_simple_headroom b - ucast (bs_len b)) =
      unat (ucast (bs_size b) - buf_simple_headroom b) - unat (ucast (bs_len b) :: u32)"
    by (rule unat_sub_le)
  then show ?thesis by (simp add: buf_simple_tailroom_def h)
qed

lemma unat_ucast_u32_u16: "unat x < 65536 \<Longrightarrow> unat (ucast (x :: u32) :: u16) = unat x"
  by (simp add: unsigned_ucast_eq take_bit_nat_eq_self)

lemma len_plus:
  assumes "unat l + unat n < 65536"
  shows "unat (ucast (ucast (l :: u16) + n :: u32) :: u16) = unat l + unat n"
proof -
  have "unat (ucast l + n) = unat l + unat n"
    using assms by (subst unat_add_no_wrap_u32) simp_all
  with assms show ?thesis by (simp add: unat_ucast_u32_u16)
qed

lemma len_minus:
  assumes "unat n \<le> unat l"
  shows "unat (ucast (ucast (l :: u16) - n :: u32) :: u16) = unat l - unat n"
proof -
  have "unat (ucast l - n) = unat l - unat n"
    using assms by (subst unat_sub_le) simp_all
  with unat_u16_less [of l] show ?thesis by (simp add: unat_ucast_u32_u16)
qed

lemma assert_true [simp]: "ASSERT_NO_MSG True s = s"
  by (simp add: ASSERT_NO_MSG_def)

lemma ASSERT_holds: "P \<Longrightarrow> ASSERT_NO_MSG P s = s"
  by simp

lemma ASSERT_fields [simp]:
  "ram (ASSERT_NO_MSG P s) = ram s" "assert_on (ASSERT_NO_MSG P s) = assert_on s"
  "asserts (ASSERT_NO_MSG P s) = (if assert_on s \<and> \<not> P then Suc (asserts s) else asserts s)"
  by (simp_all add: ASSERT_NO_MSG_def assert_post_action_def assert_printf_def)

section \<open>The four primitives\<close>

lemma buf_simple_add_ok:
  assumes "bs_wf b" and "n \<le> buf_simple_tailroom b" and "buf_simple_add b n s = (p, b', s')"
  shows "p = bs_data b + ucast (bs_len b)" "s' = s" "bs_wf b'"
    "unat (bs_len b') = unat (bs_len b) + unat n"
    "bs_data b' = bs_data b" "bs_buf b' = bs_buf b" "bs_size b' = bs_size b"
proof -
  have n: "unat n \<le> unat (bs_size b) - unat (buf_simple_headroom b) - unat (bs_len b)"
    using assms(1,2) by (simp add: word_le_nat_alt unat_tailroom)
  then have len: "unat (bs_len b) + unat n < 65536"
    using assms(1) bs_wf_bounds [OF assms(1)] unfolding bs_wf_def by linarith
  from assms(2,3) show "p = bs_data b + ucast (bs_len b)" "s' = s" "bs_data b' = bs_data b"
      "bs_buf b' = bs_buf b" "bs_size b' = bs_size b"
    by (auto simp: buf_simple_add_def buf_simple_tail_def)
  from assms(3) show l: "unat (bs_len b') = unat (bs_len b) + unat n"
    using len_plus [OF len] by (auto simp: buf_simple_add_def)
  from assms(3) have "buf_simple_headroom b' = buf_simple_headroom b" "bs_size b' = bs_size b"
    by (auto simp: buf_simple_add_def buf_simple_headroom_def)
  with l n assms(1) show "bs_wf b'" by (simp add: bs_wf_def)
qed

lemma buf_simple_push_ok:
  assumes "bs_wf b" and "n \<le> buf_simple_headroom b" and "buf_simple_push b n s = (p, b', s')"
  shows "p = bs_data b - n" "s' = s" "bs_wf b'"
    "unat (bs_len b') = unat (bs_len b) + unat n"
    "bs_data b' = bs_data b - n" "bs_buf b' = bs_buf b" "bs_size b' = bs_size b"
proof -
  have n: "unat n \<le> unat (buf_simple_headroom b)"
    using assms(2) by (simp add: word_le_nat_alt)
  then have len: "unat (bs_len b) + unat n < 65536"
    using assms(1) bs_wf_bounds [OF assms(1)] unfolding bs_wf_def by linarith
  from assms(2,3) show "p = bs_data b - n" "s' = s" and d: "bs_data b' = bs_data b - n"
      and bf: "bs_buf b' = bs_buf b" and sz: "bs_size b' = bs_size b"
    by (auto simp: buf_simple_push_def)
  from assms(3) show l: "unat (bs_len b') = unat (bs_len b) + unat n"
    using len_plus [OF len] by (auto simp: buf_simple_push_def)
  have "buf_simple_headroom b' = buf_simple_headroom b - n"
    using d bf by (simp add: buf_simple_headroom_def)
  then have "unat (buf_simple_headroom b') = unat (buf_simple_headroom b) - unat n"
    using n by (simp add: unat_sub_le)
  with l n sz assms(1) show "bs_wf b'" by (simp add: bs_wf_def)
qed

lemma buf_simple_remove_mem_ok:
  assumes "bs_wf b" and "unat n \<le> unat (bs_len b)" and "buf_simple_remove_mem b n s = (p, b', s')"
  shows "p = bs_data b + of_nat (unat (bs_len b) - unat n)" "s' = s" "bs_wf b'"
    "unat (bs_len b') = unat (bs_len b) - unat n"
    "bs_data b' = bs_data b" "bs_buf b' = bs_buf b" "bs_size b' = bs_size b"
proof -
  have l: "unat (bs_len b') = unat (bs_len b) - unat n"
    using assms(2,3) by (auto simp: buf_simple_remove_mem_def len_minus)
  from assms(2,3) show "s' = s" "bs_data b' = bs_data b" "bs_buf b' = bs_buf b" "bs_size b' = bs_size b"
    by (auto simp: buf_simple_remove_mem_def word_le_nat_alt)
  from assms(3) have "p = bs_data b + ucast (bs_len b')"
    by (auto simp: buf_simple_remove_mem_def)
  also have "ucast (bs_len b') = (of_nat (unat (bs_len b) - unat n) :: u32)"
    by (simp add: l [symmetric] del: of_nat_diff)
  finally show "p = bs_data b + of_nat (unat (bs_len b) - unat n)" .
  show "unat (bs_len b') = unat (bs_len b) - unat n" by (rule l)
  from assms(3) have "buf_simple_headroom b' = buf_simple_headroom b" "bs_size b' = bs_size b"
    by (auto simp: buf_simple_remove_mem_def buf_simple_headroom_def)
  with l assms(1) show "bs_wf b'" by (simp add: bs_wf_def)
qed

lemma buf_simple_pull_ok:
  assumes "bs_wf b" and "unat n \<le> unat (bs_len b)" and "buf_simple_pull b n s = (p, b', s')"
  shows "p = bs_data b + n" "s' = s" "bs_wf b'"
    "unat (bs_len b') = unat (bs_len b) - unat n"
    "bs_data b' = bs_data b + n" "bs_buf b' = bs_buf b" "bs_size b' = bs_size b"
proof -
  from assms(2,3) show l: "unat (bs_len b') = unat (bs_len b) - unat n"
    by (auto simp: buf_simple_pull_def len_minus)
  from assms(2,3) show "p = bs_data b + n" "s' = s" and d: "bs_data b' = bs_data b + n"
      and bf: "bs_buf b' = bs_buf b" and sz: "bs_size b' = bs_size b"
    by (auto simp: buf_simple_pull_def word_le_nat_alt)
  have "buf_simple_headroom b' = buf_simple_headroom b + n"
    using d bf by (simp add: buf_simple_headroom_def)
  then have "unat (buf_simple_headroom b') = unat (buf_simple_headroom b) + unat n"
    using assms(2) bs_wf_bounds [OF assms(1)] by (simp add: unat_add_no_wrap_u32)
  with l sz assms(1,2) show "bs_wf b'" by (simp add: bs_wf_def)
qed

section \<open>Payload after each primitive\<close>

lemma mem_read_before_write:
  assumes "j + length bs < 2 ^ 32"
  shows "mem_read (mem_write m (a + of_nat j) bs) a j = mem_read m a j"
proof (rule mem_read_write_disjoint)
  fix i
  assume i: "i < j"
  have lt: "unat (of_nat i :: u32) < unat (of_nat j :: u32)"
    using i assms by (simp add: unat_of_nat_u32)
  have "unat (of_nat j - of_nat i :: u32) = j - i"
    using lt i assms by (subst unat_sub_le) (simp_all add: unat_of_nat_u32)
  then have "unat (of_nat i - of_nat j :: u32) = 2 ^ 32 - (j - i)"
    using unat_sub_neg [OF lt] by simp
  then show "length bs \<le> unat (a + of_nat i - (a + of_nat j))"
    using assms i by simp
qed (use assms in simp)

lemma mem_read_after_write:
  assumes "length bs + k < 2 ^ 32"
  shows "mem_read (mem_write m a bs) (a + of_nat (length bs)) k = mem_read m (a + of_nat (length bs)) k"
proof (rule mem_read_write_disjoint)
  fix i
  assume "i < k"
  then show "length bs \<le> unat (a + of_nat (length bs) + of_nat i - a)"
    using assms by (simp add: unat_of_nat_u32 flip: of_nat_add)
qed (use assms in simp)

lemma add_bytes_ok:
  assumes wf: "bs_wf b" and room: "length bs \<le> unat (buf_simple_tailroom b)"
    and eq: "add_bytes b bs s = (b', s')"
  shows "bs_wf b'" and "bs_bytes b' (ram s') = bs_bytes b (ram s) @ bs"
    and "asserts s' = asserts s" and "buf_simple_headroom b' = buf_simple_headroom b"
    and "bs_size b' = bs_size b" and "bs_buf b' = bs_buf b"
    and "unat (bs_len b') = unat (bs_len b) + length bs"
    and "unat (bs_size b) \<le> unat (x - bs_buf b) \<Longrightarrow> ram s' x = ram s x"
proof -
  let ?n = "of_nat (length bs) :: u32"
  let ?l = "unat (bs_len b)"
  have tr: "length bs \<le> unat (bs_size b) - unat (buf_simple_headroom b) - ?l"
    using room unat_tailroom [OF wf] by simp
  have small: "?l + length bs < 65536"
    using tr wf bs_wf_bounds [OF wf] unfolding bs_wf_def by linarith
  then have n: "unat ?n = length bs" by (simp add: unat_of_nat_u32)
  obtain p b1 s1 where add: "buf_simple_add b ?n s = (p, b1, s1)" by (metis prod_cases3)
  then have eqs: "b' = b1" "s' = s1\<lparr>ram := mem_write (ram s1) p bs\<rparr>"
    using eq by (simp_all add: add_bytes_def)
  have "?n \<le> buf_simple_tailroom b" using room n by (simp add: word_le_nat_alt)
  note ok = buf_simple_add_ok [OF wf this add]
  show "bs_wf b'" "asserts s' = asserts s" "bs_size b' = bs_size b" "bs_buf b' = bs_buf b"
      "unat (bs_len b') = ?l + length bs" "buf_simple_headroom b' = buf_simple_headroom b"
    using ok eqs n by (simp_all add: buf_simple_headroom_def)
  have p: "p = bs_data b + of_nat ?l" using ok(1) by simp
  show "bs_bytes b' (ram s') = bs_bytes b (ram s) @ bs"
    using small mem_read_before_write [of ?l bs "ram s" "bs_data b"]
    by (simp add: bs_bytes_def eqs ok(2,4,5) n p mem_read_append mem_read_write_same)
  show "ram s' x = ram s x" if far: "unat (bs_size b) \<le> unat (x - bs_buf b)"
  proof -
    let ?h = "buf_simple_headroom b + of_nat ?l"
    have h: "unat ?h = unat (buf_simple_headroom b) + ?l"
      using bs_wf_bounds [OF wf] by (subst unat_add_no_wrap_u32) simp_all
    have "x - p = (x - bs_buf b) - ?h"
      by (simp add: p buf_simple_headroom_def)
    moreover have "unat ((x - bs_buf b) - ?h) = unat (x - bs_buf b) - unat ?h"
      using far wf h by (intro unat_sub_le) (simp add: bs_wf_def)
    ultimately have "unat (x - p) = unat (x - bs_buf b) - (unat (buf_simple_headroom b) + ?l)"
      by (simp only: h)
    then have "length bs \<le> unat (x - p)" using tr far wf by (simp add: bs_wf_def)
    then show ?thesis using small by (simp add: eqs ok(2) mem_write_apply)
  qed
qed

lemma push_bytes_ok:
  assumes wf: "bs_wf b" and room: "length bs \<le> unat (buf_simple_headroom b)"
    and eq: "push_bytes b bs s = (b', s')"
  shows "bs_wf b'" and "bs_bytes b' (ram s') = bs @ bs_bytes b (ram s)"
    and "asserts s' = asserts s" and "buf_simple_tailroom b' = buf_simple_tailroom b"
    and "bs_size b' = bs_size b" and "bs_buf b' = bs_buf b"
    and "unat (bs_len b') = unat (bs_len b) + length bs"
    and "unat (bs_size b) \<le> unat (x - bs_buf b) \<Longrightarrow> ram s' x = ram s x"
proof -
  let ?n = "of_nat (length bs) :: u32"
  have n: "unat ?n = length bs"
    using room bs_wf_bounds [OF wf] by (simp add: unat_of_nat_u32)
  obtain p b1 s1 where push: "buf_simple_push b ?n s = (p, b1, s1)" by (metis prod_cases3)
  then have eqs: "b' = b1" "s' = s1\<lparr>ram := mem_write (ram s1) p bs\<rparr>"
    using eq by (simp_all add: push_bytes_def)
  have "?n \<le> buf_simple_headroom b" using room n by (simp add: word_le_nat_alt)
  note ok = buf_simple_push_ok [OF wf this push]
  show wf': "bs_wf b'" and "asserts s' = asserts s" "bs_size b' = bs_size b" "bs_buf b' = bs_buf b"
      "unat (bs_len b') = unat (bs_len b) + length bs"
    using ok eqs n by simp_all
  have len: "unat (bs_len b) + length bs < 2 ^ 32"
    using room wf bs_wf_bounds [OF wf] by (simp add: bs_wf_def)
  have "bs_bytes b' (ram s') = mem_read (mem_write (ram s) (bs_data b - ?n) bs) (bs_data b - ?n)
      (length bs + unat (bs_len b))"
    by (simp add: bs_bytes_def eqs ok(1,2,4,5) n add.commute)
  also have "\<dots> = bs @ mem_read (ram s) (bs_data b) (unat (bs_len b))"
    using len mem_read_after_write [of bs "unat (bs_len b)" "ram s" "bs_data b - ?n"]
    by (simp add: mem_read_append mem_read_write_same add.commute)
  finally show "bs_bytes b' (ram s') = bs @ bs_bytes b (ram s)" by (simp add: bs_bytes_def)
  have h: "unat (buf_simple_headroom b') = unat (buf_simple_headroom b) - length bs"
    using ok(5,6) n room by (simp add: buf_simple_headroom_def eqs unat_sub_le diff_right_commute)
  have "unat (buf_simple_tailroom b') = unat (buf_simple_tailroom b)"
    using h ok(4,7) n room wf by (simp add: unat_tailroom [OF wf' [unfolded eqs]] unat_tailroom [OF wf] eqs bs_wf_def)
  then show "buf_simple_tailroom b' = buf_simple_tailroom b" by (simp add: word_unat_eq_iff)
  show "ram s' x = ram s x" if far: "unat (bs_size b) \<le> unat (x - bs_buf b)"
  proof -
    have "x - p = (x - bs_buf b) - buf_simple_headroom b'"
      using ok(1,5,6) by (simp add: buf_simple_headroom_def eqs)
    moreover have "unat ((x - bs_buf b) - buf_simple_headroom b') =
        unat (x - bs_buf b) - unat (buf_simple_headroom b')"
      using far wf h by (intro unat_sub_le) (simp add: bs_wf_def)
    ultimately have "unat (x - p) = unat (x - bs_buf b) - unat (buf_simple_headroom b')"
      by (simp only:)
    then have "length bs \<le> unat (x - p)" using far h room wf by (simp add: bs_wf_def)
    then show ?thesis using len by (simp add: eqs ok(2) mem_write_apply)
  qed
qed

lemma remove_bytes:
  assumes "bs_wf b" and "unat n \<le> unat (bs_len b)" and "buf_simple_remove_mem b n s = (p, b', s')"
  shows "bs_bytes b m = bs_bytes b' m @ mem_read m p (unat n)"
  using buf_simple_remove_mem_ok [OF assms] assms(2)
    mem_read_append [of m "bs_data b" "unat (bs_len b) - unat n" "unat n"]
  by (simp add: bs_bytes_def del: of_nat_diff)

lemma pull_bytes:
  assumes "bs_wf b" and "unat n \<le> unat (bs_len b)" and "buf_simple_pull b n s = (p, b', s')"
  shows "bs_bytes b m = mem_read m (bs_data b) (unat n) @ bs_bytes b' m"
  using buf_simple_pull_ok [OF assms] assms(2)
    mem_read_append [of m "bs_data b" "unat n" "unat (bs_len b) - unat n"]
  by (simp add: bs_bytes_def)

section \<open>Typed access\<close>

text \<open>
  The contract of one width and byte order: the four typed operations are the primitives of that
  width combined with a codec.  The lemmas below are proved once for every instance.
\<close>

locale buf_field = codec width put get enc dec norm
  for width :: nat and put :: "'v \<Rightarrow> addr \<Rightarrow> mem \<Rightarrow> mem" and get :: "addr \<Rightarrow> mem \<Rightarrow> 'v"
    and enc :: "'v \<Rightarrow> u8 list" and dec :: "u8 list \<Rightarrow> 'v" and norm :: "'v \<Rightarrow> 'v" +
  fixes add :: "buf_simple \<Rightarrow> 'v \<Rightarrow> machine \<Rightarrow> buf_simple \<times> machine"
    and remove :: "buf_simple \<Rightarrow> machine \<Rightarrow> 'v \<times> buf_simple \<times> machine"
    and push :: "buf_simple \<Rightarrow> 'v \<Rightarrow> machine \<Rightarrow> buf_simple \<times> machine"
    and pull :: "buf_simple \<Rightarrow> machine \<Rightarrow> 'v \<times> buf_simple \<times> machine"
  assumes add_eq: "add b v s =
      (let (p, b, s) = buf_simple_add b (of_nat width) s in (b, s\<lparr>ram := put v p (ram s)\<rparr>))"
    and remove_eq: "remove b s =
      (let (p, b, s) = buf_simple_remove_mem b (of_nat width) s in (get p (ram s), b, s))"
    and push_eq: "push b v s =
      (let (p, b, s) = buf_simple_push b (of_nat width) s in (b, s\<lparr>ram := put v p (ram s)\<rparr>))"
    and pull_eq: "pull b s =
      (let val = get (bs_data b) (ram s); (p, b, s) = buf_simple_pull b (of_nat width) s in (val, b, s))"
begin

lemma unat_width [simp]: "unat (of_nat width :: u32) = width"
  using width_le by (simp add: unat_of_nat_u32)

lemma add_is_bytes: "add b v s = add_bytes b (enc v) s"
  by (simp add: add_eq add_bytes_def length_enc put_enc)

lemma push_is_bytes: "push b v s = push_bytes b (enc v) s"
  by (simp add: push_eq push_bytes_def length_enc put_enc)

lemma remove_dec:
  assumes wf: "bs_wf b" and len: "width \<le> unat (bs_len b)" and eq: "remove b s = (v, b', s')"
  shows "bs_wf b' \<and> s' = s \<and> (\<exists>xs. length xs = width \<and> bs_bytes b (ram s) = bs_bytes b' (ram s) @ xs \<and> v = dec xs)"
proof -
  obtain p b1 s1 where rm: "buf_simple_remove_mem b (of_nat width) s = (p, b1, s1)" by (metis prod_cases3)
  have len': "unat (of_nat width :: u32) \<le> unat (bs_len b)" using len by simp
  note ok = buf_simple_remove_mem_ok [OF wf len' rm]
  show ?thesis
    using rm eq ok(2,3) remove_bytes [OF wf len' rm, of "ram s"]
    by (auto simp: remove_eq get_dec intro!: exI [of _ "mem_read (ram s) p width"])
qed

lemma pull_dec:
  assumes wf: "bs_wf b" and len: "width \<le> unat (bs_len b)" and eq: "pull b s = (v, b', s')"
  shows "bs_wf b' \<and> s' = s \<and> (\<exists>xs. length xs = width \<and> bs_bytes b (ram s) = xs @ bs_bytes b' (ram s) \<and> v = dec xs)"
proof -
  obtain p b1 s1 where pl: "buf_simple_pull b (of_nat width) s = (p, b1, s1)" by (metis prod_cases3)
  have len': "unat (of_nat width :: u32) \<le> unat (bs_len b)" using len by simp
  note ok = buf_simple_pull_ok [OF wf len' pl]
  show ?thesis
    using pl eq ok(2,3) pull_bytes [OF wf len' pl, of "ram s"]
    by (auto simp: pull_eq get_dec intro!: exI [of _ "mem_read (ram s) (bs_data b) width"])
qed

lemma add_remove:
  assumes "bs_wf b" and "of_nat width \<le> buf_simple_tailroom b"
  shows "\<exists>b1 s1 b2. add b v s = (b1, s1) \<and> remove b1 s1 = (norm v, b2, s1) \<and> bs_wf b2 \<and>
    bs_bytes b2 (ram s1) = bs_bytes b (ram s)"
proof -
  obtain b1 s1 where a: "add b v s = (b1, s1)" by (metis surj_pair)
  obtain v' b2 s2 where r: "remove b1 s1 = (v', b2, s2)" by (metis prod_cases3)
  have "length (enc v) \<le> unat (buf_simple_tailroom b)"
    using assms(2) by (simp add: word_le_nat_alt length_enc)
  note ok = add_bytes_ok [OF assms(1) this a [unfolded add_is_bytes]]
  have "width \<le> unat (bs_len b1)" using ok(7) by (simp add: length_enc)
  from remove_dec [OF ok(1) this r] obtain xs where
    "bs_wf b2" "s2 = s1" "length xs = width" "v' = dec xs"
    "bs_bytes b (ram s) @ enc v = bs_bytes b2 (ram s1) @ xs"
    by (auto simp: ok(2))
  moreover from this have "bs_bytes b2 (ram s1) = bs_bytes b (ram s) \<and> xs = enc v"
    using length_enc [of v] by (simp add: append_eq_append_conv)
  ultimately show ?thesis using a r by (simp add: dec_enc)
qed

lemma push_pull:
  assumes "bs_wf b" and "of_nat width \<le> buf_simple_headroom b"
  shows "\<exists>b1 s1 b2. push b v s = (b1, s1) \<and> pull b1 s1 = (norm v, b2, s1) \<and> bs_wf b2 \<and>
    bs_bytes b2 (ram s1) = bs_bytes b (ram s)"
proof -
  obtain b1 s1 where a: "push b v s = (b1, s1)" by (metis surj_pair)
  obtain v' b2 s2 where r: "pull b1 s1 = (v', b2, s2)" by (metis prod_cases3)
  have "length (enc v) \<le> unat (buf_simple_headroom b)"
    using assms(2) by (simp add: word_le_nat_alt length_enc)
  note ok = push_bytes_ok [OF assms(1) this a [unfolded push_is_bytes]]
  have "width \<le> unat (bs_len b1)" using ok(7) by (simp add: length_enc)
  from pull_dec [OF ok(1) this r] obtain xs where
    "bs_wf b2" "s2 = s1" "length xs = width" "v' = dec xs"
    "enc v @ bs_bytes b (ram s) = xs @ bs_bytes b2 (ram s1)"
    by (auto simp: ok(2))
  moreover from this have "bs_bytes b2 (ram s1) = bs_bytes b (ram s) \<and> xs = enc v"
    using length_enc [of v] by (simp add: append_eq_append_conv)
  ultimately show ?thesis using a r by (simp add: dec_enc)
qed

text \<open>A whole record written field by field at the tail is read back in order at the head.\<close>

lemma add_pull_fifo:
  assumes "bs_wf b" and "bs_len b = 0" and "of_nat width \<le> buf_simple_tailroom b"
  shows "\<exists>b1 s1 b2. add b v s = (b1, s1) \<and> pull b1 s1 = (norm v, b2, s1) \<and> bs_wf b2 \<and> bs_len b2 = 0"
proof -
  obtain b1 s1 where a: "add b v s = (b1, s1)" by (metis surj_pair)
  obtain v' b2 s2 where r: "pull b1 s1 = (v', b2, s2)" by (metis prod_cases3)
  have "length (enc v) \<le> unat (buf_simple_tailroom b)"
    using assms(3) by (simp add: word_le_nat_alt length_enc)
  note ok = add_bytes_ok [OF assms(1) this a [unfolded add_is_bytes]]
  have "width \<le> unat (bs_len b1)" using ok(7) by (simp add: length_enc)
  from pull_dec [OF ok(1) this r] obtain xs where x:
    "bs_wf b2" "s2 = s1" "length xs = width" "v' = dec xs"
    "enc v = xs @ bs_bytes b2 (ram s1)"
    using ok(2) assms(2) by (auto simp: bs_bytes_def)
  then have nil: "length (bs_bytes b2 (ram s1)) = 0" using length_enc [of v] by (simp del: length_bs_bytes)
  then have "bs_len b2 = 0" by (simp add: unat_eq_0)
  moreover have "xs = enc v" using x(5) nil by (simp del: length_bs_bytes)
  ultimately show ?thesis using x(1,2,4) a r by (simp add: dec_enc)
qed

end

interpretation f_le16: buf_field 2 sys_put_le16 sys_get_le16 "le_bytes 2" le_val id
    buf_simple_add_le16 buf_simple_remove_le16 buf_simple_push_le16 buf_simple_pull_le16
  by unfold_locales (simp_all add: buf_simple_add_le16_def buf_simple_remove_le16_def
      buf_simple_push_le16_def buf_simple_pull_le16_def UNALIGNED_GET_def sys_get_le16_eq Let_def)

interpretation f_be16: buf_field 2 sys_put_be16 sys_get_be16 "\<lambda>v. rev (le_bytes 2 v)" "\<lambda>bs. le_val (rev bs)" id
    buf_simple_add_be16 buf_simple_remove_be16 buf_simple_push_be16 buf_simple_pull_be16
  by unfold_locales (simp_all add: buf_simple_add_be16_def buf_simple_remove_be16_def
      buf_simple_push_be16_def buf_simple_pull_be16_def UNALIGNED_GET_def sys_get_be16_eq bswap_16_rev Let_def)

interpretation f_le24: buf_field 3 sys_put_le24 sys_get_le24 "le_bytes 3" le_val "take_bit 24"
    buf_simple_add_le24 buf_simple_remove_le24 buf_simple_push_le24 buf_simple_pull_le24
  by unfold_locales (simp_all add: buf_simple_add_le24_def buf_simple_remove_le24_def
      buf_simple_push_le24_def buf_simple_pull_le24_def UNALIGNED_GET_def sys_get_le24_eq Let_def)

interpretation f_be24: buf_field 3 sys_put_be24 sys_get_be24 "\<lambda>v. rev (le_bytes 3 v)" "\<lambda>bs. le_val (rev bs)" "take_bit 24"
    buf_simple_add_be24 buf_simple_remove_be24 buf_simple_push_be24 buf_simple_pull_be24
  by unfold_locales (simp_all add: buf_simple_add_be24_def buf_simple_remove_be24_def
      buf_simple_push_be24_def buf_simple_pull_be24_def UNALIGNED_GET_def sys_get_be24_eq bswap_24_rev Let_def)

interpretation f_le32: buf_field 4 sys_put_le32 sys_get_le32 "le_bytes 4" le_val id
    buf_simple_add_le32 buf_simple_remove_le32 buf_simple_push_le32 buf_simple_pull_le32
  by unfold_locales (simp_all add: buf_simple_add_le32_def buf_simple_remove_le32_def
      buf_simple_push_le32_def buf_simple_pull_le32_def UNALIGNED_GET_def sys_get_le32_eq Let_def)

interpretation f_be32: buf_field 4 sys_put_be32 sys_get_be32 "\<lambda>v. rev (le_bytes 4 v)" "\<lambda>bs. le_val (rev bs)" id
    buf_simple_add_be32 buf_simple_remove_be32 buf_simple_push_be32 buf_simple_pull_be32
  by unfold_locales (simp_all add: buf_simple_add_be32_def buf_simple_remove_be32_def
      buf_simple_push_be32_def buf_simple_pull_be32_def UNALIGNED_GET_def sys_get_be32_eq bswap_32_rev Let_def)

interpretation f_le48: buf_field 6 sys_put_le48 sys_get_le48 "le_bytes 6" le_val "take_bit 48"
    buf_simple_add_le48 buf_simple_remove_le48 buf_simple_push_le48 buf_simple_pull_le48
  by unfold_locales (simp_all add: buf_simple_add_le48_def buf_simple_remove_le48_def
      buf_simple_push_le48_def buf_simple_pull_le48_def UNALIGNED_GET_def sys_get_le48_eq Let_def)

interpretation f_be48: buf_field 6 sys_put_be48 sys_get_be48 "\<lambda>v. rev (le_bytes 6 v)" "\<lambda>bs. le_val (rev bs)" "take_bit 48"
    buf_simple_add_be48 buf_simple_remove_be48 buf_simple_push_be48 buf_simple_pull_be48
  by unfold_locales (simp_all add: buf_simple_add_be48_def buf_simple_remove_be48_def
      buf_simple_push_be48_def buf_simple_pull_be48_def UNALIGNED_GET_def sys_get_be48_eq bswap_48_rev Let_def)

interpretation f_le64: buf_field 8 sys_put_le64 sys_get_le64 "le_bytes 8" le_val id
    buf_simple_add_le64 buf_simple_remove_le64 buf_simple_push_le64 buf_simple_pull_le64
  by unfold_locales (simp_all add: buf_simple_add_le64_def buf_simple_remove_le64_def
      buf_simple_push_le64_def buf_simple_pull_le64_def UNALIGNED_GET_def sys_get_le64_eq Let_def)

interpretation f_be64: buf_field 8 sys_put_be64 sys_get_be64 "\<lambda>v. rev (le_bytes 8 v)" "\<lambda>bs. le_val (rev bs)" id
    buf_simple_add_be64 buf_simple_remove_be64 buf_simple_push_be64 buf_simple_pull_be64
  by unfold_locales (simp_all add: buf_simple_add_be64_def buf_simple_remove_be64_def
      buf_simple_push_be64_def buf_simple_pull_be64_def UNALIGNED_GET_def sys_get_be64_eq bswap_64_rev Let_def)

section \<open>Sequences of operations\<close>

text \<open>
  The operations of the buffer interface, and what one of them does to descriptor and machine.  The
  values that \<open>remove\<close> and \<open>pull\<close> return are left out here.
\<close>

datatype buf_op =
    Add_mem addr u32 | Add_u8 u8 | Add_le16 u16 | Add_be16 u16 | Add_le24 u32 | Add_be24 u32
  | Add_le32 u32 | Add_be32 u32 | Add_le48 u64 | Add_be48 u64 | Add_le64 u64 | Add_be64 u64
  | Push_mem addr u32 | Push_u8 u8 | Push_le16 u16 | Push_be16 u16 | Push_le24 u32 | Push_be24 u32
  | Push_le32 u32 | Push_be32 u32 | Push_le48 u64 | Push_be48 u64 | Push_le64 u64 | Push_be64 u64
  | Remove u32 | Pull u32 | Reset

primrec buf_exec :: "buf_op \<Rightarrow> buf_simple \<Rightarrow> machine \<Rightarrow> buf_simple \<times> machine" where
  "buf_exec (Add_mem a n) b s = snd (buf_simple_add_mem b a n s)"
| "buf_exec (Add_u8 v) b s = snd (buf_simple_add_u8 b v s)"
| "buf_exec (Add_le16 v) b s = buf_simple_add_le16 b v s"
| "buf_exec (Add_be16 v) b s = buf_simple_add_be16 b v s"
| "buf_exec (Add_le24 v) b s = buf_simple_add_le24 b v s"
| "buf_exec (Add_be24 v) b s = buf_simple_add_be24 b v s"
| "buf_exec (Add_le32 v) b s = buf_simple_add_le32 b v s"
| "buf_exec (Add_be32 v) b s = buf_simple_add_be32 b v s"
| "buf_exec (Add_le48 v) b s = buf_simple_add_le48 b v s"
| "buf_exec (Add_be48 v) b s = buf_simple_add_be48 b v s"
| "buf_exec (Add_le64 v) b s = buf_simple_add_le64 b v s"
| "buf_exec (Add_be64 v) b s = buf_simple_add_be64 b v s"
| "buf_exec (Push_mem a n) b s = snd (buf_simple_push_mem b a n s)"
| "buf_exec (Push_u8 v) b s = buf_simple_push_u8 b v s"
| "buf_exec (Push_le16 v) b s = buf_simple_push_le16 b v s"
| "buf_exec (Push_be16 v) b s = buf_simple_push_be16 b v s"
| "buf_exec (Push_le24 v) b s = buf_simple_push_le24 b v s"
| "buf_exec (Push_be24 v) b s = buf_simple_push_be24 b v s"
| "buf_exec (Push_le32 v) b s = buf_simple_push_le32 b v s"
| "buf_exec (Push_be32 v) b s = buf_simple_push_be32 b v s"
| "buf_exec (Push_le48 v) b s = buf_simple_push_le48 b v s"
| "buf_exec (Push_be48 v) b s = buf_simple_push_be48 b v s"
| "buf_exec (Push_le64 v) b s = buf_simple_push_le64 b v s"
| "buf_exec (Push_be64 v) b s = buf_simple_push_be64 b v s"
| "buf_exec (Remove n) b s = snd (buf_simple_remove_mem b n s)"
| "buf_exec (Pull n) b s = snd (buf_simple_pull b n s)"
| "buf_exec Reset b s = (buf_simple_reset b, s)"

primrec buf_run :: "buf_op list \<Rightarrow> buf_simple \<Rightarrow> machine \<Rightarrow> buf_simple \<times> machine" where
  "buf_run [] b s = (b, s)"
| "buf_run (x # xs) b s = (let (b, s) = buf_exec x b s in buf_run xs b s)"

text \<open>What an operation does to the payload: the byte string it adds at one of the ends, or the
  number of bytes it drops there.\<close>

datatype effect = Grow_tail "u8 list" | Grow_head "u8 list" | Drop_tail nat | Drop_head nat | Clear

primrec effect_of :: "buf_op \<Rightarrow> mem \<Rightarrow> effect" where
  "effect_of (Add_mem a n) m = Grow_tail (mem_read m a (unat n))"
| "effect_of (Add_u8 v) m = Grow_tail [v]"
| "effect_of (Add_le16 v) m = Grow_tail (le_bytes 2 v)"
| "effect_of (Add_be16 v) m = Grow_tail (rev (le_bytes 2 v))"
| "effect_of (Add_le24 v) m = Grow_tail (le_bytes 3 v)"
| "effect_of (Add_be24 v) m = Grow_tail (rev (le_bytes 3 v))"
| "effect_of (Add_le32 v) m = Grow_tail (le_bytes 4 v)"
| "effect_of (Add_be32 v) m = Grow_tail (rev (le_bytes 4 v))"
| "effect_of (Add_le48 v) m = Grow_tail (le_bytes 6 v)"
| "effect_of (Add_be48 v) m = Grow_tail (rev (le_bytes 6 v))"
| "effect_of (Add_le64 v) m = Grow_tail (le_bytes 8 v)"
| "effect_of (Add_be64 v) m = Grow_tail (rev (le_bytes 8 v))"
| "effect_of (Push_mem a n) m = Grow_head (mem_read m a (unat n))"
| "effect_of (Push_u8 v) m = Grow_head [v]"
| "effect_of (Push_le16 v) m = Grow_head (le_bytes 2 v)"
| "effect_of (Push_be16 v) m = Grow_head (rev (le_bytes 2 v))"
| "effect_of (Push_le24 v) m = Grow_head (le_bytes 3 v)"
| "effect_of (Push_be24 v) m = Grow_head (rev (le_bytes 3 v))"
| "effect_of (Push_le32 v) m = Grow_head (le_bytes 4 v)"
| "effect_of (Push_be32 v) m = Grow_head (rev (le_bytes 4 v))"
| "effect_of (Push_le48 v) m = Grow_head (le_bytes 6 v)"
| "effect_of (Push_be48 v) m = Grow_head (rev (le_bytes 6 v))"
| "effect_of (Push_le64 v) m = Grow_head (le_bytes 8 v)"
| "effect_of (Push_be64 v) m = Grow_head (rev (le_bytes 8 v))"
| "effect_of (Remove n) m = Drop_tail (unat n)"
| "effect_of (Pull n) m = Drop_head (unat n)"
| "effect_of Reset m = Clear"

primrec effect_fits :: "effect \<Rightarrow> nat \<Rightarrow> nat \<Rightarrow> nat \<Rightarrow> bool" where
  "effect_fits (Grow_tail bs) head n tail \<longleftrightarrow> length bs \<le> tail"
| "effect_fits (Grow_head bs) head n tail \<longleftrightarrow> length bs \<le> head"
| "effect_fits (Drop_tail k) head n tail \<longleftrightarrow> k \<le> n"
| "effect_fits (Drop_head k) head n tail \<longleftrightarrow> k \<le> n"
| "effect_fits Clear head n tail \<longleftrightarrow> True"

primrec effect_apply :: "effect \<Rightarrow> u8 list \<Rightarrow> u8 list" where
  "effect_apply (Grow_tail bs) xs = xs @ bs"
| "effect_apply (Grow_head bs) xs = bs @ xs"
| "effect_apply (Drop_tail k) xs = take (length xs - k) xs"
| "effect_apply (Drop_head k) xs = drop k xs"
| "effect_apply Clear xs = []"

primrec effect_exec :: "effect \<Rightarrow> buf_simple \<Rightarrow> machine \<Rightarrow> buf_simple \<times> machine" where
  "effect_exec (Grow_tail bs) b s = add_bytes b bs s"
| "effect_exec (Grow_head bs) b s = push_bytes b bs s"
| "effect_exec (Drop_tail k) b s = snd (buf_simple_remove_mem b (of_nat k) s)"
| "effect_exec (Drop_head k) b s = snd (buf_simple_pull b (of_nat k) s)"
| "effect_exec Clear b s = (buf_simple_reset b, s)"

abbreviation fits :: "buf_op \<Rightarrow> buf_simple \<Rightarrow> machine \<Rightarrow> bool" where
  "fits x b s \<equiv> effect_fits (effect_of x (ram s)) (unat (buf_simple_headroom b)) (unat (bs_len b))
     (unat (buf_simple_tailroom b))"

lemma buf_exec_effect: "buf_exec x b s = effect_exec (effect_of x (ram s)) b s"
  by (cases x)
     (simp_all add: f_le16.add_is_bytes f_be16.add_is_bytes f_le24.add_is_bytes f_be24.add_is_bytes
        f_le32.add_is_bytes f_be32.add_is_bytes f_le48.add_is_bytes f_be48.add_is_bytes
        f_le64.add_is_bytes f_be64.add_is_bytes
        f_le16.push_is_bytes f_be16.push_is_bytes f_le24.push_is_bytes f_be24.push_is_bytes
        f_le32.push_is_bytes f_be32.push_is_bytes f_le48.push_is_bytes f_be48.push_is_bytes
        f_le64.push_is_bytes f_be64.push_is_bytes
        buf_simple_add_u8_def buf_simple_push_u8_def buf_simple_add_mem_def buf_simple_push_mem_def
        buf_simple_add_def buf_simple_push_def add_bytes_def push_bytes_def memcpy_def Let_def)

lemma effect_exec_ok:
  assumes wf: "bs_wf b"
    and fit: "effect_fits e (unat (buf_simple_headroom b)) (unat (bs_len b)) (unat (buf_simple_tailroom b))"
    and eq: "effect_exec e b s = (b', s')"
  shows "bs_wf b'" and "bs_bytes b' (ram s') = effect_apply e (bs_bytes b (ram s))"
    and "asserts s' = asserts s" and "bs_size b' = bs_size b" and "bs_buf b' = bs_buf b"
    and "unat (bs_size b) \<le> unat (x - bs_buf b) \<Longrightarrow> ram s' x = ram s x"
proof -
  have "bs_wf b' \<and> bs_bytes b' (ram s') = effect_apply e (bs_bytes b (ram s)) \<and> asserts s' = asserts s \<and>
    bs_size b' = bs_size b \<and> bs_buf b' = bs_buf b \<and>
    (\<forall>x. unat (bs_size b) \<le> unat (x - bs_buf b) \<longrightarrow> ram s' x = ram s x)"
  proof (cases e)
    case (Grow_tail bs)
    with fit eq show ?thesis using add_bytes_ok [OF wf, of bs s b' s'] by simp
  next
    case (Grow_head bs)
    with fit eq show ?thesis using push_bytes_ok [OF wf, of bs s b' s'] by simp
  next
    case (Drop_tail k)
    obtain p where r: "buf_simple_remove_mem b (of_nat k) s = (p, b', s')"
      using eq Drop_tail by (metis effect_exec.simps(3) prod.collapse)
    have k: "unat (of_nat k :: u32) = k" "k \<le> unat (bs_len b)"
      using fit Drop_tail bs_wf_bounds [OF wf] by (simp_all add: unat_of_nat_u32)
    then have "unat (of_nat k :: u32) \<le> unat (bs_len b)" by simp
    from buf_simple_remove_mem_ok [OF wf this r] remove_bytes [OF wf this r, of "ram s"] k Drop_tail
    show ?thesis by simp
  next
    case (Drop_head k)
    obtain p where r: "buf_simple_pull b (of_nat k) s = (p, b', s')"
      using eq Drop_head by (metis effect_exec.simps(4) prod.collapse)
    have k: "unat (of_nat k :: u32) = k" "k \<le> unat (bs_len b)"
      using fit Drop_head bs_wf_bounds [OF wf] by (simp_all add: unat_of_nat_u32)
    then have "unat (of_nat k :: u32) \<le> unat (bs_len b)" by simp
    from buf_simple_pull_ok [OF wf this r] pull_bytes [OF wf this r, of "ram s"] k Drop_head
    show ?thesis by simp
  next
    case Clear
    with eq show ?thesis
      by (auto simp: buf_simple_reset_def bs_wf_def bs_bytes_def buf_simple_headroom_def)
  qed
  then show "bs_wf b'" "bs_bytes b' (ram s') = effect_apply e (bs_bytes b (ram s))"
    "asserts s' = asserts s" "bs_size b' = bs_size b" "bs_buf b' = bs_buf b"
    "unat (bs_size b) \<le> unat (x - bs_buf b) \<Longrightarrow> ram s' x = ram s x" by simp_all
qed

lemma effect_exec_assert:
  assumes wf: "bs_wf b" and on: "assert_on s"
    and len: "\<And>bs. e = Grow_tail bs \<or> e = Grow_head bs \<Longrightarrow> length bs < 2 ^ 32"
    and k: "\<And>k. e = Drop_tail k \<or> e = Drop_head k \<Longrightarrow> k < 2 ^ 32"
    and unfit: "\<not> effect_fits e (unat (buf_simple_headroom b)) (unat (bs_len b)) (unat (buf_simple_tailroom b))"
    and eq: "effect_exec e b s = (b', s')"
  shows "asserts s' = Suc (asserts s)"
  using unfit eq on len k
  by (cases e)
     (auto simp: add_bytes_def push_bytes_def buf_simple_add_def buf_simple_push_def
        buf_simple_remove_mem_def buf_simple_pull_def Let_def word_le_nat_alt unat_of_nat_u32)

lemma effect_of_bounds:
  "effect_of x m = Grow_tail bs \<or> effect_of x m = Grow_head bs \<Longrightarrow> length bs < 2 ^ 32"
  "effect_of x m = Drop_tail k \<or> effect_of x m = Drop_head k \<Longrightarrow> k < 2 ^ 32"
  using unat_u32_less by (cases x; auto)+

lemma buf_exec_asserts:
  assumes "bs_wf b" and "assert_on s" and "buf_exec x b s = (b', s')"
  shows "asserts s' = (if fits x b s then asserts s else Suc (asserts s))"
proof (cases "fits x b s")
  case True
  with assms show ?thesis using effect_exec_ok(3) by (simp add: buf_exec_effect)
next
  case False
  have "asserts s' = Suc (asserts s)"
    using assms(1,2) effect_of_bounds False assms(3) [unfolded buf_exec_effect]
    by (rule effect_exec_assert)
  with False show ?thesis by simp
qed

lemma effect_exec_mono:
  "effect_exec e b s = (b', s') \<Longrightarrow> asserts s \<le> asserts s' \<and> assert_on s' = assert_on s"
  by (cases e) (auto simp: add_bytes_def push_bytes_def buf_simple_add_def buf_simple_push_def
        buf_simple_remove_mem_def buf_simple_pull_def Let_def)

lemma buf_run_mono: "buf_run xs b s = (b', s') \<Longrightarrow> asserts s \<le> asserts s'"
proof (induction xs arbitrary: b s)
  case Nil
  then show ?case by simp
next
  case (Cons x xs)
  obtain b1 s1 where x: "buf_exec x b s = (b1, s1)" by (metis surj_pair)
  with Cons have "asserts s1 \<le> asserts s'" by simp
  with effect_exec_mono x show ?case by (metis buf_exec_effect le_trans)
qed

section \<open>Properties\<close>

text \<open>C2: Memory safety of operation sequences.  Start from a descriptor whose payload lies in its
  storage and run any sequence of operations with assertions enabled.  If no assertion was reported
  at the end, the payload still lies in the same storage and no byte outside that storage was
  written.\<close>

theorem buf_run_safe:
  assumes "bs_wf b" and "assert_on s" and "buf_run xs b s = (b', s')" and "asserts s' = asserts s"
  shows "bs_wf b' \<and> bs_buf b' = bs_buf b \<and> bs_size b' = bs_size b \<and>
    (\<forall>x. unat (bs_size b) \<le> unat (x - bs_buf b) \<longrightarrow> ram s' x = ram s x)"
  using assms
proof (induction xs arbitrary: b s)
  case Nil
  then show ?case by simp
next
  case (Cons x xs)
  obtain b1 s1 where x: "buf_exec x b s = (b1, s1)" by (metis surj_pair)
  with Cons.prems have run: "buf_run xs b1 s1 = (b', s')" by simp
  have same: "asserts s1 = asserts s" "assert_on s1"
    using buf_run_mono [OF run] effect_exec_mono x Cons.prems
    by (metis buf_exec_effect le_antisym, metis buf_exec_effect effect_exec_mono)
  then have "fits x b s"
    using buf_exec_asserts [OF Cons.prems(1,2) x] by (metis n_not_Suc_n)
  note ok = effect_exec_ok [OF Cons.prems(1) this x [unfolded buf_exec_effect]]
  with Cons.IH [OF ok(1) same(2) run] same Cons.prems(4) show ?case by simp
qed

theorem buf_run_safe_witness:
  "\<exists>b' s'. buf_run [Add_le16 0x1234, Push_u8 9, Pull 1, Remove 2]
      (buf_simple_init 0 (BUF_SIMPLE_DEFINE 0x20000000 16) 4) \<lparr>ram = \<lambda>_. 0, assert_on = True, asserts = 0\<rparr> = (b', s')
    \<and> bs_wf b' \<and> (\<forall>x. 16 \<le> unat (x - 0x20000000) \<longrightarrow> ram s' x = 0)"
proof -
  let ?b = "buf_simple_init 0 (BUF_SIMPLE_DEFINE 0x20000000 16) 4"
  let ?s = "\<lparr>ram = \<lambda>_. 0, assert_on = True, asserts = 0\<rparr> :: machine"
  let ?xs = "[Add_le16 0x1234, Push_u8 9, Pull 1, Remove 2]"
  obtain b' s' where run: "buf_run ?xs ?b ?s = (b', s')" by (metis surj_pair)
  then have "asserts s' = asserts ?s"
    by (auto simp: buf_simple_init_def BUF_SIMPLE_DEFINE_def buf_simple_add_le16_def buf_simple_add_def
        buf_simple_push_u8_def buf_simple_push_def buf_simple_pull_def buf_simple_remove_mem_def
        buf_simple_tailroom_def buf_simple_headroom_def Let_def)
  moreover have "bs_wf ?b" by (simp add: bs_wf_def buf_simple_init_def BUF_SIMPLE_DEFINE_def buf_simple_headroom_def)
  moreover have "assert_on ?s" by simp
  ultimately have "bs_wf b' \<and> bs_buf b' = bs_buf ?b \<and> bs_size b' = bs_size ?b \<and>
    (\<forall>x. unat (bs_size ?b) \<le> unat (x - bs_buf ?b) \<longrightarrow> ram s' x = ram ?s x)"
    using buf_run_safe [OF _ _ run] by blast
  with run show ?thesis
    by (auto simp: buf_simple_init_def BUF_SIMPLE_DEFINE_def)
qed

text \<open>C4: Refinement to a byte string that grows and shrinks at both ends.  An operation that fits
  does to the payload what its abstract effect says, keeps the descriptor well formed, reports no
  assertion, and headroom, payload and tailroom always make up the whole storage.\<close>

theorem buf_exec_refines:
  assumes "bs_wf b" and "fits x b s" and "buf_exec x b s = (b', s')"
  shows "bs_bytes b' (ram s') = effect_apply (effect_of x (ram s)) (bs_bytes b (ram s)) \<and> bs_wf b' \<and>
    asserts s' = asserts s \<and>
    unat (buf_simple_headroom b') + length (bs_bytes b' (ram s')) + unat (buf_simple_tailroom b') =
      unat (bs_size b)"
proof -
  note ok = effect_exec_ok [OF assms(1,2) assms(3) [unfolded buf_exec_effect]]
  have "unat (buf_simple_headroom b') + unat (bs_len b') + unat (buf_simple_tailroom b') = unat (bs_size b')"
    using ok(1) by (simp add: unat_tailroom bs_wf_def)
  with ok show ?thesis unfolding length_bs_bytes by simp
qed

theorem buf_exec_refines_witness:
  "\<exists>b' s'. buf_exec (Add_be16 0xABCD) (BUF_SIMPLE_DEFINE 64 8) \<lparr>ram = \<lambda>_. 0, assert_on = True, asserts = 0\<rparr> = (b', s')
    \<and> bs_bytes b' (ram s') = [0xAB, 0xCD] \<and> bs_wf b'"
proof -
  let ?b = "BUF_SIMPLE_DEFINE 64 8"
  let ?s = "\<lparr>ram = \<lambda>_. 0, assert_on = True, asserts = 0\<rparr> :: machine"
  obtain b' s' where ex: "buf_exec (Add_be16 0xABCD) ?b ?s = (b', s')" by (metis surj_pair)
  have "bs_wf ?b" "fits (Add_be16 0xABCD) ?b ?s"
    by (simp_all add: bs_wf_def BUF_SIMPLE_DEFINE_def buf_simple_headroom_def buf_simple_tailroom_def)
  note ok = buf_exec_refines [OF this ex]
  have "rev (le_bytes 2 (0xABCD :: u16)) = [0xAB, 0xCD]" "bs_bytes ?b (ram ?s) = []"
    by (simp_all add: le_bytes_def upt_rec drop_bit_eq_div bs_bytes_def BUF_SIMPLE_DEFINE_def)
  then have "bs_bytes b' (ram s') = [0xAB, 0xCD]" using ok by (simp only: effect_of.simps effect_apply.simps append_Nil)
  with ok ex show ?thesis by blast
qed

text \<open>The assertions are exactly the room conditions: from a well formed descriptor and with
  assertions enabled, an operation reports a failure if and only if it does not fit.\<close>

theorem buf_assert_iff_fits:
  assumes "bs_wf b" and "assert_on s"
  shows "asserts (snd (buf_exec x b s)) = asserts s + (if fits x b s then 0 else 1)"
  using buf_exec_asserts [OF assms, of x "fst (buf_exec x b s)" "snd (buf_exec x b s)"] by simp

theorem buf_assert_iff_fits_witness:
  "asserts (snd (buf_exec (Pull 1) (BUF_SIMPLE_DEFINE 64 8) \<lparr>ram = \<lambda>_. 0, assert_on = True, asserts = 5\<rparr>)) = 6"
  using buf_assert_iff_fits [of "BUF_SIMPLE_DEFINE 64 8" "\<lparr>ram = \<lambda>_. 0, assert_on = True, asserts = 5\<rparr>" "Pull 1"]
  by (simp add: bs_wf_def BUF_SIMPLE_DEFINE_def buf_simple_headroom_def)

text \<open>A failed assertion does not stop the operation: when the tail has no room for \<open>n\<close> bytes,
  \<open>buf_simple_add\<close> still hands out the tail pointer and still advances the length, and the payload
  then reaches past the end of the storage.\<close>

theorem buf_simple_add_overflows:
  assumes "bs_wf b" and "buf_simple_tailroom b < n" and "unat (bs_len b) + unat n < 65536"
    and "buf_simple_add b n s = (p, b', s')"
  shows "p = buf_simple_tail b \<and> unat (bs_len b') = unat (bs_len b) + unat n \<and> \<not> bs_wf b' \<and> ram s' = ram s"
proof -
  have "unat (bs_len b') = unat (bs_len b) + unat n"
    using assms(4) len_plus [OF assms(3)] by (auto simp: buf_simple_add_def)
  moreover have "unat (bs_size b) < unat (buf_simple_headroom b) + unat (bs_len b) + unat n"
    using assms(2) unat_tailroom [OF assms(1)] by (simp add: word_less_nat_alt)
  ultimately show ?thesis
    using assms(4) by (auto simp: buf_simple_add_def bs_wf_def buf_simple_headroom_def)
qed

theorem buf_simple_add_overflows_witness:
  "\<not> bs_wf (fst (snd (buf_simple_add (BUF_SIMPLE_DEFINE 64 2) 3 \<lparr>ram = \<lambda>_. 0, assert_on = True, asserts = 0\<rparr>)))"
proof -
  let ?b = "BUF_SIMPLE_DEFINE 64 2"
  have "bs_wf ?b" "buf_simple_tailroom ?b < 3" "unat (bs_len ?b) + unat (3 :: u32) < 65536"
    by (simp_all add: bs_wf_def BUF_SIMPLE_DEFINE_def buf_simple_headroom_def buf_simple_tailroom_def)
  from buf_simple_add_overflows [OF this] show ?thesis by (metis prod.collapse)
qed

text \<open>Round trips at the tail: a value added in any width and byte order is returned by the
  matching \<open>remove\<close> (24 and 48 bit accesses keep the low 24 and 48 bits), and the payload is what it
  was before.\<close>

theorem buf_add_remove_roundtrip:
  assumes "bs_wf b" and "8 \<le> buf_simple_tailroom b"
  shows "(\<exists>b1 s1 b2. buf_simple_add_le16 b v16 s = (b1, s1) \<and> buf_simple_remove_le16 b1 s1 = (v16, b2, s1) \<and> bs_wf b2 \<and> bs_bytes b2 (ram s1) = bs_bytes b (ram s))
    \<and> (\<exists>b1 s1 b2. buf_simple_add_be16 b v16 s = (b1, s1) \<and> buf_simple_remove_be16 b1 s1 = (v16, b2, s1) \<and> bs_wf b2 \<and> bs_bytes b2 (ram s1) = bs_bytes b (ram s))
    \<and> (\<exists>b1 s1 b2. buf_simple_add_le24 b v32 s = (b1, s1) \<and> buf_simple_remove_le24 b1 s1 = (take_bit 24 v32, b2, s1) \<and> bs_wf b2 \<and> bs_bytes b2 (ram s1) = bs_bytes b (ram s))
    \<and> (\<exists>b1 s1 b2. buf_simple_add_be24 b v32 s = (b1, s1) \<and> buf_simple_remove_be24 b1 s1 = (take_bit 24 v32, b2, s1) \<and> bs_wf b2 \<and> bs_bytes b2 (ram s1) = bs_bytes b (ram s))
    \<and> (\<exists>b1 s1 b2. buf_simple_add_le32 b v32 s = (b1, s1) \<and> buf_simple_remove_le32 b1 s1 = (v32, b2, s1) \<and> bs_wf b2 \<and> bs_bytes b2 (ram s1) = bs_bytes b (ram s))
    \<and> (\<exists>b1 s1 b2. buf_simple_add_be32 b v32 s = (b1, s1) \<and> buf_simple_remove_be32 b1 s1 = (v32, b2, s1) \<and> bs_wf b2 \<and> bs_bytes b2 (ram s1) = bs_bytes b (ram s))
    \<and> (\<exists>b1 s1 b2. buf_simple_add_le48 b v64 s = (b1, s1) \<and> buf_simple_remove_le48 b1 s1 = (take_bit 48 v64, b2, s1) \<and> bs_wf b2 \<and> bs_bytes b2 (ram s1) = bs_bytes b (ram s))
    \<and> (\<exists>b1 s1 b2. buf_simple_add_be48 b v64 s = (b1, s1) \<and> buf_simple_remove_be48 b1 s1 = (take_bit 48 v64, b2, s1) \<and> bs_wf b2 \<and> bs_bytes b2 (ram s1) = bs_bytes b (ram s))
    \<and> (\<exists>b1 s1 b2. buf_simple_add_le64 b v64 s = (b1, s1) \<and> buf_simple_remove_le64 b1 s1 = (v64, b2, s1) \<and> bs_wf b2 \<and> bs_bytes b2 (ram s1) = bs_bytes b (ram s))
    \<and> (\<exists>b1 s1 b2. buf_simple_add_be64 b v64 s = (b1, s1) \<and> buf_simple_remove_be64 b1 s1 = (v64, b2, s1) \<and> bs_wf b2 \<and> bs_bytes b2 (ram s1) = bs_bytes b (ram s))"
proof -
  have w: "of_nat 2 \<le> buf_simple_tailroom b" "of_nat 3 \<le> buf_simple_tailroom b"
      "of_nat 4 \<le> buf_simple_tailroom b" "of_nat 6 \<le> buf_simple_tailroom b"
      "of_nat 8 \<le> buf_simple_tailroom b"
    using assms(2) by (simp_all add: word_le_nat_alt)
  show ?thesis
    using f_le16.add_remove [OF assms(1) w(1), of v16 s]
      f_be16.add_remove [OF assms(1) w(1), of v16 s]
      f_le24.add_remove [OF assms(1) w(2), of v32 s]
      f_be24.add_remove [OF assms(1) w(2), of v32 s]
      f_le32.add_remove [OF assms(1) w(3), of v32 s]
      f_be32.add_remove [OF assms(1) w(3), of v32 s]
      f_le48.add_remove [OF assms(1) w(4), of v64 s]
      f_be48.add_remove [OF assms(1) w(4), of v64 s]
      f_le64.add_remove [OF assms(1) w(5), of v64 s]
      f_be64.add_remove [OF assms(1) w(5), of v64 s]
    unfolding id_apply by (intro conjI)
qed

theorem buf_add_remove_roundtrip_witness:
  "bs_wf (BUF_SIMPLE_DEFINE 64 8) \<and> (\<exists>b1 s1 b2.
     buf_simple_add_be32 (BUF_SIMPLE_DEFINE 64 8) 0xDEADBEEF \<lparr>ram = \<lambda>_. 0, assert_on = True, asserts = 0\<rparr> = (b1, s1) \<and>
     buf_simple_remove_be32 b1 s1 = (0xDEADBEEF, b2, s1))"
proof -
  have "bs_wf (BUF_SIMPLE_DEFINE 64 8)" "8 \<le> buf_simple_tailroom (BUF_SIMPLE_DEFINE 64 8)"
    by (simp_all add: bs_wf_def BUF_SIMPLE_DEFINE_def buf_simple_headroom_def buf_simple_tailroom_def)
  then show ?thesis using buf_add_remove_roundtrip by blast
qed

text \<open>Round trips at the head: a value pushed in any width and byte order is returned by the
  matching \<open>pull\<close>, and the payload is what it was before.\<close>

theorem buf_push_pull_roundtrip:
  assumes "bs_wf b" and "8 \<le> buf_simple_headroom b"
  shows "(\<exists>b1 s1 b2. buf_simple_push_le16 b v16 s = (b1, s1) \<and> buf_simple_pull_le16 b1 s1 = (v16, b2, s1) \<and> bs_wf b2 \<and> bs_bytes b2 (ram s1) = bs_bytes b (ram s))
    \<and> (\<exists>b1 s1 b2. buf_simple_push_be16 b v16 s = (b1, s1) \<and> buf_simple_pull_be16 b1 s1 = (v16, b2, s1) \<and> bs_wf b2 \<and> bs_bytes b2 (ram s1) = bs_bytes b (ram s))
    \<and> (\<exists>b1 s1 b2. buf_simple_push_le24 b v32 s = (b1, s1) \<and> buf_simple_pull_le24 b1 s1 = (take_bit 24 v32, b2, s1) \<and> bs_wf b2 \<and> bs_bytes b2 (ram s1) = bs_bytes b (ram s))
    \<and> (\<exists>b1 s1 b2. buf_simple_push_be24 b v32 s = (b1, s1) \<and> buf_simple_pull_be24 b1 s1 = (take_bit 24 v32, b2, s1) \<and> bs_wf b2 \<and> bs_bytes b2 (ram s1) = bs_bytes b (ram s))
    \<and> (\<exists>b1 s1 b2. buf_simple_push_le32 b v32 s = (b1, s1) \<and> buf_simple_pull_le32 b1 s1 = (v32, b2, s1) \<and> bs_wf b2 \<and> bs_bytes b2 (ram s1) = bs_bytes b (ram s))
    \<and> (\<exists>b1 s1 b2. buf_simple_push_be32 b v32 s = (b1, s1) \<and> buf_simple_pull_be32 b1 s1 = (v32, b2, s1) \<and> bs_wf b2 \<and> bs_bytes b2 (ram s1) = bs_bytes b (ram s))
    \<and> (\<exists>b1 s1 b2. buf_simple_push_le48 b v64 s = (b1, s1) \<and> buf_simple_pull_le48 b1 s1 = (take_bit 48 v64, b2, s1) \<and> bs_wf b2 \<and> bs_bytes b2 (ram s1) = bs_bytes b (ram s))
    \<and> (\<exists>b1 s1 b2. buf_simple_push_be48 b v64 s = (b1, s1) \<and> buf_simple_pull_be48 b1 s1 = (take_bit 48 v64, b2, s1) \<and> bs_wf b2 \<and> bs_bytes b2 (ram s1) = bs_bytes b (ram s))
    \<and> (\<exists>b1 s1 b2. buf_simple_push_le64 b v64 s = (b1, s1) \<and> buf_simple_pull_le64 b1 s1 = (v64, b2, s1) \<and> bs_wf b2 \<and> bs_bytes b2 (ram s1) = bs_bytes b (ram s))
    \<and> (\<exists>b1 s1 b2. buf_simple_push_be64 b v64 s = (b1, s1) \<and> buf_simple_pull_be64 b1 s1 = (v64, b2, s1) \<and> bs_wf b2 \<and> bs_bytes b2 (ram s1) = bs_bytes b (ram s))"
proof -
  have w: "of_nat 2 \<le> buf_simple_headroom b" "of_nat 3 \<le> buf_simple_headroom b"
      "of_nat 4 \<le> buf_simple_headroom b" "of_nat 6 \<le> buf_simple_headroom b"
      "of_nat 8 \<le> buf_simple_headroom b"
    using assms(2) by (simp_all add: word_le_nat_alt)
  show ?thesis
    using f_le16.push_pull [OF assms(1) w(1), of v16 s]
      f_be16.push_pull [OF assms(1) w(1), of v16 s]
      f_le24.push_pull [OF assms(1) w(2), of v32 s]
      f_be24.push_pull [OF assms(1) w(2), of v32 s]
      f_le32.push_pull [OF assms(1) w(3), of v32 s]
      f_be32.push_pull [OF assms(1) w(3), of v32 s]
      f_le48.push_pull [OF assms(1) w(4), of v64 s]
      f_be48.push_pull [OF assms(1) w(4), of v64 s]
      f_le64.push_pull [OF assms(1) w(5), of v64 s]
      f_be64.push_pull [OF assms(1) w(5), of v64 s]
    unfolding id_apply by (intro conjI)
qed

theorem buf_push_pull_roundtrip_witness:
  "\<exists>b1 s1 b2. buf_simple_push_le24 (buf_simple_init 0 (BUF_SIMPLE_DEFINE 64 8) 8) 0xFF123456 \<lparr>ram = \<lambda>_. 0, assert_on = True, asserts = 0\<rparr> = (b1, s1) \<and>
     buf_simple_pull_le24 b1 s1 = (take_bit 24 0xFF123456, b2, s1)"
proof -
  let ?b = "buf_simple_init 0 (BUF_SIMPLE_DEFINE 64 8) 8"
  have "bs_wf ?b" "8 \<le> buf_simple_headroom ?b"
    by (simp_all add: bs_wf_def BUF_SIMPLE_DEFINE_def buf_simple_headroom_def buf_simple_init_def)
  then show ?thesis using buf_push_pull_roundtrip by blast
qed

text \<open>Saving the parsing state and restoring it into a descriptor of the same storage gives the
  saved descriptor back, whatever was pulled, pushed, added or removed in between.\<close>

theorem buf_save_restore:
  assumes "bs_wf b" and "bs_buf b' = bs_buf b" and "bs_size b' = bs_size b"
  shows "buf_simple_restore b' (buf_simple_save b) = b"
proof -
  have "ucast (ucast (buf_simple_headroom b) :: u16) = buf_simple_headroom b"
    using bs_wf_bounds(1) [OF assms(1)] by (simp add: word_unat_eq_iff unat_ucast_u32_u16)
  with assms(2,3) show ?thesis
    by (simp add: buf_simple_restore_def buf_simple_save_def buf_simple_headroom_def)
qed

theorem buf_save_restore_witness:
  "buf_simple_restore (fst (snd (buf_simple_pull (buf_simple_init_with_data (BUF_SIMPLE 0) 64 8) 5
      \<lparr>ram = \<lambda>_. 0, assert_on = True, asserts = 0\<rparr>)))
    (buf_simple_save (buf_simple_init_with_data (BUF_SIMPLE 0) 64 8)) = buf_simple_init_with_data (BUF_SIMPLE 0) 64 8"
  by (rule buf_save_restore)
     (simp_all add: bs_wf_def buf_simple_init_with_data_def buf_simple_headroom_def buf_simple_pull_def Let_def)

text \<open>A descriptor initialised on external data covers exactly that data when the size fits the
  16-bit fields; a larger size is silently reduced modulo 65536.\<close>

theorem buf_init_with_data_covers:
  "bs_wf (buf_simple_init_with_data b dat sz) \<and>
   bs_bytes (buf_simple_init_with_data b dat sz) m = mem_read m dat (unat sz mod 65536) \<and>
   buf_simple_tailroom (buf_simple_init_with_data b dat sz) = 0"
  by (simp add: buf_simple_init_with_data_def bs_wf_def bs_bytes_def buf_simple_headroom_def
      buf_simple_tailroom_def unsigned_ucast_eq take_bit_eq_mod)

end
