(* ===== verification/Adv.thy ===== *)
theory Adv
  imports Buf
begin

text \<open>
  Bluetooth advertising, \<^verbatim>\<open>subsys/bluetooth/host/adv.c\<close>, with the data types of \<^verbatim>\<open>include/bluetooth/bluetooth.h\<close>, over
  the simple buffer.

  The controller library is the argument \<open>lib\<close>: it takes a call with the values it is handed and a state of any
  type to a status byte and a new state.  A null pointer to an array is \<open>None\<close>; the parameters are read before the
  function tests their pointer, so a null pointer there has no defined result.
\<close>

section \<open>Data\<close>

record ble_adv_param =
  adv_type :: u8
  adv_channel :: u8
  adv_filter_policy :: u8
  adv_interval_min :: u32
  adv_interval_max :: u32
  adv_dir_addr :: addr

record ble_data =
  bd_len :: u8
  bd_type :: u8
  bd_data :: addr

text \<open>A call of \<open>GAPRole_SetParameter\<close> with the bytes at its pointer, and one of \<open>GAP_SetParamValue\<close>.\<close>

datatype gap_call = Role_parameter u16 "u8 list" | Gap_value u16 u16

type_synonym 'g gap_lib = "gap_call \<Rightarrow> 'g \<Rightarrow> u8 \<times> 'g"

record 'g ble =
  adv_data :: buf_simple
  ble_machine :: machine
  ble_gap :: 'g

definition B_MAX_ADV_LEN :: u16 where "B_MAX_ADV_LEN = 31"
definition B_ADDR_LEN :: nat where "B_ADDR_LEN = 6"
definition GAPROLE_ADVERT_ENABLED :: u16 where "GAPROLE_ADVERT_ENABLED = 0x305"
definition GAPROLE_ADVERT_DATA :: u16 where "GAPROLE_ADVERT_DATA = 0x306"
definition GAPROLE_SCAN_RSP_DATA :: u16 where "GAPROLE_SCAN_RSP_DATA = 0x307"
definition GAPROLE_ADV_EVENT_TYPE :: u16 where "GAPROLE_ADV_EVENT_TYPE = 0x308"
definition GAPROLE_ADV_DIRECT_TYPE :: u16 where "GAPROLE_ADV_DIRECT_TYPE = 0x309"
definition GAPROLE_ADV_DIRECT_ADDR :: u16 where "GAPROLE_ADV_DIRECT_ADDR = 0x30A"
definition GAPROLE_ADV_CHANNEL_MAP :: u16 where "GAPROLE_ADV_CHANNEL_MAP = 0x30B"
definition GAPROLE_ADV_FILTER_POLICY :: u16 where "GAPROLE_ADV_FILTER_POLICY = 0x30C"
definition TGAP_DISC_ADV_INT_MIN :: u16 where "TGAP_DISC_ADV_INT_MIN = 3"
definition TGAP_DISC_ADV_INT_MAX :: u16 where "TGAP_DISC_ADV_INT_MAX = 4"

section \<open>Operations\<close>

text \<open>\<open>err |= call\<close>: the status is or-ed into the result and the library's state moves on.\<close>

definition err_or :: "'g gap_lib \<Rightarrow> gap_call \<Rightarrow> u32 \<times> 'g ble \<Rightarrow> u32 \<times> 'g ble" where
  "err_or lib c x = (let (err, s) = x; (st, g) = lib c (ble_gap s) in (err OR ucast st, s\<lparr>ble_gap := g\<rparr>))"

primrec adv_fill :: "ble_data list \<Rightarrow> buf_simple \<Rightarrow> machine \<Rightarrow> buf_simple \<times> machine" where
  "adv_fill [] b m = (b, m)"
| "adv_fill (d # ds) b m =
     (let (_, b, m) = buf_simple_add_u8 b (bd_len d + 1) m;
          (_, b, m) = buf_simple_add_u8 b (bd_type d) m;
          (_, b, m) = buf_simple_add_mem b (bd_data d) (ucast (bd_len d)) m
      in adv_fill ds b m)"

text \<open>The block for advertising data, and with another parameter number the one for scan response data: the length
  of the buffer is passed as a \<open>uint8_t\<close>.\<close>

definition adv_set_data :: "'g gap_lib \<Rightarrow> u16 \<Rightarrow> ble_data list \<Rightarrow> u32 \<times> 'g ble \<Rightarrow> u32 \<times> 'g ble" where
  "adv_set_data lib param ds x =
     (let (err, s) = x;
          (b, m) = adv_fill ds (buf_simple_reset (adv_data s)) (ble_machine s);
          n = unat (ucast (bs_len b) :: u8)
      in err_or lib (Role_parameter param (mem_read (ram m) (bs_data b) n))
           (err, s\<lparr>adv_data := b, ble_machine := m\<rparr>))"

definition ble_adv_enable ::
  "'g gap_lib \<Rightarrow> ble_adv_param option \<Rightarrow> ble_data list option \<Rightarrow> ble_data list option \<Rightarrow> 'g ble \<Rightarrow>
   (u32 \<times> 'g ble) option" where
  "ble_adv_enable lib param ad sd s =
     (case param of
        None \<Rightarrow> None
      | Some p \<Rightarrow>
          let m = ram (ble_machine s);
              x = (0, s);
              x = err_or lib (Role_parameter GAPROLE_ADVERT_ENABLED [1]) x;
              x = err_or lib (Role_parameter GAPROLE_ADV_EVENT_TYPE [adv_type p]) x;
              x = err_or lib (Role_parameter GAPROLE_ADV_CHANNEL_MAP [adv_channel p]) x;
              x = err_or lib (Role_parameter GAPROLE_ADV_FILTER_POLICY [adv_filter_policy p]) x;
              x = err_or lib (Gap_value TGAP_DISC_ADV_INT_MIN (ucast (adv_interval_min p))) x;
              x = err_or lib (Gap_value TGAP_DISC_ADV_INT_MAX (ucast (adv_interval_max p))) x;
              x = (if adv_dir_addr p \<noteq> NULL then
                     let x = err_or lib (Role_parameter GAPROLE_ADV_DIRECT_TYPE [m (adv_dir_addr p)]) x
                     in err_or lib (Role_parameter GAPROLE_ADV_DIRECT_ADDR
                          (mem_read m (adv_dir_addr p + 1) B_ADDR_LEN)) x
                   else x);
              x = (case ad of None \<Rightarrow> x | Some ds \<Rightarrow> adv_set_data lib GAPROLE_ADVERT_DATA ds x);
              x = (case sd of None \<Rightarrow> x | Some ds \<Rightarrow> adv_set_data lib GAPROLE_SCAN_RSP_DATA ds x)
          in Some x)"

definition ble_adv_disable :: "'g gap_lib \<Rightarrow> 'g ble \<Rightarrow> u32 \<times> 'g ble" where
  "ble_adv_disable lib s =
     (let (st, g) = lib (Role_parameter GAPROLE_ADVERT_ENABLED [0]) (ble_gap s) in (ucast st, s\<lparr>ble_gap := g\<rparr>))"

definition ble_adv_restart :: "'g gap_lib \<Rightarrow> 'g ble \<Rightarrow> u32 \<times> 'g ble" where
  "ble_adv_restart lib s =
     (let (_, g) = lib (Role_parameter GAPROLE_ADVERT_ENABLED [1]) (ble_gap s) in (0, s\<lparr>ble_gap := g\<rparr>))"

section \<open>Advertising data structures\<close>

text \<open>The format of the Bluetooth core specification: length of type and data, type, data; and its parser.\<close>

definition ad_element :: "mem \<Rightarrow> ble_data \<Rightarrow> u8 \<times> u8 list" where
  "ad_element m d = (bd_type d, mem_read m (bd_data d) (unat (bd_len d)))"

definition ad_encode :: "(u8 \<times> u8 list) list \<Rightarrow> u8 list" where
  "ad_encode es = concat (map (\<lambda>(t, bs). of_nat (Suc (length bs)) # t # bs) es)"

fun ad_parse :: "u8 list \<Rightarrow> (u8 \<times> u8 list) list option" where
  "ad_parse [] = Some []"
| "ad_parse [l] = None"
| "ad_parse (l # t # bs) =
     (if l = 0 \<or> unat l > Suc (length bs) then None
      else map_option ((#) (t, take (unat l - 1) bs)) (ad_parse (drop (unat l - 1) bs)))"

lemma ad_parse_encode: "(\<And>t bs. (t, bs) \<in> set es \<Longrightarrow> length bs < 255) \<Longrightarrow> ad_parse (ad_encode es) = Some es"
proof (induction es)
  case Nil
  show ?case by (simp add: ad_encode_def)
next
  case (Cons e es)
  obtain t bs where e: "e = (t, bs)" by force
  with Cons.prems have "length bs < 255" by auto
  then have n: "unat (of_nat (Suc (length bs)) :: u8) = Suc (length bs)"
    by (simp add: unat_of_nat take_bit_nat_eq_self del: of_nat_Suc)
  then have "of_nat (Suc (length bs)) \<noteq> (0 :: u8)" by (metis nat.distinct(1) unsigned_0)
  with n e Cons show ?case by (auto simp: ad_encode_def simp del: of_nat_Suc)
qed

section \<open>Filling the buffer\<close>

definition ad_size :: "ble_data list \<Rightarrow> nat" where
  "ad_size ds = sum_list (map (\<lambda>d. 2 + unat (bd_len d)) ds)"

text \<open>No byte of the data lies in the storage that is being filled.\<close>

definition apart :: "buf_simple \<Rightarrow> ble_data list \<Rightarrow> bool" where
  "apart b ds \<longleftrightarrow> (\<forall>d \<in> set ds. \<forall>i < unat (bd_len d). unat (bs_size b) \<le> unat (bd_data d + of_nat i - bs_buf b))"

lemma apart_read:
  assumes "apart b ds" and "d \<in> set ds"
    and "\<And>x. unat (bs_size b) \<le> unat (x - bs_buf b) \<Longrightarrow> m' x = m x"
  shows "ad_element m' d = ad_element m d"
  using assms by (auto simp: ad_element_def apart_def intro: mem_read_cong)

lemma ad_encode_Cons: "ad_encode ((t, bs) # es) = of_nat (Suc (length bs)) # t # bs @ ad_encode es"
  by (simp add: ad_encode_def)

lemma exec_grow_tail:
  assumes "bs_wf b" and "effect_of x (ram s) = Grow_tail bs"
    and "unat (buf_simple_headroom b) + unat (bs_len b) + length bs \<le> unat (bs_size b)"
    and "buf_exec x b s = (b', s')"
  shows "bs_wf b'" and "bs_bytes b' (ram s') = bs_bytes b (ram s) @ bs" and "asserts s' = asserts s"
    and "bs_size b' = bs_size b" and "bs_buf b' = bs_buf b" and "unat (bs_len b') = unat (bs_len b) + length bs"
    and "buf_simple_headroom b' = buf_simple_headroom b"
    and "\<And>a. unat (bs_size b) \<le> unat (a - bs_buf b) \<Longrightarrow> ram s' a = ram s a"
proof -
  have room: "length bs \<le> unat (buf_simple_tailroom b)"
    using assms(3) unat_tailroom [OF assms(1)] by simp
  have eq: "add_bytes b bs s = (b', s')"
    using assms(2,4) by (simp add: buf_exec_effect)
  note ok = add_bytes_ok [OF assms(1) room eq]
  show "bs_wf b'" "bs_bytes b' (ram s') = bs_bytes b (ram s) @ bs" "asserts s' = asserts s"
    "bs_size b' = bs_size b" "bs_buf b' = bs_buf b" "unat (bs_len b') = unat (bs_len b) + length bs"
    "buf_simple_headroom b' = buf_simple_headroom b"
    "\<And>a. unat (bs_size b) \<le> unat (a - bs_buf b) \<Longrightarrow> ram s' a = ram s a"
    using ok by simp_all
qed

lemma adv_fill_ops:
  "adv_fill (d # ds) b m =
     (let (b, m) = buf_run [Add_u8 (bd_len d + 1), Add_u8 (bd_type d), Add_mem (bd_data d) (ucast (bd_len d))] b m
      in adv_fill ds b m)"
  by (simp add: Let_def split: prod.split)

lemma of_nat_Suc_u8: "of_nat (Suc (unat (n :: u8))) = n + 1"
  by simp

text \<open>Filling adds one element after the other; nothing outside the storage changes.\<close>

lemma adv_fill_one:
  assumes "bs_wf b" and "unat (buf_simple_headroom b) + unat (bs_len b) + (2 + unat (bd_len d)) \<le> unat (bs_size b)"
    and "apart b [d]"
    and "buf_run [Add_u8 (bd_len d + 1), Add_u8 (bd_type d), Add_mem (bd_data d) (ucast (bd_len d))] b s = (b', s')"
  shows "bs_wf b'" and "bs_bytes b' (ram s') = bs_bytes b (ram s) @ ad_encode [ad_element (ram s) d]"
    and "asserts s' = asserts s" and "bs_size b' = bs_size b" and "bs_buf b' = bs_buf b"
    and "unat (bs_len b') = unat (bs_len b) + (2 + unat (bd_len d))"
    and "buf_simple_headroom b' = buf_simple_headroom b"
    and "\<And>a. unat (bs_size b) \<le> unat (a - bs_buf b) \<Longrightarrow> ram s' a = ram s a"
proof -
  obtain b1 s1 where x1: "buf_exec (Add_u8 (bd_len d + 1)) b s = (b1, s1)" by force
  obtain b2 s2 where x2: "buf_exec (Add_u8 (bd_type d)) b1 s1 = (b2, s2)" by force
  have x3: "buf_exec (Add_mem (bd_data d) (ucast (bd_len d))) b2 s2 = (b', s')"
    using assms(4) x1 x2 by (simp del: buf_exec.simps)
  note r1 = exec_grow_tail [OF assms(1) _ _ x1, of "[bd_len d + 1]"]
  have f1: "unat (buf_simple_headroom b) + unat (bs_len b) + length [bd_len d + 1] \<le> unat (bs_size b)"
    using assms(2) by simp
  note r1 = r1 [OF _ f1, simplified]
  have f2: "unat (buf_simple_headroom b1) + unat (bs_len b1) + length [bd_type d] \<le> unat (bs_size b1)"
    using assms(2) r1 by simp
  note r2 = exec_grow_tail [OF r1(1) _ f2 x2, simplified]
  have f3: "unat (buf_simple_headroom b2) + unat (bs_len b2) + length (mem_read (ram s2) (bd_data d) (unat (bd_len d))) \<le> unat (bs_size b2)"
    using assms(2) r1 r2 by simp
  note r3 = exec_grow_tail [OF r2(1) _ f3 x3, simplified]
  have e: "mem_read (ram s2) (bd_data d) (unat (bd_len d)) = mem_read (ram s) (bd_data d) (unat (bd_len d))"
    using apart_read [OF assms(3), of d "ram s2" "ram s"] r1 r2 by (simp add: ad_element_def)
  show "bs_wf b'" "asserts s' = asserts s" "bs_size b' = bs_size b" "bs_buf b' = bs_buf b"
    "unat (bs_len b') = unat (bs_len b) + (2 + unat (bd_len d))" "buf_simple_headroom b' = buf_simple_headroom b"
    "\<And>a. unat (bs_size b) \<le> unat (a - bs_buf b) \<Longrightarrow> ram s' a = ram s a"
    using r1 r2 r3 by simp_all
  show "bs_bytes b' (ram s') = bs_bytes b (ram s) @ ad_encode [ad_element (ram s) d]"
    using r1(2) r2(2) r3(2) e by (simp add: ad_encode_def ad_element_def of_nat_Suc_u8)
qed

lemma adv_fill_all:
  assumes "bs_wf b" and "unat (buf_simple_headroom b) + unat (bs_len b) + ad_size ds \<le> unat (bs_size b)"
    and "apart b ds" and "adv_fill ds b s = (b', s')"
  shows "bs_wf b' \<and> bs_bytes b' (ram s') = bs_bytes b (ram s) @ ad_encode (map (ad_element (ram s)) ds) \<and>
    asserts s' = asserts s \<and> bs_size b' = bs_size b \<and> bs_buf b' = bs_buf b \<and>
    unat (bs_len b') = unat (bs_len b) + ad_size ds \<and>
    (\<forall>a. unat (bs_size b) \<le> unat (a - bs_buf b) \<longrightarrow> ram s' a = ram s a)"
  using assms
proof (induction ds arbitrary: b s)
  case Nil
  then show ?case by (simp add: ad_encode_def ad_size_def)
next
  case (Cons d ds)
  obtain b1 s1 where x: "buf_run [Add_u8 (bd_len d + 1), Add_u8 (bd_type d), Add_mem (bd_data d) (ucast (bd_len d))] b s
    = (b1, s1)" by (metis surj_pair)
  have run: "adv_fill ds b1 s1 = (b', s')"
    using Cons.prems(4) x by (simp only: adv_fill_ops Let_def prod.case)
  have f: "unat (buf_simple_headroom b) + unat (bs_len b) + (2 + unat (bd_len d)) \<le> unat (bs_size b)"
    using Cons.prems(2) by (simp add: ad_size_def)
  have a: "apart b [d]" using Cons.prems(3) by (simp add: apart_def)
  note r = adv_fill_one [OF Cons.prems(1) f a x]
  have f': "unat (buf_simple_headroom b1) + unat (bs_len b1) + ad_size ds \<le> unat (bs_size b1)"
    using Cons.prems(2) r by (simp add: ad_size_def)
  have a': "apart b1 ds" using Cons.prems(3) r by (simp add: apart_def)
  have e: "map (ad_element (ram s1)) ds = map (ad_element (ram s)) ds"
  proof (rule map_cong [OF refl])
    fix x assume "x \<in> set ds"
    then show "ad_element (ram s1) x = ad_element (ram s) x"
      using Cons.prems(3) r(8) by (intro apart_read [of b "d # ds"]) simp_all
  qed
  have c: "ad_encode (map (ad_element (ram s)) (d # ds)) =
      ad_encode [ad_element (ram s) d] @ ad_encode (map (ad_element (ram s)) ds)"
    by (simp add: ad_encode_def)
  have n: "ad_size (d # ds) = (2 + unat (bd_len d)) + ad_size ds" by (simp add: ad_size_def)
  from Cons.IH [OF r(1) f' a' run] show ?case
    unfolding c n e r(2-6) using r(8) by simp
qed

lemma reset_room:
  "bs_wf (buf_simple_reset b)" "bs_bytes (buf_simple_reset b) m = []"
  "unat (buf_simple_headroom (buf_simple_reset b)) = 0" "bs_len (buf_simple_reset b) = 0"
  "bs_size (buf_simple_reset b) = bs_size b" "bs_buf (buf_simple_reset b) = bs_buf b"
  by (simp_all add: buf_simple_reset_def bs_wf_def bs_bytes_def buf_simple_headroom_def)

text \<open>The calls that enabling makes, in order, and the effect of a sequence of calls.\<close>

definition adv_payload :: "mem \<Rightarrow> ble_data list \<Rightarrow> u8 list" where
  "adv_payload m ds = ad_encode (map (ad_element m) ds)"

definition adv_calls ::
  "mem \<Rightarrow> ble_adv_param \<Rightarrow> ble_data list option \<Rightarrow> ble_data list option \<Rightarrow> gap_call list" where
  "adv_calls m p ad sd =
     [Role_parameter GAPROLE_ADVERT_ENABLED [1],
      Role_parameter GAPROLE_ADV_EVENT_TYPE [adv_type p],
      Role_parameter GAPROLE_ADV_CHANNEL_MAP [adv_channel p],
      Role_parameter GAPROLE_ADV_FILTER_POLICY [adv_filter_policy p],
      Gap_value TGAP_DISC_ADV_INT_MIN (ucast (adv_interval_min p)),
      Gap_value TGAP_DISC_ADV_INT_MAX (ucast (adv_interval_max p))] @
     (if adv_dir_addr p \<noteq> NULL
      then [Role_parameter GAPROLE_ADV_DIRECT_TYPE [m (adv_dir_addr p)],
            Role_parameter GAPROLE_ADV_DIRECT_ADDR (mem_read m (adv_dir_addr p + 1) B_ADDR_LEN)]
      else []) @
     (case ad of None \<Rightarrow> [] | Some ds \<Rightarrow> [Role_parameter GAPROLE_ADVERT_DATA (adv_payload m ds)]) @
     (case sd of None \<Rightarrow> [] | Some ds \<Rightarrow> [Role_parameter GAPROLE_SCAN_RSP_DATA (adv_payload m ds)])"

primrec run_calls :: "'g gap_lib \<Rightarrow> gap_call list \<Rightarrow> u32 \<times> 'g \<Rightarrow> u32 \<times> 'g" where
  "run_calls lib [] x = x"
| "run_calls lib (c # cs) x = run_calls lib cs (let (st, g) = lib c (snd x) in (fst x OR ucast st, g))"

lemma run_calls_append: "run_calls lib (xs @ ys) x = run_calls lib ys (run_calls lib xs x)"
  by (induction xs arbitrary: x) simp_all

text \<open>Storage of at least 31 bytes and data that fits and lies apart from it.\<close>

definition sendable :: "buf_simple \<Rightarrow> ble_data list option \<Rightarrow> bool" where
  "sendable b ad \<longleftrightarrow>
     (case ad of
        None \<Rightarrow> True
      | Some ds \<Rightarrow> ad_size ds \<le> unat B_MAX_ADV_LEN \<and> apart b ds \<and> bs_size b = B_MAX_ADV_LEN)"

text \<open>What every block keeps: the storage, the reports and all memory outside the storage.\<close>

definition adv_frame :: "'g ble \<Rightarrow> 'g ble \<Rightarrow> bool" where
  "adv_frame s t \<longleftrightarrow> bs_buf (adv_data t) = bs_buf (adv_data s) \<and> bs_size (adv_data t) = bs_size (adv_data s) \<and>
     asserts (ble_machine t) = asserts (ble_machine s) \<and>
     (\<forall>a. unat (bs_size (adv_data s)) \<le> unat (a - bs_buf (adv_data s)) \<longrightarrow>
        ram (ble_machine t) a = ram (ble_machine s) a)"

lemma err_or_calls:
  "fst (err_or lib c (err, s)) = fst (run_calls lib [c] (err, ble_gap s))"
  "ble_gap (snd (err_or lib c (err, s))) = snd (run_calls lib [c] (err, ble_gap s))"
  "adv_data (snd (err_or lib c x)) = adv_data (snd x)" "ble_machine (snd (err_or lib c x)) = ble_machine (snd x)"
  by (simp_all add: err_or_def split: prod.split)

lemma adv_set_data_calls:
  assumes "sendable (adv_data s) (Some ds)"
  shows "let (e, t) = adv_set_data lib param ds (err, s) in
    (e, ble_gap t) = run_calls lib [Role_parameter param (adv_payload (ram (ble_machine s)) ds)] (err, ble_gap s) \<and>
    adv_frame s t"
proof -
  obtain b m where f: "adv_fill ds (buf_simple_reset (adv_data s)) (ble_machine s) = (b, m)" by force
  have size: "ad_size ds \<le> 31" "unat (bs_size (adv_data s)) = 31"
    using assms by (simp_all add: sendable_def B_MAX_ADV_LEN_def)
  have a: "apart (buf_simple_reset (adv_data s)) ds"
    using assms by (auto simp: sendable_def apart_def reset_room)
  have r: "bs_bytes b (ram m) = adv_payload (ram (ble_machine s)) ds" "asserts m = asserts (ble_machine s)"
    "bs_size b = bs_size (adv_data s)" "bs_buf b = bs_buf (adv_data s)" "unat (bs_len b) = ad_size ds"
    "\<forall>a. unat (bs_size (adv_data s)) \<le> unat (a - bs_buf (adv_data s)) \<longrightarrow> ram m a = ram (ble_machine s) a"
    using adv_fill_all [OF reset_room(1) _ a f] size by (simp_all add: reset_room adv_payload_def)
  have n: "unat (ucast (bs_len b) :: u8) = unat (bs_len b)"
    using r(5) size(1) by (simp add: unsigned_ucast_eq take_bit_nat_eq_self)
  then have "mem_read (ram m) (bs_data b) (unat (ucast (bs_len b) :: u8)) = adv_payload (ram (ble_machine s)) ds"
    using r(1) by (simp add: bs_bytes_def)
  with f r show ?thesis
    by (simp add: adv_set_data_def err_or_def adv_frame_def Let_def split: prod.split)
qed

definition calls_done :: "'g gap_lib \<Rightarrow> gap_call list \<Rightarrow> 'g ble \<Rightarrow> u32 \<times> 'g ble \<Rightarrow> bool" where
  "calls_done lib cs s x \<longleftrightarrow>
     (fst x, ble_gap (snd x)) = run_calls lib cs (0, ble_gap s) \<and> adv_frame s (snd x)"

lemma calls_done_start: "calls_done lib [] s (0, s)"
  by (simp add: calls_done_def adv_frame_def)

lemma calls_done_err_or: "calls_done lib cs s x \<Longrightarrow> calls_done lib (cs @ [c]) s (err_or lib c x)"
  by (cases x) (auto simp: calls_done_def run_calls_append err_or_def adv_frame_def split: prod.splits dest: sym)

lemma adv_frame_trans: "adv_frame s t \<Longrightarrow> adv_frame t u \<Longrightarrow> adv_frame s u"
  by (simp add: adv_frame_def)

lemma adv_payload_frame:
  assumes "adv_frame s t" and "apart (adv_data s) ds"
  shows "adv_payload (ram (ble_machine t)) ds = adv_payload (ram (ble_machine s)) ds"
proof -
  have "map (ad_element (ram (ble_machine t))) ds = map (ad_element (ram (ble_machine s))) ds"
    using assms by (intro map_cong [OF refl] apart_read [of "adv_data s" ds]) (simp_all add: adv_frame_def)
  then show ?thesis by (simp only: adv_payload_def)
qed

lemma calls_done_set_data:
  assumes "calls_done lib cs s x" and "sendable (adv_data s) (Some ds)"
  shows "calls_done lib (cs @ [Role_parameter param (adv_payload (ram (ble_machine s)) ds)]) s
    (adv_set_data lib param ds x)"
proof -
  obtain err t where x: "x = (err, t)" by force
  obtain e u where u: "adv_set_data lib param ds (err, t) = (e, u)" by force
  have f: "adv_frame s t" and r: "(err, ble_gap t) = run_calls lib cs (0, ble_gap s)"
    using assms(1) x by (simp_all add: calls_done_def)
  have "sendable (adv_data t) (Some ds)"
    using assms(2) f by (auto simp: sendable_def adv_frame_def apart_def)
  from adv_set_data_calls [OF this, of lib param err] u
  have "(e, ble_gap u) = run_calls lib [Role_parameter param (adv_payload (ram (ble_machine t)) ds)] (err, ble_gap t)"
    and g: "adv_frame t u" by simp_all
  moreover have "adv_payload (ram (ble_machine t)) ds = adv_payload (ram (ble_machine s)) ds"
    using f assms(2) by (intro adv_payload_frame) (simp_all add: sendable_def)
  ultimately show ?thesis
    using adv_frame_trans [OF f g] r x u by (simp add: calls_done_def run_calls_append del: run_calls.simps)
qed

text \<open>All the calls of \<open>ble_adv_enable\<close>, with what the blocks keep.\<close>

lemma ble_adv_enable_done:
  assumes "sendable (adv_data s) ad" and "sendable (adv_data s) sd"
  shows "\<exists>x. ble_adv_enable lib (Some p) ad sd s = Some x \<and> calls_done lib (adv_calls (ram (ble_machine s)) p ad sd) s x"
proof -
  let ?m = "ram (ble_machine s)"
  let ?fixed = "[Role_parameter GAPROLE_ADVERT_ENABLED [1], Role_parameter GAPROLE_ADV_EVENT_TYPE [adv_type p],
    Role_parameter GAPROLE_ADV_CHANNEL_MAP [adv_channel p],
    Role_parameter GAPROLE_ADV_FILTER_POLICY [adv_filter_policy p],
    Gap_value TGAP_DISC_ADV_INT_MIN (ucast (adv_interval_min p)),
    Gap_value TGAP_DISC_ADV_INT_MAX (ucast (adv_interval_max p))]"
  let ?direct = "[Role_parameter GAPROLE_ADV_DIRECT_TYPE [?m (adv_dir_addr p)],
    Role_parameter GAPROLE_ADV_DIRECT_ADDR (mem_read ?m (adv_dir_addr p + 1) B_ADDR_LEN)]"
  define x1 where "x1 = fold (err_or lib) ?fixed (0, s)"
  define x2 where "x2 = (if adv_dir_addr p \<noteq> NULL then fold (err_or lib) ?direct x1 else x1)"
  define x3 where "x3 = (case ad of None \<Rightarrow> x2 | Some ds \<Rightarrow> adv_set_data lib GAPROLE_ADVERT_DATA ds x2)"
  define x4 where "x4 = (case sd of None \<Rightarrow> x3 | Some ds \<Rightarrow> adv_set_data lib GAPROLE_SCAN_RSP_DATA ds x3)"
  have fold: "calls_done lib (cs @ ds) s (fold (err_or lib) ds x)" if "calls_done lib cs s x" for cs ds x
    using that
  proof (induction ds arbitrary: cs x)
    case (Cons d ds)
    show ?case using Cons.IH [OF calls_done_err_or [OF Cons.prems]] by simp
  qed simp
  have r: "ble_adv_enable lib (Some p) ad sd s = Some x4"
    unfolding ble_adv_enable_def x1_def x2_def x3_def x4_def Let_def
    by (cases "adv_dir_addr p = NULL"; cases ad; cases sd) simp_all
  have "calls_done lib ?fixed s x1"
    using fold [OF calls_done_start, of ?fixed] unfolding x1_def by simp
  then have "calls_done lib (?fixed @ (if adv_dir_addr p \<noteq> NULL then ?direct else [])) s x2"
    using fold [of ?fixed x1 ?direct] unfolding x2_def by simp
  from calls_done_set_data [OF this, of _ GAPROLE_ADVERT_DATA] this assms(1)
  have "calls_done lib (?fixed @ (if adv_dir_addr p \<noteq> NULL then ?direct else []) @
      (case ad of None \<Rightarrow> [] | Some ds \<Rightarrow> [Role_parameter GAPROLE_ADVERT_DATA (adv_payload ?m ds)])) s x3"
    unfolding x3_def by (cases ad) simp_all
  from calls_done_set_data [OF this, of _ GAPROLE_SCAN_RSP_DATA] this assms(2)
  have "calls_done lib (adv_calls ?m p ad sd) s x4"
    unfolding x4_def adv_calls_def by (cases sd) simp_all
  with r show ?thesis by blast
qed

section \<open>Properties\<close>

text \<open>C9: when the advertising and scan response data fit 31 bytes, \<open>ble_adv_enable\<close> makes exactly the library calls
  of its parameters, in order, with the data as a sequence of length, type, value elements; it returns the or of
  their status bytes, reports no assertion and changes no memory outside the static buffer.\<close>

theorem ble_adv_enable_calls:
  assumes "sendable (adv_data s) ad" and "sendable (adv_data s) sd"
  shows "\<exists>err t. ble_adv_enable lib (Some p) ad sd s = Some (err, t) \<and>
    (err, ble_gap t) = run_calls lib (adv_calls (ram (ble_machine s)) p ad sd) (0, ble_gap s) \<and>
    asserts (ble_machine t) = asserts (ble_machine s) \<and>
    (\<forall>a. unat (bs_size (adv_data s)) \<le> unat (a - bs_buf (adv_data s)) \<longrightarrow>
       ram (ble_machine t) a = ram (ble_machine s) a)"
  using ble_adv_enable_done [OF assms, of lib p] by (auto simp: calls_done_def adv_frame_def)

text \<open>A receiver that parses the payload of at most 31 bytes as length, type, value elements gets back exactly the
  types and bytes that the application handed over.\<close>

theorem adv_payload_parses:
  assumes "ad_size ds \<le> unat B_MAX_ADV_LEN"
  shows "ad_parse (adv_payload m ds) = Some (map (ad_element m) ds) \<and> length (adv_payload m ds) = ad_size ds"
proof -
  have "unat (bd_len d) < 255" if "d \<in> set ds" for d
    using member_le_sum_list [of "2 + unat (bd_len d)" "map (\<lambda>d. 2 + unat (bd_len d)) ds"] that assms
    by (auto simp: ad_size_def B_MAX_ADV_LEN_def)
  then have "ad_parse (adv_payload m ds) = Some (map (ad_element m) ds)"
    unfolding adv_payload_def by (intro ad_parse_encode) (auto simp: ad_element_def)
  moreover have "length (adv_payload m ds) = ad_size ds"
    by (induction ds) (simp_all add: adv_payload_def ad_encode_def ad_size_def ad_element_def)
  ultimately show ?thesis by simp
qed

section \<open>Examples\<close>

definition adv_example :: "gap_call list ble" where
  "adv_example = \<lparr>adv_data = BUF_SIMPLE_DEFINE 0x20004000 B_MAX_ADV_LEN,
     ble_machine = \<lparr>ram = \<lambda>a. ucast a, assert_on = True, asserts = 0\<rparr>, ble_gap = []\<rparr>"

definition flags_element :: ble_data where
  "flags_element = \<lparr>bd_len = 1, bd_type = 1, bd_data = 0x20005006\<rparr>"

definition logging_lib :: "gap_call list gap_lib" where
  "logging_lib c g = (0, g @ [c])"

lemma adv_payload_example: "adv_payload (\<lambda>a. ucast a) [flags_element] = [2, 1, 6]"
  by (simp add: adv_payload_def ad_encode_def ad_element_def flags_element_def mem_read_def)

lemma ble_adv_enable_calls_witness:
  "\<exists>t. ble_adv_enable logging_lib (Some \<lparr>adv_type = 0, adv_channel = 7, adv_filter_policy = 0, adv_interval_min = 100,
       adv_interval_max = 150, adv_dir_addr = NULL\<rparr>) (Some [flags_element]) None adv_example = Some (0, t) \<and>
     last (ble_gap t) = Role_parameter GAPROLE_ADVERT_DATA [2, 1, 6] \<and> length (ble_gap t) = 7"
proof -
  let ?p = "\<lparr>adv_type = 0, adv_channel = 7, adv_filter_policy = 0, adv_interval_min = 100,
       adv_interval_max = 150, adv_dir_addr = NULL\<rparr>"
  have "sendable (adv_data adv_example) (Some [flags_element])" "sendable (adv_data adv_example) None"
    by (simp_all add: sendable_def ad_size_def apart_def adv_example_def flags_element_def B_MAX_ADV_LEN_def
        BUF_SIMPLE_DEFINE_def)
  from ble_adv_enable_calls [OF this, of logging_lib ?p] show ?thesis
    by (auto simp: adv_example_def logging_lib_def adv_calls_def adv_payload_example)
qed

lemma adv_payload_parses_witness:
  "ad_parse (adv_payload (\<lambda>a. ucast a) [flags_element]) = Some [(1, [6])] \<and>
   length (adv_payload (\<lambda>a. ucast a) [flags_element]) = 3"
  using adv_payload_parses [of "[flags_element]" "\<lambda>a. ucast a"]
  by (simp add: ad_size_def flags_element_def B_MAX_ADV_LEN_def ad_element_def mem_read_def)

end
