(* ===== verification/Gatt_Services.thy ===== *)
theory Gatt_Services
  imports Buf
begin

text \<open>
  The GATT services of \<^verbatim>\<open>subsys/bluetooth/services\<close>: the device information service (\<^verbatim>\<open>dis.c\<close>), the heart rate
  service (\<^verbatim>\<open>hrs.c\<close>) and the simple profile (\<^verbatim>\<open>sps.c\<close>), with their headers.

  The functions that the Bluetooth library offers to a service are arguments: the handler of client configuration
  writes, the buffer allocator, the configuration lookup and the notification sender, on a library state of any
  type.  Static variables that the code writes have an address in the byte memory; constant strings are byte lists.
  What a read function stores through its length pointer is an \<open>option\<close>, \<open>None\<close> when it leaves it alone.
  Calls of an application callback are collected in a list; which callbacks are set is an argument.
\<close>

section \<open>Attributes and constants\<close>

record gatt_attribute =
  at_type_len :: u8
  at_uuid :: addr
  at_permissions :: u8
  at_handle :: u16
  at_pValue :: addr

definition SUCCESS :: u8 where "SUCCESS = 0"
definition INVALIDPARAMETER :: u8 where "INVALIDPARAMETER = 0x02"
definition ATT_ERR_INVALID_HANDLE :: u8 where "ATT_ERR_INVALID_HANDLE = 0x01"
definition ATT_ERR_INVALID_OFFSET :: u8 where "ATT_ERR_INVALID_OFFSET = 0x07"
definition ATT_ERR_INSUFFICIENT_AUTHOR :: u8 where "ATT_ERR_INSUFFICIENT_AUTHOR = 0x08"
definition ATT_ERR_ATTR_NOT_FOUND :: u8 where "ATT_ERR_ATTR_NOT_FOUND = 0x0A"
definition ATT_ERR_ATTR_NOT_LONG :: u8 where "ATT_ERR_ATTR_NOT_LONG = 0x0B"
definition ATT_ERR_INVALID_VALUE_SIZE :: u8 where "ATT_ERR_INVALID_VALUE_SIZE = 0x0D"
definition bleIncorrectMode :: u8 where "bleIncorrectMode = 0x12"
definition bleMemAllocError :: u8 where "bleMemAllocError = 0x13"
definition bleNotConnected :: u8 where "bleNotConnected = 0x14"
definition bleInvalidRange :: u8 where "bleInvalidRange = 0x18"
definition GATT_PERMIT_AUTHOR_READ :: u8 where "GATT_PERMIT_AUTHOR_READ = 0x10"
definition GATT_PERMIT_AUTHOR_WRITE :: u8 where "GATT_PERMIT_AUTHOR_WRITE = 0x20"
definition GATT_CLIENT_CHAR_CFG_UUID :: u16 where "GATT_CLIENT_CHAR_CFG_UUID = 0x2902"
definition GATT_CLIENT_CFG_NOTIFY :: u16 where "GATT_CLIENT_CFG_NOTIFY = 0x0001"
definition GAP_CONNHANDLE_INIT :: u16 where "GAP_CONNHANDLE_INIT = 0xFFFE"
definition ATT_BT_UUID_SIZE :: u8 where "ATT_BT_UUID_SIZE = 2"
definition ATT_HANDLE_VALUE_NOTI :: u8 where "ATT_HANDLE_VALUE_NOTI = 0x1B"

definition gattPermitAuthorRead :: "u8 \<Rightarrow> u8" where
  "gattPermitAuthorRead a = a AND GATT_PERMIT_AUTHOR_READ"

definition gattPermitAuthorWrite :: "u8 \<Rightarrow> u8" where
  "gattPermitAuthorWrite a = a AND GATT_PERMIT_AUTHOR_WRITE"

lemmas att_codes = SUCCESS_def INVALIDPARAMETER_def ATT_ERR_INVALID_HANDLE_def ATT_ERR_INVALID_OFFSET_def
  ATT_ERR_INSUFFICIENT_AUTHOR_def ATT_ERR_ATTR_NOT_FOUND_def ATT_ERR_ATTR_NOT_LONG_def
  ATT_ERR_INVALID_VALUE_SIZE_def bleIncorrectMode_def bleMemAllocError_def bleNotConnected_def bleInvalidRange_def

section \<open>Device information\<close>

definition SYSTEM_ID_UUID :: u16 where "SYSTEM_ID_UUID = 0x2A23"
definition MODEL_NUMBER_UUID :: u16 where "MODEL_NUMBER_UUID = 0x2A24"
definition SERIAL_NUMBER_UUID :: u16 where "SERIAL_NUMBER_UUID = 0x2A25"
definition FIRMWARE_REV_UUID :: u16 where "FIRMWARE_REV_UUID = 0x2A26"
definition HARDWARE_REV_UUID :: u16 where "HARDWARE_REV_UUID = 0x2A27"
definition SOFTWARE_REV_UUID :: u16 where "SOFTWARE_REV_UUID = 0x2A28"
definition MANUFACTURER_NAME_UUID :: u16 where "MANUFACTURER_NAME_UUID = 0x2A29"
definition IEEE_11073_CERT_DATA_UUID :: u16 where "IEEE_11073_CERT_DATA_UUID = 0x2A2A"
definition PNP_ID_UUID :: u16 where "PNP_ID_UUID = 0x2A50"
definition DEVINFO_SYSTEM_ID :: u8 where "DEVINFO_SYSTEM_ID = 0"
definition DEVINFO_MODEL_NUMBER :: u8 where "DEVINFO_MODEL_NUMBER = 1"
definition DEVINFO_SERIAL_NUMBER :: u8 where "DEVINFO_SERIAL_NUMBER = 2"
definition DEVINFO_FIRMWARE_REV :: u8 where "DEVINFO_FIRMWARE_REV = 3"
definition DEVINFO_HARDWARE_REV :: u8 where "DEVINFO_HARDWARE_REV = 4"
definition DEVINFO_SOFTWARE_REV :: u8 where "DEVINFO_SOFTWARE_REV = 5"
definition DEVINFO_MANUFACTURER_NAME :: u8 where "DEVINFO_MANUFACTURER_NAME = 6"
definition DEVINFO_11073_CERT_DATA :: u8 where "DEVINFO_11073_CERT_DATA = 7"
definition DEVINFO_PNP_ID :: u8 where "DEVINFO_PNP_ID = 8"
definition DEVINFO_11073_BODY_EXP :: u8 where "DEVINFO_11073_BODY_EXP = 254"
definition DEVINFO_SYSTEM_ID_LEN :: nat where "DEVINFO_SYSTEM_ID_LEN = 8"

text \<open>The bytes of a string literal, with its terminating zero.\<close>

definition c_string :: "string \<Rightarrow> u8 list" where
  "c_string cs = map of_char cs @ [0]"

definition devInfoModelNumber :: "u8 list" where
  "devInfoModelNumber = c_string ''Model Number''"
definition devInfoSerialNumber :: "u8 list" where
  "devInfoSerialNumber = c_string ''Serial Number''"
definition devInfoFirmwareRev :: "u8 list" where
  "devInfoFirmwareRev = c_string ''Firmware Revision''"
definition devInfoHardwareRev :: "u8 list" where
  "devInfoHardwareRev = c_string ''Hardware Revision''"
definition devInfoSoftwareRev :: "u8 list" where
  "devInfoSoftwareRev = c_string ''Software Revision''"
definition devInfoMfrName :: "u8 list" where
  "devInfoMfrName = c_string ''Manufacturer Name''"
definition devInfo11073Cert :: "u8 list" where
  "devInfo11073Cert = [DEVINFO_11073_BODY_EXP, 0] @ map of_char ''experimental''"
definition devInfoPnpId :: "u8 list" where
  "devInfoPnpId = [1, 0xD7, 0x07, 0, 0, 0x10, 0x01]"

text \<open>One case of the read function: \<open>n\<close> bytes of \<open>arr\<close> can be read.\<close>

definition dis_read_case :: "u8 list \<Rightarrow> nat \<Rightarrow> addr \<Rightarrow> u16 \<Rightarrow> u16 \<Rightarrow> mem \<Rightarrow> u8 \<times> u16 option \<times> mem" where
  "dis_read_case arr n pValue offset maxLen m =
     (if unat offset \<ge> n then (ATT_ERR_INVALID_OFFSET, None, m)
      else
        let pLen = min (unat maxLen) (n - unat offset)
        in (SUCCESS, Some (of_nat pLen), mem_write m pValue (take pLen (drop (unat offset) arr))))"

definition dis_read :: "addr \<Rightarrow> gatt_attribute \<Rightarrow> addr \<Rightarrow> u16 \<Rightarrow> u16 \<Rightarrow> mem \<Rightarrow> u8 \<times> u16 option \<times> mem" where
  "dis_read devInfoSystemId pAttr pValue offset maxLen m =
     (let uuid = le_val [m (at_uuid pAttr), m (at_uuid pAttr + 1)];
          sysid = mem_read m devInfoSystemId DEVINFO_SYSTEM_ID_LEN
      in if uuid = SYSTEM_ID_UUID then dis_read_case sysid (length sysid) pValue offset maxLen m
         else if uuid = MODEL_NUMBER_UUID
           then dis_read_case devInfoModelNumber (length devInfoModelNumber - 1) pValue offset maxLen m
         else if uuid = SERIAL_NUMBER_UUID
           then dis_read_case devInfoSerialNumber (length devInfoSerialNumber - 1) pValue offset maxLen m
         else if uuid = FIRMWARE_REV_UUID
           then dis_read_case devInfoFirmwareRev (length devInfoFirmwareRev - 1) pValue offset maxLen m
         else if uuid = HARDWARE_REV_UUID
           then dis_read_case devInfoHardwareRev (length devInfoHardwareRev - 1) pValue offset maxLen m
         else if uuid = SOFTWARE_REV_UUID
           then dis_read_case devInfoSoftwareRev (length devInfoSoftwareRev - 1) pValue offset maxLen m
         else if uuid = MANUFACTURER_NAME_UUID
           then dis_read_case devInfoMfrName (length devInfoMfrName - 1) pValue offset maxLen m
         else if uuid = IEEE_11073_CERT_DATA_UUID
           then dis_read_case devInfo11073Cert (length devInfo11073Cert) pValue offset maxLen m
         else if uuid = PNP_ID_UUID
           then dis_read_case devInfoPnpId (length devInfoPnpId) pValue offset maxLen m
         else (ATT_ERR_ATTR_NOT_FOUND, Some 0, m))"

definition dis_set_param :: "addr \<Rightarrow> u8 \<Rightarrow> u8 \<Rightarrow> addr \<Rightarrow> mem \<Rightarrow> u8 \<times> mem" where
  "dis_set_param devInfoSystemId param n value m =
     (if param = DEVINFO_SYSTEM_ID then (SUCCESS, memcpy devInfoSystemId value (ucast n) m)
      else (INVALIDPARAMETER, m))"

definition dis_get_param :: "addr \<Rightarrow> u8 \<Rightarrow> addr \<Rightarrow> mem \<Rightarrow> u8 \<times> mem" where
  "dis_get_param devInfoSystemId param value m =
     (if param = DEVINFO_SYSTEM_ID
        then (SUCCESS, mem_write m value (mem_read m devInfoSystemId DEVINFO_SYSTEM_ID_LEN))
      else if param = DEVINFO_MODEL_NUMBER then (SUCCESS, mem_write m value devInfoModelNumber)
      else if param = DEVINFO_SERIAL_NUMBER then (SUCCESS, mem_write m value devInfoSerialNumber)
      else if param = DEVINFO_FIRMWARE_REV then (SUCCESS, mem_write m value devInfoFirmwareRev)
      else if param = DEVINFO_HARDWARE_REV then (SUCCESS, mem_write m value devInfoHardwareRev)
      else if param = DEVINFO_SOFTWARE_REV then (SUCCESS, mem_write m value devInfoSoftwareRev)
      else if param = DEVINFO_MANUFACTURER_NAME then (SUCCESS, mem_write m value devInfoMfrName)
      else if param = DEVINFO_11073_CERT_DATA then (SUCCESS, mem_write m value devInfo11073Cert)
      else if param = DEVINFO_PNP_ID then (SUCCESS, mem_write m value devInfoPnpId)
      else (INVALIDPARAMETER, m))"

section \<open>Notifications\<close>

text \<open>The library functions that sending a notification needs, and the common steps of \<open>hrs_meas_notify\<close> and
  \<open>sps_notify\<close>; the buffer is allocated and filled before the client's configuration is looked at.\<close>

record 'g gatt_lib =
  bm_alloc :: "u16 \<Rightarrow> u8 \<Rightarrow> u16 \<Rightarrow> 'g \<Rightarrow> addr \<times> 'g"
  read_char_cfg :: "u16 \<Rightarrow> 'g \<Rightarrow> u16"
  notification :: "u16 \<Rightarrow> addr \<Rightarrow> u16 \<Rightarrow> u16 \<Rightarrow> mem \<Rightarrow> 'g \<Rightarrow> u8 \<times> 'g"

definition notify_value ::
  "'g gatt_lib \<Rightarrow> u16 \<Rightarrow> u16 \<Rightarrow> addr \<Rightarrow> u32 \<Rightarrow> mem \<times> 'g \<Rightarrow> u8 \<times> mem \<times> 'g" where
  "notify_value lib handle conn value n s =
     (let (m, g) = s
      in if conn = GAP_CONNHANDLE_INIT then (bleNotConnected, m, g)
         else
           let (p, g) = bm_alloc lib conn ATT_HANDLE_VALUE_NOTI (ucast n) g
           in if p = NULL then (bleMemAllocError, m, g)
              else
                let m = memcpy p value n m;
                    ccc_cfg = read_char_cfg lib conn g
                in if ccc_cfg AND GATT_CLIENT_CFG_NOTIFY = 0 then (bleIncorrectMode, m, g)
                   else let (st, g) = notification lib conn p (ucast n) handle m g in (st, m, g))"

section \<open>Heart rate\<close>

definition BODY_SENSOR_LOC_UUID :: u16 where "BODY_SENSOR_LOC_UUID = 0x2A38"
definition HEARTRATE_CTRL_PT_UUID :: u16 where "HEARTRATE_CTRL_PT_UUID = 0x2A39"
definition HRS_CTRL_ENERGY_EXP :: u8 where "HRS_CTRL_ENERGY_EXP = 0x01"
definition HRS_ERR_CTRL_POINT_NOTSUP :: u8 where "HRS_ERR_CTRL_POINT_NOTSUP = 0x80"

text \<open>The callbacks an application may set; \<open>None\<close> is a null pointer to the structure.\<close>

record hrs_cb_t =
  hrs_ctrl_energy_exp :: bool
  hrs_ccc_changed :: bool

datatype hrs_event = Energy_exp | Hrs_ccc u16

record 'g service_state =
  svc_mem :: mem
  svc_lib :: 'g

text \<open>\<open>ccc_write\<close> is \<open>GATTServApp_ProcessCCCWriteReq\<close>.\<close>

type_synonym 'g ccc_write =
  "u16 \<Rightarrow> gatt_attribute \<Rightarrow> addr \<Rightarrow> u16 \<Rightarrow> u16 \<Rightarrow> u16 \<Rightarrow> 'g service_state \<Rightarrow> u8 \<times> 'g service_state"

definition hrs_read :: "gatt_attribute \<Rightarrow> addr \<Rightarrow> u16 \<Rightarrow> u16 \<Rightarrow> mem \<Rightarrow> u8 \<times> u16 option \<times> mem" where
  "hrs_read pAttr pValue offset maxLen m =
     (let uuid = sys_get_le16 (at_uuid pAttr) m
      in if offset > 0 then (ATT_ERR_ATTR_NOT_LONG, None, m)
         else if uuid = BODY_SENSOR_LOC_UUID then (SUCCESS, Some 1, m(pValue := m (at_pValue pAttr)))
         else (ATT_ERR_ATTR_NOT_FOUND, None, m))"

definition hrs_write ::
  "'g ccc_write \<Rightarrow> hrs_cb_t option \<Rightarrow> u16 \<Rightarrow> gatt_attribute \<Rightarrow> addr \<Rightarrow> u16 \<Rightarrow> u16 \<Rightarrow> 'g service_state \<Rightarrow>
   u8 \<times> hrs_event list \<times> 'g service_state" where
  "hrs_write ccc_write cb conn pAttr pValue n offset s =
     (let m = svc_mem s;
          uuid = sys_get_le16 (at_uuid pAttr) m
      in if uuid = HEARTRATE_CTRL_PT_UUID then
           if offset > 0 then (ATT_ERR_ATTR_NOT_LONG, [], s)
           else if n \<noteq> 1 then (ATT_ERR_INVALID_VALUE_SIZE, [], s)
           else if m pValue \<noteq> HRS_CTRL_ENERGY_EXP then (HRS_ERR_CTRL_POINT_NOTSUP, [], s)
           else
             (SUCCESS, (case cb of Some c \<Rightarrow> if hrs_ctrl_energy_exp c then [Energy_exp] else [] | None \<Rightarrow> []),
              s\<lparr>svc_mem := m(at_pValue pAttr := m pValue)\<rparr>)
         else if uuid = GATT_CLIENT_CHAR_CFG_UUID then
           let (status, s) = ccc_write conn pAttr pValue n offset GATT_CLIENT_CFG_NOTIFY s
           in if status = SUCCESS
              then (status, (case cb of
                      Some c \<Rightarrow> if hrs_ccc_changed c then [Hrs_ccc (sys_get_le16 pValue (svc_mem s))] else []
                    | None \<Rightarrow> []), s)
              else (status, [], s)
         else (ATT_ERR_ATTR_NOT_FOUND, [], s))"

definition hrs_auth :: "u16 \<Rightarrow> gatt_attribute \<Rightarrow> u8 \<Rightarrow> u8" where
  "hrs_auth conn pAttr opcode = 0"

definition hrs_set_sens_loc :: "addr \<Rightarrow> u8 \<Rightarrow> mem \<Rightarrow> mem" where
  "hrs_set_sens_loc heartRateSensLoc loc m = m(heartRateSensLoc := loc)"

definition hrs_get_ctrl_point :: "addr \<Rightarrow> mem \<Rightarrow> u8" where
  "hrs_get_ctrl_point hrs_ctrl_point m = m hrs_ctrl_point"

text \<open>The notified attribute is the third of the service.\<close>

definition hrs_meas_notify ::
  "'g gatt_lib \<Rightarrow> gatt_attribute list \<Rightarrow> u16 \<Rightarrow> addr \<Rightarrow> u32 \<Rightarrow> mem \<times> 'g \<Rightarrow> u8 \<times> mem \<times> 'g" where
  "hrs_meas_notify lib hrs_srv conn value n s = notify_value lib (at_handle (hrs_srv ! 2)) conn value n s"

section \<open>Simple profile\<close>

definition SIMPLEPROFILE_CHAR1 :: u8 where "SIMPLEPROFILE_CHAR1 = 0"
definition SIMPLEPROFILE_CHAR2 :: u8 where "SIMPLEPROFILE_CHAR2 = 1"
definition SIMPLEPROFILE_CHAR3 :: u8 where "SIMPLEPROFILE_CHAR3 = 2"
definition SIMPLEPROFILE_CHAR4 :: u8 where "SIMPLEPROFILE_CHAR4 = 3"
definition SIMPLEPROFILE_CHAR5 :: u8 where "SIMPLEPROFILE_CHAR5 = 4"
definition SIMPLEPROFILE_CHAR1_UUID :: u16 where "SIMPLEPROFILE_CHAR1_UUID = 0xFFE1"
definition SIMPLEPROFILE_CHAR2_UUID :: u16 where "SIMPLEPROFILE_CHAR2_UUID = 0xFFE2"
definition SIMPLEPROFILE_CHAR3_UUID :: u16 where "SIMPLEPROFILE_CHAR3_UUID = 0xFFE3"
definition SIMPLEPROFILE_CHAR4_UUID :: u16 where "SIMPLEPROFILE_CHAR4_UUID = 0xFFE4"
definition SIMPLEPROFILE_CHAR5_UUID :: u16 where "SIMPLEPROFILE_CHAR5_UUID = 0xFFE5"
definition SIMPLEPROFILE_CHAR1_LEN :: u16 where "SIMPLEPROFILE_CHAR1_LEN = 1"
definition SIMPLEPROFILE_CHAR2_LEN :: u16 where "SIMPLEPROFILE_CHAR2_LEN = 1"
definition SIMPLEPROFILE_CHAR3_LEN :: u16 where "SIMPLEPROFILE_CHAR3_LEN = 1"
definition SIMPLEPROFILE_CHAR4_LEN :: u16 where "SIMPLEPROFILE_CHAR4_LEN = 1"
definition SIMPLEPROFILE_CHAR5_LEN :: u16 where "SIMPLEPROFILE_CHAR5_LEN = 5"

record sps_cb_t =
  sps_value_changed :: bool
  sps_ccc_changed :: bool

datatype sps_event = Value_changed u8 addr u16 | Sps_ccc u16

record sps_statics =
  simpleProfileChar1 :: addr
  simpleProfileChar2 :: addr
  simpleProfileChar3 :: addr
  simpleProfileChar4 :: addr
  simpleProfileChar5 :: addr

definition sps_read_case :: "u16 \<Rightarrow> gatt_attribute \<Rightarrow> addr \<Rightarrow> u16 \<Rightarrow> mem \<Rightarrow> u8 \<times> u16 option \<times> mem" where
  "sps_read_case n pAttr pValue maxLen m =
     (let pLen = (if maxLen > n then n else maxLen)
      in (SUCCESS, Some pLen, memcpy pValue (at_pValue pAttr) (ucast pLen) m))"

definition sps_read :: "gatt_attribute \<Rightarrow> addr \<Rightarrow> u16 \<Rightarrow> u16 \<Rightarrow> mem \<Rightarrow> u8 \<times> u16 option \<times> mem" where
  "sps_read pAttr pValue offset maxLen m =
     (if gattPermitAuthorRead (at_permissions pAttr) \<noteq> 0 then (ATT_ERR_INSUFFICIENT_AUTHOR, None, m)
      else if offset > 0 then (ATT_ERR_ATTR_NOT_LONG, None, m)
      else if at_type_len pAttr = ATT_BT_UUID_SIZE then
        let uuid = sys_get_le16 (at_uuid pAttr) m
        in if uuid = SIMPLEPROFILE_CHAR1_UUID then sps_read_case SIMPLEPROFILE_CHAR1_LEN pAttr pValue maxLen m
           else if uuid = SIMPLEPROFILE_CHAR2_UUID then sps_read_case SIMPLEPROFILE_CHAR2_LEN pAttr pValue maxLen m
           else if uuid = SIMPLEPROFILE_CHAR4_UUID then sps_read_case SIMPLEPROFILE_CHAR4_LEN pAttr pValue maxLen m
           else if uuid = SIMPLEPROFILE_CHAR5_UUID then sps_read_case SIMPLEPROFILE_CHAR5_LEN pAttr pValue maxLen m
           else (ATT_ERR_ATTR_NOT_FOUND, Some 0, m)
      else (ATT_ERR_INVALID_HANDLE, Some 0, m))"

text \<open>Writing a value: the length of the request is compared with the length \<open>charlen\<close> of the characteristic, and
  \<open>charlen\<close> bytes are copied.\<close>

definition sps_write_case ::
  "u16 \<Rightarrow> u8 \<Rightarrow> gatt_attribute \<Rightarrow> addr \<Rightarrow> u16 \<Rightarrow> u16 \<Rightarrow> mem \<Rightarrow> u8 \<times> u8 \<times> mem" where
  "sps_write_case charlen charc pAttr pValue n offset m =
     (let status = (if offset = 0 then if n > charlen then ATT_ERR_INVALID_VALUE_SIZE else SUCCESS
                    else ATT_ERR_ATTR_NOT_LONG)
      in if status = SUCCESS then (status, charc, memcpy (at_pValue pAttr) pValue (ucast charlen) m)
         else (status, 0xFF, m))"

definition sps_write ::
  "'g ccc_write \<Rightarrow> sps_cb_t option \<Rightarrow> u16 \<Rightarrow> gatt_attribute \<Rightarrow> addr \<Rightarrow> u16 \<Rightarrow> u16 \<Rightarrow> 'g service_state \<Rightarrow>
   u8 \<times> sps_event list \<times> 'g service_state" where
  "sps_write ccc_write cb conn pAttr pValue n offset s =
     (if gattPermitAuthorWrite (at_permissions pAttr) \<noteq> 0 then (ATT_ERR_INSUFFICIENT_AUTHOR, [], s)
      else
        let uuid = sys_get_le16 (at_uuid pAttr) (svc_mem s);
            (status, notifyApp, evs, s) =
              (if at_type_len pAttr = ATT_BT_UUID_SIZE then
                 if uuid = SIMPLEPROFILE_CHAR1_UUID then
                   let (status, app, m) = sps_write_case SIMPLEPROFILE_CHAR1_LEN SIMPLEPROFILE_CHAR1 pAttr pValue n
                         offset (svc_mem s)
                   in (status, app, [], s\<lparr>svc_mem := m\<rparr>)
                 else if uuid = SIMPLEPROFILE_CHAR3_UUID then
                   let (status, app, m) = sps_write_case SIMPLEPROFILE_CHAR3_LEN SIMPLEPROFILE_CHAR3 pAttr pValue n
                         offset (svc_mem s)
                   in (status, app, [], s\<lparr>svc_mem := m\<rparr>)
                 else if uuid = GATT_CLIENT_CHAR_CFG_UUID then
                   let (status, s) = ccc_write conn pAttr pValue n offset GATT_CLIENT_CFG_NOTIFY s
                   in (status, 0xFF,
                       (if status = SUCCESS
                        then case cb of
                               Some c \<Rightarrow> if sps_ccc_changed c then [Sps_ccc (sys_get_le16 pValue (svc_mem s))] else []
                             | None \<Rightarrow> []
                        else []), s)
                 else (ATT_ERR_ATTR_NOT_FOUND, 0xFF, [], s)
               else (ATT_ERR_INVALID_HANDLE, 0xFF, [], s))
        in (status,
            evs @ (if notifyApp \<noteq> 0xFF
                   then case cb of
                          Some c \<Rightarrow> if sps_value_changed c then [Value_changed notifyApp pValue n] else []
                        | None \<Rightarrow> []
                   else []), s))"

definition sps_set_param :: "sps_statics \<Rightarrow> u8 \<Rightarrow> addr \<Rightarrow> u32 \<Rightarrow> mem \<Rightarrow> u8 \<times> mem" where
  "sps_set_param st charc value n m =
     (if charc = SIMPLEPROFILE_CHAR1 then
        if n = ucast SIMPLEPROFILE_CHAR1_LEN
        then (0, memcpy (simpleProfileChar1 st) value (ucast SIMPLEPROFILE_CHAR1_LEN) m) else (bleInvalidRange, m)
      else if charc = SIMPLEPROFILE_CHAR2 then
        if n = ucast SIMPLEPROFILE_CHAR2_LEN
        then (0, memcpy (simpleProfileChar2 st) value (ucast SIMPLEPROFILE_CHAR2_LEN) m) else (bleInvalidRange, m)
      else if charc = SIMPLEPROFILE_CHAR3 then
        if n = ucast SIMPLEPROFILE_CHAR3_LEN
        then (0, memcpy (simpleProfileChar3 st) value (ucast SIMPLEPROFILE_CHAR3_LEN) m) else (bleInvalidRange, m)
      else if charc = SIMPLEPROFILE_CHAR4 then
        if n = ucast SIMPLEPROFILE_CHAR4_LEN
        then (0, memcpy (simpleProfileChar4 st) value (ucast SIMPLEPROFILE_CHAR4_LEN) m) else (bleInvalidRange, m)
      else if charc = SIMPLEPROFILE_CHAR5 then
        if n = ucast SIMPLEPROFILE_CHAR5_LEN
        then (0, memcpy (simpleProfileChar5 st) value (ucast SIMPLEPROFILE_CHAR5_LEN) m) else (bleInvalidRange, m)
      else (INVALIDPARAMETER, m))"

definition sps_get_param :: "sps_statics \<Rightarrow> u8 \<Rightarrow> addr \<Rightarrow> mem \<Rightarrow> u8 \<times> mem" where
  "sps_get_param st charc value m =
     (if charc = SIMPLEPROFILE_CHAR1
        then (0, memcpy value (simpleProfileChar1 st) (ucast SIMPLEPROFILE_CHAR1_LEN) m)
      else if charc = SIMPLEPROFILE_CHAR2
        then (0, memcpy value (simpleProfileChar2 st) (ucast SIMPLEPROFILE_CHAR2_LEN) m)
      else if charc = SIMPLEPROFILE_CHAR3
        then (0, memcpy value (simpleProfileChar3 st) (ucast SIMPLEPROFILE_CHAR3_LEN) m)
      else if charc = SIMPLEPROFILE_CHAR4
        then (0, memcpy value (simpleProfileChar4 st) (ucast SIMPLEPROFILE_CHAR4_LEN) m)
      else if charc = SIMPLEPROFILE_CHAR5
        then (0, memcpy value (simpleProfileChar5 st) (ucast SIMPLEPROFILE_CHAR5_LEN) m)
      else (INVALIDPARAMETER, m))"

text \<open>The notified attribute is the twelfth of the service.\<close>

definition sps_notify ::
  "'g gatt_lib \<Rightarrow> gatt_attribute list \<Rightarrow> u16 \<Rightarrow> addr \<Rightarrow> u32 \<Rightarrow> mem \<times> 'g \<Rightarrow> u8 \<times> mem \<times> 'g" where
  "sps_notify lib simple_srv conn value n s = notify_value lib (at_handle (simple_srv ! 11)) conn value n s"

section \<open>Reading a long value\<close>

text \<open>The value behind each identifier of the device information service.\<close>

definition dis_value :: "addr \<Rightarrow> u16 \<Rightarrow> mem \<Rightarrow> u8 list option" where
  "dis_value devInfoSystemId uuid m =
     (if uuid = 0x2A23 then Some (mem_read m devInfoSystemId 8)
      else if uuid = 0x2A24 then Some (map of_char ''Model Number'')
      else if uuid = 0x2A25 then Some (map of_char ''Serial Number'')
      else if uuid = 0x2A26 then Some (map of_char ''Firmware Revision'')
      else if uuid = 0x2A27 then Some (map of_char ''Hardware Revision'')
      else if uuid = 0x2A28 then Some (map of_char ''Software Revision'')
      else if uuid = 0x2A29 then Some (map of_char ''Manufacturer Name'')
      else if uuid = 0x2A2A then Some ([254, 0] @ map of_char ''experimental'')
      else if uuid = 0x2A50 then Some [1, 0xD7, 0x07, 0, 0, 0x10, 0x01]
      else None)"

definition attr_uuid :: "gatt_attribute \<Rightarrow> mem \<Rightarrow> u16" where
  "attr_uuid pAttr m = le_val [m (at_uuid pAttr), m (at_uuid pAttr + 1)]"

lemma read_case_trim:
  "n \<le> length arr \<Longrightarrow> dis_read_case arr n pValue offset maxLen m =
     dis_read_case (take n arr) (length (take n arr)) pValue offset maxLen m"
proof -
  assume n: "n \<le> length arr"
  have "take (min k (n - j)) (drop j (take n arr)) = take (min k (n - j)) (drop j arr)" for k j
    by (simp add: drop_take)
  with n show ?thesis by (simp add: dis_read_case_def min_absorb2)
qed

lemmas dis_uuids = SYSTEM_ID_UUID_def MODEL_NUMBER_UUID_def SERIAL_NUMBER_UUID_def FIRMWARE_REV_UUID_def
  HARDWARE_REV_UUID_def SOFTWARE_REV_UUID_def MANUFACTURER_NAME_UUID_def IEEE_11073_CERT_DATA_UUID_def PNP_ID_UUID_def

lemmas dis_values = devInfoModelNumber_def devInfoSerialNumber_def devInfoFirmwareRev_def devInfoHardwareRev_def
  devInfoSoftwareRev_def devInfoMfrName_def devInfo11073Cert_def devInfoPnpId_def DEVINFO_11073_BODY_EXP_def
  DEVINFO_SYSTEM_ID_LEN_def

lemma read_case_string:
  "dis_read_case (c_string cs) (length (c_string cs) - Suc 0) pValue offset maxLen m =
     dis_read_case (map of_char cs) (length cs) pValue offset maxLen m"
  by (subst read_case_trim) (simp_all add: c_string_def)

lemma dis_read_value:
  "dis_read sysid pAttr pValue offset maxLen m =
     (case dis_value sysid (attr_uuid pAttr m) m of
        None \<Rightarrow> (ATT_ERR_ATTR_NOT_FOUND, Some 0, m)
      | Some v \<Rightarrow> dis_read_case v (length v) pValue offset maxLen m)"
  by (simp add: dis_read_def dis_value_def attr_uuid_def dis_uuids dis_values read_case_string Let_def)

text \<open>A client reads blocks until the server answers that the offset is past the end.\<close>

fun read_long :: "nat \<Rightarrow> addr \<Rightarrow> gatt_attribute \<Rightarrow> addr \<Rightarrow> u16 \<Rightarrow> u16 \<Rightarrow> mem \<Rightarrow> u8 list option" where
  "read_long 0 sysid pAttr p maxLen offset m = None"
| "read_long (Suc k) sysid pAttr p maxLen offset m =
     (case dis_read sysid pAttr p offset maxLen m of
        (status, Some n, m') \<Rightarrow>
          if status = SUCCESS
          then map_option ((@) (mem_read m' p (unat n))) (read_long k sysid pAttr p maxLen (offset + n) m')
          else None
      | (status, None, m') \<Rightarrow> if status = ATT_ERR_INVALID_OFFSET then Some [] else None)"

text \<open>The client's buffer lies apart from the identifier and the system identification.\<close>

definition reply_apart :: "addr \<Rightarrow> gatt_attribute \<Rightarrow> addr \<Rightarrow> u16 \<Rightarrow> bool" where
  "reply_apart sysid pAttr p maxLen \<longleftrightarrow>
     unat maxLen \<le> unat (at_uuid pAttr - p) \<and> unat maxLen \<le> unat (at_uuid pAttr + 1 - p) \<and>
     (\<forall>i < 8. unat maxLen \<le> unat (sysid + of_nat i - p))"

lemma reply_keeps:
  assumes "reply_apart sysid pAttr p maxLen" and "length bs \<le> unat maxLen"
  shows "attr_uuid pAttr (mem_write m p bs) = attr_uuid pAttr m"
    and "dis_value sysid u (mem_write m p bs) = dis_value sysid u m"
proof -
  have l: "length bs \<le> 2 ^ 32" using assms(2) unat_u16_less [of maxLen] by simp
  then show "attr_uuid pAttr (mem_write m p bs) = attr_uuid pAttr m"
    using assms by (simp add: attr_uuid_def mem_write_apply reply_apart_def)
  have "mem_read (mem_write m p bs) sysid 8 = mem_read m sysid 8"
    using assms by (intro mem_read_write_disjoint [OF l]) (fastforce simp: reply_apart_def)
  then show "dis_value sysid u (mem_write m p bs) = dis_value sysid u m"
    by (simp add: dis_value_def)
qed

lemma dis_value_short: "dis_value sysid u m = Some v \<Longrightarrow> length v < 32"
  by (auto simp: dis_value_def split: if_splits)

lemma read_long_from:
  assumes "dis_value sysid (attr_uuid pAttr m) m = Some v" and "0 < maxLen" and "reply_apart sysid pAttr p maxLen"
    and "length v - unat offset < k" and "unat offset \<le> length v"
  shows "read_long k sysid pAttr p maxLen offset m = Some (drop (unat offset) v)"
  using assms
proof (induction k arbitrary: offset m)
  case 0
  then show ?case by simp
next
  case (Suc k)
  show ?case
  proof (cases "unat offset = length v")
    case True
    with Suc.prems(1) show ?thesis
      by (simp add: dis_read_value dis_read_case_def att_codes)
  next
    case False
    define n where "n = min (unat maxLen) (length v - unat offset)"
    define bs where "bs = take n (drop (unat offset) v)"
    have len: "length v < 32" using Suc.prems(1) by (rule dis_value_short)
    have n: "0 < n" "n \<le> length v - unat offset" "n \<le> unat maxLen" "n < 65536"
      using False Suc.prems(2,5) len by (auto simp: n_def word_less_nat_alt)
    have bs: "length bs = n" using n by (simp add: bs_def)
    have un: "unat (of_nat n :: u16) = n" using n(4) by (simp add: unat_of_nat_u16)
    have off: "unat (offset + of_nat n) = unat offset + n"
      using un n(2) len Suc.prems(5) by (subst unat_add_no_wrap_u16) auto
    have r: "dis_read sysid pAttr p offset maxLen m = (SUCCESS, Some (of_nat n), mem_write m p bs)"
      using Suc.prems(1,5) False by (simp add: dis_read_value dis_read_case_def Let_def n_def bs_def)
    have keep: "dis_value sysid (attr_uuid pAttr (mem_write m p bs)) (mem_write m p bs) = Some v"
      using reply_keeps [OF Suc.prems(3), of bs] bs n(3) Suc.prems(1) by simp
    have "read_long k sysid pAttr p maxLen (offset + of_nat n) (mem_write m p bs) = Some (drop (unat offset + n) v)"
      using Suc.IH [OF keep Suc.prems(2,3), of "offset + of_nat n"] Suc.prems(4,5) n off by simp
    moreover have "mem_read (mem_write m p bs) p n = bs"
      using mem_read_write_same [of bs m p] bs n(4) by simp
    ultimately show ?thesis
      using un r by (simp add: bs_def drop_drop [symmetric] add.commute del: drop_drop)
  qed
qed

text \<open>A client that reads blocks of any positive size, each at the end of the last, gets exactly the value of the
  requested identifier, string values without their terminating zero, and the reading ends.\<close>

theorem dis_read_long_value:
  assumes "dis_value sysid (attr_uuid pAttr m) m = Some v" and "0 < maxLen" and "reply_apart sysid pAttr p maxLen"
  shows "read_long (Suc (length v)) sysid pAttr p maxLen 0 m = Some v"
  using read_long_from [OF assms, of 0 "Suc (length v)"] by simp

definition model_attribute :: gatt_attribute where
  "model_attribute = \<lparr>at_type_len = 2, at_uuid = 0x1000, at_permissions = 1, at_handle = 5, at_pValue = 0x2000\<rparr>"

lemma dis_read_long_value_witness:
  "read_long 13 0x20004000 model_attribute 0x20005000 5 0 ((\<lambda>_. 0)(0x1000 := 0x24, 0x1001 := 0x2A)) =
     Some (map of_char ''Model Number'')"
proof -
  let ?m = "(\<lambda>_. 0)(0x1000 := 0x24, 0x1001 := 0x2A) :: mem"
  have "attr_uuid model_attribute ?m = 0x2A24" by (simp add: attr_uuid_def model_attribute_def)
  then have v: "dis_value 0x20004000 (attr_uuid model_attribute ?m) ?m = Some (map of_char ''Model Number'')"
    by (simp add: dis_value_def)
  have "unat (5 :: u16) \<le> unat (0x20004000 + of_nat i - 0x20005000 :: u32)" if "i < 8" for i
  proof -
    have "i \<in> {0, 1, 2, 3, 4, 5, 6, 7}" using that by auto
    then show ?thesis by auto
  qed
  then have "reply_apart 0x20004000 model_attribute 0x20005000 5"
    by (simp add: reply_apart_def model_attribute_def)
  moreover have "(13 :: nat) = Suc (length (map of_char ''Model Number'' :: u8 list))" "0 < (5 :: u16)" by simp_all
  ultimately show ?thesis using dis_read_long_value [OF v] by (simp only:)
qed

section \<open>Values of the simple profile\<close>

definition sps_len :: "u8 \<Rightarrow> nat" where
  "sps_len charc = (if charc = 4 then 5 else 1)"

lemmas sps_consts = SIMPLEPROFILE_CHAR1_def SIMPLEPROFILE_CHAR2_def SIMPLEPROFILE_CHAR3_def SIMPLEPROFILE_CHAR4_def
  SIMPLEPROFILE_CHAR5_def SIMPLEPROFILE_CHAR1_LEN_def SIMPLEPROFILE_CHAR2_LEN_def SIMPLEPROFILE_CHAR3_LEN_def
  SIMPLEPROFILE_CHAR4_LEN_def SIMPLEPROFILE_CHAR5_LEN_def

lemma memcpy_read:
  assumes "unat n \<le> 65536"
  shows "mem_read (memcpy dst src n m) dst (unat n) = mem_read m src (unat n)"
  using mem_read_write_same [of "mem_read m src (unat n)" m dst] assms by (simp add: memcpy_def)

text \<open>The static variable of each characteristic.\<close>

definition sps_static :: "sps_statics \<Rightarrow> u8 \<Rightarrow> addr" where
  "sps_static st charc =
     (if charc = 0 then simpleProfileChar1 st else if charc = 1 then simpleProfileChar2 st
      else if charc = 2 then simpleProfileChar3 st else if charc = 3 then simpleProfileChar4 st
      else simpleProfileChar5 st)"

lemma sps_set_param_cases:
  "sps_set_param st charc value n m =
     (if 4 < charc then (INVALIDPARAMETER, m)
      else if unat n = sps_len charc then (0, memcpy (sps_static st charc) value (of_nat (sps_len charc)) m)
      else (bleInvalidRange, m))"
proof (cases "4 < charc")
  case False
  then have "unat charc \<le> 4" by (simp add: word_le_nat_alt not_less)
  then have "unat charc = 0 \<or> unat charc = 1 \<or> unat charc = 2 \<or> unat charc = 3 \<or> unat charc = 4" by arith
  then have c: "charc = 0 \<or> charc = 1 \<or> charc = 2 \<or> charc = 3 \<or> charc = 4"
    by (simp add: word_unat_eq_iff)
  have n: "n = 1 \<longleftrightarrow> unat n = 1" "n = 5 \<longleftrightarrow> unat n = 5" by (simp_all add: word_unat_eq_iff)
  from c n show ?thesis
    by (elim disjE) (simp_all add: sps_set_param_def sps_static_def sps_len_def sps_consts)
next
  case True
  then have "charc \<noteq> 0" "charc \<noteq> 1" "charc \<noteq> 2" "charc \<noteq> 3" "charc \<noteq> 4" by auto
  with True show ?thesis by (simp add: sps_set_param_def sps_consts)
qed

lemma sps_get_param_cases:
  "\<not> 4 < charc \<Longrightarrow> sps_get_param st charc value m = (0, memcpy value (sps_static st charc) (of_nat (sps_len charc)) m)"
proof -
  assume "\<not> 4 < charc"
  then have "unat charc \<le> 4" by (simp add: word_le_nat_alt not_less)
  then have "unat charc = 0 \<or> unat charc = 1 \<or> unat charc = 2 \<or> unat charc = 3 \<or> unat charc = 4" by arith
  then have "charc = 0 \<or> charc = 1 \<or> charc = 2 \<or> charc = 3 \<or> charc = 4"
    by (simp add: word_unat_eq_iff)
  then show ?thesis
    by (elim disjE) (simp_all add: sps_get_param_def sps_static_def sps_len_def sps_consts)
qed

text \<open>Setting a parameter of the simple profile succeeds exactly for the five characteristics with exactly their
  length, and getting it afterwards delivers the bytes that were set.\<close>

theorem sps_set_get_param:
  "let (r, m') = sps_set_param st charc value n m; (r', m'') = sps_get_param st charc out m' in
     (r = 0 \<longleftrightarrow> charc \<le> 4 \<and> unat n = sps_len charc) \<and>
     (r = 0 \<longrightarrow> r' = 0 \<and> mem_read m'' out (unat n) = mem_read m value (unat n))"
proof -
  have l: "unat (of_nat (sps_len charc) :: u32) = sps_len charc" "sps_len charc \<le> 65536" by (simp_all add: sps_len_def)
  have "mem_read (memcpy out (sps_static st charc) (of_nat (sps_len charc)) (memcpy (sps_static st charc) value
      (of_nat (sps_len charc)) m)) out (sps_len charc) = mem_read m value (sps_len charc)"
    using memcpy_read [of "of_nat (sps_len charc)"] l by simp
  then show ?thesis
    by (auto simp: sps_set_param_cases sps_get_param_cases att_codes not_less)
qed

lemma sps_set_get_param_witness:
  "\<exists>m' m''. sps_set_param \<lparr>simpleProfileChar1 = 0x100, simpleProfileChar2 = 0x101, simpleProfileChar3 = 0x102,
       simpleProfileChar4 = 0x103, simpleProfileChar5 = 0x104\<rparr> 4 0x200 5 (\<lambda>a. ucast a) = (0, m') \<and>
     sps_get_param \<lparr>simpleProfileChar1 = 0x100, simpleProfileChar2 = 0x101, simpleProfileChar3 = 0x102,
       simpleProfileChar4 = 0x103, simpleProfileChar5 = 0x104\<rparr> 4 0x300 m' = (0, m'') \<and>
     mem_read m'' 0x300 5 = mem_read (\<lambda>a. ucast a) 0x200 5"
proof -
  let ?st = "\<lparr>simpleProfileChar1 = 0x100, simpleProfileChar2 = 0x101, simpleProfileChar3 = 0x102,
       simpleProfileChar4 = 0x103, simpleProfileChar5 = 0x104\<rparr>"
  obtain r m' where s: "sps_set_param ?st 4 0x200 5 (\<lambda>a. ucast a) = (r, m')" by force
  obtain r' m'' where g: "sps_get_param ?st 4 0x300 m' = (r', m'')" by force
  from sps_set_get_param [of ?st 4 "0x200" 5 "\<lambda>a. ucast a" "0x300"] s g show ?thesis
    by (simp add: sps_len_def)
qed

text \<open>The system identification has 8 bytes, but \<open>dis_set_param\<close> copies as many bytes as its caller says: with a
  length above 8 the bytes behind the variable are overwritten as well.\<close>

theorem dis_set_param_overflows:
  assumes "i < unat n"
  shows "\<exists>m'. dis_set_param sysid DEVINFO_SYSTEM_ID n value m = (SUCCESS, m') \<and>
    m' (sysid + of_nat i) = m (value + of_nat i)"
proof -
  have "i < 256" using assms unat_u8_less [of n] by simp
  then have "unat (of_nat i :: u32) = i" by (simp add: unat_of_nat_u32)
  with assms unat_u8_less [of n] show ?thesis
    by (simp add: dis_set_param_def memcpy_def mem_write_apply)
qed

lemma dis_set_param_overflows_witness:
  "\<exists>m'. dis_set_param 0x20004000 DEVINFO_SYSTEM_ID 9 0x20005000 (\<lambda>a. if a = 0x20005008 then 0xAA else 0) =
       (SUCCESS, m') \<and> m' 0x20004008 = 0xAA"
  using dis_set_param_overflows [of 8 9 "0x20004000" "0x20005000" "\<lambda>a. if a = 0x20005008 then 0xAA else 0"]
  by simp

section \<open>Notification buffers\<close>

text \<open>When the client has not enabled notifications, each call of \<open>sps_notify\<close> (and of \<open>hrs_meas_notify\<close>, which
  runs the same steps) allocates a buffer and returns \<open>bleIncorrectMode\<close> without releasing it: with an allocator
  that counts one more live buffer for each success, \<open>k\<close> such calls leak \<open>k\<close> buffers.\<close>

theorem sps_notify_leaks:
  assumes alloc: "\<And>g. fst (bm_alloc lib conn ATT_HANDLE_VALUE_NOTI (ucast n) g) \<noteq> NULL"
    and live: "\<And>g. live (snd (bm_alloc lib conn ATT_HANDLE_VALUE_NOTI (ucast n) g)) = Suc (live g)"
    and off: "\<And>g. read_char_cfg lib conn g AND GATT_CLIENT_CFG_NOTIFY = 0"
    and conn: "conn \<noteq> GAP_CONNHANDLE_INIT"
  shows "let s' = ((\<lambda>s. snd (sps_notify lib simple_srv conn value n s)) ^^ k) s in
    live (snd s') = live (snd s) + k \<and> fst (sps_notify lib simple_srv conn value n s') = bleIncorrectMode"
proof -
  have step: "fst (sps_notify lib simple_srv conn value n t) = bleIncorrectMode \<and>
      live (snd (snd (sps_notify lib simple_srv conn value n t))) = Suc (live (snd t))" for t
    using alloc [of "snd t"] live [of "snd t"] off conn
    by (cases t) (auto simp: sps_notify_def notify_value_def Let_def split: prod.split)
  have "live (snd (((\<lambda>s. snd (sps_notify lib simple_srv conn value n s)) ^^ k) s)) = live (snd s) + k"
    by (induction k) (simp_all add: step)
  then show ?thesis by (simp add: step Let_def)
qed

definition counting_lib :: "nat gatt_lib" where
  "counting_lib = \<lparr>bm_alloc = \<lambda>_ _ _ g. (0x20006000, Suc g), read_char_cfg = \<lambda>_ _. 0,
     notification = \<lambda>_ _ _ _ _ g. (SUCCESS, g - 1)\<rparr>"

lemma sps_notify_leaks_witness:
  "snd (((\<lambda>s. snd (sps_notify counting_lib (replicate 17 model_attribute) 0 0x20005000 1 s)) ^^ 3)
     ((\<lambda>_. 0), 0)) = 3"
  using sps_notify_leaks [of counting_lib 0 1 id 3 "replicate 17 model_attribute" "0x20005000" "((\<lambda>_. 0), 0)"]
  by (simp add: counting_lib_def GAP_CONNHANDLE_INIT_def Let_def)

end
