(* ===== verification/Node_Queue.thy ===== *)
theory Node_Queue
  imports Prelude
begin

text \<open>
  The contract shared by the two intrusive list implementations of \<^verbatim>\<open>include/sys\<close>: a state that
  represents a list of distinct node addresses, with operations at both ends.  The implementations
  (\<open>Sys_Slist\<close>, \<open>Sys_Dlist\<close>) interpret it; what follows from the contract alone is proved here.
\<close>

text \<open>Taking \<open>n\<close> nodes out, one after the other.\<close>

primrec get_n :: "('s \<Rightarrow> addr \<times> 's) \<Rightarrow> nat \<Rightarrow> 's \<Rightarrow> addr list \<times> 's" where
  "get_n get 0 s = ([], s)"
| "get_n get (Suc n) s = (let (x, s) = get s; (xs, s) = get_n get n s in (x # xs, s))"

locale node_queue =
  fixes repr :: "'s \<Rightarrow> addr list \<Rightarrow> bool"
    and node_ok :: "addr \<Rightarrow> bool"
    and append :: "addr \<Rightarrow> 's \<Rightarrow> 's"
    and prepend :: "addr \<Rightarrow> 's \<Rightarrow> 's"
    and get :: "'s \<Rightarrow> addr \<times> 's"
    and is_empty :: "'s \<Rightarrow> bool"
  assumes repr_unique: "repr s xs \<Longrightarrow> repr s ys \<Longrightarrow> xs = ys"
    and repr_nodes: "repr s xs \<Longrightarrow> distinct xs \<and> (\<forall>x\<in>set xs. node_ok x \<and> x \<noteq> NULL)"
    and repr_append: "repr s xs \<Longrightarrow> node_ok x \<Longrightarrow> x \<notin> set xs \<Longrightarrow> repr (append x s) (xs @ [x])"
    and repr_prepend: "repr s xs \<Longrightarrow> node_ok x \<Longrightarrow> x \<notin> set xs \<Longrightarrow> repr (prepend x s) (x # xs)"
    and repr_get_Nil: "repr s [] \<Longrightarrow> get s = (NULL, s)"
    and repr_get_Cons: "repr s (x # xs) \<Longrightarrow> \<exists>s'. get s = (x, s') \<and> repr s' xs"
    and repr_is_empty: "repr s xs \<Longrightarrow> is_empty s \<longleftrightarrow> xs = []"
begin

lemma repr_append_all:
  "repr s ys \<Longrightarrow> distinct (ys @ xs) \<Longrightarrow> \<forall>x\<in>set xs. node_ok x \<Longrightarrow> repr (fold append xs s) (ys @ xs)"
proof (induction xs arbitrary: ys s)
  case Nil
  then show ?case by simp
next
  case (Cons x xs)
  then have "repr (append x s) (ys @ [x])" by (intro repr_append) auto
  from Cons.IH [OF this] Cons.prems show ?case by simp
qed

lemma repr_get_n: "repr s (xs @ ys) \<Longrightarrow> \<exists>s'. get_n get (length xs) s = (xs, s') \<and> repr s' ys"
proof (induction xs arbitrary: s)
  case Nil
  then show ?case by simp
next
  case (Cons x xs)
  then obtain s1 where "get s = (x, s1)" "repr s1 (xs @ ys)"
    using repr_get_Cons [of s x "xs @ ys"] by auto
  with Cons.IH [of s1] show ?case by auto
qed

text \<open>Nodes appended to an empty list come out in the order they went in.\<close>

lemma fifo:
  assumes "repr s []" and "distinct xs" and "\<forall>x\<in>set xs. node_ok x"
  shows "\<exists>s'. get_n get (length xs) (fold append xs s) = (xs, s') \<and> is_empty s'"
  using repr_append_all [of s "[]" xs] repr_get_n [of "fold append xs s" xs "[]"] repr_is_empty assms
  by auto

text \<open>A prepended node is the next one to come out.\<close>

lemma lifo:
  assumes "repr s xs" and "node_ok x" and "x \<notin> set xs"
  shows "\<exists>s'. get (prepend x s) = (x, s') \<and> repr s' xs"
  using repr_get_Cons [OF repr_prepend [OF assms]] by blast

end

end
