(* ===== verification/Sys_Slist.thy ===== *)
theory Sys_Slist
  imports Node_Queue
begin

text \<open>
  The singly linked list of \<^verbatim>\<open>include/sys/slist.h\<close>, whose operations are generated by the macros of
  \<^verbatim>\<open>include/sys/list_gen.h\<close>.  A list is its head and tail pointer; the \<open>next\<close> pointers of all nodes
  form the store.  Nodes are addresses and \<open>NULL\<close> ends a list.

  The search loop of \<open>sys_slist_find_and_remove\<close> follows \<open>next\<close> pointers and may run forever on a
  cyclic store: it is a partial function, and its termination on well formed lists is a lemma.
\<close>

section \<open>Data\<close>

type_synonym nexts = "addr \<Rightarrow> addr"

record sys_slist =
  sl_head :: addr
  sl_tail :: addr

section \<open>Operations\<close>

definition sys_slist_init :: "sys_slist \<Rightarrow> sys_slist" where
  "sys_slist_init l = l\<lparr>sl_head := NULL, sl_tail := NULL\<rparr>"

definition SYS_SLIST_STATIC_INIT :: sys_slist where
  "SYS_SLIST_STATIC_INIT = \<lparr>sl_head = NULL, sl_tail = NULL\<rparr>"

definition z_snode_next_peek :: "addr \<Rightarrow> nexts \<Rightarrow> addr" where
  "z_snode_next_peek node h = h node"

definition z_snode_next_set :: "addr \<Rightarrow> addr \<Rightarrow> nexts \<Rightarrow> nexts" where
  "z_snode_next_set parent child h = h(parent := child)"

definition z_slist_head_set :: "addr \<Rightarrow> sys_slist \<Rightarrow> sys_slist" where
  "z_slist_head_set node l = l\<lparr>sl_head := node\<rparr>"

definition z_slist_tail_set :: "addr \<Rightarrow> sys_slist \<Rightarrow> sys_slist" where
  "z_slist_tail_set node l = l\<lparr>sl_tail := node\<rparr>"

definition sys_slist_peek_head :: "sys_slist \<Rightarrow> addr" where
  "sys_slist_peek_head l = sl_head l"

definition sys_slist_peek_tail :: "sys_slist \<Rightarrow> addr" where
  "sys_slist_peek_tail l = sl_tail l"

definition sys_slist_is_empty :: "sys_slist \<Rightarrow> bool" where
  "sys_slist_is_empty l \<longleftrightarrow> sys_slist_peek_head l = NULL"

definition sys_slist_peek_next_no_check :: "addr \<Rightarrow> nexts \<Rightarrow> addr" where
  "sys_slist_peek_next_no_check node h = z_snode_next_peek node h"

definition sys_slist_peek_next :: "addr \<Rightarrow> nexts \<Rightarrow> addr" where
  "sys_slist_peek_next node h = (if node \<noteq> NULL then sys_slist_peek_next_no_check node h else NULL)"

definition sys_slist_prepend :: "addr \<Rightarrow> sys_slist \<times> nexts \<Rightarrow> sys_slist \<times> nexts" where
  "sys_slist_prepend node = (\<lambda>(l, h).
     let h = z_snode_next_set node (sys_slist_peek_head l) h;
         l = z_slist_head_set node l
     in if sys_slist_peek_tail l = NULL then (z_slist_tail_set (sys_slist_peek_head l) l, h) else (l, h))"

definition sys_slist_append :: "addr \<Rightarrow> sys_slist \<times> nexts \<Rightarrow> sys_slist \<times> nexts" where
  "sys_slist_append node = (\<lambda>(l, h).
     let h = z_snode_next_set node NULL h
     in if sys_slist_peek_tail l = NULL then
          (z_slist_head_set node (z_slist_tail_set node l), h)
        else
          let h = z_snode_next_set (sys_slist_peek_tail l) node h
          in (z_slist_tail_set node l, h))"




definition sys_slist_get_not_empty :: "sys_slist \<times> nexts \<Rightarrow> addr \<times> sys_slist \<times> nexts" where
  "sys_slist_get_not_empty = (\<lambda>(l, h).
     let node = sys_slist_peek_head l;
         l = z_slist_head_set (z_snode_next_peek node h) l;
         l = (if sys_slist_peek_tail l = node then z_slist_tail_set (sys_slist_peek_head l) l else l)
     in (node, l, h))"

definition sys_slist_get :: "sys_slist \<times> nexts \<Rightarrow> addr \<times> sys_slist \<times> nexts" where
  "sys_slist_get = (\<lambda>(l, h).
     if sys_slist_is_empty l then (NULL, l, h) else sys_slist_get_not_empty (l, h))"

definition sys_slist_remove :: "addr \<Rightarrow> addr \<Rightarrow> sys_slist \<times> nexts \<Rightarrow> sys_slist \<times> nexts" where
  "sys_slist_remove prev_node node = (\<lambda>(l, h).
     let (l, h) =
       (if prev_node = NULL then
          let l = z_slist_head_set (z_snode_next_peek node h) l
          in (if sys_slist_peek_tail l = node then z_slist_tail_set (sys_slist_peek_head l) l else l, h)
        else
          let h = z_snode_next_set prev_node (z_snode_next_peek node h) h
          in (if sys_slist_peek_tail l = node then z_slist_tail_set prev_node l else l, h))
     in (l, z_snode_next_set node NULL h))"

text \<open>The \<open>Z_GENLIST_FOR_EACH_NODE\<close> loop of \<open>find_and_remove\<close>: \<open>None\<close> when it does not end.\<close>

partial_function (option) find_and_remove_loop ::
    "addr \<Rightarrow> addr \<Rightarrow> addr \<Rightarrow> sys_slist \<times> nexts \<Rightarrow> (bool \<times> sys_slist \<times> nexts) option" where
  "find_and_remove_loop node prev test s =
     (if test \<noteq> NULL then
        if test = node then Some (True, sys_slist_remove prev node s)
        else find_and_remove_loop node test (sys_slist_peek_next test (snd s)) s
      else Some (False, s))"

definition sys_slist_find_and_remove ::
    "addr \<Rightarrow> sys_slist \<times> nexts \<Rightarrow> (bool \<times> sys_slist \<times> nexts) option" where
  "sys_slist_find_and_remove node s = find_and_remove_loop node NULL (sys_slist_peek_head (fst s)) s"

lemmas slist_ops = sys_slist_init_def z_snode_next_peek_def z_snode_next_set_def z_slist_head_set_def
  z_slist_tail_set_def sys_slist_peek_head_def sys_slist_peek_tail_def sys_slist_is_empty_def
  sys_slist_peek_next_no_check_def sys_slist_peek_next_def Let_def

section \<open>Representation\<close>

text \<open>\<open>spath h p xs q\<close>: following \<open>next\<close> from \<open>p\<close> visits the nodes \<open>xs\<close> and arrives at \<open>q\<close>.\<close>

primrec spath :: "nexts \<Rightarrow> addr \<Rightarrow> addr list \<Rightarrow> addr \<Rightarrow> bool" where
  "spath h p [] q \<longleftrightarrow> p = q"
| "spath h p (x # xs) q \<longleftrightarrow> p = x \<and> x \<noteq> NULL \<and> spath h (h x) xs q"

definition slist_repr :: "sys_slist \<times> nexts \<Rightarrow> addr list \<Rightarrow> bool" where
  "slist_repr = (\<lambda>(l, h) xs. spath h (sl_head l) xs NULL \<and> distinct xs \<and>
     sl_tail l = (if xs = [] then NULL else last xs))"

lemma spath_append: "spath h p (xs @ ys) q \<longleftrightarrow> (\<exists>r. spath h p xs r \<and> spath h r ys q)"
  by (induction xs arbitrary: p) auto

lemma spath_upd [simp]: "a \<notin> set xs \<Longrightarrow> spath (h(a := b)) p xs q = spath h p xs q"
  by (induction xs arbitrary: p) auto

lemma spath_not_null: "spath h p xs q \<Longrightarrow> x \<in> set xs \<Longrightarrow> x \<noteq> NULL"
  by (induction xs arbitrary: p) auto

lemma spath_NULL: "spath h NULL xs q \<longleftrightarrow> xs = [] \<and> q = NULL"
  by (cases xs) auto

lemma spath_unique: "spath h p xs NULL \<Longrightarrow> spath h p ys NULL \<Longrightarrow> xs = ys"
proof (induction xs arbitrary: p ys)
  case Nil
  then show ?case by (simp add: spath_NULL)
next
  case (Cons x xs)
  then show ?case by (cases ys) auto
qed

lemma spath_last: "spath h p xs q \<Longrightarrow> xs \<noteq> [] \<Longrightarrow> h (last xs) = q"
  by (induction xs arbitrary: p) auto

lemma slist_repr_unique: "slist_repr s xs \<Longrightarrow> slist_repr s ys \<Longrightarrow> xs = ys"
  by (auto simp: slist_repr_def dest: spath_unique split: prod.splits)

lemma slist_repr_nodes: "slist_repr s xs \<Longrightarrow> distinct xs \<and> NULL \<notin> set xs"
  by (auto simp: slist_repr_def dest: spath_not_null split: prod.splits)

lemma slist_repr_init: "slist_repr (sys_slist_init l, h) []"
  by (simp add: slist_repr_def sys_slist_init_def)

section \<open>Refinement of each operation\<close>

lemma slist_prepend_repr:
  "slist_repr (l, h) xs \<Longrightarrow> x \<noteq> NULL \<Longrightarrow> x \<notin> set xs \<Longrightarrow> slist_repr (sys_slist_prepend x (l, h)) (x # xs)"
  using slist_repr_nodes [of "(l, h)" xs]
  by (cases xs rule: rev_cases) (auto simp: slist_repr_def sys_slist_prepend_def slist_ops)

lemma slist_append_repr:
  assumes "slist_repr (l, h) xs" and "x \<noteq> NULL" and "x \<notin> set xs"
  shows "slist_repr (sys_slist_append x (l, h)) (xs @ [x])"
proof (cases xs rule: rev_cases)
  case Nil
  with assms show ?thesis by (simp add: slist_repr_def sys_slist_append_def slist_ops)
next
  case (snoc ys y)
  with assms slist_repr_nodes [OF assms(1)] show ?thesis
    by (auto simp: slist_repr_def sys_slist_append_def slist_ops spath_append)
qed

lemma slist_get_repr_Nil: "slist_repr s [] \<Longrightarrow> sys_slist_get s = (NULL, s)"
  by (cases s) (simp add: slist_repr_def sys_slist_get_def slist_ops)

lemma slist_get_repr_Cons:
  "slist_repr (l, h) (x # xs) \<Longrightarrow> \<exists>l'. sys_slist_get (l, h) = (x, l', h) \<and> slist_repr (l', h) xs"
  by (cases xs rule: rev_cases)
     (auto simp: slist_repr_def sys_slist_get_def sys_slist_get_not_empty_def slist_ops spath_NULL)

lemma slist_remove_head_repr:
  "slist_repr (l, h) (x # xs) \<Longrightarrow> slist_repr (sys_slist_remove NULL x (l, h)) xs"
  using slist_repr_nodes [of "(l, h)" "x # xs"]
  by (cases xs rule: rev_cases)
     (auto simp: slist_repr_def sys_slist_remove_def slist_ops spath_NULL)

lemma slist_remove_repr:
  assumes "slist_repr (l, h) (xs @ p # x # ys)"
  shows "slist_repr (sys_slist_remove p x (l, h)) (xs @ p # ys)"
  using assms slist_repr_nodes [OF assms]
  by (cases ys rule: rev_cases)
     (auto simp: slist_repr_def sys_slist_remove_def slist_ops spath_append)



section \<open>Searching\<close>

lemma find_loop_absent:
  "spath h test xs NULL \<Longrightarrow> node \<notin> set xs \<Longrightarrow> find_and_remove_loop node prev test (l, h) = Some (False, l, h)"
proof (induction xs arbitrary: prev test)
  case Nil
  then show ?case by (subst find_and_remove_loop.simps) simp
next
  case (Cons x xs)
  then show ?case by (subst find_and_remove_loop.simps) (auto simp: slist_ops)
qed

lemma find_loop_present:
  "spath h test (ys @ node # zs) NULL \<Longrightarrow> node \<notin> set ys \<Longrightarrow>
   find_and_remove_loop node prev test (l, h) = Some (True, sys_slist_remove (last (prev # ys)) node (l, h))"
proof (induction ys arbitrary: prev test)
  case Nil
  then show ?case by (subst find_and_remove_loop.simps) simp
next
  case (Cons y ys)
  then show ?case by (subst find_and_remove_loop.simps) (auto simp: slist_ops)
qed

lemma slist_find_and_remove_repr:
  assumes "slist_repr (l, h) xs"
  shows "\<exists>s'. sys_slist_find_and_remove node (l, h) = Some (node \<in> set xs, s') \<and> slist_repr s' (remove1 node xs)"
proof (cases "node \<in> set xs")
  case False
  from assms have "spath h (sl_head l) xs NULL" by (simp add: slist_repr_def)
  with False have "sys_slist_find_and_remove node (l, h) = Some (False, l, h)"
    using find_loop_absent [of h "sl_head l" xs node NULL l]
    by (simp add: sys_slist_find_and_remove_def sys_slist_peek_head_def)
  with assms False show ?thesis by (simp add: remove1_idem)
next
  case True
  then obtain ys zs where xs: "xs = ys @ node # zs" and ys: "node \<notin> set ys"
    by (metis split_list_first)
  have loop: "sys_slist_find_and_remove node (l, h) =
      Some (True, sys_slist_remove (last (NULL # ys)) node (l, h))"
    using assms find_loop_present [of h "sl_head l" ys node zs NULL l, OF _ ys] unfolding xs
    by (simp add: sys_slist_find_and_remove_def slist_repr_def sys_slist_peek_head_def)
  have "slist_repr (sys_slist_remove (last (NULL # ys)) node (l, h)) (ys @ zs)"
    using assms slist_remove_repr [of l h "butlast ys" "last ys" node zs] unfolding xs
    by (cases ys rule: rev_cases) (simp_all add: slist_remove_head_repr)
  with loop ys True show ?thesis by (simp add: xs remove1_append)
qed

section \<open>Interpretation of the list contract\<close>

interpretation slq: node_queue slist_repr "\<lambda>x. x \<noteq> NULL" sys_slist_append sys_slist_prepend
    sys_slist_get "\<lambda>s. sys_slist_is_empty (fst s)"
proof (unfold_locales, goal_cases)
  case (1 s xs ys)
  then show ?case by (rule slist_repr_unique)
next
  case (2 s xs)
  then show ?case using slist_repr_nodes by blast
next
  case (3 s xs x)
  then show ?case by (cases s) (simp add: slist_append_repr)
next
  case (4 s xs x)
  then show ?case by (cases s) (simp add: slist_prepend_repr)
next
  case (5 s)
  then show ?case by (rule slist_get_repr_Nil)
next
  case (6 s x xs)
  then show ?case by (cases s) (auto dest!: slist_get_repr_Cons)
next
  case (7 s xs)
  then show ?case by (cases s; cases xs) (auto simp: slist_repr_def slist_ops)
qed

section \<open>Properties\<close>








text \<open>\<open>sys_slist_find_and_remove\<close> terminates on every well formed list; it reports whether the node
  was in the list, and afterwards the list is the old one without that node.\<close>

theorem sys_slist_find_and_remove_total:
  assumes "slist_repr (l, h) xs"
  shows "\<exists>s'. sys_slist_find_and_remove node (l, h) = Some (node \<in> set xs, s') \<and>
    slist_repr s' (filter (\<lambda>x. x \<noteq> node) xs)"
  using slist_find_and_remove_repr [OF assms, of node] slist_repr_nodes [OF assms]
  by (simp add: distinct_remove1_removeAll removeAll_filter_not_eq eq_commute)

theorem sys_slist_find_and_remove_total_witness:
  "\<exists>s'. sys_slist_find_and_remove 4 (sys_slist_append 8 (sys_slist_append 4 (SYS_SLIST_STATIC_INIT, \<lambda>_. 0)))
     = Some (True, s') \<and> slist_repr s' [8]"
proof -
  let ?l = "\<lparr>sl_head = 4, sl_tail = 8\<rparr> :: sys_slist" and ?h = "(\<lambda>_. 0 :: addr)(4 := 8, 8 := 0)"
  have "sys_slist_append 8 (sys_slist_append 4 (SYS_SLIST_STATIC_INIT, \<lambda>_. 0)) = (?l, ?h)"
    by (auto simp: sys_slist_append_def slist_ops SYS_SLIST_STATIC_INIT_def)
  moreover have "slist_repr (?l, ?h) [4, 8]" by (simp add: slist_repr_def)
  ultimately show ?thesis using sys_slist_find_and_remove_total [of ?l ?h "[4, 8]" 4] by simp
qed

text \<open>Order: distinct nodes appended to an empty list are handed out by \<open>sys_slist_get\<close> in the order
  they were appended, after which the list is empty.\<close>

theorem sys_slist_fifo:
  assumes "distinct xs" and "NULL \<notin> set xs"
  shows "\<exists>s'. get_n sys_slist_get (length xs) (fold sys_slist_append xs (sys_slist_init l, h)) = (xs, s') \<and>
    sys_slist_is_empty (fst s')"
  using slq.fifo [OF slist_repr_init [of l h] assms(1)] assms(2) by blast

theorem sys_slist_fifo_witness:
  "\<exists>s'. get_n sys_slist_get 3 (fold sys_slist_append [4, 12, 8] (sys_slist_init SYS_SLIST_STATIC_INIT, id)) = ([4, 12, 8], s')"
  using sys_slist_fifo [of "[4, 12, 8]" SYS_SLIST_STATIC_INIT id] by (auto simp: numeral_3_eq_3)

end
