(* ===== verification/Sys_Dlist.thy ===== *)
theory Sys_Dlist
  imports Node_Queue
begin

text \<open>
  The doubly linked list of \<^verbatim>\<open>include/sys/dlist.h\<close>.  A list is a node whose \<open>next\<close> and \<open>prev\<close> fields
  are its head and tail (the unions of \<open>struct _dnode\<close>), and the nodes form a ring through it.  The
  store maps every address to its two pointers.
\<close>

section \<open>Data\<close>

record dnodes =
  dn_next :: "addr \<Rightarrow> addr"
  dn_prev :: "addr \<Rightarrow> addr"

definition set_next :: "addr \<Rightarrow> addr \<Rightarrow> dnodes \<Rightarrow> dnodes" where
  "set_next a v h = h\<lparr>dn_next := (dn_next h)(a := v)\<rparr>"

definition set_prev :: "addr \<Rightarrow> addr \<Rightarrow> dnodes \<Rightarrow> dnodes" where
  "set_prev a v h = h\<lparr>dn_prev := (dn_prev h)(a := v)\<rparr>"

section \<open>Operations\<close>

definition sys_dlist_init :: "addr \<Rightarrow> dnodes \<Rightarrow> dnodes" where
  "sys_dlist_init list h = set_prev list list (set_next list list h)"

definition sys_dnode_init :: "addr \<Rightarrow> dnodes \<Rightarrow> dnodes" where
  "sys_dnode_init node h = set_prev node NULL (set_next node NULL h)"




definition sys_dlist_is_empty :: "addr \<Rightarrow> dnodes \<Rightarrow> bool" where
  "sys_dlist_is_empty list h \<longleftrightarrow> dn_next h list = list"


definition sys_dlist_peek_head :: "addr \<Rightarrow> dnodes \<Rightarrow> addr" where
  "sys_dlist_peek_head list h = (if sys_dlist_is_empty list h then NULL else dn_next h list)"


definition sys_dlist_peek_next_no_check :: "addr \<Rightarrow> addr \<Rightarrow> dnodes \<Rightarrow> addr" where
  "sys_dlist_peek_next_no_check list node h = (if node = dn_prev h list then NULL else dn_next h node)"

definition sys_dlist_peek_next :: "addr \<Rightarrow> addr \<Rightarrow> dnodes \<Rightarrow> addr" where
  "sys_dlist_peek_next list node h =
     (if node \<noteq> NULL then sys_dlist_peek_next_no_check list node h else NULL)"




definition sys_dlist_append :: "addr \<Rightarrow> addr \<Rightarrow> dnodes \<Rightarrow> dnodes" where
  "sys_dlist_append list node h =
     (let tail = dn_prev h list;
          h = set_next node list h;
          h = set_prev node tail h;
          h = set_next tail node h
      in set_prev list node h)"

definition sys_dlist_prepend :: "addr \<Rightarrow> addr \<Rightarrow> dnodes \<Rightarrow> dnodes" where
  "sys_dlist_prepend list node h =
     (let head = dn_next h list;
          h = set_next node head h;
          h = set_prev node list h;
          h = set_prev head node h
      in set_next list node h)"

definition sys_dlist_insert :: "addr \<Rightarrow> addr \<Rightarrow> dnodes \<Rightarrow> dnodes" where
  "sys_dlist_insert successor node h =
     (let prev = dn_prev h successor;
          h = set_prev node prev h;
          h = set_next node successor h;
          h = set_next prev node h
      in set_prev successor node h)"

text \<open>The search loop of \<open>sys_dlist_insert_at\<close>: \<open>None\<close> when it does not end.\<close>

partial_function (option) insert_at_loop ::
    "(addr \<Rightarrow> int) \<Rightarrow> addr \<Rightarrow> addr \<Rightarrow> dnodes \<Rightarrow> addr option" where
  "insert_at_loop cond list pos h =
     (if pos \<noteq> NULL \<and> cond pos = 0 then insert_at_loop cond list (sys_dlist_peek_next list pos h) h
      else Some pos)"

definition sys_dlist_insert_at :: "addr \<Rightarrow> addr \<Rightarrow> (addr \<Rightarrow> int) \<Rightarrow> dnodes \<Rightarrow> dnodes option" where
  "sys_dlist_insert_at list node cond h =
     (if sys_dlist_is_empty list h then Some (sys_dlist_append list node h)
      else case insert_at_loop cond list (sys_dlist_peek_head list h) h of
        None \<Rightarrow> None
      | Some pos \<Rightarrow> Some (if pos \<noteq> NULL then sys_dlist_insert pos node h else sys_dlist_append list node h))"

definition sys_dlist_remove :: "addr \<Rightarrow> dnodes \<Rightarrow> dnodes" where
  "sys_dlist_remove node h =
     (let prev = dn_prev h node;
          next = dn_next h node;
          h = set_next prev next h;
          h = set_prev next prev h
      in sys_dnode_init node h)"

definition sys_dlist_get :: "addr \<Rightarrow> dnodes \<Rightarrow> addr \<times> dnodes" where
  "sys_dlist_get list h =
     (if \<not> sys_dlist_is_empty list h then
        let node = dn_next h list in (node, sys_dlist_remove node h)
      else (NULL, h))"

section \<open>Representation\<close>

text \<open>
  \<open>dchain h a xs b\<close>: from \<open>a\<close> the \<open>next\<close> pointers visit \<open>xs\<close> and arrive at \<open>b\<close>, and every \<open>prev\<close> pointer
  on the way leads back.  A list is a chain from the list node around the ring to itself.
\<close>

primrec dchain :: "dnodes \<Rightarrow> addr \<Rightarrow> addr list \<Rightarrow> addr \<Rightarrow> bool" where
  "dchain h a [] b \<longleftrightarrow> dn_next h a = b \<and> dn_prev h b = a"
| "dchain h a (x # xs) b \<longleftrightarrow> dn_next h a = x \<and> dn_prev h x = a \<and> dchain h x xs b"

definition dlist_repr :: "addr \<Rightarrow> dnodes \<Rightarrow> addr list \<Rightarrow> bool" where
  "dlist_repr list h xs \<longleftrightarrow> dchain h list xs list \<and> distinct (list # xs) \<and> NULL \<notin> set (list # xs)"

lemma set_sel [simp]:
  "dn_next (set_next a v h) = (dn_next h)(a := v)" "dn_prev (set_next a v h) = dn_prev h"
  "dn_next (set_prev a v h) = dn_next h" "dn_prev (set_prev a v h) = (dn_prev h)(a := v)"
  by (simp_all add: set_next_def set_prev_def)

lemma dchain_append: "dchain h a (xs @ y # ys) b \<longleftrightarrow> dchain h a xs y \<and> dchain h y ys b"
  by (induction xs arbitrary: a) auto

lemma dchain_cong:
  "(\<And>x. x \<in> insert a (set xs) \<Longrightarrow> dn_next h x = dn_next h' x) \<Longrightarrow>
   (\<And>x. x \<in> insert b (set xs) \<Longrightarrow> dn_prev h x = dn_prev h' x) \<Longrightarrow> dchain h a xs b = dchain h' a xs b"
  by (induction xs arbitrary: a) auto

lemma dchain_ends: "dchain h a xs b \<Longrightarrow> dn_next h a = hd (xs @ [b]) \<and> dn_prev h b = last (a # xs)"
  by (induction xs arbitrary: a) auto

lemma dchain_unique: "dchain h a xs b \<Longrightarrow> dchain h a ys b \<Longrightarrow> b \<notin> set xs \<Longrightarrow> b \<notin> set ys \<Longrightarrow> xs = ys"
proof (induction xs arbitrary: a ys)
  case Nil
  then show ?case by (cases ys) auto
next
  case (Cons x xs)
  then show ?case by (cases ys) auto
qed

text \<open>Linking a node between two neighbours of a chain, and unlinking it again.\<close>

definition link_between :: "addr \<Rightarrow> addr \<Rightarrow> addr \<Rightarrow> dnodes \<Rightarrow> dnodes" where
  "link_between p n s h = \<lparr>dn_next = (dn_next h)(n := s, p := n), dn_prev = (dn_prev h)(n := p, s := n)\<rparr>"

definition unlink_between :: "addr \<Rightarrow> addr \<Rightarrow> addr \<Rightarrow> dnodes \<Rightarrow> dnodes" where
  "unlink_between p n s h = \<lparr>dn_next = (dn_next h)(p := s, n := NULL), dn_prev = (dn_prev h)(s := p, n := NULL)\<rparr>"

lemma dchain_front:
  "dchain h a (xs @ ys) b \<Longrightarrow> (\<And>x. x \<in> set (butlast (a # xs)) \<Longrightarrow> dn_next h' x = dn_next h x) \<Longrightarrow>
   (\<And>x. x \<in> set xs \<Longrightarrow> dn_prev h' x = dn_prev h x) \<Longrightarrow>
   dn_next h' (last (a # xs)) = n \<Longrightarrow> dn_prev h' n = last (a # xs) \<Longrightarrow> dchain h' a xs n"
proof (induction xs arbitrary: a)
  case Nil
  then show ?case by simp
next
  case (Cons x xs)
  from Cons.prems have "dchain h' x xs n"
    by (intro Cons.IH) auto
  with Cons.prems show ?case by auto
qed

lemma dchain_tail: "dchain h a (xs @ ys) b \<Longrightarrow> dchain h (last (a # xs)) ys b"
  by (induction xs arbitrary: a) auto

lemma dchain_back:
  assumes "dchain h a (xs @ ys) b" and "\<And>x. x \<in> set ys \<Longrightarrow> dn_next h' x = dn_next h x"
    and "\<And>x. x \<in> set (tl (ys @ [b])) \<Longrightarrow> dn_prev h' x = dn_prev h x"
    and "dn_next h' n = hd (ys @ [b])" and "dn_prev h' (hd (ys @ [b])) = n"
  shows "dchain h' n ys b"
proof (cases ys)
  case Nil
  with assms show ?thesis by simp
next
  case (Cons y zs)
  with dchain_tail [OF assms(1)] have "dchain h y zs b" by simp
  then have "dchain h' y zs b"
    using assms(2,3) Cons by (subst dchain_cong [of y zs h' h b]) auto
  with Cons assms(4,5) show ?thesis by simp
qed

lemma last_node: "last (l # xs) \<in> insert l (set xs)"
  by (cases xs rule: rev_cases) simp_all

lemma hd_node: "hd (ys @ [l]) \<in> insert l (set ys)"
  by (cases ys) simp_all

lemma butlast_not_last: "distinct xs \<Longrightarrow> x \<in> set (butlast xs) \<Longrightarrow> x \<noteq> last xs"
  by (cases xs rule: rev_cases) auto

lemma link_repr:
  assumes r: "dlist_repr l h (xs @ ys)" and n: "n \<noteq> NULL" "n \<notin> set (l # xs @ ys)"
  shows "dlist_repr l (link_between (last (l # xs)) n (hd (ys @ [l])) h) (xs @ n # ys)"
proof -
  let ?p = "last (l # xs)" and ?s = "hd (ys @ [l])"
  let ?h = "link_between ?p n ?s h"
  have c: "dchain h l (xs @ ys) l" and d: "distinct (l # xs @ ys)"
    using r by (simp_all add: dlist_repr_def)
  have "dchain ?h l xs n"
  proof (rule dchain_front [OF c])
    fix x
    assume "x \<in> set (butlast (l # xs))"
    then have "x \<noteq> ?p" "x \<noteq> n"
      using butlast_not_last [of "l # xs" x] in_set_butlastD [of x "l # xs"] d n by auto
    then show "dn_next ?h x = dn_next h x" by (simp add: link_between_def)
  next
    fix x
    assume "x \<in> set xs"
    then show "dn_prev ?h x = dn_prev h x"
      using d n hd_node [of ys l] by (auto simp: link_between_def)
  qed (use n last_node [of l xs] hd_node [of ys l] in \<open>auto simp: link_between_def\<close>)
  moreover have "dchain ?h n ys l"
  proof (rule dchain_back [OF c])
    fix x
    assume "x \<in> set ys"
    then show "dn_next ?h x = dn_next h x"
      using d n last_node [of l xs] by (auto simp: link_between_def)
  next
    fix x
    assume "x \<in> set (tl (ys @ [l]))"
    then show "dn_prev ?h x = dn_prev h x"
      using d n by (cases ys) (auto simp: link_between_def)
  qed (use n last_node [of l xs] hd_node [of ys l] in \<open>auto simp: link_between_def\<close>)
  ultimately show ?thesis
    using r n by (auto simp: dlist_repr_def dchain_append)
qed

lemma unlink_repr:
  assumes r: "dlist_repr l h (xs @ n # ys)"
  shows "dlist_repr l (unlink_between (last (l # xs)) n (hd (ys @ [l])) h) (xs @ ys)"
proof -
  let ?p = "last (l # xs)" and ?s = "hd (ys @ [l])"
  let ?h = "unlink_between ?p n ?s h"
  have c: "dchain h l (xs @ n # ys) l" and d: "distinct (l # xs @ n # ys)"
    using r by (simp_all add: dlist_repr_def)
  have front: "dchain ?h l xs ?s"
  proof (rule dchain_front [OF c])
    fix x
    assume "x \<in> set (butlast (l # xs))"
    then have "x \<noteq> ?p" "x \<noteq> n"
      using butlast_not_last [of "l # xs" x] in_set_butlastD [of x "l # xs"] d by auto
    then show "dn_next ?h x = dn_next h x" by (simp add: unlink_between_def)
  next
    fix x
    assume "x \<in> set xs"
    then show "dn_prev ?h x = dn_prev h x"
      using d hd_node [of ys l] by (auto simp: unlink_between_def)
  qed (use d last_node [of l xs] hd_node [of ys l] in \<open>auto simp: unlink_between_def\<close>)
  have "dchain ?h l (xs @ ys) l"
  proof (cases ys)
    case Nil
    with front show ?thesis by simp
  next
    case (Cons y zs)
    have "dchain h y zs l" using c Cons by (simp add: dchain_append)
    then have "dchain ?h y zs l"
      using d Cons last_node [of l xs]
      by (subst dchain_cong [where h' = h]) (auto simp: unlink_between_def)
    with front Cons show ?thesis by (simp add: dchain_append)
  qed
  with r show ?thesis by (simp add: dlist_repr_def)
qed

section \<open>The operations on represented lists\<close>

lemma dlist_ends:
  "dlist_repr l h xs \<Longrightarrow> dn_next h l = hd (xs @ [l]) \<and> dn_prev h l = last (l # xs)"
  unfolding dlist_repr_def by (blast dest: dchain_ends)

lemma dlist_neighbours:
  "dlist_repr l h (xs @ n # ys) \<Longrightarrow> dn_next h n = hd (ys @ [l]) \<and> dn_prev h n = last (l # xs)"
  using dchain_ends [of h l xs n] dchain_ends [of h n ys l] by (simp add: dlist_repr_def dchain_append)

lemma init_repr: "l \<noteq> NULL \<Longrightarrow> dlist_repr l (sys_dlist_init l h) []"
  by (simp add: dlist_repr_def sys_dlist_init_def)

lemma append_link: "n \<noteq> l \<Longrightarrow> sys_dlist_append l n h = link_between (dn_prev h l) n l h"
  by (simp add: sys_dlist_append_def link_between_def Let_def)

lemma prepend_link:
  "n \<noteq> l \<Longrightarrow> n \<noteq> dn_next h l \<Longrightarrow> sys_dlist_prepend l n h = link_between l n (dn_next h l) h"
  by (simp add: sys_dlist_prepend_def link_between_def Let_def)

lemma insert_link: "n \<noteq> s \<Longrightarrow> sys_dlist_insert s n h = link_between (dn_prev h s) n s h"
  by (simp add: sys_dlist_insert_def link_between_def Let_def)

lemma remove_unlink: "sys_dlist_remove n h = unlink_between (dn_prev h n) n (dn_next h n) h"
  by (simp add: sys_dlist_remove_def sys_dnode_init_def unlink_between_def Let_def)

lemma append_repr:
  "dlist_repr l h xs \<Longrightarrow> n \<noteq> NULL \<Longrightarrow> n \<notin> set (l # xs) \<Longrightarrow> dlist_repr l (sys_dlist_append l n h) (xs @ [n])"
  using link_repr [of l h xs "[]" n] dlist_ends [of l h xs] by (simp add: append_link)

lemma prepend_repr:
  assumes "dlist_repr l h xs" "n \<noteq> NULL" "n \<notin> set (l # xs)"
  shows "dlist_repr l (sys_dlist_prepend l n h) (n # xs)"
proof -
  have "dn_next h l = hd (xs @ [l])" "n \<noteq> hd (xs @ [l])"
    using dlist_ends [OF assms(1)] hd_node [of xs l] assms(3) by auto
  then show ?thesis
    using link_repr [of l h "[]" xs n] assms by (simp add: prepend_link)
qed

lemma insert_repr:
  "dlist_repr l h (xs @ s # ys) \<Longrightarrow> n \<noteq> NULL \<Longrightarrow> n \<notin> set (l # xs @ s # ys) \<Longrightarrow>
   dlist_repr l (sys_dlist_insert s n h) (xs @ n # s # ys)"
  using link_repr [of l h xs "s # ys" n] dlist_neighbours [of l h xs s ys] by (simp add: insert_link)

lemma remove_repr:
  "dlist_repr l h (xs @ n # ys) \<Longrightarrow> dlist_repr l (sys_dlist_remove n h) (xs @ ys)"
  using unlink_repr [of l h xs n ys] dlist_neighbours [of l h xs n ys] by (simp add: remove_unlink)

lemma dlist_nodes: "dlist_repr l h xs \<Longrightarrow> distinct (l # xs) \<and> NULL \<notin> set (l # xs)"
  by (simp add: dlist_repr_def)

lemma is_empty_repr: "dlist_repr l h xs \<Longrightarrow> sys_dlist_is_empty l h \<longleftrightarrow> xs = []"
  using dlist_ends [of l h xs] dlist_nodes [of l h xs]
  by (cases xs) (auto simp: sys_dlist_is_empty_def)

lemma peek_head_repr:
  "dlist_repr l h xs \<Longrightarrow> sys_dlist_peek_head l h = (case xs of [] \<Rightarrow> NULL | x # _ \<Rightarrow> x)"
  using is_empty_repr [of l h xs] dlist_ends [of l h xs]
  by (auto simp: sys_dlist_peek_head_def split: list.split)


lemma peek_next_repr:
  assumes "dlist_repr l h (xs @ n # ys)"
  shows "sys_dlist_peek_next l n h = (case ys of [] \<Rightarrow> NULL | y # _ \<Rightarrow> y)"
proof -
  have "n \<noteq> NULL" and "n = dn_prev h l \<longleftrightarrow> ys = []"
    using dlist_nodes [OF assms] dlist_ends [OF assms] by auto
  then show ?thesis
    using dlist_neighbours [OF assms]
    by (auto simp: sys_dlist_peek_next_def sys_dlist_peek_next_no_check_def split: list.split)
qed



lemma get_repr:
  "dlist_repr l h (x # xs) \<Longrightarrow> sys_dlist_get l h = (x, sys_dlist_remove x h) \<and> dlist_repr l (sys_dlist_remove x h) xs"
  using is_empty_repr [of l h "x # xs"] dlist_ends [of l h "x # xs"] remove_repr [of l h "[]" x xs]
  by (simp add: sys_dlist_get_def Let_def)



lemma insert_at_loop_repr:
  "dlist_repr l h (xs @ ys) \<Longrightarrow>
   insert_at_loop cond l (case ys of [] \<Rightarrow> NULL | y # _ \<Rightarrow> y) h =
     Some (case dropWhile (\<lambda>x. cond x = 0) ys of [] \<Rightarrow> NULL | y # _ \<Rightarrow> y)"
proof (induction ys arbitrary: xs)
  case Nil
  then show ?case by (simp add: insert_at_loop.simps)
next
  case (Cons y ys)
  then have "y \<noteq> NULL" by (auto simp: dlist_repr_def)
  moreover have "sys_dlist_peek_next l y h = (case ys of [] \<Rightarrow> NULL | y # _ \<Rightarrow> y)"
    using Cons.prems by (rule peek_next_repr)
  moreover have "dlist_repr l h ((xs @ [y]) @ ys)" using Cons.prems by simp
  ultimately show ?case
    using Cons.IH [of "xs @ [y]"] by (subst insert_at_loop.simps) simp
qed

text \<open>What \<open>sys_dlist_insert_at\<close> is for: the node goes in front of the first one that satisfies the
  condition, or to the end.\<close>

definition insert_before_first :: "(addr \<Rightarrow> bool) \<Rightarrow> addr \<Rightarrow> addr list \<Rightarrow> addr list" where
  "insert_before_first P n xs = takeWhile (\<lambda>x. \<not> P x) xs @ n # dropWhile (\<lambda>x. \<not> P x) xs"

lemma insert_at_repr:
  assumes r: "dlist_repr l h xs" and n: "n \<noteq> NULL" "n \<notin> set (l # xs)"
  shows "\<exists>h'. sys_dlist_insert_at l n cond h = Some h' \<and>
           dlist_repr l h' (insert_before_first (\<lambda>x. cond x \<noteq> 0) n xs)"
proof (cases "dropWhile (\<lambda>x. cond x = 0) xs")
  case Nil
  then have t: "insert_before_first (\<lambda>x. cond x \<noteq> 0) n xs = xs @ [n]"
    using takeWhile_dropWhile_id [of "\<lambda>x. cond x = 0" xs] unfolding insert_before_first_def by simp
  have "sys_dlist_insert_at l n cond h = Some (sys_dlist_append l n h)"
    using insert_at_loop_repr [of l h "[]" xs cond, unfolded Nil] r
    by (simp add: sys_dlist_insert_at_def peek_head_repr [OF r])
  with append_repr [OF r n] t show ?thesis by simp
next
  case (Cons y ys)
  define ps where "ps = takeWhile (\<lambda>x. cond x = 0) xs"
  have s: "xs = ps @ y # ys"
    using takeWhile_dropWhile_id [of "\<lambda>x. cond x = 0" xs] Cons by (simp add: ps_def)
  have "y \<noteq> NULL" using r s by (auto simp: dlist_repr_def)
  then have "sys_dlist_insert_at l n cond h = Some (sys_dlist_insert y n h)"
    using insert_at_loop_repr [of l h "[]" xs cond, unfolded Cons] r s
    by (simp add: sys_dlist_insert_at_def peek_head_repr [OF r] is_empty_repr [OF r])
  moreover have "insert_before_first (\<lambda>x. cond x \<noteq> 0) n xs = ps @ n # y # ys"
    using Cons by (simp add: insert_before_first_def ps_def)
  moreover have "dlist_repr l (sys_dlist_insert y n h) (ps @ n # y # ys)"
    using r n unfolding s by (rule insert_repr)
  ultimately show ?thesis by (simp only:) blast
qed

section \<open>The queue contract\<close>

interpretation dlq: node_queue "\<lambda>h xs. dlist_repr l h xs" "\<lambda>x. x \<noteq> NULL \<and> x \<noteq> l"
    "sys_dlist_append l" "sys_dlist_prepend l" "sys_dlist_get l" "sys_dlist_is_empty l"
  for l :: addr
proof unfold_locales
  fix h xs ys
  assume "dlist_repr l h xs" "dlist_repr l h ys"
  then show "xs = ys" by (auto simp: dlist_repr_def intro: dchain_unique)
next
  fix h xs
  assume "dlist_repr l h xs"
  then show "distinct xs \<and> (\<forall>x\<in>set xs. (x \<noteq> NULL \<and> x \<noteq> l) \<and> x \<noteq> NULL)"
    using dlist_nodes by fastforce
next
  fix h x xs
  assume "dlist_repr l h (x # xs)"
  then show "\<exists>s'. sys_dlist_get l h = (x, s') \<and> dlist_repr l s' xs"
    using get_repr by blast
next
  fix h
  assume "dlist_repr l h []"
  then show "sys_dlist_get l h = (NULL, h)"
    using is_empty_repr [of l h "[]"] by (simp add: sys_dlist_get_def)
qed (auto intro: append_repr prepend_repr simp: is_empty_repr)

section \<open>Properties\<close>





definition ring123 :: dnodes where
  "ring123 = sys_dlist_append 100 3 (sys_dlist_append 100 2 (sys_dlist_append 100 1
     (sys_dlist_init 100 \<lparr>dn_next = \<lambda>_. NULL, dn_prev = \<lambda>_. NULL\<rparr>)))"

lemma ring123_repr: "dlist_repr 100 ring123 ([1] @ 2 # [3])"
  by (simp add: dlist_repr_def ring123_def sys_dlist_append_def sys_dlist_init_def Let_def)


text \<open>\<open>sys_dlist_insert_at\<close> always returns, and it puts the node in front of the first one whose
  condition is not 0, or at the end when there is none; the other nodes keep their order.\<close>

theorem sys_dlist_insert_at_total:
  assumes "dlist_repr l h xs" and "n \<noteq> NULL" and "n \<notin> set (l # xs)"
  shows "\<exists>h'. sys_dlist_insert_at l n cond h = Some h' \<and>
           dlist_repr l h' (takeWhile (\<lambda>x. cond x = 0) xs @ n # dropWhile (\<lambda>x. cond x = 0) xs)"
  using insert_at_repr [OF assms, of cond] by (simp add: insert_before_first_def)

theorem sys_dlist_insert_at_total_witness:
  "\<exists>h'. sys_dlist_insert_at 100 7 (\<lambda>x. of_bool (x = 2)) ring123 = Some h' \<and>
     dlist_repr 100 h' [1, 7, 2, 3]"
  using sys_dlist_insert_at_total [of 100 ring123 "[1, 2, 3]" 7 "\<lambda>x. of_bool (x = 2)"]
    ring123_repr by simp

text \<open>A list that is initialised and then filled with \<open>sys_dlist_append\<close> gives its nodes back
  through \<open>sys_dlist_get\<close> in the order in which they went in, and is empty afterwards.\<close>

theorem sys_dlist_fifo:
  assumes "l \<noteq> NULL" and "distinct (l # ns)" and "NULL \<notin> set ns"
  shows "\<exists>h'. get_n (sys_dlist_get l) (length ns) (fold (sys_dlist_append l) ns (sys_dlist_init l h)) = (ns, h')
           \<and> sys_dlist_is_empty l h'"
  using dlq.fifo [OF init_repr [OF assms(1)], of ns h] assms by fastforce

theorem sys_dlist_fifo_witness:
  "\<exists>h'. get_n (sys_dlist_get 100) (length [1 :: addr, 2, 3]) (fold (sys_dlist_append 100) [1, 2, 3] (sys_dlist_init 100 ring123)) =
     ([1, 2, 3], h') \<and> sys_dlist_is_empty 100 h'"
  by (rule sys_dlist_fifo) simp_all

end
