(* ===== verification/Pmp.thy ===== *)
theory Pmp
  imports Prelude "HOL-Library.Monad_Syntax"
begin

text \<open>
  Physical memory protection, \<^verbatim>\<open>arch/riscv/core/core_pmp.c\<close> with \<^verbatim>\<open>arch/riscv/include/core_pmp.h\<close>, for
  the 32-bit target (\<open>CONFIG_64BIT\<close> off, so \<open>unsigned long\<close> is a \<open>32 word\<close>).  The control and status
  registers are a store from register numbers to words: a write is kept and a read returns it; the
  write protection of locked entries in hardware is not modelled.  \<open>uint8_t\<close> views of the
  configuration words of a thread are kept as the list of their bytes (the target is little endian).

  An access outside an array and a shift by the width of the type or more have no meaning in C:
  functions in which they can occur return an \<open>option\<close>, and \<open>None\<close> stands for them.
\<close>

section \<open>Configuration and constants\<close>

text \<open>The build defines \<open>CONFIG_PMP_SLOTS\<close>, not \<open>CONFIG_PMP_SLOT\<close>, so the default of the header holds.\<close>

definition CONFIG_PMP_SLOT :: nat where "CONFIG_PMP_SLOT = 8"
definition RISCV_PMP_CFG_NUM :: nat where "RISCV_PMP_CFG_NUM = CONFIG_PMP_SLOT div 4"

definition PMP_R :: u8 where "PMP_R = 0x01"
definition PMP_W :: u8 where "PMP_W = 0x02"
definition PMP_X :: u8 where "PMP_X = 0x04"
definition PMP_L :: u8 where "PMP_L = 0x80"
definition PMP_TOR :: u8 where "PMP_TOR = 0x08"
definition PMP_NA4 :: u8 where "PMP_NA4 = 0x10"
definition PMP_NAPOT :: u8 where "PMP_NAPOT = 0x18"
definition PMP_TYPE_MASK :: u8 where "PMP_TYPE_MASK = 0x18"

lemmas pmp_consts = PMP_R_def PMP_W_def PMP_X_def PMP_L_def PMP_TOR_def PMP_NA4_def PMP_NAPOT_def
  PMP_TYPE_MASK_def

definition TO_PMP_ADDR :: "u32 \<Rightarrow> u32" where "TO_PMP_ADDR a = drop_bit 2 a"
definition FROM_PMP_ADDR :: "u32 \<Rightarrow> u32" where "FROM_PMP_ADDR a = push_bit 2 a"
definition TO_NAPOT_RANGE :: "u32 \<Rightarrow> u32" where "TO_NAPOT_RANGE sz = drop_bit 1 (sz - 1)"
definition TO_PMP_NAPOT :: "u32 \<Rightarrow> u32 \<Rightarrow> u32" where
  "TO_PMP_NAPOT a sz = TO_PMP_ADDR (a OR TO_NAPOT_RANGE sz)"

definition PMPCFG_NUM :: "nat \<Rightarrow> nat" where "PMPCFG_NUM index = index div 4"
definition PMPCFG_SHIFT :: "nat \<Rightarrow> nat" where "PMPCFG_SHIFT index = index mod 4 * 8"

section \<open>Data\<close>

datatype pmp_region_mode = PMP_MODE_NA4 | PMP_MODE_NAPOT | PMP_MODE_TOR

record riscv_pmp_region =
  r_start :: u32
  r_size :: u32
  r_perm :: u8
  r_mode :: pmp_region_mode

record k_pmp =
  stack_start :: u32
  stack_size :: u32
  u_pmpcfg :: "u8 list"
  u_pmpaddr :: "u32 list"

text \<open>The static variables of the file and the control and status registers.\<close>

record pmp_state =
  csrs :: "nat \<Rightarrow> u32"
  static_regions_num :: u8
  mprv_regions_num :: u8
  static_regions :: "riscv_pmp_region list"

text \<open>\<open>CONFIG_PMP_POWER_OF_TWO_ALIGNMENT\<close> is the argument \<open>pot\<close>.\<close>

definition PMP_MODE_DEFAULT :: "bool \<Rightarrow> pmp_region_mode" where
  "PMP_MODE_DEFAULT pot = (if pot then PMP_MODE_NAPOT else PMP_MODE_TOR)"

definition PMP_USED_ENTRY_DEFAULT :: "bool \<Rightarrow> nat" where
  "PMP_USED_ENTRY_DEFAULT pot = (if pot then 1 else 2)"

definition initial_static_regions :: "bool \<Rightarrow> u32 \<Rightarrow> riscv_pmp_region list" where
  "initial_static_regions pot rom_region_start =
     [\<lparr>r_start = rom_region_start, r_size = 0, r_perm = PMP_R OR PMP_X OR PMP_L, r_mode = PMP_MODE_DEFAULT pot\<rparr>]"

text \<open>An array element, or \<open>None\<close> when the index is out of range.\<close>

definition at :: "'a list \<Rightarrow> nat \<Rightarrow> 'a option" where
  "at xs i = (if i < length xs then Some (xs ! i) else None)"

definition put_at :: "'a list \<Rightarrow> nat \<Rightarrow> 'a \<Rightarrow> 'a list option" where
  "put_at xs i v = (if i < length xs then Some (xs[i := v]) else None)"

section \<open>Registers\<close>

definition get_num_regions :: nat where
  "get_num_regions = CONFIG_PMP_SLOT"

definition max_dynamic_region :: "pmp_state \<Rightarrow> u8" where
  "max_dynamic_region s = of_nat get_num_regions - static_regions_num s - mprv_regions_num s - 1"

text \<open>The enumeration \<open>CSR_PMPCFG0 = 0, \<dots>, CSR_PMPCFG3, CSR_PMPADDR0 = 4, \<dots>, CSR_PMPADDR15\<close> and the
  register number that both switches select for each of its values.\<close>

definition CSR_PMPCFG0 :: int where "CSR_PMPCFG0 = 0"
definition CSR_PMPADDR0 :: int where "CSR_PMPADDR0 = 4"

definition csr_number :: "int \<Rightarrow> nat option" where
  "csr_number e =
     (if 0 \<le> e \<and> e < 4 then Some (0x3A0 + nat e)
      else if 4 \<le> e \<and> e < 20 then Some (0x3B0 + nat (e - 4))
      else None)"

definition csr_read_enum :: "int \<Rightarrow> pmp_state \<Rightarrow> u32" where
  "csr_read_enum pmp_csr_enum s =
     (case csr_number pmp_csr_enum of Some r \<Rightarrow> csrs s r | None \<Rightarrow> - 1)"

definition csr_write_enum :: "int \<Rightarrow> u32 \<Rightarrow> pmp_state \<Rightarrow> pmp_state" where
  "csr_write_enum pmp_csr_enum v s =
     (case csr_number pmp_csr_enum of Some r \<Rightarrow> s\<lparr>csrs := (csrs s)(r := v)\<rparr> | None \<Rightarrow> s)"

definition riscv_pmp_set :: "u32 \<Rightarrow> u8 \<Rightarrow> u32 \<Rightarrow> pmp_state \<Rightarrow> int \<times> pmp_state" where
  "riscv_pmp_set index cfg_val addr_val s =
     (if get_num_regions \<le> unat index then (- 1, s)
      else
        let pmpcfg_csr = CSR_PMPCFG0 + int (PMPCFG_NUM (unat index));
            pmpaddr_csr = CSR_PMPADDR0 + int (unat index);
            shift = PMPCFG_SHIFT (unat index);
            mask = push_bit shift 0xFF;
            reg_val = csr_read_enum pmpcfg_csr s;
            reg_val = reg_val AND NOT mask;
            reg_val = reg_val OR push_bit shift (ucast cfg_val);
            s = csr_write_enum pmpaddr_csr addr_val s
        in (0, csr_write_enum pmpcfg_csr reg_val s))"

text \<open>The two results of \<open>riscv_pmp_get\<close>; \<open>None\<close> is the return value -1, which leaves them unset.\<close>

definition riscv_pmp_get :: "u32 \<Rightarrow> pmp_state \<Rightarrow> (u8 \<times> u32) option" where
  "riscv_pmp_get index s =
     (if get_num_regions \<le> unat index then None
      else
        let pmpcfg_csr = CSR_PMPCFG0 + int (PMPCFG_NUM (unat index));
            pmpaddr_csr = CSR_PMPADDR0 + int (unat index);
            shift = PMPCFG_SHIFT (unat index);
            mask = push_bit shift 0xFF;
            reg_val = csr_read_enum pmpcfg_csr s
        in Some (ucast (drop_bit shift (reg_val AND mask)), csr_read_enum pmpaddr_csr s))"

text \<open>The loop of \<open>riscv_pmpcfg_set_range\<close>; \<open>cfg\<close> is \<open>None\<close> for the null pointer.\<close>

function pmpcfg_set_range_loop ::
    "nat \<Rightarrow> nat \<Rightarrow> u8 list option \<Rightarrow> u32 \<Rightarrow> u32 \<Rightarrow> pmp_state \<Rightarrow> pmp_state option" where
  "pmpcfg_set_range_loop index max_index cfg cfg_mask new_pmpcfg s =
     (if index \<le> max_index then do {
        let shift = PMPCFG_SHIFT index;
        let cfg_mask = cfg_mask OR push_bit shift 0xFF;
        new_pmpcfg \<leftarrow> (case cfg of
            None \<Rightarrow> Some new_pmpcfg
          | Some u8_pmpcfg \<Rightarrow> do {
              v \<leftarrow> at u8_pmpcfg index;
              Some (new_pmpcfg OR push_bit shift (ucast v))
            });
        if PMPCFG_SHIFT (index + 1) = 0 \<or> index = max_index then
          let pmpcfg_csr = CSR_PMPCFG0 + int (PMPCFG_NUM index);
              s = (if cfg_mask = - 1 then csr_write_enum pmpcfg_csr new_pmpcfg s
                   else
                     let pmpcfg = csr_read_enum pmpcfg_csr s;
                         pmpcfg = pmpcfg AND NOT cfg_mask;
                         pmpcfg = pmpcfg OR (cfg_mask AND new_pmpcfg)
                     in csr_write_enum pmpcfg_csr pmpcfg s)
          in pmpcfg_set_range_loop (index + 1) max_index cfg 0 0 s
        else pmpcfg_set_range_loop (index + 1) max_index cfg cfg_mask new_pmpcfg s
      } else Some s)"
  by pat_completeness auto
termination by (relation "measure (\<lambda>(index, max_index, _). Suc max_index - index)") auto

declare pmpcfg_set_range_loop.simps [simp del]

definition riscv_pmpcfg_set_range :: "u8 \<Rightarrow> u8 \<Rightarrow> u8 list option \<Rightarrow> pmp_state \<Rightarrow> pmp_state option" where
  "riscv_pmpcfg_set_range min_index max_index u8_pmpcfg s =
     pmpcfg_set_range_loop (unat min_index) (unat max_index) u8_pmpcfg 0 0 s"

text \<open>The entry as a thread sees it: \<open>Some None\<close> is the return value -1.\<close>

definition riscv_pmp_get_user_pmp :: "k_pmp \<Rightarrow> u32 \<Rightarrow> pmp_state \<Rightarrow> (u8 \<times> u32) option option" where
  "riscv_pmp_get_user_pmp pmp index s =
     (let last_static_index = max_dynamic_region s + 1
      in if get_num_regions \<le> unat index then Some None
         else if unat last_static_index \<le> unat index then Some (riscv_pmp_get index s)
         else do {
           cfg_val \<leftarrow> at (u_pmpcfg pmp) (unat index);
           addr_val \<leftarrow> at (u_pmpaddr pmp) (unat index);
           Some (Some (cfg_val, addr_val))
         })"

section \<open>Regions\<close>

text \<open>
  \<open>riscv_pmp_region_translate\<close> writes either to the registers (\<open>to_csr\<close>) or to a thread's arrays.
  The two are one definition over a destination with a writer for an entry.
\<close>

datatype pmp_dest = To_csr pmp_state | To_user k_pmp

fun put_entry :: "int \<Rightarrow> u8 \<Rightarrow> u32 \<Rightarrow> pmp_dest \<Rightarrow> pmp_dest option" where
  "put_entry index cfg_val addr_val (To_csr s) =
     Some (To_csr (snd (riscv_pmp_set (word_of_int index) cfg_val addr_val s)))"
| "put_entry index cfg_val addr_val (To_user pmp) =
     (if index < 0 then None
      else do {
        cs \<leftarrow> put_at (u_pmpcfg pmp) (nat index) cfg_val;
        as \<leftarrow> put_at (u_pmpaddr pmp) (nat index) addr_val;
        Some (To_user (pmp\<lparr>u_pmpcfg := cs, u_pmpaddr := as\<rparr>))
      })"

definition riscv_pmp_region_translate ::
    "int \<Rightarrow> riscv_pmp_region \<Rightarrow> pmp_dest \<Rightarrow> (int \<times> pmp_dest) option" where
  "riscv_pmp_region_translate index region d =
     (if r_start region = 0 \<and> r_size region = 0 then
        if int CONFIG_PMP_SLOT \<le> index then Some (- 28, d)
        else do {
          d \<leftarrow> put_entry index (PMP_NAPOT OR r_perm region) 0x1FFFFFFF d;
          Some (index + 1, d)
        }
      else if r_mode region = PMP_MODE_TOR then
        if int CONFIG_PMP_SLOT \<le> index + 1 then Some (- 28, d)
        else do {
          d \<leftarrow> put_entry index (PMP_NA4 OR r_perm region) (TO_PMP_ADDR (r_start region)) d;
          d \<leftarrow> put_entry (index + 1) (PMP_TOR OR r_perm region) (TO_PMP_ADDR (r_start region + r_size region)) d;
          Some (index + 2, d)
        }
      else if int CONFIG_PMP_SLOT \<le> index then Some (- 28, d)
      else do {
        let pmp_mode = (if r_mode region = PMP_MODE_NA4 \<or> r_size region = 4 then PMP_NA4 else PMP_NAPOT);
        d \<leftarrow> put_entry index (pmp_mode OR r_perm region) (TO_PMP_NAPOT (r_start region) (r_size region)) d;
        Some (index + 1, d)
      })"

text \<open>An empty region is skipped; start and size 0 is the whole memory.\<close>

definition empty_region :: "riscv_pmp_region \<Rightarrow> bool" where
  "empty_region region \<longleftrightarrow> r_size region = 0 \<and> r_start region \<noteq> 0"

fun riscv_pmp_regions_translate ::
    "int \<Rightarrow> riscv_pmp_region list \<Rightarrow> k_pmp \<Rightarrow> (int \<times> k_pmp) option" where
  "riscv_pmp_regions_translate reg_index [] pmp = Some (reg_index, pmp)"
| "riscv_pmp_regions_translate reg_index (region # regions) pmp =
     (if empty_region region then riscv_pmp_regions_translate reg_index regions pmp
      else case riscv_pmp_region_translate reg_index region (To_user pmp) of
        Some (reg_index, To_user pmp) \<Rightarrow>
          if reg_index = - 28 then Some (- 28, pmp)
          else riscv_pmp_regions_translate reg_index regions pmp
      | _ \<Rightarrow> None)"

definition riscv_pmp_region_set :: "int \<Rightarrow> riscv_pmp_region \<Rightarrow> pmp_state \<Rightarrow> int \<times> pmp_state" where
  "riscv_pmp_region_set index region s =
     (if \<not> (r_start region = 0 \<and> r_size region = 0) \<and>
         \<not> (r_start region AND 0x3 = 0 \<and> r_size region AND 0x3 = 0 \<and> r_size region \<noteq> 0)
      then (- 22, s)
      else case riscv_pmp_region_translate index region (To_csr s) of
        Some (result, To_csr s) \<Rightarrow> (result, s)
      | _ \<Rightarrow> (- 22, s))"

fun riscv_pmp_regions_set_from_last ::
    "int \<Rightarrow> riscv_pmp_region list \<Rightarrow> pmp_state \<Rightarrow> int \<times> pmp_state" where
  "riscv_pmp_regions_set_from_last reg_index [] s = (reg_index, s)"
| "riscv_pmp_regions_set_from_last reg_index (region # regions) s =
     (if empty_region region then riscv_pmp_regions_set_from_last reg_index regions s
      else
        let used_entry = (if r_mode region = PMP_MODE_TOR then 2 else 1);
            reg_index = reg_index - used_entry;
            s = snd (riscv_pmp_region_set (reg_index + 1) region s)
        in riscv_pmp_regions_set_from_last reg_index regions s)"

definition z_riscv_pmp_clear_config :: "pmp_state \<Rightarrow> pmp_state option" where
  "z_riscv_pmp_clear_config s = do {
     let min_index = 0;
     let max_index = max_dynamic_region s;
     let mprv_index = of_nat get_num_regions - mprv_regions_num s;
     s \<leftarrow> riscv_pmpcfg_set_range min_index max_index None s;
     riscv_pmpcfg_set_range mprv_index (of_nat get_num_regions - 1) None s
   }"

definition z_riscv_init_user_accesses :: "bool \<Rightarrow> k_pmp \<Rightarrow> k_pmp option" where
  "z_riscv_init_user_accesses pot pmp = do {
     let dynamic_regions = [\<lparr>r_start = stack_start pmp, r_size = stack_size pmp, r_perm = PMP_R,
                             r_mode = PMP_MODE_DEFAULT pot\<rparr>];
     (_, pmp) \<leftarrow> riscv_pmp_regions_translate 0 dynamic_regions pmp;
     Some pmp
   }"

text \<open>The loop that writes the address registers has an 8-bit counter, which could wrap at
  \<open>max_index = 255\<close>; the array access is out of range before it does.\<close>

function write_addrs_loop :: "nat \<Rightarrow> nat \<Rightarrow> u32 list \<Rightarrow> pmp_state \<Rightarrow> pmp_state option" where
  "write_addrs_loop i max_index u_addr s =
     (if i \<le> max_index then
        case at u_addr i of
          None \<Rightarrow> None
        | Some v \<Rightarrow> write_addrs_loop (Suc i) max_index u_addr (csr_write_enum (CSR_PMPADDR0 + int i) v s)
      else Some s)"
  by pat_completeness auto
termination by (relation "measure (\<lambda>(i, max_index, _). Suc max_index - i)") auto

declare write_addrs_loop.simps [simp del]

definition z_riscv_configure_user_allowed_stack :: "k_pmp \<Rightarrow> pmp_state \<Rightarrow> pmp_state option" where
  "z_riscv_configure_user_allowed_stack pmp s = do {
     let min_index = 0;
     let max_index = max_dynamic_region s;
     s \<leftarrow> z_riscv_pmp_clear_config s;
     s \<leftarrow> write_addrs_loop (unat min_index) (unat max_index) (u_pmpaddr pmp) s;
     riscv_pmpcfg_set_range min_index max_index (Some (u_pmpcfg pmp)) s
   }"

text \<open>The search for a free entry: the first one from \<open>index\<close> whose configuration is 0, or the one
  after \<open>max_index\<close>.  (The 8-bit counter cannot wrap before the access is out of range.)\<close>

function next_free_entry :: "nat \<Rightarrow> nat \<Rightarrow> u8 list \<Rightarrow> nat option" where
  "next_free_entry index max_index cfg =
     (if index \<le> max_index then
        case at cfg index of
          None \<Rightarrow> None
        | Some c \<Rightarrow> if c \<noteq> 0 then next_free_entry (Suc index) max_index cfg else Some index
      else Some index)"
  by pat_completeness auto
termination by (relation "measure (\<lambda>(index, max_index, _). Suc max_index - index)") auto

declare next_free_entry.simps [simp del]

text \<open>In \<open>z_riscv_pmp_add_dynamic\<close> the result of the translation is stored in an \<open>unsigned char\<close> and
  then compared with -28 as an \<open>int\<close>.\<close>

definition z_riscv_pmp_add_dynamic ::
    "bool \<Rightarrow> u32 \<Rightarrow> u32 \<Rightarrow> u8 \<Rightarrow> k_pmp \<Rightarrow> pmp_state \<Rightarrow> (int \<times> k_pmp) option" where
  "z_riscv_pmp_add_dynamic pot a sz flags pmp s =
     (let max_index = max_dynamic_region s
      in if \<not> (a AND 0x3 = 0 \<and> sz AND 0x3 = 0 \<and> sz \<noteq> 0) then Some (- 22, pmp)
         else do {
           index \<leftarrow> next_free_entry (1 + 1 * PMP_USED_ENTRY_DEFAULT pot) (unat max_index) (u_pmpcfg pmp);
           let pmp_region = \<lparr>r_start = a, r_size = sz, r_perm = flags,
                             r_mode = (if sz = 4 then PMP_MODE_NA4 else PMP_MODE_DEFAULT pot)\<rparr>;
           case riscv_pmp_region_translate (int index) pmp_region (To_user pmp) of
             Some (result, To_user pmp) \<Rightarrow>
               let index = (word_of_int result :: u8)
               in Some (if uint index = - 28 then - 28 else 0, pmp)
           | _ \<Rightarrow> None
         })"

section \<open>Validation\<close>

text \<open>\<open>None\<close>: the shift reaches the width of the type (all bits are one).\<close>

function count_trailing_one_from :: "u32 \<Rightarrow> nat \<Rightarrow> nat option" where
  "count_trailing_one_from v shift =
     (if 32 \<le> shift then None
      else if drop_bit shift v AND 0x1 \<noteq> 0 then count_trailing_one_from v (Suc shift) else Some shift)"
  by pat_completeness auto
termination by (relation "measure (\<lambda>(_, shift). 32 - shift)") auto

declare count_trailing_one_from.simps [simp del]

definition count_trailing_one :: "u32 \<Rightarrow> nat option" where
  "count_trailing_one v = count_trailing_one_from v 0"

text \<open>The addresses that an entry covers: \<open>Some None\<close> when it is off.\<close>

definition region_bounds :: "u32 \<Rightarrow> u8 \<Rightarrow> u32 \<Rightarrow> pmp_state \<Rightarrow> (u32 \<times> u32) option option" where
  "region_bounds index pmpcfg pmpaddr s =
     (if pmpcfg AND PMP_TYPE_MASK = PMP_NA4 then
        let addr_start = FROM_PMP_ADDR pmpaddr
        in Some (Some (addr_start, addr_start + 4 - 1))
      else if pmpcfg AND PMP_TYPE_MASK = PMP_NAPOT then do {
        shift \<leftarrow> count_trailing_one pmpaddr;
        if 32 \<le> shift + 1 then None
        else
          let bitmask = push_bit (shift + 1) 1 - 1;
              sz = FROM_PMP_ADDR (bitmask + 1);
              addr_start = FROM_PMP_ADDR (pmpaddr AND NOT bitmask)
          in Some (Some (addr_start, addr_start - 1 + sz))
      }
      else if pmpcfg AND PMP_TYPE_MASK = PMP_TOR then
        if index = 0 then Some (Some (0, FROM_PMP_ADDR pmpaddr - 1))
        else
          let pmpaddr_prev = csr_read_enum (CSR_PMPADDR0 + int (unat index) - 1) s
          in Some (Some (FROM_PMP_ADDR pmpaddr_prev, FROM_PMP_ADDR pmpaddr - 1))
      else Some None)"

definition is_in_region :: "k_pmp \<Rightarrow> u32 \<Rightarrow> u32 \<Rightarrow> u32 \<Rightarrow> pmp_state \<Rightarrow> bool option" where
  "is_in_region pmp index st sz s = do {
     entry \<leftarrow> riscv_pmp_get_user_pmp pmp index s;
     let (pmpcfg, pmpaddr) = (case entry of None \<Rightarrow> (0, 0) | Some e \<Rightarrow> e);
     bounds \<leftarrow> region_bounds index pmpcfg pmpaddr s;
     case bounds of
       None \<Rightarrow> Some False
     | Some (addr_start, addr_end) \<Rightarrow>
         let sz = (if sz = 0 then 0 else sz - 1);
             buf_end = st + sz
         in if 2 ^ 32 \<le> unat st + unat sz then Some False
            else Some (addr_start \<le> st \<and> buf_end \<le> addr_end)
   }"

definition is_user_accessible_region :: "k_pmp \<Rightarrow> u32 \<Rightarrow> bool \<Rightarrow> pmp_state \<Rightarrow> bool option" where
  "is_user_accessible_region pmp index wr s = do {
     entry \<leftarrow> riscv_pmp_get_user_pmp pmp index s;
     let pmpcfg = (case entry of None \<Rightarrow> 0 | Some e \<Rightarrow> fst e);
     Some (if wr then pmpcfg AND PMP_W = PMP_W else pmpcfg AND PMP_R = PMP_R)
   }"

function buffer_validate_loop :: "k_pmp \<Rightarrow> nat \<Rightarrow> u32 \<Rightarrow> u32 \<Rightarrow> bool \<Rightarrow> pmp_state \<Rightarrow> int option" where
  "buffer_validate_loop pmp index a sz wr s =
     (if index < get_num_regions then do {
        inside \<leftarrow> is_in_region pmp (of_nat index) a sz s;
        if \<not> inside then buffer_validate_loop pmp (Suc index) a sz wr s
        else do {
          ok \<leftarrow> is_user_accessible_region pmp (of_nat index) wr s;
          Some (if ok then 0 else - 1)
        }
      } else Some (- 1))"
  by pat_completeness auto
termination by (relation "measure (\<lambda>(_, index, _). get_num_regions - index)") auto

declare buffer_validate_loop.simps [simp del]

definition arch_buffer_validate :: "k_pmp \<Rightarrow> u32 \<Rightarrow> u32 \<Rightarrow> bool \<Rightarrow> pmp_state \<Rightarrow> int option" where
  "arch_buffer_validate pmp a sz wr s = buffer_validate_loop pmp 0 a sz wr s"

definition z_riscv_pmp_init :: "k_pmp \<Rightarrow> k_pmp" where
  "z_riscv_pmp_init pmp =
     pmp\<lparr>u_pmpcfg := replicate (4 * RISCV_PMP_CFG_NUM) 0 @ drop (4 * RISCV_PMP_CFG_NUM) (u_pmpcfg pmp)\<rparr>"

definition z_riscv_configure_static_pmp_regions :: "u32 \<Rightarrow> u32 \<Rightarrow> pmp_state \<Rightarrow> pmp_state" where
  "z_riscv_configure_static_pmp_regions rom_region_start rom_region_end s =
     (let index = uint (max_dynamic_region s);
          s = s\<lparr>static_regions := (static_regions s)
                  [0 := (static_regions s ! 0)\<lparr>r_size := rom_region_end - rom_region_start\<rparr>]\<rparr>;
          (new_index, s) = riscv_pmp_regions_set_from_last index (static_regions s) s
      in s\<lparr>static_regions_num := static_regions_num s + word_of_int (index - new_index)\<rparr>)"

definition arch_kernel_init :: "u32 \<Rightarrow> u32 \<Rightarrow> pmp_state \<Rightarrow> pmp_state" where
  "arch_kernel_init rom_region_start rom_region_end s =
     z_riscv_configure_static_pmp_regions rom_region_start rom_region_end s"

section \<open>Entries\<close>

text \<open>The configuration byte and the address of an entry, as the hardware sees them.\<close>

definition entry_cfg :: "pmp_state \<Rightarrow> nat \<Rightarrow> u8" where
  "entry_cfg s i = ucast (drop_bit (i mod 4 * 8) (csrs s (0x3A0 + i div 4)))"

definition entry_addr :: "pmp_state \<Rightarrow> nat \<Rightarrow> u32" where
  "entry_addr s i = csrs s (0x3B0 + i)"

lemma csr_number_cfg [simp]: "j < 4 \<Longrightarrow> csr_number (CSR_PMPCFG0 + int j) = Some (0x3A0 + j)"
  by (simp add: csr_number_def CSR_PMPCFG0_def)

lemma csr_number_addr [simp]: "i < 16 \<Longrightarrow> csr_number (CSR_PMPADDR0 + int i) = Some (0x3B0 + i)"
  by (simp add: csr_number_def CSR_PMPADDR0_def)

lemma csr_number_addr_uint [simp]:
  "unat index < 16 \<Longrightarrow> csr_number (CSR_PMPADDR0 + uint (index :: u32)) = Some (0x3B0 + unat index)"
  using csr_number_addr [of "unat index"] by simp

lemma num_regions [simp]: "get_num_regions = 8" "CONFIG_PMP_SLOT = 8"
  by (simp_all add: get_num_regions_def CONFIG_PMP_SLOT_def)

lemma bit_entry_cfg:
  "bit (entry_cfg s i) n \<longleftrightarrow> n < 8 \<and> bit (csrs s (0x3A0 + i div 4)) (i mod 4 * 8 + n)"
  by (auto simp: entry_cfg_def bit_ucast_iff bit_drop_bit_eq)

lemma bit_replace_byte:
  "p < 32 \<Longrightarrow> bit ((w AND NOT (push_bit k 0xFF)) OR push_bit k (ucast (c :: u8)) :: u32) p \<longleftrightarrow>
     (if k \<le> p \<and> p < k + 8 then bit c (p - k) else bit w p)"
  by (auto simp: bit_simps bit_255 dest: bit_byte_len)

lemma byte_pos: "i mod 4 * 8 + n < 32" if "n < 8" for i n :: nat
  using that mod_less_divisor [of 4 i] by linarith

lemma same_byte: "n < 8 \<Longrightarrow> j mod 4 * 8 \<le> i mod 4 * 8 + n \<and> i mod 4 * 8 + n < j mod 4 * 8 + 8 \<longleftrightarrow>
    i mod 4 = j mod 4" for i j n :: nat
  by auto

lemma entry_index_eq: "i = j \<longleftrightarrow> i div 4 = j div 4 \<and> i mod 4 = j mod 4" for i j :: nat
  by (metis div_mult_mod_eq)

lemma riscv_pmp_get_entry:
  "unat index < 8 \<Longrightarrow> riscv_pmp_get index s = Some (entry_cfg s (unat index), entry_addr s (unat index))"
proof -
  assume i: "unat index < 8"
  have "bit (ucast (drop_bit (PMPCFG_SHIFT (unat index)) (w AND push_bit (PMPCFG_SHIFT (unat index)) 0xFF)) :: u8) n =
        bit (ucast (drop_bit (PMPCFG_SHIFT (unat index)) w) :: u8) n" for w :: u32 and n
    by (auto simp: bit_simps bit_255 PMPCFG_SHIFT_def)
  then have "ucast (drop_bit (PMPCFG_SHIFT (unat index)) (w AND push_bit (PMPCFG_SHIFT (unat index)) 0xFF)) =
      (ucast (drop_bit (PMPCFG_SHIFT (unat index)) w) :: u8)" for w :: u32
    by (intro bit_word_eqI) blast
  moreover have "unat index div 4 < 4" using i by simp
  ultimately show ?thesis
    using i by (simp add: riscv_pmp_get_def csr_read_enum_def entry_cfg_def entry_addr_def
      PMPCFG_NUM_def Let_def) (simp add: PMPCFG_SHIFT_def)
qed

lemma riscv_pmp_set_entry:
  assumes i: "unat index < 8"
  shows "\<exists>s'. riscv_pmp_set index cfg a s = (0, s') \<and>
      (\<forall>j<16. entry_cfg s' j = (if j = unat index then cfg else entry_cfg s j)) \<and>
      (\<forall>j<16. entry_addr s' j = (if j = unat index then a else entry_addr s j)) \<and>
      static_regions_num s' = static_regions_num s \<and> mprv_regions_num s' = mprv_regions_num s \<and>
      static_regions s' = static_regions s"
proof -
  let ?r = "0x3A0 + unat index div 4" and ?k = "unat index mod 4 * 8"
  let ?w = "(csrs s ?r AND NOT (push_bit ?k 0xFF)) OR push_bit ?k (ucast cfg)"
  let ?s = "s\<lparr>csrs := (csrs s)(0x3B0 + unat index := a, ?r := ?w)\<rparr>"
  have j4: "unat index div 4 < 4" using i by simp
  have set: "riscv_pmp_set index cfg a s = (0, ?s)"
    using i j4 by (simp add: riscv_pmp_set_def csr_read_enum_def csr_write_enum_def PMPCFG_NUM_def
      PMPCFG_SHIFT_def Let_def)
  have "entry_cfg ?s j = (if j = unat index then cfg else entry_cfg s j)" if "j < 16" for j
  proof (rule bit_word_eqI)
    fix n
    assume "n < LENGTH(8)"
    then have n: "n < 8" by simp
    show "bit (entry_cfg ?s j) n = bit (if j = unat index then cfg else entry_cfg s j) n"
      using n that i byte_pos [OF n, of j] same_byte [OF n, of "unat index" j]
      by (auto simp: bit_entry_cfg bit_replace_byte entry_index_eq [of j "unat index"])
  qed
  moreover have "entry_addr ?s j = (if j = unat index then a else entry_addr s j)" if "j < 16" for j
    using that i by (auto simp: entry_addr_def)
  ultimately show ?thesis using set by auto
qed

lemma riscv_pmp_set_bad: "8 \<le> unat index \<Longrightarrow> riscv_pmp_set index cfg a s = (- 1, s)"
  by (simp add: riscv_pmp_set_def)

section \<open>Writing a range of configuration bytes\<close>

fun cfg_value :: "u8 list option \<Rightarrow> nat \<Rightarrow> u8" where
  "cfg_value None i = 0"
| "cfg_value (Some c) i = c ! i"

definition in_array :: "u8 list option \<Rightarrow> nat \<Rightarrow> bool" where
  "in_array cfg n \<longleftrightarrow> (case cfg of None \<Rightarrow> True | Some c \<Rightarrow> n < length c)"

text \<open>Only the registers with the configuration bytes change.\<close>

definition cfg_frame :: "pmp_state \<Rightarrow> pmp_state \<Rightarrow> bool" where
  "cfg_frame s s' \<longleftrightarrow> s' = s\<lparr>csrs := csrs s'\<rparr> \<and> (\<forall>n. \<not> (0x3A0 \<le> n \<and> n < 0x3A4) \<longrightarrow> csrs s' n = csrs s n)"

lemma cfg_frame_trans: "cfg_frame s s1 \<Longrightarrow> cfg_frame s1 s2 \<Longrightarrow> cfg_frame s s2"
  by (cases s; cases s1; cases s2) (auto simp: cfg_frame_def)

lemma cfg_frame_refl [simp]: "cfg_frame s s"
  by (simp add: cfg_frame_def)

lemma cfg_frame_sel:
  "cfg_frame s s' \<Longrightarrow> static_regions_num s' = static_regions_num s \<and> mprv_regions_num s' = mprv_regions_num s \<and>
     static_regions s' = static_regions s \<and> entry_addr s' i = entry_addr s i"
  by (cases s; cases s') (auto simp: cfg_frame_def entry_addr_def)

definition flush_cfg :: "nat \<Rightarrow> u32 \<Rightarrow> u32 \<Rightarrow> pmp_state \<Rightarrow> pmp_state" where
  "flush_cfg index cfg_mask new_pmpcfg s =
     s\<lparr>csrs := (csrs s)(0x3A0 + index div 4 :=
        (csrs s (0x3A0 + index div 4) AND NOT cfg_mask) OR (cfg_mask AND new_pmpcfg))\<rparr>"

lemma flush_cfg_frame: "index < 16 \<Longrightarrow> cfg_frame s (flush_cfg index m n s)"
  by (auto simp: cfg_frame_def flush_cfg_def)

lemma bit_flush_cfg:
  "bit (csrs (flush_cfg index m n s) (0x3A0 + r)) p \<longleftrightarrow>
     (if r = index div 4 \<and> bit m p then bit n p else bit (csrs s (0x3A0 + r)) p)"
  by (cases "p < 32") (auto simp: flush_cfg_def bit_simps dest: bit_imp_le_length)

lemma set_range_loop_step:
  fixes cfg_mask new_pmpcfg :: u32
  assumes "index \<le> mx" "mx < 16" "in_array cfg mx"
  defines "m \<equiv> cfg_mask OR push_bit (index mod 4 * 8) 0xFF"
    and "n \<equiv> new_pmpcfg OR push_bit (index mod 4 * 8) (ucast (cfg_value cfg index))"
  shows "pmpcfg_set_range_loop index mx cfg cfg_mask new_pmpcfg s =
     (if Suc index mod 4 = 0 \<or> index = mx
      then pmpcfg_set_range_loop (Suc index) mx cfg 0 0 (flush_cfg index m n s)
      else pmpcfg_set_range_loop (Suc index) mx cfg m n s)"
proof -
  let ?e = "CSR_PMPCFG0 + int (PMPCFG_NUM index)"
  have "index div 4 < 4" using assms by simp
  then have flush: "(if m = - 1 then csr_write_enum ?e n s
     else csr_write_enum ?e (csr_read_enum ?e s AND NOT m OR (m AND n)) s) = flush_cfg index m n s"
    by (simp add: flush_cfg_def csr_read_enum_def csr_write_enum_def PMPCFG_NUM_def)
  have new: "(case cfg of None \<Rightarrow> Some new_pmpcfg
       | Some c \<Rightarrow> do { v \<leftarrow> at c index; Some (new_pmpcfg OR push_bit (PMPCFG_SHIFT index) (ucast v)) }) = Some n"
    using assms(1,3) by (cases cfg) (simp_all add: n_def at_def in_array_def PMPCFG_SHIFT_def)
  have m: "cfg_mask OR push_bit (PMPCFG_SHIFT index) 0xFF = m" by (simp add: m_def PMPCFG_SHIFT_def)
  have last: "PMPCFG_SHIFT (index + 1) = 0 \<longleftrightarrow> (index + 1) mod 4 = 0" by (simp add: PMPCFG_SHIFT_def)
  show ?thesis
    using assms(1) by (subst pmpcfg_set_range_loop.simps)
      (simp only: Let_def new m flush last bind.bind_lunit if_True Suc_eq_plus1)
qed

text \<open>The state of the loop: the mask holds bytes of the current register below \<open>index\<close> only, and the
  new value lies under the mask.\<close>

definition mask_ok :: "nat \<Rightarrow> u32 \<Rightarrow> u32 \<Rightarrow> bool" where
  "mask_ok index m n \<longleftrightarrow> (\<forall>p. bit m p \<longrightarrow> p div 8 < index mod 4) \<and> (\<forall>p. bit n p \<longrightarrow> bit m p)"

lemma mask_ok_0 [simp]: "mask_ok index 0 0"
  by (simp add: mask_ok_def)

lemma bit_mask_step:
  "p < 32 \<Longrightarrow> bit (m OR push_bit (i mod 4 * 8) 0xFF :: u32) p \<longleftrightarrow> bit m p \<or> p div 8 = i mod 4"
  by (auto simp: bit_simps bit_255)

lemma bit_new_step:
  "p < 32 \<Longrightarrow> mask_ok i m n \<Longrightarrow> bit (n OR push_bit (i mod 4 * 8) (ucast (c :: u8)) :: u32) p \<longleftrightarrow>
     (if p div 8 = i mod 4 then bit c (p mod 8) else bit n p)"
proof -
  assume p: "p < 32" and ok: "mask_ok i m n"
  have "p div 8 = i mod 4 \<Longrightarrow> p - i mod 4 * 8 = p mod 8 \<and> i mod 4 * 8 \<le> p"
    by (metis minus_div_mult_eq_mod times_div_less_eq_dividend mult.commute)
  moreover have "p div 8 = i mod 4 \<Longrightarrow> \<not> bit n p" using ok by (auto simp: mask_ok_def)
  moreover have "i mod 4 * 8 \<le> p \<Longrightarrow> p - i mod 4 * 8 < 8 \<Longrightarrow> p div 8 = i mod 4" by auto
  ultimately show ?thesis
    using p by (auto simp: bit_simps dest: bit_byte_len)
qed

lemma mask_ok_step:
  assumes "mask_ok i m n" "Suc i mod 4 \<noteq> 0"
  shows "mask_ok (Suc i) (m OR push_bit (i mod 4 * 8) 0xFF) (n OR push_bit (i mod 4 * 8) (ucast (c :: u8)))"
proof -
  have s: "Suc i mod 4 = Suc (i mod 4)" using assms(2) by (simp add: mod_Suc split: if_splits)
  show ?thesis
    unfolding mask_ok_def s
  proof (intro conjI allI impI)
    fix p
    assume b: "bit (m OR push_bit (i mod 4 * 8) 0xFF) p"
    then have "p < 32" using bit_imp_le_length [OF b] by simp
    with b assms(1) show "p div 8 < Suc (i mod 4)"
      by (auto simp: bit_mask_step mask_ok_def less_Suc_eq)
  next
    fix p
    assume b: "bit (n OR push_bit (i mod 4 * 8) (ucast c)) p"
    then have p: "p < 32" using bit_imp_le_length [OF b] by simp
    with b show "bit (m OR push_bit (i mod 4 * 8) 0xFF) p"
      using bit_new_step [OF p assms(1)] assms(1) by (auto simp: bit_mask_step mask_ok_def split: if_splits)
  qed
qed

lemma set_range_loop_bits:
  assumes "mx < 16" "in_array cfg mx" "mask_ok i m n"
  shows "\<exists>s'. pmpcfg_set_range_loop i mx cfg m n s = Some s' \<and> cfg_frame s s' \<and>
    (\<forall>r<4. \<forall>p<32. bit (csrs s' (0x3A0 + r)) p \<longleftrightarrow>
      (if i \<le> 4 * r + p div 8 \<and> 4 * r + p div 8 \<le> mx then bit (cfg_value cfg (4 * r + p div 8)) (p mod 8)
       else if r = i div 4 \<and> i \<le> mx \<and> bit m p then bit n p else bit (csrs s (0x3A0 + r)) p))"
  using assms(3)
proof (induction "Suc mx - i" arbitrary: i m n s)
  case 0
  then show ?case by (subst pmpcfg_set_range_loop.simps) auto
next
  case (Suc d)
  let ?m = "m OR push_bit (i mod 4 * 8) 0xFF" and ?n = "n OR push_bit (i mod 4 * 8) (ucast (cfg_value cfg i))"
  have i: "i \<le> mx" "d = Suc mx - Suc i" using Suc.hyps(2) by auto
  note step = set_range_loop_step [OF i(1) assms(1,2), of m n s]
  have below: "p div 8 < i mod 4" if "bit m p" for p using Suc.prems that by (simp add: mask_ok_def)
  have pos: "4 * (i div 4) + i mod 4 = i" by simp
  show ?case
  proof (cases "Suc i mod 4 = 0 \<or> i = mx")
    case True
    let ?s = "flush_cfg i ?m ?n s"
    obtain s' where l: "pmpcfg_set_range_loop (Suc i) mx cfg 0 0 ?s = Some s'" and f: "cfg_frame ?s s'"
      and b: "\<And>r p. r < 4 \<Longrightarrow> p < 32 \<Longrightarrow> bit (csrs s' (0x3A0 + r)) p \<longleftrightarrow>
      (if Suc i \<le> 4 * r + p div 8 \<and> 4 * r + p div 8 \<le> mx then bit (cfg_value cfg (4 * r + p div 8)) (p mod 8)
       else bit (csrs ?s (0x3A0 + r)) p)"
      using Suc.hyps(1) [OF i(2), of 0 0 ?s] by auto
    have "bit (csrs s' (0x3A0 + r)) p \<longleftrightarrow>
      (if i \<le> 4 * r + p div 8 \<and> 4 * r + p div 8 \<le> mx then bit (cfg_value cfg (4 * r + p div 8)) (p mod 8)
       else if r = i div 4 \<and> i \<le> mx \<and> bit m p then bit n p else bit (csrs s (0x3A0 + r)) p)"
      if rp: "r < 4" "p < 32" for r p
    proof -
      have e: "i = 4 * r + p div 8 \<longleftrightarrow> r = i div 4 \<and> p div 8 = i mod 4"
        using rp(2) by (auto simp: less_mult_imp_div_less)
      show ?thesis
        unfolding b [OF rp] bit_flush_cfg bit_mask_step [OF rp(2)] bit_new_step [OF rp(2) Suc.prems]
        using e below [of p] i(1) by (cases "i = 4 * r + p div 8") auto
    qed
    then show ?thesis
      using True step l cfg_frame_trans [OF flush_cfg_frame f] i(1) assms(1) by auto
  next
    case False
    have ok: "mask_ok (Suc i) ?m ?n" using mask_ok_step [OF Suc.prems] False by simp
    obtain s' where l: "pmpcfg_set_range_loop (Suc i) mx cfg ?m ?n s = Some s'" and f: "cfg_frame s s'"
      and b: "\<And>r p. r < 4 \<Longrightarrow> p < 32 \<Longrightarrow> bit (csrs s' (0x3A0 + r)) p \<longleftrightarrow>
      (if Suc i \<le> 4 * r + p div 8 \<and> 4 * r + p div 8 \<le> mx then bit (cfg_value cfg (4 * r + p div 8)) (p mod 8)
       else if r = Suc i div 4 \<and> Suc i \<le> mx \<and> bit ?m p then bit ?n p else bit (csrs s (0x3A0 + r)) p)"
      using Suc.hyps(1) [OF i(2) ok, of s] by auto
    have "bit (csrs s' (0x3A0 + r)) p \<longleftrightarrow>
      (if i \<le> 4 * r + p div 8 \<and> 4 * r + p div 8 \<le> mx then bit (cfg_value cfg (4 * r + p div 8)) (p mod 8)
       else if r = i div 4 \<and> i \<le> mx \<and> bit m p then bit n p else bit (csrs s (0x3A0 + r)) p)"
      if rp: "r < 4" "p < 32" for r p
    proof -
      have e: "i = 4 * r + p div 8 \<longleftrightarrow> r = i div 4 \<and> p div 8 = i mod 4"
        using rp(2) by (auto simp: less_mult_imp_div_less)
      have d: "Suc i div 4 = i div 4" using False by (simp add: div_Suc)
      show ?thesis
        unfolding b [OF rp] bit_mask_step [OF rp(2)] bit_new_step [OF rp(2) Suc.prems] d
        using e below [of p] i(1) False by (cases "i = 4 * r + p div 8") auto
    qed
    then show ?thesis using False step l f by auto
  qed
qed

lemma set_range_entries:
  assumes "unat hi < 16" "in_array cfg (unat hi)"
  shows "\<exists>s'. riscv_pmpcfg_set_range lo hi cfg s = Some s' \<and> cfg_frame s s' \<and>
    (\<forall>j<16. entry_cfg s' j = (if unat lo \<le> j \<and> j \<le> unat hi then cfg_value cfg j else entry_cfg s j))"
proof -
  obtain s' where l: "riscv_pmpcfg_set_range lo hi cfg s = Some s'" and f: "cfg_frame s s'"
    and b: "\<And>r p. r < 4 \<Longrightarrow> p < 32 \<Longrightarrow> bit (csrs s' (0x3A0 + r)) p \<longleftrightarrow>
      (if unat lo \<le> 4 * r + p div 8 \<and> 4 * r + p div 8 \<le> unat hi then bit (cfg_value cfg (4 * r + p div 8)) (p mod 8)
       else bit (csrs s (0x3A0 + r)) p)"
    using set_range_loop_bits [OF assms mask_ok_0, of "unat lo" s] unfolding riscv_pmpcfg_set_range_def by auto
  have "entry_cfg s' j = (if unat lo \<le> j \<and> j \<le> unat hi then cfg_value cfg j else entry_cfg s j)" if "j < 16" for j
  proof (rule bit_word_eqI)
    fix n
    assume "n < LENGTH(8)"
    then have n: "n < 8" by simp
    have "4 * (j div 4) + (j mod 4 * 8 + n) div 8 = j" "(j mod 4 * 8 + n) mod 8 = n" using n by simp_all
    then show "bit (entry_cfg s' j) n = bit (if unat lo \<le> j \<and> j \<le> unat hi then cfg_value cfg j else entry_cfg s j) n"
      using b [of "j div 4" "j mod 4 * 8 + n"] byte_pos [OF n, of j] that n by (simp add: bit_entry_cfg)
  qed
  with l f show ?thesis by auto
qed

section \<open>Properties\<close>

text \<open>Setting an entry with \<open>riscv_pmp_set\<close> succeeds for every implemented entry; \<open>riscv_pmp_get\<close> then
  returns the configuration and the address that were set, and every other entry is as before.\<close>

theorem riscv_pmp_set_get:
  assumes "unat index < 8"
  shows "\<exists>s'. riscv_pmp_set index cfg a s = (0, s') \<and> riscv_pmp_get index s' = Some (cfg, a) \<and>
    (\<forall>j. j \<noteq> index \<longrightarrow> riscv_pmp_get j s' = riscv_pmp_get j s)"
proof -
  obtain s' where s': "riscv_pmp_set index cfg a s = (0, s')"
    "\<forall>j<16. entry_cfg s' j = (if j = unat index then cfg else entry_cfg s j)"
    "\<forall>j<16. entry_addr s' j = (if j = unat index then a else entry_addr s j)"
    using riscv_pmp_set_entry [OF assms] by blast
  have "riscv_pmp_get j s' = riscv_pmp_get j s" if "j \<noteq> index" for j
  proof (cases "unat j < 8")
    case True
    moreover have "unat j \<noteq> unat index" using that by (simp add: word_unat_eq_iff)
    ultimately show ?thesis using s' by (simp add: riscv_pmp_get_entry)
  next
    case False
    then show ?thesis by (simp add: riscv_pmp_get_def)
  qed
  with s' assms show ?thesis by (simp add: riscv_pmp_get_entry)
qed

theorem riscv_pmp_set_get_witness:
  "\<exists>s'. riscv_pmp_set 5 0x9F 0x1234
      \<lparr>csrs = \<lambda>_. 0, static_regions_num = 0, mprv_regions_num = 0, static_regions = []\<rparr> = (0, s') \<and>
    riscv_pmp_get 5 s' = Some (0x9F, 0x1234)"
  using riscv_pmp_set_get [of 5 "0x9F" "0x1234"] by auto

text \<open>C31: \<open>riscv_pmpcfg_set_range\<close>, which collects the bytes of one register before it writes it, does
  the same as writing the configuration of every entry from the first to the last on its own (0 for
  the null pointer): no other entry and no address register changes.\<close>

theorem riscv_pmpcfg_set_range_entries:
  assumes "unat hi < 16" and "\<forall>c. cfg = Some c \<longrightarrow> unat hi < length c"
  shows "\<exists>s'. riscv_pmpcfg_set_range lo hi cfg s = Some s' \<and>
    (\<forall>j<16. entry_cfg s' j =
       (if unat lo \<le> j \<and> j \<le> unat hi then (case cfg of None \<Rightarrow> 0 | Some c \<Rightarrow> c ! j) else entry_cfg s j)) \<and>
    (\<forall>j<16. entry_addr s' j = entry_addr s j)"
proof -
  have "in_array cfg (unat hi)" using assms(2) by (cases cfg) (simp_all add: in_array_def)
  then obtain s' where "riscv_pmpcfg_set_range lo hi cfg s = Some s'" "cfg_frame s s'"
    "\<forall>j<16. entry_cfg s' j = (if unat lo \<le> j \<and> j \<le> unat hi then cfg_value cfg j else entry_cfg s j)"
    using set_range_entries [OF assms(1)] by blast
  then show ?thesis using cfg_frame_sel [of s s'] by (cases cfg) auto
qed

theorem riscv_pmpcfg_set_range_entries_witness:
  "\<exists>s'. riscv_pmpcfg_set_range 1 5 (Some [1, 2, 3, 4, 5, 6, 7, 8])
      \<lparr>csrs = \<lambda>_. 0x99999999, static_regions_num = 0, mprv_regions_num = 0, static_regions = []\<rparr> = Some s' \<and>
    entry_cfg s' 0 = 0x99 \<and> entry_cfg s' 4 = 5 \<and> entry_cfg s' 5 = 6 \<and> entry_cfg s' 6 = 0x99"
proof -
  let ?s = "\<lparr>csrs = \<lambda>_. 0x99999999, static_regions_num = 0, mprv_regions_num = 0, static_regions = []\<rparr>"
  have old: "entry_cfg ?s 0 = 0x99" "entry_cfg ?s 6 = 0x99"
    by (simp_all add: entry_cfg_def)
  show ?thesis
    using riscv_pmpcfg_set_range_entries [of 5 "Some [1, 2, 3, 4, 5, 6, 7, 8]" 1 ?s] old by auto
qed

end
