(* ===== verification/Pmp_Regions.thy ===== *)
theory Pmp_Regions
  imports Pmp
begin

text \<open>
  What the entries written by \<^verbatim>\<open>core_pmp.c\<close> mean to the hardware, and what the validation of a buffer
  reads from them.  The address matching of the RISC-V privileged architecture is stated
  independently of the code (\<open>hw_match\<close>); the encoders (\<open>riscv_pmp_region_translate\<close> and its callers) and
  the decoder (\<open>is_in_region\<close>) are related to it.
\<close>

section \<open>Address matching\<close>

definition trailing_ones :: "u32 \<Rightarrow> nat \<Rightarrow> bool" where
  "trailing_ones v k \<longleftrightarrow> k < 32 \<and> (\<forall>j<k. bit v j) \<and> \<not> bit v k"

text \<open>Does a byte address match an entry with this configuration, this address register and this
  preceding address register?\<close>

definition hw_match :: "u8 \<Rightarrow> u32 \<Rightarrow> u32 \<Rightarrow> u32 \<Rightarrow> bool" where
  "hw_match cfg a prev x \<longleftrightarrow>
     (let w = drop_bit 2 x; type = cfg AND PMP_TYPE_MASK
      in if type = PMP_NA4 then w = a
         else if type = PMP_NAPOT then \<exists>k<32. trailing_ones a k \<and> drop_bit (k + 1) w = drop_bit (k + 1) a
         else type = PMP_TOR \<and> prev \<le> w \<and> w < a)"

definition hw_entry_match :: "pmp_state \<Rightarrow> nat \<Rightarrow> u32 \<Rightarrow> bool" where
  "hw_entry_match s i x =
     hw_match (entry_cfg s i) (entry_addr s i) (if i = 0 then 0 else entry_addr s (i - 1)) x"

section \<open>Arithmetic of the encodings\<close>

lemma unat_FROM_PMP_ADDR: "unat a < 2 ^ 30 \<Longrightarrow> unat (FROM_PMP_ADDR a) = 4 * unat a"
  by (simp add: FROM_PMP_ADDR_def push_bit_eq_mult unat_word_ariths)

lemma unat_TO_PMP_ADDR: "unat (TO_PMP_ADDR a) = unat a div 4"
  by (simp add: TO_PMP_ADDR_def drop_bit_eq_div unat_div_distrib)

lemma unat_TO_PMP_ADDR_less: "unat (TO_PMP_ADDR a) < 2 ^ 30"
proof -
  have "unat a < 4 * 2 ^ 30" using unat_u32_less [of a] by simp
  then show ?thesis unfolding unat_TO_PMP_ADDR by (intro less_mult_imp_div_less) (simp add: mult.commute)
qed

lemma unat_word_index: "unat (drop_bit 2 (x :: u32)) = unat x div 4"
  by (simp add: drop_bit_eq_div unat_div_distrib)

lemma unat_drop_bit_u32: "unat (drop_bit n (w :: u32)) = unat w div 2 ^ n"
  by (simp only: unsigned_drop_bit_eq) (simp add: drop_bit_eq_div take_bit_nat_eq_self unat_u32_less)

lemma aligned_iff: "(a :: u32) AND 0x3 = 0 \<longleftrightarrow> unat a mod 4 = 0"
proof -
  have "a AND 0x3 = take_bit 2 a" by (simp add: take_bit_eq_mask mask_eq_exp_minus_1)
  then have "unat (a AND 0x3) = unat a mod 4" by (simp add: take_bit_eq_mod unat_mod_distrib)
  then show ?thesis by (metis unat_eq_zero)
qed

lemma range_div: "0 < m \<Longrightarrow> q * m \<le> x \<and> x \<le> q * m + (m - 1) \<longleftrightarrow> x div m = q" for q m x :: nat
proof -
  assume "0 < m"
  then have "x div m * m \<le> x" "x < x div m * m + m"
    using div_mult_mod_eq [of x m] mod_less_divisor [of m x] by linarith+
  moreover have "x div m = q" if "q * m \<le> x" "x \<le> q * m + (m - 1)"
    using that \<open>0 < m\<close> by (intro div_nat_eqI) (simp_all add: mult.commute)
  ultimately show ?thesis using \<open>0 < m\<close> by auto
qed

lemma trailing_ones_unique: "trailing_ones v k \<Longrightarrow> trailing_ones v l \<Longrightarrow> k = l"
  unfolding trailing_ones_def by (metis linorder_neqE_nat)

lemma count_trailing_one_from:
  "trailing_ones v k \<Longrightarrow> n \<le> k \<Longrightarrow> count_trailing_one_from v n = Some k"
proof (induction "k - n" arbitrary: n)
  case 0
  then show ?case by (subst count_trailing_one_from.simps) (auto simp: trailing_ones_def and_one_eq odd_iff_mod_2_eq_one bit_iff_odd_drop_bit)
next
  case (Suc d)
  then have "bit v n" "n < 32" by (auto simp: trailing_ones_def)
  moreover have "count_trailing_one_from v (Suc n) = Some k" using Suc by auto
  ultimately show ?case
    by (subst count_trailing_one_from.simps) (simp add: and_one_eq bit_iff_odd_drop_bit odd_iff_mod_2_eq_one)
qed

lemma count_trailing_one: "trailing_ones v k \<Longrightarrow> count_trailing_one v = Some k"
  by (simp add: count_trailing_one_def count_trailing_one_from)

lemma trailing_ones_ex: "unat v < 2 ^ 30 \<Longrightarrow> \<exists>k\<le>30. trailing_ones v k"
proof -
  assume v: "unat v < 2 ^ 30"
  have "\<not> bit (unat v) 30" using v by (simp add: bit_iff_odd)
  then have b: "\<not> bit v 30" by (simp add: bit_unsigned_iff)
  then obtain k where k: "\<not> bit v k" "\<forall>j<k. bit v j"
    using exists_least_iff [of "\<lambda>k. \<not> bit v k"] by blast
  have "k \<le> 30" using b k(2) by (meson not_le)
  with k show ?thesis by (auto simp: trailing_ones_def)
qed

text \<open>What \<open>region_bounds\<close> computes for a power-of-two entry.\<close>

lemma and_not_mask: "a AND NOT (mask n) = push_bit n (drop_bit n a)" for a :: u32
  by (rule bit_word_eqI) (auto simp: bit_simps)

lemma napot_start:
  assumes "unat a < 2 ^ 30" "k \<le> 30"
  shows "unat (FROM_PMP_ADDR (a AND NOT (push_bit (k + 1) 1 - 1))) = unat a div 2 ^ (k + 1) * 2 ^ (k + 3)"
proof -
  have le: "unat a mod 4294967296 = unat a" using unat_u32_less [of a] by simp
  have "push_bit (k + 1) 1 - 1 = (mask (k + 1) :: u32)" by (simp add: mask_eq_exp_minus_1 push_bit_eq_mult)
  then have "a AND NOT (push_bit (k + 1) 1 - 1) = push_bit (k + 1) (drop_bit (k + 1) a)"
    by (simp only: and_not_mask)
  then have "FROM_PMP_ADDR (a AND NOT (push_bit (k + 1) 1 - 1)) = push_bit (k + 3) (drop_bit (k + 1) a)"
    by (simp only: FROM_PMP_ADDR_def push_bit_push_bit) (simp add: numeral_3_eq_3)
  then have "unat (FROM_PMP_ADDR (a AND NOT (push_bit (k + 1) 1 - 1))) =
      unat a div 2 ^ (k + 1) * 2 ^ (k + 3) mod 2 ^ 32"
    by (simp only: unsigned_push_bit_eq unsigned_drop_bit_eq) (simp add: push_bit_eq_mult drop_bit_eq_div take_bit_eq_mod le)
  moreover have "unat a div 2 ^ (k + 1) * 2 ^ (k + 3) < 2 ^ 32"
  proof -
    have "unat a div 2 ^ (k + 1) * 2 ^ (k + 3) = 4 * (unat a div 2 ^ (k + 1) * 2 ^ (k + 1))"
      by (simp add: power_add)
    also have "\<dots> \<le> 4 * unat a" by (intro mult_left_mono div_times_less_eq_dividend) simp
    finally show ?thesis using assms(1) by simp
  qed
  ultimately show ?thesis by (metis mod_less)
qed

lemma napot_size:
  "unat (FROM_PMP_ADDR (push_bit (k + 1) 1 - 1 + 1)) = 2 ^ (k + 3) mod 2 ^ 32"
  by (simp only: diff_add_cancel FROM_PMP_ADDR_def push_bit_push_bit unsigned_push_bit_eq)
     (simp add: push_bit_eq_mult take_bit_eq_mod numeral_3_eq_3)

text \<open>A low block above which the rest of the address is \<open>q\<close> ends below \<open>2 ^ 30\<close>.\<close>

lemma napot_fits: "v < 2 ^ 30 \<Longrightarrow> n \<le> 30 \<Longrightarrow> v div 2 ^ n * 2 ^ n + 2 ^ n \<le> (2 ^ 30 :: nat)"
proof -
  assume v: "v < 2 ^ 30" "n \<le> 30"
  have e: "(2 :: nat) ^ 30 = 2 ^ (30 - n) * 2 ^ n" using v(2) by (simp flip: power_add)
  then have "v div 2 ^ n < 2 ^ (30 - n)" using v(1) by (intro less_mult_imp_div_less) simp
  then have "Suc (v div 2 ^ n) * 2 ^ n \<le> 2 ^ (30 - n) * 2 ^ n" by (intro mult_right_mono) auto
  then show ?thesis unfolding e by simp
qed

lemma napot_bounds:
  assumes v: "unat a < 2 ^ 30" and t: "trailing_ones a k" and k: "k \<le> 30"
  shows "FROM_PMP_ADDR (a AND NOT (push_bit (k + 1) 1 - 1)) \<le> x \<and>
      x \<le> FROM_PMP_ADDR (a AND NOT (push_bit (k + 1) 1 - 1)) - 1 + FROM_PMP_ADDR (push_bit (k + 1) 1 - 1 + 1)
      \<longleftrightarrow> drop_bit (k + 1) (drop_bit 2 x) = drop_bit (k + 1) a"
    (is "?lo \<le> x \<and> x \<le> ?lo - 1 + ?sz \<longleftrightarrow> ?R")
proof -
  let ?q = "unat a div 2 ^ (k + 1)"
  have lo: "unat ?lo = ?q * 2 ^ (k + 3)" by (rule napot_start [OF v k])
  have R: "?R \<longleftrightarrow> unat x div 2 ^ (k + 3) = ?q"
    unfolding word_unat_eq_iff unat_drop_bit_u32
    by (simp only: div_mult2_eq [symmetric] power_add [symmetric]) (simp add: numeral_3_eq_3)
  show ?thesis
  proof (cases "k \<le> 28")
    case True
    then have "2 ^ (k + 3) < (2 ^ 32 :: nat)" by (intro power_strict_increasing) auto
    then have sz: "unat ?sz = 2 ^ (k + 3)" unfolding napot_size by (rule mod_less)
    have "?q * 2 ^ (k + 1) + 2 ^ (k + 1) \<le> 2 ^ 30" using v True by (intro napot_fits) auto
    then have fits: "?q * 2 ^ (k + 3) + 2 ^ (k + 3) \<le> 2 ^ 32" by (simp add: power_add)
    have "unat (?lo + (?sz - 1)) = ?q * 2 ^ (k + 3) + (2 ^ (k + 3) - 1)"
    proof -
      have "unat (?sz - 1) = 2 ^ (k + 3) - 1" using sz by (subst unat_minus_one) auto
      then show ?thesis using lo fits by (subst unat_add_no_wrap_u32) auto
    qed
    moreover have "?lo - 1 + ?sz = ?lo + (?sz - 1)" by simp
    ultimately show ?thesis
      unfolding R word_le_nat_alt lo by (simp only: range_div zero_less_power zero_less_numeral)
  next
    case False
    then have "k = 29 \<or> k = 30" using k by auto
    then have "?q = 0" "2 ^ (k + 3) mod 2 ^ 32 = (0 :: nat)" "unat x div 2 ^ (k + 3) = 0"
      using v unat_u32_less [of x] by auto
    then have "?lo = 0" "?sz = 0" using lo napot_size [of k] by (simp_all only: unat_eq_zero mult_0)
    then show ?thesis
      unfolding R using \<open>?q = 0\<close> \<open>unat x div 2 ^ (k + 3) = 0\<close> by (simp only:) simp
  qed
qed

section \<open>Decoding\<close>

definition within :: "(u32 \<times> u32) option \<Rightarrow> u32 \<Rightarrow> bool" where
  "within b x \<longleftrightarrow> (case b of None \<Rightarrow> False | Some (lo, hi) \<Rightarrow> lo \<le> x \<and> x \<le> hi)"

lemma na4_within:
  assumes "unat a < 2 ^ 30"
  shows "within (Some (FROM_PMP_ADDR a, FROM_PMP_ADDR a + 4 - 1)) x \<longleftrightarrow> drop_bit 2 x = a"
proof -
  have "FROM_PMP_ADDR a + 4 - 1 = FROM_PMP_ADDR a + 3" by simp
  moreover have "unat (FROM_PMP_ADDR a + 3) = 4 * unat a + 3"
    using assms unat_FROM_PMP_ADDR [OF assms] by (subst unat_add_no_wrap_u32) simp_all
  ultimately have "unat (FROM_PMP_ADDR a + 4 - 1) = 4 * unat a + 3" by (simp only:)
  then show ?thesis
    unfolding within_def option.case prod.case word_le_nat_alt word_unat_eq_iff [of _ a] unat_word_index
    using range_div [of 4 "unat a" "unat x"] unat_FROM_PMP_ADDR [OF assms]
    by (simp only: mult.commute) simp
qed

lemma tor_within:
  assumes "unat a < 2 ^ 30" "a \<noteq> 0" "unat prev < 2 ^ 30"
  shows "within (Some (FROM_PMP_ADDR prev, FROM_PMP_ADDR a - 1)) x \<longleftrightarrow> prev \<le> drop_bit 2 x \<and> drop_bit 2 x < a"
proof -
  have pos: "0 < unat a" using assms(2) by (simp add: unat_gt_0)
  then have "FROM_PMP_ADDR a \<noteq> 0" using unat_FROM_PMP_ADDR [OF assms(1)] by (metis mult_pos_pos less_irrefl unat_0 zero_less_numeral)
  then have "unat (FROM_PMP_ADDR a - 1) = 4 * unat a - 1"
    using unat_FROM_PMP_ADDR [OF assms(1)] by (simp add: unat_minus_one)
  then show ?thesis
    unfolding within_def word_le_nat_alt word_less_nat_alt unat_word_index
    using unat_FROM_PMP_ADDR [OF assms(3)] pos by auto
qed

lemma region_bounds_match:
  assumes i: "unat index < 8" and a: "unat a < 2 ^ 30"
    and tor: "cfg AND PMP_TYPE_MASK = PMP_TOR \<Longrightarrow> a \<noteq> 0"
    and prev: "\<forall>j<8. unat (entry_addr s j) < 2 ^ 30"
  shows "\<exists>b. region_bounds index cfg a s = Some b \<and>
    (\<forall>x. within b x \<longleftrightarrow> hw_match cfg a (if index = 0 then 0 else entry_addr s (unat index - 1)) x)"
proof -
  obtain k where k: "k \<le> 30" "trailing_ones a k" using trailing_ones_ex [OF a] by blast
  have napot: "(\<exists>j<32. trailing_ones a j \<and> P j) \<longleftrightarrow> P k" for P
    using k trailing_ones_unique by (metis trailing_ones_def)
  have read: "csr_read_enum (CSR_PMPADDR0 + int (unat index) - 1) s = entry_addr s (unat index - 1)" if "index \<noteq> 0"
  proof -
    have "CSR_PMPADDR0 + int (unat index) - 1 = CSR_PMPADDR0 + int (unat index - 1)"
      using that by (simp add: unat_gt_0 of_nat_diff Suc_le_eq)
    then show ?thesis using i by (simp only: csr_read_enum_def entry_addr_def csr_number_addr) simp
  qed
  consider "cfg AND PMP_TYPE_MASK = PMP_NA4" | "cfg AND PMP_TYPE_MASK = PMP_NAPOT"
    | "cfg AND PMP_TYPE_MASK = PMP_TOR"
    | "cfg AND PMP_TYPE_MASK \<noteq> PMP_NA4" "cfg AND PMP_TYPE_MASK \<noteq> PMP_NAPOT" "cfg AND PMP_TYPE_MASK \<noteq> PMP_TOR"
    by blast
  then show ?thesis
  proof cases
    case 1
    then show ?thesis
      using na4_within [OF a] by (auto simp: region_bounds_def hw_match_def Let_def)
  next
    case 2
    then have n4: "PMP_NAPOT \<noteq> PMP_NA4" by (simp add: pmp_consts)
    show ?thesis
      using k napot_bounds [OF a k(2,1)]
      by (simp add: region_bounds_def hw_match_def Let_def 2 n4 count_trailing_one napot within_def
        del: push_bit_Suc add_2_eq_Suc add_2_eq_Suc')
  next
    case 3
    then have n4: "PMP_TOR \<noteq> PMP_NA4" "PMP_TOR \<noteq> PMP_NAPOT" by (simp_all add: pmp_consts)
    show ?thesis
    proof (cases "index = 0")
      case True
      have "FROM_PMP_ADDR 0 = 0" by (simp add: FROM_PMP_ADDR_def)
      then show ?thesis
        using tor_within [OF a tor [OF 3], of 0] True by (auto simp: region_bounds_def hw_match_def Let_def 3 n4)
    next
      case False
      have p: "unat (entry_addr s (unat index - 1)) < 2 ^ 30" using prev i by simp
      from False show ?thesis
        using tor_within [OF a tor [OF 3] p] read [OF False]
        by (simp add: region_bounds_def hw_match_def Let_def 3 n4 del: of_nat_unat)
    qed
  next
    case 4
    then show ?thesis by (simp add: region_bounds_def hw_match_def Let_def within_def)
  qed
qed

section \<open>Validation of a buffer\<close>

text \<open>An entry as a thread sees it: from its own arrays below the static entries.\<close>

definition user_entry :: "k_pmp \<Rightarrow> pmp_state \<Rightarrow> nat \<Rightarrow> u8 \<times> u32" where
  "user_entry pmp s i =
     (if unat (max_dynamic_region s + 1) \<le> i then (entry_cfg s i, entry_addr s i)
      else (u_pmpcfg pmp ! i, u_pmpaddr pmp ! i))"

definition user_match :: "k_pmp \<Rightarrow> pmp_state \<Rightarrow> nat \<Rightarrow> u32 \<Rightarrow> bool" where
  "user_match pmp s i x =
     hw_match (fst (user_entry pmp s i)) (snd (user_entry pmp s i)) (if i = 0 then 0 else entry_addr s (i - 1)) x"

text \<open>Addresses that fit the 32-bit address space, and no range that ends at 0.\<close>

definition pmp_ok :: "k_pmp \<Rightarrow> pmp_state \<Rightarrow> bool" where
  "pmp_ok pmp s \<longleftrightarrow> length (u_pmpcfg pmp) = 8 \<and> length (u_pmpaddr pmp) = 8 \<and>
     (\<forall>i<8. unat (entry_addr s i) < 2 ^ 30) \<and>
     (\<forall>i<8. unat (snd (user_entry pmp s i)) < 2 ^ 30 \<and>
        (fst (user_entry pmp s i) AND PMP_TYPE_MASK = PMP_TOR \<longrightarrow> snd (user_entry pmp s i) \<noteq> 0))"

definition covers :: "k_pmp \<Rightarrow> pmp_state \<Rightarrow> u32 \<Rightarrow> u32 \<Rightarrow> nat \<Rightarrow> bool" where
  "covers pmp s a sz i \<longleftrightarrow> (\<forall>x. a \<le> x \<and> x \<le> a + (sz - 1) \<longrightarrow> user_match pmp s i x)"

definition permits :: "k_pmp \<Rightarrow> pmp_state \<Rightarrow> bool \<Rightarrow> nat \<Rightarrow> bool" where
  "permits pmp s wr i \<longleftrightarrow>
     (let p = (if wr then PMP_W else PMP_R) in fst (user_entry pmp s i) AND p = p)"

lemma unat_of_nat_8: "i < 8 \<Longrightarrow> unat (of_nat i :: u32) = i"
  by (simp add: unat_of_nat_u32)

lemma get_user_pmp:
  assumes "length (u_pmpcfg pmp) = 8" "length (u_pmpaddr pmp) = 8" "i < 8"
  shows "riscv_pmp_get_user_pmp pmp (of_nat i) s = Some (Some (user_entry pmp s i))"
  using assms riscv_pmp_get_entry [of "of_nat i" s] unat_of_nat_8 [of i]
  by (auto simp: riscv_pmp_get_user_pmp_def user_entry_def at_def Let_def)

lemma is_in_region_iff:
  assumes ok: "pmp_ok pmp s" and i: "i < 8" and sz: "sz \<noteq> 0"
  shows "is_in_region pmp (of_nat i) a sz s = Some (unat a + unat sz \<le> 2 ^ 32 \<and> covers pmp s a sz i)"
proof -
  obtain cfg pa where e: "user_entry pmp s i = (cfg, pa)" by fastforce
  have u: "unat (of_nat i :: u32) = i" "(of_nat i :: u32) = 0 \<longleftrightarrow> i = 0"
    using unat_of_nat_8 [OF i] by (auto simp: unat_eq_zero [symmetric])
  have regs: "unat pa < 2 ^ 30" "cfg AND PMP_TYPE_MASK = PMP_TOR \<Longrightarrow> pa \<noteq> 0"
    "\<forall>j<8. unat (entry_addr s j) < 2 ^ 30"
    using ok i e unfolding pmp_ok_def by (metis fst_conv snd_conv)+
  have "unat (of_nat i :: u32) < 8" using u i by simp
  then obtain b where b: "region_bounds (of_nat i) cfg pa s = Some b" and m: "\<And>x. within b x \<longleftrightarrow> user_match pmp s i x"
    using region_bounds_match [of "of_nat i", OF _ regs] unfolding user_match_def u e fst_conv snd_conv by blast
  have get: "riscv_pmp_get_user_pmp pmp (of_nat i) s = Some (Some (cfg, pa))"
    using get_user_pmp ok i e by (simp add: pmp_ok_def)
  have s1: "unat (sz - 1) = unat sz - 1" "0 < unat sz" using sz by (simp_all add: unat_minus_one unat_gt_0)
  have fit: "2 ^ 32 \<le> unat a + unat (sz - 1) \<longleftrightarrow> \<not> unat a + unat sz \<le> 2 ^ 32" using s1 by linarith
  show ?thesis
  proof (cases "unat a + unat sz \<le> 2 ^ 32")
    case False
    with get b sz fit show ?thesis by (cases b) (auto simp: is_in_region_def Let_def)
  next
    case True
    then have le: "a \<le> a + (sz - 1)"
      using s1 by (subst word_le_nat_alt, subst unat_add_no_wrap_u32) simp_all
    have "(case b of None \<Rightarrow> False | Some (lo, hi) \<Rightarrow> lo \<le> a \<and> a + (sz - 1) \<le> hi) \<longleftrightarrow> covers pmp s a sz i"
      unfolding covers_def m [symmetric] within_def using le by (cases b) (auto intro: order_trans)
    with get b sz fit True show ?thesis by (cases b) (auto simp: is_in_region_def Let_def)
  qed
qed

lemma is_user_accessible_iff:
  "pmp_ok pmp s \<Longrightarrow> i < 8 \<Longrightarrow> is_user_accessible_region pmp (of_nat i) wr s = Some (permits pmp s wr i)"
  using get_user_pmp [of pmp i s] by (simp add: pmp_ok_def is_user_accessible_region_def permits_def Let_def)

lemma validate_loop:
  assumes ok: "pmp_ok pmp s" and sz: "sz \<noteq> 0" and fit: "unat a + unat sz \<le> 2 ^ 32"
  shows "i \<le> 8 \<Longrightarrow> buffer_validate_loop pmp i a sz wr s =
    Some (if \<exists>n<8. i \<le> n \<and> covers pmp s a sz n \<and> (\<forall>j<n. i \<le> j \<longrightarrow> \<not> covers pmp s a sz j) \<and> permits pmp s wr n
          then 0 else - 1)"
proof (induction "8 - i" arbitrary: i)
  case 0
  then show ?case by (subst buffer_validate_loop.simps) simp
next
  case (Suc d)
  then have i: "i < 8" by simp
  show ?case
  proof (cases "covers pmp s a sz i")
    case True
    then have "(\<exists>n<8. i \<le> n \<and> covers pmp s a sz n \<and> (\<forall>j<n. i \<le> j \<longrightarrow> \<not> covers pmp s a sz j) \<and> permits pmp s wr n)
      \<longleftrightarrow> permits pmp s wr i"
      using i by (metis linorder_neqE_nat not_le order_refl)
    with True show ?thesis
      using is_in_region_iff [OF ok i sz] is_user_accessible_iff [OF ok i] fit i
      by (subst buffer_validate_loop.simps) simp
  next
    case False
    then have e: "(\<exists>n<8. Suc i \<le> n \<and> covers pmp s a sz n \<and> (\<forall>j<n. Suc i \<le> j \<longrightarrow> \<not> covers pmp s a sz j) \<and> permits pmp s wr n)
      \<longleftrightarrow> (\<exists>n<8. i \<le> n \<and> covers pmp s a sz n \<and> (\<forall>j<n. i \<le> j \<longrightarrow> \<not> covers pmp s a sz j) \<and> permits pmp s wr n)"
      by (metis Suc_leD Suc_leI le_neq_implies_less)
    have "d = 8 - Suc i" "Suc i \<le> 8" using Suc.hyps(2) by auto
    from Suc.hyps(1) [OF this] False show ?thesis
      unfolding e using is_in_region_iff [OF ok i sz] i by (subst buffer_validate_loop.simps) simp
  qed
qed

lemma validate_loop_wrap:
  assumes ok: "pmp_ok pmp s" and sz: "sz \<noteq> 0" and fit: "\<not> unat a + unat sz \<le> 2 ^ 32"
  shows "i \<le> 8 \<Longrightarrow> buffer_validate_loop pmp i a sz wr s = Some (- 1)"
proof (induction "8 - i" arbitrary: i)
  case 0
  then show ?case by (subst buffer_validate_loop.simps) simp
next
  case (Suc d)
  then have "i < 8" "d = 8 - Suc i" "Suc i \<le> 8" by auto
  with Suc.hyps(1) show ?case
    using is_in_region_iff [OF ok \<open>i < 8\<close> sz] fit by (subst buffer_validate_loop.simps) simp
qed

section \<open>Encoding\<close>

lemma type_or: "p AND PMP_TYPE_MASK = 0 \<Longrightarrow> m AND PMP_TYPE_MASK = m \<Longrightarrow> (m OR p) AND PMP_TYPE_MASK = m"
  by (simp add: and.commute [of _ PMP_TYPE_MASK] bit.conj_disj_distrib)

lemma perm_or: "p AND PMP_TYPE_MASK = 0 \<Longrightarrow> m AND PMP_TYPE_MASK = m \<Longrightarrow> (m OR p) AND NOT PMP_TYPE_MASK = p"
  for p m :: u8
proof (rule bit_word_eqI)
  fix n
  assume z: "p AND PMP_TYPE_MASK = 0" "m AND PMP_TYPE_MASK = m" "n < LENGTH(8)"
  have "bit p n \<Longrightarrow> bit PMP_TYPE_MASK n \<Longrightarrow> False" using z(1) by (metis bit_0_eq bit_and_iff bot_apply bot_bool_def)
  moreover have "bit m n \<Longrightarrow> bit PMP_TYPE_MASK n" using z(2) by (metis bit_and_iff)
  ultimately show "bit ((m OR p) AND NOT PMP_TYPE_MASK) n = bit p n"
    using z(3) by (auto simp: bit_simps)
qed

lemma type_consts [simp]:
  "PMP_NA4 AND PMP_TYPE_MASK = PMP_NA4" "PMP_TOR AND PMP_TYPE_MASK = PMP_TOR"
  "PMP_NAPOT AND PMP_TYPE_MASK = PMP_NAPOT"
  "PMP_NAPOT \<noteq> PMP_NA4" "PMP_TOR \<noteq> PMP_NA4" "PMP_TOR \<noteq> PMP_NAPOT"
  by (simp_all add: pmp_consts)

lemma bit_TO_PMP_NAPOT:
  "bit (TO_PMP_NAPOT a (2 ^ (l + 3))) j \<longleftrightarrow> bit a (j + 2) \<or> j < l" if "l \<le> 28"
proof -
  have "(2 :: u32) ^ (l + 3) - 1 = mask (l + 3)" by (simp add: mask_eq_exp_minus_1)
  with that show ?thesis
    by (auto simp: TO_PMP_NAPOT_def TO_PMP_ADDR_def TO_NAPOT_RANGE_def bit_simps add.commute dest: bit_imp_le_length)
qed

lemma napot_match:
  assumes l: "l \<le> 28" and st: "unat st mod 2 ^ (l + 3) = 0"
  shows "trailing_ones (TO_PMP_NAPOT st (2 ^ (l + 3))) l"
    and "drop_bit (l + 1) (drop_bit 2 x) = drop_bit (l + 1) (TO_PMP_NAPOT st (2 ^ (l + 3))) \<longleftrightarrow>
      unat st \<le> unat x \<and> unat x < unat st + 2 ^ (l + 3)"
proof -
  have "take_bit (l + 3) (unat st) = 0" using st by (simp add: take_bit_eq_mod)
  then have zero: "\<not> bit st j" if "j < l + 3" for j
    using that by (metis bit_0_eq bit_take_bit_iff bit_unsigned_iff bot_apply bot_bool_def possible_bit_nat)
  show "trailing_ones (TO_PMP_NAPOT st (2 ^ (l + 3))) l"
    using l zero by (auto simp: trailing_ones_def bit_TO_PMP_NAPOT)
  have "drop_bit (l + 1) (TO_PMP_NAPOT st (2 ^ (l + 3))) = drop_bit (l + 3) st"
  proof (rule bit_word_eqI)
    fix n
    have "l + 1 + n + 2 = l + 3 + n" by simp
    then show "bit (drop_bit (l + 1) (TO_PMP_NAPOT st (2 ^ (l + 3)))) n = bit (drop_bit (l + 3) st) n"
      unfolding bit_drop_bit_eq comp_def bit_TO_PMP_NAPOT [OF l] by (simp only:) simp
  qed
  moreover have "drop_bit (l + 1) (drop_bit 2 x) = drop_bit (l + 3) x"
    by (simp only: drop_bit_drop_bit) (simp add: numeral_3_eq_3)
  moreover have "unat x div 2 ^ (l + 3) = unat st div 2 ^ (l + 3) \<longleftrightarrow> unat st \<le> unat x \<and> unat x < unat st + 2 ^ (l + 3)"
  proof -
    have "unat st div 2 ^ (l + 3) * 2 ^ (l + 3) = unat st" using div_mult_mod_eq [of "unat st" "2 ^ (l + 3)"] st by simp
    moreover have "n \<le> m + ((2 :: nat) ^ k - 1) \<longleftrightarrow> n < m + 2 ^ k" for n m k
      using zero_less_power [of "2 :: nat" k] by linarith
    ultimately show ?thesis using range_div [of "2 ^ (l + 3)" "unat st div 2 ^ (l + 3)" "unat x"] by simp
  qed
  ultimately show "drop_bit (l + 1) (drop_bit 2 x) = drop_bit (l + 1) (TO_PMP_NAPOT st (2 ^ (l + 3))) \<longleftrightarrow>
      unat st \<le> unat x \<and> unat x < unat st + 2 ^ (l + 3)"
    by (simp only: word_unat_eq_iff unat_drop_bit_u32)
qed

lemma tor_match:
  assumes "unat st mod 4 = 0" "unat sz mod 4 = 0" "unat st + unat sz < 2 ^ 32"
  shows "TO_PMP_ADDR st \<le> drop_bit 2 x \<and> drop_bit 2 x < TO_PMP_ADDR (st + sz) \<longleftrightarrow>
      unat st \<le> unat x \<and> unat x < unat st + unat sz"
proof -
  have "unat (st + sz) = unat st + unat sz" using assms(3) by (rule unat_add_no_wrap_u32)
  moreover obtain p q where "unat st = 4 * p" "unat sz = 4 * q" using assms(1,2) by (metis mod_0_imp_dvd dvdE)
  ultimately show ?thesis
    by (simp only: word_le_nat_alt word_less_nat_alt unat_TO_PMP_ADDR unat_word_index) auto
qed

lemma na4_match:
  assumes "unat st mod 4 = 0"
  shows "drop_bit 2 x = TO_PMP_NAPOT st 4 \<longleftrightarrow> unat st \<le> unat x \<and> unat x < unat st + 4"
proof -
  have "TO_PMP_NAPOT st 4 = drop_bit 2 st"
    by (rule bit_word_eqI) (simp add: TO_PMP_NAPOT_def TO_PMP_ADDR_def TO_NAPOT_RANGE_def bit_simps)
  moreover obtain p where "unat st = 4 * p" using assms by (metis mod_0_imp_dvd dvdE)
  ultimately show ?thesis
    by (simp only: word_unat_eq_iff unat_word_index) auto
qed

text \<open>The entry \<open>i\<close> gets a new configuration and address, and nothing else changes.\<close>

definition entry_updated :: "nat \<Rightarrow> u8 \<Rightarrow> u32 \<Rightarrow> pmp_state \<Rightarrow> pmp_state \<Rightarrow> bool" where
  "entry_updated i c a s s' \<longleftrightarrow>
     (\<forall>j<16. entry_cfg s' j = (if j = i then c else entry_cfg s j)) \<and>
     (\<forall>j<16. entry_addr s' j = (if j = i then a else entry_addr s j)) \<and>
     static_regions_num s' = static_regions_num s \<and> mprv_regions_num s' = mprv_regions_num s \<and>
     static_regions s' = static_regions s"

lemma put_entry_csr:
  assumes "i < 8"
  shows "\<exists>s'. put_entry (int i) c a (To_csr s) = Some (To_csr s') \<and> entry_updated i c a s s'"
proof -
  have "unat (of_nat i :: u32) = i" using unat_of_nat_8 [OF assms] .
  then show ?thesis
    using riscv_pmp_set_entry [of "of_nat i" c a s] assms unfolding entry_updated_def by fastforce
qed

definition used_entries :: "riscv_pmp_region \<Rightarrow> nat" where
  "used_entries r = (if r_mode r = PMP_MODE_TOR then 2 else 1)"

text \<open>The regions the three modes can express: aligned to four bytes and not empty; for a range, not
  beyond the end of the address space; for a power of two, aligned to its size.\<close>

definition region_ok :: "riscv_pmp_region \<Rightarrow> bool" where
  "region_ok r \<longleftrightarrow> r_size r \<noteq> 0 \<and> unat (r_start r) mod 4 = 0 \<and> unat (r_size r) mod 4 = 0 \<and>
     r_perm r AND PMP_TYPE_MASK = 0 \<and>
     (case r_mode r of
        PMP_MODE_TOR \<Rightarrow> unat (r_start r) + unat (r_size r) < 2 ^ 32
      | PMP_MODE_NA4 \<Rightarrow> r_size r = 4
      | PMP_MODE_NAPOT \<Rightarrow> r_size r = 4 \<or> (\<exists>l\<le>28. r_size r = 2 ^ (l + 3) \<and> unat (r_start r) mod 2 ^ (l + 3) = 0))"

lemma unat_pow: "l \<le> 28 \<Longrightarrow> unat (2 ^ (l + 3) :: u32) = 2 ^ (l + 3)"
proof -
  assume "l \<le> 28"
  then have "(2 :: nat) ^ (l + 3) < 2 ^ 32" by (intro power_strict_increasing) auto
  moreover have "(2 :: u32) ^ (l + 3) = push_bit (l + 3) 1" by (simp add: push_bit_eq_mult)
  ultimately show ?thesis
    by (simp only: unsigned_push_bit_eq) (simp add: push_bit_eq_mult take_bit_eq_mod)
qed

lemma region_translate_csr:
  assumes ok: "region_ok r" and i: "i + used_entries r \<le> 8"
  shows "\<exists>s'. riscv_pmp_region_translate (int i) r (To_csr s) = Some (int (i + used_entries r), To_csr s') \<and>
    (\<forall>x. hw_entry_match s' (i + used_entries r - 1) x \<longleftrightarrow>
        unat (r_start r) \<le> unat x \<and> unat x < unat (r_start r) + unat (r_size r)) \<and>
    entry_cfg s' (i + used_entries r - 1) AND NOT PMP_TYPE_MASK = r_perm r \<and>
    (\<forall>j<16. j < i \<or> i + used_entries r \<le> j \<longrightarrow> entry_cfg s' j = entry_cfg s j \<and> entry_addr s' j = entry_addr s j) \<and>
    static_regions_num s' = static_regions_num s \<and> mprv_regions_num s' = mprv_regions_num s"
proof (cases "r_mode r = PMP_MODE_TOR")
  case True
  then have u: "used_entries r = 2" and i8: "i < 8" "Suc i < 8" using i by (auto simp: used_entries_def)
  let ?c1 = "PMP_NA4 OR r_perm r" and ?a1 = "TO_PMP_ADDR (r_start r)"
  let ?c2 = "PMP_TOR OR r_perm r" and ?a2 = "TO_PMP_ADDR (r_start r + r_size r)"
  obtain s1 where s1: "put_entry (int i) ?c1 ?a1 (To_csr s) = Some (To_csr s1)" "entry_updated i ?c1 ?a1 s s1"
    using put_entry_csr [OF i8(1)] by blast
  obtain s2 where s2: "put_entry (int (Suc i)) ?c2 ?a2 (To_csr s1) = Some (To_csr s2)" "entry_updated (Suc i) ?c2 ?a2 s1 s2"
    using put_entry_csr [OF i8(2)] by blast
  have t: "riscv_pmp_region_translate (int i) r (To_csr s) = Some (int i + 2, To_csr s2)"
    using s1(1) s2(1) True ok i8 by (simp add: riscv_pmp_region_translate_def region_ok_def add.commute)
  have ty: "?c2 AND PMP_TYPE_MASK = PMP_TOR" "?c2 AND NOT PMP_TYPE_MASK = r_perm r"
    using ok by (simp_all add: region_ok_def type_or perm_or)
  have e: "entry_cfg s2 (Suc i) = ?c2" "entry_addr s2 (Suc i) = ?a2" "entry_addr s2 i = ?a1"
    using s1(2) s2(2) i8 by (simp_all add: entry_updated_def)
  have m: "hw_entry_match s2 (Suc i) x \<longleftrightarrow> unat (r_start r) \<le> unat x \<and> unat x < unat (r_start r) + unat (r_size r)" for x
    using tor_match [of "r_start r" "r_size r" x] ok True
    by (simp add: hw_entry_match_def e hw_match_def ty Let_def region_ok_def)
  show ?thesis
    using t m e ty s1(2) s2(2) by (simp add: u entry_updated_def)
next
  case False
  then have u: "used_entries r = 1" and i8: "i < 8" using i by (auto simp: used_entries_def)
  let ?m = "if r_mode r = PMP_MODE_NA4 \<or> r_size r = 4 then PMP_NA4 else PMP_NAPOT"
  let ?c = "?m OR r_perm r" and ?a = "TO_PMP_NAPOT (r_start r) (r_size r)"
  obtain s1 where s1: "put_entry (int i) ?c ?a (To_csr s) = Some (To_csr s1)" "entry_updated i ?c ?a s s1"
    using put_entry_csr [OF i8] by blast
  have t: "riscv_pmp_region_translate (int i) r (To_csr s) = Some (int i + 1, To_csr s1)"
    using s1(1) False ok i8 by (simp add: riscv_pmp_region_translate_def region_ok_def Let_def)
  have ty: "?c AND PMP_TYPE_MASK = ?m" "?c AND NOT PMP_TYPE_MASK = r_perm r"
    using ok by (simp_all add: region_ok_def type_or perm_or)
  have e: "entry_cfg s1 i = ?c" "entry_addr s1 i = ?a" using s1(2) i8 by (simp_all add: entry_updated_def)
  have m: "hw_entry_match s1 i x \<longleftrightarrow> unat (r_start r) \<le> unat x \<and> unat x < unat (r_start r) + unat (r_size r)" for x
  proof (cases "r_size r = 4")
    case True
    then show ?thesis
      using na4_match [of "r_start r" x] ok ty(1)
      by (simp add: hw_entry_match_def e hw_match_def Let_def region_ok_def)
  next
    case big: False
    then have "r_mode r = PMP_MODE_NAPOT" using ok False by (cases "r_mode r") (auto simp: region_ok_def)
    with ok big obtain l where l: "l \<le> 28" "r_size r = 2 ^ (l + 3)" "unat (r_start r) mod 2 ^ (l + 3) = 0"
      by (auto simp: region_ok_def)
    note n = napot_match [OF l(1,3)]
    have ty: "?c AND PMP_TYPE_MASK = PMP_NAPOT" using ty(1) big \<open>r_mode r = PMP_MODE_NAPOT\<close> by simp
    have "(\<exists>k<32. trailing_ones ?a k \<and> P k) \<longleftrightarrow> P l" for P
      using n(1) trailing_ones_unique l by (metis trailing_ones_def)
    then have "hw_entry_match s1 i x \<longleftrightarrow> drop_bit (l + 1) (drop_bit 2 x) = drop_bit (l + 1) ?a"
      unfolding hw_entry_match_def e hw_match_def ty Let_def by simp
    then show ?thesis using n(2) [of x] unat_pow [OF l(1)] l(2) by simp
  qed
  show ?thesis
    using t m e ty s1(2) by (simp add: u entry_updated_def)
qed

section \<open>Switching to a thread\<close>

definition dyn_ok :: "pmp_state \<Rightarrow> bool" where
  "dyn_ok s \<longleftrightarrow> unat (static_regions_num s) + unat (mprv_regions_num s) < 8"

definition max_dyn :: "pmp_state \<Rightarrow> nat" where
  "max_dyn s = 7 - unat (static_regions_num s) - unat (mprv_regions_num s)"

lemma max_dynamic_region:
  assumes "dyn_ok s"
  shows "unat (max_dynamic_region s) = max_dyn s" "unat (max_dynamic_region s + 1) = max_dyn s + 1"
proof -
  have le: "unat (static_regions_num s) \<le> 8" "unat (mprv_regions_num s) \<le> 8 - unat (static_regions_num s)"
    using assms by (auto simp: dyn_ok_def)
  have "unat (8 - static_regions_num s) = 8 - unat (static_regions_num s)"
    using le(1) by (subst unat_sub) (auto simp: word_le_nat_alt)
  define w where "w = 8 - static_regions_num s - mprv_regions_num s"
  have "unat w = max_dyn s + 1" unfolding w_def max_dyn_def
    using le \<open>unat (8 - static_regions_num s) = _\<close> assms by (subst unat_sub) (auto simp: word_le_nat_alt dyn_ok_def)
  moreover have "max_dynamic_region s = w - 1" by (simp add: max_dynamic_region_def w_def)
  moreover have "w \<noteq> 0" using \<open>unat w = max_dyn s + 1\<close> by auto
  ultimately show "unat (max_dynamic_region s) = max_dyn s" "unat (max_dynamic_region s + 1) = max_dyn s + 1"
    by (simp_all add: unat_minus_one)
qed

lemma write_addrs_loop:
  "mx < 16 \<Longrightarrow> mx < length u \<Longrightarrow>
   \<exists>s'. write_addrs_loop i mx u s = Some s' \<and> s' = s\<lparr>csrs := csrs s'\<rparr> \<and>
     (\<forall>n. csrs s' n = (if 0x3B0 + i \<le> n \<and> n \<le> 0x3B0 + mx then u ! (n - 0x3B0) else csrs s n))"
proof (induction "Suc mx - i" arbitrary: i s)
  case 0
  then show ?case by (subst write_addrs_loop.simps) auto
next
  case (Suc d)
  then have i: "i \<le> mx" "d = Suc mx - Suc i" "i < 16" by auto
  let ?s = "s\<lparr>csrs := (csrs s)(0x3B0 + i := u ! i)\<rparr>"
  have w: "csr_write_enum (CSR_PMPADDR0 + int i) (u ! i) s = ?s" using i by (simp add: csr_write_enum_def)
  from Suc.hyps(1) [OF i(2) Suc.prems, of ?s]
  obtain s' where s': "write_addrs_loop (Suc i) mx u ?s = Some s'" "s' = ?s\<lparr>csrs := csrs s'\<rparr>"
    "\<forall>n. csrs s' n = (if 0x3B0 + Suc i \<le> n \<and> n \<le> 0x3B0 + mx then u ! (n - 0x3B0) else csrs ?s n)" by blast
  have "s' = s\<lparr>csrs := csrs s'\<rparr>" using s'(2) by simp
  moreover have "\<forall>n. csrs s' n = (if 0x3B0 + i \<le> n \<and> n \<le> 0x3B0 + mx then u ! (n - 0x3B0) else csrs s n)"
    using s'(3) i(1) by auto
  moreover have "write_addrs_loop i mx u s = Some s'"
    using s'(1) w i(1) Suc.prems(2) by (subst write_addrs_loop.simps) (simp add: at_def)
  ultimately show ?case by blast
qed

lemma clear_config:
  assumes "dyn_ok s"
  shows "\<exists>s'. z_riscv_pmp_clear_config s = Some s' \<and> cfg_frame s s' \<and>
    (\<forall>j<8. entry_cfg s' j = (if j \<le> max_dyn s \<or> 8 - unat (mprv_regions_num s) \<le> j then 0 else entry_cfg s j))"
proof -
  have mp: "unat (8 - mprv_regions_num s) = 8 - unat (mprv_regions_num s)"
    using assms by (subst unat_sub) (auto simp: word_le_nat_alt dyn_ok_def)
  have "unat (max_dynamic_region s) < 16" using max_dynamic_region [OF assms] by (simp add: max_dyn_def)
  then obtain s1 where s1: "riscv_pmpcfg_set_range 0 (max_dynamic_region s) None s = Some s1" "cfg_frame s s1"
    "\<forall>j<16. entry_cfg s1 j = (if j \<le> max_dyn s then 0 else entry_cfg s j)"
    using set_range_entries [of "max_dynamic_region s" None 0 s] max_dynamic_region [OF assms] by (auto simp: in_array_def)
  obtain s2 where s2: "riscv_pmpcfg_set_range (8 - mprv_regions_num s) 7 None s1 = Some s2" "cfg_frame s1 s2"
    "\<forall>j<16. entry_cfg s2 j = (if 8 - unat (mprv_regions_num s) \<le> j \<and> j \<le> 7 then 0 else entry_cfg s1 j)"
    using set_range_entries [of 7 None "8 - mprv_regions_num s" s1] mp by (auto simp: in_array_def)
  have "z_riscv_pmp_clear_config s = Some s2"
    using s1(1) s2(1) by (simp add: z_riscv_pmp_clear_config_def Let_def)
  then show ?thesis
    using s1(3) s2(3) cfg_frame_trans [OF s1(2) s2(2)] by auto
qed

lemma configure_user:
  assumes ok: "dyn_ok s" and len: "length (u_pmpcfg pmp) = 8" "length (u_pmpaddr pmp) = 8"
  shows "\<exists>s'. z_riscv_configure_user_allowed_stack pmp s = Some s' \<and>
    static_regions_num s' = static_regions_num s \<and> mprv_regions_num s' = mprv_regions_num s \<and>
    (\<forall>j<8. entry_cfg s' j = (if j \<le> max_dyn s then u_pmpcfg pmp ! j
        else if 8 - unat (mprv_regions_num s) \<le> j then 0 else entry_cfg s j)) \<and>
    (\<forall>j<8. entry_addr s' j = (if j \<le> max_dyn s then u_pmpaddr pmp ! j else entry_addr s j))"
proof -
  have mx: "unat (max_dynamic_region s) = max_dyn s" "max_dyn s < 8"
    using max_dynamic_region [OF ok] by (simp_all add: max_dyn_def)
  obtain s1 where s1: "z_riscv_pmp_clear_config s = Some s1" "cfg_frame s s1"
    "\<forall>j<8. entry_cfg s1 j = (if j \<le> max_dyn s \<or> 8 - unat (mprv_regions_num s) \<le> j then 0 else entry_cfg s j)"
    using clear_config [OF ok] by blast
  obtain s2 where s2: "write_addrs_loop 0 (max_dyn s) (u_pmpaddr pmp) s1 = Some s2" "s2 = s1\<lparr>csrs := csrs s2\<rparr>"
    "\<forall>n. csrs s2 n = (if 0x3B0 + 0 \<le> n \<and> n \<le> 0x3B0 + max_dyn s then u_pmpaddr pmp ! (n - 0x3B0) else csrs s1 n)"
    using write_addrs_loop [of "max_dyn s" "u_pmpaddr pmp" 0 s1] mx len by auto
  obtain s3 where s3: "riscv_pmpcfg_set_range 0 (max_dynamic_region s) (Some (u_pmpcfg pmp)) s2 = Some s3" "cfg_frame s2 s3"
    "\<forall>j<16. entry_cfg s3 j = (if j \<le> max_dyn s then u_pmpcfg pmp ! j else entry_cfg s2 j)"
    using set_range_entries [of "max_dynamic_region s" "Some (u_pmpcfg pmp)" 0 s2] mx len by (auto simp: in_array_def)
  have run: "z_riscv_configure_user_allowed_stack pmp s = Some s3"
    using s1(1) s2(1) s3(1) mx by (simp add: z_riscv_configure_user_allowed_stack_def Let_def)
  have c2: "entry_cfg s2 j = entry_cfg s1 j" if "j < 8" for j
  proof -
    have "csrs s2 (0x3A0 + j div 4) = csrs s1 (0x3A0 + j div 4)" using s2(3) that by auto
    then show ?thesis by (simp add: entry_cfg_def)
  qed
  have a2: "entry_addr s2 j = (if j \<le> max_dyn s then u_pmpaddr pmp ! j else entry_addr s1 j)" if "j < 8" for j
    using s2(3) by (simp add: entry_addr_def)
  have st: "static_regions_num s2 = static_regions_num s1" "mprv_regions_num s2 = mprv_regions_num s1"
    using s2(2) by (metis pmp_state.select_convs(2,3) pmp_state.surjective pmp_state.update_convs(1))+
  show ?thesis
    using run s1(3) s3(3) c2 a2 st cfg_frame_sel [OF s1(2)] cfg_frame_sel [OF s3(2)] by auto
qed

section \<open>A thread's regions\<close>

lemma put_entry_user:
  "i < length (u_pmpcfg pmp) \<Longrightarrow> i < length (u_pmpaddr pmp) \<Longrightarrow>
   put_entry (int i) c a (To_user pmp) =
     Some (To_user (pmp\<lparr>u_pmpcfg := (u_pmpcfg pmp)[i := c], u_pmpaddr := (u_pmpaddr pmp)[i := a]\<rparr>))"
  by (simp add: put_at_def)

text \<open>What a range region adds to a thread's arrays at entry \<open>i\<close>.\<close>

definition with_range :: "nat \<Rightarrow> u32 \<Rightarrow> u32 \<Rightarrow> u8 \<Rightarrow> k_pmp \<Rightarrow> k_pmp" where
  "with_range i a sz p pmp =
     pmp\<lparr>u_pmpcfg := (u_pmpcfg pmp)[i := PMP_NA4 OR p, Suc i := PMP_TOR OR p],
         u_pmpaddr := (u_pmpaddr pmp)[i := TO_PMP_ADDR a, Suc i := TO_PMP_ADDR (a + sz)]\<rparr>"

lemma translate_user_range:
  assumes "length (u_pmpcfg pmp) = 8" "length (u_pmpaddr pmp) = 8" "Suc i < 8" "sz \<noteq> 0"
  shows "riscv_pmp_region_translate (int i) \<lparr>r_start = a, r_size = sz, r_perm = p, r_mode = PMP_MODE_TOR\<rparr> (To_user pmp)
     = Some (int i + 2, To_user (with_range i a sz p pmp))"
proof -
  have e: "int i + 1 = int (Suc i)" by simp
  show ?thesis
    using assms put_entry_user [of i pmp] put_entry_user [of "Suc i" "pmp\<lparr>u_pmpcfg := _, u_pmpaddr := _\<rparr>"]
    by (simp add: riscv_pmp_region_translate_def with_range_def e del: put_entry.simps of_nat_Suc)
qed

lemma init_user_range:
  assumes "length (u_pmpcfg pmp) = 8" "length (u_pmpaddr pmp) = 8" "stack_size pmp \<noteq> 0"
  shows "z_riscv_init_user_accesses False pmp = Some (with_range 0 (stack_start pmp) (stack_size pmp) PMP_R pmp)"
  using translate_user_range [of pmp 0 "stack_size pmp" "stack_start pmp" PMP_R] assms
  by (simp add: z_riscv_init_user_accesses_def PMP_MODE_DEFAULT_def empty_region_def Let_def)

lemma next_free_entry:
  "mx < length cfg \<Longrightarrow> i \<le> n \<Longrightarrow> (\<forall>j. i \<le> j \<and> j < n \<longrightarrow> cfg ! j \<noteq> 0) \<Longrightarrow>
   (n \<le> mx \<and> cfg ! n = 0) \<or> n = Suc mx \<Longrightarrow> next_free_entry i mx cfg = Some n"
proof (induction "n - i" arbitrary: i)
  case 0
  then show ?case by (subst next_free_entry.simps) (auto simp: at_def)
next
  case (Suc d)
  then have "next_free_entry (Suc i) mx cfg = Some n" by (intro Suc.hyps(1)) auto
  moreover have "i \<le> mx" "cfg ! i \<noteq> 0" using Suc by auto
  ultimately show ?case using Suc.prems(1) by (subst next_free_entry.simps) (simp add: at_def)
qed

lemma hw_match_range:
  assumes "unat a mod 4 = 0" "unat sz mod 4 = 0" "unat a + unat sz < 2 ^ 32" "p AND PMP_TYPE_MASK = 0"
  shows "hw_match (PMP_TOR OR p) (TO_PMP_ADDR (a + sz)) (TO_PMP_ADDR a) x \<longleftrightarrow>
     unat a \<le> unat x \<and> unat x < unat a + unat sz"
  using tor_match [OF assms(1-3)] type_or [OF assms(4), of PMP_TOR] by (simp add: hw_match_def Let_def)

section \<open>Properties\<close>

text \<open>
  What the hardware does for a thread whose entries are installed.  An access is decided by the lowest entry that matches
  it, and an access of user mode that no entry matches is denied.  A buffer is accessible when each of its bytes is.  The
  lower bound of a range is the address of the entry before it, the thread's own where that is one of the thread's.
\<close>

definition thread_match :: "k_pmp \<Rightarrow> pmp_state \<Rightarrow> nat \<Rightarrow> u32 \<Rightarrow> bool" where
  "thread_match pmp s i x =
     hw_match (fst (user_entry pmp s i)) (snd (user_entry pmp s i)) (if i = 0 then 0 else snd (user_entry pmp s (i - 1))) x"

definition allowed :: "k_pmp \<Rightarrow> pmp_state \<Rightarrow> bool \<Rightarrow> u32 \<Rightarrow> bool" where
  "allowed pmp s wr x \<longleftrightarrow>
     (\<exists>n<8. thread_match pmp s n x \<and> (\<forall>j<n. \<not> thread_match pmp s j x) \<and> permits pmp s wr n)"

definition accessible :: "k_pmp \<Rightarrow> pmp_state \<Rightarrow> bool \<Rightarrow> u32 \<Rightarrow> u32 \<Rightarrow> bool" where
  "accessible pmp s wr a sz \<longleftrightarrow>
     unat a + unat sz \<le> 2 ^ 32 \<and> (\<forall>x. a \<le> x \<and> x \<le> a + (sz - 1) \<longrightarrow> allowed pmp s wr x)"

text \<open>The thread is switched to: the address registers hold its addresses.\<close>

definition installed :: "k_pmp \<Rightarrow> pmp_state \<Rightarrow> bool" where
  "installed pmp s \<longleftrightarrow> (\<forall>i<8. entry_addr s i = snd (user_entry pmp s i))"



lemma installed_match: "installed pmp s \<Longrightarrow> n < 8 \<Longrightarrow> user_match pmp s n x = thread_match pmp s n x"
  by (simp add: installed_def user_match_def thread_match_def)

lemma installed_covers:
  "installed pmp s \<Longrightarrow> n < 8 \<Longrightarrow>
   covers pmp s a sz n \<longleftrightarrow> (\<forall>x. a \<le> x \<and> x \<le> a + (sz - 1) \<longrightarrow> thread_match pmp s n x)"
  by (simp add: covers_def installed_match)

lemma validate_first_cover:
  assumes "pmp_ok pmp s" and "sz \<noteq> 0"
  shows "arch_buffer_validate pmp a sz wr s = Some
    (if unat a + unat sz \<le> 2 ^ 32 \<and>
        (\<exists>n<8. covers pmp s a sz n \<and> (\<forall>j<n. \<not> covers pmp s a sz j) \<and> permits pmp s wr n) then 0 else - 1)"
proof (cases "unat a + unat sz \<le> 2 ^ 32")
  case True
  with validate_loop [OF assms True, of 0 wr] show ?thesis by (simp add: arch_buffer_validate_def)
next
  case False
  with validate_loop_wrap [OF assms False, of 0 wr] show ?thesis by (simp add: arch_buffer_validate_def)
qed





definition pmp1 :: k_pmp where
  "pmp1 = \<lparr>stack_start = 0x20000000, stack_size = 0x400, u_pmpcfg = [0x11, 0, 0, 0, 0, 0, 0, 0],
           u_pmpaddr = [0x8000000, 0, 0, 0, 0, 0, 0, 0]\<rparr>"

definition state0 :: pmp_state where
  "state0 = \<lparr>csrs = \<lambda>_. 0, static_regions_num = 0, mprv_regions_num = 0, static_regions = []\<rparr>"

lemma less_8: "(\<forall>i<8. P i) \<longleftrightarrow> P 0 \<and> P 1 \<and> P 2 \<and> P 3 \<and> P 4 \<and> P 5 \<and> P 6 \<and> P (7 :: nat)"
  by (auto simp: eval_nat_numeral All_less_Suc)

text \<open>The state of the hardware after a thread with these entries is switched to, and a thread whose first entry denies
  the first word of a range that its second entry allows.\<close>

definition switched_to :: "k_pmp \<Rightarrow> pmp_state" where
  "switched_to pmp = state0\<lparr>csrs := \<lambda>n. if 0x3B0 \<le> n \<and> n < 0x3B8 then u_pmpaddr pmp ! (n - 0x3B0) else 0\<rparr>"

definition pmp2 :: k_pmp where
  "pmp2 = \<lparr>stack_start = 0x20000000, stack_size = 0x400, u_pmpcfg = [0x10, 0x09, 0, 0, 0, 0, 0, 0],
           u_pmpaddr = [0x8000000, 0x8000002, 0, 0, 0, 0, 0, 0]\<rparr>"

lemmas switched_simps = switched_to_def state0_def pmp1_def pmp2_def user_entry_def max_dynamic_region_def entry_addr_def

lemma pmp_examples:
  "pmp_ok pmp1 (switched_to pmp1)" "installed pmp1 (switched_to pmp1)"
  "pmp_ok pmp2 (switched_to pmp2)" "installed pmp2 (switched_to pmp2)"
  unfolding pmp_ok_def installed_def less_8 by (simp_all add: switched_simps pmp_consts)


lemma pmp2_match:
  "thread_match pmp2 (switched_to pmp2) 0 x \<longleftrightarrow> drop_bit 2 x = 0x8000000"
  "thread_match pmp2 (switched_to pmp2) 1 x \<longleftrightarrow> 0x8000000 \<le> drop_bit 2 x \<and> drop_bit 2 x < 0x8000002"
  by (simp_all add: thread_match_def hw_match_def Let_def switched_simps pmp_consts)


text \<open>The guarantee of the header does not hold without the conditions of the theorem: validation succeeds on a buffer of
  two words whose first word the hardware denies.\<close>

theorem arch_buffer_validate_overlap:
  "arch_buffer_validate pmp2 0x20000000 8 False (switched_to pmp2) = Some 0 \<and>
   \<not> accessible pmp2 (switched_to pmp2) False 0x20000000 8"
proof -
  have w0: "drop_bit 2 x = 0x8000000 \<longleftrightarrow> 0x20000000 \<le> x \<and> x \<le> 0x20000003" for x :: u32
    using na4_within [of "0x8000000" x] by (simp add: within_def FROM_PMP_ADDR_def)
  have w1: "0x8000000 \<le> drop_bit 2 x \<and> drop_bit 2 x < 0x8000002 \<longleftrightarrow> 0x20000000 \<le> x \<and> x \<le> 0x20000007" for x :: u32
    using tor_within [of "0x8000002" "0x8000000" x] by (simp add: within_def FROM_PMP_ADDR_def)
  have p: "\<not> permits pmp2 (switched_to pmp2) False 0" "permits pmp2 (switched_to pmp2) False 1"
    by (simp_all add: permits_def switched_simps pmp_consts)
  have c: "covers pmp2 (switched_to pmp2) 0x20000000 8 1" "\<not> covers pmp2 (switched_to pmp2) 0x20000000 8 0"
    by (simp_all add: installed_covers pmp_examples(4) pmp2_match w0 w1 del: One_nat_def) (rule exI [of _ "0x20000004"], simp)
  then have "\<exists>n<8. covers pmp2 (switched_to pmp2) 0x20000000 8 n \<and>
      (\<forall>j<n. \<not> covers pmp2 (switched_to pmp2) 0x20000000 8 j) \<and> permits pmp2 (switched_to pmp2) False n"
    using p by (intro exI [of _ 1]) simp
  then have "arch_buffer_validate pmp2 0x20000000 8 False (switched_to pmp2) = Some 0"
    by (subst validate_first_cover [OF pmp_examples(3)]) simp_all
  moreover have "\<not> allowed pmp2 (switched_to pmp2) False 0x20000000"
    unfolding allowed_def
  proof
    have m: "thread_match pmp2 (switched_to pmp2) 0 0x20000000" by (simp add: pmp2_match w0)
    assume "\<exists>n<8. thread_match pmp2 (switched_to pmp2) n 0x20000000 \<and>
      (\<forall>j<n. \<not> thread_match pmp2 (switched_to pmp2) j 0x20000000) \<and> permits pmp2 (switched_to pmp2) False n"
    then obtain n where "\<forall>j<n. \<not> thread_match pmp2 (switched_to pmp2) j 0x20000000" "permits pmp2 (switched_to pmp2) False n"
      by blast
    with m p(1) show False by (cases n) auto
  qed
  ultimately show ?thesis by (auto simp: accessible_def)
qed

text \<open>C13: programming a region that its mode can express succeeds; the hardware then matches exactly the
  bytes of the region with the last entry used, with the permissions of the region, and the entries
  outside those used are unchanged.\<close>

theorem riscv_pmp_region_set_matches:
  assumes "region_ok r" and "i + used_entries r \<le> 8"
  shows "\<exists>s'. riscv_pmp_region_set (int i) r s = (int (i + used_entries r), s') \<and>
    (\<forall>x. hw_entry_match s' (i + used_entries r - 1) x \<longleftrightarrow>
        unat (r_start r) \<le> unat x \<and> unat x < unat (r_start r) + unat (r_size r)) \<and>
    entry_cfg s' (i + used_entries r - 1) AND NOT PMP_TYPE_MASK = r_perm r \<and>
    (\<forall>j<16. j < i \<or> i + used_entries r \<le> j \<longrightarrow> entry_cfg s' j = entry_cfg s j \<and> entry_addr s' j = entry_addr s j)"
proof -
  have "r_start r AND 0x3 = 0 \<and> r_size r AND 0x3 = 0 \<and> r_size r \<noteq> 0"
    using assms(1) by (simp add: region_ok_def aligned_iff)
  with region_translate_csr [OF assms, of s] show ?thesis
    by (auto simp: riscv_pmp_region_set_def)
qed

theorem riscv_pmp_region_set_matches_witness:
  "\<exists>s'. riscv_pmp_region_set 2 \<lparr>r_start = 0x20000000, r_size = 0x400, r_perm = 3, r_mode = PMP_MODE_NAPOT\<rparr> state0 = (3, s') \<and>
     hw_entry_match s' 2 0x200003FF \<and> \<not> hw_entry_match s' 2 0x20000400"
proof -
  let ?r = "\<lparr>r_start = 0x20000000, r_size = 0x400, r_perm = 3, r_mode = PMP_MODE_NAPOT\<rparr>"
  have "region_ok ?r" by (auto simp: region_ok_def pmp_consts intro!: exI [of _ 7])
  then show ?thesis
    using riscv_pmp_region_set_matches [of ?r 2 state0] by (auto simp: used_entries_def)
qed

text \<open>Switching to a thread installs its configuration bytes and addresses in all dynamic entries,
  leaves the static entries alone and switches the remaining ones off; it does not fail.\<close>

theorem z_riscv_configure_user_allowed_stack_installs:
  assumes "dyn_ok s" and "length (u_pmpcfg pmp) = 8" and "length (u_pmpaddr pmp) = 8"
  shows "\<exists>s'. z_riscv_configure_user_allowed_stack pmp s = Some s' \<and>
    (\<forall>j<8. entry_cfg s' j = (if j \<le> max_dyn s then u_pmpcfg pmp ! j
        else if 8 - unat (mprv_regions_num s) \<le> j then 0 else entry_cfg s j)) \<and>
    (\<forall>j<8. entry_addr s' j = (if j \<le> max_dyn s then u_pmpaddr pmp ! j else entry_addr s j))"
  using configure_user [OF assms] by blast

theorem z_riscv_configure_user_allowed_stack_installs_witness:
  "\<exists>s'. z_riscv_configure_user_allowed_stack pmp1 state0 = Some s' \<and> entry_cfg s' 0 = 0x11 \<and>
     entry_addr s' 0 = 0x8000000"
proof -
  have "dyn_ok state0" "length (u_pmpcfg pmp1) = 8" "length (u_pmpaddr pmp1) = 8"
    by (simp_all add: dyn_ok_def state0_def pmp1_def)
  from z_riscv_configure_user_allowed_stack_installs [OF this] show ?thesis by (auto simp: pmp1_def)
qed

text \<open>C32: at boot, \<open>arch_kernel_init\<close> locks a read-execute range over the program image in the last two
  entries; the hardware matches exactly the bytes of the image with it, no other entry changes and
  two entries fewer are left for threads.\<close>

theorem arch_kernel_init_protects_rom:
  assumes "static_regions_num s = 0" and "mprv_regions_num s = 0"
    and "static_regions s = initial_static_regions False rom_start"
    and "unat rom_start mod 4 = 0" and "unat rom_end mod 4 = 0" and "rom_start < rom_end"
  shows "let s' = arch_kernel_init rom_start rom_end s in
    (\<forall>x. hw_entry_match s' 7 x \<longleftrightarrow> rom_start \<le> x \<and> x < rom_end) \<and>
    entry_cfg s' 7 AND NOT PMP_TYPE_MASK = PMP_R OR PMP_X OR PMP_L \<and>
    (\<forall>j<6. entry_cfg s' j = entry_cfg s j \<and> entry_addr s' j = entry_addr s j) \<and>
    static_regions_num s' = 2 \<and> max_dynamic_region s' = 5"
proof -
  let ?r = "\<lparr>r_start = rom_start, r_size = rom_end - rom_start, r_perm = PMP_R OR PMP_X OR PMP_L, r_mode = PMP_MODE_TOR\<rparr>"
  let ?s = "s\<lparr>static_regions := [?r]\<rparr>"
  have le: "unat rom_start < unat rom_end" using assms(6) by (simp add: word_less_nat_alt)
  have sz: "unat (rom_end - rom_start) = unat rom_end - unat rom_start"
    using assms(6) by (simp add: unat_sub less_imp_le)
  have "unat (rom_end - rom_start) mod 4 = 0" unfolding sz using assms(4,5) le by presburger
  moreover have "rom_end - rom_start \<noteq> 0" using le by auto
  ultimately have ok: "region_ok ?r"
    using assms(4) sz le unat_u32_less [of rom_end] by (auto simp: region_ok_def pmp_consts)
  obtain s' where s': "riscv_pmp_region_set 6 ?r ?s = (8, s')"
    "\<forall>x. hw_entry_match s' 7 x \<longleftrightarrow> unat rom_start \<le> unat x \<and> unat x < unat rom_end"
    "entry_cfg s' 7 AND NOT PMP_TYPE_MASK = PMP_R OR PMP_X OR PMP_L"
    "\<forall>j<6. entry_cfg s' j = entry_cfg s j \<and> entry_addr s' j = entry_addr s j"
    "static_regions_num s' = 0 \<and> mprv_regions_num s' = 0"
  proof -
    have al: "rom_start AND 0x3 = 0 \<and> (rom_end - rom_start) AND 0x3 = 0"
      using ok by (simp add: region_ok_def aligned_iff)
    have u: "used_entries ?r = 2" by (simp add: used_entries_def)
    have e: "unat rom_start + unat (rom_end - rom_start) = unat rom_end" using sz le by simp
    have f: "entry_cfg ?s j = entry_cfg s j" "entry_addr ?s j = entry_addr s j" for j
      by (simp_all add: entry_cfg_def entry_addr_def)
    show thesis
      using region_translate_csr [OF ok, of 6 ?s] that al \<open>rom_end - rom_start \<noteq> 0\<close> assms(1,2)
      by (fastforce simp: u e f riscv_pmp_region_set_def)
  qed
  have "arch_kernel_init rom_start rom_end s = s'\<lparr>static_regions_num := 2\<rparr>"
    using s'(1,5) assms(1-3) \<open>rom_end - rom_start \<noteq> 0\<close>
    by (simp add: arch_kernel_init_def z_riscv_configure_static_pmp_regions_def initial_static_regions_def
      max_dynamic_region_def PMP_MODE_DEFAULT_def empty_region_def Let_def)
  moreover have "hw_entry_match (s'\<lparr>static_regions_num := 2\<rparr>) 7 x = hw_entry_match s' 7 x"
    "entry_cfg (s'\<lparr>static_regions_num := 2\<rparr>) j = entry_cfg s' j"
    "entry_addr (s'\<lparr>static_regions_num := 2\<rparr>) j = entry_addr s' j" for x j
    by (simp_all add: hw_entry_match_def entry_cfg_def entry_addr_def)
  moreover have "max_dynamic_region (s'\<lparr>static_regions_num := 2\<rparr>) = 5"
    using s'(5) by (simp add: max_dynamic_region_def)
  ultimately show ?thesis
    using s' by (simp add: Let_def word_le_nat_alt word_less_nat_alt)
qed

theorem arch_kernel_init_protects_rom_witness:
  "let s' = arch_kernel_init 0x100 0x8000 (state0\<lparr>static_regions := initial_static_regions False 0x100\<rparr>) in
     hw_entry_match s' 7 0x7FFF \<and> \<not> hw_entry_match s' 7 0x8000 \<and> max_dynamic_region s' = 5"
  using arch_kernel_init_protects_rom [of "state0\<lparr>static_regions := initial_static_regions False 0x100\<rparr>" "0x100" "0x8000"]
  by (simp add: state0_def Let_def)

lemma FROM_TO_PMP_ADDR: "unat a mod 4 = 0 \<Longrightarrow> FROM_PMP_ADDR (TO_PMP_ADDR a) = a"
  using unat_FROM_PMP_ADDR [OF unat_TO_PMP_ADDR_less, of a]
  by (simp add: word_unat_eq_iff unat_TO_PMP_ADDR mult_div_mod_eq [symmetric]) presburger

lemma user_stack_validate:
  assumes ok: "dyn_ok s" "1 \<le> max_dyn s" and len: "length (u_pmpcfg pmp) = 8" "length (u_pmpaddr pmp) = 8"
    and st: "unat st mod 4 = 0" "unat sz mod 4 = 0" "unat st + unat sz < 2 ^ 32"
    and e0: "u_pmpcfg pmp ! 0 = PMP_NA4 OR PMP_R" and e1: "u_pmpcfg pmp ! 1 = PMP_TOR OR PMP_R"
    and a1: "u_pmpaddr pmp ! 1 = TO_PMP_ADDR (st + sz)" and a0: "entry_addr s 0 = TO_PMP_ADDR st"
    and buf: "unat st \<le> unat a" "unat a + unat n \<le> unat st + unat sz" "n \<noteq> 0"
  shows "arch_buffer_validate pmp a n wr s = Some (if wr then - 1 else 0)"
proof -
  have ue: "user_entry pmp s 0 = (0x11, u_pmpaddr pmp ! 0)" "user_entry pmp s 1 = (0x09, TO_PMP_ADDR (st + sz))"
    using max_dynamic_region [OF ok(1)] ok(2) e0 e1 a1 by (simp_all add: user_entry_def pmp_consts)
  have get: "riscv_pmp_get_user_pmp pmp 0 s = Some (Some (0x11, u_pmpaddr pmp ! 0))"
    "riscv_pmp_get_user_pmp pmp 1 s = Some (Some (0x09, TO_PMP_ADDR (st + sz)))"
    using get_user_pmp [OF len, of 0 s] get_user_pmp [OF len, of 1 s] ue by simp_all
  have acc: "is_user_accessible_region pmp 0 wr s = Some (\<not> wr)" "is_user_accessible_region pmp 1 wr s = Some (\<not> wr)"
    using get by (simp_all add: is_user_accessible_region_def pmp_consts)
  obtain b where in0: "is_in_region pmp 0 a n s = Some b"
    using get(1) by (fastforce simp: is_in_region_def region_bounds_def pmp_consts Let_def split: if_splits)
  have n1: "unat (n - 1) = unat n - 1" "0 < unat n" using buf(3) by (simp_all add: unat_minus_one unat_gt_0)
  have sum: "unat (st + sz) = unat st + unat sz" using st(3) by (rule unat_add_no_wrap_u32)
  then have ft: "FROM_PMP_ADDR (TO_PMP_ADDR (st + sz)) = st + sz" "FROM_PMP_ADDR (TO_PMP_ADDR st) = st"
    using st by (auto intro!: FROM_TO_PMP_ADDR simp: mod_add_eq [symmetric])
  have nz: "st + sz \<noteq> 0" using sum buf n1 by (metis add_is_0 le_zero_eq less_irrefl unat_0)
  have "csr_read_enum CSR_PMPADDR0 s = TO_PMP_ADDR st"
    using a0 csr_number_addr [of 0] by (simp add: csr_read_enum_def entry_addr_def)
  then have bounds: "region_bounds 1 0x09 (TO_PMP_ADDR (st + sz)) s = Some (Some (st, st + sz - 1))"
    using ft by (simp add: region_bounds_def pmp_consts Let_def)
  have last: "unat (st + sz - 1) = unat st + unat sz - 1" using nz sum by (simp add: unat_minus_one)
  have fit: "\<not> 2 ^ 32 \<le> unat a + unat (n - 1)" using n1 buf(2) st(3) by linarith
  have "unat (a + (n - 1)) = unat a + (unat n - 1)" using fit n1 by (subst unat_add_no_wrap_u32) auto
  then have "st \<le> a \<and> a + (n - 1) \<le> st + sz - 1"
    using buf n1 last by (simp add: word_le_nat_alt)
  then have in1: "is_in_region pmp 1 a n s = Some True"
    using get(2) bounds fit buf(3) by (simp add: is_in_region_def Let_def)
  show ?thesis
    unfolding arch_buffer_validate_def
    using in0 in1 acc by (subst buffer_validate_loop.simps, cases b; (subst buffer_validate_loop.simps)?) auto
qed

text \<open>Once a thread has been initialised and switched to, every buffer inside its stack is valid
  for reading and invalid for writing, and the validation returns for all of them.\<close>

theorem user_stack_is_readable:
  assumes "dyn_ok s" and "1 \<le> max_dyn s" and "length (u_pmpcfg pmp) = 8" and "length (u_pmpaddr pmp) = 8"
    and "unat (stack_start pmp) mod 4 = 0" and "unat (stack_size pmp) mod 4 = 0" and "stack_size pmp \<noteq> 0"
    and "unat (stack_start pmp) + unat (stack_size pmp) < 2 ^ 32"
  shows "\<exists>pmp' s'. z_riscv_init_user_accesses False pmp = Some pmp' \<and>
    z_riscv_configure_user_allowed_stack pmp' s = Some s' \<and>
    (\<forall>a n wr. unat (stack_start pmp) \<le> unat a \<and> unat a + unat n \<le> unat (stack_start pmp) + unat (stack_size pmp) \<and> n \<noteq> 0
       \<longrightarrow> arch_buffer_validate pmp' a n wr s' = Some (if wr then - 1 else 0))"
proof -
  let ?p = "with_range 0 (stack_start pmp) (stack_size pmp) PMP_R pmp"
  have len: "length (u_pmpcfg ?p) = 8" "length (u_pmpaddr ?p) = 8" using assms(3,4) by (simp_all add: with_range_def)
  obtain s' where s': "z_riscv_configure_user_allowed_stack ?p s = Some s'"
    "static_regions_num s' = static_regions_num s" "mprv_regions_num s' = mprv_regions_num s"
    "\<forall>j<8. entry_addr s' j = (if j \<le> max_dyn s then u_pmpaddr ?p ! j else entry_addr s j)"
    using configure_user [OF assms(1) len] by blast
  have ok: "dyn_ok s'" "1 \<le> max_dyn s'" using assms(1,2) s'(2,3) by (simp_all add: dyn_ok_def max_dyn_def)
  have e: "u_pmpcfg ?p ! 0 = PMP_NA4 OR PMP_R" "u_pmpcfg ?p ! 1 = PMP_TOR OR PMP_R"
    "u_pmpaddr ?p ! 1 = TO_PMP_ADDR (stack_start pmp + stack_size pmp)"
    "entry_addr s' 0 = TO_PMP_ADDR (stack_start pmp)"
    using assms(3,4) s'(4) by (simp_all add: with_range_def)
  show ?thesis
    using init_user_range [OF assms(3,4,7)] s'(1) user_stack_validate [OF ok len assms(5,6,8) e] by blast
qed

theorem user_stack_is_readable_witness:
  "\<exists>pmp' s'. z_riscv_init_user_accesses False pmp1 = Some pmp' \<and>
    z_riscv_configure_user_allowed_stack pmp' state0 = Some s' \<and>
    arch_buffer_validate pmp' 0x20000010 0x20 False s' = Some 0 \<and>
    arch_buffer_validate pmp' 0x20000010 0x20 True s' = Some (- 1)"
proof -
  have "dyn_ok state0" "1 \<le> max_dyn state0" by (simp_all add: dyn_ok_def max_dyn_def state0_def)
  from user_stack_is_readable [OF this, of pmp1] show ?thesis by (fastforce simp: pmp1_def)
qed

lemma uint_u8_not_neg [simp]: "uint (w :: u8) \<noteq> - 28"
  using uint_ge_0 [of w] by linarith

lemma user_dest_elim:
  "(case t of Some (res, To_user p) \<Rightarrow> G res p | _ \<Rightarrow> None) = Some x \<Longrightarrow>
   \<exists>res p. t = Some (res, To_user p) \<and> G res p = Some x"
proof -
  assume h: "(case t of Some (res, To_user p) \<Rightarrow> G res p | _ \<Rightarrow> None) = Some x"
  then obtain res d where t: "t = Some (res, d)" by (cases t) auto
  with h show ?thesis by (cases d) auto
qed

lemma add_dynamic_results:
  "z_riscv_pmp_add_dynamic pot b n f q t = Some (r, q') \<Longrightarrow> r = 0 \<or> r = - 22 \<and> q' = q"
  unfolding z_riscv_pmp_add_dynamic_def Let_def
  by (auto simp: bind_eq_Some_conv split: if_split_asm dest!: user_dest_elim)

text \<open>C38: \<open>z_riscv_pmp_add_dynamic\<close> never reports \<open>-ENOSPC\<close>: its results are 0 and \<open>-EINVAL\<close> only, the latter for
  a misaligned or empty area, which changes nothing.  With every dynamic entry from the first usable
  one in use it still returns 0, and none of the entries that a switch to the thread installs has changed.\<close>

theorem z_riscv_pmp_add_dynamic_full_is_silent:
  assumes "dyn_ok s" and "2 \<le> max_dyn s" and "length (u_pmpcfg pmp) = 8" and "length (u_pmpaddr pmp) = 8"
    and "\<forall>j. 3 \<le> j \<and> j \<le> max_dyn s \<longrightarrow> u_pmpcfg pmp ! j \<noteq> 0"
    and "unat a mod 4 = 0" and "unat sz mod 4 = 0" and "sz \<noteq> 0" and "sz \<noteq> 4"
  shows "(\<exists>pmp'. z_riscv_pmp_add_dynamic False a sz flags pmp s = Some (0, pmp') \<and>
    (\<forall>j\<le>max_dyn s. u_pmpcfg pmp' ! j = u_pmpcfg pmp ! j \<and> u_pmpaddr pmp' ! j = u_pmpaddr pmp ! j)) \<and>
   (z_riscv_pmp_add_dynamic pot b n f q t = Some (r, q') \<longrightarrow> r = 0 \<or> r = - 22 \<and> q' = q)"
proof (intro conjI impI)
  show "z_riscv_pmp_add_dynamic pot b n f q t = Some (r, q') \<Longrightarrow> r = 0 \<or> r = - 22 \<and> q' = q"
    by (rule add_dynamic_results)
next
  let ?n = "Suc (max_dyn s)"
  have mx: "unat (max_dynamic_region s) = max_dyn s" "max_dyn s < 8"
    using max_dynamic_region [OF assms(1)] by (simp_all add: max_dyn_def)
  have free: "next_free_entry 3 (max_dyn s) (u_pmpcfg pmp) = Some ?n"
    using assms(2,3,5) mx(2) by (intro next_free_entry) auto
  then have free: "next_free_entry (Suc (Suc (Suc 0))) (max_dyn s) (u_pmpcfg pmp) = Some ?n"
    by (simp add: numeral_3_eq_3)
  have al: "a AND 0x3 = 0 \<and> sz AND 0x3 = 0" using assms(6,7) by (simp add: aligned_iff)
  show "\<exists>pmp'. z_riscv_pmp_add_dynamic False a sz flags pmp s = Some (0, pmp') \<and>
    (\<forall>j\<le>max_dyn s. u_pmpcfg pmp' ! j = u_pmpcfg pmp ! j \<and> u_pmpaddr pmp' ! j = u_pmpaddr pmp ! j)"
  proof (cases "Suc ?n < 8")
    case True
    then show ?thesis
      using translate_user_range [OF assms(3,4) True assms(8), of a flags] free mx al assms(8,9)
      by (auto simp: z_riscv_pmp_add_dynamic_def PMP_USED_ENTRY_DEFAULT_def PMP_MODE_DEFAULT_def Let_def with_range_def)
  next
    case False
    then show ?thesis
      using free mx al assms(8,9)
      by (auto simp: z_riscv_pmp_add_dynamic_def PMP_USED_ENTRY_DEFAULT_def PMP_MODE_DEFAULT_def Let_def
        riscv_pmp_region_translate_def)
  qed
qed

theorem z_riscv_pmp_add_dynamic_full_is_silent_witness:
  "\<exists>pmp'. z_riscv_pmp_add_dynamic False 0x20001000 0x100 3
      (pmp1\<lparr>u_pmpcfg := [0x11, 0x09, 0, 0x11, 0x09, 0x11, 0x09, 0]\<rparr>) (state0\<lparr>static_regions_num := 2\<rparr>) = Some (0, pmp') \<and>
    u_pmpcfg pmp' ! 5 = 0x11"
proof -
  let ?p = "pmp1\<lparr>u_pmpcfg := [0x11, 0x09, 0, 0x11, 0x09, 0x11, 0x09, 0]\<rparr>"
  let ?s = "state0\<lparr>static_regions_num := 2\<rparr>"
  have m: "max_dyn ?s = 5" "dyn_ok ?s" by (simp_all add: dyn_ok_def max_dyn_def state0_def)
  have "j = 3 \<or> j = 4 \<or> j = 5" if "3 \<le> j \<and> j \<le> max_dyn ?s" for j using that m by auto
  then have "\<forall>j. 3 \<le> j \<and> j \<le> max_dyn ?s \<longrightarrow> u_pmpcfg ?p ! j \<noteq> 0" by fastforce
  from z_riscv_pmp_add_dynamic_full_is_silent [OF m(2) _ _ _ this, of "0x20001000" "0x100" 3] m(1)
  show ?thesis by (fastforce simp: pmp1_def)
qed

text \<open>A range entry whose upper register is 0, as for a region that ends at the top of the address
  space, is taken by the validation to reach up to the last address, while the hardware matches no
  address with it.\<close>

theorem is_in_region_top_zero:
  assumes "0 < i" and "i < 8" and "length (u_pmpcfg pmp) = 8" and "length (u_pmpaddr pmp) = 8"
    and "user_entry pmp s i = (c, 0)" and "c AND PMP_TYPE_MASK = PMP_TOR"
    and "sz \<noteq> 0" and "unat a + unat sz \<le> 2 ^ 32" and "FROM_PMP_ADDR (entry_addr s (i - 1)) \<le> a"
  shows "is_in_region pmp (of_nat i) a sz s = Some True \<and> (\<forall>x. \<not> user_match pmp s i x)"
proof (intro conjI allI)
  have u: "unat (of_nat i :: u32) = i" using unat_of_nat_8 [OF assms(2)] .
  have "CSR_PMPADDR0 + int i - 1 = CSR_PMPADDR0 + int (i - 1)" using assms(1) by simp
  then have "csr_read_enum (CSR_PMPADDR0 + int i - 1) s = entry_addr s (i - 1)"
    using assms(2) by (simp only: csr_read_enum_def entry_addr_def csr_number_addr) simp
  moreover have "(of_nat i :: u32) \<noteq> 0" using u assms(1) by (metis unat_0 less_irrefl)
  ultimately have "region_bounds (of_nat i) c 0 s = Some (Some (FROM_PMP_ADDR (entry_addr s (i - 1)), - 1))"
    using u by (simp add: region_bounds_def assms(6) Let_def FROM_PMP_ADDR_def del: of_nat_unat)
  moreover have "unat (sz - 1) = unat sz - 1" "0 < unat sz" using assms(7) by (simp_all add: unat_minus_one unat_gt_0)
  ultimately show "is_in_region pmp (of_nat i) a sz s = Some True"
    using get_user_pmp [OF assms(3,4,2)] assms(5,7-9) by (simp add: is_in_region_def Let_def)
next
  show "\<not> user_match pmp s i x" for x
    by (simp add: user_match_def assms(5,6) hw_match_def)
qed

theorem is_in_region_top_zero_witness:
  "is_in_region (pmp1\<lparr>u_pmpcfg := [0, 0, 0, 0x11, 0x09, 0, 0, 0], u_pmpaddr := [0, 0, 0, 0x3FFFFFC0, 0, 0, 0, 0]\<rparr>)
     4 0x10000000 0x100 state0 = Some True"
  using is_in_region_top_zero [of 4 "pmp1\<lparr>u_pmpcfg := [0, 0, 0, 0x11, 0x09, 0, 0, 0],
      u_pmpaddr := [0, 0, 0, 0x3FFFFFC0, 0, 0, 0, 0]\<rparr>" state0 "0x09" "0x100" "0x10000000"]
  by (simp add: user_entry_def max_dynamic_region_def state0_def entry_addr_def FROM_PMP_ADDR_def pmp_consts pmp1_def)

end
