(* ===== verification/Init.thy ===== *)
theory Init
  imports Pmp
begin

text \<open>
  Start-up: \<^verbatim>\<open>kernel/init.c\<close> and \<^verbatim>\<open>kernel/device.c\<close>, with the device type of \<^verbatim>\<open>include/device.h\<close> and the entries of
  \<^verbatim>\<open>include/init.h\<close>.

  The linker collects the entries of a level in one array; \<open>entries\<close> is that array and \<open>starts l\<close> the index of the
  first entry of level \<open>l\<close> (\<open>starts 3\<close> is the end marker).  An initialisation function transforms the rest of the
  system, a state of any type, and returns an \<open>int\<close>.  \<open>sta d\<close> is the pointer to the state of device \<open>d\<close>; the
  result is \<open>None\<close> where the code stores through a null pointer or negates the least \<open>int\<close>.
\<close>

section \<open>Devices\<close>

record device_state =
  init_result :: int
  is_initialized :: bool

type_synonym device_states = "addr \<Rightarrow> device_state"

definition device_is_ready :: "(addr \<Rightarrow> addr) \<Rightarrow> device_states \<Rightarrow> addr \<Rightarrow> bool" where
  "device_is_ready sta ds dev =
     (if dev = NULL then False else is_initialized (ds (sta dev)) \<and> init_result (ds (sta dev)) = 0)"

record 'w init_entry =
  entry_init :: "addr \<Rightarrow> 'w \<Rightarrow> int \<times> 'w"
  entry_dev :: addr

definition SYS_INIT_LEVEL_KERNEL :: nat where "SYS_INIT_LEVEL_KERNEL = 0"
definition SYS_INIT_LEVEL_DRIVER :: nat where "SYS_INIT_LEVEL_DRIVER = 1"
definition SYS_INIT_LEVEL_APPLICATION :: nat where "SYS_INIT_LEVEL_APPLICATION = 2"

definition INT_MIN :: int where "INT_MIN = - (2 ^ 31)"

section \<open>Running the entries\<close>

definition mark_initialized :: "int \<Rightarrow> addr \<Rightarrow> device_states \<Rightarrow> device_states option" where
  "mark_initialized rc p ds =
     (if p = NULL then None
      else if rc \<noteq> 0 then
        if rc = INT_MIN then None
        else
          let rc = (if rc < 0 then - rc else rc);
              rc = (if rc > 255 then 255 else rc);
              ds = ds(p := (ds p)\<lparr>init_result := rc\<rparr>)
          in Some (ds(p := (ds p)\<lparr>is_initialized := True\<rparr>))
      else Some (ds(p := (ds p)\<lparr>is_initialized := True\<rparr>)))"

primrec run_entries ::
  "(addr \<Rightarrow> addr) \<Rightarrow> 'w init_entry list \<Rightarrow> device_states \<Rightarrow> 'w \<Rightarrow> (device_states \<times> 'w) option" where
  "run_entries sta [] ds w = Some (ds, w)"
| "run_entries sta (e # es) ds w =
     (let dev = entry_dev e;
          (rc, w) = entry_init e dev w
      in if dev \<noteq> NULL
         then case mark_initialized rc (sta dev) ds of
                None \<Rightarrow> None
              | Some ds \<Rightarrow> run_entries sta es ds w
         else run_entries sta es ds w)"

definition z_sys_init_run_level ::
  "(addr \<Rightarrow> addr) \<Rightarrow> 'w init_entry list \<Rightarrow> (nat \<Rightarrow> nat) \<Rightarrow> nat \<Rightarrow> device_states \<Rightarrow> 'w \<Rightarrow>
   (device_states \<times> 'w) option" where
  "z_sys_init_run_level sta entries starts level ds w =
     run_entries sta (take (starts (level + 1) - starts level) (drop (starts level) entries)) ds w"

section \<open>Memory and start-up\<close>

record symbols =
  highcode_lma :: addr
  highcode_vma_start :: addr
  highcode_vma_end :: addr
  data_lma :: addr
  data_vma :: addr
  edata :: addr
  sbss :: addr
  ebss :: addr

definition bss_zero :: "symbols \<Rightarrow> mem \<Rightarrow> mem" where
  "bss_zero y m = mem_write m (sbss y) (replicate (unat (ebss y - sbss y)) 0)"

definition data_copy :: "symbols \<Rightarrow> mem \<Rightarrow> mem" where
  "data_copy y m = mem_write m (data_vma y) (mem_read m (data_lma y) (unat (edata y - data_vma y)))"

definition highcode_copy :: "symbols \<Rightarrow> mem \<Rightarrow> mem" where
  "highcode_copy y m =
     mem_write m (highcode_vma_start y)
       (mem_read m (highcode_lma y) (unat (highcode_vma_end y - highcode_vma_start y)))"

record 'w system =
  sys_ram :: mem
  sys_pmp :: pmp_state
  sys_world :: 'w

text \<open>The device states are static and zero, so they are part of what \<open>bss_zero\<close> clears.\<close>

definition zero_states :: device_states where
  "zero_states = (\<lambda>_. \<lparr>init_result = 0, is_initialized = False\<rparr>)"

definition sys_init ::
  "symbols \<Rightarrow> u32 \<Rightarrow> u32 \<Rightarrow> (addr \<Rightarrow> addr) \<Rightarrow> 'w system init_entry list \<Rightarrow> (nat \<Rightarrow> nat) \<Rightarrow> 'w system \<Rightarrow>
   (device_states \<times> 'w system) option" where
  "sys_init y rom_start rom_end sta entries starts s =
     (let s = s\<lparr>sys_ram := bss_zero y (sys_ram s)\<rparr>;
          s = s\<lparr>sys_ram := data_copy y (sys_ram s)\<rparr>;
          s = s\<lparr>sys_ram := highcode_copy y (sys_ram s)\<rparr>;
          s = s\<lparr>sys_pmp := arch_kernel_init rom_start rom_end (sys_pmp s)\<rparr>
      in case z_sys_init_run_level sta entries starts SYS_INIT_LEVEL_KERNEL zero_states s of
           None \<Rightarrow> None
         | Some (ds, s) \<Rightarrow>
             case z_sys_init_run_level sta entries starts SYS_INIT_LEVEL_DRIVER ds s of
               None \<Rightarrow> None
             | Some (ds, s) \<Rightarrow> z_sys_init_run_level sta entries starts SYS_INIT_LEVEL_APPLICATION ds s)"

section \<open>Every entry runs once, in order\<close>

text \<open>The results of the entries and the state they leave, whatever becomes of the device states.\<close>

primrec init_results :: "'w init_entry list \<Rightarrow> 'w \<Rightarrow> int list" where
  "init_results [] w = []"
| "init_results (e # es) w =
     (let (rc, w) = entry_init e (entry_dev e) w in rc # init_results es w)"

primrec init_world :: "'w init_entry list \<Rightarrow> 'w \<Rightarrow> 'w" where
  "init_world [] w = w"
| "init_world (e # es) w = init_world es (snd (entry_init e (entry_dev e) w))"

lemma length_init_results [simp]: "length (init_results es w) = length es"
  by (induction es arbitrary: w) (simp_all add: Let_def split: prod.split)

lemma run_entries_append:
  "run_entries sta (xs @ ys) ds w =
     (case run_entries sta xs ds w of None \<Rightarrow> None | Some (ds, w) \<Rightarrow> run_entries sta ys ds w)"
  by (induction xs arbitrary: ds w) (auto simp: Let_def split: prod.split option.split)

lemma levels_cover:
  assumes "a \<le> b" and "b \<le> c" and "c = length xs"
  shows "take a xs @ take (b - a) (drop a xs) @ take (c - b) (drop b xs) = xs"
proof -
  have "take a xs @ take (b - a) (drop a xs) = take b xs"
    using assms(1) by (metis le_add_diff_inverse take_add)
  then show ?thesis using assms by (simp add: append_assoc [symmetric] del: append_assoc)
qed

lemma sys_init_runs_all:
  assumes "starts 0 = 0" and "starts 1 \<le> starts 2" and "starts 2 \<le> starts 3" and "starts 3 = length entries"
  shows "sys_init y r0 r1 sta entries starts s =
    run_entries sta entries zero_states
      (s\<lparr>sys_ram := highcode_copy y (data_copy y (bss_zero y (sys_ram s))),
         sys_pmp := arch_kernel_init r0 r1 (sys_pmp s)\<rparr>)"
proof -
  have "entries = take (starts 1) entries @ take (starts 2 - starts 1) (drop (starts 1) entries) @
      take (starts 3 - starts 2) (drop (starts 2) entries)"
    using levels_cover [OF assms(2-4)] by simp
  then have "run_entries sta entries ds w =
    run_entries sta (take (starts 1) entries @ take (starts 2 - starts 1) (drop (starts 1) entries) @
      take (starts 3 - starts 2) (drop (starts 2) entries)) ds w" for ds w by simp
  then show ?thesis
    using assms(1)
    by (simp add: sys_init_def z_sys_init_run_level_def SYS_INIT_LEVEL_KERNEL_def SYS_INIT_LEVEL_DRIVER_def
        SYS_INIT_LEVEL_APPLICATION_def run_entries_append numeral_eq_Suc Let_def split: option.split prod.split)
qed

section \<open>Devices are ready when their initialisation succeeded\<close>

definition stored_result :: "int \<Rightarrow> int" where
  "stored_result rc = min \<bar>rc\<bar> 255"

lemma mark_initialized_state:
  assumes "p \<noteq> NULL" and "rc \<noteq> INT_MIN" and "init_result (ds p) = 0"
  shows "mark_initialized rc p ds = Some (ds(p := \<lparr>init_result = stored_result rc, is_initialized = True\<rparr>))"
  using assms by (cases "ds p") (auto simp: mark_initialized_def stored_result_def Let_def)

lemma stored_result_0 [simp]: "stored_result rc = 0 \<longleftrightarrow> rc = 0"
  by (auto simp: stored_result_def min_def)

text \<open>The pointers to the device states that the entries name.\<close>

definition state_pointers :: "(addr \<Rightarrow> addr) \<Rightarrow> 'w init_entry list \<Rightarrow> addr list" where
  "state_pointers sta es = map (\<lambda>e. sta (entry_dev e)) (filter (\<lambda>e. entry_dev e \<noteq> NULL) es)"

lemma run_entries_states:
  assumes "NULL \<notin> set (state_pointers sta es)" and "distinct (state_pointers sta es)"
    and "INT_MIN \<notin> set (init_results es w)" and "\<And>p. p \<in> set (state_pointers sta es) \<Longrightarrow> init_result (ds p) = 0"
  shows "\<exists>ds'. run_entries sta es ds w = Some (ds', init_world es w) \<and>
    (\<forall>i < length es. entry_dev (es ! i) \<noteq> NULL \<longrightarrow>
       ds' (sta (entry_dev (es ! i))) =
         \<lparr>init_result = stored_result (init_results es w ! i), is_initialized = True\<rparr>) \<and>
    (\<forall>p. p \<notin> set (state_pointers sta es) \<longrightarrow> ds' p = ds p)"
  using assms
proof (induction es arbitrary: ds w)
  case Nil
  then show ?case by simp
next
  case (Cons e es)
  obtain rc w' where e: "entry_init e (entry_dev e) w = (rc, w')" by force
  show ?case
  proof (cases "entry_dev e = NULL")
    case True
    with Cons.IH [of w' ds] Cons.prems e show ?thesis
      by (fastforce simp: state_pointers_def less_Suc_eq_0_disj)
  next
    case False
    let ?p = "sta (entry_dev e)"
    let ?ds = "ds(?p := \<lparr>init_result = stored_result rc, is_initialized = True\<rparr>)"
    have m: "mark_initialized rc ?p ds = Some ?ds"
      using Cons.prems e False by (intro mark_initialized_state) (auto simp: state_pointers_def)
    have p: "?p \<notin> set (state_pointers sta es)"
      using Cons.prems(2) False by (simp add: state_pointers_def)
    have "\<exists>ds'. run_entries sta es ?ds w' = Some (ds', init_world es w') \<and>
      (\<forall>i < length es. entry_dev (es ! i) \<noteq> NULL \<longrightarrow>
         ds' (sta (entry_dev (es ! i))) =
           \<lparr>init_result = stored_result (init_results es w' ! i), is_initialized = True\<rparr>) \<and>
      (\<forall>p. p \<notin> set (state_pointers sta es) \<longrightarrow> ds' p = ?ds p)"
    proof (rule Cons.IH)
      show "init_result (?ds q) = 0" if "q \<in> set (state_pointers sta es)" for q
      proof -
        have "q \<noteq> ?p" using that p by blast
        moreover have "q \<in> set (state_pointers sta (e # es))" using that False by (simp add: state_pointers_def)
        ultimately show ?thesis using Cons.prems(4) by simp
      qed
    qed (use Cons.prems e False in \<open>auto simp: state_pointers_def\<close>)
    then obtain ds' where "run_entries sta es ?ds w' = Some (ds', init_world es w')"
      "\<forall>i < length es. entry_dev (es ! i) \<noteq> NULL \<longrightarrow>
         ds' (sta (entry_dev (es ! i))) =
           \<lparr>init_result = stored_result (init_results es w' ! i), is_initialized = True\<rparr>"
      "\<forall>p. p \<notin> set (state_pointers sta es) \<longrightarrow> ds' p = ?ds p" by blast
    moreover from this(3) p have "ds' ?p = \<lparr>init_result = stored_result rc, is_initialized = True\<rparr>" by simp
    ultimately show ?thesis
      using e m False by (auto simp: state_pointers_def less_Suc_eq_0_disj)
  qed
qed

text \<open>C15: start-up runs every initialisation entry of the three levels exactly once and in array order on the state
  that the memory initialisation and \<open>arch_kernel_init\<close> left; afterwards a device of an entry is ready exactly
  when the entry returned 0, and otherwise its state holds the absolute value of the error, at most 255.\<close>

theorem sys_init_devices_ready:
  assumes "starts 0 = 0" and "starts 1 \<le> starts 2" and "starts 2 \<le> starts 3" and "starts 3 = length entries"
    and "NULL \<notin> set (state_pointers sta entries)" and "distinct (state_pointers sta entries)"
    and "s1 = s\<lparr>sys_ram := highcode_copy y (data_copy y (bss_zero y (sys_ram s))),
                sys_pmp := arch_kernel_init r0 r1 (sys_pmp s)\<rparr>"
    and "INT_MIN \<notin> set (init_results entries s1)"
  shows "\<exists>ds. sys_init y r0 r1 sta entries starts s = Some (ds, init_world entries s1) \<and>
    (\<forall>i < length entries. entry_dev (entries ! i) \<noteq> NULL \<longrightarrow>
       (device_is_ready sta ds (entry_dev (entries ! i)) \<longleftrightarrow> init_results entries s1 ! i = 0) \<and>
       init_result (ds (sta (entry_dev (entries ! i)))) = min \<bar>init_results entries s1 ! i\<bar> 255)"
proof -
  have "\<exists>ds. run_entries sta entries zero_states s1 = Some (ds, init_world entries s1) \<and>
    (\<forall>i < length entries. entry_dev (entries ! i) \<noteq> NULL \<longrightarrow>
       ds (sta (entry_dev (entries ! i))) =
         \<lparr>init_result = stored_result (init_results entries s1 ! i), is_initialized = True\<rparr>) \<and>
    (\<forall>p. p \<notin> set (state_pointers sta entries) \<longrightarrow> ds p = zero_states p)"
    using assms(5,6,8) by (intro run_entries_states) (simp_all add: zero_states_def)
  then show ?thesis
    using sys_init_runs_all [OF assms(1-4), of y r0 r1 sta s] assms(7)
    by (auto simp: device_is_ready_def) (auto simp: stored_result_def)
qed

section \<open>The memory image\<close>

text \<open>The layout of the linker script: load images in flash, below \<open>.highcode\<close>, \<open>.data\<close> and \<open>.bss\<close> in RAM.\<close>

definition linked :: "symbols \<Rightarrow> bool" where
  "linked y \<longleftrightarrow>
     unat (highcode_lma y) + unat (highcode_vma_end y - highcode_vma_start y) \<le> unat (highcode_vma_start y) \<and>
     unat (data_lma y) + unat (edata y - data_vma y) \<le> unat (highcode_vma_start y) \<and>
     highcode_vma_start y \<le> highcode_vma_end y \<and> highcode_vma_end y \<le> data_vma y \<and> data_vma y \<le> edata y \<and>
     edata y \<le> sbss y \<and> sbss y \<le> ebss y"

lemma linked_bounds:
  assumes "linked y"
  defines "hn \<equiv> unat (highcode_vma_end y - highcode_vma_start y)" and "dn \<equiv> unat (edata y - data_vma y)"
    and "bn \<equiv> unat (ebss y - sbss y)"
  shows "unat (highcode_lma y) + hn \<le> unat (highcode_vma_start y)"
    and "unat (data_lma y) + dn \<le> unat (highcode_vma_start y)"
    and "unat (highcode_vma_start y) + hn \<le> unat (data_vma y)"
    and "unat (data_vma y) + dn \<le> unat (sbss y)"
    and "unat (sbss y) + bn \<le> 2 ^ 32"
proof -
  have hn: "hn = unat (highcode_vma_end y) - unat (highcode_vma_start y)"
    and dn: "dn = unat (edata y) - unat (data_vma y)" and bn: "bn = unat (ebss y) - unat (sbss y)"
    using assms by (simp_all add: linked_def unat_sub_le word_le_nat_alt)
  have o: "unat (highcode_vma_start y) \<le> unat (highcode_vma_end y)" "unat (highcode_vma_end y) \<le> unat (data_vma y)"
    "unat (data_vma y) \<le> unat (edata y)" "unat (edata y) \<le> unat (sbss y)" "unat (sbss y) \<le> unat (ebss y)"
    using assms(1) by (simp_all add: linked_def word_le_nat_alt)
  show "unat (highcode_lma y) + hn \<le> unat (highcode_vma_start y)"
    and "unat (data_lma y) + dn \<le> unat (highcode_vma_start y)"
    using assms by (simp_all add: linked_def)
  show "unat (highcode_vma_start y) + hn \<le> unat (data_vma y)" using o hn by linarith
  show "unat (data_vma y) + dn \<le> unat (sbss y)" using o dn by linarith
  show "unat (sbss y) + bn \<le> 2 ^ 32" using o(5) bn unat_u32_less [of "ebss y"] by simp
qed

text \<open>With the layout of the linker script, the memory that start-up hands to the first initialisation function
  has all of \<open>.bss\<close> zero, and \<open>.data\<close> and \<open>.highcode\<close> equal to their images in flash.\<close>

theorem sys_init_memory_image:
  fixes m :: mem
  assumes "linked y"
  defines "m' \<equiv> highcode_copy y (data_copy y (bss_zero y m))"
  shows "mem_read m' (sbss y) (unat (ebss y - sbss y)) = replicate (unat (ebss y - sbss y)) 0 \<and>
    mem_read m' (data_vma y) (unat (edata y - data_vma y)) = mem_read m (data_lma y) (unat (edata y - data_vma y)) \<and>
    mem_read m' (highcode_vma_start y) (unat (highcode_vma_end y - highcode_vma_start y)) =
      mem_read m (highcode_lma y) (unat (highcode_vma_end y - highcode_vma_start y))"
proof -
  note b = linked_bounds [OF assms(1)]
  define hn dn bn where n: "hn = unat (highcode_vma_end y - highcode_vma_start y)"
    "dn = unat (edata y - data_vma y)" "bn = unat (ebss y - sbss y)"
  have le: "unat (sbss y) + bn \<le> 2 ^ 32" "unat (data_vma y) + dn \<le> 2 ^ 32" "unat (highcode_vma_start y) + hn \<le> 2 ^ 32"
    "unat (data_vma y) + dn \<le> unat (sbss y)" "unat (highcode_vma_start y) + hn \<le> unat (sbss y)"
    "unat (highcode_vma_start y) + hn \<le> unat (data_vma y)" "unat (highcode_lma y) + hn \<le> unat (highcode_vma_start y)"
    "unat (data_lma y) + dn \<le> unat (highcode_vma_start y)"
    "unat (data_lma y) + dn \<le> unat (sbss y)" "unat (highcode_lma y) + hn \<le> unat (sbss y)"
    "unat (highcode_lma y) + hn \<le> unat (data_vma y)"
    using b unfolding n by linarith+
  have same: "mem_read (mem_write x a bs) a k = bs" if "k = length bs" "k \<le> 2 ^ 32" for x a bs k
    using that mem_read_write_same by blast
  show ?thesis
    unfolding m'_def highcode_copy_def data_copy_def bss_zero_def n [symmetric]
    using le
    by (simp add: mem_read_write_apart same)
qed

definition example_symbols :: symbols where
  "example_symbols = \<lparr>highcode_lma = 0x100, highcode_vma_start = 0x20003800, highcode_vma_end = 0x20003804,
     data_lma = 0x200, data_vma = 0x20004000, edata = 0x20004002, sbss = 0x20004004, ebss = 0x20004008\<rparr>"

lemma sys_init_memory_image_witness:
  "let m' = highcode_copy example_symbols (data_copy example_symbols (bss_zero example_symbols (\<lambda>a. ucast a)))
   in mem_read m' 0x20004004 4 = [0, 0, 0, 0] \<and> mem_read m' 0x20004000 2 = [0, 1] \<and>
      mem_read m' 0x20003800 4 = [0, 1, 2, 3]"
proof -
  have l: "linked example_symbols" by (simp add: linked_def example_symbols_def)
  have r: "mem_read (\<lambda>a. ucast a) (0x200 :: addr) 2 = [0, 1]" "mem_read (\<lambda>a. ucast a) (0x100 :: addr) 4 = [0, 1, 2, 3]"
    and z: "replicate 4 (0 :: u8) = [0, 0, 0, 0]"
    by code_simp+
  show ?thesis
    using sys_init_memory_image [OF l, of "\<lambda>a. ucast a"]
    by (simp add: r z example_symbols_def Let_def)
qed

text \<open>A service and two devices, the second of which fails with error 300.\<close>

definition example_entries :: "nat system init_entry list" where
  "example_entries =
     [\<lparr>entry_init = \<lambda>_ s. (0, s\<lparr>sys_world := sys_world s + 1\<rparr>), entry_dev = NULL\<rparr>,
      \<lparr>entry_init = \<lambda>_ s. (0, s\<lparr>sys_world := sys_world s * 10\<rparr>), entry_dev = 0x1000\<rparr>,
      \<lparr>entry_init = \<lambda>_ s. (- 300, s\<lparr>sys_world := sys_world s + 5\<rparr>), entry_dev = 0x2000\<rparr>]"

lemma sys_init_devices_ready_witness:
  "\<forall>p. \<exists>ds s'. sys_init example_symbols 0 0x8000 (\<lambda>d. d + 4) example_entries ((!) [0, 1, 3, 3])
       \<lparr>sys_ram = \<lambda>_. 0, sys_pmp = p, sys_world = 0\<rparr> = Some (ds, s') \<and>
     sys_world s' = 15 \<and> device_is_ready (\<lambda>d. d + 4) ds 0x1000 \<and> \<not> device_is_ready (\<lambda>d. d + 4) ds 0x2000 \<and>
     init_result (ds 0x2004) = 255"
proof
  fix p
  let ?s = "\<lparr>sys_ram = \<lambda>_. 0, sys_pmp = p, sys_world = 0\<rparr> :: nat system"
  let ?s1 = "?s\<lparr>sys_ram := highcode_copy example_symbols (data_copy example_symbols (bss_zero example_symbols (sys_ram ?s))),
                sys_pmp := arch_kernel_init 0 0x8000 (sys_pmp ?s)\<rparr>"
  have "\<exists>ds. sys_init example_symbols 0 0x8000 (\<lambda>d. d + 4) example_entries ((!) [0, 1, 3, 3]) ?s =
      Some (ds, init_world example_entries ?s1) \<and>
    (\<forall>i < length example_entries. entry_dev (example_entries ! i) \<noteq> NULL \<longrightarrow>
       (device_is_ready (\<lambda>d. d + 4) ds (entry_dev (example_entries ! i)) \<longleftrightarrow> init_results example_entries ?s1 ! i = 0) \<and>
       init_result (ds ((\<lambda>d. d + 4) (entry_dev (example_entries ! i)))) = min \<bar>init_results example_entries ?s1 ! i\<bar> 255)"
    by (rule sys_init_devices_ready)
      (simp_all add: example_entries_def state_pointers_def INT_MIN_def)
  then show "\<exists>ds s'. sys_init example_symbols 0 0x8000 (\<lambda>d. d + 4) example_entries ((!) [0, 1, 3, 3]) ?s =
      Some (ds, s') \<and> sys_world s' = 15 \<and> device_is_ready (\<lambda>d. d + 4) ds 0x1000 \<and>
      \<not> device_is_ready (\<lambda>d. d + 4) ds 0x2000 \<and> init_result (ds 0x2004) = 255"
    by (auto simp: example_entries_def less_Suc_eq)
qed

end
