(* ===== verification/Soc.thy ===== *)
theory Soc
  imports Prelude
begin

text \<open>
  Clock and power control of the CH57x, \<^verbatim>\<open>hal/ch57x/ch57x_hal_clk.c\<close>, \<^verbatim>\<open>ch57x_hal_power.c\<close> and
  \<^verbatim>\<open>ch57x_hal_sys.c\<close>.  The system registers are a record.  Most of them are write protected: as
  \<^verbatim>\<open>CH573SFR.h\<close> documents for the registers marked RWA, a write takes effect only in safe accessing
  mode, which is entered by writing two signatures and left by any other value.  The timer that ends
  the mode after some clock cycles is not modelled.
\<close>

section \<open>Registers\<close>

record soc_regs =
  safe_step :: bool
  safe_act :: bool
  R16_CLK_SYS_CFG :: u16
  R8_HFCK_PWR_CTRL :: u8
  R8_PLL_CONFIG :: u8
  R8_FLASH_CFG :: u8
  R8_FLASH_CTRL :: u8
  R8_SLP_CLK_OFF0 :: u8
  R8_SLP_CLK_OFF1 :: u8
  R8_CK32K_CONFIG :: u8
  R8_XT32K_TUNE :: u8
  R8_XT32M_TUNE :: u8
  R16_INT32K_TUNE :: u16
  R16_POWER_PLAN :: u16
  R8_SLP_WAKE_CTRL :: u8
  R8_SLP_POWER_CTRL :: u8
  R8_BAT_DET_CTRL :: u8
  R8_BAT_DET_CFG :: u8
  R8_RST_WDOG_CTRL :: u8
  SCTLR :: u32
  int32k_tune_flash :: u16
  int32k_tune_ram :: u16

definition SAFE_ACCESS_SIG1 :: u8 where "SAFE_ACCESS_SIG1 = 0x57"
definition SAFE_ACCESS_SIG2 :: u8 where "SAFE_ACCESS_SIG2 = 0xA8"

text \<open>A write to the signature register.\<close>

definition write_safe_access_sig :: "u8 \<Rightarrow> soc_regs \<Rightarrow> soc_regs" where
  "write_safe_access_sig v s =
     (if v = SAFE_ACCESS_SIG1 then s\<lparr>safe_step := True, safe_act := False\<rparr>
      else s\<lparr>safe_step := False, safe_act := v = SAFE_ACCESS_SIG2 \<and> safe_step s\<rparr>)"

text \<open>A write to a protected register.\<close>

definition rwa :: "(soc_regs \<Rightarrow> soc_regs) \<Rightarrow> soc_regs \<Rightarrow> soc_regs" where
  "rwa w s = (if safe_act s then w s else s)"

definition sys_safe_access_enable :: "soc_regs \<Rightarrow> soc_regs" where
  "sys_safe_access_enable s =
     write_safe_access_sig SAFE_ACCESS_SIG2 (write_safe_access_sig SAFE_ACCESS_SIG1 s)"

definition sys_safe_access_disable :: "soc_regs \<Rightarrow> soc_regs" where
  "sys_safe_access_disable s = write_safe_access_sig 0 s"

definition sys_is_safe_access_enabled :: "soc_regs \<Rightarrow> bool" where
  "sys_is_safe_access_enabled s = safe_act s"

section \<open>Clocks\<close>

definition FHSE :: u32 where "FHSE = 32000000"
definition FPLL :: u32 where "FPLL = FHSE * 15"

definition WCH_MASK :: "nat \<Rightarrow> u32" where "WCH_MASK x = push_bit x 1 - 1"

definition SYS_CLK_MODE_POS :: nat where "SYS_CLK_MODE_POS = 6"
definition SYS_CLK_MODE_MSK :: u32 where "SYS_CLK_MODE_MSK = push_bit SYS_CLK_MODE_POS (WCH_MASK 2)"
definition SYS_CLK_DIV_POS :: nat where "SYS_CLK_DIV_POS = 0"
definition SYS_CLK_DIV_MSK :: u32 where "SYS_CLK_DIV_MSK = push_bit SYS_CLK_DIV_POS (WCH_MASK 5)"

definition CLK_MODE_32M :: u32 where "CLK_MODE_32M = 0"
definition CLK_MODE_PLL :: u32 where "CLK_MODE_PLL = 0x01"
definition CLK_MODE_32K :: u32 where "CLK_MODE_32K = 0x11"

text \<open>The members of \<open>sys_clk_source_t\<close>.\<close>

definition clk_source :: "u32 \<Rightarrow> u32 \<Rightarrow> u32" where
  "clk_source m d = push_bit SYS_CLK_MODE_POS m OR d"

definition CLK_SOURCE_32KHZ :: u32 where "CLK_SOURCE_32KHZ = push_bit SYS_CLK_MODE_POS CLK_MODE_32K"
definition CLK_SOURCE_HSE_16MHZ :: u32 where "CLK_SOURCE_HSE_16MHZ = clk_source CLK_MODE_32M 2"
definition CLK_SOURCE_HSE_8MHZ :: u32 where "CLK_SOURCE_HSE_8MHZ = clk_source CLK_MODE_32M 4"
definition CLK_SOURCE_HSE_6_4MHZ :: u32 where "CLK_SOURCE_HSE_6_4MHZ = clk_source CLK_MODE_32M 5"
definition CLK_SOURCE_HSE_4MHZ :: u32 where "CLK_SOURCE_HSE_4MHZ = clk_source CLK_MODE_32M 8"
definition CLK_SOURCE_HSE_2MHZ :: u32 where "CLK_SOURCE_HSE_2MHZ = clk_source CLK_MODE_32M 16"
definition CLK_SOURCE_HSE_1MHZ :: u32 where "CLK_SOURCE_HSE_1MHZ = clk_source CLK_MODE_32M 0"
definition CLK_SOURCE_PLL_60MHZ :: u32 where "CLK_SOURCE_PLL_60MHZ = clk_source CLK_MODE_PLL 8"
definition CLK_SOURCE_PLL_48MHZ :: u32 where "CLK_SOURCE_PLL_48MHZ = clk_source CLK_MODE_PLL 10"
definition CLK_SOURCE_PLL_40MHZ :: u32 where "CLK_SOURCE_PLL_40MHZ = clk_source CLK_MODE_PLL 12"
definition CLK_SOURCE_PLL_32MHZ :: u32 where "CLK_SOURCE_PLL_32MHZ = clk_source CLK_MODE_PLL 15"
definition CLK_SOURCE_PLL_24MHZ :: u32 where "CLK_SOURCE_PLL_24MHZ = clk_source CLK_MODE_PLL 20"

definition hal_clk_periph_clk_enable :: "u16 \<Rightarrow> soc_regs \<Rightarrow> soc_regs" where
  "hal_clk_periph_clk_enable per s =
     (let s = sys_safe_access_enable s;
          s = rwa (\<lambda>s. s\<lparr>R8_SLP_CLK_OFF0 := R8_SLP_CLK_OFF0 s AND NOT (ucast (ucast per AND WCH_MASK 8))\<rparr>) s;
          s = sys_safe_access_enable s;
          s = rwa (\<lambda>s. s\<lparr>R8_SLP_CLK_OFF1 := R8_SLP_CLK_OFF1 s AND NOT (ucast (drop_bit 8 per))\<rparr>) s
      in sys_safe_access_disable s)"

definition hal_clk_periph_clk_disable :: "u16 \<Rightarrow> soc_regs \<Rightarrow> soc_regs" where
  "hal_clk_periph_clk_disable per s =
     (let s = sys_safe_access_enable s;
          s = rwa (\<lambda>s. s\<lparr>R8_SLP_CLK_OFF0 := R8_SLP_CLK_OFF0 s OR ucast (ucast per AND WCH_MASK 8)\<rparr>) s;
          s = sys_safe_access_enable s;
          s = rwa (\<lambda>s. s\<lparr>R8_SLP_CLK_OFF1 := R8_SLP_CLK_OFF1 s OR ucast (drop_bit 8 per)\<rparr>) s
      in sys_safe_access_disable s)"

definition RB_CLK_PLL_PON :: u8 where "RB_CLK_PLL_PON = 0x10"
definition RB_CLK_XT32M_PON :: u8 where "RB_CLK_XT32M_PON = 0x04"

definition hal_clk_pwr_pll_is_on :: "soc_regs \<Rightarrow> bool" where
  "hal_clk_pwr_pll_is_on s \<longleftrightarrow> R8_HFCK_PWR_CTRL s AND RB_CLK_PLL_PON \<noteq> 0"

definition hal_clk_pwr_xt32m_is_on :: "soc_regs \<Rightarrow> bool" where
  "hal_clk_pwr_xt32m_is_on s \<longleftrightarrow> R8_HFCK_PWR_CTRL s AND RB_CLK_XT32M_PON \<noteq> 0"

text \<open>The delay loops after powering a clock on have no effect on the registers.\<close>

definition hal_clk_pwr_pll_on :: "soc_regs \<Rightarrow> soc_regs" where
  "hal_clk_pwr_pll_on s =
     (let s = sys_safe_access_enable s;
          s = rwa (\<lambda>s. s\<lparr>R8_HFCK_PWR_CTRL := R8_HFCK_PWR_CTRL s OR RB_CLK_PLL_PON\<rparr>) s
      in sys_safe_access_disable s)"

definition hal_clk_pwr_pll_off :: "soc_regs \<Rightarrow> soc_regs" where
  "hal_clk_pwr_pll_off s =
     (let s = sys_safe_access_enable s;
          s = rwa (\<lambda>s. s\<lparr>R8_HFCK_PWR_CTRL := R8_HFCK_PWR_CTRL s AND NOT RB_CLK_PLL_PON\<rparr>) s
      in sys_safe_access_disable s)"

definition hal_clk_pwr_xt32m_on :: "soc_regs \<Rightarrow> soc_regs" where
  "hal_clk_pwr_xt32m_on s =
     (let s = sys_safe_access_enable s;
          s = rwa (\<lambda>s. s\<lparr>R8_HFCK_PWR_CTRL := R8_HFCK_PWR_CTRL s OR RB_CLK_XT32M_PON\<rparr>) s
      in sys_safe_access_disable s)"

definition hal_clk_pwr_xt32m_off :: "soc_regs \<Rightarrow> soc_regs" where
  "hal_clk_pwr_xt32m_off s =
     (let s = sys_safe_access_enable s;
          s = rwa (\<lambda>s. s\<lparr>R8_HFCK_PWR_CTRL := R8_HFCK_PWR_CTRL s AND NOT RB_CLK_XT32M_PON\<rparr>) s
      in sys_safe_access_disable s)"

definition hal_clk_sys_config :: "u32 \<Rightarrow> u8 \<Rightarrow> soc_regs \<Rightarrow> soc_regs" where
  "hal_clk_sys_config clk_mode dv s =
     (let cfg = (ucast ((push_bit SYS_CLK_MODE_POS clk_mode AND SYS_CLK_MODE_MSK) OR
                        (push_bit SYS_CLK_DIV_POS (ucast dv) AND SYS_CLK_DIV_MSK)) :: u8);
          s = sys_safe_access_enable s;
          s = rwa (\<lambda>s. s\<lparr>R16_CLK_SYS_CFG := ucast cfg\<rparr>) s
      in sys_safe_access_disable s)"

definition set_flash_cfg :: "u8 \<Rightarrow> soc_regs \<Rightarrow> soc_regs" where
  "set_flash_cfg v s = sys_safe_access_disable (rwa (\<lambda>s. s\<lparr>R8_FLASH_CFG := v\<rparr>) (sys_safe_access_enable s))"

definition hal_clk_sys_setup :: "u32 \<Rightarrow> soc_regs \<Rightarrow> soc_regs" where
  "hal_clk_sys_setup clk s =
     (let s = sys_safe_access_enable s;
          s = rwa (\<lambda>s. s\<lparr>R8_PLL_CONFIG := R8_PLL_CONFIG s AND NOT 0x20\<rparr>) s;
          s = sys_safe_access_disable s;
          m = drop_bit SYS_CLK_MODE_POS (clk AND SYS_CLK_MODE_MSK)
      in if m = CLK_MODE_32K then hal_clk_sys_config CLK_MODE_32K 5 s
         else if m = CLK_MODE_PLL then
           let s = (if \<not> hal_clk_pwr_xt32m_is_on s then hal_clk_pwr_xt32m_on s else s);
               s = (if \<not> hal_clk_pwr_pll_is_on s then hal_clk_pwr_pll_on s else s);
               s = hal_clk_sys_config CLK_MODE_PLL (ucast (clk AND SYS_CLK_DIV_MSK)) s
           in set_flash_cfg 0x53 s
         else
           let s = (if \<not> hal_clk_pwr_xt32m_is_on s then hal_clk_pwr_xt32m_on s else s);
               s = hal_clk_sys_config CLK_MODE_32M (ucast (clk AND SYS_CLK_DIV_MSK)) s
           in set_flash_cfg 0x51 s)"

text \<open>\<open>CONFIG_SOC_RTC_FREQ\<close> is the argument \<open>rtc_freq\<close>.  The quotient by a divider of 0 has no meaning
  in C: \<open>None\<close>.\<close>

definition hal_clk_sys_get :: "u32 \<Rightarrow> soc_regs \<Rightarrow> u32 option" where
  "hal_clk_sys_get rtc_freq s =
     (let reg = (ucast (ucast (R16_CLK_SYS_CFG s) AND WCH_MASK 8) :: u8);
          dv = (ucast (drop_bit SYS_CLK_DIV_POS (ucast reg AND SYS_CLK_DIV_MSK)) :: u8);
          md = (ucast (drop_bit SYS_CLK_MODE_POS (ucast reg AND SYS_CLK_MODE_MSK)) :: u8)
      in if ucast md = CLK_MODE_32K then Some rtc_freq
         else if dv = 0 then None
         else if ucast md = CLK_MODE_PLL then Some (FPLL div ucast dv)
         else Some (FHSE div ucast dv))"

datatype low_freq_source = LF_SOURCE_NONE | LF_SOURCE_LSI | LF_SOURCE_LSE

definition hal_clk_lse_cfg_current :: "u8 \<Rightarrow> soc_regs \<Rightarrow> soc_regs" where
  "hal_clk_lse_cfg_current cur s =
     (let reg_cur = R8_XT32K_TUNE s AND NOT 0x03;
          reg_cur = reg_cur OR (cur AND 0x03);
          s = sys_safe_access_enable s;
          s = rwa (\<lambda>s. s\<lparr>R8_XT32K_TUNE := reg_cur\<rparr>) s
      in sys_safe_access_disable s)"

definition hal_clk_lse_cfg_capacitance :: "u8 \<Rightarrow> soc_regs \<Rightarrow> soc_regs" where
  "hal_clk_lse_cfg_capacitance cap s =
     (let reg_cap = R8_XT32K_TUNE s AND NOT 0xF0;
          reg_cap = reg_cap OR (push_bit 4 cap AND 0xF0);
          s = sys_safe_access_enable s;
          s = rwa (\<lambda>s. s\<lparr>R8_XT32K_TUNE := reg_cap\<rparr>) s
      in sys_safe_access_disable s)"

definition hal_clk_hse_cfg_current :: "u8 \<Rightarrow> soc_regs \<Rightarrow> soc_regs" where
  "hal_clk_hse_cfg_current cur s =
     (let reg_cur = R8_XT32M_TUNE s AND NOT 0x03;
          reg_cur = reg_cur OR (cur AND 0x03);
          s = sys_safe_access_enable s;
          s = rwa (\<lambda>s. s\<lparr>R8_XT32M_TUNE := reg_cur\<rparr>) s
      in sys_safe_access_disable s)"

definition hal_clk_hse_cfg_capacitance :: "u8 \<Rightarrow> soc_regs \<Rightarrow> soc_regs" where
  "hal_clk_hse_cfg_capacitance cap s =
     (let reg_cap = R8_XT32M_TUNE s AND NOT 0x30;
          reg_cap = reg_cap OR (push_bit 4 cap AND 0x30);
          s = sys_safe_access_enable s;
          s = rwa (\<lambda>s. s\<lparr>R8_XT32M_TUNE := reg_cap\<rparr>) s
      in sys_safe_access_disable s)"

definition LSE_CURRENT_100 :: u8 where "LSE_CURRENT_100 = 1"
definition LSE_CURRENT_200 :: u8 where "LSE_CURRENT_200 = 3"
definition RB_32K_CLK_PIN :: u8 where "RB_32K_CLK_PIN = 0x80"

text \<open>
  The wait for the clock pin reads \<open>R8_CK32K_CONFIG\<close> twice in every round; \<open>pin n\<close> is the pin bit that
  the \<open>n\<close>-th read returns.  The loop may run forever: \<open>None\<close>.
\<close>

partial_function (option) wait_clk_pin :: "(nat \<Rightarrow> bool) \<Rightarrow> nat \<Rightarrow> nat option" where
  "wait_clk_pin pin n =
     (let clk_pin = pin n
      in if clk_pin \<noteq> pin (n + 1) \<or> \<not> clk_pin then wait_clk_pin pin (n + 2) else Some (n + 2))"

definition hal_clk_lf_source_select :: "(nat \<Rightarrow> bool) \<Rightarrow> low_freq_source \<Rightarrow> soc_regs \<Rightarrow> soc_regs option" where
  "hal_clk_lf_source_select pin src s =
     (let cfg = (case src of LF_SOURCE_NONE \<Rightarrow> 0 | LF_SOURCE_LSE \<Rightarrow> 0x01 OR 0x04 | LF_SOURCE_LSI \<Rightarrow> 0x02);
          s = sys_safe_access_enable s;
          s = rwa (\<lambda>s. s\<lparr>R8_CK32K_CONFIG := cfg\<rparr>) s;
          s = sys_safe_access_disable s;
          s = (if src = LF_SOURCE_LSE then hal_clk_lse_cfg_current LSE_CURRENT_200 s else s)
      in case wait_clk_pin pin 0 of
           None \<Rightarrow> None
         | Some _ \<Rightarrow> Some (if src = LF_SOURCE_LSE then hal_clk_lse_cfg_current LSE_CURRENT_100 s else s))"

definition hal_lsi_set_tune_flash :: "soc_regs \<Rightarrow> soc_regs" where
  "hal_lsi_set_tune_flash s =
     (let s = sys_safe_access_enable s;
          s = rwa (\<lambda>s. s\<lparr>R16_INT32K_TUNE := int32k_tune_flash s\<rparr>) s
      in sys_safe_access_disable s)"

definition hal_lsi_set_tune_ram :: "soc_regs \<Rightarrow> soc_regs" where
  "hal_lsi_set_tune_ram s =
     (let s = sys_safe_access_enable s;
          s = rwa (\<lambda>s. s\<lparr>R16_INT32K_TUNE := int32k_tune_ram s\<rparr>) s
      in sys_safe_access_disable s)"

section \<open>System\<close>

text \<open>The ROM routine \<open>FLASH_ROM_SW_RESET\<close> is not part of the repository: the argument \<open>rom_reset\<close>.\<close>

definition hal_sys_reset :: "(soc_regs \<Rightarrow> soc_regs) \<Rightarrow> soc_regs \<Rightarrow> soc_regs" where
  "hal_sys_reset rom_reset s =
     (let s = rom_reset s;
          s = sys_safe_access_enable s;
          s = rwa (\<lambda>s. s\<lparr>R8_RST_WDOG_CTRL := R8_RST_WDOG_CTRL s OR 0x01\<rparr>) s
      in sys_safe_access_disable s)"

text \<open>\<open>CONFIG_SOC_SYSTEM_OPERATE_FREQ\<close> is the argument \<open>freq\<close>; other values do not compile: \<open>None\<close>.\<close>

definition hal_sys_init :: "u32 \<Rightarrow> soc_regs \<Rightarrow> soc_regs option" where
  "hal_sys_init freq s =
     (if freq = 60000000 then Some (hal_clk_sys_setup CLK_SOURCE_PLL_60MHZ s)
      else if freq = 48000000 then Some (hal_clk_sys_setup CLK_SOURCE_PLL_48MHZ s)
      else if freq = 40000000 then Some (hal_clk_sys_setup CLK_SOURCE_PLL_40MHZ s)
      else if freq = 32000000 then Some (hal_clk_sys_setup CLK_SOURCE_PLL_32MHZ s)
      else if freq = 24000000 then Some (hal_clk_sys_setup CLK_SOURCE_PLL_24MHZ s)
      else if freq = 16000000 then Some (hal_clk_sys_setup CLK_SOURCE_HSE_16MHZ s)
      else if freq = 8000000 then Some (hal_clk_sys_setup CLK_SOURCE_HSE_8MHZ s)
      else if freq = 4000000 then Some (hal_clk_sys_setup CLK_SOURCE_HSE_4MHZ s)
      else if freq = 2000000 then Some (hal_clk_sys_setup CLK_SOURCE_HSE_2MHZ s)
      else if freq = 1000000 then Some (hal_clk_sys_setup CLK_SOURCE_HSE_1MHZ s)
      else None)"

text \<open>The delay is a number of rounds of an empty loop: \<open>do {} while (--i)\<close> makes \<open>2 ^ 32\<close> of them when
  the counter starts at 0.\<close>

definition delay_us_count :: "u32 \<Rightarrow> u16 \<Rightarrow> u32" where
  "delay_us_count freq t =
     (if freq = 60000000 then ucast t * 15
      else if freq = 48000000 then ucast t * 12
      else if freq = 40000000 then ucast t * 10
      else if freq = 32000000 then push_bit 3 (ucast t)
      else if freq = 24000000 then ucast t * 6
      else if freq = 16000000 then push_bit 2 (ucast t)
      else if freq = 8000000 then push_bit 1 (ucast t)
      else if freq = 4000000 then ucast t
      else if freq = 2000000 then drop_bit 1 (ucast t)
      else if freq = 1000000 then drop_bit 2 (ucast t)
      else 0)"

definition hal_sys_delay_us_rounds :: "u32 \<Rightarrow> u16 \<Rightarrow> nat" where
  "hal_sys_delay_us_rounds freq t =
     (let i = delay_us_count freq t in if i = 0 then 2 ^ 32 else unat i)"

definition hal_sys_delay_ms_rounds :: "u32 \<Rightarrow> u16 \<Rightarrow> nat" where
  "hal_sys_delay_ms_rounds freq t = unat t * hal_sys_delay_us_rounds freq 1000"

section \<open>Power\<close>

text \<open>The word that \<open>FLASH_EEPROM_CMD\<close> reads from ROM is the argument \<open>hw_info0\<close>.\<close>

definition hal_pwr_dcdc_enable :: "u32 \<Rightarrow> bool \<Rightarrow> soc_regs \<Rightarrow> soc_regs" where
  "hal_pwr_dcdc_enable hw_info0 enable s =
     (if enable then
        sys_safe_access_disable
          (rwa (\<lambda>s. s\<lparr>R16_POWER_PLAN := R16_POWER_PLAN s AND NOT (0x0200 OR 0x0400)\<rparr>) (sys_safe_access_enable s))
      else if hw_info0 AND push_bit 13 1 \<noteq> 0 then s
      else
        sys_safe_access_disable
          (rwa (\<lambda>s. s\<lparr>R16_POWER_PLAN := R16_POWER_PLAN s OR 0x0200 OR 0x0400\<rparr>) (sys_safe_access_enable s)))"

datatype pwr_wakeup_mode =
    PWR_WAKEUP_MODE_EDGE_LONG | PWR_WAKEUP_MODE_EDGE_SHORT
  | PWR_WAKEUP_MODE_LEVEL_LONG | PWR_WAKEUP_MODE_LEVEL_SHORT

definition RB_WAKE_EV_MODE :: u8 where "RB_WAKE_EV_MODE = 0x40"
definition RB_WAKE_DELAY :: u8 where "RB_WAKE_DELAY = 0x80"

definition hal_pwr_wakeup_mode :: "pwr_wakeup_mode \<Rightarrow> soc_regs \<Rightarrow> soc_regs" where
  "hal_pwr_wakeup_mode m s =
     (let cfg = (case m of
            PWR_WAKEUP_MODE_EDGE_LONG \<Rightarrow> RB_WAKE_EV_MODE
          | PWR_WAKEUP_MODE_EDGE_SHORT \<Rightarrow> 0
          | PWR_WAKEUP_MODE_LEVEL_LONG \<Rightarrow> RB_WAKE_DELAY
          | PWR_WAKEUP_MODE_LEVEL_SHORT \<Rightarrow> RB_WAKE_EV_MODE OR RB_WAKE_DELAY);
          s = sys_safe_access_enable s;
          s = rwa (\<lambda>s. s\<lparr>R8_SLP_WAKE_CTRL := R8_SLP_WAKE_CTRL s AND NOT (RB_WAKE_EV_MODE OR RB_WAKE_DELAY)\<rparr>) s;
          s = sys_safe_access_enable s;
          s = rwa (\<lambda>s. s\<lparr>R8_SLP_WAKE_CTRL := R8_SLP_WAKE_CTRL s OR cfg\<rparr>) s
      in sys_safe_access_disable s)"

definition hal_pwr_wakeup_source :: "u8 \<Rightarrow> bool \<Rightarrow> soc_regs \<Rightarrow> soc_regs" where
  "hal_pwr_wakeup_source source enable s =
     (let temp = R8_SLP_WAKE_CTRL s;
          temp = (if enable then temp OR source else temp AND NOT source);
          s = sys_safe_access_enable s;
          s = rwa (\<lambda>s. s\<lparr>R8_SLP_WAKE_CTRL := temp\<rparr>) s
      in sys_safe_access_disable s)"

definition hal_pwr_wakeup_source_is_enabled :: "u8 \<Rightarrow> soc_regs \<Rightarrow> bool" where
  "hal_pwr_wakeup_source_is_enabled src s \<longleftrightarrow> R8_SLP_WAKE_CTRL s AND src \<noteq> 0"

definition hal_pwr_monitor_config :: "u8 \<Rightarrow> soc_regs \<Rightarrow> soc_regs" where
  "hal_pwr_monitor_config level s =
     (if level = 0xFF then
        sys_safe_access_disable (rwa (\<lambda>s. s\<lparr>R8_BAT_DET_CTRL := 0\<rparr>) (sys_safe_access_enable s))
      else
        let (cfg, ctrl) = (if level AND 0x80 \<noteq> 0 then (level AND 0x03, 0x02 OR (drop_bit 2 level AND 1))
                           else (level AND 0x03, 0x01));
            s = sys_safe_access_enable s;
            s = rwa (\<lambda>s. s\<lparr>R8_BAT_DET_CTRL := ctrl\<rparr>) s;
            s = rwa (\<lambda>s. s\<lparr>R8_BAT_DET_CFG := cfg\<rparr>) s;
            s = sys_safe_access_disable s;
            s = sys_safe_access_enable s;
            s = rwa (\<lambda>s. s\<lparr>R8_BAT_DET_CTRL := R8_BAT_DET_CTRL s OR 0x08 OR 0x04\<rparr>) s
        in sys_safe_access_disable s)"

text \<open>Sleeping: what happens to the registers while the core waits for an interrupt is the argument \<open>wfi\<close>.\<close>

definition hal_pwr_enter_idle :: "(soc_regs \<Rightarrow> soc_regs) \<Rightarrow> (soc_regs \<Rightarrow> soc_regs) \<Rightarrow> soc_regs \<Rightarrow> soc_regs" where
  "hal_pwr_enter_idle rom_reset wfi s =
     (let s = rom_reset s;
          s = s\<lparr>R8_FLASH_CTRL := 0x04\<rparr>;
          s = s\<lparr>SCTLR := SCTLR s AND NOT 4\<rparr>
      in wfi s)"

definition hal_pwr_enter_halt :: "(soc_regs \<Rightarrow> soc_regs) \<Rightarrow> (soc_regs \<Rightarrow> soc_regs) \<Rightarrow> soc_regs \<Rightarrow> soc_regs" where
  "hal_pwr_enter_halt rom_reset wfi s =
     (let s = rom_reset s;
          s = s\<lparr>R8_FLASH_CTRL := 0x04\<rparr>;
          s = sys_safe_access_enable s;
          s = rwa (\<lambda>s. s\<lparr>R8_PLL_CONFIG := R8_PLL_CONFIG s OR 0x20\<rparr>) s;
          s = sys_safe_access_disable s;
          s = s\<lparr>SCTLR := SCTLR s OR 4\<rparr>;
          s = wfi s;
          s = sys_safe_access_enable s;
          s = rwa (\<lambda>s. s\<lparr>R8_PLL_CONFIG := R8_PLL_CONFIG s AND NOT 0x20\<rparr>) s
      in sys_safe_access_disable s)"

definition hal_pwr_enter_sleep ::
    "(soc_regs \<Rightarrow> soc_regs) \<Rightarrow> (soc_regs \<Rightarrow> soc_regs) \<Rightarrow> u8 \<Rightarrow> soc_regs \<Rightarrow> soc_regs" where
  "hal_pwr_enter_sleep rom_reset wfi peri s =
     (let s = rom_reset s;
          s = s\<lparr>R8_FLASH_CTRL := 0x04\<rparr>;
          s = sys_safe_access_enable s;
          s = rwa (\<lambda>s. s\<lparr>R8_PLL_CONFIG := R8_PLL_CONFIG s OR 0x20\<rparr>) s;
          s = sys_safe_access_enable s;
          s = rwa (\<lambda>s. s\<lparr>R8_SLP_POWER_CTRL := R8_SLP_POWER_CTRL s OR 0x40\<rparr>) s;
          s = sys_safe_access_enable s;
          s = rwa (\<lambda>s. s\<lparr>R16_POWER_PLAN := 0x8000 OR 0x1000 OR 0x04 OR ucast peri\<rparr>) s;
          s = sys_safe_access_disable s;
          s = s\<lparr>SCTLR := SCTLR s OR 4\<rparr>;
          s = wfi s;
          s = sys_safe_access_enable s;
          s = rwa (\<lambda>s. s\<lparr>R8_PLL_CONFIG := R8_PLL_CONFIG s AND NOT 0x20\<rparr>) s
      in sys_safe_access_disable s)"

definition hal_pwr_enter_shutdown ::
    "(soc_regs \<Rightarrow> soc_regs) \<Rightarrow> (soc_regs \<Rightarrow> soc_regs) \<Rightarrow> u8 \<Rightarrow> soc_regs \<Rightarrow> soc_regs" where
  "hal_pwr_enter_shutdown rom_reset wfi peri s =
     (let s = rom_reset s;
          s = s\<lparr>R8_FLASH_CTRL := 0x04\<rparr>;
          s = hal_clk_sys_setup CLK_SOURCE_HSE_6_4MHZ s;
          s = sys_safe_access_enable s;
          s = rwa (\<lambda>s. s\<lparr>R8_SLP_POWER_CTRL := R8_SLP_POWER_CTRL s OR 0x40\<rparr>) s;
          s = sys_safe_access_enable s;
          s = rwa (\<lambda>s. s\<lparr>R16_POWER_PLAN := 0x8000 OR 0x1000 OR ucast peri\<rparr>) s;
          s = sys_safe_access_disable s;
          s = s\<lparr>SCTLR := SCTLR s OR 4\<rparr>
      in wfi s)"

section \<open>Safe accesses\<close>

lemma safe_enable: "sys_safe_access_enable s = s\<lparr>safe_step := False, safe_act := True\<rparr>"
  by (simp add: sys_safe_access_enable_def write_safe_access_sig_def SAFE_ACCESS_SIG1_def SAFE_ACCESS_SIG2_def)

lemma safe_disable: "sys_safe_access_disable s = s\<lparr>safe_step := False, safe_act := False\<rparr>"
  by (simp add: sys_safe_access_disable_def write_safe_access_sig_def SAFE_ACCESS_SIG1_def SAFE_ACCESS_SIG2_def)

lemmas safe_simps = safe_enable safe_disable rwa_def Let_def

lemma clk_const_simps [simp]:
  "SYS_CLK_MODE_MSK = 0xC0" "SYS_CLK_DIV_MSK = 0x1F" "SYS_CLK_MODE_POS = 6" "SYS_CLK_DIV_POS = 0" "WCH_MASK 8 = 0xFF"
  by (simp_all add: SYS_CLK_MODE_MSK_def SYS_CLK_DIV_MSK_def SYS_CLK_MODE_POS_def SYS_CLK_DIV_POS_def WCH_MASK_def)

lemmas clk_modes = CLK_MODE_32M_def CLK_MODE_PLL_def CLK_MODE_32K_def

lemmas clk_sources = CLK_SOURCE_32KHZ_def CLK_SOURCE_HSE_16MHZ_def CLK_SOURCE_HSE_8MHZ_def
  CLK_SOURCE_HSE_6_4MHZ_def CLK_SOURCE_HSE_4MHZ_def CLK_SOURCE_HSE_2MHZ_def CLK_SOURCE_HSE_1MHZ_def
  CLK_SOURCE_PLL_60MHZ_def CLK_SOURCE_PLL_48MHZ_def CLK_SOURCE_PLL_40MHZ_def CLK_SOURCE_PLL_32MHZ_def
  CLK_SOURCE_PLL_24MHZ_def clk_source_def

lemmas setup_simps = hal_clk_sys_get_def hal_clk_sys_setup_def clk_sources clk_modes safe_simps
  hal_clk_sys_config_def set_flash_cfg_def hal_clk_pwr_xt32m_on_def hal_clk_pwr_pll_on_def FPLL_def FHSE_def

lemma setup_frequency:
  "hal_clk_sys_get rtc (hal_clk_sys_setup CLK_SOURCE_PLL_60MHZ s) = Some 60000000"
  "hal_clk_sys_get rtc (hal_clk_sys_setup CLK_SOURCE_PLL_48MHZ s) = Some 48000000"
  "hal_clk_sys_get rtc (hal_clk_sys_setup CLK_SOURCE_PLL_40MHZ s) = Some 40000000"
  "hal_clk_sys_get rtc (hal_clk_sys_setup CLK_SOURCE_PLL_32MHZ s) = Some 32000000"
  "hal_clk_sys_get rtc (hal_clk_sys_setup CLK_SOURCE_PLL_24MHZ s) = Some 24000000"
  "hal_clk_sys_get rtc (hal_clk_sys_setup CLK_SOURCE_HSE_16MHZ s) = Some 16000000"
  "hal_clk_sys_get rtc (hal_clk_sys_setup CLK_SOURCE_HSE_8MHZ s) = Some 8000000"
  "hal_clk_sys_get rtc (hal_clk_sys_setup CLK_SOURCE_HSE_4MHZ s) = Some 4000000"
  "hal_clk_sys_get rtc (hal_clk_sys_setup CLK_SOURCE_HSE_2MHZ s) = Some 2000000"
  "hal_clk_sys_get rtc (hal_clk_sys_setup CLK_SOURCE_HSE_6_4MHZ s) = Some 6400000"
  "hal_clk_sys_get rtc (hal_clk_sys_setup CLK_SOURCE_HSE_1MHZ s) = None"
  by (simp_all add: setup_simps)

lemma setup_locks: "\<not> safe_act (hal_clk_sys_setup clk s)"
  by (simp add: hal_clk_sys_setup_def safe_disable set_flash_cfg_def hal_clk_sys_config_def Let_def)

lemma setup_xt32m_on:
  "drop_bit 6 (clk AND 0xC0) \<noteq> CLK_MODE_32K \<Longrightarrow> hal_clk_pwr_xt32m_is_on (hal_clk_sys_setup clk s)"
proof -
  have "(x OR 4) AND 4 = 4" "((x OR 4) OR 16) AND 4 = 4" "x AND 4 \<noteq> 0 \<Longrightarrow> (x OR 16) AND 4 \<noteq> 0" for x :: u8
    by (simp_all add: bit_eq_iff bit_simps) (auto simp: bit_eq_iff bit_simps)
  then show "drop_bit 6 (clk AND 0xC0) \<noteq> CLK_MODE_32K \<Longrightarrow> ?thesis"
    by (simp add: hal_clk_sys_setup_def safe_simps hal_clk_sys_config_def set_flash_cfg_def
      hal_clk_pwr_xt32m_on_def hal_clk_pwr_pll_on_def hal_clk_pwr_xt32m_is_on_def hal_clk_pwr_pll_is_on_def
      RB_CLK_XT32M_PON_def RB_CLK_PLL_PON_def)
qed

section \<open>Properties\<close>

text \<open>C37: for every supported operating frequency from 2 to 60 MHz, \<open>hal_sys_init\<close> programs the clock so
  that \<open>hal_clk_sys_get\<close> reads that frequency back, with the 32 MHz oscillator powered and the
  registers locked again.\<close>

theorem hal_sys_init_frequency:
  assumes "freq \<in> {60000000, 48000000, 40000000, 32000000, 24000000, 16000000, 8000000, 4000000, 2000000}"
  shows "\<exists>s'. hal_sys_init freq s = Some s' \<and> hal_clk_sys_get rtc s' = Some freq \<and>
    hal_clk_pwr_xt32m_is_on s' \<and> \<not> safe_act s'"
proof -
  have "drop_bit 6 (clk AND 0xC0) \<noteq> CLK_MODE_32K" for clk :: u32
  proof
    assume "drop_bit 6 (clk AND 0xC0) = CLK_MODE_32K"
    then have "bit (drop_bit 6 (clk AND 0xC0)) 4 = bit CLK_MODE_32K 4" by simp
    then show False by (simp add: CLK_MODE_32K_def bit_simps)
  qed
  then show ?thesis
    using assms by (auto simp: hal_sys_init_def setup_frequency setup_locks setup_xt32m_on)
qed

theorem hal_sys_init_frequency_witness:
  "\<forall>s. \<exists>s'. hal_sys_init 48000000 s = Some s' \<and> hal_clk_sys_get 32768 s' = Some 48000000"
proof
  show "\<exists>s'. hal_sys_init 48000000 s = Some s' \<and> hal_clk_sys_get 32768 s' = Some 48000000" for s
    using hal_sys_init_frequency [of 48000000 s 32768] by auto
qed

text \<open>The enumeration gives the 32 kHz mode the value \<open>0x11\<close> instead of 3: selecting the 32 kHz clock
  powers the PLL and selects it with the divider 0, a setting for which \<open>hal_clk_sys_get\<close> divides by zero.
  The 1 MHz setting, which also encodes its divider as 0, has the same effect on \<open>hal_clk_sys_get\<close>.\<close>

theorem clk_source_32khz_selects_pll:
  "R16_CLK_SYS_CFG (hal_clk_sys_setup CLK_SOURCE_32KHZ s) = 0x40 \<and>
   hal_clk_pwr_pll_is_on (hal_clk_sys_setup CLK_SOURCE_32KHZ s) \<and>
   hal_clk_sys_get rtc (hal_clk_sys_setup CLK_SOURCE_32KHZ s) = None \<and>
   (\<exists>s'. hal_sys_init 1000000 s = Some s' \<and> hal_clk_sys_get rtc s' = None)"
proof -
  have "(x OR 16) AND 16 = 16" for x :: u8 by (simp add: bit_eq_iff bit_simps)
  then have "hal_clk_pwr_pll_is_on (hal_clk_sys_setup CLK_SOURCE_32KHZ s)"
    by (simp add: setup_simps hal_clk_pwr_xt32m_is_on_def hal_clk_pwr_pll_is_on_def RB_CLK_PLL_PON_def RB_CLK_XT32M_PON_def)
  then show ?thesis
    by (simp add: hal_sys_init_def setup_frequency) (simp add: setup_simps)
qed

text \<open>The clock-off mask, one bit per peripheral.\<close>

definition clk_off :: "soc_regs \<Rightarrow> u16" where
  "clk_off s = ucast (R8_SLP_CLK_OFF0 s) OR push_bit 8 (ucast (R8_SLP_CLK_OFF1 s))"

text \<open>Enabling peripheral clocks clears exactly the given bits of the 16-bit clock-off mask, disabling
  sets exactly them, and both leave the registers locked.\<close>

theorem hal_clk_periph_clk_mask:
  "clk_off (hal_clk_periph_clk_enable per s) = clk_off s AND NOT per \<and>
   clk_off (hal_clk_periph_clk_disable per s) = clk_off s OR per \<and>
   \<not> safe_act (hal_clk_periph_clk_enable per s) \<and> \<not> safe_act (hal_clk_periph_clk_disable per s)"
proof (intro conjI)
  show "clk_off (hal_clk_periph_clk_enable per s) = clk_off s AND NOT per"
    by (rule bit_word_eqI) (auto simp: clk_off_def hal_clk_periph_clk_enable_def safe_simps bit_simps bit_255 dest: bit_byte_len)
  show "clk_off (hal_clk_periph_clk_disable per s) = clk_off s OR per"
    by (rule bit_word_eqI) (auto simp: clk_off_def hal_clk_periph_clk_disable_def safe_simps bit_simps bit_255 dest: bit_byte_len)
qed (simp_all add: hal_clk_periph_clk_enable_def hal_clk_periph_clk_disable_def safe_simps)

end
