(* ===== verification/Uart.thy ===== *)
theory Uart
  imports Soc
begin

text \<open>
  The serial port driver, \<^verbatim>\<open>drivers/uart/uart.c\<close>, over \<^verbatim>\<open>hal/ch57x/ch57x_hal_uart.c\<close> and the inline
  functions of \<^verbatim>\<open>ch57x_hal_uart.h\<close> (the CH58x files have the same text).  Every port has a block of
  registers; the store maps the base address of a port to its block, so that the functions which name
  the registers of UART0 act on the same block as those that take a pointer.

  The two queues of a port are lists of bytes: reading \<open>RBR\<close> takes the first received byte, writing
  \<open>THR\<close> appends a byte to be sent.  What the hardware does while a loop waits (it sends and receives)
  is the argument \<open>io\<close>, a function on the store that runs before every poll of a status register.
\<close>

section \<open>Registers\<close>

record uart_regs =
  MCR :: u8
  IER :: u8
  FCR :: u8
  LCR :: u8
  IIR :: u8
  LSR :: u8
  MSR :: u8
  RBR :: u8
  rx_fifo :: "u8 list"
  tx_fifo :: "u8 list"
  DL :: u16
  DIV :: u8
  ADR :: u8

type_synonym uarts = "addr \<Rightarrow> uart_regs"

definition UART0 :: addr where "UART0 = 0x40003000"
definition UART1 :: addr where "UART1 = 0x40003400"
definition UART2 :: addr where "UART2 = 0x40003800"
definition UART3 :: addr where "UART3 = 0x40003C00"

definition UART_FIFO_SIZE :: nat where "UART_FIFO_SIZE = 8"

definition reg_upd :: "addr \<Rightarrow> (uart_regs \<Rightarrow> uart_regs) \<Rightarrow> uarts \<Rightarrow> uarts" where
  "reg_upd uart f u = u(uart := f (u uart))"

definition UART_PARITY_ODD :: u8 where "UART_PARITY_ODD = 0"
definition UART_PARITY_EVEN :: u8 where "UART_PARITY_EVEN = 1"
definition UART_PARITY_MARK :: u8 where "UART_PARITY_MARK = 2"
definition UART_PARITY_SPACE :: u8 where "UART_PARITY_SPACE = 3"
definition UART_STOP_BITS_1 :: u8 where "UART_STOP_BITS_1 = 0"
definition UART_STOP_BITS_2 :: u8 where "UART_STOP_BITS_2 = 1"
definition UART_DATA_5_BITS :: u8 where "UART_DATA_5_BITS = 0"
definition UART_DATA_6_BITS :: u8 where "UART_DATA_6_BITS = 1"
definition UART_DATA_7_BITS :: u8 where "UART_DATA_7_BITS = 2"
definition UART_DATA_8_BITS :: u8 where "UART_DATA_8_BITS = 3"

definition UART_INT_RCV_RDY :: u8 where "UART_INT_RCV_RDY = 1"
definition UART_INT_THR_ENMPTY :: u8 where "UART_INT_THR_ENMPTY = 2"
definition UART_INT_LINE_STAT :: u8 where "UART_INT_LINE_STAT = 4"
definition UART_INT_MODEM_CHG :: u8 where "UART_INT_MODEM_CHG = 8"

definition RB_LCR_PAR_EN :: u8 where "RB_LCR_PAR_EN = 0x08"
definition RB_LCR_BREAK_EN :: u8 where "RB_LCR_BREAK_EN = 0x40"
definition RB_IER_RTS_EN :: u8 where "RB_IER_RTS_EN = 0x20"
definition RB_IER_DTR_EN :: u8 where "RB_IER_DTR_EN = 0x10"
definition RB_IER_TXD_EN :: u8 where "RB_IER_TXD_EN = 0x40"
definition RB_IER_RESET :: u8 where "RB_IER_RESET = 0x80"
definition RB_MCR_DTR :: u8 where "RB_MCR_DTR = 0x01"
definition RB_MCR_RTS :: u8 where "RB_MCR_RTS = 0x02"
definition RB_MCR_OUT1 :: u8 where "RB_MCR_OUT1 = 0x04"
definition RB_MCR_INT_OE :: u8 where "RB_MCR_INT_OE = 0x08"
definition RB_MCR_LOOP :: u8 where "RB_MCR_LOOP = 0x10"
definition RB_MCR_AU_FLOW_EN :: u8 where "RB_MCR_AU_FLOW_EN = 0x20"
definition RB_MCR_TNOW :: u8 where "RB_MCR_TNOW = 0x40"
definition RB_MCR_HALF :: u8 where "RB_MCR_HALF = 0x80"

section \<open>The inline functions of the hardware layer\<close>

definition hal_uart_frequency_div :: "addr \<Rightarrow> u8 \<Rightarrow> uarts \<Rightarrow> uarts" where
  "hal_uart_frequency_div uart dv = reg_upd uart (\<lambda>r. r\<lparr>DIV := dv AND ucast (WCH_MASK 7)\<rparr>)"

definition hal_uart_break_config :: "addr \<Rightarrow> bool \<Rightarrow> uarts \<Rightarrow> uarts" where
  "hal_uart_break_config uart cfg = reg_upd uart (\<lambda>r.
     if cfg then r\<lparr>LCR := LCR r OR RB_LCR_BREAK_EN\<rparr> else r\<lparr>LCR := LCR r AND NOT RB_LCR_BREAK_EN\<rparr>)"

definition hal_uart_pairty_set :: "addr \<Rightarrow> u8 \<Rightarrow> uarts \<Rightarrow> uarts" where
  "hal_uart_pairty_set uart md = reg_upd uart (\<lambda>r.
     let r = r\<lparr>LCR := LCR r OR RB_LCR_PAR_EN\<rparr>;
         r = r\<lparr>LCR := LCR r AND NOT (push_bit 4 3)\<rparr>
     in r\<lparr>LCR := LCR r OR (push_bit 4 md AND push_bit 4 3)\<rparr>)"

definition hal_uart_pairty_get :: "addr \<Rightarrow> uarts \<Rightarrow> u8" where
  "hal_uart_pairty_get uart u = drop_bit 4 (LCR (u uart) AND push_bit 4 3)"

definition hal_uart_pairty_disable :: "addr \<Rightarrow> uarts \<Rightarrow> uarts" where
  "hal_uart_pairty_disable uart = reg_upd uart (\<lambda>r. r\<lparr>LCR := LCR r AND NOT RB_LCR_PAR_EN\<rparr>)"

definition hal_uart_pairty_is_enabled :: "addr \<Rightarrow> uarts \<Rightarrow> u8" where
  "hal_uart_pairty_is_enabled uart u = LCR (u uart) AND RB_LCR_PAR_EN"

definition hal_uart_stop_bit_set :: "addr \<Rightarrow> u8 \<Rightarrow> uarts \<Rightarrow> uarts" where
  "hal_uart_stop_bit_set uart stop_bits = reg_upd uart (\<lambda>r.
     let r = r\<lparr>LCR := LCR r AND NOT (push_bit 2 1)\<rparr>
     in r\<lparr>LCR := LCR r OR (push_bit 2 stop_bits AND push_bit 2 1)\<rparr>)"

definition hal_uart_stop_bit_get :: "addr \<Rightarrow> uarts \<Rightarrow> u8" where
  "hal_uart_stop_bit_get uart u = drop_bit 2 (LCR (u uart) AND push_bit 2 1)"

definition hal_uart_word_size_set :: "addr \<Rightarrow> u8 \<Rightarrow> uarts \<Rightarrow> uarts" where
  "hal_uart_word_size_set uart word_sz = reg_upd uart (\<lambda>r.
     let r = r\<lparr>LCR := LCR r AND NOT (push_bit 0 3)\<rparr>
     in r\<lparr>LCR := LCR r OR (push_bit 0 word_sz AND push_bit 0 3)\<rparr>)"

definition hal_uart_word_size_get :: "addr \<Rightarrow> uarts \<Rightarrow> u8" where
  "hal_uart_word_size_get uart u = drop_bit 0 (LCR (u uart) AND push_bit 0 3)"

definition hal_uart_tx_enable :: "addr \<Rightarrow> uarts \<Rightarrow> uarts" where
  "hal_uart_tx_enable uart = reg_upd uart (\<lambda>r. r\<lparr>IER := IER r OR RB_IER_TXD_EN\<rparr>)"

definition hal_uart_tx_disable :: "addr \<Rightarrow> uarts \<Rightarrow> uarts" where
  "hal_uart_tx_disable uart = reg_upd uart (\<lambda>r. r\<lparr>IER := IER r AND NOT RB_IER_TXD_EN\<rparr>)"

definition hal_uart_is_tx_enabled :: "addr \<Rightarrow> uarts \<Rightarrow> u8" where
  "hal_uart_is_tx_enabled uart u = IER (u uart) AND RB_IER_TXD_EN"

definition hal_uart_rx_fifo_trig :: "addr \<Rightarrow> u8 \<Rightarrow> uarts \<Rightarrow> uarts" where
  "hal_uart_rx_fifo_trig uart trig = reg_upd uart (\<lambda>r.
     let r = r\<lparr>FCR := FCR r AND NOT (push_bit 6 3)\<rparr>
     in r\<lparr>FCR := FCR r OR (push_bit 6 trig AND push_bit 6 3)\<rparr>)"

definition hal_uart_fifo_cfg :: "addr \<Rightarrow> bool \<Rightarrow> uarts \<Rightarrow> uarts" where
  "hal_uart_fifo_cfg uart fifo_en = reg_upd uart (\<lambda>r.
     if fifo_en then r\<lparr>FCR := FCR r OR 0x01\<rparr> else r\<lparr>FCR := FCR r AND NOT 0x01\<rparr>)"

definition hal_uart_interrupt_enable :: "addr \<Rightarrow> u8 \<Rightarrow> uarts \<Rightarrow> uarts" where
  "hal_uart_interrupt_enable uart interrupt = reg_upd uart (\<lambda>r.
     let r = r\<lparr>IER := IER r OR (interrupt AND ucast (WCH_MASK 4))\<rparr>
     in r\<lparr>MCR := MCR r OR RB_MCR_INT_OE\<rparr>)"

definition hal_uart_interrupt_disable :: "addr \<Rightarrow> u8 \<Rightarrow> uarts \<Rightarrow> uarts" where
  "hal_uart_interrupt_disable uart interrupt =
     reg_upd uart (\<lambda>r. r\<lparr>IER := IER r AND NOT (interrupt AND ucast (WCH_MASK 4))\<rparr>)"

definition hal_uart_interrupt_is_enabled :: "addr \<Rightarrow> u8 \<Rightarrow> uarts \<Rightarrow> bool" where
  "hal_uart_interrupt_is_enabled uart interrupt u \<longleftrightarrow> IER (u uart) AND (interrupt AND ucast (WCH_MASK 4)) \<noteq> 0"

definition hal_uart_get_int_flag :: "addr \<Rightarrow> uarts \<Rightarrow> u8" where
  "hal_uart_get_int_flag uart u = IIR (u uart) AND 0x0F"

definition hal_uart_get_line_state :: "addr \<Rightarrow> uarts \<Rightarrow> u8" where
  "hal_uart_get_line_state uart u = LSR (u uart)"

definition hal_uart_reset :: "addr \<Rightarrow> uarts \<Rightarrow> uarts" where
  "hal_uart_reset uart = reg_upd uart (\<lambda>r. r\<lparr>IER := IER r OR RB_IER_RESET\<rparr>)"

text \<open>The modem functions name the registers of UART0; all of them but the half-duplex pair write \<open>IER\<close>.\<close>

definition ier0_or :: "u8 \<Rightarrow> uarts \<Rightarrow> uarts" where
  "ier0_or b = reg_upd UART0 (\<lambda>r. r\<lparr>IER := IER r OR b\<rparr>)"

definition ier0_and_not :: "u8 \<Rightarrow> uarts \<Rightarrow> uarts" where
  "ier0_and_not b = reg_upd UART0 (\<lambda>r. r\<lparr>IER := IER r AND NOT b\<rparr>)"

definition hal_uart0_modem_rts_enable :: "uarts \<Rightarrow> uarts" where
  "hal_uart0_modem_rts_enable = ier0_or RB_IER_RTS_EN"
definition hal_uart0_modem_rts_disable :: "uarts \<Rightarrow> uarts" where
  "hal_uart0_modem_rts_disable = ier0_and_not RB_IER_RTS_EN"
definition hal_uart0_modem_dtr_enable :: "uarts \<Rightarrow> uarts" where
  "hal_uart0_modem_dtr_enable = ier0_or RB_IER_DTR_EN"
definition hal_uart0_modem_dtr_disable :: "uarts \<Rightarrow> uarts" where
  "hal_uart0_modem_dtr_disable = ier0_and_not RB_IER_DTR_EN"
definition hal_uart0_modem_tnow_enable :: "uarts \<Rightarrow> uarts" where
  "hal_uart0_modem_tnow_enable = ier0_or RB_MCR_TNOW"
definition hal_uart0_modem_tnow_disable :: "uarts \<Rightarrow> uarts" where
  "hal_uart0_modem_tnow_disable = ier0_and_not RB_MCR_TNOW"
definition hal_uart0_modem_autoflow_enable :: "uarts \<Rightarrow> uarts" where
  "hal_uart0_modem_autoflow_enable = ier0_or RB_MCR_AU_FLOW_EN"
definition hal_uart0_modem_autoflow_disable :: "uarts \<Rightarrow> uarts" where
  "hal_uart0_modem_autoflow_disable = ier0_and_not RB_MCR_AU_FLOW_EN"
definition hal_uart0_modem_autoflow_is_enabled :: "uarts \<Rightarrow> u8" where
  "hal_uart0_modem_autoflow_is_enabled u = IER (u UART0) AND RB_MCR_AU_FLOW_EN"
definition hal_uart0_modem_loop_test_enable :: "uarts \<Rightarrow> uarts" where
  "hal_uart0_modem_loop_test_enable = ier0_or RB_MCR_LOOP"
definition hal_uart0_modem_loop_test_disable :: "uarts \<Rightarrow> uarts" where
  "hal_uart0_modem_loop_test_disable = ier0_and_not RB_MCR_LOOP"
definition hal_uart0_modem_out_set :: "uarts \<Rightarrow> uarts" where
  "hal_uart0_modem_out_set = ier0_or RB_MCR_OUT1"
definition hal_uart0_modem_out_reset :: "uarts \<Rightarrow> uarts" where
  "hal_uart0_modem_out_reset = ier0_and_not RB_MCR_OUT1"
definition hal_uart0_modem_rst_set_low :: "uarts \<Rightarrow> uarts" where
  "hal_uart0_modem_rst_set_low = ier0_or RB_MCR_RTS"
definition hal_uart0_modem_rst_set_high :: "uarts \<Rightarrow> uarts" where
  "hal_uart0_modem_rst_set_high = ier0_and_not RB_MCR_RTS"
definition hal_uart0_modem_dtr_set_low :: "uarts \<Rightarrow> uarts" where
  "hal_uart0_modem_dtr_set_low = ier0_or RB_MCR_DTR"
definition hal_uart0_modem_dtr_set_high :: "uarts \<Rightarrow> uarts" where
  "hal_uart0_modem_dtr_set_high = ier0_and_not RB_MCR_DTR"
definition hal_uart0_halfduplex_enable :: "uarts \<Rightarrow> uarts" where
  "hal_uart0_halfduplex_enable = reg_upd UART0 (\<lambda>r. r\<lparr>MCR := MCR r OR RB_MCR_HALF\<rparr>)"
definition hal_uart0_halfduplex_disable :: "uarts \<Rightarrow> uarts" where
  "hal_uart0_halfduplex_disable = reg_upd UART0 (\<lambda>r. r\<lparr>MCR := MCR r AND NOT RB_MCR_HALF\<rparr>)"
definition hal_uart0_set_slv_addr :: "u8 \<Rightarrow> uarts \<Rightarrow> uarts" where
  "hal_uart0_set_slv_addr a = reg_upd UART0 (\<lambda>r. r\<lparr>ADR := a\<rparr>)"
definition hal_uart0_get_slv_addr :: "uarts \<Rightarrow> u8" where
  "hal_uart0_get_slv_addr u = ADR (u UART0)"

definition hal_uart_tx :: "addr \<Rightarrow> u8 \<Rightarrow> uarts \<Rightarrow> uarts" where
  "hal_uart_tx uart c = reg_upd uart (\<lambda>r. r\<lparr>tx_fifo := tx_fifo r @ [c]\<rparr>)"

definition hal_uart_rx :: "addr \<Rightarrow> uarts \<Rightarrow> u8 \<times> uarts" where
  "hal_uart_rx uart u =
     (case rx_fifo (u uart) of
        [] \<Rightarrow> (RBR (u uart), u)
      | b # bs \<Rightarrow> (b, reg_upd uart (\<lambda>r. r\<lparr>rx_fifo := bs, RBR := b\<rparr>) u))"

definition hal_uart_get_rx_fifo_len :: "addr \<Rightarrow> uarts \<Rightarrow> u8" where
  "hal_uart_get_rx_fifo_len uart u = of_nat (length (rx_fifo (u uart)))"

definition hal_uart_get_tx_fifo_len :: "addr \<Rightarrow> uarts \<Rightarrow> u8" where
  "hal_uart_get_tx_fifo_len uart u = of_nat (length (tx_fifo (u uart)))"

section \<open>The hardware layer\<close>

definition WCH_ROUNDED_DIV :: "u32 \<Rightarrow> u32 \<Rightarrow> u32" where
  "WCH_ROUNDED_DIV a b = (a + b div 2) div b"

text \<open>\<open>fsys\<close> is the value of \<open>hal_clk_sys_get\<close>; a quotient by 0 has no meaning: \<open>None\<close>.\<close>

definition hal_uart_baudrate_set :: "u32 \<Rightarrow> addr \<Rightarrow> u32 \<Rightarrow> uarts \<Rightarrow> uarts option" where
  "hal_uart_baudrate_set fsys uart baudrate u =
     (let d = 16 * baudrate * ucast (DIV (u uart))
      in if d = 0 then None
         else
           let dl = WCH_ROUNDED_DIV (10 * fsys * 2 div d) 10
           in Some (reg_upd uart (\<lambda>r. r\<lparr>DL := ucast dl\<rparr>) u))"

definition hal_uart_baudrate_get :: "u32 \<Rightarrow> addr \<Rightarrow> uarts \<Rightarrow> u32 option" where
  "hal_uart_baudrate_get fsys uart u =
     (let d = 16 * ucast (DL (u uart)) * ucast (DIV (u uart))
      in if d = 0 then None else Some (fsys * 2 div d))"

text \<open>The loop ends only when the whole buffer has been written to the queue.\<close>

partial_function (option) fifo_tx_loop :: "(uarts \<Rightarrow> uarts) \<Rightarrow> addr \<Rightarrow> u8 list \<Rightarrow> uarts \<Rightarrow> uarts option" where
  "fifo_tx_loop io uart bs u =
     (case bs of
        [] \<Rightarrow> Some u
      | b # rest \<Rightarrow>
          let u = io u
          in if hal_uart_get_tx_fifo_len uart u \<noteq> of_nat UART_FIFO_SIZE
             then fifo_tx_loop io uart rest (hal_uart_tx uart b u)
             else fifo_tx_loop io uart bs u)"

definition hal_uart_fifo_tx :: "(uarts \<Rightarrow> uarts) \<Rightarrow> addr \<Rightarrow> u8 list \<Rightarrow> uarts \<Rightarrow> (nat \<times> uarts) option" where
  "hal_uart_fifo_tx io uart bs u = map_option (\<lambda>u. (length bs, u)) (fifo_tx_loop io uart bs u)"

text \<open>The loop empties the receive queue, whatever the size of the buffer; the result is the list of the
  bytes stored, and the 8-bit counter is their number modulo 256.\<close>

partial_function (option) fifo_rx_loop :: "(uarts \<Rightarrow> uarts) \<Rightarrow> addr \<Rightarrow> u8 list \<Rightarrow> uarts \<Rightarrow> (u8 list \<times> uarts) option" where
  "fifo_rx_loop io uart acc u =
     (let u = io u
      in if hal_uart_get_rx_fifo_len uart u \<noteq> 0
         then let (c, u) = hal_uart_rx uart u in fifo_rx_loop io uart (acc @ [c]) u
         else Some (acc, u))"

definition hal_uart_fifo_rx :: "(uarts \<Rightarrow> uarts) \<Rightarrow> addr \<Rightarrow> uarts \<Rightarrow> (u8 list \<times> u8 \<times> uarts) option" where
  "hal_uart_fifo_rx io uart u =
     map_option (\<lambda>(bs, u). (bs, of_nat (length bs), u)) (fifo_rx_loop io uart [] u)"

definition hal_uart_definit :: "u32 \<Rightarrow> addr \<Rightarrow> uarts \<Rightarrow> uarts option" where
  "hal_uart_definit fsys uart u =
     (case hal_uart_baudrate_set fsys uart 115200 (hal_uart_reset uart u) of
        None \<Rightarrow> None
      | Some u \<Rightarrow>
          let u = hal_uart_pairty_disable uart u;
              u = hal_uart_stop_bit_set uart UART_STOP_BITS_1 u;
              u = hal_uart_word_size_set uart UART_DATA_8_BITS u;
              u = hal_uart_fifo_cfg uart True u;
              u = hal_uart_rx_fifo_trig uart 2 u;
              u = hal_uart_tx_enable uart u
          in Some (hal_uart_frequency_div uart 1 u))"

end
