(* ===== verification/Irq.thy ===== *)
theory Irq
  imports Prelude
begin

text \<open>
  Interrupt masking and the interrupt controller: \<^verbatim>\<open>include/irq.h\<close>, \<^verbatim>\<open>include/arch/riscv/arch.h\<close>,
  \<^verbatim>\<open>include/arch/riscv/csr.h\<close>, \<^verbatim>\<open>soc/riscv/ch57x/soc_irq.c\<close> and \<^verbatim>\<open>hal/ch57x/inc/ch57x_hal_pfic.h\<close>.

  The control register instructions are functions on the value of the register that return the old and the new
  value.  The controller has set and clear registers: a one that is written to \<open>IENR\<close> (\<open>IRER\<close>) sets (clears) the
  enable bit that is read in \<open>ISR\<close>, and \<open>IPSR\<close> (\<open>IPRR\<close>) the pending bit that is read in \<open>IPR\<close>; zeros have no effect.
  An interrupt number of 256 or more indexes past the end of the register arrays: the result is \<open>None\<close>.
\<close>

section \<open>Control registers\<close>

definition csr_read_set :: "u32 \<Rightarrow> u32 \<Rightarrow> u32 \<times> u32" where
  "csr_read_set val csr = (csr, csr OR val)"

definition csr_set :: "u32 \<Rightarrow> u32 \<Rightarrow> u32" where
  "csr_set val csr = csr OR val"

definition csr_read_clear :: "u32 \<Rightarrow> u32 \<Rightarrow> u32 \<times> u32" where
  "csr_read_clear val csr = (csr, csr AND NOT val)"

definition csr_clear :: "u32 \<Rightarrow> u32 \<Rightarrow> u32" where
  "csr_clear val csr = csr AND NOT val"

definition INSERT_FIELD :: "u32 \<Rightarrow> u32 \<Rightarrow> u32 \<Rightarrow> u32" where
  "INSERT_FIELD val which fieldval = (val AND NOT which) OR (fieldval * (which AND NOT (which - 1)))"

section \<open>Global masking\<close>

definition MSTATUS_IEN :: u32 where "MSTATUS_IEN = push_bit 3 1"

definition arch_irq_lock :: "u32 \<Rightarrow> u32 \<times> u32" where
  "arch_irq_lock mstatus = csr_read_clear MSTATUS_IEN mstatus"

definition arch_irq_unlock :: "u32 \<Rightarrow> u32 \<Rightarrow> u32" where
  "arch_irq_unlock key mstatus = csr_set (key AND MSTATUS_IEN) mstatus"

definition arch_irq_unlocked :: "u32 \<Rightarrow> bool" where
  "arch_irq_unlocked key \<longleftrightarrow> key AND MSTATUS_IEN \<noteq> 0"

text \<open>
  Code that masks interrupts does so in brackets, \<open>key = irq_lock (); ... irq_unlock (key);\<close>, which may contain
  further brackets through the functions that are called.  \<open>run_crit\<close> runs such code and records for every piece of
  work whether interrupts were enabled while it ran.
\<close>

datatype 'a crit = Work 'a | Locked "'a crit list"

fun run_crit :: "'a crit \<Rightarrow> u32 \<Rightarrow> ('a \<times> bool) list \<times> u32" and
    run_crits :: "'a crit list \<Rightarrow> u32 \<Rightarrow> ('a \<times> bool) list \<times> u32" where
  "run_crit (Work a) mstatus = ([(a, arch_irq_unlocked mstatus)], mstatus)"
| "run_crit (Locked cs) mstatus =
     (let (key, mstatus) = arch_irq_lock mstatus;
          (log, mstatus) = run_crits cs mstatus
      in (log, arch_irq_unlock key mstatus))"
| "run_crits [] mstatus = ([], mstatus)"
| "run_crits (c # cs) mstatus =
     (let (log, mstatus) = run_crit c mstatus;
          (logs, mstatus) = run_crits cs mstatus
      in (log @ logs, mstatus))"

section \<open>The controller\<close>

record PFIC_Type =
  ISR :: "nat \<Rightarrow> u32"
  IPR :: "nat \<Rightarrow> u32"
  ITHRESDR :: u32
  FIBADDRR :: u32
  CFGR :: u32
  FIOFADDRR :: "nat \<Rightarrow> u32"
  IACTR :: "nat \<Rightarrow> u32"
  IPRIOR :: "nat \<Rightarrow> u8"

definition PFIC_KEY1 :: u32 where "PFIC_KEY1 = 0xFA050000"
definition PFIC_KEY3 :: u32 where "PFIC_KEY3 = 0xBEEF0000"

definition write_IENR :: "nat \<Rightarrow> u32 \<Rightarrow> PFIC_Type \<Rightarrow> PFIC_Type" where
  "write_IENR i v p = p\<lparr>ISR := (ISR p)(i := ISR p i OR v)\<rparr>"

definition write_IRER :: "nat \<Rightarrow> u32 \<Rightarrow> PFIC_Type \<Rightarrow> PFIC_Type" where
  "write_IRER i v p = p\<lparr>ISR := (ISR p)(i := ISR p i AND NOT v)\<rparr>"

definition write_IPSR :: "nat \<Rightarrow> u32 \<Rightarrow> PFIC_Type \<Rightarrow> PFIC_Type" where
  "write_IPSR i v p = p\<lparr>IPR := (IPR p)(i := IPR p i OR v)\<rparr>"

definition write_IPRR :: "nat \<Rightarrow> u32 \<Rightarrow> PFIC_Type \<Rightarrow> PFIC_Type" where
  "write_IPRR i v p = p\<lparr>IPR := (IPR p)(i := IPR p i AND NOT v)\<rparr>"

text \<open>Word and bit of an interrupt number in the register arrays.\<close>

definition irq_word :: "u32 \<Rightarrow> nat" where
  "irq_word irq = unat (drop_bit 5 irq)"

definition irq_mask :: "u32 \<Rightarrow> u32" where
  "irq_mask irq = push_bit (unat (irq AND 0x1F)) 1"

definition in_array :: "u32 \<Rightarrow> 'a \<Rightarrow> 'a option" where
  "in_array irq x = (if irq < 256 then Some x else None)"

definition PFIC_EnableIRQ :: "u32 \<Rightarrow> PFIC_Type \<Rightarrow> PFIC_Type option" where
  "PFIC_EnableIRQ irq p = in_array irq (write_IENR (irq_word irq) (irq_mask irq) p)"

definition PFIC_DisableIRQ :: "u32 \<Rightarrow> PFIC_Type \<Rightarrow> PFIC_Type option" where
  "PFIC_DisableIRQ irq p =
     (let tem = ITHRESDR p;
          p = p\<lparr>ITHRESDR := 0x10\<rparr>;
          p = write_IRER (irq_word irq) (irq_mask irq) p
      in in_array irq (p\<lparr>ITHRESDR := tem\<rparr>))"

definition PFIC_GetStatusIRQ :: "u32 \<Rightarrow> PFIC_Type \<Rightarrow> u32 option" where
  "PFIC_GetStatusIRQ irq p = in_array irq (if ISR p (irq_word irq) AND irq_mask irq \<noteq> 0 then 1 else 0)"

definition PFIC_GetPendingIRQ :: "u32 \<Rightarrow> PFIC_Type \<Rightarrow> u32 option" where
  "PFIC_GetPendingIRQ irq p = in_array irq (if IPR p (irq_word irq) AND irq_mask irq \<noteq> 0 then 1 else 0)"

definition PFIC_SetPendingIRQ :: "u32 \<Rightarrow> PFIC_Type \<Rightarrow> PFIC_Type option" where
  "PFIC_SetPendingIRQ irq p = in_array irq (write_IPSR (irq_word irq) (irq_mask irq) p)"

definition PFIC_ClearPendingIRQ :: "u32 \<Rightarrow> PFIC_Type \<Rightarrow> PFIC_Type option" where
  "PFIC_ClearPendingIRQ irq p = in_array irq (write_IPRR (irq_word irq) (irq_mask irq) p)"

definition PFIC_GetActive :: "u32 \<Rightarrow> PFIC_Type \<Rightarrow> u32 option" where
  "PFIC_GetActive irq p = in_array irq (if IACTR p (irq_word irq) AND irq_mask irq \<noteq> 0 then 1 else 0)"

definition PFIC_SetPriority :: "u32 \<Rightarrow> u8 \<Rightarrow> PFIC_Type \<Rightarrow> PFIC_Type option" where
  "PFIC_SetPriority irq priority p = in_array irq (p\<lparr>IPRIOR := (IPRIOR p)(unat irq := priority)\<rparr>)"

definition PFIC_FastINT0CFG :: "u32 \<Rightarrow> u32 \<Rightarrow> PFIC_Type \<Rightarrow> PFIC_Type" where
  "PFIC_FastINT0CFG irq a p =
     p\<lparr>FIBADDRR := a AND 0xF0000000, FIOFADDRR := (FIOFADDRR p)(0 := push_bit 24 irq OR (a AND 0x000FFFFF))\<rparr>"

definition PFIC_FastINT1CFG :: "u32 \<Rightarrow> u32 \<Rightarrow> PFIC_Type \<Rightarrow> PFIC_Type" where
  "PFIC_FastINT1CFG irq a p =
     p\<lparr>FIBADDRR := a AND 0xF0000000, FIOFADDRR := (FIOFADDRR p)(1 := push_bit 24 irq OR (a AND 0x000FFFFF))\<rparr>"

definition PFIC_FastINT2CFG :: "u32 \<Rightarrow> u32 \<Rightarrow> PFIC_Type \<Rightarrow> PFIC_Type" where
  "PFIC_FastINT2CFG irq a p =
     p\<lparr>FIBADDRR := a AND 0xF0000000, FIOFADDRR := (FIOFADDRR p)(2 := push_bit 24 irq OR (a AND 0x000FFFFF))\<rparr>"

definition PFIC_FastINT3CFG :: "u32 \<Rightarrow> u32 \<Rightarrow> PFIC_Type \<Rightarrow> PFIC_Type" where
  "PFIC_FastINT3CFG irq a p =
     p\<lparr>FIBADDRR := a AND 0xF0000000, FIOFADDRR := (FIOFADDRR p)(3 := push_bit 24 irq OR (a AND 0x000FFFFF))\<rparr>"

definition PFIC_SetFastIRQ :: "u32 \<Rightarrow> u32 \<Rightarrow> u8 \<Rightarrow> PFIC_Type \<Rightarrow> PFIC_Type" where
  "PFIC_SetFastIRQ a irq num p =
     (if 3 < num then p
      else p\<lparr>FIBADDRR := a, FIOFADDRR := (FIOFADDRR p)(unat num := push_bit 24 irq OR (a AND 0xfffff))\<rparr>)"

definition PFIC_SystemReset :: "PFIC_Type \<Rightarrow> PFIC_Type" where
  "PFIC_SystemReset p = p\<lparr>CFGR := PFIC_KEY3 OR push_bit 7 1\<rparr>"

definition PFIC_HaltPushCfg :: "bool \<Rightarrow> PFIC_Type \<Rightarrow> PFIC_Type" where
  "PFIC_HaltPushCfg NewState p =
     (if NewState then p\<lparr>CFGR := PFIC_KEY1\<rparr> else p\<lparr>CFGR := PFIC_KEY1 OR push_bit 0 1\<rparr>)"

definition PFIC_INTNestCfg :: "bool \<Rightarrow> PFIC_Type \<Rightarrow> PFIC_Type" where
  "PFIC_INTNestCfg NewState p =
     (if NewState then p\<lparr>CFGR := PFIC_KEY1\<rparr> else p\<lparr>CFGR := PFIC_KEY1 OR push_bit 1 1\<rparr>)"

definition arch_irq_enable :: "u32 \<Rightarrow> PFIC_Type \<Rightarrow> PFIC_Type option" where
  "arch_irq_enable irq p = PFIC_EnableIRQ irq p"

definition arch_irq_disable :: "u32 \<Rightarrow> PFIC_Type \<Rightarrow> PFIC_Type option" where
  "arch_irq_disable irq p = PFIC_DisableIRQ irq p"

definition arch_irq_priority_set :: "u32 \<Rightarrow> u32 \<Rightarrow> PFIC_Type \<Rightarrow> PFIC_Type option" where
  "arch_irq_priority_set irq prio p = PFIC_SetPriority irq (ucast prio) p"

definition arch_irq_is_enabled :: "u32 \<Rightarrow> PFIC_Type \<Rightarrow> u32 option" where
  "arch_irq_is_enabled irq p = PFIC_GetStatusIRQ irq p"

section \<open>Lines as sets\<close>

text \<open>A sequence of switches, with the two operations as arguments: \<open>True\<close> raises a line, \<open>False\<close> drops it.\<close>

primrec switch_all ::
  "(u32 \<Rightarrow> 's \<Rightarrow> 's option) \<Rightarrow> (u32 \<Rightarrow> 's \<Rightarrow> 's option) \<Rightarrow> (bool \<times> u32) list \<Rightarrow> 's \<Rightarrow> 's option" where
  "switch_all up down [] s = Some s"
| "switch_all up down (x # xs) s =
     Option.bind (if fst x then up (snd x) s else down (snd x) s) (switch_all up down xs)"

definition switch_set :: "bool \<times> u32 \<Rightarrow> u32 set \<Rightarrow> u32 set" where
  "switch_set x L = (if fst x then insert (snd x) L else L - {snd x})"

text \<open>
  What a pair of set and clear registers promises: the lines that read as one form a set of numbers below 256, to
  which the one adds its argument and from which the other removes it.
\<close>

locale line_switch =
  fixes lines :: "'s \<Rightarrow> u32 set"
    and raise_line :: "u32 \<Rightarrow> 's \<Rightarrow> 's option"
    and drop_line :: "u32 \<Rightarrow> 's \<Rightarrow> 's option"
    and read_line :: "u32 \<Rightarrow> 's \<Rightarrow> u32 option"
  assumes raise_law: "irq < 256 \<Longrightarrow> \<exists>t. raise_line irq s = Some t \<and> lines t = insert irq (lines s)"
    and drop_law: "irq < 256 \<Longrightarrow> \<exists>t. drop_line irq s = Some t \<and> lines t = lines s - {irq}"
    and read_law: "irq < 256 \<Longrightarrow> read_line irq s = Some (of_bool (irq \<in> lines s))"
begin

lemma switch_all_lines:
  "\<forall>x\<in>set xs. snd x < 256 \<Longrightarrow>
   \<exists>t. switch_all raise_line drop_line xs s = Some t \<and> lines t = fold switch_set xs (lines s)"
proof (induction xs arbitrary: s)
  case Nil
  then show ?case by simp
next
  case (Cons x xs)
  have "\<exists>t. (if fst x then raise_line (snd x) s else drop_line (snd x) s) = Some t \<and>
          lines t = switch_set x (lines s)"
    using raise_law [of "snd x" s] drop_law [of "snd x" s] Cons.prems by (simp add: switch_set_def)
  then obtain t where t: "(if fst x then raise_line (snd x) s else drop_line (snd x) s) = Some t"
    "lines t = switch_set x (lines s)" by blast
  from Cons.IH [of t] Cons.prems t(2) show ?case by (simp only: switch_all.simps t(1)) simp
qed

end

section \<open>Lemmas\<close>

definition reg_lines :: "(nat \<Rightarrow> u32) \<Rightarrow> u32 set" where
  "reg_lines r = {irq. irq < 256 \<and> bit (r (irq_word irq)) (unat (irq AND 0x1F))}"

lemma unat_low5: "unat (irq AND 0x1F :: u32) = unat irq mod 32"
proof -
  have "(0x1F :: u32) = mask 5" by (simp add: mask_eq_exp_minus_1)
  then have "irq AND 0x1F = take_bit 5 irq" by (simp only: take_bit_eq_mask)
  then show ?thesis by (simp add: take_bit_eq_mod unat_mod_distrib)
qed

lemma irq_word_div: "irq_word irq = unat irq div 32"
  by (simp add: irq_word_def drop_bit_eq_div unat_div_distrib)

lemma irq_position: "irq_word i = irq_word j \<Longrightarrow> unat (i AND 0x1F) = unat (j AND 0x1F) \<Longrightarrow> i = j"
  by (metis irq_word_div unat_low5 div_mult_mod_eq word_unat_eq_iff)

lemma bit_irq_mask: "bit (irq_mask irq) n \<longleftrightarrow> n = unat (irq AND 0x1F)"
proof -
  have "unat (irq AND 0x1F) < 32" by (simp add: unat_low5)
  then show ?thesis by (auto simp: irq_mask_def bit_simps)
qed

lemma and_irq_mask: "r AND irq_mask irq \<noteq> 0 \<longleftrightarrow> bit r (unat (irq AND 0x1F))"
proof
  assume "r AND irq_mask irq \<noteq> 0"
  then obtain n where "bit (r AND irq_mask irq) n" using bit_eq_iff [of "r AND irq_mask irq" 0] by auto
  then show "bit r (unat (irq AND 0x1F))" by (auto simp: bit_simps bit_irq_mask)
next
  assume "bit r (unat (irq AND 0x1F))"
  then have "bit (r AND irq_mask irq) (unat (irq AND 0x1F))" by (simp add: bit_simps bit_irq_mask)
  then show "r AND irq_mask irq \<noteq> 0" by auto
qed

lemma reg_lines_set:
  "irq < 256 \<Longrightarrow> reg_lines (r(irq_word irq := r (irq_word irq) OR irq_mask irq)) = insert irq (reg_lines r)"
  by (auto simp: reg_lines_def bit_simps bit_irq_mask dest: irq_position)

lemma reg_lines_clear:
  "reg_lines (r(irq_word irq := r (irq_word irq) AND NOT (irq_mask irq))) = reg_lines r - {irq}"
proof -
  have "unat (i AND 0x1F) < 32" for i :: u32 by (simp add: unat_low5)
  then show ?thesis by (auto simp: reg_lines_def bit_simps bit_irq_mask dest: irq_position)
qed

lemmas pfic_line_defs = in_array_def reg_lines_set reg_lines_clear and_irq_mask

interpretation enable: line_switch "\<lambda>p. reg_lines (ISR p)" arch_irq_enable arch_irq_disable arch_irq_is_enabled
  by unfold_locales
    (simp_all add: arch_irq_enable_def arch_irq_disable_def arch_irq_is_enabled_def PFIC_EnableIRQ_def
      PFIC_DisableIRQ_def PFIC_GetStatusIRQ_def write_IENR_def write_IRER_def Let_def pfic_line_defs,
      simp add: reg_lines_def)

interpretation pending: line_switch "\<lambda>p. reg_lines (IPR p)" PFIC_SetPendingIRQ PFIC_ClearPendingIRQ PFIC_GetPendingIRQ
  by unfold_locales
    (simp_all add: PFIC_SetPendingIRQ_def PFIC_ClearPendingIRQ_def PFIC_GetPendingIRQ_def write_IPSR_def
      write_IPRR_def pfic_line_defs, simp add: reg_lines_def)

lemma ien_bit: "bit MSTATUS_IEN n \<longleftrightarrow> n = 3"
  unfolding MSTATUS_IEN_def by (simp only: bit_push_bit_iff bit_1_iff) auto

lemma unlocked_bit: "arch_irq_unlocked m \<longleftrightarrow> bit m 3"
proof -
  have "m AND MSTATUS_IEN = (if bit m 3 then MSTATUS_IEN else 0)"
    by (rule bit_word_eqI) (auto simp: bit_simps ien_bit)
  moreover have "MSTATUS_IEN \<noteq> 0" by (simp add: MSTATUS_IEN_def)
  ultimately show ?thesis by (simp add: arch_irq_unlocked_def)
qed

lemma lock_unlock: "arch_irq_unlock m (snd (arch_irq_lock m)) = m"
  by (rule bit_word_eqI)
    (auto simp: arch_irq_lock_def arch_irq_unlock_def csr_read_clear_def csr_set_def bit_simps ien_bit)

lemma locked: "\<not> arch_irq_unlocked (snd (arch_irq_lock m))"
  by (simp add: unlocked_bit arch_irq_lock_def csr_read_clear_def bit_simps ien_bit)

lemma lock_key: "fst (arch_irq_lock m) = m"
  by (simp add: arch_irq_lock_def csr_read_clear_def)

text \<open>What the brackets should achieve: work inside some bracket runs with interrupts disabled, other work as before.\<close>

fun crit_log :: "bool \<Rightarrow> 'a crit \<Rightarrow> ('a \<times> bool) list" where
  "crit_log en (Work a) = [(a, en)]"
| "crit_log en (Locked cs) = concat (map (crit_log False) cs)"

section \<open>Properties\<close>

text \<open>C25: masking nests.  Code whose masked parts are bracketed by \<open>irq_lock\<close> and \<open>irq_unlock\<close> runs everything inside a
  bracket with interrupts disabled and leaves the status register as it was, whatever the nesting and whether or not
  interrupts were enabled before.\<close>

theorem irq_lock_nests:
  "run_crits cs mstatus = (concat (map (crit_log (arch_irq_unlocked mstatus)) cs), mstatus)"
proof -
  have "run_crit c m = (crit_log (arch_irq_unlocked m) c, m)" and
    "run_crits cs m = (concat (map (crit_log (arch_irq_unlocked m)) cs), m)" for c :: "'a crit" and m
  proof (induction c m and cs m rule: run_crit_run_crits.induct)
    case (2 cs m)
    have "run_crits cs (snd (arch_irq_lock m)) =
        (concat (map (crit_log False) cs), snd (arch_irq_lock m))"
      using 2 [of "arch_irq_lock m" "fst (arch_irq_lock m)" "snd (arch_irq_lock m)"] by (simp add: locked)
    then show ?case by (simp add: split_beta lock_key lock_unlock)
  qed simp_all
  then show ?thesis by blast
qed

text \<open>The controller refines a set of enabled lines.  After any sequence of enables and disables of interrupts below
  256 exactly those are enabled whose last call was an enable, or that were enabled before and not named; the query
  returns membership.\<close>

theorem irq_lines_switch:
  assumes "\<forall>x\<in>set xs. snd x < 256"
  shows "\<exists>t. switch_all arch_irq_enable arch_irq_disable xs p = Some t \<and>
    reg_lines (ISR t) = fold switch_set xs (reg_lines (ISR p)) \<and>
    (\<forall>irq < 256. arch_irq_is_enabled irq t = Some (of_bool (irq \<in> reg_lines (ISR t))))"
  using enable.switch_all_lines [OF assms] enable.read_law by blast

text \<open>Fast interrupts share the base register: the address that the controller forms from base and offset is the one
  given exactly when its bits 20 to 27 are zero, and configuring another fast interrupt moves the base of all.\<close>

lemma fast_interrupt_address:
  "FIBADDRR (PFIC_FastINT0CFG irq a p) OR (FIOFADDRR (PFIC_FastINT0CFG irq a p) 0 AND 0xFFFFFF) = a \<longleftrightarrow>
     a AND 0x0FF00000 = 0"
proof -
  define base :: u32 where "base = 0xF0000000"
  define off :: u32 where "off = 0x000FFFFF"
  define low :: u32 where "low = 0xFFFFFF"
  define mid :: u32 where "mid = 0x0FF00000"
  have fields: "bit low n \<longleftrightarrow> n < 24" "bit off n \<longleftrightarrow> n < 20"
    "bit base n \<longleftrightarrow> 28 \<le> n \<and> n < 32" "bit mid n \<longleftrightarrow> 20 \<le> n \<and> n < 28" for n
    using bit_field [of low 0 24 n] bit_field [of off 0 20 n] bit_field [of base 28 4 n] bit_field [of mid 20 8 n]
    by (simp_all add: mask_eq_exp_minus_1 base_def off_def low_def mid_def) linarith+
  have "(a AND base) OR ((push_bit 24 irq OR (a AND off)) AND low) = a AND NOT mid"
    by (rule bit_word_eqI) (auto simp: bit_simps fields)
  moreover have "a AND NOT mid = a \<longleftrightarrow> a AND mid = 0"
    by (auto simp: bit_eq_iff bit_simps fields)
  ultimately show ?thesis by (simp add: PFIC_FastINT0CFG_def base_def off_def low_def mid_def)
qed

text \<open>Hardware stack and nesting are configured by writes to the same register: each call overwrites the setting of the
  other one with its enabled state.\<close>

lemma pfic_cfg_overwrites:
  "\<not> bit (CFGR (PFIC_INTNestCfg b (PFIC_HaltPushCfg False p))) 0"
  "\<not> bit (CFGR (PFIC_HaltPushCfg b (PFIC_INTNestCfg False p))) 1"
  by (cases b; simp add: PFIC_INTNestCfg_def PFIC_HaltPushCfg_def PFIC_KEY1_def)+

text \<open>The witness starts with every line off, enables the lines of the RTC and the ADC and disables the latter.\<close>

definition pfic_off :: PFIC_Type where
  "pfic_off = \<lparr>ISR = (\<lambda>_. 0), IPR = (\<lambda>_. 0), ITHRESDR = 0, FIBADDRR = 0, CFGR = 0, FIOFADDRR = (\<lambda>_. 0),
     IACTR = (\<lambda>_. 0), IPRIOR = (\<lambda>_. 0)\<rparr>"

lemma irq_lines_switch_witness:
  "\<exists>t. switch_all arch_irq_enable arch_irq_disable [(True, 28), (True, 29), (False, 29)] pfic_off = Some t \<and>
     reg_lines (ISR t) = {28} \<and> arch_irq_is_enabled 28 t = Some 1 \<and> arch_irq_is_enabled 29 t = Some 0"
proof -
  have "fold switch_set [(True, 28), (True, 29), (False, 29)] (reg_lines (ISR pfic_off)) = {28}"
    by (auto simp: switch_set_def reg_lines_def pfic_off_def)
  then show ?thesis
    using irq_lines_switch [of "[(True, 28), (True, 29), (False, 29)]" pfic_off] by auto
qed

end
