(* ===== verification/Gpio.thy ===== *)
theory Gpio
  imports Soc Sys_Slist Irq
begin

text \<open>
  General purpose I/O: \<^verbatim>\<open>hal/ch57x/ch57x_hal_gpio.c\<close> with the inline functions of its header,
  \<^verbatim>\<open>drivers/pinctrl/pinctrl.c\<close>, \<^verbatim>\<open>drivers/gpio/gpio.c\<close> with \<^verbatim>\<open>gpio_utils.h\<close>, and the inline interface of
  \<^verbatim>\<open>include/drivers/gpio.h\<close>.

  The store maps the base address of a port to its registers.  Writing a one to \<open>CLR\<close> clears the bit of
  \<open>OUT\<close> and \<open>CLR\<close> reads as 0; writing a one to an interrupt flag clears it (both as documented in
  \<^verbatim>\<open>CH573SFR.h\<close>).  \<open>PIN\<close> holds the levels at the pins, which the code only reads.
\<close>

section \<open>Registers\<close>

record gpio_port =
  DIR :: u32
  PIN :: u32
  OUT :: u32
  PU :: u32
  PD_DRV :: u32
  INT_EN :: u16
  INT_MODE :: u16
  INT_IF :: u16

record gpio_hw =
  gports :: "addr \<Rightarrow> gpio_port"
  R16_PIN_ALTERNATE :: u16
  R16_PIN_ANALOG_IE :: u16

definition GPIO_A :: addr where "GPIO_A = 0x400010A0"
definition GPIO_B :: addr where "GPIO_B = 0x400010C0"

definition pin_bit :: "nat \<Rightarrow> u32" where "pin_bit n = push_bit n 1"

definition GPIO_Pin_22 :: u32 where "GPIO_Pin_22 = 0x00400000"
definition GPIO_Pin_23 :: u32 where "GPIO_Pin_23 = 0x00800000"

definition port_upd :: "addr \<Rightarrow> (gpio_port \<Rightarrow> gpio_port) \<Rightarrow> gpio_hw \<Rightarrow> gpio_hw" where
  "port_upd port f g = g\<lparr>gports := (gports g)(port := f (gports g port))\<rparr>"

definition write_CLR :: "u32 \<Rightarrow> gpio_port \<Rightarrow> gpio_port" where
  "write_CLR v p = p\<lparr>OUT := OUT p AND NOT v\<rparr>"

definition write_INT_IF :: "u16 \<Rightarrow> gpio_port \<Rightarrow> gpio_port" where
  "write_INT_IF v p = p\<lparr>INT_IF := INT_IF p AND NOT v\<rparr>"

section \<open>The hardware layer\<close>

datatype gpio_mode = GPIO_MODE_IN_FLOATING | GPIO_MODE_IN_PU | GPIO_MODE_IN_PD
  | GPIO_MODE_OUT_PP_5MA | GPIO_MODE_OUT_PP_20MA | GPIO_MODE_ANALOG

datatype gpio_it_mode = GPIO_IT_MODE_LOWLEVEL | GPIO_IT_MODE_HIGHLEVEL
  | GPIO_IT_MODE_FALLEDGE | GPIO_IT_MODE_RISEEDGE

definition hal_gpio_mode_config :: "addr \<Rightarrow> u32 \<Rightarrow> gpio_mode \<Rightarrow> gpio_hw \<Rightarrow> gpio_hw" where
  "hal_gpio_mode_config port pins md = port_upd port (\<lambda>p.
     case md of
       GPIO_MODE_IN_FLOATING \<Rightarrow>
         p\<lparr>PD_DRV := PD_DRV p AND NOT pins, PU := PU p AND NOT pins, DIR := DIR p AND NOT pins\<rparr>
     | GPIO_MODE_IN_PU \<Rightarrow>
         p\<lparr>PD_DRV := PD_DRV p AND NOT pins, PU := PU p OR pins, DIR := DIR p AND NOT pins\<rparr>
     | GPIO_MODE_IN_PD \<Rightarrow>
         p\<lparr>PD_DRV := PD_DRV p OR pins, PU := PU p AND NOT pins, DIR := DIR p AND NOT pins\<rparr>
     | GPIO_MODE_OUT_PP_5MA \<Rightarrow> p\<lparr>PD_DRV := PD_DRV p AND NOT pins, DIR := DIR p OR pins\<rparr>
     | GPIO_MODE_OUT_PP_20MA \<Rightarrow> p\<lparr>PD_DRV := PD_DRV p OR pins, DIR := DIR p OR pins\<rparr>
     | GPIO_MODE_ANALOG \<Rightarrow> p)"

definition hal_gpio_alernate_enable :: "u16 \<Rightarrow> gpio_hw \<Rightarrow> gpio_hw" where
  "hal_gpio_alernate_enable perph g = g\<lparr>R16_PIN_ALTERNATE := R16_PIN_ALTERNATE g OR perph\<rparr>"

definition hal_gpio_alernate_disable :: "u16 \<Rightarrow> gpio_hw \<Rightarrow> gpio_hw" where
  "hal_gpio_alernate_disable perph g = g\<lparr>R16_PIN_ALTERNATE := R16_PIN_ALTERNATE g AND NOT perph\<rparr>"

definition hal_gpio_analog_enable :: "u16 \<Rightarrow> gpio_hw \<Rightarrow> gpio_hw" where
  "hal_gpio_analog_enable perph g = g\<lparr>R16_PIN_ANALOG_IE := R16_PIN_ANALOG_IE g OR perph\<rparr>"

definition hal_gpio_analog_disable :: "u16 \<Rightarrow> gpio_hw \<Rightarrow> gpio_hw" where
  "hal_gpio_analog_disable perph g = g\<lparr>R16_PIN_ANALOG_IE := R16_PIN_ANALOG_IE g AND NOT perph\<rparr>"

text \<open>\<open>CLR |= pins\<close> reads 0 and writes \<open>pins\<close>.\<close>

definition hal_gpio_pins_reset :: "addr \<Rightarrow> u32 \<Rightarrow> gpio_hw \<Rightarrow> gpio_hw" where
  "hal_gpio_pins_reset port pins = port_upd port (write_CLR pins)"

definition hal_gpio_pins_set :: "addr \<Rightarrow> u32 \<Rightarrow> gpio_hw \<Rightarrow> gpio_hw" where
  "hal_gpio_pins_set port pins = port_upd port (\<lambda>p. p\<lparr>OUT := OUT p OR pins\<rparr>)"

definition hal_gpio_pins_invert :: "addr \<Rightarrow> u32 \<Rightarrow> gpio_hw \<Rightarrow> gpio_hw" where
  "hal_gpio_pins_invert port pins = port_upd port (\<lambda>p. p\<lparr>OUT := OUT p XOR pins\<rparr>)"

definition hal_gpio_port_get :: "addr \<Rightarrow> gpio_hw \<Rightarrow> u32" where
  "hal_gpio_port_get port g = PIN (gports g port)"

definition hal_gpio_pins_get :: "addr \<Rightarrow> u32 \<Rightarrow> gpio_hw \<Rightarrow> u32" where
  "hal_gpio_pins_get port pins g = PIN (gports g port) AND pins"

text \<open>Interrupt bits of port B: pins 22 and 23 share the bits 8 and 9.\<close>

definition pins_b :: "u32 \<Rightarrow> u32" where
  "pins_b pins = pins OR drop_bit 14 (pins AND (GPIO_Pin_22 OR GPIO_Pin_23))"

definition hal_gpio_int_pins_enable :: "addr \<Rightarrow> u32 \<Rightarrow> gpio_hw \<Rightarrow> gpio_hw" where
  "hal_gpio_int_pins_enable port pins =
     (if port = GPIO_A then port_upd GPIO_A (\<lambda>p. p\<lparr>INT_EN := INT_EN p OR ucast (pins AND WCH_MASK 16)\<rparr>)
      else if port = GPIO_B then port_upd GPIO_B (\<lambda>p. p\<lparr>INT_EN := INT_EN p OR ucast (pins_b pins AND WCH_MASK 16)\<rparr>)
      else id)"

definition hal_gpio_int_pins_disable :: "addr \<Rightarrow> u32 \<Rightarrow> gpio_hw \<Rightarrow> gpio_hw" where
  "hal_gpio_int_pins_disable port pins =
     (if port = GPIO_A then port_upd GPIO_A (\<lambda>p. p\<lparr>INT_EN := INT_EN p AND ucast (NOT pins)\<rparr>)
      else if port = GPIO_B then port_upd GPIO_B (\<lambda>p. p\<lparr>INT_EN := INT_EN p AND ucast (NOT (pins_b pins))\<rparr>)
      else id)"

definition hal_gpio_int_flag_port_get :: "addr \<Rightarrow> gpio_hw \<Rightarrow> u32" where
  "hal_gpio_int_flag_port_get port g =
     (if port = GPIO_A then ucast (INT_IF (gports g GPIO_A))
      else if port = GPIO_B then
        (ucast (INT_IF (gports g GPIO_B)) AND NOT (drop_bit 14 (GPIO_Pin_22 OR GPIO_Pin_23))) OR
        (push_bit 14 (ucast (INT_IF (gports g GPIO_B))) AND (GPIO_Pin_22 OR GPIO_Pin_23))
      else 0)"

definition hal_gpio_int_flag_pins_get :: "addr \<Rightarrow> u32 \<Rightarrow> gpio_hw \<Rightarrow> u32" where
  "hal_gpio_int_flag_pins_get port pins g =
     (if port = GPIO_A then ucast (INT_IF (gports g GPIO_A)) AND pins
      else if port = GPIO_B then ucast (INT_IF (gports g GPIO_B)) AND pins_b pins
      else 0)"

definition hal_gpio_int_flag_pins_clear :: "addr \<Rightarrow> u32 \<Rightarrow> gpio_hw \<Rightarrow> gpio_hw" where
  "hal_gpio_int_flag_pins_clear port pins =
     (if port = GPIO_A then port_upd GPIO_A (write_INT_IF (ucast (pins AND WCH_MASK 16)))
      else if port = GPIO_B then port_upd GPIO_B (write_INT_IF (ucast (pins_b pins AND WCH_MASK 16)))
      else id)"

text \<open>The two branches of \<open>hal_gpio_int_mode_config\<close> differ in the interrupt bits of the pins.\<close>

definition int_mode_port :: "u32 \<Rightarrow> u32 \<Rightarrow> gpio_it_mode \<Rightarrow> gpio_port \<Rightarrow> gpio_port" where
  "int_mode_port bits pins md p =
     (let p = (case md of
          GPIO_IT_MODE_LOWLEVEL \<Rightarrow> write_CLR pins (p\<lparr>INT_MODE := INT_MODE p AND ucast (NOT bits)\<rparr>)
        | GPIO_IT_MODE_HIGHLEVEL \<Rightarrow> p\<lparr>INT_MODE := INT_MODE p AND ucast (NOT bits), OUT := OUT p OR pins\<rparr>
        | GPIO_IT_MODE_FALLEDGE \<Rightarrow> write_CLR pins (p\<lparr>INT_MODE := INT_MODE p OR ucast bits\<rparr>)
        | GPIO_IT_MODE_RISEEDGE \<Rightarrow> p\<lparr>INT_MODE := INT_MODE p OR ucast bits, OUT := OUT p OR pins\<rparr>);
          p = write_INT_IF (ucast bits) p
      in p\<lparr>INT_EN := INT_EN p OR ucast bits\<rparr>)"

definition hal_gpio_int_mode_config :: "addr \<Rightarrow> u32 \<Rightarrow> gpio_it_mode \<Rightarrow> gpio_hw \<Rightarrow> gpio_hw" where
  "hal_gpio_int_mode_config port pins md =
     (if port = GPIO_A then port_upd GPIO_A (int_mode_port pins pins md)
      else if port = GPIO_B then port_upd GPIO_B (int_mode_port (pins_b pins) pins md)
      else id)"

section \<open>Pin control\<close>

definition WCH_PIN_MSK :: u32 where "WCH_PIN_MSK = 0x1F"
definition WCH_PORT_MSK :: u32 where "WCH_PORT_MSK = push_bit 5 0xF"
definition WCH_MODE_MSK :: u32 where "WCH_MODE_MSK = push_bit 9 3"
definition WCH_PUPD_MSK :: u32 where "WCH_PUPD_MSK = push_bit 11 3"
definition WCH_OUT_DATA_MSK :: u32 where "WCH_OUT_DATA_MSK = push_bit 13 1"
definition WCH_ALT_MSK :: u32 where "WCH_ALT_MSK = push_bit 14 1"
definition WCH_FUN_MSK :: u32 where "WCH_FUN_MSK = push_bit 16 0xFFFF"
definition WCH_MODE_IN :: u32 where "WCH_MODE_IN = 0"
definition WCH_MODE_OUT :: u32 where "WCH_MODE_OUT = push_bit 9 1"
definition WCH_MODE_ANALOG :: u32 where "WCH_MODE_ANALOG = push_bit 9 2"

definition WCH_FUN :: "u32 \<Rightarrow> u32" where "WCH_FUN n = push_bit 16 n"

text \<open>The peripheral bit for an alternate or an analog function, if there is one.\<close>

definition alt_perph :: "u32 \<Rightarrow> u16 option" where
  "alt_perph f =
     (if f = WCH_FUN 10 then Some 0x01
      else if f = WCH_FUN 11 then Some 0x02
      else if f = WCH_FUN 12 then Some 0x04
      else if f = WCH_FUN 13 then Some 0x10
      else if f = WCH_FUN 14 then Some 0x20
      else if f = WCH_FUN 15 then Some 0x100
      else None)"

definition analog_perph :: "u32 \<Rightarrow> u16 option" where
  "analog_perph f =
     (if f = WCH_FUN 0 then Some 0x40
      else if f = WCH_FUN 1 then Some 0x80
      else if f = WCH_FUN 2 then Some 0x0100
      else if f = WCH_FUN 3 then Some 0x0200
      else if f = WCH_FUN 4 then Some 0x0400
      else if f = WCH_FUN 5 then Some 0x0800
      else if f = WCH_FUN 6 then Some 0x1000
      else if f = WCH_FUN 7 then Some 0x2000
      else if f = WCH_FUN 8 then Some 0x4000
      else if f = WCH_FUN 9 then Some 0x8000
      else None)"

text \<open>
  One round of the loop of \<open>pinctrl_configure_pins\<close>: the state, and the error with which the function
  returns, if it does.  The index into \<open>wch_port\<close> has four bits and the array two elements; \<open>None\<close> as the
  whole result is an access outside it.  The analog case has no \<open>break\<close> and runs into the default.
\<close>

definition pinctrl_pin :: "u32 \<Rightarrow> gpio_hw \<Rightarrow> (gpio_hw \<times> int option) option" where
  "pinctrl_pin pinmux g =
     (let ix = unat (drop_bit 5 (pinmux AND WCH_PORT_MSK))
      in if 2 \<le> ix then None
         else
           let port = (if ix = 0 then GPIO_A else GPIO_B);
               pin = pin_bit (unat (pinmux AND WCH_PIN_MSK));
               m = pinmux AND WCH_MODE_MSK
           in Some (case (if pinmux AND WCH_ALT_MSK \<noteq> 0
                          then map_option (\<lambda>b. hal_gpio_alernate_enable b g) (alt_perph (pinmux AND WCH_FUN_MSK))
                          else Some g) of
                None \<Rightarrow> (g, Some (- ENOTSUP))
              | Some g \<Rightarrow>
                  if m = WCH_MODE_IN then
                    if pinmux AND WCH_PUPD_MSK = 0 then
                      (hal_gpio_mode_config port pin GPIO_MODE_IN_FLOATING g, None)
                    else if pinmux AND WCH_PUPD_MSK = push_bit 11 1 then
                      (hal_gpio_mode_config port pin GPIO_MODE_IN_PU g, None)
                    else if pinmux AND WCH_PUPD_MSK = push_bit 11 2 then
                      (hal_gpio_mode_config port pin GPIO_MODE_IN_PD g, None)
                    else (g, Some (- ENOTSUP))
                  else if m = WCH_MODE_OUT then
                    let g = (if pinmux AND WCH_OUT_DATA_MSK = 0 then hal_gpio_pins_reset port pin g
                             else hal_gpio_pins_set port pin g)
                    in (hal_gpio_mode_config port pin GPIO_MODE_OUT_PP_5MA g, None)
                  else if m = WCH_MODE_ANALOG then
                    (case analog_perph (pinmux AND WCH_FUN_MSK) of
                       None \<Rightarrow> (g, Some (- ENOTSUP))
                     | Some b \<Rightarrow> (hal_gpio_analog_enable b g, Some (- ENOTSUP)))
                  else (g, Some (- ENOTSUP))))"

fun pinctrl_configure_pins :: "u32 list \<Rightarrow> gpio_hw \<Rightarrow> (int \<times> gpio_hw) option" where
  "pinctrl_configure_pins [] g = Some (0, g)"
| "pinctrl_configure_pins (pinmux # pins) g =
     (case pinctrl_pin pinmux g of
        None \<Rightarrow> None
      | Some (g, Some err) \<Rightarrow> Some (err, g)
      | Some (g, None) \<Rightarrow> pinctrl_configure_pins pins g)"

section \<open>The driver\<close>

definition GPIO_ACTIVE_LOW :: u32 where "GPIO_ACTIVE_LOW = push_bit 0 1"
definition GPIO_SINGLE_ENDED :: u32 where "GPIO_SINGLE_ENDED = push_bit 1 1"
definition GPIO_LINE_OPEN_DRAIN :: u32 where "GPIO_LINE_OPEN_DRAIN = push_bit 2 1"
definition GPIO_PULL_UP :: u32 where "GPIO_PULL_UP = push_bit 4 1"
definition GPIO_PULL_DOWN :: u32 where "GPIO_PULL_DOWN = push_bit 5 1"
definition GPIO_INPUT :: u32 where "GPIO_INPUT = push_bit 16 1"
definition GPIO_OUTPUT :: u32 where "GPIO_OUTPUT = push_bit 17 1"
definition GPIO_OUTPUT_INIT_LOW :: u32 where "GPIO_OUTPUT_INIT_LOW = push_bit 18 1"
definition GPIO_OUTPUT_INIT_HIGH :: u32 where "GPIO_OUTPUT_INIT_HIGH = push_bit 19 1"
definition GPIO_OUTPUT_INIT_LOGICAL :: u32 where "GPIO_OUTPUT_INIT_LOGICAL = push_bit 20 1"
definition GPIO_INT_DISABLE :: u32 where "GPIO_INT_DISABLE = push_bit 21 1"
definition GPIO_INT_ENABLE :: u32 where "GPIO_INT_ENABLE = push_bit 22 1"
definition GPIO_INT_LEVELS_LOGICAL :: u32 where "GPIO_INT_LEVELS_LOGICAL = push_bit 23 1"
definition GPIO_INT_EDGE :: u32 where "GPIO_INT_EDGE = push_bit 24 1"
definition GPIO_INT_LOW_0 :: u32 where "GPIO_INT_LOW_0 = push_bit 25 1"
definition GPIO_INT_HIGH_1 :: u32 where "GPIO_INT_HIGH_1 = push_bit 26 1"
definition GPIO_INT_MASK :: u32 where
  "GPIO_INT_MASK = GPIO_INT_DISABLE OR GPIO_INT_ENABLE OR GPIO_INT_LEVELS_LOGICAL OR GPIO_INT_EDGE OR
     GPIO_INT_LOW_0 OR GPIO_INT_HIGH_1"

lemmas gpio_flags = GPIO_ACTIVE_LOW_def GPIO_SINGLE_ENDED_def GPIO_LINE_OPEN_DRAIN_def GPIO_PULL_UP_def
  GPIO_PULL_DOWN_def GPIO_INPUT_def GPIO_OUTPUT_def GPIO_OUTPUT_INIT_LOW_def GPIO_OUTPUT_INIT_HIGH_def
  GPIO_OUTPUT_INIT_LOGICAL_def GPIO_INT_DISABLE_def GPIO_INT_ENABLE_def GPIO_INT_LEVELS_LOGICAL_def
  GPIO_INT_EDGE_def GPIO_INT_LOW_0_def GPIO_INT_HIGH_1_def GPIO_INT_MASK_def

text \<open>
  A device: its constant configuration (base address and pin mask), the mask of inverted pins, the
  list of callbacks.  The callbacks themselves are in a store: the node is their first member, so a
  callback and its node have the same address.
\<close>

record gpio_dev =
  base :: addr
  port_pin_mask :: u32
  invert :: u32
  cb_list :: sys_slist

record gpio_state =
  hw :: gpio_hw
  cb_next :: nexts
  cb_handler :: "addr \<Rightarrow> addr"
  cb_pin_mask :: "addr \<Rightarrow> u32"
  mach :: machine

definition ASSERT_G :: "bool \<Rightarrow> gpio_state \<Rightarrow> gpio_state" where
  "ASSERT_G test s = s\<lparr>mach := ASSERT_NO_MSG test (mach s)\<rparr>"

text \<open>Where the code leaves \<open>pin_cfg\<close> at its initial 0 the mode is that with the value 0, the floating input.\<close>

definition gpio_wch_flags_to_cfg :: "u32 \<Rightarrow> int \<times> gpio_mode" where
  "gpio_wch_flags_to_cfg flag =
     (if flag AND GPIO_OUTPUT \<noteq> 0 then
        if flag AND GPIO_SINGLE_ENDED \<noteq> 0 then (- ENOTSUP, GPIO_MODE_IN_FLOATING)
        else (0, GPIO_MODE_OUT_PP_5MA)
      else if flag AND GPIO_INPUT \<noteq> 0 then
        if flag AND GPIO_PULL_UP \<noteq> 0 then (0, GPIO_MODE_IN_PU)
        else if flag AND GPIO_PULL_DOWN \<noteq> 0 then (0, GPIO_MODE_IN_PD)
        else (0, GPIO_MODE_IN_FLOATING)
      else (0, GPIO_MODE_IN_FLOATING))"

definition gpio_wch_port_get_raw :: "gpio_dev \<Rightarrow> gpio_hw \<Rightarrow> int \<times> u32" where
  "gpio_wch_port_get_raw dev g = (0, hal_gpio_port_get (base dev) g)"

definition gpio_wch_port_set_masked_raw :: "gpio_dev \<Rightarrow> u32 \<Rightarrow> u32 \<Rightarrow> gpio_hw \<Rightarrow> int \<times> gpio_hw" where
  "gpio_wch_port_set_masked_raw dev msk v g =
     (let get_val = hal_gpio_port_get (base dev) g
      in (0, hal_gpio_pins_set (base dev) ((msk AND v) OR (get_val AND NOT msk)) g))"

definition gpio_wch_port_set_bits_raw :: "gpio_dev \<Rightarrow> u32 \<Rightarrow> gpio_hw \<Rightarrow> int \<times> gpio_hw" where
  "gpio_wch_port_set_bits_raw dev pins g = (0, hal_gpio_pins_set (base dev) pins g)"

definition gpio_wch_port_clear_bits_raw :: "gpio_dev \<Rightarrow> u32 \<Rightarrow> gpio_hw \<Rightarrow> int \<times> gpio_hw" where
  "gpio_wch_port_clear_bits_raw dev pins g = (0, hal_gpio_pins_reset (base dev) pins g)"

definition gpio_wch_port_toggle_bits :: "gpio_dev \<Rightarrow> u32 \<Rightarrow> gpio_hw \<Rightarrow> int \<times> gpio_hw" where
  "gpio_wch_port_toggle_bits dev pins g = (0, hal_gpio_pins_invert (base dev) pins g)"

definition gpio_wch_pin_configure :: "gpio_dev \<Rightarrow> nat \<Rightarrow> u32 \<Rightarrow> gpio_hw \<Rightarrow> int \<times> gpio_hw" where
  "gpio_wch_pin_configure dev pin flags g =
     (let (err, pin_cfg) = gpio_wch_flags_to_cfg flags
      in if err \<noteq> 0 then (err, g)
         else
           let g = (if flags AND GPIO_OUTPUT \<noteq> 0 then
                      if flags AND GPIO_OUTPUT_INIT_LOW \<noteq> 0 then
                        snd (gpio_wch_port_set_bits_raw dev (pin_bit pin) g)
                      else if flags AND GPIO_OUTPUT_INIT_HIGH \<noteq> 0 then
                        snd (gpio_wch_port_clear_bits_raw dev (pin_bit pin) g)
                      else g
                    else g)
           in (0, hal_gpio_mode_config (base dev) (pin_bit pin) pin_cfg g))"

definition GPIO_INT_MODE_DISABLED :: u32 where "GPIO_INT_MODE_DISABLED = GPIO_INT_DISABLE"
definition GPIO_INT_MODE_LEVEL :: u32 where "GPIO_INT_MODE_LEVEL = GPIO_INT_ENABLE"
definition GPIO_INT_MODE_EDGE :: u32 where "GPIO_INT_MODE_EDGE = GPIO_INT_ENABLE OR GPIO_INT_EDGE"

definition gpio_wch_pin_interrupt_configure :: "gpio_dev \<Rightarrow> nat \<Rightarrow> u32 \<Rightarrow> u32 \<Rightarrow> gpio_hw \<Rightarrow> int \<times> gpio_hw" where
  "gpio_wch_pin_interrupt_configure dev pin md trig g =
     (let port = base dev
      in if md = GPIO_INT_MODE_DISABLED then (0, hal_gpio_int_pins_disable port (pin_bit pin) g)
         else if md = GPIO_INT_MODE_LEVEL then
           if trig = GPIO_INT_LOW_0 then (0, hal_gpio_int_mode_config port (pin_bit pin) GPIO_IT_MODE_LOWLEVEL g)
           else if trig = GPIO_INT_HIGH_1 then
             (0, hal_gpio_int_mode_config port (pin_bit pin) GPIO_IT_MODE_HIGHLEVEL g)
           else (- ENOTSUP, g)
         else if md = GPIO_INT_MODE_EDGE then
           if trig = GPIO_INT_LOW_0 then (0, hal_gpio_int_mode_config port (pin_bit pin) GPIO_IT_MODE_FALLEDGE g)
           else if trig = GPIO_INT_HIGH_1 then
             (0, hal_gpio_int_mode_config port (pin_bit pin) GPIO_IT_MODE_RISEEDGE g)
           else (- ENOTSUP, g)
         else (- ENOTSUP, g))"

section \<open>Callbacks\<close>

definition gpio_manage_callback :: "addr \<Rightarrow> bool \<Rightarrow> gpio_dev \<Rightarrow> gpio_state \<Rightarrow> (int \<times> gpio_dev \<times> gpio_state) option" where
  "gpio_manage_callback callback set_cb dev s =
     (let s = ASSERT_G (callback \<noteq> NULL) s;
          s = ASSERT_G (cb_handler s callback \<noteq> NULL) s;
          finish = (\<lambda>(l, h). let (l, h) = (if set_cb then sys_slist_prepend callback (l, h) else (l, h))
                             in Some (0, dev\<lparr>cb_list := l\<rparr>, s\<lparr>cb_next := h\<rparr>))
      in if \<not> sys_slist_is_empty (cb_list dev) then
           case sys_slist_find_and_remove callback (cb_list dev, cb_next s) of
             None \<Rightarrow> None
           | Some (found, l, h) \<Rightarrow>
               if \<not> found \<and> \<not> set_cb then Some (- EINVAL, dev\<lparr>cb_list := l\<rparr>, s\<lparr>cb_next := h\<rparr>)
               else finish (l, h)
         else finish (cb_list dev, cb_next s))"

text \<open>
  The loop of \<open>gpio_fire_callbacks\<close>: the next callback is read before the handler runs.  What a handler does to
  the state is the argument \<open>run\<close>; the calls made so far are recorded in \<open>calls\<close>.
\<close>

partial_function (option) fire_callbacks_loop ::
    "(addr \<Rightarrow> u32 \<Rightarrow> gpio_state \<Rightarrow> gpio_state) \<Rightarrow> u32 \<Rightarrow> addr \<Rightarrow> addr \<Rightarrow> gpio_state \<Rightarrow> (addr \<times> u32) list \<Rightarrow>
     (gpio_state \<times> (addr \<times> u32) list) option" where
  "fire_callbacks_loop run pins cb tmp s calls =
     (if cb \<noteq> NULL then
        let (s, calls) =
          (if cb_pin_mask s cb AND pins \<noteq> 0 then
             let p = cb_pin_mask s cb AND pins;
                 s = ASSERT_G (cb_handler s cb \<noteq> NULL) s
             in (run cb p s, calls @ [(cb, p)])
           else (s, calls))
        in fire_callbacks_loop run pins tmp (sys_slist_peek_next tmp (cb_next s)) s calls
      else Some (s, calls))"

definition gpio_fire_callbacks ::
    "(addr \<Rightarrow> u32 \<Rightarrow> gpio_state \<Rightarrow> gpio_state) \<Rightarrow> sys_slist \<Rightarrow> u32 \<Rightarrow> gpio_state \<Rightarrow>
     (gpio_state \<times> (addr \<times> u32) list) option" where
  "gpio_fire_callbacks run list pins s =
     (let cb = sys_slist_peek_head list
      in fire_callbacks_loop run pins cb (sys_slist_peek_next cb (cb_next s)) s [])"

text \<open>The interrupt handlers of the two ports, which differ in the device.\<close>

definition GPIO_IRQHandler ::
    "(addr \<Rightarrow> u32 \<Rightarrow> gpio_state \<Rightarrow> gpio_state) \<Rightarrow> gpio_dev \<Rightarrow> gpio_state \<Rightarrow> (gpio_state \<times> (addr \<times> u32) list) option" where
  "GPIO_IRQHandler run dev s =
     (let int_pins = hal_gpio_int_flag_port_get (base dev) (hw s);
          s = s\<lparr>hw := hal_gpio_int_flag_pins_clear (base dev) int_pins (hw s)\<rparr>
      in gpio_fire_callbacks run (cb_list dev) int_pins s)"

definition gpio_wch_manage_callback ::
    "addr \<Rightarrow> bool \<Rightarrow> gpio_dev \<Rightarrow> gpio_state \<Rightarrow> (int \<times> gpio_dev \<times> gpio_state) option" where
  "gpio_wch_manage_callback cb set_cb dev s = gpio_manage_callback cb set_cb dev s"

definition gpio_wch_get_pending_int :: "gpio_dev \<Rightarrow> u32" where
  "gpio_wch_get_pending_int dev = 0"

fun init_pins_loop :: "gpio_dev \<Rightarrow> nat list \<Rightarrow> gpio_hw \<Rightarrow> gpio_hw" where
  "init_pins_loop dev [] g = g"
| "init_pins_loop dev (i # is) g =
     init_pins_loop dev is (snd (gpio_wch_pin_configure dev i (GPIO_INPUT OR GPIO_PULL_UP) g))"

text \<open>The device's function for its interrupt, which the macro \<open>GPIO_INIT\<close> defines, enables the line \<open>irq\<close> of the port in the
  interrupt controller; \<open>intr\<close> is the build option for interrupts.\<close>

definition gpio_wch_irq_cfg_func :: "u32 \<Rightarrow> PFIC_Type \<Rightarrow> PFIC_Type option" where
  "gpio_wch_irq_cfg_func irq k = arch_irq_enable irq k"

definition gpio_wch_init :: "bool \<Rightarrow> u32 \<Rightarrow> gpio_dev \<Rightarrow> gpio_hw \<Rightarrow> PFIC_Type \<Rightarrow> (int \<times> gpio_hw \<times> PFIC_Type) option" where
  "gpio_wch_init intr irq dev g k =
     (case (if intr then gpio_wch_irq_cfg_func irq k else Some k) of
        None \<Rightarrow> None
      | Some k \<Rightarrow> Some (0, init_pins_loop dev [0..<32] g, k))"

section \<open>The interface of \<open>include/drivers/gpio.h\<close>\<close>

text \<open>The functions of the driver table are those of \<open>gpio_wch_driver_api\<close>.\<close>

definition ASSERT_PIN :: "gpio_dev \<Rightarrow> nat \<Rightarrow> gpio_state \<Rightarrow> gpio_state" where
  "ASSERT_PIN dev pin = ASSERT_G (port_pin_mask dev AND pin_bit pin \<noteq> 0)"

definition on_hw :: "(gpio_hw \<Rightarrow> int \<times> gpio_hw) \<Rightarrow> gpio_state \<Rightarrow> int \<times> gpio_state" where
  "on_hw f s = (let (r, g) = f (hw s) in (r, s\<lparr>hw := g\<rparr>))"

definition gpio_pin_interrupt_configure :: "gpio_dev \<Rightarrow> nat \<Rightarrow> u32 \<Rightarrow> gpio_state \<Rightarrow> int \<times> gpio_state" where
  "gpio_pin_interrupt_configure dev pin flags s =
     (let s = ASSERT_G (flags AND (GPIO_INT_DISABLE OR GPIO_INT_ENABLE) \<noteq> GPIO_INT_DISABLE OR GPIO_INT_ENABLE) s;
          s = ASSERT_G (flags AND (GPIO_INT_DISABLE OR GPIO_INT_ENABLE) \<noteq> 0) s;
          s = ASSERT_G (flags AND GPIO_INT_ENABLE = 0 \<or> flags AND GPIO_INT_EDGE \<noteq> 0 \<or>
                flags AND (GPIO_INT_LOW_0 OR GPIO_INT_HIGH_1) \<noteq> GPIO_INT_LOW_0 OR GPIO_INT_HIGH_1) s;
          s = ASSERT_G (flags AND GPIO_INT_ENABLE = 0 \<or> flags AND (GPIO_INT_LOW_0 OR GPIO_INT_HIGH_1) \<noteq> 0) s;
          s = ASSERT_PIN dev pin s;
          flags = (if flags AND GPIO_INT_LEVELS_LOGICAL \<noteq> 0 \<and> invert dev AND pin_bit pin \<noteq> 0
                   then flags XOR (GPIO_INT_LOW_0 OR GPIO_INT_HIGH_1) else flags);
          trig = flags AND (GPIO_INT_LOW_0 OR GPIO_INT_HIGH_1);
          md = flags AND (GPIO_INT_EDGE OR GPIO_INT_DISABLE OR GPIO_INT_ENABLE)
      in on_hw (gpio_wch_pin_interrupt_configure dev pin md trig) s)"

definition gpio_pin_configure :: "gpio_dev \<Rightarrow> nat \<Rightarrow> u32 \<Rightarrow> gpio_state \<Rightarrow> int \<times> gpio_dev \<times> gpio_state" where
  "gpio_pin_configure dev pin flags s =
     (let s = ASSERT_G (flags AND GPIO_INT_MASK = 0) s;
          s = ASSERT_G (flags AND (GPIO_PULL_UP OR GPIO_PULL_DOWN) \<noteq> GPIO_PULL_UP OR GPIO_PULL_DOWN) s;
          s = ASSERT_G (flags AND GPIO_OUTPUT \<noteq> 0 \<or> flags AND GPIO_SINGLE_ENDED = 0) s;
          s = ASSERT_G (flags AND GPIO_SINGLE_ENDED \<noteq> 0 \<or> flags AND GPIO_LINE_OPEN_DRAIN = 0) s;
          s = ASSERT_G (flags AND (GPIO_OUTPUT_INIT_LOW OR GPIO_OUTPUT_INIT_HIGH) = 0 \<or> flags AND GPIO_OUTPUT \<noteq> 0) s;
          s = ASSERT_G (flags AND (GPIO_OUTPUT_INIT_LOW OR GPIO_OUTPUT_INIT_HIGH)
                \<noteq> GPIO_OUTPUT_INIT_LOW OR GPIO_OUTPUT_INIT_HIGH) s;
          flags = (if flags AND GPIO_OUTPUT_INIT_LOGICAL \<noteq> 0 \<and>
                      flags AND (GPIO_OUTPUT_INIT_LOW OR GPIO_OUTPUT_INIT_HIGH) \<noteq> 0 \<and>
                      flags AND GPIO_ACTIVE_LOW \<noteq> 0
                   then flags XOR (GPIO_OUTPUT_INIT_LOW OR GPIO_OUTPUT_INIT_HIGH) else flags);
          flags = flags AND NOT GPIO_OUTPUT_INIT_LOGICAL;
          s = ASSERT_PIN dev pin s;
          dev = (if flags AND GPIO_ACTIVE_LOW \<noteq> 0 then dev\<lparr>invert := invert dev OR pin_bit pin\<rparr>
                 else dev\<lparr>invert := invert dev AND NOT (pin_bit pin)\<rparr>);
          (r, s) = on_hw (gpio_wch_pin_configure dev pin flags) s
      in (r, dev, s))"

definition gpio_port_get_raw :: "gpio_dev \<Rightarrow> gpio_state \<Rightarrow> int \<times> u32" where
  "gpio_port_get_raw dev s = gpio_wch_port_get_raw dev (hw s)"

definition gpio_port_get :: "gpio_dev \<Rightarrow> gpio_state \<Rightarrow> int \<times> u32" where
  "gpio_port_get dev s =
     (let (ret, v) = gpio_port_get_raw dev s in if ret = 0 then (ret, v XOR invert dev) else (ret, v))"

definition gpio_port_set_masked_raw :: "gpio_dev \<Rightarrow> u32 \<Rightarrow> u32 \<Rightarrow> gpio_state \<Rightarrow> int \<times> gpio_state" where
  "gpio_port_set_masked_raw dev msk v s = on_hw (gpio_wch_port_set_masked_raw dev msk v) s"

definition gpio_port_set_masked :: "gpio_dev \<Rightarrow> u32 \<Rightarrow> u32 \<Rightarrow> gpio_state \<Rightarrow> int \<times> gpio_state" where
  "gpio_port_set_masked dev msk v s = gpio_port_set_masked_raw dev msk (v XOR invert dev) s"

definition gpio_port_set_bits_raw :: "gpio_dev \<Rightarrow> u32 \<Rightarrow> gpio_state \<Rightarrow> int \<times> gpio_state" where
  "gpio_port_set_bits_raw dev pins s = on_hw (gpio_wch_port_set_bits_raw dev pins) s"

definition gpio_port_set_bits :: "gpio_dev \<Rightarrow> u32 \<Rightarrow> gpio_state \<Rightarrow> int \<times> gpio_state" where
  "gpio_port_set_bits dev pins s = gpio_port_set_masked dev pins pins s"

definition gpio_port_clear_bits_raw :: "gpio_dev \<Rightarrow> u32 \<Rightarrow> gpio_state \<Rightarrow> int \<times> gpio_state" where
  "gpio_port_clear_bits_raw dev pins s = on_hw (gpio_wch_port_clear_bits_raw dev pins) s"

definition gpio_port_clear_bits :: "gpio_dev \<Rightarrow> u32 \<Rightarrow> gpio_state \<Rightarrow> int \<times> gpio_state" where
  "gpio_port_clear_bits dev pins s = gpio_port_set_masked dev pins 0 s"

definition gpio_port_toggle_bits :: "gpio_dev \<Rightarrow> u32 \<Rightarrow> gpio_state \<Rightarrow> int \<times> gpio_state" where
  "gpio_port_toggle_bits dev pins s = on_hw (gpio_wch_port_toggle_bits dev pins) s"

definition gpio_port_set_clr_bits_raw :: "gpio_dev \<Rightarrow> u32 \<Rightarrow> u32 \<Rightarrow> gpio_state \<Rightarrow> int \<times> gpio_state" where
  "gpio_port_set_clr_bits_raw dev set_pins clear_pins s =
     gpio_port_set_masked_raw dev (set_pins OR clear_pins) set_pins (ASSERT_G (set_pins AND clear_pins = 0) s)"

definition gpio_port_set_clr_bits :: "gpio_dev \<Rightarrow> u32 \<Rightarrow> u32 \<Rightarrow> gpio_state \<Rightarrow> int \<times> gpio_state" where
  "gpio_port_set_clr_bits dev set_pins clear_pins s =
     gpio_port_set_masked dev (set_pins OR clear_pins) set_pins (ASSERT_G (set_pins AND clear_pins = 0) s)"

definition gpio_pin_get_raw :: "gpio_dev \<Rightarrow> nat \<Rightarrow> gpio_state \<Rightarrow> int \<times> gpio_state" where
  "gpio_pin_get_raw dev pin s =
     (let s = ASSERT_PIN dev pin s;
          (ret, v) = gpio_port_get_raw dev s
      in (if ret = 0 then of_bool (v AND pin_bit pin \<noteq> 0) else ret, s))"

definition gpio_pin_get :: "gpio_dev \<Rightarrow> nat \<Rightarrow> gpio_state \<Rightarrow> int \<times> gpio_state" where
  "gpio_pin_get dev pin s =
     (let s = ASSERT_PIN dev pin s;
          (ret, v) = gpio_port_get dev s
      in (if ret = 0 then of_bool (v AND pin_bit pin \<noteq> 0) else ret, s))"

definition gpio_pin_set_raw :: "gpio_dev \<Rightarrow> nat \<Rightarrow> int \<Rightarrow> gpio_state \<Rightarrow> int \<times> gpio_state" where
  "gpio_pin_set_raw dev pin v s =
     (let s = ASSERT_PIN dev pin s
      in if v \<noteq> 0 then gpio_port_set_bits_raw dev (pin_bit pin) s
         else gpio_port_clear_bits_raw dev (pin_bit pin) s)"

definition gpio_pin_set :: "gpio_dev \<Rightarrow> nat \<Rightarrow> int \<Rightarrow> gpio_state \<Rightarrow> int \<times> gpio_state" where
  "gpio_pin_set dev pin v s =
     (let s = ASSERT_PIN dev pin s;
          v = (if invert dev AND pin_bit pin \<noteq> 0 then of_bool (v = 0) else v)
      in gpio_pin_set_raw dev pin v s)"

definition gpio_pin_toggle :: "gpio_dev \<Rightarrow> nat \<Rightarrow> gpio_state \<Rightarrow> int \<times> gpio_state" where
  "gpio_pin_toggle dev pin s = gpio_port_toggle_bits dev (pin_bit pin) (ASSERT_PIN dev pin s)"

definition gpio_init_callback :: "addr \<Rightarrow> addr \<Rightarrow> u32 \<Rightarrow> gpio_state \<Rightarrow> gpio_state" where
  "gpio_init_callback callback handler pin_mask s =
     (let s = ASSERT_G (callback \<noteq> NULL) s;
          s = ASSERT_G (handler \<noteq> NULL) s
      in s\<lparr>cb_handler := (cb_handler s)(callback := handler), cb_pin_mask := (cb_pin_mask s)(callback := pin_mask)\<rparr>)"

definition gpio_add_callback :: "gpio_dev \<Rightarrow> addr \<Rightarrow> gpio_state \<Rightarrow> (int \<times> gpio_dev \<times> gpio_state) option" where
  "gpio_add_callback dev callback s = gpio_wch_manage_callback callback True dev s"

definition gpio_remove_callback :: "gpio_dev \<Rightarrow> addr \<Rightarrow> gpio_state \<Rightarrow> (int \<times> gpio_dev \<times> gpio_state) option" where
  "gpio_remove_callback dev callback s = gpio_wch_manage_callback callback False dev s"

section \<open>Pins\<close>

lemma bit_pin_bit [simp]: "bit (pin_bit i) n \<longleftrightarrow> n = i \<and> n < 32"
  by (auto simp: pin_bit_def bit_simps)

lemma port_upd_sel [simp]:
  "gports (port_upd port f g) = (gports g)(port := f (gports g port))"
  "R16_PIN_ALTERNATE (port_upd port f g) = R16_PIN_ALTERNATE g"
  "R16_PIN_ANALOG_IE (port_upd port f g) = R16_PIN_ANALOG_IE g"
  by (simp_all add: port_upd_def)

lemma and_pin_bit: "v AND pin_bit i \<noteq> 0 \<longleftrightarrow> bit v i" if "i < 32"
proof -
  have "v AND pin_bit i \<noteq> 0 \<longleftrightarrow> (\<exists>n. bit (v AND pin_bit i) n)"
    using bit_imp_le_length [of "v AND pin_bit i"] by (auto simp: bit_eq_iff)
  with that show ?thesis by (auto simp: bit_simps)
qed

text \<open>The mode of a pin, read back from the registers.\<close>

definition pin_mode :: "gpio_port \<Rightarrow> nat \<Rightarrow> gpio_mode option" where
  "pin_mode p i =
     (if bit (DIR p) i then
        if bit (PD_DRV p) i then Some GPIO_MODE_OUT_PP_20MA else Some GPIO_MODE_OUT_PP_5MA
      else if bit (PU p) i then
        if bit (PD_DRV p) i then None else Some GPIO_MODE_IN_PU
      else if bit (PD_DRV p) i then Some GPIO_MODE_IN_PD else Some GPIO_MODE_IN_FLOATING)"

lemma mode_config_pin:
  "md \<noteq> GPIO_MODE_ANALOG \<Longrightarrow> i < 32 \<Longrightarrow>
   pin_mode (gports (hal_gpio_mode_config port pins md g) port) i =
     (if bit pins i then Some md else pin_mode (gports g port) i)"
  by (cases md) (auto simp: hal_gpio_mode_config_def pin_mode_def bit_simps)

lemma pins_set_reset_mode [simp]:
  "pin_mode (gports (hal_gpio_pins_set q pins g) port) i = pin_mode (gports g port) i"
  "pin_mode (gports (hal_gpio_pins_reset q pins g) port) i = pin_mode (gports g port) i"
  by (simp_all add: hal_gpio_pins_set_def hal_gpio_pins_reset_def pin_mode_def write_CLR_def)

section \<open>Interrupts\<close>

lemma pin22_23: "GPIO_Pin_22 OR GPIO_Pin_23 = pin_bit 22 OR pin_bit 23"
  by (simp add: GPIO_Pin_22_def GPIO_Pin_23_def pin_bit_def)

lemma flags_acknowledged:
  assumes "port = GPIO_A \<or> port = GPIO_B"
  shows "INT_IF (gports (hal_gpio_int_flag_pins_clear port (hal_gpio_int_flag_port_get port g) g) port) = 0"
proof -
  have m: "bit (WCH_MASK 16) n \<longleftrightarrow> n < 16" for n
  proof -
    have "WCH_MASK 16 = mask 16" by (simp add: WCH_MASK_def mask_eq_exp_minus_1)
    then show ?thesis by (auto simp: bit_mask_iff)
  qed
  have ab: "GPIO_A \<noteq> GPIO_B" by (simp add: GPIO_A_def GPIO_B_def)
  have "\<not> bit (INT_IF (gports (hal_gpio_int_flag_pins_clear port (hal_gpio_int_flag_port_get port g) g) port)) n"
    if "n < 16" for n
    using assms that ab
    by (auto simp: hal_gpio_int_flag_pins_clear_def hal_gpio_int_flag_port_get_def write_INT_IF_def pins_b_def
      pin22_23 bit_simps m)
  then show ?thesis by (intro bit_word_eqI) simp
qed

lemma flags_cleared:
  assumes "port = GPIO_A \<or> port = GPIO_B"
  shows "hal_gpio_int_flag_pins_clear port (hal_gpio_int_flag_port_get port g) g = port_upd port (\<lambda>p. p\<lparr>INT_IF := 0\<rparr>) g"
proof -
  let ?c = "hal_gpio_int_flag_pins_clear port (hal_gpio_int_flag_port_get port g) g"
  obtain v where v: "?c = port_upd port (write_INT_IF v) g"
    using assms by (cases "port = GPIO_A") (auto simp: hal_gpio_int_flag_pins_clear_def)
  then have "INT_IF (gports g port) AND NOT v = 0"
    using flags_acknowledged [OF assms, of g] by (simp add: port_upd_def write_INT_IF_def)
  with v show ?thesis by (simp add: port_upd_def write_INT_IF_def)
qed

section \<open>Callback lists\<close>

text \<open>The list of callbacks of a device, as a sequence of addresses.\<close>

definition cbs_repr :: "gpio_dev \<Rightarrow> gpio_state \<Rightarrow> addr list \<Rightarrow> bool" where
  "cbs_repr dev s xs = slist_repr (cb_list dev, cb_next s) xs"

lemma ASSERT_G_sel [simp]:
  "hw (ASSERT_G b s) = hw s" "cb_next (ASSERT_G b s) = cb_next s" "cb_handler (ASSERT_G b s) = cb_handler s"
  "cb_pin_mask (ASSERT_G b s) = cb_pin_mask s"
  by (simp_all add: ASSERT_G_def)

text \<open>The handlers may do anything but change a pin mask or the links of the callbacks still to come.\<close>

definition handlers_keep :: "(addr \<Rightarrow> u32 \<Rightarrow> gpio_state \<Rightarrow> gpio_state) \<Rightarrow> addr list \<Rightarrow> bool" where
  "handlers_keep run xs \<longleftrightarrow> (\<forall>ys c zs p t. xs = ys @ c # zs \<longrightarrow>
     cb_pin_mask (run c p t) = cb_pin_mask t \<and> (\<forall>z\<in>set zs. cb_next (run c p t) z = cb_next t z))"

lemma handlers_keep_tl: "handlers_keep run (x # xs) \<Longrightarrow> handlers_keep run xs"
  unfolding handlers_keep_def by (metis append_Cons)

lemma handlers_keep_hd:
  "handlers_keep run (x # xs) \<Longrightarrow>
   cb_pin_mask (run x p t) = cb_pin_mask t \<and> (\<forall>z\<in>set xs. cb_next (run x p t) z = cb_next t z)"
  unfolding handlers_keep_def by (metis append_Nil)

lemma spath_cong: "(\<And>x. x \<in> set xs \<Longrightarrow> h x = h' x) \<Longrightarrow> spath h p xs q = spath h' p xs q"
  by (induction xs arbitrary: p) auto

definition fired :: "(addr \<Rightarrow> u32) \<Rightarrow> u32 \<Rightarrow> addr list \<Rightarrow> (addr \<times> u32) list" where
  "fired pin_mask pins xs = map (\<lambda>c. (c, pin_mask c AND pins)) (filter (\<lambda>c. pin_mask c AND pins \<noteq> 0) xs)"

text \<open>One call of a handler: the check that there is one, and what it does.\<close>

definition called :: "(addr \<Rightarrow> u32 \<Rightarrow> gpio_state \<Rightarrow> gpio_state) \<Rightarrow> addr \<times> u32 \<Rightarrow> gpio_state \<Rightarrow> gpio_state" where
  "called run cp t = run (fst cp) (snd cp) (ASSERT_G (cb_handler t (fst cp) \<noteq> NULL) t)"

lemma fire_loop:
  "handlers_keep run (cb # zs) \<Longrightarrow> cb \<noteq> NULL \<Longrightarrow> spath (cb_next s) tmp zs NULL \<Longrightarrow>
   fire_callbacks_loop run pins cb tmp s calls =
     Some (fold (called run) (fired (cb_pin_mask s) pins (cb # zs)) s, calls @ fired (cb_pin_mask s) pins (cb # zs))"
proof (induction zs arbitrary: cb tmp s calls)
  case Nil
  have stop: "fire_callbacks_loop run pins NULL t s c = Some (s, c)" for t s c
    by (subst fire_callbacks_loop.simps) simp
  from Nil show ?case
    by (subst fire_callbacks_loop.simps) (simp add: fired_def Let_def stop called_def)
next
  case (Cons z zs)
  let ?f = "cb_pin_mask s cb AND pins \<noteq> 0"
  let ?s = "if ?f then run cb (cb_pin_mask s cb AND pins) (ASSERT_G (cb_handler s cb \<noteq> NULL) s) else s"
  let ?c = "if ?f then calls @ [(cb, cb_pin_mask s cb AND pins)] else calls"
  have z: "tmp = z" "z \<noteq> NULL" "spath (cb_next s) (cb_next s z) zs NULL" using Cons.prems(3) by auto
  have keep: "cb_pin_mask ?s = cb_pin_mask s" "\<forall>x\<in>set (z # zs). cb_next ?s x = cb_next s x"
    using handlers_keep_hd [OF Cons.prems(1)] by auto
  then have "spath (cb_next ?s) (cb_next ?s z) zs NULL"
    using z(3) spath_cong [of zs "cb_next ?s" "cb_next s"] by simp
  from Cons.IH [OF handlers_keep_tl [OF Cons.prems(1)] z(2) this, of ?c]
  have "fire_callbacks_loop run pins z (cb_next ?s z) ?s ?c =
      Some (fold (called run) (fired (cb_pin_mask s) pins (z # zs)) ?s, ?c @ fired (cb_pin_mask s) pins (z # zs))"
    by (simp only: keep(1))
  note rest = this
  have "fire_callbacks_loop run pins cb tmp s calls = fire_callbacks_loop run pins z (cb_next ?s z) ?s ?c"
    using Cons.prems(2) z(1,2) by (subst fire_callbacks_loop.simps)
      (simp add: Let_def sys_slist_peek_next_def sys_slist_peek_next_no_check_def z_snode_next_peek_def)
  from trans [OF this rest] show ?case
  proof (rule trans)
    show "Some (fold (called run) (fired (cb_pin_mask s) pins (z # zs)) ?s, ?c @ fired (cb_pin_mask s) pins (z # zs)) =
        Some (fold (called run) (fired (cb_pin_mask s) pins (cb # z # zs)) s, calls @ fired (cb_pin_mask s) pins (cb # z # zs))"
      by (cases ?f) (simp_all add: fired_def called_def)
  qed
qed

lemma gpio_fire_callbacks_calls:
  assumes "cbs_repr dev s xs" and "handlers_keep run xs"
  shows "gpio_fire_callbacks run (cb_list dev) pins s =
    Some (fold (called run) (fired (cb_pin_mask s) pins xs) s, fired (cb_pin_mask s) pins xs)"
proof (cases xs)
  case Nil
  with assms(1) have "sl_head (cb_list dev) = NULL" by (simp add: cbs_repr_def slist_repr_def)
  with Nil show ?thesis
    by (simp add: gpio_fire_callbacks_def sys_slist_peek_head_def fire_callbacks_loop.simps fired_def)
next
  case (Cons x zs)
  with assms(1) have "sl_head (cb_list dev) = x" "x \<noteq> NULL" "spath (cb_next s) (cb_next s x) zs NULL"
    by (auto simp: cbs_repr_def slist_repr_def)
  with fire_loop [of run x zs s "cb_next s x" pins "[]"] assms(2) Cons show ?thesis
    by (simp add: gpio_fire_callbacks_def sys_slist_peek_head_def sys_slist_peek_next_def
      sys_slist_peek_next_no_check_def z_snode_next_peek_def)
qed

lemma manage_callback_repr:
  assumes r: "cbs_repr dev s xs" and c: "c \<noteq> NULL"
  shows "\<exists>dev' s'. gpio_manage_callback c set_cb dev s =
       Some (if xs \<noteq> [] \<and> c \<notin> set xs \<and> \<not> set_cb then - EINVAL else 0, dev', s') \<and>
     cbs_repr dev' s' (if set_cb then c # remove1 c xs else remove1 c xs)"
proof -
  have empty: "sys_slist_is_empty (cb_list dev) \<longleftrightarrow> xs = []"
    using slq.repr_is_empty [of "(cb_list dev, cb_next s)" xs] r by (simp add: cbs_repr_def)
  have pre: "slist_repr (sys_slist_prepend c (l, h)) (c # ys)" if "slist_repr (l, h) ys" "c \<notin> set ys" for l h ys
    using slist_prepend_repr [OF that(1) c that(2)] .
  show ?thesis
  proof (cases "xs = []")
    case True
    with r empty pre [of "cb_list dev" "cb_next s" "[]"] show ?thesis
      by (cases "sys_slist_prepend c (cb_list dev, cb_next s)")
         (auto simp: gpio_manage_callback_def Let_def cbs_repr_def)
  next
    case False
    obtain l h where f: "sys_slist_find_and_remove c (cb_list dev, cb_next s) = Some (c \<in> set xs, l, h)"
      and lh: "slist_repr (l, h) (remove1 c xs)"
      using slist_find_and_remove_repr [of "cb_list dev" "cb_next s" xs c] r by (auto simp: cbs_repr_def)
    have "c \<notin> set (remove1 c xs)"
      using slist_repr_nodes [of "(cb_list dev, cb_next s)" xs] r by (simp add: cbs_repr_def)
    with False empty f lh pre [OF lh] show ?thesis
      by (cases "sys_slist_prepend c (l, h)")
         (auto simp: gpio_manage_callback_def Let_def cbs_repr_def remove1_idem)
  qed
qed

section \<open>Properties\<close>

text \<open>\<open>hal_gpio_mode_config\<close> puts exactly the given pins into the given digital mode, as read back
  from the direction and pull registers, and leaves the mode of every other pin and port alone.\<close>

theorem hal_gpio_mode_config_pins:
  assumes "md \<noteq> GPIO_MODE_ANALOG" and "i < 32"
  shows "pin_mode (gports (hal_gpio_mode_config port pins md g) port) i =
      (if bit pins i then Some md else pin_mode (gports g port) i) \<and>
    (\<forall>q. q \<noteq> port \<longrightarrow> gports (hal_gpio_mode_config port pins md g) q = gports g q)"
  using mode_config_pin [OF assms] by (simp add: hal_gpio_mode_config_def)

theorem hal_gpio_mode_config_pins_witness:
  "\<forall>g. pin_mode (gports (hal_gpio_mode_config GPIO_B 0x10 GPIO_MODE_IN_PU g) GPIO_B) 4 = Some GPIO_MODE_IN_PU"
proof
  fix g
  have "bit (0x10 :: u32) 4" by simp
  then show "pin_mode (gports (hal_gpio_mode_config GPIO_B 0x10 GPIO_MODE_IN_PU g) GPIO_B) 4 = Some GPIO_MODE_IN_PU"
    using hal_gpio_mode_config_pins [of GPIO_MODE_IN_PU 4 GPIO_B "0x10" g] by simp
qed

text \<open>Adding a callback moves it to the front of the device's list, removing it takes it out; the
  result is \<open>-EINVAL\<close> exactly for the removal of an absent callback from a list that is not empty.  Both
  operations return for every represented list.\<close>

theorem gpio_callbacks_managed:
  assumes "cbs_repr dev s xs" and "c \<noteq> NULL"
  shows "(\<exists>dev' s'. gpio_add_callback dev c s = Some (0, dev', s') \<and> cbs_repr dev' s' (c # remove1 c xs)) \<and>
    (\<exists>dev' s'. gpio_remove_callback dev c s =
       Some (if xs \<noteq> [] \<and> c \<notin> set xs then - EINVAL else 0, dev', s') \<and> cbs_repr dev' s' (remove1 c xs))"
  using manage_callback_repr [OF assms, of True] manage_callback_repr [OF assms, of False]
  by (simp add: gpio_add_callback_def gpio_remove_callback_def gpio_wch_manage_callback_def)

definition dev0 :: gpio_dev where
  "dev0 = \<lparr>base = GPIO_A, port_pin_mask = 0xFFFF, invert = 0, cb_list = SYS_SLIST_STATIC_INIT\<rparr>"

definition gpio_state0 :: gpio_state where
  "gpio_state0 = \<lparr>hw = \<lparr>gports = \<lambda>_. \<lparr>DIR = 0, PIN = 0, OUT = 0, PU = 0, PD_DRV = 0, INT_EN = 0, INT_MODE = 0, INT_IF = 0x11\<rparr>,
       R16_PIN_ALTERNATE = 0, R16_PIN_ANALOG_IE = 0\<rparr>,
     cb_next = \<lambda>_. NULL, cb_handler = \<lambda>_. 1, cb_pin_mask = \<lambda>_. 1,
     mach = \<lparr>ram = \<lambda>_. 0, assert_on = True, asserts = 0\<rparr>\<rparr>"

lemma dev0_repr: "cbs_repr dev0 gpio_state0 []"
  by (simp add: cbs_repr_def slist_repr_def dev0_def SYS_SLIST_STATIC_INIT_def)

theorem gpio_callbacks_managed_witness:
  "\<exists>dev' s'. gpio_add_callback dev0 0x20000100 gpio_state0 = Some (0, dev', s') \<and> cbs_repr dev' s' [0x20000100]"
  using gpio_callbacks_managed [OF dev0_repr, of "0x20000100"] by simp

text \<open>C33: the interrupt handler of a port returns.  It calls exactly the callbacks whose pin mask meets the pins that were
  pending, in list order, each with the pins it asked for, and its result is what these calls make of the state in which
  every pending flag of the port is cleared and nothing else is changed; so no flag is left pending unless a handler or
  the hardware sets it again.  A handler may remove its own callback: it must keep the pin masks and the links of the
  callbacks still to come.\<close>

theorem GPIO_IRQHandler_calls:
  assumes "cbs_repr dev s xs" and "handlers_keep run xs" and "base dev = GPIO_A \<or> base dev = GPIO_B"
  shows "\<exists>s' calls. GPIO_IRQHandler run dev s = Some (s', calls) \<and>
    calls = fired (cb_pin_mask s) (hal_gpio_int_flag_port_get (base dev) (hw s)) xs \<and>
    s' = fold (called run) calls (s\<lparr>hw := port_upd (base dev) (\<lambda>p. p\<lparr>INT_IF := 0\<rparr>) (hw s)\<rparr>) \<and>
    ((\<forall>c p t. INT_IF (gports (hw (run c p t)) (base dev)) = INT_IF (gports (hw t) (base dev))) \<longrightarrow>
      INT_IF (gports (hw s') (base dev)) = 0)"
proof -
  let ?s = "s\<lparr>hw := port_upd (base dev) (\<lambda>p. p\<lparr>INT_IF := 0\<rparr>) (hw s)\<rparr>"
  let ?c = "fired (cb_pin_mask s) (hal_gpio_int_flag_port_get (base dev) (hw s)) xs"
  have "cbs_repr dev ?s xs" using assms(1) by (simp add: cbs_repr_def)
  from gpio_fire_callbacks_calls [OF this assms(2)]
  have "GPIO_IRQHandler run dev s = Some (fold (called run) ?c ?s, ?c)"
    by (simp add: GPIO_IRQHandler_def Let_def flags_cleared [OF assms(3)])
  moreover have "INT_IF (gports (hw (fold (called run) cs t)) (base dev)) = INT_IF (gports (hw t) (base dev))"
    if "\<forall>c p t. INT_IF (gports (hw (run c p t)) (base dev)) = INT_IF (gports (hw t) (base dev))" for cs t
    using that by (induction cs arbitrary: t) (simp_all add: called_def)
  ultimately show ?thesis by (simp add: port_upd_def)
qed

theorem GPIO_IRQHandler_calls_witness:
  "\<exists>s'. GPIO_IRQHandler (\<lambda>_ _ s. s) (dev0\<lparr>cb_list := \<lparr>sl_head = 8, sl_tail = 8\<rparr>\<rparr>) gpio_state0 = Some (s', [(8, 1)]) \<and>
     INT_IF (gports (hw s') GPIO_A) = 0"
proof -
  let ?d = "dev0\<lparr>cb_list := \<lparr>sl_head = 8, sl_tail = 8\<rparr>\<rparr>"
  have "cbs_repr ?d gpio_state0 [8]" "handlers_keep (\<lambda>_ _ s. s) [8]"
    by (simp_all add: cbs_repr_def slist_repr_def gpio_state0_def handlers_keep_def)
  from GPIO_IRQHandler_calls [OF this] show ?thesis
    by (auto simp: fired_def gpio_state0_def dev0_def hal_gpio_int_flag_port_get_def)
qed

text \<open>The masked write of a port cannot drive a pin low: it only ever adds ones to the output
  register, so \<open>gpio_port_clear_bits\<close> leaves every bit that was set as it was, and it also sets the
  output bits of all pins outside the mask that read high.\<close>

theorem gpio_port_set_masked_never_clears:
  "OUT (gports (hw (snd (gpio_port_set_masked dev msk v s))) (base dev)) =
     OUT (gports (hw s) (base dev)) OR (msk AND (v XOR invert dev)) OR (PIN (gports (hw s) (base dev)) AND NOT msk) \<and>
   OUT (gports (hw s) (base dev)) AND OUT (gports (hw (snd (gpio_port_clear_bits dev pins s))) (base dev)) =
     OUT (gports (hw s) (base dev))"
  by (auto intro!: bit_word_eqI simp: gpio_port_set_masked_def gpio_port_set_masked_raw_def gpio_port_clear_bits_def on_hw_def
    gpio_wch_port_set_masked_raw_def hal_gpio_pins_set_def hal_gpio_port_get_def Let_def bit_simps or.assoc)

text \<open>Configuring a pin as an output that starts low drives it high, and one that starts high drives it
  low: the driver has the two cases the wrong way round.  The pin does become a push-pull output.\<close>

theorem gpio_pin_configure_initial_level:
  assumes "pin < 32"
  shows "(\<exists>dev' s'. gpio_pin_configure dev pin (GPIO_OUTPUT OR GPIO_OUTPUT_INIT_LOW) s = (0, dev', s') \<and>
      bit (OUT (gports (hw s') (base dev))) pin \<and>
      pin_mode (gports (hw s') (base dev)) pin = Some GPIO_MODE_OUT_PP_5MA) \<and>
    (\<exists>dev' s'. gpio_pin_configure dev pin (GPIO_OUTPUT OR GPIO_OUTPUT_INIT_HIGH) s = (0, dev', s') \<and>
      \<not> bit (OUT (gports (hw s') (base dev))) pin \<and>
      pin_mode (gports (hw s') (base dev)) pin = Some GPIO_MODE_OUT_PP_5MA)"
  using assms
  by (simp add: gpio_pin_configure_def gpio_flags Let_def on_hw_def gpio_wch_pin_configure_def ASSERT_PIN_def
    gpio_wch_flags_to_cfg_def gpio_wch_port_set_bits_raw_def gpio_wch_port_clear_bits_raw_def
    hal_gpio_pins_set_def hal_gpio_pins_reset_def hal_gpio_mode_config_def pin_mode_def write_CLR_def bit_simps)

theorem gpio_pin_configure_initial_level_witness:
  "\<exists>dev' s'. gpio_pin_configure dev0 3 (GPIO_OUTPUT OR GPIO_OUTPUT_INIT_LOW) gpio_state0 = (0, dev', s') \<and>
     bit (OUT (gports (hw s') GPIO_A)) 3"
  using gpio_pin_configure_initial_level [of 3 dev0 gpio_state0] by (auto simp: dev0_def)

text \<open>\<open>pinctrl_configure_pins\<close> ends at the first analog pin with \<open>-ENOTSUP\<close>, although it has just switched the
  supported analog function on, because the case for analog pins runs on into the default; the pins after it
  are not configured.\<close>

theorem pinctrl_analog_is_refused:
  assumes "unat (drop_bit 5 (pinmux AND WCH_PORT_MSK)) < 2" and "pinmux AND WCH_ALT_MSK = 0"
    and "pinmux AND WCH_MODE_MSK = WCH_MODE_ANALOG" and "analog_perph (pinmux AND WCH_FUN_MSK) = Some b"
  shows "pinctrl_configure_pins (pinmux # pins) g =
    Some (- ENOTSUP, g\<lparr>R16_PIN_ANALOG_IE := R16_PIN_ANALOG_IE g OR b\<rparr>)"
proof -
  have "WCH_MODE_ANALOG \<noteq> WCH_MODE_IN" "WCH_MODE_ANALOG \<noteq> WCH_MODE_OUT"
    by (simp_all add: WCH_MODE_ANALOG_def WCH_MODE_IN_def WCH_MODE_OUT_def)
  with assms show ?thesis
    by (simp add: pinctrl_pin_def Let_def hal_gpio_analog_enable_def)
qed

theorem pinctrl_analog_is_refused_witness:
  "\<forall>g. pinctrl_configure_pins [WCH_MODE_ANALOG OR WCH_FUN 7 OR 10] g =
     Some (- ENOTSUP, g\<lparr>R16_PIN_ANALOG_IE := R16_PIN_ANALOG_IE g OR 0x2000\<rparr>)"
proof
  fix g
  show "pinctrl_configure_pins [WCH_MODE_ANALOG OR WCH_FUN 7 OR 10] g =
     Some (- ENOTSUP, g\<lparr>R16_PIN_ANALOG_IE := R16_PIN_ANALOG_IE g OR 0x2000\<rparr>)"
    by (rule pinctrl_analog_is_refused)
       (simp_all add: WCH_MODE_ANALOG_def WCH_FUN_def WCH_PORT_MSK_def WCH_ALT_MSK_def WCH_MODE_MSK_def
         WCH_FUN_MSK_def analog_perph_def)
qed

end
