(* ===== verification/Uart_Driver.thy ===== *)
theory Uart_Driver
  imports Uart Gpio Irq
begin

text \<open>
  The driver \<^verbatim>\<open>drivers/uart/uart.c\<close> over the hardware layer of \<open>Uart\<close> and the pin control of \<open>Gpio\<close>.
  A device is the base address of its port, its configuration and the callback of its user; the build
  option \<open>CONFIG_WCH_UART_0\<close> is the argument \<open>uart0\<close> and \<open>fsys\<close> the system clock.
\<close>

section \<open>Configuration\<close>

record uart_config =
  baudrate :: u32
  parity :: u8
  stop_bits :: u8
  data_bits :: u8
  flow_ctrl :: u8

record uart_wch_config =
  uart :: addr
  uart_cfg :: uart_config
  pin_cfg :: "u32 list"

record uart_wch_data =
  callback :: addr
  cb_data :: addr

definition UART_CFG_PARITY_NONE :: u8 where "UART_CFG_PARITY_NONE = 0"
definition UART_CFG_PARITY_ODD :: u8 where "UART_CFG_PARITY_ODD = 1"
definition UART_CFG_PARITY_EVEN :: u8 where "UART_CFG_PARITY_EVEN = 2"
definition UART_CFG_PARITY_MARK :: u8 where "UART_CFG_PARITY_MARK = 3"
definition UART_CFG_PARITY_SPACE :: u8 where "UART_CFG_PARITY_SPACE = 4"
definition UART_CFG_STOP_BITS_0_5 :: u8 where "UART_CFG_STOP_BITS_0_5 = 0"
definition UART_CFG_STOP_BITS_1 :: u8 where "UART_CFG_STOP_BITS_1 = 1"
definition UART_CFG_STOP_BITS_1_5 :: u8 where "UART_CFG_STOP_BITS_1_5 = 2"
definition UART_CFG_STOP_BITS_2 :: u8 where "UART_CFG_STOP_BITS_2 = 3"
definition UART_CFG_DATA_BITS_5 :: u8 where "UART_CFG_DATA_BITS_5 = 0"
definition UART_CFG_DATA_BITS_6 :: u8 where "UART_CFG_DATA_BITS_6 = 1"
definition UART_CFG_DATA_BITS_7 :: u8 where "UART_CFG_DATA_BITS_7 = 2"
definition UART_CFG_DATA_BITS_8 :: u8 where "UART_CFG_DATA_BITS_8 = 3"
definition UART_CFG_DATA_BITS_9 :: u8 where "UART_CFG_DATA_BITS_9 = 4"

lemmas uart_consts = UART_PARITY_ODD_def UART_PARITY_EVEN_def UART_PARITY_MARK_def UART_PARITY_SPACE_def
  UART_STOP_BITS_1_def UART_STOP_BITS_2_def UART_DATA_5_BITS_def UART_DATA_6_BITS_def UART_DATA_7_BITS_def
  UART_DATA_8_BITS_def UART_CFG_PARITY_NONE_def UART_CFG_PARITY_ODD_def UART_CFG_PARITY_EVEN_def
  UART_CFG_PARITY_MARK_def UART_CFG_PARITY_SPACE_def UART_CFG_STOP_BITS_0_5_def UART_CFG_STOP_BITS_1_def
  UART_CFG_STOP_BITS_1_5_def UART_CFG_STOP_BITS_2_def UART_CFG_DATA_BITS_5_def UART_CFG_DATA_BITS_6_def
  UART_CFG_DATA_BITS_7_def UART_CFG_DATA_BITS_8_def UART_CFG_DATA_BITS_9_def RB_LCR_PAR_EN_def

definition uart_wch_set_pairty :: "addr \<Rightarrow> u8 \<Rightarrow> uarts \<Rightarrow> int \<times> uarts" where
  "uart_wch_set_pairty p pairty u =
     (if pairty = UART_CFG_PARITY_NONE then (0, hal_uart_pairty_disable p u)
      else if pairty = UART_CFG_PARITY_ODD then (0, hal_uart_pairty_set p UART_PARITY_ODD u)
      else if pairty = UART_CFG_PARITY_EVEN then (0, hal_uart_pairty_set p UART_PARITY_EVEN u)
      else if pairty = UART_CFG_PARITY_MARK then (0, hal_uart_pairty_set p UART_PARITY_MARK u)
      else if pairty = UART_CFG_PARITY_SPACE then (0, hal_uart_pairty_set p UART_PARITY_SPACE u)
      else (- EINVAL, u))"

text \<open>The getters: \<open>Inl\<close> is the error, \<open>Inr\<close> the value stored through the pointer.\<close>

definition uart_wch_get_pairty :: "addr \<Rightarrow> uarts \<Rightarrow> int + u8" where
  "uart_wch_get_pairty p u =
     (if hal_uart_pairty_is_enabled p u = 0 then Inr UART_CFG_PARITY_NONE
      else
        let hal_pairty = hal_uart_pairty_get p u
        in if hal_pairty = UART_PARITY_ODD then Inr UART_CFG_PARITY_ODD
           else if hal_pairty = UART_PARITY_EVEN then Inr UART_CFG_PARITY_EVEN
           else if hal_pairty = UART_PARITY_MARK then Inr UART_CFG_PARITY_MARK
           else if hal_pairty = UART_PARITY_SPACE then Inr UART_CFG_PARITY_SPACE
           else Inl (- EINVAL))"

definition uart_wch_set_stop_bits :: "addr \<Rightarrow> u8 \<Rightarrow> uarts \<Rightarrow> int \<times> uarts" where
  "uart_wch_set_stop_bits p sb u =
     (if sb = UART_CFG_STOP_BITS_1 then (0, hal_uart_stop_bit_set p UART_STOP_BITS_1 u)
      else if sb = UART_CFG_STOP_BITS_2 then (0, hal_uart_stop_bit_set p UART_STOP_BITS_2 u)
      else if sb = UART_CFG_STOP_BITS_0_5 \<or> sb = UART_CFG_STOP_BITS_1_5 then (- ENOTSUP, u)
      else (- EINVAL, u))"

definition uart_wch_get_stop_bits :: "addr \<Rightarrow> uarts \<Rightarrow> int + u8" where
  "uart_wch_get_stop_bits p u =
     (let hal_stop_bits = hal_uart_stop_bit_get p u
      in if hal_stop_bits = UART_STOP_BITS_1 then Inr UART_CFG_STOP_BITS_1
         else if hal_stop_bits = UART_STOP_BITS_2 then Inr UART_CFG_STOP_BITS_2
         else Inl (- EINVAL))"

definition uart_wch_set_data_bits :: "addr \<Rightarrow> u8 \<Rightarrow> uarts \<Rightarrow> int \<times> uarts" where
  "uart_wch_set_data_bits p db u =
     (if db = UART_CFG_DATA_BITS_5 then (0, hal_uart_word_size_set p UART_DATA_5_BITS u)
      else if db = UART_CFG_DATA_BITS_6 then (0, hal_uart_word_size_set p UART_DATA_6_BITS u)
      else if db = UART_CFG_DATA_BITS_7 then (0, hal_uart_word_size_set p UART_DATA_7_BITS u)
      else if db = UART_CFG_DATA_BITS_8 then (0, hal_uart_word_size_set p UART_DATA_8_BITS u)
      else if db = UART_CFG_DATA_BITS_9 then (- ENOSYS, u)
      else (- EINVAL, u))"

definition uart_wch_get_data_bits :: "addr \<Rightarrow> uarts \<Rightarrow> int + u8" where
  "uart_wch_get_data_bits p u =
     (let hal_data_bits = hal_uart_word_size_get p u
      in if hal_data_bits = UART_DATA_5_BITS then Inr UART_CFG_DATA_BITS_5
         else if hal_data_bits = UART_DATA_6_BITS then Inr UART_CFG_DATA_BITS_6
         else if hal_data_bits = UART_DATA_7_BITS then Inr UART_CFG_DATA_BITS_6
         else if hal_data_bits = UART_DATA_8_BITS then Inr UART_CFG_DATA_BITS_6
         else Inl (- EINVAL))"

definition uart_wch_set_flow_ctrl :: "bool \<Rightarrow> addr \<Rightarrow> u8 \<Rightarrow> uarts \<Rightarrow> int \<times> uarts" where
  "uart_wch_set_flow_ctrl uart0 p fc u =
     (if uart0 then
        if p \<noteq> UART0 then (- ENOTSUP, u)
        else if fc \<noteq> 0 then
          (0, hal_uart0_modem_rst_set_low (hal_uart0_modem_rts_enable (hal_uart0_modem_autoflow_enable u)))
        else
          (0, hal_uart0_modem_rts_disable (hal_uart0_modem_rst_set_high (hal_uart0_modem_autoflow_disable u)))
      else (- ENOTSUP, u))"

definition uart_wch_get_flow_ctrl :: "bool \<Rightarrow> addr \<Rightarrow> uarts \<Rightarrow> int + u8" where
  "uart_wch_get_flow_ctrl uart0 p u =
     (if uart0 then Inr (of_bool (hal_uart0_modem_autoflow_is_enabled u \<noteq> 0)) else Inl (- ENOTSUP))"

section \<open>Polling\<close>

definition UART_LINE_DATA_RDY :: u8 where "UART_LINE_DATA_RDY = 0x01"
definition UART_LINT_FIFO_OVERFLOW :: u8 where "UART_LINT_FIFO_OVERFLOW = 0x02"
definition UART_LINE_PAR_ERR :: u8 where "UART_LINE_PAR_ERR = 0x04"
definition UART_LINE_FRAME_ERR :: u8 where "UART_LINE_FRAME_ERR = 0x08"
definition UART_LINE_BREAK_ERR :: u8 where "UART_LINE_BREAK_ERR = 0x10"
definition UART_LINE_TX_ALL_EMP :: u8 where "UART_LINE_TX_ALL_EMP = 0x40"

definition uart_wch_poll_in :: "addr \<Rightarrow> uarts \<Rightarrow> int \<times> u8 option \<times> uarts" where
  "uart_wch_poll_in p u =
     (if hal_uart_get_line_state p u AND UART_LINE_DATA_RDY = 0 then (- 1, None, u)
      else let (c, u) = hal_uart_rx p u in (0, Some c, u))"

partial_function (option) poll_out_wait :: "(uarts \<Rightarrow> uarts) \<Rightarrow> addr \<Rightarrow> uarts \<Rightarrow> uarts option" where
  "poll_out_wait io p u =
     (let u = io u
      in if hal_uart_get_line_state p u AND UART_LINE_TX_ALL_EMP = 0 then poll_out_wait io p u else Some u)"

definition uart_wch_poll_out :: "(uarts \<Rightarrow> uarts) \<Rightarrow> addr \<Rightarrow> u8 \<Rightarrow> uarts \<Rightarrow> uarts option" where
  "uart_wch_poll_out io p c u = map_option (hal_uart_tx p c) (poll_out_wait io p u)"

definition uart_wch_err_check :: "addr \<Rightarrow> uarts \<Rightarrow> int" where
  "uart_wch_err_check p u =
     (let status = hal_uart_get_line_state p u;
          err = 0;
          err = (if status AND UART_LINT_FIFO_OVERFLOW \<noteq> 0 then err OR 1 else err);
          err = (if status AND UART_LINE_PAR_ERR \<noteq> 0 then err OR 2 else err);
          err = (if status AND UART_LINE_FRAME_ERR \<noteq> 0 then err OR 4 else err)
      in if status AND UART_LINE_BREAK_ERR \<noteq> 0 then err OR 8 else err)"

section \<open>Configuring\<close>

definition uart_wch_configure :: "u32 \<Rightarrow> bool \<Rightarrow> addr \<Rightarrow> uart_config \<Rightarrow> uarts \<Rightarrow> (int \<times> uarts) option" where
  "uart_wch_configure fsys uart0 p cfg u =
     (if baudrate cfg = 0 then Some (- EINVAL, u)
      else case hal_uart_baudrate_set fsys p (baudrate cfg) u of
        None \<Rightarrow> None
      | Some u \<Rightarrow> Some (
          let (err, u) = uart_wch_set_pairty p (parity cfg) u
          in if err \<noteq> 0 then (err, u)
             else
               let (err, u) = uart_wch_set_data_bits p (data_bits cfg) u
               in if err \<noteq> 0 then (err, u)
                  else
                    let (err, u) = uart_wch_set_stop_bits p (stop_bits cfg) u
                    in if err \<noteq> 0 then (err, u)
                       else
                         let (err, u) = uart_wch_set_flow_ctrl uart0 p (data_bits cfg) u
                         in if err \<noteq> 0 then (err, u) else (0, u)))"

definition uart_wch_configure_get :: "u32 \<Rightarrow> bool \<Rightarrow> addr \<Rightarrow> uarts \<Rightarrow> (int + uart_config) option" where
  "uart_wch_configure_get fsys uart0 p u =
     (case uart_wch_get_data_bits p u of
        Inl err \<Rightarrow> Some (Inl err)
      | Inr db \<Rightarrow>
          (case uart_wch_get_pairty p u of
             Inl err \<Rightarrow> Some (Inl err)
           | Inr py \<Rightarrow>
               (case uart_wch_get_stop_bits p u of
                  Inl err \<Rightarrow> Some (Inl err)
                | Inr sb \<Rightarrow>
                    (case uart_wch_get_flow_ctrl uart0 p u of
                       Inl err \<Rightarrow> Some (Inl err)
                     | Inr fc \<Rightarrow>
                         map_option (\<lambda>br. Inr \<lparr>baudrate = br, parity = py, stop_bits = sb, data_bits = db, flow_ctrl = fc\<rparr>)
                           (hal_uart_baudrate_get fsys p u)))))"

text \<open>Initialisation: the pins, the defaults of the hardware layer, then the configuration of the device;
  flow control only when it is asked for.  With interrupts supported (\<open>intr\<close>) the device's function for its interrupt,
  which the macro \<open>UART_INIT\<close> defines, enables the line \<open>irq\<close> of the port in the interrupt controller at the end.\<close>

definition uart_wch_irq_cfg_func :: "u32 \<Rightarrow> PFIC_Type \<Rightarrow> PFIC_Type option" where
  "uart_wch_irq_cfg_func irq k = arch_irq_enable irq k"

definition uart_wch_init ::
  "u32 \<Rightarrow> bool \<Rightarrow> bool \<Rightarrow> u32 \<Rightarrow> uart_wch_config \<Rightarrow> gpio_hw \<Rightarrow> uarts \<Rightarrow> PFIC_Type \<Rightarrow>
   (int \<times> gpio_hw \<times> uarts \<times> PFIC_Type) option" where
  "uart_wch_init fsys uart0 intr irq cfg g u k =
     (case pinctrl_configure_pins (pin_cfg cfg) g of
        None \<Rightarrow> None
      | Some (_, g) \<Rightarrow>
          (case hal_uart_definit fsys (uart cfg) u of
             None \<Rightarrow> None
           | Some u \<Rightarrow>
               if baudrate (uart_cfg cfg) = 0 then Some (- EINVAL, g, u, k)
               else case hal_uart_baudrate_set fsys (uart cfg) (baudrate (uart_cfg cfg)) u of
                 None \<Rightarrow> None
               | Some u \<Rightarrow>
                   let (err, u) = uart_wch_set_pairty (uart cfg) (parity (uart_cfg cfg)) u
                   in if err \<noteq> 0 then Some (err, g, u, k)
                      else
                        let (err, u) = uart_wch_set_data_bits (uart cfg) (data_bits (uart_cfg cfg)) u
                        in if err \<noteq> 0 then Some (err, g, u, k)
                           else
                             let (err, u) = uart_wch_set_stop_bits (uart cfg) (stop_bits (uart_cfg cfg)) u
                             in if err \<noteq> 0 then Some (err, g, u, k)
                                else
                                  let (err, u) =
                                    (if flow_ctrl (uart_cfg cfg) \<noteq> 0
                                     then uart_wch_set_flow_ctrl uart0 (uart cfg) (flow_ctrl (uart_cfg cfg)) u else (0, u))
                                  in if err \<noteq> 0 then Some (err, g, u, k)
                                     else if intr then map_option (\<lambda>k. (0, g, u, k)) (uart_wch_irq_cfg_func irq k)
                                     else Some (0, g, u, k)))"

section \<open>Interrupt driven operation\<close>

definition uart_wch_fifo_fill :: "(uarts \<Rightarrow> uarts) \<Rightarrow> addr \<Rightarrow> u8 list \<Rightarrow> uarts \<Rightarrow> (nat \<times> uarts) option" where
  "uart_wch_fifo_fill io p tx_data u = hal_uart_fifo_tx io p tx_data u"

text \<open>
  The loop of \<open>uart_wch_fifo_read\<close>: it asks for more as long as the 8-bit counter is below the size of the
  buffer.  \<open>acc\<close> holds the bytes in the order they are stored; from the offset \<open>num_rx\<close> on they overwrite
  what is there when the counter has wrapped.
\<close>

definition store_at :: "u8 list \<Rightarrow> nat \<Rightarrow> u8 list \<Rightarrow> u8 list" where
  "store_at acc n bs = take n acc @ bs @ drop (n + length bs) acc"

partial_function (option) fifo_read_loop ::
    "(uarts \<Rightarrow> uarts) \<Rightarrow> addr \<Rightarrow> int \<Rightarrow> u8 \<Rightarrow> u8 list \<Rightarrow> uarts \<Rightarrow> (u8 \<times> u8 list \<times> uarts) option" where
  "fifo_read_loop io p sz num_rx acc u =
     (if sz - uint num_rx > 0 then
        case hal_uart_fifo_rx io p u of
          None \<Rightarrow> None
        | Some (bs, n, u) \<Rightarrow> fifo_read_loop io p sz (num_rx + n) (store_at acc (unat num_rx) bs) u
      else Some (num_rx, acc, u))"

definition uart_wch_fifo_read :: "(uarts \<Rightarrow> uarts) \<Rightarrow> addr \<Rightarrow> int \<Rightarrow> uarts \<Rightarrow> (u8 \<times> u8 list \<times> uarts) option" where
  "uart_wch_fifo_read io p sz u = fifo_read_loop io p sz 0 [] u"

definition uart_wch_irq_tx_enable :: "addr \<Rightarrow> uarts \<Rightarrow> uarts" where
  "uart_wch_irq_tx_enable p u = hal_uart_interrupt_enable p UART_INT_THR_ENMPTY u"

definition uart_wch_irq_tx_disable :: "addr \<Rightarrow> uarts \<Rightarrow> uarts" where
  "uart_wch_irq_tx_disable p u = hal_uart_interrupt_disable p UART_INT_THR_ENMPTY u"

definition uart_wch_irq_rx_enable :: "addr \<Rightarrow> uarts \<Rightarrow> uarts" where
  "uart_wch_irq_rx_enable p u = hal_uart_interrupt_enable p UART_INT_RCV_RDY u"

definition uart_wch_irq_rx_disable :: "addr \<Rightarrow> uarts \<Rightarrow> uarts" where
  "uart_wch_irq_rx_disable p u = hal_uart_interrupt_disable p UART_INT_RCV_RDY u"

definition UART_INT_FLAG_THR_EMPTY :: u8 where "UART_INT_FLAG_THR_EMPTY = 2"
definition UART_INT_FALG_RCV_RDY :: u8 where "UART_INT_FALG_RCV_RDY = 0x04"
definition UART_INT_FLAG_LINE_STAT :: u8 where "UART_INT_FLAG_LINE_STAT = 0x06"
definition UART_INT_FLAG_RCV_TIMEOUT :: u8 where "UART_INT_FLAG_RCV_TIMEOUT = 0x0C"

definition uart_wch_irq_tx_complete :: "addr \<Rightarrow> uarts \<Rightarrow> int" where
  "uart_wch_irq_tx_complete p u = uint (hal_uart_get_int_flag p u AND UART_INT_FLAG_THR_EMPTY)"

definition uart_wch_irq_tx_ready :: "addr \<Rightarrow> uarts \<Rightarrow> bool" where
  "uart_wch_irq_tx_ready p u \<longleftrightarrow>
     hal_uart_get_int_flag p u AND UART_INT_FLAG_THR_EMPTY \<noteq> 0 \<and> hal_uart_interrupt_is_enabled p UART_INT_THR_ENMPTY u"

definition uart_wch_irq_rx_ready :: "addr \<Rightarrow> uarts \<Rightarrow> bool" where
  "uart_wch_irq_rx_ready p u = hal_uart_interrupt_is_enabled p UART_INT_RCV_RDY u"

definition uart_wch_irq_err_enable :: "addr \<Rightarrow> uarts \<Rightarrow> uarts" where
  "uart_wch_irq_err_enable p u = hal_uart_interrupt_enable p UART_INT_LINE_STAT u"

definition uart_wch_irq_err_disable :: "addr \<Rightarrow> uarts \<Rightarrow> uarts" where
  "uart_wch_irq_err_disable p u = hal_uart_interrupt_disable p UART_INT_LINE_STAT u"

definition uart_wch_irq_is_pending :: "bool \<Rightarrow> addr \<Rightarrow> uarts \<Rightarrow> bool" where
  "uart_wch_irq_is_pending uart0 p u =
     (let flag = hal_uart_get_int_flag p u
      in if hal_uart_interrupt_is_enabled p UART_INT_RCV_RDY u \<and>
            (flag = UART_INT_FALG_RCV_RDY \<or> flag = UART_INT_FLAG_RCV_TIMEOUT) then True
         else if hal_uart_interrupt_is_enabled p UART_INT_THR_ENMPTY u \<and> flag = UART_INT_FLAG_LINE_STAT then True
         else uart0 \<and> hal_uart_interrupt_is_enabled p UART_INT_MODEM_CHG u \<and> flag = UART_INT_FLAG_LINE_STAT)"

definition uart_wch_irq_update :: int where
  "uart_wch_irq_update = 1"

definition uart_wch_irq_callback_set :: "addr \<Rightarrow> addr \<Rightarrow> uart_wch_data \<Rightarrow> uart_wch_data" where
  "uart_wch_irq_callback_set cb cbd d = d\<lparr>callback := cb, cb_data := cbd\<rparr>"

text \<open>The interrupt handler calls the callback, if there is one; \<open>run\<close> is what the callback does.\<close>

definition uart_isr_handler :: "(addr \<Rightarrow> addr \<Rightarrow> uarts \<Rightarrow> uarts) \<Rightarrow> uart_wch_data \<Rightarrow> uarts \<Rightarrow> uarts" where
  "uart_isr_handler run d u = (if callback d \<noteq> NULL then run (callback d) (cb_data d) u else u)"

section \<open>Sending\<close>

lemma reg_upd_same [simp]: "reg_upd p f u p = f (u p)"
  by (simp add: reg_upd_def)

lemma reg_upd_other [simp]: "q \<noteq> p \<Longrightarrow> reg_upd p f u q = u q"
  by (simp add: reg_upd_def)

text \<open>
  The port as an environment of the sending loop.  \<open>sent u\<close> are the bytes that have left the port on the line: it
  sends bytes out of the queue at the front only, and a full queue does not stay full forever.
\<close>

locale uart_drain =
  fixes io :: "uarts \<Rightarrow> uarts" and p :: addr and sent :: "uarts \<Rightarrow> u8 list"
  assumes sends_front: "\<exists>k. tx_fifo (io u p) = drop k (tx_fifo (u p)) \<and> sent (io u) = sent u @ take k (tx_fifo (u p))"
    and queued: "sent (hal_uart_tx p c u) = sent u"
    and drains: "\<exists>n. length (tx_fifo ((io ^^ n) u p)) < UART_FIFO_SIZE"
begin

lemma takes_front: "\<exists>k. tx_fifo (io u p) = drop k (tx_fifo (u p))"
  using sends_front by blast

lemma stream: "sent ((io ^^ n) u) @ tx_fifo ((io ^^ n) u p) = sent u @ tx_fifo (u p)"
proof (induction n)
  case (Suc n)
  obtain k where "tx_fifo (io ((io ^^ n) u) p) = drop k (tx_fifo ((io ^^ n) u p))"
    "sent (io ((io ^^ n) u)) = sent ((io ^^ n) u) @ take k (tx_fifo ((io ^^ n) u p))" using sends_front by blast
  with Suc show ?case by simp
qed simp

lemma len_not_full:
  "length (tx_fifo (u p)) \<le> 8 \<Longrightarrow>
   hal_uart_get_tx_fifo_len p u \<noteq> of_nat UART_FIFO_SIZE \<longleftrightarrow> length (tx_fifo (u p)) < 8"
proof -
  assume l: "length (tx_fifo (u p)) \<le> 8"
  have "(of_nat n :: u8) = 8 \<longleftrightarrow> n = 8" if "n \<le> 8" for n
  proof -
    have "unat (of_nat n :: u8) = n" using that by (simp add: unat_of_nat)
    then show ?thesis by (simp add: word_unat_eq_iff)
  qed
  from this [OF l] l show ?thesis
    by (auto simp: hal_uart_get_tx_fifo_len_def UART_FIFO_SIZE_def)
qed

text \<open>The loop gets past a full queue.\<close>

lemma loop_waits:
  assumes "length (tx_fifo ((io ^^ n) u p)) < 8" and "length (tx_fifo (u p)) \<le> 8"
  shows "\<exists>m. length (tx_fifo ((io ^^ Suc m) u p)) < 8 \<and>
    fifo_tx_loop io p (b # bs) u = fifo_tx_loop io p bs (hal_uart_tx p b ((io ^^ Suc m) u))"
  using assms
proof (induction n arbitrary: u)
  case 0
  obtain k where "tx_fifo (io u p) = drop k (tx_fifo (u p))" using takes_front by blast
  with 0 have l: "length (tx_fifo (io u p)) < 8" by simp
  with len_not_full [of "io u"] show ?case
    by (intro exI [of _ 0] conjI; (subst fifo_tx_loop.simps)?) (simp_all add: Let_def)
next
  case (Suc n)
  obtain k where "tx_fifo (io u p) = drop k (tx_fifo (u p))" using takes_front by blast
  with Suc.prems(2) have l: "length (tx_fifo (io u p)) \<le> 8" by simp
  show ?case
  proof (cases "length (tx_fifo (io u p)) < 8")
    case True
    with len_not_full [of "io u"] l show ?thesis
      by (intro exI [of _ 0] conjI; (subst fifo_tx_loop.simps)?) (simp_all add: Let_def)
  next
    case False
    have "length (tx_fifo ((io ^^ n) (io u) p)) < 8"
      using Suc.prems(1) by (simp add: funpow_swap1)
    from Suc.IH [of "io u", OF this l] obtain m where m: "length (tx_fifo ((io ^^ Suc m) (io u) p)) < 8"
      "fifo_tx_loop io p (b # bs) (io u) = fifo_tx_loop io p bs (hal_uart_tx p b ((io ^^ Suc m) (io u)))" by blast
    have "fifo_tx_loop io p (b # bs) u = fifo_tx_loop io p (b # bs) (io u)"
      using False l len_not_full [of "io u"] by (subst fifo_tx_loop.simps) (simp add: Let_def)
    with m show ?thesis by (intro exI [of _ "Suc m"]) (simp add: funpow_swap1)
  qed
qed

lemma fifo_tx_sends:
  "length (tx_fifo (u p)) \<le> 8 \<Longrightarrow>
   \<exists>u'. fifo_tx_loop io p bs u = Some u' \<and> sent u' @ tx_fifo (u' p) = sent u @ tx_fifo (u p) @ bs \<and> length (tx_fifo (u' p)) \<le> 8"
proof (induction bs arbitrary: u)
  case Nil
  then show ?case by (subst fifo_tx_loop.simps) auto
next
  case (Cons b bs)
  obtain n where "length (tx_fifo ((io ^^ n) u p)) < 8" using drains by (auto simp: UART_FIFO_SIZE_def)
  from loop_waits [of n u, OF this Cons.prems] obtain m where m: "length (tx_fifo ((io ^^ Suc m) u p)) < 8"
    "fifo_tx_loop io p (b # bs) u = fifo_tx_loop io p bs (hal_uart_tx p b ((io ^^ Suc m) u))" by blast
  let ?v = "(io ^^ Suc m) u"
  let ?u = "hal_uart_tx p b ?v"
  have q: "tx_fifo (?u p) = tx_fifo (?v p) @ [b]" by (simp add: hal_uart_tx_def)
  have "length (tx_fifo (?u p)) \<le> 8" using m(1) q by simp
  from Cons.IH [of ?u, OF this] obtain u' where u': "fifo_tx_loop io p bs ?u = Some u'"
    "sent u' @ tx_fifo (u' p) = sent ?v @ tx_fifo (?u p) @ bs" "length (tx_fifo (u' p)) \<le> 8" by (auto simp: queued)
  have "sent u' @ tx_fifo (u' p) = (sent ?v @ tx_fifo (?v p)) @ b # bs" using u'(2) unfolding q by simp
  then have "sent u' @ tx_fifo (u' p) = sent u @ tx_fifo (u p) @ b # bs" by (simp only: stream append_assoc)
  moreover have "fifo_tx_loop io p (b # bs) u = Some u'" using u'(1) m(2) by simp
  ultimately show ?case using u'(3) by blast
qed

end

text \<open>A line that ends in the receiver of another port: one byte is transferred at a time.\<close>

definition wire_step :: "addr \<Rightarrow> addr \<Rightarrow> uarts \<Rightarrow> uarts" where
  "wire_step p q u =
     (let rest = tl (tx_fifo (u p))
      in reg_upd p (\<lambda>r. r\<lparr>tx_fifo := rest, LSR := (if rest = [] then UART_LINE_TX_ALL_EMP else 0)\<rparr>)
           (reg_upd q (\<lambda>r. r\<lparr>rx_fifo := rx_fifo r @ take 1 (tx_fifo (u p))\<rparr>) u))"

lemma wire_step_queue: "p \<noteq> q \<Longrightarrow> tx_fifo ((wire_step p q ^^ n) u p) = drop n (tx_fifo (u p))"
  by (induction n) (simp_all add: wire_step_def Let_def tl_drop drop_Suc)

interpretation shift_out: uart_drain "wire_step UART1 UART2" UART1 "\<lambda>u. rx_fifo (u UART2)"
proof unfold_locales
  have ne: "UART1 \<noteq> UART2" by (simp add: UART1_def UART2_def)
  show "\<exists>k. tx_fifo (wire_step UART1 UART2 u UART1) = drop k (tx_fifo (u UART1)) \<and>
      rx_fifo (wire_step UART1 UART2 u UART2) = rx_fifo (u UART2) @ take k (tx_fifo (u UART1))" for u
    using ne by (intro exI [of _ 1]) (simp add: wire_step_def Let_def drop_Suc)
  show "rx_fifo (hal_uart_tx UART1 c u UART2) = rx_fifo (u UART2)" for c u
    using ne by (simp add: hal_uart_tx_def)
  show "\<exists>n. length (tx_fifo ((wire_step UART1 UART2 ^^ n) u UART1)) < UART_FIFO_SIZE" for u
    by (intro exI [of _ "length (tx_fifo (u UART1))"]) (simp add: wire_step_queue [OF ne] UART_FIFO_SIZE_def)
qed

text \<open>C34: \<open>uart_wch_fifo_fill\<close> sends the whole buffer.  If the port sends bytes from the front of its queue and a full queue
  does not stay full, the call returns, reports the size of the buffer and never overfills the 8 byte queue, and the bytes
  sent on the line followed by those still in the queue are what was sent and queued before followed by exactly the buffer,
  so that no byte is lost, repeated, invented or reordered.\<close>

theorem uart_wch_fifo_fill_sends:
  assumes "\<And>v. \<exists>k. tx_fifo (io v p) = drop k (tx_fifo (v p)) \<and> sent (io v) = sent v @ take k (tx_fifo (v p))"
    and "\<And>c v. sent (hal_uart_tx p c v) = sent v"
    and "\<And>v. \<exists>n. length (tx_fifo ((io ^^ n) v p)) < UART_FIFO_SIZE"
    and "length (tx_fifo (u p)) \<le> UART_FIFO_SIZE"
  shows "\<exists>u'. uart_wch_fifo_fill io p tx_data u = Some (length tx_data, u') \<and>
    sent u' @ tx_fifo (u' p) = sent u @ tx_fifo (u p) @ tx_data \<and> length (tx_fifo (u' p)) \<le> UART_FIFO_SIZE"
proof -
  have "uart_drain io p sent" using assms(1-3) by (rule uart_drain.intro)
  from uart_drain.fifo_tx_sends [OF this, of u tx_data] assms(4) show ?thesis
    by (auto simp: uart_wch_fifo_fill_def hal_uart_fifo_tx_def UART_FIFO_SIZE_def)
qed

text \<open>The ports as reset leaves them, with the clock divider at 1.\<close>

definition uarts_reset :: uarts where
  "uarts_reset = (\<lambda>_. \<lparr>MCR = 0, IER = 0, FCR = 0, LCR = 0, IIR = 1, LSR = 0x60, MSR = 0, RBR = 0,
     rx_fifo = [], tx_fifo = [], DL = 0, DIV = 1, ADR = 0xFF\<rparr>)"

theorem uart_wch_fifo_fill_sends_witness:
  "\<exists>u'. uart_wch_fifo_fill (wire_step UART1 UART2) UART1 (map of_nat [0..<20]) uarts_reset = Some (20, u') \<and>
     rx_fifo (u' UART2) @ tx_fifo (u' UART1) = map of_nat [0..<20]"
proof -
  have short: "length (tx_fifo (uarts_reset UART1)) \<le> UART_FIFO_SIZE" by (simp add: uarts_reset_def)
  have "\<exists>u'. uart_wch_fifo_fill (wire_step UART1 UART2) UART1 (map of_nat [0..<20]) uarts_reset =
      Some (length (map of_nat [0..<20] :: u8 list), u') \<and>
    rx_fifo (u' UART2) @ tx_fifo (u' UART1) =
      rx_fifo (uarts_reset UART2) @ tx_fifo (uarts_reset UART1) @ map of_nat [0..<20] \<and>
    length (tx_fifo (u' UART1)) \<le> UART_FIFO_SIZE"
    by (rule uart_wch_fifo_fill_sends [where sent = "\<lambda>u. rx_fifo (u UART2)"])
      (fact shift_out.sends_front shift_out.queued shift_out.drains short)+
  then show ?thesis by (auto simp: uarts_reset_def simp del: upt.simps)
qed

section \<open>Reading a configuration back\<close>

lemmas lcr_defs = hal_uart_pairty_disable_def hal_uart_pairty_set_def hal_uart_pairty_get_def
  hal_uart_pairty_is_enabled_def hal_uart_stop_bit_set_def hal_uart_stop_bit_get_def
  hal_uart_word_size_set_def hal_uart_word_size_get_def Let_def

text \<open>A setter that succeeds stores its value and keeps the other fields of the line control register.\<close>

definition lcr_fields :: "addr \<Rightarrow> uarts \<Rightarrow> u8 \<times> u8 \<times> u8 \<times> u8" where
  "lcr_fields p u = (hal_uart_pairty_is_enabled p u, hal_uart_pairty_get p u, hal_uart_stop_bit_get p u, hal_uart_word_size_get p u)"

lemma lcr_pairty_disable:
  "lcr_fields p (hal_uart_pairty_disable p u) = (0, hal_uart_pairty_get p u, hal_uart_stop_bit_get p u, hal_uart_word_size_get p u)"
  unfolding lcr_fields_def prod.inject lcr_defs RB_LCR_PAR_EN_def
  by (intro conjI; rule bit_word_eqI) (auto simp: bit_simps numeral_eq_Suc less_Suc_eq)

lemma lcr_pairty_set:
  "md \<in> {0, 1, 2, 3} \<Longrightarrow> lcr_fields p (hal_uart_pairty_set p md u) = (8, md, hal_uart_stop_bit_get p u, hal_uart_word_size_get p u)"
  unfolding lcr_fields_def prod.inject lcr_defs RB_LCR_PAR_EN_def insert_iff empty_iff simp_thms
  by (elim disjE; intro conjI; rule bit_word_eqI) (auto simp: bit_simps numeral_eq_Suc less_Suc_eq)

lemma lcr_stop_set:
  "sb \<in> {0, 1} \<Longrightarrow> lcr_fields p (hal_uart_stop_bit_set p sb u) = (hal_uart_pairty_is_enabled p u, hal_uart_pairty_get p u, sb, hal_uart_word_size_get p u)"
  unfolding lcr_fields_def prod.inject lcr_defs RB_LCR_PAR_EN_def insert_iff empty_iff simp_thms
  by (elim disjE; intro conjI; rule bit_word_eqI) (auto simp: bit_simps numeral_eq_Suc less_Suc_eq)

lemma lcr_word_set:
  "db \<in> {0, 1, 2, 3} \<Longrightarrow> lcr_fields p (hal_uart_word_size_set p db u) = (hal_uart_pairty_is_enabled p u, hal_uart_pairty_get p u, hal_uart_stop_bit_get p u, db)"
  unfolding lcr_fields_def prod.inject lcr_defs RB_LCR_PAR_EN_def insert_iff empty_iff simp_thms
  by (elim disjE; intro conjI; rule bit_word_eqI) (auto simp: bit_simps numeral_eq_Suc less_Suc_eq)

lemma lcr_same: "LCR (u' p) = LCR (u p) \<Longrightarrow> lcr_fields p u' = lcr_fields p u"
  by (simp add: lcr_fields_def lcr_defs)

lemmas lcr_get = lcr_pairty_disable [unfolded lcr_fields_def prod.inject] lcr_pairty_set [unfolded lcr_fields_def prod.inject]
  lcr_stop_set [unfolded lcr_fields_def prod.inject] lcr_word_set [unfolded lcr_fields_def prod.inject]

lemma set_pairty_fields:
  "uart_wch_set_pairty p py u = (0, u') \<Longrightarrow>
   uart_wch_get_pairty p u' = Inr py \<and> hal_uart_stop_bit_get p u' = hal_uart_stop_bit_get p u
   \<and> hal_uart_word_size_get p u' = hal_uart_word_size_get p u"
  by (auto simp: uart_wch_set_pairty_def uart_wch_get_pairty_def uart_consts lcr_get EINVAL_def Let_def split: if_splits)

lemma set_stop_bits_fields:
  "uart_wch_set_stop_bits p sb u = (0, u') \<Longrightarrow>
   uart_wch_get_stop_bits p u' = Inr sb \<and> uart_wch_get_pairty p u' = uart_wch_get_pairty p u
   \<and> hal_uart_word_size_get p u' = hal_uart_word_size_get p u"
  by (auto simp: uart_wch_set_stop_bits_def uart_wch_get_stop_bits_def uart_wch_get_pairty_def uart_consts lcr_get
      EINVAL_def ENOTSUP_def Let_def split: if_splits)

lemma set_data_bits_fields:
  "uart_wch_set_data_bits p db u = (0, u') \<Longrightarrow>
   uart_wch_get_data_bits p u' = Inr (if db = UART_CFG_DATA_BITS_5 then UART_CFG_DATA_BITS_5 else UART_CFG_DATA_BITS_6)
   \<and> uart_wch_get_pairty p u' = uart_wch_get_pairty p u \<and> hal_uart_stop_bit_get p u' = hal_uart_stop_bit_get p u"
  by (auto simp: uart_wch_set_data_bits_def uart_wch_get_data_bits_def uart_wch_get_pairty_def uart_consts lcr_get
      EINVAL_def ENOSYS_def Let_def split: if_splits)

lemma set_flow_ctrl_lcr:
  "uart_wch_set_flow_ctrl uart0 p fc u = (err, u') \<Longrightarrow> LCR (u' q) = LCR (u q)"
  by (auto simp: uart_wch_set_flow_ctrl_def hal_uart0_modem_rst_set_low_def hal_uart0_modem_rts_enable_def
      hal_uart0_modem_autoflow_enable_def hal_uart0_modem_rts_disable_def hal_uart0_modem_rst_set_high_def
      hal_uart0_modem_autoflow_disable_def ier0_or_def ier0_and_not_def reg_upd_def split: if_splits)

lemma set_flow_ctrl_get:
  "uart_wch_set_flow_ctrl uart0 p fc u = (0, u') \<Longrightarrow>
   uart0 \<and> p = UART0 \<and> uart_wch_get_flow_ctrl uart0 p u' = Inr (of_bool (fc \<noteq> 0)) \<and>
   (IER (u' UART0) AND UART_INT_THR_ENMPTY \<noteq> 0 \<longleftrightarrow> fc \<noteq> 0)"
proof -
  assume a: "uart_wch_set_flow_ctrl uart0 p fc u = (0, u')"
  have b: "y AND 0x20 = 0 \<longleftrightarrow> \<not> bit y 5" "y AND 2 = 0 \<longleftrightarrow> \<not> bit y 1" for y :: u8
    using and_exp_eq_0_iff_not_bit [of y 5] and_exp_eq_0_iff_not_bit [of y 1] by simp_all
  have c: "bit (0x20 :: u8) 5" "bit (2 :: u8) 1" "\<not> bit (0x20 :: u8) 1" by simp_all
  from a show ?thesis
    by (auto simp: uart_wch_set_flow_ctrl_def uart_wch_get_flow_ctrl_def hal_uart0_modem_rst_set_low_def hal_uart0_modem_rts_enable_def
      hal_uart0_modem_autoflow_enable_def hal_uart0_modem_rts_disable_def hal_uart0_modem_rst_set_high_def hal_uart0_modem_autoflow_is_enabled_def
      hal_uart0_modem_autoflow_disable_def ier0_or_def ier0_and_not_def ENOTSUP_def UART_INT_THR_ENMPTY_def RB_MCR_AU_FLOW_EN_def
      RB_IER_RTS_EN_def RB_MCR_RTS_def b c bit_or_iff bit_and_iff bit_not_iff split: if_splits)
qed

text \<open>Initialising a port stores the parity, the stop bits and the word size that were asked for, as far as
  the getters can tell: parity and stop bits are read back as they were given; the word size is read
  back only when it is 5 or 6 bits, because \<open>uart_wch_get_data_bits\<close> answers 6 for 7 and 8 bits too.  The interrupt line
  of the port is enabled when the build supports interrupts.\<close>

theorem uart_wch_init_reads_back:
  assumes "uart_wch_init fsys uart0 intr irq cfg g u k = Some (0, g', u', k')"
  shows "uart_wch_get_pairty (uart cfg) u' = Inr (parity (uart_cfg cfg)) \<and>
    uart_wch_get_stop_bits (uart cfg) u' = Inr (stop_bits (uart_cfg cfg)) \<and>
    uart_wch_get_data_bits (uart cfg) u' =
      Inr (if data_bits (uart_cfg cfg) = UART_CFG_DATA_BITS_5 then UART_CFG_DATA_BITS_5 else UART_CFG_DATA_BITS_6) \<and>
    (if intr then arch_irq_enable irq k = Some k' else k' = k)"
proof -
  let ?p = "uart cfg" and ?c = "uart_cfg cfg"
  obtain u0 u1 u2 u3 where s: "uart_wch_set_pairty ?p (parity ?c) u0 = (0, u1)"
    "uart_wch_set_data_bits ?p (data_bits ?c) u1 = (0, u2)" "uart_wch_set_stop_bits ?p (stop_bits ?c) u2 = (0, u3)"
    "u' = u3 \<or> uart_wch_set_flow_ctrl uart0 ?p (flow_ctrl ?c) u3 = (0, u')"
    "if intr then arch_irq_enable irq k = Some k' else k' = k"
    using assms by (auto simp: uart_wch_init_def uart_wch_irq_cfg_func_def Let_def EINVAL_def split: option.splits if_splits prod.splits)
  from s(4) have "LCR (u' ?p) = LCR (u3 ?p)" using set_flow_ctrl_lcr by blast
  from lcr_same [of u' ?p u3, OF this] set_pairty_fields [OF s(1)] set_data_bits_fields [OF s(2)] set_stop_bits_fields [OF s(3)]
  show ?thesis using s(5)
    by (auto simp: lcr_fields_def uart_wch_get_pairty_def uart_wch_get_stop_bits_def uart_wch_get_data_bits_def)
qed

text \<open>The flow control that \<open>uart_wch_configure\<close> sets is decided by the word size, because it passes
  \<open>data_bits\<close> to \<open>uart_wch_set_flow_ctrl\<close>: a configuration can succeed only on UART0 of a build that has it,
  and then automatic flow control reads as on, and the transmit interrupt is enabled, exactly when the word size
  is not 5 bits, whatever \<open>flow_ctrl\<close> says.\<close>

theorem uart_wch_configure_flow_ctrl:
  assumes "uart_wch_configure fsys uart0 p cfg u = Some (0, u')"
  shows "uart0 \<and> p = UART0 \<and>
    uart_wch_get_flow_ctrl uart0 p u' = Inr (of_bool (data_bits cfg \<noteq> UART_CFG_DATA_BITS_5)) \<and>
    hal_uart_interrupt_is_enabled UART0 UART_INT_THR_ENMPTY u' = (data_bits cfg \<noteq> UART_CFG_DATA_BITS_5)"
proof -
  obtain u0 where "uart_wch_set_flow_ctrl uart0 p (data_bits cfg) u0 = (0, u')"
    using assms by (auto simp: uart_wch_configure_def Let_def EINVAL_def split: option.splits if_splits prod.splits)
  moreover have "UART_INT_THR_ENMPTY AND ucast (WCH_MASK 4) = UART_INT_THR_ENMPTY"
    by (simp add: UART_INT_THR_ENMPTY_def WCH_MASK_def)
  ultimately show ?thesis
    by (auto dest!: set_flow_ctrl_get simp: UART_CFG_DATA_BITS_5_def hal_uart_interrupt_is_enabled_def)
qed

definition uart_cfg_115200 :: uart_config where
  "uart_cfg_115200 = \<lparr>baudrate = 115200, parity = UART_CFG_PARITY_EVEN, stop_bits = UART_CFG_STOP_BITS_1,
     data_bits = UART_CFG_DATA_BITS_8, flow_ctrl = 0\<rparr>"

lemma uart_115200_configures: "\<exists>u'. uart_wch_configure 60000000 True UART0 uart_cfg_115200 uarts_reset = Some (0, u')"
  by (simp add: uart_wch_configure_def uart_cfg_115200_def hal_uart_baudrate_set_def uarts_reset_def Let_def
      uart_wch_set_pairty_def uart_wch_set_data_bits_def uart_wch_set_stop_bits_def uart_wch_set_flow_ctrl_def uart_consts)

theorem uart_wch_configure_flow_ctrl_witness:
  "\<exists>u'. uart_wch_configure 60000000 True UART0 uart_cfg_115200 uarts_reset = Some (0, u') \<and>
    uart_wch_get_flow_ctrl True UART0 u' = Inr 1"
  using uart_115200_configures uart_wch_configure_flow_ctrl [of 60000000 True UART0 uart_cfg_115200 uarts_reset]
  by (auto simp: uart_cfg_115200_def uart_consts)

lemma uart_115200_init: "\<exists>u'. uart_wch_init 60000000 True False 0 \<lparr>uart = UART1, uart_cfg = uart_cfg_115200, pin_cfg = []\<rparr> g uarts_reset k = Some (0, g, u', k)"
  by (simp add: uart_wch_init_def uart_cfg_115200_def hal_uart_definit_def hal_uart_baudrate_set_def hal_uart_reset_def uarts_reset_def Let_def
      hal_uart_pairty_disable_def hal_uart_stop_bit_set_def hal_uart_word_size_set_def hal_uart_fifo_cfg_def hal_uart_rx_fifo_trig_def
      hal_uart_tx_enable_def hal_uart_frequency_div_def WCH_MASK_def pinctrl_configure_pins.simps
      uart_wch_set_pairty_def uart_wch_set_data_bits_def uart_wch_set_stop_bits_def uart_wch_set_flow_ctrl_def uart_consts)

theorem uart_wch_init_reads_back_witness:
  "\<forall>g k. \<exists>u'. uart_wch_init 60000000 True False 0 \<lparr>uart = UART1, uart_cfg = uart_cfg_115200, pin_cfg = []\<rparr> g uarts_reset k = Some (0, g, u', k) \<and>
    uart_wch_get_pairty UART1 u' = Inr UART_CFG_PARITY_EVEN \<and> uart_wch_get_data_bits UART1 u' = Inr UART_CFG_DATA_BITS_6"
proof (intro allI)
  fix g k
  obtain u' where "uart_wch_init 60000000 True False 0 \<lparr>uart = UART1, uart_cfg = uart_cfg_115200, pin_cfg = []\<rparr> g uarts_reset k = Some (0, g, u', k)"
    using uart_115200_init by blast
  from this uart_wch_init_reads_back [OF this] show "\<exists>u'. uart_wch_init 60000000 True False 0 \<lparr>uart = UART1, uart_cfg = uart_cfg_115200, pin_cfg = []\<rparr> g uarts_reset k = Some (0, g, u', k) \<and>
    uart_wch_get_pairty UART1 u' = Inr UART_CFG_PARITY_EVEN \<and> uart_wch_get_data_bits UART1 u' = Inr UART_CFG_DATA_BITS_6"
    by (auto simp: uart_cfg_115200_def uart_consts)
qed

end
