(* ===== verification/Time_Units.thy ===== *)
theory Time_Units
  imports Prelude
begin

text \<open>
  Conversion between time units, \<^verbatim>\<open>include/sys/time_units.h\<close>: the generic converter \<open>z_tmcvt\<close> with its
  three algorithms and the 84 generated functions over it.  The build options are a record.  A rate
  of 0 makes the C code divide by zero; \<^verbatim>\<open>sys_clock.h\<close> refuses to compile with one, and the theorems take
  the rates to be positive.
\<close>

section \<open>Rates\<close>

record clock_config =
  hw_cycles_per_sec :: u32
  ticks_per_sec :: u32
  reads_frequency_at_runtime :: bool
  max_timeout_days :: u64

definition sys_clock_hw_cycles_per_sec :: "clock_config \<Rightarrow> u32" where
  "sys_clock_hw_cycles_per_sec c = hw_cycles_per_sec c"

definition Z_HZ_ms :: u32 where "Z_HZ_ms = 1000"
definition Z_HZ_us :: u32 where "Z_HZ_us = 1000000"
definition Z_HZ_ns :: u32 where "Z_HZ_ns = 1000000000"
definition Z_HZ_cyc :: "clock_config \<Rightarrow> u32" where "Z_HZ_cyc c = sys_clock_hw_cycles_per_sec c"
definition Z_HZ_ticks :: "clock_config \<Rightarrow> u32" where "Z_HZ_ticks c = ticks_per_sec c"
definition Z_CCYC :: "clock_config \<Rightarrow> bool" where "Z_CCYC c = (\<not> reads_frequency_at_runtime c)"

definition ceiling_fraction :: "u64 \<Rightarrow> u64 \<Rightarrow> u64" where
  "ceiling_fraction numerator divider = (numerator + (divider - 1)) div divider"

definition UINT32_MAX :: u64 where "UINT32_MAX = 0xFFFFFFFF"

definition Z_TMCVT_USE_FAST_ALGO :: "clock_config \<Rightarrow> u32 \<Rightarrow> u32 \<Rightarrow> bool" where
  "Z_TMCVT_USE_FAST_ALGO c from_hz to_hz \<longleftrightarrow>
     ceiling_fraction (max_timeout_days c * 24 * 3600 * ucast from_hz) UINT32_MAX * ucast to_hz \<le> UINT32_MAX"

section \<open>The converter\<close>

definition z_tmcvt :: "clock_config \<Rightarrow> u64 \<Rightarrow> u32 \<Rightarrow> u32 \<Rightarrow> bool \<Rightarrow> bool \<Rightarrow> bool \<Rightarrow> bool \<Rightarrow> u64" where
  "z_tmcvt c t from_hz to_hz const_hz result32 round_up round_off =
     (let mul_ratio = const_hz \<and> from_hz < to_hz \<and> to_hz mod from_hz = 0;
          div_ratio = const_hz \<and> to_hz < from_hz \<and> from_hz mod to_hz = 0
      in if from_hz = to_hz then (if result32 then ucast (ucast t :: u32) else t)
         else
           let off = 0;
               rdivisor = (if div_ratio then from_hz div to_hz else from_hz);
               off = (if \<not> mul_ratio \<and> round_up then ucast (rdivisor - 1) else off);
               off = (if \<not> mul_ratio \<and> round_off then ucast (rdivisor div 2) else off)
           in if div_ratio then
                let t = t + off
                in if result32 \<and> t < 2 ^ 32 then ucast ((ucast t :: u32) div (from_hz div to_hz))
                   else t div (ucast from_hz div ucast to_hz)
              else if mul_ratio then
                if result32 then ucast ((ucast t :: u32) * (to_hz div from_hz))
                else t * (ucast to_hz div ucast from_hz)
              else if result32 then ucast (ucast ((t * ucast to_hz + off) div ucast from_hz) :: u32)
              else if const_hz \<and> Z_TMCVT_USE_FAST_ALGO c from_hz to_hz then
                (t * ucast to_hz + off) div ucast from_hz
              else t div ucast from_hz * ucast to_hz +
                   (t mod ucast from_hz * ucast to_hz + off) div ucast from_hz)"

section \<open>The generated functions\<close>

definition k_ms_to_cyc_floor32 :: "clock_config \<Rightarrow> u32 \<Rightarrow> u32" where
  "k_ms_to_cyc_floor32 c t = ucast (z_tmcvt c (ucast t) Z_HZ_ms (Z_HZ_cyc c) (Z_CCYC c) True False False)"

definition k_ms_to_cyc_floor64 :: "clock_config \<Rightarrow> u64 \<Rightarrow> u64" where
  "k_ms_to_cyc_floor64 c t = z_tmcvt c t Z_HZ_ms (Z_HZ_cyc c) (Z_CCYC c) False False False"

definition k_ms_to_cyc_near32 :: "clock_config \<Rightarrow> u32 \<Rightarrow> u32" where
  "k_ms_to_cyc_near32 c t = ucast (z_tmcvt c (ucast t) Z_HZ_ms (Z_HZ_cyc c) (Z_CCYC c) True False True)"

definition k_ms_to_cyc_near64 :: "clock_config \<Rightarrow> u64 \<Rightarrow> u64" where
  "k_ms_to_cyc_near64 c t = z_tmcvt c t Z_HZ_ms (Z_HZ_cyc c) (Z_CCYC c) False False True"

definition k_ms_to_cyc_ceil32 :: "clock_config \<Rightarrow> u32 \<Rightarrow> u32" where
  "k_ms_to_cyc_ceil32 c t = ucast (z_tmcvt c (ucast t) Z_HZ_ms (Z_HZ_cyc c) (Z_CCYC c) True True False)"

definition k_ms_to_cyc_ceil64 :: "clock_config \<Rightarrow> u64 \<Rightarrow> u64" where
  "k_ms_to_cyc_ceil64 c t = z_tmcvt c t Z_HZ_ms (Z_HZ_cyc c) (Z_CCYC c) False True False"

definition k_ms_to_ticks_floor32 :: "clock_config \<Rightarrow> u32 \<Rightarrow> u32" where
  "k_ms_to_ticks_floor32 c t = ucast (z_tmcvt c (ucast t) Z_HZ_ms (Z_HZ_ticks c) True True False False)"

definition k_ms_to_ticks_floor64 :: "clock_config \<Rightarrow> u64 \<Rightarrow> u64" where
  "k_ms_to_ticks_floor64 c t = z_tmcvt c t Z_HZ_ms (Z_HZ_ticks c) True False False False"

definition k_ms_to_ticks_near32 :: "clock_config \<Rightarrow> u32 \<Rightarrow> u32" where
  "k_ms_to_ticks_near32 c t = ucast (z_tmcvt c (ucast t) Z_HZ_ms (Z_HZ_ticks c) True True False True)"

definition k_ms_to_ticks_near64 :: "clock_config \<Rightarrow> u64 \<Rightarrow> u64" where
  "k_ms_to_ticks_near64 c t = z_tmcvt c t Z_HZ_ms (Z_HZ_ticks c) True False False True"

definition k_ms_to_ticks_ceil32 :: "clock_config \<Rightarrow> u32 \<Rightarrow> u32" where
  "k_ms_to_ticks_ceil32 c t = ucast (z_tmcvt c (ucast t) Z_HZ_ms (Z_HZ_ticks c) True True True False)"

definition k_ms_to_ticks_ceil64 :: "clock_config \<Rightarrow> u64 \<Rightarrow> u64" where
  "k_ms_to_ticks_ceil64 c t = z_tmcvt c t Z_HZ_ms (Z_HZ_ticks c) True False True False"

definition k_us_to_cyc_floor32 :: "clock_config \<Rightarrow> u32 \<Rightarrow> u32" where
  "k_us_to_cyc_floor32 c t = ucast (z_tmcvt c (ucast t) Z_HZ_us (Z_HZ_cyc c) (Z_CCYC c) True False False)"

definition k_us_to_cyc_floor64 :: "clock_config \<Rightarrow> u64 \<Rightarrow> u64" where
  "k_us_to_cyc_floor64 c t = z_tmcvt c t Z_HZ_us (Z_HZ_cyc c) (Z_CCYC c) False False False"

definition k_us_to_cyc_near32 :: "clock_config \<Rightarrow> u32 \<Rightarrow> u32" where
  "k_us_to_cyc_near32 c t = ucast (z_tmcvt c (ucast t) Z_HZ_us (Z_HZ_cyc c) (Z_CCYC c) True False True)"

definition k_us_to_cyc_near64 :: "clock_config \<Rightarrow> u64 \<Rightarrow> u64" where
  "k_us_to_cyc_near64 c t = z_tmcvt c t Z_HZ_us (Z_HZ_cyc c) (Z_CCYC c) False False True"

definition k_us_to_cyc_ceil32 :: "clock_config \<Rightarrow> u32 \<Rightarrow> u32" where
  "k_us_to_cyc_ceil32 c t = ucast (z_tmcvt c (ucast t) Z_HZ_us (Z_HZ_cyc c) (Z_CCYC c) True True False)"

definition k_us_to_cyc_ceil64 :: "clock_config \<Rightarrow> u64 \<Rightarrow> u64" where
  "k_us_to_cyc_ceil64 c t = z_tmcvt c t Z_HZ_us (Z_HZ_cyc c) (Z_CCYC c) False True False"

definition k_us_to_ticks_floor32 :: "clock_config \<Rightarrow> u32 \<Rightarrow> u32" where
  "k_us_to_ticks_floor32 c t = ucast (z_tmcvt c (ucast t) Z_HZ_us (Z_HZ_ticks c) True True False False)"

definition k_us_to_ticks_floor64 :: "clock_config \<Rightarrow> u64 \<Rightarrow> u64" where
  "k_us_to_ticks_floor64 c t = z_tmcvt c t Z_HZ_us (Z_HZ_ticks c) True False False False"

definition k_us_to_ticks_near32 :: "clock_config \<Rightarrow> u32 \<Rightarrow> u32" where
  "k_us_to_ticks_near32 c t = ucast (z_tmcvt c (ucast t) Z_HZ_us (Z_HZ_ticks c) True True False True)"

definition k_us_to_ticks_near64 :: "clock_config \<Rightarrow> u64 \<Rightarrow> u64" where
  "k_us_to_ticks_near64 c t = z_tmcvt c t Z_HZ_us (Z_HZ_ticks c) True False False True"

definition k_us_to_ticks_ceil32 :: "clock_config \<Rightarrow> u32 \<Rightarrow> u32" where
  "k_us_to_ticks_ceil32 c t = ucast (z_tmcvt c (ucast t) Z_HZ_us (Z_HZ_ticks c) True True True False)"

definition k_us_to_ticks_ceil64 :: "clock_config \<Rightarrow> u64 \<Rightarrow> u64" where
  "k_us_to_ticks_ceil64 c t = z_tmcvt c t Z_HZ_us (Z_HZ_ticks c) True False True False"

definition k_ns_to_cyc_floor32 :: "clock_config \<Rightarrow> u32 \<Rightarrow> u32" where
  "k_ns_to_cyc_floor32 c t = ucast (z_tmcvt c (ucast t) Z_HZ_ns (Z_HZ_cyc c) (Z_CCYC c) True False False)"

definition k_ns_to_cyc_floor64 :: "clock_config \<Rightarrow> u64 \<Rightarrow> u64" where
  "k_ns_to_cyc_floor64 c t = z_tmcvt c t Z_HZ_ns (Z_HZ_cyc c) (Z_CCYC c) False False False"

definition k_ns_to_cyc_near32 :: "clock_config \<Rightarrow> u32 \<Rightarrow> u32" where
  "k_ns_to_cyc_near32 c t = ucast (z_tmcvt c (ucast t) Z_HZ_ns (Z_HZ_cyc c) (Z_CCYC c) True False True)"

definition k_ns_to_cyc_near64 :: "clock_config \<Rightarrow> u64 \<Rightarrow> u64" where
  "k_ns_to_cyc_near64 c t = z_tmcvt c t Z_HZ_ns (Z_HZ_cyc c) (Z_CCYC c) False False True"

definition k_ns_to_cyc_ceil32 :: "clock_config \<Rightarrow> u32 \<Rightarrow> u32" where
  "k_ns_to_cyc_ceil32 c t = ucast (z_tmcvt c (ucast t) Z_HZ_ns (Z_HZ_cyc c) (Z_CCYC c) True True False)"

definition k_ns_to_cyc_ceil64 :: "clock_config \<Rightarrow> u64 \<Rightarrow> u64" where
  "k_ns_to_cyc_ceil64 c t = z_tmcvt c t Z_HZ_ns (Z_HZ_cyc c) (Z_CCYC c) False True False"

definition k_ns_to_ticks_floor32 :: "clock_config \<Rightarrow> u32 \<Rightarrow> u32" where
  "k_ns_to_ticks_floor32 c t = ucast (z_tmcvt c (ucast t) Z_HZ_ns (Z_HZ_ticks c) True True False False)"

definition k_ns_to_ticks_floor64 :: "clock_config \<Rightarrow> u64 \<Rightarrow> u64" where
  "k_ns_to_ticks_floor64 c t = z_tmcvt c t Z_HZ_ns (Z_HZ_ticks c) True False False False"

definition k_ns_to_ticks_near32 :: "clock_config \<Rightarrow> u32 \<Rightarrow> u32" where
  "k_ns_to_ticks_near32 c t = ucast (z_tmcvt c (ucast t) Z_HZ_ns (Z_HZ_ticks c) True True False True)"

definition k_ns_to_ticks_near64 :: "clock_config \<Rightarrow> u64 \<Rightarrow> u64" where
  "k_ns_to_ticks_near64 c t = z_tmcvt c t Z_HZ_ns (Z_HZ_ticks c) True False False True"

definition k_ns_to_ticks_ceil32 :: "clock_config \<Rightarrow> u32 \<Rightarrow> u32" where
  "k_ns_to_ticks_ceil32 c t = ucast (z_tmcvt c (ucast t) Z_HZ_ns (Z_HZ_ticks c) True True True False)"

definition k_ns_to_ticks_ceil64 :: "clock_config \<Rightarrow> u64 \<Rightarrow> u64" where
  "k_ns_to_ticks_ceil64 c t = z_tmcvt c t Z_HZ_ns (Z_HZ_ticks c) True False True False"

definition k_cyc_to_ms_floor32 :: "clock_config \<Rightarrow> u32 \<Rightarrow> u32" where
  "k_cyc_to_ms_floor32 c t = ucast (z_tmcvt c (ucast t) (Z_HZ_cyc c) Z_HZ_ms (Z_CCYC c) True False False)"

definition k_cyc_to_ms_floor64 :: "clock_config \<Rightarrow> u64 \<Rightarrow> u64" where
  "k_cyc_to_ms_floor64 c t = z_tmcvt c t (Z_HZ_cyc c) Z_HZ_ms (Z_CCYC c) False False False"

definition k_cyc_to_ms_near32 :: "clock_config \<Rightarrow> u32 \<Rightarrow> u32" where
  "k_cyc_to_ms_near32 c t = ucast (z_tmcvt c (ucast t) (Z_HZ_cyc c) Z_HZ_ms (Z_CCYC c) True False True)"

definition k_cyc_to_ms_near64 :: "clock_config \<Rightarrow> u64 \<Rightarrow> u64" where
  "k_cyc_to_ms_near64 c t = z_tmcvt c t (Z_HZ_cyc c) Z_HZ_ms (Z_CCYC c) False False True"

definition k_cyc_to_ms_ceil32 :: "clock_config \<Rightarrow> u32 \<Rightarrow> u32" where
  "k_cyc_to_ms_ceil32 c t = ucast (z_tmcvt c (ucast t) (Z_HZ_cyc c) Z_HZ_ms (Z_CCYC c) True True False)"

definition k_cyc_to_ms_ceil64 :: "clock_config \<Rightarrow> u64 \<Rightarrow> u64" where
  "k_cyc_to_ms_ceil64 c t = z_tmcvt c t (Z_HZ_cyc c) Z_HZ_ms (Z_CCYC c) False True False"

definition k_cyc_to_us_floor32 :: "clock_config \<Rightarrow> u32 \<Rightarrow> u32" where
  "k_cyc_to_us_floor32 c t = ucast (z_tmcvt c (ucast t) (Z_HZ_cyc c) Z_HZ_us (Z_CCYC c) True False False)"

definition k_cyc_to_us_floor64 :: "clock_config \<Rightarrow> u64 \<Rightarrow> u64" where
  "k_cyc_to_us_floor64 c t = z_tmcvt c t (Z_HZ_cyc c) Z_HZ_us (Z_CCYC c) False False False"

definition k_cyc_to_us_near32 :: "clock_config \<Rightarrow> u32 \<Rightarrow> u32" where
  "k_cyc_to_us_near32 c t = ucast (z_tmcvt c (ucast t) (Z_HZ_cyc c) Z_HZ_us (Z_CCYC c) True False True)"

definition k_cyc_to_us_near64 :: "clock_config \<Rightarrow> u64 \<Rightarrow> u64" where
  "k_cyc_to_us_near64 c t = z_tmcvt c t (Z_HZ_cyc c) Z_HZ_us (Z_CCYC c) False False True"

definition k_cyc_to_us_ceil32 :: "clock_config \<Rightarrow> u32 \<Rightarrow> u32" where
  "k_cyc_to_us_ceil32 c t = ucast (z_tmcvt c (ucast t) (Z_HZ_cyc c) Z_HZ_us (Z_CCYC c) True True False)"

definition k_cyc_to_us_ceil64 :: "clock_config \<Rightarrow> u64 \<Rightarrow> u64" where
  "k_cyc_to_us_ceil64 c t = z_tmcvt c t (Z_HZ_cyc c) Z_HZ_us (Z_CCYC c) False True False"

definition k_cyc_to_ns_floor32 :: "clock_config \<Rightarrow> u32 \<Rightarrow> u32" where
  "k_cyc_to_ns_floor32 c t = ucast (z_tmcvt c (ucast t) (Z_HZ_cyc c) Z_HZ_ns (Z_CCYC c) True False False)"

definition k_cyc_to_ns_floor64 :: "clock_config \<Rightarrow> u64 \<Rightarrow> u64" where
  "k_cyc_to_ns_floor64 c t = z_tmcvt c t (Z_HZ_cyc c) Z_HZ_ns (Z_CCYC c) False False False"

definition k_cyc_to_ns_near32 :: "clock_config \<Rightarrow> u32 \<Rightarrow> u32" where
  "k_cyc_to_ns_near32 c t = ucast (z_tmcvt c (ucast t) (Z_HZ_cyc c) Z_HZ_ns (Z_CCYC c) True False True)"

definition k_cyc_to_ns_near64 :: "clock_config \<Rightarrow> u64 \<Rightarrow> u64" where
  "k_cyc_to_ns_near64 c t = z_tmcvt c t (Z_HZ_cyc c) Z_HZ_ns (Z_CCYC c) False False True"

definition k_cyc_to_ns_ceil32 :: "clock_config \<Rightarrow> u32 \<Rightarrow> u32" where
  "k_cyc_to_ns_ceil32 c t = ucast (z_tmcvt c (ucast t) (Z_HZ_cyc c) Z_HZ_ns (Z_CCYC c) True True False)"

definition k_cyc_to_ns_ceil64 :: "clock_config \<Rightarrow> u64 \<Rightarrow> u64" where
  "k_cyc_to_ns_ceil64 c t = z_tmcvt c t (Z_HZ_cyc c) Z_HZ_ns (Z_CCYC c) False True False"

definition k_cyc_to_ticks_floor32 :: "clock_config \<Rightarrow> u32 \<Rightarrow> u32" where
  "k_cyc_to_ticks_floor32 c t = ucast (z_tmcvt c (ucast t) (Z_HZ_cyc c) (Z_HZ_ticks c) (Z_CCYC c) True False False)"

definition k_cyc_to_ticks_floor64 :: "clock_config \<Rightarrow> u64 \<Rightarrow> u64" where
  "k_cyc_to_ticks_floor64 c t = z_tmcvt c t (Z_HZ_cyc c) (Z_HZ_ticks c) (Z_CCYC c) False False False"

definition k_cyc_to_ticks_near32 :: "clock_config \<Rightarrow> u32 \<Rightarrow> u32" where
  "k_cyc_to_ticks_near32 c t = ucast (z_tmcvt c (ucast t) (Z_HZ_cyc c) (Z_HZ_ticks c) (Z_CCYC c) True False True)"

definition k_cyc_to_ticks_near64 :: "clock_config \<Rightarrow> u64 \<Rightarrow> u64" where
  "k_cyc_to_ticks_near64 c t = z_tmcvt c t (Z_HZ_cyc c) (Z_HZ_ticks c) (Z_CCYC c) False False True"

definition k_cyc_to_ticks_ceil32 :: "clock_config \<Rightarrow> u32 \<Rightarrow> u32" where
  "k_cyc_to_ticks_ceil32 c t = ucast (z_tmcvt c (ucast t) (Z_HZ_cyc c) (Z_HZ_ticks c) (Z_CCYC c) True True False)"

definition k_cyc_to_ticks_ceil64 :: "clock_config \<Rightarrow> u64 \<Rightarrow> u64" where
  "k_cyc_to_ticks_ceil64 c t = z_tmcvt c t (Z_HZ_cyc c) (Z_HZ_ticks c) (Z_CCYC c) False True False"

definition k_ticks_to_ms_floor32 :: "clock_config \<Rightarrow> u32 \<Rightarrow> u32" where
  "k_ticks_to_ms_floor32 c t = ucast (z_tmcvt c (ucast t) (Z_HZ_ticks c) Z_HZ_ms True True False False)"

definition k_ticks_to_ms_floor64 :: "clock_config \<Rightarrow> u64 \<Rightarrow> u64" where
  "k_ticks_to_ms_floor64 c t = z_tmcvt c t (Z_HZ_ticks c) Z_HZ_ms True False False False"

definition k_ticks_to_ms_near32 :: "clock_config \<Rightarrow> u32 \<Rightarrow> u32" where
  "k_ticks_to_ms_near32 c t = ucast (z_tmcvt c (ucast t) (Z_HZ_ticks c) Z_HZ_ms True True False True)"

definition k_ticks_to_ms_near64 :: "clock_config \<Rightarrow> u64 \<Rightarrow> u64" where
  "k_ticks_to_ms_near64 c t = z_tmcvt c t (Z_HZ_ticks c) Z_HZ_ms True False False True"

definition k_ticks_to_ms_ceil32 :: "clock_config \<Rightarrow> u32 \<Rightarrow> u32" where
  "k_ticks_to_ms_ceil32 c t = ucast (z_tmcvt c (ucast t) (Z_HZ_ticks c) Z_HZ_ms True True True False)"

definition k_ticks_to_ms_ceil64 :: "clock_config \<Rightarrow> u64 \<Rightarrow> u64" where
  "k_ticks_to_ms_ceil64 c t = z_tmcvt c t (Z_HZ_ticks c) Z_HZ_ms True False True False"

definition k_ticks_to_us_floor32 :: "clock_config \<Rightarrow> u32 \<Rightarrow> u32" where
  "k_ticks_to_us_floor32 c t = ucast (z_tmcvt c (ucast t) (Z_HZ_ticks c) Z_HZ_us True True False False)"

definition k_ticks_to_us_floor64 :: "clock_config \<Rightarrow> u64 \<Rightarrow> u64" where
  "k_ticks_to_us_floor64 c t = z_tmcvt c t (Z_HZ_ticks c) Z_HZ_us True False False False"

definition k_ticks_to_us_near32 :: "clock_config \<Rightarrow> u32 \<Rightarrow> u32" where
  "k_ticks_to_us_near32 c t = ucast (z_tmcvt c (ucast t) (Z_HZ_ticks c) Z_HZ_us True True False True)"

definition k_ticks_to_us_near64 :: "clock_config \<Rightarrow> u64 \<Rightarrow> u64" where
  "k_ticks_to_us_near64 c t = z_tmcvt c t (Z_HZ_ticks c) Z_HZ_us True False False True"

definition k_ticks_to_us_ceil32 :: "clock_config \<Rightarrow> u32 \<Rightarrow> u32" where
  "k_ticks_to_us_ceil32 c t = ucast (z_tmcvt c (ucast t) (Z_HZ_ticks c) Z_HZ_us True True True False)"

definition k_ticks_to_us_ceil64 :: "clock_config \<Rightarrow> u64 \<Rightarrow> u64" where
  "k_ticks_to_us_ceil64 c t = z_tmcvt c t (Z_HZ_ticks c) Z_HZ_us True False True False"

definition k_ticks_to_ns_floor32 :: "clock_config \<Rightarrow> u32 \<Rightarrow> u32" where
  "k_ticks_to_ns_floor32 c t = ucast (z_tmcvt c (ucast t) (Z_HZ_ticks c) Z_HZ_ns True True False False)"

definition k_ticks_to_ns_floor64 :: "clock_config \<Rightarrow> u64 \<Rightarrow> u64" where
  "k_ticks_to_ns_floor64 c t = z_tmcvt c t (Z_HZ_ticks c) Z_HZ_ns True False False False"

definition k_ticks_to_ns_near32 :: "clock_config \<Rightarrow> u32 \<Rightarrow> u32" where
  "k_ticks_to_ns_near32 c t = ucast (z_tmcvt c (ucast t) (Z_HZ_ticks c) Z_HZ_ns True True False True)"

definition k_ticks_to_ns_near64 :: "clock_config \<Rightarrow> u64 \<Rightarrow> u64" where
  "k_ticks_to_ns_near64 c t = z_tmcvt c t (Z_HZ_ticks c) Z_HZ_ns True False False True"

definition k_ticks_to_ns_ceil32 :: "clock_config \<Rightarrow> u32 \<Rightarrow> u32" where
  "k_ticks_to_ns_ceil32 c t = ucast (z_tmcvt c (ucast t) (Z_HZ_ticks c) Z_HZ_ns True True True False)"

definition k_ticks_to_ns_ceil64 :: "clock_config \<Rightarrow> u64 \<Rightarrow> u64" where
  "k_ticks_to_ns_ceil64 c t = z_tmcvt c t (Z_HZ_ticks c) Z_HZ_ns True False True False"

definition k_ticks_to_cyc_floor32 :: "clock_config \<Rightarrow> u32 \<Rightarrow> u32" where
  "k_ticks_to_cyc_floor32 c t = ucast (z_tmcvt c (ucast t) (Z_HZ_ticks c) (Z_HZ_cyc c) (Z_CCYC c) True False False)"

definition k_ticks_to_cyc_floor64 :: "clock_config \<Rightarrow> u64 \<Rightarrow> u64" where
  "k_ticks_to_cyc_floor64 c t = z_tmcvt c t (Z_HZ_ticks c) (Z_HZ_cyc c) (Z_CCYC c) False False False"

definition k_ticks_to_cyc_near32 :: "clock_config \<Rightarrow> u32 \<Rightarrow> u32" where
  "k_ticks_to_cyc_near32 c t = ucast (z_tmcvt c (ucast t) (Z_HZ_ticks c) (Z_HZ_cyc c) (Z_CCYC c) True False True)"

definition k_ticks_to_cyc_near64 :: "clock_config \<Rightarrow> u64 \<Rightarrow> u64" where
  "k_ticks_to_cyc_near64 c t = z_tmcvt c t (Z_HZ_ticks c) (Z_HZ_cyc c) (Z_CCYC c) False False True"

definition k_ticks_to_cyc_ceil32 :: "clock_config \<Rightarrow> u32 \<Rightarrow> u32" where
  "k_ticks_to_cyc_ceil32 c t = ucast (z_tmcvt c (ucast t) (Z_HZ_ticks c) (Z_HZ_cyc c) (Z_CCYC c) True True False)"

definition k_ticks_to_cyc_ceil64 :: "clock_config \<Rightarrow> u64 \<Rightarrow> u64" where
  "k_ticks_to_cyc_ceil64 c t = z_tmcvt c t (Z_HZ_ticks c) (Z_HZ_cyc c) (Z_CCYC c) False True False"

section \<open>The exact conversion\<close>

datatype rounding = Floor | Near | Ceil

definition off_exact :: "rounding \<Rightarrow> nat \<Rightarrow> nat" where
  "off_exact r d = (case r of Floor \<Rightarrow> 0 | Near \<Rightarrow> d div 2 | Ceil \<Rightarrow> d - 1)"

text \<open>The quotient \<open>t * to / from\<close>, rounded.\<close>

definition exact :: "rounding \<Rightarrow> nat \<Rightarrow> nat \<Rightarrow> nat \<Rightarrow> nat" where
  "exact r t from_hz to_hz = (t * to_hz + off_exact r from_hz) div from_hz"

lemma off_exact_less: "0 < d \<Longrightarrow> off_exact r d < d"
  by (cases r) (auto simp: off_exact_def)

lemma exact_same: "0 < f \<Longrightarrow> exact r t f f = t"
  by (simp add: exact_def off_exact_less div_mult_self3)

text \<open>The slow algorithm divides first and loses nothing.\<close>

lemma exact_split: "0 < f \<Longrightarrow> exact r t f to_hz = t div f * to_hz + (t mod f * to_hz + off_exact r f) div f"
proof -
  assume f: "0 < f"
  have "t * to_hz = t div f * to_hz * f + t mod f * to_hz"
    by (metis add.commute add_mult_distrib div_mult_mod_eq mult.assoc mult.commute)
  then show ?thesis using f by (simp add: exact_def add.assoc div_mult_self3)
qed

lemma exact_mul_ratio: "0 < f \<Longrightarrow> exact r t f (f * k) = t * k"
  by (simp add: exact_def off_exact_less mult.left_commute [of t] div_mult_self4)

lemma off_exact_div:
  assumes d: "0 < d"
  shows "off_exact r (k * d) div d = off_exact r k"
proof (cases r)
  case Near
  have "k * d div 2 div d = k * d div d div 2" by (simp only: div_mult2_eq [symmetric] mult.commute)
  with Near d show ?thesis by (simp add: off_exact_def)
next
  case Ceil
  show ?thesis
  proof (cases k)
    case (Suc j)
    have "(j * d + (d - 1)) div d = j + (d - 1) div d" using d by (intro div_mult_self3) simp
    moreover have "k * d - 1 = j * d + (d - 1)" using Suc d by simp
    ultimately show ?thesis using Suc d Ceil by (simp add: off_exact_def)
  qed (simp add: off_exact_def Ceil)
qed (simp add: off_exact_def)

lemma exact_div_ratio: "0 < d \<Longrightarrow> exact r t (k * d) d = (t + off_exact r k) div k"
proof -
  assume d: "0 < d"
  have "exact r t (k * d) d = (t * d + off_exact r (k * d)) div d div k"
    by (simp add: exact_def div_mult2_eq [symmetric] mult.commute)
  also have "(t * d + off_exact r (k * d)) div d = t + off_exact r k"
    using d by (simp add: div_mult_self3 off_exact_div)
  finally show ?thesis .
qed

section \<open>The converter computes the exact conversion\<close>

definition rounding_of :: "bool \<Rightarrow> bool \<Rightarrow> rounding" where
  "rounding_of round_up round_off = (if round_off then Near else if round_up then Ceil else Floor)"

definition off_word :: "rounding \<Rightarrow> u32 \<Rightarrow> u64" where
  "off_word r d = (case r of Floor \<Rightarrow> 0 | Near \<Rightarrow> ucast (d div 2) | Ceil \<Rightarrow> ucast (d - 1))"

lemma unat_ucast_u32_u64 [simp]: "unat (ucast (x :: u32) :: u64) = unat x"
  using unat_u32_less [of x] by (simp add: unsigned_ucast_eq take_bit_nat_eq_self)

lemma unat_ucast_u64_u32: "unat (ucast (x :: u64) :: u32) = unat x mod 2 ^ 32"
  by (simp add: unsigned_ucast_eq take_bit_eq_mod)

lemma unat_off_word: "0 < d \<Longrightarrow> unat (off_word r d) = off_exact r (unat d)"
  by (cases r) (simp_all add: off_word_def off_exact_def unat_div_distrib unat_minus_one word_gt_0)

text \<open>The converter by its branches, with the offset as one expression.\<close>

lemma z_tmcvt_same: "z_tmcvt c t f f k r32 up ro = (if r32 then ucast (ucast t :: u32) else t)"
  by (simp add: z_tmcvt_def)

lemma z_tmcvt_mul:
  "f < g \<Longrightarrow> g mod f = 0 \<Longrightarrow> z_tmcvt c t f g True r32 up ro =
     (if r32 then ucast ((ucast t :: u32) * (g div f)) else t * (ucast g div ucast f))"
  by (auto simp: z_tmcvt_def Let_def)

lemma z_tmcvt_div:
  "g < f \<Longrightarrow> f mod g = 0 \<Longrightarrow> z_tmcvt c t f g True r32 up ro =
     (let t = t + off_word (rounding_of up ro) (f div g)
      in if r32 \<and> t < 2 ^ 32 then ucast ((ucast t :: u32) div (f div g)) else t div (ucast f div ucast g))"
  by (auto simp: z_tmcvt_def Let_def rounding_of_def off_word_def)

lemma z_tmcvt_full:
  assumes "f \<noteq> g" and "\<not> (k \<and> f < g \<and> g mod f = 0)" and "\<not> (k \<and> g < f \<and> f mod g = 0)"
  shows "z_tmcvt c t f g k r32 up ro =
    (let off = off_word (rounding_of up ro) f
     in if r32 then ucast (ucast ((t * ucast g + off) div ucast f) :: u32)
        else if k \<and> Z_TMCVT_USE_FAST_ALGO c f g then (t * ucast g + off) div ucast f
        else t div ucast f * ucast g + (t mod ucast f * ucast g + off) div ucast f)"
  unfolding z_tmcvt_def Let_def if_not_P [OF assms(1)] if_not_P [OF assms(2)] if_not_P [OF assms(3)]
  by (simp add: rounding_of_def off_word_def assms(2) [simplified] assms(3) [simplified])

lemma unat_div_ucast: "unat (ucast (f :: u32) div ucast (g :: u32) :: u64) = unat f div unat g"
  by (simp add: unat_div_distrib)

lemma mul_ratio_nat: "g mod f = 0 \<Longrightarrow> unat (g :: u32) = unat f * (unat g div unat f)"
  by (metis div_mult_mod_eq add.right_neutral mult.commute unat_0 unat_mod_distrib)

text \<open>64-bit results: nothing is lost as long as the intermediate product fits, and on the slow
  algorithm as long as the result fits.\<close>

definition fits :: "clock_config \<Rightarrow> bool \<Rightarrow> rounding \<Rightarrow> nat \<Rightarrow> u32 \<Rightarrow> u32 \<Rightarrow> bool" where
  "fits c k r t f g \<longleftrightarrow>
     (if k then t * unat g + unat f \<le> 2 ^ 64 else exact r t (unat f) (unat g) < 2 ^ 64)"

lemma fits_exact: "0 < f \<Longrightarrow> fits c k r t f g \<Longrightarrow> exact r t (unat f) (unat g) < 2 ^ 64"
proof -
  assume f: "0 < f" and "fits c k r t f g"
  moreover have "exact r t (unat f) (unat g) < 2 ^ 64" if "t * unat g + unat f \<le> 2 ^ 64"
  proof -
    have "exact r t (unat f) (unat g) \<le> t * unat g + off_exact r (unat f)"
      by (simp add: exact_def)
    also have "\<dots> < t * unat g + unat f" using f by (simp add: off_exact_less unat_gt_0)
    finally show ?thesis using that by simp
  qed
  ultimately show ?thesis by (auto simp: fits_def split: if_splits)
qed

lemma unat_fast:
  fixes g :: u32
  assumes f: "0 < f" and "unat t * unat g + unat f \<le> 2 ^ 64"
  shows "unat ((t * ucast g + off_word r f) div ucast f) = exact r (unat t) (unat f) (unat g)"
proof -
  have o: "unat (off_word r f) = off_exact r (unat f)" "off_exact r (unat f) < unat f"
    using f by (simp_all add: unat_off_word off_exact_less unat_gt_0 word_gt_0)
  then have "unat t * unat g + off_exact r (unat f) < 2 ^ 64" using assms(2) by linarith
  with o show ?thesis by (simp add: unat_div_distrib exact_def unat_word_ariths)
qed

lemma unat_slow:
  fixes g :: u32
  assumes f: "0 < f" and e: "exact r (unat t) (unat f) (unat g) < 2 ^ 64"
  shows "unat (t div ucast f * ucast g + (t mod ucast f * ucast g + off_word r f) div ucast f) =
    exact r (unat t) (unat f) (unat g)"
proof -
  let ?F = "unat f" and ?G = "unat g" and ?T = "unat t"
  have F: "0 < ?F" "?F < 2 ^ 32" "?G < 2 ^ 32" using f unat_u32_less [of f] unat_u32_less [of g] by (simp_all add: unat_gt_0 word_gt_0)
  have m: "?T mod ?F < ?F" using F by simp
  have o: "unat (off_word r f) = off_exact r ?F" "off_exact r ?F < ?F"
    using f F by (simp_all add: unat_off_word off_exact_less)
  have "?T mod ?F \<le> 2 ^ 32 - 1" using m F by linarith
  then have "?T mod ?F * ?G \<le> (2 ^ 32 - 1) * (2 ^ 32 - 1)" using F by (intro mult_mono) simp_all
  with o F have lt: "?T mod ?F * ?G + off_exact r ?F < 2 ^ 64" by simp
  have r: "unat ((t mod ucast f * ucast g + off_word r f) div ucast f) = (?T mod ?F * ?G + off_exact r ?F) div ?F"
    using lt o by (simp add: unat_div_distrib unat_mod_distrib unat_word_ariths)
  have e': "?T div ?F * ?G + (?T mod ?F * ?G + off_exact r ?F) div ?F < 2 ^ 64"
    using e exact_split [OF F(1)] by simp
  then have "unat (t div ucast f * ucast g) = ?T div ?F * ?G"
    by (simp add: unat_div_distrib unat_word_ariths)
  with r e' show ?thesis using exact_split [OF F(1)] by (simp add: unat_word_ariths(1))
qed

lemma unat_div_ratio:
  assumes g: "0 < g" "g < f" "f mod g = 0" and b: "unat t + off_exact r (unat f div unat g) < 2 ^ 64"
  shows "unat ((t + off_word r (f div g)) div (ucast f div ucast g)) = exact r (unat t) (unat f) (unat (g :: u32))"
    and "unat (t + off_word r (f div g)) = unat t + off_exact r (unat f div unat g)"
proof -
  let ?k = "unat f div unat g"
  have G: "0 < unat g" "unat f = ?k * unat g"
    using g mul_ratio_nat [of f g] by (simp_all add: unat_gt_0 word_gt_0 mult.commute)
  then have k: "0 < f div g" using g by (metis less_nat_zero_code mult_0 neq0_conv unat_div_distrib unat_eq_zero word_gt_0 word_less_nat_alt)
  then have "unat (off_word r (f div g)) = off_exact r ?k" by (simp add: unat_off_word unat_div_distrib)
  with b show u: "unat (t + off_word r (f div g)) = unat t + off_exact r ?k" by (simp add: unat_word_ariths)
  show "unat ((t + off_word r (f div g)) div (ucast f div ucast g)) = exact r (unat t) (unat f) (unat g)"
    using u exact_div_ratio [OF G(1), of r "unat t" ?k] G(2) by (simp add: unat_div_distrib)
qed

lemma z_tmcvt_64:
  assumes f: "0 < f" "0 < g" and b: "fits c k (rounding_of up ro) (unat t) f g"
  shows "unat (z_tmcvt c t f g k False up ro) = exact (rounding_of up ro) (unat t) (unat f) (unat g)"
proof -
  let ?r = "rounding_of up ro"
  have F: "0 < unat f" "0 < unat g" using f by (simp_all add: unat_gt_0 word_gt_0)
  consider (same) "f = g" | (mul) "k" "f < g" "g mod f = 0" | (dv) "k" "g < f" "f mod g = 0"
    | (full) "f \<noteq> g" "\<not> (k \<and> f < g \<and> g mod f = 0)" "\<not> (k \<and> g < f \<and> f mod g = 0)"
    by blast
  then show ?thesis
  proof cases
    case same
    then show ?thesis using F by (simp add: z_tmcvt_same exact_same)
  next
    case mul
    have e: "exact ?r (unat t) (unat f) (unat g) = unat t * (unat g div unat f)"
      by (subst mul_ratio_nat [OF mul(3)]) (simp add: exact_mul_ratio F)
    with fits_exact [OF f(1) b] mul show ?thesis
      by (simp add: z_tmcvt_mul unat_word_ariths(2) unat_div_ucast)
  next
    case dv
    have k: "0 < unat f div unat g" using dv(2) F by (simp add: div_greater_zero_iff word_less_nat_alt)
    have "unat t \<le> unat t * unat g" using F by simp
    moreover have "off_exact ?r (unat f div unat g) < unat f"
      using off_exact_less [OF k] by (rule order_less_le_trans) simp
    moreover have "unat t * unat g + unat f \<le> 2 ^ 64" using b dv by (simp add: fits_def)
    ultimately have "unat t + off_exact ?r (unat f div unat g) < 2 ^ 64" by linarith
    then show ?thesis using unat_div_ratio(1) [OF f(2) dv(2,3)] dv by (simp add: z_tmcvt_div)
  next
    case full
    show ?thesis
    proof (cases "k \<and> Z_TMCVT_USE_FAST_ALGO c f g")
      case True
      with b full f unat_fast [of f t g ?r] show ?thesis by (simp add: z_tmcvt_full fits_def)
    next
      case False
      with b full f unat_slow [of f ?r t g] fits_exact [OF f(1) b] show ?thesis by (auto simp add: z_tmcvt_full)
    qed
  qed
qed

text \<open>32-bit results: the exact value modulo \<open>2 ^ 32\<close>, for every argument.\<close>

lemma small_product: "unat (t :: u32) * unat (g :: u32) + unat (f :: u32) \<le> 2 ^ 64"
proof -
  have "unat t \<le> 2 ^ 32 - 1" "unat g \<le> 2 ^ 32 - 1" "unat f \<le> 2 ^ 32 - 1"
    using unat_u32_less [of t] unat_u32_less [of g] unat_u32_less [of f] by simp_all
  then have "unat t * unat g \<le> (2 ^ 32 - 1) * (2 ^ 32 - 1)" by (intro mult_mono) simp_all
  with \<open>unat f \<le> 2 ^ 32 - 1\<close> show ?thesis by simp
qed

lemma unat_ucast_back: "unat (ucast (ucast (x :: u32) :: u64) :: u32) = unat x"
  using unat_u32_less [of x] by (simp add: unat_ucast_u64_u32)

lemma z_tmcvt_32:
  assumes f: "0 < f" "0 < g"
  shows "unat (ucast (z_tmcvt c (ucast (t :: u32)) f g k True up ro) :: u32) =
    exact (rounding_of up ro) (unat t) (unat f) (unat g) mod 2 ^ 32"
proof -
  let ?r = "rounding_of up ro"
  have F: "0 < unat f" "0 < unat g" using f by (simp_all add: unat_gt_0 word_gt_0)
  consider (same) "f = g" | (mul) "k" "f < g" "g mod f = 0" | (dv) "k" "g < f" "f mod g = 0"
    | (full) "f \<noteq> g" "\<not> (k \<and> f < g \<and> g mod f = 0)" "\<not> (k \<and> g < f \<and> f mod g = 0)"
    by blast
  then show ?thesis
  proof cases
    case same
    then show ?thesis using F unat_u32_less [of t] by (simp add: z_tmcvt_same exact_same unat_ucast_u64_u32)
  next
    case mul
    have "exact ?r (unat t) (unat f) (unat g) = unat t * (unat g div unat f)"
      by (subst mul_ratio_nat [OF mul(3)]) (simp add: exact_mul_ratio F)
    with mul show ?thesis
      by (simp add: z_tmcvt_mul unat_ucast_back unat_word_ariths(2) unat_div_distrib unat_ucast_u64_u32
        mod_mult_left_eq)
  next
    case dv
    let ?k = "unat f div unat g" and ?u = "ucast t + off_word ?r (f div g)"
    have "0 < ?k" using dv(2) F by (simp add: div_greater_zero_iff word_less_nat_alt)
    then have "off_exact ?r ?k < unat f" by (rule order_less_le_trans [OF off_exact_less]) simp
    then have b: "unat (ucast t :: u64) + off_exact ?r ?k < 2 ^ 64"
      using unat_u32_less [of t] unat_u32_less [of f] by simp
    note D = unat_div_ratio [OF f(2) dv(2,3) b]
    have small: "unat ((ucast ?u :: u32) div (f div g)) = exact ?r (unat t) (unat f) (unat g)" if "?u < 2 ^ 32"
    proof -
      have "unat ?u < 2 ^ 32" using that by (simp add: word_less_nat_alt)
      then have "unat (ucast ?u :: u32) = unat ?u" by (simp add: unat_ucast_u64_u32)
      moreover have "unat (?u div (ucast f div ucast g)) = unat ?u div ?k" by (simp add: unat_div_distrib)
      ultimately show ?thesis using D(1) by (simp add: unat_div_distrib)
    qed
    show ?thesis
    proof (cases "?u < 2 ^ 32")
      case True
      have "unat (ucast (z_tmcvt c (ucast t) f g k True up ro) :: u32) = unat ((ucast ?u :: u32) div (f div g))"
        using dv True by (simp add: z_tmcvt_div unat_ucast_back)
      with small [OF True] unat_u32_less [of "(ucast ?u :: u32) div (f div g)"] show ?thesis by simp
    next
      case False
      with dv D(1) show ?thesis by (simp add: z_tmcvt_div unat_ucast_u64_u32)
    qed
  next
    case full
    have "unat (ucast t :: u64) * unat g + unat f \<le> 2 ^ 64" using small_product [of t g f] by simp
    from unat_fast [OF f(1) this, of ?r] full show ?thesis
      by (simp add: z_tmcvt_full unat_ucast_back unat_ucast_u64_u32)
  qed
qed

section \<open>The generated functions\<close>

text \<open>All functions with 32-bit results, with the rates and the rounding their names promise.\<close>

definition conversions32 :: "clock_config \<Rightarrow> ((u32 \<Rightarrow> u32) \<times> u32 \<times> u32 \<times> rounding) list" where
  "conversions32 c =
    [(k_ms_to_cyc_floor32 c, Z_HZ_ms, Z_HZ_cyc c, Floor),
     (k_ms_to_cyc_near32 c, Z_HZ_ms, Z_HZ_cyc c, Near),
     (k_ms_to_cyc_ceil32 c, Z_HZ_ms, Z_HZ_cyc c, Ceil),
     (k_ms_to_ticks_floor32 c, Z_HZ_ms, Z_HZ_ticks c, Floor),
     (k_ms_to_ticks_near32 c, Z_HZ_ms, Z_HZ_ticks c, Near),
     (k_ms_to_ticks_ceil32 c, Z_HZ_ms, Z_HZ_ticks c, Ceil),
     (k_us_to_cyc_floor32 c, Z_HZ_us, Z_HZ_cyc c, Floor),
     (k_us_to_cyc_near32 c, Z_HZ_us, Z_HZ_cyc c, Near),
     (k_us_to_cyc_ceil32 c, Z_HZ_us, Z_HZ_cyc c, Ceil),
     (k_us_to_ticks_floor32 c, Z_HZ_us, Z_HZ_ticks c, Floor),
     (k_us_to_ticks_near32 c, Z_HZ_us, Z_HZ_ticks c, Near),
     (k_us_to_ticks_ceil32 c, Z_HZ_us, Z_HZ_ticks c, Ceil),
     (k_ns_to_cyc_floor32 c, Z_HZ_ns, Z_HZ_cyc c, Floor),
     (k_ns_to_cyc_near32 c, Z_HZ_ns, Z_HZ_cyc c, Near),
     (k_ns_to_cyc_ceil32 c, Z_HZ_ns, Z_HZ_cyc c, Ceil),
     (k_ns_to_ticks_floor32 c, Z_HZ_ns, Z_HZ_ticks c, Floor),
     (k_ns_to_ticks_near32 c, Z_HZ_ns, Z_HZ_ticks c, Near),
     (k_ns_to_ticks_ceil32 c, Z_HZ_ns, Z_HZ_ticks c, Ceil),
     (k_cyc_to_ms_floor32 c, Z_HZ_cyc c, Z_HZ_ms, Floor),
     (k_cyc_to_ms_near32 c, Z_HZ_cyc c, Z_HZ_ms, Near),
     (k_cyc_to_ms_ceil32 c, Z_HZ_cyc c, Z_HZ_ms, Ceil),
     (k_cyc_to_us_floor32 c, Z_HZ_cyc c, Z_HZ_us, Floor),
     (k_cyc_to_us_near32 c, Z_HZ_cyc c, Z_HZ_us, Near),
     (k_cyc_to_us_ceil32 c, Z_HZ_cyc c, Z_HZ_us, Ceil),
     (k_cyc_to_ns_floor32 c, Z_HZ_cyc c, Z_HZ_ns, Floor),
     (k_cyc_to_ns_near32 c, Z_HZ_cyc c, Z_HZ_ns, Near),
     (k_cyc_to_ns_ceil32 c, Z_HZ_cyc c, Z_HZ_ns, Ceil),
     (k_cyc_to_ticks_floor32 c, Z_HZ_cyc c, Z_HZ_ticks c, Floor),
     (k_cyc_to_ticks_near32 c, Z_HZ_cyc c, Z_HZ_ticks c, Near),
     (k_cyc_to_ticks_ceil32 c, Z_HZ_cyc c, Z_HZ_ticks c, Ceil),
     (k_ticks_to_ms_floor32 c, Z_HZ_ticks c, Z_HZ_ms, Floor),
     (k_ticks_to_ms_near32 c, Z_HZ_ticks c, Z_HZ_ms, Near),
     (k_ticks_to_ms_ceil32 c, Z_HZ_ticks c, Z_HZ_ms, Ceil),
     (k_ticks_to_us_floor32 c, Z_HZ_ticks c, Z_HZ_us, Floor),
     (k_ticks_to_us_near32 c, Z_HZ_ticks c, Z_HZ_us, Near),
     (k_ticks_to_us_ceil32 c, Z_HZ_ticks c, Z_HZ_us, Ceil),
     (k_ticks_to_ns_floor32 c, Z_HZ_ticks c, Z_HZ_ns, Floor),
     (k_ticks_to_ns_near32 c, Z_HZ_ticks c, Z_HZ_ns, Near),
     (k_ticks_to_ns_ceil32 c, Z_HZ_ticks c, Z_HZ_ns, Ceil),
     (k_ticks_to_cyc_floor32 c, Z_HZ_ticks c, Z_HZ_cyc c, Floor),
     (k_ticks_to_cyc_near32 c, Z_HZ_ticks c, Z_HZ_cyc c, Near),
     (k_ticks_to_cyc_ceil32 c, Z_HZ_ticks c, Z_HZ_cyc c, Ceil)]"

definition conversions64 :: "clock_config \<Rightarrow> ((u64 \<Rightarrow> u64) \<times> u32 \<times> u32 \<times> rounding) list" where
  "conversions64 c =
    [(k_ms_to_cyc_floor64 c, Z_HZ_ms, Z_HZ_cyc c, Floor),
     (k_ms_to_cyc_near64 c, Z_HZ_ms, Z_HZ_cyc c, Near),
     (k_ms_to_cyc_ceil64 c, Z_HZ_ms, Z_HZ_cyc c, Ceil),
     (k_ms_to_ticks_floor64 c, Z_HZ_ms, Z_HZ_ticks c, Floor),
     (k_ms_to_ticks_near64 c, Z_HZ_ms, Z_HZ_ticks c, Near),
     (k_ms_to_ticks_ceil64 c, Z_HZ_ms, Z_HZ_ticks c, Ceil),
     (k_us_to_cyc_floor64 c, Z_HZ_us, Z_HZ_cyc c, Floor),
     (k_us_to_cyc_near64 c, Z_HZ_us, Z_HZ_cyc c, Near),
     (k_us_to_cyc_ceil64 c, Z_HZ_us, Z_HZ_cyc c, Ceil),
     (k_us_to_ticks_floor64 c, Z_HZ_us, Z_HZ_ticks c, Floor),
     (k_us_to_ticks_near64 c, Z_HZ_us, Z_HZ_ticks c, Near),
     (k_us_to_ticks_ceil64 c, Z_HZ_us, Z_HZ_ticks c, Ceil),
     (k_ns_to_cyc_floor64 c, Z_HZ_ns, Z_HZ_cyc c, Floor),
     (k_ns_to_cyc_near64 c, Z_HZ_ns, Z_HZ_cyc c, Near),
     (k_ns_to_cyc_ceil64 c, Z_HZ_ns, Z_HZ_cyc c, Ceil),
     (k_ns_to_ticks_floor64 c, Z_HZ_ns, Z_HZ_ticks c, Floor),
     (k_ns_to_ticks_near64 c, Z_HZ_ns, Z_HZ_ticks c, Near),
     (k_ns_to_ticks_ceil64 c, Z_HZ_ns, Z_HZ_ticks c, Ceil),
     (k_cyc_to_ms_floor64 c, Z_HZ_cyc c, Z_HZ_ms, Floor),
     (k_cyc_to_ms_near64 c, Z_HZ_cyc c, Z_HZ_ms, Near),
     (k_cyc_to_ms_ceil64 c, Z_HZ_cyc c, Z_HZ_ms, Ceil),
     (k_cyc_to_us_floor64 c, Z_HZ_cyc c, Z_HZ_us, Floor),
     (k_cyc_to_us_near64 c, Z_HZ_cyc c, Z_HZ_us, Near),
     (k_cyc_to_us_ceil64 c, Z_HZ_cyc c, Z_HZ_us, Ceil),
     (k_cyc_to_ns_floor64 c, Z_HZ_cyc c, Z_HZ_ns, Floor),
     (k_cyc_to_ns_near64 c, Z_HZ_cyc c, Z_HZ_ns, Near),
     (k_cyc_to_ns_ceil64 c, Z_HZ_cyc c, Z_HZ_ns, Ceil),
     (k_cyc_to_ticks_floor64 c, Z_HZ_cyc c, Z_HZ_ticks c, Floor),
     (k_cyc_to_ticks_near64 c, Z_HZ_cyc c, Z_HZ_ticks c, Near),
     (k_cyc_to_ticks_ceil64 c, Z_HZ_cyc c, Z_HZ_ticks c, Ceil),
     (k_ticks_to_ms_floor64 c, Z_HZ_ticks c, Z_HZ_ms, Floor),
     (k_ticks_to_ms_near64 c, Z_HZ_ticks c, Z_HZ_ms, Near),
     (k_ticks_to_ms_ceil64 c, Z_HZ_ticks c, Z_HZ_ms, Ceil),
     (k_ticks_to_us_floor64 c, Z_HZ_ticks c, Z_HZ_us, Floor),
     (k_ticks_to_us_near64 c, Z_HZ_ticks c, Z_HZ_us, Near),
     (k_ticks_to_us_ceil64 c, Z_HZ_ticks c, Z_HZ_us, Ceil),
     (k_ticks_to_ns_floor64 c, Z_HZ_ticks c, Z_HZ_ns, Floor),
     (k_ticks_to_ns_near64 c, Z_HZ_ticks c, Z_HZ_ns, Near),
     (k_ticks_to_ns_ceil64 c, Z_HZ_ticks c, Z_HZ_ns, Ceil),
     (k_ticks_to_cyc_floor64 c, Z_HZ_ticks c, Z_HZ_cyc c, Floor),
     (k_ticks_to_cyc_near64 c, Z_HZ_ticks c, Z_HZ_cyc c, Near),
     (k_ticks_to_cyc_ceil64 c, Z_HZ_ticks c, Z_HZ_cyc c, Ceil)]"

lemmas conversions32_defs =
  k_ms_to_cyc_floor32_def k_ms_to_cyc_near32_def k_ms_to_cyc_ceil32_def k_ms_to_ticks_floor32_def
  k_ms_to_ticks_near32_def k_ms_to_ticks_ceil32_def k_us_to_cyc_floor32_def k_us_to_cyc_near32_def
  k_us_to_cyc_ceil32_def k_us_to_ticks_floor32_def k_us_to_ticks_near32_def k_us_to_ticks_ceil32_def
  k_ns_to_cyc_floor32_def k_ns_to_cyc_near32_def k_ns_to_cyc_ceil32_def k_ns_to_ticks_floor32_def
  k_ns_to_ticks_near32_def k_ns_to_ticks_ceil32_def k_cyc_to_ms_floor32_def k_cyc_to_ms_near32_def
  k_cyc_to_ms_ceil32_def k_cyc_to_us_floor32_def k_cyc_to_us_near32_def k_cyc_to_us_ceil32_def
  k_cyc_to_ns_floor32_def k_cyc_to_ns_near32_def k_cyc_to_ns_ceil32_def k_cyc_to_ticks_floor32_def
  k_cyc_to_ticks_near32_def k_cyc_to_ticks_ceil32_def k_ticks_to_ms_floor32_def k_ticks_to_ms_near32_def
  k_ticks_to_ms_ceil32_def k_ticks_to_us_floor32_def k_ticks_to_us_near32_def k_ticks_to_us_ceil32_def
  k_ticks_to_ns_floor32_def k_ticks_to_ns_near32_def k_ticks_to_ns_ceil32_def k_ticks_to_cyc_floor32_def
  k_ticks_to_cyc_near32_def k_ticks_to_cyc_ceil32_def

lemmas conversions64_defs =
  k_ms_to_cyc_floor64_def k_ms_to_cyc_near64_def k_ms_to_cyc_ceil64_def k_ms_to_ticks_floor64_def
  k_ms_to_ticks_near64_def k_ms_to_ticks_ceil64_def k_us_to_cyc_floor64_def k_us_to_cyc_near64_def
  k_us_to_cyc_ceil64_def k_us_to_ticks_floor64_def k_us_to_ticks_near64_def k_us_to_ticks_ceil64_def
  k_ns_to_cyc_floor64_def k_ns_to_cyc_near64_def k_ns_to_cyc_ceil64_def k_ns_to_ticks_floor64_def
  k_ns_to_ticks_near64_def k_ns_to_ticks_ceil64_def k_cyc_to_ms_floor64_def k_cyc_to_ms_near64_def
  k_cyc_to_ms_ceil64_def k_cyc_to_us_floor64_def k_cyc_to_us_near64_def k_cyc_to_us_ceil64_def
  k_cyc_to_ns_floor64_def k_cyc_to_ns_near64_def k_cyc_to_ns_ceil64_def k_cyc_to_ticks_floor64_def
  k_cyc_to_ticks_near64_def k_cyc_to_ticks_ceil64_def k_ticks_to_ms_floor64_def k_ticks_to_ms_near64_def
  k_ticks_to_ms_ceil64_def k_ticks_to_us_floor64_def k_ticks_to_us_near64_def k_ticks_to_us_ceil64_def
  k_ticks_to_ns_floor64_def k_ticks_to_ns_near64_def k_ticks_to_ns_ceil64_def k_ticks_to_cyc_floor64_def
  k_ticks_to_cyc_near64_def k_ticks_to_cyc_ceil64_def

definition rates_positive :: "clock_config \<Rightarrow> bool" where
  "rates_positive c \<longleftrightarrow> 0 < hw_cycles_per_sec c \<and> 0 < ticks_per_sec c"

lemma hz_positive [simp]: "0 < Z_HZ_ms" "0 < Z_HZ_us" "0 < Z_HZ_ns"
  by (simp_all add: Z_HZ_ms_def Z_HZ_us_def Z_HZ_ns_def)

lemma hz_config_positive: "rates_positive c \<Longrightarrow> 0 < Z_HZ_cyc c" "rates_positive c \<Longrightarrow> 0 < Z_HZ_ticks c"
  by (simp_all add: rates_positive_def Z_HZ_cyc_def Z_HZ_ticks_def sys_clock_hw_cycles_per_sec_def)

lemma rounding_of_simps [simp]:
  "rounding_of False False = Floor" "rounding_of True False = Ceil" "rounding_of False True = Near"
  by (simp_all add: rounding_of_def)

lemmas z_tmcvt_modes32 = z_tmcvt_32 [where up = False and ro = False, simplified rounding_of_simps]
  z_tmcvt_32 [where up = True and ro = False, simplified rounding_of_simps]
  z_tmcvt_32 [where up = False and ro = True, simplified rounding_of_simps]

text \<open>C14: every one of the 42 conversions with a 32-bit result returns the exact quotient of its rates, rounded
  down, to the nearest or up as its name says and reduced modulo \<open>2 ^ 32\<close>, whichever of the three
  algorithms the rates select; no argument makes an intermediate value overflow.\<close>

theorem k_conversions32_exact:
  assumes "rates_positive c" and "(fn, from_hz, to_hz, r) \<in> set (conversions32 c)"
  shows "unat (fn t) = exact r (unat t) (unat from_hz) (unat to_hz) mod 2 ^ 32"
  using assms(2) hz_config_positive [OF assms(1)] unfolding conversions32_def
  by (auto simp: conversions32_defs z_tmcvt_modes32)

definition soc_clock :: clock_config where
  "soc_clock = \<lparr>hw_cycles_per_sec = 32768, ticks_per_sec = 32768, reads_frequency_at_runtime = False,
     max_timeout_days = 365\<rparr>"

lemma soc_clock_rates: "rates_positive soc_clock"
  by (simp add: rates_positive_def soc_clock_def)

theorem k_conversions32_exact_witness: "unat (k_us_to_ticks_ceil32 soc_clock 1400) = 46"
proof -
  have "(k_us_to_ticks_ceil32 soc_clock, Z_HZ_us, Z_HZ_ticks soc_clock, Ceil) \<in> set (conversions32 soc_clock)"
    by (simp add: conversions32_def)
  from k_conversions32_exact [OF soc_clock_rates this, of 1400] show ?thesis
    by (simp add: exact_def off_exact_def Z_HZ_us_def Z_HZ_ticks_def soc_clock_def)
qed

lemmas z_tmcvt_modes64 = z_tmcvt_64 [where up = False and ro = False, simplified rounding_of_simps]
  z_tmcvt_64 [where up = True and ro = False, simplified rounding_of_simps]
  z_tmcvt_64 [where up = False and ro = True, simplified rounding_of_simps]

text \<open>Every one of the 42 conversions with a 64-bit result returns the exact rounded quotient of its rates as
  long as \<open>t * to_hz + from_hz\<close> does not exceed \<open>2 ^ 64\<close>.\<close>

theorem k_conversions64_exact:
  assumes "rates_positive c" and "(fn, from_hz, to_hz, r) \<in> set (conversions64 c)"
    and b: "unat t * unat to_hz + unat from_hz \<le> 2 ^ 64"
  shows "unat (fn t) = exact r (unat t) (unat from_hz) (unat to_hz)"
proof -
  have "fits c k r (unat t) from_hz to_hz" if "0 < from_hz" for k
    using that b fits_exact [of from_hz c True r "unat t" to_hz] by (simp add: fits_def)
  then show ?thesis
    using assms(2) hz_config_positive [OF assms(1)] unfolding conversions64_def
    by (auto simp: conversions64_defs z_tmcvt_modes64)
qed

theorem k_conversions64_exact_witness: "unat (k_ticks_to_us_floor64 soc_clock 327680) = 10000000"
proof -
  have "(k_ticks_to_us_floor64 soc_clock, Z_HZ_ticks soc_clock, Z_HZ_us, Floor) \<in> set (conversions64 soc_clock)"
    by (simp add: conversions64_def)
  from k_conversions64_exact [OF soc_clock_rates this, of 327680] show ?thesis
    by (simp add: exact_def off_exact_def Z_HZ_us_def Z_HZ_ticks_def soc_clock_def)
qed

end
