(* ===== verification/Systick.thy ===== *)
theory Systick
  imports Time_Units Soc Irq
begin

text \<open>
  The system tick: the inline functions of \<^verbatim>\<open>hal/ch57x/inc/ch57x_hal_systick.h\<close>, \<^verbatim>\<open>ch57x_hal_systick.c\<close> and the tick
  driver \<^verbatim>\<open>drivers/timer/sys_timer.c\<close>.  The repository declares \<open>sys_clock_announce\<close> and does not define it: the
  handler returns the number of ticks it announces.  Conversions of C between \<open>int\<close>, 32-bit and 64-bit
  unsigned integers are written out; the signed \<open>ticks\<close> of a timeout is an \<open>int\<close> in 32-bit range.  The driver masks
  interrupts around its sections and restores the mask before it leaves them (\<open>Irq\<close>); the counter and the driver's
  variable are touched by nothing else, so the sections are single steps here.

  The driver takes the counter to count up.  A comment at the head of \<open>SysTick_Handler\<close> says that the counter of the CH573
  counts down and that the arithmetic, taken over from another driver, is wrong for it.  The definitions translate the
  arithmetic as it is written; what it computes from a counter that counts down is the last theorem.
\<close>

section \<open>Registers\<close>

record systick_state =
  CTLR :: u32
  CNT :: u64
  CMP :: u64
  CNTFG :: u32
  st_last_count :: u64

definition SYSTICK_CTRL_STE_MSK :: u32 where "SYSTICK_CTRL_STE_MSK = push_bit 0 (WCH_MASK 1)"
definition SYSTICK_CTRL_STIE_MSK :: u32 where "SYSTICK_CTRL_STIE_MSK = push_bit 1 (WCH_MASK 1)"
definition SYSTICK_CTRL_STCLK_MSK :: u32 where "SYSTICK_CTRL_STCLK_MSK = push_bit 2 (WCH_MASK 1)"
definition SYSTICK_CTRL_STRELOAD_MSK :: u32 where "SYSTICK_CTRL_STRELOAD_MSK = push_bit 8 (WCH_MASK 1)"
definition SYSTICK_FLAG_CNT :: u32 where "SYSTICK_FLAG_CNT = push_bit 1 1"
definition SYSTICK_CLK_DIV_1 :: u32 where "SYSTICK_CLK_DIV_1 = 1"

section \<open>The hardware layer\<close>

definition hal_systick_set_cmp :: "u64 \<Rightarrow> systick_state \<Rightarrow> systick_state" where
  "hal_systick_set_cmp cmp s = s\<lparr>CMP := cmp - 1\<rparr>"

definition hal_systick_get_cmp :: "systick_state \<Rightarrow> u64" where
  "hal_systick_get_cmp s = CMP s"

definition hal_systick_get_cnt :: "systick_state \<Rightarrow> u64" where
  "hal_systick_get_cnt s = CNT s"

definition hal_systick_enable :: "systick_state \<Rightarrow> systick_state" where
  "hal_systick_enable s = s\<lparr>CTLR := CTLR s OR SYSTICK_CTRL_STE_MSK\<rparr>"

definition hal_systick_disable :: "systick_state \<Rightarrow> systick_state" where
  "hal_systick_disable s = s\<lparr>CTLR := CTLR s AND NOT SYSTICK_CTRL_STE_MSK\<rparr>"

definition hal_systick_int_enable :: "systick_state \<Rightarrow> systick_state" where
  "hal_systick_int_enable s = s\<lparr>CTLR := CTLR s OR SYSTICK_CTRL_STIE_MSK\<rparr>"

definition hal_systick_int_disable :: "systick_state \<Rightarrow> systick_state" where
  "hal_systick_int_disable s = s\<lparr>CTLR := CTLR s AND NOT SYSTICK_CTRL_STIE_MSK\<rparr>"

definition hal_systick_clk :: "u32 \<Rightarrow> systick_state \<Rightarrow> systick_state" where
  "hal_systick_clk clk s = s\<lparr>CTLR := CTLR s OR (push_bit 2 clk AND SYSTICK_CTRL_STCLK_MSK)\<rparr>"

definition hal_systick_reload_enable :: "systick_state \<Rightarrow> systick_state" where
  "hal_systick_reload_enable s = s\<lparr>CTLR := CTLR s OR SYSTICK_CTRL_STRELOAD_MSK\<rparr>"

definition hal_systick_get_flag :: "systick_state \<Rightarrow> bool" where
  "hal_systick_get_flag s \<longleftrightarrow> CNTFG s AND SYSTICK_FLAG_CNT \<noteq> 0"

definition hal_systick_clear_flag :: "u32 \<Rightarrow> systick_state \<Rightarrow> systick_state" where
  "hal_systick_clear_flag flag s = s\<lparr>CNTFG := CNTFG s AND NOT flag\<rparr>"

definition hal_systick_sw_enable :: "systick_state \<Rightarrow> systick_state" where
  "hal_systick_sw_enable s = s\<lparr>CNTFG := CNTFG s OR 1\<rparr>"

definition hal_systick_sw_disable :: "systick_state \<Rightarrow> systick_state" where
  "hal_systick_sw_disable s = s\<lparr>CNTFG := CNTFG s AND NOT 1\<rparr>"

definition hal_systick_definit :: "systick_state \<Rightarrow> systick_state" where
  "hal_systick_definit s =
     hal_systick_enable (hal_systick_reload_enable (hal_systick_int_enable (hal_systick_clk SYSTICK_CLK_DIV_1 s)))"

section \<open>The tick driver\<close>

definition ST_CYC_PER_TICK :: "clock_config \<Rightarrow> u32" where
  "ST_CYC_PER_TICK c = ucast (ucast (sys_clock_hw_cycles_per_sec c) div ucast (ticks_per_sec c) :: u64)"

definition MAX_CYC :: u32 where "MAX_CYC = 0x7FFFFFFF"

definition MAX_TICKS :: "clock_config \<Rightarrow> u32" where
  "MAX_TICKS c = (MAX_CYC - ST_CYC_PER_TICK c) div ST_CYC_PER_TICK c"

definition MIN_DELAY :: int where "MIN_DELAY = 1000"

definition set_systimer_alarm :: "u64 \<Rightarrow> systick_state \<Rightarrow> systick_state" where
  "set_systimer_alarm time s = hal_systick_set_cmp time s"

definition systimer_alarm :: "systick_state \<Rightarrow> u64" where
  "systimer_alarm s = hal_systick_get_cnt s"

text \<open>The handler and the ticks it announces, as a signed 32-bit integer.  The time that has passed is the count minus
  the last one, as the source computes it.\<close>

definition SysTick_Handler :: "clock_config \<Rightarrow> bool \<Rightarrow> systick_state \<Rightarrow> int \<times> systick_state" where
  "SysTick_Handler c tickless s =
     (let now = systimer_alarm s;
          dticks = (ucast ((now - st_last_count s) div ucast (ST_CYC_PER_TICK c)) :: u32);
          s = s\<lparr>st_last_count := st_last_count s + ucast (dticks * ST_CYC_PER_TICK c)\<rparr>;
          s = (if \<not> tickless then
                 let nxt = st_last_count s + ucast (ST_CYC_PER_TICK c);
                     nxt = (if uint (nxt - now) < MIN_DELAY then nxt + ucast (ST_CYC_PER_TICK c) else nxt)
                 in set_systimer_alarm nxt s
               else s)
      in (if tickless then sint dticks else 1, hal_systick_clear_flag SYSTICK_FLAG_CNT s))"

definition CLAMP :: "int \<Rightarrow> int \<Rightarrow> int \<Rightarrow> int" where
  "CLAMP val low high = (if val \<le> low then low else if val < high then val else high)"

definition sys_clock_set_timeout :: "clock_config \<Rightarrow> bool \<Rightarrow> int \<Rightarrow> systick_state \<Rightarrow> systick_state" where
  "sys_clock_set_timeout c tickless ticks s =
     (if \<not> tickless then s
      else
        let C = ST_CYC_PER_TICK c;
            ticks = (if ticks = - 1 then sint (MAX_TICKS c) else ticks);
            ticks = CLAMP (ticks - 1) 0 (sint (MAX_TICKS c));
            now = systimer_alarm s;
            cyc = of_int ticks * C;
            adj = ucast (now - st_last_count s) + (C - 1);
            cyc = (if cyc \<le> MAX_CYC - adj then cyc + adj else MAX_CYC);
            cyc = cyc div C * C;
            cyc = (if sint (ucast (ucast cyc + st_last_count s - now) :: u32) < MIN_DELAY then cyc + C else cyc)
        in set_systimer_alarm (ucast cyc + st_last_count s) s)"

definition st_clock_elapsed :: "clock_config \<Rightarrow> bool \<Rightarrow> systick_state \<Rightarrow> u32" where
  "st_clock_elapsed c tickless s =
     (if \<not> tickless then 0
      else (ucast (systimer_alarm s) - ucast (st_last_count s)) div ST_CYC_PER_TICK c)"

definition st_clock_cycle_get_32 :: "systick_state \<Rightarrow> u32" where
  "st_clock_cycle_get_32 s = ucast (systimer_alarm s)"

definition sys_clock_cycle_get_64 :: "systick_state \<Rightarrow> u64" where
  "sys_clock_cycle_get_64 s = systimer_alarm s"

text \<open>Initialisation enables the line \<open>irq\<close> of the tick in the interrupt controller \<open>k\<close>, then the timer.\<close>

definition st_clock_driver_init ::
    "clock_config \<Rightarrow> u32 \<Rightarrow> PFIC_Type \<Rightarrow> systick_state \<Rightarrow> (int \<times> PFIC_Type \<times> systick_state) option" where
  "st_clock_driver_init c irq k s =
     (let s = s\<lparr>st_last_count := systimer_alarm s\<rparr>;
          s = set_systimer_alarm (st_last_count s + ucast (ST_CYC_PER_TICK c)) s
      in map_option (\<lambda>k. (0, k, hal_systick_definit s)) (arch_irq_enable irq k))"

section \<open>Lemmas on the conversions\<close>

lemma unat_u32_of_u64: "unat (x :: u64) < 2 ^ 32 \<Longrightarrow> unat (ucast x :: u32) = unat x"
  by (simp add: unat_ucast_u64_u32)

lemma sint_u32_small: "unat (x :: u32) < 2 ^ 31 \<Longrightarrow> sint x = int (unat x)"
proof -
  assume "unat x < 2 ^ 31"
  then have "int (unat x) < int (2 ^ 31)" by (simp only: of_nat_less_iff)
  then have "uint x < 2 ^ 31" by simp
  moreover have "- (2 ^ 31) \<le> uint x" by (rule order_trans [of _ 0]) simp_all
  ultimately have "signed_take_bit 31 (uint x) = uint x" by (intro signed_take_bit_int_eq_self)
  then show ?thesis by (simp add: sint_uint)
qed

lemma mult_div_le_u32: "unat (k :: u32) * unat C \<le> m \<Longrightarrow> m < 2 ^ 32 \<Longrightarrow> unat (k * C) = unat k * unat (C :: u32)"
  by (simp add: unat_word_ariths)

lemma unat_of_nat_u64: "n < 2 ^ 64 \<Longrightarrow> unat (of_nat n :: u64) = n"
  by (simp add: unat_of_nat take_bit_nat_eq_self)

text \<open>Cycles since the last tick.\<close>

abbreviation since :: "systick_state \<Rightarrow> nat" where
  "since s \<equiv> unat (CNT s - st_last_count s)"

lemma whole_ticks:
  fixes a :: u64 and C :: u32
  assumes "unat a < 2 ^ 31"
  shows "sint (ucast (a div ucast C) :: u32) = int (unat a div unat C)"
    and "(ucast ((ucast (a div ucast C) :: u32) * C) :: u64) = of_nat (unat a div unat C * unat C)"
    and "unat (a - of_nat (unat a div unat C * unat C)) = unat a mod unat C"
proof -
  let ?q = "unat a div unat C" and ?d = "ucast (a div ucast C) :: u32"
  have q: "?q * unat C \<le> unat a" "?q \<le> unat a" by (simp_all add: div_times_less_eq_dividend)
  have a: "unat (a div ucast C) = ?q" by (simp add: unat_div_distrib)
  have "?q < 2 ^ 32" by (rule order_le_less_trans [OF q(2)]) (use assms in simp)
  from unat_u32_of_u64 [OF this [folded a]] a have d: "unat ?d = ?q" by simp
  then have m: "unat (?d * C) = ?q * unat C" using mult_div_le_u32 [of ?d C "unat a"] q(1) assms by simp
  have "?q < 2 ^ 31" by (rule order_le_less_trans [OF q(2) assms])
  then show "sint ?d = int ?q" using d sint_u32_small [of ?d] by simp
  show "ucast (?d * C) = (of_nat (?q * unat C) :: u64)" by (simp only: m [symmetric] of_nat_unat)
  have "?q * unat C < 2 ^ 64" by (rule order_le_less_trans [OF q(1)]) (use assms in simp)
  then have "unat (of_nat (?q * unat C) :: u64) = ?q * unat C" by (rule unat_of_nat_u64)
  then show "unat (a - of_nat (?q * unat C)) = unat a mod unat C"
    using q by (simp add: unat_sub word_le_nat_alt minus_div_mult_eq_mod)
qed

text \<open>The cycles from now to the next tick, from a last tick \<open>r\<close> cycles ago.\<close>

lemma next_tick:
  fixes r :: u64 and C :: u32
  assumes "unat r < unat C"
  shows "unat (ucast C - r) = unat C - unat r"
  using assms by (simp add: unat_sub word_le_nat_alt)

lemma next_alarm:
  fixes r :: u64 and C :: u32
  assumes "unat r < unat C"
  shows "unat (ucast C + ucast C - r) = unat C - unat r + unat C"
proof -
  have s: "ucast C + ucast C - r = (ucast C - r) + ucast C" by simp
  have "unat C < 2 ^ 32" using unsigned_less [of C, where ?'a = nat] by simp
  then have "unat C - unat r + unat C < 2 ^ 64" by simp
  then show ?thesis by (simp only: s unat_word_ariths(1) next_tick [OF assms]) simp
qed

lemma flag_cleared: "\<not> hal_systick_get_flag (hal_systick_clear_flag SYSTICK_FLAG_CNT s)"
  by (simp add: hal_systick_get_flag_def hal_systick_clear_flag_def bit.conj_cancel_left and.assoc)

text \<open>C35: the tick handler loses no time.  If it runs less than \<open>2 ^ 31\<close> cycles after the last accounted tick, by the count that
  the driver takes to count up, it accounts exactly for the whole ticks that have passed and leaves less than a tick
  over, with the flag of the timer cleared.  A tickless kernel is told all those ticks and its alarm is left alone;
  a kernel with a periodic tick is told one, whatever their number, and its next alarm is set on the next tick boundary,
  or on the one after it if the next is less than 1000 cycles away.\<close>

theorem SysTick_Handler_accounts:
  assumes "0 < ST_CYC_PER_TICK c" and "since s < 2 ^ 31"
  shows "\<exists>s'. SysTick_Handler c tickless s =
      (if tickless then int (since s div unat (ST_CYC_PER_TICK c)) else 1, s') \<and>
    CNT s' = CNT s \<and> since s' = since s mod unat (ST_CYC_PER_TICK c) \<and>
    st_last_count s' = st_last_count s + of_nat (since s div unat (ST_CYC_PER_TICK c) * unat (ST_CYC_PER_TICK c)) \<and>
    \<not> hal_systick_get_flag s' \<and>
    (if tickless then CMP s' = CMP s
     else unat (CMP s' + 1 - CNT s') =
       unat (ST_CYC_PER_TICK c) - since s' + (if unat (ST_CYC_PER_TICK c) - since s' < 1000 then unat (ST_CYC_PER_TICK c) else 0))"
proof -
  let ?C = "ST_CYC_PER_TICK c" and ?a = "CNT s - st_last_count s"
  let ?s = "snd (SysTick_Handler c tickless s)"
  note w = whole_ticks [OF assms(2), of ?C]
  have last: "st_last_count ?s = st_last_count s + of_nat (since s div unat ?C * unat ?C)" and cnt: "CNT ?s = CNT s"
    and ann: "fst (SysTick_Handler c tickless s) = (if tickless then int (since s div unat ?C) else 1)"
    using w by (simp_all add: SysTick_Handler_def systimer_alarm_def hal_systick_get_cnt_def hal_systick_clear_flag_def
        Let_def set_systimer_alarm_def hal_systick_set_cmp_def)
  have rest: "since ?s = since s mod unat ?C" using w(3) last cnt by (simp add: diff_diff_eq)
  then have lt: "unat (CNT ?s - st_last_count ?s) < unat ?C"
    using assms(1) by (simp add: unat_gt_0 word_gt_0)
  have flag: "\<not> hal_systick_get_flag ?s" by (simp add: SysTick_Handler_def Let_def flag_cleared)
  have keep: "CMP ?s = CMP s" if tickless
    using that by (simp add: SysTick_Handler_def hal_systick_clear_flag_def Let_def)
  have alarm: "CMP ?s + 1 - CNT ?s =
      (if unat (ucast ?C - (CNT ?s - st_last_count ?s)) < 1000 then ucast ?C + ucast ?C - (CNT ?s - st_last_count ?s)
       else ucast ?C - (CNT ?s - st_last_count ?s))" if "\<not> tickless"
  proof -
    have "uint (n :: u64) < 1000 \<longleftrightarrow> unat n < 1000" for n
      using of_nat_less_iff [of "unat n" 1000, where ?'a = int] by (simp only: of_nat_numeral uint_nat)
    then show ?thesis
      using that w(2) by (simp add: SysTick_Handler_def systimer_alarm_def hal_systick_get_cnt_def hal_systick_clear_flag_def
        Let_def set_systimer_alarm_def hal_systick_set_cmp_def MIN_DELAY_def algebra_simps)
  qed
  then have "unat (CMP ?s + 1 - CNT ?s) = unat ?C - since ?s + (if unat ?C - since ?s < 1000 then unat ?C else 0)" if "\<not> tickless"
    using that next_tick [OF lt] next_alarm [OF lt] by simp
  with last cnt ann rest flag keep show ?thesis
    by (intro exI [of _ ?s]) (simp add: prod_eq_iff)
qed

lemma CLAMP_id: "0 \<le> v \<Longrightarrow> v \<le> high \<Longrightarrow> CLAMP v 0 high = v"
  by (auto simp: CLAMP_def)

lemma max_ticks:
  assumes "0 < ST_CYC_PER_TICK c" "t * unat (ST_CYC_PER_TICK c) + unat (ST_CYC_PER_TICK c) < 2 ^ 31"
  shows "int t \<le> sint (MAX_TICKS c)"
proof -
  let ?C = "ST_CYC_PER_TICK c"
  have C: "0 < unat ?C" "unat ?C < 2 ^ 31" using assms by (simp_all add: unat_gt_0 word_gt_0)
  have "unat (MAX_CYC - ?C) = 2 ^ 31 - 1 - unat ?C" using C by (simp add: MAX_CYC_def unat_sub word_le_nat_alt)
  then have m: "unat (MAX_TICKS c) = (2 ^ 31 - 1 - unat ?C) div unat ?C" by (simp add: MAX_TICKS_def unat_div_distrib)
  have "t * unat ?C \<le> 2 ^ 31 - 1 - unat ?C" using assms(2) by simp
  then have "t \<le> unat (MAX_TICKS c)" unfolding m using C(1) by (simp add: less_eq_div_iff_mult_less_eq)
  moreover have "unat (MAX_TICKS c) < 2 ^ 31" unfolding m by (rule order_le_less_trans [OF div_le_dividend]) simp
  ultimately show ?thesis by (simp only: sint_u32_small of_nat_le_iff)
qed

text \<open>The cycle count of the next alarm, relative to the last tick.\<close>

definition alarm_cyc :: "u32 \<Rightarrow> u32 \<Rightarrow> u64 \<Rightarrow> u32" where
  "alarm_cyc C cyc a =
     (let adj = ucast a + (C - 1);
          cyc = (if cyc \<le> MAX_CYC - adj then cyc + adj else MAX_CYC);
          cyc = cyc div C * C
      in if sint (ucast (ucast cyc - a) :: u32) < MIN_DELAY then cyc + C else cyc)"

lemma set_timeout_alarm:
  "CMP (sys_clock_set_timeout c True ticks s) + 1 =
     st_last_count s + ucast (alarm_cyc (ST_CYC_PER_TICK c)
       (of_int (CLAMP ((if ticks = - 1 then sint (MAX_TICKS c) else ticks) - 1) 0 (sint (MAX_TICKS c))) * ST_CYC_PER_TICK c)
       (CNT s - st_last_count s))"
  by (simp add: sys_clock_set_timeout_def alarm_cyc_def Let_def set_systimer_alarm_def hal_systick_set_cmp_def
      systimer_alarm_def hal_systick_get_cnt_def algebra_simps)

lemma ceil_mult: "0 < C \<Longrightarrow> n \<le> (n + C - 1) div C * C \<and> (n + C - 1) div C * C < n + (C :: nat)"
proof -
  assume C: "0 < C"
  have "(n + C - 1) div C * C = n + C - 1 - (n + C - 1) mod C" by (simp add: minus_mod_eq_div_mult)
  moreover have "(n + C - 1) mod C < C" using C by simp
  ultimately show ?thesis using C by linarith
qed

lemma alarm_cyc_boundary:
  fixes C :: u32 and a :: u64
  assumes C: "0 < C" and b: "unat cyc + unat a + 2 * unat C \<le> 2 ^ 31"
  shows "\<exists>m. unat (alarm_cyc C cyc a) = m * unat C \<and> unat a + unat cyc \<le> m * unat C \<and>
    m * unat C < unat a + unat cyc + 2 * unat C \<and> (1000 \<le> unat C \<longrightarrow> unat a + 1000 \<le> m * unat C)"
proof -
  define adj where "adj = ucast a + (C - 1)"
  let ?n = "unat cyc + unat a"
  let ?q = "(?n + unat C - 1) div unat C"
  define B where "B = (cyc + adj) div C * C"
  have C0: "0 < unat C" using C by (simp add: unat_gt_0 word_gt_0)
  define Q where "Q = ?q * unat C"
  have q: "?n \<le> Q" "Q < ?n + unat C" using ceil_mult [OF C0, of ?n] by (simp_all add: Q_def)
  have "unat (ucast a :: u32) = unat a" using b by (intro unat_u32_of_u64) simp
  then have adj: "unat adj = unat a + unat C - 1"
    using C0 b C by (simp add: adj_def unat_word_ariths(1) unat_minus_one word_gt_0)
  have "unat (MAX_CYC - adj) = 2 ^ 31 - 1 - unat adj"
    using adj b C0 by (simp add: MAX_CYC_def unat_sub word_le_nat_alt)
  then have le: "cyc \<le> MAX_CYC - adj" using adj b C0 by (simp add: word_le_nat_alt)
  have sum: "unat (cyc + adj) = ?n + unat C - 1" using adj b C0 by (simp add: unat_word_ariths(1))
  then have B: "unat B = Q"
    using q b mult_div_le_u32 [of "(cyc + adj) div C" C "2 ^ 31"] by (simp add: B_def Q_def unat_div_distrib)
  have u: "unat (ucast B - a) = Q - unat a" using B q by (simp add: unat_sub word_le_nat_alt)
  have small: "Q - unat a < 2 ^ 31" using q b C0 by linarith
  then have "unat (ucast (ucast B - a) :: u32) = Q - unat a" using u by (subst unat_u32_of_u64) simp_all
  then have "sint (ucast (ucast B - a) :: u32) = int (Q - unat a)" using small sint_u32_small by metis
  then have d: "sint (ucast (ucast B - a) :: u32) < MIN_DELAY \<longleftrightarrow> Q - unat a < 1000"
    using of_nat_less_iff [of "Q - unat a" 1000, where ?'a = int] by (simp only: MIN_DELAY_def of_nat_numeral)
  have step: "unat (B + C) = Q + unat C" using B q b by (simp add: unat_word_ariths(1))
  show ?thesis
  proof (cases "Q - unat a < 1000")
    case True
    then have "alarm_cyc C cyc a = B + C" using d le by (simp add: alarm_cyc_def Let_def adj_def B_def)
    with step q show ?thesis by (intro exI [of _ "?q + 1"]) (simp add: Q_def)
  next
    case False
    then have "alarm_cyc C cyc a = B" using d le by (simp add: alarm_cyc_def Let_def adj_def B_def)
    moreover have "unat a + 1000 \<le> Q" using False by linarith
    ultimately have "unat (alarm_cyc C cyc a) = Q \<and> unat a + unat cyc \<le> Q \<and> Q < unat a + unat cyc + 2 * unat C \<and>
        unat a + 1000 \<le> Q" using B q by auto
    then show ?thesis unfolding Q_def by blast
  qed
qed

text \<open>A tickless timeout of \<open>ticks\<close> ticks sets the alarm on a tick boundary, never earlier than \<open>ticks - 1\<close> whole ticks
  from now and less than \<open>ticks + 1\<close> ticks from now, and, when a tick has at least 1000 cycles, at least 1000 cycles
  ahead; this for every timeout that stays within the 31-bit range of the cycle counts.\<close>

theorem sys_clock_set_timeout_boundary:
  assumes "0 < ST_CYC_PER_TICK c" and "0 < ticks"
    and b: "since s + (ticks + 1) * unat (ST_CYC_PER_TICK c) \<le> 2 ^ 31"
  shows "\<exists>m. CMP (sys_clock_set_timeout c True (int ticks) s) + 1 =
      st_last_count s + of_nat (m * unat (ST_CYC_PER_TICK c)) \<and>
    since s + (ticks - 1) * unat (ST_CYC_PER_TICK c) \<le> m * unat (ST_CYC_PER_TICK c) \<and>
    m * unat (ST_CYC_PER_TICK c) < since s + (ticks + 1) * unat (ST_CYC_PER_TICK c) \<and>
    (1000 \<le> unat (ST_CYC_PER_TICK c) \<longrightarrow> since s + 1000 \<le> m * unat (ST_CYC_PER_TICK c))"
proof -
  let ?C = "ST_CYC_PER_TICK c" and ?t = "ticks - 1"
  define cyc where "cyc = (of_nat ?t :: u32) * ?C"
  have C: "0 < unat ?C" using assms(1) by (simp add: unat_gt_0 word_gt_0)
  have t: "?t * unat ?C + 2 * unat ?C = (ticks + 1) * unat ?C" using assms(2) by (cases ticks) simp_all
  have tl: "?t * unat ?C < 2 ^ 31" using b t C by linarith
  moreover have "?t \<le> ?t * unat ?C" using C by simp
  ultimately have "?t < 2 ^ 31" by linarith
  then have "unat (of_nat ?t :: u32) = ?t" by (intro unat_of_nat_u32) simp
  then have cyc: "unat cyc = ?t * unat ?C" using tl by (simp add: cyc_def unat_word_ariths)
  have "int ?t \<le> sint (MAX_TICKS c)" using assms(1) b t C by (intro max_ticks) linarith+
  then have "CLAMP (int ticks - 1) 0 (sint (MAX_TICKS c)) = int ?t" using assms(2) by (simp add: CLAMP_id of_nat_diff)
  then have "CMP (sys_clock_set_timeout c True (int ticks) s) + 1 =
      st_last_count s + ucast (alarm_cyc ?C cyc (CNT s - st_last_count s))"
    using assms(2) by (simp add: set_timeout_alarm cyc_def)
  moreover obtain m where m: "unat (alarm_cyc ?C cyc (CNT s - st_last_count s)) = m * unat ?C"
      "since s + unat cyc \<le> m * unat ?C" "m * unat ?C < since s + unat cyc + 2 * unat ?C"
      "1000 \<le> unat ?C \<longrightarrow> since s + 1000 \<le> m * unat ?C"
    using alarm_cyc_boundary [OF assms(1), of cyc "CNT s - st_last_count s"] b t cyc by auto
  moreover have "(ucast (alarm_cyc ?C cyc (CNT s - st_last_count s)) :: u64) = of_nat (m * unat ?C)"
    by (simp only: m(1) [symmetric] of_nat_unat)
  moreover have "since s + ?t * unat ?C \<le> m * unat ?C" "m * unat ?C < since s + (ticks + 1) * unat ?C"
    using m(2,3) cyc t by linarith+
  ultimately show ?thesis by metis
qed

text \<open>A 60 MHz clock with a thousand ticks per second, half a tick after the last one.\<close>

definition systick_clock :: clock_config where
  "systick_clock = \<lparr>hw_cycles_per_sec = 60000000, ticks_per_sec = 1000, reads_frequency_at_runtime = False,
     max_timeout_days = 365\<rparr>"

definition systick_example :: systick_state where
  "systick_example = \<lparr>CTLR = 0, CNT = 1030000, CMP = 0, CNTFG = 2, st_last_count = 1000000\<rparr>"

lemma systick_clock_cyc: "ST_CYC_PER_TICK systick_clock = 60000"
  by (simp add: ST_CYC_PER_TICK_def systick_clock_def sys_clock_hw_cycles_per_sec_def)

theorem sys_clock_set_timeout_boundary_witness:
  "\<exists>m. CMP (sys_clock_set_timeout systick_clock True 10 systick_example) + 1 = 1000000 + of_nat (m * 60000) \<and>
    570000 \<le> m * (60000 :: nat) \<and> m * 60000 < (690000 :: nat)"
  using sys_clock_set_timeout_boundary [of systick_clock 10 systick_example]
  by (auto simp: systick_clock_cyc systick_example_def)

theorem SysTick_Handler_accounts_witness:
  "\<exists>s'. SysTick_Handler systick_clock False (systick_example\<lparr>CNT := 1150000\<rparr>) = (1, s') \<and> since s' = 30000 \<and>
     \<not> hal_systick_get_flag s' \<and> unat (CMP s' + 1 - CNT s') = 30000"
  using SysTick_Handler_accounts [of systick_clock "systick_example\<lparr>CNT := 1150000\<rparr>" False]
  by (auto simp: systick_clock_cyc systick_example_def)

text \<open>What the handler makes of a counter that counts down, as the comment in the source says of the CH573: one tick of
  60000 cycles after the last one the difference wraps around, and a tickless kernel is told a negative number of ticks.\<close>

theorem SysTick_Handler_counting_down:
  "fst (SysTick_Handler systick_clock True (systick_example\<lparr>CNT := 1000000 - 60000\<rparr>)) = - 909387744"
  by (simp add: SysTick_Handler_def systimer_alarm_def hal_systick_get_cnt_def systick_clock_cyc systick_example_def Let_def)

end
