(* ===== verification/Rtc.thy ===== *)
theory Rtc
  imports Soc Time_Units Irq
begin

text \<open>
  The real time clock: \<^verbatim>\<open>hal/ch57x/ch57x_hal_rtc.c\<close> with the inline functions of \<^verbatim>\<open>ch57x_hal_rtc.h\<close> (the CH58x
  files have the same text), the system clock driver \<^verbatim>\<open>drivers/timer/rtc_timer.c\<close> on top of it, and the busy
  wait of \<^verbatim>\<open>kernel/timeout.c\<close>.

  The mode and trigger registers are protected by the safe access mode of \<open>Soc\<close>.  Writing a one to the
  load bits of the mode register loads the trigger register into the 32-bit count of a day or into the
  14-bit count of days and the bits clear themselves; writing the clear bits of the flag register clears
  the flags (as documented in \<^verbatim>\<open>CH573SFR.h\<close>).
\<close>

section \<open>Registers\<close>

record rtc_state =
  soc :: soc_regs
  R8_RTC_FLAG_CTRL :: u8
  R8_RTC_MODE_CTRL :: u8
  R32_RTC_TRIG :: u32
  R32_RTC_CNT_32K :: u32
  R32_RTC_CNT_DAY :: u32
  last_count :: u32

definition on_soc :: "(soc_regs \<Rightarrow> soc_regs) \<Rightarrow> rtc_state \<Rightarrow> rtc_state" where
  "on_soc f s = s\<lparr>soc := f (soc s)\<rparr>"

definition RTC_ONEDDAY_SECONDS :: u32 where "RTC_ONEDDAY_SECONDS = 60 * 60 * 24"
definition RTC_ONEDAY_TICKS :: u32 where "RTC_ONEDAY_TICKS = RTC_ONEDDAY_SECONDS * 32768"
definition RTC_START_TIMESTAMP :: int where "RTC_START_TIMESTAMP = 1640995200"
definition RTC_TIMESTAMP_MAX :: int where "RTC_TIMESTAMP_MAX = 1388534400"
definition RTC_CNT_DAY_MSK :: u32 where "RTC_CNT_DAY_MSK = WCH_MASK 14"

definition RB_RTC_TMR_CLR :: u8 where "RB_RTC_TMR_CLR = 0x10"
definition RB_RTC_TRIG_CLR :: u8 where "RB_RTC_TRIG_CLR = 0x20"
definition RB_RTC_TMR_MODE :: u8 where "RB_RTC_TMR_MODE = 0x07"
definition RB_RTC_IGNORE_B0 :: u8 where "RB_RTC_IGNORE_B0 = 0x08"
definition RB_RTC_TMR_EN :: u8 where "RB_RTC_TMR_EN = 0x10"
definition RB_RTC_TRIG_EN :: u8 where "RB_RTC_TRIG_EN = 0x20"
definition RB_RTC_LOAD_LO :: u8 where "RB_RTC_LOAD_LO = 0x40"
definition RB_RTC_LOAD_HI :: u8 where "RB_RTC_LOAD_HI = 0x80"

text \<open>Writes to the registers.\<close>

definition write_rtc_mode :: "u8 \<Rightarrow> rtc_state \<Rightarrow> rtc_state" where
  "write_rtc_mode v s =
     (if safe_act (soc s) then
        let s = s\<lparr>R8_RTC_MODE_CTRL := v AND NOT (RB_RTC_LOAD_LO OR RB_RTC_LOAD_HI)\<rparr>;
            s = (if v AND RB_RTC_LOAD_LO \<noteq> 0 then s\<lparr>R32_RTC_CNT_32K := R32_RTC_TRIG s\<rparr> else s)
        in if v AND RB_RTC_LOAD_HI \<noteq> 0 then s\<lparr>R32_RTC_CNT_DAY := R32_RTC_TRIG s AND RTC_CNT_DAY_MSK\<rparr> else s
      else s)"

definition write_rtc_trig :: "u32 \<Rightarrow> rtc_state \<Rightarrow> rtc_state" where
  "write_rtc_trig v s = (if safe_act (soc s) then s\<lparr>R32_RTC_TRIG := v\<rparr> else s)"

definition write_rtc_flag :: "u8 \<Rightarrow> rtc_state \<Rightarrow> rtc_state" where
  "write_rtc_flag v s =
     (let s = (if v AND RB_RTC_TMR_CLR \<noteq> 0 then s\<lparr>R8_RTC_FLAG_CTRL := R8_RTC_FLAG_CTRL s AND NOT 0x40\<rparr> else s)
      in if v AND RB_RTC_TRIG_CLR \<noteq> 0 then s\<lparr>R8_RTC_FLAG_CTRL := R8_RTC_FLAG_CTRL s AND NOT 0x80\<rparr> else s)"

section \<open>The hardware layer\<close>

definition RTC_FLAG_TMR :: u8 where "RTC_FLAG_TMR = 0x40"
definition RTC_FALG_TRIG :: u8 where "RTC_FALG_TRIG = 0x80"

definition rtc_mode_or :: "u8 \<Rightarrow> rtc_state \<Rightarrow> rtc_state" where
  "rtc_mode_or b s =
     (let s = on_soc sys_safe_access_enable s;
          s = write_rtc_mode (R8_RTC_MODE_CTRL s OR b) s
      in on_soc sys_safe_access_disable s)"

definition rtc_mode_and_not :: "u8 \<Rightarrow> rtc_state \<Rightarrow> rtc_state" where
  "rtc_mode_and_not b s =
     (let s = on_soc sys_safe_access_enable s;
          s = write_rtc_mode (R8_RTC_MODE_CTRL s AND NOT b) s
      in on_soc sys_safe_access_disable s)"

definition hal_rtc_mode_trig_enable :: "rtc_state \<Rightarrow> rtc_state" where
  "hal_rtc_mode_trig_enable = rtc_mode_or RB_RTC_TRIG_EN"

definition hal_rtc_mode_trig_disable :: "rtc_state \<Rightarrow> rtc_state" where
  "hal_rtc_mode_trig_disable = rtc_mode_and_not RB_RTC_TRIG_EN"

definition hal_rtc_mode_tmr_enable :: "rtc_state \<Rightarrow> rtc_state" where
  "hal_rtc_mode_tmr_enable = rtc_mode_or RB_RTC_TMR_EN"

definition hal_rtc_mode_tmr_disable :: "rtc_state \<Rightarrow> rtc_state" where
  "hal_rtc_mode_tmr_disable = rtc_mode_and_not RB_RTC_TMR_EN"

definition hal_rtc_load_high :: "rtc_state \<Rightarrow> rtc_state" where
  "hal_rtc_load_high = rtc_mode_or RB_RTC_LOAD_HI"

definition hal_rtc_load_low :: "rtc_state \<Rightarrow> rtc_state" where
  "hal_rtc_load_low = rtc_mode_or RB_RTC_LOAD_LO"

definition hal_rtc_flag_get :: "u8 \<Rightarrow> rtc_state \<Rightarrow> bool" where
  "hal_rtc_flag_get flag s \<longleftrightarrow> R8_RTC_FLAG_CTRL s AND flag \<noteq> 0"

definition hal_rtc_flag_clear :: "u8 \<Rightarrow> rtc_state \<Rightarrow> rtc_state" where
  "hal_rtc_flag_clear flag s =
     (if flag = RTC_FLAG_TMR then write_rtc_flag RB_RTC_TMR_CLR s
      else if flag = RTC_FALG_TRIG then write_rtc_flag RB_RTC_TRIG_CLR s
      else s)"

definition hal_rtc_mode_trig_config :: "bool \<Rightarrow> rtc_state \<Rightarrow> rtc_state" where
  "hal_rtc_mode_trig_config ignore s =
     (let s = on_soc sys_safe_access_enable s;
          s = write_rtc_mode (if ignore then R8_RTC_MODE_CTRL s OR RB_RTC_IGNORE_B0
                              else R8_RTC_MODE_CTRL s AND NOT RB_RTC_IGNORE_B0) s
      in hal_rtc_mode_trig_enable s)"

definition hal_rtc_mode_tmr_cfg :: "u8 \<Rightarrow> rtc_state \<Rightarrow> rtc_state" where
  "hal_rtc_mode_tmr_cfg perid s =
     (let s = on_soc sys_safe_access_enable s;
          s = write_rtc_mode (R8_RTC_MODE_CTRL s AND NOT RB_RTC_TMR_MODE) s;
          s = on_soc sys_safe_access_enable s;
          s = write_rtc_mode (R8_RTC_MODE_CTRL s OR (perid AND RB_RTC_TMR_MODE)) s
      in hal_rtc_mode_tmr_enable s)"

definition hal_rtc_set_ticks :: "u32 \<Rightarrow> rtc_state \<Rightarrow> rtc_state" where
  "hal_rtc_set_ticks ticks s =
     (let ticks = (if ticks > RTC_ONEDAY_TICKS then ticks - RTC_ONEDAY_TICKS else ticks);
          s = on_soc sys_safe_access_enable s;
          s = write_rtc_trig ticks s
      in on_soc sys_safe_access_disable s)"

text \<open>The count is read until two reads agree; \<open>reads n\<close> is what the \<open>n\<close>-th read returns.\<close>

partial_function (option) get_ticks_loop :: "(nat \<Rightarrow> u32) \<Rightarrow> nat \<Rightarrow> u32 option" where
  "get_ticks_loop reads n =
     (let ticks = reads n in if ticks \<noteq> reads (n + 1) then get_ticks_loop reads (n + 2) else Some ticks)"

definition hal_rtc_get_ticks :: "(nat \<Rightarrow> u32) \<Rightarrow> u32 option" where
  "hal_rtc_get_ticks reads = get_ticks_loop reads 0"

definition hal_rtc_update_ticks :: "u32 \<Rightarrow> rtc_state \<Rightarrow> rtc_state" where
  "hal_rtc_update_ticks ticks s = hal_rtc_load_low (hal_rtc_set_ticks ticks s)"

definition hal_rtc_update_days :: "u16 \<Rightarrow> rtc_state \<Rightarrow> rtc_state" where
  "hal_rtc_update_days days s = hal_rtc_load_high (hal_rtc_set_ticks (ucast days AND RTC_CNT_DAY_MSK) s)"

text \<open>Times are signed 64-bit integers.  The loop takes whole days off; \<open>day\<close> and \<open>tick\<close> have 16 bits.\<close>

function days_loop :: "int \<Rightarrow> u16 \<Rightarrow> int \<times> u16" where
  "days_loop time_delta day =
     (if time_delta \<ge> uint RTC_ONEDDAY_SECONDS then days_loop (time_delta - uint RTC_ONEDDAY_SECONDS) (day + 1)
      else (time_delta, day))"
  by pat_completeness auto
termination
  by (relation "measure (\<lambda>(time_delta, day). nat time_delta)") (auto simp: RTC_ONEDDAY_SECONDS_def)

declare days_loop.simps [simp del]

definition WCH_ERROR_INVALID_PARAM :: int where "WCH_ERROR_INVALID_PARAM = 4"

definition hal_rtc_set_timestamp :: "int \<Rightarrow> rtc_state \<Rightarrow> int \<times> rtc_state" where
  "hal_rtc_set_timestamp rawtime s =
     (let time_delta = rawtime - RTC_START_TIMESTAMP
      in if time_delta < 0 \<or> time_delta > RTC_TIMESTAMP_MAX then (- WCH_ERROR_INVALID_PARAM, s)
         else
           let (time_delta, day) = days_loop time_delta 0;
               tick = (of_int (time_delta * 32768) :: u16);
               s = hal_rtc_update_days day s;
               s = hal_rtc_update_ticks (ucast tick) s
           in (0, s))"

definition hal_rtc_get_timestamp :: "rtc_state \<Rightarrow> u32" where
  "hal_rtc_get_timestamp s =
     (let day = (ucast (R32_RTC_CNT_DAY s AND RTC_CNT_DAY_MSK) :: u16);
          sec2 = (ucast (drop_bit 16 (R32_RTC_CNT_32K s)) :: u16);
          tick = (ucast (R32_RTC_CNT_32K s) :: u16)
      in ucast day * RTC_ONEDDAY_SECONDS + ucast sec2 * 2 + (if tick < 32768 then 0 else 1))"

text \<open>\<open>lse\<close> is \<open>CONFIG_SOC_LSE_32768\<close>; \<open>calibrate\<close> is what the calibration of the internal oscillator, which is
  not modelled, leaves in the registers.\<close>

definition hal_rtc_init :: "bool \<Rightarrow> (soc_regs \<Rightarrow> soc_regs) \<Rightarrow> (nat \<Rightarrow> bool) \<Rightarrow> rtc_state \<Rightarrow> rtc_state option" where
  "hal_rtc_init lse calibrate pin s =
     map_option (\<lambda>r. let s = s\<lparr>soc := (if lse then r else calibrate r)\<rparr>
                      in hal_rtc_mode_trig_enable (snd (hal_rtc_set_timestamp RTC_START_TIMESTAMP s)))
       (hal_clk_lf_source_select pin (if lse then LF_SOURCE_LSE else LF_SOURCE_LSI) (soc s))"

definition hal_rtc_set_alarm :: "u32 \<Rightarrow> rtc_state \<Rightarrow> rtc_state" where
  "hal_rtc_set_alarm ticks s = hal_rtc_set_ticks ticks s"

definition hal_rtc_get_alarm :: "rtc_state \<Rightarrow> u32" where
  "hal_rtc_get_alarm s = R32_RTC_TRIG s"

section \<open>The system clock driver\<close>

definition CYC_PER_TICK :: "clock_config \<Rightarrow> u32" where
  "CYC_PER_TICK c = sys_clock_hw_cycles_per_sec c div ticks_per_sec c"

definition set_rtc_alarm :: "u32 \<Rightarrow> rtc_state \<Rightarrow> rtc_state" where
  "set_rtc_alarm time s = hal_rtc_set_alarm time s"

definition get_rtc_cnt :: "(nat \<Rightarrow> u32) \<Rightarrow> u32 option" where
  "get_rtc_cnt reads = hal_rtc_get_ticks reads"

definition RTC_IRQHandler :: "(nat \<Rightarrow> u32) \<Rightarrow> rtc_state \<Rightarrow> rtc_state option" where
  "RTC_IRQHandler reads s =
     (case get_rtc_cnt reads of
        None \<Rightarrow> None
      | Some now \<Rightarrow> Some (hal_rtc_flag_clear RTC_FALG_TRIG (s\<lparr>last_count := now\<rparr>)))"

definition sys_clock_set_ticks :: "u32 \<Rightarrow> rtc_state \<Rightarrow> rtc_state" where
  "sys_clock_set_ticks ticks s = set_rtc_alarm ticks s"

text \<open>\<open>tickless\<close> is \<open>CONFIG_TICKLESS_KERNEL\<close>.\<close>

definition sys_clock_elapsed :: "clock_config \<Rightarrow> bool \<Rightarrow> (nat \<Rightarrow> u32) \<Rightarrow> rtc_state \<Rightarrow> u32 option" where
  "sys_clock_elapsed c tickless reads s =
     (if \<not> tickless then Some 0
      else map_option (\<lambda>now. (now - last_count s) div CYC_PER_TICK c) (get_rtc_cnt reads))"

definition sys_clock_cycle_get_32 :: "(nat \<Rightarrow> u32) \<Rightarrow> u32 option" where
  "sys_clock_cycle_get_32 reads = get_rtc_cnt reads"

text \<open>Initialisation enables the line \<open>irq\<close> of the clock in the interrupt controller \<open>k\<close> at the end.\<close>

definition sys_clock_driver_init ::
    "bool \<Rightarrow> (soc_regs \<Rightarrow> soc_regs) \<Rightarrow> (nat \<Rightarrow> bool) \<Rightarrow> u32 \<Rightarrow> PFIC_Type \<Rightarrow> rtc_state \<Rightarrow>
     (int \<times> PFIC_Type \<times> rtc_state) option" where
  "sys_clock_driver_init lse calibrate pin irq k s =
     (case hal_rtc_init lse calibrate pin s of
        None \<Rightarrow> None
      | Some s \<Rightarrow> map_option (\<lambda>k. (0, k, s\<lparr>last_count := 0\<rparr>)) (arch_irq_enable irq k))"

section \<open>Busy waiting\<close>

text \<open>\<open>cyc n\<close> is the value of the \<open>n\<close>-th call of \<open>k_cycle_get_32\<close>; the result is the number of the call that ended
  the loop.\<close>

definition USEC_PER_SEC :: u64 where "USEC_PER_SEC = 1000000"

definition busy_wait_cycles :: "clock_config \<Rightarrow> u32 \<Rightarrow> u32" where
  "busy_wait_cycles c usec_to_wait =
     ucast ((ucast usec_to_wait * ucast (sys_clock_hw_cycles_per_sec c) :: u64) div USEC_PER_SEC)"

partial_function (option) busy_wait_loop :: "(nat \<Rightarrow> u32) \<Rightarrow> u32 \<Rightarrow> u32 \<Rightarrow> nat \<Rightarrow> nat option" where
  "busy_wait_loop cyc start_cycles cycles_to_wait n =
     (let current_cycles = cyc n
      in if current_cycles - start_cycles \<ge> cycles_to_wait then Some n
         else busy_wait_loop cyc start_cycles cycles_to_wait (Suc n))"

definition k_busy_wait :: "clock_config \<Rightarrow> (nat \<Rightarrow> u32) \<Rightarrow> u32 \<Rightarrow> nat option" where
  "k_busy_wait c cyc usec_to_wait =
     (if usec_to_wait = 0 then Some 0
      else busy_wait_loop cyc (cyc 0) (busy_wait_cycles c usec_to_wait) 1)"

section \<open>Setting the alarm\<close>

lemma set_ticks_trig:
  "R32_RTC_TRIG (hal_rtc_set_ticks ticks s) = (if ticks > RTC_ONEDAY_TICKS then ticks - RTC_ONEDAY_TICKS else ticks)"
  "R32_RTC_CNT_32K (hal_rtc_set_ticks ticks s) = R32_RTC_CNT_32K s"
  "R32_RTC_CNT_DAY (hal_rtc_set_ticks ticks s) = R32_RTC_CNT_DAY s"
  by (simp_all add: hal_rtc_set_ticks_def on_soc_def write_rtc_trig_def safe_simps)

lemma oneday: "RTC_ONEDAY_TICKS = 0xA8C00000"
  by (simp add: RTC_ONEDAY_TICKS_def RTC_ONEDDAY_SECONDS_def)

text \<open>An alarm is set to the requested tick modulo a day, for every 32-bit request but one: a request for the
  tick at the end of the day writes \<open>RTC_ONEDAY_TICKS\<close>, a count that the clock never reaches.\<close>

theorem hal_rtc_set_alarm_modulo_day:
  "unat (hal_rtc_get_alarm (sys_clock_set_ticks ticks s)) =
     (if ticks = RTC_ONEDAY_TICKS then 86400 * 32768 else unat ticks mod (86400 * 32768))"
proof -
  have day: "unat RTC_ONEDAY_TICKS = 86400 * 32768" by (simp add: oneday)
  have "unat (ticks - RTC_ONEDAY_TICKS) = unat ticks mod (86400 * 32768)" if "ticks > RTC_ONEDAY_TICKS"
  proof -
    have "unat ticks > 86400 * 32768" using that day by (simp add: word_less_nat_alt)
    moreover have "unat ticks < 2 * (86400 * 32768)" using unat_u32_less [of ticks] by simp
    ultimately show ?thesis using that day
      by (simp add: unat_sub order_less_imp_le le_mod_geq)
  qed
  moreover have "unat ticks mod (86400 * 32768) = unat ticks" if "ticks < RTC_ONEDAY_TICKS"
    using that day by (simp add: word_less_nat_alt)
  ultimately show ?thesis
    by (auto simp: hal_rtc_get_alarm_def sys_clock_set_ticks_def set_rtc_alarm_def hal_rtc_set_alarm_def set_ticks_trig oneday
        dest: not_less_iff_gr_or_eq [THEN iffD1])
qed

section \<open>The time of day\<close>

lemma days_loop_div:
  "0 \<le> d \<Longrightarrow> days_loop d day = (d mod 86400, day + of_int (d div 86400))"
proof (induction d day rule: days_loop.induct)
  case (1 d day)
  have D: "uint RTC_ONEDDAY_SECONDS = 86400" by (simp add: RTC_ONEDDAY_SECONDS_def)
  show ?case
  proof (cases "86400 \<le> d")
    case True
    then have "days_loop d day = ((d - 86400) mod 86400, day + 1 + of_int ((d - 86400) div 86400))"
      using 1 D by (subst days_loop.simps) simp
    moreover have "d div 86400 = (d - 86400) div 86400 + 1" "(d - 86400) mod 86400 = d mod 86400"
      using div_pos_geq [OF _ True] mod_pos_geq [OF _ True] by simp_all
    ultimately show ?thesis by simp
  next
    case False
    then have "d div 86400 = 0" "d mod 86400 = d" using 1(2) by (simp_all add: div_pos_pos_trivial mod_pos_pos_trivial)
    moreover have "days_loop d day = (d, day)" using False D by (subst days_loop.simps) simp
    ultimately show ?thesis by simp
  qed
qed

lemma load_bits: "(x OR 0x80) AND 0x80 \<noteq> 0" "(x OR 0x40) AND 0x40 \<noteq> 0" "(x AND NOT 0xC0) AND 0x80 = 0" for x :: u8
proof -
  have b: "y AND 0x80 = 0 \<longleftrightarrow> \<not> bit y 7" "y AND 0x40 = 0 \<longleftrightarrow> \<not> bit y 6" for y :: u8
    using and_exp_eq_0_iff_not_bit [of y 7] and_exp_eq_0_iff_not_bit [of y 6] by simp_all
  have "bit (0x80 :: u8) 7" "bit (0x40 :: u8) 6" "bit (0xC0 :: u8) 7" by simp_all
  then show "(x OR 0x80) AND 0x80 \<noteq> 0" "(x OR 0x40) AND 0x40 \<noteq> 0" "(x AND NOT 0xC0) AND 0x80 = 0"
    unfolding b by (simp_all add: bit_or_iff bit_and_iff bit_not_iff)
qed

lemma load_high:
  "R32_RTC_CNT_DAY (hal_rtc_load_high s) = R32_RTC_TRIG s AND RTC_CNT_DAY_MSK"
  "R8_RTC_MODE_CTRL (hal_rtc_load_high s) AND RB_RTC_LOAD_HI = 0"
  using load_bits(1) [of "R8_RTC_MODE_CTRL s"] load_bits(3) [of "R8_RTC_MODE_CTRL s OR 0x80"]
  by (simp_all add: hal_rtc_load_high_def rtc_mode_or_def on_soc_def write_rtc_mode_def RB_RTC_LOAD_HI_def RB_RTC_LOAD_LO_def safe_simps)

lemma load_low:
  "R32_RTC_CNT_32K (hal_rtc_load_low s) = R32_RTC_TRIG s"
  "R8_RTC_MODE_CTRL s AND RB_RTC_LOAD_HI = 0 \<Longrightarrow> R32_RTC_CNT_DAY (hal_rtc_load_low s) = R32_RTC_CNT_DAY s"
proof -
  have h: "(x OR 0x40) AND 0x80 = x AND 0x80" for x :: u8 by (simp add: bit.conj_disj_distrib2)
  show "R32_RTC_CNT_32K (hal_rtc_load_low s) = R32_RTC_TRIG s"
    using load_bits(2) [of "R8_RTC_MODE_CTRL s"]
    by (simp add: hal_rtc_load_low_def rtc_mode_or_def on_soc_def write_rtc_mode_def RB_RTC_LOAD_HI_def RB_RTC_LOAD_LO_def safe_simps)
  show "R8_RTC_MODE_CTRL s AND RB_RTC_LOAD_HI = 0 \<Longrightarrow> R32_RTC_CNT_DAY (hal_rtc_load_low s) = R32_RTC_CNT_DAY s"
    by (simp add: hal_rtc_load_low_def rtc_mode_or_def on_soc_def write_rtc_mode_def RB_RTC_LOAD_HI_def RB_RTC_LOAD_LO_def safe_simps h)
qed

lemma set_ticks_mode: "R8_RTC_MODE_CTRL (hal_rtc_set_ticks ticks s) = R8_RTC_MODE_CTRL s"
  by (simp add: hal_rtc_set_ticks_def on_soc_def write_rtc_trig_def safe_simps)

lemma trig_u16: "R32_RTC_TRIG (hal_rtc_set_ticks (ucast (x :: u16)) s) = ucast x"
proof -
  have "\<not> (ucast x :: u32) > RTC_ONEDAY_TICKS"
    using unat_u16_less [of x] by (simp add: oneday word_less_nat_alt)
  then show ?thesis by (simp add: set_ticks_trig)
qed

lemma day_mask: "unat (x :: u16) < 16384 \<Longrightarrow> (ucast x :: u32) AND RTC_CNT_DAY_MSK = ucast x"
proof -
  assume "unat x < 16384"
  then have "take_bit 14 (ucast x :: u32) = ucast x"
    by (simp add: take_bit_eq_mod word_unat_eq_iff unat_mod_distrib)
  then show ?thesis by (simp add: RTC_CNT_DAY_MSK_def WCH_MASK_def take_bit_eq_mask mask_eq_exp_minus_1)
qed

lemma set_timestamp_counts:
  fixes day tick :: u16 and s :: rtc_state
  defines "s' \<equiv> hal_rtc_update_ticks (ucast tick) (hal_rtc_update_days day s)"
  assumes "unat day < 16384"
  shows "R32_RTC_CNT_DAY s' = ucast day" "R32_RTC_CNT_32K s' = ucast tick"
  using day_mask [OF assms(2)]
  by (simp_all add: s'_def hal_rtc_update_ticks_def hal_rtc_update_days_def load_high load_low set_ticks_mode
      set_ticks_trig(2,3) trig_u16)

lemma ucast_u16_back [simp]: "ucast (ucast (x :: u16) :: u32) = x"
  by (rule bit_word_eqI) (simp add: bit_simps)

lemma get_timestamp_counts:
  assumes "R32_RTC_CNT_DAY s = ucast day" "R32_RTC_CNT_32K s = ucast tick" "unat day < 16384"
  shows "unat (hal_rtc_get_timestamp s) = unat (day :: u16) * 86400 + (if unat (tick :: u16) < 32768 then 0 else 1)"
proof -
  have "drop_bit 16 (ucast tick :: u32) = 0"
    using unat_u16_less [of tick] by (simp add: word_unat_eq_iff drop_bit_eq_div unat_div_distrib)
  then have "hal_rtc_get_timestamp s = ucast day * RTC_ONEDDAY_SECONDS + (if tick < 32768 then 0 else 1)"
    using assms(1,2) day_mask [OF assms(3)] by (simp add: hal_rtc_get_timestamp_def Let_def)
  moreover have "unat day * 86400 < 2 ^ 32 - 1" using assms(3) by simp
  ultimately show ?thesis by (auto simp: RTC_ONEDDAY_SECONDS_def unat_word_ariths word_less_nat_alt)
qed

text \<open>Setting the time of day loses the time of day.  A time stamp in range is accepted and the count of days is
  right, but the count within the day is computed in 16 bits, so that of the seconds of the day only their parity
  remains; and the time read back is counted from the start date instead of including it.\<close>

theorem hal_rtc_set_timestamp_loses_seconds:
  assumes "0 \<le> d" and "d \<le> RTC_TIMESTAMP_MAX"
  shows "\<exists>s'. hal_rtc_set_timestamp (RTC_START_TIMESTAMP + d) s = (0, s') \<and>
    uint (hal_rtc_get_timestamp s') = d - d mod 86400 + d mod 2"
proof -
  let ?x = "d mod 86400"
  define day tick where "day = (of_int (d div 86400) :: u16)" and "tick = (of_int (?x * 32768) :: u16)"
  define s' where "s' = hal_rtc_update_ticks (ucast tick) (hal_rtc_update_days day s)"
  have dd: "0 \<le> d div 86400" "d div 86400 \<le> 16071"
    using assms zdiv_mono1 [of d RTC_TIMESTAMP_MAX 86400] by (simp_all add: RTC_TIMESTAMP_MAX_def pos_imp_zdiv_nonneg_iff)
  then have ud: "uint day = d div 86400" by (simp add: day_def uint_word_of_int)
  then have day: "unat day < 16384" using dd by (simp add: unat_eq_nat_uint)
  have "uint tick = (?x * 32768) mod 65536" by (simp only: tick_def uint_word_of_int) simp
  also have "\<dots> = ?x mod 2 * 32768" using mult_mod_left [of ?x 2 32768] by simp
  finally have ut: "uint tick = d mod 2 * 32768" by (simp add: mod_mod_cancel)
  have "hal_rtc_set_timestamp (RTC_START_TIMESTAMP + d) s = (0, s')"
    using assms by (simp add: hal_rtc_set_timestamp_def days_loop_div Let_def s'_def tick_def day_def)
  moreover have g: "unat (hal_rtc_get_timestamp s') = unat day * 86400 + (if unat tick < 32768 then 0 else 1)"
    using set_timestamp_counts [OF day, of tick s] day unfolding s'_def by (rule get_timestamp_counts)
  moreover have p: "(if unat tick < 32768 then 0 else 1) = d mod 2" using ut by (simp add: unat_eq_nat_uint) arith
  moreover have "uint (hal_rtc_get_timestamp s') = d div 86400 * 86400 + d mod 2"
    using arg_cong [OF g, of int] p ud by (simp split: if_splits)
  ultimately show ?thesis by (simp add: minus_mod_eq_div_mult)
qed

definition rtc_reset :: "soc_regs \<Rightarrow> rtc_state" where
  "rtc_reset r = \<lparr>soc = r, R8_RTC_FLAG_CTRL = 0, R8_RTC_MODE_CTRL = 0, R32_RTC_TRIG = 0, R32_RTC_CNT_32K = 0,
     R32_RTC_CNT_DAY = 0, last_count = 0\<rparr>"

text \<open>Noon of the second day reads back as midnight.\<close>

theorem hal_rtc_set_timestamp_loses_seconds_witness:
  "\<forall>r. \<exists>s'. hal_rtc_set_timestamp (RTC_START_TIMESTAMP + 129600) (rtc_reset r) = (0, s') \<and>
    uint (hal_rtc_get_timestamp s') = 86400"
  using hal_rtc_set_timestamp_loses_seconds [of 129600] by (simp add: RTC_TIMESTAMP_MAX_def)

section \<open>Busy waiting ends\<close>

lemma busy_wait_first:
  assumes "k \<le> n" and "cyc n - st \<ge> w" and "\<And>j. k \<le> j \<Longrightarrow> j < n \<Longrightarrow> \<not> cyc j - st \<ge> w"
  shows "busy_wait_loop cyc st w k = Some n"
  using assms
proof (induction "n - k" arbitrary: k)
  case 0
  then show ?case by (subst busy_wait_loop.simps) (simp add: Let_def)
next
  case (Suc m)
  then have "k < n" by simp
  with Suc.prems have "\<not> cyc k - st \<ge> w" by blast
  moreover have "busy_wait_loop cyc st w (Suc k) = Some n"
    using Suc.hyps(2) Suc.prems \<open>k < n\<close> by (intro Suc.hyps(1)) simp_all
  ultimately show ?case by (subst busy_wait_loop.simps) (simp add: Let_def)
qed

text \<open>\<open>k_busy_wait\<close> returns, and not before the requested time has passed.  Let the calls of the cycle counter be the
  true counts \<open>e\<close> of a clock that keeps running, reduced to 32 bits, and let no two calls be so far apart that the
  window in which the wait can be seen to be over is skipped.  Then the wait ends with the first call at which the
  requested number of cycles has passed, also when the 32-bit count rolls over meanwhile.\<close>

theorem k_busy_wait_waits:
  assumes "usec_to_wait \<noteq> 0" and cyc: "\<And>n. cyc n = start + of_nat (e n)" and "e 0 = 0"
    and run: "\<And>m. \<exists>n. m \<le> e n"
    and step: "\<And>n. e n \<le> e (Suc n) \<and> e (Suc n) - e n \<le> 2 ^ 32 - unat (busy_wait_cycles c usec_to_wait)"
  shows "\<exists>n. k_busy_wait c cyc usec_to_wait = Some n \<and> unat (busy_wait_cycles c usec_to_wait) \<le> e n \<and>
    (\<forall>j. 0 < j \<and> j < n \<longrightarrow> e j < unat (busy_wait_cycles c usec_to_wait))"
proof -
  let ?w = "busy_wait_cycles c usec_to_wait"
  obtain N where "unat ?w \<le> e N" using run by blast
  with step [of N] have ex: "\<exists>n. 0 < n \<and> unat ?w \<le> e n" by (intro exI [of _ "Suc N"]) simp
  define n where "n = (LEAST n. 0 < n \<and> unat ?w \<le> e n)"
  have n: "0 < n" "unat ?w \<le> e n" using LeastI_ex [OF ex] by (simp_all add: n_def)
  have before: "e j < unat ?w" if "0 < j" "j < n" for j
    using not_less_Least [of j "\<lambda>n. 0 < n \<and> unat ?w \<le> e n"] that by (simp add: n_def)
  have c: "cyc j - cyc 0 \<ge> ?w \<longleftrightarrow> unat ?w \<le> e j" if "e j < 2 ^ 32" for j
    using that by (simp add: cyc assms(3) word_le_nat_alt unat_of_nat_u32)
  have "?w \<le> cyc n - cyc 0"
  proof (cases "?w = 0")
    case False
    obtain m where m: "n = Suc m" using n(1) gr0_implies_Suc by blast
    have "e m < unat ?w"
      using before [of m] m False assms(3) by (cases m) (simp_all add: unat_gt_0 word_gt_0)
    moreover have "e n = e m + (e n - e m)" "e n - e m \<le> 2 ^ 32 - unat ?w" using step [of m] m by simp_all
    ultimately have "e n < 2 ^ 32" using unat_u32_less [of ?w] by simp
    with c n(2) show ?thesis by simp
  qed simp
  moreover have "\<not> ?w \<le> cyc j - cyc 0" if "1 \<le> j" "j < n" for j
    using before [of j] that c [of j] unat_u32_less [of ?w] by simp
  ultimately have "busy_wait_loop cyc (cyc 0) ?w 1 = Some n" using n(1) by (intro busy_wait_first) simp_all
  with n before show ?thesis using assms(1) by (auto simp: k_busy_wait_def)
qed

theorem k_busy_wait_waits_witness:
  "\<exists>n. k_busy_wait soc_clock (\<lambda>n. 0xFFFFFFF0 + of_nat n) 1000 = Some n \<and> 32 \<le> n \<and> (\<forall>j. 0 < j \<and> j < n \<longrightarrow> j < 32)"
proof -
  have w: "unat (busy_wait_cycles soc_clock 1000) = 32"
    by (simp add: busy_wait_cycles_def soc_clock_def sys_clock_hw_cycles_per_sec_def USEC_PER_SEC_def)
  show ?thesis
    using k_busy_wait_waits [where usec_to_wait = 1000 and c = soc_clock and start = "0xFFFFFFF0" and e = "\<lambda>n. n"
        and cyc = "\<lambda>n. 0xFFFFFFF0 + of_nat n", unfolded w]
    by (auto intro: exI)
qed

text \<open>The count of the real time clock does not roll over at 32 bits but at the end of the day, and there the wait ends
  early: a wait of up to \<open>2 ^ 32 - RTC_ONEDAY_TICKS\<close> cycles that is begun on the last tick of the day ends
  with the next tick, the first of the new day.\<close>

theorem k_busy_wait_ends_at_midnight:
  assumes "usec_to_wait \<noteq> 0" and "busy_wait_cycles c usec_to_wait \<le> - RTC_ONEDAY_TICKS"
    and "cyc 0 = RTC_ONEDAY_TICKS - 1" and "cyc 1 = 0"
  shows "k_busy_wait c cyc usec_to_wait = Some 1"
proof -
  have "- RTC_ONEDAY_TICKS \<le> - RTC_ONEDAY_TICKS + (1 :: u32)" by (simp add: oneday)
  then have "busy_wait_cycles c usec_to_wait \<le> cyc 1 - cyc 0" using assms by simp
  then have "busy_wait_loop cyc (cyc 0) (busy_wait_cycles c usec_to_wait) 1 = Some 1"
    by (intro busy_wait_first) simp_all
  with assms(1) show ?thesis by (simp add: k_busy_wait_def)
qed

text \<open>A wait of ten seconds.\<close>

theorem k_busy_wait_ends_at_midnight_witness:
  "k_busy_wait soc_clock (\<lambda>n. if n = 0 then RTC_ONEDAY_TICKS - 1 else of_nat n - 1) 10000000 = Some 1"
  by (rule k_busy_wait_ends_at_midnight)
    (simp_all add: busy_wait_cycles_def soc_clock_def sys_clock_hw_cycles_per_sec_def USEC_PER_SEC_def oneday)

end
