(* ===== verification/Atomic.thy ===== *)
theory Atomic
  imports Prelude
begin

text \<open>
  Atomic variables, \<^verbatim>\<open>include/sys/atomic_builtin.h\<close>, and the bit arrays over them, \<^verbatim>\<open>include/sys/atomic.h\<close>.  An
  operation is one step: it maps the value of the variable to the pair of the result (the old value) and the new
  value.  An \<open>atomic_t\<close> is a 32-bit \<open>long\<close>; its arithmetic wraps, as the compiler builtins do.  An array of
  variables is a function on indices.
\<close>

section \<open>Variables\<close>

type_synonym atomic_t = u32

definition atomic_cas :: "atomic_t \<Rightarrow> atomic_t \<Rightarrow> atomic_t \<Rightarrow> bool \<times> atomic_t" where
  "atomic_cas old_value new_value target =
     (if target = old_value then (True, new_value) else (False, target))"

definition atomic_add :: "atomic_t \<Rightarrow> atomic_t \<Rightarrow> atomic_t \<times> atomic_t" where
  "atomic_add value target = (target, target + value)"

definition atomic_sub :: "atomic_t \<Rightarrow> atomic_t \<Rightarrow> atomic_t \<times> atomic_t" where
  "atomic_sub value target = (target, target - value)"

definition atomic_inc :: "atomic_t \<Rightarrow> atomic_t \<times> atomic_t" where
  "atomic_inc target = atomic_add 1 target"

definition atomic_dec :: "atomic_t \<Rightarrow> atomic_t \<times> atomic_t" where
  "atomic_dec target = atomic_sub 1 target"

definition atomic_get :: "atomic_t \<Rightarrow> atomic_t" where
  "atomic_get target = target"

definition atomic_set :: "atomic_t \<Rightarrow> atomic_t \<Rightarrow> atomic_t \<times> atomic_t" where
  "atomic_set value target = (target, value)"

definition atomic_clear :: "atomic_t \<Rightarrow> atomic_t \<times> atomic_t" where
  "atomic_clear target = atomic_set 0 target"

definition atomic_or :: "atomic_t \<Rightarrow> atomic_t \<Rightarrow> atomic_t \<times> atomic_t" where
  "atomic_or value target = (target, target OR value)"

definition atomic_xor :: "atomic_t \<Rightarrow> atomic_t \<Rightarrow> atomic_t \<times> atomic_t" where
  "atomic_xor value target = (target, target XOR value)"

definition atomic_and :: "atomic_t \<Rightarrow> atomic_t \<Rightarrow> atomic_t \<times> atomic_t" where
  "atomic_and value target = (target, target AND value)"

definition atomic_nand :: "atomic_t \<Rightarrow> atomic_t \<Rightarrow> atomic_t \<times> atomic_t" where
  "atomic_nand value target = (target, NOT (target AND value))"

section \<open>Bit arrays\<close>

type_synonym atomic_array = "nat \<Rightarrow> atomic_t"

definition ATOMIC_BITS :: nat where "ATOMIC_BITS = 32"

definition ATOMIC_MASK :: "nat \<Rightarrow> atomic_t" where
  "ATOMIC_MASK b = push_bit (b mod ATOMIC_BITS) 1"

definition ATOMIC_ELEM :: "nat \<Rightarrow> nat" where
  "ATOMIC_ELEM b = b div ATOMIC_BITS"

definition on_elem :: "nat \<Rightarrow> (atomic_t \<Rightarrow> 'r \<times> atomic_t) \<Rightarrow> atomic_array \<Rightarrow> 'r \<times> atomic_array" where
  "on_elem b f m = (let (r, v) = f (m (ATOMIC_ELEM b)) in (r, m(ATOMIC_ELEM b := v)))"

definition atomic_test_bit :: "nat \<Rightarrow> atomic_array \<Rightarrow> bool" where
  "atomic_test_bit b m \<longleftrightarrow> 1 AND drop_bit (b mod ATOMIC_BITS) (atomic_get (m (ATOMIC_ELEM b))) \<noteq> 0"

definition atomic_test_and_clear_bit :: "nat \<Rightarrow> atomic_array \<Rightarrow> bool \<times> atomic_array" where
  "atomic_test_and_clear_bit b m =
     (let (old, m) = on_elem b (atomic_and (NOT (ATOMIC_MASK b))) m in (old AND ATOMIC_MASK b \<noteq> 0, m))"

definition atomic_test_and_set_bit :: "nat \<Rightarrow> atomic_array \<Rightarrow> bool \<times> atomic_array" where
  "atomic_test_and_set_bit b m =
     (let (old, m) = on_elem b (atomic_or (ATOMIC_MASK b)) m in (old AND ATOMIC_MASK b \<noteq> 0, m))"

definition atomic_clear_bit :: "nat \<Rightarrow> atomic_array \<Rightarrow> atomic_array" where
  "atomic_clear_bit b m = snd (on_elem b (atomic_and (NOT (ATOMIC_MASK b))) m)"

definition atomic_set_bit :: "nat \<Rightarrow> atomic_array \<Rightarrow> atomic_array" where
  "atomic_set_bit b m = snd (on_elem b (atomic_or (ATOMIC_MASK b)) m)"

definition atomic_set_bit_to :: "nat \<Rightarrow> bool \<Rightarrow> atomic_array \<Rightarrow> atomic_array" where
  "atomic_set_bit_to b v m =
     (if v then snd (on_elem b (atomic_or (ATOMIC_MASK b)) m)
      else snd (on_elem b (atomic_and (NOT (ATOMIC_MASK b))) m))"

section \<open>A bit array is a set\<close>

definition bits_of :: "atomic_array \<Rightarrow> nat set" where
  "bits_of m = {b. bit (m (b div 32)) (b mod 32)}"

lemma bits_of_iff: "b \<in> bits_of m \<longleftrightarrow> bit (m (b div 32)) (b mod 32)"
  by (simp add: bits_of_def)

lemma mask_bit [simp]: "bit (ATOMIC_MASK b) n \<longleftrightarrow> n = b mod 32"
  by (auto simp: ATOMIC_MASK_def ATOMIC_BITS_def bit_simps)

lemma and_mask: "v AND ATOMIC_MASK b \<noteq> 0 \<longleftrightarrow> bit v (b mod 32)"
proof -
  have "v AND ATOMIC_MASK b = v AND 2 ^ (b mod 32)" by (simp add: ATOMIC_MASK_def ATOMIC_BITS_def push_bit_eq_mult)
  then show ?thesis using and_exp_eq_0_iff_not_bit [of v "b mod 32"] by simp
qed

lemma elem_upd:
  "bits_of (m(b div 32 := m (b div 32) OR ATOMIC_MASK b)) = insert b (bits_of m)"
  "bits_of (m(b div 32 := m (b div 32) AND NOT (ATOMIC_MASK b))) = bits_of m - {b}"
proof -
  have "c = b" if "c div 32 = b div 32" "c mod 32 = b mod 32" for c
    using that by (metis div_mult_mod_eq)
  then show "bits_of (m(b div 32 := m (b div 32) OR ATOMIC_MASK b)) = insert b (bits_of m)"
    "bits_of (m(b div 32 := m (b div 32) AND NOT (ATOMIC_MASK b))) = bits_of m - {b}"
    by (auto simp: bits_of_def bit_or_iff bit_and_iff bit_not_iff)
qed

lemmas bit_ops = atomic_test_bit_def atomic_test_and_clear_bit_def atomic_test_and_set_bit_def atomic_clear_bit_def
  atomic_set_bit_def atomic_set_bit_to_def on_elem_def atomic_and_def atomic_or_def atomic_get_def ATOMIC_ELEM_def Let_def

lemma one_and_drop: "1 AND drop_bit n v \<noteq> 0 \<longleftrightarrow> bit (v :: u32) n"
  by (simp add: one_and_eq bit_iff_odd_drop_bit odd_iff_mod_2_eq_one)

lemma set_bit_refines: "bits_of (atomic_set_bit b m) = insert b (bits_of m)"
  unfolding bit_ops ATOMIC_BITS_def by (simp add: elem_upd)

lemma test_and_clear_refines:
  "fst (atomic_test_and_clear_bit b m) \<longleftrightarrow> b \<in> bits_of m"
  "bits_of (snd (atomic_test_and_clear_bit b m)) = bits_of m - {b}"
  unfolding bit_ops ATOMIC_BITS_def prod.case fst_conv snd_conv and_mask by (simp_all add: elem_upd bits_of_iff)

text \<open>A bit array of atomic variables behaves as a set of bit numbers: setting and clearing insert and
  remove the bit and touch no other, and the test operations return whether the bit was there.\<close>

theorem atomic_bits_refine_set:
  "(atomic_test_bit b m \<longleftrightarrow> b \<in> bits_of m) \<and>
   bits_of (atomic_set_bit b m) = insert b (bits_of m) \<and>
   bits_of (atomic_clear_bit b m) = bits_of m - {b} \<and>
   bits_of (atomic_set_bit_to b v m) = (if v then insert b (bits_of m) else bits_of m - {b}) \<and>
   (fst (atomic_test_and_set_bit b m) \<longleftrightarrow> b \<in> bits_of m) \<and>
   bits_of (snd (atomic_test_and_set_bit b m)) = insert b (bits_of m) \<and>
   (fst (atomic_test_and_clear_bit b m) \<longleftrightarrow> b \<in> bits_of m) \<and>
   bits_of (snd (atomic_test_and_clear_bit b m)) = bits_of m - {b}"
  using set_bit_refines test_and_clear_refines
  unfolding bit_ops ATOMIC_BITS_def one_and_drop and_mask prod.case fst_conv snd_conv
  by (simp add: bits_of_iff elem_upd)

end
