(* ===== verification/Pm.thy ===== *)
theory Pm
  imports Rtc Atomic Sys_Slist
begin

text \<open>
  Power management: the policy \<^verbatim>\<open>subsys/pm/policy.c\<close>, suspending and resuming with the notifiers
  \<^verbatim>\<open>subsys/pm/pm.c\<close>, wake-up sources \<^verbatim>\<open>subsys/pm/device.c\<close>, and the part of the chip \<^verbatim>\<open>soc/riscv/ch57x/power.c\<close>.
  The alarm is the clock of \<open>Rtc\<close>, the notifiers are kept in a list of \<open>Sys_Slist\<close>.

  What the core does while it waits for an interrupt is the argument \<open>wfi\<close>, the ROM routine called before is
  \<open>rom_reset\<close>, and \<open>run\<close> is what a notifier's callback does to the registers; callbacks run with interrupts locked and
  are taken not to change the list of notifiers.  The order of the calls is recorded in a log.
\<close>

section \<open>States\<close>

datatype pm_state =
    PM_STATE_ACTIVE | PM_STATE_RUNTIME_IDLE | PM_STATE_SUSPEND_TO_IDLE | PM_STATE_STANDBY
  | PM_STATE_SUSPEND_TO_RAM | PM_STATE_SUSPEND_TO_DISK | PM_STATE_SOFT_OFF

record pm_state_info =
  pm_st :: pm_state
  substate_id :: u8
  min_residency_ticks :: u32
  exit_latency_ticks :: u32

datatype pm_event =
    Ev_alarm u32 | Ev_entry addr pm_state | Ev_exit addr pm_state | Ev_enter pm_state | Ev_post pm_state

record pm_system =
  rtc :: rtc_state
  state_lock_cnt :: "pm_state \<Rightarrow> atomic_t"
  z_post_ops_required :: atomic_array
  pm_notifiers :: sys_slist
  notifier_next :: nexts
  state_entry :: "addr \<Rightarrow> addr"
  state_exit :: "addr \<Rightarrow> addr"
  z_pm_state :: pm_state_info
  pm_log :: "pm_event list"
  pm_mach :: machine

section \<open>The policy\<close>

definition pm_policy_state_lock_get :: "pm_state \<Rightarrow> pm_system \<Rightarrow> pm_system" where
  "pm_policy_state_lock_get st s =
     s\<lparr>state_lock_cnt := (state_lock_cnt s)(st := snd (atomic_inc (state_lock_cnt s st)))\<rparr>"

definition pm_policy_state_lock_put :: "pm_state \<Rightarrow> pm_system \<Rightarrow> pm_system" where
  "pm_policy_state_lock_put st s =
     (let (cnt, v) = atomic_dec (state_lock_cnt s st);
          s = s\<lparr>state_lock_cnt := (state_lock_cnt s)(st := v)\<rparr>
      in s\<lparr>pm_mach := ASSERT_NO_MSG (sint cnt \<ge> 1) (pm_mach s)\<rparr>)"

definition pm_policy_state_lock_is_active :: "pm_state \<Rightarrow> pm_system \<Rightarrow> bool" where
  "pm_policy_state_lock_is_active st s \<longleftrightarrow> atomic_get (state_lock_cnt s st) \<noteq> 0"

text \<open>\<open>CONFIG_PM_IDLE_USEC\<close>, \<open>CONFIG_PM_ACTIVE_USEC\<close> and the clock.  The check of the residency time is compiled only if
  \<open>SOC_SERIES_CH58X\<close> is defined; the build defines only \<open>CONFIG_SOC_SERIES_CH58X\<close>.\<close>

record pm_config =
  pm_clock :: clock_config
  CONFIG_PM_IDLE_USEC :: u32
  CONFIG_PM_ACTIVE_USEC :: u32
  CONFIG_SOC_RTC_MAX_TICK :: u32

definition K_TICKS_FOREVER :: u32 where "K_TICKS_FOREVER = - 1"

definition pm_policy_next_state :: "pm_config \<Rightarrow> u32 \<Rightarrow> pm_system \<Rightarrow> pm_state_info option" where
  "pm_policy_next_state c ticks s =
     (let usecs = (ucast (k_ticks_to_us_floor64 (pm_clock c) (ucast ticks)) :: u32);
          st = (if usecs > CONFIG_PM_IDLE_USEC c then
                  \<lparr>pm_st = PM_STATE_SUSPEND_TO_RAM, substate_id = 0,
                   min_residency_ticks = k_us_to_ticks_ceil32 (pm_clock c) 100,
                   exit_latency_ticks = k_us_to_ticks_ceil32 (pm_clock c) 1400\<rparr>
                else if usecs \<ge> CONFIG_PM_ACTIVE_USEC c then
                  \<lparr>pm_st = PM_STATE_SUSPEND_TO_IDLE, substate_id = 0, min_residency_ticks = 0, exit_latency_ticks = 0\<rparr>
                else
                  \<lparr>pm_st = PM_STATE_ACTIVE, substate_id = 0, min_residency_ticks = 0, exit_latency_ticks = 0\<rparr>)
      in if pm_policy_state_lock_is_active (pm_st st) s then None
         else if ticks = K_TICKS_FOREVER \<or> ticks \<ge> exit_latency_ticks st + min_residency_ticks st then Some st
         else None)"

section \<open>The chip\<close>






section \<open>Notifiers\<close>



definition pm_notifier_register :: "addr \<Rightarrow> pm_system \<Rightarrow> pm_system" where
  "pm_notifier_register notifier s =
     (let (l, h) = sys_slist_append notifier (pm_notifiers s, notifier_next s)
      in s\<lparr>pm_notifiers := l, notifier_next := h\<rparr>)"

definition pm_notifier_unregister :: "addr \<Rightarrow> pm_system \<Rightarrow> (int \<times> pm_system) option" where
  "pm_notifier_unregister notifier s =
     (case sys_slist_find_and_remove notifier (pm_notifiers s, notifier_next s) of
        None \<Rightarrow> None
      | Some (found, l, h) \<Rightarrow> Some (if found then 0 else - EINVAL, s\<lparr>pm_notifiers := l, notifier_next := h\<rparr>))"

section \<open>Suspending\<close>

definition pm_state_active_info :: pm_state_info where
  "pm_state_active_info = \<lparr>pm_st = PM_STATE_ACTIVE, substate_id = 0, min_residency_ticks = 0, exit_latency_ticks = 0\<rparr>"




definition pm_state_next_get :: "pm_system \<Rightarrow> pm_state_info" where
  "pm_state_next_get s = z_pm_state s"

section \<open>Wake-up sources\<close>

text \<open>A device: one of those the chip knows as wake-up sources, or another one.  \<open>None\<close> stands for a device without
  power management data.\<close>

datatype pm_dev = Dev_rtc | Dev_gpioa | Dev_gpiob | Dev_other addr

definition PM_DEVICE_FLAG_WS_CAPABLE :: nat where "PM_DEVICE_FLAG_WS_CAPABLE = 0"
definition PM_DEVICE_FLAG_WS_ENABLED :: nat where "PM_DEVICE_FLAG_WS_ENABLED = 1"
definition PWR_WAKEUP_SOURCE_RTC :: u8 where "PWR_WAKEUP_SOURCE_RTC = push_bit 3 1"
definition PWR_WAKEUP_SOURCE_GPIO :: u8 where "PWR_WAKEUP_SOURCE_GPIO = push_bit 4 1"

definition pm_device_wakeup_source :: "pm_dev \<Rightarrow> bool \<Rightarrow> soc_regs \<Rightarrow> soc_regs" where
  "pm_device_wakeup_source dev enable s =
     (case dev of
        Dev_rtc \<Rightarrow> hal_pwr_wakeup_source PWR_WAKEUP_SOURCE_RTC True s
      | Dev_gpioa \<Rightarrow> hal_pwr_wakeup_source PWR_WAKEUP_SOURCE_GPIO True s
      | Dev_gpiob \<Rightarrow> hal_pwr_wakeup_source PWR_WAKEUP_SOURCE_GPIO True s
      | Dev_other _ \<Rightarrow> s)"

definition pm_device_wakeup_enable ::
    "pm_dev \<Rightarrow> bool \<Rightarrow> atomic_t option \<Rightarrow> soc_regs \<Rightarrow> bool \<times> atomic_t option \<times> soc_regs" where
  "pm_device_wakeup_enable dev enable pm s =
     (case pm of
        None \<Rightarrow> (False, None, s)
      | Some fl \<Rightarrow>
          let flags = atomic_get fl
          in if flags AND push_bit PM_DEVICE_FLAG_WS_CAPABLE 1 = 0 then (False, Some fl, s)
             else
               let (new_flags, s) =
                 (if enable then
                    (flags OR push_bit PM_DEVICE_FLAG_WS_ENABLED 1, pm_device_wakeup_source dev True s)
                  else
                    (flags AND NOT (push_bit PM_DEVICE_FLAG_WS_ENABLED 1), pm_device_wakeup_source dev False s));
                   (ok, fl) = atomic_cas flags new_flags fl
               in (ok, Some fl, s))"

definition pm_device_wakeup_is_enabled :: "atomic_t option \<Rightarrow> bool" where
  "pm_device_wakeup_is_enabled pm =
     (case pm of None \<Rightarrow> False | Some fl \<Rightarrow> atomic_test_bit PM_DEVICE_FLAG_WS_ENABLED (\<lambda>_. fl))"

definition pm_device_wakeup_is_capable :: "atomic_t option \<Rightarrow> bool" where
  "pm_device_wakeup_is_capable pm =
     (case pm of None \<Rightarrow> False | Some fl \<Rightarrow> atomic_test_bit PM_DEVICE_FLAG_WS_CAPABLE (\<lambda>_. fl))"

section \<open>Calls of the notifiers\<close>

definition notified :: "bool \<Rightarrow> pm_system \<Rightarrow> addr list \<Rightarrow> pm_event list" where
  "notified entering s xs =
     (let cb = (if entering then state_entry s else state_exit s);
          ev = (if entering then Ev_entry else Ev_exit)
      in map (\<lambda>n. ev (cb n) (pm_st (z_pm_state s))) (filter (\<lambda>n. cb n \<noteq> NULL) xs))"

definition notifiers_repr :: "pm_system \<Rightarrow> addr list \<Rightarrow> bool" where
  "notifiers_repr s xs \<longleftrightarrow> slist_repr (pm_notifiers s, notifier_next s) xs"



section \<open>Suspending and resuming\<close>




lemma notified_cong:
  "state_entry s' = state_entry s \<Longrightarrow> state_exit s' = state_exit s \<Longrightarrow> z_pm_state s' = z_pm_state s \<Longrightarrow>
   notified e s' xs = notified e s xs"
  by (simp add: notified_def)

lemma notifiers_repr_cong:
  "pm_notifiers s' = pm_notifiers s \<Longrightarrow> notifier_next s' = notifier_next s \<Longrightarrow> notifiers_repr s' xs = notifiers_repr s xs"
  by (simp add: notifiers_repr_def)






section \<open>The policy\<close>

text \<open>The defaults of the build options.\<close>

definition pm_defaults :: pm_config where
  "pm_defaults = \<lparr>pm_clock = soc_clock, CONFIG_PM_IDLE_USEC = 1400, CONFIG_PM_ACTIVE_USEC = 100,
     CONFIG_SOC_RTC_MAX_TICK = 0xA8C00000\<rparr>"

lemma default_latencies: "k_us_to_ticks_ceil32 soc_clock 1400 = 46" "k_us_to_ticks_ceil32 soc_clock 100 = 4"
  by (simp_all add: k_us_to_ticks_ceil32_def z_tmcvt_def soc_clock_def Z_HZ_us_def Z_HZ_ticks_def Let_def)

lemma default_usecs:
  "unat (k_ticks_to_us_floor64 soc_clock (ucast (ticks :: u32))) = unat ticks * 1000000 div 32768"
proof -
  have "unat (ucast ticks :: u64) * unat Z_HZ_us + unat (Z_HZ_ticks soc_clock) \<le> 2 ^ 64"
    using small_product [of ticks Z_HZ_us "Z_HZ_ticks soc_clock"] by simp
  then have "fits soc_clock True Floor (unat (ucast ticks :: u64)) (Z_HZ_ticks soc_clock) Z_HZ_us" by (simp add: fits_def)
  then show ?thesis
    using z_tmcvt_64 [of "Z_HZ_ticks soc_clock" Z_HZ_us soc_clock True False False "ucast ticks"] soc_clock_rates
    by (simp add: k_ticks_to_us_floor64_def hz_config_positive exact_def off_exact_def Z_HZ_us_def Z_HZ_ticks_def soc_clock_def)
qed

text \<open>What the policy chooses for a time to sleep of \<open>us\<close> microseconds.\<close>

definition policy_choice :: "nat \<Rightarrow> pm_state_info" where
  "policy_choice us =
     (if us > 1400 then \<lparr>pm_st = PM_STATE_SUSPEND_TO_RAM, substate_id = 0, min_residency_ticks = 4, exit_latency_ticks = 46\<rparr>
      else if us \<ge> 100 then
        \<lparr>pm_st = PM_STATE_SUSPEND_TO_IDLE, substate_id = 0, min_residency_ticks = 0, exit_latency_ticks = 0\<rparr>
      else pm_state_active_info)"

lemma choice_word:
  "(if w > 1400 then \<lparr>pm_st = PM_STATE_SUSPEND_TO_RAM, substate_id = 0, min_residency_ticks = 4, exit_latency_ticks = 46\<rparr>
    else if w \<ge> 100 then
      \<lparr>pm_st = PM_STATE_SUSPEND_TO_IDLE, substate_id = 0, min_residency_ticks = 0, exit_latency_ticks = 0\<rparr>
    else \<lparr>pm_st = PM_STATE_ACTIVE, substate_id = 0, min_residency_ticks = 0, exit_latency_ticks = 0\<rparr>) =
   policy_choice (unat (w :: u32))"
  by (simp add: policy_choice_def pm_state_active_info_def word_less_nat_alt word_le_nat_alt)

lemma forever_enough: "ticks = K_TICKS_FOREVER \<or> ticks \<ge> v \<longleftrightarrow> ticks \<ge> v"
  by (auto simp: K_TICKS_FOREVER_def)

lemma default_policy:
  "pm_policy_next_state pm_defaults ticks s =
     (let st = policy_choice (unat ticks * 1000000 div 32768 mod 2 ^ 32)
      in if pm_policy_state_lock_is_active (pm_st st) s then None
         else if ticks \<ge> exit_latency_ticks st + min_residency_ticks st then Some st else None)"
proof -
  have "unat (ucast (k_ticks_to_us_floor64 soc_clock (ucast ticks)) :: u32) = unat ticks * 1000000 div 32768 mod 2 ^ 32"
    by (simp only: unat_ucast_u64_u32 default_usecs)
  then show ?thesis
    unfolding pm_policy_next_state_def Let_def forever_enough pm_defaults_def pm_config.simps default_latencies choice_word
    by (simp only:)
qed

text \<open>With the default options the policy chooses by the time to sleep in microseconds, modulo \<open>2 ^ 32\<close>: more than
  1400 sleep, at least 100 idle, else active.  It never chooses a state that is locked, and never one whose exit latency
  and residency exceed the time.  A sleep of 71.6 minutes counts as 19 microseconds, and the system stays active.\<close>

theorem pm_policy_next_state_default:
  "pm_policy_next_state pm_defaults ticks s =
     (let st = policy_choice (unat ticks * 1000000 div 32768 mod 2 ^ 32)
      in if pm_policy_state_lock_is_active (pm_st st) s then None
         else if unat (exit_latency_ticks st) + unat (min_residency_ticks st) \<le> unat ticks then Some st else None) \<and>
   policy_choice (140737489 * 1000000 div 32768 mod 2 ^ 32) = pm_state_active_info"
  unfolding default_policy
  by (auto simp: Let_def policy_choice_def pm_state_active_info_def word_le_nat_alt)

section \<open>Locks\<close>

datatype lock_op = Lock_get pm_state | Lock_put pm_state

fun lock_step :: "lock_op \<Rightarrow> pm_system \<Rightarrow> pm_system" where
  "lock_step (Lock_get st) s = pm_policy_state_lock_get st s"
| "lock_step (Lock_put st) s = pm_policy_state_lock_put st s"

definition held :: "lock_op list \<Rightarrow> pm_state \<Rightarrow> int" where
  "held ops st = int (count_list ops (Lock_get st)) - int (count_list ops (Lock_put st))"

lemma lock_step_cnt:
  "state_lock_cnt (lock_step e s) st = state_lock_cnt s st + of_int (held [e] st)"
  by (cases e) (auto simp: pm_policy_state_lock_get_def pm_policy_state_lock_put_def atomic_inc_def atomic_dec_def
      atomic_add_def atomic_sub_def held_def Let_def)

lemma held_Cons: "held (e # ops) st = held [e] st + held ops st"
  by (cases e) (auto simp: held_def)

lemma fold_lock_cnt:
  "state_lock_cnt (fold lock_step ops s) st = state_lock_cnt s st + of_int (held ops st)"
proof (induction ops arbitrary: s)
  case Nil
  then show ?case by (simp add: held_def)
next
  case (Cons e ops)
  then show ?case by (simp add: lock_step_cnt held_Cons [of e ops])
qed

text \<open>A put is unbalanced if every earlier get of its state has been given back already; the run has as many of them as
  \<open>unbalanced_puts\<close> counts.\<close>

fun unbalanced :: "lock_op list \<Rightarrow> lock_op \<Rightarrow> bool" where
  "unbalanced before (Lock_get st) \<longleftrightarrow> False"
| "unbalanced before (Lock_put st) \<longleftrightarrow> held before st \<le> 0"

definition unbalanced_puts :: "lock_op list \<Rightarrow> nat" where
  "unbalanced_puts ops = length (filter (\<lambda>n. unbalanced (take n ops) (ops ! n)) [0..<length ops])"

lemma held_snoc: "held (ops @ [e]) st = held ops st + held [e] st"
  by (cases e) (simp_all add: held_def)

lemma held_bound: "\<bar>held ops st\<bar> \<le> int (length ops)"
proof (induction ops)
  case Nil
  then show ?case by (simp add: held_def)
next
  case (Cons e ops)
  have "\<bar>held [e] st\<bar> \<le> 1" by (cases e) (simp_all add: held_def)
  with Cons show ?case by (simp add: held_Cons [of e ops])
qed

lemma unbalanced_puts_snoc:
  "unbalanced_puts (ops @ [e]) = unbalanced_puts ops + (if unbalanced ops e then 1 else 0)"
proof -
  have "filter (\<lambda>n. unbalanced (take n (ops @ [e])) ((ops @ [e]) ! n)) [0..<length ops] =
      filter (\<lambda>n. unbalanced (take n ops) (ops ! n)) [0..<length ops]"
    by (rule filter_cong) (simp_all add: nth_append)
  then show ?thesis by (simp add: unbalanced_puts_def)
qed

lemma balanced_held: "unbalanced_puts ops = 0 \<Longrightarrow> 0 \<le> held ops st"
proof (induction ops rule: rev_induct)
  case Nil
  then show ?case by (simp add: held_def)
next
  case (snoc e ops)
  then have "0 \<le> held ops st" "\<not> unbalanced ops e" by (simp_all add: unbalanced_puts_snoc split: if_splits)
  then show ?case by (cases e) (auto simp: held_snoc, auto simp: held_def)
qed

lemma lock_step_asserts:
  assumes "assert_on (pm_mach s)" and "\<bar>held ops st\<bar> < 2 ^ 31" and "state_lock_cnt s st = of_int (held ops st)"
  shows "asserts (pm_mach (lock_step (Lock_put st) s)) =
    asserts (pm_mach s) + (if unbalanced ops (Lock_put st) then 1 else 0)"
proof -
  have "sint (of_int (held ops st) :: u32) = held ops st"
    using assms(2) by (simp add: signed_of_int signed_take_bit_int_eq_self abs_less_iff)
  then show ?thesis
    using assms(1,3) by (simp add: pm_policy_state_lock_put_def atomic_dec_def atomic_sub_def Let_def
        ASSERT_NO_MSG_def assert_post_action_def assert_printf_def)
qed

lemma lock_step_on: "assert_on (pm_mach (lock_step e s)) = assert_on (pm_mach s)"
  by (cases e) (simp_all add: pm_policy_state_lock_get_def pm_policy_state_lock_put_def Let_def case_prod_unfold
      ASSERT_NO_MSG_def assert_post_action_def assert_printf_def)

lemma fold_lock_asserts:
  assumes "state_lock_cnt s = (\<lambda>_. 0)" and "assert_on (pm_mach s)" and "length ops < 2 ^ 31"
  shows "assert_on (pm_mach (fold lock_step ops s)) \<and>
    asserts (pm_mach (fold lock_step ops s)) = asserts (pm_mach s) + unbalanced_puts ops"
  using assms(3)
proof (induction ops rule: rev_induct)
  case Nil
  then show ?case using assms(2) by (simp add: unbalanced_puts_def)
next
  case (snoc e ops)
  let ?s = "fold lock_step ops s"
  have IH: "assert_on (pm_mach ?s)" "asserts (pm_mach ?s) = asserts (pm_mach s) + unbalanced_puts ops"
    using snoc by simp_all
  have small: "\<bar>held ops st\<bar> < 2 ^ 31" for st
    using held_bound [of ops st] snoc.prems by simp
  have cnt: "state_lock_cnt ?s st = of_int (held ops st)" for st using assms(1) by (simp add: fold_lock_cnt)
  have "asserts (pm_mach (lock_step e ?s)) = asserts (pm_mach ?s) + (if unbalanced ops e then 1 else 0)"
  proof (cases e)
    case (Lock_get st)
    then show ?thesis by (simp add: pm_policy_state_lock_get_def)
  next
    case (Lock_put st)
    then show ?thesis using lock_step_asserts [OF IH(1) small cnt] by simp
  qed
  then show ?case using IH lock_step_on [of e ?s] by (simp add: unbalanced_puts_snoc)
qed

lemma lock_active_held:
  assumes "state_lock_cnt s = (\<lambda>_. 0)" and "\<bar>held ops st\<bar> < 2 ^ 32"
  shows "pm_policy_state_lock_is_active st (fold lock_step ops s) \<longleftrightarrow> held ops st \<noteq> 0"
proof -
  have "(of_int (held ops st) :: u32) = 0 \<longleftrightarrow> held ops st = 0"
  proof
    assume "(of_int (held ops st) :: u32) = 0"
    then have "2 ^ 32 dvd held ops st" by (simp add: word_of_int_eq_0_iff)
    with assms(2) show "held ops st = 0" using zdvd_imp_le [of "2 ^ 32" "\<bar>held ops st\<bar>"] by auto
  qed simp
  then show ?thesis
    using assms(1) by (simp add: pm_policy_state_lock_is_active_def atomic_get_def fold_lock_cnt)
qed

lemma policy_state_unlocked:
  "pm_policy_next_state c ticks s = Some i \<Longrightarrow> \<not> pm_policy_state_lock_is_active (pm_st i) s"
  unfolding pm_policy_next_state_def Let_def by (auto split: if_splits)

text \<open>C36: the locks of the states are counted.  Start from no lock and run any sequence of less than \<open>2 ^ 31\<close> gets and puts on
  any states, with assertions on.  The puts that are reported as unbalanced are exactly those whose state has no get that has
  not been given back.  If there are none, a state is locked exactly when it has more gets than puts, so operations on
  one state do not lock or unlock another; otherwise a state is also locked when it has more puts than gets.  The policy never
  chooses a state that is locked.  All states are treated alike, \<open>PM_STATE_ACTIVE\<close> included.\<close>

theorem pm_policy_locks_counted:
  assumes "state_lock_cnt s = (\<lambda>_. 0)" and "assert_on (pm_mach s)" and "length ops < 2 ^ 31"
  shows "asserts (pm_mach (fold lock_step ops s)) = asserts (pm_mach s) + unbalanced_puts ops \<and>
    (unbalanced_puts ops = 0 \<longrightarrow> (\<forall>st. pm_policy_state_lock_is_active st (fold lock_step ops s) \<longleftrightarrow>
      count_list ops (Lock_put st) < count_list ops (Lock_get st))) \<and>
    (\<forall>st. pm_policy_state_lock_is_active st (fold lock_step ops s) \<longleftrightarrow>
      count_list ops (Lock_get st) \<noteq> count_list ops (Lock_put st)) \<and>
    (\<forall>c ticks i. pm_policy_next_state c ticks (fold lock_step ops s) = Some i \<longrightarrow>
      count_list ops (Lock_get (pm_st i)) = count_list ops (Lock_put (pm_st i)))"
proof -
  have act: "pm_policy_state_lock_is_active st (fold lock_step ops s) \<longleftrightarrow>
      count_list ops (Lock_get st) \<noteq> count_list ops (Lock_put st)" for st
    using lock_active_held [OF assms(1), of ops st] held_bound [of ops st] assms(3) by (simp add: held_def)
  have bal: "count_list ops (Lock_put st) \<le> count_list ops (Lock_get st)" if "unbalanced_puts ops = 0" for st
    using balanced_held [OF that, of st] by (simp add: held_def)
  show ?thesis
    using fold_lock_asserts [OF assms] act bal policy_state_unlocked by (metis nat_less_le)
qed

text \<open>\<^verbatim>\<open>include/pm/policy.h\<close> says that \<open>PM_STATE_ACTIVE\<close> is always allowed, so that a lock on it has no effect.  It has one: the
  policy, which answers \<open>PM_STATE_ACTIVE\<close> for a short sleep, answers nothing while that state is locked, and the suspend
  then returns without setting the alarm.\<close>

theorem pm_policy_lock_active_has_effect:
  assumes "state_lock_cnt s = (\<lambda>_. 0)"
  shows "pm_policy_next_state pm_defaults 0 s = Some pm_state_active_info \<and>
    pm_policy_next_state pm_defaults 0 (pm_policy_state_lock_get PM_STATE_ACTIVE s) = None"
  using assms by (simp add: default_policy policy_choice_def pm_state_active_info_def pm_policy_state_lock_is_active_def
      pm_policy_state_lock_get_def atomic_get_def atomic_inc_def atomic_add_def)

section \<open>Disabling a wake-up source\<close>

lemma wakeup_source_enabled:
  "hal_pwr_wakeup_source_is_enabled PWR_WAKEUP_SOURCE_RTC (hal_pwr_wakeup_source PWR_WAKEUP_SOURCE_RTC True r)"
proof -
  have "(x OR 8) AND 8 \<noteq> 0" for x :: u8
    using and_exp_eq_0_iff_not_bit [of "x OR 8" 3] by (simp add: bit_or_iff)
  then show ?thesis
    by (simp add: hal_pwr_wakeup_source_is_enabled_def hal_pwr_wakeup_source_def PWR_WAKEUP_SOURCE_RTC_def safe_simps)
qed

text \<open>\<open>pm_device_wakeup_enable\<close> records in the flags of a capable device whether it is a wake-up source, but the chip's
  \<open>pm_device_wakeup_source\<close> ignores its argument: after disabling the clock as a wake-up source the flag is cleared
  and the clock still wakes the chip.\<close>

theorem pm_device_wakeup_disable_keeps_source:
  assumes "pm_device_wakeup_is_capable (Some fl)"
  shows "\<exists>fl' r'. pm_device_wakeup_enable Dev_rtc False (Some fl) r = (True, Some fl', r') \<and>
    \<not> pm_device_wakeup_is_enabled (Some fl') \<and> hal_pwr_wakeup_source_is_enabled PWR_WAKEUP_SOURCE_RTC r'"
proof -
  have "fl AND 1 \<noteq> 0"
    using assms by (simp add: pm_device_wakeup_is_capable_def atomic_test_bit_def PM_DEVICE_FLAG_WS_CAPABLE_def atomic_get_def and.commute)
  moreover have "\<not> bit (fl AND NOT 2) 1" by (simp add: bit_and_iff bit_not_iff)
  ultimately show ?thesis
    using wakeup_source_enabled
    by (simp add: pm_device_wakeup_enable_def atomic_get_def atomic_cas_def pm_device_wakeup_source_def
        pm_device_wakeup_is_enabled_def atomic_test_bit_def PM_DEVICE_FLAG_WS_CAPABLE_def PM_DEVICE_FLAG_WS_ENABLED_def
        ATOMIC_BITS_def one_and_drop Let_def)
qed

theorem pm_device_wakeup_disable_keeps_source_witness:
  "\<forall>r. \<exists>fl' r'. pm_device_wakeup_enable Dev_rtc False (Some 3) r = (True, Some fl', r') \<and>
    hal_pwr_wakeup_source_is_enabled PWR_WAKEUP_SOURCE_RTC r'"
proof -
  have "pm_device_wakeup_is_capable (Some 3)"
    by (simp add: pm_device_wakeup_is_capable_def atomic_test_bit_def PM_DEVICE_FLAG_WS_CAPABLE_def ATOMIC_BITS_def
        atomic_get_def)
  then show ?thesis using pm_device_wakeup_disable_keeps_source by blast
qed

section \<open>An example\<close>

text \<open>A system with one notifier, at the address 16, that has both callbacks.\<close>

definition pm_example :: "soc_regs \<Rightarrow> pm_system" where
  "pm_example r = \<lparr>rtc = rtc_reset r, state_lock_cnt = (\<lambda>_. 0), z_post_ops_required = (\<lambda>_. 0),
     pm_notifiers = \<lparr>sl_head = 16, sl_tail = 16\<rparr>, notifier_next = (\<lambda>_. NULL), state_entry = (\<lambda>_. 256), state_exit = (\<lambda>_. 512),
     z_pm_state = pm_state_active_info, pm_log = [], pm_mach = \<lparr>ram = (\<lambda>_. 0), assert_on = False, asserts = 0\<rparr>\<rparr>"

definition pm_checked :: "soc_regs \<Rightarrow> pm_system" where
  "pm_checked r = (pm_example r)\<lparr>pm_mach := \<lparr>ram = (\<lambda>_. 0), assert_on = True, asserts = 0\<rparr>\<rparr>"


text \<open>Two gets and a put of one state, and a put of another that was not locked.\<close>

definition lock_example :: "lock_op list" where
  "lock_example = [Lock_get PM_STATE_STANDBY, Lock_get PM_STATE_STANDBY, Lock_put PM_STATE_STANDBY, Lock_put PM_STATE_SOFT_OFF]"

theorem pm_policy_locks_counted_witness:
  "\<forall>r. asserts (pm_mach (fold lock_step lock_example (pm_checked r))) = 1 \<and>
     pm_policy_state_lock_is_active PM_STATE_STANDBY (fold lock_step (butlast lock_example) (pm_checked r)) \<and>
     \<not> pm_policy_state_lock_is_active PM_STATE_SOFT_OFF (fold lock_step (butlast lock_example) (pm_checked r))"
proof
  fix r
  have "state_lock_cnt (pm_checked r) = (\<lambda>_. 0)" "assert_on (pm_mach (pm_checked r))" "asserts (pm_mach (pm_checked r)) = 0"
    by (simp_all add: pm_checked_def pm_example_def)
  note at = pm_policy_locks_counted [OF this(1,2)] this(3)
  have n: "unbalanced_puts lock_example = 1" "unbalanced_puts (butlast lock_example) = 0" "length lock_example < 2 ^ 31"
      "length (butlast lock_example) < 2 ^ 31"
    by (simp_all add: unbalanced_puts_def lock_example_def held_def upt_rec)
  show "asserts (pm_mach (fold lock_step lock_example (pm_checked r))) = 1 \<and>
     pm_policy_state_lock_is_active PM_STATE_STANDBY (fold lock_step (butlast lock_example) (pm_checked r)) \<and>
     \<not> pm_policy_state_lock_is_active PM_STATE_SOFT_OFF (fold lock_step (butlast lock_example) (pm_checked r))"
    using at(1) [OF n(3)] at(1) [OF n(4)] at(2) n(1,2) by (simp add: lock_example_def)
qed

end
