(* ===== verification/Adc.thy ===== *)
theory Adc
  imports Soc
begin

text \<open>
  The analog-digital converter: the inline functions of \<^verbatim>\<open>hal/ch57x/inc/ch57x_hal_adc.h\<close>, \<^verbatim>\<open>ch57x_hal_adc.c\<close> (the CH58x
  files have the same text), the sequence context \<^verbatim>\<open>drivers/adc/adc_context.h\<close> and the driver
  \<^verbatim>\<open>drivers/adc/adc.c\<close>.

  Writing the convert register clears the end-of-conversion flag, and writing a one to a DMA flag clears it (as
  documented in \<^verbatim>\<open>CH573SFR.h\<close>).  What the hardware does while a loop polls is the argument \<open>io\<close>; what the user's
  callback answers after a sampling is the argument \<open>act\<close>.
\<close>

section \<open>Registers\<close>

record adc_regs =
  R8_ADC_CHANNEL :: u8
  R8_ADC_CFG :: u8
  R8_ADC_CONVERT :: u8
  R8_TEM_SENSOR :: u8
  R16_ADC_DATA :: u16
  R8_ADC_INT_FLAG :: u8
  R8_TKEY_CFG :: u8
  R8_ADC_CTRL_DMA :: u8
  R8_ADC_DMA_IF :: u8
  R8_ADC_AUTO_CYCLE :: u8
  R16_ADC_DMA_NOW :: u16
  R16_ADC_DMA_BEG :: u16
  R16_ADC_DMA_END :: u16

definition RB_ADC_POWER_ON :: u8 where "RB_ADC_POWER_ON = 0x01"
definition RB_ADC_BUF_EN :: u8 where "RB_ADC_BUF_EN = 0x02"
definition RB_ADC_DIFF_EN :: u8 where "RB_ADC_DIFF_EN = 0x04"
definition RB_ADC_OFS_TEST :: u8 where "RB_ADC_OFS_TEST = 0x08"
definition RB_ADC_START :: u8 where "RB_ADC_START = 0x01"
definition RB_TEM_SEN_PWR_ON :: u8 where "RB_TEM_SEN_PWR_ON = 0x80"
definition RB_ADC_IF_EOC :: u8 where "RB_ADC_IF_EOC = 0x80"
definition RB_TKEY_PWR_ON :: u8 where "RB_TKEY_PWR_ON = 0x01"
definition RB_ADC_DMA_ENABLE :: u8 where "RB_ADC_DMA_ENABLE = 0x01"
definition RB_ADC_DMA_LOOP :: u8 where "RB_ADC_DMA_LOOP = 0x04"
definition RB_ADC_AUTO_EN :: u8 where "RB_ADC_AUTO_EN = 0x80"
definition RB_ADC_IF_END_ADC :: u8 where "RB_ADC_IF_END_ADC = 0x10"

definition CH_INT_7 :: u8 where "CH_INT_7 = 7"
definition CH_INT_VBAT :: u8 where "CH_INT_VBAT = 14"
definition CH_INT_VTEMP :: u8 where "CH_INT_VTEMP = 15"

datatype adc_pga_gain = ADC_PGA_1_4 | ADC_PGA_1_2 | ADC_PGA_1 | ADC_PGA_2

definition pga_code :: "adc_pga_gain \<Rightarrow> u8" where
  "pga_code g = (case g of ADC_PGA_1_4 \<Rightarrow> 0 | ADC_PGA_1_2 \<Rightarrow> 1 | ADC_PGA_1 \<Rightarrow> 2 | ADC_PGA_2 \<Rightarrow> 3)"

definition SAMPLEFREQ_3_2 :: u8 where "SAMPLEFREQ_3_2 = 0"
definition SAMPLEFREQ_5_33 :: u8 where "SAMPLEFREQ_5_33 = 2"
definition ADC_CFG_PGA_GAIN_MSK :: u8 where "ADC_CFG_PGA_GAIN_MSK = push_bit 4 3"
definition ADC_CFG_CLK_DIV_MSK :: u8 where "ADC_CFG_CLK_DIV_MSK = push_bit 6 3"
definition ADC_CHANNEL_MSK :: u8 where "ADC_CHANNEL_MSK = ucast (WCH_MASK 4)"
definition ADC_DMA_INT_FLAG_MSK :: u8 where "ADC_DMA_INT_FLAG_MSK = push_bit 3 2"
definition ADC_INT_FLAG_DMA_END :: u8 where "ADC_INT_FLAG_DMA_END = push_bit 3 1"
definition ADC_INT_FLAG_DMA_COV_END :: u8 where "ADC_INT_FLAG_DMA_COV_END = push_bit 4 1"

definition write_adc_convert :: "u8 \<Rightarrow> adc_regs \<Rightarrow> adc_regs" where
  "write_adc_convert v a = a\<lparr>R8_ADC_CONVERT := v, R8_ADC_INT_FLAG := R8_ADC_INT_FLAG a AND NOT RB_ADC_IF_EOC\<rparr>"

definition write_adc_dma_if :: "u8 \<Rightarrow> adc_regs \<Rightarrow> adc_regs" where
  "write_adc_dma_if v a = a\<lparr>R8_ADC_DMA_IF := R8_ADC_DMA_IF a AND NOT v\<rparr>"

definition cfg_bit :: "u8 \<Rightarrow> bool \<Rightarrow> adc_regs \<Rightarrow> adc_regs" where
  "cfg_bit b on a = a\<lparr>R8_ADC_CFG := (if on then R8_ADC_CFG a OR b else R8_ADC_CFG a AND NOT b)\<rparr>"

section \<open>The hardware layer\<close>

definition hal_adc_enable :: "adc_regs \<Rightarrow> adc_regs" where
  "hal_adc_enable = cfg_bit RB_ADC_POWER_ON True"

definition hal_adc_disable :: "adc_regs \<Rightarrow> adc_regs" where
  "hal_adc_disable = cfg_bit RB_ADC_POWER_ON False"

definition hal_adc_buff :: "bool \<Rightarrow> adc_regs \<Rightarrow> adc_regs" where
  "hal_adc_buff enable = cfg_bit RB_ADC_BUF_EN enable"

definition hal_adc_diff :: "bool \<Rightarrow> adc_regs \<Rightarrow> adc_regs" where
  "hal_adc_diff enable = cfg_bit RB_ADC_DIFF_EN enable"

definition hal_adc_is_diff :: "adc_regs \<Rightarrow> bool" where
  "hal_adc_is_diff a \<longleftrightarrow> R8_ADC_CFG a AND RB_ADC_DIFF_EN \<noteq> 0"

definition hal_adc_test_enable :: "adc_regs \<Rightarrow> adc_regs" where
  "hal_adc_test_enable = cfg_bit RB_ADC_OFS_TEST True"

definition hal_adc_test_disbale :: "adc_regs \<Rightarrow> adc_regs" where
  "hal_adc_test_disbale = cfg_bit RB_ADC_OFS_TEST False"

definition hal_adc_clock_div :: "u8 \<Rightarrow> adc_regs \<Rightarrow> adc_regs" where
  "hal_adc_clock_div clk a =
     (let a = a\<lparr>R8_ADC_CFG := R8_ADC_CFG a AND NOT ADC_CFG_CLK_DIV_MSK\<rparr>
      in a\<lparr>R8_ADC_CFG := R8_ADC_CFG a OR (push_bit 6 clk AND ADC_CFG_CLK_DIV_MSK)\<rparr>)"

definition hal_adc_get_clock_div :: "adc_regs \<Rightarrow> u8" where
  "hal_adc_get_clock_div a = drop_bit 6 (R8_ADC_CFG a AND ADC_CFG_CLK_DIV_MSK)"

definition hal_adc_set_gain :: "adc_pga_gain \<Rightarrow> adc_regs \<Rightarrow> adc_regs" where
  "hal_adc_set_gain gain a =
     (let a = a\<lparr>R8_ADC_CFG := R8_ADC_CFG a AND NOT ADC_CFG_PGA_GAIN_MSK\<rparr>
      in a\<lparr>R8_ADC_CFG := R8_ADC_CFG a OR (push_bit 4 (pga_code gain) AND ADC_CFG_PGA_GAIN_MSK)\<rparr>)"

definition hal_adc_get_gain :: "adc_regs \<Rightarrow> u8" where
  "hal_adc_get_gain a = drop_bit 4 (R8_ADC_CFG a AND ADC_CFG_PGA_GAIN_MSK)"

definition hal_adc_set_channel :: "u8 \<Rightarrow> adc_regs \<Rightarrow> adc_regs" where
  "hal_adc_set_channel channel a = a\<lparr>R8_ADC_CHANNEL := channel AND ADC_CHANNEL_MSK\<rparr>"

definition hal_adc_get_channel :: "adc_regs \<Rightarrow> u8" where
  "hal_adc_get_channel a = R8_ADC_CHANNEL a AND ADC_CHANNEL_MSK"

definition hal_adc_start :: "adc_regs \<Rightarrow> adc_regs" where
  "hal_adc_start = write_adc_convert RB_ADC_START"

definition hal_adc_busy_check :: "adc_regs \<Rightarrow> bool" where
  "hal_adc_busy_check a \<longleftrightarrow> R8_ADC_CONVERT a AND RB_ADC_START \<noteq> 0"

partial_function (option) read_raw_wait :: "(adc_regs \<Rightarrow> adc_regs) \<Rightarrow> adc_regs \<Rightarrow> adc_regs option" where
  "read_raw_wait io a = (let a = io a in if hal_adc_busy_check a then read_raw_wait io a else Some a)"

definition hal_adc_read_raw :: "(adc_regs \<Rightarrow> adc_regs) \<Rightarrow> adc_regs \<Rightarrow> (u16 \<times> adc_regs) option" where
  "hal_adc_read_raw io a =
     map_option (\<lambda>a. (R16_ADC_DATA a AND ucast (WCH_MASK 12), a)) (read_raw_wait io a)"

definition hal_adc_get_int_flag :: "adc_regs \<Rightarrow> u8" where
  "hal_adc_get_int_flag a = R8_ADC_INT_FLAG a AND RB_ADC_IF_EOC"

definition hal_adc_clear_int_flag :: "adc_regs \<Rightarrow> adc_regs" where
  "hal_adc_clear_int_flag = write_adc_convert 0"

definition hal_adc_dma_enable :: "adc_regs \<Rightarrow> adc_regs" where
  "hal_adc_dma_enable a = a\<lparr>R8_ADC_CTRL_DMA := R8_ADC_CTRL_DMA a OR RB_ADC_DMA_ENABLE\<rparr>"

definition hal_adc_dma_reset :: "adc_regs \<Rightarrow> adc_regs" where
  "hal_adc_dma_reset a = a\<lparr>R8_ADC_CTRL_DMA := 0\<rparr>"

definition hal_adc_dma_addr :: "u32 \<Rightarrow> u16 \<Rightarrow> adc_regs \<Rightarrow> adc_regs" where
  "hal_adc_dma_addr ad n a =
     a\<lparr>R16_ADC_DMA_BEG := ucast ad AND ucast (WCH_MASK 15),
       R16_ADC_DMA_END := ucast (ad + ucast n) AND ucast (WCH_MASK 15)\<rparr>"

definition hal_adc_dma_period :: "u16 \<Rightarrow> adc_regs \<Rightarrow> adc_regs" where
  "hal_adc_dma_period period a =
     a\<lparr>R8_ADC_AUTO_CYCLE := of_int (256 - (min (uint period + 8) 4096) div 2 ^ 4)\<rparr>"

definition hal_adc_dma_loop :: "bool \<Rightarrow> adc_regs \<Rightarrow> adc_regs" where
  "hal_adc_dma_loop enable a =
     a\<lparr>R8_ADC_CTRL_DMA := (if enable then R8_ADC_CTRL_DMA a OR RB_ADC_DMA_LOOP
                           else R8_ADC_CTRL_DMA a AND NOT RB_ADC_DMA_LOOP)\<rparr>"

definition hal_adc_dma_start :: "adc_regs \<Rightarrow> adc_regs" where
  "hal_adc_dma_start a = a\<lparr>R8_ADC_CTRL_DMA := R8_ADC_CTRL_DMA a OR RB_ADC_AUTO_EN\<rparr>"

definition hal_adc_dma_stop :: "adc_regs \<Rightarrow> adc_regs" where
  "hal_adc_dma_stop a =
     a\<lparr>R8_ADC_CTRL_DMA := R8_ADC_CTRL_DMA a AND NOT RB_ADC_AUTO_EN, R16_ADC_DMA_BEG := ucast (WCH_MASK 16)\<rparr>"

text \<open>The difference of two registers is an \<open>int\<close>, divided towards 0.\<close>

definition hal_adc_dma_current_count :: "adc_regs \<Rightarrow> u16" where
  "hal_adc_dma_current_count a =
     (let d = uint (R16_ADC_DMA_NOW a) - uint (R16_ADC_DMA_BEG a)
      in of_int (if d < 0 then - ((- d) div 2) else d div 2))"

definition hal_adc_dma_int_set :: "u8 \<Rightarrow> adc_regs \<Rightarrow> adc_regs" where
  "hal_adc_dma_int_set flags a =
     (let a = a\<lparr>R8_ADC_CTRL_DMA := R8_ADC_CTRL_DMA a AND NOT ADC_DMA_INT_FLAG_MSK\<rparr>
      in a\<lparr>R8_ADC_CTRL_DMA := R8_ADC_CTRL_DMA a OR (flags AND ADC_DMA_INT_FLAG_MSK)\<rparr>)"

definition hal_adc_get_dma_int_flag :: "u8 \<Rightarrow> adc_regs \<Rightarrow> bool" where
  "hal_adc_get_dma_int_flag flag a \<longleftrightarrow> R8_ADC_DMA_IF a AND flag \<noteq> 0"

text \<open>A read, an or, and a write to a register whose ones clear flags.\<close>

definition hal_adc_clear_dma_int_flag :: "u8 \<Rightarrow> adc_regs \<Rightarrow> adc_regs" where
  "hal_adc_clear_dma_int_flag flags a =
     write_adc_dma_if (R8_ADC_DMA_IF a OR (flags AND (RB_ADC_IF_END_ADC OR RB_ADC_IF_END_ADC))) a"

definition hal_adc_reset :: "adc_regs \<Rightarrow> adc_regs" where
  "hal_adc_reset a =
     a\<lparr>R8_TKEY_CFG := R8_TKEY_CFG a AND NOT RB_TKEY_PWR_ON,
       R8_ADC_CFG := (push_bit 4 (pga_code ADC_PGA_1) AND ADC_CFG_PGA_GAIN_MSK) OR
                     (push_bit 6 SAMPLEFREQ_5_33 AND ADC_CFG_CLK_DIV_MSK)\<rparr>"

definition hal_adc_temp_enable :: "bool \<Rightarrow> adc_regs \<Rightarrow> adc_regs" where
  "hal_adc_temp_enable enbale a = a\<lparr>R8_TEM_SENSOR := (if enbale then RB_TEM_SEN_PWR_ON else 0)\<rparr>"

definition hal_adc_config_temp :: "adc_regs \<Rightarrow> adc_regs" where
  "hal_adc_config_temp a =
     hal_adc_clock_div SAMPLEFREQ_3_2 (hal_adc_set_gain ADC_PGA_2 (hal_adc_diff True
       (hal_adc_buff False (hal_adc_temp_enable True a))))"

definition hal_adc_config_bat :: "adc_regs \<Rightarrow> adc_regs" where
  "hal_adc_config_bat a =
     hal_adc_clock_div SAMPLEFREQ_3_2 (hal_adc_set_gain ADC_PGA_1_4 (hal_adc_diff False (hal_adc_buff True a)))"

record adc_dma =
  dma_loop :: bool
  dma_period :: u16
  ie_dma_end :: bool
  ie_eoc :: bool

definition hal_adc_dma_init :: "adc_dma \<Rightarrow> adc_regs \<Rightarrow> int \<times> adc_regs" where
  "hal_adc_dma_init d a =
     (let a = hal_adc_dma_enable (hal_adc_dma_reset a);
          a = hal_adc_dma_period (dma_period d) (hal_adc_dma_loop (dma_loop d) a)
      in (0, hal_adc_dma_int_set ((if ie_dma_end d then ADC_INT_FLAG_DMA_END else 0) OR
                                  (if ie_eoc d then ADC_INT_FLAG_DMA_COV_END else 0)) a))"

definition hal_adc_init :: "adc_regs \<Rightarrow> adc_regs" where
  "hal_adc_init a = hal_adc_enable (hal_adc_reset a)"

record adc_config =
  cfg_diff :: bool
  cfg_gain :: adc_pga_gain
  cfg_div :: u8
  cfg_channel :: u8

definition hal_adc_config :: "adc_config \<Rightarrow> adc_regs \<Rightarrow> int \<times> adc_regs" where
  "hal_adc_config adc a =
     (let a = hal_adc_buff True (hal_adc_temp_enable False a);
          a = (if cfg_diff adc then hal_adc_buff False (hal_adc_diff True a) else hal_adc_diff False a);
          a = hal_adc_clock_div (cfg_div adc) a;
          a = hal_adc_set_gain (cfg_gain adc) a
      in (0, hal_adc_set_channel (cfg_channel adc) a))"

fun calibration_loop :: "(adc_regs \<Rightarrow> adc_regs) \<Rightarrow> nat \<Rightarrow> u32 \<Rightarrow> adc_regs \<Rightarrow> (u32 \<times> adc_regs) option" where
  "calibration_loop io 0 sm a = Some (sm, a)"
| "calibration_loop io (Suc n) sm a =
     (case hal_adc_read_raw io (hal_adc_start a) of
        None \<Rightarrow> None
      | Some (v, a) \<Rightarrow> calibration_loop io n (sm + (NOT (ucast v) AND WCH_MASK 11)) a)"

definition hal_adc_self_calibration :: "(adc_regs \<Rightarrow> adc_regs) \<Rightarrow> adc_regs \<Rightarrow> (u32 \<times> adc_regs) option" where
  "hal_adc_self_calibration io a =
     (let channel = hal_adc_get_channel a;
          a = hal_adc_set_channel CH_INT_7 (hal_adc_test_enable a)
      in case calibration_loop io 16 0 a of
           None \<Rightarrow> None
         | Some (sm, a) \<Rightarrow>
             let a = hal_adc_set_channel channel (hal_adc_test_disbale a);
                 sm = drop_bit 4 (sm + 8)
             in Some (2048 - sm, a))"

text \<open>\<open>c25\<close> is the word at \<open>ROM_CFG_TMP_25C\<close>.  The quotient of an \<open>int\<close> is rounded towards 0; the sum of the
  unsigned first operand and the signed second one is unsigned.\<close>

definition trunc_div :: "int \<Rightarrow> int \<Rightarrow> int" where
  "trunc_div x y = sgn x * sgn y * (\<bar>x\<bar> div \<bar>y\<bar>)"

definition hal_adc_convert_celsius :: "u32 \<Rightarrow> u16 \<Rightarrow> u32" where
  "hal_adc_convert_celsius c25 raw =
     (let hi = drop_bit 16 c25 AND 0xFFFF
      in (if hi \<noteq> 0 then hi else 25) + of_int (trunc_div ((uint raw - uint (c25 AND 0xFFFF)) * 10) 27))"

definition hal_adc_convert_millivolts :: "adc_pga_gain \<Rightarrow> u16 \<Rightarrow> u32" where
  "hal_adc_convert_millivolts gain v =
     (let p = uint v * 1050
      in case gain of
           ADC_PGA_1_4 \<Rightarrow> of_int (p div 2 ^ 9 - 3150)
         | ADC_PGA_1_2 \<Rightarrow> of_int (p div 2 ^ 10 - 1050)
         | ADC_PGA_1 \<Rightarrow> of_int (p div 2 ^ 11)
         | ADC_PGA_2 \<Rightarrow> of_int (p div 2 ^ 12 + 525))"

end
