(* ===== verification/Adc_Driver.thy ===== *)
theory Adc_Driver
  imports Adc Atomic Irq
begin

text \<open>
  The sampling context \<^verbatim>\<open>drivers/adc/adc_context.h\<close>, the driver \<^verbatim>\<open>drivers/adc/adc.c\<close> and the data types of
  \<^verbatim>\<open>include/drivers/adc.h\<close>.

  The state is the converter's registers, the driver's data and the byte memory the samples are written to.  The
  build options \<open>CONFIG_ADC_SUPPORT_INTERRUPT\<close> and \<open>CONFIG_ADC_CHANNEL_MAP\<close> are the arguments \<open>intr\<close> and
  \<open>chmap\<close>; \<open>io\<close> is what the hardware does while a loop polls and \<open>act\<close> what the user's callback answers.  The
  context calls two functions that its driver defines; they are arguments of the context's operations and the
  locale \<open>sampling_driver\<close> states what the header asks of them.
\<close>

section \<open>Data\<close>

datatype adc_gain =
    ADC_GAIN_1_6 | ADC_GAIN_1_5 | ADC_GAIN_1_4 | ADC_GAIN_1_3 | ADC_GAIN_2_5 | ADC_GAIN_1_2 | ADC_GAIN_2_3
  | ADC_GAIN_4_5 | ADC_GAIN_1 | ADC_GAIN_2 | ADC_GAIN_3 | ADC_GAIN_4 | ADC_GAIN_6 | ADC_GAIN_8 | ADC_GAIN_12
  | ADC_GAIN_16 | ADC_GAIN_24 | ADC_GAIN_32 | ADC_GAIN_64 | ADC_GAIN_128

datatype adc_action = ADC_ACTION_CONTINUE | ADC_ACTION_REPEAT | ADC_ACTION_FINISH

record adc_channel_cfg =
  chan_gain :: adc_gain
  acquisition_time :: u16
  chan_calibrate :: bool
  channel_id :: "5 word"
  differential :: bool

record adc_sequence_options =
  opt_callback :: addr
  opt_user_data :: addr
  extra_samplings :: u16

text \<open>A pointer to options is \<open>None\<close> or the options it points to.\<close>

record adc_sequence =
  seq_options :: "adc_sequence_options option"
  seq_channels :: u32
  seq_buffer :: addr
  seq_buffer_size :: u32

record adc_context =
  ctx_status :: atomic_t
  ctx_sequence :: adc_sequence
  ctx_options :: adc_sequence_options
  sampling_index :: u16

record adc_wch_data =
  data_offset :: u16
  data_ctx :: adc_context
  data_buffer :: addr
  data_repeat_buffer :: addr

record adc_state =
  adc_hw :: adc_regs
  adc_data :: adc_wch_data
  adc_ram :: mem

abbreviation context_of :: "adc_state \<Rightarrow> adc_context" where
  "context_of s \<equiv> data_ctx (adc_data s)"

abbreviation buffer_of :: "adc_state \<Rightarrow> addr" where
  "buffer_of s \<equiv> data_buffer (adc_data s)"

definition on_regs :: "(adc_regs \<Rightarrow> adc_regs) \<Rightarrow> adc_state \<Rightarrow> adc_state" where
  "on_regs f s = s\<lparr>adc_hw := f (adc_hw s)\<rparr>"

definition on_data :: "(adc_wch_data \<Rightarrow> adc_wch_data) \<Rightarrow> adc_state \<Rightarrow> adc_state" where
  "on_data f s = s\<lparr>adc_data := f (adc_data s)\<rparr>"

definition on_context :: "(adc_context \<Rightarrow> adc_context) \<Rightarrow> adc_state \<Rightarrow> adc_state" where
  "on_context f = on_data (\<lambda>d. d\<lparr>data_ctx := f (data_ctx d)\<rparr>)"

text \<open>A store through the \<open>uint16_t\<close> pointer \<open>data->buffer\<close>.\<close>

definition store_sample :: "u16 \<Rightarrow> adc_state \<Rightarrow> adc_state" where
  "store_sample v s = s\<lparr>adc_ram := mem_write (adc_ram s) (buffer_of s) (le_bytes 2 v)\<rparr>"

section \<open>The sampling context\<close>

definition adc_context_status :: "adc_context \<Rightarrow> atomic_t" where
  "adc_context_status c = atomic_get (ctx_status c)"

definition adc_context_complete :: "atomic_t \<Rightarrow> adc_state \<Rightarrow> adc_state" where
  "adc_context_complete status =
     on_context (\<lambda>c. let c = c\<lparr>ctx_status := status\<rparr>
                     in c\<lparr>ctx_status := snd (atomic_set status (ctx_status c))\<rparr>)"

definition adc_context_start_read :: "(adc_state \<Rightarrow> adc_state) \<Rightarrow> adc_sequence \<Rightarrow> adc_state \<Rightarrow> adc_state" where
  "adc_context_start_read start q s =
     (let s = on_context (\<lambda>c. c\<lparr>ctx_sequence := q\<rparr>) s;
          s = on_context (\<lambda>c. c\<lparr>ctx_status := snd (atomic_set 1 (ctx_status c))\<rparr>) s;
          s = (case seq_options q of
                 None \<Rightarrow> s
               | Some opts \<Rightarrow> on_context (\<lambda>c. c\<lparr>ctx_options := opts, sampling_index := 0\<rparr>) s)
      in start s)"

definition adc_context_on_sampling_done ::
  "(adc_state \<Rightarrow> adc_state) \<Rightarrow> (bool \<Rightarrow> adc_state \<Rightarrow> adc_state) \<Rightarrow> (adc_sequence \<Rightarrow> u16 \<Rightarrow> adc_action) \<Rightarrow>
   adc_state \<Rightarrow> adc_state" where
  "adc_context_on_sampling_done start update act s =
     (case seq_options (ctx_sequence (context_of s)) of
        None \<Rightarrow> adc_context_complete 0 s
      | Some _ \<Rightarrow>
          let c = context_of s;
              action = (if opt_callback (ctx_options c) \<noteq> NULL
                        then act (ctx_sequence c) (sampling_index c) else ADC_ACTION_CONTINUE)
          in case action of
               ADC_ACTION_REPEAT \<Rightarrow> start (update True s)
             | ADC_ACTION_FINISH \<Rightarrow> adc_context_complete 0 s
             | ADC_ACTION_CONTINUE \<Rightarrow>
                 if sampling_index c < extra_samplings (ctx_options c)
                 then start (update False (on_context (\<lambda>c. c\<lparr>sampling_index := sampling_index c + 1\<rparr>) s))
                 else adc_context_complete 0 s)"

section \<open>The driver\<close>

definition adc_context_start_sampling :: "adc_state \<Rightarrow> adc_state" where
  "adc_context_start_sampling s =
     on_regs hal_adc_start (on_data (\<lambda>d. d\<lparr>data_repeat_buffer := data_buffer d\<rparr>) s)"

definition adc_context_update_buffer_pointer :: "bool \<Rightarrow> adc_state \<Rightarrow> adc_state" where
  "adc_context_update_buffer_pointer repeat_sampling =
     on_data (\<lambda>d. if repeat_sampling then d\<lparr>data_buffer := data_repeat_buffer d\<rparr>
                  else d\<lparr>data_buffer := data_buffer d + 2\<rparr>)"

definition adc_wch_handler :: "(adc_sequence \<Rightarrow> u16 \<Rightarrow> adc_action) \<Rightarrow> adc_state \<Rightarrow> adc_state" where
  "adc_wch_handler act s =
     (let s = (if hal_adc_get_dma_int_flag ADC_INT_FLAG_DMA_END (adc_hw s)
               then on_regs (hal_adc_clear_dma_int_flag ADC_INT_FLAG_DMA_END) (on_regs hal_adc_dma_stop s)
               else s)
      in if hal_adc_get_int_flag (adc_hw s) \<noteq> 0 then
           let s = on_regs hal_adc_clear_int_flag s;
               s = store_sample (R16_ADC_DATA (adc_hw s) + data_offset (adc_data s)) s
           in adc_context_on_sampling_done adc_context_start_sampling adc_context_update_buffer_pointer act s
         else s)"

definition ADC_IRQHandler :: "(adc_sequence \<Rightarrow> u16 \<Rightarrow> adc_action) \<Rightarrow> adc_state \<Rightarrow> adc_state" where
  "ADC_IRQHandler act s = adc_wch_handler act s"

definition ADC_ACQ_TIME_DEFAULT :: u16 where "ADC_ACQ_TIME_DEFAULT = 0"

definition gain_code :: "adc_gain \<Rightarrow> adc_pga_gain option" where
  "gain_code g = (case g of
     ADC_GAIN_1_4 \<Rightarrow> Some ADC_PGA_1_4
   | ADC_GAIN_1_2 \<Rightarrow> Some ADC_PGA_1_2
   | ADC_GAIN_1 \<Rightarrow> Some ADC_PGA_1
   | ADC_GAIN_2 \<Rightarrow> Some ADC_PGA_2
   | _ \<Rightarrow> None)"

text \<open>The configuration handed to \<open>hal_adc_config\<close> starts as zeroes and its channel is never set.\<close>

definition adc_wch_channel_setup ::
  "(adc_regs \<Rightarrow> adc_regs) \<Rightarrow> u32 \<Rightarrow> u8 \<Rightarrow> adc_channel_cfg \<Rightarrow> adc_state \<Rightarrow> (int \<times> adc_state) option" where
  "adc_wch_channel_setup io chmap clk_div cfg s =
     (if ucast (channel_id cfg) = CH_INT_VTEMP then Some (0, on_regs hal_adc_config_temp s)
      else if ucast (channel_id cfg) = CH_INT_VBAT then Some (0, on_regs hal_adc_config_bat s)
      else case gain_code (chan_gain cfg) of
        None \<Rightarrow> Some (- ENOTSUP, s)
      | Some g \<Rightarrow>
          if push_bit (unat (channel_id cfg)) 1 AND chmap = 0 then Some (- EINVAL, s)
          else if acquisition_time cfg \<noteq> ADC_ACQ_TIME_DEFAULT then Some (- ENOTSUP, s)
          else
            let adc = \<lparr>cfg_diff = differential cfg, cfg_gain = g, cfg_div = clk_div, cfg_channel = 0\<rparr>;
                s = on_regs (\<lambda>a. snd (hal_adc_config adc a)) s
            in if chan_calibrate cfg
               then case hal_adc_self_calibration io (adc_hw s) of
                      None \<Rightarrow> None
                    | Some (v, a) \<Rightarrow> Some (0, on_data (\<lambda>d. d\<lparr>data_offset := ucast v\<rparr>) (s\<lparr>adc_hw := a\<rparr>))
               else Some (0, s))"

definition needed_buffer_size :: "adc_sequence \<Rightarrow> u32" where
  "needed_buffer_size q =
     (case seq_options q of None \<Rightarrow> 2 | Some opts \<Rightarrow> 2 * (1 + ucast (extra_samplings opts)))"

definition check_buffer_size :: "adc_sequence \<Rightarrow> int" where
  "check_buffer_size q = (if seq_buffer_size q < needed_buffer_size q then - ENOMEM else 0)"

definition adc_wch_channel_config_get :: "adc_state \<Rightarrow> adc_channel_cfg" where
  "adc_wch_channel_config_get s =
     \<lparr>chan_gain = ADC_GAIN_1_6, acquisition_time = ADC_ACQ_TIME_DEFAULT, chan_calibrate = False,
      channel_id = ucast (hal_adc_get_channel (adc_hw s)), differential = hal_adc_is_diff (adc_hw s)\<rparr>"

text \<open>The number of the least significant bit that is set, counted from 1; 0 when there is none.\<close>

definition find_lsb_set :: "u32 \<Rightarrow> nat" where
  "find_lsb_set op = (case filter (bit op) [0..<32] of [] \<Rightarrow> 0 | i # _ \<Rightarrow> Suc i)"

text \<open>With an empty channel mask the code shifts 1 by $2^{32} - 1$, which is undefined: \<open>None\<close>.\<close>

definition adc_wch_read ::
  "bool \<Rightarrow> (adc_regs \<Rightarrow> adc_regs) \<Rightarrow> adc_sequence \<Rightarrow> adc_state \<Rightarrow> (int \<times> adc_state) option" where
  "adc_wch_read intr io q s =
     (if find_lsb_set (seq_channels q) = 0 then None
      else
        let index = find_lsb_set (seq_channels q) - 1
        in if seq_channels q > push_bit index 1 then Some (- ENOTSUP, s)
           else
             let s = on_regs (hal_adc_set_channel (of_nat index)) s;
                 err = check_buffer_size q
             in if err \<noteq> 0 then Some (err, s)
                else
                  let s = on_data (\<lambda>d. d\<lparr>data_buffer := seq_buffer q\<rparr>) s
                  in if intr then Some (0, adc_context_start_read adc_context_start_sampling q s)
                     else case hal_adc_read_raw io (adc_hw s) of
                            None \<Rightarrow> None
                          | Some (v, a) \<Rightarrow>
                              let s = s\<lparr>adc_hw := a\<rparr>
                              in Some (0, store_sample (v + data_offset (adc_data s)) s))"

definition adc_wch_is_completed :: "bool \<Rightarrow> adc_state \<Rightarrow> bool" where
  "adc_wch_is_completed intr s = (if intr then adc_context_status (context_of s) = 0 else True)"

definition adc_wch_convert :: "u32 \<Rightarrow> adc_channel_cfg \<Rightarrow> u32 \<Rightarrow> int \<times> u32" where
  "adc_wch_convert c25 cfg v =
     (if ucast (channel_id cfg) = CH_INT_VTEMP then (0, hal_adc_convert_celsius c25 (ucast v))
      else case gain_code (chan_gain cfg) of
        None \<Rightarrow> (- ENOTSUP, v)
      | Some g \<Rightarrow> (0, hal_adc_convert_millivolts g (ucast v)))"

text \<open>Initialisation; with interrupts supported the function for the interrupt, which the macro \<open>ADC_INIT\<close> defines, enables the
  line \<open>irq\<close> of the converter in the interrupt controller \<open>k\<close>.\<close>

definition adc_wch_irq_cfg_func :: "u32 \<Rightarrow> PFIC_Type \<Rightarrow> PFIC_Type option" where
  "adc_wch_irq_cfg_func irq k = arch_irq_enable irq k"

definition adc_wch_init :: "bool \<Rightarrow> u32 \<Rightarrow> PFIC_Type \<Rightarrow> adc_state \<Rightarrow> (int \<times> PFIC_Type \<times> adc_state) option" where
  "adc_wch_init intr irq k s =
     (let s = on_regs hal_adc_init s
      in if intr then map_option (\<lambda>k. (0, k, s)) (adc_wch_irq_cfg_func irq k) else Some (0, k, s))"

section \<open>What the context asks of its driver\<close>

text \<open>One sampling is under way at \<open>buffer_of s\<close>; the place of the next one is two bytes further.\<close>

definition same_besides_pointer :: "adc_state \<Rightarrow> adc_state \<Rightarrow> bool" where
  "same_besides_pointer s t \<longleftrightarrow> context_of t = context_of s \<and> adc_ram t = adc_ram s \<and>
     data_offset (adc_data t) = data_offset (adc_data s)"

locale sampling_driver =
  fixes start :: "adc_state \<Rightarrow> adc_state" and update :: "bool \<Rightarrow> adc_state \<Rightarrow> adc_state"
  assumes start_same: "same_besides_pointer s (start s)"
    and start_buffer: "buffer_of (start s) = buffer_of s"
    and start_repeat: "data_repeat_buffer (adc_data (start s)) = buffer_of s"
    and update_same: "same_besides_pointer s (update r s)"
    and update_next: "buffer_of (update False s) = buffer_of s + 2"
    and update_repeat: "buffer_of (update True s) = data_repeat_buffer (adc_data s)"
begin

lemmas driver_laws = start_same [unfolded same_besides_pointer_def] start_buffer start_repeat
  update_same [unfolded same_besides_pointer_def] update_next update_repeat

end

text \<open>The place of the current sampling of a sequence: sample number \<open>sampling_index\<close> of its buffer.\<close>

definition placed :: "adc_sequence \<Rightarrow> adc_state \<Rightarrow> bool" where
  "placed q s \<longleftrightarrow> ctx_sequence (context_of s) = q \<and> data_repeat_buffer (adc_data s) = buffer_of s \<and>
     (case seq_options q of
        None \<Rightarrow> buffer_of s = seq_buffer q
      | Some opts \<Rightarrow> ctx_options (context_of s) = opts \<and> sampling_index (context_of s) \<le> extra_samplings opts \<and>
          buffer_of s = seq_buffer q + 2 * ucast (sampling_index (context_of s)))"

lemmas state_defs = on_regs_def on_data_def on_context_def

lemma complete_fields [simp]:
  "adc_ram (adc_context_complete v s) = adc_ram s"
  "adc_hw (adc_context_complete v s) = adc_hw s"
  "context_of (adc_context_complete v s) = (context_of s)\<lparr>ctx_status := v\<rparr>"
  "buffer_of (adc_context_complete v s) = buffer_of s"
  "data_repeat_buffer (adc_data (adc_context_complete v s)) = data_repeat_buffer (adc_data s)"
  "data_offset (adc_data (adc_context_complete v s)) = data_offset (adc_data s)"
  by (simp_all add: adc_context_complete_def state_defs atomic_set_def Let_def)

lemma ucast_index_Suc:
  assumes "i < (n :: u16)"
  shows "ucast (i + 1) = (ucast i + 1 :: u32)" and "i + 1 \<le> n" and "unat (i + 1) = Suc (unat i)"
proof -
  have "unat i < unat n" using assms by (simp add: word_less_nat_alt)
  moreover have "unat n < 65536" by (rule unat_u16_less)
  ultimately have n: "unat (i + 1) = Suc (unat i)"
    using unat_add_no_wrap_u16 [of i 1] by simp
  then show "unat (i + 1) = Suc (unat i)" .
  show "i + 1 \<le> n" using n \<open>unat i < unat n\<close> by (simp add: word_le_nat_alt)
  show "ucast (i + 1) = (ucast i + 1 :: u32)"
    using n unat_u16_less [of i] unat_add_no_wrap_u32 [of "ucast i" 1]
    by (simp add: word_unat_eq_iff)
qed

context sampling_driver
begin

lemma done_keeps:
  "adc_ram (adc_context_on_sampling_done start update act s) = adc_ram s"
  "data_offset (adc_data (adc_context_on_sampling_done start update act s)) = data_offset (adc_data s)"
  by (auto simp: adc_context_on_sampling_done_def Let_def driver_laws state_defs
      split: option.split adc_action.split)

lemma done_placed:
  assumes "placed q s"
  shows "placed q (adc_context_on_sampling_done start update act s)"
proof (cases "seq_options q")
  case None
  with assms show ?thesis by (simp add: adc_context_on_sampling_done_def placed_def)
next
  case (Some opts)
  with assms show ?thesis
    by (auto simp: adc_context_on_sampling_done_def placed_def Let_def driver_laws state_defs ucast_index_Suc [where n = "extra_samplings opts"]
        distrib_left split: adc_action.split)
qed

lemma start_read_placed:
  assumes "buffer_of s = seq_buffer q"
  shows "placed q (adc_context_start_read start q s)"
    and "adc_ram (adc_context_start_read start q s) = adc_ram s"
    and "data_offset (adc_data (adc_context_start_read start q s)) = data_offset (adc_data s)"
    and "ctx_status (context_of (adc_context_start_read start q s)) = 1"
    and "\<And>opts. seq_options q = Some opts \<Longrightarrow> sampling_index (context_of (adc_context_start_read start q s)) = 0"
  using assms
  by (auto simp: adc_context_start_read_def placed_def Let_def driver_laws state_defs atomic_set_def
      split: option.split)

lemma done_continues:
  assumes "placed q s" and "seq_options q = Some opts"
    and "opt_callback opts = NULL \<or> act q (sampling_index (context_of s)) = ADC_ACTION_CONTINUE"
  defines "t \<equiv> adc_context_on_sampling_done start update act s"
  shows "sampling_index (context_of s) < extra_samplings opts \<Longrightarrow>
      sampling_index (context_of t) = sampling_index (context_of s) + 1 \<and>
      ctx_status (context_of t) = ctx_status (context_of s)"
    and "\<not> sampling_index (context_of s) < extra_samplings opts \<Longrightarrow>
      sampling_index (context_of t) = sampling_index (context_of s) \<and> ctx_status (context_of t) = 0"
  using assms
  by (auto simp: adc_context_on_sampling_done_def placed_def Let_def driver_laws state_defs)

end

interpretation wch: sampling_driver adc_context_start_sampling adc_context_update_buffer_pointer
  by unfold_locales
    (simp_all add: same_besides_pointer_def adc_context_start_sampling_def adc_context_update_buffer_pointer_def
      state_defs)

section \<open>Sampling into the user's buffer\<close>

lemma store_sample_fields [simp]:
  "adc_data (store_sample v s) = adc_data s"
  "adc_hw (store_sample v s) = adc_hw s"
  by (simp_all add: store_sample_def)

lemma placed_cong: "adc_data t = adc_data s \<Longrightarrow> placed q t = placed q s"
  by (simp add: placed_def split: option.split)

lemma placed_update [simp]:
  "placed q (s\<lparr>adc_hw := h\<rparr>) = placed q s"
  "placed q (s\<lparr>adc_ram := m\<rparr>) = placed q s"
  "placed q (store_sample v s) = placed q s"
  by (rule placed_cong, simp)+


text \<open>Bytes of the sample at the current place are bytes of the buffer.\<close>

definition fits_buffer :: "adc_sequence \<Rightarrow> bool" where
  "fits_buffer q \<longleftrightarrow> needed_buffer_size q \<le> seq_buffer_size q"


lemma unat_double_index: "unat (2 * ucast (i :: u16) :: u32) = 2 * unat i"
  using unat_u16_less [of i] by (simp add: unat_word_ariths)






lemma accepted_read:
  assumes "adc_wch_read True io q s = Some (0, t)"
  obtains s' where "t = adc_context_start_read adc_context_start_sampling q s'"
    and "buffer_of s' = seq_buffer q" and "adc_ram s' = adc_ram s"
    and "data_offset (adc_data s') = data_offset (adc_data s)" and "fits_buffer q"
proof
  let ?s = "on_data (\<lambda>d. d\<lparr>data_buffer := seq_buffer q\<rparr>)
    (on_regs (hal_adc_set_channel (of_nat (find_lsb_set (seq_channels q) - 1))) s)"
  show "t = adc_context_start_read adc_context_start_sampling q ?s" and "fits_buffer q"
    using assms
    by (auto simp: adc_wch_read_def check_buffer_size_def fits_buffer_def errno_defs Let_def split: if_splits)
qed (simp_all add: state_defs)









section \<open>A complete sequence\<close>

text \<open>The hardware finishes a conversion with result \<open>d\<close>; a list of results, each followed by the interrupt and by what
  the callback, if there is one, answers.\<close>

definition end_of_conversion :: "u16 \<Rightarrow> adc_state \<Rightarrow> adc_state" where
  "end_of_conversion d =
     on_regs (\<lambda>a. a\<lparr>R16_ADC_DATA := d, R8_ADC_INT_FLAG := R8_ADC_INT_FLAG a OR RB_ADC_IF_EOC\<rparr>)"

definition conversions :: "(u16 \<times> adc_action) list \<Rightarrow> adc_state \<Rightarrow> adc_state" where
  "conversions cs s = fold (\<lambda>(d, a) s. ADC_IRQHandler (\<lambda>_ _. a) (end_of_conversion d s)) cs s"

definition sampling_count :: "adc_sequence \<Rightarrow> nat" where
  "sampling_count q = (case seq_options q of None \<Rightarrow> 1 | Some opts \<Rightarrow> Suc (unat (extra_samplings opts)))"

definition always_continues :: "(adc_sequence \<Rightarrow> u16 \<Rightarrow> adc_action) \<Rightarrow> adc_sequence \<Rightarrow> bool" where
  "always_continues act q \<longleftrightarrow>
     (case seq_options q of
        None \<Rightarrow> True
      | Some opts \<Rightarrow> opt_callback opts = NULL \<or> (\<forall>i. act q i = ADC_ACTION_CONTINUE))"

text \<open>What follows a sampling: without options the read is over, without a callback it continues.\<close>

definition answer :: "adc_sequence \<Rightarrow> adc_action \<Rightarrow> adc_action" where
  "answer q a =
     (case seq_options q of
        None \<Rightarrow> ADC_ACTION_FINISH
      | Some opts \<Rightarrow> if opt_callback opts = NULL then ADC_ACTION_CONTINUE else a)"

text \<open>
  What the header promises of a read: the samples that are kept and, once the read is over, the conversions that are not
  used any more.  A sampling to be repeated is not kept; one after which the read continues is; the read is over after a
  sampling at which the callback finishes it, and after the last one asked for.
\<close>

fun sampling_plan :: "adc_sequence \<Rightarrow> u16 list \<Rightarrow> (u16 \<times> adc_action) list \<Rightarrow> u16 list \<times> (u16 \<times> adc_action) list option" where
  "sampling_plan q ds [] = (ds, None)"
| "sampling_plan q ds ((d, a) # cs) =
     (case answer q a of
        ADC_ACTION_REPEAT \<Rightarrow> sampling_plan q ds cs
      | ADC_ACTION_FINISH \<Rightarrow> (ds @ [d], Some cs)
      | ADC_ACTION_CONTINUE \<Rightarrow>
          if Suc (length ds) < sampling_count q then sampling_plan q (ds @ [d]) cs else (ds @ [d], Some cs))"

definition sample_bytes :: "u16 \<Rightarrow> u16 list \<Rightarrow> u8 list" where
  "sample_bytes ofs ds = concat (map (\<lambda>d. le_bytes 2 (d + ofs)) ds)"

lemma length_sample_bytes [simp]: "length (sample_bytes ofs ds) = 2 * length ds"
  by (induction ds) (simp_all add: sample_bytes_def)

lemma eoc_flag: "hal_adc_get_int_flag (a\<lparr>R16_ADC_DATA := d, R8_ADC_INT_FLAG := R8_ADC_INT_FLAG a OR RB_ADC_IF_EOC\<rparr>) \<noteq> 0"
proof -
  have "(x OR 0x80) AND 0x80 = (0x80 :: u8)" for x
    by (rule bit_word_eqI) (auto simp: bit_simps)
  then show ?thesis by (simp add: hal_adc_get_int_flag_def RB_ADC_IF_EOC_def)
qed

lemma handler_after_conversion:
  "\<exists>h. ADC_IRQHandler act (end_of_conversion d s) =
     adc_context_on_sampling_done adc_context_start_sampling adc_context_update_buffer_pointer act
       (store_sample (d + data_offset (adc_data s)) (s\<lparr>adc_hw := h\<rparr>))"
  using eoc_flag [of "adc_hw s" d]
  by (auto simp: ADC_IRQHandler_def adc_wch_handler_def end_of_conversion_def Let_def on_regs_def
      hal_adc_dma_stop_def hal_adc_clear_dma_int_flag_def write_adc_dma_if_def hal_adc_get_int_flag_def
      hal_adc_clear_int_flag_def write_adc_convert_def)

text \<open>The state before sampling number \<open>length ds\<close>, with the results \<open>ds\<close> already in the buffer.\<close>

definition sampled :: "adc_sequence \<Rightarrow> u16 \<Rightarrow> u16 list \<Rightarrow> adc_state \<Rightarrow> bool" where
  "sampled q ofs ds s \<longleftrightarrow> placed q s \<and> data_offset (adc_data s) = ofs \<and> ctx_status (context_of s) = 1 \<and>
     buffer_of s = seq_buffer q + of_nat (2 * length ds) \<and> length ds < sampling_count q \<and>
     mem_read (adc_ram s) (seq_buffer q) (2 * length ds) = sample_bytes ofs ds"

lemma unat_even_u32: "n < 65536 \<Longrightarrow> unat (2 * of_nat n :: u32) = 2 * n"
  using unat_of_nat_u32 [of "2 * n"] by simp

lemma sampling_count_le: "sampling_count q \<le> 65536"
  using unat_u16_less by (auto simp: sampling_count_def Suc_le_eq split: option.split)

lemma sampled_index:
  assumes "sampled q ofs ds s" and "seq_options q = Some opts"
  shows "unat (sampling_index (context_of s)) = length ds"
proof -
  have p: "buffer_of s = seq_buffer q + 2 * ucast (sampling_index (context_of s))"
    using assms by (simp add: sampled_def placed_def)
  have b: "buffer_of s = seq_buffer q + 2 * of_nat (length ds)"
    using assms(1) by (simp add: sampled_def)
  have "2 * ucast (sampling_index (context_of s)) = (2 * of_nat (length ds) :: u32)"
    using p b by (simp only: add_left_cancel)
  then have "2 * unat (sampling_index (context_of s)) = unat (2 * of_nat (length ds) :: u32)"
    by (simp only: unat_double_index [symmetric])
  moreover have "length ds < 65536"
    using assms(1) sampling_count_le [of q] by (simp add: sampled_def)
  ultimately show ?thesis using unat_even_u32 by simp
qed

lemma sampled_store:
  assumes "sampled q ofs ds s"
  shows "mem_read (adc_ram (store_sample (d + ofs) s)) (seq_buffer q) (2 * length (ds @ [d])) =
    sample_bytes ofs (ds @ [d])"
proof -
  let ?n = "2 * length ds" and ?m = "mem_write (adc_ram s) (buffer_of s) (le_bytes 2 (d + ofs))"
  have b: "buffer_of s = seq_buffer q + of_nat ?n" and n: "length ds < 65536"
    using assms sampling_count_le [of q] by (simp_all add: sampled_def)
  have "mem_read ?m (seq_buffer q) ?n = mem_read (adc_ram s) (seq_buffer q) ?n"
  proof (rule mem_read_write_disjoint)
    fix i assume i: "i < ?n"
    have "seq_buffer q + of_nat i - buffer_of s = of_nat i - of_nat ?n" by (simp add: b)
    moreover have "unat (of_nat i - of_nat ?n :: u32) = 2 ^ 32 - unat (of_nat ?n - of_nat i :: u32)"
      by (rule unat_sub_neg) (use i n in \<open>simp add: unat_of_nat_u32 unat_even_u32\<close>)
    moreover have "unat (of_nat ?n - of_nat i :: u32) \<le> 131072"
      using i n unat_of_nat_u32 [of "?n - i"] by (simp add: of_nat_diff)
    ultimately show "length (le_bytes 2 (d + ofs)) \<le> unat (seq_buffer q + of_nat i - buffer_of s)"
      by (simp only: length_le_bytes) simp
  qed simp
  moreover have "mem_read ?m (buffer_of s) 2 = le_bytes 2 (d + ofs)"
    using mem_read_write_same [of "le_bytes 2 (d + ofs)"] by simp
  ultimately have "mem_read ?m (seq_buffer q) (?n + 2) = sample_bytes ofs ds @ le_bytes 2 (d + ofs)"
    using assms by (simp only: mem_read_append b [symmetric]) (simp add: sampled_def)
  then show ?thesis by (simp add: store_sample_def sample_bytes_def)
qed

lemma sampled_next:
  assumes "sampled q ofs ds s" and "always_continues act q" and "Suc (length ds) < sampling_count q"
  shows "sampled q ofs (ds @ [d]) (ADC_IRQHandler act (end_of_conversion d s))"
proof -
  obtain opts where o: "seq_options q = Some opts"
    using assms(3) by (auto simp: sampling_count_def split: option.splits)
  obtain h where h: "ADC_IRQHandler act (end_of_conversion d s) =
     adc_context_on_sampling_done adc_context_start_sampling adc_context_update_buffer_pointer act
       (store_sample (d + ofs) (s\<lparr>adc_hw := h\<rparr>))"
    using handler_after_conversion [of act d s] assms(1) by (auto simp: sampled_def)
  define u where "u = store_sample (d + ofs) (s\<lparr>adc_hw := h\<rparr>)"
  define t where "t = ADC_IRQHandler act (end_of_conversion d s)"
  have u: "placed q u" "context_of u = context_of s" "data_offset (adc_data u) = ofs"
    "adc_ram u = adc_ram (store_sample (d + ofs) s)"
    using assms(1) by (simp_all add: u_def sampled_def store_sample_def)
  have i: "sampling_index (context_of u) < extra_samplings opts"
    using sampled_index [OF assms(1) o] assms(3) o u(2)
    by (simp add: word_less_nat_alt sampling_count_def)
  have t: "placed q t" "adc_ram t = adc_ram u" "data_offset (adc_data t) = ofs"
    using wch.done_placed [OF u(1)] u(3) by (simp_all add: t_def h u_def [symmetric] wch.done_keeps)
  have c: "opt_callback opts = NULL \<or> act q (sampling_index (context_of u)) = ADC_ACTION_CONTINUE"
    using assms(2) o by (auto simp: always_continues_def)
  have n: "sampling_index (context_of t) = sampling_index (context_of s) + 1" "ctx_status (context_of t) = 1"
    using wch.done_continues(1) [of q u opts act, OF u(1) o c i] assms(1) u(2)
    by (simp_all add: t_def h u_def [symmetric] sampled_def)
  have "buffer_of t = seq_buffer q + 2 * ucast (sampling_index (context_of s) + 1)"
    using t(1) o n(1) by (simp add: placed_def)
  also have "\<dots> = buffer_of s + 2"
    using i u(2) assms(1) o by (simp add: ucast_index_Suc sampled_def placed_def distrib_left)
  finally have b: "buffer_of t = seq_buffer q + of_nat (2 * length (ds @ [d]))"
    using assms(1) by (simp add: sampled_def distrib_left)
  show ?thesis
    using t n(2) b u(4) sampled_store [OF assms(1), of d] assms(3)
    by (simp add: sampled_def t_def [symmetric])
qed

lemma sampled_last:
  fixes d :: u16
  assumes "sampled q ofs ds s" and "always_continues act q" and "Suc (length ds) = sampling_count q"
  defines "t \<equiv> ADC_IRQHandler act (end_of_conversion d s)"
  shows "ctx_status (context_of t) = 0"
    and "mem_read (adc_ram t) (seq_buffer q) (2 * Suc (length ds)) = sample_bytes ofs (ds @ [d])"
proof -
  obtain h where h: "t =
     adc_context_on_sampling_done adc_context_start_sampling adc_context_update_buffer_pointer act
       (store_sample (d + ofs) (s\<lparr>adc_hw := h\<rparr>))"
    using handler_after_conversion [of act d s] assms(1) by (auto simp: sampled_def t_def)
  define u where "u = store_sample (d + ofs) (s\<lparr>adc_hw := h\<rparr>)"
  have u: "placed q u" "context_of u = context_of s" "adc_ram u = adc_ram (store_sample (d + ofs) s)"
    using assms(1) by (simp_all add: u_def sampled_def store_sample_def)
  show "mem_read (adc_ram t) (seq_buffer q) (2 * Suc (length ds)) = sample_bytes ofs (ds @ [d])"
    using sampled_store [OF assms(1), of d] u(3) by (simp add: h wch.done_keeps u_def)
  show "ctx_status (context_of t) = 0"
  proof (cases "seq_options q")
    case None
    with u(1) show ?thesis
      by (simp add: h u_def [symmetric] adc_context_on_sampling_done_def placed_def)
  next
    case (Some opts)
    have "\<not> sampling_index (context_of u) < extra_samplings opts"
      using sampled_index [OF assms(1) Some] assms(3) Some u(2)
      by (simp add: word_less_nat_alt sampling_count_def)
    moreover have "opt_callback opts = NULL \<or> act q (sampling_index (context_of u)) = ADC_ACTION_CONTINUE"
      using assms(2) Some by (auto simp: always_continues_def)
    ultimately show ?thesis
      using wch.done_continues(2) [of q u opts act, OF u(1) Some] by (simp add: h u_def)
  qed
qed

definition finished :: "adc_sequence \<Rightarrow> u16 \<Rightarrow> u16 list \<Rightarrow> adc_state \<Rightarrow> bool" where
  "finished q ofs ds s \<longleftrightarrow> ctx_status (context_of s) = 0 \<and>
     mem_read (adc_ram s) (seq_buffer q) (2 * length ds) = sample_bytes ofs ds"

lemma sampled_stop:
  fixes d :: u16
  assumes "sampled q ofs ds s" and "seq_options q = Some opts" and "opt_callback opts \<noteq> NULL"
  shows "finished q ofs (ds @ [d]) (ADC_IRQHandler (\<lambda>_ _. ADC_ACTION_FINISH) (end_of_conversion d s))"
    and "sampled q ofs ds (ADC_IRQHandler (\<lambda>_ _. ADC_ACTION_REPEAT) (end_of_conversion d s))"
proof -
  have hd: "\<exists>h. ADC_IRQHandler act (end_of_conversion d s) =
     adc_context_on_sampling_done adc_context_start_sampling adc_context_update_buffer_pointer act
       (store_sample (d + ofs) (s\<lparr>adc_hw := h\<rparr>))" for act
    using handler_after_conversion [of act d s] assms(1) by (auto simp: sampled_def)
  have u: "placed q (store_sample (d + ofs) (s\<lparr>adc_hw := h\<rparr>))"
    "adc_ram (store_sample (d + ofs) (s\<lparr>adc_hw := h\<rparr>)) = adc_ram (store_sample (d + ofs) s)" for h
    using assms(1) by (simp_all add: sampled_def store_sample_def)
  have p: "seq_options (ctx_sequence (context_of s)) = Some opts" "ctx_options (context_of s) = opts"
    "data_repeat_buffer (adc_data s) = buffer_of s"
    using assms by (auto simp: sampled_def placed_def)
  have m: "mem_read (adc_ram (store_sample (d + ofs) s)) (seq_buffer q) (2 * length (ds @ [d])) = sample_bytes ofs (ds @ [d])"
    using sampled_store [OF assms(1), of d] .
  then show "finished q ofs (ds @ [d]) (ADC_IRQHandler (\<lambda>_ _. ADC_ACTION_FINISH) (end_of_conversion d s))"
    using hd [of "\<lambda>_ _. ADC_ACTION_FINISH"] assms(3) p
    by (auto simp: finished_def u adc_context_on_sampling_done_def Let_def)
  have "take (2 * length ds) (mem_read (adc_ram (store_sample (d + ofs) s)) (seq_buffer q) (2 * length ds + 2)) =
      sample_bytes ofs ds"
    using m by (simp add: sample_bytes_def [of _ "_ @ _"]) (simp add: sample_bytes_def [symmetric])
  then have m': "mem_read (adc_ram (store_sample (d + ofs) s)) (seq_buffer q) (2 * length ds) = sample_bytes ofs ds"
    by (simp only: mem_read_append) simp
  obtain h where h: "ADC_IRQHandler (\<lambda>_ _. ADC_ACTION_REPEAT) (end_of_conversion d s) =
    adc_context_start_sampling (adc_context_update_buffer_pointer True (store_sample (d + ofs) (s\<lparr>adc_hw := h\<rparr>)))"
    using hd [of "\<lambda>_ _. ADC_ACTION_REPEAT"] assms(3) p by (auto simp: adc_context_on_sampling_done_def Let_def)
  show "sampled q ofs ds (ADC_IRQHandler (\<lambda>_ _. ADC_ACTION_REPEAT) (end_of_conversion d s))"
    using assms(1,2) m' p(3) u by (auto simp: h sampled_def placed_def wch.driver_laws)
qed

lemma sampled_step:
  fixes d :: u16 and a :: adc_action
  assumes "sampled q ofs ds s"
  defines "t \<equiv> ADC_IRQHandler (\<lambda>_ _. a) (end_of_conversion d s)"
  shows "answer q a = ADC_ACTION_REPEAT \<Longrightarrow> sampled q ofs ds t"
    and "answer q a = ADC_ACTION_FINISH \<Longrightarrow> finished q ofs (ds @ [d]) t"
    and "answer q a = ADC_ACTION_CONTINUE \<Longrightarrow> Suc (length ds) < sampling_count q \<Longrightarrow> sampled q ofs (ds @ [d]) t"
    and "answer q a = ADC_ACTION_CONTINUE \<Longrightarrow> \<not> Suc (length ds) < sampling_count q \<Longrightarrow> finished q ofs (ds @ [d]) t"
proof -
  have lt: "length ds < sampling_count q" using assms(1) by (simp add: sampled_def)
  have last: "finished q ofs (ds @ [d]) t" if "always_continues (\<lambda>_ _. a) q" "Suc (length ds) = sampling_count q"
    using sampled_last [OF assms(1) that, of d] by (simp add: finished_def t_def)
  show "answer q a = ADC_ACTION_REPEAT \<Longrightarrow> sampled q ofs ds t"
    using sampled_stop(2) [OF assms(1)] by (auto simp: answer_def t_def split: option.splits if_splits)
  show "answer q a = ADC_ACTION_FINISH \<Longrightarrow> finished q ofs (ds @ [d]) t"
    using sampled_stop(1) [OF assms(1)] last lt
    by (auto simp: answer_def t_def always_continues_def sampling_count_def split: option.splits if_splits)
  assume "answer q a = ADC_ACTION_CONTINUE"
  then have c: "always_continues (\<lambda>_ _. a) q" by (auto simp: answer_def always_continues_def split: option.splits if_splits)
  show "Suc (length ds) < sampling_count q \<Longrightarrow> sampled q ofs (ds @ [d]) t"
    using sampled_next [OF assms(1) c] by (simp add: t_def)
  show "\<not> Suc (length ds) < sampling_count q \<Longrightarrow> finished q ofs (ds @ [d]) t" using last [OF c] lt by simp
qed

text \<open>The interrupt handler follows the plan; the read is not completed before the plan ends.\<close>

definition follows :: "adc_sequence \<Rightarrow> u16 \<Rightarrow> u16 list \<Rightarrow> (u16 \<times> adc_action) list \<Rightarrow> adc_state \<Rightarrow> bool" where
  "follows q ofs ds cs s \<longleftrightarrow>
     (case sampling_plan q ds cs of
        (es, None) \<Rightarrow> sampled q ofs es (conversions cs s)
      | (es, Some rest) \<Rightarrow> \<exists>used. cs = used @ rest \<and> used \<noteq> [] \<and> finished q ofs es (conversions used s) \<and>
          (\<forall>n<length used. ctx_status (context_of (conversions (take n used) s)) = 1))"

lemma conversions_Cons: "conversions (c # xs) s = conversions xs (conversions [c] s)"
  by (simp add: conversions_def)

lemma follows_Cons:
  assumes plan: "sampling_plan q ds (c # cs) = sampling_plan q es cs" and s: "ctx_status (context_of s) = 1"
    and f: "follows q ofs es cs (conversions [c] s)"
  shows "follows q ofs ds (c # cs) s"
proof (cases "sampling_plan q es cs")
  case (Pair xs r)
  show ?thesis
  proof (cases r)
    case None
    with f Pair show ?thesis unfolding follows_def plan conversions_Cons [of c cs] by simp
  next
    case (Some rest)
    with f Pair obtain used where u: "cs = used @ rest" "finished q ofs xs (conversions used (conversions [c] s))"
      "\<forall>n<length used. ctx_status (context_of (conversions (take n used) (conversions [c] s))) = 1"
      unfolding follows_def by auto
    have "ctx_status (context_of (conversions (take n (c # used)) s)) = 1" if n: "n < length (c # used)" for n
    proof (cases n)
      case 0
      with s show ?thesis by (simp add: conversions_def)
    next
      case (Suc m)
      with n u(3) have "ctx_status (context_of (conversions (take m used) (conversions [c] s))) = 1" by simp
      then show ?thesis by (simp only: Suc take_Suc_Cons conversions_Cons [of c "take m used"])
    qed
    with u(1,2) show ?thesis
      unfolding follows_def plan Pair Some prod.case option.case
      by (intro exI [of _ "c # used"]) (simp only: conversions_Cons [of c used], simp)
  qed
qed

lemma conversions_follow: "sampled q ofs ds s \<Longrightarrow> follows q ofs ds cs s"
proof (induction cs arbitrary: ds s)
  case Nil
  then show ?case by (simp add: follows_def conversions_def)
next
  case (Cons c cs)
  obtain d a where c: "c = (d, a)" by (cases c)
  note step = sampled_step [OF Cons.prems, of a d]
  have one: "conversions [c] s = ADC_IRQHandler (\<lambda>_ _. a) (end_of_conversion d s)" by (simp add: conversions_def c)
  have s1: "ctx_status (context_of s) = 1" using Cons.prems by (simp add: sampled_def)
  have over: "follows q ofs ds (c # cs) s"
    if "sampling_plan q ds (c # cs) = (ds @ [d], Some cs)" "finished q ofs (ds @ [d]) (conversions [c] s)"
    using that s1 by (auto simp: follows_def conversions_def intro!: exI [of _ "[c]"])
  have on: "follows q ofs ds (c # cs) s"
    if "sampling_plan q ds (c # cs) = sampling_plan q es cs" "sampled q ofs es (conversions [c] s)" for es
    using follows_Cons [OF that(1) s1 Cons.IH [OF that(2)]] .
  show ?case
  proof (cases "answer q a")
    case ADC_ACTION_CONTINUE
    show ?thesis
    proof (cases "Suc (length ds) < sampling_count q")
      case True
      show ?thesis by (rule on [of "ds @ [d]"]) (simp_all only: c one [unfolded c] sampling_plan.simps ADC_ACTION_CONTINUE adc_action.case True if_True step(3))
    next
      case False
      show ?thesis by (rule over) (simp_all only: c one [unfolded c] sampling_plan.simps ADC_ACTION_CONTINUE adc_action.case False if_False step(4) [OF ADC_ACTION_CONTINUE False])
    qed
  next
    case ADC_ACTION_REPEAT
    show ?thesis by (rule on [of ds]) (simp_all only: c one [unfolded c] sampling_plan.simps ADC_ACTION_REPEAT adc_action.case step(1))
  next
    case ADC_ACTION_FINISH
    show ?thesis by (rule over) (simp_all only: c one [unfolded c] sampling_plan.simps ADC_ACTION_FINISH adc_action.case step(2))
  qed
qed

text \<open>The plan ends when the callback finishes the read or all samplings are done.\<close>

definition continued :: "adc_sequence \<Rightarrow> (u16 \<times> adc_action) list \<Rightarrow> u16 list" where
  "continued q cs = map fst (filter (\<lambda>c. answer q (snd c) = ADC_ACTION_CONTINUE) cs)"

lemma plan_open:
  assumes "sampling_plan q ds cs = (es, None)" and "length ds < sampling_count q"
  shows "es = ds @ continued q cs \<and> length es < sampling_count q \<and> (\<forall>c\<in>set cs. answer q (snd c) \<noteq> ADC_ACTION_FINISH)"
  using assms
proof (induction cs arbitrary: ds)
  case (Cons c cs)
  obtain d a where "c = (d, a)" by (cases c)
  with Cons.prems Cons.IH [of ds] Cons.IH [of "ds @ [d]"] show ?case
    by (cases "answer q a") (auto simp: continued_def split: if_splits)
qed (simp add: continued_def)

lemma plan_closed:
  assumes "sampling_plan q ds cs = (es, Some rest)" and "length ds < sampling_count q"
  shows "\<exists>us d a. cs = us @ (d, a) # rest \<and> es = ds @ continued q us @ [d] \<and> length es \<le> sampling_count q \<and>
    (answer q a = ADC_ACTION_FINISH \<or> answer q a = ADC_ACTION_CONTINUE \<and> length es = sampling_count q)"
  using assms
proof (induction cs arbitrary: ds)
  case (Cons c cs)
  obtain d a where c: "c = (d, a)" by (cases c)
  have on: ?case if "sampling_plan q (ds @ continued q [c]) cs = (es, Some rest)"
    "length (ds @ continued q [c]) < sampling_count q"
  proof -
    from Cons.IH [OF that] obtain us e b where "cs = us @ (e, b) # rest" "es = (ds @ continued q [c]) @ continued q us @ [e]"
      "length es \<le> sampling_count q"
      "answer q b = ADC_ACTION_FINISH \<or> answer q b = ADC_ACTION_CONTINUE \<and> length es = sampling_count q" by blast
    then show ?thesis by (intro exI [of _ "c # us"]) (auto simp: continued_def)
  qed
  have over: ?case if "es = ds @ [d]" "rest = cs"
    "answer q a = ADC_ACTION_FINISH \<or> answer q a = ADC_ACTION_CONTINUE \<and> length es = sampling_count q"
    using that Cons.prems(2) c by (intro exI [of _ "[]"]) (auto simp: continued_def)
  show ?case
    using Cons.prems c on over by (cases "answer q a") (auto simp: continued_def split: if_splits)
qed simp

lemma accepted_sampled:
  assumes "adc_wch_read True io q s = Some (0, s')"
  shows "sampled q (data_offset (adc_data s)) [] s'"
proof -
  from accepted_read [OF assms] obtain s0 where
    "s' = adc_context_start_read adc_context_start_sampling q s0" "buffer_of s0 = seq_buffer q"
    "data_offset (adc_data s0) = data_offset (adc_data s)" .
  then show ?thesis
    using wch.start_read_placed [of s0 q]
    by (auto simp: sampled_def placed_def sampling_count_def sample_bytes_def split: option.splits)
qed

text \<open>C10: after a read is accepted, whatever the callback answers to each sampling: the read is completed exactly by the
  conversion at which the callback finishes it, or else by the one that is the last of \<open>1 + extra_samplings\<close> samplings not
  repeated, and by none before it; without a callback that is conversion number \<open>1 + extra_samplings\<close>, without options the
  first.  Then, and at every moment before, the buffer holds the results of the samplings that were not repeated, in order,
  each with the calibration offset added.\<close>

theorem adc_read_completes:
  assumes "adc_wch_read True io q s = Some (0, s')"
  shows "(case sampling_plan q [] cs of
      (ds, None) \<Rightarrow>
        ds = continued q cs \<and> length ds < sampling_count q \<and> (\<forall>c\<in>set cs. answer q (snd c) \<noteq> ADC_ACTION_FINISH) \<and>
        \<not> adc_wch_is_completed True (conversions cs s') \<and>
        mem_read (adc_ram (conversions cs s')) (seq_buffer q) (2 * length ds) = sample_bytes (data_offset (adc_data s)) ds
    | (ds, Some rest) \<Rightarrow>
        \<exists>us d a. cs = us @ (d, a) # rest \<and> ds = continued q us @ [d] \<and> length ds \<le> sampling_count q \<and>
          (answer q a = ADC_ACTION_FINISH \<or> answer q a = ADC_ACTION_CONTINUE \<and> length ds = sampling_count q) \<and>
          (\<forall>n\<le>length us. \<not> adc_wch_is_completed True (conversions (take n us) s')) \<and>
          adc_wch_is_completed True (conversions (us @ [(d, a)]) s') \<and>
          mem_read (adc_ram (conversions (us @ [(d, a)]) s')) (seq_buffer q) (2 * length ds) =
            sample_bytes (data_offset (adc_data s)) ds)"
proof -
  let ?ofs = "data_offset (adc_data s)"
  have s: "sampled q ?ofs [] s'" using assms by (rule accepted_sampled)
  have f: "follows q ?ofs [] cs s'" using conversions_follow [OF s] .
  have z: "length [] < sampling_count q" using s by (simp add: sampled_def)
  have done_iff: "adc_wch_is_completed True t \<longleftrightarrow> ctx_status (context_of t) = 0" for t
    by (simp add: adc_wch_is_completed_def adc_context_status_def atomic_get_def)
  show ?thesis
  proof (cases "sampling_plan q [] cs")
    case (Pair ds r)
    show ?thesis
    proof (cases r)
      case None
      with Pair f plan_open [OF _ z, of cs ds] show ?thesis by (auto simp: follows_def sampled_def done_iff)
    next
      case (Some rest)
      then obtain us d a where us: "cs = us @ (d, a) # rest" "ds = continued q us @ [d]" "length ds \<le> sampling_count q"
        "answer q a = ADC_ACTION_FINISH \<or> answer q a = ADC_ACTION_CONTINUE \<and> length ds = sampling_count q"
        using plan_closed [OF _ z, of cs ds rest] Pair by auto
      have "finished q ?ofs ds (conversions (us @ [(d, a)]) s')"
        "\<forall>n<Suc (length us). ctx_status (context_of (conversions (take n (us @ [(d, a)])) s')) = 1"
        using f Pair Some us(1) by (auto simp: follows_def)
      with us Pair Some show ?thesis by (auto simp: finished_def done_iff less_Suc_eq_le intro!: exI)
    qed
  qed
qed

section \<open>Reading the configuration back\<close>

lemma hal_adc_config_fields:
  "hal_adc_is_diff (snd (hal_adc_config adc a)) = cfg_diff adc"
  "hal_adc_get_channel (snd (hal_adc_config adc a)) = cfg_channel adc AND ADC_CHANNEL_MSK"
proof -
  have *: "x AND 4 = 0 \<longleftrightarrow> \<not> bit x 2" for x :: u8
    using and_exp_eq_0_iff_not_bit [of x 2] by simp
  show "hal_adc_is_diff (snd (hal_adc_config adc a)) = cfg_diff adc"
    by (simp add: hal_adc_config_def hal_adc_is_diff_def Let_def hal_adc_set_channel_def hal_adc_set_gain_def
        hal_adc_clock_div_def hal_adc_diff_def hal_adc_buff_def cfg_bit_def RB_ADC_DIFF_EN_def RB_ADC_BUF_EN_def
        ADC_CFG_CLK_DIV_MSK_def ADC_CFG_PGA_GAIN_MSK_def * bit_simps)
  show "hal_adc_get_channel (snd (hal_adc_config adc a)) = cfg_channel adc AND ADC_CHANNEL_MSK"
    by (simp add: hal_adc_config_def hal_adc_get_channel_def Let_def hal_adc_set_channel_def)
qed

text \<open>After an external channel is configured without calibration, \<open>adc_channel_config_get\<close> reports its
  differential mode, but always channel 0 and the gain 1/6, with which \<open>adc_convert\<close> always fails and leaves the
  value unconverted.\<close>

theorem adc_channel_config_get_unconvertible:
  assumes "adc_wch_channel_setup io chmap clk_div cfg s = Some (0, t)"
    and "ucast (channel_id cfg) \<noteq> CH_INT_VTEMP" and "ucast (channel_id cfg) \<noteq> CH_INT_VBAT"
    and "\<not> chan_calibrate cfg"
  shows "channel_id (adc_wch_channel_config_get t) = 0 \<and>
    differential (adc_wch_channel_config_get t) = differential cfg \<and>
    adc_wch_convert c25 (adc_wch_channel_config_get t) v = (- ENOTSUP, v)"
proof -
  obtain g where "t = on_regs (\<lambda>a. snd (hal_adc_config
      \<lparr>cfg_diff = differential cfg, cfg_gain = g, cfg_div = clk_div, cfg_channel = 0\<rparr> a)) s"
    using assms by (auto simp: adc_wch_channel_setup_def Let_def errno_defs split: if_splits option.splits)
  then show ?thesis
    by (simp add: adc_wch_channel_config_get_def adc_wch_convert_def hal_adc_config_fields on_regs_def
        gain_code_def CH_INT_VTEMP_def)
qed

section \<open>Examples\<close>

definition adc_regs_reset :: adc_regs where
  "adc_regs_reset = \<lparr>R8_ADC_CHANNEL = 0, R8_ADC_CFG = 0, R8_ADC_CONVERT = 0, R8_TEM_SENSOR = 0, R16_ADC_DATA = 0,
     R8_ADC_INT_FLAG = 0, R8_TKEY_CFG = 0, R8_ADC_CTRL_DMA = 0, R8_ADC_DMA_IF = 0, R8_ADC_AUTO_CYCLE = 0,
     R16_ADC_DMA_NOW = 0, R16_ADC_DMA_BEG = 0, R16_ADC_DMA_END = 0\<rparr>"

definition two_samples :: adc_sequence where
  "two_samples = \<lparr>seq_options = Some \<lparr>opt_callback = NULL, opt_user_data = NULL, extra_samplings = 1\<rparr>,
     seq_channels = 4, seq_buffer = 0x20004000, seq_buffer_size = 4\<rparr>"

definition adc_example :: adc_state where
  "adc_example = \<lparr>adc_hw = adc_regs_reset,
     adc_data = \<lparr>data_offset = 3,
       data_ctx = \<lparr>ctx_status = 0, ctx_sequence = two_samples,
         ctx_options = \<lparr>opt_callback = NULL, opt_user_data = NULL, extra_samplings = 0\<rparr>, sampling_index = 0\<rparr>,
       data_buffer = NULL, data_repeat_buffer = NULL\<rparr>,
     adc_ram = \<lambda>_. 0\<rparr>"


text \<open>Three samplings with a callback that repeats the first one and finishes after the second.\<close>

definition three_samples :: adc_sequence where
  "three_samples = two_samples\<lparr>
     seq_options := Some \<lparr>opt_callback = 0x1000, opt_user_data = NULL, extra_samplings = 2\<rparr>, seq_buffer_size := 6\<rparr>"

lemma three_samples_accepted: "\<exists>s'. adc_wch_read True id three_samples s = Some (0, s')"
proof -
  have "filter (bit (4 :: u32)) [0..<32] = [2]" by code_simp
  then have "find_lsb_set 4 = 3" by (simp add: find_lsb_set_def)
  then show ?thesis
    by (simp add: adc_wch_read_def three_samples_def two_samples_def check_buffer_size_def needed_buffer_size_def Let_def)
qed

lemma adc_read_completes_witness:
  "\<exists>s'. adc_wch_read True id three_samples adc_example = Some (0, s') \<and>
     (let cs = [(0x99, ADC_ACTION_REPEAT), (0x123, ADC_ACTION_CONTINUE), (0x456, ADC_ACTION_FINISH)] in
      \<not> adc_wch_is_completed True (conversions (take 2 cs) s') \<and> adc_wch_is_completed True (conversions cs s') \<and>
      mem_read (adc_ram (conversions cs s')) 0x20004000 4 = [0x26, 0x01, 0x59, 0x04])"
proof -
  let ?us = "[(0x99, ADC_ACTION_REPEAT), (0x123, ADC_ACTION_CONTINUE)]"
  obtain s' where s: "adc_wch_read True id three_samples adc_example = Some (0, s')"
    using three_samples_accepted by blast
  have a: "answer three_samples x = x" for x by (simp add: answer_def three_samples_def two_samples_def)
  have n: "sampling_count three_samples = 3" by (simp add: sampling_count_def three_samples_def two_samples_def)
  have b: "sample_bytes 3 [0x123, 0x456] = [0x26, 0x01, 0x59, 0x04]" by code_simp
  have v: "seq_buffer three_samples = 0x20004000" "data_offset (adc_data adc_example) = 3"
    by (simp_all add: three_samples_def two_samples_def adc_example_def)
  have p: "sampling_plan three_samples [] (?us @ [(0x456, ADC_ACTION_FINISH)]) = ([0x123, 0x456], Some [])"
    by (simp add: a n)
  have "\<forall>n\<le>length ?us. \<not> adc_wch_is_completed True (conversions (take n ?us) s')"
    "adc_wch_is_completed True (conversions (?us @ [(0x456, ADC_ACTION_FINISH)]) s') \<and>
     mem_read (adc_ram (conversions (?us @ [(0x456, ADC_ACTION_FINISH)]) s')) 0x20004000 4 = [0x26, 0x01, 0x59, 0x04]"
    using adc_read_completes [OF s, of "?us @ [(0x456, ADC_ACTION_FINISH)]"] unfolding p by (auto simp: b v)
  with s show ?thesis by (intro exI [of _ s']) (auto simp: Let_def dest: spec [of _ 2])
qed


lemma adc_channel_config_get_unconvertible_witness:
  "\<exists>t. adc_wch_channel_setup id 0xFFFF SAMPLEFREQ_5_33
       \<lparr>chan_gain = ADC_GAIN_1, acquisition_time = 0, chan_calibrate = False, channel_id = 2, differential = True\<rparr>
       adc_example = Some (0, t) \<and>
     channel_id (adc_wch_channel_config_get t) = 0 \<and> differential (adc_wch_channel_config_get t) \<and>
     adc_wch_convert 0 (adc_wch_channel_config_get t) 2048 = (- ENOTSUP, 2048)"
proof -
  let ?cfg = "\<lparr>chan_gain = ADC_GAIN_1, acquisition_time = 0, chan_calibrate = False, channel_id = 2,
    differential = True\<rparr>"
  obtain t where t: "adc_wch_channel_setup id 0xFFFF SAMPLEFREQ_5_33 ?cfg adc_example = Some (0, t)"
    by (simp add: adc_wch_channel_setup_def CH_INT_VTEMP_def CH_INT_VBAT_def gain_code_def ADC_ACQ_TIME_DEFAULT_def
        Let_def)
  from t adc_channel_config_get_unconvertible [OF t, of 0 2048] show ?thesis
    by (simp add: CH_INT_VTEMP_def CH_INT_VBAT_def)
qed

end
