(* ===== verification/Ble_Hal.thy ===== *)
theory Ble_Hal
  imports Adc_Driver
begin

text \<open>
  The temperature sensor of the Bluetooth port, \<open>ble_hal_get_inter_temp\<close> of \<^verbatim>\<open>subsys/bluetooth/hal/hal.c\<close>, over the
  converter driver.  The result variable \<open>raw_adc\<close> lies at the stack address \<open>p\<close>; \<open>step\<close> is what hardware and
  interrupts do between two polls of the completion flag.
\<close>

section \<open>Reading the sensor\<close>

definition temp_channel_cfg :: adc_channel_cfg where
  "temp_channel_cfg = \<lparr>chan_gain = ADC_GAIN_1_6, acquisition_time = 0, chan_calibrate = False,
     channel_id = 15, differential = False\<rparr>"

definition seq_temp :: "addr \<Rightarrow> adc_sequence" where
  "seq_temp p = \<lparr>seq_options = None, seq_channels = push_bit 15 1, seq_buffer = p, seq_buffer_size = 2\<rparr>"

partial_function (option) temp_wait :: "bool \<Rightarrow> (adc_state \<Rightarrow> adc_state) \<Rightarrow> adc_state \<Rightarrow> adc_state option" where
  "temp_wait intr step s =
     (let s = step s in if adc_wch_is_completed intr s then Some s else temp_wait intr step s)"

definition ble_hal_get_inter_temp ::
  "bool \<Rightarrow> (adc_regs \<Rightarrow> adc_regs) \<Rightarrow> u32 \<Rightarrow> u8 \<Rightarrow> addr \<Rightarrow> (adc_state \<Rightarrow> adc_state) \<Rightarrow> adc_state \<Rightarrow>
   (u16 \<times> adc_state) option" where
  "ble_hal_get_inter_temp intr io chmap clk_div p step s =
     (let cfg_save = adc_wch_channel_config_get s
      in case adc_wch_channel_setup io chmap clk_div temp_channel_cfg s of
           None \<Rightarrow> None
         | Some (_, s) \<Rightarrow>
             case adc_wch_read intr io (seq_temp p) s of
               None \<Rightarrow> None
             | Some (_, s) \<Rightarrow>
                 case temp_wait intr step s of
                   None \<Rightarrow> None
                 | Some s \<Rightarrow>
                     case adc_wch_channel_setup io chmap clk_div cfg_save s of
                       None \<Rightarrow> None
                     | Some (_, s) \<Rightarrow> Some (le_val (mem_read (adc_ram s) p 2), s))"

section \<open>Lemmas\<close>

definition same_config :: "adc_regs \<Rightarrow> adc_regs \<Rightarrow> bool" where
  "same_config a b \<longleftrightarrow> R8_ADC_CFG b = R8_ADC_CFG a \<and> R8_ADC_CHANNEL b = R8_ADC_CHANNEL a \<and>
     R8_TEM_SENSOR b = R8_TEM_SENSOR a"

lemma same_config_trans: "same_config a b \<Longrightarrow> same_config b c \<Longrightarrow> same_config a c"
  by (simp add: same_config_def)

lemma find_lsb_set_15: "find_lsb_set 0x8000 = 16"
proof -
  have "filter (bit (0x8000 :: u32)) [0..<32] = [15]" by code_simp
  then show ?thesis by (simp add: find_lsb_set_def)
qed

lemma temp_setup:
  "adc_wch_channel_setup io chmap clk_div temp_channel_cfg s = Some (0, on_regs hal_adc_config_temp s)"
  by (simp add: adc_wch_channel_setup_def temp_channel_cfg_def CH_INT_VTEMP_def)

lemma temp_read:
  "adc_wch_read intr io (seq_temp p) s =
     (let s = on_data (\<lambda>d. d\<lparr>data_buffer := p\<rparr>) (on_regs (hal_adc_set_channel 15) s)
      in if intr then Some (0, adc_context_start_read adc_context_start_sampling (seq_temp p) s)
         else case hal_adc_read_raw io (adc_hw s) of
                None \<Rightarrow> None
              | Some (v, a) \<Rightarrow> Some (0, store_sample (v + data_offset (adc_data s)) (s\<lparr>adc_hw := a\<rparr>)))"
  by (simp add: adc_wch_read_def seq_temp_def find_lsb_set_15 check_buffer_size_def needed_buffer_size_def Let_def
      split: option.split)

text \<open>A saved configuration has the gain 1/6, so restoring it is refused unless the saved channel was an internal one.\<close>

lemma restore_refused:
  assumes "hal_adc_get_channel (adc_hw s) \<noteq> CH_INT_VTEMP" and "hal_adc_get_channel (adc_hw s) \<noteq> CH_INT_VBAT"
  shows "adc_wch_channel_setup io chmap clk_div (adc_wch_channel_config_get s) t = Some (- ENOTSUP, t)"
proof -
  have "ucast (ucast (x AND 15 :: u8) :: 5 word) = (x AND 15 :: u8)" for x
    by (rule bit_word_eqI) (auto simp: bit_simps numeral_eq_Suc less_Suc_eq)
  then have "ucast (ucast (hal_adc_get_channel (adc_hw s)) :: 5 word) = hal_adc_get_channel (adc_hw s)"
    by (simp add: hal_adc_get_channel_def ADC_CHANNEL_MSK_def WCH_MASK_def)
  with assms show ?thesis
    by (simp add: adc_wch_channel_setup_def adc_wch_channel_config_get_def gain_code_def)
qed

lemma hal_keeps_config:
  "same_config a (hal_adc_start a)" "same_config a (hal_adc_clear_int_flag a)" "same_config a (hal_adc_dma_stop a)"
  "same_config a (hal_adc_clear_dma_int_flag f a)"
  by (simp_all add: same_config_def hal_adc_start_def hal_adc_clear_int_flag_def hal_adc_dma_stop_def
      hal_adc_clear_dma_int_flag_def write_adc_convert_def write_adc_dma_if_def)

lemma start_sampling_config: "same_config (adc_hw s) (adc_hw (adc_context_start_sampling s))"
  by (simp add: adc_context_start_sampling_def state_defs hal_keeps_config)

lemma on_sampling_done_config:
  "same_config (adc_hw s) (adc_hw (adc_context_on_sampling_done adc_context_start_sampling
     adc_context_update_buffer_pointer act s))"
  by (auto simp: adc_context_on_sampling_done_def adc_context_update_buffer_pointer_def
      adc_context_start_sampling_def state_defs hal_keeps_config same_config_def [of a a for a] Let_def
      split: option.split adc_action.split)

lemma handler_config: "same_config (adc_hw s) (adc_hw (ADC_IRQHandler act s))"
proof -
  have *: "same_config a (adc_hw (adc_context_on_sampling_done adc_context_start_sampling
     adc_context_update_buffer_pointer act t))" if "same_config a (adc_hw t)" for a t
    using that on_sampling_done_config by (rule same_config_trans)
  have d: "same_config a (hal_adc_clear_dma_int_flag f (hal_adc_dma_stop a))" for a f
    using hal_keeps_config(3,4) by (rule same_config_trans)
  have "same_config a (hal_adc_clear_int_flag b)" if "same_config a b" for a b
    using that hal_keeps_config(2) by (rule same_config_trans)
  with * d show ?thesis
    by (simp add: ADC_IRQHandler_def adc_wch_handler_def on_regs_def Let_def same_config_def [of a a for a]
        hal_keeps_config)
qed

text \<open>The converter set up for the sensor: channel 15, differential, gain 2, sensor powered.\<close>

definition temp_configured :: "adc_regs \<Rightarrow> bool" where
  "temp_configured a \<longleftrightarrow> hal_adc_get_channel a = CH_INT_VTEMP \<and> hal_adc_is_diff a \<and>
     hal_adc_get_gain a = pga_code ADC_PGA_2 \<and> R8_TEM_SENSOR a = RB_TEM_SEN_PWR_ON"

lemma temp_configured_cong: "same_config a b \<Longrightarrow> temp_configured a \<Longrightarrow> temp_configured b"
  by (simp add: temp_configured_def same_config_def hal_adc_get_channel_def hal_adc_is_diff_def hal_adc_get_gain_def)

lemma temp_configured_setup: "temp_configured (hal_adc_set_channel 15 (hal_adc_config_temp a))"
proof -
  have *: "x AND 4 = 0 \<longleftrightarrow> \<not> bit x 2" for x :: u8
    using and_exp_eq_0_iff_not_bit [of x 2] by simp
  have g: "drop_bit 4 (((x AND NOT 0x30) OR 0x30) AND NOT 0xC0 AND 0x30) = (3 :: u8)" for x
    by (rule bit_word_eqI) (auto simp: bit_simps numeral_eq_Suc less_Suc_eq)
  show ?thesis
    using g
    by (simp add: temp_configured_def hal_adc_config_temp_def hal_adc_set_channel_def hal_adc_get_channel_def
      hal_adc_is_diff_def hal_adc_get_gain_def hal_adc_clock_div_def hal_adc_set_gain_def hal_adc_diff_def
      hal_adc_buff_def hal_adc_temp_enable_def cfg_bit_def pga_code_def SAMPLEFREQ_3_2_def RB_ADC_DIFF_EN_def
      RB_ADC_BUF_EN_def ADC_CFG_CLK_DIV_MSK_def ADC_CFG_PGA_GAIN_MSK_def ADC_CHANNEL_MSK_def WCH_MASK_def
      CH_INT_VTEMP_def * bit_simps Let_def)
qed

text \<open>In interrupt mode the temperature read returns the converter's result with the offset added, as soon as the
  conversion's interrupt arrives; but the configuration it saved is refused when it is written back (unless the
  channel selected before was an internal one), so the converter stays set up for the temperature sensor.\<close>

theorem ble_hal_get_inter_temp_not_restored:
  assumes "hal_adc_get_channel (adc_hw s) \<noteq> CH_INT_VTEMP" and "hal_adc_get_channel (adc_hw s) \<noteq> CH_INT_VBAT"
  shows "\<exists>t. ble_hal_get_inter_temp True io chmap clk_div p (\<lambda>s. ADC_IRQHandler act (end_of_conversion d s)) s =
      Some (d + data_offset (adc_data s), t) \<and> temp_configured (adc_hw t)"
proof -
  define s1 where "s1 = on_data (\<lambda>d. d\<lparr>data_buffer := p\<rparr>)
    (on_regs (hal_adc_set_channel 15) (on_regs hal_adc_config_temp s))"
  define s2 where "s2 = adc_context_start_read adc_context_start_sampling (seq_temp p) s1"
  define t where "t = ADC_IRQHandler act (end_of_conversion d s2)"
  have r: "adc_wch_read True io (seq_temp p) (on_regs hal_adc_config_temp s) = Some (0, s2)"
    by (simp add: temp_read s1_def s2_def Let_def)
  have o: "data_offset (adc_data (on_regs hal_adc_config_temp s)) = data_offset (adc_data s)"
    by (simp add: on_regs_def)
  have "sampled (seq_temp p) (data_offset (adc_data s)) [] s2"
    using accepted_sampled [OF r] by (simp add: o)
  then have t: "ctx_status (context_of t) = 0"
    "mem_read (adc_ram t) p 2 = le_bytes 2 (d + data_offset (adc_data s))"
    using sampled_last [of "seq_temp p" "data_offset (adc_data s)" "[]" s2 act d]
    by (simp_all add: t_def always_continues_def sampling_count_def sample_bytes_def seq_temp_def)
  have w: "temp_wait True (\<lambda>s. ADC_IRQHandler act (end_of_conversion d s)) s2 = Some t"
    using t(1) by (subst temp_wait.simps)
      (simp add: t_def [symmetric] Let_def adc_wch_is_completed_def adc_context_status_def atomic_get_def)
  have v: "le_val (mem_read (adc_ram t) p 2) = d + data_offset (adc_data s)"
    by (simp add: t(2) le_val_le_bytes take_bit_word_eq_self)
  have c1: "same_config (adc_hw s1) (adc_hw s2)"
    using start_sampling_config
    by (simp add: s2_def adc_context_start_read_def seq_temp_def on_context_def on_data_def Let_def)
       (simp add: same_config_def adc_context_start_sampling_def state_defs hal_adc_start_def write_adc_convert_def)
  have c2: "same_config (adc_hw s2) (adc_hw (end_of_conversion d s2))"
    by (simp add: same_config_def end_of_conversion_def on_regs_def)
  have c3: "same_config (adc_hw (end_of_conversion d s2)) (adc_hw t)"
    unfolding t_def by (rule handler_config)
  have "temp_configured (adc_hw s1)"
    using temp_configured_setup by (simp add: s1_def state_defs)
  then have "temp_configured (adc_hw t)"
    using temp_configured_cong c1 c2 c3 by blast
  with w v show ?thesis
    by (simp add: ble_hal_get_inter_temp_def temp_setup r restore_refused [OF assms] Let_def)
qed

lemma ble_hal_get_inter_temp_not_restored_witness:
  "\<exists>t. ble_hal_get_inter_temp True id 0xFFFF 2 0x20005000 (\<lambda>s. ADC_IRQHandler (\<lambda>_ _. ADC_ACTION_CONTINUE)
       (end_of_conversion 0x800 s)) adc_example = Some (0x803, t) \<and> temp_configured (adc_hw t)"
  using ble_hal_get_inter_temp_not_restored [of adc_example id "0xFFFF" 2 "0x20005000" "\<lambda>_ _. ADC_ACTION_CONTINUE" "0x800"]
  by (simp add: adc_example_def adc_regs_reset_def hal_adc_get_channel_def CH_INT_VTEMP_def CH_INT_VBAT_def)

end
