(* ===== verification/Rand.thy ===== *)
theory Rand
  imports Atomic
begin

text \<open>
  The timer based number generator \<^verbatim>\<open>subsys/random/rand32_timer.c\<close>.  \<open>clock k\<close> is what the cycle counter reads at
  the \<open>k\<close>-th call; the state is the number of calls so far, the counter variable and the memory.
\<close>

section \<open>Operations\<close>

record rand_state =
  rand_calls :: nat
  rand32_counter :: atomic_t
  rand_mem :: mem

definition RAND32_INC :: u32 where "RAND32_INC = 1000000003"

definition sys_rand32_get :: "(nat \<Rightarrow> u32) \<Rightarrow> rand_state \<Rightarrow> u32 \<times> rand_state" where
  "sys_rand32_get clock s =
     (let (old, new) = atomic_add RAND32_INC (rand32_counter s)
      in (clock (rand_calls s) + old, s\<lparr>rand_calls := Suc (rand_calls s), rand32_counter := new\<rparr>))"

lemma unat_min_4: "unat (min x (4 :: u32)) = min (unat x) 4"
  by (auto simp: min_def word_le_nat_alt)

lemma unat_minus_block: "unat (x - min x (4 :: u32)) = unat x - min (unat x) 4"
  using unat_sub_le [of "min x 4" x] by (simp add: unat_min_4)

function sys_rand_get :: "(nat \<Rightarrow> u32) \<Rightarrow> addr \<Rightarrow> u32 \<Rightarrow> rand_state \<Rightarrow> rand_state" where
  "sys_rand_get clock udst outlen s =
     (if outlen \<noteq> 0 then
        let (ret, s) = sys_rand32_get clock s;
            blocksize = min outlen 4;
            s = s\<lparr>rand_mem := mem_write (rand_mem s) udst (take (unat blocksize) (le_bytes 4 ret))\<rparr>
        in sys_rand_get clock (udst + blocksize) (outlen - blocksize) s
      else s)"
  by pat_completeness auto

termination
  by (relation "measure (\<lambda>(_, _, outlen, _). unat outlen)")
    (simp_all add: unat_minus_block unat_gt_0)

declare sys_rand_get.simps [simp del]

section \<open>Lemmas\<close>

text \<open>The values that successive calls return from a state, and the bytes a request of \<open>n\<close> bytes is given.\<close>

definition rand_value :: "(nat \<Rightarrow> u32) \<Rightarrow> rand_state \<Rightarrow> nat \<Rightarrow> u32" where
  "rand_value clock s k = clock (rand_calls s + k) + rand32_counter s + of_nat k * RAND32_INC"

definition rand_bytes :: "(nat \<Rightarrow> u32) \<Rightarrow> rand_state \<Rightarrow> nat \<Rightarrow> u8 list" where
  "rand_bytes clock s n = take n (concat (map (\<lambda>k. le_bytes 4 (rand_value clock s k)) [0..<(n + 3) div 4]))"

lemma sys_rand32_get_eq:
  "sys_rand32_get clock s = (rand_value clock s 0,
     s\<lparr>rand_calls := Suc (rand_calls s), rand32_counter := rand32_counter s + RAND32_INC\<rparr>)"
  by (simp add: sys_rand32_get_def rand_value_def atomic_add_def)

lemma rand_value_Suc:
  "rand_value clock (s\<lparr>rand_calls := Suc (rand_calls s), rand32_counter := rand32_counter s + RAND32_INC,
     rand_mem := m\<rparr>) k = rand_value clock s (Suc k)"
  by (simp add: rand_value_def algebra_simps)

lemma rand_bytes_small: "0 < n \<Longrightarrow> n \<le> 4 \<Longrightarrow> rand_bytes clock s n = take n (le_bytes 4 (rand_value clock s 0))"
proof -
  assume "0 < n" "n \<le> 4"
  then have "(n + 3) div 4 = 1" by (intro div_nat_eqI) simp_all
  then show ?thesis by (simp add: rand_bytes_def)
qed

lemma rand_bytes_large:
  assumes "4 < n" and "\<And>k. rand_value clock t k = rand_value clock s (Suc k)"
  shows "rand_bytes clock s n = le_bytes 4 (rand_value clock s 0) @ rand_bytes clock t (n - 4)"
proof -
  have "(n + 3) div 4 = Suc ((n - 4 + 3) div 4)" using assms(1) by (simp add: div_if)
  then have "[0..<(n + 3) div 4] = 0 # map Suc [0..<(n - 4 + 3) div 4]"
    by (simp only: map_Suc_upt) (simp add: upt_conv_Cons)
  then show ?thesis using assms(1) by (simp add: rand_bytes_def assms(2) comp_def)
qed

lemma length_rand_bytes: "length (rand_bytes clock s n) = n"
proof -
  have "length (concat (map (\<lambda>k. le_bytes 4 (rand_value clock s k)) xs)) = 4 * length xs" for xs :: "nat list"
    by (induction xs) simp_all
  moreover have "n \<le> 4 * ((n + 3) div 4)" by presburger
  ultimately show ?thesis by (simp add: rand_bytes_def min_def)
qed

section \<open>Properties\<close>

text \<open>Filling a buffer ends and writes exactly \<open>outlen\<close> bytes, the successive 32-bit values of the generator in
  little endian order with the last one cut off; it makes one call of the generator for each started group of four
  bytes.\<close>

theorem sys_rand_get_fills:
  "rand_mem (sys_rand_get clock dst outlen s) = mem_write (rand_mem s) dst (rand_bytes clock s (unat outlen)) \<and>
   rand_calls (sys_rand_get clock dst outlen s) = rand_calls s + (unat outlen + 3) div 4"
proof (induction clock dst outlen s rule: sys_rand_get.induct)
  case (1 clock dst outlen s)
  show ?case
  proof (cases "outlen = 0")
    case True
    then show ?thesis by (simp add: sys_rand_get.simps [of clock dst] rand_bytes_def)
  next
    case False
    define t where "t = s\<lparr>rand_calls := Suc (rand_calls s), rand32_counter := rand32_counter s + RAND32_INC,
      rand_mem := mem_write (rand_mem s) dst (take (unat (min outlen 4)) (le_bytes 4 (rand_value clock s 0)))\<rparr>"
    have u: "sys_rand_get clock dst outlen s =
        sys_rand_get clock (dst + min outlen 4) (outlen - min outlen 4) t"
      using False by (subst sys_rand_get.simps) (simp add: sys_rand32_get_eq t_def Let_def)
    have IH: "rand_mem (sys_rand_get clock (dst + min outlen 4) (outlen - min outlen 4) t) =
          mem_write (rand_mem t) (dst + min outlen 4) (rand_bytes clock t (unat (outlen - min outlen 4)))"
      "rand_calls (sys_rand_get clock (dst + min outlen 4) (outlen - min outlen 4) t) =
          rand_calls t + (unat (outlen - min outlen 4) + 3) div 4"
      using 1 False by (simp_all add: sys_rand32_get_eq t_def)
    have tv: "rand_value clock t k = rand_value clock s (Suc k)" for k
      by (simp add: t_def rand_value_Suc)
    have pos: "0 < unat outlen" using False by (simp add: unat_gt_0)
    show ?thesis
    proof (cases "unat outlen \<le> 4")
      case True
      then have "min outlen 4 = outlen" by (simp add: min_def word_le_nat_alt)
      moreover have "(unat outlen + 3) div 4 = 1" using True pos by (intro div_nat_eqI) simp_all
      ultimately show ?thesis
        using u IH True pos by (simp add: t_def rand_bytes_small rand_bytes_def [of clock _ 0])
    next
      case big: False
      then have m: "min outlen 4 = 4" by (simp add: min_def word_le_nat_alt)
      have "rand_bytes clock s (unat outlen) = le_bytes 4 (rand_value clock s 0) @ rand_bytes clock t (unat outlen - 4)"
        using big tv by (intro rand_bytes_large) simp_all
      moreover have "unat (outlen - 4) = unat outlen - 4" using unat_minus_block [of outlen] m big by simp
      moreover have "(unat outlen + 3) div 4 = Suc ((unat outlen - 4 + 3) div 4)" using big by (simp add: div_if)
      ultimately show ?thesis
        using u IH by (simp add: m mem_write_append t_def)
    qed
  qed
qed

end
