(* ===== verification/Fatal.thy ===== *)
theory Fatal
  imports Irq
begin

text \<open>
  Fatal errors: the exception entry of \<^verbatim>\<open>soc/riscv/ch57x/soc.c\<close> with the frame of \<^verbatim>\<open>include/arch/riscv/exp.h\<close>, the
  report of \<^verbatim>\<open>arch/riscv/core/fatal.c\<close> and \<^verbatim>\<open>kernel/fatal.c\<close>, and the logging macros of \<^verbatim>\<open>include/logging/log.h\<close>.

  The assembler statements of the entry are a list of instructions over the registers and memory of the core.  A line
  of the log is its level character, its format string and its arguments; formatting is left to the C library.
  \<open>Spins s\<close> means that the code loops forever in the state \<open>s\<close>, \<open>Returns s\<close> that it returns.
\<close>

section \<open>Logging\<close>

definition LOG_LEVEL_NONE :: nat where "LOG_LEVEL_NONE = 0"
definition LOG_LEVEL_ERR :: nat where "LOG_LEVEL_ERR = 1"
definition LOG_LEVEL_WRN :: nat where "LOG_LEVEL_WRN = 2"
definition LOG_LEVEL_INF :: nat where "LOG_LEVEL_INF = 3"
definition LOG_LEVEL_DBG :: nat where "LOG_LEVEL_DBG = 4"

lemmas log_levels = LOG_LEVEL_NONE_def LOG_LEVEL_ERR_def LOG_LEVEL_WRN_def LOG_LEVEL_INF_def LOG_LEVEL_DBG_def

datatype log_arg = Num u32 | Str string

record log_line =
  line_level :: char
  line_format :: string
  line_args :: "log_arg list"

definition log_level_to_char :: "nat \<Rightarrow> char" where
  "log_level_to_char level =
     (if level = LOG_LEVEL_ERR then CHR ''E''
      else if level = LOG_LEVEL_WRN then CHR ''W''
      else if level = LOG_LEVEL_INF then CHR ''I''
      else if level = LOG_LEVEL_DBG then CHR ''D''
      else CHR 0x3F)"

text \<open>\<open>config\<close> is \<open>CONFIG_LOG\<close> with the level of the module; without it the macros are empty.\<close>

definition LOG :: "nat option \<Rightarrow> nat \<Rightarrow> string \<Rightarrow> log_arg list \<Rightarrow> log_line list \<Rightarrow> log_line list" where
  "LOG config level fmt args out =
     (case config of
        None \<Rightarrow> out
      | Some module_level \<Rightarrow>
          if module_level < level then out
          else out @ [\<lparr>line_level = log_level_to_char level, line_format = fmt, line_args = args\<rparr>])"

section \<open>The core\<close>

datatype reg = RA | SP | T0 | T1 | T2 | T3 | T4 | T5 | T6 | A0 | A1 | A2 | A3 | A4 | A5 | A6 | A7 | S0

datatype csr = MEPC | MSTATUS | MCAUSE | MTVAL

record hart =
  gpr :: "reg \<Rightarrow> u32"
  csrs :: "csr \<Rightarrow> u32"
  hart_mem :: mem

datatype instr = Addi reg u32 | Sw reg nat | Csrr reg csr | Mv reg reg

definition store32 :: "mem \<Rightarrow> addr \<Rightarrow> u32 \<Rightarrow> mem" where
  "store32 m a v = mem_write m a (le_bytes 4 v)"

definition load32 :: "mem \<Rightarrow> addr \<Rightarrow> u32" where
  "load32 m a = le_val (mem_read m a 4)"

text \<open>\<open>Addi r n\<close> adds to \<open>r\<close> itself, \<open>Sw r n\<close> stores \<open>r\<close> at offset \<open>n\<close> from the stack pointer.\<close>

fun exec1 :: "instr \<Rightarrow> hart \<Rightarrow> hart" where
  "exec1 (Addi r n) h = h\<lparr>gpr := (gpr h)(r := gpr h r + n)\<rparr>"
| "exec1 (Sw r n) h = h\<lparr>hart_mem := store32 (hart_mem h) (gpr h SP + of_nat n) (gpr h r)\<rparr>"
| "exec1 (Csrr r c) h = h\<lparr>gpr := (gpr h)(r := csrs h c)\<rparr>"
| "exec1 (Mv r r') h = h\<lparr>gpr := (gpr h)(r := gpr h r')\<rparr>"

section \<open>The exception frame\<close>

text \<open>The members of \<open>struct __esf\<close> in order (without a floating point unit): all are 32 bits wide, so a member lies at four
  times its position; the structure is aligned to 16 bytes.\<close>

datatype esf = E_reg reg | E_csr csr

definition esf_members :: "esf list" where
  "esf_members = map E_reg [RA, T0, T1, T2, T3, T4, T5, T6, A0, A1, A2, A3, A4, A5, A6, A7] @
     [E_csr MEPC, E_csr MSTATUS, E_reg S0]"

fun position :: "'a \<Rightarrow> 'a list \<Rightarrow> nat" where
  "position x [] = 0"
| "position x (y # ys) = (if x = y then 0 else Suc (position x ys))"

definition esf_OFFSET :: "esf \<Rightarrow> nat" where
  "esf_OFFSET e = 4 * position e esf_members"

definition esf_SIZEOF :: nat where
  "esf_SIZEOF = (4 * length esf_members + 15) div 16 * 16"

definition esf_get :: "mem \<Rightarrow> addr \<Rightarrow> esf \<Rightarrow> u32" where
  "esf_get m p e = load32 m (p + of_nat (esf_OFFSET e))"

definition HardFault_code :: "instr list" where
  "HardFault_code =
     [Addi SP (- of_nat esf_SIZEOF)] @
     map (\<lambda>r. Sw r (esf_OFFSET (E_reg r))) [T0, T1, T2, T3, T4, T5, T6, A0, A1, A2, A3, A4, A5, A6, A7, RA] @
     [Csrr T0 MEPC, Sw T0 (esf_OFFSET (E_csr MEPC)),
      Csrr T4 MSTATUS, Sw T4 (esf_OFFSET (E_csr MSTATUS)),
      Mv A0 SP]"

section \<open>The report\<close>

record fatal =
  core :: hart
  out :: "log_line list"
  failed_asserts :: nat

datatype outcome = Spins fatal | Returns fatal

definition K_ERR_CPU_EXCEPTION :: u32 where "K_ERR_CPU_EXCEPTION = 0"
definition K_ERR_SPURIOUS_IRQ :: u32 where "K_ERR_SPURIOUS_IRQ = 1"
definition K_ERR_STACK_CHK_FAIL :: u32 where "K_ERR_STACK_CHK_FAIL = 2"
definition K_ERR_KERNEL_OOPS :: u32 where "K_ERR_KERNEL_OOPS = 3"
definition K_ERR_KERNEL_PANIC :: u32 where "K_ERR_KERNEL_PANIC = 4"

definition reason_to_str :: "u32 \<Rightarrow> string" where
  "reason_to_str reason =
     (if reason = K_ERR_CPU_EXCEPTION then ''CPU exception''
      else if reason = K_ERR_SPURIOUS_IRQ then ''Unhandled interrupt''
      else if reason = K_ERR_STACK_CHK_FAIL then ''Stack overflow''
      else if reason = K_ERR_KERNEL_OOPS then ''Kernel oops''
      else if reason = K_ERR_KERNEL_PANIC then ''Kernel panic''
      else ''Unknown error'')"

definition cause_str :: "u32 \<Rightarrow> string" where
  "cause_str cause =
     (if cause = 0 then ''Instruction address misaligned''
      else if cause = 1 then ''Instruction Access fault''
      else if cause = 2 then ''Illegal instruction''
      else if cause = 3 then ''Breakpoint''
      else if cause = 4 then ''Load address misaligned''
      else if cause = 5 then ''Load access fault''
      else if cause = 6 then ''Store/AMO address misaligned''
      else if cause = 7 then ''Store/AMO access fault''
      else if cause = 8 then ''Environment call from U-mode''
      else if cause = 9 then ''Environment call from S-mode''
      else if cause = 11 then ''Environment call from M-mode''
      else if cause = 12 then ''Instruction page fault''
      else if cause = 13 then ''Load page fault''
      else if cause = 15 then ''Store/AMO page fault''
      else ''unknown'')"

text \<open>The format of a register, with the conversion that the C library of the target has for pointers.\<close>

definition PR_REG :: string where "PR_REG = ''%08x''"

definition LOG_ERR :: "nat option \<Rightarrow> string \<Rightarrow> log_arg list \<Rightarrow> fatal \<Rightarrow> fatal" where
  "LOG_ERR config fmt args s = s\<lparr>out := LOG config LOG_LEVEL_ERR fmt args (out s)\<rparr>"

definition set_mstatus :: "u32 \<Rightarrow> fatal \<Rightarrow> fatal" where
  "set_mstatus v s = s\<lparr>core := (core s)\<lparr>csrs := (csrs (core s))(MSTATUS := v)\<rparr>\<rparr>"

definition arch_system_halt :: "u32 \<Rightarrow> fatal \<Rightarrow> outcome" where
  "arch_system_halt reason s = Spins (set_mstatus (snd (arch_irq_lock (csrs (core s) MSTATUS))) s)"

text \<open>The handler is a weak symbol: \<open>z_fatal_error\<close> takes the one that is linked as an argument.\<close>

definition k_sys_fatal_error_handler :: "nat option \<Rightarrow> u32 \<Rightarrow> fatal \<Rightarrow> outcome" where
  "k_sys_fatal_error_handler config reason s =
     arch_system_halt reason (LOG_ERR config ''Halting system'' [] s)"

definition k_fatal_halt :: "u32 \<Rightarrow> fatal \<Rightarrow> outcome" where
  "k_fatal_halt reason s = arch_system_halt reason s"

definition z_fatal_error :: "bool \<Rightarrow> nat option \<Rightarrow> (u32 \<Rightarrow> fatal \<Rightarrow> outcome) \<Rightarrow> u32 \<Rightarrow> fatal \<Rightarrow> outcome" where
  "z_fatal_error asserts_on config handler reason s =
     (let key = fst (arch_irq_lock (csrs (core s) MSTATUS));
          s = set_mstatus (snd (arch_irq_lock (csrs (core s) MSTATUS))) s;
          s = LOG_ERR config ''>>> SYSTEM FATAL ERROR %d: %s'' [Num reason, Str (reason_to_str reason)] s
      in case handler reason s of
           Spins s \<Rightarrow> Spins s
         | Returns s \<Rightarrow>
             let s = (if asserts_on \<and> reason = K_ERR_KERNEL_PANIC then s\<lparr>failed_asserts := Suc (failed_asserts s)\<rparr> else s)
             in Returns (set_mstatus (arch_irq_unlock key (csrs (core s) MSTATUS)) s))"

text \<open>\<open>CODE_UNREACHABLE\<close> follows the call: a handler that returns has undefined behaviour here, \<open>None\<close>.\<close>

definition z_riscv_fatal_error ::
  "bool \<Rightarrow> nat option \<Rightarrow> nat option \<Rightarrow> (u32 \<Rightarrow> fatal \<Rightarrow> outcome) \<Rightarrow> u32 \<Rightarrow> addr \<Rightarrow> fatal \<Rightarrow> fatal option" where
  "z_riscv_fatal_error asserts_on config kconfig handler reason esf s =
     (let r = (\<lambda>e. Num (esf_get (hart_mem (core s)) esf e));
          s = (if esf \<noteq> NULL then
                 LOG_ERR config '''' []
                 (LOG_ERR config (''mstatus: '' @ PR_REG) [r (E_csr MSTATUS)]
                 (LOG_ERR config (''   mepc: '' @ PR_REG) [r (E_csr MEPC)]
                 (LOG_ERR config (''     ra: '' @ PR_REG) [r (E_reg RA)]
                 (LOG_ERR config (''     a7: '' @ PR_REG) [r (E_reg A7)]
                 (LOG_ERR config (''     a6: '' @ PR_REG @ ''    t6: '' @ PR_REG) [r (E_reg A6), r (E_reg T6)]
                 (LOG_ERR config (''     a5: '' @ PR_REG @ ''    t5: '' @ PR_REG) [r (E_reg A5), r (E_reg T5)]
                 (LOG_ERR config (''     a4: '' @ PR_REG @ ''    t4: '' @ PR_REG) [r (E_reg A4), r (E_reg T4)]
                 (LOG_ERR config (''     a3: '' @ PR_REG @ ''    t3: '' @ PR_REG) [r (E_reg A3), r (E_reg T3)]
                 (LOG_ERR config (''     a2: '' @ PR_REG @ ''    t2: '' @ PR_REG) [r (E_reg A2), r (E_reg T2)]
                 (LOG_ERR config (''     a1: '' @ PR_REG @ ''    t1: '' @ PR_REG) [r (E_reg A1), r (E_reg T1)]
                 (LOG_ERR config (''     a0: '' @ PR_REG @ ''    t0: '' @ PR_REG) [r (E_reg A0), r (E_reg T0)] s)))))))))))
               else s)
      in case z_fatal_error asserts_on kconfig handler reason s of Spins s \<Rightarrow> Some s | Returns s \<Rightarrow> None)"

definition SOC_MCAUSE_EXP_MASK :: u32 where "SOC_MCAUSE_EXP_MASK = 0x7FFFFFFF"

definition Fault ::
  "bool \<Rightarrow> nat option \<Rightarrow> nat option \<Rightarrow> (u32 \<Rightarrow> fatal \<Rightarrow> outcome) \<Rightarrow> addr \<Rightarrow> fatal \<Rightarrow> fatal option" where
  "Fault asserts_on config kconfig handler esf s =
     (let mcause = csrs (core s) MCAUSE AND SOC_MCAUSE_EXP_MASK;
          mtval = csrs (core s) MTVAL;
          s = LOG_ERR config '''' [] s;
          s = LOG_ERR config '' mcause: %ld, %s'' [Num mcause, Str (cause_str mcause)] s;
          s = LOG_ERR config ''  mtval: %lx'' [Num mtval] s
      in z_riscv_fatal_error asserts_on config kconfig handler K_ERR_CPU_EXCEPTION esf s)"

text \<open>The entry stores the frame and jumps to \<open>_Fault\<close> with the stack pointer as its argument.\<close>

definition HardFault_Handler ::
  "bool \<Rightarrow> nat option \<Rightarrow> nat option \<Rightarrow> (u32 \<Rightarrow> fatal \<Rightarrow> outcome) \<Rightarrow> fatal \<Rightarrow> fatal option" where
  "HardFault_Handler asserts_on config kconfig handler s =
     (let s = s\<lparr>core := fold exec1 HardFault_code (core s)\<rparr>
      in Fault asserts_on config kconfig handler (gpr (core s) A0) s)"

section \<open>Lemmas\<close>

lemma load_store_same [mem_simps]: "load32 (store32 m a v) a = v"
  using mem_read_write_same [of "le_bytes 4 v" m a]
  by (simp add: load32_def store32_def le_val_le_bytes take_bit_word_eq_self)

lemma apart_4:
  assumes "4 \<le> unat (x - y)" "4 \<le> unat (y - x)" "i < 4"
  shows "4 \<le> unat (y + of_nat i - x :: u32)"
proof -
  have "unat (y - x) = 2 ^ 32 - unat (x - y)"
  proof (cases "unat x < unat y")
    case True
    then show ?thesis using unat_sub_neg [OF True] unat_u32_less [of "y - x"] by simp
  next
    case False
    then have "unat y < unat x" using assms by (cases "x = y") (auto simp: word_unat_eq_iff)
    then show ?thesis by (rule unat_sub_neg)
  qed
  then have "unat (y - x) + i < 2 ^ 32" using assms unat_u32_less [of "x - y"] by simp
  then have "unat (y - x + of_nat i) = unat (y - x) + i"
    using assms(3) by (subst unat_add_no_wrap_u32) (simp_all add: unat_of_nat_u32)
  then show ?thesis using assms by (simp add: algebra_simps)
qed

lemma load_store_other:
  assumes "4 \<le> unat (x - y)" "4 \<le> unat (y - x)"
  shows "load32 (store32 m (p + x) v) (p + y) = load32 m (p + y)"
proof -
  have "mem_read (mem_write m (p + x) (le_bytes 4 v)) (p + y) 4 = mem_read m (p + y) 4"
    using apart_4 [OF assms] by (intro mem_read_write_disjoint) (simp_all add: algebra_simps)
  then show ?thesis by (simp add: load32_def store32_def)
qed

lemma load_store_below [mem_simps]:
  "4 \<le> unat (x - y) \<Longrightarrow> 4 \<le> unat (y - x) \<Longrightarrow> load32 (store32 m (p - x) v) (p - y) = load32 m (p - y)"
  using load_store_other [of "- x" "- y" m p v] by simp

lemma log_err_fields [simp]:
  "core (LOG_ERR c fmt args s) = core s" "failed_asserts (LOG_ERR c fmt args s) = failed_asserts s"
  "out (LOG_ERR c fmt args s) = LOG c LOG_LEVEL_ERR fmt args (out s)"
  by (simp_all add: LOG_ERR_def)

lemma esf_offsets:
  "esf_OFFSET (E_reg RA) = 0" "esf_OFFSET (E_reg T0) = 4" "esf_OFFSET (E_reg T1) = 8" "esf_OFFSET (E_reg T2) = 12"
  "esf_OFFSET (E_reg T3) = 16" "esf_OFFSET (E_reg T4) = 20" "esf_OFFSET (E_reg T5) = 24" "esf_OFFSET (E_reg T6) = 28"
  "esf_OFFSET (E_reg A0) = 32" "esf_OFFSET (E_reg A1) = 36" "esf_OFFSET (E_reg A2) = 40" "esf_OFFSET (E_reg A3) = 44"
  "esf_OFFSET (E_reg A4) = 48" "esf_OFFSET (E_reg A5) = 52" "esf_OFFSET (E_reg A6) = 56" "esf_OFFSET (E_reg A7) = 60"
  "esf_OFFSET (E_csr MEPC) = 64" "esf_OFFSET (E_csr MSTATUS) = 68" "esf_SIZEOF = 80"
  by (simp_all add: esf_OFFSET_def esf_members_def esf_SIZEOF_def)

text \<open>The value of a member of the frame at the moment of the exception.\<close>

fun esf_value :: "hart \<Rightarrow> esf \<Rightarrow> u32" where
  "esf_value h (E_reg r) = gpr h r"
| "esf_value h (E_csr c) = csrs h c"

lemma HardFault_frame:
  assumes "e \<in> set esf_members" and "e \<noteq> E_reg S0"
  shows "esf_get (hart_mem (fold exec1 HardFault_code h)) (gpr h SP - 80) e = esf_value h e"
  using assms
  by (auto simp: esf_members_def esf_get_def HardFault_code_def esf_offsets mem_simps)

lemma HardFault_core:
  "csrs (fold exec1 HardFault_code h) = csrs h" "gpr (fold exec1 HardFault_code h) A0 = gpr h SP - 80"
  by (simp_all add: HardFault_code_def esf_offsets)

text \<open>The lines of the report on an exception, written with the registers at the moment of the exception.\<close>

definition err_line :: "string \<times> log_arg list \<Rightarrow> log_line" where
  "err_line l = \<lparr>line_level = CHR ''E'', line_format = fst l, line_args = snd l\<rparr>"

definition pair_line :: "hart \<Rightarrow> string \<Rightarrow> reg \<Rightarrow> string \<Rightarrow> reg \<Rightarrow> string \<times> log_arg list" where
  "pair_line h x a y t = (''     '' @ x @ '': '' @ PR_REG @ ''    '' @ y @ '': '' @ PR_REG, [Num (gpr h a), Num (gpr h t)])"

definition fault_lines :: "hart \<Rightarrow> (string \<times> log_arg list) list" where
  "fault_lines h =
     [('''', []),
      ('' mcause: %ld, %s'',
         [Num (csrs h MCAUSE AND SOC_MCAUSE_EXP_MASK), Str (cause_str (csrs h MCAUSE AND SOC_MCAUSE_EXP_MASK))]),
      (''  mtval: %lx'', [Num (csrs h MTVAL)]),
      pair_line h ''a0'' A0 ''t0'' T0, pair_line h ''a1'' A1 ''t1'' T1, pair_line h ''a2'' A2 ''t2'' T2,
      pair_line h ''a3'' A3 ''t3'' T3, pair_line h ''a4'' A4 ''t4'' T4, pair_line h ''a5'' A5 ''t5'' T5,
      pair_line h ''a6'' A6 ''t6'' T6,
      (''     a7: '' @ PR_REG, [Num (gpr h A7)]),
      (''     ra: '' @ PR_REG, [Num (gpr h RA)]),
      (''   mepc: '' @ PR_REG, [Num (csrs h MEPC)]),
      (''mstatus: '' @ PR_REG, [Num (csrs h MSTATUS)]),
      ('''', [])]"

definition halt_lines :: "(string \<times> log_arg list) list" where
  "halt_lines = [(''>>> SYSTEM FATAL ERROR %d: %s'', [Num 0, Str ''CPU exception'']), (''Halting system'', [])]"

lemma LOG_err: "1 \<le> n \<Longrightarrow> LOG (Some n) LOG_LEVEL_ERR fmt args ls = ls @ [err_line (fmt, args)]"
  by (simp add: LOG_def log_levels log_level_to_char_def err_line_def)

lemma set_mstatus_fields [simp]:
  "out (set_mstatus v s) = out s" "failed_asserts (set_mstatus v s) = failed_asserts s"
  "csrs (core (set_mstatus v s)) MSTATUS = v" "hart_mem (core (set_mstatus v s)) = hart_mem (core s)"
  by (simp_all add: set_mstatus_def)

lemma z_fatal_error_default:
  assumes "1 \<le> n"
  shows "\<exists>t. z_fatal_error on (Some n) (k_sys_fatal_error_handler (Some n)) K_ERR_CPU_EXCEPTION s = Spins t \<and>
    out t = out s @ map err_line halt_lines \<and> hart_mem (core t) = hart_mem (core s) \<and>
    \<not> arch_irq_unlocked (csrs (core t) MSTATUS)"
  using assms locked
  by (simp add: z_fatal_error_def k_sys_fatal_error_handler_def arch_system_halt_def LOG_err Let_def
      halt_lines_def reason_to_str_def K_ERR_CPU_EXCEPTION_def)

section \<open>Properties\<close>

text \<open>C26: an exception with the default handler stops the core.  The lines written to the log are exactly the cause, the
  registers and the status of the interrupted code, the reason and the halt; interrupts are disabled, and the frame
  with the saved registers stays on the stack.\<close>

theorem HardFault_Handler_reports:
  assumes "1 \<le> n" and "1 \<le> k" and "gpr (core s) SP \<noteq> 80"
  shows "\<exists>t. HardFault_Handler on (Some n) (Some k) (k_sys_fatal_error_handler (Some k)) s = Some t \<and>
    out t = out s @ map err_line (fault_lines (core s) @ halt_lines) \<and>
    \<not> arch_irq_unlocked (csrs (core t) MSTATUS) \<and>
    (\<forall>e \<in> set esf_members - {E_reg S0}. esf_get (hart_mem (core t)) (gpr (core s) SP - 80) e = esf_value (core s) e)"
proof -
  let ?h = "fold exec1 HardFault_code (core s)"
  have v: "esf_get (hart_mem ?h) (gpr (core s) SP - 80) e = esf_value (core s) e"
    if "e \<in> set esf_members - {E_reg S0}" for e
    using HardFault_frame [of e "core s"] that by simp
  define s1 where "s1 = s\<lparr>core := ?h, out := out s @ map err_line (fault_lines (core s))\<rparr>"
  have "HardFault_Handler on (Some n) (Some k) (k_sys_fatal_error_handler (Some k)) s =
    (case z_fatal_error on (Some k) (k_sys_fatal_error_handler (Some k)) K_ERR_CPU_EXCEPTION s1 of
       Spins s \<Rightarrow> Some s | Returns s \<Rightarrow> None)"
    using assms v
    by (simp add: HardFault_Handler_def Fault_def z_riscv_fatal_error_def Let_def HardFault_core LOG_ERR_def
        LOG_err fault_lines_def pair_line_def esf_members_def s1_def)
  moreover obtain t where "z_fatal_error on (Some k) (k_sys_fatal_error_handler (Some k)) K_ERR_CPU_EXCEPTION s1 = Spins t"
    "out t = out s1 @ map err_line halt_lines" "hart_mem (core t) = hart_mem (core s1)"
    "\<not> arch_irq_unlocked (csrs (core t) MSTATUS)"
    using z_fatal_error_default [OF assms(2), of on s1] by blast
  ultimately show ?thesis using v by (simp add: s1_def)
qed

text \<open>A handler that replaces the default one may return from a fatal error that the program raised itself; the masking
  state is then the one before the call, and only recovering from a panic is reported as a failed assertion.\<close>

lemma z_fatal_error_recovers:
  assumes "handler reason = Returns"
  shows "\<exists>t. z_fatal_error on config handler reason s = Returns t \<and>
    csrs (core t) MSTATUS = csrs (core s) MSTATUS \<and>
    failed_asserts t = failed_asserts s + of_bool (on \<and> reason = K_ERR_KERNEL_PANIC)"
  by (simp add: z_fatal_error_def assms Let_def lock_key lock_unlock)

definition example_fault :: fatal where
  "example_fault = \<lparr>core = \<lparr>gpr = (\<lambda>r. if r = SP then 0x20008000 else 7),
     csrs = (\<lambda>c. if c = MCAUSE then 5 else 0x1880), hart_mem = (\<lambda>_. 0)\<rparr>, out = [], failed_asserts = 0\<rparr>"

lemma HardFault_Handler_reports_witness:
  "\<exists>t. HardFault_Handler True (Some 1) (Some 1) (k_sys_fatal_error_handler (Some 1)) example_fault = Some t \<and>
    err_line ('' mcause: %ld, %s'', [Num 5, Str ''Load access fault'']) \<in> set (out t) \<and> length (out t) = 17 \<and>
    \<not> arch_irq_unlocked (csrs (core t) MSTATUS)"
  using HardFault_Handler_reports [of 1 1 example_fault True]
  by (auto simp: example_fault_def fault_lines_def halt_lines_def SOC_MCAUSE_EXP_MASK_def cause_str_def)

end
