(* ===== verification/Storage.thy ===== *)
theory Storage
  imports Fatal
begin

text \<open>
  The flash and EEPROM drivers: \<^verbatim>\<open>drivers/flash/flash.c\<close>, \<^verbatim>\<open>drivers/eeprom/eeprom.c\<close>, their interfaces
  \<^verbatim>\<open>include/drivers/flash.h\<close> and \<^verbatim>\<open>include/drivers/eeprom.h\<close>, the hardware layer \<^verbatim>\<open>hal/ch57x/ch57x_hal_flash.c\<close> with its
  header, the commands of \<^verbatim>\<open>lib/ch57x/ISP573.h\<close>, and the storage callbacks of \<^verbatim>\<open>subsys/bluetooth/hal/hal.c\<close>.

  The library function \<open>FLASH_EEPROM_CMD\<close> is binary code: it is the argument \<open>cmd\<close>, a function on memory and the state
  of the chip.  Code flash is also mapped into memory, where it is read directly; \<open>off_t\<close> and \<open>size_t\<close> are 32-bit.
\<close>

record 'c storage =
  st_mem :: mem
  st_chip :: 'c
  st_mstatus :: u32
  st_out :: "log_line list"

type_synonym 'c isp = "u8 \<Rightarrow> u32 \<Rightarrow> addr \<Rightarrow> u32 \<Rightarrow> 'c storage \<Rightarrow> u32 \<times> 'c storage"

section \<open>Commands\<close>

definition CMD_FLASH_ROM_ERASE :: u8 where "CMD_FLASH_ROM_ERASE = 0x01"
definition CMD_FLASH_ROM_WRITE :: u8 where "CMD_FLASH_ROM_WRITE = 0x02"
definition CMD_FLASH_ROM_VERIFY :: u8 where "CMD_FLASH_ROM_VERIFY = 0x03"
definition CMD_GET_ROM_INFO :: u8 where "CMD_GET_ROM_INFO = 0x06"
definition CMD_EEPROM_ERASE :: u8 where "CMD_EEPROM_ERASE = 0x09"
definition CMD_EEPROM_WRITE :: u8 where "CMD_EEPROM_WRITE = 0x0A"
definition CMD_EEPROM_READ :: u8 where "CMD_EEPROM_READ = 0x0B"
definition ROM_CFG_MAC_ADDR :: u32 where "ROM_CFG_MAC_ADDR = 0x7F018"

lemmas isp_commands = CMD_FLASH_ROM_ERASE_def CMD_FLASH_ROM_WRITE_def CMD_FLASH_ROM_VERIFY_def CMD_GET_ROM_INFO_def
  CMD_EEPROM_ERASE_def CMD_EEPROM_WRITE_def CMD_EEPROM_READ_def

definition EEPROM_READ :: "'c isp \<Rightarrow> u32 \<Rightarrow> addr \<Rightarrow> u32 \<Rightarrow> 'c storage \<Rightarrow> u32 \<times> 'c storage" where
  "EEPROM_READ cmd start buf len = cmd CMD_EEPROM_READ start buf len"

definition EEPROM_ERASE :: "'c isp \<Rightarrow> u32 \<Rightarrow> u32 \<Rightarrow> 'c storage \<Rightarrow> u32 \<times> 'c storage" where
  "EEPROM_ERASE cmd start len = cmd CMD_EEPROM_ERASE start NULL len"

definition EEPROM_WRITE :: "'c isp \<Rightarrow> u32 \<Rightarrow> addr \<Rightarrow> u32 \<Rightarrow> 'c storage \<Rightarrow> u32 \<times> 'c storage" where
  "EEPROM_WRITE cmd start buf len = cmd CMD_EEPROM_WRITE start buf len"

definition FLASH_ROM_ERASE :: "'c isp \<Rightarrow> u32 \<Rightarrow> u32 \<Rightarrow> 'c storage \<Rightarrow> u32 \<times> 'c storage" where
  "FLASH_ROM_ERASE cmd start len = cmd CMD_FLASH_ROM_ERASE start NULL len"

definition FLASH_ROM_WRITE :: "'c isp \<Rightarrow> u32 \<Rightarrow> addr \<Rightarrow> u32 \<Rightarrow> 'c storage \<Rightarrow> u32 \<times> 'c storage" where
  "FLASH_ROM_WRITE cmd start buf len = cmd CMD_FLASH_ROM_WRITE start buf len"

definition FLASH_ROM_VERIFY :: "'c isp \<Rightarrow> u32 \<Rightarrow> addr \<Rightarrow> u32 \<Rightarrow> 'c storage \<Rightarrow> u32 \<times> 'c storage" where
  "FLASH_ROM_VERIFY cmd start buf len = cmd CMD_FLASH_ROM_VERIFY start buf len"

definition GetMACAddress :: "'c isp \<Rightarrow> addr \<Rightarrow> 'c storage \<Rightarrow> u32 \<times> 'c storage" where
  "GetMACAddress cmd buf = cmd CMD_GET_ROM_INFO ROM_CFG_MAC_ADDR buf 0"

section \<open>The hardware layer\<close>

text \<open>The copy of \<open>hal_flash_rom_read\<close>, in words: the length is rounded up to whole words.\<close>

primrec rom_read_loop :: "nat \<Rightarrow> addr \<Rightarrow> addr \<Rightarrow> mem \<Rightarrow> mem" where
  "rom_read_loop 0 pCode pBuf m = m"
| "rom_read_loop (Suc n) pCode pBuf m = rom_read_loop n (pCode + 4) (pBuf + 4) (store32 m pBuf (load32 m pCode))"

definition hal_flash_rom_read :: "u32 \<Rightarrow> addr \<Rightarrow> u32 \<Rightarrow> 'c storage \<Rightarrow> 'c storage" where
  "hal_flash_rom_read a buf len s = s\<lparr>st_mem := rom_read_loop (unat (drop_bit 2 (len + 3))) a buf (st_mem s)\<rparr>"

definition hal_flash_rom_erase :: "'c isp \<Rightarrow> u32 \<Rightarrow> u32 \<Rightarrow> 'c storage \<Rightarrow> u32 \<times> 'c storage" where
  "hal_flash_rom_erase cmd a len = FLASH_ROM_ERASE cmd a len"

definition hal_flash_rom_write :: "'c isp \<Rightarrow> u32 \<Rightarrow> addr \<Rightarrow> u32 \<Rightarrow> 'c storage \<Rightarrow> u32 \<times> 'c storage" where
  "hal_flash_rom_write cmd a buf len = FLASH_ROM_WRITE cmd a buf len"

definition hal_flash_rom_verify :: "'c isp \<Rightarrow> u32 \<Rightarrow> addr \<Rightarrow> u32 \<Rightarrow> 'c storage \<Rightarrow> u32 \<times> 'c storage" where
  "hal_flash_rom_verify cmd a buf len = FLASH_ROM_VERIFY cmd a buf len"

definition hal_eeprom_read :: "'c isp \<Rightarrow> u32 \<Rightarrow> addr \<Rightarrow> u32 \<Rightarrow> 'c storage \<Rightarrow> u32 \<times> 'c storage" where
  "hal_eeprom_read cmd a buf len = EEPROM_READ cmd a buf len"

definition hal_eeprom_erase :: "'c isp \<Rightarrow> u32 \<Rightarrow> u32 \<Rightarrow> 'c storage \<Rightarrow> u32 \<times> 'c storage" where
  "hal_eeprom_erase cmd a len = EEPROM_ERASE cmd a len"

definition hal_eeprom_write :: "'c isp \<Rightarrow> u32 \<Rightarrow> addr \<Rightarrow> u32 \<Rightarrow> 'c storage \<Rightarrow> u32 \<times> 'c storage" where
  "hal_eeprom_write cmd a buf len = EEPROM_WRITE cmd a buf len"

section \<open>The drivers\<close>

definition st_irq_lock :: "'c storage \<Rightarrow> u32 \<times> 'c storage" where
  "st_irq_lock s = (let (key, m) = arch_irq_lock (st_mstatus s) in (key, s\<lparr>st_mstatus := m\<rparr>))"

definition st_irq_unlock :: "u32 \<Rightarrow> 'c storage \<Rightarrow> 'c storage" where
  "st_irq_unlock key s = s\<lparr>st_mstatus := arch_irq_unlock key (st_mstatus s)\<rparr>"

record storage_parameters =
  write_block_size :: u32
  erase_value :: u8

definition flash_param :: storage_parameters where
  "flash_param = \<lparr>write_block_size = 4, erase_value = 0xff\<rparr>"

definition eeprom_param :: storage_parameters where
  "eeprom_param = \<lparr>write_block_size = 4, erase_value = 0xff\<rparr>"

definition flash_wch_read :: "u32 \<Rightarrow> addr \<Rightarrow> u32 \<Rightarrow> 'c storage \<Rightarrow> int \<times> 'c storage" where
  "flash_wch_read offset data len s =
     (let (key, s) = st_irq_lock s;
          s = hal_flash_rom_read offset data len s
      in (0, st_irq_unlock key s))"

definition flash_wch_write :: "'c isp \<Rightarrow> u32 \<Rightarrow> addr \<Rightarrow> u32 \<Rightarrow> 'c storage \<Rightarrow> int \<times> 'c storage" where
  "flash_wch_write cmd offset data len s =
     (let (key, s) = st_irq_lock s;
          (r, s) = hal_flash_rom_write cmd offset data len s;
          ret = (if r \<noteq> 0 then - 1 else 0)
      in (ret, st_irq_unlock key s))"

definition flash_wch_erase :: "'c isp \<Rightarrow> u32 \<Rightarrow> u32 \<Rightarrow> 'c storage \<Rightarrow> int \<times> 'c storage" where
  "flash_wch_erase cmd offset len s =
     (let (key, s) = st_irq_lock s;
          (r, s) = hal_flash_rom_erase cmd offset len s;
          ret = (if r \<noteq> 0 then - 1 else 0)
      in (ret, st_irq_unlock key s))"

definition eeprom_wch_read :: "'c isp \<Rightarrow> u32 \<Rightarrow> addr \<Rightarrow> u32 \<Rightarrow> 'c storage \<Rightarrow> int \<times> 'c storage" where
  "eeprom_wch_read cmd offset data len s =
     (let (key, s) = st_irq_lock s;
          (r, s) = hal_eeprom_read cmd offset data len s;
          ret = (if r \<noteq> 0 then - 1 else 0)
      in (ret, st_irq_unlock key s))"

definition eeprom_wch_write :: "'c isp \<Rightarrow> u32 \<Rightarrow> addr \<Rightarrow> u32 \<Rightarrow> 'c storage \<Rightarrow> int \<times> 'c storage" where
  "eeprom_wch_write cmd offset data len s =
     (let (key, s) = st_irq_lock s;
          (r, s) = hal_eeprom_write cmd offset data len s;
          ret = (if r \<noteq> 0 then - 1 else 0)
      in (ret, st_irq_unlock key s))"

definition eeprom_wch_erase :: "'c isp \<Rightarrow> u32 \<Rightarrow> u32 \<Rightarrow> 'c storage \<Rightarrow> int \<times> 'c storage" where
  "eeprom_wch_erase cmd offset len s =
     (let (key, s) = st_irq_lock s;
          (r, s) = hal_eeprom_erase cmd offset len s;
          ret = (if r \<noteq> 0 then - 1 else 0)
      in (ret, st_irq_unlock key s))"

section \<open>The interfaces\<close>

text \<open>A device points to the table of its driver; the two interface headers have the same structure.\<close>

record 'c storage_api =
  api_read :: "u32 \<Rightarrow> addr \<Rightarrow> u32 \<Rightarrow> 'c storage \<Rightarrow> int \<times> 'c storage"
  api_write :: "u32 \<Rightarrow> addr \<Rightarrow> u32 \<Rightarrow> 'c storage \<Rightarrow> int \<times> 'c storage"
  api_erase :: "u32 \<Rightarrow> u32 \<Rightarrow> 'c storage \<Rightarrow> int \<times> 'c storage"
  api_parameters :: storage_parameters

definition flash_wch_drivers_api :: "'c isp \<Rightarrow> 'c storage_api" where
  "flash_wch_drivers_api cmd =
     \<lparr>api_read = flash_wch_read, api_write = flash_wch_write cmd, api_erase = flash_wch_erase cmd,
      api_parameters = flash_param\<rparr>"

definition eeprom_wch_driver_api :: "'c isp \<Rightarrow> 'c storage_api" where
  "eeprom_wch_driver_api cmd =
     \<lparr>api_read = eeprom_wch_read cmd, api_write = eeprom_wch_write cmd, api_erase = eeprom_wch_erase cmd,
      api_parameters = eeprom_param\<rparr>"

definition flash_read :: "'c storage_api \<Rightarrow> u32 \<Rightarrow> addr \<Rightarrow> u32 \<Rightarrow> 'c storage \<Rightarrow> int \<times> 'c storage" where
  "flash_read api offset data len = api_read api offset data len"

definition flash_write :: "'c storage_api \<Rightarrow> u32 \<Rightarrow> addr \<Rightarrow> u32 \<Rightarrow> 'c storage \<Rightarrow> int \<times> 'c storage" where
  "flash_write api offset data len = api_write api offset data len"

definition flash_erase :: "'c storage_api \<Rightarrow> u32 \<Rightarrow> u32 \<Rightarrow> 'c storage \<Rightarrow> int \<times> 'c storage" where
  "flash_erase api offset len = api_erase api offset len"

definition flash_get_write_block_size :: "'c storage_api \<Rightarrow> u32" where
  "flash_get_write_block_size api = write_block_size (api_parameters api)"

definition flash_get_parameters :: "'c storage_api \<Rightarrow> storage_parameters" where
  "flash_get_parameters api = api_parameters api"

definition eeprom_read :: "'c storage_api \<Rightarrow> u32 \<Rightarrow> addr \<Rightarrow> u32 \<Rightarrow> 'c storage \<Rightarrow> int \<times> 'c storage" where
  "eeprom_read api offset data len = api_read api offset data len"

definition eeprom_write :: "'c storage_api \<Rightarrow> u32 \<Rightarrow> addr \<Rightarrow> u32 \<Rightarrow> 'c storage \<Rightarrow> int \<times> 'c storage" where
  "eeprom_write api offset data len = api_write api offset data len"

definition eeprom_erase :: "'c storage_api \<Rightarrow> u32 \<Rightarrow> u32 \<Rightarrow> 'c storage \<Rightarrow> int \<times> 'c storage" where
  "eeprom_erase api offset len = api_erase api offset len"

definition eeprom_get_write_block_size :: "'c storage_api \<Rightarrow> u32" where
  "eeprom_get_write_block_size api = write_block_size (api_parameters api)"

definition eeprom_get_parameters :: "'c storage_api \<Rightarrow> storage_parameters" where
  "eeprom_get_parameters api = api_parameters api"

text \<open>The callbacks for the Bluetooth library: \<open>ready\<close> is \<open>device_is_ready\<close> of the EEPROM device, \<open>config\<close> the log level
  of the module.  The result of the driver is converted to \<open>uint32_t\<close>.\<close>

definition ble_flash_read ::
  "nat option \<Rightarrow> bool \<Rightarrow> 'c storage_api \<Rightarrow> u32 \<Rightarrow> u32 \<Rightarrow> addr \<Rightarrow> 'c storage \<Rightarrow> u32 \<times> 'c storage" where
  "ble_flash_read config ready api a num pBuf s =
     (let s = (if \<not> ready then s\<lparr>st_out := LOG config LOG_LEVEL_ERR (''eeprom is not ready'' @ [CHR 0x0A]) [] (st_out s)\<rparr> else s);
          (r, s) = eeprom_read api a pBuf num s
      in (word_of_int r, s))"

definition ble_flash_write ::
  "nat option \<Rightarrow> bool \<Rightarrow> 'c storage_api \<Rightarrow> u32 \<Rightarrow> u32 \<Rightarrow> addr \<Rightarrow> 'c storage \<Rightarrow> u32 \<times> 'c storage" where
  "ble_flash_write config ready api a num pBuf s =
     (let s = (if \<not> ready then s\<lparr>st_out := LOG config LOG_LEVEL_ERR (''eeprom is not ready'' @ [CHR 0x0A]) [] (st_out s)\<rparr> else s);
          (r, s) = eeprom_write api a pBuf num s
      in (word_of_int r, s))"

section \<open>Lemmas\<close>

text \<open>Every driver function that issues a command is the command in a masked section, with its status as 0 or \<open>-1\<close>.\<close>

definition masked :: "('c storage \<Rightarrow> u32 \<times> 'c storage) \<Rightarrow> 'c storage \<Rightarrow> int \<times> 'c storage" where
  "masked raw s =
     (let (key, s) = st_irq_lock s; (r, s) = raw s in (if r \<noteq> 0 then - 1 else 0, st_irq_unlock key s))"

definition lock_state :: "'c storage \<Rightarrow> 'c storage" where
  "lock_state s = s\<lparr>st_mstatus := snd (arch_irq_lock (st_mstatus s))\<rparr>"

lemma driver_masked:
  "flash_wch_write cmd a p n = masked (cmd CMD_FLASH_ROM_WRITE a p n)"
  "flash_wch_erase cmd a n = masked (cmd CMD_FLASH_ROM_ERASE a NULL n)"
  "eeprom_wch_read cmd a p n = masked (cmd CMD_EEPROM_READ a p n)"
  "eeprom_wch_write cmd a p n = masked (cmd CMD_EEPROM_WRITE a p n)"
  "eeprom_wch_erase cmd a n = masked (cmd CMD_EEPROM_ERASE a NULL n)"
  by (rule ext, simp add: flash_wch_write_def flash_wch_erase_def eeprom_wch_read_def eeprom_wch_write_def
      eeprom_wch_erase_def hal_flash_rom_write_def hal_flash_rom_erase_def hal_eeprom_read_def hal_eeprom_write_def
      hal_eeprom_erase_def FLASH_ROM_WRITE_def FLASH_ROM_ERASE_def EEPROM_READ_def EEPROM_WRITE_def EEPROM_ERASE_def
      masked_def)+

lemma masked_result:
  assumes "raw (lock_state s) = (r, t)" and "st_mstatus t = st_mstatus (lock_state s)"
  shows "masked raw s = (if r \<noteq> 0 then - 1 else 0, t\<lparr>st_mstatus := st_mstatus s\<rparr>)"
  using assms
  by (simp add: masked_def st_irq_lock_def st_irq_unlock_def lock_state_def split_beta lock_key lock_unlock)

lemma lock_state_fields [simp]:
  "st_mem (lock_state s) = st_mem s" "st_chip (lock_state s) = st_chip s" "st_out (lock_state s) = st_out s"
  "\<not> arch_irq_unlocked (st_mstatus (lock_state s))"
  by (simp_all add: lock_state_def locked)

lemma store_load: "store32 m b (load32 m' a) = mem_write m b (mem_read m' a 4)"
  by (simp add: store32_def load32_def le_bytes_le_val)

lemma rom_read_loop_copies:
  assumes "unat a + 4 * n \<le> unat b \<or> unat b + 4 * n \<le> unat a"
    and "unat a + 4 * n < 2 ^ 32" and "unat b + 4 * n < 2 ^ 32"
  shows "rom_read_loop n a b m = mem_write m b (mem_read m a (4 * n))"
  using assms
proof (induction n arbitrary: a b m)
  case 0
  then show ?case by simp
next
  case (Suc n)
  let ?m = "mem_write m b (mem_read m a 4)"
  have u: "unat (a + 4) = unat a + 4" "unat (b + 4) = unat b + 4"
    using Suc.prems by (simp_all add: unat_add_no_wrap_u32)
  have "rom_read_loop (Suc n) a b m = rom_read_loop n (a + 4) (b + 4) ?m"
    by (simp add: store_load)
  also have "\<dots> = mem_write ?m (b + 4) (mem_read ?m (a + 4) (4 * n))"
    using Suc.prems by (intro Suc.IH) (auto simp: u)
  also have "mem_read ?m (a + 4) (4 * n) = mem_read m (a + 4) (4 * n)"
    using Suc.prems by (intro mem_read_write_apart) (auto simp: u)
  also have "mem_write ?m (b + 4) (mem_read m (a + 4) (4 * n)) = mem_write m b (mem_read m a (4 + 4 * n))"
    using mem_read_append [of m a 4 "4 * n"] mem_write_append [of m b "mem_read m a 4"] by simp
  finally show ?case by simp
qed

lemma unat_words: "unat len + 3 < 2 ^ 32 \<Longrightarrow> unat (drop_bit 2 (len + 3 :: u32)) = (unat len + 3) div 4"
  by (simp add: drop_bit_eq_div unat_div_distrib unat_add_no_wrap_u32)

section \<open>Properties\<close>

text \<open>A read of code flash copies the requested bytes and rounds the length up: when it is not a multiple of four, the one
  to three bytes after the caller's buffer are overwritten with the bytes that follow in flash.  Interrupts are
  masked during the copy only.\<close>

theorem flash_read_rounds_up:
  assumes "unat a + unat len + 3 < 2 ^ 32" and "unat buf + unat len + 3 < 2 ^ 32"
    and "unat a + unat len + 3 < unat buf \<or> unat buf + unat len + 3 < unat a"
  shows "flash_wch_read a buf len s =
    (0, s\<lparr>st_mem := mem_write (st_mem s) buf (mem_read (st_mem s) a (4 * ((unat len + 3) div 4)))\<rparr>)"
proof -
  have w: "4 * ((unat len + 3) div 4) \<le> unat len + 3" by simp
  have "rom_read_loop ((unat len + 3) div 4) a buf (st_mem s) =
      mem_write (st_mem s) buf (mem_read (st_mem s) a (4 * ((unat len + 3) div 4)))"
    using assms w by (intro rom_read_loop_copies) (linarith | auto)+
  then show ?thesis
    using assms
    by (simp add: flash_wch_read_def st_irq_lock_def st_irq_unlock_def hal_flash_rom_read_def unat_words split_beta
        lock_key lock_unlock)
qed

section \<open>Sequences of calls\<close>

text \<open>The calls of the two interfaces and of the callbacks of the Bluetooth library, and the command each one is for; the code
  flash is read without a command.\<close>

datatype storage_call =
    Flash_read u32 addr u32 | Flash_write u32 addr u32 | Flash_erase u32 u32
  | Eeprom_read u32 addr u32 | Eeprom_write u32 addr u32 | Eeprom_erase u32 u32
  | Ble_read u32 u32 addr | Ble_write u32 u32 addr

fun command_of :: "storage_call \<Rightarrow> (u8 \<times> u32 \<times> addr \<times> u32) option" where
  "command_of (Flash_read a p n) = None"
| "command_of (Flash_write a p n) = Some (CMD_FLASH_ROM_WRITE, a, p, n)"
| "command_of (Flash_erase a n) = Some (CMD_FLASH_ROM_ERASE, a, NULL, n)"
| "command_of (Eeprom_read a p n) = Some (CMD_EEPROM_READ, a, p, n)"
| "command_of (Eeprom_write a p n) = Some (CMD_EEPROM_WRITE, a, p, n)"
| "command_of (Eeprom_erase a n) = Some (CMD_EEPROM_ERASE, a, NULL, n)"
| "command_of (Ble_read a n p) = Some (CMD_EEPROM_READ, a, p, n)"
| "command_of (Ble_write a n p) = Some (CMD_EEPROM_WRITE, a, p, n)"

text \<open>What the caller sees of the status of the command: 0 or -1, which the callbacks return as \<open>uint32_t\<close>.\<close>

fun answer_of :: "storage_call \<Rightarrow> u32 \<Rightarrow> int" where
  "answer_of (Ble_read a n p) r = (if r = 0 then 0 else 2 ^ 32 - 1)"
| "answer_of (Ble_write a n p) r = (if r = 0 then 0 else 2 ^ 32 - 1)"
| "answer_of _ r = (if r = 0 then 0 else - 1)"

fun call_storage :: "nat option \<Rightarrow> bool \<Rightarrow> 'c isp \<Rightarrow> storage_call \<Rightarrow> 'c storage \<Rightarrow> int \<times> 'c storage" where
  "call_storage config ready cmd (Flash_read a p n) s = flash_read (flash_wch_drivers_api cmd) a p n s"
| "call_storage config ready cmd (Flash_write a p n) s = flash_write (flash_wch_drivers_api cmd) a p n s"
| "call_storage config ready cmd (Flash_erase a n) s = flash_erase (flash_wch_drivers_api cmd) a n s"
| "call_storage config ready cmd (Eeprom_read a p n) s = eeprom_read (eeprom_wch_driver_api cmd) a p n s"
| "call_storage config ready cmd (Eeprom_write a p n) s = eeprom_write (eeprom_wch_driver_api cmd) a p n s"
| "call_storage config ready cmd (Eeprom_erase a n) s = eeprom_erase (eeprom_wch_driver_api cmd) a n s"
| "call_storage config ready cmd (Ble_read a n p) s =
     (let (r, t) = ble_flash_read config ready (eeprom_wch_driver_api cmd) a n p s in (uint r, t))"
| "call_storage config ready cmd (Ble_write a n p) s =
     (let (r, t) = ble_flash_write config ready (eeprom_wch_driver_api cmd) a n p s in (uint r, t))"

primrec storage_run :: "nat option \<Rightarrow> bool \<Rightarrow> 'c isp \<Rightarrow> storage_call list \<Rightarrow> 'c storage \<Rightarrow> int list \<times> 'c storage" where
  "storage_run config ready cmd [] s = ([], s)"
| "storage_run config ready cmd (c # cs) s =
     (let (x, s) = call_storage config ready cmd c s; (xs, s) = storage_run config ready cmd cs s in (x # xs, s))"

text \<open>Any library function, with a record of its calls: the command, its arguments, the status and whether interrupts were
  enabled.\<close>

type_synonym isp_entry = "(u8 \<times> u32 \<times> addr \<times> u32) \<times> u32 \<times> bool"

definition recorded :: "'c isp \<Rightarrow> ('c \<times> isp_entry list) isp" where
  "recorded cmd k a p n s =
     (let (r, t) = cmd k a p n \<lparr>st_mem = st_mem s, st_chip = fst (st_chip s), st_mstatus = st_mstatus s, st_out = st_out s\<rparr>;
          e = ((k, a, p, n), r, arch_irq_unlocked (st_mstatus s))
      in (r, \<lparr>st_mem = st_mem t, st_chip = (st_chip t, snd (st_chip s) @ [e]), st_mstatus = st_mstatus t, st_out = st_out t\<rparr>))"

abbreviation record_of :: "('c \<times> isp_entry list) storage \<Rightarrow> isp_entry list" where
  "record_of s \<equiv> snd (st_chip s)"

text \<open>Calls and answers accounted for by a record: one entry for each call that is for a command, in order, with the command
  and the arguments of the call, made with interrupts masked, and the answer is the one for its status.\<close>

fun accounts :: "storage_call list \<Rightarrow> int list \<Rightarrow> isp_entry list \<Rightarrow> bool" where
  "accounts [] [] es \<longleftrightarrow> es = []"
| "accounts (c # cs) (x # xs) es \<longleftrightarrow>
     (case command_of c of
        None \<Rightarrow> x = 0 \<and> accounts cs xs es
      | Some k \<Rightarrow> (case es of [] \<Rightarrow> False | (k', r, enabled) # es' \<Rightarrow> k' = k \<and> \<not> enabled \<and> x = answer_of c r \<and> accounts cs xs es'))"
| "accounts _ _ es \<longleftrightarrow> False"

lemma accounts_append: "accounts cs xs es \<Longrightarrow> accounts ds ys fs \<Longrightarrow> accounts (cs @ ds) (xs @ ys) (es @ fs)"
  by (induction cs xs es rule: accounts.induct) (auto split: option.splits list.splits)

definition keeps_mstatus :: "'c isp \<Rightarrow> bool" where
  "keeps_mstatus cmd \<longleftrightarrow> (\<forall>k a p n s. st_mstatus (snd (cmd k a p n s)) = st_mstatus s)"

text \<open>A masked section around a recorded command.\<close>

lemma masked_recorded:
  fixes s :: "('c \<times> isp_entry list) storage"
  assumes "masked (recorded cmd k a p n) s = (x, t)"
  shows "\<exists>r. record_of t = record_of s @ [((k, a, p, n), r, False)] \<and> x = (if r = 0 then 0 else - 1)"
    and "arch_irq_unlocked (st_mstatus s) \<Longrightarrow> arch_irq_unlocked (st_mstatus t)"
    and "keeps_mstatus cmd \<Longrightarrow> st_mstatus t = st_mstatus s"
proof -
  let ?l = "lock_state s"
  define u where "u = \<lparr>st_mem = st_mem ?l, st_chip = fst (st_chip ?l), st_mstatus = st_mstatus ?l, st_out = st_out ?l\<rparr>"
  obtain r v where v: "cmd k a p n u = (r, v)" by fastforce
  have "recorded cmd k a p n ?l =
      (r, \<lparr>st_mem = st_mem v, st_chip = (st_chip v, record_of s @ [((k, a, p, n), r, False)]),
           st_mstatus = st_mstatus v, st_out = st_out v\<rparr>)"
    using v by (simp add: recorded_def u_def)
  then have m: "x = (if r = 0 then 0 else - 1)"
    "t = \<lparr>st_mem = st_mem v, st_chip = (st_chip v, record_of s @ [((k, a, p, n), r, False)]),
          st_mstatus = arch_irq_unlock (fst (arch_irq_lock (st_mstatus s))) (st_mstatus v), st_out = st_out v\<rparr>"
    using assms by (auto simp: masked_def st_irq_lock_def st_irq_unlock_def lock_state_def split_beta)
  then show "\<exists>r. record_of t = record_of s @ [((k, a, p, n), r, False)] \<and> x = (if r = 0 then 0 else - 1)" by auto
  show "arch_irq_unlocked (st_mstatus t)" if "arch_irq_unlocked (st_mstatus s)"
    using that m(2) by (simp add: arch_irq_unlock_def lock_key unlocked_bit csr_set_def bit_or_iff bit_and_iff ien_bit)
  show "st_mstatus t = st_mstatus s" if "keeps_mstatus cmd"
  proof -
    have "st_mstatus v = st_mstatus ?l"
      using that v unfolding keeps_mstatus_def by (metis snd_conv storage.select_convs(3) u_def)
    then show ?thesis using m(2) by (simp add: lock_state_def lock_key lock_unlock)
  qed
qed

text \<open>The complaint of a callback about a device that is not ready.\<close>

definition complain :: "nat option \<Rightarrow> bool \<Rightarrow> 'c storage \<Rightarrow> 'c storage" where
  "complain config ready s =
     (if \<not> ready then s\<lparr>st_out := LOG config LOG_LEVEL_ERR (''eeprom is not ready'' @ [CHR 0x0A]) [] (st_out s)\<rparr> else s)"

lemma complain_fields [simp]:
  "st_mem (complain config ready s) = st_mem s" "st_chip (complain config ready s) = st_chip s"
  "st_mstatus (complain config ready s) = st_mstatus s"
  by (simp_all add: complain_def)

lemma flash_read_keeps:
  "fst (flash_wch_read a p n s) = 0" "st_chip (snd (flash_wch_read a p n s)) = st_chip s"
  "st_mstatus (snd (flash_wch_read a p n s)) = st_mstatus s"
  by (simp_all add: flash_wch_read_def hal_flash_rom_read_def st_irq_lock_def st_irq_unlock_def split_beta lock_key lock_unlock)

text \<open>A call that is for a command is that command in a masked section.\<close>

lemma call_masked:
  assumes "command_of c = Some (k, a, p, n)"
  shows "call_storage config ready cmd c s =
    (let (x, t) = masked (cmd k a p n) (case c of Ble_read _ _ _ \<Rightarrow> complain config ready s
         | Ble_write _ _ _ \<Rightarrow> complain config ready s | _ \<Rightarrow> s)
     in (case c of Ble_read _ _ _ \<Rightarrow> uint (word_of_int x :: u32) | Ble_write _ _ _ \<Rightarrow> uint (word_of_int x :: u32) | _ \<Rightarrow> x, t))"
  using assms
  by (cases c) (auto simp: flash_write_def flash_erase_def eeprom_read_def eeprom_write_def eeprom_erase_def
      flash_wch_drivers_api_def eeprom_wch_driver_api_def driver_masked ble_flash_read_def ble_flash_write_def
      complain_def split_beta Let_def)

lemma call_accounts:
  fixes s :: "('c \<times> isp_entry list) storage"
  assumes "call_storage config ready (recorded cmd) c s = (x, t)"
  shows "\<exists>es. record_of t = record_of s @ es \<and> accounts [c] [x] es"
    and "arch_irq_unlocked (st_mstatus s) \<Longrightarrow> arch_irq_unlocked (st_mstatus t)"
    and "keeps_mstatus cmd \<Longrightarrow> st_mstatus t = st_mstatus s"
proof -
  have "(\<exists>es. record_of t = record_of s @ es \<and> accounts [c] [x] es) \<and>
    (arch_irq_unlocked (st_mstatus s) \<longrightarrow> arch_irq_unlocked (st_mstatus t)) \<and> (keeps_mstatus cmd \<longrightarrow> st_mstatus t = st_mstatus s)"
  proof (cases "command_of c")
    case None
    then obtain a p n where "c = Flash_read a p n" by (cases c) auto
    with assms flash_read_keeps [of a p n s] show ?thesis by (auto simp: flash_read_def flash_wch_drivers_api_def)
  next
    case (Some kapn)
    then obtain k a p n where k: "command_of c = Some (k, a, p, n)" by (cases kapn) auto
    let ?s = "case c of Ble_read _ _ _ \<Rightarrow> complain config ready s | Ble_write _ _ _ \<Rightarrow> complain config ready s | _ \<Rightarrow> s"
    have f: "st_chip ?s = st_chip s" "st_mstatus ?s = st_mstatus s" by (simp_all split: storage_call.split)
    obtain y where y: "masked (recorded cmd k a p n) ?s = (y, t)"
      "x = (case c of Ble_read _ _ _ \<Rightarrow> uint (word_of_int y :: u32) | Ble_write _ _ _ \<Rightarrow> uint (word_of_int y :: u32) | _ \<Rightarrow> y)"
      using assms unfolding call_masked [OF k] by (auto simp: Let_def split_beta prod_eq_iff)
    note m = masked_recorded [OF y(1), unfolded f]
    from m(1) obtain r where r: "record_of t = record_of s @ [((k, a, p, n), r, False)]" "y = (if r = 0 then 0 else - 1)" by blast
    have "uint (- 1 :: u32) = 2 ^ 32 - 1" by (simp only: unsigned_minus_1_eq_mask) (simp add: mask_eq_exp_minus_1)
    then have "x = answer_of c r" using y(2) r(2) by (cases c) auto
    with r(1) k have "record_of t = record_of s @ [((k, a, p, n), r, False)] \<and> accounts [c] [x] [((k, a, p, n), r, False)]" by simp
    with m(2,3) show ?thesis by blast
  qed
  then show "\<exists>es. record_of t = record_of s @ es \<and> accounts [c] [x] es"
    and "arch_irq_unlocked (st_mstatus s) \<Longrightarrow> arch_irq_unlocked (st_mstatus t)"
    and "keeps_mstatus cmd \<Longrightarrow> st_mstatus t = st_mstatus s" by blast+
qed

text \<open>C27: Whatever the library function does and answers, in any sequence of calls of the flash and EEPROM interfaces and of
  the Bluetooth callbacks each call that needs a command issues it exactly once, in order, with the command code and the
  arguments of the call and with interrupts masked; its answer is 0 when the status of the command is 0 and the error code
  otherwise.  Interrupts that were enabled before are enabled afterwards, and the status register is as before when the
  library function leaves it alone.\<close>

theorem storage_calls_masked:
  assumes "storage_run config ready (recorded cmd) cs s = (xs, t)"
  shows "(\<exists>es. record_of t = record_of s @ es \<and> accounts cs xs es) \<and>
    (arch_irq_unlocked (st_mstatus s) \<longrightarrow> arch_irq_unlocked (st_mstatus t)) \<and>
    (keeps_mstatus cmd \<longrightarrow> st_mstatus t = st_mstatus s)"
  using assms
proof (induction cs arbitrary: s xs)
  case (Cons c cs)
  obtain x u where u: "call_storage config ready (recorded cmd) c s = (x, u)" by fastforce
  obtain ys where ys: "xs = x # ys" "storage_run config ready (recorded cmd) cs u = (ys, t)"
    using Cons.prems u by (auto simp: split_beta)
  obtain es fs where "record_of u = record_of s @ es" "accounts [c] [x] es" "record_of t = record_of u @ fs" "accounts cs ys fs"
    using call_accounts(1) [OF u] Cons.IH [OF ys(2)] by blast
  then have "record_of t = record_of s @ (es @ fs)" "accounts (c # cs) xs (es @ fs)"
    using accounts_append [of "[c]" "[x]" es cs ys fs] ys(1) by simp_all
  then show ?case using call_accounts(2,3) [OF u] Cons.IH [OF ys(2)] by (metis (no_types, lifting))
qed simp

text \<open>The witness: a library function that refuses to erase, called with interrupts enabled.  A read of five bytes of code
  flash.\<close>

definition refusing_isp :: "unit isp" where
  "refusing_isp k a p n s = (if k = CMD_EEPROM_ERASE then 0xFE else 0, s)"

definition example_storage :: "(unit \<times> isp_entry list) storage" where
  "example_storage = \<lparr>st_mem = (\<lambda>_. 1), st_chip = ((), []), st_mstatus = MSTATUS_IEN, st_out = []\<rparr>"

theorem storage_calls_masked_witness:
  "\<exists>xs t. storage_run None True (recorded refusing_isp) [Eeprom_erase 0x100 0x100, Ble_write 0x100 4 0x20000000] example_storage = (xs, t) \<and>
     record_of t = [((9, 0x100, 0, 0x100), 0xFE, False), ((10, 0x100, 0x20000000, 4), 0, False)] \<and> xs = [- 1, 0] \<and>
     arch_irq_unlocked (st_mstatus t)"
proof -
  let ?cs = "[Eeprom_erase 0x100 0x100, Ble_write 0x100 4 0x20000000]"
  obtain xs t where r: "storage_run None True (recorded refusing_isp) ?cs example_storage = (xs, t)" by fastforce
  have k: "keeps_mstatus refusing_isp" by (simp add: keeps_mstatus_def refusing_isp_def)
  have i: "arch_irq_unlocked (st_mstatus example_storage)" by (simp add: example_storage_def unlocked_bit ien_bit)
  have "\<exists>es. record_of t = es \<and> accounts ?cs xs es"
    using storage_calls_masked [OF r] by (simp add: example_storage_def)
  moreover have "map (fst \<circ> snd) (record_of t) = [0xFE, 0]"
    using r by (auto simp: eeprom_erase_def ble_flash_write_def eeprom_write_def eeprom_wch_driver_api_def driver_masked masked_def
        recorded_def refusing_isp_def st_irq_lock_def st_irq_unlock_def example_storage_def split_beta isp_commands)
  moreover have "arch_irq_unlocked (st_mstatus t)" using storage_calls_masked [OF r] i by blast
  ultimately show ?thesis
    using r by (intro exI [of _ xs] exI [of _ t]) (auto simp: isp_commands elim!: accounts.elims split: list.splits)
qed

lemma flash_read_rounds_up_witness:
  "flash_wch_read 0x1000 0x20000000 5 example_storage = (0, example_storage\<lparr>st_mem :=
     mem_write (st_mem example_storage) 0x20000000 [1, 1, 1, 1, 1, 1, 1, 1]\<rparr>)"
  using flash_read_rounds_up [of "0x1000" 5 "0x20000000" example_storage]
  by (simp add: example_storage_def mem_read_def upt_rec)

end
