(* ===== verification/Uart_Api.thy ===== *)
theory Uart_Api
  imports Uart_Driver
begin

text \<open>
  The interface \<^verbatim>\<open>include/drivers/uart.h\<close> that applications use, with the driver table of \<^verbatim>\<open>drivers/uart/uart.c\<close> and its
  interrupt vectors.

  An entry of the table may be null: it is an option.  A driver function works on the registers and the data of its
  device; \<open>None\<close> as its result means that it does not return.  The build options that select the body of an interface
  function are arguments: \<open>driven\<close> is \<open>CONFIG_UART_INTERRUPT_DRIVEN\<close>, \<open>support\<close> is \<open>CONFIG_UART_SUPPORT_INTERRUPT\<close>.
  The functions for wide data and driver commands call members that the table does not have, so that only their
  bodies without the option exist.
\<close>

section \<open>The table\<close>

record uart_sys =
  ports :: uarts
  dev_data :: uart_wch_data

record uart_driver_api =
  poll_in :: "(uart_sys \<Rightarrow> int \<times> u8 option \<times> uart_sys) option"
  poll_out :: "(u8 \<Rightarrow> uart_sys \<Rightarrow> uart_sys option) option"
  err_check :: "(uart_sys \<Rightarrow> int) option"
  configure :: "(uart_config \<Rightarrow> uart_sys \<Rightarrow> (int \<times> uart_sys) option) option"
  config_get :: "(uart_sys \<Rightarrow> (int + uart_config) option) option"
  fifo_fill :: "(u8 list \<Rightarrow> uart_sys \<Rightarrow> (int \<times> uart_sys) option) option"
  fifo_read :: "(int \<Rightarrow> uart_sys \<Rightarrow> (int \<times> u8 list \<times> uart_sys) option) option"
  irq_tx_enable :: "(uart_sys \<Rightarrow> uart_sys) option"
  irq_tx_disable :: "(uart_sys \<Rightarrow> uart_sys) option"
  irq_tx_ready :: "(uart_sys \<Rightarrow> int) option"
  irq_rx_enable :: "(uart_sys \<Rightarrow> uart_sys) option"
  irq_rx_disable :: "(uart_sys \<Rightarrow> uart_sys) option"
  irq_tx_complete :: "(uart_sys \<Rightarrow> int) option"
  irq_rx_ready :: "(uart_sys \<Rightarrow> int) option"
  irq_err_enable :: "(uart_sys \<Rightarrow> uart_sys) option"
  irq_err_disable :: "(uart_sys \<Rightarrow> uart_sys) option"
  irq_is_pending :: "(uart_sys \<Rightarrow> int) option"
  irq_update :: "(uart_sys \<Rightarrow> int) option"
  irq_callback_set :: "(addr \<Rightarrow> addr \<Rightarrow> uart_sys \<Rightarrow> uart_sys) option"

definition on_ports :: "(uarts \<Rightarrow> uarts) \<Rightarrow> uart_sys \<Rightarrow> uart_sys" where
  "on_ports f s = s\<lparr>ports := f (ports s)\<rparr>"

definition with_ports :: "uart_sys \<Rightarrow> ('a \<times> uarts) option \<Rightarrow> ('a \<times> uart_sys) option" where
  "with_ports s r = map_option (\<lambda>(x, u). (x, s\<lparr>ports := u\<rparr>)) r"

text \<open>The table of a device at port \<open>p\<close>; the other arguments are those of the driver functions.\<close>

definition uart_wch_driver_api ::
  "bool \<Rightarrow> (uarts \<Rightarrow> uarts) \<Rightarrow> u32 \<Rightarrow> bool \<Rightarrow> addr \<Rightarrow> uart_driver_api" where
  "uart_wch_driver_api support io fsys uart0 p =
     \<lparr>poll_in = Some (\<lambda>s. let (r, c, u) = uart_wch_poll_in p (ports s) in (r, c, s\<lparr>ports := u\<rparr>)),
      poll_out = Some (\<lambda>c s. map_option (\<lambda>u. s\<lparr>ports := u\<rparr>) (uart_wch_poll_out io p c (ports s))),
      err_check = Some (\<lambda>s. uart_wch_err_check p (ports s)),
      configure = Some (\<lambda>cfg s. with_ports s (uart_wch_configure fsys uart0 p cfg (ports s))),
      config_get = Some (\<lambda>s. uart_wch_configure_get fsys uart0 p (ports s)),
      fifo_fill = (if support then Some (\<lambda>bs s.
        with_ports s (map_option (\<lambda>(n, u). (int n, u)) (uart_wch_fifo_fill io p bs (ports s)))) else None),
      fifo_read = (if support then Some (\<lambda>sz s.
        map_option (\<lambda>(n, bs, u). (uint n, bs, s\<lparr>ports := u\<rparr>)) (uart_wch_fifo_read io p sz (ports s))) else None),
      irq_tx_enable = (if support then Some (on_ports (uart_wch_irq_tx_enable p)) else None),
      irq_tx_disable = (if support then Some (on_ports (uart_wch_irq_tx_disable p)) else None),
      irq_tx_ready = (if support then Some (\<lambda>s. of_bool (uart_wch_irq_tx_ready p (ports s))) else None),
      irq_rx_enable = (if support then Some (on_ports (uart_wch_irq_rx_enable p)) else None),
      irq_rx_disable = (if support then Some (on_ports (uart_wch_irq_rx_disable p)) else None),
      irq_tx_complete = (if support then Some (\<lambda>s. uart_wch_irq_tx_complete p (ports s)) else None),
      irq_rx_ready = (if support then Some (\<lambda>s. of_bool (uart_wch_irq_rx_ready p (ports s))) else None),
      irq_err_enable = (if support then Some (on_ports (uart_wch_irq_err_enable p)) else None),
      irq_err_disable = (if support then Some (on_ports (uart_wch_irq_err_disable p)) else None),
      irq_is_pending = (if support then Some (\<lambda>s. of_bool (uart_wch_irq_is_pending uart0 p (ports s))) else None),
      irq_update = (if support then Some (\<lambda>s. uart_wch_irq_update) else None),
      irq_callback_set = (if support then Some (\<lambda>cb cbd s.
        s\<lparr>dev_data := uart_wch_irq_callback_set cb cbd (dev_data s)\<rparr>) else None)\<rparr>"

text \<open>The vectors.  The handler of a port is compiled only with its option \<open>CONFIG_WCH_UART_n\<close>; otherwise the weak handler of
  the start code loops forever: \<open>None\<close>.\<close>

definition UART_IRQHandler ::
  "bool \<Rightarrow> bool \<Rightarrow> (addr \<Rightarrow> addr \<Rightarrow> uarts \<Rightarrow> uarts) \<Rightarrow> uart_sys \<Rightarrow> uart_sys option" where
  "UART_IRQHandler support wch_uart run s =
     (if support \<and> wch_uart then Some (s\<lparr>ports := uart_isr_handler run (dev_data s) (ports s)\<rparr>) else None)"

section \<open>Polling and configuration\<close>

definition uart_err_check :: "uart_driver_api \<Rightarrow> uart_sys \<Rightarrow> int" where
  "uart_err_check api s = (case err_check api of None \<Rightarrow> - ENOSYS | Some f \<Rightarrow> f s)"

definition uart_poll_in :: "uart_driver_api \<Rightarrow> uart_sys \<Rightarrow> int \<times> u8 option \<times> uart_sys" where
  "uart_poll_in api s = (case poll_in api of None \<Rightarrow> (- ENOSYS, None, s) | Some f \<Rightarrow> f s)"

definition uart_poll_in_u16 :: "uart_sys \<Rightarrow> int \<times> uart_sys" where
  "uart_poll_in_u16 s = (- ENOTSUP, s)"

text \<open>There is no test for a null pointer here: calling one is undefined, \<open>None\<close>.\<close>

definition uart_poll_out :: "uart_driver_api \<Rightarrow> u8 \<Rightarrow> uart_sys \<Rightarrow> uart_sys option" where
  "uart_poll_out api c s = (case poll_out api of None \<Rightarrow> None | Some f \<Rightarrow> f c s)"

definition uart_poll_out_u16 :: "u16 \<Rightarrow> uart_sys \<Rightarrow> uart_sys" where
  "uart_poll_out_u16 c s = s"

definition uart_configure :: "uart_driver_api \<Rightarrow> uart_config \<Rightarrow> uart_sys \<Rightarrow> (int \<times> uart_sys) option" where
  "uart_configure api cfg s = (case configure api of None \<Rightarrow> Some (- ENOSYS, s) | Some f \<Rightarrow> f cfg s)"

definition uart_config_get :: "uart_driver_api \<Rightarrow> uart_sys \<Rightarrow> (int + uart_config) option" where
  "uart_config_get api s = (case config_get api of None \<Rightarrow> Some (Inl (- ENOSYS)) | Some f \<Rightarrow> f s)"

section \<open>Interrupt driven operation\<close>

definition uart_fifo_fill :: "bool \<Rightarrow> uart_driver_api \<Rightarrow> u8 list \<Rightarrow> uart_sys \<Rightarrow> (int \<times> uart_sys) option" where
  "uart_fifo_fill driven api tx_data s =
     (if driven then case fifo_fill api of None \<Rightarrow> Some (- ENOSYS, s) | Some f \<Rightarrow> f tx_data s
      else Some (- ENOTSUP, s))"

definition uart_fifo_fill_u16 :: "uart_sys \<Rightarrow> int \<times> uart_sys" where
  "uart_fifo_fill_u16 s = (- ENOTSUP, s)"

definition uart_fifo_read :: "bool \<Rightarrow> uart_driver_api \<Rightarrow> int \<Rightarrow> uart_sys \<Rightarrow> (int \<times> u8 list \<times> uart_sys) option" where
  "uart_fifo_read driven api sz s =
     (if driven then case fifo_read api of None \<Rightarrow> Some (- ENOSYS, [], s) | Some f \<Rightarrow> f sz s
      else Some (- ENOTSUP, [], s))"

definition uart_fifo_read_u16 :: "uart_sys \<Rightarrow> int \<times> uart_sys" where
  "uart_fifo_read_u16 s = (- ENOTSUP, s)"

definition uart_irq_tx_enable :: "bool \<Rightarrow> uart_driver_api \<Rightarrow> uart_sys \<Rightarrow> uart_sys" where
  "uart_irq_tx_enable driven api s = (if driven then case irq_tx_enable api of None \<Rightarrow> s | Some f \<Rightarrow> f s else s)"

definition uart_irq_tx_disable :: "bool \<Rightarrow> uart_driver_api \<Rightarrow> uart_sys \<Rightarrow> uart_sys" where
  "uart_irq_tx_disable driven api s = (if driven then case irq_tx_disable api of None \<Rightarrow> s | Some f \<Rightarrow> f s else s)"

definition uart_irq_tx_ready :: "bool \<Rightarrow> uart_driver_api \<Rightarrow> uart_sys \<Rightarrow> int" where
  "uart_irq_tx_ready driven api s =
     (if driven then case irq_tx_ready api of None \<Rightarrow> - ENOSYS | Some f \<Rightarrow> f s else - ENOTSUP)"

definition uart_irq_rx_enable :: "bool \<Rightarrow> uart_driver_api \<Rightarrow> uart_sys \<Rightarrow> uart_sys" where
  "uart_irq_rx_enable driven api s = (if driven then case irq_rx_enable api of None \<Rightarrow> s | Some f \<Rightarrow> f s else s)"

definition uart_irq_rx_disable :: "bool \<Rightarrow> uart_driver_api \<Rightarrow> uart_sys \<Rightarrow> uart_sys" where
  "uart_irq_rx_disable driven api s = (if driven then case irq_rx_disable api of None \<Rightarrow> s | Some f \<Rightarrow> f s else s)"

definition uart_irq_tx_complete :: "bool \<Rightarrow> uart_driver_api \<Rightarrow> uart_sys \<Rightarrow> int" where
  "uart_irq_tx_complete driven api s =
     (if driven then case irq_tx_complete api of None \<Rightarrow> - ENOSYS | Some f \<Rightarrow> f s else - ENOTSUP)"

definition uart_irq_rx_ready :: "bool \<Rightarrow> uart_driver_api \<Rightarrow> uart_sys \<Rightarrow> int" where
  "uart_irq_rx_ready driven api s =
     (if driven then case irq_rx_ready api of None \<Rightarrow> - ENOSYS | Some f \<Rightarrow> f s else - ENOTSUP)"

definition uart_irq_err_enable :: "bool \<Rightarrow> uart_driver_api \<Rightarrow> uart_sys \<Rightarrow> uart_sys" where
  "uart_irq_err_enable driven api s = (if driven then case irq_err_enable api of None \<Rightarrow> s | Some f \<Rightarrow> f s else s)"

definition uart_irq_err_disable :: "bool \<Rightarrow> uart_driver_api \<Rightarrow> uart_sys \<Rightarrow> uart_sys" where
  "uart_irq_err_disable driven api s = (if driven then case irq_err_disable api of None \<Rightarrow> s | Some f \<Rightarrow> f s else s)"

definition uart_irq_is_pending :: "bool \<Rightarrow> uart_driver_api \<Rightarrow> uart_sys \<Rightarrow> int" where
  "uart_irq_is_pending driven api s =
     (if driven then case irq_is_pending api of None \<Rightarrow> - ENOSYS | Some f \<Rightarrow> f s else - ENOTSUP)"

definition uart_irq_update :: "bool \<Rightarrow> uart_driver_api \<Rightarrow> uart_sys \<Rightarrow> int" where
  "uart_irq_update driven api s =
     (if driven then case irq_update api of None \<Rightarrow> - ENOSYS | Some f \<Rightarrow> f s else - ENOTSUP)"

text \<open>Here the table itself may be missing.\<close>

definition uart_irq_callback_user_data_set ::
  "bool \<Rightarrow> uart_driver_api option \<Rightarrow> addr \<Rightarrow> addr \<Rightarrow> uart_sys \<Rightarrow> uart_sys" where
  "uart_irq_callback_user_data_set driven api cb user_data s =
     (if driven then
        case api of
          None \<Rightarrow> s
        | Some api \<Rightarrow> (case irq_callback_set api of None \<Rightarrow> s | Some f \<Rightarrow> f cb user_data s)
      else s)"

definition uart_irq_callback_set :: "bool \<Rightarrow> uart_driver_api option \<Rightarrow> addr \<Rightarrow> uart_sys \<Rightarrow> uart_sys" where
  "uart_irq_callback_set driven api cb s = uart_irq_callback_user_data_set driven api cb NULL s"

definition uart_drv_cmd :: "u32 \<Rightarrow> u32 \<Rightarrow> uart_sys \<Rightarrow> int \<times> uart_sys" where
  "uart_drv_cmd cmd p s = (- ENOTSUP, s)"

section \<open>The console\<close>

text \<open>
  \<open>_write\<close> of \<^verbatim>\<open>drivers/debug/print.c\<close>, to which the C library passes formatted output.  \<open>port\<close> is the device that
  \<open>CONFIG_DEBUG_PORT_UART_n\<close> selects (at most one), or \<open>None\<close> without \<open>CONFIG_DEBUG\<close>; \<open>ready\<close> is \<open>device_is_ready\<close> of it.  The
  pointer advances only after a byte has been sent; reading past the list is not possible, since it advances at most
  once in an iteration.
\<close>

primrec write_loop :: "nat \<Rightarrow> bool \<Rightarrow> uart_driver_api option \<Rightarrow> u8 list \<Rightarrow> uart_sys \<Rightarrow> uart_sys option" where
  "write_loop 0 ready port buf s = Some s"
| "write_loop (Suc n) ready port buf s =
     (case port of
        None \<Rightarrow> write_loop n ready port buf s
      | Some api \<Rightarrow>
          if ready then
            case uart_poll_out api (hd buf) s of
              None \<Rightarrow> None
            | Some s \<Rightarrow> write_loop n ready port (tl buf) s
          else write_loop n ready port buf s)"

definition console_write :: "bool \<Rightarrow> uart_driver_api option \<Rightarrow> u8 list \<Rightarrow> uart_sys \<Rightarrow> (nat \<times> uart_sys) option" where
  "console_write ready port buf s = map_option (\<lambda>s. (length buf, s)) (write_loop (length buf) ready port buf s)"

section \<open>Lemmas\<close>

text \<open>The port as an environment of the polled output.  \<open>sent u\<close> are the bytes that have left on the line: the port sends
  from the front of its queue, keeps the line state consistent with it, and empties it some time.\<close>

locale uart_line =
  fixes io :: "uarts \<Rightarrow> uarts" and p :: addr and sent :: "uarts \<Rightarrow> u8 list"
  assumes line_front: "\<exists>k. tx_fifo (io u p) = drop k (tx_fifo (u p)) \<and> sent (io u) = sent u @ take k (tx_fifo (u p))"
    and line_state: "LSR (io u p) AND UART_LINE_TX_ALL_EMP \<noteq> 0 \<longleftrightarrow> tx_fifo (io u p) = []"
    and line_empties: "\<exists>n. tx_fifo ((io ^^ Suc n) u p) = []"
    and line_queue: "sent (hal_uart_tx p c u) = sent u"
begin

lemma line_stream: "sent (io u) @ tx_fifo (io u p) = sent u @ tx_fifo (u p)"
  using line_front [of u] by auto

lemma wait_empties:
  "tx_fifo ((io ^^ Suc n) u p) = [] \<Longrightarrow>
   \<exists>u'. poll_out_wait io p u = Some u' \<and> tx_fifo (u' p) = [] \<and> sent u' = sent u @ tx_fifo (u p)"
proof (induction n arbitrary: u)
  case 0
  then show ?case
    using line_state [of u] line_stream [of u]
    by (subst poll_out_wait.simps) (auto simp: hal_uart_get_line_state_def)
next
  case (Suc n)
  show ?case
  proof (cases "tx_fifo (io u p) = []")
    case True
    then show ?thesis
      using line_state [of u] line_stream [of u]
      by (subst poll_out_wait.simps) (auto simp: hal_uart_get_line_state_def)
  next
    case False
    have "tx_fifo ((io ^^ Suc n) (io u) p) = []" using Suc.prems by (simp add: funpow_swap1)
    from Suc.IH [OF this] False line_state [of u] line_stream [of u] show ?thesis
      by (subst poll_out_wait.simps) (auto simp: hal_uart_get_line_state_def)
  qed
qed

lemma poll_out_sends:
  "\<exists>u'. uart_wch_poll_out io p c u = Some u' \<and> tx_fifo (u' p) = [c] \<and> sent u' = sent u @ tx_fifo (u p)"
proof -
  obtain n where "tx_fifo ((io ^^ Suc n) u p) = []" using line_empties by blast
  from wait_empties [OF this] obtain u' where
    "poll_out_wait io p u = Some u'" "tx_fifo (u' p) = []" "sent u' = sent u @ tx_fifo (u p)" by blast
  then show ?thesis
    by (intro exI [of _ "hal_uart_tx p c u'"]) (simp add: uart_wch_poll_out_def line_queue, simp add: hal_uart_tx_def)
qed

lemma write_loop_sends:
  "\<exists>t. write_loop (length bs) True (Some (uart_wch_driver_api support io fsys uart0 p)) bs s = Some t \<and>
     sent (ports t) @ tx_fifo (ports t p) = sent (ports s) @ tx_fifo (ports s p) @ bs"
proof (induction bs arbitrary: s)
  case Nil
  then show ?case by simp
next
  case (Cons b bs)
  obtain u' where u': "uart_wch_poll_out io p b (ports s) = Some u'" "tx_fifo (u' p) = [b]"
    "sent u' = sent (ports s) @ tx_fifo (ports s p)" using poll_out_sends by blast
  then have "uart_poll_out (uart_wch_driver_api support io fsys uart0 p) b s = Some (s\<lparr>ports := u'\<rparr>)"
    by (simp add: uart_poll_out_def uart_wch_driver_api_def)
  with Cons.IH [of "s\<lparr>ports := u'\<rparr>"] u' show ?case by auto
qed

end

interpretation wire: uart_line "wire_step UART1 UART2" UART1 "\<lambda>u. rx_fifo (u UART2)"
proof unfold_locales
  have ne: "UART1 \<noteq> UART2" by (simp add: UART1_def UART2_def)
  show "\<exists>k. tx_fifo (wire_step UART1 UART2 u UART1) = drop k (tx_fifo (u UART1)) \<and>
      rx_fifo (wire_step UART1 UART2 u UART2) = rx_fifo (u UART2) @ take k (tx_fifo (u UART1))" for u
    using ne by (intro exI [of _ 1]) (simp add: wire_step_def Let_def drop_Suc)
  show "LSR (wire_step UART1 UART2 u UART1) AND UART_LINE_TX_ALL_EMP \<noteq> 0 \<longleftrightarrow>
      tx_fifo (wire_step UART1 UART2 u UART1) = []" for u
    by (simp add: wire_step_def Let_def UART_LINE_TX_ALL_EMP_def)
  show "\<exists>n. tx_fifo ((wire_step UART1 UART2 ^^ Suc n) u UART1) = []" for u
    by (intro exI [of _ "length (tx_fifo (u UART1))"]) (simp only: wire_step_queue [OF ne], simp)
  show "rx_fifo (hal_uart_tx UART1 c u UART2) = rx_fifo (u UART2)" for c u
    using ne by (simp add: hal_uart_tx_def)
qed

section \<open>Properties\<close>

text \<open>C28: console output is complete and in order.  If the debug port is ready and its line sends what is in the queue
  (from the front, with a line state that tells when the queue is empty, which happens some time), then \<open>_write\<close>
  returns the size of the buffer, and the bytes sent followed by the byte still in the queue are what was sent and
  queued before followed by exactly the buffer.\<close>

theorem console_write_sends:
  assumes "\<And>u. \<exists>k. tx_fifo (io u p) = drop k (tx_fifo (u p)) \<and> sent (io u) = sent u @ take k (tx_fifo (u p))"
    and "\<And>u. LSR (io u p) AND UART_LINE_TX_ALL_EMP \<noteq> 0 \<longleftrightarrow> tx_fifo (io u p) = []"
    and "\<And>u. \<exists>n. tx_fifo ((io ^^ Suc n) u p) = []" and "\<And>c u. sent (hal_uart_tx p c u) = sent u"
  shows "\<exists>t. console_write True (Some (uart_wch_driver_api support io fsys uart0 p)) buf s = Some (length buf, t) \<and>
    sent (ports t) @ tx_fifo (ports t p) = sent (ports s) @ tx_fifo (ports s p) @ buf"
proof -
  have "uart_line io p sent" using assms by (rule uart_line.intro)
  from uart_line.write_loop_sends [OF this, of buf support fsys uart0 s] show ?thesis
    by (auto simp: console_write_def)
qed

lemma console_write_sends_witness:
  "\<exists>t. console_write True (Some (uart_wch_driver_api True (wire_step UART1 UART2) 60000000 False UART1)) [72, 105]
      \<lparr>ports = uarts_reset, dev_data = \<lparr>callback = NULL, cb_data = NULL\<rparr>\<rparr> = Some (2, t) \<and>
    rx_fifo (ports t UART2) @ tx_fifo (ports t UART1) = [72, 105]"
proof -
  let ?s = "\<lparr>ports = uarts_reset, dev_data = \<lparr>callback = NULL, cb_data = NULL\<rparr>\<rparr>"
  have "\<exists>t. console_write True (Some (uart_wch_driver_api True (wire_step UART1 UART2) 60000000 False UART1)) [72, 105] ?s =
      Some (length [72, 105 :: u8], t) \<and>
    rx_fifo (ports t UART2) @ tx_fifo (ports t UART1) =
      rx_fifo (ports ?s UART2) @ tx_fifo (ports ?s UART1) @ [72, 105]"
    by (rule console_write_sends [where sent = "\<lambda>u. rx_fifo (u UART2)"])
      (fact wire.line_front wire.line_state wire.line_empties wire.line_queue)+
  then show ?thesis by (simp add: uarts_reset_def flip: numeral_2_eq_2)
qed

text \<open>Without a ready port the output is dropped, and the caller is still told that all of it was written.\<close>

lemma console_write_drops:
  "port = None \<or> \<not> ready \<Longrightarrow> console_write ready port buf s = Some (length buf, s)"
proof -
  assume "port = None \<or> \<not> ready"
  then have "write_loop n ready port bs s = Some s" for n bs
    by (induction n arbitrary: bs) (auto split: option.splits)
  then show ?thesis by (simp add: console_write_def)
qed

text \<open>The options \<open>CONFIG_WCH_UART_n\<close> that guard the interrupt handlers are not options of the build configuration, so that they are
  never set: the first interrupt of a port ends in the endless loop of the start code, also when a callback is
  registered.\<close>

lemma UART_IRQHandler_not_built: "UART_IRQHandler support False run s = None"
  by (simp add: UART_IRQHandler_def)

end
