(* ===== verification/Bt_Host.thy ===== *)
theory Bt_Host
  imports Prelude
begin

text \<open>
  The Bluetooth host layer: \<^verbatim>\<open>subsys/bluetooth/host/process.c\<close>, \<^verbatim>\<open>subsys/bluetooth/host/gatt.c\<close>,
  \<^verbatim>\<open>subsys/bluetooth/bt_init.c\<close> and the event handling of \<^verbatim>\<open>subsys/bluetooth/hal/hal.c\<close>.

  The binary library is the argument \<open>lib\<close>: it takes a call with its arguments and a state of any type to a result and
  a new state.  Pointers to callback tables are addresses.  The message queue of the library is the argument
  \<open>receive\<close>: the address of the next message or a null pointer.
\<close>

section \<open>The library\<close>

datatype host_call =
    Process_register
  | Broadcaster_init | Broadcaster_start addr
  | Observer_init | Observer_start addr
  | Peripheral_init | Peripheral_start u8 addr addr
  | Central_init | Central_start u8 addr addr
  | Ggs_add_service u32 | Serv_app_add_service u32
  | Register_service addr u32 u32 addr | Init_char_cfg u16 addr
  | Msg_receive u8 | Msg_deallocate addr
  | Timer_init addr | Start_reload_task u8 u16 u32
  | Reg_init | Lsi_calibrate

type_synonym 'l host_lib = "host_call \<Rightarrow> 'l \<Rightarrow> u32 \<times> 'l"

definition EACCES :: int where "EACCES = 13"
definition SYS_EVENT_MSG :: u16 where "SYS_EVENT_MSG = 0x8000"
definition TASK_NO_TASK :: u8 where "TASK_NO_TASK = 0xFF"
definition INVALID_TASK_ID :: u8 where "INVALID_TASK_ID = 0xFF"
definition GAP_PROFILE_BROADCASTER :: u8 where "GAP_PROFILE_BROADCASTER = 0x01"
definition GAP_PROFILE_OBSERVER :: u8 where "GAP_PROFILE_OBSERVER = 0x02"
definition GAP_PROFILE_PERIPHERAL :: u8 where "GAP_PROFILE_PERIPHERAL = 0x04"
definition GAP_PROFILE_CENTRAL :: u8 where "GAP_PROFILE_CENTRAL = 0x08"
definition GATT_ALL_SERVICES :: u32 where "GATT_ALL_SERVICES = 0xFFFFFFFF"
definition GATT_MAX_ENCRYPT_KEY_SIZE :: u32 where "GATT_MAX_ENCRYPT_KEY_SIZE = 16"

section \<open>Roles\<close>

record 'l host =
  ble_taskid :: u8
  is_device_started :: bool
  gap_broadcaster_cb :: addr
  gap_observer_cb :: addr
  gap_peripheral_cb :: addr
  gap_centerl_cb :: addr
  gap_bond_cb :: addr
  host_machine :: machine
  host_lib_state :: 'l

definition host_initial :: "machine \<Rightarrow> 'l \<Rightarrow> 'l host" where
  "host_initial m l = \<lparr>ble_taskid = TASK_NO_TASK, is_device_started = False, gap_broadcaster_cb = NULL,
     gap_observer_cb = NULL, gap_peripheral_cb = NULL, gap_centerl_cb = NULL, gap_bond_cb = NULL,
     host_machine = m, host_lib_state = l\<rparr>"

definition ble_gap_role_cb_register :: "addr \<Rightarrow> 'l host \<Rightarrow> int \<times> 'l host" where
  "ble_gap_role_cb_register cb s =
     (if is_device_started s then (- EACCES, s) else (0, s\<lparr>gap_peripheral_cb := cb\<rparr>))"

definition ble_gap_bond_cb_register :: "addr \<Rightarrow> 'l host \<Rightarrow> int \<times> 'l host" where
  "ble_gap_bond_cb_register cb s =
     (if is_device_started s then (- EACCES, s) else (0, s\<lparr>gap_bond_cb := cb\<rparr>))"

definition call :: "'l host_lib \<Rightarrow> host_call \<Rightarrow> 'l host \<Rightarrow> u32 \<times> 'l host" where
  "call lib c s = (let (r, l) = lib c (host_lib_state s) in (r, s\<lparr>host_lib_state := l\<rparr>))"

text \<open>\<open>ret |= call\<close>; the status of the library is a byte.\<close>

definition ret_or :: "'l host_lib \<Rightarrow> host_call \<Rightarrow> u8 \<times> 'l host \<Rightarrow> u8 \<times> 'l host" where
  "ret_or lib c x = (let (st, s) = call lib c (snd x) in (fst x OR ucast st, s))"

definition host_assert :: "bool \<Rightarrow> 'l host \<Rightarrow> 'l host" where
  "host_assert test s = s\<lparr>host_machine := ASSERT_NO_MSG test (host_machine s)\<rparr>"

text \<open>One of the four blocks: the role is initialised and started, and the statuses are asserted.\<close>

definition start_role ::
  "'l host_lib \<Rightarrow> bool \<Rightarrow> host_call \<Rightarrow> ('l host \<Rightarrow> host_call) \<Rightarrow> u8 \<times> 'l host \<Rightarrow> u8 \<times> 'l host" where
  "start_role lib selected init start x =
     (if selected then
        let x = ret_or lib init x;
            x = ret_or lib (start (snd x)) x
        in (fst x, host_assert (fst x = 0) (snd x))
      else x)"

definition ble_process_init :: "'l host_lib \<Rightarrow> u8 \<Rightarrow> 'l host \<Rightarrow> u8 \<times> 'l host" where
  "ble_process_init lib role s =
     (let (task, s) = call lib Process_register s;
          s = s\<lparr>ble_taskid := ucast task\<rparr>;
          s = host_assert (ble_taskid s \<noteq> TASK_NO_TASK) s;
          x = (0, s);
          x = start_role lib (role AND GAP_PROFILE_BROADCASTER \<noteq> 0) Broadcaster_init
                (\<lambda>s. Broadcaster_start (gap_broadcaster_cb s)) x;
          x = start_role lib (role AND GAP_PROFILE_OBSERVER \<noteq> 0) Observer_init
                (\<lambda>s. Observer_start (gap_observer_cb s)) x;
          x = start_role lib (role AND GAP_PROFILE_PERIPHERAL \<noteq> 0) Peripheral_init
                (\<lambda>s. Peripheral_start (ble_taskid s) (gap_bond_cb s) (gap_peripheral_cb s)) x;
          x = start_role lib (role AND GAP_PROFILE_CENTRAL \<noteq> 0) Central_init
                (\<lambda>s. Central_start (ble_taskid s) (gap_bond_cb s) (gap_centerl_cb s)) x;
          (ret, s) = x
      in (ret, if ret = 0 then s\<lparr>is_device_started := True\<rparr> else s))"

section \<open>Events\<close>

text \<open>Both task handlers: a waiting message is taken, looked at (all cases of the switches are empty) and released; the
  event bit is cleared from the result.  Other events of the host task are dropped.\<close>

definition take_message :: "'l host_lib \<Rightarrow> u8 \<Rightarrow> 'l \<Rightarrow> 'l" where
  "take_message lib task l =
     (let (pMsg, l) = lib (Msg_receive task) l
      in if pMsg \<noteq> NULL then snd (lib (Msg_deallocate pMsg) l) else l)"

definition ble_process_event :: "'l host_lib \<Rightarrow> u16 \<Rightarrow> 'l host \<Rightarrow> u16 \<times> 'l host" where
  "ble_process_event lib event s =
     (if event AND SYS_EVENT_MSG \<noteq> 0
      then (event XOR SYS_EVENT_MSG, s\<lparr>host_lib_state := take_message lib (ble_taskid s) (host_lib_state s)\<rparr>)
      else (0, s))"

definition HAL_REG_INIT_EVENT :: u16 where "HAL_REG_INIT_EVENT = push_bit 0 1"

text \<open>\<open>calibration\<close> is \<open>CONFIG_BT_CALIBRATION\<close>, \<open>lsi\<close> the choice of an internal low-speed clock.\<close>

definition ble_hal_process_event :: "'l host_lib \<Rightarrow> bool \<Rightarrow> bool \<Rightarrow> u8 \<Rightarrow> u16 \<Rightarrow> 'l \<Rightarrow> u16 \<times> 'l" where
  "ble_hal_process_event lib calibration lsi task events l =
     (if events AND SYS_EVENT_MSG \<noteq> 0 then (events XOR SYS_EVENT_MSG, take_message lib task l)
      else if calibration \<and> events AND HAL_REG_INIT_EVENT \<noteq> 0 then
        let l = snd (lib Reg_init l);
            l = (if lsi then snd (lib Lsi_calibrate l) else l)
        in (events XOR HAL_REG_INIT_EVENT, l)
      else (0, l))"

definition SYSTEM_TIME_MICROSEN :: u32 where "SYSTEM_TIME_MICROSEN = 625"

definition MS1_TO_SYSTEM_TIME :: "u32 \<Rightarrow> u32" where
  "MS1_TO_SYSTEM_TIME x = x * 1000 div SYSTEM_TIME_MICROSEN"

text \<open>\<open>wakeup\<close> is \<open>pm_device_wakeup_enable\<close> on the RTC with the query that follows it, when \<open>CONFIG_PM\<close> is set.\<close>

definition ble_hal_init ::
  "'l host_lib \<Rightarrow> bool \<Rightarrow> u32 \<Rightarrow> bool option \<Rightarrow> 'l host \<Rightarrow> u8 \<times> 'l host" where
  "ble_hal_init lib calibration period wakeup s =
     (let (task, s) = call lib Process_register s;
          ble_hal_taskid = ucast task :: u8;
          s = host_assert (ble_hal_taskid \<noteq> INVALID_TASK_ID) s;
          (_, s) = call lib (Timer_init NULL) s;
          s = (if calibration
               then snd (call lib (Start_reload_task ble_hal_taskid HAL_REG_INIT_EVENT (MS1_TO_SYSTEM_TIME period)) s)
               else s);
          s = (case wakeup of None \<Rightarrow> s | Some enabled \<Rightarrow> host_assert enabled s)
      in (ble_hal_taskid, s))"

section \<open>Attributes\<close>

definition ble_gatt_init :: "'l host_lib \<Rightarrow> 'l host \<Rightarrow> u8 \<times> 'l host" where
  "ble_gatt_init lib s =
     ret_or lib (Serv_app_add_service GATT_ALL_SERVICES) (ret_or lib (Ggs_add_service GATT_ALL_SERVICES) (0, s))"

definition ble_gatt_service_add :: "'l host_lib \<Rightarrow> addr \<Rightarrow> u32 \<Rightarrow> addr \<Rightarrow> 'l host \<Rightarrow> u32 \<times> 'l host" where
  "ble_gatt_service_add lib attrs attrs_size service_cb s =
     call lib (Register_service attrs attrs_size GATT_MAX_ENCRYPT_KEY_SIZE service_cb) s"

section \<open>Start of the stack\<close>

text \<open>The build options that \<open>ble_init\<close> reads.  A callback is an address; the low-speed clock is one of three.\<close>

datatype lowspeed = LSE_32768 | LSI_32000 | LSI_32768

record bt_config =
  BT_STACK_SIZE :: u32
  BT_L2CAP_TX_SIZE :: u32
  BT_L2CAP_BUF_NUM :: u32
  BT_L2CAP_TX_EVENT_NUM :: u32
  BT_TX_POWER :: u32
  BT_SNV_ADDR :: "u32 option"
  BT_LOWSPEED :: lowspeed
  BT_PERIPHERAL_MAX_CONNECTION :: u32
  BT_CENTRAL_MAX_CONNECTION :: u32
  BT_TEMP_SAMPLE :: bool
  BT_PM :: bool

record bleConfig =
  MEMAddr :: u32
  MEMLen :: u16
  SNVAddr :: u32
  BufMaxLen :: u8
  BufNumber :: u8
  TxNumEvent :: u8
  TxPower :: u8
  WakeUpTime :: u8
  SelRTCClock :: u8
  MacAddr :: "u8 list"
  ConnectNumber :: u8
  srandCB :: addr
  sleepCB :: addr
  tsCB :: addr
  rcCB :: addr
  readFlashCB :: addr
  writeFlashCB :: addr

text \<open>The addresses of the functions and of the heap.\<close>

record bt_symbols =
  bt_heap :: addr
  sym_ble_flash_read :: addr
  sym_ble_flash_write :: addr
  sym_sys_rand32_get :: addr
  sym_ble_hal_get_inter_temp :: addr
  sym_ble_hal_lsi_calibrate :: addr
  sym_pm_system_suspend :: addr

text \<open>\<open>CONFIG_BT_SNV\<close> with an address that is not zero.\<close>

definition snv_on :: "bt_config \<Rightarrow> bool" where
  "snv_on c \<longleftrightarrow> (case BT_SNV_ADDR c of None \<Rightarrow> False | Some a \<Rightarrow> a \<noteq> 0)"

definition ble_config :: "bt_config \<Rightarrow> bt_symbols \<Rightarrow> u8 list \<Rightarrow> bleConfig" where
  "ble_config c y mac =
     \<lparr>MEMAddr = bt_heap y,
      MEMLen = ucast (BT_STACK_SIZE c),
      SNVAddr = (if snv_on c then the (BT_SNV_ADDR c) else 0),
      BufMaxLen = ucast (BT_L2CAP_TX_SIZE c),
      BufNumber = ucast (BT_L2CAP_BUF_NUM c),
      TxNumEvent = ucast (BT_L2CAP_TX_EVENT_NUM c),
      TxPower = ucast (BT_TX_POWER c),
      WakeUpTime = (if BT_PM c then 1 else 0),
      SelRTCClock = (case BT_LOWSPEED c of LSE_32768 \<Rightarrow> 0 | LSI_32000 \<Rightarrow> push_bit 0 1 | LSI_32768 \<Rightarrow> push_bit 1 1),
      MacAddr = mac,
      ConnectNumber = ucast ((BT_PERIPHERAL_MAX_CONNECTION c AND 3) OR push_bit 2 (BT_CENTRAL_MAX_CONNECTION c)),
      srandCB = sym_sys_rand32_get y,
      sleepCB = (if BT_PM c then sym_pm_system_suspend y else NULL),
      tsCB = (if BT_TEMP_SAMPLE c then sym_ble_hal_get_inter_temp y else NULL),
      rcCB = (if BT_TEMP_SAMPLE c \<and> BT_LOWSPEED c \<noteq> LSE_32768 then sym_ble_hal_lsi_calibrate y else NULL),
      readFlashCB = (if snv_on c then sym_ble_flash_read y else NULL),
      writeFlashCB = (if snv_on c then sym_ble_flash_write y else NULL)\<rparr>"

text \<open>\<open>versions\<close> is the comparison of the header's version string with the library's, \<open>lib_init\<close> the library's start
  function.  \<open>None\<close> means that one of the endless loops is reached.\<close>

definition ble_init ::
  "bt_config \<Rightarrow> bt_symbols \<Rightarrow> u8 list \<Rightarrow> bool \<Rightarrow> (bleConfig \<Rightarrow> 'l \<Rightarrow> u8 \<times> 'l) \<Rightarrow> 'l host \<Rightarrow> 'l host option" where
  "ble_init c y mac versions lib_init s =
     (if \<not> versions then None
      else
        let cfg = ble_config c y mac;
            s = host_assert (MEMAddr cfg \<noteq> 0) s;
            s = host_assert (4 * 1024 \<le> MEMLen cfg) s
        in if MEMAddr cfg = 0 \<or> MEMLen cfg < 4 * 1024 then None
           else
             let (ret, l) = lib_init cfg (host_lib_state s);
                 s = host_assert (ret = 0) (s\<lparr>host_lib_state := l\<rparr>)
             in if ret \<noteq> 0 then None else Some s)"

section \<open>Lemmas\<close>

text \<open>A sequence of library calls whose statuses are or-ed.\<close>

primrec run_host :: "'l host_lib \<Rightarrow> host_call list \<Rightarrow> u8 \<times> 'l \<Rightarrow> u8 \<times> 'l" where
  "run_host lib [] x = x"
| "run_host lib (c # cs) x = run_host lib cs (let (st, l) = lib c (snd x) in (fst x OR ucast st, l))"

lemma run_host_append: "run_host lib (xs @ ys) x = run_host lib ys (run_host lib xs x)"
  by (induction xs arbitrary: x) simp_all

text \<open>The part of the host's variables that the start of the roles leaves alone.\<close>

definition host_cbs :: "'l host \<Rightarrow> u8 \<times> bool \<times> addr \<times> addr \<times> addr \<times> addr \<times> addr" where
  "host_cbs s = (ble_taskid s, is_device_started s, gap_broadcaster_cb s, gap_observer_cb s, gap_peripheral_cb s,
     gap_centerl_cb s, gap_bond_cb s)"

definition role_calls :: "bool \<Rightarrow> host_call \<Rightarrow> host_call \<Rightarrow> host_call list" where
  "role_calls selected init start = (if selected then [init, start] else [])"

lemma ret_or_cbs [simp]: "host_cbs (snd (ret_or lib c x)) = host_cbs (snd x)"
  by (simp add: ret_or_def call_def host_cbs_def split_beta)

lemma ret_or_run: "(fst (ret_or lib c x), host_lib_state (snd (ret_or lib c x))) =
    run_host lib [c] (fst x, host_lib_state (snd x))"
  by (simp add: ret_or_def call_def split_beta)

lemma host_assert_fields [simp]:
  "host_cbs (host_assert b s) = host_cbs s" "host_lib_state (host_assert b s) = host_lib_state s"
  by (simp_all add: host_assert_def host_cbs_def)

lemma start_role_cbs [simp]: "host_cbs (snd (start_role lib sel init start x)) = host_cbs (snd x)"
  by (simp add: start_role_def Let_def)

lemma start_role_run:
  assumes "start (snd (ret_or lib init x)) = c"
  shows "(fst (start_role lib sel init start x), host_lib_state (snd (start_role lib sel init start x))) =
    run_host lib (role_calls sel init c) (fst x, host_lib_state (snd x))"
  using assms ret_or_run [of lib init x] ret_or_run [of lib c "ret_or lib init x"]
  by (simp add: start_role_def role_calls_def Let_def)

definition init_calls :: "u8 \<Rightarrow> u8 \<Rightarrow> 'l host \<Rightarrow> host_call list" where
  "init_calls role task s =
     role_calls (role AND GAP_PROFILE_BROADCASTER \<noteq> 0) Broadcaster_init (Broadcaster_start (gap_broadcaster_cb s)) @
     role_calls (role AND GAP_PROFILE_OBSERVER \<noteq> 0) Observer_init (Observer_start (gap_observer_cb s)) @
     role_calls (role AND GAP_PROFILE_PERIPHERAL \<noteq> 0) Peripheral_init
       (Peripheral_start task (gap_bond_cb s) (gap_peripheral_cb s)) @
     role_calls (role AND GAP_PROFILE_CENTRAL \<noteq> 0) Central_init
       (Central_start task (gap_bond_cb s) (gap_centerl_cb s))"

lemma process_init_keeps:
  "gap_peripheral_cb (snd (ble_process_init lib role s)) = gap_peripheral_cb s"
  "gap_bond_cb (snd (ble_process_init lib role s)) = gap_bond_cb s"
  "is_device_started s \<Longrightarrow> is_device_started (snd (ble_process_init lib role s))"
proof -
  define s1 where "s1 = host_assert (ble_taskid (snd (call lib Process_register s)\<lparr>ble_taskid :=
      ucast (fst (call lib Process_register s))\<rparr>) \<noteq> TASK_NO_TASK) (snd (call lib Process_register s)\<lparr>ble_taskid :=
      ucast (fst (call lib Process_register s))\<rparr>)"
  obtain ret t where t: "ble_process_init lib role s = (ret, if ret = 0 then t\<lparr>is_device_started := True\<rparr> else t)"
    "host_cbs t = host_cbs s1"
  proof
    let ?x = "start_role lib (role AND GAP_PROFILE_CENTRAL \<noteq> 0) Central_init
      (\<lambda>s. Central_start (ble_taskid s) (gap_bond_cb s) (gap_centerl_cb s))
      (start_role lib (role AND GAP_PROFILE_PERIPHERAL \<noteq> 0) Peripheral_init
      (\<lambda>s. Peripheral_start (ble_taskid s) (gap_bond_cb s) (gap_peripheral_cb s))
      (start_role lib (role AND GAP_PROFILE_OBSERVER \<noteq> 0) Observer_init (\<lambda>s. Observer_start (gap_observer_cb s))
      (start_role lib (role AND GAP_PROFILE_BROADCASTER \<noteq> 0) Broadcaster_init
      (\<lambda>s. Broadcaster_start (gap_broadcaster_cb s)) (0, s1))))"
    show "ble_process_init lib role s =
        (fst ?x, if fst ?x = 0 then (snd ?x)\<lparr>is_device_started := True\<rparr> else snd ?x)"
      by (simp add: ble_process_init_def Let_def split_beta s1_def)
    show "host_cbs (snd ?x) = host_cbs s1" by simp
  qed
  moreover have "gap_peripheral_cb s1 = gap_peripheral_cb s" "gap_bond_cb s1 = gap_bond_cb s"
    "is_device_started s1 = is_device_started s"
    by (simp_all add: s1_def host_assert_def call_def split_beta)
  ultimately show "gap_peripheral_cb (snd (ble_process_init lib role s)) = gap_peripheral_cb s"
    "gap_bond_cb (snd (ble_process_init lib role s)) = gap_bond_cb s"
    "is_device_started s \<Longrightarrow> is_device_started (snd (ble_process_init lib role s))"
    by (auto simp: host_cbs_def)
qed

section \<open>Properties\<close>

text \<open>C29: starting the host registers its task and then initialises and starts exactly the roles that are asked for, in the
  order broadcaster, observer, peripheral, central, each with the callbacks that are registered at that time; the
  result is the disjunction of the statuses, and the device counts as started exactly if all of them are zero (or it
  was started before).  A failure of one role does not keep the later ones from being started.\<close>

theorem ble_process_init_calls:
  fixes lib :: "'l host_lib" and role :: u8 and s :: "'l host"
  defines "r0 \<equiv> lib Process_register (host_lib_state s)"
  defines "task \<equiv> ucast (fst r0) :: u8"
  defines "r \<equiv> run_host lib (init_calls role task s) (0, snd r0)"
  shows "\<exists>t. ble_process_init lib role s = (fst r, t) \<and> host_lib_state t = snd r \<and> ble_taskid t = task \<and>
    (is_device_started t \<longleftrightarrow> is_device_started s \<or> fst r = 0) \<and>
    gap_peripheral_cb t = gap_peripheral_cb s \<and> gap_bond_cb t = gap_bond_cb s"
proof -
  define s1 where "s1 = host_assert (task \<noteq> TASK_NO_TASK) (s\<lparr>host_lib_state := snd r0, ble_taskid := task\<rparr>)"
  have h1: "host_cbs s1 = (task, is_device_started s, gap_broadcaster_cb s, gap_observer_cb s, gap_peripheral_cb s,
      gap_centerl_cb s, gap_bond_cb s)" "host_lib_state s1 = snd r0"
    by (simp_all add: s1_def host_cbs_def host_assert_def)
  define x1 where "x1 = start_role lib (role AND GAP_PROFILE_BROADCASTER \<noteq> 0) Broadcaster_init
    (\<lambda>s. Broadcaster_start (gap_broadcaster_cb s)) (0, s1)"
  define x2 where "x2 = start_role lib (role AND GAP_PROFILE_OBSERVER \<noteq> 0) Observer_init
    (\<lambda>s. Observer_start (gap_observer_cb s)) x1"
  define x3 where "x3 = start_role lib (role AND GAP_PROFILE_PERIPHERAL \<noteq> 0) Peripheral_init
    (\<lambda>s. Peripheral_start (ble_taskid s) (gap_bond_cb s) (gap_peripheral_cb s)) x2"
  define x4 where "x4 = start_role lib (role AND GAP_PROFILE_CENTRAL \<noteq> 0) Central_init
    (\<lambda>s. Central_start (ble_taskid s) (gap_bond_cb s) (gap_centerl_cb s)) x3"
  have cbs: "host_cbs (snd x1) = host_cbs s1" "host_cbs (snd x2) = host_cbs s1" "host_cbs (snd x3) = host_cbs s1"
    "host_cbs (snd x4) = host_cbs s1"
    by (simp_all add: x4_def x3_def x2_def x1_def)
  have e1: "(fst x1, host_lib_state (snd x1)) = run_host lib (role_calls (role AND GAP_PROFILE_BROADCASTER \<noteq> 0)
       Broadcaster_init (Broadcaster_start (gap_broadcaster_cb s))) (0, snd r0)"
    unfolding x1_def using h1 ret_or_cbs [of lib Broadcaster_init "(0, s1)"]
    by (subst start_role_run) (auto simp: host_cbs_def)
  have e2: "(fst x2, host_lib_state (snd x2)) = run_host lib (role_calls (role AND GAP_PROFILE_OBSERVER \<noteq> 0)
       Observer_init (Observer_start (gap_observer_cb s))) (fst x1, host_lib_state (snd x1))"
    unfolding x2_def using h1 cbs(1) ret_or_cbs [of lib Observer_init x1]
    by (subst start_role_run) (auto simp: host_cbs_def)
  have e3: "(fst x3, host_lib_state (snd x3)) = run_host lib (role_calls (role AND GAP_PROFILE_PERIPHERAL \<noteq> 0)
       Peripheral_init (Peripheral_start task (gap_bond_cb s) (gap_peripheral_cb s))) (fst x2, host_lib_state (snd x2))"
    unfolding x3_def using h1 cbs(2) ret_or_cbs [of lib Peripheral_init x2]
    by (subst start_role_run) (auto simp: host_cbs_def)
  have e4: "(fst x4, host_lib_state (snd x4)) = run_host lib (role_calls (role AND GAP_PROFILE_CENTRAL \<noteq> 0)
       Central_init (Central_start task (gap_bond_cb s) (gap_centerl_cb s))) (fst x3, host_lib_state (snd x3))"
    unfolding x4_def using h1 cbs(3) ret_or_cbs [of lib Central_init x3]
    by (subst start_role_run) (auto simp: host_cbs_def)
  have "(fst x4, host_lib_state (snd x4)) = r"
    by (simp only: e4 e3 e2 e1 r_def init_calls_def run_host_append)
  moreover have "ble_process_init lib role s =
      (fst x4, if fst x4 = 0 then (snd x4)\<lparr>is_device_started := True\<rparr> else snd x4)"
    by (simp add: ble_process_init_def call_def split_beta Let_def x4_def x3_def x2_def x1_def s1_def task_def r0_def)
  ultimately show ?thesis
    using cbs(4) h1(1) by (auto simp: host_cbs_def)
qed

text \<open>The operations of an application on the host, in any order.\<close>

datatype host_op = Register_role addr | Register_bond addr | Start_host u8

fun host_exec :: "'l host_lib \<Rightarrow> host_op \<Rightarrow> 'l host \<Rightarrow> 'l host" where
  "host_exec lib (Register_role cb) s = snd (ble_gap_role_cb_register cb s)"
| "host_exec lib (Register_bond cb) s = snd (ble_gap_bond_cb_register cb s)"
| "host_exec lib (Start_host role) s = snd (ble_process_init lib role s)"

text \<open>C30: once the device has been started, the callbacks are fixed: whatever operations follow, it stays started, the
  registered callbacks are the ones the library was given, and every further registration is refused with \<open>-EACCES\<close>.\<close>

theorem host_callbacks_fixed:
  assumes "is_device_started s"
  shows "is_device_started (fold (host_exec lib) ops s) \<and>
    gap_peripheral_cb (fold (host_exec lib) ops s) = gap_peripheral_cb s \<and>
    gap_bond_cb (fold (host_exec lib) ops s) = gap_bond_cb s \<and>
    fst (ble_gap_role_cb_register cb (fold (host_exec lib) ops s)) = - EACCES \<and>
    fst (ble_gap_bond_cb_register cb (fold (host_exec lib) ops s)) = - EACCES"
proof -
  have step: "is_device_started (host_exec lib x t) \<and> gap_peripheral_cb (host_exec lib x t) = gap_peripheral_cb t \<and>
      gap_bond_cb (host_exec lib x t) = gap_bond_cb t" if "is_device_started t" for x t
    using that process_init_keeps
    by (cases x) (auto simp: ble_gap_role_cb_register_def ble_gap_bond_cb_register_def)
  have "is_device_started (fold (host_exec lib) ops s) \<and>
    gap_peripheral_cb (fold (host_exec lib) ops s) = gap_peripheral_cb s \<and>
    gap_bond_cb (fold (host_exec lib) ops s) = gap_bond_cb s"
    using assms by (induction ops arbitrary: s) (simp_all add: step)
  then show ?thesis
    by (simp add: ble_gap_role_cb_register_def ble_gap_bond_cb_register_def)
qed

theorem host_callbacks_fixed_witness:
  "let s = (host_initial undefined ())\<lparr>is_device_started := True, gap_peripheral_cb := 0x20000100\<rparr>;
       t = fold (host_exec (\<lambda>c l. (0, l))) [Register_role 0x20000200, Register_bond 0x20000300] s
   in is_device_started s \<and> is_device_started t \<and> gap_peripheral_cb t = 0x20000100 \<and>
      fst (ble_gap_role_cb_register 0x20000200 t) = - 13"
  using host_callbacks_fixed [of "(host_initial undefined ())\<lparr>is_device_started := True, gap_peripheral_cb := 0x20000100\<rparr>"
      "\<lambda>c l. (0, l)" "[Register_role 0x20000200, Register_bond 0x20000300]" "0x20000200"]
  by (simp add: Let_def EACCES_def)

text \<open>\<open>ble_init\<close> returns exactly if the library fits the header, the heap has an address, its size modulo 65536 is at
  least 4096 and the library starts; the library is given the number of peripheral connections in the lower two bits
  and the number of central connections above.\<close>

theorem ble_init_returns:
  "ble_init c y mac versions lib_init s \<noteq> None \<longleftrightarrow>
     versions \<and> bt_heap y \<noteq> 0 \<and> 4096 \<le> unat (BT_STACK_SIZE c) mod 65536 \<and>
     fst (lib_init (ble_config c y mac) (host_lib_state s)) = 0"
proof -
  have "4096 \<le> (ucast (BT_STACK_SIZE c) :: u16) \<longleftrightarrow> 4096 \<le> unat (BT_STACK_SIZE c) mod 65536"
    by (simp add: word_le_nat_alt unsigned_ucast_eq take_bit_eq_mod)
  then show ?thesis
    by (auto simp: ble_init_def Let_def host_assert_def ble_config_def not_less split_beta)
qed

end
