(* ===== verification/Lsi.thy ===== *)
theory Lsi
  imports Complex_Main Soc "HOL-Library.Signed_Division"
begin

text \<open>
  Calibration of the internal low-speed oscillator of the CH57x, the last part of \<^verbatim>\<open>hal/ch57x/ch57x_hal_clk.c\<close>.

  The calibration counter counts the system clock over five periods of the oscillator and halts; it runs while the
  code polls: \<open>io\<close> is what the hardware does before each read of the control register.  The polling loops may run
  forever: \<open>None\<close>.  Numbers of type \<open>signed short\<close> are integers, with the conversions written out.  The slope is a
  \<open>float\<close>: a rational number, rounded after each operation to the 24 bits of a single precision number (53 for the
  constants of type \<open>double\<close>); none of the values comes near the ends of the exponent range.
\<close>

section \<open>Floating point\<close>

definition round_even :: "rat \<Rightarrow> int" where
  "round_even x =
     (let f = \<lfloor>x\<rfloor>; r = x - of_int f
      in if r < 1 / 2 \<or> r = 1 / 2 \<and> even f then f else f + 1)"

text \<open>The exponent of the leading bit, by counting up or down from 0; \<open>n\<close> bounds the number of steps.\<close>

fun exponent :: "nat \<Rightarrow> int \<Rightarrow> rat \<Rightarrow> int" where
  "exponent 0 e x = e"
| "exponent (Suc n) e x = (if x < 1 then exponent n (e - 1) (2 * x) else if 2 \<le> x then exponent n (e + 1) (x / 2) else e)"

definition round_bits :: "nat \<Rightarrow> rat \<Rightarrow> rat" where
  "round_bits p x =
     (if x = 0 then 0
      else let u = 2 powi (exponent 64 0 \<bar>x\<bar> - (int p - 1)) in of_int (round_even (x / u)) * u)"

definition to_float :: "rat \<Rightarrow> rat" where "to_float = round_bits 24"
definition to_double :: "rat \<Rightarrow> rat" where "to_double = round_bits 53"

text \<open>The conversion to \<open>signed short\<close> drops the fraction; out of range it is undefined.\<close>

definition float_to_short :: "rat \<Rightarrow> int option" where
  "float_to_short x =
     (let t = (if x < 0 then - \<lfloor>- x\<rfloor> else \<lfloor>x\<rfloor>) in if - 32768 \<le> t \<and> t < 32768 then Some t else None)"

definition to_short :: "int \<Rightarrow> int" where
  "to_short = signed_take_bit 15"

section \<open>The counter\<close>

record lsi =
  soc :: soc_regs
  R8_OSC_CAL_CTRL :: u8
  R16_OSC_CAL_CNT :: u16

definition RB_OSC_CNT_EN :: u8 where "RB_OSC_CNT_EN = 0x01"
definition RB_OSC_CNT_HALT :: u8 where "RB_OSC_CNT_HALT = 0x02"
definition RB_CLK_SYS_MOD :: u16 where "RB_CLK_SYS_MOD = 0xC0"

definition on_soc_regs :: "(soc_regs \<Rightarrow> soc_regs) \<Rightarrow> lsi \<Rightarrow> lsi" where
  "on_soc_regs f s = s\<lparr>soc := f (soc s)\<rparr>"

text \<open>A write to the protected control register; the halt bit is read only.\<close>

definition write_osc_cal_ctrl :: "u8 \<Rightarrow> lsi \<Rightarrow> lsi" where
  "write_osc_cal_ctrl v s =
     (if safe_act (soc s)
      then s\<lparr>R8_OSC_CAL_CTRL := (v AND NOT RB_OSC_CNT_HALT) OR (R8_OSC_CAL_CTRL s AND RB_OSC_CNT_HALT)\<rparr>
      else s)"

definition osc_halted :: "lsi \<Rightarrow> bool" where
  "osc_halted s \<longleftrightarrow> R8_OSC_CAL_CTRL s AND RB_OSC_CNT_HALT \<noteq> 0"

partial_function (option) poll_until :: "('s \<Rightarrow> 's) \<Rightarrow> ('s \<Rightarrow> bool) \<Rightarrow> bool \<Rightarrow> 's \<Rightarrow> 's option" where
  "poll_until io obs b s = (let s = io s in if obs s = b then Some s else poll_until io obs b s)"

definition wait_halt :: "(lsi \<Rightarrow> lsi) \<Rightarrow> bool \<Rightarrow> lsi \<Rightarrow> lsi option" where
  "wait_halt io b s = poll_until io osc_halted b s"

text \<open>Both measurements program a setting, wait for the end of the running count, drop its result, and wait for the end
  of a whole count: \<open>hal_lsi_get_calibrate_cnt_ram\<close>, whose statements the calibration in flash repeats.\<close>

definition set_tune :: "u16 \<Rightarrow> lsi \<Rightarrow> lsi" where
  "set_tune loc s =
     on_soc_regs (\<lambda>s. sys_safe_access_disable (rwa (\<lambda>s. s\<lparr>R16_INT32K_TUNE := loc\<rparr>) (sys_safe_access_enable s))) s"

definition hal_lsi_get_calibrate_cnt_ram :: "(lsi \<Rightarrow> lsi) \<Rightarrow> u16 \<Rightarrow> lsi \<Rightarrow> (u16 \<times> lsi) option" where
  "hal_lsi_get_calibrate_cnt_ram io loc s =
     Option.bind (wait_halt io True (set_tune loc s)) (\<lambda>s.
     Option.bind (wait_halt io False s) (\<lambda>s.
     Option.bind (wait_halt io True s) (\<lambda>s.
     Some (R16_OSC_CAL_CNT s, s))))"

section \<open>The search\<close>

text \<open>Nominal count and slope for the current system clock; \<open>rtc_freq\<close> is \<open>CONFIG_SOC_RTC_FREQ\<close>.  A divider of 0 has no
  quotient: \<open>None\<close>.\<close>

definition calibration_base :: "u32 \<Rightarrow> soc_regs \<Rightarrow> (u16 \<times> rat) option" where
  "calibration_base rtc_freq s =
     (let rev = R16_CLK_SYS_CFG s AND 0xff;
          dv = (ucast (rev AND 0x1f) :: u32);
          half = drop_bit 1 rtc_freq
      in if rev AND RB_CLK_SYS_MOD = push_bit 6 2
         then Some (ucast ((5 * 32000000 + half) div rtc_freq), to_float (to_double (- 16 / 10)))
         else if rev AND RB_CLK_SYS_MOD = push_bit 6 1
         then if dv = 0 then None
              else Some (ucast ((5 * 480000000 div dv + half) div rtc_freq),
                to_float (to_double (to_double (- 1 / 10) * of_nat (unat dv))))
         else if rev AND RB_CLK_SYS_MOD = 0
         then if dv = 0 then None
              else Some (ucast ((5 * 32000000 div dv + half) div rtc_freq),
                to_float (to_double (to_double (- 16 / 10) * of_nat (unat dv))))
         else Some (5, 0))"

text \<open>The deviation in ten-thousandths, before its conversion to the 16-bit result.\<close>

definition per_10000 :: "int \<Rightarrow> u16 \<Rightarrow> int option" where
  "per_10000 d basev = (if basev = 0 then None else Some (d * 10000 sdiv uint basev))"

definition deviation :: "u16 \<Rightarrow> u16 \<Rightarrow> int" where
  "deviation i basev = (if i > basev then uint i - uint basev else uint basev - uint i)"

record search =
  loc :: u16
  loc_t :: u16
  diff_2 :: int
  diffc :: int

text \<open>What one round decides: it returns, or goes on with new variables.\<close>

datatype round = Return int lsi | Next u16 search lsi

text \<open>The part of a round after the measurement \<open>i\<close>.\<close>

definition decide :: "rat \<Rightarrow> u16 \<Rightarrow> u16 \<Rightarrow> search \<Rightarrow> lsi \<Rightarrow> round option" where
  "decide K basev i v s =
     (let diff_1 = to_short (uint i - uint basev)
      in if diff_1 = 0 then Some (Return 0 s)
         else if diff_1 * diff_2 v < 0 \<and> (diffc v = 1 \<or> diffc v = - 1 \<or> diffc v = 0) then
           let d2 = (if diff_2 v < 0 then to_short (NOT (diff_2 v - 1)) else diff_2 v);
               d1 = (if diff_2 v < 0 then diff_1 else to_short (NOT (diff_1 - 1)))
           in if d1 > d2
              then Option.bind (per_10000 d2 basev) (\<lambda>r. Some (Return r (set_tune (loc_t v) s)))
              else Option.bind (per_10000 d1 basev) (\<lambda>r. Some (Return r s))
         else
           Option.bind (per_10000 (deviation i basev) basev) (\<lambda>r.
           if r < 11 then Some (Return r s)
           else
             Option.bind (float_to_short (to_float (of_int diff_1 * K))) (\<lambda>dc.
             let l = loc v - of_int dc;
                 l = (if l = loc v then if diff_1 > 0 then l + 1 else l - 1 else l)
             in Some (Next i \<lparr>loc = l, loc_t = loc v, diff_2 = diff_1, diffc = dc\<rparr> s))))"

text \<open>The loop makes at most as many rounds as its first argument says; \<open>save\<close> stores into the variable of the
  calibration, \<open>i\<close> is the last measurement.\<close>

primrec calibrate_loop ::
  "nat \<Rightarrow> (lsi \<Rightarrow> lsi) \<Rightarrow> (u16 \<Rightarrow> lsi \<Rightarrow> lsi) \<Rightarrow> rat \<Rightarrow> u16 \<Rightarrow> u16 \<Rightarrow> search \<Rightarrow> lsi \<Rightarrow> (u16 \<times> lsi) option" where
  "calibrate_loop 0 io save K basev i v s =
     Option.bind (per_10000 (deviation i basev) basev) (\<lambda>r. Some (of_int r, save (loc v) s))"
| "calibrate_loop (Suc n) io save K basev i v s =
     Option.bind (hal_lsi_get_calibrate_cnt_ram io (loc v) s) (\<lambda>(i, s).
     Option.bind (decide K basev i v (save (loc v) s)) (\<lambda>d.
     case d of
       Return r s \<Rightarrow> Some (of_int r, s)
     | Next i v s \<Rightarrow> calibrate_loop n io save K basev i v s))"

definition calibrate :: "(lsi \<Rightarrow> lsi) \<Rightarrow> u32 \<Rightarrow> u16 \<Rightarrow> (u16 \<Rightarrow> lsi \<Rightarrow> lsi) \<Rightarrow> lsi \<Rightarrow> (u16 \<times> lsi) option" where
  "calibrate io rtc_freq tune save s =
     Option.bind (calibration_base rtc_freq (soc s)) (\<lambda>(basev, K).
     let l = (if tune \<noteq> 0 then tune else 2048);
         s = on_soc_regs sys_safe_access_enable s;
         s = write_osc_cal_ctrl RB_OSC_CNT_EN s
     in calibrate_loop 20 io save K basev 0 \<lparr>loc = l, loc_t = 0, diff_2 = 0, diffc = 0\<rparr> s)"

definition hal_clk_lsi_calibrate_flash :: "(lsi \<Rightarrow> lsi) \<Rightarrow> u32 \<Rightarrow> lsi \<Rightarrow> (u16 \<times> lsi) option" where
  "hal_clk_lsi_calibrate_flash io rtc_freq s =
     calibrate io rtc_freq (int32k_tune_flash (soc s)) (\<lambda>l. on_soc_regs (\<lambda>s. s\<lparr>int32k_tune_flash := l\<rparr>)) s"

definition hal_clk_lsi_calibrate_ram :: "(lsi \<Rightarrow> lsi) \<Rightarrow> u32 \<Rightarrow> lsi \<Rightarrow> (u16 \<times> lsi) option" where
  "hal_clk_lsi_calibrate_ram io rtc_freq s =
     calibrate io rtc_freq (int32k_tune_ram (soc s)) (\<lambda>l. on_soc_regs (\<lambda>s. s\<lparr>int32k_tune_ram := l\<rparr>)) s"

definition hal_clk_lsi_calibrate :: "(lsi \<Rightarrow> lsi) \<Rightarrow> u32 \<Rightarrow> lsi \<Rightarrow> lsi option" where
  "hal_clk_lsi_calibrate io rtc_freq s =
     Option.bind (hal_clk_lsi_calibrate_flash io rtc_freq s) (\<lambda>(r, s).
     Option.bind (if r > 15 then map_option snd (hal_clk_lsi_calibrate_flash io rtc_freq s) else Some s) (\<lambda>s.
     Option.bind (hal_clk_lsi_calibrate_ram io rtc_freq s) (\<lambda>(r, s).
     if r > 15 then map_option snd (hal_clk_lsi_calibrate_ram io rtc_freq s) else Some s)))"

section \<open>Lemmas\<close>

text \<open>The result that describes a measurement.\<close>

definition error_of :: "u16 \<Rightarrow> u16 \<Rightarrow> u16" where
  "error_of basev i = of_int (deviation i basev * 10000 sdiv uint basev)"

lemma set_tune_soc [simp]:
  "R16_INT32K_TUNE (soc (set_tune l s)) = l"
  "R16_CLK_SYS_CFG (soc (set_tune l s)) = R16_CLK_SYS_CFG (soc s)"
  "int32k_tune_flash (soc (set_tune l s)) = int32k_tune_flash (soc s)"
  "int32k_tune_ram (soc (set_tune l s)) = int32k_tune_ram (soc s)"
  by (simp_all add: set_tune_def on_soc_regs_def rwa_def sys_safe_access_enable_def sys_safe_access_disable_def
      write_safe_access_sig_def SAFE_ACCESS_SIG1_def SAFE_ACCESS_SIG2_def)

lemma calibration_base_cong:
  "R16_CLK_SYS_CFG a = R16_CLK_SYS_CFG b \<Longrightarrow> calibration_base f a = calibration_base f b"
  by (simp add: calibration_base_def)

lemma to_short_small: "- 32768 \<le> x \<Longrightarrow> x < 32768 \<Longrightarrow> to_short x = x"
  by (simp add: to_short_def signed_take_bit_int_eq_self_iff)

lemma deviation_abs: "deviation i b = \<bar>uint i - uint b\<bar>"
  by (auto simp: deviation_def word_less_def)

text \<open>Hardware that shows each value of an observed bit again and again while it is polled.\<close>

locale polled =
  fixes io :: "'s \<Rightarrow> 's" and obs :: "'s \<Rightarrow> bool"
  assumes toggles: "\<exists>n. obs ((io ^^ Suc n) s) = b"
begin

lemma poll_ends: "\<exists>n. poll_until io obs b s = Some ((io ^^ Suc n) s) \<and> obs ((io ^^ Suc n) s) = b"
proof -
  obtain n where "obs ((io ^^ Suc n) s) = b" using toggles by blast
  then show ?thesis
  proof (induction n arbitrary: s)
    case 0
    then show ?case by (intro exI [of _ 0]) (subst poll_until.simps, simp)
  next
    case (Suc n)
    show ?case
    proof (cases "obs (io s) = b")
      case True
      then show ?thesis by (intro exI [of _ 0]) (subst poll_until.simps, simp)
    next
      case False
      have "obs ((io ^^ Suc n) (io s)) = b" using Suc.prems by (simp add: funpow_swap1)
      from Suc.IH [OF this] obtain m where "poll_until io obs b (io s) = Some ((io ^^ Suc m) (io s))"
        "obs ((io ^^ Suc m) (io s)) = b" by blast
      with False show ?thesis
        by (intro exI [of _ "Suc m"]) (subst poll_until.simps, simp add: funpow_swap1)
    qed
  qed
qed

lemma poll_keeps:
  assumes "\<And>s. f (io s) = f s"
  shows "\<exists>t. poll_until io obs b s = Some t \<and> obs t = b \<and> f t = f s"
proof -
  have "f ((io ^^ n) s) = f s" for n by (induction n) (simp_all add: assms)
  with poll_ends [of b s] show ?thesis by blast
qed

end

text \<open>An oscillator as the code sees it: polling sees the counter halt and start again, and a count that begins and ends
  after a halt belongs to the programmed setting.\<close>

locale oscillator = polled io osc_halted for io :: "lsi \<Rightarrow> lsi" +
  fixes cnt :: "u16 \<Rightarrow> u16"
  assumes osc_soc: "soc (io s) = soc s"
    and osc_counts: "osc_halted s \<Longrightarrow> wait_halt io False s = Some t \<Longrightarrow> wait_halt io True t = Some u \<Longrightarrow>
      R16_OSC_CAL_CNT u = cnt (R16_INT32K_TUNE (soc s))"
begin

lemma wait_ends: "\<exists>t. wait_halt io b s = Some t \<and> osc_halted t = b \<and> soc t = soc s"
  unfolding wait_halt_def by (rule poll_keeps) (rule osc_soc)

lemma measure: "\<exists>t. hal_lsi_get_calibrate_cnt_ram io l s = Some (cnt l, t) \<and> soc t = soc (set_tune l s)"
proof -
  obtain a where a: "wait_halt io True (set_tune l s) = Some a" "osc_halted a" "soc a = soc (set_tune l s)"
    using wait_ends by metis
  obtain b where b: "wait_halt io False a = Some b" "soc b = soc a" using wait_ends by metis
  obtain c where c: "wait_halt io True b = Some c" "soc c = soc b" using wait_ends by metis
  have "R16_OSC_CAL_CNT c = cnt l" using osc_counts [OF a(2) b(1) c(1)] a(3) by simp
  with a b c show ?thesis by (simp add: hal_lsi_get_calibrate_cnt_ram_def)
qed

text \<open>One round after measuring the setting that is programmed.\<close>

lemma decide_cases:
  assumes base: "basev \<noteq> 0"
    and small: "\<bar>uint (cnt (loc v)) - uint basev\<bar> < 32768" "\<bar>uint (cnt (loc_t v)) - uint basev\<bar> < 32768"
    and conv: "float_to_short (to_float (of_int (uint (cnt (loc v)) - uint basev) * K)) \<noteq> None"
    and tune: "R16_INT32K_TUNE (soc s) = loc v"
    and before: "diff_2 v = 0 \<or> diff_2 v = uint (cnt (loc_t v)) - uint basev"
  shows "(\<exists>r t. decide K basev (cnt (loc v)) v s = Some (Return r t) \<and>
            of_int r = error_of basev (cnt (R16_INT32K_TUNE (soc t))) \<and>
            R16_CLK_SYS_CFG (soc t) = R16_CLK_SYS_CFG (soc s)) \<or>
         (\<exists>w. decide K basev (cnt (loc v)) v s = Some (Next (cnt (loc v)) w s) \<and>
            loc_t w = loc v \<and> diff_2 w = uint (cnt (loc v)) - uint basev)"
proof -
  let ?i = "cnt (loc v)"
  define d where "d = uint ?i - uint basev"
  have d: "to_short (uint ?i - uint basev) = d" "to_short (NOT (d - 1)) = - d" "\<bar>d\<bar> = deviation ?i basev"
    using small(1) by (simp_all add: to_short_small d_def deviation_abs not_int_def)
  have d2: "to_short (NOT (diff_2 v - 1)) = - diff_2 v"
    using before small(2) by (auto simp: to_short_small not_int_def)
  have e: "of_int (\<bar>d\<bar> * 10000 sdiv uint basev) = error_of basev ?i"
    by (simp add: error_of_def d(3))
  consider "d = 0" | "d \<noteq> 0" "d * diff_2 v < 0 \<and> (diffc v = 1 \<or> diffc v = - 1 \<or> diffc v = 0)" |
    "d \<noteq> 0" "\<not> (d * diff_2 v < 0 \<and> (diffc v = 1 \<or> diffc v = - 1 \<or> diffc v = 0))" by blast
  then show ?thesis
  proof cases
    case 1
    then show ?thesis using tune e by (simp add: decide_def d)
  next
    case 2
    then have two: "diff_2 v = uint (cnt (loc_t v)) - uint basev" "\<bar>diff_2 v\<bar> = deviation (cnt (loc_t v)) basev"
      using before by (auto simp: deviation_abs)
    define a b where "a = (if diff_2 v < 0 then d else - d)" and "b = (if diff_2 v < 0 then - diff_2 v else diff_2 v)"
    have ab: "a = \<bar>d\<bar>" "b = \<bar>diff_2 v\<bar>" using 2 by (auto simp: a_def b_def mult_less_0_iff)
    have dec: "decide K basev ?i v s =
      (if a > b then Some (Return (b * 10000 sdiv uint basev) (set_tune (loc_t v) s))
       else Some (Return (a * 10000 sdiv uint basev) s))"
      using 2 base by (simp add: decide_def d d2 per_10000_def a_def b_def Let_def)
    show ?thesis
      by (cases "a > b") (simp_all add: dec ab two(2) tune e error_of_def d(3))
  next
    case 3
    have dec: "decide K basev ?i v s =
      (if \<bar>d\<bar> * 10000 sdiv uint basev < 11 then Some (Return (\<bar>d\<bar> * 10000 sdiv uint basev) s)
       else Option.bind (float_to_short (to_float (of_int d * K))) (\<lambda>dc.
         let l = loc v - of_int dc;
             l = (if l = loc v then if d > 0 then l + 1 else l - 1 else l)
         in Some (Next ?i \<lparr>loc = l, loc_t = loc v, diff_2 = d, diffc = dc\<rparr> s)))"
      unfolding decide_def Let_def d(1) if_not_P [OF 3(1)] if_not_P [OF 3(2)]
      using base by (simp add: per_10000_def d(3))
    obtain dc where "float_to_short (to_float (of_int d * K)) = Some dc" using conv by (auto simp: d_def)
    with dec tune e show ?thesis by (simp add: Let_def d_def)
  qed
qed

lemma loop_reports:
  assumes base: "basev \<noteq> 0"
    and small: "\<And>l. \<bar>uint (cnt l) - uint basev\<bar> < 32768"
    and conv: "\<And>l. float_to_short (to_float (of_int (uint (cnt l) - uint basev) * K)) \<noteq> None"
    and save: "\<And>l s. R16_INT32K_TUNE (soc (save l s)) = R16_INT32K_TUNE (soc s)"
      "\<And>l s. R16_CLK_SYS_CFG (soc (save l s)) = R16_CLK_SYS_CFG (soc s)"
    and before: "diff_2 v = 0 \<or> diff_2 v = uint (cnt (loc_t v)) - uint basev"
    and last: "n = 0 \<Longrightarrow> i = cnt (R16_INT32K_TUNE (soc s))"
  shows "\<exists>t. calibrate_loop n io save K basev i v s = Some (error_of basev (cnt (R16_INT32K_TUNE (soc t))), t) \<and>
    R16_CLK_SYS_CFG (soc t) = R16_CLK_SYS_CFG (soc s)"
  using before last
proof (induction n arbitrary: i v s)
  case 0
  then show ?case using base by (simp add: per_10000_def error_of_def save)
next
  case (Suc n)
  obtain t where t: "hal_lsi_get_calibrate_cnt_ram io (loc v) s = Some (cnt (loc v), t)" "soc t = soc (set_tune (loc v) s)"
    using measure by blast
  let ?s = "save (loc v) t"
  have tune: "R16_INT32K_TUNE (soc ?s) = loc v" and cfg: "R16_CLK_SYS_CFG (soc ?s) = R16_CLK_SYS_CFG (soc s)"
    by (simp_all add: save t(2))
  consider (ret) r u where "decide K basev (cnt (loc v)) v ?s = Some (Return r u)"
      "of_int r = error_of basev (cnt (R16_INT32K_TUNE (soc u)))" "R16_CLK_SYS_CFG (soc u) = R16_CLK_SYS_CFG (soc ?s)" |
    (more) w where "decide K basev (cnt (loc v)) v ?s = Some (Next (cnt (loc v)) w ?s)"
      "loc_t w = loc v" "diff_2 w = uint (cnt (loc v)) - uint basev"
    using decide_cases [OF base small small conv tune Suc.prems(1)] by blast
  then show ?case
  proof cases
    case ret
    then show ?thesis using t(1) cfg by simp
  next
    case more
    then show ?thesis using Suc.IH [of w "cnt (loc v)" ?s] t(1) cfg tune by simp
  qed
qed

lemma calibrate_reports:
  assumes base: "calibration_base f (soc s) = Some (basev, K)" "basev \<noteq> 0"
    and small: "\<And>l. \<bar>uint (cnt l) - uint basev\<bar> < 32768"
    and conv: "\<And>l. float_to_short (to_float (of_int (uint (cnt l) - uint basev) * K)) \<noteq> None"
    and save: "\<And>l s. R16_INT32K_TUNE (soc (save l s)) = R16_INT32K_TUNE (soc s)"
      "\<And>l s. R16_CLK_SYS_CFG (soc (save l s)) = R16_CLK_SYS_CFG (soc s)"
  shows "\<exists>t. calibrate io f tune save s = Some (error_of basev (cnt (R16_INT32K_TUNE (soc t))), t) \<and>
    R16_CLK_SYS_CFG (soc t) = R16_CLK_SYS_CFG (soc s)"
proof -
  let ?s = "write_osc_cal_ctrl RB_OSC_CNT_EN (on_soc_regs sys_safe_access_enable s)"
  have "R16_CLK_SYS_CFG (soc ?s) = R16_CLK_SYS_CFG (soc s)"
    by (simp add: write_osc_cal_ctrl_def on_soc_regs_def sys_safe_access_enable_def write_safe_access_sig_def)
  then show ?thesis
    using loop_reports [OF base(2) small conv save, of "\<lparr>loc = if tune \<noteq> 0 then tune else 2048, loc_t = 0, diff_2 = 0, diffc = 0\<rparr>" 20 0 ?s]
    by (simp add: calibrate_def base(1) Let_def)
qed

end

definition count_step :: "(u16 \<Rightarrow> u16) \<Rightarrow> lsi \<Rightarrow> lsi" where
  "count_step cnt s =
     (if osc_halted s then s\<lparr>R8_OSC_CAL_CTRL := R8_OSC_CAL_CTRL s AND NOT RB_OSC_CNT_HALT\<rparr>
      else s\<lparr>R8_OSC_CAL_CTRL := R8_OSC_CAL_CTRL s OR RB_OSC_CNT_HALT, R16_OSC_CAL_CNT := cnt (R16_INT32K_TUNE (soc s))\<rparr>)"

lemma count_step_halted [simp]: "osc_halted (count_step cnt s) \<longleftrightarrow> \<not> osc_halted s"
proof -
  have "(w AND NOT RB_OSC_CNT_HALT) AND RB_OSC_CNT_HALT = 0" "(w OR RB_OSC_CNT_HALT) AND RB_OSC_CNT_HALT \<noteq> 0" for w
    by (simp_all add: and.assoc bit.conj_disj_distrib2 RB_OSC_CNT_HALT_def)
  then show ?thesis by (simp add: count_step_def osc_halted_def)
qed

lemma count_step_wait:
  "wait_halt (count_step cnt) b s = Some (if osc_halted s = b then count_step cnt (count_step cnt s) else count_step cnt s)"
  unfolding wait_halt_def
  by (subst poll_until.simps, cases "osc_halted s = b") (simp_all add: poll_until.simps [of _ _ _ "count_step cnt s"])

interpretation ideal: oscillator "count_step cnt" cnt for cnt
proof
  show keeps: "soc (count_step cnt s) = soc s" for s by (simp add: count_step_def)
  show "\<exists>n. osc_halted ((count_step cnt ^^ Suc n) s) = b" for s b
    by (cases "osc_halted s = b") (rule exI [of _ 1], simp, rule exI [of _ 0], simp)
  fix s t u
  assume "osc_halted s" "wait_halt (count_step cnt) False s = Some t" "wait_halt (count_step cnt) True t = Some u"
  then have "\<not> osc_halted t" "u = count_step cnt t" "soc t = soc s"
    by (auto simp: count_step_wait keeps)
  then show "R16_OSC_CAL_CNT u = cnt (R16_INT32K_TUNE (soc s))" by (simp add: count_step_def)
qed

text \<open>C19: On an oscillator whose counter halts and runs while it is polled and whose whole counts depend on the programmed
  setting, with deviations that fit a \<open>short\<close>, both calibrations return after at most 20 rounds, the result is the
  deviation in ten-thousandths (modulo \<open>2 ^ 16\<close>) of the setting that is left programmed, and
  \<open>hal_clk_lsi_calibrate\<close> returns.\<close>

theorem lsi_calibrate_reports:
  assumes "\<And>s. soc (io s) = soc s"
    and "\<And>s b. \<exists>n. osc_halted ((io ^^ Suc n) s) = b"
    and "\<And>s t u. osc_halted s \<Longrightarrow> wait_halt io False s = Some t \<Longrightarrow> wait_halt io True t = Some u \<Longrightarrow>
      R16_OSC_CAL_CNT u = cnt (R16_INT32K_TUNE (soc s))"
    and base: "calibration_base f (soc s) = Some (basev, K)" "basev \<noteq> 0"
    and small: "\<And>l. \<bar>uint (cnt l) - uint basev\<bar> < 32768"
    and conv: "\<And>l. float_to_short (to_float (of_int (uint (cnt l) - uint basev) * K)) \<noteq> None"
  shows "(\<exists>t. hal_clk_lsi_calibrate_flash io f s = Some (error_of basev (cnt (R16_INT32K_TUNE (soc t))), t)) \<and>
    (\<exists>t. hal_clk_lsi_calibrate_ram io f s = Some (error_of basev (cnt (R16_INT32K_TUNE (soc t))), t)) \<and>
    (\<exists>t. hal_clk_lsi_calibrate io f s = Some t)"
proof -
  have osc: "oscillator io cnt" using assms(1-3) by unfold_locales
  have flash: "\<exists>t. hal_clk_lsi_calibrate_flash io f s = Some (error_of basev (cnt (R16_INT32K_TUNE (soc t))), t) \<and>
      R16_CLK_SYS_CFG (soc t) = R16_CLK_SYS_CFG (soc s)" if "calibration_base f (soc s) = Some (basev, K)" for s
    unfolding hal_clk_lsi_calibrate_flash_def
    by (rule oscillator.calibrate_reports [OF osc that base(2) small conv]) (simp_all add: on_soc_regs_def)
  have ram: "\<exists>t. hal_clk_lsi_calibrate_ram io f s = Some (error_of basev (cnt (R16_INT32K_TUNE (soc t))), t) \<and>
      R16_CLK_SYS_CFG (soc t) = R16_CLK_SYS_CFG (soc s)" if "calibration_base f (soc s) = Some (basev, K)" for s
    unfolding hal_clk_lsi_calibrate_ram_def
    by (rule oscillator.calibrate_reports [OF osc that base(2) small conv]) (simp_all add: on_soc_regs_def)
  have again: "calibration_base f (soc t) = Some (basev, K)"
    if "R16_CLK_SYS_CFG (soc t) = R16_CLK_SYS_CFG (soc u)" "calibration_base f (soc u) = Some (basev, K)" for t u
    using that calibration_base_cong by metis
  obtain a where a: "hal_clk_lsi_calibrate_flash io f s = Some (error_of basev (cnt (R16_INT32K_TUNE (soc a))), a)"
    "calibration_base f (soc a) = Some (basev, K)" using flash [OF base(1)] again base(1) by blast
  obtain r b where b: "hal_clk_lsi_calibrate_flash io f a = Some (r, b)" "calibration_base f (soc b) = Some (basev, K)"
    using flash [OF a(2)] again a(2) by blast
  obtain b' where b': "(if error_of basev (cnt (R16_INT32K_TUNE (soc a))) > 15
        then map_option snd (hal_clk_lsi_calibrate_flash io f a) else Some a) = Some b'"
      "calibration_base f (soc b') = Some (basev, K)"
    using a(2) b that by (cases "error_of basev (cnt (R16_INT32K_TUNE (soc a))) > 15") simp_all
  obtain r' c where c: "hal_clk_lsi_calibrate_ram io f b' = Some (r', c)" "calibration_base f (soc c) = Some (basev, K)"
    using ram [OF b'(2)] again b'(2) by blast
  obtain r'' e where e: "hal_clk_lsi_calibrate_ram io f c = Some (r'', e)" using ram [OF c(2)] by blast
  have "\<exists>t. hal_clk_lsi_calibrate io f s = Some t"
    unfolding hal_clk_lsi_calibrate_def a(1) using b' c e by (cases "r' > 15") simp_all
  with flash [OF base(1)] ram [OF base(1)] show ?thesis by blast
qed
text \<open>A CH57x at 60 MHz with an ideal oscillator of 32768 Hz whose count grows by one with each step of the setting.\<close>

definition tune_example :: lsi where
  "tune_example =
     \<lparr>soc = \<lparr>safe_step = False, safe_act = False, R16_CLK_SYS_CFG = 0x48, R8_HFCK_PWR_CTRL = 0x14, R8_PLL_CONFIG = 0,
        R8_FLASH_CFG = 0x53, R8_FLASH_CTRL = 0, R8_SLP_CLK_OFF0 = 0, R8_SLP_CLK_OFF1 = 0, R8_CK32K_CONFIG = 2,
        R8_XT32K_TUNE = 0, R8_XT32M_TUNE = 0, R16_INT32K_TUNE = 0, R16_POWER_PLAN = 0, R8_SLP_WAKE_CTRL = 0,
        R8_SLP_POWER_CTRL = 0, R8_BAT_DET_CTRL = 0, R8_BAT_DET_CFG = 0, R8_RST_WDOG_CTRL = 0, SCTLR = 0,
        int32k_tune_flash = 0, int32k_tune_ram = 0\<rparr>,
      R8_OSC_CAL_CTRL = 0, R16_OSC_CAL_CNT = 0\<rparr>"

definition tune_count :: "u16 \<Rightarrow> u16" where
  "tune_count l = (if l < 1500 then 9200 else if l < 2048 then 9156 else 9000)"

lemma tune_slope: "to_float (to_double (to_double (- 1 / 10) * 8)) = - 13421773 / 16777216"
  by code_simp

lemma tune_example_base: "calibration_base 32768 (soc tune_example) = Some (9155, - 13421773 / 16777216)"
  using tune_slope by (simp add: calibration_base_def tune_example_def RB_CLK_SYS_MOD_def)

lemma tune_steps:
  "float_to_short (to_float (45 * (- 13421773 / 16777216))) = Some (- 36)"
  "float_to_short (to_float (1 * (- 13421773 / 16777216))) = Some 0"
  "float_to_short (to_float (- 155 * (- 13421773 / 16777216))) = Some 124"
  by code_simp+
theorem lsi_calibrate_reports_witness:
  "(\<exists>t. hal_clk_lsi_calibrate_flash (count_step tune_count) 32768 tune_example =
      Some (error_of 9155 (tune_count (R16_INT32K_TUNE (soc t))), t)) \<and>
   (\<exists>t. hal_clk_lsi_calibrate (count_step tune_count) 32768 tune_example = Some t)"
proof -
  have "(\<exists>t. hal_clk_lsi_calibrate_flash (count_step tune_count) 32768 tune_example =
        Some (error_of 9155 (tune_count (R16_INT32K_TUNE (soc t))), t)) \<and>
     (\<exists>t. hal_clk_lsi_calibrate_ram (count_step tune_count) 32768 tune_example =
        Some (error_of 9155 (tune_count (R16_INT32K_TUNE (soc t))), t)) \<and>
     (\<exists>t. hal_clk_lsi_calibrate (count_step tune_count) 32768 tune_example = Some t)"
  proof (rule lsi_calibrate_reports [OF ideal.osc_soc ideal.toggles _ tune_example_base])
    show "float_to_short (to_float (of_int (uint (tune_count l) - uint (9155 :: u16)) * (- 13421773 / 16777216))) \<noteq> None" for l
      using tune_steps by (simp add: tune_count_def)
    show "\<bar>uint (tune_count l) - uint (9155 :: u16)\<bar> < 32768" for l
      by (simp add: tune_count_def)
  qed (simp_all add: ideal.osc_counts)
  then show ?thesis by blast
qed

text \<open>A round that goes back to the previous setting reprograms the register only: the variable that
  \<open>hal_lsi_set_tune_flash\<close> and \<open>hal_lsi_set_tune_ram\<close> program later keeps the worse setting of the last measurement.\<close>

lemma decide_keeps_saved:
  assumes "decide K basev i v s = Some (Return r t)"
  shows "int32k_tune_flash (soc t) = int32k_tune_flash (soc s) \<and> int32k_tune_ram (soc t) = int32k_tune_ram (soc s)"
  using assms by (auto simp: decide_def Let_def Option.bind_eq_Some_conv split: if_splits)

end
