(* ===== verification/Ch58x.thy ===== *)
theory Ch58x
  imports Lsi
begin

text \<open>
  What is different on the CH58x: parts of \<^verbatim>\<open>hal/ch58x/ch58x_hal_clk.c\<close>, \<^verbatim>\<open>ch58x_hal_sys.c\<close> and
  \<^verbatim>\<open>ch58x_hal_power.c\<close>.  The functions that are not here have the text of their CH57x counterparts in \<open>Soc\<close>.

  The calibration counter of this chip counts over a selectable number of periods, has 14 bits and an 8-bit counter
  of its overflows.
\<close>

section \<open>Clocks, delay and power\<close>

definition CLK_SOURCE_PLL_80MHZ :: u32 where "CLK_SOURCE_PLL_80MHZ = clk_source CLK_MODE_PLL 6"

definition ch58x_hal_clk_sys_setup :: "u32 \<Rightarrow> soc_regs \<Rightarrow> soc_regs" where
  "ch58x_hal_clk_sys_setup clk s =
     (let s = sys_safe_access_enable s;
          s = rwa (\<lambda>s. s\<lparr>R8_PLL_CONFIG := R8_PLL_CONFIG s AND NOT 0x20\<rparr>) s;
          s = sys_safe_access_disable s;
          m = drop_bit SYS_CLK_MODE_POS (clk AND SYS_CLK_MODE_MSK);
          s = (if m = CLK_MODE_32K then hal_clk_sys_config CLK_MODE_32K 5 s
               else if m = CLK_MODE_PLL then
                 let s = (if \<not> hal_clk_pwr_xt32m_is_on s then hal_clk_pwr_xt32m_on s else s);
                     s = (if \<not> hal_clk_pwr_pll_is_on s then hal_clk_pwr_pll_on s else s);
                     s = hal_clk_sys_config CLK_MODE_PLL (ucast (clk AND SYS_CLK_DIV_MSK)) s;
                     s = set_flash_cfg 0x53 s
                 in if clk = CLK_SOURCE_PLL_80MHZ then set_flash_cfg 0x02 s else s
               else
                 let s = (if \<not> hal_clk_pwr_xt32m_is_on s then hal_clk_pwr_xt32m_on s else s);
                     s = hal_clk_sys_config CLK_MODE_32M (ucast (clk AND SYS_CLK_DIV_MSK)) s
                 in set_flash_cfg 0x51 s);
          s = sys_safe_access_enable s;
          s = rwa (\<lambda>s. s\<lparr>R8_PLL_CONFIG := R8_PLL_CONFIG s OR 0x80\<rparr>) s
      in sys_safe_access_disable s)"

text \<open>The statement for 80 MHz has no semicolon and does not compile: \<open>None\<close>, as for a frequency that is not supported.\<close>

definition ch58x_hal_sys_init :: "u32 \<Rightarrow> soc_regs \<Rightarrow> soc_regs option" where
  "ch58x_hal_sys_init freq s =
     (if freq = 80000000 then None
      else if freq = 60000000 then Some (ch58x_hal_clk_sys_setup CLK_SOURCE_PLL_60MHZ s)
      else if freq = 48000000 then Some (ch58x_hal_clk_sys_setup CLK_SOURCE_PLL_48MHZ s)
      else if freq = 40000000 then Some (ch58x_hal_clk_sys_setup CLK_SOURCE_PLL_40MHZ s)
      else if freq = 32000000 then Some (ch58x_hal_clk_sys_setup CLK_SOURCE_PLL_32MHZ s)
      else if freq = 24000000 then Some (ch58x_hal_clk_sys_setup CLK_SOURCE_PLL_24MHZ s)
      else if freq = 16000000 then Some (ch58x_hal_clk_sys_setup CLK_SOURCE_HSE_16MHZ s)
      else if freq = 8000000 then Some (ch58x_hal_clk_sys_setup CLK_SOURCE_HSE_8MHZ s)
      else if freq = 4000000 then Some (ch58x_hal_clk_sys_setup CLK_SOURCE_HSE_4MHZ s)
      else if freq = 2000000 then Some (ch58x_hal_clk_sys_setup CLK_SOURCE_HSE_2MHZ s)
      else if freq = 1000000 then Some (ch58x_hal_clk_sys_setup CLK_SOURCE_HSE_1MHZ s)
      else None)"

definition ch58x_delay_us_count :: "u32 \<Rightarrow> u16 \<Rightarrow> u32" where
  "ch58x_delay_us_count freq t = (if freq = 80000000 then ucast t * 20 else delay_us_count freq t)"

datatype ch58x_pwr_wakeup_mode = PWR_WAKEUP_MODE_LONG | PWR_WAKEUP_MODE_SHORT

definition ch58x_hal_pwr_wakeup_mode :: "ch58x_pwr_wakeup_mode \<Rightarrow> soc_regs \<Rightarrow> soc_regs" where
  "ch58x_hal_pwr_wakeup_mode md s =
     (let cfg = (case md of PWR_WAKEUP_MODE_LONG \<Rightarrow> 0 | PWR_WAKEUP_MODE_SHORT \<Rightarrow> 0x01);
          s = sys_safe_access_enable s;
          s = rwa (\<lambda>s. s\<lparr>R8_SLP_POWER_CTRL := R8_SLP_POWER_CTRL s AND NOT RB_WAKE_EV_MODE\<rparr>) s;
          s = sys_safe_access_enable s;
          s = rwa (\<lambda>s. s\<lparr>R8_SLP_POWER_CTRL := R8_SLP_POWER_CTRL s OR cfg\<rparr>) s;
          s = rwa (\<lambda>s. s\<lparr>R8_SLP_WAKE_CTRL := R8_SLP_WAKE_CTRL s OR RB_WAKE_EV_MODE\<rparr>) s
      in sys_safe_access_disable s)"

definition ch58x_hal_pwr_enter_shutdown ::
    "(soc_regs \<Rightarrow> soc_regs) \<Rightarrow> (soc_regs \<Rightarrow> soc_regs) \<Rightarrow> u8 \<Rightarrow> soc_regs \<Rightarrow> soc_regs" where
  "ch58x_hal_pwr_enter_shutdown rom_reset wfi peri s =
     (let s = rom_reset s;
          s = s\<lparr>R8_FLASH_CTRL := 0x04\<rparr>;
          s = ch58x_hal_clk_sys_setup CLK_SOURCE_HSE_6_4MHZ s;
          s = sys_safe_access_enable s;
          s = rwa (\<lambda>s. s\<lparr>R8_SLP_POWER_CTRL := R8_SLP_POWER_CTRL s OR 0x40\<rparr>) s;
          s = sys_safe_access_enable s;
          s = rwa (\<lambda>s. s\<lparr>R16_POWER_PLAN := 0x8000 OR 0x1000 OR ucast peri\<rparr>) s;
          s = sys_safe_access_disable s;
          s = s\<lparr>SCTLR := SCTLR s OR 4\<rparr>
      in wfi s)"

section \<open>Calibration of the oscillator\<close>

record cal =
  cal_soc :: soc_regs
  OSC_CAL_CTRL :: u8
  OSC_CAL_CNT :: u16
  OSC_CAL_OV_CNT :: u8

definition RB_OSC_CNT_TOTAL :: u8 where "RB_OSC_CNT_TOTAL = 0x07"
definition CAL_CNT_HALT :: u8 where "CAL_CNT_HALT = 0x08"
definition CAL_CNT_EN :: u8 where "CAL_CNT_EN = 0x20"
definition RB_OSC_CAL_OV_CLR :: u16 where "RB_OSC_CAL_OV_CLR = 0x4000"
definition RB_OSC_CAL_IF :: u16 where "RB_OSC_CAL_IF = 0x8000"
definition RB_CLK_OSC32K_FILT :: u8 where "RB_CLK_OSC32K_FILT = 0x08"

definition LEVEL_32 :: nat where "LEVEL_32 = 3"
definition LEVEL_64 :: nat where "LEVEL_64 = 4"
definition LEVEL_128 :: nat where "LEVEL_128 = 5"

definition on_cal_soc :: "(soc_regs \<Rightarrow> soc_regs) \<Rightarrow> cal \<Rightarrow> cal" where
  "on_cal_soc f s = s\<lparr>cal_soc := f (cal_soc s)\<rparr>"

text \<open>The control register is protected and its halt bit read only; of the count register only two flags can be written,
  which clears them and, for \<open>RB_OSC_CAL_OV_CLR\<close>, the count of overflows.\<close>

definition write_cal_ctrl :: "u8 \<Rightarrow> cal \<Rightarrow> cal" where
  "write_cal_ctrl v s =
     (if safe_act (cal_soc s)
      then s\<lparr>OSC_CAL_CTRL := (v AND NOT CAL_CNT_HALT) OR (OSC_CAL_CTRL s AND CAL_CNT_HALT)\<rparr>
      else s)"

definition write_cal_cnt :: "u16 \<Rightarrow> cal \<Rightarrow> cal" where
  "write_cal_cnt v s =
     s\<lparr>OSC_CAL_CNT := OSC_CAL_CNT s AND NOT (v AND (RB_OSC_CAL_OV_CLR OR RB_OSC_CAL_IF)),
       OSC_CAL_OV_CNT := if v AND RB_OSC_CAL_OV_CLR \<noteq> 0 then 0 else OSC_CAL_OV_CNT s\<rparr>"

definition clear_overflow :: "cal \<Rightarrow> cal" where
  "clear_overflow s = write_cal_cnt (OSC_CAL_CNT s OR RB_OSC_CAL_OV_CLR) s"

definition cal_halted :: "cal \<Rightarrow> bool" where
  "cal_halted s \<longleftrightarrow> OSC_CAL_CTRL s AND CAL_CNT_HALT \<noteq> 0"

definition cal_wait :: "(cal \<Rightarrow> cal) \<Rightarrow> bool \<Rightarrow> cal \<Rightarrow> cal option" where
  "cal_wait io b s = poll_until io cal_halted b s"

partial_function (option) wait_enabled :: "(cal \<Rightarrow> cal) \<Rightarrow> cal \<Rightarrow> cal option" where
  "wait_enabled io s =
     (let s = io s
      in if OSC_CAL_CTRL s AND CAL_CNT_EN \<noteq> CAL_CNT_EN
         then wait_enabled io (write_cal_ctrl (OSC_CAL_CTRL s OR CAL_CNT_EN) (on_cal_soc sys_safe_access_enable s))
         else Some s)"

text \<open>The deviation of the counted clocks from a target: computed unsigned and stored as \<open>INT32\<close>.\<close>

definition counted :: "cal \<Rightarrow> u32" where
  "counted s = (ucast (OSC_CAL_CNT s) AND 0x3FFF) + ucast (OSC_CAL_OV_CNT s) * 0x3FFF"

definition offset_from :: "int \<Rightarrow> cal \<Rightarrow> int" where
  "offset_from target s = sint (counted s - of_int target :: u32)"

definition add_tune :: "int \<Rightarrow> cal \<Rightarrow> cal" where
  "add_tune d s =
     on_cal_soc (\<lambda>s. rwa (\<lambda>s. s\<lparr>R16_INT32K_TUNE := R16_INT32K_TUNE s + of_int d\<rparr>) (sys_safe_access_enable s)) s"

text \<open>\<open>freq\<close> is the system clock, \<open>rtc\<close> is \<open>CONFIG_SOC_RTC_FREQ\<close>; the products fit 32 bits.  Division by 0 is undefined.\<close>

definition coarse_target :: "int \<Rightarrow> int \<Rightarrow> int" where
  "coarse_target freq rtc = 2000 * (freq sdiv 1000) sdiv rtc"

definition coarse_step :: "int \<Rightarrow> int \<Rightarrow> int" where
  "coarse_step freq rtc = 37 * (freq sdiv 1000) sdiv rtc"

definition fine_target :: "nat \<Rightarrow> int \<Rightarrow> int \<Rightarrow> int" where
  "fine_target lv freq rtc = 4000 * 2 ^ lv * (freq sdiv 1000000) sdiv rtc * 1000"

definition fine_step :: "int \<Rightarrow> int \<Rightarrow> int" where
  "fine_step freq rtc = 1366 * (freq sdiv 1000) sdiv rtc"

definition round_half :: "int \<Rightarrow> int \<Rightarrow> int" where
  "round_half off q = (if off > 0 then (q + 1) sdiv 2 else (q - 1) sdiv 2)"

definition coarse_measure :: "(cal \<Rightarrow> cal) \<Rightarrow> cal \<Rightarrow> cal option" where
  "coarse_measure io s =
     Option.bind (cal_wait io True s) (\<lambda>s.
     Option.bind (cal_wait io False s) (\<lambda>s.
     cal_wait io True (clear_overflow s)))"

text \<open>The coarse loop; the first argument is the number of corrections that \<open>retry\<close> still allows.\<close>

primrec coarse_loop :: "nat \<Rightarrow> (cal \<Rightarrow> cal) \<Rightarrow> int \<Rightarrow> int \<Rightarrow> cal \<Rightarrow> cal option" where
  "coarse_loop 0 io freq rtc s = coarse_measure io s"
| "coarse_loop (Suc n) io freq rtc s =
     Option.bind (coarse_measure io s) (\<lambda>s.
     let off = offset_from (coarse_target freq rtc) s
     in if - 37 * (freq sdiv 1000) sdiv rtc < off \<and> off < coarse_step freq rtc then Some s
        else if coarse_step freq rtc = 0 then None
        else coarse_loop n io freq rtc (add_tune (round_half off (off * 2 sdiv coarse_step freq rtc)) s))"

text \<open>The shift of a possibly negative number by 5 is the multiplication that the compiler makes of it.\<close>

definition fine_correction :: "nat \<Rightarrow> int \<Rightarrow> int \<Rightarrow> int \<Rightarrow> int" where
  "fine_correction lv freq rtc off = round_half off (off * (3200 sdiv 2 ^ lv) sdiv fine_step freq rtc) * 32"

definition fine :: "(cal \<Rightarrow> cal) \<Rightarrow> nat \<Rightarrow> int \<Rightarrow> int \<Rightarrow> cal \<Rightarrow> cal option" where
  "fine io lv freq rtc s =
     Option.bind (cal_wait io True s) (\<lambda>s.
     let s = clear_overflow s;
         s = on_cal_soc sys_safe_access_enable s;
         s = write_cal_ctrl (OSC_CAL_CTRL s AND NOT RB_OSC_CNT_TOTAL) s;
         s = write_cal_ctrl (OSC_CAL_CTRL s OR of_nat lv) s
     in
     Option.bind (cal_wait io False s) (\<lambda>s.
     Option.bind (cal_wait io True s) (\<lambda>s.
     if fine_step freq rtc = 0 then None
     else
       let s = add_tune (fine_correction lv freq rtc (offset_from (fine_target lv freq rtc) s)) s
       in Some (write_cal_ctrl (OSC_CAL_CTRL s AND NOT CAL_CNT_EN) s))))"

definition calibrate_start :: "cal \<Rightarrow> cal" where
  "calibrate_start s =
     (let s = on_cal_soc sys_safe_access_enable s;
          s = on_cal_soc (rwa (\<lambda>s. s\<lparr>R8_CK32K_CONFIG := R8_CK32K_CONFIG s OR RB_CLK_OSC32K_FILT\<rparr>)) s;
          s = on_cal_soc (rwa (\<lambda>s. s\<lparr>R8_CK32K_CONFIG := R8_CK32K_CONFIG s AND NOT RB_CLK_OSC32K_FILT\<rparr>)) s;
          s = on_cal_soc sys_safe_access_enable s;
          s = on_cal_soc (rwa (\<lambda>s. s\<lparr>R8_XT32K_TUNE := R8_XT32K_TUNE s AND NOT 3\<rparr>)) s;
          s = on_cal_soc (rwa (\<lambda>s. s\<lparr>R8_XT32K_TUNE := R8_XT32K_TUNE s OR 1\<rparr>)) s;
          s = on_cal_soc sys_safe_access_enable s;
          s = write_cal_ctrl (OSC_CAL_CTRL s AND NOT RB_OSC_CNT_TOTAL) s;
          s = write_cal_ctrl (OSC_CAL_CTRL s OR 1) s;
          s = on_cal_soc sys_safe_access_enable s;
          s = write_cal_ctrl (OSC_CAL_CTRL s OR CAL_CNT_EN) s
      in clear_overflow s)"

definition ch58x_hal_clk_lsi_calibrate :: "(cal \<Rightarrow> cal) \<Rightarrow> u32 \<Rightarrow> nat \<Rightarrow> cal \<Rightarrow> cal option" where
  "ch58x_hal_clk_lsi_calibrate io rtc_freq lv s =
     Option.bind (hal_clk_sys_get rtc_freq (cal_soc s)) (\<lambda>f.
     let freq = sint f; rtc = sint rtc_freq in
     Option.bind (wait_enabled io (calibrate_start s)) (\<lambda>s.
     Option.bind (coarse_loop 3 io freq rtc s) (\<lambda>s.
     fine io lv freq rtc s)))"

section \<open>Lemmas\<close>

text \<open>Both chips choose the same system clock.\<close>

lemma ch58x_setup_same_clock:
  "hal_clk_sys_get rtc (ch58x_hal_clk_sys_setup clk s) = hal_clk_sys_get rtc (hal_clk_sys_setup clk s)"
  by (simp add: ch58x_hal_clk_sys_setup_def setup_simps)

text \<open>The wake-up mode clears the bit of the retention voltage instead of the delay field, so that the short delay can
  not be left again.\<close>

lemma ch58x_wakeup_mode_sticks:
  "R8_SLP_POWER_CTRL (ch58x_hal_pwr_wakeup_mode PWR_WAKEUP_MODE_LONG (ch58x_hal_pwr_wakeup_mode PWR_WAKEUP_MODE_SHORT s)) =
     (R8_SLP_POWER_CTRL s OR 1) AND NOT 0x40"
  by (simp add: ch58x_hal_pwr_wakeup_mode_def safe_simps RB_WAKE_EV_MODE_def)
    (rule bit_word_eqI, auto simp: bit_simps)

text \<open>What the hardware leaves alone: the system registers and the control bits besides the halt bit.\<close>

definition cal_cfg :: "cal \<Rightarrow> soc_regs \<times> u8" where
  "cal_cfg s = (cal_soc s, OSC_CAL_CTRL s AND NOT CAL_CNT_HALT)"

definition safe_on :: "soc_regs \<Rightarrow> soc_regs" where
  "safe_on r = r\<lparr>safe_step := False, safe_act := True\<rparr>"

definition tuned :: "int \<Rightarrow> soc_regs \<Rightarrow> soc_regs" where
  "tuned d r = (safe_on r)\<lparr>R16_INT32K_TUNE := R16_INT32K_TUNE r + of_int d\<rparr>"

lemma cal_cfg_ops:
  "cal_cfg (clear_overflow s) = cal_cfg s"
  "cal_cfg (on_cal_soc f s) = (f (fst (cal_cfg s)), snd (cal_cfg s))"
  "cal_cfg (add_tune d s) = (tuned d (fst (cal_cfg s)), snd (cal_cfg s))"
  by (simp_all add: cal_cfg_def clear_overflow_def write_cal_cnt_def on_cal_soc_def add_tune_def tuned_def safe_on_def
      safe_simps)

lemma cal_cfg_write:
  assumes "safe_act (fst (cal_cfg s))"
  shows "cal_cfg (write_cal_ctrl v s) = (fst (cal_cfg s), v AND NOT CAL_CNT_HALT)"
proof -
  have "((v AND NOT h) OR (c AND h)) AND NOT h = v AND NOT h" for v c h :: u8
    by (rule bit_word_eqI) (auto simp: bit_simps)
  with assms show ?thesis by (simp add: cal_cfg_def write_cal_ctrl_def)
qed

lemma ctrl_and_cfg:
  assumes "m AND CAL_CNT_HALT = 0"
  shows "OSC_CAL_CTRL s AND m = snd (cal_cfg s) AND m"
proof (rule bit_word_eqI)
  fix n
  assume "n < LENGTH(8)"
  have "bit (m AND CAL_CNT_HALT) n \<longleftrightarrow> False" by (simp add: assms)
  then show "bit (OSC_CAL_CTRL s AND m) n \<longleftrightarrow> bit (snd (cal_cfg s) AND m) n"
    using \<open>n < LENGTH(8)\<close> by (auto simp: cal_cfg_def bit_simps)
qed

definition started :: "soc_regs \<Rightarrow> soc_regs" where
  "started r = r\<lparr>safe_step := False, safe_act := True,
      R8_CK32K_CONFIG := R8_CK32K_CONFIG r AND NOT RB_CLK_OSC32K_FILT,
      R8_XT32K_TUNE := (R8_XT32K_TUNE r AND NOT 3) OR 1\<rparr>"

lemma calibrate_start_cfg:
  "fst (cal_cfg (calibrate_start s)) = started (cal_soc s)"
  "snd (cal_cfg (calibrate_start s)) AND CAL_CNT_EN = CAL_CNT_EN"
proof -
  define a where "a = s\<lparr>cal_soc := started (cal_soc s)\<rparr>"
  define b where "b = write_cal_ctrl (OSC_CAL_CTRL a AND NOT RB_OSC_CNT_TOTAL) a"
  define d where "d = write_cal_ctrl (OSC_CAL_CTRL b OR 1) b"
  have safe: "safe_act (cal_soc a)" "safe_act (cal_soc b)" "safe_act (cal_soc d)" "cal_soc d = started (cal_soc s)"
    by (simp_all add: a_def b_def d_def started_def write_cal_ctrl_def)
  have filt: "((x OR RB_CLK_OSC32K_FILT) AND NOT RB_CLK_OSC32K_FILT) = x AND NOT RB_CLK_OSC32K_FILT" for x
    by (rule bit_word_eqI) (auto simp: bit_simps)
  have "on_cal_soc sys_safe_access_enable (on_cal_soc (rwa (\<lambda>s. s\<lparr>R8_XT32K_TUNE := R8_XT32K_TUNE s OR 1\<rparr>))
        (on_cal_soc (rwa (\<lambda>s. s\<lparr>R8_XT32K_TUNE := R8_XT32K_TUNE s AND NOT 3\<rparr>))
        (on_cal_soc sys_safe_access_enable
        (on_cal_soc (rwa (\<lambda>s. s\<lparr>R8_CK32K_CONFIG := R8_CK32K_CONFIG s AND NOT RB_CLK_OSC32K_FILT\<rparr>))
        (on_cal_soc (rwa (\<lambda>s. s\<lparr>R8_CK32K_CONFIG := R8_CK32K_CONFIG s OR RB_CLK_OSC32K_FILT\<rparr>))
        (on_cal_soc sys_safe_access_enable s)))))) = a"
    by (simp add: a_def started_def on_cal_soc_def safe_simps filt)
  moreover have "on_cal_soc sys_safe_access_enable d = d"
    using safe(4) by (simp add: on_cal_soc_def safe_enable started_def)
  ultimately have "calibrate_start s = clear_overflow (write_cal_ctrl (OSC_CAL_CTRL d OR CAL_CNT_EN) d)"
    by (simp add: calibrate_start_def Let_def b_def [symmetric] d_def [symmetric])
  moreover have "cal_cfg (write_cal_ctrl (OSC_CAL_CTRL d OR CAL_CNT_EN) d) =
      (started (cal_soc s), (OSC_CAL_CTRL d OR CAL_CNT_EN) AND NOT CAL_CNT_HALT)"
    using cal_cfg_write [of d] safe by (simp add: cal_cfg_def)
  ultimately show "fst (cal_cfg (calibrate_start s)) = started (cal_soc s)"
    "snd (cal_cfg (calibrate_start s)) AND CAL_CNT_EN = CAL_CNT_EN"
    by (simp_all add: cal_cfg_ops CAL_CNT_EN_def CAL_CNT_HALT_def and.assoc bit.conj_disj_distrib2)
qed

locale calibrator = polled io cal_halted for io :: "cal \<Rightarrow> cal" +
  assumes cal_keeps: "cal_cfg (io s) = cal_cfg s"
begin

lemma cal_wait_ends: "\<exists>t. cal_wait io b s = Some t \<and> cal_cfg t = cal_cfg s"
  unfolding cal_wait_def using poll_keeps [of cal_cfg b s] cal_keeps by blast

lemma coarse_measure_ends: "\<exists>t. coarse_measure io s = Some t \<and> cal_cfg t = cal_cfg s"
proof -
  obtain a where a: "cal_wait io True s = Some a" "cal_cfg a = cal_cfg s" using cal_wait_ends by blast
  obtain b where b: "cal_wait io False a = Some b" "cal_cfg b = cal_cfg a" using cal_wait_ends by blast
  obtain c where c: "cal_wait io True (clear_overflow b) = Some c" "cal_cfg c = cal_cfg (clear_overflow b)"
    using cal_wait_ends by blast
  show ?thesis using a b c by (simp add: coarse_measure_def cal_cfg_ops)
qed

lemma wait_enabled_ends:
  assumes "snd (cal_cfg s) AND CAL_CNT_EN = CAL_CNT_EN"
  shows "wait_enabled io s = Some (io s)"
proof -
  have "OSC_CAL_CTRL (io s) AND CAL_CNT_EN = CAL_CNT_EN"
    using assms ctrl_and_cfg [of CAL_CNT_EN "io s"] by (simp add: cal_keeps CAL_CNT_EN_def CAL_CNT_HALT_def)
  then show ?thesis by (subst wait_enabled.simps) (simp add: Let_def)
qed

lemma coarse_loop_ends:
  assumes "coarse_step freq rtc \<noteq> 0" and "safe_on (fst (cal_cfg s)) = fst (cal_cfg s)"
  shows "\<exists>ds t. coarse_loop n io freq rtc s = Some t \<and> length ds \<le> n \<and>
    cal_cfg t = (tuned (sum_list ds) (fst (cal_cfg s)), snd (cal_cfg s))"
  using assms(2)
proof (induction n arbitrary: s)
  case 0
  then show ?case using coarse_measure_ends [of s] by (auto simp: tuned_def)
next
  case (Suc n)
  obtain t where t: "coarse_measure io s = Some t" "cal_cfg t = cal_cfg s" using coarse_measure_ends by blast
  let ?off = "offset_from (coarse_target freq rtc) t"
  show ?case
  proof (cases "- 37 * (freq sdiv 1000) sdiv rtc < ?off \<and> ?off < coarse_step freq rtc")
    case True
    then show ?thesis using t Suc.prems by (intro exI [of _ "[]"] exI [of _ t]) (simp add: Let_def tuned_def)
  next
    case False
    define d where "d = round_half ?off (?off * 2 sdiv coarse_step freq rtc)"
    have "safe_on (fst (cal_cfg (add_tune d t))) = fst (cal_cfg (add_tune d t))"
      by (simp add: cal_cfg_ops tuned_def safe_on_def)
    from Suc.IH [OF this] obtain ds u where u: "coarse_loop n io freq rtc (add_tune d t) = Some u" "length ds \<le> n"
      "cal_cfg u = (tuned (sum_list ds) (tuned d (fst (cal_cfg s))), snd (cal_cfg s))"
      by (auto simp: cal_cfg_ops t(2))
    then show ?thesis
      using t(1) False assms(1)
      by (intro exI [of _ "d # ds"] exI [of _ u]) (auto simp: Let_def d_def [symmetric] tuned_def safe_on_def add.assoc)
  qed
qed

lemma fine_ends:
  assumes "fine_step freq rtc \<noteq> 0"
  shows "\<exists>k t. fine io lv freq rtc s = Some t \<and>
    cal_cfg t = (tuned (k * 32) (fst (cal_cfg s)),
      (((snd (cal_cfg s) AND NOT RB_OSC_CNT_TOTAL) OR of_nat lv) AND NOT CAL_CNT_EN) AND NOT CAL_CNT_HALT)"
proof -
  obtain a where a: "cal_wait io True s = Some a" "cal_cfg a = cal_cfg s" using cal_wait_ends by blast
  define b where "b = on_cal_soc sys_safe_access_enable (clear_overflow a)"
  define c where "c = write_cal_ctrl (OSC_CAL_CTRL b AND NOT RB_OSC_CNT_TOTAL) b"
  define d where "d = write_cal_ctrl (OSC_CAL_CTRL c OR of_nat lv) c"
  obtain e where e: "cal_wait io False d = Some e" "cal_cfg e = cal_cfg d" using cal_wait_ends by blast
  obtain f where f: "cal_wait io True e = Some f" "cal_cfg f = cal_cfg e" using cal_wait_ends by blast
  define k where "k = round_half (offset_from (fine_target lv freq rtc) f)
    (offset_from (fine_target lv freq rtc) f * (3200 sdiv 2 ^ lv) sdiv fine_step freq rtc)"
  define g where "g = add_tune (k * 32) f"
  have mask: "((x AND NOT h) OR y) AND NOT h = (x OR y) AND NOT h" "((x AND NOT h) AND y) AND NOT h = (x AND y) AND NOT h"
    for x y h :: u8 by (rule bit_word_eqI, auto simp: bit_simps)+
  have cfg_b: "cal_cfg b = (safe_on (fst (cal_cfg s)), snd (cal_cfg s))"
    by (simp add: b_def cal_cfg_ops a(2) safe_enable safe_on_def)
  have cfg_c: "cal_cfg c = (safe_on (fst (cal_cfg s)), (snd (cal_cfg s) AND NOT RB_OSC_CNT_TOTAL) AND NOT CAL_CNT_HALT)"
    using cal_cfg_write [of b] cfg_b mask(2) [of "OSC_CAL_CTRL b" CAL_CNT_HALT "NOT RB_OSC_CNT_TOTAL"]
    by (simp add: c_def safe_on_def cal_cfg_def)
  have cfg_d: "cal_cfg d = (safe_on (fst (cal_cfg s)),
      ((snd (cal_cfg s) AND NOT RB_OSC_CNT_TOTAL) OR of_nat lv) AND NOT CAL_CNT_HALT)"
    using cal_cfg_write [of c] cfg_c mask(1) [of "OSC_CAL_CTRL c" CAL_CNT_HALT "of_nat lv"] mask(1)
    by (simp add: d_def safe_on_def cal_cfg_def)
  have cfg_g: "cal_cfg g = (tuned (k * 32) (fst (cal_cfg s)), snd (cal_cfg d))"
    by (simp add: g_def cal_cfg_ops e f cfg_d tuned_def safe_on_def)
  have "cal_cfg (write_cal_ctrl (OSC_CAL_CTRL g AND NOT CAL_CNT_EN) g) =
      (tuned (k * 32) (fst (cal_cfg s)), (snd (cal_cfg d) AND NOT CAL_CNT_EN) AND NOT CAL_CNT_HALT)"
    using cal_cfg_write [of g] cfg_g mask(2) [of "OSC_CAL_CTRL g" CAL_CNT_HALT "NOT CAL_CNT_EN"]
    by (simp add: tuned_def safe_on_def cal_cfg_def)
  moreover have "fine io lv freq rtc s = Some (write_cal_ctrl (OSC_CAL_CTRL g AND NOT CAL_CNT_EN) g)"
    using assms a e f
    by (simp add: fine_def Let_def b_def [symmetric] c_def [symmetric] d_def [symmetric] fine_correction_def
        k_def [symmetric] g_def [symmetric])
  ultimately show ?thesis
    by (intro exI [of _ k] exI [of _ "write_cal_ctrl (OSC_CAL_CTRL g AND NOT CAL_CNT_EN) g"]) (simp add: cfg_d mask)
qed

end
definition cal_step :: "(u16 \<Rightarrow> u16) \<Rightarrow> cal \<Rightarrow> cal" where
  "cal_step cnt s =
     (if cal_halted s then s\<lparr>OSC_CAL_CTRL := OSC_CAL_CTRL s AND NOT CAL_CNT_HALT\<rparr>
      else s\<lparr>OSC_CAL_CTRL := OSC_CAL_CTRL s OR CAL_CNT_HALT, OSC_CAL_CNT := cnt (R16_INT32K_TUNE (cal_soc s))\<rparr>)"

lemma cal_step_halted [simp]: "cal_halted (cal_step cnt s) \<longleftrightarrow> \<not> cal_halted s"
proof -
  have "(w AND NOT CAL_CNT_HALT) AND CAL_CNT_HALT = 0" "(w OR CAL_CNT_HALT) AND CAL_CNT_HALT \<noteq> 0" for w
    by (simp_all add: and.assoc bit.conj_disj_distrib2 CAL_CNT_HALT_def)
  then show ?thesis by (simp add: cal_step_def cal_halted_def)
qed

interpretation counting: calibrator "cal_step cnt" for cnt
proof
  show "\<exists>n. cal_halted ((cal_step cnt ^^ Suc n) s) = b" for s b
    by (cases "cal_halted s = b") (rule exI [of _ 1], simp, rule exI [of _ 0], simp)
  have "(c OR h) AND NOT h = c AND NOT h" for c h :: u8 by (rule bit_word_eqI) (auto simp: bit_simps)
  then show "cal_cfg (cal_step cnt s) = cal_cfg s" for s
    by (simp add: cal_step_def cal_cfg_def and.assoc)
qed

text \<open>On hardware that halts and restarts its counter while it is polled, and at a system clock that gives correction
  steps other than 0, the calibration of the CH58x returns after at most three coarse corrections and one fine
  correction by a multiple of 32 of the setting.  Besides the setting it changes only the filter bit and the crystal
  current among the system registers, and it leaves the counter disabled with the chosen number of periods.\<close>

theorem ch58x_calibrate_returns:
  assumes "\<And>s b. \<exists>n. cal_halted ((io ^^ Suc n) s) = b" and "\<And>s. cal_cfg (io s) = cal_cfg s"
    and f: "hal_clk_sys_get rtc (cal_soc s) = Some f"
    and step: "coarse_step (sint f) (sint rtc) \<noteq> 0" "fine_step (sint f) (sint rtc) \<noteq> 0"
  shows "\<exists>ds k t. ch58x_hal_clk_lsi_calibrate io rtc lv s = Some t \<and> length ds \<le> 3 \<and>
    cal_soc t = (cal_soc s)\<lparr>safe_step := False, safe_act := True,
      R8_CK32K_CONFIG := R8_CK32K_CONFIG (cal_soc s) AND NOT RB_CLK_OSC32K_FILT,
      R8_XT32K_TUNE := (R8_XT32K_TUNE (cal_soc s) AND NOT 3) OR 1,
      R16_INT32K_TUNE := R16_INT32K_TUNE (cal_soc s) + of_int (sum_list ds + 32 * k)\<rparr> \<and>
    OSC_CAL_CTRL t AND CAL_CNT_EN = 0 \<and> OSC_CAL_CTRL t AND RB_OSC_CNT_TOTAL = of_nat lv AND RB_OSC_CNT_TOTAL"
proof -
  have c: "calibrator io" using assms(1,2) by unfold_locales
  define e where "e = calibrate_start s"
  define r where "r = started (cal_soc s)"
  have soc: "fst (cal_cfg e) = r" and en: "snd (cal_cfg e) AND CAL_CNT_EN = CAL_CNT_EN"
    using calibrate_start_cfg [of s] by (simp_all add: e_def r_def)
  have "safe_on (fst (cal_cfg (io e))) = fst (cal_cfg (io e))"
    by (simp add: assms(2) soc safe_on_def r_def started_def)
  from calibrator.coarse_loop_ends [OF c step(1) this] obtain ds u where
    u: "coarse_loop 3 io (sint f) (sint rtc) (io e) = Some u" "length ds \<le> 3"
      "cal_cfg u = (tuned (sum_list ds) r, snd (cal_cfg e))" unfolding assms(2) soc by blast
  from calibrator.fine_ends [OF c step(2), of lv u] obtain k t where
    t: "fine io lv (sint f) (sint rtc) u = Some t"
      "cal_cfg t = (tuned (k * 32) (tuned (sum_list ds) r),
        (((snd (cal_cfg e) AND NOT RB_OSC_CNT_TOTAL) OR of_nat lv) AND NOT CAL_CNT_EN) AND NOT CAL_CNT_HALT)"
    unfolding u(3) by auto
  have ctrl: "OSC_CAL_CTRL t AND CAL_CNT_EN = 0" "OSC_CAL_CTRL t AND RB_OSC_CNT_TOTAL = of_nat lv AND RB_OSC_CNT_TOTAL"
  proof -
    have m: "NOT CAL_CNT_EN AND (NOT CAL_CNT_HALT AND CAL_CNT_EN) = 0" "CAL_CNT_EN AND CAL_CNT_HALT = 0"
      "NOT CAL_CNT_EN AND (NOT CAL_CNT_HALT AND RB_OSC_CNT_TOTAL) = RB_OSC_CNT_TOTAL" "RB_OSC_CNT_TOTAL AND CAL_CNT_HALT = 0"
      by (simp_all add: CAL_CNT_EN_def CAL_CNT_HALT_def RB_OSC_CNT_TOTAL_def)
    show "OSC_CAL_CTRL t AND CAL_CNT_EN = 0"
      using ctrl_and_cfg [OF m(2), of t] by (simp add: t(2) and.assoc m)
    show "OSC_CAL_CTRL t AND RB_OSC_CNT_TOTAL = of_nat lv AND RB_OSC_CNT_TOTAL"
      using ctrl_and_cfg [OF m(4), of t] by (simp add: t(2) and.assoc m bit.conj_disj_distrib2)
  qed
  show ?thesis
    using calibrator.wait_enabled_ends [OF c en] u t ctrl
    by (intro exI [of _ ds] exI [of _ k] exI [of _ t])
      (simp add: ch58x_hal_clk_lsi_calibrate_def f e_def cal_cfg_def tuned_def safe_on_def r_def started_def mult.commute
        add.assoc)
qed
lemma sdiv_nonneg: "0 \<le> a \<Longrightarrow> 0 < b \<Longrightarrow> a sdiv b = a div b" for a b :: int
  by (auto simp: signed_divide_int_def sgn_if)

definition cal_example :: cal where
  "cal_example = \<lparr>cal_soc = soc tune_example, OSC_CAL_CTRL = 0, OSC_CAL_CNT = 0, OSC_CAL_OV_CNT = 0\<rparr>"

lemma cal_example_clock: "hal_clk_sys_get 32000 (cal_soc cal_example) = Some 60000000"
  by (simp add: cal_example_def tune_example_def setup_simps)

theorem ch58x_calibrate_returns_witness:
  "\<exists>t. ch58x_hal_clk_lsi_calibrate (cal_step (\<lambda>l. 3750 + l)) 32000 LEVEL_64 cal_example = Some t \<and>
     OSC_CAL_CTRL t AND CAL_CNT_EN = 0"
proof -
  have "coarse_step (sint (60000000 :: u32)) (sint (32000 :: u32)) \<noteq> 0" "fine_step (sint (60000000 :: u32)) (sint (32000 :: u32)) \<noteq> 0"
    by (simp_all add: coarse_step_def fine_step_def)
  then show ?thesis
    using ch58x_calibrate_returns [OF counting.toggles counting.cal_keeps cal_example_clock, of "\<lambda>l. 3750 + l" LEVEL_64]
    by blast
qed

text \<open>The target of the fine adjustment is the number of clocks in the counted periods, rounded down to a multiple of
  1000.  For an oscillator of 32000 Hz that is exact for every system clock in whole megahertz; for 32768 Hz at 60 MHz
  and \<open>LEVEL_64\<close> the code aims at 117000 clocks where 117187 are right, a deviation of 1600 parts per million.\<close>

theorem ch58x_fine_target:
  "(\<forall>lv mhz. 3 \<le> lv \<longrightarrow> 0 \<le> mhz \<longrightarrow>
      fine_target lv (mhz * 1000000) 32000 = 4 * 2 ^ lv * (mhz * 1000000) div 32000) \<and>
   (\<forall>lv mhz rtc. 0 < rtc \<longrightarrow> 0 \<le> mhz \<longrightarrow>
      fine_target lv (mhz * 1000000) rtc = 4 * 2 ^ lv * (mhz * 1000000) div rtc div 1000 * 1000) \<and>
   fine_target LEVEL_64 60000000 32768 = 117000 \<and> 4 * 2 ^ LEVEL_64 * 60000000 div 32768 = (117187 :: int)"
proof (intro conjI allI impI)
  have gen: "fine_target lv (mhz * 1000000) rtc = 4 * 2 ^ lv * (mhz * 1000000) div rtc div 1000 * 1000"
    if "0 < rtc" "0 \<le> mhz" for lv :: nat and mhz rtc :: int
  proof -
    have "4 * 2 ^ lv * (mhz * 1000000) div rtc div 1000 = (4000 * 2 ^ lv * mhz * 1000) div (rtc * 1000)"
      by (simp add: zdiv_zmult2_eq mult.commute mult.left_commute)
    then have "4 * 2 ^ lv * (mhz * 1000000) div rtc div 1000 = (4000 * 2 ^ lv * mhz) div rtc"
      using div_mult_mult2 [of 1000 "4000 * 2 ^ lv * mhz" rtc] by simp
    then show ?thesis using that by (simp add: fine_target_def sdiv_nonneg)
  qed
  then show "fine_target lv (mhz * 1000000) rtc = 4 * 2 ^ lv * (mhz * 1000000) div rtc div 1000 * 1000"
    if "0 < rtc" "0 \<le> mhz" for lv :: nat and mhz rtc :: int using that .
  fix lv :: nat and mhz :: int
  assume "3 \<le> lv" "0 \<le> mhz"
  then have "4 * 2 ^ lv * (mhz * 1000000) = 32000 * (2 ^ (lv - 3) * mhz * 1000)"
    using power_add [of "2 :: int" 3 "lv - 3"] by simp
  then have q: "4 * 2 ^ lv * (mhz * 1000000) div 32000 = 2 ^ (lv - 3) * mhz * 1000" by simp
  have "fine_target lv (mhz * 1000000) 32000 = 4 * 2 ^ lv * (mhz * 1000000) div 32000 div 1000 * 1000"
    using gen [of 32000 mhz lv] \<open>0 \<le> mhz\<close> by linarith
  then show "fine_target lv (mhz * 1000000) 32000 = 4 * 2 ^ lv * (mhz * 1000000) div 32000"
    unfolding q by (simp only: nonzero_mult_div_cancel_right)
qed (simp_all add: fine_target_def LEVEL_64_def)

theorem ch58x_fine_target_witness:
  "fine_target LEVEL_64 60000000 32000 = 120000 \<and> fine_target LEVEL_32 48000000 32768 = 46000"
  using ch58x_fine_target [THEN conjunct1, rule_format, of LEVEL_64 60]
    ch58x_fine_target [THEN conjunct2, THEN conjunct1, rule_format, of 32768 48 LEVEL_32]
  by (simp add: LEVEL_64_def LEVEL_32_def)

end
