(* ===== verification/Gatt_Tables.thy ===== *)
theory Gatt_Tables
  imports Gatt_Services Bt_Host
begin

text \<open>
  The attribute tables of the GATT services and their registration: the macros of \<^verbatim>\<open>include/bluetooth/gatt.h\<close> and the
  tables of \<^verbatim>\<open>subsys/bluetooth/services/dis.c\<close>, \<^verbatim>\<open>hrs.c\<close> and \<^verbatim>\<open>sps.c\<close>.

  \<open>at\<close> gives the address of each static variable.  The identifiers and properties are constant bytes in memory; the
  tables \<open>dis_uuid_table\<close>, \<open>dis_prop_table\<close> and so on list their initial values.
\<close>

section \<open>Table macros\<close>

definition GATT_PERMIT_READ :: u8 where "GATT_PERMIT_READ = 0x01"
definition GATT_PERMIT_WRITE :: u8 where "GATT_PERMIT_WRITE = 0x02"
definition GATT_PERMIT_AUTHEN_READ :: u8 where "GATT_PERMIT_AUTHEN_READ = 0x04"
definition GATT_PERMIT_AUTHEN_WRITE :: u8 where "GATT_PERMIT_AUTHEN_WRITE = 0x08"
definition GATT_PERMIT_ENCRYPT_READ :: u8 where "GATT_PERMIT_ENCRYPT_READ = 0x40"
definition GATT_PERMIT_ENCRYPT_WRITE :: u8 where "GATT_PERMIT_ENCRYPT_WRITE = 0x80"
definition GATT_PROP_READ :: u8 where "GATT_PROP_READ = 0x02"
definition GATT_PROP_WRITE :: u8 where "GATT_PROP_WRITE = 0x08"
definition GATT_PROP_NOTIFY :: u8 where "GATT_PROP_NOTIFY = 0x10"
definition INVALID_CONNHANDLE :: u16 where "INVALID_CONNHANDLE = 0xFFFF"
definition DEVINFO_SERV_UUID :: u16 where "DEVINFO_SERV_UUID = 0x180A"
definition HEARTRATE_SERV_UUID :: u16 where "HEARTRATE_SERV_UUID = 0x180D"
definition HEARTRATE_MEAS_UUID :: u16 where "HEARTRATE_MEAS_UUID = 0x2A37"
definition SIMPLEPROFILE_SERV_UUID :: u16 where "SIMPLEPROFILE_SERV_UUID = 0xFFE0"

lemmas gatt_bits = GATT_PERMIT_READ_def GATT_PERMIT_WRITE_def GATT_PERMIT_AUTHEN_READ_def GATT_PERMIT_AUTHEN_WRITE_def
  GATT_PERMIT_ENCRYPT_READ_def GATT_PERMIT_ENCRYPT_WRITE_def GATT_PROP_READ_def GATT_PROP_WRITE_def GATT_PROP_NOTIFY_def

type_synonym syms = "string \<Rightarrow> addr"

definition BLE_GATT_ATTRIBUTE :: "u8 \<Rightarrow> addr \<Rightarrow> u8 \<Rightarrow> addr \<Rightarrow> gatt_attribute" where
  "BLE_GATT_ATTRIBUTE len uuid perm pvalue =
     \<lparr>at_type_len = len, at_uuid = uuid, at_permissions = perm, at_handle = 0, at_pValue = pvalue\<rparr>"

definition BLE_GATT_PRIMEARY_SERVICE :: "syms \<Rightarrow> addr \<Rightarrow> gatt_attribute" where
  "BLE_GATT_PRIMEARY_SERVICE at attr_type =
     BLE_GATT_ATTRIBUTE ATT_BT_UUID_SIZE (at ''primaryServiceUUID'') GATT_PERMIT_READ attr_type"

definition BLE_GATT_SECONDARY_SERVICE :: "syms \<Rightarrow> addr \<Rightarrow> gatt_attribute" where
  "BLE_GATT_SECONDARY_SERVICE at attr_type =
     BLE_GATT_ATTRIBUTE ATT_BT_UUID_SIZE (at ''secondaryServiceUUID'') GATT_PERMIT_READ attr_type"

definition BLE_GATT_INCLUDE_SERVICE :: "syms \<Rightarrow> addr \<Rightarrow> gatt_attribute" where
  "BLE_GATT_INCLUDE_SERVICE at attr_type =
     BLE_GATT_ATTRIBUTE ATT_BT_UUID_SIZE (at ''includeUUID'') GATT_PERMIT_READ attr_type"

definition BLE_GATT_CHRC_DECLARATION :: "syms \<Rightarrow> addr \<Rightarrow> gatt_attribute" where
  "BLE_GATT_CHRC_DECLARATION at props =
     BLE_GATT_ATTRIBUTE ATT_BT_UUID_SIZE (at ''characterUUID'') GATT_PERMIT_READ props"

definition BLE_GATT_CHRC_VALUE :: "addr \<Rightarrow> u8 \<Rightarrow> addr \<Rightarrow> gatt_attribute" where
  "BLE_GATT_CHRC_VALUE uuid perm value = BLE_GATT_ATTRIBUTE ATT_BT_UUID_SIZE uuid perm value"

definition BLE_GATT_CHRC_DESCRIPTION :: "syms \<Rightarrow> addr \<Rightarrow> gatt_attribute" where
  "BLE_GATT_CHRC_DESCRIPTION at des =
     BLE_GATT_ATTRIBUTE ATT_BT_UUID_SIZE (at ''charUserDescUUID'') GATT_PERMIT_READ des"

definition BLE_GATT_CHARACTERISTIC :: "syms \<Rightarrow> addr \<Rightarrow> u8 \<Rightarrow> addr \<Rightarrow> addr \<Rightarrow> gatt_attribute list" where
  "BLE_GATT_CHARACTERISTIC at uuid perm props value =
     [BLE_GATT_CHRC_DECLARATION at props, BLE_GATT_CHRC_VALUE uuid perm value]"

definition BLE_GATT_CCC :: "syms \<Rightarrow> u8 \<Rightarrow> addr \<Rightarrow> gatt_attribute" where
  "BLE_GATT_CCC at perm cfg = BLE_GATT_ATTRIBUTE ATT_BT_UUID_SIZE (at ''clientCharCfgUUID'') perm cfg"

lemmas table_macros = BLE_GATT_ATTRIBUTE_def BLE_GATT_PRIMEARY_SERVICE_def BLE_GATT_CHRC_DECLARATION_def
  BLE_GATT_CHRC_VALUE_def BLE_GATT_CHRC_DESCRIPTION_def BLE_GATT_CHARACTERISTIC_def BLE_GATT_CCC_def

section \<open>The tables\<close>

definition dev_info_srv :: "syms \<Rightarrow> gatt_attribute list" where
  "dev_info_srv at =
     [BLE_GATT_PRIMEARY_SERVICE at (at ''devInfoService'')] @
     BLE_GATT_CHARACTERISTIC at (at ''devInfoSystemIdUUID'') GATT_PERMIT_READ (at ''devInfoSystemIdProps'') (at ''devInfoSystemId'') @
     BLE_GATT_CHARACTERISTIC at (at ''devInfoModelNumberUUID'') GATT_PERMIT_READ (at ''devInfoModelNumberProps'') (at ''devInfoModelNumber'') @
     BLE_GATT_CHARACTERISTIC at (at ''devInfoSerialNumberUUID'') GATT_PERMIT_READ (at ''devInfoSerialNumberProps'') (at ''devInfoSerialNumber'') @
     BLE_GATT_CHARACTERISTIC at (at ''devInfoFirmwareRevUUID'') GATT_PERMIT_READ (at ''devInfoFirmwareRevProps'') (at ''devInfoFirmwareRev'') @
     BLE_GATT_CHARACTERISTIC at (at ''devInfoHardwareRevUUID'') GATT_PERMIT_READ (at ''devInfoHardwareRevProps'') (at ''devInfoHardwareRev'') @
     BLE_GATT_CHARACTERISTIC at (at ''devInfoSoftwareRevUUID'') GATT_PERMIT_READ (at ''devInfoSoftwareRevProps'') (at ''devInfoSoftwareRev'') @
     BLE_GATT_CHARACTERISTIC at (at ''devInfoMfrNameUUID'') GATT_PERMIT_READ (at ''devInfoMfrNameProps'') (at ''devInfoMfrName'') @
     BLE_GATT_CHARACTERISTIC at (at ''devInfo11073CertUUID'') GATT_PERMIT_READ (at ''devInfo11073CertProps'') (at ''devInfo11073Cert'') @
     BLE_GATT_CHARACTERISTIC at (at ''devInfoPnpIdUUID'') GATT_PERMIT_READ (at ''devInfoPnpIdProps'') (at ''devInfoPnpId'')"

text \<open>\<open>CONFIG_BT_HRS_PERM_RW_AUTHEN\<close> and \<open>CONFIG_BT_HRS_PERM_RW_ENCRYPT\<close> are the arguments \<open>authen\<close> and \<open>encrypt\<close>.\<close>

definition GATT_PREM_READ_MASK :: u8 where
  "GATT_PREM_READ_MASK = GATT_PERMIT_READ OR GATT_PERMIT_AUTHEN_READ OR GATT_PERMIT_ENCRYPT_READ"

definition GATT_PREM_WRITE_MASK :: u8 where
  "GATT_PREM_WRITE_MASK = GATT_PERMIT_WRITE OR GATT_PERMIT_AUTHEN_WRITE OR GATT_PERMIT_ENCRYPT_WRITE"

definition HRS_GATT_PERM_DEFAULT :: "bool \<Rightarrow> bool \<Rightarrow> u8" where
  "HRS_GATT_PERM_DEFAULT authen encrypt =
     (if authen then GATT_PERMIT_AUTHEN_READ OR GATT_PERMIT_AUTHEN_WRITE
      else if encrypt then GATT_PERMIT_ENCRYPT_READ OR GATT_PERMIT_ENCRYPT_WRITE
      else GATT_PERMIT_READ OR GATT_PERMIT_WRITE)"

definition hrs_srv :: "bool \<Rightarrow> bool \<Rightarrow> syms \<Rightarrow> gatt_attribute list" where
  "hrs_srv authen encrypt at =
     [BLE_GATT_PRIMEARY_SERVICE at (at ''heartRateService'')] @
     BLE_GATT_CHARACTERISTIC at (at ''heartRateMeasUUID'') (HRS_GATT_PERM_DEFAULT authen encrypt)
       (at ''heartRateMeasProps'') (at ''heartRateMeas'') @
     [BLE_GATT_CCC at (HRS_GATT_PERM_DEFAULT authen encrypt) (at ''heartRateMeasClientCharCfg'')] @
     BLE_GATT_CHARACTERISTIC at (at ''heartRateSensLocUUID'') (HRS_GATT_PERM_DEFAULT authen encrypt AND GATT_PREM_READ_MASK)
       (at ''heartRateSensLocProps'') (at ''heartRateSensLoc'') @
     BLE_GATT_CHARACTERISTIC at (at ''hrs_ctrl_point_uuid'') (HRS_GATT_PERM_DEFAULT authen encrypt AND GATT_PREM_WRITE_MASK)
       (at ''hrs_ctrl_point_props'') (at ''hrs_ctrl_point'')"

definition simple_srv :: "syms \<Rightarrow> gatt_attribute list" where
  "simple_srv at =
     [BLE_GATT_PRIMEARY_SERVICE at (at ''simpleProfileService''),
      BLE_GATT_CHRC_DECLARATION at (at ''simpleProfileChar1Props''),
      BLE_GATT_CHRC_VALUE (at ''simpleProfilechar1UUID'') (GATT_PERMIT_READ OR GATT_PERMIT_WRITE) (at ''simpleProfileChar1''),
      BLE_GATT_CHRC_DESCRIPTION at (at ''simpleProfileChar1UserDesp''),
      BLE_GATT_CHRC_DECLARATION at (at ''simpleProfileChar2Props''),
      BLE_GATT_CHRC_VALUE (at ''simpleProfilechar2UUID'') GATT_PERMIT_READ (at ''simpleProfileChar2''),
      BLE_GATT_CHRC_DESCRIPTION at (at ''simpleProfileChar2UserDesp''),
      BLE_GATT_CHRC_DECLARATION at (at ''simpleProfileChar3Props''),
      BLE_GATT_CHRC_VALUE (at ''simpleProfilechar3UUID'') GATT_PERMIT_WRITE (at ''simpleProfileChar3''),
      BLE_GATT_CHRC_DESCRIPTION at (at ''simpleProfileChar3UserDesp''),
      BLE_GATT_CHRC_DECLARATION at (at ''simpleProfileChar4Props''),
      BLE_GATT_CHRC_VALUE (at ''simpleProfilechar4UUID'') 0 (at ''simpleProfileChar4''),
      BLE_GATT_CHRC_DESCRIPTION at (at ''simpleProfileChar4UserDesp''),
      BLE_GATT_CCC at (GATT_PERMIT_READ OR GATT_PERMIT_WRITE) (at ''simpleProfileChar4Config''),
      BLE_GATT_CHRC_DECLARATION at (at ''simpleProfileChar5Props''),
      BLE_GATT_CHRC_VALUE (at ''simpleProfilechar5UUID'') GATT_PERMIT_AUTHEN_READ (at ''simpleProfileChar5''),
      BLE_GATT_CHRC_DESCRIPTION at (at ''simpleProfileChar5UserDesp'')]"

section \<open>Registration\<close>

text \<open>The callback tables are addresses.  The second component is the static pointer to the callbacks of the
  application.\<close>

definition device_info_service_register :: "'l host_lib \<Rightarrow> syms \<Rightarrow> 'l host \<Rightarrow> u32 \<times> 'l host" where
  "device_info_service_register lib at s =
     call lib (Register_service (at ''dev_info_srv'') (of_nat (length (dev_info_srv at))) GATT_MAX_ENCRYPT_KEY_SIZE
       (at ''dis_gatt_cb'')) s"

definition heartrate_service_register ::
  "'l host_lib \<Rightarrow> bool \<Rightarrow> bool \<Rightarrow> syms \<Rightarrow> addr \<Rightarrow> 'l host \<Rightarrow> u32 \<times> addr \<times> 'l host" where
  "heartrate_service_register lib authen encrypt at cb s =
     (let hrs_cb = cb;
          (_, s) = call lib (Init_char_cfg INVALID_CONNHANDLE (at ''heartRateMeasClientCharCfg'')) s;
          (ret, s) = call lib (Register_service (at ''hrs_srv'') (of_nat (length (hrs_srv authen encrypt at)))
            GATT_MAX_ENCRYPT_KEY_SIZE (at ''hrs_gatt_cb'')) s
      in (ret, hrs_cb, s))"

definition simple_service_register :: "'l host_lib \<Rightarrow> syms \<Rightarrow> addr \<Rightarrow> 'l host \<Rightarrow> u32 \<times> addr \<times> 'l host" where
  "simple_service_register lib at cb s =
     (let sps_cb = cb;
          (_, s) = call lib (Init_char_cfg INVALID_CONNHANDLE (at ''simpleProfileChar4Config'')) s;
          (ret, s) = call lib (Register_service (at ''simple_srv'') (of_nat (length (simple_srv at)))
            GATT_MAX_ENCRYPT_KEY_SIZE (at ''sps_gatt_cb'')) s
      in (ret, sps_cb, s))"

section \<open>Static data\<close>

definition dis_uuid_table :: "(string \<times> u16) list" where
  "dis_uuid_table =
     [(''devInfoServUUID'', DEVINFO_SERV_UUID),
      (''devInfoSystemIdUUID'', SYSTEM_ID_UUID),
      (''devInfoModelNumberUUID'', MODEL_NUMBER_UUID),
      (''devInfoSerialNumberUUID'', SERIAL_NUMBER_UUID),
      (''devInfoFirmwareRevUUID'', FIRMWARE_REV_UUID),
      (''devInfoHardwareRevUUID'', HARDWARE_REV_UUID),
      (''devInfoSoftwareRevUUID'', SOFTWARE_REV_UUID),
      (''devInfoMfrNameUUID'', MANUFACTURER_NAME_UUID),
      (''devInfo11073CertUUID'', IEEE_11073_CERT_DATA_UUID),
      (''devInfoPnpIdUUID'', PNP_ID_UUID)]"

definition dis_prop_table :: "(string \<times> u8) list" where
  "dis_prop_table =
     [(''devInfoSystemIdProps'', GATT_PROP_READ),
      (''devInfoModelNumberProps'', GATT_PROP_READ),
      (''devInfoSerialNumberProps'', GATT_PROP_READ),
      (''devInfoFirmwareRevProps'', GATT_PROP_READ),
      (''devInfoHardwareRevProps'', GATT_PROP_READ),
      (''devInfoSoftwareRevProps'', GATT_PROP_READ),
      (''devInfoMfrNameProps'', GATT_PROP_READ),
      (''devInfo11073CertProps'', GATT_PROP_READ),
      (''devInfoPnpIdProps'', GATT_PROP_READ)]"

definition hrs_uuid_table :: "(string \<times> u16) list" where
  "hrs_uuid_table =
     [(''heartRateServUUID'', HEARTRATE_SERV_UUID),
      (''heartRateMeasUUID'', HEARTRATE_MEAS_UUID),
      (''heartRateSensLocUUID'', BODY_SENSOR_LOC_UUID),
      (''hrs_ctrl_point_uuid'', HEARTRATE_CTRL_PT_UUID)]"

definition hrs_prop_table :: "(string \<times> u8) list" where
  "hrs_prop_table =
     [(''heartRateMeasProps'', GATT_PROP_NOTIFY),
      (''heartRateSensLocProps'', GATT_PROP_READ),
      (''hrs_ctrl_point_props'', GATT_PROP_WRITE)]"

definition sps_uuid_table :: "(string \<times> u16) list" where
  "sps_uuid_table =
     [(''simpleProfileServUUID'', SIMPLEPROFILE_SERV_UUID),
      (''simpleProfilechar1UUID'', SIMPLEPROFILE_CHAR1_UUID),
      (''simpleProfilechar2UUID'', SIMPLEPROFILE_CHAR2_UUID),
      (''simpleProfilechar3UUID'', SIMPLEPROFILE_CHAR3_UUID),
      (''simpleProfilechar4UUID'', SIMPLEPROFILE_CHAR4_UUID),
      (''simpleProfilechar5UUID'', SIMPLEPROFILE_CHAR5_UUID)]"

definition sps_prop_table :: "(string \<times> u8) list" where
  "sps_prop_table =
     [(''simpleProfileChar1Props'', GATT_PROP_READ OR GATT_PROP_WRITE),
      (''simpleProfileChar2Props'', GATT_PROP_READ),
      (''simpleProfileChar3Props'', GATT_PROP_WRITE),
      (''simpleProfileChar4Props'', GATT_PROP_NOTIFY),
      (''simpleProfileChar5Props'', GATT_PROP_READ)]"

text \<open>The memory holds the identifiers, low byte first, and the properties.\<close>

definition uuid_at :: "mem \<Rightarrow> addr \<Rightarrow> u16" where
  "uuid_at m a = le_val [m a, m (a + 1)]"

definition statics_in :: "syms \<Rightarrow> (string \<times> u16) list \<Rightarrow> (string \<times> u8) list \<Rightarrow> mem \<Rightarrow> bool" where
  "statics_in at uuids props m \<longleftrightarrow>
     list_all (\<lambda>(x, u). uuid_at m (at x) = u) uuids \<and> list_all (\<lambda>(x, p). m (at x) = p) props"

section \<open>Well formed tables\<close>

text \<open>A characteristic is a declaration, a value and the descriptors up to the next declaration.\<close>

function characteristics ::
  "addr \<Rightarrow> gatt_attribute list \<Rightarrow> (gatt_attribute \<times> gatt_attribute \<times> gatt_attribute list) list option" where
  "characteristics u [] = Some []"
| "characteristics u [d] = None"
| "characteristics u (d # v # as) =
     (if at_uuid d = u
      then map_option (Cons (d, v, takeWhile (\<lambda>a. at_uuid a \<noteq> u) as)) (characteristics u (dropWhile (\<lambda>a. at_uuid a \<noteq> u) as))
      else None)"
  by pat_completeness auto
termination
  by (relation "measure (length \<circ> snd)") (auto intro: le_less_trans [OF length_dropWhile_le])

definition readable :: "gatt_attribute \<Rightarrow> bool" where
  "readable a \<longleftrightarrow> at_permissions a AND GATT_PREM_READ_MASK \<noteq> 0"

definition writable :: "gatt_attribute \<Rightarrow> bool" where
  "writable a \<longleftrightarrow> at_permissions a AND GATT_PREM_WRITE_MASK \<noteq> 0"

text \<open>The declared properties are the ones the permissions of the value grant, and a value that can be notified has a
  client configuration that can be written.\<close>

definition chrc_ok :: "syms \<Rightarrow> mem \<Rightarrow> gatt_attribute \<times> gatt_attribute \<times> gatt_attribute list \<Rightarrow> bool" where
  "chrc_ok at m c =
     (case c of (d, v, ds) \<Rightarrow>
        let props = m (at_pValue d) in
        (props AND GATT_PROP_READ \<noteq> 0 \<longleftrightarrow> readable v) \<and> (props AND GATT_PROP_WRITE \<noteq> 0 \<longleftrightarrow> writable v) \<and>
        (props AND GATT_PROP_NOTIFY \<noteq> 0 \<longleftrightarrow> (\<exists>a \<in> set ds. at_uuid a = at ''clientCharCfgUUID'' \<and> writable a)))"

definition service_ok :: "syms \<Rightarrow> mem \<Rightarrow> gatt_attribute list \<Rightarrow> bool" where
  "service_ok at m tbl =
     (case tbl of
        [] \<Rightarrow> False
      | s # as \<Rightarrow> at_uuid s = at ''primaryServiceUUID'' \<and>
          (case characteristics (at ''characterUUID'') as of None \<Rightarrow> False | Some cs \<Rightarrow> list_all (chrc_ok at m) cs))"

definition chrc_values :: "syms \<Rightarrow> gatt_attribute list \<Rightarrow> gatt_attribute list" where
  "chrc_values at tbl = (case characteristics (at ''characterUUID'') (tl tbl) of None \<Rightarrow> [] | Some cs \<Rightarrow> map (fst \<circ> snd) cs)"

lemma uuid_reads: "attr_uuid a m = uuid_at m (at_uuid a)" "sys_get_le16 p m = uuid_at m p"
  by (simp_all add: attr_uuid_def uuid_at_def sys_get_le16_def or.commute)

lemmas all_uuids = dis_uuids DEVINFO_SERV_UUID_def HEARTRATE_SERV_UUID_def HEARTRATE_MEAS_UUID_def BODY_SENSOR_LOC_UUID_def
  HEARTRATE_CTRL_PT_UUID_def SIMPLEPROFILE_SERV_UUID_def SIMPLEPROFILE_CHAR1_UUID_def SIMPLEPROFILE_CHAR2_UUID_def
  SIMPLEPROFILE_CHAR3_UUID_def SIMPLEPROFILE_CHAR4_UUID_def SIMPLEPROFILE_CHAR5_UUID_def

lemmas table_defs = dev_info_srv_def hrs_srv_def simple_srv_def table_macros
lemmas static_tables = dis_uuid_table_def dis_prop_table_def hrs_uuid_table_def hrs_prop_table_def sps_uuid_table_def
  sps_prop_table_def
lemmas ok_simps = service_ok_def chrc_ok_def readable_def writable_def GATT_PREM_READ_MASK_def GATT_PREM_WRITE_MASK_def gatt_bits

text \<open>C20: The tables of the device information service and of the simple profile are well formed: a primary service
  followed by characteristics whose declared properties agree with the permissions of their values and whose
  notifications can be configured.  The table of the heart rate service is not, whatever its options are: its
  measurement can only be notified according to its properties, but the permissions let a client read and write it.\<close>

theorem gatt_tables_typed:
  assumes "at ''characterUUID'' \<noteq> at ''charUserDescUUID''" "at ''characterUUID'' \<noteq> at ''clientCharCfgUUID''"
    "at ''charUserDescUUID'' \<noteq> at ''clientCharCfgUUID''"
    and "statics_in at dis_uuid_table dis_prop_table m" "statics_in at hrs_uuid_table hrs_prop_table m"
      "statics_in at sps_uuid_table sps_prop_table m"
  shows "service_ok at m (dev_info_srv at) \<and> service_ok at m (simple_srv at) \<and>
    \<not> service_ok at m (hrs_srv authen encrypt at)"
  using assms
  by (simp add: table_defs statics_in_def static_tables ok_simps HRS_GATT_PERM_DEFAULT_def ATT_BT_UUID_SIZE_def)

text \<open>A layout of the statics in memory.\<close>

definition example_at :: syms where
  "example_at x = 0x1000 + 4 * of_nat (foldr (\<lambda>c h. (31 * h + of_char c) mod 4099) x 0)"

definition example_statics :: mem where
  "example_statics =
     fold (\<lambda>(x, p) m. m(example_at x := p)) (dis_prop_table @ hrs_prop_table @ sps_prop_table)
     (fold (\<lambda>(x, u) m. m(example_at x := ucast u, example_at x + 1 := ucast (drop_bit 8 u)))
       (dis_uuid_table @ hrs_uuid_table @ sps_uuid_table) (\<lambda>_. 0))"

lemma example_at_values [simp]:
  "example_at ''charUserDescUUID'' = 8868"
  "example_at ''characterUUID'' = 7924"
  "example_at ''clientCharCfgUUID'' = 6380"
  "example_at ''devInfo11073CertProps'' = 10396"
  "example_at ''devInfo11073CertUUID'' = 11380"
  "example_at ''devInfoFirmwareRevProps'' = 18756"
  "example_at ''devInfoFirmwareRevUUID'' = 13412"
  "example_at ''devInfoHardwareRevProps'' = 19920"
  "example_at ''devInfoHardwareRevUUID'' = 14576"
  "example_at ''devInfoMfrNameProps'' = 10868"
  "example_at ''devInfoMfrNameUUID'' = 6416"
  "example_at ''devInfoModelNumberProps'' = 12492"
  "example_at ''devInfoModelNumberUUID'' = 7148"
  "example_at ''devInfoPnpIdProps'' = 12364"
  "example_at ''devInfoPnpIdUUID'' = 10312"
  "example_at ''devInfoSerialNumberProps'' = 10488"
  "example_at ''devInfoSerialNumberUUID'' = 8784"
  "example_at ''devInfoServUUID'' = 4236"
  "example_at ''devInfoSoftwareRevProps'' = 8272"
  "example_at ''devInfoSoftwareRevUUID'' = 19324"
  "example_at ''devInfoSystemIdProps'' = 17300"
  "example_at ''devInfoSystemIdUUID'' = 10456"
  "example_at ''heartRateMeasProps'' = 5920"
  "example_at ''heartRateMeasUUID'' = 7892"
  "example_at ''heartRateSensLocProps'' = 4136"
  "example_at ''heartRateSensLocUUID'' = 5120"
  "example_at ''heartRateServUUID'' = 13536"
  "example_at ''hrs_ctrl_point_props'' = 6524"
  "example_at ''hrs_ctrl_point_uuid'' = 13076"
  "example_at ''simpleProfileChar1Props'' = 9648"
  "example_at ''simpleProfileChar2Props'' = 20100"
  "example_at ''simpleProfileChar3Props'' = 14156"
  "example_at ''simpleProfileChar4Props'' = 8212"
  "example_at ''simpleProfileChar5Props'' = 18664"
  "example_at ''simpleProfileServUUID'' = 17968"
  "example_at ''simpleProfilechar1UUID'' = 12652"
  "example_at ''simpleProfilechar2UUID'' = 6708"
  "example_at ''simpleProfilechar3UUID'' = 17160"
  "example_at ''simpleProfilechar4UUID'' = 11216"
  "example_at ''simpleProfilechar5UUID'' = 5272"
  by (simp_all add: example_at_def)

lemma example_statics_in:
  "statics_in example_at dis_uuid_table dis_prop_table example_statics"
  "statics_in example_at hrs_uuid_table hrs_prop_table example_statics"
  "statics_in example_at sps_uuid_table sps_prop_table example_statics"
  by (simp_all add: statics_in_def example_statics_def static_tables uuid_at_def gatt_bits all_uuids)

lemma example_at_distinct:
  "example_at ''characterUUID'' \<noteq> example_at ''charUserDescUUID''"
  "example_at ''characterUUID'' \<noteq> example_at ''clientCharCfgUUID''"
  "example_at ''charUserDescUUID'' \<noteq> example_at ''clientCharCfgUUID''"
  by simp_all

theorem gatt_tables_typed_witness:
  "service_ok example_at example_statics (dev_info_srv example_at) \<and>
   \<not> service_ok example_at example_statics (hrs_srv True False example_at)"
  using gatt_tables_typed [OF example_at_distinct example_statics_in] by blast

text \<open>The read functions serve their tables.  Every value of the device information service and every value of the
  simple profile that a client may read is read with success; in the heart rate table the sensor location is, and
  the measurement, although readable, is answered with \<open>ATT_ERR_ATTR_NOT_FOUND\<close>.  The attributes whose handles the
  notification functions use are the values that can be notified.\<close>

theorem gatt_reads_served:
  assumes distinct: "at ''characterUUID'' \<noteq> at ''charUserDescUUID''" "at ''characterUUID'' \<noteq> at ''clientCharCfgUUID''"
    and statics: "statics_in at dis_uuid_table dis_prop_table m" "statics_in at hrs_uuid_table hrs_prop_table m"
      "statics_in at sps_uuid_table sps_prop_table m"
  shows "list_all (\<lambda>a. fst (dis_read sysid a p 0 n m) = SUCCESS) (chrc_values at (dev_info_srv at)) \<and>
    list_all (\<lambda>a. readable a \<longrightarrow> fst (sps_read a p 0 n m) = SUCCESS) (chrc_values at (simple_srv at)) \<and>
    map (\<lambda>a. (readable a, fst (hrs_read a p 0 n m))) (chrc_values at (hrs_srv authen encrypt at)) =
      [(True, ATT_ERR_ATTR_NOT_FOUND), (True, SUCCESS), (False, ATT_ERR_ATTR_NOT_FOUND)] \<and>
    at_pValue (hrs_srv authen encrypt at ! 2) = at ''heartRateMeas'' \<and>
    at_pValue (simple_srv at ! 11) = at ''simpleProfileChar4''"
proof (intro conjI)
  note simps = chrc_values_def table_defs statics_in_def static_tables ok_simps ATT_BT_UUID_SIZE_def
  show "list_all (\<lambda>a. fst (dis_read sysid a p 0 n m) = SUCCESS) (chrc_values at (dev_info_srv at))"
    using statics(1) by (simp add: simps dis_read_value dis_value_def uuid_reads dis_uuids dis_read_case_def Let_def)
  show "list_all (\<lambda>a. readable a \<longrightarrow> fst (sps_read a p 0 n m) = SUCCESS) (chrc_values at (simple_srv at))"
    using statics(3) distinct by (simp add: simps sps_read_def sps_read_case_def uuid_reads all_uuids gattPermitAuthorRead_def GATT_PERMIT_AUTHOR_READ_def Let_def)
  show "map (\<lambda>a. (readable a, fst (hrs_read a p 0 n m))) (chrc_values at (hrs_srv authen encrypt at)) =
      [(True, ATT_ERR_ATTR_NOT_FOUND), (True, SUCCESS), (False, ATT_ERR_ATTR_NOT_FOUND)]"
    using statics(2) distinct by (simp add: simps hrs_read_def uuid_reads all_uuids HRS_GATT_PERM_DEFAULT_def)
qed (simp_all add: table_defs)

theorem gatt_reads_served_witness:
  "list_all (\<lambda>a. fst (dis_read 0x20000100 a 0x20000200 0 20 example_statics) = SUCCESS)
     (chrc_values example_at (dev_info_srv example_at)) \<and>
   list_all (\<lambda>a. readable a \<longrightarrow> fst (sps_read a 0x20000200 0 20 example_statics) = SUCCESS)
     (chrc_values example_at (simple_srv example_at))"
  using gatt_reads_served [OF example_at_distinct(1,2) example_statics_in, of "0x20000100" "0x20000200" 20] by blast

end
