(* ===== verification/Pp_Loops.thy ===== *)
theory Pp_Loops
  imports Prelude
begin

text \<open>
  The looping macros of \<^verbatim>\<open>include/sys/util_loops.h\<close>.  A token is a string; the arguments of a macro are lists of
  tokens.  A function-like macro is a function from its arguments to the tokens of its expansion; \<open>None\<close> means that
  the preprocessor rejects the invocation (too few arguments) or leaves it unexpanded (an undefined name, a separator
  that is not in parentheses).  Macros that are passed to other macros are functions.  An argument that has been
  expanded to tokens with commas is split again when it is passed on: \<open>split_args\<close>.

  The numbered macros of a family differ in their numbers only: \<open>loop_next\<close>, \<open>named_arg\<close>, \<open>rest_args\<close> and
  \<open>listify_next\<close> are their bodies.
\<close>

section \<open>Tokens and arguments\<close>

type_synonym tokens = "string list"
type_synonym macro = "tokens list \<Rightarrow> tokens option"

abbreviation lparen :: string where "lparen \<equiv> ''(''"
abbreviation rparen :: string where "rparen \<equiv> '')''"
abbreviation comma :: string where "comma \<equiv> '',''"

fun split_at :: "nat \<Rightarrow> tokens \<Rightarrow> tokens \<Rightarrow> tokens list" where
  "split_at d cur [] = [cur]"
| "split_at d cur (t # ts) =
     (if t = comma \<and> d = 0 then cur # split_at 0 [] ts
      else split_at (if t = lparen then d + 1 else if t = rparen then d - 1 else d) (cur @ [t]) ts)"

definition split_args :: "tokens \<Rightarrow> tokens list" where
  "split_args ts = split_at 0 [] ts"

text \<open>\<open>__VA_ARGS__\<close> in a replacement list, and as an argument list: omitted arguments are one empty argument.\<close>

fun with_commas :: "tokens list \<Rightarrow> tokens" where
  "with_commas [] = []"
| "with_commas [x] = x"
| "with_commas (x # y # xs) = x @ [comma] @ with_commas (y # xs)"

definition va_args :: "tokens list \<Rightarrow> tokens list" where
  "va_args va = (if va = [] then [[]] else va)"

text \<open>The decimal literal of a number.\<close>

fun dec :: "nat \<Rightarrow> string" where
  "dec n = (if n < 10 then [char_of (48 + n)] else dec (n div 10) @ [char_of (48 + n mod 10)])"

declare dec.simps [simp del]

text \<open>\<open>__DEBRACKET sep\<close> for a separator in parentheses.\<close>

definition DEBRACKET :: "tokens \<Rightarrow> tokens option" where
  "DEBRACKET ts = (if 2 \<le> length ts \<and> hd ts = lparen \<and> last ts = rparen then Some (butlast (tl ts)) else None)"

definition cat3 :: "tokens option \<Rightarrow> tokens option \<Rightarrow> tokens option \<Rightarrow> tokens option" where
  "cat3 a b c = Option.bind a (\<lambda>a. Option.bind b (\<lambda>b. Option.bind c (\<lambda>c. Some (a @ b @ c))))"

section \<open>Loops over arguments\<close>

text \<open>\<open>z_call(idx, x, fixed_arg0, fixed_arg1)\<close>, and the type of the loop macros.\<close>

type_synonym z_call = "nat \<Rightarrow> tokens \<Rightarrow> macro \<Rightarrow> tokens \<Rightarrow> tokens option"
type_synonym for_loop = "z_call \<Rightarrow> tokens \<Rightarrow> macro \<Rightarrow> tokens \<Rightarrow> tokens list \<Rightarrow> tokens option"

definition loop_next :: "for_loop \<Rightarrow> nat \<Rightarrow> for_loop" where
  "loop_next prev idx z_call sep fixed_arg0 fixed_arg1 args =
     (case args of
        [] \<Rightarrow> None
      | x # va \<Rightarrow> cat3 (prev z_call sep fixed_arg0 fixed_arg1 va) (DEBRACKET sep) (z_call idx x fixed_arg0 fixed_arg1))"

definition Z_FOR_LOOP_0 :: for_loop where
  "Z_FOR_LOOP_0 z_call sep fixed_arg0 fixed_arg1 va = Some []"
definition Z_FOR_LOOP_1 :: for_loop where
  "Z_FOR_LOOP_1 z_call sep fixed_arg0 fixed_arg1 args =
     (case args of [x] \<Rightarrow> z_call 0 x fixed_arg0 fixed_arg1 | _ \<Rightarrow> None)"
definition Z_FOR_LOOP_2 :: for_loop where "Z_FOR_LOOP_2 = loop_next Z_FOR_LOOP_1 1"
definition Z_FOR_LOOP_3 :: for_loop where "Z_FOR_LOOP_3 = loop_next Z_FOR_LOOP_2 2"
definition Z_FOR_LOOP_4 :: for_loop where "Z_FOR_LOOP_4 = loop_next Z_FOR_LOOP_3 3"
definition Z_FOR_LOOP_5 :: for_loop where "Z_FOR_LOOP_5 = loop_next Z_FOR_LOOP_4 4"
definition Z_FOR_LOOP_6 :: for_loop where "Z_FOR_LOOP_6 = loop_next Z_FOR_LOOP_5 5"
definition Z_FOR_LOOP_7 :: for_loop where "Z_FOR_LOOP_7 = loop_next Z_FOR_LOOP_6 6"
definition Z_FOR_LOOP_8 :: for_loop where "Z_FOR_LOOP_8 = loop_next Z_FOR_LOOP_7 7"
definition Z_FOR_LOOP_9 :: for_loop where "Z_FOR_LOOP_9 = loop_next Z_FOR_LOOP_8 8"
definition Z_FOR_LOOP_10 :: for_loop where "Z_FOR_LOOP_10 = loop_next Z_FOR_LOOP_9 9"
definition Z_FOR_LOOP_11 :: for_loop where "Z_FOR_LOOP_11 = loop_next Z_FOR_LOOP_10 10"
definition Z_FOR_LOOP_12 :: for_loop where "Z_FOR_LOOP_12 = loop_next Z_FOR_LOOP_11 11"
definition Z_FOR_LOOP_13 :: for_loop where "Z_FOR_LOOP_13 = loop_next Z_FOR_LOOP_12 12"
definition Z_FOR_LOOP_14 :: for_loop where "Z_FOR_LOOP_14 = loop_next Z_FOR_LOOP_13 13"
definition Z_FOR_LOOP_15 :: for_loop where "Z_FOR_LOOP_15 = loop_next Z_FOR_LOOP_14 14"
definition Z_FOR_LOOP_16 :: for_loop where "Z_FOR_LOOP_16 = loop_next Z_FOR_LOOP_15 15"
definition Z_FOR_LOOP_17 :: for_loop where "Z_FOR_LOOP_17 = loop_next Z_FOR_LOOP_16 16"
definition Z_FOR_LOOP_18 :: for_loop where "Z_FOR_LOOP_18 = loop_next Z_FOR_LOOP_17 17"
definition Z_FOR_LOOP_19 :: for_loop where "Z_FOR_LOOP_19 = loop_next Z_FOR_LOOP_18 18"
definition Z_FOR_LOOP_20 :: for_loop where "Z_FOR_LOOP_20 = loop_next Z_FOR_LOOP_19 19"
definition Z_FOR_LOOP_21 :: for_loop where "Z_FOR_LOOP_21 = loop_next Z_FOR_LOOP_20 20"
definition Z_FOR_LOOP_22 :: for_loop where "Z_FOR_LOOP_22 = loop_next Z_FOR_LOOP_21 21"
definition Z_FOR_LOOP_23 :: for_loop where "Z_FOR_LOOP_23 = loop_next Z_FOR_LOOP_22 22"
definition Z_FOR_LOOP_24 :: for_loop where "Z_FOR_LOOP_24 = loop_next Z_FOR_LOOP_23 23"
definition Z_FOR_LOOP_25 :: for_loop where "Z_FOR_LOOP_25 = loop_next Z_FOR_LOOP_24 24"
definition Z_FOR_LOOP_26 :: for_loop where "Z_FOR_LOOP_26 = loop_next Z_FOR_LOOP_25 25"
definition Z_FOR_LOOP_27 :: for_loop where "Z_FOR_LOOP_27 = loop_next Z_FOR_LOOP_26 26"
definition Z_FOR_LOOP_28 :: for_loop where "Z_FOR_LOOP_28 = loop_next Z_FOR_LOOP_27 27"
definition Z_FOR_LOOP_29 :: for_loop where "Z_FOR_LOOP_29 = loop_next Z_FOR_LOOP_28 28"
definition Z_FOR_LOOP_30 :: for_loop where "Z_FOR_LOOP_30 = loop_next Z_FOR_LOOP_29 29"
definition Z_FOR_LOOP_31 :: for_loop where "Z_FOR_LOOP_31 = loop_next Z_FOR_LOOP_30 30"
definition Z_FOR_LOOP_32 :: for_loop where "Z_FOR_LOOP_32 = loop_next Z_FOR_LOOP_31 31"
definition Z_FOR_LOOP_33 :: for_loop where "Z_FOR_LOOP_33 = loop_next Z_FOR_LOOP_32 32"
definition Z_FOR_LOOP_34 :: for_loop where "Z_FOR_LOOP_34 = loop_next Z_FOR_LOOP_33 33"
definition Z_FOR_LOOP_35 :: for_loop where "Z_FOR_LOOP_35 = loop_next Z_FOR_LOOP_34 34"
definition Z_FOR_LOOP_36 :: for_loop where "Z_FOR_LOOP_36 = loop_next Z_FOR_LOOP_35 35"
definition Z_FOR_LOOP_37 :: for_loop where "Z_FOR_LOOP_37 = loop_next Z_FOR_LOOP_36 36"
definition Z_FOR_LOOP_38 :: for_loop where "Z_FOR_LOOP_38 = loop_next Z_FOR_LOOP_37 37"
definition Z_FOR_LOOP_39 :: for_loop where "Z_FOR_LOOP_39 = loop_next Z_FOR_LOOP_38 38"
definition Z_FOR_LOOP_40 :: for_loop where "Z_FOR_LOOP_40 = loop_next Z_FOR_LOOP_39 39"
definition Z_FOR_LOOP_41 :: for_loop where "Z_FOR_LOOP_41 = loop_next Z_FOR_LOOP_40 40"
definition Z_FOR_LOOP_42 :: for_loop where "Z_FOR_LOOP_42 = loop_next Z_FOR_LOOP_41 41"
definition Z_FOR_LOOP_43 :: for_loop where "Z_FOR_LOOP_43 = loop_next Z_FOR_LOOP_42 42"
definition Z_FOR_LOOP_44 :: for_loop where "Z_FOR_LOOP_44 = loop_next Z_FOR_LOOP_43 43"
definition Z_FOR_LOOP_45 :: for_loop where "Z_FOR_LOOP_45 = loop_next Z_FOR_LOOP_44 44"
definition Z_FOR_LOOP_46 :: for_loop where "Z_FOR_LOOP_46 = loop_next Z_FOR_LOOP_45 45"
definition Z_FOR_LOOP_47 :: for_loop where "Z_FOR_LOOP_47 = loop_next Z_FOR_LOOP_46 46"
definition Z_FOR_LOOP_48 :: for_loop where "Z_FOR_LOOP_48 = loop_next Z_FOR_LOOP_47 47"
definition Z_FOR_LOOP_49 :: for_loop where "Z_FOR_LOOP_49 = loop_next Z_FOR_LOOP_48 48"
definition Z_FOR_LOOP_50 :: for_loop where "Z_FOR_LOOP_50 = loop_next Z_FOR_LOOP_49 49"
definition Z_FOR_LOOP_51 :: for_loop where "Z_FOR_LOOP_51 = loop_next Z_FOR_LOOP_50 50"
definition Z_FOR_LOOP_52 :: for_loop where "Z_FOR_LOOP_52 = loop_next Z_FOR_LOOP_51 51"
definition Z_FOR_LOOP_53 :: for_loop where "Z_FOR_LOOP_53 = loop_next Z_FOR_LOOP_52 52"
definition Z_FOR_LOOP_54 :: for_loop where "Z_FOR_LOOP_54 = loop_next Z_FOR_LOOP_53 53"
definition Z_FOR_LOOP_55 :: for_loop where "Z_FOR_LOOP_55 = loop_next Z_FOR_LOOP_54 54"
definition Z_FOR_LOOP_56 :: for_loop where "Z_FOR_LOOP_56 = loop_next Z_FOR_LOOP_55 55"
definition Z_FOR_LOOP_57 :: for_loop where "Z_FOR_LOOP_57 = loop_next Z_FOR_LOOP_56 56"
definition Z_FOR_LOOP_58 :: for_loop where "Z_FOR_LOOP_58 = loop_next Z_FOR_LOOP_57 57"
definition Z_FOR_LOOP_59 :: for_loop where "Z_FOR_LOOP_59 = loop_next Z_FOR_LOOP_58 58"
definition Z_FOR_LOOP_60 :: for_loop where "Z_FOR_LOOP_60 = loop_next Z_FOR_LOOP_59 59"
definition Z_FOR_LOOP_61 :: for_loop where "Z_FOR_LOOP_61 = loop_next Z_FOR_LOOP_60 60"
definition Z_FOR_LOOP_62 :: for_loop where "Z_FOR_LOOP_62 = loop_next Z_FOR_LOOP_61 61"
definition Z_FOR_LOOP_63 :: for_loop where "Z_FOR_LOOP_63 = loop_next Z_FOR_LOOP_62 62"
definition Z_FOR_LOOP_64 :: for_loop where "Z_FOR_LOOP_64 = loop_next Z_FOR_LOOP_63 63"

text \<open>Macros whose body is one of their named parameters, or the arguments after them: \<open>k\<close> named parameters, of which the
  one at position \<open>i\<close> is the body.\<close>

definition named_arg :: "nat \<Rightarrow> nat \<Rightarrow> 'a list \<Rightarrow> 'a option" where
  "named_arg k i args = (if k \<le> length args then Some (args ! i) else None)"

definition rest_args :: "nat \<Rightarrow> tokens list \<Rightarrow> tokens option" where
  "rest_args k args = (if k \<le> length args then Some (with_commas (drop k args)) else None)"

definition Z_FOR_LOOP_GET_ARG :: "'a list \<Rightarrow> 'a option" where
  "Z_FOR_LOOP_GET_ARG = named_arg 65 64"

text \<open>The engine selects the loop by the position at which its name ends up behind the arguments.\<close>

definition Z_FOR_EACH_ENGINE_loops :: "for_loop list" where
  "Z_FOR_EACH_ENGINE_loops =
     [Z_FOR_LOOP_64, Z_FOR_LOOP_63, Z_FOR_LOOP_62, Z_FOR_LOOP_61, Z_FOR_LOOP_60, Z_FOR_LOOP_59,
      Z_FOR_LOOP_58, Z_FOR_LOOP_57, Z_FOR_LOOP_56, Z_FOR_LOOP_55, Z_FOR_LOOP_54, Z_FOR_LOOP_53,
      Z_FOR_LOOP_52, Z_FOR_LOOP_51, Z_FOR_LOOP_50, Z_FOR_LOOP_49, Z_FOR_LOOP_48, Z_FOR_LOOP_47,
      Z_FOR_LOOP_46, Z_FOR_LOOP_45, Z_FOR_LOOP_44, Z_FOR_LOOP_43, Z_FOR_LOOP_42, Z_FOR_LOOP_41,
      Z_FOR_LOOP_40, Z_FOR_LOOP_39, Z_FOR_LOOP_38, Z_FOR_LOOP_37, Z_FOR_LOOP_36, Z_FOR_LOOP_35,
      Z_FOR_LOOP_34, Z_FOR_LOOP_33, Z_FOR_LOOP_32, Z_FOR_LOOP_31, Z_FOR_LOOP_30, Z_FOR_LOOP_29,
      Z_FOR_LOOP_28, Z_FOR_LOOP_27, Z_FOR_LOOP_26, Z_FOR_LOOP_25, Z_FOR_LOOP_24, Z_FOR_LOOP_23,
      Z_FOR_LOOP_22, Z_FOR_LOOP_21, Z_FOR_LOOP_20, Z_FOR_LOOP_19, Z_FOR_LOOP_18, Z_FOR_LOOP_17,
      Z_FOR_LOOP_16, Z_FOR_LOOP_15, Z_FOR_LOOP_14, Z_FOR_LOOP_13, Z_FOR_LOOP_12, Z_FOR_LOOP_11,
      Z_FOR_LOOP_10, Z_FOR_LOOP_9, Z_FOR_LOOP_8, Z_FOR_LOOP_7, Z_FOR_LOOP_6, Z_FOR_LOOP_5, Z_FOR_LOOP_4,
      Z_FOR_LOOP_3, Z_FOR_LOOP_2, Z_FOR_LOOP_1, Z_FOR_LOOP_0]"

definition Z_FOR_EACH_ENGINE :: for_loop where
  "Z_FOR_EACH_ENGINE x sep fixed_arg0 fixed_arg1 va =
     (case Z_FOR_LOOP_GET_ARG (map Inl (va_args va) @ map Inr Z_FOR_EACH_ENGINE_loops) of
        Some (Inr loop) \<Rightarrow> loop x sep fixed_arg0 fixed_arg1 va
      | _ \<Rightarrow> None)"

section \<open>Selecting arguments\<close>

definition Z_GET_ARG_1 :: macro where "Z_GET_ARG_1 = named_arg 1 0"
definition Z_GET_ARG_2 :: macro where "Z_GET_ARG_2 = named_arg 2 1"
definition Z_GET_ARG_3 :: macro where "Z_GET_ARG_3 = named_arg 3 2"
definition Z_GET_ARG_4 :: macro where "Z_GET_ARG_4 = named_arg 4 3"
definition Z_GET_ARG_5 :: macro where "Z_GET_ARG_5 = named_arg 5 4"
definition Z_GET_ARG_6 :: macro where "Z_GET_ARG_6 = named_arg 6 5"
definition Z_GET_ARG_7 :: macro where "Z_GET_ARG_7 = named_arg 7 6"
definition Z_GET_ARG_8 :: macro where "Z_GET_ARG_8 = named_arg 8 7"
definition Z_GET_ARG_9 :: macro where "Z_GET_ARG_9 = named_arg 9 8"
definition Z_GET_ARG_10 :: macro where "Z_GET_ARG_10 = named_arg 10 9"
definition Z_GET_ARG_11 :: macro where "Z_GET_ARG_11 = named_arg 11 10"
definition Z_GET_ARG_12 :: macro where "Z_GET_ARG_12 = named_arg 12 11"
definition Z_GET_ARG_13 :: macro where "Z_GET_ARG_13 = named_arg 13 12"
definition Z_GET_ARG_14 :: macro where "Z_GET_ARG_14 = named_arg 14 13"
definition Z_GET_ARG_15 :: macro where "Z_GET_ARG_15 = named_arg 15 14"
definition Z_GET_ARG_16 :: macro where "Z_GET_ARG_16 = named_arg 16 15"
definition Z_GET_ARG_17 :: macro where "Z_GET_ARG_17 = named_arg 17 16"
definition Z_GET_ARG_18 :: macro where "Z_GET_ARG_18 = named_arg 18 17"
definition Z_GET_ARG_19 :: macro where "Z_GET_ARG_19 = named_arg 19 18"
definition Z_GET_ARG_20 :: macro where "Z_GET_ARG_20 = named_arg 20 19"
definition Z_GET_ARG_21 :: macro where "Z_GET_ARG_21 = named_arg 21 20"
definition Z_GET_ARG_22 :: macro where "Z_GET_ARG_22 = named_arg 22 21"
definition Z_GET_ARG_23 :: macro where "Z_GET_ARG_23 = named_arg 23 22"
definition Z_GET_ARG_24 :: macro where "Z_GET_ARG_24 = named_arg 24 23"
definition Z_GET_ARG_25 :: macro where "Z_GET_ARG_25 = named_arg 25 24"
definition Z_GET_ARG_26 :: macro where "Z_GET_ARG_26 = named_arg 26 25"
definition Z_GET_ARG_27 :: macro where "Z_GET_ARG_27 = named_arg 27 26"
definition Z_GET_ARG_28 :: macro where "Z_GET_ARG_28 = named_arg 28 27"
definition Z_GET_ARG_29 :: macro where "Z_GET_ARG_29 = named_arg 29 28"
definition Z_GET_ARG_30 :: macro where "Z_GET_ARG_30 = named_arg 30 29"
definition Z_GET_ARG_31 :: macro where "Z_GET_ARG_31 = named_arg 31 30"
definition Z_GET_ARG_32 :: macro where "Z_GET_ARG_32 = named_arg 32 31"
definition Z_GET_ARG_33 :: macro where "Z_GET_ARG_33 = named_arg 33 32"
definition Z_GET_ARG_34 :: macro where "Z_GET_ARG_34 = named_arg 34 33"
definition Z_GET_ARG_35 :: macro where "Z_GET_ARG_35 = named_arg 35 34"
definition Z_GET_ARG_36 :: macro where "Z_GET_ARG_36 = named_arg 36 35"
definition Z_GET_ARG_37 :: macro where "Z_GET_ARG_37 = named_arg 37 36"
definition Z_GET_ARG_38 :: macro where "Z_GET_ARG_38 = named_arg 38 37"
definition Z_GET_ARG_39 :: macro where "Z_GET_ARG_39 = named_arg 39 38"
definition Z_GET_ARG_40 :: macro where "Z_GET_ARG_40 = named_arg 40 39"
definition Z_GET_ARG_41 :: macro where "Z_GET_ARG_41 = named_arg 41 40"
definition Z_GET_ARG_42 :: macro where "Z_GET_ARG_42 = named_arg 42 41"
definition Z_GET_ARG_43 :: macro where "Z_GET_ARG_43 = named_arg 43 42"
definition Z_GET_ARG_44 :: macro where "Z_GET_ARG_44 = named_arg 44 43"
definition Z_GET_ARG_45 :: macro where "Z_GET_ARG_45 = named_arg 45 44"
definition Z_GET_ARG_46 :: macro where "Z_GET_ARG_46 = named_arg 46 45"
definition Z_GET_ARG_47 :: macro where "Z_GET_ARG_47 = named_arg 47 46"
definition Z_GET_ARG_48 :: macro where "Z_GET_ARG_48 = named_arg 48 47"
definition Z_GET_ARG_49 :: macro where "Z_GET_ARG_49 = named_arg 49 48"
definition Z_GET_ARG_50 :: macro where "Z_GET_ARG_50 = named_arg 50 49"
definition Z_GET_ARG_51 :: macro where "Z_GET_ARG_51 = named_arg 51 50"
definition Z_GET_ARG_52 :: macro where "Z_GET_ARG_52 = named_arg 52 51"
definition Z_GET_ARG_53 :: macro where "Z_GET_ARG_53 = named_arg 53 52"
definition Z_GET_ARG_54 :: macro where "Z_GET_ARG_54 = named_arg 54 53"
definition Z_GET_ARG_55 :: macro where "Z_GET_ARG_55 = named_arg 55 54"
definition Z_GET_ARG_56 :: macro where "Z_GET_ARG_56 = named_arg 56 55"
definition Z_GET_ARG_57 :: macro where "Z_GET_ARG_57 = named_arg 57 56"
definition Z_GET_ARG_58 :: macro where "Z_GET_ARG_58 = named_arg 58 57"
definition Z_GET_ARG_59 :: macro where "Z_GET_ARG_59 = named_arg 59 58"
definition Z_GET_ARG_60 :: macro where "Z_GET_ARG_60 = named_arg 60 59"
definition Z_GET_ARG_61 :: macro where "Z_GET_ARG_61 = named_arg 61 60"
definition Z_GET_ARG_62 :: macro where "Z_GET_ARG_62 = named_arg 62 61"
definition Z_GET_ARG_63 :: macro where "Z_GET_ARG_63 = named_arg 63 62"
definition Z_GET_ARG_64 :: macro where "Z_GET_ARG_64 = named_arg 64 63"

definition Z_GET_ARGS_LESS_0 :: macro where "Z_GET_ARGS_LESS_0 = rest_args 0"
definition Z_GET_ARGS_LESS_1 :: macro where "Z_GET_ARGS_LESS_1 = rest_args 1"
definition Z_GET_ARGS_LESS_2 :: macro where "Z_GET_ARGS_LESS_2 = rest_args 2"
definition Z_GET_ARGS_LESS_3 :: macro where "Z_GET_ARGS_LESS_3 = rest_args 3"
definition Z_GET_ARGS_LESS_4 :: macro where "Z_GET_ARGS_LESS_4 = rest_args 4"
definition Z_GET_ARGS_LESS_5 :: macro where "Z_GET_ARGS_LESS_5 = rest_args 5"
definition Z_GET_ARGS_LESS_6 :: macro where "Z_GET_ARGS_LESS_6 = rest_args 6"
definition Z_GET_ARGS_LESS_7 :: macro where "Z_GET_ARGS_LESS_7 = rest_args 7"
definition Z_GET_ARGS_LESS_8 :: macro where "Z_GET_ARGS_LESS_8 = rest_args 8"
definition Z_GET_ARGS_LESS_9 :: macro where "Z_GET_ARGS_LESS_9 = rest_args 9"
definition Z_GET_ARGS_LESS_10 :: macro where "Z_GET_ARGS_LESS_10 = rest_args 10"
definition Z_GET_ARGS_LESS_11 :: macro where "Z_GET_ARGS_LESS_11 = rest_args 11"
definition Z_GET_ARGS_LESS_12 :: macro where "Z_GET_ARGS_LESS_12 = rest_args 12"
definition Z_GET_ARGS_LESS_13 :: macro where "Z_GET_ARGS_LESS_13 = rest_args 13"
definition Z_GET_ARGS_LESS_14 :: macro where "Z_GET_ARGS_LESS_14 = rest_args 14"
definition Z_GET_ARGS_LESS_15 :: macro where "Z_GET_ARGS_LESS_15 = rest_args 15"
definition Z_GET_ARGS_LESS_16 :: macro where "Z_GET_ARGS_LESS_16 = rest_args 16"
definition Z_GET_ARGS_LESS_17 :: macro where "Z_GET_ARGS_LESS_17 = rest_args 17"
definition Z_GET_ARGS_LESS_18 :: macro where "Z_GET_ARGS_LESS_18 = rest_args 18"
definition Z_GET_ARGS_LESS_19 :: macro where "Z_GET_ARGS_LESS_19 = rest_args 19"
definition Z_GET_ARGS_LESS_20 :: macro where "Z_GET_ARGS_LESS_20 = rest_args 20"
definition Z_GET_ARGS_LESS_21 :: macro where "Z_GET_ARGS_LESS_21 = rest_args 21"
definition Z_GET_ARGS_LESS_22 :: macro where "Z_GET_ARGS_LESS_22 = rest_args 22"
definition Z_GET_ARGS_LESS_23 :: macro where "Z_GET_ARGS_LESS_23 = rest_args 23"
definition Z_GET_ARGS_LESS_24 :: macro where "Z_GET_ARGS_LESS_24 = rest_args 24"
definition Z_GET_ARGS_LESS_25 :: macro where "Z_GET_ARGS_LESS_25 = rest_args 25"
definition Z_GET_ARGS_LESS_26 :: macro where "Z_GET_ARGS_LESS_26 = rest_args 26"
definition Z_GET_ARGS_LESS_27 :: macro where "Z_GET_ARGS_LESS_27 = rest_args 27"
definition Z_GET_ARGS_LESS_28 :: macro where "Z_GET_ARGS_LESS_28 = rest_args 28"
definition Z_GET_ARGS_LESS_29 :: macro where "Z_GET_ARGS_LESS_29 = rest_args 29"
definition Z_GET_ARGS_LESS_30 :: macro where "Z_GET_ARGS_LESS_30 = rest_args 30"
definition Z_GET_ARGS_LESS_31 :: macro where "Z_GET_ARGS_LESS_31 = rest_args 31"
definition Z_GET_ARGS_LESS_32 :: macro where "Z_GET_ARGS_LESS_32 = rest_args 32"
definition Z_GET_ARGS_LESS_33 :: macro where "Z_GET_ARGS_LESS_33 = rest_args 33"
definition Z_GET_ARGS_LESS_34 :: macro where "Z_GET_ARGS_LESS_34 = rest_args 34"
definition Z_GET_ARGS_LESS_35 :: macro where "Z_GET_ARGS_LESS_35 = rest_args 35"
definition Z_GET_ARGS_LESS_36 :: macro where "Z_GET_ARGS_LESS_36 = rest_args 36"
definition Z_GET_ARGS_LESS_37 :: macro where "Z_GET_ARGS_LESS_37 = rest_args 37"
definition Z_GET_ARGS_LESS_38 :: macro where "Z_GET_ARGS_LESS_38 = rest_args 38"
definition Z_GET_ARGS_LESS_39 :: macro where "Z_GET_ARGS_LESS_39 = rest_args 39"
definition Z_GET_ARGS_LESS_40 :: macro where "Z_GET_ARGS_LESS_40 = rest_args 40"
definition Z_GET_ARGS_LESS_41 :: macro where "Z_GET_ARGS_LESS_41 = rest_args 41"
definition Z_GET_ARGS_LESS_42 :: macro where "Z_GET_ARGS_LESS_42 = rest_args 42"
definition Z_GET_ARGS_LESS_43 :: macro where "Z_GET_ARGS_LESS_43 = rest_args 43"
definition Z_GET_ARGS_LESS_44 :: macro where "Z_GET_ARGS_LESS_44 = rest_args 44"
definition Z_GET_ARGS_LESS_45 :: macro where "Z_GET_ARGS_LESS_45 = rest_args 45"
definition Z_GET_ARGS_LESS_46 :: macro where "Z_GET_ARGS_LESS_46 = rest_args 46"
definition Z_GET_ARGS_LESS_47 :: macro where "Z_GET_ARGS_LESS_47 = rest_args 47"
definition Z_GET_ARGS_LESS_48 :: macro where "Z_GET_ARGS_LESS_48 = rest_args 48"
definition Z_GET_ARGS_LESS_49 :: macro where "Z_GET_ARGS_LESS_49 = rest_args 49"
definition Z_GET_ARGS_LESS_50 :: macro where "Z_GET_ARGS_LESS_50 = rest_args 50"
definition Z_GET_ARGS_LESS_51 :: macro where "Z_GET_ARGS_LESS_51 = rest_args 51"
definition Z_GET_ARGS_LESS_52 :: macro where "Z_GET_ARGS_LESS_52 = rest_args 52"
definition Z_GET_ARGS_LESS_53 :: macro where "Z_GET_ARGS_LESS_53 = rest_args 53"
definition Z_GET_ARGS_LESS_54 :: macro where "Z_GET_ARGS_LESS_54 = rest_args 54"
definition Z_GET_ARGS_LESS_55 :: macro where "Z_GET_ARGS_LESS_55 = rest_args 55"
definition Z_GET_ARGS_LESS_56 :: macro where "Z_GET_ARGS_LESS_56 = rest_args 56"
definition Z_GET_ARGS_LESS_57 :: macro where "Z_GET_ARGS_LESS_57 = rest_args 57"
definition Z_GET_ARGS_LESS_58 :: macro where "Z_GET_ARGS_LESS_58 = rest_args 58"
definition Z_GET_ARGS_LESS_59 :: macro where "Z_GET_ARGS_LESS_59 = rest_args 59"
definition Z_GET_ARGS_LESS_60 :: macro where "Z_GET_ARGS_LESS_60 = rest_args 60"
definition Z_GET_ARGS_LESS_61 :: macro where "Z_GET_ARGS_LESS_61 = rest_args 61"
definition Z_GET_ARGS_LESS_62 :: macro where "Z_GET_ARGS_LESS_62 = rest_args 62"
definition Z_GET_ARGS_LESS_63 :: macro where "Z_GET_ARGS_LESS_63 = rest_args 63"
definition Z_GET_ARGS_LESS_64 :: macro where "Z_GET_ARGS_LESS_64 = rest_args 64"

section \<open>Loop bodies\<close>

text \<open>The fixed argument \<open>_\<close> of the loops without one is passed on and not used.\<close>

definition Z_FOR_EACH_IDX_FIXED_ARG_EXEC :: z_call where
  "Z_FOR_EACH_IDX_FIXED_ARG_EXEC idx x fixed_arg0 fixed_arg1 =
     fixed_arg0 ([[dec idx]] @ split_args x @ split_args fixed_arg1)"

definition Z_FOR_EACH_IDX_FIXED_ARG :: "macro \<Rightarrow> tokens \<Rightarrow> tokens \<Rightarrow> tokens list \<Rightarrow> tokens option" where
  "Z_FOR_EACH_IDX_FIXED_ARG F sep fixed_arg va = Z_FOR_EACH_ENGINE Z_FOR_EACH_IDX_FIXED_ARG_EXEC sep F fixed_arg va"

definition Z_FOR_EACH_FIXED_ARG_EXEC :: z_call where
  "Z_FOR_EACH_FIXED_ARG_EXEC idx x fixed_arg0 fixed_arg1 = fixed_arg0 (split_args x @ split_args fixed_arg1)"

definition Z_FOR_EACH_FIXED_ARG :: "macro \<Rightarrow> tokens \<Rightarrow> tokens \<Rightarrow> tokens list \<Rightarrow> tokens option" where
  "Z_FOR_EACH_FIXED_ARG F sep fixed_arg va = Z_FOR_EACH_ENGINE Z_FOR_EACH_FIXED_ARG_EXEC sep F fixed_arg va"

definition Z_FOR_EACH_IDX_EXEC :: z_call where
  "Z_FOR_EACH_IDX_EXEC idx x fixed_arg0 fixed_arg1 = fixed_arg0 ([[dec idx]] @ split_args x)"

definition Z_FOR_EACH_IDX :: "macro \<Rightarrow> tokens \<Rightarrow> tokens list \<Rightarrow> tokens option" where
  "Z_FOR_EACH_IDX F sep va = Z_FOR_EACH_ENGINE Z_FOR_EACH_IDX_EXEC sep F [''_''] va"

definition Z_FOR_EACH_EXEC :: z_call where
  "Z_FOR_EACH_EXEC idx x fixed_arg0 fixed_arg1 = fixed_arg0 (split_args x)"

definition Z_FOR_EACH :: "macro \<Rightarrow> tokens \<Rightarrow> tokens list \<Rightarrow> tokens option" where
  "Z_FOR_EACH F sep va = Z_FOR_EACH_ENGINE Z_FOR_EACH_EXEC sep F [''_''] va"

definition Z_BYPASS :: macro where
  "Z_BYPASS args = (case args of [x] \<Rightarrow> Some x | _ \<Rightarrow> None)"

section \<open>Counted loops\<close>

type_synonym listify = "macro \<Rightarrow> tokens \<Rightarrow> tokens list \<Rightarrow> tokens option"

definition listify_next :: "listify \<Rightarrow> nat \<Rightarrow> listify" where
  "listify_next prev i F sep va =
     cat3 (prev F sep (va_args va)) (DEBRACKET sep) (F ([[dec i]] @ va_args va))"

definition Z_UTIL_LISTIFY_0 :: listify where
  "Z_UTIL_LISTIFY_0 F sep va = Some []"
definition Z_UTIL_LISTIFY_1 :: listify where
  "Z_UTIL_LISTIFY_1 F sep va = F ([[''0'']] @ va_args va)"
definition Z_UTIL_LISTIFY_2 :: listify where "Z_UTIL_LISTIFY_2 = listify_next Z_UTIL_LISTIFY_1 1"
definition Z_UTIL_LISTIFY_3 :: listify where "Z_UTIL_LISTIFY_3 = listify_next Z_UTIL_LISTIFY_2 2"
definition Z_UTIL_LISTIFY_4 :: listify where "Z_UTIL_LISTIFY_4 = listify_next Z_UTIL_LISTIFY_3 3"
definition Z_UTIL_LISTIFY_5 :: listify where "Z_UTIL_LISTIFY_5 = listify_next Z_UTIL_LISTIFY_4 4"
definition Z_UTIL_LISTIFY_6 :: listify where "Z_UTIL_LISTIFY_6 = listify_next Z_UTIL_LISTIFY_5 5"
definition Z_UTIL_LISTIFY_7 :: listify where "Z_UTIL_LISTIFY_7 = listify_next Z_UTIL_LISTIFY_6 6"
definition Z_UTIL_LISTIFY_8 :: listify where "Z_UTIL_LISTIFY_8 = listify_next Z_UTIL_LISTIFY_7 7"
definition Z_UTIL_LISTIFY_9 :: listify where "Z_UTIL_LISTIFY_9 = listify_next Z_UTIL_LISTIFY_8 8"
definition Z_UTIL_LISTIFY_10 :: listify where "Z_UTIL_LISTIFY_10 = listify_next Z_UTIL_LISTIFY_9 9"
definition Z_UTIL_LISTIFY_11 :: listify where "Z_UTIL_LISTIFY_11 = listify_next Z_UTIL_LISTIFY_10 10"
definition Z_UTIL_LISTIFY_12 :: listify where "Z_UTIL_LISTIFY_12 = listify_next Z_UTIL_LISTIFY_11 11"
definition Z_UTIL_LISTIFY_13 :: listify where "Z_UTIL_LISTIFY_13 = listify_next Z_UTIL_LISTIFY_12 12"
definition Z_UTIL_LISTIFY_14 :: listify where "Z_UTIL_LISTIFY_14 = listify_next Z_UTIL_LISTIFY_13 13"
definition Z_UTIL_LISTIFY_15 :: listify where "Z_UTIL_LISTIFY_15 = listify_next Z_UTIL_LISTIFY_14 14"
definition Z_UTIL_LISTIFY_16 :: listify where "Z_UTIL_LISTIFY_16 = listify_next Z_UTIL_LISTIFY_15 15"
definition Z_UTIL_LISTIFY_17 :: listify where "Z_UTIL_LISTIFY_17 = listify_next Z_UTIL_LISTIFY_16 16"
definition Z_UTIL_LISTIFY_18 :: listify where "Z_UTIL_LISTIFY_18 = listify_next Z_UTIL_LISTIFY_17 17"
definition Z_UTIL_LISTIFY_19 :: listify where "Z_UTIL_LISTIFY_19 = listify_next Z_UTIL_LISTIFY_18 18"
definition Z_UTIL_LISTIFY_20 :: listify where "Z_UTIL_LISTIFY_20 = listify_next Z_UTIL_LISTIFY_19 19"
definition Z_UTIL_LISTIFY_21 :: listify where "Z_UTIL_LISTIFY_21 = listify_next Z_UTIL_LISTIFY_20 20"
definition Z_UTIL_LISTIFY_22 :: listify where "Z_UTIL_LISTIFY_22 = listify_next Z_UTIL_LISTIFY_21 21"
definition Z_UTIL_LISTIFY_23 :: listify where "Z_UTIL_LISTIFY_23 = listify_next Z_UTIL_LISTIFY_22 22"
definition Z_UTIL_LISTIFY_24 :: listify where "Z_UTIL_LISTIFY_24 = listify_next Z_UTIL_LISTIFY_23 23"
definition Z_UTIL_LISTIFY_25 :: listify where "Z_UTIL_LISTIFY_25 = listify_next Z_UTIL_LISTIFY_24 24"
definition Z_UTIL_LISTIFY_26 :: listify where "Z_UTIL_LISTIFY_26 = listify_next Z_UTIL_LISTIFY_25 25"
definition Z_UTIL_LISTIFY_27 :: listify where "Z_UTIL_LISTIFY_27 = listify_next Z_UTIL_LISTIFY_26 26"
definition Z_UTIL_LISTIFY_28 :: listify where "Z_UTIL_LISTIFY_28 = listify_next Z_UTIL_LISTIFY_27 27"
definition Z_UTIL_LISTIFY_29 :: listify where "Z_UTIL_LISTIFY_29 = listify_next Z_UTIL_LISTIFY_28 28"
definition Z_UTIL_LISTIFY_30 :: listify where "Z_UTIL_LISTIFY_30 = listify_next Z_UTIL_LISTIFY_29 29"
definition Z_UTIL_LISTIFY_31 :: listify where "Z_UTIL_LISTIFY_31 = listify_next Z_UTIL_LISTIFY_30 30"
definition Z_UTIL_LISTIFY_32 :: listify where "Z_UTIL_LISTIFY_32 = listify_next Z_UTIL_LISTIFY_31 31"
definition Z_UTIL_LISTIFY_33 :: listify where "Z_UTIL_LISTIFY_33 = listify_next Z_UTIL_LISTIFY_32 32"
definition Z_UTIL_LISTIFY_34 :: listify where "Z_UTIL_LISTIFY_34 = listify_next Z_UTIL_LISTIFY_33 33"
definition Z_UTIL_LISTIFY_35 :: listify where "Z_UTIL_LISTIFY_35 = listify_next Z_UTIL_LISTIFY_34 34"
definition Z_UTIL_LISTIFY_36 :: listify where "Z_UTIL_LISTIFY_36 = listify_next Z_UTIL_LISTIFY_35 35"
definition Z_UTIL_LISTIFY_37 :: listify where "Z_UTIL_LISTIFY_37 = listify_next Z_UTIL_LISTIFY_36 36"
definition Z_UTIL_LISTIFY_38 :: listify where "Z_UTIL_LISTIFY_38 = listify_next Z_UTIL_LISTIFY_37 37"
definition Z_UTIL_LISTIFY_39 :: listify where "Z_UTIL_LISTIFY_39 = listify_next Z_UTIL_LISTIFY_38 38"
definition Z_UTIL_LISTIFY_40 :: listify where "Z_UTIL_LISTIFY_40 = listify_next Z_UTIL_LISTIFY_39 39"
definition Z_UTIL_LISTIFY_41 :: listify where "Z_UTIL_LISTIFY_41 = listify_next Z_UTIL_LISTIFY_40 40"
definition Z_UTIL_LISTIFY_42 :: listify where "Z_UTIL_LISTIFY_42 = listify_next Z_UTIL_LISTIFY_41 41"
definition Z_UTIL_LISTIFY_43 :: listify where "Z_UTIL_LISTIFY_43 = listify_next Z_UTIL_LISTIFY_42 42"
definition Z_UTIL_LISTIFY_44 :: listify where "Z_UTIL_LISTIFY_44 = listify_next Z_UTIL_LISTIFY_43 43"
definition Z_UTIL_LISTIFY_45 :: listify where "Z_UTIL_LISTIFY_45 = listify_next Z_UTIL_LISTIFY_44 44"
definition Z_UTIL_LISTIFY_46 :: listify where "Z_UTIL_LISTIFY_46 = listify_next Z_UTIL_LISTIFY_45 45"
definition Z_UTIL_LISTIFY_47 :: listify where "Z_UTIL_LISTIFY_47 = listify_next Z_UTIL_LISTIFY_46 46"
definition Z_UTIL_LISTIFY_48 :: listify where "Z_UTIL_LISTIFY_48 = listify_next Z_UTIL_LISTIFY_47 47"
definition Z_UTIL_LISTIFY_49 :: listify where "Z_UTIL_LISTIFY_49 = listify_next Z_UTIL_LISTIFY_48 48"
definition Z_UTIL_LISTIFY_50 :: listify where "Z_UTIL_LISTIFY_50 = listify_next Z_UTIL_LISTIFY_49 49"
definition Z_UTIL_LISTIFY_51 :: listify where "Z_UTIL_LISTIFY_51 = listify_next Z_UTIL_LISTIFY_50 50"
definition Z_UTIL_LISTIFY_52 :: listify where "Z_UTIL_LISTIFY_52 = listify_next Z_UTIL_LISTIFY_51 51"
definition Z_UTIL_LISTIFY_53 :: listify where "Z_UTIL_LISTIFY_53 = listify_next Z_UTIL_LISTIFY_52 52"
definition Z_UTIL_LISTIFY_54 :: listify where "Z_UTIL_LISTIFY_54 = listify_next Z_UTIL_LISTIFY_53 53"
definition Z_UTIL_LISTIFY_55 :: listify where "Z_UTIL_LISTIFY_55 = listify_next Z_UTIL_LISTIFY_54 54"
definition Z_UTIL_LISTIFY_56 :: listify where "Z_UTIL_LISTIFY_56 = listify_next Z_UTIL_LISTIFY_55 55"
definition Z_UTIL_LISTIFY_57 :: listify where "Z_UTIL_LISTIFY_57 = listify_next Z_UTIL_LISTIFY_56 56"
definition Z_UTIL_LISTIFY_58 :: listify where "Z_UTIL_LISTIFY_58 = listify_next Z_UTIL_LISTIFY_57 57"
definition Z_UTIL_LISTIFY_59 :: listify where "Z_UTIL_LISTIFY_59 = listify_next Z_UTIL_LISTIFY_58 58"
definition Z_UTIL_LISTIFY_60 :: listify where "Z_UTIL_LISTIFY_60 = listify_next Z_UTIL_LISTIFY_59 59"
definition Z_UTIL_LISTIFY_61 :: listify where "Z_UTIL_LISTIFY_61 = listify_next Z_UTIL_LISTIFY_60 60"
definition Z_UTIL_LISTIFY_62 :: listify where "Z_UTIL_LISTIFY_62 = listify_next Z_UTIL_LISTIFY_61 61"
definition Z_UTIL_LISTIFY_63 :: listify where "Z_UTIL_LISTIFY_63 = listify_next Z_UTIL_LISTIFY_62 62"
definition Z_UTIL_LISTIFY_64 :: listify where "Z_UTIL_LISTIFY_64 = listify_next Z_UTIL_LISTIFY_63 63"
definition Z_UTIL_LISTIFY_65 :: listify where "Z_UTIL_LISTIFY_65 = listify_next Z_UTIL_LISTIFY_64 64"
definition Z_UTIL_LISTIFY_66 :: listify where "Z_UTIL_LISTIFY_66 = listify_next Z_UTIL_LISTIFY_65 65"
definition Z_UTIL_LISTIFY_67 :: listify where "Z_UTIL_LISTIFY_67 = listify_next Z_UTIL_LISTIFY_66 66"
definition Z_UTIL_LISTIFY_68 :: listify where "Z_UTIL_LISTIFY_68 = listify_next Z_UTIL_LISTIFY_67 67"
definition Z_UTIL_LISTIFY_69 :: listify where "Z_UTIL_LISTIFY_69 = listify_next Z_UTIL_LISTIFY_68 68"
definition Z_UTIL_LISTIFY_70 :: listify where "Z_UTIL_LISTIFY_70 = listify_next Z_UTIL_LISTIFY_69 69"
definition Z_UTIL_LISTIFY_71 :: listify where "Z_UTIL_LISTIFY_71 = listify_next Z_UTIL_LISTIFY_70 70"
definition Z_UTIL_LISTIFY_72 :: listify where "Z_UTIL_LISTIFY_72 = listify_next Z_UTIL_LISTIFY_71 71"
definition Z_UTIL_LISTIFY_73 :: listify where "Z_UTIL_LISTIFY_73 = listify_next Z_UTIL_LISTIFY_72 72"
definition Z_UTIL_LISTIFY_74 :: listify where "Z_UTIL_LISTIFY_74 = listify_next Z_UTIL_LISTIFY_73 73"
definition Z_UTIL_LISTIFY_75 :: listify where "Z_UTIL_LISTIFY_75 = listify_next Z_UTIL_LISTIFY_74 74"
definition Z_UTIL_LISTIFY_76 :: listify where "Z_UTIL_LISTIFY_76 = listify_next Z_UTIL_LISTIFY_75 75"
definition Z_UTIL_LISTIFY_77 :: listify where "Z_UTIL_LISTIFY_77 = listify_next Z_UTIL_LISTIFY_76 76"
definition Z_UTIL_LISTIFY_78 :: listify where "Z_UTIL_LISTIFY_78 = listify_next Z_UTIL_LISTIFY_77 77"
definition Z_UTIL_LISTIFY_79 :: listify where "Z_UTIL_LISTIFY_79 = listify_next Z_UTIL_LISTIFY_78 78"
definition Z_UTIL_LISTIFY_80 :: listify where "Z_UTIL_LISTIFY_80 = listify_next Z_UTIL_LISTIFY_79 79"
definition Z_UTIL_LISTIFY_81 :: listify where "Z_UTIL_LISTIFY_81 = listify_next Z_UTIL_LISTIFY_80 80"
definition Z_UTIL_LISTIFY_82 :: listify where "Z_UTIL_LISTIFY_82 = listify_next Z_UTIL_LISTIFY_81 81"
definition Z_UTIL_LISTIFY_83 :: listify where "Z_UTIL_LISTIFY_83 = listify_next Z_UTIL_LISTIFY_82 82"
definition Z_UTIL_LISTIFY_84 :: listify where "Z_UTIL_LISTIFY_84 = listify_next Z_UTIL_LISTIFY_83 83"
definition Z_UTIL_LISTIFY_85 :: listify where "Z_UTIL_LISTIFY_85 = listify_next Z_UTIL_LISTIFY_84 84"
definition Z_UTIL_LISTIFY_86 :: listify where "Z_UTIL_LISTIFY_86 = listify_next Z_UTIL_LISTIFY_85 85"
definition Z_UTIL_LISTIFY_87 :: listify where "Z_UTIL_LISTIFY_87 = listify_next Z_UTIL_LISTIFY_86 86"
definition Z_UTIL_LISTIFY_88 :: listify where "Z_UTIL_LISTIFY_88 = listify_next Z_UTIL_LISTIFY_87 87"
definition Z_UTIL_LISTIFY_89 :: listify where "Z_UTIL_LISTIFY_89 = listify_next Z_UTIL_LISTIFY_88 88"
definition Z_UTIL_LISTIFY_90 :: listify where "Z_UTIL_LISTIFY_90 = listify_next Z_UTIL_LISTIFY_89 89"
definition Z_UTIL_LISTIFY_91 :: listify where "Z_UTIL_LISTIFY_91 = listify_next Z_UTIL_LISTIFY_90 90"
definition Z_UTIL_LISTIFY_92 :: listify where "Z_UTIL_LISTIFY_92 = listify_next Z_UTIL_LISTIFY_91 91"
definition Z_UTIL_LISTIFY_93 :: listify where "Z_UTIL_LISTIFY_93 = listify_next Z_UTIL_LISTIFY_92 92"
definition Z_UTIL_LISTIFY_94 :: listify where "Z_UTIL_LISTIFY_94 = listify_next Z_UTIL_LISTIFY_93 93"
definition Z_UTIL_LISTIFY_95 :: listify where "Z_UTIL_LISTIFY_95 = listify_next Z_UTIL_LISTIFY_94 94"
definition Z_UTIL_LISTIFY_96 :: listify where "Z_UTIL_LISTIFY_96 = listify_next Z_UTIL_LISTIFY_95 95"
definition Z_UTIL_LISTIFY_97 :: listify where "Z_UTIL_LISTIFY_97 = listify_next Z_UTIL_LISTIFY_96 96"
definition Z_UTIL_LISTIFY_98 :: listify where "Z_UTIL_LISTIFY_98 = listify_next Z_UTIL_LISTIFY_97 97"
definition Z_UTIL_LISTIFY_99 :: listify where "Z_UTIL_LISTIFY_99 = listify_next Z_UTIL_LISTIFY_98 98"
definition Z_UTIL_LISTIFY_100 :: listify where "Z_UTIL_LISTIFY_100 = listify_next Z_UTIL_LISTIFY_99 99"
definition Z_UTIL_LISTIFY_101 :: listify where "Z_UTIL_LISTIFY_101 = listify_next Z_UTIL_LISTIFY_100 100"
definition Z_UTIL_LISTIFY_102 :: listify where "Z_UTIL_LISTIFY_102 = listify_next Z_UTIL_LISTIFY_101 101"
definition Z_UTIL_LISTIFY_103 :: listify where "Z_UTIL_LISTIFY_103 = listify_next Z_UTIL_LISTIFY_102 102"
definition Z_UTIL_LISTIFY_104 :: listify where "Z_UTIL_LISTIFY_104 = listify_next Z_UTIL_LISTIFY_103 103"
definition Z_UTIL_LISTIFY_105 :: listify where "Z_UTIL_LISTIFY_105 = listify_next Z_UTIL_LISTIFY_104 104"
definition Z_UTIL_LISTIFY_106 :: listify where "Z_UTIL_LISTIFY_106 = listify_next Z_UTIL_LISTIFY_105 105"
definition Z_UTIL_LISTIFY_107 :: listify where "Z_UTIL_LISTIFY_107 = listify_next Z_UTIL_LISTIFY_106 106"
definition Z_UTIL_LISTIFY_108 :: listify where "Z_UTIL_LISTIFY_108 = listify_next Z_UTIL_LISTIFY_107 107"
definition Z_UTIL_LISTIFY_109 :: listify where "Z_UTIL_LISTIFY_109 = listify_next Z_UTIL_LISTIFY_108 108"
definition Z_UTIL_LISTIFY_110 :: listify where "Z_UTIL_LISTIFY_110 = listify_next Z_UTIL_LISTIFY_109 109"
definition Z_UTIL_LISTIFY_111 :: listify where "Z_UTIL_LISTIFY_111 = listify_next Z_UTIL_LISTIFY_110 110"
definition Z_UTIL_LISTIFY_112 :: listify where "Z_UTIL_LISTIFY_112 = listify_next Z_UTIL_LISTIFY_111 111"
definition Z_UTIL_LISTIFY_113 :: listify where "Z_UTIL_LISTIFY_113 = listify_next Z_UTIL_LISTIFY_112 112"
definition Z_UTIL_LISTIFY_114 :: listify where "Z_UTIL_LISTIFY_114 = listify_next Z_UTIL_LISTIFY_113 113"
definition Z_UTIL_LISTIFY_115 :: listify where "Z_UTIL_LISTIFY_115 = listify_next Z_UTIL_LISTIFY_114 114"
definition Z_UTIL_LISTIFY_116 :: listify where "Z_UTIL_LISTIFY_116 = listify_next Z_UTIL_LISTIFY_115 115"
definition Z_UTIL_LISTIFY_117 :: listify where "Z_UTIL_LISTIFY_117 = listify_next Z_UTIL_LISTIFY_116 116"
definition Z_UTIL_LISTIFY_118 :: listify where "Z_UTIL_LISTIFY_118 = listify_next Z_UTIL_LISTIFY_117 117"
definition Z_UTIL_LISTIFY_119 :: listify where "Z_UTIL_LISTIFY_119 = listify_next Z_UTIL_LISTIFY_118 118"
definition Z_UTIL_LISTIFY_120 :: listify where "Z_UTIL_LISTIFY_120 = listify_next Z_UTIL_LISTIFY_119 119"
definition Z_UTIL_LISTIFY_121 :: listify where "Z_UTIL_LISTIFY_121 = listify_next Z_UTIL_LISTIFY_120 120"
definition Z_UTIL_LISTIFY_122 :: listify where "Z_UTIL_LISTIFY_122 = listify_next Z_UTIL_LISTIFY_121 121"
definition Z_UTIL_LISTIFY_123 :: listify where "Z_UTIL_LISTIFY_123 = listify_next Z_UTIL_LISTIFY_122 122"
definition Z_UTIL_LISTIFY_124 :: listify where "Z_UTIL_LISTIFY_124 = listify_next Z_UTIL_LISTIFY_123 123"
definition Z_UTIL_LISTIFY_125 :: listify where "Z_UTIL_LISTIFY_125 = listify_next Z_UTIL_LISTIFY_124 124"
definition Z_UTIL_LISTIFY_126 :: listify where "Z_UTIL_LISTIFY_126 = listify_next Z_UTIL_LISTIFY_125 125"
definition Z_UTIL_LISTIFY_127 :: listify where "Z_UTIL_LISTIFY_127 = listify_next Z_UTIL_LISTIFY_126 126"
definition Z_UTIL_LISTIFY_128 :: listify where "Z_UTIL_LISTIFY_128 = listify_next Z_UTIL_LISTIFY_127 127"
definition Z_UTIL_LISTIFY_129 :: listify where "Z_UTIL_LISTIFY_129 = listify_next Z_UTIL_LISTIFY_128 128"
definition Z_UTIL_LISTIFY_130 :: listify where "Z_UTIL_LISTIFY_130 = listify_next Z_UTIL_LISTIFY_129 129"
definition Z_UTIL_LISTIFY_131 :: listify where "Z_UTIL_LISTIFY_131 = listify_next Z_UTIL_LISTIFY_130 130"
definition Z_UTIL_LISTIFY_132 :: listify where "Z_UTIL_LISTIFY_132 = listify_next Z_UTIL_LISTIFY_131 131"
definition Z_UTIL_LISTIFY_133 :: listify where "Z_UTIL_LISTIFY_133 = listify_next Z_UTIL_LISTIFY_132 132"
definition Z_UTIL_LISTIFY_134 :: listify where "Z_UTIL_LISTIFY_134 = listify_next Z_UTIL_LISTIFY_133 133"
definition Z_UTIL_LISTIFY_135 :: listify where "Z_UTIL_LISTIFY_135 = listify_next Z_UTIL_LISTIFY_134 134"
definition Z_UTIL_LISTIFY_136 :: listify where "Z_UTIL_LISTIFY_136 = listify_next Z_UTIL_LISTIFY_135 135"
definition Z_UTIL_LISTIFY_137 :: listify where "Z_UTIL_LISTIFY_137 = listify_next Z_UTIL_LISTIFY_136 136"
definition Z_UTIL_LISTIFY_138 :: listify where "Z_UTIL_LISTIFY_138 = listify_next Z_UTIL_LISTIFY_137 137"
definition Z_UTIL_LISTIFY_139 :: listify where "Z_UTIL_LISTIFY_139 = listify_next Z_UTIL_LISTIFY_138 138"
definition Z_UTIL_LISTIFY_140 :: listify where "Z_UTIL_LISTIFY_140 = listify_next Z_UTIL_LISTIFY_139 139"
definition Z_UTIL_LISTIFY_141 :: listify where "Z_UTIL_LISTIFY_141 = listify_next Z_UTIL_LISTIFY_140 140"
definition Z_UTIL_LISTIFY_142 :: listify where "Z_UTIL_LISTIFY_142 = listify_next Z_UTIL_LISTIFY_141 141"
definition Z_UTIL_LISTIFY_143 :: listify where "Z_UTIL_LISTIFY_143 = listify_next Z_UTIL_LISTIFY_142 142"
definition Z_UTIL_LISTIFY_144 :: listify where "Z_UTIL_LISTIFY_144 = listify_next Z_UTIL_LISTIFY_143 143"
definition Z_UTIL_LISTIFY_145 :: listify where "Z_UTIL_LISTIFY_145 = listify_next Z_UTIL_LISTIFY_144 144"
definition Z_UTIL_LISTIFY_146 :: listify where "Z_UTIL_LISTIFY_146 = listify_next Z_UTIL_LISTIFY_145 145"
definition Z_UTIL_LISTIFY_147 :: listify where "Z_UTIL_LISTIFY_147 = listify_next Z_UTIL_LISTIFY_146 146"
definition Z_UTIL_LISTIFY_148 :: listify where "Z_UTIL_LISTIFY_148 = listify_next Z_UTIL_LISTIFY_147 147"
definition Z_UTIL_LISTIFY_149 :: listify where "Z_UTIL_LISTIFY_149 = listify_next Z_UTIL_LISTIFY_148 148"
definition Z_UTIL_LISTIFY_150 :: listify where "Z_UTIL_LISTIFY_150 = listify_next Z_UTIL_LISTIFY_149 149"
definition Z_UTIL_LISTIFY_151 :: listify where "Z_UTIL_LISTIFY_151 = listify_next Z_UTIL_LISTIFY_150 150"
definition Z_UTIL_LISTIFY_152 :: listify where "Z_UTIL_LISTIFY_152 = listify_next Z_UTIL_LISTIFY_151 151"
definition Z_UTIL_LISTIFY_153 :: listify where "Z_UTIL_LISTIFY_153 = listify_next Z_UTIL_LISTIFY_152 152"
definition Z_UTIL_LISTIFY_154 :: listify where "Z_UTIL_LISTIFY_154 = listify_next Z_UTIL_LISTIFY_153 153"
definition Z_UTIL_LISTIFY_155 :: listify where "Z_UTIL_LISTIFY_155 = listify_next Z_UTIL_LISTIFY_154 154"
definition Z_UTIL_LISTIFY_156 :: listify where "Z_UTIL_LISTIFY_156 = listify_next Z_UTIL_LISTIFY_155 155"
definition Z_UTIL_LISTIFY_157 :: listify where "Z_UTIL_LISTIFY_157 = listify_next Z_UTIL_LISTIFY_156 156"
definition Z_UTIL_LISTIFY_158 :: listify where "Z_UTIL_LISTIFY_158 = listify_next Z_UTIL_LISTIFY_157 157"
definition Z_UTIL_LISTIFY_159 :: listify where "Z_UTIL_LISTIFY_159 = listify_next Z_UTIL_LISTIFY_158 158"
definition Z_UTIL_LISTIFY_160 :: listify where "Z_UTIL_LISTIFY_160 = listify_next Z_UTIL_LISTIFY_159 159"
definition Z_UTIL_LISTIFY_161 :: listify where "Z_UTIL_LISTIFY_161 = listify_next Z_UTIL_LISTIFY_160 160"
definition Z_UTIL_LISTIFY_162 :: listify where "Z_UTIL_LISTIFY_162 = listify_next Z_UTIL_LISTIFY_161 161"
definition Z_UTIL_LISTIFY_163 :: listify where "Z_UTIL_LISTIFY_163 = listify_next Z_UTIL_LISTIFY_162 162"
definition Z_UTIL_LISTIFY_164 :: listify where "Z_UTIL_LISTIFY_164 = listify_next Z_UTIL_LISTIFY_163 163"
definition Z_UTIL_LISTIFY_165 :: listify where "Z_UTIL_LISTIFY_165 = listify_next Z_UTIL_LISTIFY_164 164"
definition Z_UTIL_LISTIFY_166 :: listify where "Z_UTIL_LISTIFY_166 = listify_next Z_UTIL_LISTIFY_165 165"
definition Z_UTIL_LISTIFY_167 :: listify where "Z_UTIL_LISTIFY_167 = listify_next Z_UTIL_LISTIFY_166 166"
definition Z_UTIL_LISTIFY_168 :: listify where "Z_UTIL_LISTIFY_168 = listify_next Z_UTIL_LISTIFY_167 167"
definition Z_UTIL_LISTIFY_169 :: listify where "Z_UTIL_LISTIFY_169 = listify_next Z_UTIL_LISTIFY_168 168"
definition Z_UTIL_LISTIFY_170 :: listify where "Z_UTIL_LISTIFY_170 = listify_next Z_UTIL_LISTIFY_169 169"
definition Z_UTIL_LISTIFY_171 :: listify where "Z_UTIL_LISTIFY_171 = listify_next Z_UTIL_LISTIFY_170 170"
definition Z_UTIL_LISTIFY_172 :: listify where "Z_UTIL_LISTIFY_172 = listify_next Z_UTIL_LISTIFY_171 171"
definition Z_UTIL_LISTIFY_173 :: listify where "Z_UTIL_LISTIFY_173 = listify_next Z_UTIL_LISTIFY_172 172"
definition Z_UTIL_LISTIFY_174 :: listify where "Z_UTIL_LISTIFY_174 = listify_next Z_UTIL_LISTIFY_173 173"
definition Z_UTIL_LISTIFY_175 :: listify where "Z_UTIL_LISTIFY_175 = listify_next Z_UTIL_LISTIFY_174 174"
definition Z_UTIL_LISTIFY_176 :: listify where "Z_UTIL_LISTIFY_176 = listify_next Z_UTIL_LISTIFY_175 175"
definition Z_UTIL_LISTIFY_177 :: listify where "Z_UTIL_LISTIFY_177 = listify_next Z_UTIL_LISTIFY_176 176"
definition Z_UTIL_LISTIFY_178 :: listify where "Z_UTIL_LISTIFY_178 = listify_next Z_UTIL_LISTIFY_177 177"
definition Z_UTIL_LISTIFY_179 :: listify where "Z_UTIL_LISTIFY_179 = listify_next Z_UTIL_LISTIFY_178 178"
definition Z_UTIL_LISTIFY_180 :: listify where "Z_UTIL_LISTIFY_180 = listify_next Z_UTIL_LISTIFY_179 179"
definition Z_UTIL_LISTIFY_181 :: listify where "Z_UTIL_LISTIFY_181 = listify_next Z_UTIL_LISTIFY_180 180"
definition Z_UTIL_LISTIFY_182 :: listify where "Z_UTIL_LISTIFY_182 = listify_next Z_UTIL_LISTIFY_181 181"
definition Z_UTIL_LISTIFY_183 :: listify where "Z_UTIL_LISTIFY_183 = listify_next Z_UTIL_LISTIFY_182 182"
definition Z_UTIL_LISTIFY_184 :: listify where "Z_UTIL_LISTIFY_184 = listify_next Z_UTIL_LISTIFY_183 183"
definition Z_UTIL_LISTIFY_185 :: listify where "Z_UTIL_LISTIFY_185 = listify_next Z_UTIL_LISTIFY_184 184"
definition Z_UTIL_LISTIFY_186 :: listify where "Z_UTIL_LISTIFY_186 = listify_next Z_UTIL_LISTIFY_185 185"
definition Z_UTIL_LISTIFY_187 :: listify where "Z_UTIL_LISTIFY_187 = listify_next Z_UTIL_LISTIFY_186 186"
definition Z_UTIL_LISTIFY_188 :: listify where "Z_UTIL_LISTIFY_188 = listify_next Z_UTIL_LISTIFY_187 187"
definition Z_UTIL_LISTIFY_189 :: listify where "Z_UTIL_LISTIFY_189 = listify_next Z_UTIL_LISTIFY_188 188"
definition Z_UTIL_LISTIFY_190 :: listify where "Z_UTIL_LISTIFY_190 = listify_next Z_UTIL_LISTIFY_189 189"
definition Z_UTIL_LISTIFY_191 :: listify where "Z_UTIL_LISTIFY_191 = listify_next Z_UTIL_LISTIFY_190 190"
definition Z_UTIL_LISTIFY_192 :: listify where "Z_UTIL_LISTIFY_192 = listify_next Z_UTIL_LISTIFY_191 191"
definition Z_UTIL_LISTIFY_193 :: listify where "Z_UTIL_LISTIFY_193 = listify_next Z_UTIL_LISTIFY_192 192"
definition Z_UTIL_LISTIFY_194 :: listify where "Z_UTIL_LISTIFY_194 = listify_next Z_UTIL_LISTIFY_193 193"
definition Z_UTIL_LISTIFY_195 :: listify where "Z_UTIL_LISTIFY_195 = listify_next Z_UTIL_LISTIFY_194 194"
definition Z_UTIL_LISTIFY_196 :: listify where "Z_UTIL_LISTIFY_196 = listify_next Z_UTIL_LISTIFY_195 195"
definition Z_UTIL_LISTIFY_197 :: listify where "Z_UTIL_LISTIFY_197 = listify_next Z_UTIL_LISTIFY_196 196"
definition Z_UTIL_LISTIFY_198 :: listify where "Z_UTIL_LISTIFY_198 = listify_next Z_UTIL_LISTIFY_197 197"
definition Z_UTIL_LISTIFY_199 :: listify where "Z_UTIL_LISTIFY_199 = listify_next Z_UTIL_LISTIFY_198 198"
definition Z_UTIL_LISTIFY_200 :: listify where "Z_UTIL_LISTIFY_200 = listify_next Z_UTIL_LISTIFY_199 199"
definition Z_UTIL_LISTIFY_201 :: listify where "Z_UTIL_LISTIFY_201 = listify_next Z_UTIL_LISTIFY_200 200"
definition Z_UTIL_LISTIFY_202 :: listify where "Z_UTIL_LISTIFY_202 = listify_next Z_UTIL_LISTIFY_201 201"
definition Z_UTIL_LISTIFY_203 :: listify where "Z_UTIL_LISTIFY_203 = listify_next Z_UTIL_LISTIFY_202 202"
definition Z_UTIL_LISTIFY_204 :: listify where "Z_UTIL_LISTIFY_204 = listify_next Z_UTIL_LISTIFY_203 203"
definition Z_UTIL_LISTIFY_205 :: listify where "Z_UTIL_LISTIFY_205 = listify_next Z_UTIL_LISTIFY_204 204"
definition Z_UTIL_LISTIFY_206 :: listify where "Z_UTIL_LISTIFY_206 = listify_next Z_UTIL_LISTIFY_205 205"
definition Z_UTIL_LISTIFY_207 :: listify where "Z_UTIL_LISTIFY_207 = listify_next Z_UTIL_LISTIFY_206 206"
definition Z_UTIL_LISTIFY_208 :: listify where "Z_UTIL_LISTIFY_208 = listify_next Z_UTIL_LISTIFY_207 207"
definition Z_UTIL_LISTIFY_209 :: listify where "Z_UTIL_LISTIFY_209 = listify_next Z_UTIL_LISTIFY_208 208"
definition Z_UTIL_LISTIFY_210 :: listify where "Z_UTIL_LISTIFY_210 = listify_next Z_UTIL_LISTIFY_209 209"
definition Z_UTIL_LISTIFY_211 :: listify where "Z_UTIL_LISTIFY_211 = listify_next Z_UTIL_LISTIFY_210 210"
definition Z_UTIL_LISTIFY_212 :: listify where "Z_UTIL_LISTIFY_212 = listify_next Z_UTIL_LISTIFY_211 211"
definition Z_UTIL_LISTIFY_213 :: listify where "Z_UTIL_LISTIFY_213 = listify_next Z_UTIL_LISTIFY_212 212"
definition Z_UTIL_LISTIFY_214 :: listify where "Z_UTIL_LISTIFY_214 = listify_next Z_UTIL_LISTIFY_213 213"
definition Z_UTIL_LISTIFY_215 :: listify where "Z_UTIL_LISTIFY_215 = listify_next Z_UTIL_LISTIFY_214 214"
definition Z_UTIL_LISTIFY_216 :: listify where "Z_UTIL_LISTIFY_216 = listify_next Z_UTIL_LISTIFY_215 215"
definition Z_UTIL_LISTIFY_217 :: listify where "Z_UTIL_LISTIFY_217 = listify_next Z_UTIL_LISTIFY_216 216"
definition Z_UTIL_LISTIFY_218 :: listify where "Z_UTIL_LISTIFY_218 = listify_next Z_UTIL_LISTIFY_217 217"
definition Z_UTIL_LISTIFY_219 :: listify where "Z_UTIL_LISTIFY_219 = listify_next Z_UTIL_LISTIFY_218 218"
definition Z_UTIL_LISTIFY_220 :: listify where "Z_UTIL_LISTIFY_220 = listify_next Z_UTIL_LISTIFY_219 219"
definition Z_UTIL_LISTIFY_221 :: listify where "Z_UTIL_LISTIFY_221 = listify_next Z_UTIL_LISTIFY_220 220"
definition Z_UTIL_LISTIFY_222 :: listify where "Z_UTIL_LISTIFY_222 = listify_next Z_UTIL_LISTIFY_221 221"
definition Z_UTIL_LISTIFY_223 :: listify where "Z_UTIL_LISTIFY_223 = listify_next Z_UTIL_LISTIFY_222 222"
definition Z_UTIL_LISTIFY_224 :: listify where "Z_UTIL_LISTIFY_224 = listify_next Z_UTIL_LISTIFY_223 223"
definition Z_UTIL_LISTIFY_225 :: listify where "Z_UTIL_LISTIFY_225 = listify_next Z_UTIL_LISTIFY_224 224"
definition Z_UTIL_LISTIFY_226 :: listify where "Z_UTIL_LISTIFY_226 = listify_next Z_UTIL_LISTIFY_225 225"
definition Z_UTIL_LISTIFY_227 :: listify where "Z_UTIL_LISTIFY_227 = listify_next Z_UTIL_LISTIFY_226 226"
definition Z_UTIL_LISTIFY_228 :: listify where "Z_UTIL_LISTIFY_228 = listify_next Z_UTIL_LISTIFY_227 227"
definition Z_UTIL_LISTIFY_229 :: listify where "Z_UTIL_LISTIFY_229 = listify_next Z_UTIL_LISTIFY_228 228"
definition Z_UTIL_LISTIFY_230 :: listify where "Z_UTIL_LISTIFY_230 = listify_next Z_UTIL_LISTIFY_229 229"
definition Z_UTIL_LISTIFY_231 :: listify where "Z_UTIL_LISTIFY_231 = listify_next Z_UTIL_LISTIFY_230 230"
definition Z_UTIL_LISTIFY_232 :: listify where "Z_UTIL_LISTIFY_232 = listify_next Z_UTIL_LISTIFY_231 231"
definition Z_UTIL_LISTIFY_233 :: listify where "Z_UTIL_LISTIFY_233 = listify_next Z_UTIL_LISTIFY_232 232"
definition Z_UTIL_LISTIFY_234 :: listify where "Z_UTIL_LISTIFY_234 = listify_next Z_UTIL_LISTIFY_233 233"
definition Z_UTIL_LISTIFY_235 :: listify where "Z_UTIL_LISTIFY_235 = listify_next Z_UTIL_LISTIFY_234 234"
definition Z_UTIL_LISTIFY_236 :: listify where "Z_UTIL_LISTIFY_236 = listify_next Z_UTIL_LISTIFY_235 235"
definition Z_UTIL_LISTIFY_237 :: listify where "Z_UTIL_LISTIFY_237 = listify_next Z_UTIL_LISTIFY_236 236"
definition Z_UTIL_LISTIFY_238 :: listify where "Z_UTIL_LISTIFY_238 = listify_next Z_UTIL_LISTIFY_237 237"
definition Z_UTIL_LISTIFY_239 :: listify where "Z_UTIL_LISTIFY_239 = listify_next Z_UTIL_LISTIFY_238 238"
definition Z_UTIL_LISTIFY_240 :: listify where "Z_UTIL_LISTIFY_240 = listify_next Z_UTIL_LISTIFY_239 239"
definition Z_UTIL_LISTIFY_241 :: listify where "Z_UTIL_LISTIFY_241 = listify_next Z_UTIL_LISTIFY_240 240"
definition Z_UTIL_LISTIFY_242 :: listify where "Z_UTIL_LISTIFY_242 = listify_next Z_UTIL_LISTIFY_241 241"
definition Z_UTIL_LISTIFY_243 :: listify where "Z_UTIL_LISTIFY_243 = listify_next Z_UTIL_LISTIFY_242 242"
definition Z_UTIL_LISTIFY_244 :: listify where "Z_UTIL_LISTIFY_244 = listify_next Z_UTIL_LISTIFY_243 243"
definition Z_UTIL_LISTIFY_245 :: listify where "Z_UTIL_LISTIFY_245 = listify_next Z_UTIL_LISTIFY_244 244"
definition Z_UTIL_LISTIFY_246 :: listify where "Z_UTIL_LISTIFY_246 = listify_next Z_UTIL_LISTIFY_245 245"
definition Z_UTIL_LISTIFY_247 :: listify where "Z_UTIL_LISTIFY_247 = listify_next Z_UTIL_LISTIFY_246 246"
definition Z_UTIL_LISTIFY_248 :: listify where "Z_UTIL_LISTIFY_248 = listify_next Z_UTIL_LISTIFY_247 247"
definition Z_UTIL_LISTIFY_249 :: listify where "Z_UTIL_LISTIFY_249 = listify_next Z_UTIL_LISTIFY_248 248"
definition Z_UTIL_LISTIFY_250 :: listify where "Z_UTIL_LISTIFY_250 = listify_next Z_UTIL_LISTIFY_249 249"
definition Z_UTIL_LISTIFY_251 :: listify where "Z_UTIL_LISTIFY_251 = listify_next Z_UTIL_LISTIFY_250 250"
definition Z_UTIL_LISTIFY_252 :: listify where "Z_UTIL_LISTIFY_252 = listify_next Z_UTIL_LISTIFY_251 251"
definition Z_UTIL_LISTIFY_253 :: listify where "Z_UTIL_LISTIFY_253 = listify_next Z_UTIL_LISTIFY_252 252"
definition Z_UTIL_LISTIFY_254 :: listify where "Z_UTIL_LISTIFY_254 = listify_next Z_UTIL_LISTIFY_253 253"
definition Z_UTIL_LISTIFY_255 :: listify where "Z_UTIL_LISTIFY_255 = listify_next Z_UTIL_LISTIFY_254 254"
definition Z_UTIL_LISTIFY_256 :: listify where "Z_UTIL_LISTIFY_256 = listify_next Z_UTIL_LISTIFY_255 255"

text \<open>The families, for the lookup of a pasted name.\<close>

definition get_arg_macros :: "macro list" where
  "get_arg_macros =
     [Z_GET_ARG_1, Z_GET_ARG_2, Z_GET_ARG_3, Z_GET_ARG_4, Z_GET_ARG_5, Z_GET_ARG_6, Z_GET_ARG_7,
      Z_GET_ARG_8, Z_GET_ARG_9, Z_GET_ARG_10, Z_GET_ARG_11, Z_GET_ARG_12, Z_GET_ARG_13, Z_GET_ARG_14,
      Z_GET_ARG_15, Z_GET_ARG_16, Z_GET_ARG_17, Z_GET_ARG_18, Z_GET_ARG_19, Z_GET_ARG_20, Z_GET_ARG_21,
      Z_GET_ARG_22, Z_GET_ARG_23, Z_GET_ARG_24, Z_GET_ARG_25, Z_GET_ARG_26, Z_GET_ARG_27, Z_GET_ARG_28,
      Z_GET_ARG_29, Z_GET_ARG_30, Z_GET_ARG_31, Z_GET_ARG_32, Z_GET_ARG_33, Z_GET_ARG_34, Z_GET_ARG_35,
      Z_GET_ARG_36, Z_GET_ARG_37, Z_GET_ARG_38, Z_GET_ARG_39, Z_GET_ARG_40, Z_GET_ARG_41, Z_GET_ARG_42,
      Z_GET_ARG_43, Z_GET_ARG_44, Z_GET_ARG_45, Z_GET_ARG_46, Z_GET_ARG_47, Z_GET_ARG_48, Z_GET_ARG_49,
      Z_GET_ARG_50, Z_GET_ARG_51, Z_GET_ARG_52, Z_GET_ARG_53, Z_GET_ARG_54, Z_GET_ARG_55, Z_GET_ARG_56,
      Z_GET_ARG_57, Z_GET_ARG_58, Z_GET_ARG_59, Z_GET_ARG_60, Z_GET_ARG_61, Z_GET_ARG_62, Z_GET_ARG_63,
      Z_GET_ARG_64]"

definition get_args_less_macros :: "macro list" where
  "get_args_less_macros =
     [Z_GET_ARGS_LESS_0, Z_GET_ARGS_LESS_1, Z_GET_ARGS_LESS_2, Z_GET_ARGS_LESS_3, Z_GET_ARGS_LESS_4,
      Z_GET_ARGS_LESS_5, Z_GET_ARGS_LESS_6, Z_GET_ARGS_LESS_7, Z_GET_ARGS_LESS_8, Z_GET_ARGS_LESS_9,
      Z_GET_ARGS_LESS_10, Z_GET_ARGS_LESS_11, Z_GET_ARGS_LESS_12, Z_GET_ARGS_LESS_13, Z_GET_ARGS_LESS_14,
      Z_GET_ARGS_LESS_15, Z_GET_ARGS_LESS_16, Z_GET_ARGS_LESS_17, Z_GET_ARGS_LESS_18, Z_GET_ARGS_LESS_19,
      Z_GET_ARGS_LESS_20, Z_GET_ARGS_LESS_21, Z_GET_ARGS_LESS_22, Z_GET_ARGS_LESS_23, Z_GET_ARGS_LESS_24,
      Z_GET_ARGS_LESS_25, Z_GET_ARGS_LESS_26, Z_GET_ARGS_LESS_27, Z_GET_ARGS_LESS_28, Z_GET_ARGS_LESS_29,
      Z_GET_ARGS_LESS_30, Z_GET_ARGS_LESS_31, Z_GET_ARGS_LESS_32, Z_GET_ARGS_LESS_33, Z_GET_ARGS_LESS_34,
      Z_GET_ARGS_LESS_35, Z_GET_ARGS_LESS_36, Z_GET_ARGS_LESS_37, Z_GET_ARGS_LESS_38, Z_GET_ARGS_LESS_39,
      Z_GET_ARGS_LESS_40, Z_GET_ARGS_LESS_41, Z_GET_ARGS_LESS_42, Z_GET_ARGS_LESS_43, Z_GET_ARGS_LESS_44,
      Z_GET_ARGS_LESS_45, Z_GET_ARGS_LESS_46, Z_GET_ARGS_LESS_47, Z_GET_ARGS_LESS_48, Z_GET_ARGS_LESS_49,
      Z_GET_ARGS_LESS_50, Z_GET_ARGS_LESS_51, Z_GET_ARGS_LESS_52, Z_GET_ARGS_LESS_53, Z_GET_ARGS_LESS_54,
      Z_GET_ARGS_LESS_55, Z_GET_ARGS_LESS_56, Z_GET_ARGS_LESS_57, Z_GET_ARGS_LESS_58, Z_GET_ARGS_LESS_59,
      Z_GET_ARGS_LESS_60, Z_GET_ARGS_LESS_61, Z_GET_ARGS_LESS_62, Z_GET_ARGS_LESS_63, Z_GET_ARGS_LESS_64]"

definition listify_macros :: "listify list" where
  "listify_macros =
     [Z_UTIL_LISTIFY_0, Z_UTIL_LISTIFY_1, Z_UTIL_LISTIFY_2, Z_UTIL_LISTIFY_3, Z_UTIL_LISTIFY_4,
      Z_UTIL_LISTIFY_5, Z_UTIL_LISTIFY_6, Z_UTIL_LISTIFY_7, Z_UTIL_LISTIFY_8, Z_UTIL_LISTIFY_9,
      Z_UTIL_LISTIFY_10, Z_UTIL_LISTIFY_11, Z_UTIL_LISTIFY_12, Z_UTIL_LISTIFY_13, Z_UTIL_LISTIFY_14,
      Z_UTIL_LISTIFY_15, Z_UTIL_LISTIFY_16, Z_UTIL_LISTIFY_17, Z_UTIL_LISTIFY_18, Z_UTIL_LISTIFY_19,
      Z_UTIL_LISTIFY_20, Z_UTIL_LISTIFY_21, Z_UTIL_LISTIFY_22, Z_UTIL_LISTIFY_23, Z_UTIL_LISTIFY_24,
      Z_UTIL_LISTIFY_25, Z_UTIL_LISTIFY_26, Z_UTIL_LISTIFY_27, Z_UTIL_LISTIFY_28, Z_UTIL_LISTIFY_29,
      Z_UTIL_LISTIFY_30, Z_UTIL_LISTIFY_31, Z_UTIL_LISTIFY_32, Z_UTIL_LISTIFY_33, Z_UTIL_LISTIFY_34,
      Z_UTIL_LISTIFY_35, Z_UTIL_LISTIFY_36, Z_UTIL_LISTIFY_37, Z_UTIL_LISTIFY_38, Z_UTIL_LISTIFY_39,
      Z_UTIL_LISTIFY_40, Z_UTIL_LISTIFY_41, Z_UTIL_LISTIFY_42, Z_UTIL_LISTIFY_43, Z_UTIL_LISTIFY_44,
      Z_UTIL_LISTIFY_45, Z_UTIL_LISTIFY_46, Z_UTIL_LISTIFY_47, Z_UTIL_LISTIFY_48, Z_UTIL_LISTIFY_49,
      Z_UTIL_LISTIFY_50, Z_UTIL_LISTIFY_51, Z_UTIL_LISTIFY_52, Z_UTIL_LISTIFY_53, Z_UTIL_LISTIFY_54,
      Z_UTIL_LISTIFY_55, Z_UTIL_LISTIFY_56, Z_UTIL_LISTIFY_57, Z_UTIL_LISTIFY_58, Z_UTIL_LISTIFY_59,
      Z_UTIL_LISTIFY_60, Z_UTIL_LISTIFY_61, Z_UTIL_LISTIFY_62, Z_UTIL_LISTIFY_63, Z_UTIL_LISTIFY_64,
      Z_UTIL_LISTIFY_65, Z_UTIL_LISTIFY_66, Z_UTIL_LISTIFY_67, Z_UTIL_LISTIFY_68, Z_UTIL_LISTIFY_69,
      Z_UTIL_LISTIFY_70, Z_UTIL_LISTIFY_71, Z_UTIL_LISTIFY_72, Z_UTIL_LISTIFY_73, Z_UTIL_LISTIFY_74,
      Z_UTIL_LISTIFY_75, Z_UTIL_LISTIFY_76, Z_UTIL_LISTIFY_77, Z_UTIL_LISTIFY_78, Z_UTIL_LISTIFY_79,
      Z_UTIL_LISTIFY_80, Z_UTIL_LISTIFY_81, Z_UTIL_LISTIFY_82, Z_UTIL_LISTIFY_83, Z_UTIL_LISTIFY_84,
      Z_UTIL_LISTIFY_85, Z_UTIL_LISTIFY_86, Z_UTIL_LISTIFY_87, Z_UTIL_LISTIFY_88, Z_UTIL_LISTIFY_89,
      Z_UTIL_LISTIFY_90, Z_UTIL_LISTIFY_91, Z_UTIL_LISTIFY_92, Z_UTIL_LISTIFY_93, Z_UTIL_LISTIFY_94,
      Z_UTIL_LISTIFY_95, Z_UTIL_LISTIFY_96, Z_UTIL_LISTIFY_97, Z_UTIL_LISTIFY_98, Z_UTIL_LISTIFY_99,
      Z_UTIL_LISTIFY_100, Z_UTIL_LISTIFY_101, Z_UTIL_LISTIFY_102, Z_UTIL_LISTIFY_103, Z_UTIL_LISTIFY_104,
      Z_UTIL_LISTIFY_105, Z_UTIL_LISTIFY_106, Z_UTIL_LISTIFY_107, Z_UTIL_LISTIFY_108, Z_UTIL_LISTIFY_109,
      Z_UTIL_LISTIFY_110, Z_UTIL_LISTIFY_111, Z_UTIL_LISTIFY_112, Z_UTIL_LISTIFY_113, Z_UTIL_LISTIFY_114,
      Z_UTIL_LISTIFY_115, Z_UTIL_LISTIFY_116, Z_UTIL_LISTIFY_117, Z_UTIL_LISTIFY_118, Z_UTIL_LISTIFY_119,
      Z_UTIL_LISTIFY_120, Z_UTIL_LISTIFY_121, Z_UTIL_LISTIFY_122, Z_UTIL_LISTIFY_123, Z_UTIL_LISTIFY_124,
      Z_UTIL_LISTIFY_125, Z_UTIL_LISTIFY_126, Z_UTIL_LISTIFY_127, Z_UTIL_LISTIFY_128, Z_UTIL_LISTIFY_129,
      Z_UTIL_LISTIFY_130, Z_UTIL_LISTIFY_131, Z_UTIL_LISTIFY_132, Z_UTIL_LISTIFY_133, Z_UTIL_LISTIFY_134,
      Z_UTIL_LISTIFY_135, Z_UTIL_LISTIFY_136, Z_UTIL_LISTIFY_137, Z_UTIL_LISTIFY_138, Z_UTIL_LISTIFY_139,
      Z_UTIL_LISTIFY_140, Z_UTIL_LISTIFY_141, Z_UTIL_LISTIFY_142, Z_UTIL_LISTIFY_143, Z_UTIL_LISTIFY_144,
      Z_UTIL_LISTIFY_145, Z_UTIL_LISTIFY_146, Z_UTIL_LISTIFY_147, Z_UTIL_LISTIFY_148, Z_UTIL_LISTIFY_149,
      Z_UTIL_LISTIFY_150, Z_UTIL_LISTIFY_151, Z_UTIL_LISTIFY_152, Z_UTIL_LISTIFY_153, Z_UTIL_LISTIFY_154,
      Z_UTIL_LISTIFY_155, Z_UTIL_LISTIFY_156, Z_UTIL_LISTIFY_157, Z_UTIL_LISTIFY_158, Z_UTIL_LISTIFY_159,
      Z_UTIL_LISTIFY_160, Z_UTIL_LISTIFY_161, Z_UTIL_LISTIFY_162, Z_UTIL_LISTIFY_163, Z_UTIL_LISTIFY_164,
      Z_UTIL_LISTIFY_165, Z_UTIL_LISTIFY_166, Z_UTIL_LISTIFY_167, Z_UTIL_LISTIFY_168, Z_UTIL_LISTIFY_169,
      Z_UTIL_LISTIFY_170, Z_UTIL_LISTIFY_171, Z_UTIL_LISTIFY_172, Z_UTIL_LISTIFY_173, Z_UTIL_LISTIFY_174,
      Z_UTIL_LISTIFY_175, Z_UTIL_LISTIFY_176, Z_UTIL_LISTIFY_177, Z_UTIL_LISTIFY_178, Z_UTIL_LISTIFY_179,
      Z_UTIL_LISTIFY_180, Z_UTIL_LISTIFY_181, Z_UTIL_LISTIFY_182, Z_UTIL_LISTIFY_183, Z_UTIL_LISTIFY_184,
      Z_UTIL_LISTIFY_185, Z_UTIL_LISTIFY_186, Z_UTIL_LISTIFY_187, Z_UTIL_LISTIFY_188, Z_UTIL_LISTIFY_189,
      Z_UTIL_LISTIFY_190, Z_UTIL_LISTIFY_191, Z_UTIL_LISTIFY_192, Z_UTIL_LISTIFY_193, Z_UTIL_LISTIFY_194,
      Z_UTIL_LISTIFY_195, Z_UTIL_LISTIFY_196, Z_UTIL_LISTIFY_197, Z_UTIL_LISTIFY_198, Z_UTIL_LISTIFY_199,
      Z_UTIL_LISTIFY_200, Z_UTIL_LISTIFY_201, Z_UTIL_LISTIFY_202, Z_UTIL_LISTIFY_203, Z_UTIL_LISTIFY_204,
      Z_UTIL_LISTIFY_205, Z_UTIL_LISTIFY_206, Z_UTIL_LISTIFY_207, Z_UTIL_LISTIFY_208, Z_UTIL_LISTIFY_209,
      Z_UTIL_LISTIFY_210, Z_UTIL_LISTIFY_211, Z_UTIL_LISTIFY_212, Z_UTIL_LISTIFY_213, Z_UTIL_LISTIFY_214,
      Z_UTIL_LISTIFY_215, Z_UTIL_LISTIFY_216, Z_UTIL_LISTIFY_217, Z_UTIL_LISTIFY_218, Z_UTIL_LISTIFY_219,
      Z_UTIL_LISTIFY_220, Z_UTIL_LISTIFY_221, Z_UTIL_LISTIFY_222, Z_UTIL_LISTIFY_223, Z_UTIL_LISTIFY_224,
      Z_UTIL_LISTIFY_225, Z_UTIL_LISTIFY_226, Z_UTIL_LISTIFY_227, Z_UTIL_LISTIFY_228, Z_UTIL_LISTIFY_229,
      Z_UTIL_LISTIFY_230, Z_UTIL_LISTIFY_231, Z_UTIL_LISTIFY_232, Z_UTIL_LISTIFY_233, Z_UTIL_LISTIFY_234,
      Z_UTIL_LISTIFY_235, Z_UTIL_LISTIFY_236, Z_UTIL_LISTIFY_237, Z_UTIL_LISTIFY_238, Z_UTIL_LISTIFY_239,
      Z_UTIL_LISTIFY_240, Z_UTIL_LISTIFY_241, Z_UTIL_LISTIFY_242, Z_UTIL_LISTIFY_243, Z_UTIL_LISTIFY_244,
      Z_UTIL_LISTIFY_245, Z_UTIL_LISTIFY_246, Z_UTIL_LISTIFY_247, Z_UTIL_LISTIFY_248, Z_UTIL_LISTIFY_249,
      Z_UTIL_LISTIFY_250, Z_UTIL_LISTIFY_251, Z_UTIL_LISTIFY_252, Z_UTIL_LISTIFY_253, Z_UTIL_LISTIFY_254,
      Z_UTIL_LISTIFY_255, Z_UTIL_LISTIFY_256]"

section \<open>Bundles of the definitions\<close>

lemmas for_loop_defs =
  Z_FOR_LOOP_2_def Z_FOR_LOOP_3_def Z_FOR_LOOP_4_def Z_FOR_LOOP_5_def Z_FOR_LOOP_6_def
  Z_FOR_LOOP_7_def Z_FOR_LOOP_8_def Z_FOR_LOOP_9_def Z_FOR_LOOP_10_def Z_FOR_LOOP_11_def
  Z_FOR_LOOP_12_def Z_FOR_LOOP_13_def Z_FOR_LOOP_14_def Z_FOR_LOOP_15_def Z_FOR_LOOP_16_def
  Z_FOR_LOOP_17_def Z_FOR_LOOP_18_def Z_FOR_LOOP_19_def Z_FOR_LOOP_20_def Z_FOR_LOOP_21_def
  Z_FOR_LOOP_22_def Z_FOR_LOOP_23_def Z_FOR_LOOP_24_def Z_FOR_LOOP_25_def Z_FOR_LOOP_26_def
  Z_FOR_LOOP_27_def Z_FOR_LOOP_28_def Z_FOR_LOOP_29_def Z_FOR_LOOP_30_def Z_FOR_LOOP_31_def
  Z_FOR_LOOP_32_def Z_FOR_LOOP_33_def Z_FOR_LOOP_34_def Z_FOR_LOOP_35_def Z_FOR_LOOP_36_def
  Z_FOR_LOOP_37_def Z_FOR_LOOP_38_def Z_FOR_LOOP_39_def Z_FOR_LOOP_40_def Z_FOR_LOOP_41_def
  Z_FOR_LOOP_42_def Z_FOR_LOOP_43_def Z_FOR_LOOP_44_def Z_FOR_LOOP_45_def Z_FOR_LOOP_46_def
  Z_FOR_LOOP_47_def Z_FOR_LOOP_48_def Z_FOR_LOOP_49_def Z_FOR_LOOP_50_def Z_FOR_LOOP_51_def
  Z_FOR_LOOP_52_def Z_FOR_LOOP_53_def Z_FOR_LOOP_54_def Z_FOR_LOOP_55_def Z_FOR_LOOP_56_def
  Z_FOR_LOOP_57_def Z_FOR_LOOP_58_def Z_FOR_LOOP_59_def Z_FOR_LOOP_60_def Z_FOR_LOOP_61_def
  Z_FOR_LOOP_62_def Z_FOR_LOOP_63_def Z_FOR_LOOP_64_def

lemmas get_arg_defs =
  Z_GET_ARG_1_def Z_GET_ARG_2_def Z_GET_ARG_3_def Z_GET_ARG_4_def Z_GET_ARG_5_def
  Z_GET_ARG_6_def Z_GET_ARG_7_def Z_GET_ARG_8_def Z_GET_ARG_9_def Z_GET_ARG_10_def
  Z_GET_ARG_11_def Z_GET_ARG_12_def Z_GET_ARG_13_def Z_GET_ARG_14_def Z_GET_ARG_15_def
  Z_GET_ARG_16_def Z_GET_ARG_17_def Z_GET_ARG_18_def Z_GET_ARG_19_def Z_GET_ARG_20_def
  Z_GET_ARG_21_def Z_GET_ARG_22_def Z_GET_ARG_23_def Z_GET_ARG_24_def Z_GET_ARG_25_def
  Z_GET_ARG_26_def Z_GET_ARG_27_def Z_GET_ARG_28_def Z_GET_ARG_29_def Z_GET_ARG_30_def
  Z_GET_ARG_31_def Z_GET_ARG_32_def Z_GET_ARG_33_def Z_GET_ARG_34_def Z_GET_ARG_35_def
  Z_GET_ARG_36_def Z_GET_ARG_37_def Z_GET_ARG_38_def Z_GET_ARG_39_def Z_GET_ARG_40_def
  Z_GET_ARG_41_def Z_GET_ARG_42_def Z_GET_ARG_43_def Z_GET_ARG_44_def Z_GET_ARG_45_def
  Z_GET_ARG_46_def Z_GET_ARG_47_def Z_GET_ARG_48_def Z_GET_ARG_49_def Z_GET_ARG_50_def
  Z_GET_ARG_51_def Z_GET_ARG_52_def Z_GET_ARG_53_def Z_GET_ARG_54_def Z_GET_ARG_55_def
  Z_GET_ARG_56_def Z_GET_ARG_57_def Z_GET_ARG_58_def Z_GET_ARG_59_def Z_GET_ARG_60_def
  Z_GET_ARG_61_def Z_GET_ARG_62_def Z_GET_ARG_63_def Z_GET_ARG_64_def

lemmas get_args_less_defs =
  Z_GET_ARGS_LESS_0_def Z_GET_ARGS_LESS_1_def Z_GET_ARGS_LESS_2_def Z_GET_ARGS_LESS_3_def
  Z_GET_ARGS_LESS_4_def Z_GET_ARGS_LESS_5_def Z_GET_ARGS_LESS_6_def Z_GET_ARGS_LESS_7_def
  Z_GET_ARGS_LESS_8_def Z_GET_ARGS_LESS_9_def Z_GET_ARGS_LESS_10_def Z_GET_ARGS_LESS_11_def
  Z_GET_ARGS_LESS_12_def Z_GET_ARGS_LESS_13_def Z_GET_ARGS_LESS_14_def Z_GET_ARGS_LESS_15_def
  Z_GET_ARGS_LESS_16_def Z_GET_ARGS_LESS_17_def Z_GET_ARGS_LESS_18_def Z_GET_ARGS_LESS_19_def
  Z_GET_ARGS_LESS_20_def Z_GET_ARGS_LESS_21_def Z_GET_ARGS_LESS_22_def Z_GET_ARGS_LESS_23_def
  Z_GET_ARGS_LESS_24_def Z_GET_ARGS_LESS_25_def Z_GET_ARGS_LESS_26_def Z_GET_ARGS_LESS_27_def
  Z_GET_ARGS_LESS_28_def Z_GET_ARGS_LESS_29_def Z_GET_ARGS_LESS_30_def Z_GET_ARGS_LESS_31_def
  Z_GET_ARGS_LESS_32_def Z_GET_ARGS_LESS_33_def Z_GET_ARGS_LESS_34_def Z_GET_ARGS_LESS_35_def
  Z_GET_ARGS_LESS_36_def Z_GET_ARGS_LESS_37_def Z_GET_ARGS_LESS_38_def Z_GET_ARGS_LESS_39_def
  Z_GET_ARGS_LESS_40_def Z_GET_ARGS_LESS_41_def Z_GET_ARGS_LESS_42_def Z_GET_ARGS_LESS_43_def
  Z_GET_ARGS_LESS_44_def Z_GET_ARGS_LESS_45_def Z_GET_ARGS_LESS_46_def Z_GET_ARGS_LESS_47_def
  Z_GET_ARGS_LESS_48_def Z_GET_ARGS_LESS_49_def Z_GET_ARGS_LESS_50_def Z_GET_ARGS_LESS_51_def
  Z_GET_ARGS_LESS_52_def Z_GET_ARGS_LESS_53_def Z_GET_ARGS_LESS_54_def Z_GET_ARGS_LESS_55_def
  Z_GET_ARGS_LESS_56_def Z_GET_ARGS_LESS_57_def Z_GET_ARGS_LESS_58_def Z_GET_ARGS_LESS_59_def
  Z_GET_ARGS_LESS_60_def Z_GET_ARGS_LESS_61_def Z_GET_ARGS_LESS_62_def Z_GET_ARGS_LESS_63_def
  Z_GET_ARGS_LESS_64_def

lemmas listify_defs =
  Z_UTIL_LISTIFY_2_def Z_UTIL_LISTIFY_3_def Z_UTIL_LISTIFY_4_def Z_UTIL_LISTIFY_5_def
  Z_UTIL_LISTIFY_6_def Z_UTIL_LISTIFY_7_def Z_UTIL_LISTIFY_8_def Z_UTIL_LISTIFY_9_def
  Z_UTIL_LISTIFY_10_def Z_UTIL_LISTIFY_11_def Z_UTIL_LISTIFY_12_def Z_UTIL_LISTIFY_13_def
  Z_UTIL_LISTIFY_14_def Z_UTIL_LISTIFY_15_def Z_UTIL_LISTIFY_16_def Z_UTIL_LISTIFY_17_def
  Z_UTIL_LISTIFY_18_def Z_UTIL_LISTIFY_19_def Z_UTIL_LISTIFY_20_def Z_UTIL_LISTIFY_21_def
  Z_UTIL_LISTIFY_22_def Z_UTIL_LISTIFY_23_def Z_UTIL_LISTIFY_24_def Z_UTIL_LISTIFY_25_def
  Z_UTIL_LISTIFY_26_def Z_UTIL_LISTIFY_27_def Z_UTIL_LISTIFY_28_def Z_UTIL_LISTIFY_29_def
  Z_UTIL_LISTIFY_30_def Z_UTIL_LISTIFY_31_def Z_UTIL_LISTIFY_32_def Z_UTIL_LISTIFY_33_def
  Z_UTIL_LISTIFY_34_def Z_UTIL_LISTIFY_35_def Z_UTIL_LISTIFY_36_def Z_UTIL_LISTIFY_37_def
  Z_UTIL_LISTIFY_38_def Z_UTIL_LISTIFY_39_def Z_UTIL_LISTIFY_40_def Z_UTIL_LISTIFY_41_def
  Z_UTIL_LISTIFY_42_def Z_UTIL_LISTIFY_43_def Z_UTIL_LISTIFY_44_def Z_UTIL_LISTIFY_45_def
  Z_UTIL_LISTIFY_46_def Z_UTIL_LISTIFY_47_def Z_UTIL_LISTIFY_48_def Z_UTIL_LISTIFY_49_def
  Z_UTIL_LISTIFY_50_def Z_UTIL_LISTIFY_51_def Z_UTIL_LISTIFY_52_def Z_UTIL_LISTIFY_53_def
  Z_UTIL_LISTIFY_54_def Z_UTIL_LISTIFY_55_def Z_UTIL_LISTIFY_56_def Z_UTIL_LISTIFY_57_def
  Z_UTIL_LISTIFY_58_def Z_UTIL_LISTIFY_59_def Z_UTIL_LISTIFY_60_def Z_UTIL_LISTIFY_61_def
  Z_UTIL_LISTIFY_62_def Z_UTIL_LISTIFY_63_def Z_UTIL_LISTIFY_64_def Z_UTIL_LISTIFY_65_def
  Z_UTIL_LISTIFY_66_def Z_UTIL_LISTIFY_67_def Z_UTIL_LISTIFY_68_def Z_UTIL_LISTIFY_69_def
  Z_UTIL_LISTIFY_70_def Z_UTIL_LISTIFY_71_def Z_UTIL_LISTIFY_72_def Z_UTIL_LISTIFY_73_def
  Z_UTIL_LISTIFY_74_def Z_UTIL_LISTIFY_75_def Z_UTIL_LISTIFY_76_def Z_UTIL_LISTIFY_77_def
  Z_UTIL_LISTIFY_78_def Z_UTIL_LISTIFY_79_def Z_UTIL_LISTIFY_80_def Z_UTIL_LISTIFY_81_def
  Z_UTIL_LISTIFY_82_def Z_UTIL_LISTIFY_83_def Z_UTIL_LISTIFY_84_def Z_UTIL_LISTIFY_85_def
  Z_UTIL_LISTIFY_86_def Z_UTIL_LISTIFY_87_def Z_UTIL_LISTIFY_88_def Z_UTIL_LISTIFY_89_def
  Z_UTIL_LISTIFY_90_def Z_UTIL_LISTIFY_91_def Z_UTIL_LISTIFY_92_def Z_UTIL_LISTIFY_93_def
  Z_UTIL_LISTIFY_94_def Z_UTIL_LISTIFY_95_def Z_UTIL_LISTIFY_96_def Z_UTIL_LISTIFY_97_def
  Z_UTIL_LISTIFY_98_def Z_UTIL_LISTIFY_99_def Z_UTIL_LISTIFY_100_def Z_UTIL_LISTIFY_101_def
  Z_UTIL_LISTIFY_102_def Z_UTIL_LISTIFY_103_def Z_UTIL_LISTIFY_104_def Z_UTIL_LISTIFY_105_def
  Z_UTIL_LISTIFY_106_def Z_UTIL_LISTIFY_107_def Z_UTIL_LISTIFY_108_def Z_UTIL_LISTIFY_109_def
  Z_UTIL_LISTIFY_110_def Z_UTIL_LISTIFY_111_def Z_UTIL_LISTIFY_112_def Z_UTIL_LISTIFY_113_def
  Z_UTIL_LISTIFY_114_def Z_UTIL_LISTIFY_115_def Z_UTIL_LISTIFY_116_def Z_UTIL_LISTIFY_117_def
  Z_UTIL_LISTIFY_118_def Z_UTIL_LISTIFY_119_def Z_UTIL_LISTIFY_120_def Z_UTIL_LISTIFY_121_def
  Z_UTIL_LISTIFY_122_def Z_UTIL_LISTIFY_123_def Z_UTIL_LISTIFY_124_def Z_UTIL_LISTIFY_125_def
  Z_UTIL_LISTIFY_126_def Z_UTIL_LISTIFY_127_def Z_UTIL_LISTIFY_128_def Z_UTIL_LISTIFY_129_def
  Z_UTIL_LISTIFY_130_def Z_UTIL_LISTIFY_131_def Z_UTIL_LISTIFY_132_def Z_UTIL_LISTIFY_133_def
  Z_UTIL_LISTIFY_134_def Z_UTIL_LISTIFY_135_def Z_UTIL_LISTIFY_136_def Z_UTIL_LISTIFY_137_def
  Z_UTIL_LISTIFY_138_def Z_UTIL_LISTIFY_139_def Z_UTIL_LISTIFY_140_def Z_UTIL_LISTIFY_141_def
  Z_UTIL_LISTIFY_142_def Z_UTIL_LISTIFY_143_def Z_UTIL_LISTIFY_144_def Z_UTIL_LISTIFY_145_def
  Z_UTIL_LISTIFY_146_def Z_UTIL_LISTIFY_147_def Z_UTIL_LISTIFY_148_def Z_UTIL_LISTIFY_149_def
  Z_UTIL_LISTIFY_150_def Z_UTIL_LISTIFY_151_def Z_UTIL_LISTIFY_152_def Z_UTIL_LISTIFY_153_def
  Z_UTIL_LISTIFY_154_def Z_UTIL_LISTIFY_155_def Z_UTIL_LISTIFY_156_def Z_UTIL_LISTIFY_157_def
  Z_UTIL_LISTIFY_158_def Z_UTIL_LISTIFY_159_def Z_UTIL_LISTIFY_160_def Z_UTIL_LISTIFY_161_def
  Z_UTIL_LISTIFY_162_def Z_UTIL_LISTIFY_163_def Z_UTIL_LISTIFY_164_def Z_UTIL_LISTIFY_165_def
  Z_UTIL_LISTIFY_166_def Z_UTIL_LISTIFY_167_def Z_UTIL_LISTIFY_168_def Z_UTIL_LISTIFY_169_def
  Z_UTIL_LISTIFY_170_def Z_UTIL_LISTIFY_171_def Z_UTIL_LISTIFY_172_def Z_UTIL_LISTIFY_173_def
  Z_UTIL_LISTIFY_174_def Z_UTIL_LISTIFY_175_def Z_UTIL_LISTIFY_176_def Z_UTIL_LISTIFY_177_def
  Z_UTIL_LISTIFY_178_def Z_UTIL_LISTIFY_179_def Z_UTIL_LISTIFY_180_def Z_UTIL_LISTIFY_181_def
  Z_UTIL_LISTIFY_182_def Z_UTIL_LISTIFY_183_def Z_UTIL_LISTIFY_184_def Z_UTIL_LISTIFY_185_def
  Z_UTIL_LISTIFY_186_def Z_UTIL_LISTIFY_187_def Z_UTIL_LISTIFY_188_def Z_UTIL_LISTIFY_189_def
  Z_UTIL_LISTIFY_190_def Z_UTIL_LISTIFY_191_def Z_UTIL_LISTIFY_192_def Z_UTIL_LISTIFY_193_def
  Z_UTIL_LISTIFY_194_def Z_UTIL_LISTIFY_195_def Z_UTIL_LISTIFY_196_def Z_UTIL_LISTIFY_197_def
  Z_UTIL_LISTIFY_198_def Z_UTIL_LISTIFY_199_def Z_UTIL_LISTIFY_200_def Z_UTIL_LISTIFY_201_def
  Z_UTIL_LISTIFY_202_def Z_UTIL_LISTIFY_203_def Z_UTIL_LISTIFY_204_def Z_UTIL_LISTIFY_205_def
  Z_UTIL_LISTIFY_206_def Z_UTIL_LISTIFY_207_def Z_UTIL_LISTIFY_208_def Z_UTIL_LISTIFY_209_def
  Z_UTIL_LISTIFY_210_def Z_UTIL_LISTIFY_211_def Z_UTIL_LISTIFY_212_def Z_UTIL_LISTIFY_213_def
  Z_UTIL_LISTIFY_214_def Z_UTIL_LISTIFY_215_def Z_UTIL_LISTIFY_216_def Z_UTIL_LISTIFY_217_def
  Z_UTIL_LISTIFY_218_def Z_UTIL_LISTIFY_219_def Z_UTIL_LISTIFY_220_def Z_UTIL_LISTIFY_221_def
  Z_UTIL_LISTIFY_222_def Z_UTIL_LISTIFY_223_def Z_UTIL_LISTIFY_224_def Z_UTIL_LISTIFY_225_def
  Z_UTIL_LISTIFY_226_def Z_UTIL_LISTIFY_227_def Z_UTIL_LISTIFY_228_def Z_UTIL_LISTIFY_229_def
  Z_UTIL_LISTIFY_230_def Z_UTIL_LISTIFY_231_def Z_UTIL_LISTIFY_232_def Z_UTIL_LISTIFY_233_def
  Z_UTIL_LISTIFY_234_def Z_UTIL_LISTIFY_235_def Z_UTIL_LISTIFY_236_def Z_UTIL_LISTIFY_237_def
  Z_UTIL_LISTIFY_238_def Z_UTIL_LISTIFY_239_def Z_UTIL_LISTIFY_240_def Z_UTIL_LISTIFY_241_def
  Z_UTIL_LISTIFY_242_def Z_UTIL_LISTIFY_243_def Z_UTIL_LISTIFY_244_def Z_UTIL_LISTIFY_245_def
  Z_UTIL_LISTIFY_246_def Z_UTIL_LISTIFY_247_def Z_UTIL_LISTIFY_248_def Z_UTIL_LISTIFY_249_def
  Z_UTIL_LISTIFY_250_def Z_UTIL_LISTIFY_251_def Z_UTIL_LISTIFY_252_def Z_UTIL_LISTIFY_253_def
  Z_UTIL_LISTIFY_254_def Z_UTIL_LISTIFY_255_def Z_UTIL_LISTIFY_256_def

end
