(* ===== verification/Pp_Macros.thy ===== *)
theory Pp_Macros
  imports Pp_Loops
begin

text \<open>
  The macros of \<^verbatim>\<open>include/sys/util_macro.h\<close> and \<^verbatim>\<open>include/sys/util_internal.h\<close> over the loops of \<open>Pp_Loops\<close>: conditional
  code, emptiness, selection and counting of arguments, loops and concatenation.

  The value of a macro argument is what is left after its expansion; a token of it that is pasted to a prefix is
  looked up among the object-like macros of \<^verbatim>\<open>util_internal.h\<close>.
\<close>

section \<open>Pasting and rescanning\<close>

definition paste :: "string \<Rightarrow> tokens \<Rightarrow> tokens" where
  "paste prefix ts = (case ts of [] \<Rightarrow> [prefix] | t # r \<Rightarrow> (prefix @ t) # r)"

definition object_macros :: "(string \<times> tokens) list" where
  "object_macros =
     [(''_XXXX1'', [''_YYYY'', comma]),
      (''_ZZZZ0'', [''_YYYY'', comma]),
      (''Z_IS_EMPTY_CASE_0001'', [comma]),
      (''UTIL_NOT_0'', [''~'', comma, ''1'', comma]),
      (''UTIL_COMPL_0'', [''1'']),
      (''UTIL_COMPL_1'', [''0''])]"

definition rescan :: "tokens \<Rightarrow> tokens" where
  "rescan ts = concat (map (\<lambda>t. case map_of object_macros t of None \<Rightarrow> [t] | Some b \<Rightarrow> b) ts)"

section \<open>Conditional code\<close>

definition Z_IS_ENABLED3 :: macro where "Z_IS_ENABLED3 = named_arg 2 1"

definition Z_IS_ENABLED2 :: "tokens \<Rightarrow> tokens option" where
  "Z_IS_ENABLED2 one_or_two_args = Z_IS_ENABLED3 (split_args (one_or_two_args @ [''1'', comma, ''0'']))"

definition Z_IS_ENABLED1 :: "tokens \<Rightarrow> tokens option" where
  "Z_IS_ENABLED1 config_macro = Z_IS_ENABLED2 (rescan (paste ''_XXXX'' config_macro))"

definition IS_ENABLED :: "tokens \<Rightarrow> tokens option" where
  "IS_ENABLED config_macro = Z_IS_ENABLED1 config_macro"

definition GET_ARG2_DEBRACKET :: macro where
  "GET_ARG2_DEBRACKET args = Option.bind (named_arg 2 1 args) DEBRACKET"

definition COND_CODE :: "tokens \<Rightarrow> tokens \<Rightarrow> tokens \<Rightarrow> tokens option" where
  "COND_CODE one_or_two_args if_code else_code =
     GET_ARG2_DEBRACKET (split_args (one_or_two_args @ if_code @ [comma] @ else_code))"

definition Z_COND_CODE_1 :: "tokens \<Rightarrow> tokens \<Rightarrow> tokens \<Rightarrow> tokens option" where
  "Z_COND_CODE_1 flag if_1_code else_code = COND_CODE (rescan (paste ''_XXXX'' flag)) if_1_code else_code"

definition Z_COND_CODE_0 :: "tokens \<Rightarrow> tokens \<Rightarrow> tokens \<Rightarrow> tokens option" where
  "Z_COND_CODE_0 flag if_0_code else_code = COND_CODE (rescan (paste ''_ZZZZ'' flag)) if_0_code else_code"

definition COND_CODE_1 :: "tokens \<Rightarrow> tokens \<Rightarrow> tokens \<Rightarrow> tokens option" where
  "COND_CODE_1 flag if_1_code else_code = Z_COND_CODE_1 flag if_1_code else_code"

definition COND_CODE_0 :: "tokens \<Rightarrow> tokens \<Rightarrow> tokens \<Rightarrow> tokens option" where
  "COND_CODE_0 flag if_0_code else_code = Z_COND_CODE_0 flag if_0_code else_code"

definition IF_ENABLED :: "tokens \<Rightarrow> tokens \<Rightarrow> tokens option" where
  "IF_ENABLED flag code = COND_CODE_1 flag code [lparen, rparen]"

section \<open>Numbers of arguments\<close>

definition NUM_VA_ARGS_LESS_1_IMPL :: macro where
  "NUM_VA_ARGS_LESS_1_IMPL = named_arg 65 64"

definition NUM_VA_ARGS_LESS_1 :: macro where
  "NUM_VA_ARGS_LESS_1 va =
     NUM_VA_ARGS_LESS_1_IMPL (va_args va @ map (\<lambda>n. [dec n]) (rev [0..<64]) @ [[''~'']])"

definition Z_HAS_COMMA :: macro where
  "Z_HAS_COMMA va = NUM_VA_ARGS_LESS_1_IMPL (va_args va @ replicate 63 [''1''] @ [[''0'']])"

definition GET_ARG_N :: "tokens \<Rightarrow> macro" where
  "GET_ARG_N N va =
     Option.bind (map_of (zip (map (\<lambda>n. [''Z_GET_ARG_'' @ dec n]) [1..<65]) get_arg_macros) (paste ''Z_GET_ARG_'' N))
       (\<lambda>f. f (va_args va))"

definition GET_ARGS_LESS_N :: "tokens \<Rightarrow> macro" where
  "GET_ARGS_LESS_N N va =
     Option.bind
       (map_of (zip (map (\<lambda>n. [''Z_GET_ARGS_LESS_'' @ dec n]) [0..<65]) get_args_less_macros) (paste ''Z_GET_ARGS_LESS_'' N))
       (\<lambda>f. f (va_args va))"

section \<open>Emptiness\<close>

text \<open>The tokens behind the parenthesis that closes the one at depth \<open>d\<close>.\<close>

fun after_group :: "nat \<Rightarrow> tokens \<Rightarrow> tokens option" where
  "after_group d [] = None"
| "after_group d (t # ts) =
     (if t = rparen then if d = 0 then Some ts else after_group (d - 1) ts
      else after_group (if t = lparen then d + 1 else d) ts)"

text \<open>\<open>Z_TRIGGER_PARENTHESIS_\<close> followed by tokens: an invocation if they start with a group in parentheses.\<close>

definition Z_TRIGGER_PARENTHESIS :: "tokens \<Rightarrow> tokens" where
  "Z_TRIGGER_PARENTHESIS ts =
     (case ts of
        [] \<Rightarrow> [''Z_TRIGGER_PARENTHESIS_'']
      | t # r \<Rightarrow>
          if t = lparen
          then case after_group 0 r of None \<Rightarrow> ''Z_TRIGGER_PARENTHESIS_'' # ts | Some r \<Rightarrow> comma # r
          else ''Z_TRIGGER_PARENTHESIS_'' # ts)"

definition Z_CAT5 :: "tokens \<Rightarrow> tokens \<Rightarrow> tokens \<Rightarrow> tokens \<Rightarrow> tokens \<Rightarrow> tokens" where
  "Z_CAT5 a b c d e = [concat a @ concat b @ concat c @ concat d @ concat e]"

definition Z_IS_EMPTY_cases :: "tokens \<Rightarrow> tokens \<Rightarrow> tokens \<Rightarrow> tokens \<Rightarrow> tokens option" where
  "Z_IS_EMPTY_cases a b c d = Z_HAS_COMMA (split_args (rescan (Z_CAT5 [''Z_IS_EMPTY_CASE_''] a b c d)))"

definition IS_EMPTY :: macro where
  "IS_EMPTY va =
     Option.bind (Z_HAS_COMMA (split_args (with_commas va))) (\<lambda>a.
     Option.bind (Z_HAS_COMMA (split_args (Z_TRIGGER_PARENTHESIS (with_commas va)))) (\<lambda>b.
     Option.bind (Z_HAS_COMMA (split_args (with_commas va @ [lparen, rparen]))) (\<lambda>c.
     Option.bind (Z_HAS_COMMA (split_args (Z_TRIGGER_PARENTHESIS (with_commas va @ [lparen, rparen])))) (\<lambda>d.
     Z_IS_EMPTY_cases a b c d))))"

section \<open>Loops\<close>

definition REVERSE_ARGS :: macro where
  "REVERSE_ARGS va = Z_FOR_EACH_ENGINE Z_FOR_EACH_EXEC [lparen, comma, rparen] Z_BYPASS [''_''] (va_args va)"

definition FOR_EACH :: "macro \<Rightarrow> tokens \<Rightarrow> macro" where
  "FOR_EACH F sep va = Option.bind (REVERSE_ARGS va) (\<lambda>r. Z_FOR_EACH F sep (split_args r))"

definition FOR_EACH_IDX :: "macro \<Rightarrow> tokens \<Rightarrow> macro" where
  "FOR_EACH_IDX F sep va = Option.bind (REVERSE_ARGS va) (\<lambda>r. Z_FOR_EACH_IDX F sep (split_args r))"

definition FOR_EACH_FIXED_ARG :: "macro \<Rightarrow> tokens \<Rightarrow> tokens \<Rightarrow> macro" where
  "FOR_EACH_FIXED_ARG F sep fixed_arg va =
     Option.bind (REVERSE_ARGS va) (\<lambda>r. Z_FOR_EACH_FIXED_ARG F sep fixed_arg (split_args r))"

definition FOR_EACH_IDX_FIXED_ARG :: "macro \<Rightarrow> tokens \<Rightarrow> tokens \<Rightarrow> macro" where
  "FOR_EACH_IDX_FIXED_ARG F sep fixed_arg va =
     Option.bind (REVERSE_ARGS va) (\<lambda>r. Z_FOR_EACH_IDX_FIXED_ARG F sep fixed_arg (split_args r))"

definition LISTIFY :: "tokens \<Rightarrow> macro \<Rightarrow> tokens \<Rightarrow> macro" where
  "LISTIFY LEN F sep va =
     Option.bind (map_of (zip (map (\<lambda>n. [''Z_UTIL_LISTIFY_'' @ dec n]) [0..<257]) listify_macros) (paste ''Z_UTIL_LISTIFY_'' LEN))
       (\<lambda>f. f F sep (va_args va))"

section \<open>Lists without empty elements\<close>

definition Z_LIST_ADD_ELEM :: "tokens \<Rightarrow> tokens" where
  "Z_LIST_ADD_ELEM e = [comma] @ e"

definition Z_LIST_NO_EMPTIES :: macro where
  "Z_LIST_NO_EMPTIES args =
     (case args of
        [e] \<Rightarrow> Option.bind (IS_EMPTY [e]) (\<lambda>c. COND_CODE_1 c [lparen, rparen] ([lparen] @ Z_LIST_ADD_ELEM e @ [rparen]))
      | _ \<Rightarrow> None)"

definition Z_LIST_DROP_FIRST :: macro where
  "Z_LIST_DROP_FIRST va = GET_ARGS_LESS_N [''1''] va"

definition LIST_DROP_EMPTY :: macro where
  "LIST_DROP_EMPTY va =
     Option.bind (FOR_EACH Z_LIST_NO_EMPTIES [lparen, rparen] va) (\<lambda>r. Z_LIST_DROP_FIRST (split_args r))"

definition FOR_EACH_NONEMPTY_TERM :: "macro \<Rightarrow> tokens \<Rightarrow> macro" where
  "FOR_EACH_NONEMPTY_TERM F term va =
     Option.bind (LIST_DROP_EMPTY (va @ [[''_'']])) (\<lambda>l.
     Option.bind (NUM_VA_ARGS_LESS_1 (split_args l)) (\<lambda>n.
     Option.bind (LIST_DROP_EMPTY va) (\<lambda>r.
     Option.bind (DEBRACKET term) (\<lambda>t.
     Option.bind (FOR_EACH F term (split_args r)) (\<lambda>body.
     COND_CODE_0 n [lparen, rparen] ([lparen] @ body @ t @ [rparen]))))))"

section \<open>Logic and concatenation\<close>

definition UTIL_CAT :: "tokens \<Rightarrow> tokens \<Rightarrow> tokens" where
  "UTIL_CAT a b = (case a of [] \<Rightarrow> b | _ \<Rightarrow> butlast a @ paste (last a) b)"

definition UTIL_CHECK :: "tokens \<Rightarrow> tokens option" where
  "UTIL_CHECK va = named_arg 2 1 (split_args (va @ [comma, ''0'', comma]))"

definition UTIL_NOT :: "tokens \<Rightarrow> tokens option" where
  "UTIL_NOT x = UTIL_CHECK (rescan (paste ''UTIL_NOT_'' x))"

definition UTIL_COMPL :: "tokens \<Rightarrow> tokens" where
  "UTIL_COMPL b = rescan (paste ''UTIL_COMPL_'' b)"

definition UTIL_BOOL :: "tokens \<Rightarrow> tokens option" where
  "UTIL_BOOL x = map_option UTIL_COMPL (UTIL_NOT x)"

definition UTIL_OR :: "tokens \<Rightarrow> tokens \<Rightarrow> tokens option" where
  "UTIL_OR a b = Option.bind (UTIL_BOOL a) (\<lambda>c. COND_CODE_1 c ([lparen] @ a @ [rparen]) ([lparen] @ b @ [rparen]))"

definition UTIL_AND :: "tokens \<Rightarrow> tokens \<Rightarrow> tokens option" where
  "UTIL_AND a b = Option.bind (UTIL_BOOL a) (\<lambda>c. COND_CODE_1 c ([lparen] @ b @ [rparen]) [lparen, ''0'', rparen])"

text \<open>The macros \<open>MACRO_MC_n\<close> as one recursion on their number; each takes the macro, its first argument and the rest,
  which ends with an empty argument.\<close>

definition mc_next :: "(macro \<Rightarrow> macro) \<Rightarrow> macro \<Rightarrow> macro" where
  "mc_next prev m args =
     (case args of
        [] \<Rightarrow> None
      | a # va \<Rightarrow> Option.bind (m (split_args a)) (\<lambda>x. Option.bind (prev m (va_args va @ [[]])) (\<lambda>y. Some (UTIL_CAT x y))))"

definition MACRO_MC_0 :: "macro \<Rightarrow> macro" where "MACRO_MC_0 m args = Some []"
definition MACRO_MC_1 :: "macro \<Rightarrow> macro" where
  "MACRO_MC_1 m args = (case args of [] \<Rightarrow> None | a # va \<Rightarrow> m (split_args a))"
definition MACRO_MC_2 :: "macro \<Rightarrow> macro" where "MACRO_MC_2 = mc_next MACRO_MC_1"
definition MACRO_MC_3 :: "macro \<Rightarrow> macro" where "MACRO_MC_3 = mc_next MACRO_MC_2"
definition MACRO_MC_4 :: "macro \<Rightarrow> macro" where "MACRO_MC_4 = mc_next MACRO_MC_3"
definition MACRO_MC_5 :: "macro \<Rightarrow> macro" where "MACRO_MC_5 = mc_next MACRO_MC_4"
definition MACRO_MC_6 :: "macro \<Rightarrow> macro" where "MACRO_MC_6 = mc_next MACRO_MC_5"
definition MACRO_MC_7 :: "macro \<Rightarrow> macro" where "MACRO_MC_7 = mc_next MACRO_MC_6"
definition MACRO_MC_8 :: "macro \<Rightarrow> macro" where "MACRO_MC_8 = mc_next MACRO_MC_7"
definition MACRO_MC_9 :: "macro \<Rightarrow> macro" where "MACRO_MC_9 = mc_next MACRO_MC_8"
definition MACRO_MC_10 :: "macro \<Rightarrow> macro" where "MACRO_MC_10 = mc_next MACRO_MC_9"
definition MACRO_MC_11 :: "macro \<Rightarrow> macro" where "MACRO_MC_11 = mc_next MACRO_MC_10"
definition MACRO_MC_12 :: "macro \<Rightarrow> macro" where "MACRO_MC_12 = mc_next MACRO_MC_11"
definition MACRO_MC_13 :: "macro \<Rightarrow> macro" where "MACRO_MC_13 = mc_next MACRO_MC_12"
definition MACRO_MC_14 :: "macro \<Rightarrow> macro" where "MACRO_MC_14 = mc_next MACRO_MC_13"
definition MACRO_MC_15 :: "macro \<Rightarrow> macro" where "MACRO_MC_15 = mc_next MACRO_MC_14"

definition mc_macros :: "(macro \<Rightarrow> macro) list" where
  "mc_macros = [MACRO_MC_0, MACRO_MC_1, MACRO_MC_2, MACRO_MC_3, MACRO_MC_4, MACRO_MC_5, MACRO_MC_6, MACRO_MC_7,
     MACRO_MC_8, MACRO_MC_9, MACRO_MC_10, MACRO_MC_11, MACRO_MC_12, MACRO_MC_13, MACRO_MC_14, MACRO_MC_15]"

definition MACRO_MAP_CAT_N :: "tokens \<Rightarrow> macro \<Rightarrow> macro" where
  "MACRO_MAP_CAT_N N m va =
     Option.bind (map_of (zip (map (\<lambda>n. [''MACRO_MC_'' @ dec n]) [0..<16]) mc_macros) (paste ''MACRO_MC_'' N))
       (\<lambda>f. f m (va_args va @ [[]]))"

text \<open>The macro itself is the first of the counted arguments.\<close>

definition MACRO_MAP_CAT :: "macro \<Rightarrow> macro" where
  "MACRO_MAP_CAT m va = Option.bind (NUM_VA_ARGS_LESS_1 ([[''m'']] @ va)) (\<lambda>n. MACRO_MAP_CAT_N n m va)"

section \<open>Splitting and joining\<close>

fun depth_after :: "nat \<Rightarrow> tokens \<Rightarrow> nat option" where
  "depth_after d [] = Some d"
| "depth_after d (t # ts) =
     (if t = comma \<and> d = 0 then None
      else if t = rparen then if d = 0 then None else depth_after (d - 1) ts
      else depth_after (if t = lparen then d + 1 else d) ts)"

text \<open>Tokens that stay one argument: balanced parentheses and no comma outside of them.\<close>

definition single_arg :: "tokens \<Rightarrow> bool" where
  "single_arg x \<longleftrightarrow> depth_after 0 x = Some 0"

fun join :: "tokens \<Rightarrow> tokens list \<Rightarrow> tokens" where
  "join s [] = []"
| "join s [x] = x"
| "join s (x # y # xs) = x @ s @ join s (y # xs)"

lemma with_commas_join: "with_commas xs = join [comma] xs"
  by (induction xs rule: with_commas.induct) simp_all

lemma join_snoc: "xs \<noteq> [] \<Longrightarrow> join s (xs @ [y]) = join s xs @ s @ y"
  by (induction s xs rule: join.induct) simp_all

lemma split_at_append: "depth_after d x = Some d' \<Longrightarrow> split_at d cur (x @ r) = split_at d' (cur @ x) r"
  by (induction x arbitrary: d cur) (auto split: if_splits)

lemma split_single: "single_arg x \<Longrightarrow> split_args x = [x]"
  using split_at_append [of 0 x 0 "[]" "[]"] by (simp add: split_args_def single_arg_def)

lemma split_single_comma: "single_arg x \<Longrightarrow> split_args (x @ comma # r) = x # split_args r"
  by (simp add: split_args_def single_arg_def split_at_append)

lemma split_join: "xs \<noteq> [] \<Longrightarrow> list_all single_arg xs \<Longrightarrow> split_args (join [comma] xs) = xs"
  by (induction xs rule: with_commas.induct) (simp_all add: split_single split_single_comma)

lemma va_args_id [simp]: "va \<noteq> [] \<Longrightarrow> va_args va = va"
  by (simp add: va_args_def)

lemma DEBRACKET_group [simp]: "DEBRACKET (lparen # s @ [rparen]) = Some s" "DEBRACKET [lparen, rparen] = Some []"
  "DEBRACKET [lparen, t, rparen] = Some [t]"
  by (simp_all add: DEBRACKET_def)

section \<open>Decimal literals\<close>

definition undec :: "string \<Rightarrow> nat" where
  "undec cs = foldl (\<lambda>a c. 10 * a + (of_char c - 48)) 0 cs"

lemma undec_dec: "undec (dec n) = n"
proof (induction n rule: less_induct)
  case (less n)
  have d: "of_char (char_of (48 + k) :: char) = 48 + k" if "k < 10" for k :: nat
    using that by (simp add: of_char_of)
  show ?case
  proof (cases "n < 10")
    case True
    then show ?thesis by (subst dec.simps) (simp add: undec_def d)
  next
    case False
    then have "dec n = dec (n div 10) @ [char_of (48 + n mod 10)]" by (subst dec.simps) simp
    then have "undec (dec n) = 10 * undec (dec (n div 10)) + n mod 10" by (simp add: undec_def d)
    with less.IH [of "n div 10"] False show ?thesis by simp
  qed
qed

lemma dec_inject [simp]: "dec m = dec n \<longleftrightarrow> m = n"
  by (metis undec_dec)

text \<open>Looking up a numbered name in a family.\<close>

lemma lookup_numbered:
  assumes "length fs = n - a" "a \<le> i" "i < n"
  shows "map_of (zip (map (\<lambda>k. [p @ dec k]) [a..<n]) fs) [p @ dec i] = Some (fs ! (i - a))"
proof -
  have "distinct (map (\<lambda>k. [p @ dec k]) [a..<n])" by (simp add: distinct_map inj_on_def)
  then have "map_of (zip (map (\<lambda>k. [p @ dec k]) [a..<n]) fs) (map (\<lambda>k. [p @ dec k]) [a..<n] ! (i - a)) = Some (fs ! (i - a))"
    using assms by (intro map_of_zip_nth) simp_all
  moreover have "[a..<n] ! (i - a) = i" using assms by simp
  ultimately show ?thesis using assms by simp
qed

section \<open>Families of macros\<close>

text \<open>The \<open>i\<close>-th of a family in which each macro is made of its predecessor.\<close>

primrec family :: "'a \<Rightarrow> ('a \<Rightarrow> nat \<Rightarrow> 'a) \<Rightarrow> nat \<Rightarrow> 'a" where
  "family f nx 0 = f"
| "family f nx (Suc i) = nx (family f nx i) (Suc i)"

lemma family_nth:
  assumes "tl gs = map2 nx (butlast gs) [1..<length gs]" "i < length gs"
  shows "gs ! i = family (gs ! 0) nx i"
  using assms(2)
proof (induction i)
  case (Suc i)
  have "gs ! Suc i = tl gs ! i" using Suc.prems by (simp add: nth_tl)
  also have "\<dots> = nx (gs ! i) (Suc i)"
    using Suc.prems unfolding assms(1) by (simp add: nth_butlast)
  finally show ?case using Suc by simp
qed simp

lemma loops_family:
  "tl (tl (rev Z_FOR_EACH_ENGINE_loops)) = map2 loop_next (butlast (tl (rev Z_FOR_EACH_ENGINE_loops))) [1..<64]"
  by (simp add: Z_FOR_EACH_ENGINE_loops_def upt_rec [of 1] upt_rec_numeral del: One_nat_def) (intro conjI for_loop_defs)

lemma listify_family: "tl (tl listify_macros) = map2 listify_next (butlast (tl listify_macros)) [1..<256]"
  by (simp add: listify_macros_def upt_rec [of 1] upt_rec_numeral del: One_nat_def) (intro conjI listify_defs)

lemma loops_length [simp]: "length Z_FOR_EACH_ENGINE_loops = 65" "length listify_macros = 257"
  "length get_arg_macros = 64" "length get_args_less_macros = 65"
  by (simp_all add: Z_FOR_EACH_ENGINE_loops_def listify_macros_def get_arg_macros_def get_args_less_macros_def)

lemma loop_selected:
  assumes "i < 64"
  shows "Z_FOR_EACH_ENGINE_loops ! (63 - i) = family Z_FOR_LOOP_1 loop_next i"
proof -
  define gs where "gs = tl (rev Z_FOR_EACH_ENGINE_loops)"
  have len: "length gs = 64" by (simp add: gs_def)
  have "gs ! i = family (gs ! 0) loop_next i"
    using loops_family assms by (intro family_nth) (simp_all add: len gs_def)
  moreover have "gs ! 0 = Z_FOR_LOOP_1" by (simp add: gs_def Z_FOR_EACH_ENGINE_loops_def)
  moreover have "gs ! i = Z_FOR_EACH_ENGINE_loops ! (63 - i)"
    using assms by (simp add: gs_def nth_tl rev_nth)
  ultimately show ?thesis by simp
qed

lemma listify_selected:
  assumes "i < 256"
  shows "listify_macros ! Suc i = family Z_UTIL_LISTIFY_1 listify_next i"
proof -
  define gs where "gs = tl listify_macros"
  have len: "length gs = 256" by (simp add: gs_def)
  have "gs ! i = family (gs ! 0) listify_next i"
    using listify_family assms by (intro family_nth) (simp_all add: len gs_def)
  moreover have "gs ! 0 = Z_UTIL_LISTIFY_1" by (simp add: gs_def listify_macros_def)
  moreover have "gs ! i = listify_macros ! Suc i" using assms by (simp add: gs_def nth_tl)
  ultimately show ?thesis by simp
qed

lemma loop_next_Cons:
  "loop_next prev idx z sep f0 f1 (x # va) = cat3 (prev z sep f0 f1 va) (DEBRACKET sep) (z idx x f0 f1)"
  by (simp add: loop_next_def)

lemma loop_value:
  assumes sep: "DEBRACKET sep = Some s"
    and "length args = Suc i" and "\<And>k. k < Suc i \<Longrightarrow> z k (rev args ! k) f0 f1 = Some (r k)"
  shows "family Z_FOR_LOOP_1 loop_next i z sep f0 f1 args = Some (join s (map r [0..<Suc i]))"
  using assms(2,3)
proof (induction i arbitrary: args)
  case 0
  then obtain x where "args = [x]" by (cases args) auto
  with 0 show ?case by (simp add: Z_FOR_LOOP_1_def)
next
  case (Suc i)
  then obtain x va where args: "args = x # va" "length va = Suc i" by (cases args) auto
  have "z k (rev va ! k) f0 f1 = Some (r k)" if "k < Suc i" for k
    using Suc.prems(2) [of k] that args by (simp add: nth_append)
  from Suc.IH [OF args(2) this]
  have "family Z_FOR_LOOP_1 loop_next i z sep f0 f1 va = Some (join s (map r [0..<Suc i]))" .
  moreover have "z (Suc i) x f0 f1 = Some (r (Suc i))"
    using Suc.prems(2) [of "Suc i"] args by (simp add: nth_append)
  ultimately show ?case
    using join_snoc [of "map r [0..<Suc i]" s "r (Suc i)"] by (simp add: loop_next_Cons args sep cat3_def)
qed

lemma engine_value:
  assumes sep: "DEBRACKET sep = Some s" and va: "va \<noteq> []" "length va \<le> 64"
    and r: "\<And>k. k < length va \<Longrightarrow> z k (rev va ! k) f0 f1 = Some (r k)"
  shows "Z_FOR_EACH_ENGINE z sep f0 f1 va = Some (join s (map r [0..<length va]))"
proof -
  obtain i where i: "length va = Suc i" using va(1) by (cases "length va") auto
  have "Z_FOR_LOOP_GET_ARG (map Inl (va_args va) @ map Inr Z_FOR_EACH_ENGINE_loops) =
      Some (Inr (family Z_FOR_LOOP_1 loop_next i))"
    using va i loop_selected [of i] by (simp add: Z_FOR_LOOP_GET_ARG_def named_arg_def nth_append)
  then show ?thesis
    using loop_value [OF sep i] r i by (simp add: Z_FOR_EACH_ENGINE_def)
qed

lemma REVERSE_ARGS_value:
  assumes "va \<noteq> []" "length va \<le> 64" "list_all single_arg va"
  shows "REVERSE_ARGS va = Some (join [comma] (rev va))"
proof -
  have "Z_FOR_EACH_EXEC k (rev va ! k) Z_BYPASS [''_''] = Some (rev va ! k)" if "k < length va" for k
  proof -
    have "rev va ! k \<in> set va" using that by (metis length_rev nth_mem set_rev)
    then have "single_arg (rev va ! k)" using assms(3) by (simp add: list_all_iff)
    then show ?thesis by (simp add: Z_FOR_EACH_EXEC_def split_single Z_BYPASS_def)
  qed
  then have "REVERSE_ARGS va = Some (join [comma] (map ((!) (rev va)) [0..<length va]))"
    using assms by (simp add: REVERSE_ARGS_def engine_value)
  then show ?thesis using map_nth [of "rev va"] by simp
qed

lemma FOR_EACH_engine:
  assumes va: "va \<noteq> []" "length va \<le> 64" "list_all single_arg va" and sep: "DEBRACKET sep = Some s"
    and r: "\<And>k. k < length va \<Longrightarrow> z k (va ! k) F a = Some (r k)"
  shows "Option.bind (REVERSE_ARGS va) (\<lambda>r. Z_FOR_EACH_ENGINE z sep F a (split_args r)) = Some (join s (map r [0..<length va]))"
proof -
  have "split_args (join [comma] (rev va)) = rev va" using va by (simp add: split_join)
  then show ?thesis
    using va sep r engine_value [of sep s "rev va" z F a r] by (simp add: REVERSE_ARGS_value)
qed

text \<open>C24: For one to 64 arguments, each balanced and without a top-level comma, and a separator in parentheses, the four
  loop macros expand to the expansions of the macro for the arguments in order, with the separator between them; the
  macro is given the argument, with its index in front and the fixed argument behind it where the loop has them.  The macro
  need only have an expansion for these arguments, so it may have a fixed number of parameters.\<close>

theorem FOR_EACH_maps:
  assumes "va \<noteq> []" "length va \<le> 64" "list_all single_arg va" "single_arg a"
  shows "((\<forall>x\<in>set va. F [x] = Some (f x)) \<longrightarrow>
      FOR_EACH F (lparen # s @ [rparen]) va = Some (join s (map f va))) \<and>
    ((\<forall>k<length va. F [[dec k], va ! k] = Some (g k)) \<longrightarrow>
      FOR_EACH_IDX F (lparen # s @ [rparen]) va = Some (join s (map g [0..<length va]))) \<and>
    ((\<forall>x\<in>set va. F [x, a] = Some (h x)) \<longrightarrow>
      FOR_EACH_FIXED_ARG F (lparen # s @ [rparen]) a va = Some (join s (map h va))) \<and>
    ((\<forall>k<length va. F [[dec k], va ! k, a] = Some (i k)) \<longrightarrow>
      FOR_EACH_IDX_FIXED_ARG F (lparen # s @ [rparen]) a va = Some (join s (map i [0..<length va])))"
proof (intro conjI impI)
  have x: "split_args (va ! k) = [va ! k]" if "k < length va" for k
    using assms(3) that by (simp add: list_all_length split_single)
  have n: "map (\<lambda>k. f (va ! k)) [0..<length va] = map f va" for f :: "tokens \<Rightarrow> tokens"
    by (rule nth_equalityI) simp_all
  note e = FOR_EACH_engine [OF assms(1-3) DEBRACKET_group(1) [of s]]
  show "FOR_EACH F (lparen # s @ [rparen]) va = Some (join s (map f va))" if "\<forall>x\<in>set va. F [x] = Some (f x)"
    unfolding n [of f, symmetric] FOR_EACH_def Z_FOR_EACH_def by (rule e) (simp add: Z_FOR_EACH_EXEC_def x assms that)
  show "FOR_EACH_IDX F (lparen # s @ [rparen]) va = Some (join s (map g [0..<length va]))"
    if "\<forall>k<length va. F [[dec k], va ! k] = Some (g k)"
    unfolding FOR_EACH_IDX_def Z_FOR_EACH_IDX_def by (rule e) (simp add: Z_FOR_EACH_IDX_EXEC_def x assms that)
  show "FOR_EACH_FIXED_ARG F (lparen # s @ [rparen]) a va = Some (join s (map h va))" if "\<forall>x\<in>set va. F [x, a] = Some (h x)"
    unfolding n [of h, symmetric] FOR_EACH_FIXED_ARG_def Z_FOR_EACH_FIXED_ARG_def
    by (rule e) (simp add: Z_FOR_EACH_FIXED_ARG_EXEC_def x assms split_single that)
  show "FOR_EACH_IDX_FIXED_ARG F (lparen # s @ [rparen]) a va = Some (join s (map i [0..<length va]))"
    if "\<forall>k<length va. F [[dec k], va ! k, a] = Some (i k)"
    unfolding FOR_EACH_IDX_FIXED_ARG_def Z_FOR_EACH_IDX_FIXED_ARG_def
    by (rule e) (simp add: Z_FOR_EACH_IDX_FIXED_ARG_EXEC_def x assms split_single that)
qed

text \<open>The documented example \<open>#define SQUARE(x) x * x\<close>, which has no expansion for any other number of arguments.\<close>

definition SQUARE :: macro where
  "SQUARE args = (case args of [x] \<Rightarrow> Some (x @ [''*''] @ x) | _ \<Rightarrow> None)"

theorem FOR_EACH_maps_witness:
  "FOR_EACH SQUARE [lparen, '';'', rparen] [[''a''], [''b''], [''c'']] =
     Some [''a'', ''*'', ''a'', '';'', ''b'', ''*'', ''b'', '';'', ''c'', ''*'', ''c'']"
  using FOR_EACH_maps [of "[[''a''], [''b''], [''c'']]" "[''_'']" SQUARE "\<lambda>x. x @ [''*''] @ x" "['';'']"]
  by (simp add: single_arg_def SQUARE_def)

text \<open>A 65th argument ends up in the place of the loop's name.\<close>

lemma engine_too_many: "64 < length va \<Longrightarrow> Z_FOR_EACH_ENGINE z sep f0 f1 va = None"
proof -
  assume a: "64 < length va"
  then have "Z_FOR_LOOP_GET_ARG (map Inl (va_args va) @ map Inr Z_FOR_EACH_ENGINE_loops) = Some (Inl (va ! 64))"
    by (cases va) (simp_all add: Z_FOR_LOOP_GET_ARG_def named_arg_def nth_append)
  then show ?thesis by (simp add: Z_FOR_EACH_ENGINE_def)
qed

lemma listify_next_apply:
  "listify_next prev i F sep va = cat3 (prev F sep (va_args va)) (DEBRACKET sep) (F ([[dec i]] @ va_args va))"
  by (simp add: listify_next_def)

lemma listify_value:
  assumes "DEBRACKET sep = Some s" and "\<And>args. F args = Some (f args)" and "va \<noteq> []"
  shows "family Z_UTIL_LISTIFY_1 listify_next i F sep va = Some (join s (map (\<lambda>k. f ([dec k] # va)) [0..<Suc i]))"
proof (induction i)
  case 0
  have "dec 0 = ''0''" by code_simp
  with assms show ?case by (simp add: Z_UTIL_LISTIFY_1_def)
next
  case (Suc i)
  then show ?case
    using join_snoc [of "map (\<lambda>k. f ([dec k] # va)) [0..<Suc i]" s "f ([dec (Suc i)] # va)"] assms
    by (simp add: listify_next_apply cat3_def)
qed

text \<open>\<open>LISTIFY\<close> with a number of at most 256 expands to the macro at 0, 1 and so on, with the separator between them,
  and is left unexpanded for a greater number.\<close>

theorem LISTIFY_lists:
  assumes "va \<noteq> []" and "\<And>args. F args = Some (f args)"
  shows "LISTIFY [dec n] F (lparen # s @ [rparen]) va =
    (if n \<le> 256 then Some (join s (map (\<lambda>i. f ([dec i] # va)) [0..<n])) else None)"
proof (cases "n \<le> 256")
  case True
  have p: "paste ''Z_UTIL_LISTIFY_'' [dec n] = [''Z_UTIL_LISTIFY_'' @ dec n]" by (simp add: paste_def)
  have look: "map_of (zip (map (\<lambda>k. [''Z_UTIL_LISTIFY_'' @ dec k]) [0..<257]) listify_macros) [''Z_UTIL_LISTIFY_'' @ dec n] =
      Some (listify_macros ! n)"
    using lookup_numbered [of listify_macros 257 0 n "''Z_UTIL_LISTIFY_''"] True by simp
  have "(listify_macros ! n) F (lparen # s @ [rparen]) va = Some (join s (map (\<lambda>i. f ([dec i] # va)) [0..<n]))"
  proof (cases n)
    case 0
    then show ?thesis by (simp add: listify_macros_def Z_UTIL_LISTIFY_0_def)
  next
    case (Suc i)
    with True listify_value [OF DEBRACKET_group(1) assms(2,1)] show ?thesis by (simp add: listify_selected)
  qed
  with True assms(1) show ?thesis unfolding LISTIFY_def p look by simp
next
  case False
  then have "[''Z_UTIL_LISTIFY_'' @ dec n] \<notin> set (map (\<lambda>k. [''Z_UTIL_LISTIFY_'' @ dec k]) [0..<257])" by auto
  then have "map_of (zip (map (\<lambda>k. [''Z_UTIL_LISTIFY_'' @ dec k]) [0..<257]) listify_macros) [''Z_UTIL_LISTIFY_'' @ dec n] = None"
    by (intro iffD2 [OF map_of_zip_is_None]) simp_all
  with False show ?thesis by (simp only: LISTIFY_def paste_def list.case bind.simps if_False)
qed

theorem LISTIFY_lists_witness:
  "LISTIFY [dec 3] (\<lambda>args. Some (concat args)) [lparen, comma, rparen] [[''x'']] =
     Some (concat [[dec 0, ''x''], [comma], [dec 1, ''x''], [comma], [dec 2, ''x'']])"
  using LISTIFY_lists [of "[[''x'']]" "\<lambda>args. Some (concat args)" concat 3 "[comma]"]
  by (simp add: upt_conv_Cons)

lemma GET_ARG_N_value:
  assumes "1 \<le> n" "n \<le> 64" "n \<le> length va"
  shows "GET_ARG_N [dec n] va = Some (va ! (n - 1))"
proof -
  have "get_arg_macros = map (\<lambda>n. named_arg n (n - 1)) [1..<65]"
    by (simp add: get_arg_macros_def get_arg_defs upt_rec [of 1] upt_rec_numeral flip: One_nat_def)
  then have "get_arg_macros ! (n - 1) = map (\<lambda>n. named_arg n (n - 1)) [1..<65] ! (n - 1)" by (rule arg_cong)
  also have "\<dots> = named_arg n (n - 1)" using assms by (cases n) (simp_all add: nth_upt [of 1])
  finally have "get_arg_macros ! (n - 1) = named_arg n (n - 1)" .
  moreover have "va \<noteq> []" using assms by auto
  ultimately show ?thesis
    using lookup_numbered [of get_arg_macros 65 1 n "''Z_GET_ARG_''"] assms
    by (simp add: GET_ARG_N_def paste_def named_arg_def)
qed

lemma GET_ARGS_LESS_N_value:
  assumes "n \<le> 64" "n \<le> length va" "va \<noteq> []"
  shows "GET_ARGS_LESS_N [dec n] va = Some (join [comma] (drop n va))"
proof -
  have "get_args_less_macros = map rest_args [0..<65]"
    by (simp add: get_args_less_macros_def get_args_less_defs upt_rec [of 0] upt_rec [of 1] upt_rec_numeral flip: One_nat_def)
  then have "get_args_less_macros ! n = map rest_args [0..<65] ! n" by (rule arg_cong)
  also have "\<dots> = rest_args n" using assms nth_map [of n "[0..<65]" rest_args] by (simp del: upt_rec_numeral)
  finally have "get_args_less_macros ! n = rest_args n" .
  then show ?thesis
    using lookup_numbered [of get_args_less_macros 65 0 n "''Z_GET_ARGS_LESS_''"] assms
    by (simp add: GET_ARGS_LESS_N_def paste_def rest_args_def with_commas_join)
qed

lemma NUM_VA_ARGS_value:
  assumes "va \<noteq> []" "length va \<le> 64"
  shows "NUM_VA_ARGS_LESS_1 va = Some [dec (length va - 1)]"
proof -
  have "map (\<lambda>n. [dec n]) (rev [0..<64]) ! (64 - length va) = [dec (length va - 1)]"
    using assms by (simp add: rev_nth)
  with assms show ?thesis
    by (simp add: NUM_VA_ARGS_LESS_1_def NUM_VA_ARGS_LESS_1_IMPL_def named_arg_def nth_append Suc_le_eq)
qed

text \<open>Selection and counting: the \<open>n\<close>-th argument, the arguments behind the first \<open>n\<close>, and the number of arguments
  less one are right for up to 64 arguments.\<close>

theorem args_selected:
  assumes "va \<noteq> []" "n \<le> 64" "n \<le> length va"
  shows "(n \<noteq> 0 \<longrightarrow> GET_ARG_N [dec n] va = Some (va ! (n - 1))) \<and>
    GET_ARGS_LESS_N [dec n] va = Some (join [comma] (drop n va)) \<and>
    (length va \<le> 64 \<longrightarrow> NUM_VA_ARGS_LESS_1 va = Some [dec (length va - 1)])"
  using assms by (simp add: GET_ARG_N_value [simplified] GET_ARGS_LESS_N_value NUM_VA_ARGS_value Suc_le_eq)

theorem args_selected_witness:
  "GET_ARG_N [dec 2] [[''a''], [''b''], [''c'']] = Some [''b''] \<and>
   GET_ARGS_LESS_N [dec 2] [[''a''], [''b''], [''c'']] = Some [''c''] \<and>
   NUM_VA_ARGS_LESS_1 [[''a''], [''b''], [''c'']] = Some [dec 2]"
  using args_selected [of "[[''a''], [''b''], [''c'']]" 2] by simp

section \<open>Conditions\<close>

definition plain :: "string \<Rightarrow> bool" where
  "plain t \<longleftrightarrow> t \<noteq> comma \<and> t \<noteq> lparen \<and> t \<noteq> rparen"

lemma rescan_XXXX: "rescan (paste ''_XXXX'' [t]) = (if t = ''1'' then [''_YYYY'', comma] else [''_XXXX'' @ t])"
  by (simp add: rescan_def paste_def object_macros_def)

lemma rescan_ZZZZ: "rescan (paste ''_ZZZZ'' [t]) = (if t = ''0'' then [''_YYYY'', comma] else [''_ZZZZ'' @ t])"
  by (simp add: rescan_def paste_def object_macros_def)

lemma depth_append: "depth_after d x = Some e \<Longrightarrow> depth_after d (x @ y) = depth_after e y"
  by (induction x arbitrary: d) (auto split: if_splits)

text \<open>Tokens that stay inside a pair of parentheses.\<close>

definition balanced :: "tokens \<Rightarrow> bool" where
  "balanced x \<longleftrightarrow> depth_after 1 x = Some 1"

lemma balanced_group: "balanced x \<Longrightarrow> single_arg (lparen # x @ [rparen])"
  by (simp add: balanced_def single_arg_def depth_append)

lemma COND_CODE_value:
  assumes "balanced a" "balanced b"
  shows "COND_CODE [''_YYYY'', comma] (lparen # a @ [rparen]) (lparen # b @ [rparen]) = Some a"
    and "plain t \<Longrightarrow> COND_CODE [t] (lparen # a @ [rparen]) (lparen # b @ [rparen]) = Some b"
proof -
  have ga: "single_arg (lparen # a @ [rparen])" and gb: "single_arg (lparen # b @ [rparen])"
    using assms by (simp_all add: balanced_group)
  have "split_args ([''_YYYY''] @ comma # (lparen # a @ [rparen]) @ comma # (lparen # b @ [rparen])) =
      [[''_YYYY''], lparen # a @ [rparen], lparen # b @ [rparen]]"
    using ga gb split_single_comma [of "[''_YYYY'']"] split_single_comma [OF ga] split_single [OF gb]
    by (simp add: single_arg_def)
  then show "COND_CODE [''_YYYY'', comma] (lparen # a @ [rparen]) (lparen # b @ [rparen]) = Some a"
    by (simp add: COND_CODE_def GET_ARG2_DEBRACKET_def named_arg_def)
  assume "plain t"
  then have "single_arg (t # lparen # a @ [rparen])" using ga by (simp add: single_arg_def plain_def)
  then have "split_args ((t # lparen # a @ [rparen]) @ comma # (lparen # b @ [rparen])) =
      [t # lparen # a @ [rparen], lparen # b @ [rparen]]"
    using split_single_comma split_single [OF gb] by metis
  then show "COND_CODE [t] (lparen # a @ [rparen]) (lparen # b @ [rparen]) = Some b"
    by (simp add: COND_CODE_def GET_ARG2_DEBRACKET_def named_arg_def)
qed

lemma COND_CODE_1_value:
  "balanced a \<Longrightarrow> balanced b \<Longrightarrow>
   COND_CODE_1 [t] (lparen # a @ [rparen]) (lparen # b @ [rparen]) = Some (if t = ''1'' then a else b)"
  by (simp add: COND_CODE_1_def Z_COND_CODE_1_def rescan_XXXX COND_CODE_value plain_def)

lemma COND_CODE_0_value:
  "balanced a \<Longrightarrow> balanced b \<Longrightarrow>
   COND_CODE_0 [t] (lparen # a @ [rparen]) (lparen # b @ [rparen]) = Some (if t = ''0'' then a else b)"
  by (simp add: COND_CODE_0_def Z_COND_CODE_0_def rescan_ZZZZ COND_CODE_value plain_def)

text \<open>A configuration value of one token is enabled exactly if it is \<open>1\<close>: \<open>IS_ENABLED\<close> gives 1 or 0, \<open>COND_CODE_1\<close> and
  \<open>IF_ENABLED\<close> select their code by it, \<open>COND_CODE_0\<close> selects by \<open>0\<close>, and \<open>UTIL_BOOL\<close> is 0 exactly for \<open>0\<close>.\<close>

theorem conditions_select:
  assumes "balanced a" "balanced b"
  shows "IS_ENABLED [t] = Some [if t = ''1'' then ''1'' else ''0''] \<and>
    COND_CODE_1 [t] (lparen # a @ [rparen]) (lparen # b @ [rparen]) = Some (if t = ''1'' then a else b) \<and>
    COND_CODE_0 [t] (lparen # a @ [rparen]) (lparen # b @ [rparen]) = Some (if t = ''0'' then a else b) \<and>
    IF_ENABLED [t] (lparen # a @ [rparen]) = Some (if t = ''1'' then a else []) \<and>
    UTIL_BOOL [t] = Some [if t = ''0'' then ''0'' else ''1'']"
proof (intro conjI)
  show "IS_ENABLED [t] = Some [if t = ''1'' then ''1'' else ''0'']"
    by (simp add: IS_ENABLED_def Z_IS_ENABLED1_def Z_IS_ENABLED2_def Z_IS_ENABLED3_def rescan_XXXX split_args_def
        named_arg_def)
  show "IF_ENABLED [t] (lparen # a @ [rparen]) = Some (if t = ''1'' then a else [])"
    using COND_CODE_1_value [OF assms(1), of "[]" t] by (simp add: IF_ENABLED_def balanced_def)
  have "UTIL_NOT [t] = Some [if t = ''0'' then ''1'' else ''0'']"
    by (simp add: UTIL_NOT_def UTIL_CHECK_def rescan_def paste_def object_macros_def split_args_def named_arg_def)
  then show "UTIL_BOOL [t] = Some [if t = ''0'' then ''0'' else ''1'']"
    by (simp add: UTIL_BOOL_def UTIL_COMPL_def rescan_def paste_def object_macros_def)
qed (simp_all add: COND_CODE_1_value COND_CODE_0_value assms)

theorem conditions_select_witness:
  "IS_ENABLED [''1''] = Some [''1''] \<and> COND_CODE_1 [''n''] [lparen, ''x'', rparen] [lparen, ''y'', rparen] = Some [''y'']"
  using conditions_select [of "[''x'']" "[''y'']" "''1''"] conditions_select [of "[''x'']" "[''y'']" "''n''"]
  by (simp add: balanced_def)

section \<open>Empty elements\<close>

lemma HAS_COMMA_values: "Z_HAS_COMMA [x] = Some [''0'']" "Z_HAS_COMMA [x, y] = Some [''1'']"
  by (simp_all add: Z_HAS_COMMA_def NUM_VA_ARGS_LESS_1_IMPL_def named_arg_def nth_append)

lemma plain_single: "list_all plain x \<Longrightarrow> single_arg x"
proof -
  have "list_all plain x \<Longrightarrow> depth_after d x = Some d" for d
    by (induction x) (simp_all add: plain_def)
  then show "list_all plain x \<Longrightarrow> single_arg x" by (simp add: single_arg_def)
qed

lemma plain_balanced: "list_all plain x \<Longrightarrow> balanced (comma # x)"
proof -
  have "list_all plain x \<Longrightarrow> depth_after (Suc d) x = Some (Suc d)" for d
    by (induction x) (simp_all add: plain_def)
  then show "list_all plain x \<Longrightarrow> balanced (comma # x)" by (simp add: balanced_def)
qed

lemma IS_EMPTY_cases_value:
  "Z_IS_EMPTY_cases [''0''] [''0''] [''0''] [''0''] = Some [''0'']"
  "Z_IS_EMPTY_cases [''0''] [''0''] [''0''] [''1''] = Some [''1'']"
  by (simp_all add: Z_IS_EMPTY_cases_def Z_CAT5_def rescan_def object_macros_def split_args_def HAS_COMMA_values)

lemma IS_EMPTY_value:
  assumes "list_all plain e"
  shows "IS_EMPTY [e] = Some [if e = [] then ''1'' else ''0'']"
proof (cases "e = []")
  case True
  then show ?thesis
    by (simp add: IS_EMPTY_def Z_TRIGGER_PARENTHESIS_def split_args_def HAS_COMMA_values IS_EMPTY_cases_value)
next
  case False
  have plain: "single_arg e" by (rule plain_single [OF assms])
  have call: "single_arg (e @ [lparen, rparen])"
    using plain depth_append [of 0 e 0] by (simp add: single_arg_def)
  have trigger: "split_args (Z_TRIGGER_PARENTHESIS (e @ x)) = [''Z_TRIGGER_PARENTHESIS_'' # e @ x]" if "single_arg (e @ x)" for x
    using assms False that
    by (cases e) (simp_all add: Z_TRIGGER_PARENTHESIS_def plain_def split_single single_arg_def)
  show ?thesis
    using False trigger [of "[]"] trigger [OF call] split_single [OF plain] split_single [OF call] plain
    unfolding IS_EMPTY_def by (simp only: with_commas.simps append_Nil2 HAS_COMMA_values bind.bind_lunit IS_EMPTY_cases_value if_False simp_thms)
qed

lemma NO_EMPTIES_value:
  assumes "list_all plain e"
  shows "Z_LIST_NO_EMPTIES [e] = Some (if e = [] then [] else comma # e)"
proof -
  have b: "balanced []" by (simp add: balanced_def)
  note c = COND_CODE_1_value [OF b plain_balanced [OF assms]]
  show ?thesis using c
    by (simp add: Z_LIST_NO_EMPTIES_def IS_EMPTY_value [OF assms] Z_LIST_ADD_ELEM_def)
qed

lemma join_empty: "join [] xs = concat xs"
  by (induction "[] :: tokens" xs rule: join.induct) simp_all

lemma join_Cons: "join s (x # xs) = (if xs = [] then x else x @ s @ join s xs)"
  by (cases xs) simp_all

lemma elements_joined:
  "concat (map (\<lambda>e. if e = [] then [] else c # e) va) =
   (if filter (\<lambda>e. e \<noteq> []) va = [] then [] else c # join [c] (filter (\<lambda>e. e \<noteq> []) va))"
  by (induction va) (simp_all add: join_Cons del: join.simps(3) filter_empty_conv)

lemma LIST_DROP_EMPTY_value:
  assumes "va \<noteq> []" "length va \<le> 64" "list_all (list_all plain) va"
  shows "LIST_DROP_EMPTY va = Some (join [comma] (filter (\<lambda>e. e \<noteq> []) va))"
proof -
  let ?es = "filter (\<lambda>e. e \<noteq> []) va"
  have single: "list_all single_arg va" using assms(3) by (simp add: list_all_iff plain_single)
  have z: "Z_FOR_EACH_EXEC k (va ! k) Z_LIST_NO_EMPTIES [''_''] = Some (if va ! k = [] then [] else comma # va ! k)"
    if "k < length va" for k
    using assms(3) single that by (simp add: Z_FOR_EACH_EXEC_def list_all_length split_single NO_EMPTIES_value)
  have m: "map (\<lambda>k. if va ! k = [] then [] else comma # va ! k) [0..<length va] = map (\<lambda>e. if e = [] then [] else comma # e) va"
    by (rule nth_equalityI) simp_all
  have "FOR_EACH Z_LIST_NO_EMPTIES [lparen, rparen] va = Some (concat (map (\<lambda>e. if e = [] then [] else comma # e) va))"
    using FOR_EACH_engine [OF assms(1,2) single DEBRACKET_group(2), of Z_FOR_EACH_EXEC Z_LIST_NO_EMPTIES "[''_'']", OF z]
    by (simp add: FOR_EACH_def Z_FOR_EACH_def m join_empty)
  moreover have "split_args (if ?es = [] then [] else comma # join [comma] ?es) = [] # ?es"
  proof -
    have "list_all single_arg ([] # ?es)" using single by (auto simp: list_all_iff single_arg_def)
    then show ?thesis using split_join [of "[] # ?es"] by (cases ?es) simp_all
  qed
  moreover have "dec 1 = ''1''" by code_simp
  ultimately show ?thesis
    using GET_ARGS_LESS_N_value [of 1 "[] # ?es"] by (simp add: LIST_DROP_EMPTY_def Z_LIST_DROP_FIRST_def elements_joined)
qed

lemma join_terminated: "xs \<noteq> [] \<Longrightarrow> join t (map f xs) @ t = concat (map (\<lambda>e. f e @ t) xs)"
  by (induction xs) (auto simp: join_Cons simp del: join.simps(3))

lemma balanced_append: "balanced a \<Longrightarrow> balanced b \<Longrightarrow> balanced (a @ b)"
  by (simp add: balanced_def depth_append)

lemma balanced_concat: "list_all balanced xs \<Longrightarrow> balanced (concat xs)"
  by (induction xs) (simp_all add: balanced_append, simp add: balanced_def)

lemma FOR_EACH_value:
  assumes "va \<noteq> []" "length va \<le> 64" "list_all single_arg va" and "\<And>x. F [x] = Some (f x)"
  shows "FOR_EACH F (lparen # s @ [rparen]) va = Some (join s (map f va))"
proof -
  have "Z_FOR_EACH_EXEC k (va ! k) F [''_''] = Some (f (va ! k))" if "k < length va" for k
    using assms(3,4) that by (simp add: Z_FOR_EACH_EXEC_def list_all_length split_single)
  note FOR_EACH_engine [OF assms(1-3) DEBRACKET_group(1), of Z_FOR_EACH_EXEC F "[''_'']" "\<lambda>k. f (va ! k)" s, OF this]
  moreover have "map (\<lambda>k. f (va ! k)) [0..<length va] = map f va" by (rule nth_equalityI) simp_all
  ultimately show ?thesis by (simp add: FOR_EACH_def Z_FOR_EACH_def)
qed

text \<open>For a list of up to 63 elements made of tokens other than commas and parentheses, \<open>LIST_DROP_EMPTY\<close> expands to the
  elements that are not empty, and \<open>FOR_EACH_NONEMPTY_TERM\<close> to the expansions of the macro for them, each followed by
  the terminator; with no such element it expands to nothing.\<close>

theorem LIST_DROP_EMPTY_filters:
  assumes "va \<noteq> []" "length va < 64" "list_all (list_all plain) va"
    and F: "\<And>x. F [x] = Some (f x)" and bal: "\<And>x. list_all plain x \<Longrightarrow> balanced (f x)" "balanced t"
  shows "LIST_DROP_EMPTY va = Some (join [comma] (filter (\<lambda>e. e \<noteq> []) va)) \<and>
    FOR_EACH_NONEMPTY_TERM F (lparen # t @ [rparen]) va =
      Some (concat (map (\<lambda>e. f e @ t) (filter (\<lambda>e. e \<noteq> []) va)))"
proof -
  define es where "es = filter (\<lambda>e. e \<noteq> []) va"
  have drop: "LIST_DROP_EMPTY va = Some (join [comma] es)" using assms LIST_DROP_EMPTY_value [of va] by (simp add: es_def)
  have drop_one: "LIST_DROP_EMPTY (va @ [[''_'']]) = Some (join [comma] (es @ [[''_'']]))"
    using assms LIST_DROP_EMPTY_value [of "va @ [[''_'']]"] by (simp add: es_def plain_def)
  have single: "list_all single_arg es" "list_all single_arg (es @ [[''_'']])"
    using assms(3) plain_single by (auto simp: list_all_iff es_def single_arg_def)
  have len: "length es < 64" using assms(2) length_filter_le [of "\<lambda>e. e \<noteq> []" va] unfolding es_def by linarith
  have n: "NUM_VA_ARGS_LESS_1 (split_args (join [comma] (es @ [[''_'']]))) = Some [dec (length es)]"
    using NUM_VA_ARGS_value [of "es @ [[''_'']]"] single len by (simp add: split_join)
  have zero: "dec (length es) = ''0'' \<longleftrightarrow> es = []" 
  proof -
    have "dec 0 = ''0''" by code_simp
    then show ?thesis using dec_inject [of "length es" 0] by simp
  qed
  define xs where "xs = (if es = [] then [[]] else es)"
  have args: "split_args (join [comma] es) = xs"
    using single(1) by (simp add: xs_def split_join) (simp add: split_args_def)
  have body: "FOR_EACH F (lparen # t @ [rparen]) xs = Some (join t (map f xs))"
    using single(1) len by (intro FOR_EACH_value F) (simp_all add: xs_def single_arg_def)
  have b: "balanced (join t (map f xs) @ t)"
  proof -
    have "xs \<noteq> []" by (simp add: xs_def)
    moreover have "list_all plain x" if "x \<in> set xs" for x
      using that assms(3) by (auto simp: xs_def es_def list_all_iff split: if_splits)
    then have "balanced (concat (map (\<lambda>e. f e @ t) xs))"
      using bal by (intro balanced_concat) (simp add: list_all_iff balanced_append)
    ultimately show ?thesis by (simp add: join_terminated)
  qed
  have e: "balanced []" by (simp add: balanced_def)
  have "FOR_EACH_NONEMPTY_TERM F (lparen # t @ [rparen]) va = Some (if es = [] then [] else join t (map f xs) @ t)"
    using COND_CODE_0_value [OF e b, of "dec (length es)"]
    by (simp add: FOR_EACH_NONEMPTY_TERM_def drop drop_one n args body zero)
  also have "\<dots> = Some (concat (map (\<lambda>e. f e @ t) es))" by (simp add: xs_def join_terminated)
  finally show ?thesis using drop by (simp add: es_def)
qed

theorem LIST_DROP_EMPTY_filters_witness:
  "LIST_DROP_EMPTY [[], [''a''], [], [''b'']] = Some [''a'', comma, ''b''] \<and>
   FOR_EACH_NONEMPTY_TERM (\<lambda>x. Some (''f'' # concat x)) [lparen, '';'', rparen] [[], [''a''], [], [''b'']] =
     Some [''f'', ''a'', '';'', ''f'', ''b'', '';'']"
proof -
  have bal: "balanced (''f'' # concat [x])" if "list_all plain x" for x
    using plain_balanced [OF that] by (simp add: balanced_def)
  have "LIST_DROP_EMPTY [[], [''a''], [], [''b'']] = Some (join [comma] [[''a''], [''b'']]) \<and>
    FOR_EACH_NONEMPTY_TERM (\<lambda>x. Some (''f'' # concat x)) (lparen # ['';''] @ [rparen]) [[], [''a''], [], [''b'']] =
      Some (concat (map (\<lambda>e. (''f'' # concat [e]) @ ['';'']) [[''a''], [''b'']]))"
    using LIST_DROP_EMPTY_filters [of "[[], [''a''], [], [''b'']]" "\<lambda>x. Some (''f'' # concat x)" "\<lambda>x. ''f'' # concat [x]" "['';'']",
        OF _ _ _ refl bal]
    by (simp add: plain_def balanced_def)
  then show ?thesis by simp
qed

end
