(* ===== verification/Util.thy ===== *)
theory Util
  imports Prelude
begin

text \<open>
  The macros and inline functions of \<^verbatim>\<open>include/sys/util.h\<close>, the bit macros of \<^verbatim>\<open>include/sys/util_macro.h\<close> and the power
  of two macros of \<^verbatim>\<open>include/toolchain/gcc.h\<close>.  \<open>unsigned long\<close> and \<open>size_t\<close> have 32 bits on the target.  A shift by
  the width of its operand or more and a division by zero are undefined: \<open>None\<close>.
\<close>

section \<open>Bits and fields\<close>

definition BITS_PER_LONG :: nat where "BITS_PER_LONG = 8 * 4"

definition BIT :: "nat \<Rightarrow> u32 option" where
  "BIT n = (if n < 32 then Some (push_bit n 1) else None)"

definition BIT64 :: "nat \<Rightarrow> u64 option" where
  "BIT64 n = (if n < 64 then Some (push_bit n 1) else None)"

definition WRITE_BIT :: "u32 \<Rightarrow> nat \<Rightarrow> bool \<Rightarrow> u32 option" where
  "WRITE_BIT var b st = map_option (\<lambda>m. if st then var OR m else var AND NOT m) (BIT b)"

definition BIT_MASK :: "nat \<Rightarrow> u32 option" where
  "BIT_MASK n = map_option (\<lambda>m. m - 1) (BIT n)"

definition BIT64_MASK :: "nat \<Rightarrow> u64 option" where
  "BIT64_MASK n = map_option (\<lambda>m. m - 1) (BIT64 n)"

definition GENMASK :: "nat \<Rightarrow> nat \<Rightarrow> u32 option" where
  "GENMASK h l =
     (if l < 32 \<and> h \<le> BITS_PER_LONG - 1
      then Some ((NOT 0 - push_bit l 1 + 1) AND drop_bit (BITS_PER_LONG - 1 - h) (NOT 0)) else None)"

definition LSB_GET :: "u32 \<Rightarrow> u32" where
  "LSB_GET x = x AND - x"

definition FIELD_GET :: "u32 \<Rightarrow> u32 \<Rightarrow> u32 option" where
  "FIELD_GET msk x = (if LSB_GET msk = 0 then None else Some ((x AND msk) div LSB_GET msk))"

definition FIELD_PREP :: "u32 \<Rightarrow> u32 \<Rightarrow> u32" where
  "FIELD_PREP msk x = (x * LSB_GET msk) AND msk"

section \<open>Addresses and rounding\<close>

definition PART_OF_ARRAY :: "addr \<Rightarrow> u32 \<Rightarrow> u32 \<Rightarrow> addr \<Rightarrow> bool" where
  "PART_OF_ARRAY arr n elem ptr \<longleftrightarrow> ptr \<noteq> NULL \<and> arr \<le> ptr \<and> ptr < arr + n * elem"

definition CONTAINER_OF :: "addr \<Rightarrow> u32 \<Rightarrow> addr" where
  "CONTAINER_OF ptr offset = ptr - offset"

definition ROUND_UP :: "u32 \<Rightarrow> u32 \<Rightarrow> u32" where
  "ROUND_UP x align = (x + (align - 1)) AND NOT (align - 1)"

definition ROUND_DOWN :: "u32 \<Rightarrow> u32 \<Rightarrow> u32" where
  "ROUND_DOWN x align = x AND NOT (align - 1)"

definition WB_UP :: "u32 \<Rightarrow> u32" where "WB_UP x = ROUND_UP x 4"
definition WB_DN :: "u32 \<Rightarrow> u32" where "WB_DN x = ROUND_DOWN x 4"

definition MAX_of :: "'a::linorder \<Rightarrow> 'a \<Rightarrow> 'a" where "MAX_of a b = (if a > b then a else b)"
definition MIN_of :: "'a::linorder \<Rightarrow> 'a \<Rightarrow> 'a" where "MIN_of a b = (if a < b then a else b)"

definition IN_RANGE :: "'a::linorder \<Rightarrow> 'a \<Rightarrow> 'a \<Rightarrow> bool" where
  "IN_RANGE x lo hi \<longleftrightarrow> x \<ge> lo \<and> x \<le> hi"

definition KB :: "u32 \<Rightarrow> u32" where "KB x = push_bit 10 x"
definition MB :: "u32 \<Rightarrow> u32" where "MB x = push_bit 10 (KB x)"
definition GB :: "u32 \<Rightarrow> u32" where "GB x = push_bit 10 (MB x)"
definition KHZ :: "u32 \<Rightarrow> u32" where "KHZ x = x * 1000"
definition MHZ :: "u32 \<Rightarrow> u32" where "MHZ x = KHZ x * 1000"

section \<open>Functions\<close>

definition is_power_of_two :: "u32 \<Rightarrow> bool" where
  "is_power_of_two x \<longleftrightarrow> x \<noteq> 0 \<and> x AND (x - 1) = 0"

text \<open>The compiler shifts signed numbers arithmetically; it has the builtin that counts leading zeros.\<close>

definition arithmetic_shift_right :: "64 word \<Rightarrow> u8 \<Rightarrow> 64 word option" where
  "arithmetic_shift_right x shift =
     (if shift = 0 then Some x
      else
        let sign_ext = signed_drop_bit 63 x AND 1;
            sign_ext = - sign_ext
        in if unat shift < 64 then Some (signed_drop_bit (unat shift) x OR push_bit (64 - unat shift) sign_ext)
           else None)"

primrec bytecpy_loop :: "nat \<Rightarrow> addr \<Rightarrow> addr \<Rightarrow> nat \<Rightarrow> mem \<Rightarrow> mem" where
  "bytecpy_loop 0 dst src i m = m"
| "bytecpy_loop (Suc n) dst src i m = bytecpy_loop n dst src (Suc i) (m(dst + of_nat i := m (src + of_nat i)))"

definition bytecpy :: "addr \<Rightarrow> addr \<Rightarrow> u32 \<Rightarrow> mem \<Rightarrow> mem" where
  "bytecpy dst src n m = bytecpy_loop (unat n) dst src 0 m"

primrec byteswp_loop :: "nat \<Rightarrow> addr \<Rightarrow> addr \<Rightarrow> mem \<Rightarrow> mem" where
  "byteswp_loop 0 aa bb m = m"
| "byteswp_loop (Suc n) aa bb m =
     (let t = m aa; m = m(aa := m bb); m = m(bb := t) in byteswp_loop n (aa + 1) (bb + 1) m)"

definition byteswp :: "addr \<Rightarrow> addr \<Rightarrow> u32 \<Rightarrow> mem \<Rightarrow> mem" where
  "byteswp a b n m = byteswp_loop (unat n) a b m"

definition bcd2bin :: "u8 \<Rightarrow> u8" where
  "bcd2bin bcd = 10 * drop_bit 4 bcd + (bcd AND 0x0F)"

definition bin2bcd :: "u8 \<Rightarrow> u8" where
  "bin2bcd bin = push_bit 4 (bin div 10) OR (bin mod 10)"

primrec clz_from :: "nat \<Rightarrow> u32 \<Rightarrow> nat" where
  "clz_from 0 x = 0"
| "clz_from (Suc n) x = (if bit x n then 0 else Suc (clz_from n x))"

definition builtin_clzl :: "u32 \<Rightarrow> nat option" where
  "builtin_clzl x = (if x = 0 then None else Some (clz_from 32 x))"

definition Z_POW2_CEIL :: "u32 \<Rightarrow> u32 option" where
  "Z_POW2_CEIL x =
     (if x \<le> 2 then Some x
      else Option.bind (builtin_clzl (x - 1)) (\<lambda>z. if 8 * 4 - z < 32 then Some (push_bit (8 * 4 - z) 1) else None))"

definition Z_IS_POW2 :: "u32 \<Rightarrow> bool" where
  "Z_IS_POW2 x \<longleftrightarrow> x \<noteq> 0 \<and> x AND (x - 1) = 0"

section \<open>Fields\<close>

lemma odd_decr: "odd x \<Longrightarrow> x - 1 = x AND NOT 1" for x :: u32
proof -
  assume "odd x"
  then have "(x AND NOT 1) OR 1 = x" by (intro bit_word_eqI) (auto simp: bit_and_iff bit_or_iff bit_not_iff bit_1_iff bit_0)
  moreover have "(x AND NOT 1) + 1 = (x AND NOT 1) OR 1"
    by (rule disjunctive_add) (auto simp: bit_and_iff bit_not_iff bit_1_iff)
  ultimately show "x - 1 = x AND NOT 1" by (metis add_diff_cancel_right')
qed

lemma LSB_GET_odd: "odd x \<Longrightarrow> LSB_GET (push_bit l x) = push_bit l 1"
proof -
  assume x: "odd x"
  have "- x = NOT (x AND NOT 1)" by (simp only: minus_eq_not_minus_1 odd_decr [OF x])
  then have "x AND - x = 1" using x by (intro bit_word_eqI) (auto simp: bit_and_iff bit_not_iff bit_or_iff bit_1_iff bit_0 even_or_iff)
  moreover have "- push_bit l x = push_bit l (- x)" by (simp add: push_bit_eq_mult)
  ultimately show "LSB_GET (push_bit l x) = push_bit l 1" by (simp only: LSB_GET_def push_bit_and [symmetric])
qed

lemma GENMASK_value:
  assumes "l \<le> h" "h < 32"
  shows "GENMASK h l = Some (push_bit l (mask (Suc (h - l))))"
proof -
  have "NOT 0 - push_bit l 1 + 1 = (push_bit l (- 1) :: u32)" by (simp add: push_bit_eq_mult)
  moreover have "push_bit l (- 1) AND drop_bit (31 - h) (- 1) = (push_bit l (mask (Suc (h - l))) :: u32)"
    using assms by (intro bit_word_eqI) (auto simp: bit_simps)
  ultimately show ?thesis using assms by (simp add: GENMASK_def BITS_PER_LONG_def)
qed

text \<open>C39: A mask made by \<open>GENMASK h l\<close> has exactly the bits from \<open>l\<close> to \<open>h\<close>.  \<open>FIELD_GET\<close> reads the number in that field,
  what \<open>FIELD_PREP\<close> puts there is read back up to the width of the field, and putting back what was read restores
  the field.\<close>

theorem field_roundtrip:
  assumes "l \<le> h" "h < 32"
  shows "\<exists>m. GENMASK h l = Some m \<and> (\<forall>k. bit m k \<longleftrightarrow> l \<le> k \<and> k \<le> h) \<and>
    FIELD_GET m x = Some (take_bit (Suc (h - l)) (drop_bit l x)) \<and>
    FIELD_GET m (FIELD_PREP m y) = Some (take_bit (Suc (h - l)) y) \<and>
    FIELD_PREP m (take_bit (Suc (h - l)) (drop_bit l x)) = x AND m"
proof -
  define m :: u32 where "m = push_bit l (mask (Suc (h - l)))"
  have bits: "bit m k \<longleftrightarrow> l \<le> k \<and> k \<le> h" for k
    using assms by (auto simp: m_def bit_simps)
  have "odd (mask (Suc (h - l)) :: u32)" using bit_0 [of "mask (Suc (h - l)) :: u32"] by (simp add: bit_mask_iff)
  then have lsb: "LSB_GET m = push_bit l 1" unfolding m_def by (rule LSB_GET_odd)
  have nz: "push_bit l 1 \<noteq> (0 :: u32)"
    using assms bit_push_bit_iff [of l "1 :: u32" l] by (auto simp: bit_simps)
  have sh: "v div push_bit l 1 = drop_bit l v" for v :: u32
    by (simp add: drop_bit_eq_div push_bit_eq_mult)
  have ml: "v * push_bit l 1 = push_bit l v" for v :: u32 by (simp add: push_bit_eq_mult)
  have get: "FIELD_GET m v = Some (take_bit (Suc (h - l)) (drop_bit l v))" for v
  proof -
    have "drop_bit l (v AND m) = take_bit (Suc (h - l)) (drop_bit l v)"
      by (rule bit_word_eqI) (use assms in \<open>auto simp: bit_simps bits\<close>)
    then show ?thesis unfolding FIELD_GET_def lsb if_not_P [OF nz] sh by (rule arg_cong)
  qed
  have put: "take_bit (Suc (h - l)) (drop_bit l (FIELD_PREP m y)) = take_bit (Suc (h - l)) y"
    unfolding FIELD_PREP_def lsb ml by (rule bit_word_eqI) (use assms in \<open>auto simp: bit_simps bits\<close>)
  have restored: "FIELD_PREP m (take_bit (Suc (h - l)) (drop_bit l x)) = x AND m"
    unfolding FIELD_PREP_def lsb ml by (rule bit_word_eqI) (use assms in \<open>auto simp: bit_simps bits\<close>)
  have gen: "GENMASK h l = Some m" unfolding m_def by (rule GENMASK_value [OF assms])
  show ?thesis
    by (intro exI [of _ m] conjI allI gen bits get restored get [of "FIELD_PREP m y", unfolded put])
qed

section \<open>Rounding\<close>

lemma ROUND_DOWN_unat:
  assumes "k < 32"
  shows "unat (ROUND_DOWN x (2 ^ k)) = unat x div 2 ^ k * 2 ^ k"
proof -
  have m: "(2 ^ k - 1 :: u32) = mask k" by (simp add: mask_eq_exp_minus_1)
  have "x AND NOT (mask k) = push_bit k (drop_bit k x)"
    by (rule bit_word_eqI) (auto simp: bit_simps)
  then have "ROUND_DOWN x (2 ^ k) = push_bit k (drop_bit k x)" by (simp add: ROUND_DOWN_def m)
  moreover have "unat x div 2 ^ k * 2 ^ k < 2 ^ 32"
    by (rule le_less_trans [of _ "unat x"]) (simp_all add: unat_u32_less)
  moreover have "unat (push_bit k (drop_bit k x)) = take_bit 32 (unat x div 2 ^ k * 2 ^ k)"
    by (simp only: unsigned_push_bit_eq unsigned_drop_bit_eq) (simp add: push_bit_eq_mult drop_bit_eq_div take_bit_nat_eq_self unat_u32_less)
  ultimately show ?thesis by (simp add: take_bit_nat_eq_self)
qed

text \<open>C40: For an alignment that is a power of two \<open>ROUND_DOWN\<close> gives the greatest multiple that is not above and
  \<open>ROUND_UP\<close> the least one that is not below; where that is the top of the address space, \<open>ROUND_UP\<close> wraps to 0.\<close>

theorem rounding_exact:
  assumes "k < 32"
  shows "unat (ROUND_DOWN x (2 ^ k)) = unat x div 2 ^ k * 2 ^ k \<and>
    unat (ROUND_UP x (2 ^ k)) =
      (let y = (unat x + (2 ^ k - 1)) div 2 ^ k * 2 ^ k in if y < 2 ^ 32 then y else 0)"
proof -
  have up: "ROUND_UP x (2 ^ k) = ROUND_DOWN (x + (2 ^ k - 1)) (2 ^ k)"
    by (simp add: ROUND_UP_def ROUND_DOWN_def)
  define n where "n = unat x + (2 ^ k - 1)"
  have p: "(2 :: nat) ^ k \<le> 2 ^ 31" using assms by (intro power_increasing) simp_all
  have n: "n < 2 ^ 32 + 2 ^ k - 1" using unat_u32_less [of x] by (simp add: n_def)
  have d: "(2 :: nat) ^ 32 = 2 ^ (32 - k) * 2 ^ k" using assms by (simp flip: power_add)
  have s: "unat (x + (2 ^ k - 1)) = n mod 2 ^ 32"
  proof -
    have "x + (2 ^ k - 1) = of_nat n" by (simp only: n_def of_nat_add of_nat_diff [OF one_le_power [of 2 k]] ) simp
    then show ?thesis by (simp add: unat_of_nat)
  qed
  have top: "2 ^ 32 \<le> n div 2 ^ k * 2 ^ k" if "2 ^ 32 \<le> n"
  proof -
    have "2 ^ (32 - k) \<le> n div 2 ^ k" using that unfolding d by (simp add: less_eq_div_iff_mult_less_eq)
    then show ?thesis unfolding d by (rule mult_le_mono1)
  qed
  have "unat (ROUND_UP x (2 ^ k)) = n mod 2 ^ 32 div 2 ^ k * 2 ^ k" unfolding up ROUND_DOWN_unat [OF assms] s ..
  also have "\<dots> = (if n div 2 ^ k * 2 ^ k < 2 ^ 32 then n div 2 ^ k * 2 ^ k else 0)"
  proof (cases "n < 2 ^ 32")
    case True
    then have "n div 2 ^ k * 2 ^ k < 2 ^ 32" by (meson div_times_less_eq_dividend le_less_trans)
    with True show ?thesis by simp
  next
    case False
    then have "n mod 2 ^ 32 = n - 2 ^ 32" using n p by (subst le_mod_geq) simp_all
    then have "n mod 2 ^ 32 div 2 ^ k = 0" using n False by (intro div_less) simp
    then show ?thesis using top False by simp
  qed
  finally show ?thesis using ROUND_DOWN_unat [OF assms] by (simp only: n_def Let_def simp_thms)
qed

theorem rounding_exact_witness:
  "unat (ROUND_DOWN 0x1235 8) = 0x1230 \<and> unat (ROUND_UP 0x1235 8) = 0x1238 \<and> ROUND_UP 0xFFFFFFFD 4 = 0"
  using rounding_exact [of 3 "0x1235"] rounding_exact [of 2 "0xFFFFFFFD"] by (simp add: unat_eq_zero)

theorem field_roundtrip_witness:
  "\<exists>m. GENMASK 11 4 = Some m \<and> FIELD_GET m 0xABCDE = Some 0xCD \<and> FIELD_GET m (FIELD_PREP m 0x1FF) = Some 0xFF"
  using field_roundtrip [of 4 11 "0xABCDE" "0x1FF"] by auto

section \<open>Powers of two\<close>

lemma lowest_bit:
  assumes "x \<noteq> (0 :: u32)"
  obtains l y where "l < 32" "x = push_bit l y" "odd y"
proof -
  from assms obtain n where "bit x n" by (auto simp: bit_eq_iff)
  define l where "l = (LEAST n. bit x n)"
  have l: "bit x l" unfolding l_def using \<open>bit x n\<close> by (rule LeastI)
  have low: "\<not> bit x j" if "j < l" for j using that not_less_Least unfolding l_def by blast
  have "x = push_bit l (drop_bit l x)"
  proof (rule bit_word_eqI)
    fix n assume "n < LENGTH(32)"
    then show "bit x n = bit (push_bit l (drop_bit l x)) n"
      using low [of n] by (cases "n < l") (simp_all add: bit_push_bit_iff bit_drop_bit_eq)
  qed
  moreover have "odd (drop_bit l x)" using l bit_0 [of "drop_bit l x"] by (simp add: bit_drop_bit_eq)
  moreover have "l < 32" using bit_imp_le_length [OF l] by simp
  ultimately show ?thesis using that by blast
qed

lemma power_of_two_iff: "x \<noteq> 0 \<and> x AND (x - 1) = 0 \<longleftrightarrow> (\<exists>k < 32. x = 2 ^ k)" for x :: u32
proof
  assume x: "x \<noteq> 0 \<and> x AND (x - 1) = 0"
  then obtain l y where y: "l < 32" "x = push_bit l y" "odd y" using lowest_bit by blast
  have "x - 1 = NOT (- x)" by (simp add: minus_eq_not_minus_1)
  with x have z: "x AND NOT (- x) = 0" by simp
  have "x = (x AND - x) OR (x AND NOT (- x))"
    by (rule bit_word_eqI) (auto simp: bit_and_iff bit_or_iff bit_not_iff)
  then have "x = LSB_GET x" unfolding z LSB_GET_def by simp
  also have "\<dots> = push_bit l 1" unfolding y(2) by (rule LSB_GET_odd [OF y(3)])
  finally show "\<exists>k < 32. x = 2 ^ k" using y(1) by (auto simp: push_bit_eq_mult)
next
  assume "\<exists>k < 32. x = 2 ^ k"
  then obtain k where k: "k < 32" "x = 2 ^ k" by blast
  have "x - 1 = mask k" by (simp add: k mask_eq_exp_minus_1)
  then have "x AND (x - 1) = 0" unfolding k(2) by (intro bit_word_eqI) (auto simp: bit_and_iff bit_mask_iff bit_exp_iff)
  moreover have "x \<noteq> 0" using k by simp
  ultimately show "x \<noteq> 0 \<and> x AND (x - 1) = 0" by simp
qed

lemma clz_from_top:
  assumes "\<exists>j < m. bit x j"
  shows "\<exists>t < m. clz_from m x = m - Suc t \<and> bit x t \<and> (\<forall>j. t < j \<and> j < m \<longrightarrow> \<not> bit x j)"
  using assms
proof (induction m)
  case (Suc m)
  show ?case
  proof (cases "bit x m")
    case True
    then show ?thesis by (intro exI [of _ m]) auto
  next
    case False
    with Suc.prems have "\<exists>j < m. bit x j" using less_Suc_eq by auto
    from Suc.IH [OF this] obtain t where "t < m" "clz_from m x = m - Suc t" "bit x t" "\<forall>j. t < j \<and> j < m \<longrightarrow> \<not> bit x j" by blast
    with False show ?thesis by (intro exI [of _ t]) (auto simp: less_Suc_eq)
  qed
qed simp

lemma top_bit_bounds:
  assumes "bit (x :: u32) t" "\<forall>j. t < j \<and> j < 32 \<longrightarrow> \<not> bit x j"
  shows "2 ^ t \<le> unat x" "unat x < 2 ^ Suc t"
proof -
  have t: "t < 32" using bit_imp_le_length [OF assms(1)] by simp
  have "x = take_bit (Suc t) x"
  proof (rule bit_word_eqI)
    fix n assume "n < LENGTH(32)"
    then show "bit x n = bit (take_bit (Suc t) x) n"
      using assms(2) [rule_format, of n] by (cases "t < n") (simp_all add: bit_take_bit_iff)
  qed
  then have "unat x = unat (take_bit (Suc t) x)" by (rule arg_cong)
  also have "\<dots> = take_bit (Suc t) (unat x)" by (rule unsigned_take_bit_eq)
  finally show "unat x < 2 ^ Suc t" using take_bit_nat_less_exp [of "Suc t" "unat x"] by simp
  have "bit (unat x) t" using assms(1) t by (simp add: bit_unsigned_iff)
  then show "2 ^ t \<le> unat x" by (cases "2 ^ t \<le> unat x") (simp_all add: bit_iff_odd)
qed

lemma Z_POW2_CEIL_value:
  assumes "2 < unat x"
  shows "\<exists>t. 2 ^ t < unat x \<and> unat x \<le> 2 ^ Suc t \<and> Z_POW2_CEIL x = (if Suc t < 32 then Some (2 ^ Suc t) else None)"
proof -
  have x: "\<not> x \<le> 2" "unat (x - 1) = unat x - 1" using assms by (simp_all add: word_le_nat_alt unat_sub_le)
  then have nz: "x - 1 \<noteq> 0" using assms by auto
  then have "\<exists>j < 32. bit (x - 1) j" using bit_imp_le_length by (fastforce simp: bit_eq_iff)
  from clz_from_top [OF this] obtain t where
    t: "t < 32" "clz_from 32 (x - 1) = 32 - Suc t" "bit (x - 1) t" "\<forall>j. t < j \<and> j < 32 \<longrightarrow> \<not> bit (x - 1) j" by blast
  from top_bit_bounds [OF t(3,4)] have "2 ^ t < unat x" "unat x \<le> 2 ^ Suc t" using x assms by simp_all
  moreover have "Z_POW2_CEIL x = (if Suc t < 32 then Some (2 ^ Suc t) else None)"
    using x nz t(1,2) by (simp add: Z_POW2_CEIL_def builtin_clzl_def push_bit_eq_mult)
  ultimately show ?thesis by blast
qed

text \<open>\<open>is_power_of_two\<close> holds exactly for the 32 powers of two.  \<open>Z_POW2_CEIL\<close> gives the least power of two that is not
  below its argument for arguments from 1 to \<open>2 ^ 31\<close>; above, its shift is undefined.\<close>

theorem powers_of_two:
  "(is_power_of_two x \<longleftrightarrow> (\<exists>k < 32. x = 2 ^ k)) \<and>
   (0 < unat x \<longrightarrow>
     (if unat x \<le> 2 ^ 31 then \<exists>k < 32. Z_POW2_CEIL x = Some (2 ^ k) \<and> unat x \<le> 2 ^ k \<and> 2 ^ k < 2 * unat x
      else Z_POW2_CEIL x = None))"
proof (intro conjI impI)
  show "is_power_of_two x \<longleftrightarrow> (\<exists>k < 32. x = 2 ^ k)" unfolding is_power_of_two_def by (rule power_of_two_iff)
  assume pos: "0 < unat x"
  show "if unat x \<le> 2 ^ 31 then \<exists>k < 32. Z_POW2_CEIL x = Some (2 ^ k) \<and> unat x \<le> 2 ^ k \<and> 2 ^ k < 2 * unat x
      else Z_POW2_CEIL x = None"
  proof (cases "2 < unat x")
    case True
    then obtain t where t: "2 ^ t < unat x" "unat x \<le> 2 ^ Suc t"
      "Z_POW2_CEIL x = (if Suc t < 32 then Some (2 ^ Suc t) else None)" using Z_POW2_CEIL_value by blast
    show ?thesis
    proof (cases "Suc t < 32")
      case True
      have "(2 :: nat) ^ Suc t \<le> 2 ^ 31" using True by (intro power_increasing) simp_all
      with t have "unat x \<le> 2 ^ 31" by linarith
      moreover have "2 ^ Suc t < 2 * unat x" using t(1) by simp
      ultimately have "Z_POW2_CEIL x = Some (2 ^ Suc t) \<and> unat x \<le> 2 ^ Suc t \<and> 2 ^ Suc t < 2 * unat x"
        using True t by simp
      with True \<open>unat x \<le> 2 ^ 31\<close> show ?thesis by (auto simp only: if_True)
    next
      case False
      then have "(2 :: nat) ^ 31 \<le> 2 ^ t" by (intro power_increasing) simp_all
      with t False show ?thesis by simp
    qed
  next
    case False
    then have "unat x = 1 \<or> unat x = 2" using pos by linarith
    then have "x = 2 ^ 0 \<and> unat x = 1 \<or> x = 2 ^ 1 \<and> unat x = 2" by (auto simp: word_unat_eq_iff)
    then show ?thesis
    proof
      assume "x = 2 ^ 0 \<and> unat x = 1"
      then show ?thesis by (auto simp: Z_POW2_CEIL_def intro!: exI [of _ 0])
    next
      assume "x = 2 ^ 1 \<and> unat x = 2"
      then show ?thesis by (auto simp: Z_POW2_CEIL_def intro!: exI [of _ 1])
    qed
  qed
qed

theorem powers_of_two_witness:
  "\<exists>k < 32. Z_POW2_CEIL 5 = Some (2 ^ k) \<and> unat (5 :: u32) \<le> 2 ^ k \<and> 2 ^ k < 2 * unat (5 :: u32)"
  using powers_of_two [of 5] by simp

section \<open>Shifts, bytes and decimal digits\<close>

lemma arithmetic_shift_right_value:
  assumes "unat s < 64"
  shows "arithmetic_shift_right x s = Some (signed_drop_bit (unat s) x)"
proof (cases "s = 0")
  case False
  have sign: "signed_drop_bit 63 x AND 1 = of_bool (bit x 63)"
    by (rule bit_word_eqI) (auto simp: bit_and_iff bit_1_iff bit_signed_drop_bit_iff bit_of_bool_iff Suc_le_eq)
  have "signed_drop_bit (unat s) x OR push_bit (64 - unat s) (- of_bool (bit x 63)) = signed_drop_bit (unat s) x"
    using False assms
    by (intro bit_word_eqI) (auto simp: bit_or_iff bit_push_bit_iff bit_signed_drop_bit_iff)
  with False assms show ?thesis by (simp add: arithmetic_shift_right_def Let_def sign)
qed (simp add: arithmetic_shift_right_def)

text \<open>Copying byte by byte from the lowest address is right unless the destination starts inside the source.\<close>

lemma bytecpy_loop_copies:
  assumes "i + n < 2 ^ 32" and "\<And>j k. i \<le> j \<Longrightarrow> j < k \<Longrightarrow> k < i + n \<Longrightarrow> dst + of_nat j \<noteq> src + of_nat k"
  shows "bytecpy_loop n dst src i m = mem_write m (dst + of_nat i) (mem_read m (src + of_nat i) n)"
  using assms
proof (induction n arbitrary: i m)
  case (Suc n)
  let ?m = "m(dst + of_nat i := m (src + of_nat i))"
  have "mem_read ?m (src + of_nat (Suc i)) n = mem_read m (src + of_nat (Suc i)) n"
  proof (rule mem_read_cong)
    fix j assume "j < n"
    then have "dst + of_nat i \<noteq> src + of_nat (Suc i + j)" using Suc.prems(2) [of i "Suc i + j"] by simp
    then show "?m (src + of_nat (Suc i) + of_nat j) = m (src + of_nat (Suc i) + of_nat j)"
      by (auto simp: ac_simps)
  qed
  moreover have "bytecpy_loop n dst src (Suc i) ?m =
      mem_write ?m (dst + of_nat (Suc i)) (mem_read ?m (src + of_nat (Suc i)) n)"
    using Suc.prems by (intro Suc.IH) simp_all
  ultimately show ?case by (simp add: mem_read_Suc ac_simps)
qed simp

text \<open>Swapping two areas that do not overlap.\<close>

lemma byteswp_loop_outside:
  assumes "\<And>i. i < n \<Longrightarrow> x \<noteq> a + of_nat i" "\<And>i. i < n \<Longrightarrow> x \<noteq> b + of_nat i"
  shows "byteswp_loop n a b m x = m x"
  using assms
proof (induction n arbitrary: a b m)
  case (Suc n)
  have "x \<noteq> a + 1 + of_nat i" "x \<noteq> b + 1 + of_nat i" if "i < n" for i
    using Suc.prems(1) [of "Suc i"] Suc.prems(2) [of "Suc i"] that by (simp_all add: add.assoc)
  then show ?case using Suc.IH Suc.prems(1) [of 0] Suc.prems(2) [of 0] by (simp add: Let_def)
qed simp

lemma byteswp_loop_swaps:
  assumes "n < 2 ^ 32" and "\<And>i j. i < n \<Longrightarrow> j < n \<Longrightarrow> a + of_nat i \<noteq> b + of_nat j" and "k < n"
  shows "byteswp_loop n a b m (a + of_nat k) = m (b + of_nat k) \<and> byteswp_loop n a b m (b + of_nat k) = m (a + of_nat k)"
  using assms
proof (induction n arbitrary: a b m k)
  case (Suc n)
  have apart: "a + 1 + of_nat i \<noteq> b + 1 + of_nat j" if "i < n" "j < n" for i j
    using Suc.prems(2) [of "Suc i" "Suc j"] that by (simp add: add.assoc)
  let ?m = "m(a := m b, b := m a)"
  have ne: "1 + of_nat i \<noteq> (0 :: u32)" if "i < n" for i
    using that Suc.prems(1) of_nat_u32_inj [of "Suc i" 0] by simp
  have ab: "a \<noteq> b + 1 + of_nat i" "b \<noteq> a + 1 + of_nat i" if "i < n" for i
    using Suc.prems(2) [of 0 "Suc i"] Suc.prems(2) [of "Suc i" 0] that by (auto simp: ac_simps)
  have aa: "a \<noteq> a + 1 + of_nat i" "b \<noteq> b + 1 + of_nat i" if "i < n" for i
    using ne [OF that] by (simp_all add: add.assoc)
  have "a \<noteq> b" using Suc.prems(2) [of 0 0] by simp
  show ?case
  proof (cases k)
    case 0
    have "byteswp_loop n (a + 1) (b + 1) ?m a = ?m a" "byteswp_loop n (a + 1) (b + 1) ?m b = ?m b"
      by (rule byteswp_loop_outside; rule ab aa; assumption)+
    with \<open>a \<noteq> b\<close> 0 show ?thesis by (simp add: Let_def)
  next
    case (Suc i)
    with Suc.prems have i: "i < n" by simp
    have "byteswp_loop n (a + 1) (b + 1) ?m (a + 1 + of_nat i) = ?m (b + 1 + of_nat i) \<and>
        byteswp_loop n (a + 1) (b + 1) ?m (b + 1 + of_nat i) = ?m (a + 1 + of_nat i)"
      by (rule Suc.IH [OF _ apart i]) (use Suc.prems(1) in simp_all)
    moreover have "?m (b + 1 + of_nat i) = m (b + 1 + of_nat i)" "?m (a + 1 + of_nat i) = m (a + 1 + of_nat i)"
      using ab [OF i, symmetric] aa [OF i, symmetric] by simp_all
    ultimately show ?thesis using Suc by (simp add: Let_def add.assoc)
  qed
qed simp

text \<open>Two decimal digits.\<close>

lemma bcd_roundtrip: "b < 100 \<Longrightarrow> bcd2bin (bin2bcd b) = b"
proof -
  have "list_all (\<lambda>n. bcd2bin (bin2bcd (of_nat n)) = of_nat n) [0..<100]" by code_simp
  moreover assume "b < 100"
  then have "unat b < 100" by (simp add: word_less_nat_alt)
  ultimately show "bcd2bin (bin2bcd b) = b"
    using list_all_length [of _ "[0..<100]"] nth_upt [of 0 "unat b" 100] by (fastforce simp del: upt_rec_numeral)
qed

text \<open>\<open>bytecpy\<close> stores the bytes of the source at the destination, provided the destination does not start inside the
  source.  \<open>byteswp\<close> exchanges the contents of two areas that do not overlap and changes nothing else, so applied twice
  it restores the memory.  Two decimal digits survive the way to a packed byte and back.\<close>

theorem bytes_moved:
  assumes n: "\<And>i j. i < unat n \<Longrightarrow> j < unat n \<Longrightarrow> a + of_nat i \<noteq> b + of_nat j"
  shows "bytecpy a b n m = mem_write m a (mem_read m b (unat n)) \<and>
    mem_read (byteswp a b n m) a (unat n) = mem_read m b (unat n) \<and>
    mem_read (byteswp a b n m) b (unat n) = mem_read m a (unat n) \<and>
    byteswp a b n (byteswp a b n m) = m \<and> (d < 100 \<longrightarrow> bcd2bin (bin2bcd d) = d)"
proof (intro conjI impI)
  have n32: "unat n < 2 ^ 32" by (simp add: unat_u32_less)
  note swap = byteswp_loop_swaps [OF n32 n] and out = byteswp_loop_outside [of "unat n"]
  show "bytecpy a b n m = mem_write m a (mem_read m b (unat n))"
    using bytecpy_loop_copies [of 0 "unat n" a b m] n n32 by (simp add: bytecpy_def)
  show "mem_read (byteswp a b n m) a (unat n) = mem_read m b (unat n)"
    "mem_read (byteswp a b n m) b (unat n) = mem_read m a (unat n)"
    using swap by (auto simp: byteswp_def mem_read_def)
  show "byteswp a b n (byteswp a b n m) = m"
  proof
    fix x
    consider i where "i < unat n" "x = a + of_nat i" | i where "i < unat n" "x = b + of_nat i"
      | "\<And>i. i < unat n \<Longrightarrow> x \<noteq> a + of_nat i \<and> x \<noteq> b + of_nat i" by blast
    then show "byteswp a b n (byteswp a b n m) x = m x"
      by cases (simp_all add: byteswp_def swap out)
  qed
  show "bcd2bin (bin2bcd d) = d" if "d < 100" using that by (rule bcd_roundtrip)
qed

theorem bytes_moved_witness:
  "mem_read (byteswp 0x100 0x200 4 (\<lambda>a. ucast a)) 0x100 4 = mem_read (\<lambda>a. ucast a) 0x200 4 \<and> bcd2bin (bin2bcd 59) = 59"
proof -
  have "0x100 + of_nat i \<noteq> (0x200 + of_nat j :: u32)" if "i < 4" "j < 4" for i j
  proof -
    have "of_nat (0x100 + i) \<noteq> (of_nat (0x200 + j) :: u32)" using that by (subst of_nat_u32_inj) simp_all
    then show ?thesis by simp
  qed
  then show ?thesis using bytes_moved [of 4 "0x100" "0x200" "\<lambda>a. ucast a" 59] by simp
qed

end
