(* ===== verification/Sfr.thy ===== *)
theory Sfr
  imports Prelude
begin

text \<open>
  Register headers as tables.  Each entry is an object-like macro of the header: a register (a volatile location of a
  width at an address), a pointer to a base address, a number (offsets, bit masks, codes), another name for an earlier
  macro, or the vector address of an interrupt number.

  The names carry meaning: \<open>R8_\<close>, \<open>R16_\<close> and \<open>R32_\<close> announce the width of a register, \<open>RB_\<close> a mask of the register
  before it (in the sections that give offsets, of the register at the offset before it).  The checks below collect the entries that do not keep to this.
\<close>

datatype sfr_body = Reg nat nat | Ptr nat nat | Num nat | Same string | Vec string

type_synonym sfr_table = "(string \<times> sfr_body) list"

fun nominal :: "string \<Rightarrow> nat option" where
  "nominal (r # a # b # c # _) =
     (if r \<noteq> CHR ''R'' then None
      else if a = CHR ''8'' \<and> b = CHR ''_'' then Some 8
      else if a = CHR ''1'' \<and> b = CHR ''6'' \<and> c = CHR ''_'' then Some 16
      else if a = CHR ''3'' \<and> b = CHR ''2'' \<and> c = CHR ''_'' then Some 32
      else None)"
| "nominal _ = None"

fun is_mask :: "string \<Rightarrow> bool" where
  "is_mask (r # b # u # _) \<longleftrightarrow> r = CHR ''R'' \<and> b = CHR ''B'' \<and> u = CHR ''_''"
| "is_mask _ \<longleftrightarrow> False"

named_theorems sfr_checked \<open>results of the checks on the tables\<close>

section \<open>Checks\<close>

text \<open>Registers that are accessed with another width than their name announces, and registers that are not aligned.\<close>

fun misnamed :: "sfr_table \<Rightarrow> string list" where
  "misnamed [] = []"
| "misnamed ((n, b) # t) =
     (case b of
        Reg w a \<Rightarrow> if nominal n = Some w then misnamed t else n # misnamed t
      | _ \<Rightarrow> misnamed t)"

fun misaligned :: "sfr_table \<Rightarrow> string list" where
  "misaligned [] = []"
| "misaligned ((n, b) # t) =
     (case b of
        Reg w a \<Rightarrow> if (w = 8 \<or> w = 16 \<or> w = 32) \<and> a mod (w div 8) = 0 then misaligned t else n # misaligned t
      | _ \<Rightarrow> misaligned t)"

text \<open>Masks that do not fit the register before them, or that cross another mask of it: two masks of a register are
  disjoint or one contains the other.\<close>

definition crosses :: "nat \<Rightarrow> nat \<Rightarrow> bool" where
  "crosses v u \<longleftrightarrow> (let x = and v u in x \<noteq> 0 \<and> x \<noteq> v \<and> x \<noteq> u)"

text \<open>The width of a register with a given name, and the smallest width with which a given address is accessed.\<close>

fun named_width :: "sfr_table \<Rightarrow> string \<Rightarrow> nat option" where
  "named_width [] x = None"
| "named_width ((n, b) # t) x =
     (case b of Reg w a \<Rightarrow> if n = x then Some w else named_width t x | _ \<Rightarrow> named_width t x)"

fun address_width :: "sfr_table \<Rightarrow> nat \<Rightarrow> nat option" where
  "address_width [] x = None"
| "address_width ((n, b) # t) x =
     (case b of
        Reg w a \<Rightarrow>
          if a = x then (case address_width t x of None \<Rightarrow> Some w | Some v \<Rightarrow> Some (min w v)) else address_width t x
      | _ \<Rightarrow> address_width t x)"

text \<open>
  The masks of a section, each checked against the register it follows: \<open>w\<close> is the width with which that register is
  accessed, \<open>us\<close> the masks it already has.  A register sets the width; another name for a register has its width; a
  number that is not a mask is, in a section of offsets, the offset of a register (\<open>off\<close> gives its width), and otherwise
  a code for a field of the same register.  A mask that follows no register is bad.
\<close>

fun bad_masks :: "(nat \<Rightarrow> nat option) option \<Rightarrow> (string \<Rightarrow> nat option) \<Rightarrow> nat option \<Rightarrow> nat list \<Rightarrow> sfr_table \<Rightarrow> string list" where
  "bad_masks off own w us [] = []"
| "bad_masks off own w us ((n, b) # t) =
     (case b of
        Num v \<Rightarrow>
          if is_mask n then
            if v = 0 \<or> (case w of None \<Rightarrow> True | Some k \<Rightarrow> 2 ^ k \<le> v) \<or> list_ex (crosses v) us
            then n # bad_masks off own w (v # us) t else bad_masks off own w (v # us) t
          else (case off of None \<Rightarrow> bad_masks off own w us t | Some f \<Rightarrow> bad_masks off own (f v) [] t)
      | Reg k a \<Rightarrow> bad_masks off own (Some k) [] t
      | Same x \<Rightarrow> bad_masks off own (own x) [] t
      | _ \<Rightarrow> bad_masks off own None [] t)"

definition section_masks :: "(nat \<times> sfr_table) option \<times> sfr_table \<Rightarrow> string list" where
  "section_masks s =
     bad_masks (map_option (\<lambda>(base, regs) v. address_width regs (base + v)) (fst s)) (named_width (snd s)) None [] (snd s)"

text \<open>The registers of a section that have the same width and the same address as an earlier one, and the range of
  addresses of a section.\<close>

fun same_place :: "string \<Rightarrow> nat \<Rightarrow> nat \<Rightarrow> sfr_table \<Rightarrow> (string \<times> string) list" where
  "same_place n w a [] = []"
| "same_place n w a ((m, b) # t) =
     (case b of
        Reg v c \<Rightarrow> if c = a then if v = w then (n, m) # same_place n w a t else same_place n w a t else same_place n w a t
      | _ \<Rightarrow> same_place n w a t)"

fun aliases :: "sfr_table \<Rightarrow> (string \<times> string) list" where
  "aliases [] = []"
| "aliases ((n, b) # t) = (case b of Reg w a \<Rightarrow> same_place n w a t @ aliases t | _ \<Rightarrow> aliases t)"

fun hull :: "sfr_table \<Rightarrow> (nat \<times> nat) option" where
  "hull [] = None"
| "hull ((n, b) # t) =
     (case b of
        Reg w a \<Rightarrow>
          (case hull t of None \<Rightarrow> Some (a, a + w div 8) | Some (lo, hi) \<Rightarrow> Some (min a lo, max (a + w div 8) hi))
      | _ \<Rightarrow> hull t)"

definition separate :: "(nat \<times> nat) option \<Rightarrow> (nat \<times> nat) option \<Rightarrow> bool" where
  "separate x y = (case (x, y) of (Some (a, b), Some (c, d)) \<Rightarrow> b \<le> c \<or> d \<le> a | _ \<Rightarrow> True)"

fun all_separate :: "(nat \<times> nat) option list \<Rightarrow> bool" where
  "all_separate [] \<longleftrightarrow> True"
| "all_separate (h # hs) \<longleftrightarrow> list_all (separate h) hs \<and> all_separate hs"

text \<open>The entries of the first table are found in the second, in the same order and with the same bodies, but for those
  that the first argument names.\<close>

function agree :: "string list \<Rightarrow> sfr_table \<Rightarrow> sfr_table \<Rightarrow> bool" where
  "agree ex [] u \<longleftrightarrow> ex = []"
| "agree ex (e # t) u \<longleftrightarrow>
     (if ex \<noteq> [] \<and> hd ex = fst e then agree (tl ex) t u
      else if u = [] then False
      else if e = hd u then agree ex t (tl u)
      else agree ex (e # t) (tl u))"
  by pat_completeness auto
termination by (relation "measure (\<lambda>(ex, t, u). length t + length u)") auto

declare agree.simps(2) [simp del]

text \<open>Evaluation: equations on lists in normal form, and congruences that keep the simplifier out of the tables.\<close>

lemma agree_eval:
  "agree [] [] u" "\<not> agree (x # xs) [] u" "\<not> agree [] (e # t) []"
  "agree (x # xs) (e # t) [] = (if x = fst e then agree xs t [] else False)"
  "agree [] (e # t) (f # u) = (if e = f then agree [] t u else agree [] (e # t) u)"
  "agree (x # xs) (e # t) (f # u) =
     (if x = fst e then agree xs t (f # u) else if e = f then agree (x # xs) t u else agree (x # xs) (e # t) u)"
  by (subst agree.simps; simp)+

lemma check_congs:
  "agree ex t u = agree ex t u" "misnamed t = misnamed t" "misaligned t = misaligned t"
  "bad_masks off own w us t = bad_masks off own w us t" "same_place n v a t = same_place n v a t"
  "aliases t = aliases t" "hull t = hull t" "named_width t n = named_width t n" "address_width t a = address_width t a"
  by (rule refl)+

section \<open>What the checks mean\<close>

definition reg_bytes :: "sfr_body \<Rightarrow> nat set" where
  "reg_bytes b = (case b of Reg w a \<Rightarrow> {a..<a + w div 8} | _ \<Rightarrow> {})"

definition nested :: "nat set \<Rightarrow> nat set \<Rightarrow> bool" where
  "nested x y \<longleftrightarrow> x \<inter> y = {} \<or> x \<subseteq> y \<or> y \<subseteq> x"

lemma nested_commute: "nested x y = nested y x"
  by (auto simp: nested_def)

lemma nested_multiples:
  fixes s t i j :: nat
  assumes "s = t * k"
  shows "nested {s * i..<s * i + s} {t * j..<t * j + t}"
proof -
  consider "j < k * i" | "k * i + k \<le> j" | "k * i \<le> j" "Suc j \<le> k * i + k" by linarith
  then show ?thesis
  proof cases
    case 1
    then have "t * Suc j \<le> t * (k * i)" by (intro mult_le_mono2) simp
    then show ?thesis by (auto simp: nested_def assms mult.assoc)
  next
    case 2
    then have "t * (k * i + k) \<le> t * j" by (rule mult_le_mono2)
    then show ?thesis by (auto simp: nested_def assms mult.assoc distrib_left)
  next
    case 3
    then have "t * (k * i) \<le> t * j" "t * Suc j \<le> t * (k * i + k)" by (intro mult_le_mono2; simp)+
    then have "{t * j..<t * j + t} \<subseteq> {s * i..<s * i + s}" by (auto simp: assms mult.assoc distrib_left)
    then show ?thesis by (simp add: nested_def)
  qed
qed

lemma aligned_nested:
  assumes "w \<in> {8, 16, 32}" "a mod (w div 8) = 0" "v \<in> {8, 16, 32}" "b mod (v div 8) = 0"
  shows "nested {a..<a + w div 8} {b..<b + v div 8}"
proof -
  let ?s = "w div 8" and ?t = "v div 8"
  obtain i j where ij: "a = ?s * i" "b = ?t * j" using assms(2,4) by (auto simp: mod_eq_0_iff_dvd elim!: dvdE)
  have "?t dvd ?s \<or> ?s dvd ?t" using assms(1,3) by auto
  then show ?thesis
  proof
    assume "?t dvd ?s"
    then obtain k where "?s = ?t * k" ..
    then show ?thesis unfolding ij by (rule nested_multiples)
  next
    assume "?s dvd ?t"
    then obtain k where "?t = ?s * k" ..
    then show ?thesis unfolding ij by (subst nested_commute) (rule nested_multiples)
  qed
qed

lemma misaligned_Nil:
  "misaligned t = [] \<Longrightarrow> (n, Reg w a) \<in> set t \<Longrightarrow> w \<in> {8, 16, 32} \<and> a mod (w div 8) = 0"
  by (induction t rule: misaligned.induct) (auto split: sfr_body.splits if_splits)

lemma misaligned_nested:
  assumes "misaligned t = []" "x \<in> set t" "y \<in> set t"
  shows "nested (reg_bytes (snd x)) (reg_bytes (snd y))"
proof -
  have ok: "w \<in> {8, 16, 32} \<and> a mod (w div 8) = 0" if "z \<in> set t" "snd z = Reg w a" for z w a
    using assms(1) that misaligned_Nil [of t "fst z" w a] by (metis prod.collapse)
  show ?thesis
  proof (cases "snd x")
    case x: (Reg w a)
    show ?thesis
    proof (cases "snd y")
      case (Reg v b)
      with x ok [OF assms(2) x] ok [OF assms(3) Reg] show ?thesis by (simp add: reg_bytes_def aligned_nested)
    qed (simp_all add: reg_bytes_def nested_def)
  qed (simp_all add: reg_bytes_def nested_def)
qed

lemma hull_bytes: "x \<in> set t \<Longrightarrow> reg_bytes (snd x) \<subseteq> (case hull t of None \<Rightarrow> {} | Some (lo, hi) \<Rightarrow> {lo..<hi})"
proof (induction t)
  case (Cons e t)
  obtain n b where e: "e = (n, b)" by (cases e)
  show ?case
  proof (cases "x = e")
    case True
    then show ?thesis by (auto simp: e reg_bytes_def split: sfr_body.splits option.splits)
  next
    case False
    with Cons have "reg_bytes (snd x) \<subseteq> (case hull t of None \<Rightarrow> {} | Some (lo, hi) \<Rightarrow> {lo..<hi})" by simp
    then show ?thesis by (fastforce simp: e split: sfr_body.splits option.splits)
  qed
qed simp

lemma separate_bytes:
  "separate (hull t) (hull u) \<Longrightarrow> x \<in> set t \<Longrightarrow> y \<in> set u \<Longrightarrow> reg_bytes (snd x) \<inter> reg_bytes (snd y) = {}"
  using hull_bytes [of x t] hull_bytes [of y u]
  by (fastforce simp: separate_def split: option.splits)

lemma separate_commute: "separate h k = separate k h"
  by (auto simp: separate_def split: option.splits)

lemma all_separate_nth: "all_separate hs \<Longrightarrow> i < length hs \<Longrightarrow> j < length hs \<Longrightarrow> i \<noteq> j \<Longrightarrow> separate (hs ! i) (hs ! j)"
proof (induction hs arbitrary: i j)
  case (Cons h hs)
  have "separate h k" if "k \<in> set hs" for k using Cons.prems(1) that by (simp add: list_all_iff)
  with Cons show ?case by (cases i; cases j) (auto simp: separate_commute [of _ h])
qed simp

lemma same_place_member: "(m, Reg w a) \<in> set t \<Longrightarrow> (n, m) \<in> set (same_place n w a t)"
proof (induction t)
  case (Cons e t)
  then show ?case by (cases e; cases "snd e") auto
qed simp

lemma aliases_complete:
  assumes "i < j" "j < length t" "snd (t ! i) = Reg w a" "snd (t ! j) = Reg w a"
  shows "(fst (t ! i), fst (t ! j)) \<in> set (aliases t)"
  using assms
proof (induction t arbitrary: i j)
  case (Cons e t)
  obtain n b where e: "e = (n, b)" by (cases e)
  show ?case
  proof (cases i)
    case 0
    with Cons.prems e have b: "b = Reg w a" "(fst ((e # t) ! j), Reg w a) \<in> set t"
      by (auto simp: nth_Cons' set_conv_nth prod_eq_iff intro!: exI [of _ "j - 1"])
    then show ?thesis using same_place_member [OF b(2), of n] 0 e by simp
  next
    case (Suc k)
    then obtain l where "j = Suc l" using Cons.prems(1) by (cases j) auto
    with Suc Cons.prems Cons.IH [of k l] e show ?thesis by (simp split: sfr_body.splits)
  qed
qed simp

lemma agree_member: "agree ex t u \<Longrightarrow> e \<in> set t \<Longrightarrow> fst e \<notin> set ex \<Longrightarrow> e \<in> set u"
proof (induction ex t u rule: agree.induct)
  case (2 ex e' t u)
  note step = agree.simps(2) [THEN iffD1, OF "2.prems"(1)]
  show ?case
  proof (cases "ex \<noteq> [] \<and> hd ex = fst e'")
    case True
    then have "e \<in> set t" using "2.prems"(2,3) hd_in_set [of ex] by auto
    moreover have "fst e \<notin> set (tl ex)" using "2.prems"(3) True by (metis list.set_sel(2))
    ultimately show ?thesis using True "2.IH"(1) step by simp
  next
    case False
    with step have u: "u \<noteq> []" by (auto split: if_splits)
    then have *: "x \<in> set (tl u) \<Longrightarrow> x \<in> set u" "hd u \<in> set u" for x by (auto dest: list.set_sel(2))
    show ?thesis
    proof (cases "e' = hd u")
      case True
      with False u step have "agree ex t (tl u)" by auto
      then have "e \<in> set t \<Longrightarrow> e \<in> set (tl u)" using "2.IH"(2) [OF False u True] "2.prems"(3) by blast
      then have "e = hd u \<or> e \<in> set (tl u)" using True "2.prems"(2) by auto
      then show ?thesis using *(1) [of e] *(2) by blast
    next
      case neq: False
      with False u step have "agree ex (e' # t) (tl u)" by auto
      then have "e \<in> set (tl u)" using "2.IH"(3) [OF False u neq] "2.prems"(2,3) by blast
      then show ?thesis by (rule *)
    qed
  qed
qed simp

end
