(* ===== verification/Sfr_Ch57x.thy ===== *)
theory Sfr_Ch57x
  imports Sfr
begin

text \<open>The register map of the CH573, \<^verbatim>\<open>hal/ch57x/inc/CH573SFR.h\<close>: one table for each section of the header.\<close>

definition ch573_system_safe_accessing_register :: sfr_table where
  "ch573_system_safe_accessing_register =
     [(''R32_SAFE_ACCESS'', Reg 32 0x40001040),
      (''R8_SAFE_ACCESS_SIG'', Reg 8 0x40001040),
      (''RB_SAFE_ACC_MODE'', Num 0x03),
      (''RB_SAFE_ACC_ACT'', Num 0x08),
      (''RB_SAFE_ACC_TIMER'', Num 0x70),
      (''SAFE_ACCESS_SIG1'', Num 0x57),
      (''SAFE_ACCESS_SIG2'', Num 0xA8),
      (''SAFE_ACCESS_SIG0'', Num 0x00),
      (''R8_CHIP_ID'', Reg 8 0x40001041),
      (''R8_SAFE_ACCESS_ID'', Reg 8 0x40001042),
      (''R8_WDOG_COUNT'', Reg 8 0x40001043)]"

definition ch573_system_global_configuration_register :: sfr_table where
  "ch573_system_global_configuration_register =
     [(''R32_GLOBAL_CONFIG'', Reg 32 0x40001044),
      (''R8_RESET_STATUS'', Reg 8 0x40001044),
      (''RB_RESET_FLAG'', Num 0x07),
      (''RST_FLAG_SW'', Num 0x00),
      (''RST_FLAG_RPOR'', Num 0x01),
      (''RST_FLAG_WTR'', Num 0x02),
      (''RST_FLAG_MR'', Num 0x03),
      (''RST_FLAG_GPWSM'', Num 0x05),
      (''R8_GLOB_ROM_CFG'', Same ''R8_RESET_STATUS''),
      (''RB_ROM_CODE_OFS'', Num 0x10),
      (''RB_ROM_CTRL_EN'', Num 0x20),
      (''RB_ROM_DATA_WE'', Num 0x40),
      (''RB_ROM_CODE_WE'', Num 0x80),
      (''R8_GLOB_CFG_INFO'', Reg 8 0x40001045),
      (''RB_CFG_ROM_READ'', Num 0x01),
      (''RB_CFG_RESET_EN'', Num 0x04),
      (''RB_CFG_BOOT_EN'', Num 0x08),
      (''RB_CFG_DEBUG_EN'', Num 0x10),
      (''RB_BOOT_LOADER'', Num 0x20),
      (''R8_RST_WDOG_CTRL'', Reg 8 0x40001046),
      (''RB_SOFTWARE_RESET'', Num 0x01),
      (''RB_WDOG_RST_EN'', Num 0x02),
      (''RB_WDOG_INT_EN'', Num 0x04),
      (''RB_WDOG_INT_FLAG'', Num 0x10),
      (''R8_GLOB_RESET_KEEP'', Reg 8 0x40001047)]"

definition ch573_system_clock_configuration_register :: sfr_table where
  "ch573_system_clock_configuration_register =
     [(''R32_CLOCK_CONFIG'', Reg 32 0x40001008),
      (''R16_CLK_SYS_CFG'', Reg 16 0x40001008),
      (''RB_CLK_PLL_DIV'', Num 0x1F),
      (''RB_CLK_SYS_MOD'', Num 0xC0),
      (''R8_HFCK_PWR_CTRL'', Reg 8 0x4000100A),
      (''RB_CLK_XT32M_PON'', Num 0x04),
      (''RB_CLK_PLL_PON'', Num 0x10)]"

definition ch573_system_sleep_control_register :: sfr_table where
  "ch573_system_sleep_control_register =
     [(''R32_SLEEP_CONTROL'', Reg 32 0x4000100C),
      (''R8_SLP_CLK_OFF0'', Reg 8 0x4000100C),
      (''RB_SLP_CLK_TMR0'', Num 0x01),
      (''RB_SLP_CLK_TMR1'', Num 0x02),
      (''RB_SLP_CLK_TMR2'', Num 0x04),
      (''RB_SLP_CLK_TMR3'', Num 0x08),
      (''RB_SLP_CLK_UART0'', Num 0x10),
      (''RB_SLP_CLK_UART1'', Num 0x20),
      (''RB_SLP_CLK_UART2'', Num 0x40),
      (''RB_SLP_CLK_UART3'', Num 0x80),
      (''R8_SLP_CLK_OFF1'', Reg 8 0x4000100D),
      (''RB_SLP_CLK_SPI0'', Num 0x01),
      (''RB_SLP_CLK_PWMX'', Num 0x04),
      (''RB_SLP_CLK_USB'', Num 0x10),
      (''RB_SLP_CLK_BLE'', Num 0x80),
      (''R8_SLP_WAKE_CTRL'', Reg 8 0x4000100E),
      (''RB_SLP_USB_WAKE'', Num 0x01),
      (''RB_SLP_RTC_WAKE'', Num 0x08),
      (''RB_SLP_GPIO_WAKE'', Num 0x10),
      (''RB_SLP_BAT_WAKE'', Num 0x20),
      (''RB_WAKE_EV_MODE'', Num 0x40),
      (''RB_WAKE_DELAY'', Num 0x80),
      (''R8_SLP_POWER_CTRL'', Reg 8 0x4000100F),
      (''RB_SLP_CLK_RAMX'', Num 0x10),
      (''RB_SLP_CLK_RAM2K'', Num 0x20),
      (''RB_RAM_RET_LV'', Num 0x40)]"

definition ch573_system_i_o_pin_configuration :: sfr_table where
  "ch573_system_i_o_pin_configuration =
     [(''R32_PIN_CONFIG'', Reg 32 0x40001018),
      (''R16_PIN_ALTERNATE'', Reg 16 0x40001018),
      (''RB_PIN_TMR0'', Num 0x01),
      (''RB_PIN_TMR1'', Num 0x02),
      (''RB_PIN_TMR2'', Num 0x04),
      (''RB_PIN_UART0'', Num 0x10),
      (''RB_PIN_UART1'', Num 0x20),
      (''RB_PIN_SPI0'', Num 0x100),
      (''R16_PIN_ANALOG_IE'', Reg 16 0x4000101A),
      (''RB_PIN_USB_DP_PU'', Num 0x40),
      (''RB_PIN_USB_IE'', Num 0x80),
      (''RB_PIN_ADC8_9_IE'', Num 0x0100),
      (''RB_PIN_ADC0_IE'', Num 0x0200),
      (''RB_PIN_ADC1_IE'', Num 0x0400),
      (''RB_PIN_ADC12_IE'', Num 0x0800),
      (''RB_PIN_ADC13_IE'', Num 0x1000),
      (''RB_PIN_XT32K_IE'', Num 0x2000),
      (''RB_PIN_ADC2_3_IE'', Num 0x4000),
      (''RB_PIN_ADC4_5_IE'', Num 0x8000)]"

definition ch573_system_power_management_register :: sfr_table where
  "ch573_system_power_management_register =
     [(''R32_POWER_MANAG'', Reg 32 0x40001020),
      (''R16_POWER_PLAN'', Reg 16 0x40001020),
      (''RB_PWR_XROM'', Num 0x01),
      (''RB_PWR_RAM2K'', Num 0x02),
      (''RB_PWR_CORE'', Num 0x04),
      (''RB_PWR_EXTEND'', Num 0x08),
      (''RB_PWR_RAM16K'', Num 0x10),
      (''RB_PWR_SYS_EN'', Num 0x80),
      (''RB_PWR_DCDC_EN'', Num 0x0200),
      (''RB_PWR_DCDC_PRE'', Num 0x0400),
      (''RB_PWR_PLAN_EN'', Num 0x8000),
      (''RB_PWR_MUST_0010'', Num 0x1000),
      (''R16_AUX_POWER_ADJ'', Reg 8 0x40001022),
      (''RB_ULPLDO_ADJ'', Num 0x0007)]"

definition ch573_system_battery_detector_register :: sfr_table where
  "ch573_system_battery_detector_register =
     [(''R32_BATTERY_CTRL'', Reg 32 0x40001024),
      (''R8_BAT_DET_CTRL'', Reg 8 0x40001024),
      (''RB_BAT_DET_EN'', Num 0x01),
      (''RB_BAT_LOW_VTHX'', Num 0x01),
      (''RB_BAT_MON_EN'', Num 0x02),
      (''RB_BAT_LOWER_IE'', Num 0x04),
      (''RB_BAT_LOW_IE'', Num 0x08),
      (''R8_BAT_DET_CFG'', Reg 8 0x40001025),
      (''RB_BAT_LOW_VTH'', Num 0x03),
      (''R8_BAT_STATUS'', Reg 8 0x40001026),
      (''RB_BAT_STAT_LOWER'', Num 0x01),
      (''RB_BAT_STAT_LOW'', Num 0x02)]"

definition ch573_system_32khz_oscillator_control_register :: sfr_table where
  "ch573_system_32khz_oscillator_control_register =
     [(''R32_OSC32K_CTRL'', Reg 32 0x4000102C),
      (''R16_INT32K_TUNE'', Reg 16 0x4000102C),
      (''RB_INT32K_TUNE'', Num 0x0FFF),
      (''R8_XT32K_TUNE'', Reg 8 0x4000102E),
      (''RB_XT32K_I_TUNE'', Num 0x03),
      (''RB_XT32K_C_LOAD'', Num 0xF0),
      (''R8_CK32K_CONFIG'', Reg 8 0x4000102F),
      (''RB_CLK_XT32K_PON'', Num 0x01),
      (''RB_CLK_INT32K_PON'', Num 0x02),
      (''RB_CLK_OSC32K_XT'', Num 0x04),
      (''RB_32K_CLK_PIN'', Num 0x80)]"

definition ch573_system_real_time_clock_register :: sfr_table where
  "ch573_system_real_time_clock_register =
     [(''R32_RTC_CTRL'', Reg 32 0x40001030),
      (''R8_RTC_FLAG_CTRL'', Reg 8 0x40001030),
      (''RB_RTC_TMR_CLR'', Num 0x10),
      (''RB_RTC_TRIG_CLR'', Num 0x20),
      (''RB_RTC_TMR_FLAG'', Num 0x40),
      (''RB_RTC_TRIG_FLAG'', Num 0x80),
      (''R8_RTC_MODE_CTRL'', Reg 8 0x40001031),
      (''RB_RTC_TMR_MODE'', Num 0x07),
      (''RB_RTC_IGNORE_B0'', Num 0x08),
      (''RB_RTC_TMR_EN'', Num 0x10),
      (''RB_RTC_TRIG_EN'', Num 0x20),
      (''RB_RTC_LOAD_LO'', Num 0x40),
      (''RB_RTC_LOAD_HI'', Num 0x80),
      (''R32_RTC_TRIG'', Reg 32 0x40001034),
      (''R32_RTC_CNT_32K'', Reg 32 0x40001038),
      (''R16_RTC_CNT_32K'', Reg 16 0x40001038),
      (''R16_RTC_CNT_2S'', Reg 16 0x4000103A),
      (''R32_RTC_CNT_DAY'', Reg 32 0x4000103C)]"

definition ch573_system_miscellaneous_control_register :: sfr_table where
  "ch573_system_miscellaneous_control_register =
     [(''R32_MISC_CTRL'', Reg 32 0x40001048),
      (''R8_PLL_CONFIG'', Reg 8 0x4000104B)]"

definition ch573_system_32mhz_oscillator_control_register :: sfr_table where
  "ch573_system_32mhz_oscillator_control_register =
     [(''R32_OSC32M_CTRL'', Reg 32 0x4000104C),
      (''R8_XT32M_TUNE'', Reg 8 0x4000104E),
      (''RB_XT32M_I_BIAS'', Num 0x03),
      (''RB_XT32M_C_LOAD'', Num 0x70)]"

definition ch573_system_oscillator_frequency_calibration_register :: sfr_table where
  "ch573_system_oscillator_frequency_calibration_register =
     [(''R32_OSC_CALIB'', Reg 32 0x40001050),
      (''R16_OSC_CAL_CNT'', Reg 16 0x40001050),
      (''RB_OSC_CAL_CNT'', Num 0x3FFF),
      (''R8_OSC_CAL_CTRL'', Reg 8 0x40001052),
      (''RB_OSC_CNT_EN'', Num 0x01),
      (''RB_OSC_CNT_HALT'', Num 0x02)]"

definition ch573_system_adc_and_touch_key :: sfr_table where
  "ch573_system_adc_and_touch_key =
     [(''R32_ADC_CTRL'', Reg 32 0x40001058),
      (''R8_ADC_CHANNEL'', Reg 8 0x40001058),
      (''RB_ADC_CH_INX'', Num 0x0F),
      (''R8_ADC_CFG'', Reg 8 0x40001059),
      (''RB_ADC_POWER_ON'', Num 0x01),
      (''RB_ADC_BUF_EN'', Num 0x02),
      (''RB_ADC_DIFF_EN'', Num 0x04),
      (''RB_ADC_OFS_TEST'', Num 0x08),
      (''RB_ADC_PGA_GAIN'', Num 0x30),
      (''RB_ADC_CLK_DIV'', Num 0xC0),
      (''R8_ADC_CONVERT'', Reg 8 0x4000105A),
      (''RB_ADC_START'', Num 0x01),
      (''RB_ADC_EOC_X'', Num 0x80),
      (''R8_TEM_SENSOR'', Reg 8 0x4000105B),
      (''RB_TEM_SEN_PWR_ON'', Num 0x80),
      (''R32_ADC_DATA'', Reg 32 0x4000105C),
      (''R16_ADC_DATA'', Reg 16 0x4000105C),
      (''RB_ADC_DATA'', Num 0x0FFF),
      (''R8_ADC_INT_FLAG'', Reg 8 0x4000105E),
      (''RB_ADC_IF_EOC'', Num 0x80),
      (''R32_TKEY_CTRL'', Reg 8 0x40001054),
      (''R8_TKEY_COUNT'', Reg 8 0x40001054),
      (''RB_TKEY_CHARG_CNT'', Num 0x1F),
      (''RB_TKEY_DISCH_CNT'', Num 0xE0),
      (''R8_TKEY_CONVERT'', Reg 8 0x40001056),
      (''RB_TKEY_START'', Num 0x01),
      (''R8_TKEY_CFG'', Reg 8 0x40001057),
      (''RB_TKEY_PWR_ON'', Num 0x01),
      (''RB_TKEY_CURRENT'', Num 0x02),
      (''RB_TKEY_PGA_ADJ'', Num 0x08),
      (''R32_ADC_DMA_CTRL'', Reg 32 0x40001060),
      (''R8_ADC_CTRL_DMA'', Reg 8 0x40001061),
      (''RB_ADC_DMA_ENABLE'', Num 0x01),
      (''RB_ADC_DMA_LOOP'', Num 0x04),
      (''RB_ADC_IE_DMA_END'', Num 0x08),
      (''RB_ADC_IE_EOC'', Num 0x10),
      (''RB_ADC_AUTO_EN'', Num 0x80),
      (''R8_ADC_DMA_IF'', Reg 8 0x40001062),
      (''RB_ADC_IF_DMA_END'', Num 0x08),
      (''RB_ADC_IF_END_ADC'', Num 0x10),
      (''R8_ADC_AUTO_CYCLE'', Reg 8 0x40001063),
      (''R32_ADC_DMA_NOW'', Reg 32 0x40001064),
      (''R16_ADC_DMA_NOW'', Reg 16 0x40001064),
      (''R32_ADC_DMA_BEG'', Reg 32 0x40001068),
      (''R16_ADC_DMA_BEG'', Reg 16 0x40001068),
      (''R32_ADC_DMA_END'', Reg 32 0x4000106C),
      (''R16_ADC_DMA_END'', Reg 16 0x4000106C)]"

definition ch573_system_flash_rom_control_register :: sfr_table where
  "ch573_system_flash_rom_control_register =
     [(''R32_FLASH_DATA'', Reg 32 0x40001800),
      (''R32_FLASH_CONTROL'', Reg 32 0x40001804),
      (''R8_FLASH_DATA'', Reg 8 0x40001804),
      (''R8_FLASH_CTRL'', Reg 8 0x40001806),
      (''R8_FLASH_CFG'', Reg 8 0x40001807)]"

definition ch573_system_gpio_interrupt_control_register :: sfr_table where
  "ch573_system_gpio_interrupt_control_register =
     [(''R32_GPIO_INT_EN'', Reg 32 0x40001090),
      (''R16_PA_INT_EN'', Reg 16 0x40001090),
      (''R16_PB_INT_EN'', Reg 16 0x40001092),
      (''R32_GPIO_INT_MODE'', Reg 32 0x40001094),
      (''R16_PA_INT_MODE'', Reg 16 0x40001094),
      (''R16_PB_INT_MODE'', Reg 16 0x40001096),
      (''R32_GPIO_INT_IF'', Reg 32 0x4000109C),
      (''R16_PA_INT_IF'', Reg 16 0x4000109C),
      (''R16_PB_INT_IF'', Reg 16 0x4000109E)]"

definition ch573_gpio_pa_register :: sfr_table where
  "ch573_gpio_pa_register =
     [(''R32_PA_DIR'', Reg 32 0x400010A0),
      (''R8_PA_DIR_0'', Reg 8 0x400010A0),
      (''R8_PA_DIR_1'', Reg 8 0x400010A1),
      (''R32_PA_PIN'', Reg 32 0x400010A4),
      (''R8_PA_PIN_0'', Reg 8 0x400010A4),
      (''R8_PA_PIN_1'', Reg 8 0x400010A5),
      (''R32_PA_OUT'', Reg 32 0x400010A8),
      (''R8_PA_OUT_0'', Reg 8 0x400010A8),
      (''R8_PA_OUT_1'', Reg 8 0x400010A9),
      (''R32_PA_CLR'', Reg 32 0x400010AC),
      (''R8_PA_CLR_0'', Reg 8 0x400010AC),
      (''R8_PA_CLR_1'', Reg 8 0x400010AD),
      (''R32_PA_PU'', Reg 32 0x400010B0),
      (''R8_PA_PU_0'', Reg 8 0x400010B0),
      (''R8_PA_PU_1'', Reg 8 0x400010B1),
      (''R32_PA_PD_DRV'', Reg 32 0x400010B4),
      (''R8_PA_PD_DRV_0'', Reg 8 0x400010B4),
      (''R8_PA_PD_DRV_1'', Reg 8 0x400010B5)]"

definition ch573_gpio_pb_register :: sfr_table where
  "ch573_gpio_pb_register =
     [(''R32_PB_DIR'', Reg 32 0x400010C0),
      (''R8_PB_DIR_0'', Reg 8 0x400010C0),
      (''R8_PB_DIR_1'', Reg 8 0x400010C1),
      (''R8_PB_DIR_2'', Reg 8 0x400010C2),
      (''R32_PB_PIN'', Reg 32 0x400010C4),
      (''R8_PB_PIN_0'', Reg 8 0x400010C4),
      (''R8_PB_PIN_1'', Reg 8 0x400010C5),
      (''R8_PB_PIN_2'', Reg 8 0x400010C6),
      (''R32_PB_OUT'', Reg 32 0x400010C8),
      (''R8_PB_OUT_0'', Reg 8 0x400010C8),
      (''R8_PB_OUT_1'', Reg 8 0x400010C9),
      (''R8_PB_OUT_2'', Reg 8 0x400010CA),
      (''R32_PB_CLR'', Reg 32 0x400010CC),
      (''R8_PB_CLR_0'', Reg 8 0x400010CC),
      (''R8_PB_CLR_1'', Reg 8 0x400010CD),
      (''R8_PB_CLR_2'', Reg 8 0x400010CE),
      (''R32_PB_PU'', Reg 32 0x400010D0),
      (''R8_PB_PU_0'', Reg 8 0x400010D0),
      (''R8_PB_PU_1'', Reg 8 0x400010D1),
      (''R8_PB_PU_2'', Reg 8 0x400010D2),
      (''R32_PB_PD_DRV'', Reg 32 0x400010D4),
      (''R8_PB_PD_DRV_0'', Reg 8 0x400010D4),
      (''R8_PB_PD_DRV_1'', Reg 8 0x400010D5),
      (''R8_PB_PD_DRV_2'', Reg 8 0x400010D6)]"

definition ch573_gpio_register_address_offset_and :: sfr_table where
  "ch573_gpio_register_address_offset_and =
     [(''BA_PA'', Ptr 8 0x400010A0),
      (''BA_PB'', Ptr 8 0x400010C0),
      (''GPIO_DIR'', Num 0x00),
      (''GPIO_DIR_0'', Num 0x00),
      (''GPIO_DIR_1'', Num 0x01),
      (''GPIO_DIR_2'', Num 0x02),
      (''GPIO_PIN'', Num 0x04),
      (''GPIO_PIN_0'', Num 0x04),
      (''GPIO_PIN_1'', Num 0x05),
      (''GPIO_PIN_2'', Num 0x06),
      (''GPIO_OUT'', Num 0x08),
      (''GPIO_OUT_0'', Num 0x08),
      (''GPIO_OUT_1'', Num 0x09),
      (''GPIO_OUT_2'', Num 0x0A),
      (''GPIO_CLR'', Num 0x0C),
      (''GPIO_CLR_0'', Num 0x0C),
      (''GPIO_CLR_1'', Num 0x0D),
      (''GPIO_CLR_2'', Num 0x0E),
      (''GPIO_PU'', Num 0x10),
      (''GPIO_PU_0'', Num 0x10),
      (''GPIO_PU_1'', Num 0x11),
      (''GPIO_PU_2'', Num 0x12),
      (''GPIO_PD_DRV'', Num 0x14),
      (''GPIO_PD_DRV_0'', Num 0x14),
      (''GPIO_PD_DRV_1'', Num 0x15),
      (''GPIO_PD_DRV_2'', Num 0x16)]"

definition ch573_gpio_alias_name :: sfr_table where
  "ch573_gpio_alias_name =
     [(''bAIN0'', Num (1 * 2 ^ 4)),
      (''bRXD3'', Num (1 * 2 ^ 4)),
      (''bAIN1'', Num (1 * 2 ^ 5)),
      (''bTXD3'', Num (1 * 2 ^ 5)),
      (''bAIN12'', Num (1 * 2 ^ 8)),
      (''bRXD1'', Num (1 * 2 ^ 8)),
      (''bAIN13'', Num (1 * 2 ^ 9)),
      (''bTMR0'', Num (1 * 2 ^ 9)),
      (''bCAP0'', Same ''bTMR0''),
      (''bPWM0'', Same ''bTMR0''),
      (''bTXD1'', Num (1 * 2 ^ 9)),
      (''bX32KI'', Num (1 * 2 ^ 10)),
      (''bTMR1'', Num (1 * 2 ^ 10)),
      (''bCAP1'', Same ''bTMR1''),
      (''bPWM1'', Same ''bTMR1''),
      (''bX32KO'', Num (1 * 2 ^ 11)),
      (''bTMR2'', Num (1 * 2 ^ 11)),
      (''bCAP2'', Same ''bTMR2''),
      (''bPWM2'', Same ''bTMR2''),
      (''bAIN2'', Num (1 * 2 ^ 12)),
      (''bPWM4'', Num (1 * 2 ^ 12)),
      (''bSCS'', Num (1 * 2 ^ 12)),
      (''bAIN3'', Num (1 * 2 ^ 13)),
      (''bSCK0'', Num (1 * 2 ^ 13)),
      (''bPWM5'', Num (1 * 2 ^ 13)),
      (''bAIN4'', Num (1 * 2 ^ 14)),
      (''bMOSI'', Num (1 * 2 ^ 14)),
      (''bTXD0_'', Num (1 * 2 ^ 14)),
      (''bAIN5'', Num (1 * 2 ^ 15)),
      (''bMISO'', Num (1 * 2 ^ 15)),
      (''bRXD0_'', Num (1 * 2 ^ 15)),
      (''bAIN8'', Num (1 * 2 ^ 0)),
      (''bPWM6'', Num (1 * 2 ^ 0)),
      (''bCTS'', Num (1 * 2 ^ 0)),
      (''bPWM7'', Num (1 * 2 ^ 4)),
      (''bRXD0'', Num (1 * 2 ^ 4)),
      (''bAIN9'', Num (1 * 2 ^ 6)),
      (''bRTS'', Num (1 * 2 ^ 6)),
      (''bPWM8'', Num (1 * 2 ^ 6)),
      (''bTXD0'', Num (1 * 2 ^ 7)),
      (''bPWM9'', Num (1 * 2 ^ 7)),
      (''bUDM'', Num (1 * 2 ^ 10)),
      (''bTMR1_'', Num (1 * 2 ^ 10)),
      (''bCAP1_'', Same ''bTMR1_''),
      (''bPWM1_'', Same ''bTMR1_''),
      (''bUDP'', Num (1 * 2 ^ 11)),
      (''bTMR2_'', Num (1 * 2 ^ 11)),
      (''bCAP2_'', Same ''bTMR2_''),
      (''bPWM2_'', Same ''bTMR2_''),
      (''bSCS_'', Num (1 * 2 ^ 12)),
      (''bRXD1_'', Num (1 * 2 ^ 12)),
      (''bSCK0_'', Num (1 * 2 ^ 13)),
      (''bTXD1_'', Num (1 * 2 ^ 13)),
      (''bTIO'', Num (1 * 2 ^ 14)),
      (''bDSR'', Num (1 * 2 ^ 14)),
      (''bMOSI_'', Num (1 * 2 ^ 14)),
      (''bPWM10'', Num (1 * 2 ^ 14)),
      (''bTCK'', Num (1 * 2 ^ 15)),
      (''bMISO_'', Num (1 * 2 ^ 15)),
      (''bDTR'', Num (1 * 2 ^ 15)),
      (''bRXD2'', Num (1 * 2 ^ 22)),
      (''bTMR3'', Num (1 * 2 ^ 22)),
      (''bCAP3'', Same ''bTMR3''),
      (''bPWM3'', Same ''bTMR3''),
      (''bRST'', Num (1 * 2 ^ 23)),
      (''bTMR0_'', Num (1 * 2 ^ 23)),
      (''bCAP0_'', Same ''bTMR0_''),
      (''bPWM0_'', Same ''bTMR0_''),
      (''bTXD2'', Num (1 * 2 ^ 23)),
      (''bPWM11'', Num (1 * 2 ^ 23))]"

definition ch573_timer0_register :: sfr_table where
  "ch573_timer0_register =
     [(''R32_TMR0_CONTROL'', Reg 32 0x40002000),
      (''R8_TMR0_CTRL_MOD'', Reg 8 0x40002000),
      (''R8_TMR0_INTER_EN'', Reg 8 0x40002002),
      (''R32_TMR0_STATUS'', Reg 32 0x40002004),
      (''R8_TMR0_INT_FLAG'', Reg 8 0x40002006),
      (''R8_TMR0_FIFO_COUNT'', Reg 8 0x40002007),
      (''R32_TMR0_COUNT'', Reg 32 0x40002008),
      (''R16_TMR0_COUNT'', Reg 16 0x40002008),
      (''R8_TMR0_COUNT'', Reg 8 0x40002008),
      (''R32_TMR0_CNT_END'', Reg 32 0x4000200C),
      (''R32_TMR0_FIFO'', Reg 32 0x40002010),
      (''R16_TMR0_FIFO'', Reg 16 0x40002010),
      (''R8_TMR0_FIFO'', Reg 8 0x40002010)]"

definition ch573_timer1_register :: sfr_table where
  "ch573_timer1_register =
     [(''R32_TMR1_CONTROL'', Reg 32 0x40002400),
      (''R8_TMR1_CTRL_MOD'', Reg 8 0x40002400),
      (''R8_TMR1_CTRL_DMA'', Reg 8 0x40002401),
      (''R8_TMR1_INTER_EN'', Reg 8 0x40002402),
      (''R32_TMR1_STATUS'', Reg 32 0x40002404),
      (''R8_TMR1_INT_FLAG'', Reg 8 0x40002406),
      (''R8_TMR1_FIFO_COUNT'', Reg 8 0x40002407),
      (''R32_TMR1_COUNT'', Reg 32 0x40002408),
      (''R16_TMR1_COUNT'', Reg 16 0x40002408),
      (''R8_TMR1_COUNT'', Reg 8 0x40002408),
      (''R32_TMR1_CNT_END'', Reg 32 0x4000240C),
      (''R32_TMR1_FIFO'', Reg 32 0x40002410),
      (''R16_TMR1_FIFO'', Reg 16 0x40002410),
      (''R8_TMR1_FIFO'', Reg 8 0x40002410),
      (''R32_TMR1_DMA_NOW'', Reg 32 0x40002414),
      (''R16_TMR1_DMA_NOW'', Reg 16 0x40002414),
      (''R32_TMR1_DMA_BEG'', Reg 32 0x40002418),
      (''R16_TMR1_DMA_BEG'', Reg 16 0x40002418),
      (''R32_TMR1_DMA_END'', Reg 32 0x4000241C),
      (''R16_TMR1_DMA_END'', Reg 16 0x4000241C)]"

definition ch573_timer2_register :: sfr_table where
  "ch573_timer2_register =
     [(''R32_TMR2_CONTROL'', Reg 32 0x40002800),
      (''R8_TMR2_CTRL_MOD'', Reg 8 0x40002800),
      (''R8_TMR2_CTRL_DMA'', Reg 8 0x40002801),
      (''R8_TMR2_INTER_EN'', Reg 8 0x40002802),
      (''R32_TMR2_STATUS'', Reg 32 0x40002804),
      (''R8_TMR2_INT_FLAG'', Reg 8 0x40002806),
      (''R8_TMR2_FIFO_COUNT'', Reg 8 0x40002807),
      (''R32_TMR2_COUNT'', Reg 32 0x40002808),
      (''R16_TMR2_COUNT'', Reg 16 0x40002808),
      (''R8_TMR2_COUNT'', Reg 8 0x40002808),
      (''R32_TMR2_CNT_END'', Reg 32 0x4000280C),
      (''R32_TMR2_FIFO'', Reg 32 0x40002810),
      (''R16_TMR2_FIFO'', Reg 16 0x40002810),
      (''R8_TMR2_FIFO'', Reg 8 0x40002810),
      (''R32_TMR2_DMA_NOW'', Reg 32 0x40002814),
      (''R16_TMR2_DMA_NOW'', Reg 16 0x40002814),
      (''R32_TMR2_DMA_BEG'', Reg 32 0x40002818),
      (''R16_TMR2_DMA_BEG'', Reg 16 0x40002818),
      (''R32_TMR2_DMA_END'', Reg 32 0x4000281C),
      (''R16_TMR2_DMA_END'', Reg 16 0x4000281C)]"

definition ch573_timer3_register :: sfr_table where
  "ch573_timer3_register =
     [(''R32_TMR3_CONTROL'', Reg 32 0x40002C00),
      (''R8_TMR3_CTRL_MOD'', Reg 8 0x40002C00),
      (''R8_TMR3_INTER_EN'', Reg 8 0x40002C02),
      (''R32_TMR3_STATUS'', Reg 32 0x40002C04),
      (''R8_TMR3_INT_FLAG'', Reg 8 0x40002C06),
      (''R8_TMR3_FIFO_COUNT'', Reg 8 0x40002C07),
      (''R32_TMR3_COUNT'', Reg 32 0x40002C08),
      (''R16_TMR3_COUNT'', Reg 16 0x40002C08),
      (''R8_TMR3_COUNT'', Reg 8 0x40002C08),
      (''R32_TMR3_CNT_END'', Reg 32 0x40002C0C),
      (''R32_TMR3_FIFO'', Reg 32 0x40002C10),
      (''R16_TMR3_FIFO'', Reg 16 0x40002C10),
      (''R8_TMR3_FIFO'', Reg 8 0x40002C10)]"

definition ch573_timer_register_address_offset_and :: sfr_table where
  "ch573_timer_register_address_offset_and =
     [(''TMR_FIFO_SIZE'', Num 8),
      (''BA_TMR0'', Ptr 8 0x40002000),
      (''BA_TMR1'', Ptr 8 0x40002400),
      (''BA_TMR2'', Ptr 8 0x40002800),
      (''BA_TMR3'', Ptr 8 0x40002C00),
      (''TMR_CTRL_MOD'', Num 0),
      (''RB_TMR_MODE_IN'', Num 0x01),
      (''RB_TMR_ALL_CLEAR'', Num 0x02),
      (''RB_TMR_COUNT_EN'', Num 0x04),
      (''RB_TMR_OUT_EN'', Num 0x08),
      (''RB_TMR_OUT_POLAR'', Num 0x10),
      (''RB_TMR_CAP_COUNT'', Num 0x10),
      (''RB_TMR_PWM_REPEAT'', Num 0xC0),
      (''RB_TMR_CAP_EDGE'', Num 0xC0),
      (''TMR_CTRL_DMA'', Num 1),
      (''RB_TMR_DMA_ENABLE'', Num 0x01),
      (''RB_TMR_DMA_LOOP'', Num 0x04),
      (''TMR_INTER_EN'', Num 2),
      (''RB_TMR_IE_CYC_END'', Num 0x01),
      (''RB_TMR_IE_DATA_ACT'', Num 0x02),
      (''RB_TMR_IE_FIFO_HF'', Num 0x04),
      (''RB_TMR_IE_DMA_END'', Num 0x08),
      (''RB_TMR_IE_FIFO_OV'', Num 0x10),
      (''TMR_INT_FLAG'', Num 6),
      (''RB_TMR_IF_CYC_END'', Num 0x01),
      (''RB_TMR_IF_DATA_ACT'', Num 0x02),
      (''RB_TMR_IF_FIFO_HF'', Num 0x04),
      (''RB_TMR_IF_DMA_END'', Num 0x08),
      (''RB_TMR_IF_FIFO_OV'', Num 0x10),
      (''TMR_FIFO_COUNT'', Num 7),
      (''TMR_COUNT'', Num 0x08),
      (''TMR_CNT_END'', Num 0x0C),
      (''TMR_FIFO'', Num 0x10),
      (''TMR_DMA_NOW'', Num 0x14),
      (''TMR_DMA_BEG'', Num 0x18),
      (''TMR_DMA_END'', Num 0x1C)]"

definition ch573_uart0_register :: sfr_table where
  "ch573_uart0_register =
     [(''R32_UART0_CTRL'', Reg 32 0x40003000),
      (''R8_UART0_MCR'', Reg 8 0x40003000),
      (''R8_UART0_IER'', Reg 8 0x40003001),
      (''R8_UART0_FCR'', Reg 8 0x40003002),
      (''R8_UART0_LCR'', Reg 8 0x40003003),
      (''R32_UART0_STAT'', Reg 32 0x40003004),
      (''R8_UART0_IIR'', Reg 8 0x40003004),
      (''R8_UART0_LSR'', Reg 8 0x40003005),
      (''R8_UART0_MSR'', Reg 8 0x40003006),
      (''R32_UART0_FIFO'', Reg 32 0x40003008),
      (''R8_UART0_RBR'', Reg 8 0x40003008),
      (''R8_UART0_THR'', Reg 8 0x40003008),
      (''R8_UART0_RFC'', Reg 8 0x4000300A),
      (''R8_UART0_TFC'', Reg 8 0x4000300B),
      (''R32_UART0_SETUP'', Reg 32 0x4000300C),
      (''R16_UART0_DL'', Reg 16 0x4000300C),
      (''R8_UART0_DLL'', Reg 8 0x4000300C),
      (''R8_UART0_DLM'', Reg 8 0x4000300D),
      (''R8_UART0_DIV'', Reg 8 0x4000300E),
      (''R8_UART0_ADR'', Reg 8 0x4000300F)]"

definition ch573_uart1_register :: sfr_table where
  "ch573_uart1_register =
     [(''R32_UART1_CTRL'', Reg 32 0x40003400),
      (''R8_UART1_MCR'', Reg 8 0x40003400),
      (''R8_UART1_IER'', Reg 8 0x40003401),
      (''R8_UART1_FCR'', Reg 8 0x40003402),
      (''R8_UART1_LCR'', Reg 8 0x40003403),
      (''R32_UART1_STAT'', Reg 32 0x40003404),
      (''R8_UART1_IIR'', Reg 8 0x40003404),
      (''R8_UART1_LSR'', Reg 8 0x40003405),
      (''R32_UART1_FIFO'', Reg 32 0x40003408),
      (''R8_UART1_RBR'', Reg 8 0x40003408),
      (''R8_UART1_THR'', Reg 8 0x40003408),
      (''R8_UART1_RFC'', Reg 8 0x4000340A),
      (''R8_UART1_TFC'', Reg 8 0x4000340B),
      (''R32_UART1_SETUP'', Reg 32 0x4000340C),
      (''R16_UART1_DL'', Reg 16 0x4000340C),
      (''R8_UART1_DLL'', Reg 8 0x4000340C),
      (''R8_UART1_DLM'', Reg 8 0x4000340D),
      (''R8_UART1_DIV'', Reg 8 0x4000340E)]"

definition ch573_uart2_register :: sfr_table where
  "ch573_uart2_register =
     [(''R32_UART2_CTRL'', Reg 32 0x40003800),
      (''R8_UART2_MCR'', Reg 8 0x40003800),
      (''R8_UART2_IER'', Reg 8 0x40003801),
      (''R8_UART2_FCR'', Reg 8 0x40003802),
      (''R8_UART2_LCR'', Reg 8 0x40003803),
      (''R32_UART2_STAT'', Reg 32 0x40003804),
      (''R8_UART2_IIR'', Reg 8 0x40003804),
      (''R8_UART2_LSR'', Reg 8 0x40003805),
      (''R32_UART2_FIFO'', Reg 32 0x40003808),
      (''R8_UART2_RBR'', Reg 8 0x40003808),
      (''R8_UART2_THR'', Reg 8 0x40003808),
      (''R8_UART2_RFC'', Reg 8 0x4000380A),
      (''R8_UART2_TFC'', Reg 8 0x4000380B),
      (''R32_UART2_SETUP'', Reg 32 0x4000380C),
      (''R16_UART2_DL'', Reg 16 0x4000380C),
      (''R8_UART2_DLL'', Reg 8 0x4000380C),
      (''R8_UART2_DLM'', Reg 8 0x4000380D),
      (''R8_UART2_DIV'', Reg 8 0x4000380E)]"

definition ch573_uart3_register :: sfr_table where
  "ch573_uart3_register =
     [(''R32_UART3_CTRL'', Reg 32 0x40003C00),
      (''R8_UART3_MCR'', Reg 8 0x40003C00),
      (''R8_UART3_IER'', Reg 8 0x40003C01),
      (''R8_UART3_FCR'', Reg 8 0x40003C02),
      (''R8_UART3_LCR'', Reg 8 0x40003C03),
      (''R32_UART3_STAT'', Reg 32 0x40003C04),
      (''R8_UART3_IIR'', Reg 8 0x40003C04),
      (''R8_UART3_LSR'', Reg 8 0x40003C05),
      (''R32_UART3_FIFO'', Reg 32 0x40003C08),
      (''R8_UART3_RBR'', Reg 8 0x40003C08),
      (''R8_UART3_THR'', Reg 8 0x40003C08),
      (''R8_UART3_RFC'', Reg 8 0x40003C0A),
      (''R8_UART3_TFC'', Reg 8 0x40003C0B),
      (''R32_UART3_SETUP'', Reg 32 0x40003C0C),
      (''R16_UART3_DL'', Reg 16 0x40003C0C),
      (''R8_UART3_DLL'', Reg 8 0x40003C0C),
      (''R8_UART3_DLM'', Reg 8 0x40003C0D),
      (''R8_UART3_DIV'', Reg 8 0x40003C0E)]"

definition ch573_uart_register_address_offset_and :: sfr_table where
  "ch573_uart_register_address_offset_and =
     [(''UART_FIFO_SIZE'', Num 8),
      (''UART_RECV_RDY_SZ'', Num 7),
      (''BA_UART0'', Ptr 8 0x40003000),
      (''BA_UART1'', Ptr 8 0x40003400),
      (''BA_UART2'', Ptr 8 0x40003800),
      (''BA_UART3'', Ptr 8 0x40003C00),
      (''UART_MCR'', Num 0),
      (''RB_MCR_DTR'', Num 0x01),
      (''RB_MCR_RTS'', Num 0x02),
      (''RB_MCR_OUT1'', Num 0x04),
      (''RB_MCR_OUT2'', Num 0x08),
      (''RB_MCR_INT_OE'', Num 0x08),
      (''RB_MCR_LOOP'', Num 0x10),
      (''RB_MCR_AU_FLOW_EN'', Num 0x20),
      (''RB_MCR_TNOW'', Num 0x40),
      (''RB_MCR_HALF'', Num 0x80),
      (''UART_IER'', Num 1),
      (''RB_IER_RECV_RDY'', Num 0x01),
      (''RB_IER_THR_EMPTY'', Num 0x02),
      (''RB_IER_LINE_STAT'', Num 0x04),
      (''RB_IER_MODEM_CHG'', Num 0x08),
      (''RB_IER_DTR_EN'', Num 0x10),
      (''RB_IER_RTS_EN'', Num 0x20),
      (''RB_IER_TXD_EN'', Num 0x40),
      (''RB_IER_RESET'', Num 0x80),
      (''UART_FCR'', Num 2),
      (''RB_FCR_FIFO_EN'', Num 0x01),
      (''RB_FCR_RX_FIFO_CLR'', Num 0x02),
      (''RB_FCR_TX_FIFO_CLR'', Num 0x04),
      (''RB_FCR_FIFO_TRIG'', Num 0xC0),
      (''UART_LCR'', Num 3),
      (''RB_LCR_WORD_SZ'', Num 0x03),
      (''RB_LCR_STOP_BIT'', Num 0x04),
      (''RB_LCR_PAR_EN'', Num 0x08),
      (''RB_LCR_PAR_MOD'', Num 0x30),
      (''RB_LCR_BREAK_EN'', Num 0x40),
      (''RB_LCR_DLAB'', Num 0x80),
      (''RB_LCR_GP_BIT'', Num 0x80),
      (''UART_IIR'', Num 4),
      (''RB_IIR_NO_INT'', Num 0x01),
      (''RB_IIR_INT_MASK'', Num 0x0F),
      (''RB_IIR_FIFO_ID'', Num 0xC0),
      (''UART_LSR'', Num 5),
      (''RB_LSR_DATA_RDY'', Num 0x01),
      (''RB_LSR_OVER_ERR'', Num 0x02),
      (''RB_LSR_PAR_ERR'', Num 0x04),
      (''RB_LSR_FRAME_ERR'', Num 0x08),
      (''RB_LSR_BREAK_ERR'', Num 0x10),
      (''RB_LSR_TX_FIFO_EMP'', Num 0x20),
      (''RB_LSR_TX_ALL_EMP'', Num 0x40),
      (''RB_LSR_ERR_RX_FIFO'', Num 0x80),
      (''UART_MSR'', Num 6),
      (''RB_MSR_CTS_CHG'', Num 0x01),
      (''RB_MSR_DSR_CHG'', Num 0x02),
      (''RB_MSR_CTS'', Num 0x10),
      (''RB_MSR_DSR'', Num 0x20),
      (''UART_RBR'', Num 8),
      (''UART_THR'', Num 8),
      (''UART_RFC'', Num 0x0A),
      (''UART_TFC'', Num 0x0B),
      (''UART_DLL'', Num 0x0C),
      (''UART_DLM'', Num 0x0D),
      (''UART_DIV'', Num 0x0E),
      (''UART_ADR'', Num 0x0F)]"

definition ch573_uart_interrupt_identification_values_for :: sfr_table where
  "ch573_uart_interrupt_identification_values_for =
     [(''UART_II_SLV_ADDR'', Num 0x0E),
      (''UART_II_LINE_STAT'', Num 0x06),
      (''UART_II_RECV_RDY'', Num 0x04),
      (''UART_II_RECV_TOUT'', Num 0x0C),
      (''UART_II_THR_EMPTY'', Num 0x02),
      (''UART_II_MODEM_CHG'', Num 0x00),
      (''UART_II_NO_INTER'', Num 0x01)]"

definition ch573_spi0_register :: sfr_table where
  "ch573_spi0_register =
     [(''R32_SPI0_CONTROL'', Reg 32 0x40004000),
      (''R8_SPI0_CTRL_MOD'', Reg 8 0x40004000),
      (''R8_SPI0_CTRL_CFG'', Reg 8 0x40004001),
      (''R8_SPI0_INTER_EN'', Reg 8 0x40004002),
      (''R8_SPI0_CLOCK_DIV'', Reg 8 0x40004003),
      (''R8_SPI0_SLAVE_PRE'', Reg 8 0x40004003),
      (''R32_SPI0_STATUS'', Reg 32 0x40004004),
      (''R8_SPI0_BUFFER'', Reg 8 0x40004004),
      (''R8_SPI0_RUN_FLAG'', Reg 8 0x40004005),
      (''R8_SPI0_INT_FLAG'', Reg 8 0x40004006),
      (''R8_SPI0_FIFO_COUNT'', Reg 8 0x40004007),
      (''R32_SPI0_TOTAL_CNT'', Reg 32 0x4000400C),
      (''R16_SPI0_TOTAL_CNT'', Reg 16 0x4000400C),
      (''R32_SPI0_FIFO'', Reg 32 0x40004010),
      (''R8_SPI0_FIFO'', Reg 8 0x40004010),
      (''R8_SPI0_FIFO_COUNT1'', Reg 8 0x40004013),
      (''R32_SPI0_DMA_NOW'', Reg 32 0x40004014),
      (''R16_SPI0_DMA_NOW'', Reg 16 0x40004014),
      (''R32_SPI0_DMA_BEG'', Reg 32 0x40004018),
      (''R16_SPI0_DMA_BEG'', Reg 16 0x40004018),
      (''R32_SPI0_DMA_END'', Reg 32 0x4000401C),
      (''R16_SPI0_DMA_END'', Reg 16 0x4000401C)]"

definition ch573_spi_register_address_offset_and :: sfr_table where
  "ch573_spi_register_address_offset_and =
     [(''SPI_FIFO_SIZE'', Num 8),
      (''BA_SPI0'', Ptr 8 0x40004000),
      (''SPI_CTRL_MOD'', Num 0),
      (''RB_SPI_MODE_SLAVE'', Num 0x01),
      (''RB_SPI_ALL_CLEAR'', Num 0x02),
      (''RB_SPI_2WIRE_MOD'', Num 0x04),
      (''RB_SPI_MST_SCK_MOD'', Num 0x08),
      (''RB_SPI_SLV_CMD_MOD'', Num 0x08),
      (''RB_SPI_FIFO_DIR'', Num 0x10),
      (''RB_SPI_SCK_OE'', Num 0x20),
      (''RB_SPI_MOSI_OE'', Num 0x40),
      (''RB_SPI_MISO_OE'', Num 0x80),
      (''SPI_CTRL_CFG'', Num 1),
      (''RB_SPI_DMA_ENABLE'', Num 0x01),
      (''RB_SPI_DMA_LOOP'', Num 0x04),
      (''RB_SPI_AUTO_IF'', Num 0x10),
      (''RB_SPI_BIT_ORDER'', Num 0x20),
      (''RB_SPI_MST_DLY_EN'', Num 0x40),
      (''SPI_INTER_EN'', Num 2),
      (''RB_SPI_IE_CNT_END'', Num 0x01),
      (''RB_SPI_IE_BYTE_END'', Num 0x02),
      (''RB_SPI_IE_FIFO_HF'', Num 0x04),
      (''RB_SPI_IE_DMA_END'', Num 0x08),
      (''RB_SPI_IE_FIFO_OV'', Num 0x10),
      (''RB_SPI_IE_FST_BYTE'', Num 0x80),
      (''SPI_CLOCK_DIV'', Num 3),
      (''SPI_SLAVE_PRESET'', Num 3),
      (''SPI_BUFFER'', Num 4),
      (''SPI_RUN_FLAG'', Num 5),
      (''RB_SPI_SLV_CMD_ACT'', Num 0x10),
      (''RB_SPI_FIFO_READY'', Num 0x20),
      (''RB_SPI_SLV_CS_LOAD'', Num 0x40),
      (''RB_SPI_SLV_SELECT'', Num 0x80),
      (''SPI_INT_FLAG'', Num 6),
      (''RB_SPI_IF_CNT_END'', Num 0x01),
      (''RB_SPI_IF_BYTE_END'', Num 0x02),
      (''RB_SPI_IF_FIFO_HF'', Num 0x04),
      (''RB_SPI_IF_DMA_END'', Num 0x08),
      (''RB_SPI_IF_FIFO_OV'', Num 0x10),
      (''RB_SPI_FREE'', Num 0x40),
      (''RB_SPI_IF_FST_BYTE'', Num 0x80),
      (''SPI_FIFO_COUNT'', Num 7),
      (''SPI_TOTAL_CNT'', Num 0x0C),
      (''SPI_FIFO'', Num 0x10),
      (''SPI_DMA_NOW'', Num 0x14),
      (''SPI_DMA_BEG'', Num 0x18),
      (''SPI_DMA_END'', Num 0x1C)]"

definition ch573_pwm4_5_6_7_8 :: sfr_table where
  "ch573_pwm4_5_6_7_8 =
     [(''R32_PWM_CONTROL'', Reg 32 0x40005000),
      (''R8_PWM_OUT_EN'', Reg 8 0x40005000),
      (''R8_PWM_POLAR'', Reg 8 0x40005001),
      (''R8_PWM_CONFIG'', Reg 8 0x40005002),
      (''R8_PWM_CLOCK_DIV'', Reg 8 0x40005003),
      (''R32_PWM4_7_DATA'', Reg 32 0x40005004),
      (''R8_PWM4_DATA'', Reg 8 0x40005004),
      (''R8_PWM5_DATA'', Reg 8 0x40005005),
      (''R8_PWM6_DATA'', Reg 8 0x40005006),
      (''R8_PWM7_DATA'', Reg 8 0x40005007),
      (''R32_PWM8_11_DATA'', Reg 32 0x40005008),
      (''R8_PWM8_DATA'', Reg 8 0x40005008),
      (''R8_PWM9_DATA'', Reg 8 0x40005009),
      (''R8_PWM10_DATA'', Reg 8 0x4000500A),
      (''R8_PWM11_DATA'', Reg 8 0x4000500B),
      (''R8_PWM_INT_CTRL'', Reg 32 0x4000500C),
      (''RB_PWM_IE_CYC'', Num 0x01),
      (''RB_PWM_CYC_PRE'', Num 0x02),
      (''RB_PWM_IF_CYC'', Num 0x80)]"

definition ch573_pwm4_5_6_7_8_2 :: sfr_table where
  "ch573_pwm4_5_6_7_8_2 =
     [(''BA_PWMX'', Ptr 8 0x40005000),
      (''PWM_OUT_EN'', Num 0),
      (''RB_PWM4_OUT_EN'', Num 0x01),
      (''RB_PWM5_OUT_EN'', Num 0x02),
      (''RB_PWM6_OUT_EN'', Num 0x04),
      (''RB_PWM7_OUT_EN'', Num 0x08),
      (''RB_PWM8_OUT_EN'', Num 0x10),
      (''RB_PWM9_OUT_EN'', Num 0x20),
      (''RB_PWM10_OUT_EN'', Num 0x40),
      (''RB_PWM11_OUT_EN'', Num 0x80),
      (''PWM_POLAR'', Num 1),
      (''RB_PWM4_POLAR'', Num 0x01),
      (''RB_PWM5_POLAR'', Num 0x02),
      (''RB_PWM6_POLAR'', Num 0x04),
      (''RB_PWM7_POLAR'', Num 0x08),
      (''RB_PWM8_POLAR'', Num 0x10),
      (''RB_PWM9_POLAR'', Num 0x20),
      (''RB_PWM10_POLAR'', Num 0x40),
      (''RB_PWM11_POLAR'', Num 0x80),
      (''PWM_CONFIG'', Num 2),
      (''RB_PWM_CYCLE_SEL'', Num 0x01),
      (''RB_PWM_STAG_ST'', Num 0x02),
      (''RB_PWM_CYC_MOD'', Num 0x0C),
      (''RB_PWM4_5_STAG_EN'', Num 0x10),
      (''RB_PWM6_7_STAG_EN'', Num 0x20),
      (''RB_PWM8_9_STAG_EN'', Num 0x40),
      (''RB_PWM10_11_STAG_EN'', Num 0x80),
      (''PWM_CLOCK_DIV'', Num 3),
      (''PWM4_DATA_HOLD'', Num 4),
      (''PWM5_DATA_HOLD'', Num 5),
      (''PWM6_DATA_HOLD'', Num 6),
      (''PWM7_DATA_HOLD'', Num 7),
      (''PWM8_DATA_HOLD'', Num 8),
      (''PWM9_DATA_HOLD'', Num 9),
      (''PWM10_DATA_HOLD'', Num 10),
      (''PWM11_DATA_HOLD'', Num 11)]"

definition ch573_address_space_define :: sfr_table where
  "ch573_address_space_define =
     [(''BA_CODE'', Ptr 32 0x00000000),
      (''SZ_CODE'', Num 0x00040000),
      (''BA_SFR'', Ptr 32 0x40000000),
      (''SZ_SFR'', Num 0x00010000),
      (''BA_RAM'', Ptr 32 0x20000000),
      (''SZ_RAM'', Num 0x00008000)]"

definition ch573_special_program_space :: sfr_table where
  "ch573_special_program_space =
     [(''DATA_FLASH_ADDR'', Num 0x70000),
      (''DATA_FLASH_SIZE'', Num 0x8000),
      (''BOOT_LOAD_ADDR'', Num 0x78000),
      (''BOOT_LOAD_SIZE'', Num 0x6000),
      (''BOOT_LOAD_CFG'', Num 0x7E000),
      (''ROM_CFG_ADDR'', Num 0x7F000),
      (''ID_CH573'', Num 0x73),
      (''ID_CH571'', Num 0x71)]"

definition ch573_interrupt_routine_address_and_interrupt :: sfr_table where
  "ch573_interrupt_routine_address_and_interrupt =
     [(''INT_ID_TMR0'', Num 16),
      (''INT_ID_GPIO_A'', Num 17),
      (''INT_ID_GPIO_B'', Num 18),
      (''INT_ID_SPI0'', Num 19),
      (''INT_ID_BLEB'', Num 20),
      (''INT_ID_BLEL'', Num 21),
      (''INT_ID_USB'', Num 22),
      (''INT_ID_TMR1'', Num 24),
      (''INT_ID_TMR2'', Num 25),
      (''INT_ID_UART0'', Num 26),
      (''INT_ID_UART1'', Num 27),
      (''INT_ID_RTC'', Num 28),
      (''INT_ID_ADC'', Num 29),
      (''INT_ID_PWMX'', Num 31),
      (''INT_ID_TMR3'', Num 32),
      (''INT_ID_UART2'', Num 33),
      (''INT_ID_UART3'', Num 34),
      (''INT_ID_WDOG_BAT'', Num 35),
      (''INT_VEC_ENTRY_SZ'', Num 4),
      (''INT_ADDR_TMR0'', Vec ''INT_ID_TMR0''),
      (''INT_ADDR_GPIO_A'', Vec ''INT_ID_GPIO_A''),
      (''INT_ADDR_GPIO_B'', Vec ''INT_ID_GPIO_B''),
      (''INT_ADDR_SPI0'', Vec ''INT_ID_SPI0''),
      (''INT_ADDR_BLEB'', Vec ''INT_ID_BLEB''),
      (''INT_ADDR_BLEL'', Vec ''INT_ID_BLEL''),
      (''INT_ADDR_USB'', Vec ''INT_ID_USB''),
      (''INT_ADDR_TMR1'', Vec ''INT_ID_TMR1''),
      (''INT_ADDR_TMR2'', Vec ''INT_ID_TMR2''),
      (''INT_ADDR_UART0'', Vec ''INT_ID_UART0''),
      (''INT_ADDR_UART1'', Vec ''INT_ID_UART1''),
      (''INT_ADDR_RTC'', Vec ''INT_ID_RTC''),
      (''INT_ADDR_ADC'', Vec ''INT_ID_ADC''),
      (''INT_ADDR_PWMX'', Vec ''INT_ID_PWMX''),
      (''INT_ADDR_TMR3'', Vec ''INT_ID_TMR3''),
      (''INT_ADDR_UART2'', Vec ''INT_ID_UART2''),
      (''INT_ADDR_UART3'', Vec ''INT_ID_UART3''),
      (''INT_ADDR_WDOG_BAT'', Vec ''INT_ID_WDOG_BAT''),
      (''__PFIC_PRIO_BITS'', Num 2),
      (''__Vendor_SysTickConfig'', Num 0)]"

definition ch573_peripheral_memory_map :: sfr_table where
  "ch573_peripheral_memory_map =
     [(''USB_BASE_ADDR'', Num 0x40008000)]"

definition ch573_usb :: sfr_table where
  "ch573_usb =
     [(''R32_USB_CONTROL'', Reg 32 0x40008000),
      (''R8_USB_CTRL'', Reg 8 0x40008000),
      (''RB_UC_HOST_MODE'', Num 0x80),
      (''RB_UC_LOW_SPEED'', Num 0x40),
      (''RB_UC_DEV_PU_EN'', Num 0x20),
      (''RB_UC_SYS_CTRL1'', Num 0x20),
      (''RB_UC_SYS_CTRL0'', Num 0x10),
      (''MASK_UC_SYS_CTRL'', Num 0x30),
      (''RB_UC_INT_BUSY'', Num 0x08),
      (''RB_UC_RESET_SIE'', Num 0x04),
      (''RB_UC_CLR_ALL'', Num 0x02),
      (''RB_UC_DMA_EN'', Num 0x01),
      (''R8_UDEV_CTRL'', Reg 8 0x40008001),
      (''RB_UD_PD_DIS'', Num 0x80),
      (''RB_UD_DP_PIN'', Num 0x20),
      (''RB_UD_DM_PIN'', Num 0x10),
      (''RB_UD_LOW_SPEED'', Num 0x04),
      (''RB_UD_GP_BIT'', Num 0x02),
      (''RB_UD_PORT_EN'', Num 0x01),
      (''R8_UHOST_CTRL'', Same ''R8_UDEV_CTRL''),
      (''RB_UH_PD_DIS'', Num 0x80),
      (''RB_UH_DP_PIN'', Num 0x20),
      (''RB_UH_DM_PIN'', Num 0x10),
      (''RB_UH_LOW_SPEED'', Num 0x04),
      (''RB_UH_BUS_RESET'', Num 0x02),
      (''RB_UH_PORT_EN'', Num 0x01),
      (''R8_USB_INT_EN'', Reg 8 0x40008002),
      (''RB_UIE_DEV_SOF'', Num 0x80),
      (''RB_UIE_DEV_NAK'', Num 0x40),
      (''RB_UIE_FIFO_OV'', Num 0x10),
      (''RB_UIE_HST_SOF'', Num 0x08),
      (''RB_UIE_SUSPEND'', Num 0x04),
      (''RB_UIE_TRANSFER'', Num 0x02),
      (''RB_UIE_DETECT'', Num 0x01),
      (''RB_UIE_BUS_RST'', Num 0x01),
      (''R8_USB_DEV_AD'', Reg 8 0x40008003),
      (''RB_UDA_GP_BIT'', Num 0x80),
      (''MASK_USB_ADDR'', Num 0x7F),
      (''R32_USB_STATUS'', Reg 32 0x40008004),
      (''R8_USB_MIS_ST'', Reg 8 0x40008005),
      (''RB_UMS_SOF_PRES'', Num 0x80),
      (''RB_UMS_SOF_ACT'', Num 0x40),
      (''RB_UMS_SIE_FREE'', Num 0x20),
      (''RB_UMS_R_FIFO_RDY'', Num 0x10),
      (''RB_UMS_BUS_RESET'', Num 0x08),
      (''RB_UMS_SUSPEND'', Num 0x04),
      (''RB_UMS_DM_LEVEL'', Num 0x02),
      (''RB_UMS_DEV_ATTACH'', Num 0x01),
      (''R8_USB_INT_FG'', Reg 8 0x40008006),
      (''RB_U_IS_NAK'', Num 0x80),
      (''RB_U_TOG_OK'', Num 0x40),
      (''RB_U_SIE_FREE'', Num 0x20),
      (''RB_UIF_FIFO_OV'', Num 0x10),
      (''RB_UIF_HST_SOF'', Num 0x08),
      (''RB_UIF_SUSPEND'', Num 0x04),
      (''RB_UIF_TRANSFER'', Num 0x02),
      (''RB_UIF_DETECT'', Num 0x01),
      (''RB_UIF_BUS_RST'', Num 0x01),
      (''R8_USB_INT_ST'', Reg 8 0x40008007),
      (''RB_UIS_SETUP_ACT'', Num 0x80),
      (''RB_UIS_TOG_OK'', Num 0x40),
      (''RB_UIS_TOKEN1'', Num 0x20),
      (''RB_UIS_TOKEN0'', Num 0x10),
      (''MASK_UIS_TOKEN'', Num 0x30),
      (''UIS_TOKEN_OUT'', Num 0x00),
      (''UIS_TOKEN_SOF'', Num 0x10),
      (''UIS_TOKEN_IN'', Num 0x20),
      (''UIS_TOKEN_SETUP'', Num 0x30),
      (''MASK_UIS_ENDP'', Num 0x0F),
      (''MASK_UIS_H_RES'', Num 0x0F),
      (''R8_USB_RX_LEN'', Reg 8 0x40008008),
      (''R32_USB_BUF_MODE'', Reg 32 0x4000800C),
      (''R8_UEP4_1_MOD'', Reg 8 0x4000800C),
      (''RB_UEP1_RX_EN'', Num 0x80),
      (''RB_UEP1_TX_EN'', Num 0x40),
      (''RB_UEP1_BUF_MOD'', Num 0x10),
      (''RB_UEP4_RX_EN'', Num 0x08),
      (''RB_UEP4_TX_EN'', Num 0x04),
      (''R8_UEP2_3_MOD'', Reg 8 0x4000800D),
      (''RB_UEP3_RX_EN'', Num 0x80),
      (''RB_UEP3_TX_EN'', Num 0x40),
      (''RB_UEP3_BUF_MOD'', Num 0x10),
      (''RB_UEP2_RX_EN'', Num 0x08),
      (''RB_UEP2_TX_EN'', Num 0x04),
      (''RB_UEP2_BUF_MOD'', Num 0x01),
      (''R8_UH_EP_MOD'', Same ''R8_UEP2_3_MOD''),
      (''RB_UH_EP_TX_EN'', Num 0x40),
      (''RB_UH_EP_TBUF_MOD'', Num 0x10),
      (''RB_UH_EP_RX_EN'', Num 0x08),
      (''RB_UH_EP_RBUF_MOD'', Num 0x01),
      (''R16_UEP0_DMA'', Reg 16 0x40008010),
      (''R16_UEP1_DMA'', Reg 16 0x40008014),
      (''R16_UEP2_DMA'', Reg 16 0x40008018),
      (''R16_UH_RX_DMA'', Same ''R16_UEP2_DMA''),
      (''R16_UEP3_DMA'', Reg 16 0x4000801C),
      (''R16_UH_TX_DMA'', Same ''R16_UEP3_DMA''),
      (''R32_USB_EP0_CTRL'', Reg 32 0x40008020),
      (''R8_UEP0_T_LEN'', Reg 8 0x40008020),
      (''R8_UEP0_CTRL'', Reg 8 0x40008022),
      (''R32_USB_EP1_CTRL'', Reg 32 0x40008024),
      (''R8_UEP1_T_LEN'', Reg 8 0x40008024),
      (''R8_UEP1_CTRL'', Reg 8 0x40008026),
      (''RB_UEP_R_TOG'', Num 0x80),
      (''RB_UEP_T_TOG'', Num 0x40)]"

definition ch573_usb_2 :: sfr_table where
  "ch573_usb_2 =
     [(''RB_UEP_AUTO_TOG'', Num 0x10),
      (''RB_UEP_R_RES1'', Num 0x08),
      (''RB_UEP_R_RES0'', Num 0x04),
      (''MASK_UEP_R_RES'', Num 0x0C),
      (''UEP_R_RES_ACK'', Num 0x00),
      (''UEP_R_RES_TOUT'', Num 0x04),
      (''UEP_R_RES_NAK'', Num 0x08),
      (''UEP_R_RES_STALL'', Num 0x0C),
      (''RB_UEP_T_RES1'', Num 0x02),
      (''RB_UEP_T_RES0'', Num 0x01),
      (''MASK_UEP_T_RES'', Num 0x03),
      (''UEP_T_RES_ACK'', Num 0x00),
      (''UEP_T_RES_TOUT'', Num 0x01),
      (''UEP_T_RES_NAK'', Num 0x02),
      (''UEP_T_RES_STALL'', Num 0x03),
      (''R8_UH_SETUP'', Same ''R8_UEP1_CTRL''),
      (''RB_UH_PRE_PID_EN'', Num 0x80),
      (''RB_UH_SOF_EN'', Num 0x40),
      (''R32_USB_EP2_CTRL'', Reg 32 0x40008028),
      (''R8_UEP2_T_LEN'', Reg 8 0x40008028),
      (''R8_UEP2_CTRL'', Reg 8 0x4000802A),
      (''R8_UH_EP_PID'', Same ''R8_UEP2_T_LEN''),
      (''MASK_UH_TOKEN'', Num 0xF0),
      (''MASK_UH_ENDP'', Num 0x0F),
      (''R8_UH_RX_CTRL'', Same ''R8_UEP2_CTRL''),
      (''RB_UH_R_TOG'', Num 0x80),
      (''RB_UH_R_AUTO_TOG'', Num 0x10),
      (''RB_UH_R_RES'', Num 0x04),
      (''R32_USB_EP3_CTRL'', Reg 32 0x4000802c),
      (''R8_UEP3_T_LEN'', Reg 8 0x4000802c),
      (''R8_UEP3_CTRL'', Reg 8 0x4000802e),
      (''R8_UH_TX_LEN'', Same ''R8_UEP3_T_LEN''),
      (''R8_UH_TX_CTRL'', Same ''R8_UEP3_CTRL''),
      (''RB_UH_T_TOG'', Num 0x40),
      (''RB_UH_T_AUTO_TOG'', Num 0x10),
      (''RB_UH_T_RES'', Num 0x01),
      (''R32_USB_EP4_CTRL'', Reg 32 0x40008030),
      (''R8_UEP4_T_LEN'', Reg 8 0x40008030),
      (''R8_UEP4_CTRL'', Reg 8 0x40008032)]"

definition ch573_usb_pid :: sfr_table where
  "ch573_usb_pid =
     [(''USB_PID_NULL'', Num 0x00),
      (''USB_PID_SOF'', Num 0x05),
      (''USB_PID_SETUP'', Num 0x0D),
      (''USB_PID_IN'', Num 0x09),
      (''USB_PID_OUT'', Num 0x01),
      (''USB_PID_ACK'', Num 0x02),
      (''USB_PID_NAK'', Num 0x0A),
      (''USB_PID_STALL'', Num 0x0E),
      (''USB_PID_DATA0'', Num 0x03),
      (''USB_PID_DATA1'', Num 0x0B),
      (''USB_PID_PRE'', Num 0x0C)]"

definition ch573_usb_standard_device_request_code :: sfr_table where
  "ch573_usb_standard_device_request_code =
     [(''USB_GET_STATUS'', Num 0x00),
      (''USB_CLEAR_FEATURE'', Num 0x01),
      (''USB_SET_FEATURE'', Num 0x03),
      (''USB_SET_ADDRESS'', Num 0x05),
      (''USB_GET_DESCRIPTOR'', Num 0x06),
      (''USB_SET_DESCRIPTOR'', Num 0x07),
      (''USB_GET_CONFIGURATION'', Num 0x08),
      (''USB_SET_CONFIGURATION'', Num 0x09),
      (''USB_GET_INTERFACE'', Num 0x0A),
      (''USB_SET_INTERFACE'', Num 0x0B),
      (''USB_SYNCH_FRAME'', Num 0x0C)]"

definition ch573_usb_hub_class_request_code :: sfr_table where
  "ch573_usb_hub_class_request_code =
     [(''HUB_GET_STATUS'', Num 0x00),
      (''HUB_CLEAR_FEATURE'', Num 0x01),
      (''HUB_GET_STATE'', Num 0x02),
      (''HUB_SET_FEATURE'', Num 0x03),
      (''HUB_GET_DESCRIPTOR'', Num 0x06),
      (''HUB_SET_DESCRIPTOR'', Num 0x07)]"

definition ch573_usb_hid_class_request_code :: sfr_table where
  "ch573_usb_hid_class_request_code =
     [(''HID_GET_REPORT'', Num 0x01),
      (''HID_GET_IDLE'', Num 0x02),
      (''HID_GET_PROTOCOL'', Num 0x03),
      (''HID_SET_REPORT'', Num 0x09),
      (''HID_SET_IDLE'', Num 0x0A),
      (''HID_SET_PROTOCOL'', Num 0x0B)]"

definition ch573_bit_define_for_usb_request :: sfr_table where
  "ch573_bit_define_for_usb_request =
     [(''USB_REQ_TYP_IN'', Num 0x80),
      (''USB_REQ_TYP_OUT'', Num 0x00),
      (''USB_REQ_TYP_READ'', Num 0x80),
      (''USB_REQ_TYP_WRITE'', Num 0x00),
      (''USB_REQ_TYP_MASK'', Num 0x60),
      (''USB_REQ_TYP_STANDARD'', Num 0x00),
      (''USB_REQ_TYP_CLASS'', Num 0x20),
      (''USB_REQ_TYP_VENDOR'', Num 0x40),
      (''USB_REQ_TYP_RESERVED'', Num 0x60),
      (''USB_REQ_RECIP_MASK'', Num 0x1F),
      (''USB_REQ_RECIP_DEVICE'', Num 0x00),
      (''USB_REQ_RECIP_INTERF'', Num 0x01),
      (''USB_REQ_RECIP_ENDP'', Num 0x02),
      (''USB_REQ_RECIP_OTHER'', Num 0x03)]"

definition ch573_usb_request_type_for_hub :: sfr_table where
  "ch573_usb_request_type_for_hub =
     [(''HUB_CLEAR_HUB_FEATURE'', Num 0x20),
      (''HUB_CLEAR_PORT_FEATURE'', Num 0x23),
      (''HUB_GET_BUS_STATE'', Num 0xA3),
      (''HUB_GET_HUB_DESCRIPTOR'', Num 0xA0),
      (''HUB_GET_HUB_STATUS'', Num 0xA0),
      (''HUB_GET_PORT_STATUS'', Num 0xA3),
      (''HUB_SET_HUB_DESCRIPTOR'', Num 0x20),
      (''HUB_SET_HUB_FEATURE'', Num 0x20),
      (''HUB_SET_PORT_FEATURE'', Num 0x23)]"

definition ch573_hub_class_feature_selectors :: sfr_table where
  "ch573_hub_class_feature_selectors =
     [(''HUB_C_HUB_LOCAL_POWER'', Num 0),
      (''HUB_C_HUB_OVER_CURRENT'', Num 1),
      (''HUB_PORT_CONNECTION'', Num 0),
      (''HUB_PORT_ENABLE'', Num 1),
      (''HUB_PORT_SUSPEND'', Num 2),
      (''HUB_PORT_OVER_CURRENT'', Num 3),
      (''HUB_PORT_RESET'', Num 4),
      (''HUB_PORT_POWER'', Num 8),
      (''HUB_PORT_LOW_SPEED'', Num 9),
      (''HUB_C_PORT_CONNECTION'', Num 16),
      (''HUB_C_PORT_ENABLE'', Num 17),
      (''HUB_C_PORT_SUSPEND'', Num 18),
      (''HUB_C_PORT_OVER_CURRENT'', Num 19),
      (''HUB_C_PORT_RESET'', Num 20)]"

definition ch573_usb_descriptor_type :: sfr_table where
  "ch573_usb_descriptor_type =
     [(''USB_DESCR_TYP_DEVICE'', Num 0x01),
      (''USB_DESCR_TYP_CONFIG'', Num 0x02),
      (''USB_DESCR_TYP_STRING'', Num 0x03),
      (''USB_DESCR_TYP_INTERF'', Num 0x04),
      (''USB_DESCR_TYP_ENDP'', Num 0x05),
      (''USB_DESCR_TYP_QUALIF'', Num 0x06),
      (''USB_DESCR_TYP_SPEED'', Num 0x07),
      (''USB_DESCR_TYP_OTG'', Num 0x09),
      (''USB_DESCR_TYP_HID'', Num 0x21),
      (''USB_DESCR_TYP_REPORT'', Num 0x22),
      (''USB_DESCR_TYP_PHYSIC'', Num 0x23),
      (''USB_DESCR_TYP_CS_INTF'', Num 0x24),
      (''USB_DESCR_TYP_CS_ENDP'', Num 0x25),
      (''USB_DESCR_TYP_HUB'', Num 0x29)]"

definition ch573_usb_device_class :: sfr_table where
  "ch573_usb_device_class =
     [(''USB_DEV_CLASS_RESERVED'', Num 0x00),
      (''USB_DEV_CLASS_AUDIO'', Num 0x01),
      (''USB_DEV_CLASS_COMMUNIC'', Num 0x02),
      (''USB_DEV_CLASS_HID'', Num 0x03),
      (''USB_DEV_CLASS_MONITOR'', Num 0x04),
      (''USB_DEV_CLASS_PHYSIC_IF'', Num 0x05),
      (''USB_DEV_CLASS_POWER'', Num 0x06),
      (''USB_DEV_CLASS_PRINTER'', Num 0x07),
      (''USB_DEV_CLASS_STORAGE'', Num 0x08),
      (''USB_DEV_CLASS_HUB'', Num 0x09),
      (''USB_DEV_CLASS_VEN_SPEC'', Num 0xFF)]"

definition ch573_usb_endpoint_type_and_attributes :: sfr_table where
  "ch573_usb_endpoint_type_and_attributes =
     [(''USB_ENDP_DIR_MASK'', Num 0x80),
      (''USB_ENDP_ADDR_MASK'', Num 0x0F),
      (''USB_ENDP_TYPE_MASK'', Num 0x03),
      (''USB_ENDP_TYPE_CTRL'', Num 0x00),
      (''USB_ENDP_TYPE_ISOCH'', Num 0x01),
      (''USB_ENDP_TYPE_BULK'', Num 0x02),
      (''USB_ENDP_TYPE_INTER'', Num 0x03),
      (''USB_DEVICE_ADDR'', Num 0x02),
      (''DEFAULT_ENDP0_SIZE'', Num 8),
      (''MAX_PACKET_SIZE'', Num 64),
      (''USB_BO_CBW_SIZE'', Num 0x1F),
      (''USB_BO_CSW_SIZE'', Num 0x0D),
      (''USB_BO_CBW_SIG'', Num 0x43425355),
      (''USB_BO_CSW_SIG'', Num 0x53425355)]"

section \<open>Checks\<close>

lemma ch573_system_safe_accessing_register_checked [sfr_checked]:
  "misaligned ch573_system_safe_accessing_register = []" "misnamed ch573_system_safe_accessing_register = []"
  "hull ch573_system_safe_accessing_register = Some (0x40001040, 0x40001044)" "aliases ch573_system_safe_accessing_register = []"
  unfolding ch573_system_safe_accessing_register_def by (simp_all cong: check_congs)

lemma ch573_system_safe_accessing_register_masks:
  "bad_masks None own None [] ch573_system_safe_accessing_register = []"
  unfolding ch573_system_safe_accessing_register_def by (simp add: crosses_def cong: check_congs)

lemma ch573_system_safe_accessing_register_masks_checked [sfr_checked]: "section_masks (None, ch573_system_safe_accessing_register) = []"
  unfolding section_masks_def fst_conv snd_conv option.map prod.case by (rule ch573_system_safe_accessing_register_masks)

lemma ch573_system_global_configuration_register_checked [sfr_checked]:
  "misaligned ch573_system_global_configuration_register = []" "misnamed ch573_system_global_configuration_register = []"
  "hull ch573_system_global_configuration_register = Some (0x40001044, 0x40001048)" "aliases ch573_system_global_configuration_register = []"
  unfolding ch573_system_global_configuration_register_def by (simp_all cong: check_congs)

lemma ch573_system_global_configuration_register_masks:
  assumes "own ''R8_RESET_STATUS'' = Some 8"
  shows "bad_masks None own None [] ch573_system_global_configuration_register = []"
  unfolding ch573_system_global_configuration_register_def by (simp add: crosses_def assms del: One_nat_def cong: check_congs)

lemma ch573_system_global_configuration_register_masks_checked [sfr_checked]: "section_masks (None, ch573_system_global_configuration_register) = []"
  unfolding section_masks_def fst_conv snd_conv option.map prod.case by (rule ch573_system_global_configuration_register_masks) (simp_all only: ch573_system_global_configuration_register_def, simp_all cong: check_congs)

lemma ch573_system_clock_configuration_register_checked [sfr_checked]:
  "misaligned ch573_system_clock_configuration_register = []" "misnamed ch573_system_clock_configuration_register = []"
  "hull ch573_system_clock_configuration_register = Some (0x40001008, 0x4000100C)" "aliases ch573_system_clock_configuration_register = []"
  unfolding ch573_system_clock_configuration_register_def by (simp_all cong: check_congs)

lemma ch573_system_clock_configuration_register_masks:
  "bad_masks None own None [] ch573_system_clock_configuration_register = []"
  unfolding ch573_system_clock_configuration_register_def by (simp add: crosses_def cong: check_congs)

lemma ch573_system_clock_configuration_register_masks_checked [sfr_checked]: "section_masks (None, ch573_system_clock_configuration_register) = []"
  unfolding section_masks_def fst_conv snd_conv option.map prod.case by (rule ch573_system_clock_configuration_register_masks)

lemma ch573_system_sleep_control_register_checked [sfr_checked]:
  "misaligned ch573_system_sleep_control_register = []" "misnamed ch573_system_sleep_control_register = []"
  "hull ch573_system_sleep_control_register = Some (0x4000100C, 0x40001010)" "aliases ch573_system_sleep_control_register = []"
  unfolding ch573_system_sleep_control_register_def by (simp_all cong: check_congs)

lemma ch573_system_sleep_control_register_masks:
  "bad_masks None own None [] ch573_system_sleep_control_register = []"
  unfolding ch573_system_sleep_control_register_def by (simp add: crosses_def cong: check_congs)

lemma ch573_system_sleep_control_register_masks_checked [sfr_checked]: "section_masks (None, ch573_system_sleep_control_register) = []"
  unfolding section_masks_def fst_conv snd_conv option.map prod.case by (rule ch573_system_sleep_control_register_masks)

lemma ch573_system_i_o_pin_configuration_checked [sfr_checked]:
  "misaligned ch573_system_i_o_pin_configuration = []" "misnamed ch573_system_i_o_pin_configuration = []"
  "hull ch573_system_i_o_pin_configuration = Some (0x40001018, 0x4000101C)" "aliases ch573_system_i_o_pin_configuration = []"
  unfolding ch573_system_i_o_pin_configuration_def by (simp_all cong: check_congs)

lemma ch573_system_i_o_pin_configuration_masks:
  "bad_masks None own None [] ch573_system_i_o_pin_configuration = []"
  unfolding ch573_system_i_o_pin_configuration_def by (simp add: crosses_def cong: check_congs)

lemma ch573_system_i_o_pin_configuration_masks_checked [sfr_checked]: "section_masks (None, ch573_system_i_o_pin_configuration) = []"
  unfolding section_masks_def fst_conv snd_conv option.map prod.case by (rule ch573_system_i_o_pin_configuration_masks)

lemma ch573_system_power_management_register_checked [sfr_checked]:
  "misaligned ch573_system_power_management_register = []" "misnamed ch573_system_power_management_register = [''R16_AUX_POWER_ADJ'']"
  "hull ch573_system_power_management_register = Some (0x40001020, 0x40001024)" "aliases ch573_system_power_management_register = []"
  unfolding ch573_system_power_management_register_def by (simp_all cong: check_congs)

lemma ch573_system_power_management_register_masks:
  "bad_masks None own None [] ch573_system_power_management_register = []"
  unfolding ch573_system_power_management_register_def by (simp add: crosses_def cong: check_congs)

lemma ch573_system_power_management_register_masks_checked [sfr_checked]: "section_masks (None, ch573_system_power_management_register) = []"
  unfolding section_masks_def fst_conv snd_conv option.map prod.case by (rule ch573_system_power_management_register_masks)

lemma ch573_system_battery_detector_register_checked [sfr_checked]:
  "misaligned ch573_system_battery_detector_register = []" "misnamed ch573_system_battery_detector_register = []"
  "hull ch573_system_battery_detector_register = Some (0x40001024, 0x40001028)" "aliases ch573_system_battery_detector_register = []"
  unfolding ch573_system_battery_detector_register_def by (simp_all cong: check_congs)

lemma ch573_system_battery_detector_register_masks:
  "bad_masks None own None [] ch573_system_battery_detector_register = []"
  unfolding ch573_system_battery_detector_register_def by (simp add: crosses_def cong: check_congs)

lemma ch573_system_battery_detector_register_masks_checked [sfr_checked]: "section_masks (None, ch573_system_battery_detector_register) = []"
  unfolding section_masks_def fst_conv snd_conv option.map prod.case by (rule ch573_system_battery_detector_register_masks)

lemma ch573_system_32khz_oscillator_control_register_checked [sfr_checked]:
  "misaligned ch573_system_32khz_oscillator_control_register = []" "misnamed ch573_system_32khz_oscillator_control_register = []"
  "hull ch573_system_32khz_oscillator_control_register = Some (0x4000102C, 0x40001030)" "aliases ch573_system_32khz_oscillator_control_register = []"
  unfolding ch573_system_32khz_oscillator_control_register_def by (simp_all cong: check_congs)

lemma ch573_system_32khz_oscillator_control_register_masks:
  "bad_masks None own None [] ch573_system_32khz_oscillator_control_register = []"
  unfolding ch573_system_32khz_oscillator_control_register_def by (simp add: crosses_def cong: check_congs)

lemma ch573_system_32khz_oscillator_control_register_masks_checked [sfr_checked]: "section_masks (None, ch573_system_32khz_oscillator_control_register) = []"
  unfolding section_masks_def fst_conv snd_conv option.map prod.case by (rule ch573_system_32khz_oscillator_control_register_masks)

lemma ch573_system_real_time_clock_register_checked [sfr_checked]:
  "misaligned ch573_system_real_time_clock_register = []" "misnamed ch573_system_real_time_clock_register = []"
  "hull ch573_system_real_time_clock_register = Some (0x40001030, 0x40001040)" "aliases ch573_system_real_time_clock_register = []"
  unfolding ch573_system_real_time_clock_register_def by (simp_all cong: check_congs)

lemma ch573_system_real_time_clock_register_masks:
  "bad_masks None own None [] ch573_system_real_time_clock_register = []"
  unfolding ch573_system_real_time_clock_register_def by (simp add: crosses_def cong: check_congs)

lemma ch573_system_real_time_clock_register_masks_checked [sfr_checked]: "section_masks (None, ch573_system_real_time_clock_register) = []"
  unfolding section_masks_def fst_conv snd_conv option.map prod.case by (rule ch573_system_real_time_clock_register_masks)

lemma ch573_system_miscellaneous_control_register_checked [sfr_checked]:
  "misaligned ch573_system_miscellaneous_control_register = []" "misnamed ch573_system_miscellaneous_control_register = []"
  "hull ch573_system_miscellaneous_control_register = Some (0x40001048, 0x4000104C)" "aliases ch573_system_miscellaneous_control_register = []"
  unfolding ch573_system_miscellaneous_control_register_def by (simp_all cong: check_congs)

lemma ch573_system_miscellaneous_control_register_masks:
  "bad_masks None own None [] ch573_system_miscellaneous_control_register = []"
  unfolding ch573_system_miscellaneous_control_register_def by (simp add: crosses_def cong: check_congs)

lemma ch573_system_miscellaneous_control_register_masks_checked [sfr_checked]: "section_masks (None, ch573_system_miscellaneous_control_register) = []"
  unfolding section_masks_def fst_conv snd_conv option.map prod.case by (rule ch573_system_miscellaneous_control_register_masks)

lemma ch573_system_32mhz_oscillator_control_register_checked [sfr_checked]:
  "misaligned ch573_system_32mhz_oscillator_control_register = []" "misnamed ch573_system_32mhz_oscillator_control_register = []"
  "hull ch573_system_32mhz_oscillator_control_register = Some (0x4000104C, 0x40001050)" "aliases ch573_system_32mhz_oscillator_control_register = []"
  unfolding ch573_system_32mhz_oscillator_control_register_def by (simp_all cong: check_congs)

lemma ch573_system_32mhz_oscillator_control_register_masks:
  "bad_masks None own None [] ch573_system_32mhz_oscillator_control_register = []"
  unfolding ch573_system_32mhz_oscillator_control_register_def by (simp add: crosses_def cong: check_congs)

lemma ch573_system_32mhz_oscillator_control_register_masks_checked [sfr_checked]: "section_masks (None, ch573_system_32mhz_oscillator_control_register) = []"
  unfolding section_masks_def fst_conv snd_conv option.map prod.case by (rule ch573_system_32mhz_oscillator_control_register_masks)

lemma ch573_system_oscillator_frequency_calibration_register_checked [sfr_checked]:
  "misaligned ch573_system_oscillator_frequency_calibration_register = []" "misnamed ch573_system_oscillator_frequency_calibration_register = []"
  "hull ch573_system_oscillator_frequency_calibration_register = Some (0x40001050, 0x40001054)" "aliases ch573_system_oscillator_frequency_calibration_register = []"
  unfolding ch573_system_oscillator_frequency_calibration_register_def by (simp_all cong: check_congs)

lemma ch573_system_oscillator_frequency_calibration_register_masks:
  "bad_masks None own None [] ch573_system_oscillator_frequency_calibration_register = []"
  unfolding ch573_system_oscillator_frequency_calibration_register_def by (simp add: crosses_def cong: check_congs)

lemma ch573_system_oscillator_frequency_calibration_register_masks_checked [sfr_checked]: "section_masks (None, ch573_system_oscillator_frequency_calibration_register) = []"
  unfolding section_masks_def fst_conv snd_conv option.map prod.case by (rule ch573_system_oscillator_frequency_calibration_register_masks)

lemma ch573_system_adc_and_touch_key_checked [sfr_checked]:
  "misaligned ch573_system_adc_and_touch_key = []" "misnamed ch573_system_adc_and_touch_key = [''R32_TKEY_CTRL'']"
  "hull ch573_system_adc_and_touch_key = Some (0x40001054, 0x40001070)" "aliases ch573_system_adc_and_touch_key = [(''R32_TKEY_CTRL'', ''R8_TKEY_COUNT'')]"
  unfolding ch573_system_adc_and_touch_key_def by (simp_all cong: check_congs)

lemma ch573_system_adc_and_touch_key_masks:
  "bad_masks None own None [] ch573_system_adc_and_touch_key = []"
  unfolding ch573_system_adc_and_touch_key_def by (simp add: crosses_def cong: check_congs)

lemma ch573_system_adc_and_touch_key_masks_checked [sfr_checked]: "section_masks (None, ch573_system_adc_and_touch_key) = []"
  unfolding section_masks_def fst_conv snd_conv option.map prod.case by (rule ch573_system_adc_and_touch_key_masks)

lemma ch573_system_flash_rom_control_register_checked [sfr_checked]:
  "misaligned ch573_system_flash_rom_control_register = []" "misnamed ch573_system_flash_rom_control_register = []"
  "hull ch573_system_flash_rom_control_register = Some (0x40001800, 0x40001808)" "aliases ch573_system_flash_rom_control_register = []"
  unfolding ch573_system_flash_rom_control_register_def by (simp_all cong: check_congs)

lemma ch573_system_flash_rom_control_register_masks:
  "bad_masks None own None [] ch573_system_flash_rom_control_register = []"
  unfolding ch573_system_flash_rom_control_register_def by (simp add: crosses_def cong: check_congs)

lemma ch573_system_flash_rom_control_register_masks_checked [sfr_checked]: "section_masks (None, ch573_system_flash_rom_control_register) = []"
  unfolding section_masks_def fst_conv snd_conv option.map prod.case by (rule ch573_system_flash_rom_control_register_masks)

lemma ch573_system_gpio_interrupt_control_register_checked [sfr_checked]:
  "misaligned ch573_system_gpio_interrupt_control_register = []" "misnamed ch573_system_gpio_interrupt_control_register = []"
  "hull ch573_system_gpio_interrupt_control_register = Some (0x40001090, 0x400010A0)" "aliases ch573_system_gpio_interrupt_control_register = []"
  unfolding ch573_system_gpio_interrupt_control_register_def by (simp_all cong: check_congs)

lemma ch573_system_gpio_interrupt_control_register_masks:
  "bad_masks None own None [] ch573_system_gpio_interrupt_control_register = []"
  unfolding ch573_system_gpio_interrupt_control_register_def by (simp add: crosses_def cong: check_congs)

lemma ch573_system_gpio_interrupt_control_register_masks_checked [sfr_checked]: "section_masks (None, ch573_system_gpio_interrupt_control_register) = []"
  unfolding section_masks_def fst_conv snd_conv option.map prod.case by (rule ch573_system_gpio_interrupt_control_register_masks)

lemma ch573_gpio_pa_register_checked [sfr_checked]:
  "misaligned ch573_gpio_pa_register = []" "misnamed ch573_gpio_pa_register = []"
  "hull ch573_gpio_pa_register = Some (0x400010A0, 0x400010B8)" "aliases ch573_gpio_pa_register = []"
  unfolding ch573_gpio_pa_register_def by (simp_all cong: check_congs)

lemma ch573_gpio_pa_register_masks:
  "bad_masks None own None [] ch573_gpio_pa_register = []"
  unfolding ch573_gpio_pa_register_def by (simp add: crosses_def cong: check_congs)

lemma ch573_gpio_pa_register_masks_checked [sfr_checked]: "section_masks (None, ch573_gpio_pa_register) = []"
  unfolding section_masks_def fst_conv snd_conv option.map prod.case by (rule ch573_gpio_pa_register_masks)

lemma ch573_gpio_pb_register_checked [sfr_checked]:
  "misaligned ch573_gpio_pb_register = []" "misnamed ch573_gpio_pb_register = []"
  "hull ch573_gpio_pb_register = Some (0x400010C0, 0x400010D8)" "aliases ch573_gpio_pb_register = []"
  unfolding ch573_gpio_pb_register_def by (simp_all cong: check_congs)

lemma ch573_gpio_pb_register_masks:
  "bad_masks None own None [] ch573_gpio_pb_register = []"
  unfolding ch573_gpio_pb_register_def by (simp add: crosses_def cong: check_congs)

lemma ch573_gpio_pb_register_masks_checked [sfr_checked]: "section_masks (None, ch573_gpio_pb_register) = []"
  unfolding section_masks_def fst_conv snd_conv option.map prod.case by (rule ch573_gpio_pb_register_masks)

lemma ch573_gpio_register_address_offset_and_checked [sfr_checked]:
  "misaligned ch573_gpio_register_address_offset_and = []" "misnamed ch573_gpio_register_address_offset_and = []"
  "hull ch573_gpio_register_address_offset_and = None" "aliases ch573_gpio_register_address_offset_and = []"
  unfolding ch573_gpio_register_address_offset_and_def by (simp_all cong: check_congs)

lemma ch573_gpio_register_address_offset_and_masks:
  "bad_masks (Some f) own None [] ch573_gpio_register_address_offset_and = []"
  unfolding ch573_gpio_register_address_offset_and_def by (simp add: crosses_def cong: check_congs)

lemma ch573_gpio_register_address_offset_and_masks_checked [sfr_checked]: "section_masks (Some (0x400010A0, ch573_gpio_pa_register), ch573_gpio_register_address_offset_and) = []"
  unfolding section_masks_def fst_conv snd_conv option.map prod.case by (rule ch573_gpio_register_address_offset_and_masks)

lemma ch573_gpio_alias_name_checked [sfr_checked]:
  "misaligned ch573_gpio_alias_name = []" "misnamed ch573_gpio_alias_name = []"
  "hull ch573_gpio_alias_name = None" "aliases ch573_gpio_alias_name = []"
  unfolding ch573_gpio_alias_name_def by (simp_all cong: check_congs)

lemma ch573_gpio_alias_name_masks:
  "bad_masks None own None [] ch573_gpio_alias_name = []"
  unfolding ch573_gpio_alias_name_def by (simp add: crosses_def cong: check_congs)

lemma ch573_gpio_alias_name_masks_checked [sfr_checked]: "section_masks (None, ch573_gpio_alias_name) = []"
  unfolding section_masks_def fst_conv snd_conv option.map prod.case by (rule ch573_gpio_alias_name_masks)

lemma ch573_timer0_register_checked [sfr_checked]:
  "misaligned ch573_timer0_register = []" "misnamed ch573_timer0_register = []"
  "hull ch573_timer0_register = Some (0x40002000, 0x40002014)" "aliases ch573_timer0_register = []"
  unfolding ch573_timer0_register_def by (simp_all cong: check_congs)

lemma ch573_timer0_register_masks:
  "bad_masks None own None [] ch573_timer0_register = []"
  unfolding ch573_timer0_register_def by (simp add: crosses_def cong: check_congs)

lemma ch573_timer0_register_masks_checked [sfr_checked]: "section_masks (None, ch573_timer0_register) = []"
  unfolding section_masks_def fst_conv snd_conv option.map prod.case by (rule ch573_timer0_register_masks)

lemma ch573_timer1_register_checked [sfr_checked]:
  "misaligned ch573_timer1_register = []" "misnamed ch573_timer1_register = []"
  "hull ch573_timer1_register = Some (0x40002400, 0x40002420)" "aliases ch573_timer1_register = []"
  unfolding ch573_timer1_register_def by (simp_all cong: check_congs)

lemma ch573_timer1_register_masks:
  "bad_masks None own None [] ch573_timer1_register = []"
  unfolding ch573_timer1_register_def by (simp add: crosses_def cong: check_congs)

lemma ch573_timer1_register_masks_checked [sfr_checked]: "section_masks (None, ch573_timer1_register) = []"
  unfolding section_masks_def fst_conv snd_conv option.map prod.case by (rule ch573_timer1_register_masks)

lemma ch573_timer2_register_checked [sfr_checked]:
  "misaligned ch573_timer2_register = []" "misnamed ch573_timer2_register = []"
  "hull ch573_timer2_register = Some (0x40002800, 0x40002820)" "aliases ch573_timer2_register = []"
  unfolding ch573_timer2_register_def by (simp_all cong: check_congs)

lemma ch573_timer2_register_masks:
  "bad_masks None own None [] ch573_timer2_register = []"
  unfolding ch573_timer2_register_def by (simp add: crosses_def cong: check_congs)

lemma ch573_timer2_register_masks_checked [sfr_checked]: "section_masks (None, ch573_timer2_register) = []"
  unfolding section_masks_def fst_conv snd_conv option.map prod.case by (rule ch573_timer2_register_masks)

lemma ch573_timer3_register_checked [sfr_checked]:
  "misaligned ch573_timer3_register = []" "misnamed ch573_timer3_register = []"
  "hull ch573_timer3_register = Some (0x40002C00, 0x40002C14)" "aliases ch573_timer3_register = []"
  unfolding ch573_timer3_register_def by (simp_all cong: check_congs)

lemma ch573_timer3_register_masks:
  "bad_masks None own None [] ch573_timer3_register = []"
  unfolding ch573_timer3_register_def by (simp add: crosses_def cong: check_congs)

lemma ch573_timer3_register_masks_checked [sfr_checked]: "section_masks (None, ch573_timer3_register) = []"
  unfolding section_masks_def fst_conv snd_conv option.map prod.case by (rule ch573_timer3_register_masks)

lemma ch573_timer_register_address_offset_and_checked [sfr_checked]:
  "misaligned ch573_timer_register_address_offset_and = []" "misnamed ch573_timer_register_address_offset_and = []"
  "hull ch573_timer_register_address_offset_and = None" "aliases ch573_timer_register_address_offset_and = []"
  unfolding ch573_timer_register_address_offset_and_def by (simp_all cong: check_congs)

lemma ch573_timer_register_address_offset_and_masks:
  assumes "f 0 = Some 8" "f 1 = Some 8" "f 2 = Some 8" "f 6 = Some 8"
  shows "bad_masks (Some f) own None [] ch573_timer_register_address_offset_and = []"
  unfolding ch573_timer_register_address_offset_and_def by (simp add: crosses_def assms del: One_nat_def cong: check_congs)

lemma ch573_timer_register_address_offset_and_masks_checked [sfr_checked]: "section_masks (Some (0x40002400, ch573_timer1_register), ch573_timer_register_address_offset_and) = []"
  unfolding section_masks_def fst_conv snd_conv option.map prod.case by (rule ch573_timer_register_address_offset_and_masks) (simp_all only: ch573_timer1_register_def, simp_all cong: check_congs)

lemma ch573_uart0_register_checked [sfr_checked]:
  "misaligned ch573_uart0_register = []" "misnamed ch573_uart0_register = []"
  "hull ch573_uart0_register = Some (0x40003000, 0x40003010)" "aliases ch573_uart0_register = [(''R8_UART0_RBR'', ''R8_UART0_THR'')]"
  unfolding ch573_uart0_register_def by (simp_all cong: check_congs)

lemma ch573_uart0_register_masks:
  "bad_masks None own None [] ch573_uart0_register = []"
  unfolding ch573_uart0_register_def by (simp add: crosses_def cong: check_congs)

lemma ch573_uart0_register_masks_checked [sfr_checked]: "section_masks (None, ch573_uart0_register) = []"
  unfolding section_masks_def fst_conv snd_conv option.map prod.case by (rule ch573_uart0_register_masks)

lemma ch573_uart1_register_checked [sfr_checked]:
  "misaligned ch573_uart1_register = []" "misnamed ch573_uart1_register = []"
  "hull ch573_uart1_register = Some (0x40003400, 0x40003410)" "aliases ch573_uart1_register = [(''R8_UART1_RBR'', ''R8_UART1_THR'')]"
  unfolding ch573_uart1_register_def by (simp_all cong: check_congs)

lemma ch573_uart1_register_masks:
  "bad_masks None own None [] ch573_uart1_register = []"
  unfolding ch573_uart1_register_def by (simp add: crosses_def cong: check_congs)

lemma ch573_uart1_register_masks_checked [sfr_checked]: "section_masks (None, ch573_uart1_register) = []"
  unfolding section_masks_def fst_conv snd_conv option.map prod.case by (rule ch573_uart1_register_masks)

lemma ch573_uart2_register_checked [sfr_checked]:
  "misaligned ch573_uart2_register = []" "misnamed ch573_uart2_register = []"
  "hull ch573_uart2_register = Some (0x40003800, 0x40003810)" "aliases ch573_uart2_register = [(''R8_UART2_RBR'', ''R8_UART2_THR'')]"
  unfolding ch573_uart2_register_def by (simp_all cong: check_congs)

lemma ch573_uart2_register_masks:
  "bad_masks None own None [] ch573_uart2_register = []"
  unfolding ch573_uart2_register_def by (simp add: crosses_def cong: check_congs)

lemma ch573_uart2_register_masks_checked [sfr_checked]: "section_masks (None, ch573_uart2_register) = []"
  unfolding section_masks_def fst_conv snd_conv option.map prod.case by (rule ch573_uart2_register_masks)

lemma ch573_uart3_register_checked [sfr_checked]:
  "misaligned ch573_uart3_register = []" "misnamed ch573_uart3_register = []"
  "hull ch573_uart3_register = Some (0x40003C00, 0x40003C10)" "aliases ch573_uart3_register = [(''R8_UART3_RBR'', ''R8_UART3_THR'')]"
  unfolding ch573_uart3_register_def by (simp_all cong: check_congs)

lemma ch573_uart3_register_masks:
  "bad_masks None own None [] ch573_uart3_register = []"
  unfolding ch573_uart3_register_def by (simp add: crosses_def cong: check_congs)

lemma ch573_uart3_register_masks_checked [sfr_checked]: "section_masks (None, ch573_uart3_register) = []"
  unfolding section_masks_def fst_conv snd_conv option.map prod.case by (rule ch573_uart3_register_masks)

lemma ch573_uart_register_address_offset_and_checked [sfr_checked]:
  "misaligned ch573_uart_register_address_offset_and = []" "misnamed ch573_uart_register_address_offset_and = []"
  "hull ch573_uart_register_address_offset_and = None" "aliases ch573_uart_register_address_offset_and = []"
  unfolding ch573_uart_register_address_offset_and_def by (simp_all cong: check_congs)

lemma ch573_uart_register_address_offset_and_masks:
  assumes "f 0 = Some 8" "f 1 = Some 8" "f 2 = Some 8" "f 3 = Some 8" "f 4 = Some 8" "f 5 = Some 8" "f 6 = Some 8"
  shows "bad_masks (Some f) own None [] ch573_uart_register_address_offset_and = []"
  unfolding ch573_uart_register_address_offset_and_def by (simp add: crosses_def assms del: One_nat_def cong: check_congs)

lemma ch573_uart_register_address_offset_and_masks_checked [sfr_checked]: "section_masks (Some (0x40003000, ch573_uart0_register), ch573_uart_register_address_offset_and) = []"
  unfolding section_masks_def fst_conv snd_conv option.map prod.case by (rule ch573_uart_register_address_offset_and_masks) (simp_all only: ch573_uart0_register_def, simp_all cong: check_congs)

lemma ch573_uart_interrupt_identification_values_for_checked [sfr_checked]:
  "misaligned ch573_uart_interrupt_identification_values_for = []" "misnamed ch573_uart_interrupt_identification_values_for = []"
  "hull ch573_uart_interrupt_identification_values_for = None" "aliases ch573_uart_interrupt_identification_values_for = []"
  unfolding ch573_uart_interrupt_identification_values_for_def by (simp_all cong: check_congs)

lemma ch573_uart_interrupt_identification_values_for_masks:
  "bad_masks None own None [] ch573_uart_interrupt_identification_values_for = []"
  unfolding ch573_uart_interrupt_identification_values_for_def by (simp add: crosses_def cong: check_congs)

lemma ch573_uart_interrupt_identification_values_for_masks_checked [sfr_checked]: "section_masks (None, ch573_uart_interrupt_identification_values_for) = []"
  unfolding section_masks_def fst_conv snd_conv option.map prod.case by (rule ch573_uart_interrupt_identification_values_for_masks)

lemma ch573_spi0_register_checked [sfr_checked]:
  "misaligned ch573_spi0_register = []" "misnamed ch573_spi0_register = []"
  "hull ch573_spi0_register = Some (0x40004000, 0x40004020)" "aliases ch573_spi0_register = [(''R8_SPI0_CLOCK_DIV'', ''R8_SPI0_SLAVE_PRE'')]"
  unfolding ch573_spi0_register_def by (simp_all cong: check_congs)

lemma ch573_spi0_register_masks:
  "bad_masks None own None [] ch573_spi0_register = []"
  unfolding ch573_spi0_register_def by (simp add: crosses_def cong: check_congs)

lemma ch573_spi0_register_masks_checked [sfr_checked]: "section_masks (None, ch573_spi0_register) = []"
  unfolding section_masks_def fst_conv snd_conv option.map prod.case by (rule ch573_spi0_register_masks)

lemma ch573_spi_register_address_offset_and_checked [sfr_checked]:
  "misaligned ch573_spi_register_address_offset_and = []" "misnamed ch573_spi_register_address_offset_and = []"
  "hull ch573_spi_register_address_offset_and = None" "aliases ch573_spi_register_address_offset_and = []"
  unfolding ch573_spi_register_address_offset_and_def by (simp_all cong: check_congs)

lemma ch573_spi_register_address_offset_and_masks:
  assumes "f 0 = Some 8" "f 1 = Some 8" "f 2 = Some 8" "f 5 = Some 8" "f 6 = Some 8"
  shows "bad_masks (Some f) own None [] ch573_spi_register_address_offset_and = []"
  unfolding ch573_spi_register_address_offset_and_def by (simp add: crosses_def assms del: One_nat_def cong: check_congs)

lemma ch573_spi_register_address_offset_and_masks_checked [sfr_checked]: "section_masks (Some (0x40004000, ch573_spi0_register), ch573_spi_register_address_offset_and) = []"
  unfolding section_masks_def fst_conv snd_conv option.map prod.case by (rule ch573_spi_register_address_offset_and_masks) (simp_all only: ch573_spi0_register_def, simp_all cong: check_congs)

lemma ch573_pwm4_5_6_7_8_checked [sfr_checked]:
  "misaligned ch573_pwm4_5_6_7_8 = []" "misnamed ch573_pwm4_5_6_7_8 = [''R8_PWM_INT_CTRL'']"
  "hull ch573_pwm4_5_6_7_8 = Some (0x40005000, 0x40005010)" "aliases ch573_pwm4_5_6_7_8 = []"
  unfolding ch573_pwm4_5_6_7_8_def by (simp_all cong: check_congs)

lemma ch573_pwm4_5_6_7_8_masks:
  "bad_masks None own None [] ch573_pwm4_5_6_7_8 = []"
  unfolding ch573_pwm4_5_6_7_8_def by (simp add: crosses_def cong: check_congs)

lemma ch573_pwm4_5_6_7_8_masks_checked [sfr_checked]: "section_masks (None, ch573_pwm4_5_6_7_8) = []"
  unfolding section_masks_def fst_conv snd_conv option.map prod.case by (rule ch573_pwm4_5_6_7_8_masks)

lemma ch573_pwm4_5_6_7_8_2_checked [sfr_checked]:
  "misaligned ch573_pwm4_5_6_7_8_2 = []" "misnamed ch573_pwm4_5_6_7_8_2 = []"
  "hull ch573_pwm4_5_6_7_8_2 = None" "aliases ch573_pwm4_5_6_7_8_2 = []"
  unfolding ch573_pwm4_5_6_7_8_2_def by (simp_all cong: check_congs)

lemma ch573_pwm4_5_6_7_8_2_masks:
  assumes "f 0 = Some 8" "f 1 = Some 8" "f 2 = Some 8"
  shows "bad_masks (Some f) own None [] ch573_pwm4_5_6_7_8_2 = []"
  unfolding ch573_pwm4_5_6_7_8_2_def by (simp add: crosses_def assms del: One_nat_def cong: check_congs)

lemma ch573_pwm4_5_6_7_8_2_masks_checked [sfr_checked]: "section_masks (Some (0x40005000, ch573_pwm4_5_6_7_8), ch573_pwm4_5_6_7_8_2) = []"
  unfolding section_masks_def fst_conv snd_conv option.map prod.case by (rule ch573_pwm4_5_6_7_8_2_masks) (simp_all only: ch573_pwm4_5_6_7_8_def, simp_all cong: check_congs)

lemma ch573_address_space_define_checked [sfr_checked]:
  "misaligned ch573_address_space_define = []" "misnamed ch573_address_space_define = []"
  "hull ch573_address_space_define = None" "aliases ch573_address_space_define = []"
  unfolding ch573_address_space_define_def by (simp_all cong: check_congs)

lemma ch573_address_space_define_masks:
  "bad_masks None own None [] ch573_address_space_define = []"
  unfolding ch573_address_space_define_def by (simp add: crosses_def cong: check_congs)

lemma ch573_address_space_define_masks_checked [sfr_checked]: "section_masks (None, ch573_address_space_define) = []"
  unfolding section_masks_def fst_conv snd_conv option.map prod.case by (rule ch573_address_space_define_masks)

lemma ch573_special_program_space_checked [sfr_checked]:
  "misaligned ch573_special_program_space = []" "misnamed ch573_special_program_space = []"
  "hull ch573_special_program_space = None" "aliases ch573_special_program_space = []"
  unfolding ch573_special_program_space_def by (simp_all cong: check_congs)

lemma ch573_special_program_space_masks:
  "bad_masks None own None [] ch573_special_program_space = []"
  unfolding ch573_special_program_space_def by (simp add: crosses_def cong: check_congs)

lemma ch573_special_program_space_masks_checked [sfr_checked]: "section_masks (None, ch573_special_program_space) = []"
  unfolding section_masks_def fst_conv snd_conv option.map prod.case by (rule ch573_special_program_space_masks)

lemma ch573_interrupt_routine_address_and_interrupt_checked [sfr_checked]:
  "misaligned ch573_interrupt_routine_address_and_interrupt = []" "misnamed ch573_interrupt_routine_address_and_interrupt = []"
  "hull ch573_interrupt_routine_address_and_interrupt = None" "aliases ch573_interrupt_routine_address_and_interrupt = []"
  unfolding ch573_interrupt_routine_address_and_interrupt_def by (simp_all cong: check_congs)

lemma ch573_interrupt_routine_address_and_interrupt_masks:
  "bad_masks None own None [] ch573_interrupt_routine_address_and_interrupt = []"
  unfolding ch573_interrupt_routine_address_and_interrupt_def by (simp add: crosses_def cong: check_congs)

lemma ch573_interrupt_routine_address_and_interrupt_masks_checked [sfr_checked]: "section_masks (None, ch573_interrupt_routine_address_and_interrupt) = []"
  unfolding section_masks_def fst_conv snd_conv option.map prod.case by (rule ch573_interrupt_routine_address_and_interrupt_masks)

lemma ch573_peripheral_memory_map_checked [sfr_checked]:
  "misaligned ch573_peripheral_memory_map = []" "misnamed ch573_peripheral_memory_map = []"
  "hull ch573_peripheral_memory_map = None" "aliases ch573_peripheral_memory_map = []"
  unfolding ch573_peripheral_memory_map_def by (simp_all cong: check_congs)

lemma ch573_peripheral_memory_map_masks:
  "bad_masks None own None [] ch573_peripheral_memory_map = []"
  unfolding ch573_peripheral_memory_map_def by (simp add: crosses_def cong: check_congs)

lemma ch573_peripheral_memory_map_masks_checked [sfr_checked]: "section_masks (None, ch573_peripheral_memory_map) = []"
  unfolding section_masks_def fst_conv snd_conv option.map prod.case by (rule ch573_peripheral_memory_map_masks)

lemma ch573_usb_checked [sfr_checked]:
  "misaligned (ch573_usb @ ch573_usb_2) = []" "misnamed (ch573_usb @ ch573_usb_2) = []"
  "hull (ch573_usb @ ch573_usb_2) = Some (0x40008000, 0x40008034)" "aliases (ch573_usb @ ch573_usb_2) = []"
  unfolding ch573_usb_def ch573_usb_2_def append_Cons append_Nil by (simp_all cong: check_congs)

lemma ch573_usb_masks:
  assumes "own ''R8_UDEV_CTRL'' = Some 8" "own ''R8_UEP1_CTRL'' = Some 8" "own ''R8_UEP2_3_MOD'' = Some 8" "own ''R8_UEP2_CTRL'' = Some 8" "own ''R8_UEP3_CTRL'' = Some 8"
  shows "bad_masks None own None [] (ch573_usb @ ch573_usb_2) = []"
  unfolding ch573_usb_def ch573_usb_2_def append_Cons append_Nil by (simp add: crosses_def assms del: One_nat_def cong: check_congs)

lemma ch573_usb_masks_checked [sfr_checked]: "section_masks (None, (ch573_usb @ ch573_usb_2)) = []"
  unfolding section_masks_def fst_conv snd_conv option.map prod.case by (rule ch573_usb_masks) (simp_all only: ch573_usb_def ch573_usb_2_def append_Cons append_Nil, simp_all cong: check_congs)

lemma ch573_usb_pid_checked [sfr_checked]:
  "misaligned ch573_usb_pid = []" "misnamed ch573_usb_pid = []"
  "hull ch573_usb_pid = None" "aliases ch573_usb_pid = []"
  unfolding ch573_usb_pid_def by (simp_all cong: check_congs)

lemma ch573_usb_pid_masks:
  "bad_masks None own None [] ch573_usb_pid = []"
  unfolding ch573_usb_pid_def by (simp add: crosses_def cong: check_congs)

lemma ch573_usb_pid_masks_checked [sfr_checked]: "section_masks (None, ch573_usb_pid) = []"
  unfolding section_masks_def fst_conv snd_conv option.map prod.case by (rule ch573_usb_pid_masks)

lemma ch573_usb_standard_device_request_code_checked [sfr_checked]:
  "misaligned ch573_usb_standard_device_request_code = []" "misnamed ch573_usb_standard_device_request_code = []"
  "hull ch573_usb_standard_device_request_code = None" "aliases ch573_usb_standard_device_request_code = []"
  unfolding ch573_usb_standard_device_request_code_def by (simp_all cong: check_congs)

lemma ch573_usb_standard_device_request_code_masks:
  "bad_masks None own None [] ch573_usb_standard_device_request_code = []"
  unfolding ch573_usb_standard_device_request_code_def by (simp add: crosses_def cong: check_congs)

lemma ch573_usb_standard_device_request_code_masks_checked [sfr_checked]: "section_masks (None, ch573_usb_standard_device_request_code) = []"
  unfolding section_masks_def fst_conv snd_conv option.map prod.case by (rule ch573_usb_standard_device_request_code_masks)

lemma ch573_usb_hub_class_request_code_checked [sfr_checked]:
  "misaligned ch573_usb_hub_class_request_code = []" "misnamed ch573_usb_hub_class_request_code = []"
  "hull ch573_usb_hub_class_request_code = None" "aliases ch573_usb_hub_class_request_code = []"
  unfolding ch573_usb_hub_class_request_code_def by (simp_all cong: check_congs)

lemma ch573_usb_hub_class_request_code_masks:
  "bad_masks None own None [] ch573_usb_hub_class_request_code = []"
  unfolding ch573_usb_hub_class_request_code_def by (simp add: crosses_def cong: check_congs)

lemma ch573_usb_hub_class_request_code_masks_checked [sfr_checked]: "section_masks (None, ch573_usb_hub_class_request_code) = []"
  unfolding section_masks_def fst_conv snd_conv option.map prod.case by (rule ch573_usb_hub_class_request_code_masks)

lemma ch573_usb_hid_class_request_code_checked [sfr_checked]:
  "misaligned ch573_usb_hid_class_request_code = []" "misnamed ch573_usb_hid_class_request_code = []"
  "hull ch573_usb_hid_class_request_code = None" "aliases ch573_usb_hid_class_request_code = []"
  unfolding ch573_usb_hid_class_request_code_def by (simp_all cong: check_congs)

lemma ch573_usb_hid_class_request_code_masks:
  "bad_masks None own None [] ch573_usb_hid_class_request_code = []"
  unfolding ch573_usb_hid_class_request_code_def by (simp add: crosses_def cong: check_congs)

lemma ch573_usb_hid_class_request_code_masks_checked [sfr_checked]: "section_masks (None, ch573_usb_hid_class_request_code) = []"
  unfolding section_masks_def fst_conv snd_conv option.map prod.case by (rule ch573_usb_hid_class_request_code_masks)

lemma ch573_bit_define_for_usb_request_checked [sfr_checked]:
  "misaligned ch573_bit_define_for_usb_request = []" "misnamed ch573_bit_define_for_usb_request = []"
  "hull ch573_bit_define_for_usb_request = None" "aliases ch573_bit_define_for_usb_request = []"
  unfolding ch573_bit_define_for_usb_request_def by (simp_all cong: check_congs)

lemma ch573_bit_define_for_usb_request_masks:
  "bad_masks None own None [] ch573_bit_define_for_usb_request = []"
  unfolding ch573_bit_define_for_usb_request_def by (simp add: crosses_def cong: check_congs)

lemma ch573_bit_define_for_usb_request_masks_checked [sfr_checked]: "section_masks (None, ch573_bit_define_for_usb_request) = []"
  unfolding section_masks_def fst_conv snd_conv option.map prod.case by (rule ch573_bit_define_for_usb_request_masks)

lemma ch573_usb_request_type_for_hub_checked [sfr_checked]:
  "misaligned ch573_usb_request_type_for_hub = []" "misnamed ch573_usb_request_type_for_hub = []"
  "hull ch573_usb_request_type_for_hub = None" "aliases ch573_usb_request_type_for_hub = []"
  unfolding ch573_usb_request_type_for_hub_def by (simp_all cong: check_congs)

lemma ch573_usb_request_type_for_hub_masks:
  "bad_masks None own None [] ch573_usb_request_type_for_hub = []"
  unfolding ch573_usb_request_type_for_hub_def by (simp add: crosses_def cong: check_congs)

lemma ch573_usb_request_type_for_hub_masks_checked [sfr_checked]: "section_masks (None, ch573_usb_request_type_for_hub) = []"
  unfolding section_masks_def fst_conv snd_conv option.map prod.case by (rule ch573_usb_request_type_for_hub_masks)

lemma ch573_hub_class_feature_selectors_checked [sfr_checked]:
  "misaligned ch573_hub_class_feature_selectors = []" "misnamed ch573_hub_class_feature_selectors = []"
  "hull ch573_hub_class_feature_selectors = None" "aliases ch573_hub_class_feature_selectors = []"
  unfolding ch573_hub_class_feature_selectors_def by (simp_all cong: check_congs)

lemma ch573_hub_class_feature_selectors_masks:
  "bad_masks None own None [] ch573_hub_class_feature_selectors = []"
  unfolding ch573_hub_class_feature_selectors_def by (simp add: crosses_def cong: check_congs)

lemma ch573_hub_class_feature_selectors_masks_checked [sfr_checked]: "section_masks (None, ch573_hub_class_feature_selectors) = []"
  unfolding section_masks_def fst_conv snd_conv option.map prod.case by (rule ch573_hub_class_feature_selectors_masks)

lemma ch573_usb_descriptor_type_checked [sfr_checked]:
  "misaligned ch573_usb_descriptor_type = []" "misnamed ch573_usb_descriptor_type = []"
  "hull ch573_usb_descriptor_type = None" "aliases ch573_usb_descriptor_type = []"
  unfolding ch573_usb_descriptor_type_def by (simp_all cong: check_congs)

lemma ch573_usb_descriptor_type_masks:
  "bad_masks None own None [] ch573_usb_descriptor_type = []"
  unfolding ch573_usb_descriptor_type_def by (simp add: crosses_def cong: check_congs)

lemma ch573_usb_descriptor_type_masks_checked [sfr_checked]: "section_masks (None, ch573_usb_descriptor_type) = []"
  unfolding section_masks_def fst_conv snd_conv option.map prod.case by (rule ch573_usb_descriptor_type_masks)

lemma ch573_usb_device_class_checked [sfr_checked]:
  "misaligned ch573_usb_device_class = []" "misnamed ch573_usb_device_class = []"
  "hull ch573_usb_device_class = None" "aliases ch573_usb_device_class = []"
  unfolding ch573_usb_device_class_def by (simp_all cong: check_congs)

lemma ch573_usb_device_class_masks:
  "bad_masks None own None [] ch573_usb_device_class = []"
  unfolding ch573_usb_device_class_def by (simp add: crosses_def cong: check_congs)

lemma ch573_usb_device_class_masks_checked [sfr_checked]: "section_masks (None, ch573_usb_device_class) = []"
  unfolding section_masks_def fst_conv snd_conv option.map prod.case by (rule ch573_usb_device_class_masks)

lemma ch573_usb_endpoint_type_and_attributes_checked [sfr_checked]:
  "misaligned ch573_usb_endpoint_type_and_attributes = []" "misnamed ch573_usb_endpoint_type_and_attributes = []"
  "hull ch573_usb_endpoint_type_and_attributes = None" "aliases ch573_usb_endpoint_type_and_attributes = []"
  unfolding ch573_usb_endpoint_type_and_attributes_def by (simp_all cong: check_congs)

lemma ch573_usb_endpoint_type_and_attributes_masks:
  "bad_masks None own None [] ch573_usb_endpoint_type_and_attributes = []"
  unfolding ch573_usb_endpoint_type_and_attributes_def by (simp add: crosses_def cong: check_congs)

lemma ch573_usb_endpoint_type_and_attributes_masks_checked [sfr_checked]: "section_masks (None, ch573_usb_endpoint_type_and_attributes) = []"
  unfolding section_masks_def fst_conv snd_conv option.map prod.case by (rule ch573_usb_endpoint_type_and_attributes_masks)

definition ch573_tables :: "sfr_table list" where
  "ch573_tables =
     [ch573_system_safe_accessing_register, ch573_system_global_configuration_register, ch573_system_clock_configuration_register,
      ch573_system_sleep_control_register, ch573_system_i_o_pin_configuration, ch573_system_power_management_register,
      ch573_system_battery_detector_register, ch573_system_32khz_oscillator_control_register, ch573_system_real_time_clock_register,
      ch573_system_miscellaneous_control_register, ch573_system_32mhz_oscillator_control_register, ch573_system_oscillator_frequency_calibration_register,
      ch573_system_adc_and_touch_key, ch573_system_flash_rom_control_register, ch573_system_gpio_interrupt_control_register,
      ch573_gpio_pa_register, ch573_gpio_pb_register, ch573_gpio_register_address_offset_and,
      ch573_gpio_alias_name, ch573_timer0_register, ch573_timer1_register,
      ch573_timer2_register, ch573_timer3_register, ch573_timer_register_address_offset_and,
      ch573_uart0_register, ch573_uart1_register, ch573_uart2_register,
      ch573_uart3_register, ch573_uart_register_address_offset_and, ch573_uart_interrupt_identification_values_for,
      ch573_spi0_register, ch573_spi_register_address_offset_and, ch573_pwm4_5_6_7_8,
      ch573_pwm4_5_6_7_8_2, ch573_address_space_define, ch573_special_program_space,
      ch573_interrupt_routine_address_and_interrupt, ch573_peripheral_memory_map, ch573_usb,
      ch573_usb_2, ch573_usb_pid, ch573_usb_standard_device_request_code,
      ch573_usb_hub_class_request_code, ch573_usb_hid_class_request_code, ch573_bit_define_for_usb_request,
      ch573_usb_request_type_for_hub, ch573_hub_class_feature_selectors, ch573_usb_descriptor_type,
      ch573_usb_device_class, ch573_usb_endpoint_type_and_attributes]"

text \<open>The sections as the header has them, each with the peripheral whose registers its offsets count, if it has offsets.\<close>

definition ch573_sections :: "((nat \<times> sfr_table) option \<times> sfr_table) list" where
  "ch573_sections =
     [(None, ch573_system_safe_accessing_register),
      (None, ch573_system_global_configuration_register),
      (None, ch573_system_clock_configuration_register),
      (None, ch573_system_sleep_control_register),
      (None, ch573_system_i_o_pin_configuration),
      (None, ch573_system_power_management_register),
      (None, ch573_system_battery_detector_register),
      (None, ch573_system_32khz_oscillator_control_register),
      (None, ch573_system_real_time_clock_register),
      (None, ch573_system_miscellaneous_control_register),
      (None, ch573_system_32mhz_oscillator_control_register),
      (None, ch573_system_oscillator_frequency_calibration_register),
      (None, ch573_system_adc_and_touch_key),
      (None, ch573_system_flash_rom_control_register),
      (None, ch573_system_gpio_interrupt_control_register),
      (None, ch573_gpio_pa_register),
      (None, ch573_gpio_pb_register),
      (Some (0x400010A0, ch573_gpio_pa_register), ch573_gpio_register_address_offset_and),
      (None, ch573_gpio_alias_name),
      (None, ch573_timer0_register),
      (None, ch573_timer1_register),
      (None, ch573_timer2_register),
      (None, ch573_timer3_register),
      (Some (0x40002400, ch573_timer1_register), ch573_timer_register_address_offset_and),
      (None, ch573_uart0_register),
      (None, ch573_uart1_register),
      (None, ch573_uart2_register),
      (None, ch573_uart3_register),
      (Some (0x40003000, ch573_uart0_register), ch573_uart_register_address_offset_and),
      (None, ch573_uart_interrupt_identification_values_for),
      (None, ch573_spi0_register),
      (Some (0x40004000, ch573_spi0_register), ch573_spi_register_address_offset_and),
      (None, ch573_pwm4_5_6_7_8),
      (Some (0x40005000, ch573_pwm4_5_6_7_8), ch573_pwm4_5_6_7_8_2),
      (None, ch573_address_space_define),
      (None, ch573_special_program_space),
      (None, ch573_interrupt_routine_address_and_interrupt),
      (None, ch573_peripheral_memory_map),
      (None, (ch573_usb @ ch573_usb_2)),
      (None, ch573_usb_pid),
      (None, ch573_usb_standard_device_request_code),
      (None, ch573_usb_hub_class_request_code),
      (None, ch573_usb_hid_class_request_code),
      (None, ch573_bit_define_for_usb_request),
      (None, ch573_usb_request_type_for_hub),
      (None, ch573_hub_class_feature_selectors),
      (None, ch573_usb_descriptor_type),
      (None, ch573_usb_device_class),
      (None, ch573_usb_endpoint_type_and_attributes)]"

end
