(* ===== verification/Sfr_Check.thy ===== *)
theory Sfr_Check
  imports Sfr_Ch57x Sfr_Ch58x
begin

text \<open>
  The checks on the two register maps: which registers are accessed with the width of their names, that no two
  registers overlap partly, that masks fit their registers, and that what the two chips have in common is the same.
  The last one is what lets the model of the CH57x stand for the CH58x where the files have the same text.
\<close>

section \<open>Evaluation\<close>

lemmas section_defs = ch573_sections_def ch583_sections_def

definition known_aliases :: "(string \<times> string) list" where
  "known_aliases =
     [(''R32_TKEY_CTRL'', ''R8_TKEY_COUNT''), (''R8_UART0_RBR'', ''R8_UART0_THR''), (''R8_UART1_RBR'', ''R8_UART1_THR''),
      (''R8_UART2_RBR'', ''R8_UART2_THR''), (''R8_UART3_RBR'', ''R8_UART3_THR''), (''R8_SPI0_CLOCK_DIV'', ''R8_SPI0_SLAVE_PRE'')]"

lemma sections_misnamed:
  "concat (map (misnamed \<circ> snd) ch573_sections) = [''R16_AUX_POWER_ADJ'', ''R32_TKEY_CTRL'', ''R8_PWM_INT_CTRL'']"
  "concat (map (misnamed \<circ> snd) ch583_sections) = [''R16_AUX_POWER_ADJ'', ''R32_TKEY_CTRL'', ''R8_PWM_INT_CTRL'']"
  by (simp_all add: section_defs sfr_checked)

lemma sections_aligned:
  "\<forall>s \<in> set ch573_sections. misaligned (snd s) = []" "\<forall>s \<in> set ch583_sections. misaligned (snd s) = []"
  by (simp_all add: section_defs sfr_checked)

lemma sections_masks:
  "\<forall>s \<in> set ch573_sections. section_masks s = []" "\<forall>s \<in> set ch583_sections. section_masks s = []"
  by (simp_all add: section_defs sfr_checked)

lemma sections_aliases:
  "concat (map (aliases \<circ> snd) ch573_sections) = known_aliases" "concat (map (aliases \<circ> snd) ch583_sections) = known_aliases"
  by (simp_all add: section_defs known_aliases_def sfr_checked)

lemma sections_separate:
  "all_separate (map (hull \<circ> snd) ch573_sections)" "all_separate (map (hull \<circ> snd) ch583_sections)"
  by (simp_all add: section_defs separate_def sfr_checked)

lemma sections_tables: "concat (map snd ch573_sections) = concat ch573_tables" "concat (map snd ch583_sections) = concat ch583_tables"
  by (simp_all add: section_defs ch573_tables_def ch583_tables_def)

text \<open>The sections of the two headers in pairs, with the macros that differ.\<close>

definition shared_sections :: "(string list \<times> sfr_table \<times> sfr_table) list" where
  "shared_sections =
     [([], ch573_system_safe_accessing_register, ch583_system_safe_accessing_register),
      ([], ch573_system_global_configuration_register, ch583_system_global_configuration_register),
      ([], ch573_system_clock_configuration_register, ch583_system_clock_configuration_register),
      ([''RB_WAKE_DELAY''], ch573_system_sleep_control_register, ch583_system_sleep_control_register),
      ([''RB_PIN_ADC8_9_IE''], ch573_system_i_o_pin_configuration, ch583_system_i_o_pin_configuration),
      ([''RB_PWR_RAM16K''], ch573_system_power_management_register, ch583_system_power_management_register),
      ([], ch573_system_battery_detector_register, ch583_system_battery_detector_register),
      ([''RB_INT32K_TUNE''], ch573_system_32khz_oscillator_control_register, ch583_system_32khz_oscillator_control_register),
      ([], ch573_system_real_time_clock_register, ch583_system_real_time_clock_register),
      ([], ch573_system_miscellaneous_control_register, ch583_system_miscellaneous_control_register),
      ([], ch573_system_32mhz_oscillator_control_register, ch583_system_32mhz_oscillator_control_register),
      ([''R8_OSC_CAL_CTRL'', ''RB_OSC_CNT_EN'', ''RB_OSC_CNT_HALT''], ch573_system_oscillator_frequency_calibration_register, ch583_system_oscillator_frequency_calibration_register),
      ([], ch573_system_adc_and_touch_key, ch583_system_adc_and_touch_key),
      ([], ch573_system_flash_rom_control_register, ch583_system_flash_rom_control_register),
      ([], ch573_system_gpio_interrupt_control_register, ch583_system_gpio_interrupt_control_register),
      ([], ch573_gpio_pa_register, ch583_gpio_pa_register),
      ([], ch573_gpio_pb_register, ch583_gpio_pb_register),
      ([], ch573_gpio_register_address_offset_and, ch583_gpio_register_address_offset_and),
      ([''bAIN8'', ''bAIN9'', ''bDSR'', ''bDTR'', ''bRXD2'', ''bTXD2''], ch573_gpio_alias_name, ch583_gpio_alias_name),
      ([], ch573_timer0_register, ch583_timer0_register),
      ([], ch573_timer1_register, ch583_timer1_register),
      ([], ch573_timer2_register, ch583_timer2_register),
      ([], ch573_timer3_register, ch583_timer3_register),
      ([], ch573_timer_register_address_offset_and, ch583_timer_register_address_offset_and),
      ([], ch573_uart0_register, ch583_uart0_register),
      ([], ch573_uart1_register, ch583_uart1_register),
      ([], ch573_uart2_register, ch583_uart2_register),
      ([], ch573_uart3_register, ch583_uart3_register),
      ([], ch573_uart_register_address_offset_and, ch583_uart_register_address_offset_and),
      ([], ch573_uart_interrupt_identification_values_for, ch583_uart_interrupt_identification_values_for),
      ([], ch573_spi0_register, ch583_spi0_register),
      ([], ch573_spi_register_address_offset_and, ch583_spi_register_address_offset_and),
      ([], ch573_pwm4_5_6_7_8, ch583_pwm4_5_6_7_8),
      ([], ch573_pwm4_5_6_7_8_2, ch583_pwm4_5_6_7_8_2),
      ([''SZ_CODE''], ch573_address_space_define, ch583_address_space_define),
      ([''ID_CH573'', ''ID_CH571''], ch573_special_program_space, ch583_special_program_space),
      ([''INT_ID_PWMX'', ''INT_ADDR_PWMX''], ch573_interrupt_routine_address_and_interrupt, ch583_interrupt_routine_address_and_interrupt),
      ([], ch573_peripheral_memory_map, ch583_peripheral_memory_map),
      ([], ch573_usb, ch583_usb @ ch583_usb_2),
      ([], ch573_usb_2, ch583_usb_2),
      ([], ch573_usb_pid, ch583_usb_pid),
      ([], ch573_usb_standard_device_request_code, ch583_usb_standard_device_request_code),
      ([], ch573_usb_hub_class_request_code, ch583_usb_hub_class_request_code),
      ([], ch573_usb_hid_class_request_code, ch583_usb_hid_class_request_code),
      ([], ch573_bit_define_for_usb_request, ch583_bit_define_for_usb_request),
      ([], ch573_usb_request_type_for_hub, ch583_usb_request_type_for_hub),
      ([], ch573_hub_class_feature_selectors, ch583_hub_class_feature_selectors),
      ([], ch573_usb_descriptor_type, ch583_usb_descriptor_type),
      ([], ch573_usb_device_class, ch583_usb_device_class),
      ([], ch573_usb_endpoint_type_and_attributes, ch583_usb_endpoint_type_and_attributes)]"

definition chip_differences :: "string list" where
  "chip_differences =
     [''RB_WAKE_DELAY'', ''RB_PIN_ADC8_9_IE'', ''RB_PWR_RAM16K'', ''RB_INT32K_TUNE'',
      ''R8_OSC_CAL_CTRL'', ''RB_OSC_CNT_EN'', ''RB_OSC_CNT_HALT'', ''bAIN8'',
      ''bAIN9'', ''bDSR'', ''bDTR'', ''bRXD2'',
      ''bTXD2'', ''SZ_CODE'', ''ID_CH573'', ''ID_CH571'',
      ''INT_ID_PWMX'', ''INT_ADDR_PWMX'']"

lemma system_safe_accessing_register_agrees [sfr_checked]: "agree [] ch573_system_safe_accessing_register ch583_system_safe_accessing_register"
  unfolding ch573_system_safe_accessing_register_def ch583_system_safe_accessing_register_def by (simp add: agree_eval cong: check_congs)

lemma system_global_configuration_register_agrees [sfr_checked]: "agree [] ch573_system_global_configuration_register ch583_system_global_configuration_register"
  unfolding ch573_system_global_configuration_register_def ch583_system_global_configuration_register_def by (simp add: agree_eval cong: check_congs)

lemma system_clock_configuration_register_agrees [sfr_checked]: "agree [] ch573_system_clock_configuration_register ch583_system_clock_configuration_register"
  unfolding ch573_system_clock_configuration_register_def ch583_system_clock_configuration_register_def by (simp add: agree_eval cong: check_congs)

lemma system_sleep_control_register_agrees [sfr_checked]: "agree [''RB_WAKE_DELAY''] ch573_system_sleep_control_register ch583_system_sleep_control_register"
  unfolding ch573_system_sleep_control_register_def ch583_system_sleep_control_register_def by (simp add: agree_eval cong: check_congs)

lemma system_i_o_pin_configuration_agrees [sfr_checked]: "agree [''RB_PIN_ADC8_9_IE''] ch573_system_i_o_pin_configuration ch583_system_i_o_pin_configuration"
  unfolding ch573_system_i_o_pin_configuration_def ch583_system_i_o_pin_configuration_def by (simp add: agree_eval cong: check_congs)

lemma system_power_management_register_agrees [sfr_checked]: "agree [''RB_PWR_RAM16K''] ch573_system_power_management_register ch583_system_power_management_register"
  unfolding ch573_system_power_management_register_def ch583_system_power_management_register_def by (simp add: agree_eval cong: check_congs)

lemma system_battery_detector_register_agrees [sfr_checked]: "agree [] ch573_system_battery_detector_register ch583_system_battery_detector_register"
  unfolding ch573_system_battery_detector_register_def ch583_system_battery_detector_register_def by (simp add: agree_eval cong: check_congs)

lemma system_32khz_oscillator_control_register_agrees [sfr_checked]: "agree [''RB_INT32K_TUNE''] ch573_system_32khz_oscillator_control_register ch583_system_32khz_oscillator_control_register"
  unfolding ch573_system_32khz_oscillator_control_register_def ch583_system_32khz_oscillator_control_register_def by (simp add: agree_eval cong: check_congs)

lemma system_real_time_clock_register_agrees [sfr_checked]: "agree [] ch573_system_real_time_clock_register ch583_system_real_time_clock_register"
  unfolding ch573_system_real_time_clock_register_def ch583_system_real_time_clock_register_def by (simp add: agree_eval cong: check_congs)

lemma system_miscellaneous_control_register_agrees [sfr_checked]: "agree [] ch573_system_miscellaneous_control_register ch583_system_miscellaneous_control_register"
  unfolding ch573_system_miscellaneous_control_register_def ch583_system_miscellaneous_control_register_def by (simp add: agree_eval cong: check_congs)

lemma system_32mhz_oscillator_control_register_agrees [sfr_checked]: "agree [] ch573_system_32mhz_oscillator_control_register ch583_system_32mhz_oscillator_control_register"
  unfolding ch573_system_32mhz_oscillator_control_register_def ch583_system_32mhz_oscillator_control_register_def by (simp add: agree_eval cong: check_congs)

lemma system_oscillator_frequency_calibration_register_agrees [sfr_checked]: "agree [''R8_OSC_CAL_CTRL'', ''RB_OSC_CNT_EN'', ''RB_OSC_CNT_HALT''] ch573_system_oscillator_frequency_calibration_register ch583_system_oscillator_frequency_calibration_register"
  unfolding ch573_system_oscillator_frequency_calibration_register_def ch583_system_oscillator_frequency_calibration_register_def by (simp add: agree_eval cong: check_congs)

lemma system_adc_and_touch_key_agrees [sfr_checked]: "agree [] ch573_system_adc_and_touch_key ch583_system_adc_and_touch_key"
  unfolding ch573_system_adc_and_touch_key_def ch583_system_adc_and_touch_key_def by (simp add: agree_eval cong: check_congs)

lemma system_flash_rom_control_register_agrees [sfr_checked]: "agree [] ch573_system_flash_rom_control_register ch583_system_flash_rom_control_register"
  unfolding ch573_system_flash_rom_control_register_def ch583_system_flash_rom_control_register_def by (simp add: agree_eval cong: check_congs)

lemma system_gpio_interrupt_control_register_agrees [sfr_checked]: "agree [] ch573_system_gpio_interrupt_control_register ch583_system_gpio_interrupt_control_register"
  unfolding ch573_system_gpio_interrupt_control_register_def ch583_system_gpio_interrupt_control_register_def by (simp add: agree_eval cong: check_congs)

lemma gpio_pa_register_agrees [sfr_checked]: "agree [] ch573_gpio_pa_register ch583_gpio_pa_register"
  unfolding ch573_gpio_pa_register_def ch583_gpio_pa_register_def by (simp add: agree_eval cong: check_congs)

lemma gpio_pb_register_agrees [sfr_checked]: "agree [] ch573_gpio_pb_register ch583_gpio_pb_register"
  unfolding ch573_gpio_pb_register_def ch583_gpio_pb_register_def by (simp add: agree_eval cong: check_congs)

lemma gpio_register_address_offset_and_agrees [sfr_checked]: "agree [] ch573_gpio_register_address_offset_and ch583_gpio_register_address_offset_and"
  unfolding ch573_gpio_register_address_offset_and_def ch583_gpio_register_address_offset_and_def by (simp add: agree_eval cong: check_congs)

lemma gpio_alias_name_agrees [sfr_checked]: "agree [''bAIN8'', ''bAIN9'', ''bDSR'', ''bDTR'', ''bRXD2'', ''bTXD2''] ch573_gpio_alias_name ch583_gpio_alias_name"
  unfolding ch573_gpio_alias_name_def ch583_gpio_alias_name_def by (simp add: agree_eval cong: check_congs)

lemma timer0_register_agrees [sfr_checked]: "agree [] ch573_timer0_register ch583_timer0_register"
  unfolding ch573_timer0_register_def ch583_timer0_register_def by (simp add: agree_eval cong: check_congs)

lemma timer1_register_agrees [sfr_checked]: "agree [] ch573_timer1_register ch583_timer1_register"
  unfolding ch573_timer1_register_def ch583_timer1_register_def by (simp add: agree_eval cong: check_congs)

lemma timer2_register_agrees [sfr_checked]: "agree [] ch573_timer2_register ch583_timer2_register"
  unfolding ch573_timer2_register_def ch583_timer2_register_def by (simp add: agree_eval cong: check_congs)

lemma timer3_register_agrees [sfr_checked]: "agree [] ch573_timer3_register ch583_timer3_register"
  unfolding ch573_timer3_register_def ch583_timer3_register_def by (simp add: agree_eval cong: check_congs)

lemma timer_register_address_offset_and_agrees [sfr_checked]: "agree [] ch573_timer_register_address_offset_and ch583_timer_register_address_offset_and"
  unfolding ch573_timer_register_address_offset_and_def ch583_timer_register_address_offset_and_def by (simp add: agree_eval cong: check_congs)

lemma uart0_register_agrees [sfr_checked]: "agree [] ch573_uart0_register ch583_uart0_register"
  unfolding ch573_uart0_register_def ch583_uart0_register_def by (simp add: agree_eval cong: check_congs)

lemma uart1_register_agrees [sfr_checked]: "agree [] ch573_uart1_register ch583_uart1_register"
  unfolding ch573_uart1_register_def ch583_uart1_register_def by (simp add: agree_eval cong: check_congs)

lemma uart2_register_agrees [sfr_checked]: "agree [] ch573_uart2_register ch583_uart2_register"
  unfolding ch573_uart2_register_def ch583_uart2_register_def by (simp add: agree_eval cong: check_congs)

lemma uart3_register_agrees [sfr_checked]: "agree [] ch573_uart3_register ch583_uart3_register"
  unfolding ch573_uart3_register_def ch583_uart3_register_def by (simp add: agree_eval cong: check_congs)

lemma uart_register_address_offset_and_agrees [sfr_checked]: "agree [] ch573_uart_register_address_offset_and ch583_uart_register_address_offset_and"
  unfolding ch573_uart_register_address_offset_and_def ch583_uart_register_address_offset_and_def by (simp add: agree_eval cong: check_congs)

lemma uart_interrupt_identification_values_for_agrees [sfr_checked]: "agree [] ch573_uart_interrupt_identification_values_for ch583_uart_interrupt_identification_values_for"
  unfolding ch573_uart_interrupt_identification_values_for_def ch583_uart_interrupt_identification_values_for_def by (simp add: agree_eval cong: check_congs)

lemma spi0_register_agrees [sfr_checked]: "agree [] ch573_spi0_register ch583_spi0_register"
  unfolding ch573_spi0_register_def ch583_spi0_register_def by (simp add: agree_eval cong: check_congs)

lemma spi_register_address_offset_and_agrees [sfr_checked]: "agree [] ch573_spi_register_address_offset_and ch583_spi_register_address_offset_and"
  unfolding ch573_spi_register_address_offset_and_def ch583_spi_register_address_offset_and_def by (simp add: agree_eval cong: check_congs)

lemma pwm4_5_6_7_8_agrees [sfr_checked]: "agree [] ch573_pwm4_5_6_7_8 ch583_pwm4_5_6_7_8"
  unfolding ch573_pwm4_5_6_7_8_def ch583_pwm4_5_6_7_8_def by (simp add: agree_eval cong: check_congs)

lemma pwm4_5_6_7_8_2_agrees [sfr_checked]: "agree [] ch573_pwm4_5_6_7_8_2 ch583_pwm4_5_6_7_8_2"
  unfolding ch573_pwm4_5_6_7_8_2_def ch583_pwm4_5_6_7_8_2_def by (simp add: agree_eval cong: check_congs)

lemma address_space_define_agrees [sfr_checked]: "agree [''SZ_CODE''] ch573_address_space_define ch583_address_space_define"
  unfolding ch573_address_space_define_def ch583_address_space_define_def by (simp add: agree_eval cong: check_congs)

lemma special_program_space_agrees [sfr_checked]: "agree [''ID_CH573'', ''ID_CH571''] ch573_special_program_space ch583_special_program_space"
  unfolding ch573_special_program_space_def ch583_special_program_space_def by (simp add: agree_eval cong: check_congs)

lemma interrupt_routine_address_and_interrupt_agrees [sfr_checked]: "agree [''INT_ID_PWMX'', ''INT_ADDR_PWMX''] ch573_interrupt_routine_address_and_interrupt ch583_interrupt_routine_address_and_interrupt"
  unfolding ch573_interrupt_routine_address_and_interrupt_def ch583_interrupt_routine_address_and_interrupt_def by (simp add: agree_eval cong: check_congs)

lemma peripheral_memory_map_agrees [sfr_checked]: "agree [] ch573_peripheral_memory_map ch583_peripheral_memory_map"
  unfolding ch573_peripheral_memory_map_def ch583_peripheral_memory_map_def by (simp add: agree_eval cong: check_congs)

lemma usb_agrees [sfr_checked]: "agree [] ch573_usb (ch583_usb @ ch583_usb_2)"
  unfolding ch573_usb_def ch583_usb_def ch583_usb_2_def append_Cons append_Nil by (simp add: agree_eval cong: check_congs)

lemma usb_2_agrees [sfr_checked]: "agree [] ch573_usb_2 ch583_usb_2"
  unfolding ch573_usb_2_def ch583_usb_2_def by (simp add: agree_eval cong: check_congs)

lemma usb_pid_agrees [sfr_checked]: "agree [] ch573_usb_pid ch583_usb_pid"
  unfolding ch573_usb_pid_def ch583_usb_pid_def by (simp add: agree_eval cong: check_congs)

lemma usb_standard_device_request_code_agrees [sfr_checked]: "agree [] ch573_usb_standard_device_request_code ch583_usb_standard_device_request_code"
  unfolding ch573_usb_standard_device_request_code_def ch583_usb_standard_device_request_code_def by (simp add: agree_eval cong: check_congs)

lemma usb_hub_class_request_code_agrees [sfr_checked]: "agree [] ch573_usb_hub_class_request_code ch583_usb_hub_class_request_code"
  unfolding ch573_usb_hub_class_request_code_def ch583_usb_hub_class_request_code_def by (simp add: agree_eval cong: check_congs)

lemma usb_hid_class_request_code_agrees [sfr_checked]: "agree [] ch573_usb_hid_class_request_code ch583_usb_hid_class_request_code"
  unfolding ch573_usb_hid_class_request_code_def ch583_usb_hid_class_request_code_def by (simp add: agree_eval cong: check_congs)

lemma bit_define_for_usb_request_agrees [sfr_checked]: "agree [] ch573_bit_define_for_usb_request ch583_bit_define_for_usb_request"
  unfolding ch573_bit_define_for_usb_request_def ch583_bit_define_for_usb_request_def by (simp add: agree_eval cong: check_congs)

lemma usb_request_type_for_hub_agrees [sfr_checked]: "agree [] ch573_usb_request_type_for_hub ch583_usb_request_type_for_hub"
  unfolding ch573_usb_request_type_for_hub_def ch583_usb_request_type_for_hub_def by (simp add: agree_eval cong: check_congs)

lemma hub_class_feature_selectors_agrees [sfr_checked]: "agree [] ch573_hub_class_feature_selectors ch583_hub_class_feature_selectors"
  unfolding ch573_hub_class_feature_selectors_def ch583_hub_class_feature_selectors_def by (simp add: agree_eval cong: check_congs)

lemma usb_descriptor_type_agrees [sfr_checked]: "agree [] ch573_usb_descriptor_type ch583_usb_descriptor_type"
  unfolding ch573_usb_descriptor_type_def ch583_usb_descriptor_type_def by (simp add: agree_eval cong: check_congs)

lemma usb_device_class_agrees [sfr_checked]: "agree [] ch573_usb_device_class ch583_usb_device_class"
  unfolding ch573_usb_device_class_def ch583_usb_device_class_def by (simp add: agree_eval cong: check_congs)

lemma usb_endpoint_type_and_attributes_agrees [sfr_checked]: "agree [] ch573_usb_endpoint_type_and_attributes ch583_usb_endpoint_type_and_attributes"
  unfolding ch573_usb_endpoint_type_and_attributes_def ch583_usb_endpoint_type_and_attributes_def by (simp add: agree_eval cong: check_congs)

lemma sections_agree: "\<forall>(ex, a, b) \<in> set shared_sections. agree ex a b"
  by (simp add: shared_sections_def sfr_checked)

lemma sections_cover:
  "map (fst \<circ> snd) shared_sections = ch573_tables"
  "\<forall>(ex, a, b) \<in> set shared_sections. set ex \<subseteq> set chip_differences"
  "\<forall>(ex, a, b) \<in> set shared_sections. set b \<subseteq> set (concat ch583_tables)"
proof -
  show "map (fst \<circ> snd) shared_sections = ch573_tables" by (simp add: shared_sections_def ch573_tables_def)
  show "\<forall>(ex, a, b) \<in> set shared_sections. set ex \<subseteq> set chip_differences"
    by (simp add: shared_sections_def chip_differences_def)
  show "\<forall>(ex, a, b) \<in> set shared_sections. set b \<subseteq> set (concat ch583_tables)"
    by (auto simp: shared_sections_def ch583_tables_def)
qed

section \<open>Properties\<close>

text \<open>C22: In both register maps registers of different sections never share a byte.  Two registers of one section have no
  byte in common, or the bytes of one lie inside the other, and two of the same width have the same address only for the
  six pairs listed, the transmit and receive registers of the four UARTs, the clock divider and the slave preset of the SPI,
  and the touch key registers.  Every mask fits the width with which the register it belongs to is accessed, also in the
  sections that give the registers of a peripheral by their offsets, and masks of one register are disjoint or nested.  All
  registers are accessed with the width that their names announce, except three: \<open>R16_AUX_POWER_ADJ\<close> and
  \<open>R32_TKEY_CTRL\<close> are accessed as bytes, and \<open>R8_PWM_INT_CTRL\<close> as a word, so that a write to it also writes the three
  bytes behind it.\<close>

theorem sfr_registers_typed:
  assumes "(ss, ts) \<in> {(ch573_sections, ch573_tables), (ch583_sections, ch583_tables)}"
  shows "concat (map snd ss) = concat ts \<and>
    (\<forall>i<length ss. \<forall>j<length ss. i \<noteq> j \<longrightarrow>
       (\<forall>x \<in> set (snd (ss ! i)). \<forall>y \<in> set (snd (ss ! j)). reg_bytes (snd x) \<inter> reg_bytes (snd y) = {})) \<and>
    (\<forall>s \<in> set ss. \<forall>x \<in> set (snd s). \<forall>y \<in> set (snd s). nested (reg_bytes (snd x)) (reg_bytes (snd y))) \<and>
    (\<forall>s \<in> set ss. \<forall>i j w a. i < j \<and> j < length (snd s) \<and> snd (snd s ! i) = Reg w a \<and> snd (snd s ! j) = Reg w a \<longrightarrow>
       (fst (snd s ! i), fst (snd s ! j)) \<in> set known_aliases) \<and>
    concat (map section_masks ss) = [] \<and>
    concat (map (misnamed \<circ> snd) ss) = [''R16_AUX_POWER_ADJ'', ''R32_TKEY_CTRL'', ''R8_PWM_INT_CTRL'']"
proof (intro conjI allI impI ballI)
  show "concat (map snd ss) = concat ts" using assms sections_tables by auto
  have sep: "all_separate (map (hull \<circ> snd) ss)" using assms sections_separate by auto
  show "reg_bytes (snd x) \<inter> reg_bytes (snd y) = {}"
    if "i < length ss" "j < length ss" "i \<noteq> j" "x \<in> set (snd (ss ! i))" "y \<in> set (snd (ss ! j))" for i j x y
    using separate_bytes [OF _ that(4,5)] all_separate_nth [OF sep, of i j] that(1-3) by simp
  show "nested (reg_bytes (snd x)) (reg_bytes (snd y))" if "s \<in> set ss" "x \<in> set (snd s)" "y \<in> set (snd s)" for s x y
    using misaligned_nested [OF _ that(2,3)] sections_aligned assms that(1) by auto
  have al: "concat (map (aliases \<circ> snd) ss) = known_aliases" using assms sections_aliases by auto
  show "(fst (snd s ! i), fst (snd s ! j)) \<in> set known_aliases"
    if "s \<in> set ss" "i < j \<and> j < length (snd s) \<and> snd (snd s ! i) = Reg w a \<and> snd (snd s ! j) = Reg w a" for s i j w a
    using aliases_complete [of i j "snd s" w a] that unfolding al [symmetric] by auto
  have "\<forall>s \<in> set ss. section_masks s = []" using assms sections_masks by auto
  then show "concat (map section_masks ss) = []" by (simp add: concat_eq_Nil_conv)
  show "concat (map (misnamed \<circ> snd) ss) = [''R16_AUX_POWER_ADJ'', ''R32_TKEY_CTRL'', ''R8_PWM_INT_CTRL'']"
    using assms sections_misnamed by auto
qed

theorem sfr_registers_typed_witness:
  "concat (map section_masks ch573_sections) = [] \<and> concat (map section_masks ch583_sections) = []"
  using sfr_registers_typed [of ch573_sections ch573_tables] sfr_registers_typed [of ch583_sections ch583_tables] by simp

text \<open>C23: Every macro of the CH573 map, registers with their addresses, masks, offsets and interrupt numbers, is in the
  CH583 map with the same body, except the listed ones: the oscillator calibration, the pins of four functions, the
  code size and what the CH583 does not have.\<close>

theorem chips_agree:
  assumes "e \<in> set (concat ch573_tables)" "fst e \<notin> set chip_differences"
  shows "e \<in> set (concat ch583_tables)"
proof -
  from assms(1) obtain a where a: "a \<in> set ch573_tables" "e \<in> set a" by auto
  then obtain ex b where s: "(ex, a, b) \<in> set shared_sections"
    unfolding sections_cover(1) [symmetric] by auto
  then have "agree ex a b" "set ex \<subseteq> set chip_differences" "set b \<subseteq> set (concat ch583_tables)"
    using sections_agree sections_cover(2,3) by auto
  with agree_member [of ex a b e] a(2) assms(2) show ?thesis by blast
qed

theorem chips_agree_witness:
  "(''R8_SAFE_ACCESS_SIG'', Reg 8 0x40001040) \<in> set (concat ch573_tables) \<and>
   (''R8_SAFE_ACCESS_SIG'', Reg 8 0x40001040) \<in> set (concat ch583_tables)"
proof -
  have "(''R8_SAFE_ACCESS_SIG'', Reg 8 0x40001040) \<in> set ch573_system_safe_accessing_register"
    by (simp add: ch573_system_safe_accessing_register_def)
  then have "(''R8_SAFE_ACCESS_SIG'', Reg 8 0x40001040) \<in> set (concat ch573_tables)" by (simp add: ch573_tables_def)
  moreover have "''R8_SAFE_ACCESS_SIG'' \<notin> set chip_differences" by (simp add: chip_differences_def)
  ultimately show ?thesis using chips_agree [of "(''R8_SAFE_ACCESS_SIG'', Reg 8 0x40001040)"] by simp
qed

end
