(* ===== verification/Ble_Types.thy ===== *)
theory Ble_Types
  imports Prelude
begin

text \<open>
  The vocabulary for the headers of the Bluetooth libraries: constants, C types with their layout, prototypes of
  functions, slots of the jump table, and the records of an Intel hex file.  The checks on them are here, the tables in
  \<open>Ble_Lib57\<close>, \<open>Ble_Rom57\<close>, \<open>Ble_Lib58\<close>, \<open>Ble_Rom58\<close>, the results in \<open>Ble_Check\<close>.
\<close>

named_theorems rom_agrees

section \<open>Constants\<close>

text \<open>The right hand sides of the definitions: a number, another name, or an operation on these.\<close>

datatype cexp = CNum nat | CName string | COr cexp cexp | CShl cexp cexp | CAdd cexp cexp

type_synonym const_table = "(string \<times> cexp) list"

fun const_num :: "const_table \<Rightarrow> string \<Rightarrow> nat option" where
  "const_num t x = (case map_of t x of Some (CNum n) \<Rightarrow> Some n | _ \<Rightarrow> None)"

section \<open>Types\<close>

text \<open>Scalars with the name that the header writes and their size, enumerations with their names, pointers with the type they point to, pointers to
  functions with result and parameter types, arrays with their dimension, structures and unions.  The layout is that of the
  RISC-V 32-bit ABI: a scalar is aligned to its size, a structure to its most aligned member, each member starts at the
  next multiple of its alignment, and the size is rounded up to the alignment.\<close>

datatype ctype =
    Scalar string nat | Enumeration "string list" | Pointer string | Fn_pointer string "string list" | Array ctype nat
  | Struct "(string \<times> ctype) list" | Union "(string \<times> ctype) list"

fun align_of :: "ctype \<Rightarrow> nat" and aligns :: "(string \<times> ctype) list \<Rightarrow> nat" where
  "align_of (Scalar x n) = n"
| "align_of (Enumeration xs) = 4"
| "align_of (Pointer x) = 4"
| "align_of (Fn_pointer x xs) = 4"
| "align_of (Array t n) = align_of t"
| "align_of (Struct fs) = aligns fs"
| "align_of (Union fs) = aligns fs"
| "aligns [] = 1"
| "aligns ((x, t) # fs) = max (align_of t) (aligns fs)"

definition pad :: "nat \<Rightarrow> nat \<Rightarrow> nat" where
  "pad a n = (n + (a - 1)) div a * a"

fun size_of :: "ctype \<Rightarrow> nat" and struct_end :: "nat \<Rightarrow> (string \<times> ctype) list \<Rightarrow> nat"
  and widest :: "(string \<times> ctype) list \<Rightarrow> nat" where
  "size_of (Scalar x n) = n"
| "size_of (Enumeration xs) = 4"
| "size_of (Pointer x) = 4"
| "size_of (Fn_pointer x xs) = 4"
| "size_of (Array t n) = size_of t * n"
| "size_of (Struct fs) = pad (aligns fs) (struct_end 0 fs)"
| "size_of (Union fs) = pad (aligns fs) (widest fs)"
| "struct_end k [] = k"
| "struct_end k ((x, t) # fs) = struct_end (pad (align_of t) k + size_of t) fs"
| "widest [] = 0"
| "widest ((x, t) # fs) = max (size_of t) (widest fs)"

fun member_from :: "nat \<Rightarrow> string \<Rightarrow> (string \<times> ctype) list \<Rightarrow> (nat \<times> ctype) option" where
  "member_from k x [] = None"
| "member_from k x ((y, t) # fs) =
     (if x = y then Some (pad (align_of t) k, t) else member_from (pad (align_of t) k + size_of t) x fs)"

text \<open>The offset of a member, followed along a path of names through structures and unions.\<close>

fun offset_of :: "string list \<Rightarrow> ctype \<Rightarrow> (nat \<times> ctype) option" where
  "offset_of [] t = Some (0, t)"
| "offset_of (x # xs) (Struct fs) =
     (case member_from 0 x fs of None \<Rightarrow> None | Some (k, t) \<Rightarrow> map_option (\<lambda>(j, u). (k + j, u)) (offset_of xs t))"
| "offset_of (x # xs) (Union fs) = (case map_of fs x of None \<Rightarrow> None | Some t \<Rightarrow> offset_of xs t)"
| "offset_of (x # xs) _ = None"

fun members :: "ctype \<Rightarrow> (string \<times> ctype) list" where
  "members (Struct fs) = fs"
| "members (Union fs) = fs"
| "members _ = []"

section \<open>Functions\<close>

text \<open>Name, result type and parameter types as the header writes them.  A function of the library in ROM is called
  through a slot of a table of addresses in flash or in RAM.\<close>

type_synonym proto = "string \<times> string \<times> string list"

datatype slot = Flash nat | Ram nat

definition resolve :: "(string \<times> string) list \<Rightarrow> string \<Rightarrow> string" where
  "resolve td t = (case map_of td t of None \<Rightarrow> t | Some u \<Rightarrow> u)"

definition same_proto :: "(string \<times> string) list \<Rightarrow> proto \<Rightarrow> proto \<Rightarrow> bool" where
  "same_proto td p q =
     (if p = q then True
      else fst p = fst q \<and> resolve td (fst (snd p)) = resolve td (fst (snd q)) \<and>
        map (resolve td) (snd (snd p)) = map (resolve td) (snd (snd q)))"

fun disagree :: "(string \<times> string) list \<Rightarrow> proto list \<Rightarrow> (proto \<times> slot) list \<Rightarrow> string list option" where
  "disagree td [] [] = Some []"
| "disagree td (p # ps) ((q, s) # qs) =
     (if fst p = fst q then map_option (\<lambda>xs. if same_proto td p q then xs else fst p # xs) (disagree td ps qs) else None)"
| "disagree td _ _ = None"

lemma disagree_append:
  "disagree td ps qs = Some xs \<Longrightarrow> disagree td ps' qs' = Some ys \<Longrightarrow> disagree td (ps @ ps') (qs @ qs') = Some (xs @ ys)"
  by (induction td ps qs arbitrary: xs rule: disagree.induct) (auto split: if_splits)

text \<open>The indices of the functions called through the table in flash, and of those called through the table in RAM.\<close>

definition flash_slots :: "(proto \<times> slot) list \<Rightarrow> nat list" where
  "flash_slots fs = concat (map (\<lambda>(_, s). case s of Flash n \<Rightarrow> [n] | Ram n \<Rightarrow> []) fs)"

definition ram_slots :: "(proto \<times> slot) list \<Rightarrow> nat list" where
  "ram_slots fs = concat (map (\<lambda>(_, s). case s of Flash n \<Rightarrow> [] | Ram n \<Rightarrow> [n]) fs)"

section \<open>The image\<close>

text \<open>A record of an Intel hex file as bytes: count, address, type, data and a checksum that makes the sum zero.\<close>

definition ihex_ok :: "u8 list \<Rightarrow> bool" where
  "ihex_ok r \<longleftrightarrow> 5 \<le> length r \<and> length r = unat (hd r) + 5 \<and> sum_list r = 0"

definition ihex_address :: "u8 list \<Rightarrow> nat" where
  "ihex_address r = unat (r ! 1) * 256 + unat (r ! 2)"

definition ihex_data :: "u8 list \<Rightarrow> u8 list" where
  "ihex_data r = butlast (drop 4 r)"

text \<open>The start of the image, from a record of type 2, which gives the segment.\<close>

definition ihex_segment :: "u8 list \<Rightarrow> nat option" where
  "ihex_segment r = (if ihex_ok r \<and> r ! 3 = 2 \<and> length r = 7 then Some ((unat (r ! 4) * 256 + unat (r ! 5)) * 16) else None)"

fun contiguous :: "nat \<Rightarrow> u8 list list \<Rightarrow> bool" where
  "contiguous a [] = True"
| "contiguous a (r # rs) = (ihex_ok r \<and> r ! 3 = 0 \<and> ihex_address r = a \<and> contiguous (a + unat (hd r)) rs)"

fun halves :: "u8 list \<Rightarrow> nat list" where
  "halves (a # b # bs) = (unat a + 256 * unat b) # halves bs"
| "halves _ = []"

fun pairs :: "nat list \<Rightarrow> nat list" where
  "pairs (a # b # bs) = (a + 65536 * b) # pairs bs"
| "pairs _ = []"

definition image_halves :: "u8 list list \<Rightarrow> nat list" where
  "image_halves rs = halves (concat (map ihex_data rs))"

text \<open>The identifiers stand in the image from offset 8, the function table from offset 0x34.\<close>

definition image_uuids :: "u8 list list \<Rightarrow> nat list" where
  "image_uuids rs = take 22 (drop 4 (image_halves rs))"

definition image_table :: "u8 list list \<Rightarrow> nat list" where
  "image_table rs = pairs (drop 26 (image_halves rs))"

end
