(* ===== verification/Ble_Rom58.thy ===== *)
theory Ble_Rom58
  imports Ble_Types
begin

text \<open>The interface of the Bluetooth library of CH58x, the header of the library in ROM \<^verbatim>\<open>lib/ch58x/CH58xBLE_ROM.h\<close>: a table for each group of
  constants, the layout of each type, the prototypes of the functions in groups.\<close>

definition r58_c_TRUE :: "const_table" where
  "r58_c_TRUE =
     [(''TRUE'', CNum 1),
      (''FALSE'', CNum 0),
      (''NULL'', CNum 0),
      (''SUCCESS'', CNum 0x0)]"

definition r58_c_SYS_EVENT_MSG :: "const_table" where
  "r58_c_SYS_EVENT_MSG =
     [(''SYS_EVENT_MSG'', CNum 0x8000),
      (''INVALID_TASK_ID'', CNum 0xFF),
      (''TASK_NO_TASK'', CNum 0xFF)]"

definition r58_c_SYSTEM_TIME_MICROSEN :: "const_table" where
  "r58_c_SYSTEM_TIME_MICROSEN =
     [(''SYSTEM_TIME_MICROSEN'', CNum 625)]"

definition r58_c_LL_TX_POWEER_MINUS_16_DBM :: "const_table" where
  "r58_c_LL_TX_POWEER_MINUS_16_DBM =
     [(''LL_TX_POWEER_MINUS_16_DBM'', CNum 0x1),
      (''LL_TX_POWEER_MINUS_12_DBM'', CNum 0x2),
      (''LL_TX_POWEER_MINUS_8_DBM'', CNum 0x4),
      (''LL_TX_POWEER_MINUS_5_DBM'', CNum 0x7),
      (''LL_TX_POWEER_MINUS_3_DBM'', CNum 0x9),
      (''LL_TX_POWEER_MINUS_1_DBM'', CNum 0xB),
      (''LL_TX_POWEER_0_DBM'', CNum 0xD),
      (''LL_TX_POWEER_1_DBM'', CNum 0xF),
      (''LL_TX_POWEER_2_DBM'', CNum 0x13),
      (''LL_TX_POWEER_3_DBM'', CNum 0x17),
      (''LL_TX_POWEER_4_DBM'', CNum 0x1D),
      (''LL_TX_POWEER_5_DBM'', CNum 0x29),
      (''LL_TX_POWEER_6_DBM'', CNum 0x3D),
      (''ERR_LLE_IRQ_HANDLE'', CNum 0x1),
      (''ERR_MEM_ALLOCATE_SIZE'', CNum 0x2),
      (''ERR_SET_MAC_ADDR'', CNum 0x3),
      (''ERR_GAP_ROLE_CONFIG'', CNum 0x4),
      (''ERR_CONNECT_NUMBER_CONFIG'', CNum 0x5),
      (''ERR_SNV_ADDR_CONFIG'', CNum 0x6),
      (''ERR_CLOCK_SELECT_CONFIG'', CNum 0x7),
      (''B_ADDR_LEN'', CNum 6),
      (''B_RANDOM_NUM_SIZE'', CNum 8),
      (''KEYLEN'', CNum 16),
      (''B_MAX_ADV_LEN'', CNum 31),
      (''B_MAX_ADV_EXT_LEN'', CNum 460),
      (''B_MAX_ADV_PERIODIC_LEN'', CNum 460),
      (''FAILURE'', CNum 0x1),
      (''INVALIDPARAMETER'', CNum 0x2),
      (''INVALID_TASK'', CNum 0x3),
      (''MSG_BUFFER_NOT_AVAIL'', CNum 0x4),
      (''INVALID_MSG_POINTER'', CNum 0x5),
      (''INVALID_EVENT_ID'', CNum 0x6),
      (''INVALID_TIMEOUT'', CNum 0x7),
      (''NO_TIMER_AVAIL'', CNum 0x8),
      (''NV_OPER_FAILED'', CNum 0xA),
      (''INVALID_MEM_SIZE'', CNum 0xB)]"

definition r58_c_bleInvalidTaskID :: "const_table" where
  "r58_c_bleInvalidTaskID =
     [(''bleInvalidTaskID'', CName ''INVALID_TASK''),
      (''bleEecKeyRequestRejected'', CNum 0x6),
      (''bleNotReady'', CNum 0x10),
      (''bleAlreadyInRequestedMode'', CNum 0x11),
      (''bleIncorrectMode'', CNum 0x12),
      (''bleMemAllocError'', CNum 0x13),
      (''bleNotConnected'', CNum 0x14),
      (''bleNoResources'', CNum 0x15),
      (''blePending'', CNum 0x16),
      (''bleTimeout'', CNum 0x17),
      (''bleInvalidRange'', CNum 0x18),
      (''bleLinkEncrypted'', CNum 0x19),
      (''bleProcedureComplete'', CNum 0x1A),
      (''bleInvalidMtuSize'', CNum 0x1B)]"

definition r58_c_INVALID_CONNHANDLE :: "const_table" where
  "r58_c_INVALID_CONNHANDLE =
     [(''INVALID_CONNHANDLE'', CNum 0xFFFF),
      (''LOOPBACK_CONNHANDLE'', CNum 0xFFFE),
      (''LINK_NOT_CONNECTED'', CNum 0x0),
      (''LINK_CONNECTED'', CNum 0x1),
      (''LINK_AUTHENTICATED'', CNum 0x2),
      (''LINK_BOUND'', CNum 0x4),
      (''LINK_ENCRYPTED'', CNum 0x10),
      (''LINKDB_STATUS_UPDATE_NEW'', CNum 0),
      (''LINKDB_STATUS_UPDATE_REMOVED'', CNum 1),
      (''LINKDB_STATUS_UPDATE_STATEFLAGS'', CNum 2)]"

definition r58_c_GAP_SERVICE_UUID :: "const_table" where
  "r58_c_GAP_SERVICE_UUID =
     [(''GAP_SERVICE_UUID'', CNum 0x1800),
      (''GATT_SERVICE_UUID'', CNum 0x1801)]"

definition r58_c_GATT_PRIMARY_SERVICE_UUID :: "const_table" where
  "r58_c_GATT_PRIMARY_SERVICE_UUID =
     [(''GATT_PRIMARY_SERVICE_UUID'', CNum 0x2800),
      (''GATT_SECONDARY_SERVICE_UUID'', CNum 0x2801),
      (''GATT_INCLUDE_UUID'', CNum 0x2802),
      (''GATT_CHARACTER_UUID'', CNum 0x2803)]"

definition r58_c_GATT_CHAR_EXT_PROPS_UUID :: "const_table" where
  "r58_c_GATT_CHAR_EXT_PROPS_UUID =
     [(''GATT_CHAR_EXT_PROPS_UUID'', CNum 0x2900),
      (''GATT_CHAR_USER_DESC_UUID'', CNum 0x2901),
      (''GATT_CLIENT_CHAR_CFG_UUID'', CNum 0x2902),
      (''GATT_SERV_CHAR_CFG_UUID'', CNum 0x2903),
      (''GATT_CHAR_FORMAT_UUID'', CNum 0x2904),
      (''GATT_CHAR_AGG_FORMAT_UUID'', CNum 0x2905),
      (''GATT_VALID_RANGE_UUID'', CNum 0x2906),
      (''GATT_EXT_REPORT_REF_UUID'', CNum 0x2907),
      (''GATT_REPORT_REF_UUID'', CNum 0x2908)]"

definition r58_c_DEVICE_NAME_UUID :: "const_table" where
  "r58_c_DEVICE_NAME_UUID =
     [(''DEVICE_NAME_UUID'', CNum 0x2A00),
      (''APPEARANCE_UUID'', CNum 0x2A01),
      (''PERI_PRIVACY_FLAG_UUID'', CNum 0x2A02),
      (''RECONNECT_ADDR_UUID'', CNum 0x2A03),
      (''PERI_CONN_PARAM_UUID'', CNum 0x2A04),
      (''SERVICE_CHANGED_UUID'', CNum 0x2A05),
      (''CENTRAL_ADDRESS_RESOLUTION_UUID'', CNum 0x2AA6)]"

definition r58_c_IMMEDIATE_ALERT_SERV_UUID :: "const_table" where
  "r58_c_IMMEDIATE_ALERT_SERV_UUID =
     [(''IMMEDIATE_ALERT_SERV_UUID'', CNum 0x1802),
      (''LINK_LOSS_SERV_UUID'', CNum 0x1803),
      (''TX_PWR_LEVEL_SERV_UUID'', CNum 0x1804),
      (''CURRENT_TIME_SERV_UUID'', CNum 0x1805),
      (''REF_TIME_UPDATE_SERV_UUID'', CNum 0x1806),
      (''NEXT_DST_CHANGE_SERV_UUID'', CNum 0x1807),
      (''GLUCOSE_SERV_UUID'', CNum 0x1808),
      (''THERMOMETER_SERV_UUID'', CNum 0x1809),
      (''DEVINFO_SERV_UUID'', CNum 0x180A),
      (''NWA_SERV_UUID'', CNum 0x180B),
      (''HEARTRATE_SERV_UUID'', CNum 0x180D),
      (''PHONE_ALERT_STS_SERV_UUID'', CNum 0x180E),
      (''BATT_SERV_UUID'', CNum 0x180F),
      (''BLOODPRESSURE_SERV_UUID'', CNum 0x1810),
      (''ALERT_NOTIF_SERV_UUID'', CNum 0x1811),
      (''HID_SERV_UUID'', CNum 0x1812),
      (''SCAN_PARAM_SERV_UUID'', CNum 0x1813),
      (''RSC_SERV_UUID'', CNum 0x1814),
      (''CSC_SERV_UUID'', CNum 0x1816),
      (''CYCPWR_SERV_UUID'', CNum 0x1818),
      (''LOC_NAV_SERV_UUID'', CNum 0x1819)]"

definition r58_c_ALERT_LEVEL_UUID :: "const_table" where
  "r58_c_ALERT_LEVEL_UUID =
     [(''ALERT_LEVEL_UUID'', CNum 0x2A06),
      (''TX_PWR_LEVEL_UUID'', CNum 0x2A07),
      (''DATE_TIME_UUID'', CNum 0x2A08),
      (''DAY_OF_WEEK_UUID'', CNum 0x2A09),
      (''DAY_DATE_TIME_UUID'', CNum 0x2A0A),
      (''EXACT_TIME_256_UUID'', CNum 0x2A0C),
      (''DST_OFFSET_UUID'', CNum 0x2A0D),
      (''TIME_ZONE_UUID'', CNum 0x2A0E),
      (''LOCAL_TIME_INFO_UUID'', CNum 0x2A0F),
      (''TIME_WITH_DST_UUID'', CNum 0x2A11),
      (''TIME_ACCURACY_UUID'', CNum 0x2A12),
      (''TIME_SOURCE_UUID'', CNum 0x2A13),
      (''REF_TIME_INFO_UUID'', CNum 0x2A14),
      (''TIME_UPDATE_CTRL_PT_UUID'', CNum 0x2A16),
      (''TIME_UPDATE_STATE_UUID'', CNum 0x2A17),
      (''GLUCOSE_MEAS_UUID'', CNum 0x2A18),
      (''BATT_LEVEL_UUID'', CNum 0x2A19),
      (''TEMP_MEAS_UUID'', CNum 0x2A1C),
      (''TEMP_TYPE_UUID'', CNum 0x2A1D),
      (''IMEDIATE_TEMP_UUID'', CNum 0x2A1E),
      (''MEAS_INTERVAL_UUID'', CNum 0x2A21),
      (''BOOT_KEY_INPUT_UUID'', CNum 0x2A22),
      (''SYSTEM_ID_UUID'', CNum 0x2A23),
      (''MODEL_NUMBER_UUID'', CNum 0x2A24),
      (''SERIAL_NUMBER_UUID'', CNum 0x2A25),
      (''FIRMWARE_REV_UUID'', CNum 0x2A26),
      (''HARDWARE_REV_UUID'', CNum 0x2A27),
      (''SOFTWARE_REV_UUID'', CNum 0x2A28),
      (''MANUFACTURER_NAME_UUID'', CNum 0x2A29),
      (''IEEE_11073_CERT_DATA_UUID'', CNum 0x2A2A),
      (''CURRENT_TIME_UUID'', CNum 0x2A2B),
      (''SCAN_REFRESH_UUID'', CNum 0x2A31),
      (''BOOT_KEY_OUTPUT_UUID'', CNum 0x2A32),
      (''BOOT_MOUSE_INPUT_UUID'', CNum 0x2A33),
      (''GLUCOSE_CONTEXT_UUID'', CNum 0x2A34),
      (''BLOODPRESSURE_MEAS_UUID'', CNum 0x2A35),
      (''IMEDIATE_CUFF_PRESSURE_UUID'', CNum 0x2A36),
      (''HEARTRATE_MEAS_UUID'', CNum 0x2A37),
      (''BODY_SENSOR_LOC_UUID'', CNum 0x2A38),
      (''HEARTRATE_CTRL_PT_UUID'', CNum 0x2A39),
      (''NETWORK_AVAIL_UUID'', CNum 0x2A3E),
      (''ALERT_STATUS_UUID'', CNum 0x2A3F),
      (''RINGER_CTRL_PT_UUID'', CNum 0x2A40),
      (''RINGER_SETTING_UUID'', CNum 0x2A41),
      (''ALERT_CAT_ID_BMASK_UUID'', CNum 0x2A42),
      (''ALERT_CAT_ID_UUID'', CNum 0x2A43),
      (''ALERT_NOTIF_CTRL_PT_UUID'', CNum 0x2A44),
      (''UNREAD_ALERT_STATUS_UUID'', CNum 0x2A45),
      (''NEW_ALERT_UUID'', CNum 0x2A46),
      (''SUP_NEW_ALERT_CAT_UUID'', CNum 0x2A47)]"

definition r58_c_SUP_UNREAD_ALERT_CAT_UUID :: "const_table" where
  "r58_c_SUP_UNREAD_ALERT_CAT_UUID =
     [(''SUP_UNREAD_ALERT_CAT_UUID'', CNum 0x2A48),
      (''BLOODPRESSURE_FEATURE_UUID'', CNum 0x2A49),
      (''HID_INFORMATION_UUID'', CNum 0x2A4A),
      (''REPORT_MAP_UUID'', CNum 0x2A4B),
      (''HID_CTRL_PT_UUID'', CNum 0x2A4C),
      (''REPORT_UUID'', CNum 0x2A4D),
      (''PROTOCOL_MODE_UUID'', CNum 0x2A4E),
      (''SCAN_INTERVAL_WINDOW_UUID'', CNum 0x2A4F),
      (''PNP_ID_UUID'', CNum 0x2A50),
      (''GLUCOSE_FEATURE_UUID'', CNum 0x2A51),
      (''RECORD_CTRL_PT_UUID'', CNum 0x2A52),
      (''RSC_MEAS_UUID'', CNum 0x2A53),
      (''RSC_FEATURE_UUID'', CNum 0x2A54),
      (''SC_CTRL_PT_UUID'', CNum 0x2A55),
      (''CSC_MEAS_UUID'', CNum 0x2A5B),
      (''CSC_FEATURE_UUID'', CNum 0x2A5C),
      (''SENSOR_LOC_UUID'', CNum 0x2A5D),
      (''CYCPWR_MEAS_UUID'', CNum 0x2A63),
      (''CYCPWR_VECTOR_UUID'', CNum 0x2A64),
      (''CYCPWR_FEATURE_UUID'', CNum 0x2A65),
      (''CYCPWR_CTRL_PT_UUID'', CNum 0x2A66),
      (''LOC_SPEED_UUID'', CNum 0x2A67),
      (''NAV_UUID'', CNum 0x2A68),
      (''POS_QUALITY_UUID'', CNum 0x2A69),
      (''LN_FEATURE_UUID'', CNum 0x2A6A),
      (''LN_CTRL_PT_UUID'', CNum 0x2A6B),
      (''ELE_UUID'', CNum 0x2A6C),
      (''PRESSURE_UUID'', CNum 0x2A6D),
      (''TEMP_UUID'', CNum 0x2A6E),
      (''HUMI_UUID'', CNum 0x2A6F),
      (''TRUE_WIND_SPEED_UUID'', CNum 0x2A70),
      (''TRUE_WIND_DIRECTION_UUID'', CNum 0x2A71),
      (''URI_UUID'', CNum 0x2AB6),
      (''MEDIA_STATE_UUID'', CNum 0x2BA3),
      (''MEDIA_CTRL_PT_UUID'', CNum 0x2BA4),
      (''MEDIA_CTRL_PT_OS_UUID'', CNum 0x2BA5),
      (''CALL_STATE_UUID'', CNum 0x2BBD),
      (''CALL_CTRL_PT_UUID'', CNum 0x2BBE),
      (''CALL_CTRL_PT_OO_UUID'', CNum 0x2BBF),
      (''TERM_REASON_UUID'', CNum 0x2BC0),
      (''INCOMING_CALL_UUID'', CNum 0x2BC1),
      (''MUTE_UUID'', CNum 0x2BC3)]"

definition r58_c_GATT_UNITLESS_UUID :: "const_table" where
  "r58_c_GATT_UNITLESS_UUID =
     [(''GATT_UNITLESS_UUID'', CNum 0x2700),
      (''GATT_UNIT_LENGTH_METER_UUID'', CNum 0x2701),
      (''GATT_UNIT_MASS_KGRAM_UUID'', CNum 0x2702),
      (''GATT_UNIT_TIME_SECOND_UUID'', CNum 0x2703),
      (''GATT_UNIT_ELECTRIC_CURRENT_A_UUID'', CNum 0x2704),
      (''GATT_UNIT_THERMODYN_TEMP_K_UUID'', CNum 0x2705),
      (''GATT_UNIT_AMOUNT_SUBSTANCE_M_UUID'', CNum 0x2706),
      (''GATT_UNIT_LUMINOUS_INTENSITY_C_UUID'', CNum 0x2707),
      (''GATT_UNIT_AREA_SQ_MTR_UUID'', CNum 0x2710),
      (''GATT_UNIT_VOLUME_CUBIC_MTR_UUID'', CNum 0x2711),
      (''GATT_UNIT_VELOCITY_MPS_UUID'', CNum 0x2712),
      (''GATT_UNIT_ACCELERATION_MPS_SQ_UUID'', CNum 0x2713),
      (''GATT_UNIT_WAVENUMBER_RM_UUID'', CNum 0x2714),
      (''GATT_UNIT_DENSITY_KGPCM_UUID'', CNum 0x2715),
      (''GATT_UNIT_SURFACE_DENSITY_KGPSM_UUID'', CNum 0x2716),
      (''GATT_UNIT_SPECIFIC_VOLUME_CMPKG_UUID'', CNum 0x2717),
      (''GATT_UNIT_CURRENT_DENSITY_APSM_UUID'', CNum 0x2718),
      (''GATT_UNIT_MAG_FIELD_STRENGTH_UUID'', CNum 0x2719),
      (''GATT_UNIT_AMOUNT_CONC_MPCM_UUID'', CNum 0x271A),
      (''GATT_UNIT_MASS_CONC_KGPCM_UUID'', CNum 0x271B),
      (''GATT_UNIT_LUMINANCE_CPSM_UUID'', CNum 0x271C),
      (''GATT_UNIT_REFRACTIVE_INDEX_UUID'', CNum 0x271D),
      (''GATT_UNIT_RELATIVE_PERMEABLILTY_UUID'', CNum 0x271E),
      (''GATT_UNIT_PLANE_ANGLE_RAD_UUID'', CNum 0x2720),
      (''GATT_UNIT_SOLID_ANGLE_STERAD_UUID'', CNum 0x2721),
      (''GATT_UNIT_FREQUENCY_HTZ_UUID'', CNum 0x2722),
      (''GATT_UNIT_FORCE_NEWTON_UUID'', CNum 0x2723),
      (''GATT_UNIT_PRESSURE_PASCAL_UUID'', CNum 0x2724),
      (''GATT_UNIT_ENERGY_JOULE_UUID'', CNum 0x2725),
      (''GATT_UNIT_POWER_WATT_UUID'', CNum 0x2726),
      (''GATT_UNIT_E_CHARGE_C_UUID'', CNum 0x2727),
      (''GATT_UNIT_E_POTENTIAL_DIF_V_UUID'', CNum 0x2728),
      (''GATT_UNIT_CELSIUS_TEMP_DC_UUID'', CNum 0x272F),
      (''GATT_UNIT_TIME_MINUTE_UUID'', CNum 0x2760),
      (''GATT_UNIT_TIME_HOUR_UUID'', CNum 0x2761),
      (''GATT_UNIT_TIME_DAY_UUID'', CNum 0x2762),
      (''GATT_UNIT_PLANE_ANGLE_DEGREE_UUID'', CNum 0x2763),
      (''GATT_UNIT_PLANE_ANGLE_MINUTE_UUID'', CNum 0x2764),
      (''GATT_UNIT_PLANE_ANGLE_SECOND_UUID'', CNum 0x2765),
      (''GATT_UNIT_AREA_HECTARE_UUID'', CNum 0x2766),
      (''GATT_UNIT_VOLUME_LITRE_UUID'', CNum 0x2767),
      (''GATT_UNIT_MASS_TONNE_UUID'', CNum 0x2768),
      (''GATT_UINT_LENGTH_YARD_UUID'', CNum 0x27A0),
      (''GATT_UNIT_LENGTH_PARSEC_UUID'', CNum 0x27A1),
      (''GATT_UNIT_LENGTH_INCH_UUID'', CNum 0x27A2),
      (''GATT_UNIT_LENGTH_FOOT_UUID'', CNum 0x27A3),
      (''GATT_UNIT_LENGTH_MILE_UUID'', CNum 0x27A4),
      (''GATT_UNIT_PRESSURE_PFPSI_UUID'', CNum 0x27A5),
      (''GATT_UNIT_VELOCITY_KMPH_UUID'', CNum 0x27A6),
      (''GATT_UNIT_VELOCITY_MPH_UUID'', CNum 0x27A7)]"

definition r58_c_GATT_UNIT_ANGULAR_VELOCITY_RPM_UUID :: "const_table" where
  "r58_c_GATT_UNIT_ANGULAR_VELOCITY_RPM_UUID =
     [(''GATT_UNIT_ANGULAR_VELOCITY_RPM_UUID'', CNum 0x27A8),
      (''GATT_UNIT_ENERGY_GCAL_UUID'', CNum 0x27A9),
      (''GATT_UNIT_ENERGY_KCAL_UUID'', CNum 0x27AA),
      (''GATT_UNIT_ENERGY_KWH_UUID'', CNum 0x27AB),
      (''GATT_UNIT_THERMODYN_TEMP_DF_UUID'', CNum 0x27AC),
      (''GATT_UNIT_PERCENTAGE_UUID'', CNum 0x27AD),
      (''GATT_UNIT_PER_MILE_UUID'', CNum 0x27AE),
      (''GATT_UNIT_PERIOD_BPM_UUID'', CNum 0x27AF),
      (''GATT_UNIT_E_CHARGE_AH_UUID'', CNum 0x27B0),
      (''GATT_UNIT_MASS_DENSITY_MGPD_UUID'', CNum 0x27B1),
      (''GATT_UNIT_MASS_DENSITY_MMPL_UUID'', CNum 0x27B2),
      (''GATT_UNIT_TIME_YEAR_UUID'', CNum 0x27B3),
      (''GATT_UNIT_TIME_MONTH_UUID'', CNum 0x27B4)]"

definition r58_c_GATT_MSG_EVENT :: "const_table" where
  "r58_c_GATT_MSG_EVENT =
     [(''GATT_MSG_EVENT'', CNum 0xB0),
      (''GATT_SERV_MSG_EVENT'', CNum 0xB1),
      (''GAP_MSG_EVENT'', CNum 0xD0),
      (''ATT_MTU_SIZE'', CNum 23),
      (''ATT_MAX_MTU_SIZE'', CNum 512),
      (''ATT_ERROR_RSP'', CNum 0x1),
      (''ATT_EXCHANGE_MTU_REQ'', CNum 0x2),
      (''ATT_EXCHANGE_MTU_RSP'', CNum 0x3),
      (''ATT_FIND_INFO_REQ'', CNum 0x4),
      (''ATT_FIND_INFO_RSP'', CNum 0x5),
      (''ATT_FIND_BY_TYPE_VALUE_REQ'', CNum 0x6),
      (''ATT_FIND_BY_TYPE_VALUE_RSP'', CNum 0x7),
      (''ATT_READ_BY_TYPE_REQ'', CNum 0x8),
      (''ATT_READ_BY_TYPE_RSP'', CNum 0x9),
      (''ATT_READ_REQ'', CNum 0xA),
      (''ATT_READ_RSP'', CNum 0xB),
      (''ATT_READ_BLOB_REQ'', CNum 0xC),
      (''ATT_READ_BLOB_RSP'', CNum 0xD),
      (''ATT_READ_MULTI_REQ'', CNum 0xE),
      (''ATT_READ_MULTI_RSP'', CNum 0xF),
      (''ATT_READ_BY_GRP_TYPE_REQ'', CNum 0x10),
      (''ATT_READ_BY_GRP_TYPE_RSP'', CNum 0x11),
      (''ATT_WRITE_REQ'', CNum 0x12),
      (''ATT_WRITE_RSP'', CNum 0x13),
      (''ATT_PREPARE_WRITE_REQ'', CNum 0x16),
      (''ATT_PREPARE_WRITE_RSP'', CNum 0x17),
      (''ATT_EXECUTE_WRITE_REQ'', CNum 0x18),
      (''ATT_EXECUTE_WRITE_RSP'', CNum 0x19),
      (''ATT_HANDLE_VALUE_NOTI'', CNum 0x1B),
      (''ATT_HANDLE_VALUE_IND'', CNum 0x1D),
      (''ATT_HANDLE_VALUE_CFM'', CNum 0x1E),
      (''ATT_WRITE_CMD'', CNum 0x52),
      (''ATT_SIGNED_WRITE_CMD'', CNum 0xD2),
      (''ATT_ERR_INVALID_HANDLE'', CNum 0x1),
      (''ATT_ERR_READ_NOT_PERMITTED'', CNum 0x2),
      (''ATT_ERR_WRITE_NOT_PERMITTED'', CNum 0x3),
      (''ATT_ERR_INVALID_PDU'', CNum 0x4),
      (''ATT_ERR_INSUFFICIENT_AUTHEN'', CNum 0x5),
      (''ATT_ERR_UNSUPPORTED_REQ'', CNum 0x6),
      (''ATT_ERR_INVALID_OFFSET'', CNum 0x7),
      (''ATT_ERR_INSUFFICIENT_AUTHOR'', CNum 0x8),
      (''ATT_ERR_PREPARE_QUEUE_FULL'', CNum 0x9),
      (''ATT_ERR_ATTR_NOT_FOUND'', CNum 0xA),
      (''ATT_ERR_ATTR_NOT_LONG'', CNum 0xB),
      (''ATT_ERR_INSUFFICIENT_KEY_SIZE'', CNum 0xC),
      (''ATT_ERR_INVALID_VALUE_SIZE'', CNum 0xD),
      (''ATT_ERR_UNLIKELY'', CNum 0xE),
      (''ATT_ERR_INSUFFICIENT_ENCRYPT'', CNum 0xF),
      (''ATT_ERR_UNSUPPORTED_GRP_TYPE'', CNum 0x10),
      (''ATT_ERR_INSUFFICIENT_RESOURCES'', CNum 0x11)]"

definition r58_c_ATT_ERR_INVALID_VALUE :: "const_table" where
  "r58_c_ATT_ERR_INVALID_VALUE =
     [(''ATT_ERR_INVALID_VALUE'', CNum 0x80)]"

definition r58_c_ATT_FLOW_CTRL_VIOLATED_EVENT :: "const_table" where
  "r58_c_ATT_FLOW_CTRL_VIOLATED_EVENT =
     [(''ATT_FLOW_CTRL_VIOLATED_EVENT'', CNum 0x7E),
      (''ATT_MTU_UPDATED_EVENT'', CNum 0x7F)]"

definition r58_c_ATT_BT_UUID_SIZE :: "const_table" where
  "r58_c_ATT_BT_UUID_SIZE =
     [(''ATT_BT_UUID_SIZE'', CNum 2),
      (''ATT_UUID_SIZE'', CNum 16)]"

definition r58_c_GATT_PERMIT_READ :: "const_table" where
  "r58_c_GATT_PERMIT_READ =
     [(''GATT_PERMIT_READ'', CNum 0x1),
      (''GATT_PERMIT_WRITE'', CNum 0x2),
      (''GATT_PERMIT_AUTHEN_READ'', CNum 0x4),
      (''GATT_PERMIT_AUTHEN_WRITE'', CNum 0x8),
      (''GATT_PERMIT_AUTHOR_READ'', CNum 0x10),
      (''GATT_PERMIT_AUTHOR_WRITE'', CNum 0x20),
      (''GATT_PERMIT_ENCRYPT_READ'', CNum 0x40),
      (''GATT_PERMIT_ENCRYPT_WRITE'', CNum 0x80),
      (''GATT_PROP_BCAST'', CNum 0x1),
      (''GATT_PROP_READ'', CNum 0x2),
      (''GATT_PROP_WRITE_NO_RSP'', CNum 0x4),
      (''GATT_PROP_WRITE'', CNum 0x8),
      (''GATT_PROP_NOTIFY'', CNum 0x10),
      (''GATT_PROP_INDICATE'', CNum 0x20),
      (''GATT_PROP_AUTHEN'', CNum 0x40),
      (''GATT_PROP_EXTENDED'', CNum 0x80),
      (''GATT_LOCAL_READ'', CNum 0xFF),
      (''GATT_LOCAL_WRITE'', CNum 0xFE),
      (''GATT_MIN_ENCRYPT_KEY_SIZE'', CNum 7),
      (''GATT_MAX_ENCRYPT_KEY_SIZE'', CNum 16),
      (''GATT_INVALID_HANDLE'', CNum 0x0),
      (''GATT_MIN_HANDLE'', CNum 0x1),
      (''GATT_MAX_HANDLE'', CNum 0xFFFF),
      (''GATT_MAX_MTU'', CNum 0xFFFF)]"

definition r58_c_GATT_CONNECT_NUM :: "const_table" where
  "r58_c_GATT_CONNECT_NUM =
     [(''GATT_CONNECT_NUM'', CNum 3),
      (''GATT_MAX_NUM_CONN'', CAdd (CName ''GATT_CONNECT_NUM'') (CNum 1)),
      (''GATT_CLIENT_CFG_NOTIFY'', CNum 0x1),
      (''GATT_CLIENT_CFG_INDICATE'', CNum 0x2),
      (''GATT_CFG_NO_OPERATION'', CNum 0x0),
      (''GATT_ALL_SERVICES'', CNum 0xFFFFFFFF)]"

definition r58_c_GAP_DEVICE_INIT_DONE_EVENT :: "const_table" where
  "r58_c_GAP_DEVICE_INIT_DONE_EVENT =
     [(''GAP_DEVICE_INIT_DONE_EVENT'', CNum 0x0),
      (''GAP_DEVICE_DISCOVERY_EVENT'', CNum 0x1),
      (''GAP_ADV_DATA_UPDATE_DONE_EVENT'', CNum 0x2),
      (''GAP_MAKE_DISCOVERABLE_DONE_EVENT'', CNum 0x3),
      (''GAP_END_DISCOVERABLE_DONE_EVENT'', CNum 0x4),
      (''GAP_LINK_ESTABLISHED_EVENT'', CNum 0x5),
      (''GAP_LINK_TERMINATED_EVENT'', CNum 0x6),
      (''GAP_LINK_PARAM_UPDATE_EVENT'', CNum 0x7),
      (''GAP_RANDOM_ADDR_CHANGED_EVENT'', CNum 0x8),
      (''GAP_SIGNATURE_UPDATED_EVENT'', CNum 0x9),
      (''GAP_AUTHENTICATION_COMPLETE_EVENT'', CNum 0xA),
      (''GAP_PASSKEY_NEEDED_EVENT'', CNum 0xB),
      (''GAP_SLAVE_REQUESTED_SECURITY_EVENT'', CNum 0xC),
      (''GAP_DEVICE_INFO_EVENT'', CNum 0xD),
      (''GAP_BOND_COMPLETE_EVENT'', CNum 0xE),
      (''GAP_PAIRING_REQ_EVENT'', CNum 0xF),
      (''GAP_DIRECT_DEVICE_INFO_EVENT'', CNum 0x10),
      (''GAP_PHY_UPDATE_EVENT'', CNum 0x11),
      (''GAP_EXT_ADV_DEVICE_INFO_EVENT'', CNum 0x12),
      (''GAP_MAKE_PERIODIC_ADV_DONE_EVENT'', CNum 0x13),
      (''GAP_END_PERIODIC_ADV_DONE_EVENT'', CNum 0x14),
      (''GAP_SYNC_ESTABLISHED_EVENT'', CNum 0x15),
      (''GAP_PERIODIC_ADV_DEVICE_INFO_EVENT'', CNum 0x16),
      (''GAP_SYNC_LOST_EVENT'', CNum 0x17),
      (''GAP_SCAN_REQUEST_EVENT'', CNum 0x19),
      (''GAP_PROFILE_BROADCASTER'', CNum 0x1),
      (''GAP_PROFILE_OBSERVER'', CNum 0x2),
      (''GAP_PROFILE_PERIPHERAL'', CNum 0x4),
      (''GAP_PROFILE_CENTRAL'', CNum 0x8),
      (''bleGAPUserCanceled'', CNum 0x30),
      (''bleGAPConnNotAcceptable'', CNum 0x31),
      (''bleGAPBondRejected'', CNum 0x32),
      (''bleGAPExpiredCanceled'', CNum 0x33),
      (''GAP_DEVICE_NAME_LEN'', CNum 21),
      (''LISTEN_PERIODIC_ADVERTISING_MODE'', CShl (CNum 1) (CNum 0)),
      (''REPORTING_INITIALLY_DISABLED'', CShl (CNum 1) (CNum 1)),
      (''DUPLICATE_FILTERING_INITIALLY_ENABLED'', CShl (CNum 1) (CNum 2))]"

definition r58_c_GAP_CONNHANDLE_INIT :: "const_table" where
  "r58_c_GAP_CONNHANDLE_INIT =
     [(''GAP_CONNHANDLE_INIT'', CNum 0xFFFE),
      (''GAP_CONNHANDLE_ALL'', CNum 0xFFFF)]"

definition r58_c_GAP_PRIVACY_DISABLED :: "const_table" where
  "r58_c_GAP_PRIVACY_DISABLED =
     [(''GAP_PRIVACY_DISABLED'', CNum 0x0),
      (''GAP_PRIVACY_ENABLED'', CNum 0x1),
      (''GGS_DEVICE_NAME_ATT'', CNum 0),
      (''GGS_APPEARANCE_ATT'', CNum 1),
      (''GGS_PERI_PRIVACY_FLAG_ATT'', CNum 2),
      (''GGS_RECONNCT_ADDR_ATT'', CNum 3),
      (''GGS_PERI_CONN_PARAM_ATT'', CNum 4),
      (''GGS_PERI_PRIVACY_FLAG_PROPS'', CNum 5),
      (''GGS_W_PERMIT_DEVICE_NAME_ATT'', CNum 6),
      (''GGS_W_PERMIT_APPEARANCE_ATT'', CNum 7),
      (''GGS_W_PERMIT_PRIVACY_FLAG_ATT'', CNum 8),
      (''GGS_CENT_ADDR_RES_ATT'', CNum 9),
      (''GAP_SERVICE'', CNum 0x1)]"

definition r58_c_TGAP_GEN_DISC_ADV_MIN :: "const_table" where
  "r58_c_TGAP_GEN_DISC_ADV_MIN =
     [(''TGAP_GEN_DISC_ADV_MIN'', CNum 0),
      (''TGAP_LIM_ADV_TIMEOUT'', CNum 1),
      (''TGAP_DISC_SCAN'', CNum 2),
      (''TGAP_DISC_ADV_INT_MIN'', CNum 3),
      (''TGAP_DISC_ADV_INT_MAX'', CNum 4),
      (''TGAP_DISC_SCAN_INT'', CNum 5),
      (''TGAP_DISC_SCAN_WIND'', CNum 6),
      (''TGAP_CONN_EST_INT_MIN'', CNum 7),
      (''TGAP_CONN_EST_INT_MAX'', CNum 8),
      (''TGAP_CONN_EST_SCAN_INT'', CNum 9),
      (''TGAP_CONN_EST_SCAN_WIND'', CNum 10),
      (''TGAP_CONN_EST_HIGH_SCAN_INT'', CNum 11),
      (''TGAP_CONN_EST_HIGH_SCAN_WIND'', CNum 12),
      (''TGAP_CONN_EST_SUPERV_TIMEOUT'', CNum 13),
      (''TGAP_CONN_EST_LATENCY'', CNum 14),
      (''TGAP_CONN_EST_MIN_CE_LEN'', CNum 15),
      (''TGAP_CONN_EST_MAX_CE_LEN'', CNum 16),
      (''TGAP_PRIVATE_ADDR_INT'', CNum 17),
      (''TGAP_SM_TIMEOUT'', CNum 18),
      (''TGAP_SM_MIN_KEY_LEN'', CNum 19),
      (''TGAP_SM_MAX_KEY_LEN'', CNum 20),
      (''TGAP_FILTER_ADV_REPORTS'', CNum 21),
      (''TGAP_SCAN_RSSI_MIN'', CNum 22),
      (''TGAP_REJECT_CONN_PARAMS'', CNum 23),
      (''TGAP_AUTH_TASK_ID'', CNum 24),
      (''TGAP_ADV_TX_POWER'', CNum 25),
      (''TGAP_ADV_PRIMARY_PHY'', CNum 26),
      (''TGAP_ADV_SECONDARY_PHY'', CNum 27),
      (''TGAP_ADV_SECONDARY_MAX_SKIP'', CNum 28),
      (''TGAP_ADV_ADVERTISING_SID'', CNum 29),
      (''TGAP_ADV_SCAN_REQ_NOTIFY'', CNum 30),
      (''TGAP_ADV_ADVERTISING_DURATION'', CNum 31),
      (''TGAP_ADV_MAX_EVENTS'', CNum 32),
      (''TGAP_DISC_SCAN_PHY'', CNum 33),
      (''TGAP_DISC_SCAN_CODED_INT'', CNum 34),
      (''TGAP_DISC_SCAN_CODED_WIND'', CNum 35),
      (''TGAP_DISC_SCAN_DURATION'', CNum 36),
      (''TGAP_DISC_SCAN_PERIOD'', CNum 37)]"

definition r58_c_TGAP_CONN_EST_INT_PHY :: "const_table" where
  "r58_c_TGAP_CONN_EST_INT_PHY =
     [(''TGAP_CONN_EST_INT_PHY'', CNum 38),
      (''TGAP_CONN_EST_2M_INT_MIN'', CNum 39),
      (''TGAP_CONN_EST_2M_INT_MAX'', CNum 40),
      (''TGAP_CONN_EST_2M_SUPERV_TIMEOUT'', CNum 41),
      (''TGAP_CONN_EST_2M_LATENCY'', CNum 42),
      (''TGAP_CONN_EST_2M_MIN_CE_LEN'', CNum 43),
      (''TGAP_CONN_EST_2M_MAX_CE_LEN'', CNum 44),
      (''TGAP_CONN_EST_CODED_INT_MIN'', CNum 45),
      (''TGAP_CONN_EST_CODED_INT_MAX'', CNum 46),
      (''TGAP_CONN_EST_CODED_SCAN_INT'', CNum 47),
      (''TGAP_CONN_EST_CODED_SCAN_WIND'', CNum 48),
      (''TGAP_CONN_EST_CODED_HIGH_SCAN_INT'', CNum 49),
      (''TGAP_CONN_EST_CODED_HIGH_SCAN_WIND'', CNum 50),
      (''TGAP_CONN_EST_CODED_SUPERV_TIMEOUT'', CNum 51),
      (''TGAP_CONN_EST_CODED_LATENCY'', CNum 52),
      (''TGAP_CONN_EST_CODED_MIN_CE_LEN'', CNum 53),
      (''TGAP_CONN_EST_CODED_MAX_CE_LEN'', CNum 54),
      (''TGAP_PERIODIC_ADV_INT_MIN'', CNum 55),
      (''TGAP_PERIODIC_ADV_INT_MAX'', CNum 56),
      (''TGAP_PERIODIC_ADV_PROPERTIES'', CNum 57),
      (''TGAP_SCAN_MAX_LENGTH'', CNum 58),
      (''TGAP_AFH_CHANNEL_MDOE'', CNum 59),
      (''TGAP_PARAMID_MAX'', CNum 60),
      (''DEVDISC_MODE_NONDISCOVERABLE'', CNum 0x0),
      (''DEVDISC_MODE_GENERAL'', CNum 0x1),
      (''DEVDISC_MODE_LIMITED'', CNum 0x2),
      (''DEVDISC_MODE_ALL'', CNum 0x3),
      (''ADDRTYPE_PUBLIC'', CNum 0x0),
      (''ADDRTYPE_STATIC'', CNum 0x1),
      (''ADDRTYPE_PRIVATE_NONRESOLVE'', CNum 0x2),
      (''ADDRTYPE_PRIVATE_RESOLVE'', CNum 0x3),
      (''GAP_ADTYPE_ADV_IND'', CNum 0x0),
      (''GAP_ADTYPE_ADV_HDC_DIRECT_IND'', CNum 0x1),
      (''GAP_ADTYPE_ADV_SCAN_IND'', CNum 0x2),
      (''GAP_ADTYPE_ADV_NONCONN_IND'', CNum 0x3),
      (''GAP_ADTYPE_ADV_LDC_DIRECT_IND'', CNum 0x4),
      (''GAP_ADTYPE_EXT_CONN_DIRECT'', CNum 0x5),
      (''GAP_ADTYPE_EXT_SCAN_UNDIRECT'', CNum 0x6),
      (''GAP_ADTYPE_EXT_NONCONN_NONSCAN_UNDIRECT'', CNum 0x7),
      (''GAP_ADTYPE_EXT_CONN_UNDIRECT'', CNum 0x8),
      (''GAP_ADTYPE_EXT_SCAN_DIRECT'', CNum 0x9),
      (''GAP_ADTYPE_EXT_NONCONN_NONSCAN_DIRECT'', CNum 0xA)]"

definition r58_c_GAP_PHY_VAL_LE_1M :: "const_table" where
  "r58_c_GAP_PHY_VAL_LE_1M =
     [(''GAP_PHY_VAL_LE_1M'', CNum 0x1),
      (''GAP_PHY_VAL_LE_2M'', CNum 0x2),
      (''GAP_PHY_VAL_LE_CODED'', CNum 0x3)]"

definition r58_c_GAP_PHY_BIT_LE_1M :: "const_table" where
  "r58_c_GAP_PHY_BIT_LE_1M =
     [(''GAP_PHY_BIT_LE_1M'', CShl (CNum 1) (CNum 0)),
      (''GAP_PHY_BIT_LE_2M'', CShl (CNum 1) (CNum 1)),
      (''GAP_PHY_BIT_LE_CODED'', CShl (CNum 1) (CNum 2)),
      (''GAP_PHY_BIT_ALL'', COr (COr (CName ''GAP_PHY_BIT_LE_1M'') (CName ''GAP_PHY_BIT_LE_2M'')) (CName ''GAP_PHY_BIT_LE_CODED'')),
      (''GAP_PHY_BIT_LE_CODED_S2'', CShl (CNum 1) (CNum 3))]"

definition r58_c_GAP_PHY_OPTIONS_NOPRE :: "const_table" where
  "r58_c_GAP_PHY_OPTIONS_NOPRE =
     [(''GAP_PHY_OPTIONS_NOPRE'', CNum 0x0),
      (''GAP_PHY_OPTIONS_S2'', CNum 0x1),
      (''GAP_PHY_OPTIONS_S8'', CNum 0x2),
      (''GAP_PERI_PROPERTIES_INCLUDE_TXPOWER'', CShl (CNum 1) (CNum 6))]"

definition r58_c_GAP_ADRPT_ADV_IND :: "const_table" where
  "r58_c_GAP_ADRPT_ADV_IND =
     [(''GAP_ADRPT_ADV_IND'', CNum 0x0),
      (''GAP_ADRPT_ADV_DIRECT_IND'', CNum 0x1),
      (''GAP_ADRPT_ADV_SCAN_IND'', CNum 0x2),
      (''GAP_ADRPT_ADV_NONCONN_IND'', CNum 0x3),
      (''GAP_ADRPT_SCAN_RSP'', CNum 0x4),
      (''GAP_ADRPT_EXT_CONN_DIRECT'', CNum 0x5),
      (''GAP_ADRPT_EXT_SCAN_UNDIRECT'', CNum 0x6),
      (''GAP_ADRPT_EXT_NONCONN_NONSCAN_UNDIRECT'', CNum 0x7),
      (''GAP_ADRPT_EXT_CONN_UNDIRECT'', CNum 0x8),
      (''GAP_ADRPT_EXT_SCAN_DIRECT'', CNum 0x9),
      (''GAP_ADRPT_EXT_NONCONN_NONSCAN_DIRECT'', CNum 0xA),
      (''GAP_ADRPT_EXT_SCAN_RESPONSE'', CNum 0xB),
      (''GAP_ADRPT_EXT_DATA_MASK'', CShl (CNum 3) (CNum 5)),
      (''GAP_ADRPT_EXT_DATA_COMPLETE'', CShl (CNum 0) (CNum 5)),
      (''GAP_ADRPT_EXT_DATA_INCOMPLETE'', CShl (CNum 1) (CNum 5)),
      (''GAP_ADRPT_EXT_DATA_LAST'', CShl (CNum 2) (CNum 5)),
      (''GAP_ADRPT_ADV_CONNECTABLE'', CShl (CNum 1) (CNum 0)),
      (''GAP_ADRPT_ADV_SCANNABLE'', CShl (CNum 1) (CNum 1)),
      (''GAP_ADRPT_ADV_DITECTED'', CShl (CNum 1) (CNum 2)),
      (''GAP_ADRPT_SCAN_RESPONSE'', CShl (CNum 1) (CNum 3)),
      (''GAP_FILTER_POLICY_ALL'', CNum 0x0),
      (''GAP_FILTER_POLICY_WHITE_SCAN'', CNum 0x1),
      (''GAP_FILTER_POLICY_WHITE_CON'', CNum 0x2),
      (''GAP_FILTER_POLICY_WHITE'', CNum 0x3),
      (''GAP_PASSCODE_MAX'', CNum 999999)]"

definition r58_c_GAP_INIT_SIGN_COUNTER :: "const_table" where
  "r58_c_GAP_INIT_SIGN_COUNTER =
     [(''GAP_INIT_SIGN_COUNTER'', CNum 0xFFFFFFFF),
      (''GAP_ADVCHAN_37'', CNum 0x1),
      (''GAP_ADVCHAN_38'', CNum 0x2),
      (''GAP_ADVCHAN_39'', CNum 0x4),
      (''GAP_ADVCHAN_ALL'', COr (COr (CName ''GAP_ADVCHAN_37'') (CName ''GAP_ADVCHAN_38'')) (CName ''GAP_ADVCHAN_39'')),
      (''GAP_ADTYPE_FLAGS'', CNum 0x1),
      (''GAP_ADTYPE_16BIT_MORE'', CNum 0x2),
      (''GAP_ADTYPE_16BIT_COMPLETE'', CNum 0x3),
      (''GAP_ADTYPE_32BIT_MORE'', CNum 0x4),
      (''GAP_ADTYPE_32BIT_COMPLETE'', CNum 0x5),
      (''GAP_ADTYPE_128BIT_MORE'', CNum 0x6),
      (''GAP_ADTYPE_128BIT_COMPLETE'', CNum 0x7),
      (''GAP_ADTYPE_LOCAL_NAME_SHORT'', CNum 0x8),
      (''GAP_ADTYPE_LOCAL_NAME_COMPLETE'', CNum 0x9),
      (''GAP_ADTYPE_POWER_LEVEL'', CNum 0xA),
      (''GAP_ADTYPE_OOB_CLASS_OF_DEVICE'', CNum 0xD),
      (''GAP_ADTYPE_OOB_SIMPLE_PAIRING_HASHC'', CNum 0xE),
      (''GAP_ADTYPE_OOB_SIMPLE_PAIRING_RANDR'', CNum 0xF),
      (''GAP_ADTYPE_SM_TK'', CNum 0x10),
      (''GAP_ADTYPE_SM_OOB_FLAG'', CNum 0x11),
      (''GAP_ADTYPE_SLAVE_CONN_INTERVAL_RANGE'', CNum 0x12),
      (''GAP_ADTYPE_SIGNED_DATA'', CNum 0x13),
      (''GAP_ADTYPE_SERVICES_LIST_16BIT'', CNum 0x14),
      (''GAP_ADTYPE_SERVICES_LIST_128BIT'', CNum 0x15),
      (''GAP_ADTYPE_SERVICE_DATA'', CNum 0x16),
      (''GAP_ADTYPE_PUBLIC_TARGET_ADDR'', CNum 0x17),
      (''GAP_ADTYPE_RANDOM_TARGET_ADDR'', CNum 0x18),
      (''GAP_ADTYPE_APPEARANCE'', CNum 0x19),
      (''GAP_ADTYPE_ADV_INTERVAL'', CNum 0x1A),
      (''GAP_ADTYPE_LE_BD_ADDR'', CNum 0x1B),
      (''GAP_ADTYPE_LE_ROLE'', CNum 0x1C),
      (''GAP_ADTYPE_SIMPLE_PAIRING_HASHC_256'', CNum 0x1D),
      (''GAP_ADTYPE_SIMPLE_PAIRING_RANDR_256'', CNum 0x1E),
      (''GAP_ADTYPE_SERVICE_DATA_32BIT'', CNum 0x20),
      (''GAP_ADTYPE_SERVICE_DATA_128BIT'', CNum 0x21),
      (''GAP_ADTYPE_URI'', CNum 0x24),
      (''GAP_ADTYPE_INDOOR_POSITION'', CNum 0x25),
      (''GAP_ADTYPE_TRAN_DISCOVERY_DATA'', CNum 0x26),
      (''GAP_ADTYPE_SUPPORTED_FEATURES'', CNum 0x27),
      (''GAP_ADTYPE_CHANNEL_MAP_UPDATE'', CNum 0x28),
      (''GAP_ADTYPE_PB_ADV'', CNum 0x29),
      (''GAP_ADTYPE_MESH_MESSAGE'', CNum 0x2A),
      (''GAP_ADTYPE_MESH_BEACON'', CNum 0x2B),
      (''GAP_ADTYPE_BIG_INFO'', CNum 0x2C),
      (''GAP_ADTYPE_BROADCAST_CODE'', CNum 0x2D),
      (''GAP_ADTYPE_RSL_SET_IDENT'', CNum 0x2E),
      (''GAP_ADTYPE_ADV_INTERVAL_LONG'', CNum 0x2F),
      (''GAP_ADTYPE_3D_INFO_DATA'', CNum 0x3D),
      (''GAP_ADTYPE_MANUFACTURER_SPECIFIC'', CNum 0xFF),
      (''GAP_ADTYPE_FLAGS_LIMITED'', CNum 0x1)]"

definition r58_c_GAP_ADTYPE_FLAGS_GENERAL :: "const_table" where
  "r58_c_GAP_ADTYPE_FLAGS_GENERAL =
     [(''GAP_ADTYPE_FLAGS_GENERAL'', CNum 0x2),
      (''GAP_ADTYPE_FLAGS_BREDR_NOT_SUPPORTED'', CNum 0x4),
      (''GAP_APPEARE_UNKNOWN'', CNum 0x0),
      (''GAP_APPEARE_GENERIC_PHONE'', CNum 0x40),
      (''GAP_APPEARE_GENERIC_COMPUTER'', CNum 0x80),
      (''GAP_APPEARE_GENERIC_WATCH'', CNum 0xC0),
      (''GAP_APPEARE_WATCH_SPORTS'', CNum 0xC1),
      (''GAP_APPEARE_GENERIC_CLOCK'', CNum 0x100),
      (''GAP_APPEARE_GENERIC_DISPLAY'', CNum 0x140),
      (''GAP_APPEARE_GENERIC_RC'', CNum 0x180),
      (''GAP_APPEARE_GENERIC_EYE_GALSSES'', CNum 0x1C0),
      (''GAP_APPEARE_GENERIC_TAG'', CNum 0x200),
      (''GAP_APPEARE_GENERIC_KEYRING'', CNum 0x240),
      (''GAP_APPEARE_GENERIC_MEDIA_PLAYER'', CNum 0x280),
      (''GAP_APPEARE_GENERIC_BARCODE_SCANNER'', CNum 0x2C0),
      (''GAP_APPEARE_GENERIC_THERMOMETER'', CNum 0x300),
      (''GAP_APPEARE_GENERIC_THERMO_EAR'', CNum 0x301),
      (''GAP_APPEARE_GENERIC_HR_SENSOR'', CNum 0x340),
      (''GAP_APPEARE_GENERIC_HRS_BELT'', CNum 0x341),
      (''GAP_APPEARE_GENERIC_BLOOD_PRESSURE'', CNum 0x380),
      (''GAP_APPEARE_GENERIC_BP_ARM'', CNum 0x381),
      (''GAP_APPEARE_GENERIC_BP_WRIST'', CNum 0x382),
      (''GAP_APPEARE_GENERIC_HID'', CNum 0x3C0),
      (''GAP_APPEARE_HID_KEYBOARD'', CNum 0x3C1),
      (''GAP_APPEARE_HID_MOUSE'', CNum 0x3C2),
      (''GAP_APPEARE_HID_JOYSTIC'', CNum 0x3C3),
      (''GAP_APPEARE_HID_GAMEPAD'', CNum 0x3C4),
      (''GAP_APPEARE_HID_DIGITIZER_TYABLET'', CNum 0x3C5),
      (''GAP_APPEARE_HID_DIGITAL_CARDREADER'', CNum 0x3C6),
      (''GAP_APPEARE_HID_DIGITAL_PEN'', CNum 0x3C7),
      (''GAP_APPEARE_HID_BARCODE_SCANNER'', CNum 0x3C8)]"

definition r58_c_GAPROLE_PROFILEROLE :: "const_table" where
  "r58_c_GAPROLE_PROFILEROLE =
     [(''GAPROLE_PROFILEROLE'', CNum 0x300),
      (''GAPROLE_IRK'', CNum 0x301),
      (''GAPROLE_SRK'', CNum 0x302),
      (''GAPROLE_SIGNCOUNTER'', CNum 0x303),
      (''GAPROLE_BD_ADDR'', CNum 0x304),
      (''GAPROLE_ADVERT_ENABLED'', CNum 0x305),
      (''GAPROLE_ADVERT_DATA'', CNum 0x306),
      (''GAPROLE_SCAN_RSP_DATA'', CNum 0x307),
      (''GAPROLE_ADV_EVENT_TYPE'', CNum 0x308),
      (''GAPROLE_ADV_DIRECT_TYPE'', CNum 0x309),
      (''GAPROLE_ADV_DIRECT_ADDR'', CNum 0x30A),
      (''GAPROLE_ADV_CHANNEL_MAP'', CNum 0x30B),
      (''GAPROLE_ADV_FILTER_POLICY'', CNum 0x30C),
      (''GAPROLE_STATE'', CNum 0x30D),
      (''GAPROLE_MAX_SCAN_RES'', CNum 0x30E),
      (''GAPROLE_MIN_CONN_INTERVAL'', CNum 0x311),
      (''GAPROLE_MAX_CONN_INTERVAL'', CNum 0x312),
      (''GAPROLE_PHY_TX_SUPPORTED'', CNum 0x313),
      (''GAPROLE_PHY_RX_SUPPORTED'', CNum 0x314),
      (''GAPROLE_PERIODIC_ADVERT_DATA'', CNum 0x315),
      (''GAPROLE_PERIODIC_ADVERT_ENABLED'', CNum 0x316)]"

definition r58_c_GAPBOND_PERI_PAIRING_MODE :: "const_table" where
  "r58_c_GAPBOND_PERI_PAIRING_MODE =
     [(''GAPBOND_PERI_PAIRING_MODE'', CNum 0x400),
      (''GAPBOND_PERI_MITM_PROTECTION'', CNum 0x401),
      (''GAPBOND_PERI_IO_CAPABILITIES'', CNum 0x402),
      (''GAPBOND_PERI_OOB_ENABLED'', CNum 0x403),
      (''GAPBOND_PERI_OOB_DATA'', CNum 0x404),
      (''GAPBOND_PERI_BONDING_ENABLED'', CNum 0x405),
      (''GAPBOND_PERI_KEY_DIST_LIST'', CNum 0x406),
      (''GAPBOND_PERI_DEFAULT_PASSCODE'', CNum 0x407),
      (''GAPBOND_CENT_PAIRING_MODE'', CNum 0x408),
      (''GAPBOND_CENT_MITM_PROTECTION'', CNum 0x409),
      (''GAPBOND_CENT_IO_CAPABILITIES'', CNum 0x40A),
      (''GAPBOND_CENT_OOB_ENABLED'', CNum 0x40B),
      (''GAPBOND_CENT_OOB_DATA'', CNum 0x40C),
      (''GAPBOND_CENT_BONDING_ENABLED'', CNum 0x40D),
      (''GAPBOND_CENT_KEY_DIST_LIST'', CNum 0x40E),
      (''GAPBOND_CENT_DEFAULT_PASSCODE'', CNum 0x40F),
      (''GAPBOND_ERASE_ALLBONDS'', CNum 0x410),
      (''GAPBOND_AUTO_FAIL_PAIRING'', CNum 0x411),
      (''GAPBOND_AUTO_FAIL_REASON'', CNum 0x412),
      (''GAPBOND_KEYSIZE'', CNum 0x413),
      (''GAPBOND_AUTO_SYNC_WL'', CNum 0x414),
      (''GAPBOND_BOND_COUNT'', CNum 0x415),
      (''GAPBOND_BOND_FAIL_ACTION'', CNum 0x416),
      (''GAPBOND_ERASE_SINGLEBOND'', CNum 0x417),
      (''GAPBOND_BOND_AUTO'', CNum 0x418),
      (''GAPBOND_BOND_UPDATE'', CNum 0x419),
      (''GAPBOND_DISABLE_SINGLEBOND'', CNum 0x41A),
      (''GAPBOND_ENABLE_SINGLEBOND'', CNum 0x41B),
      (''GAPBOND_DISABLE_ALLBONDS'', CNum 0x41C),
      (''GAPBOND_ENABLE_ALLBONDS'', CNum 0x41D),
      (''GAPBOND_ERASE_AUTO'', CNum 0x41E),
      (''GAPBOND_AUTO_SYNC_RL'', CNum 0x41F),
      (''GAPBOND_PAIRING_MODE_NO_PAIRING'', CNum 0x0),
      (''GAPBOND_PAIRING_MODE_WAIT_FOR_REQ'', CNum 0x1),
      (''GAPBOND_PAIRING_MODE_INITIATE'', CNum 0x2),
      (''GAPBOND_IO_CAP_DISPLAY_ONLY'', CNum 0x0),
      (''GAPBOND_IO_CAP_DISPLAY_YES_NO'', CNum 0x1),
      (''GAPBOND_IO_CAP_KEYBOARD_ONLY'', CNum 0x2),
      (''GAPBOND_IO_CAP_NO_INPUT_NO_OUTPUT'', CNum 0x3),
      (''GAPBOND_IO_CAP_KEYBOARD_DISPLAY'', CNum 0x4),
      (''GAPBOND_KEYDIST_SENCKEY'', CNum 0x1),
      (''GAPBOND_KEYDIST_SIDKEY'', CNum 0x2),
      (''GAPBOND_KEYDIST_SSIGN'', CNum 0x4),
      (''GAPBOND_KEYDIST_SLINK'', CNum 0x8),
      (''GAPBOND_KEYDIST_MENCKEY'', CNum 0x10),
      (''GAPBOND_KEYDIST_MIDKEY'', CNum 0x20),
      (''GAPBOND_KEYDIST_MSIGN'', CNum 0x40),
      (''GAPBOND_KEYDIST_MLINK'', CNum 0x80),
      (''GAPBOND_PAIRING_STATE_STARTED'', CNum 0x0),
      (''GAPBOND_PAIRING_STATE_COMPLETE'', CNum 0x1)]"

definition r58_c_GAPBOND_PAIRING_STATE_BONDED :: "const_table" where
  "r58_c_GAPBOND_PAIRING_STATE_BONDED =
     [(''GAPBOND_PAIRING_STATE_BONDED'', CNum 0x2),
      (''GAPBOND_PAIRING_STATE_BOND_SAVED'', CNum 0x3),
      (''SMP_PAIRING_FAILED_PASSKEY_ENTRY_FAILED'', CNum 0x1),
      (''SMP_PAIRING_FAILED_OOB_NOT_AVAIL'', CNum 0x2),
      (''SMP_PAIRING_FAILED_AUTH_REQ'', CNum 0x3),
      (''SMP_PAIRING_FAILED_CONFIRM_VALUE'', CNum 0x4),
      (''SMP_PAIRING_FAILED_NOT_SUPPORTED'', CNum 0x5),
      (''SMP_PAIRING_FAILED_ENC_KEY_SIZE'', CNum 0x6),
      (''SMP_PAIRING_FAILED_CMD_NOT_SUPPORTED'', CNum 0x7),
      (''SMP_PAIRING_FAILED_UNSPECIFIED'', CNum 0x8),
      (''SMP_PAIRING_FAILED_REPEATED_ATTEMPTS'', CNum 0x9),
      (''GAPBOND_FAIL_NO_ACTION'', CNum 0x0),
      (''GAPBOND_FAIL_INITIATE_PAIRING'', CNum 0x1),
      (''GAPBOND_FAIL_TERMINATE_LINK'', CNum 0x2),
      (''GAPBOND_FAIL_TERMINATE_ERASE_BONDS'', CNum 0x3),
      (''BLE_NVID_IRK'', CNum 0x2),
      (''BLE_NVID_CSRK'', CNum 0x3),
      (''BLE_NVID_SIGNCOUNTER'', CNum 0x4),
      (''BLE_NVID_BOND_RF_START'', CNum 0x10),
      (''BLE_NVID_GAP_BOND_START'', CNum 0x20),
      (''GAP_BOND_REC_ID_OFFSET'', CNum 0),
      (''GAP_BOND_LOCAL_LTK_OFFSET'', CNum 1),
      (''GAP_BOND_DEV_LTK_OFFSET'', CNum 2),
      (''GAP_BOND_DEV_IRK_OFFSET'', CNum 3),
      (''GAP_BOND_DEV_CSRK_OFFSET'', CNum 4),
      (''GAP_BOND_DEV_SIGN_COUNTER_OFFSET'', CNum 5),
      (''GAP_BOND_REC_IDS'', CNum 6)]"

definition r58_c_BLE_NVID_GATT_CFG_START :: "const_table" where
  "r58_c_BLE_NVID_GATT_CFG_START =
     [(''BLE_NVID_GATT_CFG_START'', CNum 0x70)]"

definition r58_c_BLE_NVID_MAX_VAL :: "const_table" where
  "r58_c_BLE_NVID_MAX_VAL =
     [(''BLE_NVID_MAX_VAL'', CNum 0x7F)]"

definition r58_c_GAPROLE_STATE_ADV_MASK :: "const_table" where
  "r58_c_GAPROLE_STATE_ADV_MASK =
     [(''GAPROLE_STATE_ADV_MASK'', CNum 0xF),
      (''GAPROLE_STATE_ADV_SHIFT'', CNum 0x0),
      (''GAPROLE_INIT'', CNum 0),
      (''GAPROLE_STARTED'', CNum 1),
      (''GAPROLE_ADVERTISING'', CNum 2),
      (''GAPROLE_WAITING'', CNum 3),
      (''GAPROLE_CONNECTED'', CNum 4),
      (''GAPROLE_CONNECTED_ADV'', CNum 5),
      (''GAPROLE_ERROR'', CNum 6)]"

definition r58_c_GAPROLE_STATE_PERIODIC_MASK :: "const_table" where
  "r58_c_GAPROLE_STATE_PERIODIC_MASK =
     [(''GAPROLE_STATE_PERIODIC_MASK'', CNum 0xF0),
      (''GAPROLE_STATE_PERIODIC_SHIFT'', CNum 4),
      (''GAPROLE_PERIODIC_INVALID'', CShl (CNum 0) (CNum 4)),
      (''GAPROLE_PERIODIC_ENABLE'', CShl (CNum 1) (CNum 4)),
      (''GAPROLE_PERIODIC_WAIT'', CShl (CNum 2) (CNum 4)),
      (''GAPROLE_PERIODIC_ERROR'', CShl (CNum 3) (CNum 4))]"

definition r58_c_GAPROLE_PERIODIC_STATE_VALID :: "const_table" where
  "r58_c_GAPROLE_PERIODIC_STATE_VALID =
     [(''GAPROLE_PERIODIC_STATE_VALID'', CShl (CNum 1) (CNum 24))]"

definition r58_c_TX_MODE_TX_FINISH :: "const_table" where
  "r58_c_TX_MODE_TX_FINISH =
     [(''TX_MODE_TX_FINISH'', CNum 0x1),
      (''TX_MODE_TX_FAIL'', CNum 0x11),
      (''TX_MODE_TX_TIMEOUT'', CName ''TX_MODE_TX_FAIL''),
      (''TX_MODE_RX_DATA'', CNum 0x2),
      (''TX_MODE_RX_TIMEOUT'', CNum 0x12),
      (''TX_MODE_HOP_SHUT'', CNum 0x22),
      (''RX_MODE_RX_DATA'', CNum 0x3)]"

definition r58_c_RX_MODE_TX_FINISH :: "const_table" where
  "r58_c_RX_MODE_TX_FINISH =
     [(''RX_MODE_TX_FINISH'', CNum 0x4),
      (''RX_MODE_TX_FAIL'', CNum 0x14),
      (''RX_MODE_TX_TIMEOUT'', CName ''RX_MODE_TX_FAIL''),
      (''RX_MODE_HOP_SHUT'', CNum 0x24),
      (''LLE_MODE_BASIC'', CNum 0),
      (''LLE_MODE_AUTO'', CNum 1),
      (''LLE_WHITENING_ON'', CShl (CNum 0) (CNum 1)),
      (''LLE_WHITENING_OFF'', CShl (CNum 1) (CNum 1)),
      (''LLE_MODE_PHY_MODE_MASK'', CNum 0x30),
      (''LLE_MODE_PHY_1M'', CShl (CNum 0) (CNum 4)),
      (''LLE_MODE_PHY_2M'', CShl (CNum 1) (CNum 4)),
      (''LLE_MODE_PHY_CODED_S8'', CShl (CNum 2) (CNum 4)),
      (''LLE_MODE_PHY_CODED_S2'', CShl (CNum 3) (CNum 4)),
      (''LLE_MODE_EX_CHANNEL'', CShl (CNum 1) (CNum 6)),
      (''LLE_MODE_NON_RSSI'', CShl (CNum 1) (CNum 7))]"

definition r58_c_LIB_FLASH_BASE_ADDRESSS :: "const_table" where
  "r58_c_LIB_FLASH_BASE_ADDRESSS =
     [(''LIB_FLASH_BASE_ADDRESSS'', CNum 0x10000),
      (''LIB_FLASH_MAX_SIZE'', CNum 0x30000),
      (''RAM_BASE_ADDRESSS'', CNum 0x20002800),
      (''UUID_BASE_ADDRESSS'', CAdd (CName ''LIB_FLASH_BASE_ADDRESSS'') (CNum 0x8)),
      (''FUNCITON_BASE_ADDRESSS'', CAdd (CName ''LIB_FLASH_BASE_ADDRESSS'') (CNum 0x34))]"

definition r58_int8 :: "ctype" where
  "r58_int8 =
     Scalar ''int8_t'' 1"

definition r58_int16 :: "ctype" where
  "r58_int16 =
     Scalar ''int16_t'' 2"

definition r58_BOOL :: "ctype" where
  "r58_BOOL =
     Scalar ''uint8_t'' 1"

definition r58_s8 :: "ctype" where
  "r58_s8 =
     Scalar ''int8_t'' 1"

definition r58_s16 :: "ctype" where
  "r58_s16 =
     Scalar ''int16_t'' 2"

definition r58_s32 :: "ctype" where
  "r58_s32 =
     Scalar ''int32_t'' 4"

definition r58_u8 :: "ctype" where
  "r58_u8 =
     Scalar ''uint8_t'' 1"

definition r58_u16 :: "ctype" where
  "r58_u16 =
     Scalar ''uint16_t'' 2"

definition r58_u32 :: "ctype" where
  "r58_u32 =
     Scalar ''uint32_t'' 4"

definition r58_u64 :: "ctype" where
  "r58_u64 =
     Scalar ''uint64_t'' 8"

definition r58_u8C :: "ctype" where
  "r58_u8C =
     Scalar ''const uint8_t'' 1"

definition r58_u8V :: "ctype" where
  "r58_u8V =
     Scalar ''uint8_t volatile'' 1"

definition r58_u32V :: "ctype" where
  "r58_u32V =
     Scalar ''uint32_t volatile'' 4"

definition r58_uint8 :: "ctype" where
  "r58_uint8 =
     Scalar ''uint8_t'' 1"

definition r58_uint16 :: "ctype" where
  "r58_uint16 =
     Scalar ''uint16_t'' 2"

definition r58_uint32 :: "ctype" where
  "r58_uint32 =
     Scalar ''uint32_t'' 4"

definition r58_bStatus_t :: "ctype" where
  "r58_bStatus_t =
     Scalar ''uint8_t'' 1"

definition r58_tmosTaskID :: "ctype" where
  "r58_tmosTaskID =
     Scalar ''uint8_t'' 1"

definition r58_tmosEvents :: "ctype" where
  "r58_tmosEvents =
     Scalar ''uint16_t'' 2"

definition r58_tmosTimer :: "ctype" where
  "r58_tmosTimer =
     Scalar ''uint32_t'' 4"

definition r58_tmosSnvId_t :: "ctype" where
  "r58_tmosSnvId_t =
     Scalar ''uint8_t'' 1"

definition r58_tmosSnvLen_t :: "ctype" where
  "r58_tmosSnvLen_t =
     Scalar ''uint8_t'' 1"

definition r58_pfnSrandCB :: "ctype" where
  "r58_pfnSrandCB =
     Fn_pointer ''uint32_t'' []"

definition r58_pfnIdleCB :: "ctype" where
  "r58_pfnIdleCB =
     Fn_pointer ''uint32_t'' [''uint32_t'']"

definition r58_pfnLSICalibrationCB :: "ctype" where
  "r58_pfnLSICalibrationCB =
     Fn_pointer ''void'' []"

definition r58_pfnTempSampleCB :: "ctype" where
  "r58_pfnTempSampleCB =
     Fn_pointer ''uint16_t'' []"

definition r58_pfnEventCB :: "ctype" where
  "r58_pfnEventCB =
     Fn_pointer ''void'' [''uint32_t'']"

definition r58_pfnLibStatusErrorCB :: "ctype" where
  "r58_pfnLibStatusErrorCB =
     Fn_pointer ''void'' [''uint8_t'', ''uint32_t'']"

definition r58_pTaskEventHandlerFn :: "ctype" where
  "r58_pTaskEventHandlerFn =
     Fn_pointer ''tmosEvents'' [''tmosTaskID'', ''tmosEvents'']"

definition r58_pfnFlashReadCB :: "ctype" where
  "r58_pfnFlashReadCB =
     Fn_pointer ''uint32_t'' [''uint32_t'', ''uint32_t'', ''uint32_t *'']"

definition r58_pfnFlashWriteCB :: "ctype" where
  "r58_pfnFlashWriteCB =
     Fn_pointer ''uint32_t'' [''uint32_t'', ''uint32_t'', ''uint32_t *'']"

definition r58_pfnGetSysClock :: "ctype" where
  "r58_pfnGetSysClock =
     Fn_pointer ''uint32_t'' []"

definition r58_bleConfig_t :: "ctype" where
  "r58_bleConfig_t =
     Struct
      [(''MEMAddr'', Scalar ''uint32_t'' 4),
       (''MEMLen'', Scalar ''uint16_t'' 2),
       (''SNVAddr'', Scalar ''uint32_t'' 4),
       (''SNVBlock'', Scalar ''uint16_t'' 2),
       (''SNVNum'', Scalar ''uint8_t'' 1),
       (''BufNumber'', Scalar ''uint8_t'' 1),
       (''BufMaxLen'', Scalar ''uint16_t'' 2),
       (''TxNumEvent'', Scalar ''uint8_t'' 1),
       (''RxNumEvent'', Scalar ''uint8_t'' 1),
       (''TxPower'', Scalar ''uint8_t'' 1),
       (''WakeUpTime'', Scalar ''uint8_t'' 1),
       (''SelRTCClock'', Scalar ''uint8_t'' 1),
       (''ConnectNumber'', Scalar ''uint8_t'' 1),
       (''WindowWidening'', Scalar ''uint8_t'' 1),
       (''WaitWindow'', Scalar ''uint8_t'' 1),
       (''MacAddr'', Array (Scalar ''uint8_t'' 1) 6),
       (''srandCB'', r58_pfnSrandCB),
       (''sleepCB'', r58_pfnIdleCB),
       (''tsCB'', r58_pfnTempSampleCB),
       (''rcCB'', r58_pfnLSICalibrationCB),
       (''staCB'', r58_pfnLibStatusErrorCB),
       (''readFlashCB'', r58_pfnFlashReadCB),
       (''writeFlashCB'', r58_pfnFlashWriteCB)]"

definition r58_blePaControlConfig_t :: "ctype" where
  "r58_blePaControlConfig_t =
     Struct
      [(''txEnableGPIO'', Scalar ''uint32_t'' 4),
       (''txDisableGPIO'', Scalar ''uint32_t'' 4),
       (''tx_pin'', Scalar ''uint32_t'' 4),
       (''rxEnableGPIO'', Scalar ''uint32_t'' 4),
       (''rxDisableGPIO'', Scalar ''uint32_t'' 4),
       (''rx_pin'', Scalar ''uint32_t'' 4)]"

definition r58_tmos_event_hdr_t :: "ctype" where
  "r58_tmos_event_hdr_t =
     Struct
      [(''event'', Scalar ''uint8_t'' 1),
       (''status'', Scalar ''uint8_t'' 1)]"

definition r58_gapBondLTK_t :: "ctype" where
  "r58_gapBondLTK_t =
     Struct
      [(''LTK'', Array (Scalar ''uint8_t'' 1) 16),
       (''div'', Scalar ''uint16_t'' 2),
       (''rand'', Array (Scalar ''uint8_t'' 1) 8),
       (''keySize'', Scalar ''uint8_t'' 1)]"

definition r58_gapBondRec_t :: "ctype" where
  "r58_gapBondRec_t =
     Struct
      [(''publicAddr'', Array (Scalar ''uint8_t'' 1) 6),
       (''reconnectAddr'', Array (Scalar ''uint8_t'' 1) 6),
       (''stateFlags'', Scalar ''uint16_t'' 2),
       (''bondsToDelete'', Scalar ''uint8_t'' 1)]"

definition r58_gapBondCharCfg_t :: "ctype" where
  "r58_gapBondCharCfg_t =
     Struct
      [(''attrHandle'', Scalar ''uint16_t'' 2),
       (''value'', Scalar ''uint8_t'' 1)]"

definition r58_linkSec_t :: "ctype" where
  "r58_linkSec_t =
     Struct
      [(''srk'', Array (Scalar ''uint8_t'' 1) 16),
       (''signCounter'', Scalar ''uint32_t'' 4)]"

definition r58_encParams_t :: "ctype" where
  "r58_encParams_t =
     Struct
      [(''ltk'', Array (Scalar ''uint8_t'' 1) 16),
       (''div'', Scalar ''uint16_t'' 2),
       (''rand'', Array (Scalar ''uint8_t'' 1) 8),
       (''keySize'', Scalar ''uint8_t'' 1),
       (''gapBondInvalid'', Scalar ''uint8_t'' 1)]"

definition r58_linkDBItem_t :: "ctype" where
  "r58_linkDBItem_t =
     Struct
      [(''taskID'', Scalar ''uint8_t'' 1),
       (''connectionHandle'', Scalar ''uint16_t'' 2),
       (''stateFlags'', Scalar ''uint8_t'' 1),
       (''addrType'', Scalar ''uint8_t'' 1),
       (''addr'', Array (Scalar ''uint8_t'' 1) 6),
       (''connRole'', Scalar ''uint8_t'' 1),
       (''connInterval'', Scalar ''uint16_t'' 2),
       (''connLatency'', Scalar ''uint16_t'' 2),
       (''connTimeout'', Scalar ''uint16_t'' 2),
       (''MTU'', Scalar ''uint16_t'' 2),
       (''sec'', r58_linkSec_t),
       (''pEncParams'', Pointer ''encParams_t''),
       (''smEvtID'', Scalar ''uint16_t'' 2),
       (''pPairingParams'', Pointer ''void''),
       (''pAuthLink'', Pointer ''void'')]"

definition r58_pfnLinkDBCB_t :: "ctype" where
  "r58_pfnLinkDBCB_t =
     Fn_pointer ''void'' [''uint16_t'', ''uint8_t'']"

definition r58_pfnPerformFuncCB_t :: "ctype" where
  "r58_pfnPerformFuncCB_t =
     Fn_pointer ''void'' [''linkDBItem_t *'']"

definition r58_attAttrType_t :: "ctype" where
  "r58_attAttrType_t =
     Struct
      [(''len'', Scalar ''uint8_t'' 1),
       (''uuid'', Array (Scalar ''uint8_t'' 1) 16)]"

definition r58_attAttrBtType_t :: "ctype" where
  "r58_attAttrBtType_t =
     Struct
      [(''len'', Scalar ''uint8_t'' 1),
       (''uuid'', Array (Scalar ''uint8_t'' 1) 2)]"

definition r58_attErrorRsp_t :: "ctype" where
  "r58_attErrorRsp_t =
     Struct
      [(''reqOpcode'', Scalar ''uint8_t'' 1),
       (''handle'', Scalar ''uint16_t'' 2),
       (''errCode'', Scalar ''uint8_t'' 1)]"

definition r58_attExchangeMTUReq_t :: "ctype" where
  "r58_attExchangeMTUReq_t =
     Struct
      [(''clientRxMTU'', Scalar ''uint16_t'' 2)]"

definition r58_attExchangeMTURsp_t :: "ctype" where
  "r58_attExchangeMTURsp_t =
     Struct
      [(''serverRxMTU'', Scalar ''uint16_t'' 2)]"

definition r58_attFindInfoReq_t :: "ctype" where
  "r58_attFindInfoReq_t =
     Struct
      [(''startHandle'', Scalar ''uint16_t'' 2),
       (''endHandle'', Scalar ''uint16_t'' 2)]"

definition r58_attFindInfoRsp_t :: "ctype" where
  "r58_attFindInfoRsp_t =
     Struct
      [(''numInfo'', Scalar ''uint16_t'' 2),
       (''format'', Scalar ''uint8_t'' 1),
       (''pInfo'', Pointer ''uint8_t'')]"

definition r58_attFindByTypeValueReq_t :: "ctype" where
  "r58_attFindByTypeValueReq_t =
     Struct
      [(''startHandle'', Scalar ''uint16_t'' 2),
       (''endHandle'', Scalar ''uint16_t'' 2),
       (''type'', r58_attAttrBtType_t),
       (''len'', Scalar ''uint16_t'' 2),
       (''pValue'', Pointer ''uint8_t'')]"

definition r58_attFindByTypeValueRsp_t :: "ctype" where
  "r58_attFindByTypeValueRsp_t =
     Struct
      [(''numInfo'', Scalar ''uint16_t'' 2),
       (''pHandlesInfo'', Pointer ''uint8_t'')]"

definition r58_attReadByTypeReq_t :: "ctype" where
  "r58_attReadByTypeReq_t =
     Struct
      [(''startHandle'', Scalar ''uint16_t'' 2),
       (''endHandle'', Scalar ''uint16_t'' 2),
       (''type'', r58_attAttrType_t)]"

definition r58_attReadByTypeRsp_t :: "ctype" where
  "r58_attReadByTypeRsp_t =
     Struct
      [(''numPairs'', Scalar ''uint16_t'' 2),
       (''len'', Scalar ''uint16_t'' 2),
       (''pDataList'', Pointer ''uint8_t'')]"

definition r58_attReadReq_t :: "ctype" where
  "r58_attReadReq_t =
     Struct
      [(''handle'', Scalar ''uint16_t'' 2)]"

definition r58_attReadRsp_t :: "ctype" where
  "r58_attReadRsp_t =
     Struct
      [(''len'', Scalar ''uint16_t'' 2),
       (''pValue'', Pointer ''uint8_t'')]"

definition r58_attReadBlobReq_t :: "ctype" where
  "r58_attReadBlobReq_t =
     Struct
      [(''handle'', Scalar ''uint16_t'' 2),
       (''offset'', Scalar ''uint16_t'' 2)]"

definition r58_attReadBlobRsp_t :: "ctype" where
  "r58_attReadBlobRsp_t =
     Struct
      [(''len'', Scalar ''uint16_t'' 2),
       (''pValue'', Pointer ''uint8_t'')]"

definition r58_attReadMultiReq_t :: "ctype" where
  "r58_attReadMultiReq_t =
     Struct
      [(''pHandles'', Pointer ''uint8_t''),
       (''numHandles'', Scalar ''uint16_t'' 2)]"

definition r58_attReadMultiRsp_t :: "ctype" where
  "r58_attReadMultiRsp_t =
     Struct
      [(''len'', Scalar ''uint16_t'' 2),
       (''pValues'', Pointer ''uint8_t'')]"

definition r58_attReadByGrpTypeReq_t :: "ctype" where
  "r58_attReadByGrpTypeReq_t =
     Struct
      [(''startHandle'', Scalar ''uint16_t'' 2),
       (''endHandle'', Scalar ''uint16_t'' 2),
       (''type'', r58_attAttrType_t)]"

definition r58_attReadByGrpTypeRsp_t :: "ctype" where
  "r58_attReadByGrpTypeRsp_t =
     Struct
      [(''numGrps'', Scalar ''uint16_t'' 2),
       (''len'', Scalar ''uint16_t'' 2),
       (''pDataList'', Pointer ''uint8_t'')]"

definition r58_attWriteReq_t :: "ctype" where
  "r58_attWriteReq_t =
     Struct
      [(''handle'', Scalar ''uint16_t'' 2),
       (''len'', Scalar ''uint16_t'' 2),
       (''pValue'', Pointer ''uint8_t''),
       (''sig'', Scalar ''uint8_t'' 1),
       (''cmd'', Scalar ''uint8_t'' 1)]"

definition r58_attPrepareWriteReq_t :: "ctype" where
  "r58_attPrepareWriteReq_t =
     Struct
      [(''handle'', Scalar ''uint16_t'' 2),
       (''offset'', Scalar ''uint16_t'' 2),
       (''len'', Scalar ''uint16_t'' 2),
       (''pValue'', Pointer ''uint8_t'')]"

definition r58_attPrepareWriteRsp_t :: "ctype" where
  "r58_attPrepareWriteRsp_t =
     Struct
      [(''handle'', Scalar ''uint16_t'' 2),
       (''offset'', Scalar ''uint16_t'' 2),
       (''len'', Scalar ''uint16_t'' 2),
       (''pValue'', Pointer ''uint8_t'')]"

definition r58_attExecuteWriteReq_t :: "ctype" where
  "r58_attExecuteWriteReq_t =
     Struct
      [(''flags'', Scalar ''uint8_t'' 1)]"

definition r58_attHandleValueNoti_t :: "ctype" where
  "r58_attHandleValueNoti_t =
     Struct
      [(''handle'', Scalar ''uint16_t'' 2),
       (''len'', Scalar ''uint16_t'' 2),
       (''pValue'', Pointer ''uint8_t'')]"

definition r58_attHandleValueInd_t :: "ctype" where
  "r58_attHandleValueInd_t =
     Struct
      [(''handle'', Scalar ''uint16_t'' 2),
       (''len'', Scalar ''uint16_t'' 2),
       (''pValue'', Pointer ''uint8_t'')]"

definition r58_attFlowCtrlViolatedEvt_t :: "ctype" where
  "r58_attFlowCtrlViolatedEvt_t =
     Struct
      [(''opcode'', Scalar ''uint8_t'' 1),
       (''pendingOpcode'', Scalar ''uint8_t'' 1)]"

definition r58_attMtuUpdatedEvt_t :: "ctype" where
  "r58_attMtuUpdatedEvt_t =
     Struct
      [(''MTU'', Scalar ''uint16_t'' 2)]"

definition r58_attMsg_t :: "ctype" where
  "r58_attMsg_t =
     Union
      [(''exchangeMTUReq'', r58_attExchangeMTUReq_t),
       (''findInfoReq'', r58_attFindInfoReq_t),
       (''findByTypeValueReq'', r58_attFindByTypeValueReq_t),
       (''readByTypeReq'', r58_attReadByTypeReq_t),
       (''readReq'', r58_attReadReq_t),
       (''readBlobReq'', r58_attReadBlobReq_t),
       (''readMultiReq'', r58_attReadMultiReq_t),
       (''readByGrpTypeReq'', r58_attReadByGrpTypeReq_t),
       (''writeReq'', r58_attWriteReq_t),
       (''prepareWriteReq'', r58_attPrepareWriteReq_t),
       (''executeWriteReq'', r58_attExecuteWriteReq_t),
       (''errorRsp'', r58_attErrorRsp_t),
       (''exchangeMTURsp'', r58_attExchangeMTURsp_t),
       (''findInfoRsp'', r58_attFindInfoRsp_t),
       (''findByTypeValueRsp'', r58_attFindByTypeValueRsp_t),
       (''readByTypeRsp'', r58_attReadByTypeRsp_t),
       (''readRsp'', r58_attReadRsp_t),
       (''readBlobRsp'', r58_attReadBlobRsp_t),
       (''readMultiRsp'', r58_attReadMultiRsp_t),
       (''readByGrpTypeRsp'', r58_attReadByGrpTypeRsp_t),
       (''prepareWriteRsp'', r58_attPrepareWriteRsp_t),
       (''handleValueNoti'', r58_attHandleValueNoti_t),
       (''handleValueInd'', r58_attHandleValueInd_t),
       (''flowCtrlEvt'', r58_attFlowCtrlViolatedEvt_t),
       (''mtuEvt'', r58_attMtuUpdatedEvt_t)]"

definition r58_gattFindByTypeValueReq_t :: "ctype" where
  "r58_gattFindByTypeValueReq_t =
     Struct
      [(''startHandle'', Scalar ''uint16_t'' 2),
       (''endHandle'', Scalar ''uint16_t'' 2),
       (''value'', r58_attAttrType_t)]"

definition r58_gattReadByTypeReq_t :: "ctype" where
  "r58_gattReadByTypeReq_t =
     Struct
      [(''discCharsByUUID'', Scalar ''uint8_t'' 1),
       (''req'', r58_attReadByTypeReq_t)]"

definition r58_gattWriteLongReq_t :: "ctype" where
  "r58_gattWriteLongReq_t =
     Struct
      [(''reliable'', Scalar ''uint8_t'' 1),
       (''req'', r58_attPrepareWriteReq_t),
       (''lastOffset'', Scalar ''uint16_t'' 2)]"

definition r58_gattReliableWritesReq_t :: "ctype" where
  "r58_gattReliableWritesReq_t =
     Struct
      [(''reliable'', Scalar ''uint8_t'' 1),
       (''pReqs'', Pointer ''attPrepareWriteReq_t''),
       (''numReqs'', Scalar ''uint8_t'' 1),
       (''index'', Scalar ''uint8_t'' 1),
       (''flags'', Scalar ''uint8_t'' 1)]"

definition r58_gattMsg_t :: "ctype" where
  "r58_gattMsg_t =
     Union
      [(''exchangeMTUReq'', r58_attExchangeMTUReq_t),
       (''findInfoReq'', r58_attFindInfoReq_t),
       (''findByTypeValueReq'', r58_attFindByTypeValueReq_t),
       (''readByTypeReq'', r58_attReadByTypeReq_t),
       (''readReq'', r58_attReadReq_t),
       (''readBlobReq'', r58_attReadBlobReq_t),
       (''readMultiReq'', r58_attReadMultiReq_t),
       (''readByGrpTypeReq'', r58_attReadByGrpTypeReq_t),
       (''writeReq'', r58_attWriteReq_t),
       (''prepareWriteReq'', r58_attPrepareWriteReq_t),
       (''executeWriteReq'', r58_attExecuteWriteReq_t),
       (''gattFindByTypeValueReq'', r58_gattFindByTypeValueReq_t),
       (''gattReadByTypeReq'', r58_gattReadByTypeReq_t),
       (''gattWriteLongReq'', r58_gattWriteLongReq_t),
       (''gattReliableWritesReq'', r58_gattReliableWritesReq_t),
       (''errorRsp'', r58_attErrorRsp_t),
       (''exchangeMTURsp'', r58_attExchangeMTURsp_t),
       (''findInfoRsp'', r58_attFindInfoRsp_t),
       (''findByTypeValueRsp'', r58_attFindByTypeValueRsp_t),
       (''readByTypeRsp'', r58_attReadByTypeRsp_t),
       (''readRsp'', r58_attReadRsp_t),
       (''readBlobRsp'', r58_attReadBlobRsp_t),
       (''readMultiRsp'', r58_attReadMultiRsp_t),
       (''readByGrpTypeRsp'', r58_attReadByGrpTypeRsp_t),
       (''prepareWriteRsp'', r58_attPrepareWriteRsp_t),
       (''handleValueNoti'', r58_attHandleValueNoti_t),
       (''handleValueInd'', r58_attHandleValueInd_t),
       (''flowCtrlEvt'', r58_attFlowCtrlViolatedEvt_t),
       (''mtuEvt'', r58_attMtuUpdatedEvt_t)]"

definition r58_gattMsgEvent_t :: "ctype" where
  "r58_gattMsgEvent_t =
     Struct
      [(''hdr'', r58_tmos_event_hdr_t),
       (''connHandle'', Scalar ''uint16_t'' 2),
       (''method'', Scalar ''uint8_t'' 1),
       (''msg'', r58_gattMsg_t)]"

definition r58_gattAttrType_t :: "ctype" where
  "r58_gattAttrType_t =
     Struct
      [(''len'', Scalar ''uint8_t'' 1),
       (''uuid'', Pointer ''const uint8_t'')]"

definition r58_gattAttribute_t :: "ctype" where
  "r58_gattAttribute_t =
     Struct
      [(''type'', r58_gattAttrType_t),
       (''permissions'', Scalar ''uint8_t'' 1),
       (''handle'', Scalar ''uint16_t'' 2),
       (''pValue'', Pointer ''uint8_t'')]"

definition r58_gattService_t :: "ctype" where
  "r58_gattService_t =
     Struct
      [(''numAttrs'', Scalar ''uint16_t'' 2),
       (''encKeySize'', Scalar ''uint8_t'' 1),
       (''attrs'', Pointer ''gattAttribute_t'')]"

definition r58_pfnGATTReadAttrCB_t :: "ctype" where
  "r58_pfnGATTReadAttrCB_t =
     Fn_pointer ''uint8_t'' [''uint16_t'', ''gattAttribute_t *'', ''uint8_t *'', ''uint16_t *'', ''uint16_t'', ''uint16_t'', ''uint8_t'']"

definition r58_pfnGATTWriteAttrCB_t :: "ctype" where
  "r58_pfnGATTWriteAttrCB_t =
     Fn_pointer ''uint8_t'' [''uint16_t'', ''gattAttribute_t *'', ''uint8_t *'', ''uint16_t'', ''uint16_t'', ''uint8_t'']"

definition r58_pfnGATTAuthorizeAttrCB_t :: "ctype" where
  "r58_pfnGATTAuthorizeAttrCB_t =
     Fn_pointer ''bStatus_t'' [''uint16_t'', ''gattAttribute_t *'', ''uint8_t'']"

definition r58_gattCharCfg_t :: "ctype" where
  "r58_gattCharCfg_t =
     Struct
      [(''connHandle'', Scalar ''uint16_t'' 2),
       (''value'', Scalar ''uint8_t'' 1)]"

definition r58_gattServiceCBs_t :: "ctype" where
  "r58_gattServiceCBs_t =
     Struct
      [(''pfnReadAttrCB'', r58_pfnGATTReadAttrCB_t),
       (''pfnWriteAttrCB'', r58_pfnGATTWriteAttrCB_t),
       (''pfnAuthorizeAttrCB'', r58_pfnGATTAuthorizeAttrCB_t)]"

definition r58_gapEventHdr_t :: "ctype" where
  "r58_gapEventHdr_t =
     Struct
      [(''hdr'', r58_tmos_event_hdr_t),
       (''opcode'', Scalar ''uint8_t'' 1)]"

definition r58_gapDeviceInitDoneEvent_t :: "ctype" where
  "r58_gapDeviceInitDoneEvent_t =
     Struct
      [(''hdr'', r58_tmos_event_hdr_t),
       (''opcode'', Scalar ''uint8_t'' 1),
       (''devAddr'', Array (Scalar ''uint8_t'' 1) 6),
       (''dataPktLen'', Scalar ''uint16_t'' 2),
       (''numDataPkts'', Scalar ''uint8_t'' 1)]"

definition r58_gapSignUpdateEvent_t :: "ctype" where
  "r58_gapSignUpdateEvent_t =
     Struct
      [(''hdr'', r58_tmos_event_hdr_t),
       (''opcode'', Scalar ''uint8_t'' 1),
       (''addrType'', Scalar ''uint8_t'' 1),
       (''devAddr'', Array (Scalar ''uint8_t'' 1) 6),
       (''signCounter'', Scalar ''uint32_t'' 4)]"

definition r58_gapDeviceInfoEvent_t :: "ctype" where
  "r58_gapDeviceInfoEvent_t =
     Struct
      [(''hdr'', r58_tmos_event_hdr_t),
       (''opcode'', Scalar ''uint8_t'' 1),
       (''eventType'', Scalar ''uint8_t'' 1),
       (''addrType'', Scalar ''uint8_t'' 1),
       (''addr'', Array (Scalar ''uint8_t'' 1) 6),
       (''rssi'', Scalar ''int8_t'' 1),
       (''dataLen'', Scalar ''uint8_t'' 1),
       (''pEvtData'', Pointer ''uint8_t'')]"

definition r58_gapDirectDeviceInfoEvent_t :: "ctype" where
  "r58_gapDirectDeviceInfoEvent_t =
     Struct
      [(''hdr'', r58_tmos_event_hdr_t),
       (''opcode'', Scalar ''uint8_t'' 1),
       (''eventType'', Scalar ''uint8_t'' 1),
       (''addrType'', Scalar ''uint8_t'' 1),
       (''addr'', Array (Scalar ''uint8_t'' 1) 6),
       (''directAddrType'', Scalar ''uint8_t'' 1),
       (''directAddr'', Array (Scalar ''uint8_t'' 1) 6),
       (''rssi'', Scalar ''int8_t'' 1)]"

definition r58_gapExtAdvDeviceInfoEvent_t :: "ctype" where
  "r58_gapExtAdvDeviceInfoEvent_t =
     Struct
      [(''hdr'', r58_tmos_event_hdr_t),
       (''opcode'', Scalar ''uint8_t'' 1),
       (''eventType'', Scalar ''uint8_t'' 1),
       (''addrType'', Scalar ''uint8_t'' 1),
       (''addr'', Array (Scalar ''uint8_t'' 1) 6),
       (''primaryPHY'', Scalar ''uint8_t'' 1),
       (''secondaryPHY'', Scalar ''uint8_t'' 1),
       (''advertisingSID'', Scalar ''uint8_t'' 1),
       (''txPower'', Scalar ''uint8_t'' 1),
       (''rssi'', Scalar ''int8_t'' 1),
       (''periodicAdvInterval'', Scalar ''uint16_t'' 2),
       (''directAddressType'', Scalar ''uint8_t'' 1),
       (''directAddress'', Array (Scalar ''uint8_t'' 1) 6),
       (''dataLen'', Scalar ''uint8_t'' 1),
       (''pEvtData'', Pointer ''uint8_t'')]"

definition r58_gapDevDiscReq_t :: "ctype" where
  "r58_gapDevDiscReq_t =
     Struct
      [(''taskID'', Scalar ''uint8_t'' 1),
       (''mode'', Scalar ''uint8_t'' 1),
       (''activeScan'', Scalar ''uint8_t'' 1),
       (''whiteList'', Scalar ''uint8_t'' 1)]"

definition r58_gapDevRec_t :: "ctype" where
  "r58_gapDevRec_t =
     Struct
      [(''eventType'', Scalar ''uint8_t'' 1),
       (''addrType'', Scalar ''uint8_t'' 1),
       (''addr'', Array (Scalar ''uint8_t'' 1) 6)]"

definition r58_gapDevDiscEvent_t :: "ctype" where
  "r58_gapDevDiscEvent_t =
     Struct
      [(''hdr'', r58_tmos_event_hdr_t),
       (''opcode'', Scalar ''uint8_t'' 1),
       (''numDevs'', Scalar ''uint8_t'' 1),
       (''pDevList'', Pointer ''gapDevRec_t'')]"

definition r58_gapMakeDiscoverableRspEvent_t :: "ctype" where
  "r58_gapMakeDiscoverableRspEvent_t =
     Struct
      [(''hdr'', r58_tmos_event_hdr_t),
       (''opcode'', Scalar ''uint8_t'' 1)]"

definition r58_gapEndDiscoverableRspEvent_t :: "ctype" where
  "r58_gapEndDiscoverableRspEvent_t =
     Struct
      [(''hdr'', r58_tmos_event_hdr_t),
       (''opcode'', Scalar ''uint8_t'' 1)]"

definition r58_gapMakePeriodicRspEvent_t :: "ctype" where
  "r58_gapMakePeriodicRspEvent_t =
     Struct
      [(''hdr'', r58_tmos_event_hdr_t),
       (''opcode'', Scalar ''uint8_t'' 1)]"

definition r58_gapEndPeriodicRspEvent_t :: "ctype" where
  "r58_gapEndPeriodicRspEvent_t =
     Struct
      [(''hdr'', r58_tmos_event_hdr_t),
       (''opcode'', Scalar ''uint8_t'' 1)]"

definition r58_gapSyncEstablishedEvent_t :: "ctype" where
  "r58_gapSyncEstablishedEvent_t =
     Struct
      [(''hdr'', r58_tmos_event_hdr_t),
       (''opcode'', Scalar ''uint8_t'' 1),
       (''status'', Scalar ''uint8_t'' 1),
       (''syncHandle'', Scalar ''uint16_t'' 2),
       (''advertisingSID'', Scalar ''uint8_t'' 1),
       (''devAddrType'', Scalar ''uint8_t'' 1),
       (''devAddr'', Array (Scalar ''uint8_t'' 1) 6),
       (''advertisingPHY'', Scalar ''uint8_t'' 1),
       (''periodicInterval'', Scalar ''uint16_t'' 2),
       (''clockAccuracy'', Scalar ''uint8_t'' 1)]"

definition r58_gapPeriodicAdvDeviceInfoEvent_t :: "ctype" where
  "r58_gapPeriodicAdvDeviceInfoEvent_t =
     Struct
      [(''hdr'', r58_tmos_event_hdr_t),
       (''opcode'', Scalar ''uint8_t'' 1),
       (''syncHandle'', Scalar ''uint16_t'' 2),
       (''txPower'', Scalar ''int8_t'' 1),
       (''rssi'', Scalar ''int8_t'' 1),
       (''unUsed'', Scalar ''uint8_t'' 1),
       (''dataStatus'', Scalar ''uint8_t'' 1),
       (''dataLength'', Scalar ''uint8_t'' 1),
       (''pEvtData'', Pointer ''uint8_t'')]"

definition r58_gapSyncLostEvent_t :: "ctype" where
  "r58_gapSyncLostEvent_t =
     Struct
      [(''hdr'', r58_tmos_event_hdr_t),
       (''opcode'', Scalar ''uint8_t'' 1),
       (''syncHandle'', Scalar ''uint16_t'' 2)]"

definition r58_gapScanReqReseiveEvent_t :: "ctype" where
  "r58_gapScanReqReseiveEvent_t =
     Struct
      [(''hdr'', r58_tmos_event_hdr_t),
       (''opcode'', Scalar ''uint8_t'' 1),
       (''advHandle'', Scalar ''uint8_t'' 1),
       (''scannerAddrType'', Scalar ''uint8_t'' 1),
       (''scannerAddr'', Array (Scalar ''uint8_t'' 1) 6)]"

definition r58_gapAdvDataUpdateEvent_t :: "ctype" where
  "r58_gapAdvDataUpdateEvent_t =
     Struct
      [(''hdr'', r58_tmos_event_hdr_t),
       (''opcode'', Scalar ''uint8_t'' 1),
       (''adType'', Scalar ''uint8_t'' 1)]"

definition r58_gapEstLinkReqEvent_t :: "ctype" where
  "r58_gapEstLinkReqEvent_t =
     Struct
      [(''hdr'', r58_tmos_event_hdr_t),
       (''opcode'', Scalar ''uint8_t'' 1),
       (''devAddrType'', Scalar ''uint8_t'' 1),
       (''devAddr'', Array (Scalar ''uint8_t'' 1) 6),
       (''connectionHandle'', Scalar ''uint16_t'' 2),
       (''connRole'', Scalar ''uint8_t'' 1),
       (''connInterval'', Scalar ''uint16_t'' 2),
       (''connLatency'', Scalar ''uint16_t'' 2),
       (''connTimeout'', Scalar ''uint16_t'' 2),
       (''clockAccuracy'', Scalar ''uint8_t'' 1)]"

definition r58_gapLinkUpdateEvent_t :: "ctype" where
  "r58_gapLinkUpdateEvent_t =
     Struct
      [(''hdr'', r58_tmos_event_hdr_t),
       (''opcode'', Scalar ''uint8_t'' 1),
       (''status'', Scalar ''uint8_t'' 1),
       (''connectionHandle'', Scalar ''uint16_t'' 2),
       (''connInterval'', Scalar ''uint16_t'' 2),
       (''connLatency'', Scalar ''uint16_t'' 2),
       (''connTimeout'', Scalar ''uint16_t'' 2)]"

definition r58_gapTerminateLinkEvent_t :: "ctype" where
  "r58_gapTerminateLinkEvent_t =
     Struct
      [(''hdr'', r58_tmos_event_hdr_t),
       (''opcode'', Scalar ''uint8_t'' 1),
       (''connectionHandle'', Scalar ''uint16_t'' 2),
       (''reason'', Scalar ''uint8_t'' 1),
       (''connRole'', Scalar ''uint8_t'' 1)]"

definition r58_gapPhyUpdateEvent_t :: "ctype" where
  "r58_gapPhyUpdateEvent_t =
     Struct
      [(''hdr'', r58_tmos_event_hdr_t),
       (''opcode'', Scalar ''uint8_t'' 1),
       (''status'', Scalar ''uint8_t'' 1),
       (''connectionHandle'', Scalar ''uint16_t'' 2),
       (''connTxPHYS'', Scalar ''uint8_t'' 1),
       (''connRxPHYS'', Scalar ''uint8_t'' 1)]"

definition r58_gapPasskeyNeededEvent_t :: "ctype" where
  "r58_gapPasskeyNeededEvent_t =
     Struct
      [(''hdr'', r58_tmos_event_hdr_t),
       (''opcode'', Scalar ''uint8_t'' 1),
       (''deviceAddr'', Array (Scalar ''uint8_t'' 1) 6),
       (''connectionHandle'', Scalar ''uint16_t'' 2),
       (''uiInputs'', Scalar ''uint8_t'' 1),
       (''uiOutputs'', Scalar ''uint8_t'' 1)]"

definition r58_pfnPasscodeCB_t :: "ctype" where
  "r58_pfnPasscodeCB_t =
     Fn_pointer ''void'' [''uint8_t *'', ''uint16_t'', ''uint8_t'', ''uint8_t'']"

definition r58_pfnPairStateCB_t :: "ctype" where
  "r58_pfnPairStateCB_t =
     Fn_pointer ''void'' [''uint16_t'', ''uint8_t'', ''uint8_t'']"

definition r58_gapBondCBs_t :: "ctype" where
  "r58_gapBondCBs_t =
     Struct
      [(''passcodeCB'', r58_pfnPasscodeCB_t),
       (''pairStateCB'', r58_pfnPairStateCB_t)]"

definition r58_gapRole_States_t :: "ctype" where
  "r58_gapRole_States_t =
     Scalar ''unsigned long'' 4"

definition r58_gapRoleEvent_t :: "ctype" where
  "r58_gapRoleEvent_t =
     Union
      [(''gap'', r58_gapEventHdr_t),
       (''initDone'', r58_gapDeviceInitDoneEvent_t),
       (''deviceInfo'', r58_gapDeviceInfoEvent_t),
       (''deviceDirectInfo'', r58_gapDirectDeviceInfoEvent_t),
       (''devicePeriodicInfo'', r58_gapPeriodicAdvDeviceInfoEvent_t),
       (''deviceExtAdvInfo'', r58_gapExtAdvDeviceInfoEvent_t),
       (''discCmpl'', r58_gapDevDiscEvent_t),
       (''syncEstEvt'', r58_gapSyncEstablishedEvent_t),
       (''syncLostEvt'', r58_gapSyncLostEvent_t),
       (''scanReqEvt'', r58_gapScanReqReseiveEvent_t),
       (''linkCmpl'', r58_gapEstLinkReqEvent_t),
       (''linkUpdate'', r58_gapLinkUpdateEvent_t),
       (''linkTerminate'', r58_gapTerminateLinkEvent_t),
       (''linkPhyUpdate'', r58_gapPhyUpdateEvent_t)]"

definition r58_gapScanRec_t :: "ctype" where
  "r58_gapScanRec_t =
     Struct
      [(''eventType'', Scalar ''uint8_t'' 1),
       (''addrType'', Scalar ''uint8_t'' 1),
       (''addr'', Array (Scalar ''uint8_t'' 1) 6),
       (''rssi'', Scalar ''int8_t'' 1)]"

definition r58_gapCreateSync_t :: "ctype" where
  "r58_gapCreateSync_t =
     Struct
      [(''options'', Scalar ''uint8_t'' 1),
       (''advertising_SID'', Scalar ''uint8_t'' 1),
       (''addrType'', Scalar ''uint8_t'' 1),
       (''addr'', Array (Scalar ''uint8_t'' 1) 6),
       (''skip'', Scalar ''uint16_t'' 2),
       (''syncTimeout'', Scalar ''uint16_t'' 2),
       (''syncCTEType'', Scalar ''uint8_t'' 1)]"

definition r58_gapRoleSetPathLossReporting_t :: "ctype" where
  "r58_gapRoleSetPathLossReporting_t =
     Struct
      [(''connHandle'', Scalar ''uint16_t'' 2),
       (''highThreshold'', Scalar ''int8_t'' 1),
       (''highHysteresis'', Scalar ''int8_t'' 1),
       (''lowThreshold'', Scalar ''int8_t'' 1),
       (''lowHysteresis'', Scalar ''int8_t'' 1),
       (''minTimeSpent'', Scalar ''uint16_t'' 2),
       (''enable'', Scalar ''uint8_t'' 1)]"

definition r58_gapRolePowerlevelManagement_t :: "ctype" where
  "r58_gapRolePowerlevelManagement_t =
     Struct
      [(''connHandle'', Scalar ''uint16_t'' 2),
       (''lowRxThreshold'', Scalar ''int8_t'' 1),
       (''highRxThreshold'', Scalar ''int8_t'' 1),
       (''minTxPower'', Scalar ''int8_t'' 1),
       (''maxTxPower'', Scalar ''int8_t'' 1)]"

definition r58_gapRolesBroadcasterStateNotify_t :: "ctype" where
  "r58_gapRolesBroadcasterStateNotify_t =
     Fn_pointer ''void'' [''gapRole_States_t'']"

definition r58_gapRolesScanReqRecv_t :: "ctype" where
  "r58_gapRolesScanReqRecv_t =
     Fn_pointer ''void'' [''gapScanRec_t *'']"

definition r58_gapRolesBroadcasterCBs_t :: "ctype" where
  "r58_gapRolesBroadcasterCBs_t =
     Struct
      [(''pfnStateChange'', r58_gapRolesBroadcasterStateNotify_t),
       (''pfnScanRecv'', r58_gapRolesScanReqRecv_t)]"

definition r58_pfnGapObserverRoleEventCB_t :: "ctype" where
  "r58_pfnGapObserverRoleEventCB_t =
     Fn_pointer ''void'' [''gapRoleEvent_t *'']"

definition r58_gapRoleObserverCB_t :: "ctype" where
  "r58_gapRoleObserverCB_t =
     Struct
      [(''eventCB'', r58_pfnGapObserverRoleEventCB_t)]"

definition r58_gapRolesRssiRead_t :: "ctype" where
  "r58_gapRolesRssiRead_t =
     Fn_pointer ''void'' [''uint16_t'', ''int8_t'']"

definition r58_gapRolesStateNotify_t :: "ctype" where
  "r58_gapRolesStateNotify_t =
     Fn_pointer ''void'' [''gapRole_States_t'', ''gapRoleEvent_t *'']"

definition r58_gapRolesParamUpdateCB_t :: "ctype" where
  "r58_gapRolesParamUpdateCB_t =
     Fn_pointer ''void'' [''uint16_t'', ''uint16_t'', ''uint16_t'', ''uint16_t'']"

definition r58_gapRolesCBs_t :: "ctype" where
  "r58_gapRolesCBs_t =
     Struct
      [(''pfnStateChange'', r58_gapRolesStateNotify_t),
       (''pfnRssiRead'', r58_gapRolesRssiRead_t),
       (''pfnParamUpdate'', r58_gapRolesParamUpdateCB_t)]"

definition r58_pfnGapCentralRoleEventCB_t :: "ctype" where
  "r58_pfnGapCentralRoleEventCB_t =
     Fn_pointer ''void'' [''gapRoleEvent_t *'']"

definition r58_pfnHciDataLenChangeEvCB_t :: "ctype" where
  "r58_pfnHciDataLenChangeEvCB_t =
     Fn_pointer ''void'' [''uint16_t'', ''uint16_t'', ''uint16_t'']"

definition r58_gapCentralRoleCB_t :: "ctype" where
  "r58_gapCentralRoleCB_t =
     Struct
      [(''rssiCB'', r58_gapRolesRssiRead_t),
       (''eventCB'', r58_pfnGapCentralRoleEventCB_t),
       (''ChangCB'', r58_pfnHciDataLenChangeEvCB_t)]"

definition r58_pfnRFStatusCB_t :: "ctype" where
  "r58_pfnRFStatusCB_t =
     Fn_pointer ''void'' [''uint8_t'', ''uint8_t'', ''uint8_t *'']"

definition r58_rfConfig_t :: "ctype" where
  "r58_rfConfig_t =
     Struct
      [(''LLEMode'', Scalar ''uint8_t'' 1),
       (''Channel'', Scalar ''uint8_t'' 1),
       (''Frequency'', Scalar ''uint32_t'' 4),
       (''accessAddress'', Scalar ''uint32_t'' 4),
       (''CRCInit'', Scalar ''uint32_t'' 4),
       (''rfStatusCB'', r58_pfnRFStatusCB_t),
       (''ChannelMap'', Scalar ''uint32_t'' 4),
       (''Resv'', Scalar ''uint8_t'' 1),
       (''HeartPeriod'', Scalar ''uint8_t'' 1),
       (''HopPeriod'', Scalar ''uint8_t'' 1),
       (''HopIndex'', Scalar ''uint8_t'' 1),
       (''RxMaxlen'', Scalar ''uint8_t'' 1),
       (''TxMaxlen'', Scalar ''uint8_t'' 1)]"

definition r58_f_tmos_rand :: "(proto \<times> slot) list" where
  "r58_f_tmos_rand =
     [((''tmos_rand'', ''uint32_t'', []), Flash 1),
      ((''tmos_memcmp'', ''BOOL'', [''const void *'', ''const void *'', ''uint32_t'']), Flash 2),
      ((''tmos_isbufset'', ''BOOL'', [''uint8_t *'', ''uint8_t'', ''uint32_t'']), Flash 3),
      ((''tmos_strlen'', ''uint32_t'', [''char *'']), Flash 4),
      ((''tmos_memset'', ''void'', [''void *'', ''uint8_t'', ''uint32_t'']), Flash 5),
      ((''tmos_memcpy'', ''void'', [''void *'', ''const void *'', ''uint32_t'']), Flash 6),
      ((''tmos_set_event'', ''bStatus_t'', [''tmosTaskID'', ''tmosEvents'']), Flash 7),
      ((''tmos_clear_event'', ''bStatus_t'', [''tmosTaskID'', ''tmosEvents'']), Flash 8),
      ((''tmos_start_task'', ''BOOL'', [''tmosTaskID'', ''tmosEvents'', ''tmosTimer'']), Flash 9),
      ((''tmos_start_reload_task'', ''bStatus_t'', [''tmosTaskID'', ''tmosEvents'', ''tmosTimer'']), Flash 126),
      ((''tmos_stop_task'', ''bStatus_t'', [''tmosTaskID'', ''tmosEvents'']), Flash 10),
      ((''tmos_get_task_timer'', ''tmosTimer'', [''tmosTaskID'', ''tmosEvents'']), Flash 11),
      ((''tmos_msg_send'', ''bStatus_t'', [''tmosTaskID'', ''uint8_t *'']), Flash 12),
      ((''tmos_msg_deallocate'', ''bStatus_t'', [''uint8_t *'']), Flash 13),
      ((''tmos_msg_receive'', ''uint8_t *'', [''tmosTaskID'']), Flash 14),
      ((''tmos_msg_allocate'', ''uint8_t *'', [''uint16_t'']), Flash 15)]"

definition r58_f_tmos_snv_read :: "(proto \<times> slot) list" where
  "r58_f_tmos_snv_read =
     [((''tmos_snv_read'', ''bStatus_t'', [''tmosSnvId_t'', ''tmosSnvLen_t'', ''void *'']), Flash 107),
      ((''TMOS_TimerInit'', ''bStatus_t'', [''pfnGetSysClock'']), Flash 16),
      ((''TMOS_TimerIRQHandler'', ''void'', []), Flash 120),
      ((''TMOS_SystemProcess'', ''void'', []), Flash 17),
      ((''TMOS_GetSystemClock'', ''uint32_t'', []), Flash 18),
      ((''TMOS_ProcessEventRegister'', ''tmosTaskID'', [''pTaskEventHandlerFn'']), Flash 19),
      ((''LL_AddWhiteListDevice'', ''bStatus_t'', [''uint8_t'', ''uint8_t *'']), Flash 20),
      ((''LL_RemoveWhiteListDevice'', ''bStatus_t'', [''uint8_t'', ''uint8_t *'']), Flash 21),
      ((''LL_ClearWhiteList'', ''bStatus_t'', []), Flash 22),
      ((''LL_Encrypt'', ''bStatus_t'', [''uint8_t *'', ''uint8_t *'', ''uint8_t *'']), Flash 23),
      ((''LL_Decrypt'', ''bStatus_t'', [''uint8_t *'', ''uint8_t *'', ''uint8_t *'']), Flash 24),
      ((''LL_GetNumberOfUnAckPacket'', ''uint32_t'', [''uint16_t'']), Flash 25),
      ((''LL_ConnectEventRegister'', ''void'', [''pfnEventCB'']), Flash 26),
      ((''LL_AdvertiseEventRegister'', ''void'', [''pfnEventCB'']), Flash 135),
      ((''LL_SetTxPowerLevel'', ''bStatus_t'', [''uint8_t'']), Flash 27),
      ((''BLE_ReadRssi'', ''int8_t'', []), Flash 108)]"

definition r58_f_BLE_ReadCfo :: "(proto \<times> slot) list" where
  "r58_f_BLE_ReadCfo =
     [((''BLE_ReadCfo'', ''int16_t'', []), Flash 121),
      ((''BLE_PAControlInit'', ''void'', [''blePaControlConfig_t *'']), Flash 109),
      ((''BLE_RegInit'', ''void'', []), Flash 110),
      ((''BLE_LibInit'', ''bStatus_t'', [''bleConfig_t *'']), Flash 28),
      ((''BLE_AccessAddressGenerate'', ''void'', []), Flash 29),
      ((''linkDB_Register'', ''uint8_t'', [''pfnLinkDBCB_t'']), Flash 30),
      ((''linkDB_State'', ''uint8_t'', [''uint16_t'', ''uint8_t'']), Flash 31),
      ((''linkDB_PerformFunc'', ''void'', [''pfnPerformFuncCB_t'']), Flash 32),
      ((''ATT_GetMTU'', ''uint16_t'', [''uint16_t'']), Flash 33),
      ((''ATT_HandleValueCfm'', ''bStatus_t'', [''uint16_t'']), Flash 34),
      ((''ATT_CompareUUID'', ''uint8_t'', [''const uint8_t *'', ''uint16_t'', ''const uint8_t *'', ''uint16_t'']), Flash 35),
      ((''GATT_InitClient'', ''bStatus_t'', []), Flash 36),
      ((''GATT_RegisterForInd'', ''void'', [''uint8_t'']), Flash 37),
      ((''GATT_FindHandle'', ''gattAttribute_t *'', [''uint16_t'', ''uint16_t *'']), Flash 38)]"

definition r58_f_GATT_Indication :: "(proto \<times> slot) list" where
  "r58_f_GATT_Indication =
     [((''GATT_Indication'', ''bStatus_t'', [''uint16_t'', ''attHandleValueInd_t *'', ''uint8_t'', ''uint8_t'']), Flash 39),
      ((''GATT_Notification'', ''bStatus_t'', [''uint16_t'', ''attHandleValueNoti_t *'', ''uint8_t'']), Flash 40),
      ((''GATT_ExchangeMTU'', ''bStatus_t'', [''uint16_t'', ''attExchangeMTUReq_t *'', ''uint8_t'']), Flash 41),
      ((''GATT_DiscAllPrimaryServices'', ''bStatus_t'', [''uint16_t'', ''uint8_t'']), Flash 42),
      ((''GATT_DiscPrimaryServiceByUUID'', ''bStatus_t'', [''uint16_t'', ''uint8_t *'', ''uint8_t'', ''uint8_t'']), Flash 43)]"

definition r58_f_GATT_FindIncludedServices :: "(proto \<times> slot) list" where
  "r58_f_GATT_FindIncludedServices =
     [((''GATT_FindIncludedServices'', ''bStatus_t'', [''uint16_t'', ''uint16_t'', ''uint16_t'', ''uint8_t'']), Flash 44),
      ((''GATT_DiscAllChars'', ''bStatus_t'', [''uint16_t'', ''uint16_t'', ''uint16_t'', ''uint8_t'']), Flash 45),
      ((''GATT_DiscCharsByUUID'', ''bStatus_t'', [''uint16_t'', ''attReadByTypeReq_t *'', ''uint8_t'']), Flash 46),
      ((''GATT_DiscAllCharDescs'', ''bStatus_t'', [''uint16_t'', ''uint16_t'', ''uint16_t'', ''uint8_t'']), Flash 47),
      ((''GATT_ReadCharValue'', ''bStatus_t'', [''uint16_t'', ''attReadReq_t *'', ''uint8_t'']), Flash 48)]"

definition r58_f_GATT_ReadUsingCharUUID :: "(proto \<times> slot) list" where
  "r58_f_GATT_ReadUsingCharUUID =
     [((''GATT_ReadUsingCharUUID'', ''bStatus_t'', [''uint16_t'', ''attReadByTypeReq_t *'', ''uint8_t'']), Flash 49),
      ((''GATT_ReadLongCharValue'', ''bStatus_t'', [''uint16_t'', ''attReadBlobReq_t *'', ''uint8_t'']), Flash 50),
      ((''GATT_ReadMultiCharValues'', ''bStatus_t'', [''uint16_t'', ''attReadMultiReq_t *'', ''uint8_t'']), Flash 51),
      ((''GATT_WriteNoRsp'', ''bStatus_t'', [''uint16_t'', ''attWriteReq_t *'']), Flash 52),
      ((''GATT_SignedWriteNoRsp'', ''bStatus_t'', [''uint16_t'', ''attWriteReq_t *'']), Flash 53)]"

definition r58_f_GATT_WriteCharValue :: "(proto \<times> slot) list" where
  "r58_f_GATT_WriteCharValue =
     [((''GATT_WriteCharValue'', ''bStatus_t'', [''uint16_t'', ''attWriteReq_t *'', ''uint8_t'']), Flash 54),
      ((''GATT_WriteLongCharValue'', ''bStatus_t'', [''uint16_t'', ''attPrepareWriteReq_t *'', ''uint8_t'']), Flash 55),
      ((''GATT_ReliableWrites'', ''bStatus_t'', [''uint16_t'', ''attPrepareWriteReq_t *'', ''uint8_t'', ''uint8_t'', ''uint8_t'']), Flash 56),
      ((''GATT_ReadCharDesc'', ''bStatus_t'', [''uint16_t'', ''attReadReq_t *'', ''uint8_t'']), Flash 57)]"

definition r58_f_GATT_ReadLongCharDesc :: "(proto \<times> slot) list" where
  "r58_f_GATT_ReadLongCharDesc =
     [((''GATT_ReadLongCharDesc'', ''bStatus_t'', [''uint16_t'', ''attReadBlobReq_t *'', ''uint8_t'']), Flash 58),
      ((''GATT_WriteCharDesc'', ''bStatus_t'', [''uint16_t'', ''attWriteReq_t *'', ''uint8_t'']), Flash 59),
      ((''GATT_WriteLongCharDesc'', ''bStatus_t'', [''uint16_t'', ''attPrepareWriteReq_t *'', ''uint8_t'']), Flash 60),
      ((''GATT_bm_alloc'', ''void *'', [''uint16_t'', ''uint8_t'', ''uint16_t'', ''uint16_t *'', ''uint8_t'']), Flash 61),
      ((''GATT_bm_free'', ''void'', [''gattMsg_t *'', ''uint8_t'']), Flash 62),
      ((''GATTServApp_RegisterService'', ''bStatus_t'', [''gattAttribute_t *'', ''uint16_t'', ''uint8_t'', ''gattServiceCBs_t *'']), Flash 63),
      ((''GATTServApp_AddService'', ''bStatus_t'', [''uint32_t'']), Flash 64),
      ((''GATTServApp_DeregisterService'', ''bStatus_t'', [''uint16_t'', ''gattAttribute_t **'']), Flash 114)]"

definition r58_f_GATTServApp_InitCharCfg :: "(proto \<times> slot) list" where
  "r58_f_GATTServApp_InitCharCfg =
     [((''GATTServApp_InitCharCfg'', ''void'', [''uint16_t'', ''gattCharCfg_t *'']), Flash 65),
      ((''GATTServApp_SendServiceChangedInd'', ''bStatus_t'', [''uint16_t'', ''tmosTaskID'']), Flash 127),
      ((''GATTServApp_ReadCharCfg'', ''uint16_t'', [''uint16_t'', ''gattCharCfg_t *'']), Flash 66),
      ((''GATTServApp_WriteCharCfg'', ''uint8_t'', [''uint16_t'', ''gattCharCfg_t *'', ''uint16_t'']), Flash 67),
      ((''GATTServApp_ProcessCCCWriteReq'', ''bStatus_t'', [''uint16_t'', ''gattAttribute_t *'', ''uint8_t *'', ''uint16_t'', ''uint16_t'', ''uint16_t'']), Flash 68),
      ((''GGS_SetParameter'', ''bStatus_t'', [''uint8_t'', ''uint8_t'', ''void *'']), Flash 69),
      ((''GGS_GetParameter'', ''bStatus_t'', [''uint8_t'', ''void *'']), Flash 70),
      ((''GGS_AddService'', ''bStatus_t'', [''uint32_t'']), Flash 71),
      ((''GAP_SetParamValue'', ''bStatus_t'', [''uint16_t'', ''uint16_t'']), Flash 72),
      ((''GAP_GetParamValue'', ''uint16_t'', [''uint16_t'']), Flash 73),
      ((''GAP_ConfigDeviceAddr'', ''bStatus_t'', [''uint8_t'', ''uint8_t *'']), Flash 74)]"

definition r58_f_GAP_ResolvePrivateAddr :: "(proto \<times> slot) list" where
  "r58_f_GAP_ResolvePrivateAddr =
     [((''GAP_ResolvePrivateAddr'', ''bStatus_t'', [''uint8_t *'', ''uint8_t *'']), Flash 75),
      ((''GAP_UpdateAdvertisingData'', ''bStatus_t'', [''uint8_t'', ''uint8_t'', ''uint16_t'', ''uint8_t *'']), Flash 76),
      ((''GAPBondMgr_SetParameter'', ''bStatus_t'', [''uint16_t'', ''uint8_t'', ''void *'']), Flash 77),
      ((''GAPBondMgr_GetParameter'', ''bStatus_t'', [''uint16_t'', ''void *'']), Flash 78),
      ((''GAPBondMgr_PasscodeRsp'', ''bStatus_t'', [''uint16_t'', ''uint8_t'', ''uint32_t'']), Flash 79),
      ((''GAPBondMgr_PeriSecurityReq'', ''bStatus_t'', [''uint16_t'']), Flash 132),
      ((''GAPRole_SetParameter'', ''bStatus_t'', [''uint16_t'', ''uint16_t'', ''void *'']), Flash 80),
      ((''GAPRole_GetParameter'', ''bStatus_t'', [''uint16_t'', ''void *'']), Flash 81),
      ((''GAPRole_TerminateLink'', ''bStatus_t'', [''uint16_t'']), Flash 82),
      ((''GAPRole_ReadRssiCmd'', ''bStatus_t'', [''uint16_t'']), Flash 83),
      ((''GAPRole_CreateSync'', ''bStatus_t'', [''gapCreateSync_t *'']), Flash 123),
      ((''GAPRole_CancelSync'', ''bStatus_t'', []), Flash 124)]"

definition r58_f_GAPRole_TerminateSync :: "(proto \<times> slot) list" where
  "r58_f_GAPRole_TerminateSync =
     [((''GAPRole_TerminateSync'', ''bStatus_t'', [''uint16_t'']), Flash 125),
      ((''GAPRole_UpdateLink'', ''bStatus_t'', [''uint16_t'', ''uint16_t'', ''uint16_t'', ''uint16_t'', ''uint16_t'']), Flash 84),
      ((''GAPRole_UpdatePHY'', ''bStatus_t'', [''uint16_t'', ''uint8_t'', ''uint8_t'', ''uint8_t'', ''uint16_t'']), Flash 122),
      ((''GAPRole_SetPrivacyMode'', ''bStatus_t'', [''uint8_t'', ''uint8_t *'', ''uint8_t'']), Flash 133),
      ((''GAPRole_SetPathLossReporting'', ''bStatus_t'', [''gapRoleSetPathLossReporting_t *'']), Flash 134),
      ((''GAPRole_SetPowerlevel'', ''bStatus_t'', [''gapRolePowerlevelManagement_t *'']), Flash 136),
      ((''GAPRole_BroadcasterInit'', ''bStatus_t'', []), Flash 85),
      ((''GAPRole_BroadcasterStartDevice'', ''bStatus_t'', [''gapRolesBroadcasterCBs_t *'']), Flash 86),
      ((''GAPRole_BroadcasterSetCB'', ''void'', [''gapRolesBroadcasterCBs_t *'']), Flash 106),
      ((''GAPRole_ObserverInit'', ''bStatus_t'', []), Flash 87),
      ((''GAPRole_ObserverStartDevice'', ''bStatus_t'', [''gapRoleObserverCB_t *'']), Flash 88),
      ((''GAPRole_ObserverStartDiscovery'', ''bStatus_t'', [''uint8_t'', ''uint8_t'', ''uint8_t'']), Flash 89),
      ((''GAPRole_ObserverCancelDiscovery'', ''bStatus_t'', []), Flash 90)]"

definition r58_f_GAPRole_PeripheralInit :: "(proto \<times> slot) list" where
  "r58_f_GAPRole_PeripheralInit =
     [((''GAPRole_PeripheralInit'', ''bStatus_t'', []), Flash 91),
      ((''GAPRole_PeripheralStartDevice'', ''bStatus_t'', [''uint8_t'', ''gapBondCBs_t *'', ''gapRolesCBs_t *'']), Flash 92),
      ((''GAPRole_PeripheralConnParamUpdateReq'', ''bStatus_t'', [''uint16_t'', ''uint16_t'', ''uint16_t'', ''uint16_t'', ''uint16_t'', ''uint8_t'']), Flash 93),
      ((''GAPRole_CentralInit'', ''bStatus_t'', []), Flash 94),
      ((''GAPRole_CentralStartDevice'', ''bStatus_t'', [''uint8_t'', ''gapBondCBs_t *'', ''gapCentralRoleCB_t *'']), Flash 95),
      ((''GAPRole_CentralStartDiscovery'', ''bStatus_t'', [''uint8_t'', ''uint8_t'', ''uint8_t'']), Flash 96),
      ((''GAPRole_CentralCancelDiscovery'', ''bStatus_t'', []), Flash 97),
      ((''GAPRole_SetHostChanClassification'', '''', [''uint8_t *'']), Flash 128),
      ((''GAPRole_CentralEstablishLink'', ''bStatus_t'', [''uint8_t'', ''uint8_t'', ''uint8_t'', ''uint8_t *'']), Flash 98),
      ((''RF_RoleInit'', ''bStatus_t'', []), Flash 99),
      ((''RF_Config'', ''bStatus_t'', [''rfConfig_t *'']), Flash 100),
      ((''RF_Rx'', ''bStatus_t'', [''uint8_t *'', ''uint8_t'', ''uint8_t'', ''uint8_t'']), Flash 101)]"

definition r58_f_RF_Tx :: "(proto \<times> slot) list" where
  "r58_f_RF_Tx =
     [((''RF_Tx'', ''bStatus_t'', [''uint8_t *'', ''uint8_t'', ''uint8_t'', ''uint8_t'']), Flash 102),
      ((''RF_Shut'', ''bStatus_t'', []), Flash 103),
      ((''RF_SetChannel'', ''void'', [''uint32_t'']), Flash 115),
      ((''RF_FrequencyHoppingShut'', ''void'', []), Flash 116),
      ((''RF_FrequencyHoppingTx'', ''bStatus_t'', [''uint8_t'']), Flash 117),
      ((''RF_FrequencyHoppingRx'', ''bStatus_t'', [''uint32_t'']), Flash 118),
      ((''RF_BondingErase'', ''void'', []), Flash 119),
      ((''LL_SingleChannel'', ''bStatus_t'', [''uint8_t'']), Flash 104),
      ((''LL_TestEnd'', ''bStatus_t'', [''uint8_t *'']), Flash 105),
      ((''API_LE_ReceiverTestCmd'', ''bStatus_t'', [''uint8_t *'', ''uint16_t'']), Flash 111),
      ((''API_LE_TransmitterTestCmd'', ''bStatus_t'', [''uint8_t *'', ''uint16_t'']), Flash 112),
      ((''API_LE_TestEndCmd'', ''bStatus_t'', []), Flash 113),
      ((''RFEND_SetSensitivity'', ''void'', []), Flash 129),
      ((''RFEND_TXCtuneSet'', ''bStatus_t'', [''uint8_t *'']), Flash 130),
      ((''RFEND_TXCtuneGet'', ''bStatus_t'', [''uint8_t *'']), Flash 131)]"

definition r58_uuids :: "(string \<times> nat) list" where
  "r58_uuids =
     [(''gapServiceUUID'', 0),
      (''gattServiceUUID'', 1),
      (''primaryServiceUUID'', 2),
      (''secondaryServiceUUID'', 3),
      (''includeUUID'', 4),
      (''characterUUID'', 5),
      (''charExtPropsUUID'', 6),
      (''charUserDescUUID'', 7),
      (''clientCharCfgUUID'', 8),
      (''servCharCfgUUID'', 9),
      (''charFormatUUID'', 10),
      (''charAggFormatUUID'', 11),
      (''validRangeUUID'', 12),
      (''extReportRefUUID'', 13),
      (''reportRefUUID'', 14),
      (''deviceNameUUID'', 15),
      (''appearanceUUID'', 16),
      (''periPrivacyFlagUUID'', 17),
      (''reconnectAddrUUID'', 18),
      (''periConnParamUUID'', 19),
      (''serviceChangedUUID'', 10),
      (''centAddrResUUID'', 21)]"

definition r58_constants :: const_table where
  "r58_constants = concat
     [r58_c_TRUE, r58_c_SYS_EVENT_MSG, r58_c_SYSTEM_TIME_MICROSEN, r58_c_LL_TX_POWEER_MINUS_16_DBM,
      r58_c_bleInvalidTaskID, r58_c_INVALID_CONNHANDLE, r58_c_GAP_SERVICE_UUID, r58_c_GATT_PRIMARY_SERVICE_UUID,
      r58_c_GATT_CHAR_EXT_PROPS_UUID, r58_c_DEVICE_NAME_UUID, r58_c_IMMEDIATE_ALERT_SERV_UUID,
      r58_c_ALERT_LEVEL_UUID, r58_c_SUP_UNREAD_ALERT_CAT_UUID, r58_c_GATT_UNITLESS_UUID,
      r58_c_GATT_UNIT_ANGULAR_VELOCITY_RPM_UUID, r58_c_GATT_MSG_EVENT, r58_c_ATT_ERR_INVALID_VALUE,
      r58_c_ATT_FLOW_CTRL_VIOLATED_EVENT, r58_c_ATT_BT_UUID_SIZE, r58_c_GATT_PERMIT_READ, r58_c_GATT_CONNECT_NUM,
      r58_c_GAP_DEVICE_INIT_DONE_EVENT, r58_c_GAP_CONNHANDLE_INIT, r58_c_GAP_PRIVACY_DISABLED,
      r58_c_TGAP_GEN_DISC_ADV_MIN, r58_c_TGAP_CONN_EST_INT_PHY, r58_c_GAP_PHY_VAL_LE_1M, r58_c_GAP_PHY_BIT_LE_1M,
      r58_c_GAP_PHY_OPTIONS_NOPRE, r58_c_GAP_ADRPT_ADV_IND, r58_c_GAP_INIT_SIGN_COUNTER,
      r58_c_GAP_ADTYPE_FLAGS_GENERAL, r58_c_GAPROLE_PROFILEROLE, r58_c_GAPBOND_PERI_PAIRING_MODE,
      r58_c_GAPBOND_PAIRING_STATE_BONDED, r58_c_BLE_NVID_GATT_CFG_START, r58_c_BLE_NVID_MAX_VAL,
      r58_c_GAPROLE_STATE_ADV_MASK, r58_c_GAPROLE_STATE_PERIODIC_MASK, r58_c_GAPROLE_PERIODIC_STATE_VALID,
      r58_c_TX_MODE_TX_FINISH, r58_c_RX_MODE_TX_FINISH]"

definition r58_types :: "(string \<times> ctype) list" where
  "r58_types =
     [(''int8'', r58_int8), (''int16'', r58_int16), (''BOOL'', r58_BOOL), (''s8'', r58_s8), (''s16'', r58_s16),
      (''s32'', r58_s32), (''u8'', r58_u8), (''u16'', r58_u16), (''u32'', r58_u32), (''u64'', r58_u64), (''u8C'',
      r58_u8C), (''u8V'', r58_u8V), (''u32V'', r58_u32V), (''uint8'', r58_uint8), (''uint16'', r58_uint16),
      (''uint32'', r58_uint32), (''bStatus_t'', r58_bStatus_t), (''tmosTaskID'', r58_tmosTaskID), (''tmosEvents'',
      r58_tmosEvents), (''tmosTimer'', r58_tmosTimer), (''tmosSnvId_t'', r58_tmosSnvId_t), (''tmosSnvLen_t'',
      r58_tmosSnvLen_t), (''pfnSrandCB'', r58_pfnSrandCB), (''pfnIdleCB'', r58_pfnIdleCB), (''pfnLSICalibrationCB'',
      r58_pfnLSICalibrationCB), (''pfnTempSampleCB'', r58_pfnTempSampleCB), (''pfnEventCB'', r58_pfnEventCB),
      (''pfnLibStatusErrorCB'', r58_pfnLibStatusErrorCB), (''pTaskEventHandlerFn'', r58_pTaskEventHandlerFn),
      (''pfnFlashReadCB'', r58_pfnFlashReadCB), (''pfnFlashWriteCB'', r58_pfnFlashWriteCB), (''pfnGetSysClock'',
      r58_pfnGetSysClock), (''bleConfig_t'', r58_bleConfig_t), (''blePaControlConfig_t'', r58_blePaControlConfig_t),
      (''tmos_event_hdr_t'', r58_tmos_event_hdr_t), (''gapBondLTK_t'', r58_gapBondLTK_t), (''gapBondRec_t'',
      r58_gapBondRec_t), (''gapBondCharCfg_t'', r58_gapBondCharCfg_t), (''linkSec_t'', r58_linkSec_t),
      (''encParams_t'', r58_encParams_t), (''linkDBItem_t'', r58_linkDBItem_t), (''pfnLinkDBCB_t'',
      r58_pfnLinkDBCB_t), (''pfnPerformFuncCB_t'', r58_pfnPerformFuncCB_t), (''attAttrType_t'', r58_attAttrType_t),
      (''attAttrBtType_t'', r58_attAttrBtType_t), (''attErrorRsp_t'', r58_attErrorRsp_t), (''attExchangeMTUReq_t'',
      r58_attExchangeMTUReq_t), (''attExchangeMTURsp_t'', r58_attExchangeMTURsp_t), (''attFindInfoReq_t'',
      r58_attFindInfoReq_t), (''attFindInfoRsp_t'', r58_attFindInfoRsp_t), (''attFindByTypeValueReq_t'',
      r58_attFindByTypeValueReq_t), (''attFindByTypeValueRsp_t'', r58_attFindByTypeValueRsp_t),
      (''attReadByTypeReq_t'', r58_attReadByTypeReq_t), (''attReadByTypeRsp_t'', r58_attReadByTypeRsp_t),
      (''attReadReq_t'', r58_attReadReq_t), (''attReadRsp_t'', r58_attReadRsp_t), (''attReadBlobReq_t'',
      r58_attReadBlobReq_t), (''attReadBlobRsp_t'', r58_attReadBlobRsp_t), (''attReadMultiReq_t'',
      r58_attReadMultiReq_t), (''attReadMultiRsp_t'', r58_attReadMultiRsp_t), (''attReadByGrpTypeReq_t'',
      r58_attReadByGrpTypeReq_t), (''attReadByGrpTypeRsp_t'', r58_attReadByGrpTypeRsp_t), (''attWriteReq_t'',
      r58_attWriteReq_t), (''attPrepareWriteReq_t'', r58_attPrepareWriteReq_t), (''attPrepareWriteRsp_t'',
      r58_attPrepareWriteRsp_t), (''attExecuteWriteReq_t'', r58_attExecuteWriteReq_t), (''attHandleValueNoti_t'',
      r58_attHandleValueNoti_t), (''attHandleValueInd_t'', r58_attHandleValueInd_t), (''attFlowCtrlViolatedEvt_t'',
      r58_attFlowCtrlViolatedEvt_t), (''attMtuUpdatedEvt_t'', r58_attMtuUpdatedEvt_t), (''attMsg_t'', r58_attMsg_t),
      (''gattFindByTypeValueReq_t'', r58_gattFindByTypeValueReq_t), (''gattReadByTypeReq_t'',
      r58_gattReadByTypeReq_t), (''gattWriteLongReq_t'', r58_gattWriteLongReq_t), (''gattReliableWritesReq_t'',
      r58_gattReliableWritesReq_t), (''gattMsg_t'', r58_gattMsg_t), (''gattMsgEvent_t'', r58_gattMsgEvent_t),
      (''gattAttrType_t'', r58_gattAttrType_t), (''gattAttribute_t'', r58_gattAttribute_t), (''gattService_t'',
      r58_gattService_t), (''pfnGATTReadAttrCB_t'', r58_pfnGATTReadAttrCB_t), (''pfnGATTWriteAttrCB_t'',
      r58_pfnGATTWriteAttrCB_t), (''pfnGATTAuthorizeAttrCB_t'', r58_pfnGATTAuthorizeAttrCB_t), (''gattCharCfg_t'',
      r58_gattCharCfg_t), (''gattServiceCBs_t'', r58_gattServiceCBs_t), (''gapEventHdr_t'', r58_gapEventHdr_t),
      (''gapDeviceInitDoneEvent_t'', r58_gapDeviceInitDoneEvent_t), (''gapSignUpdateEvent_t'',
      r58_gapSignUpdateEvent_t), (''gapDeviceInfoEvent_t'', r58_gapDeviceInfoEvent_t),
      (''gapDirectDeviceInfoEvent_t'', r58_gapDirectDeviceInfoEvent_t), (''gapExtAdvDeviceInfoEvent_t'',
      r58_gapExtAdvDeviceInfoEvent_t), (''gapDevDiscReq_t'', r58_gapDevDiscReq_t), (''gapDevRec_t'',
      r58_gapDevRec_t), (''gapDevDiscEvent_t'', r58_gapDevDiscEvent_t), (''gapMakeDiscoverableRspEvent_t'',
      r58_gapMakeDiscoverableRspEvent_t), (''gapEndDiscoverableRspEvent_t'', r58_gapEndDiscoverableRspEvent_t),
      (''gapMakePeriodicRspEvent_t'', r58_gapMakePeriodicRspEvent_t), (''gapEndPeriodicRspEvent_t'',
      r58_gapEndPeriodicRspEvent_t), (''gapSyncEstablishedEvent_t'', r58_gapSyncEstablishedEvent_t),
      (''gapPeriodicAdvDeviceInfoEvent_t'', r58_gapPeriodicAdvDeviceInfoEvent_t), (''gapSyncLostEvent_t'',
      r58_gapSyncLostEvent_t), (''gapScanReqReseiveEvent_t'', r58_gapScanReqReseiveEvent_t),
      (''gapAdvDataUpdateEvent_t'', r58_gapAdvDataUpdateEvent_t), (''gapEstLinkReqEvent_t'',
      r58_gapEstLinkReqEvent_t), (''gapLinkUpdateEvent_t'', r58_gapLinkUpdateEvent_t), (''gapTerminateLinkEvent_t'',
      r58_gapTerminateLinkEvent_t), (''gapPhyUpdateEvent_t'', r58_gapPhyUpdateEvent_t),
      (''gapPasskeyNeededEvent_t'', r58_gapPasskeyNeededEvent_t), (''pfnPasscodeCB_t'', r58_pfnPasscodeCB_t),
      (''pfnPairStateCB_t'', r58_pfnPairStateCB_t), (''gapBondCBs_t'', r58_gapBondCBs_t), (''gapRole_States_t'',
      r58_gapRole_States_t), (''gapRoleEvent_t'', r58_gapRoleEvent_t), (''gapScanRec_t'', r58_gapScanRec_t),
      (''gapCreateSync_t'', r58_gapCreateSync_t), (''gapRoleSetPathLossReporting_t'',
      r58_gapRoleSetPathLossReporting_t), (''gapRolePowerlevelManagement_t'', r58_gapRolePowerlevelManagement_t),
      (''gapRolesBroadcasterStateNotify_t'', r58_gapRolesBroadcasterStateNotify_t), (''gapRolesScanReqRecv_t'',
      r58_gapRolesScanReqRecv_t), (''gapRolesBroadcasterCBs_t'', r58_gapRolesBroadcasterCBs_t),
      (''pfnGapObserverRoleEventCB_t'', r58_pfnGapObserverRoleEventCB_t), (''gapRoleObserverCB_t'',
      r58_gapRoleObserverCB_t), (''gapRolesRssiRead_t'', r58_gapRolesRssiRead_t), (''gapRolesStateNotify_t'',
      r58_gapRolesStateNotify_t), (''gapRolesParamUpdateCB_t'', r58_gapRolesParamUpdateCB_t), (''gapRolesCBs_t'',
      r58_gapRolesCBs_t), (''pfnGapCentralRoleEventCB_t'', r58_pfnGapCentralRoleEventCB_t),
      (''pfnHciDataLenChangeEvCB_t'', r58_pfnHciDataLenChangeEvCB_t), (''gapCentralRoleCB_t'',
      r58_gapCentralRoleCB_t), (''pfnRFStatusCB_t'', r58_pfnRFStatusCB_t), (''rfConfig_t'', r58_rfConfig_t)]"

definition r58_functions :: "(proto \<times> slot) list" where
  "r58_functions = concat
     [r58_f_tmos_rand, r58_f_tmos_snv_read, r58_f_BLE_ReadCfo, r58_f_GATT_Indication,
      r58_f_GATT_FindIncludedServices, r58_f_GATT_ReadUsingCharUUID, r58_f_GATT_WriteCharValue,
      r58_f_GATT_ReadLongCharDesc, r58_f_GATTServApp_InitCharCfg, r58_f_GAP_ResolvePrivateAddr,
      r58_f_GAPRole_TerminateSync, r58_f_GAPRole_PeripheralInit, r58_f_RF_Tx]"

end
