(* ===== verification/Ble_Agree.thy ===== *)
theory Ble_Agree
  imports Ble_Lib57 Ble_Rom57 Ble_Lib58 Ble_Rom58
begin

text \<open>The head of the images in ROM (\<^verbatim>\<open>lib/ch57x/CH57xBLE_ROM.hex\<close>, \<^verbatim>\<open>lib/ch58x/CH58xBLE_ROM.hex\<close>), the names of scalar
  types, and the agreement of each group of constants and each type between the two headers of a chip.\<close>

definition r57_image :: "u8 list list" where
  "r57_image =
     [[16, 0, 0, 0, 111, 208, 49, 108, 0, 0, 0, 0, 0, 24, 1, 24, 0, 40, 1, 40, 146],
      [16, 0, 16, 0, 2, 40, 3, 40, 0, 41, 1, 41, 2, 41, 3, 41, 4, 41, 5, 41, 134],
      [16, 0, 32, 0, 6, 41, 7, 41, 8, 41, 0, 42, 1, 42, 2, 42, 3, 42, 4, 42, 100],
      [16, 0, 48, 0, 5, 42, 166, 42, 56, 229, 2, 0, 238, 14, 1, 0, 218, 16, 1, 0, 186],
      [16, 0, 64, 0, 26, 17, 1, 0, 138, 16, 1, 0, 120, 16, 1, 0, 122, 57, 0, 32, 141],
      [16, 0, 80, 0, 62, 17, 1, 0, 34, 18, 1, 0, 74, 18, 1, 0, 164, 19, 1, 0, 6],
      [16, 0, 96, 0, 60, 20, 1, 0, 254, 13, 1, 0, 46, 13, 1, 0, 152, 13, 1, 0, 81],
      [16, 0, 112, 0, 90, 13, 1, 0, 32, 24, 1, 0, 182, 57, 0, 32, 56, 17, 1, 0, 134],
      [16, 0, 128, 0, 152, 21, 1, 0, 142, 170, 2, 0, 72, 172, 2, 0, 186, 172, 2, 0, 42],
      [16, 0, 144, 0, 218, 104, 2, 0, 234, 104, 2, 0, 20, 3, 2, 0, 104, 246, 1, 0, 80],
      [16, 0, 160, 0, 196, 160, 2, 0, 198, 21, 1, 0, 32, 111, 2, 0, 108, 179, 1, 0, 93],
      [16, 0, 176, 0, 242, 179, 1, 0, 74, 180, 1, 0, 98, 32, 1, 0, 174, 32, 1, 0, 73],
      [16, 0, 192, 0, 36, 31, 1, 0, 118, 114, 1, 0, 76, 109, 1, 0, 142, 123, 1, 0, 63],
      [16, 0, 208, 0, 90, 127, 1, 0, 2, 131, 1, 0, 144, 95, 1, 0, 46, 95, 1, 0, 66],
      [16, 0, 224, 0, 12, 99, 1, 0, 220, 95, 1, 0, 4, 95, 1, 0, 136, 95, 1, 0, 24],
      [16, 0, 240, 0, 182, 94, 1, 0, 88, 96, 1, 0, 176, 96, 1, 0, 96, 96, 1, 0, 96],
      [16, 1, 0, 0, 100, 96, 1, 0, 0, 97, 1, 0, 184, 96, 1, 0, 234, 96, 1, 0, 100],
      [16, 1, 16, 0, 4, 102, 1, 0, 12, 102, 1, 0, 84, 96, 1, 0, 92, 96, 1, 0, 143],
      [16, 1, 32, 0, 252, 96, 1, 0, 8, 102, 1, 0, 168, 97, 1, 0, 122, 103, 1, 0, 23],
      [16, 1, 48, 0, 242, 144, 1, 0, 108, 145, 1, 0, 154, 145, 1, 0, 138, 116, 1, 0, 19],
      [16, 1, 64, 0, 162, 116, 1, 0, 222, 116, 1, 0, 114, 89, 1, 0, 58, 90, 1, 0, 228],
      [16, 1, 80, 0, 146, 90, 1, 0, 88, 60, 1, 0, 206, 55, 1, 0, 34, 83, 1, 0, 161],
      [16, 1, 96, 0, 64, 56, 1, 0, 118, 82, 1, 0, 104, 197, 2, 0, 240, 194, 2, 0, 106],
      [16, 1, 112, 0, 254, 203, 2, 0, 224, 217, 2, 0, 20, 217, 2, 0, 94, 220, 2, 0, 206],
      [16, 1, 128, 0, 90, 220, 2, 0, 42, 182, 2, 0, 242, 220, 2, 0, 156, 179, 2, 0, 52],
      [16, 1, 144, 0, 130, 220, 2, 0, 130, 210, 2, 0, 156, 210, 2, 0, 192, 210, 2, 0, 165],
      [16, 1, 160, 0, 98, 221, 2, 0, 76, 215, 2, 0, 226, 214, 2, 0, 210, 221, 2, 0, 126],
      [16, 1, 176, 0, 170, 181, 2, 0, 50, 182, 2, 0, 86, 182, 2, 0, 248, 181, 2, 0, 55],
      [16, 1, 192, 0, 56, 134, 2, 0, 32, 117, 2, 0, 84, 123, 2, 0, 0, 118, 2, 0, 143],
      [16, 1, 208, 0, 74, 128, 2, 0, 100, 161, 2, 0, 90, 160, 2, 0, 204, 179, 2, 0, 207],
      [16, 1, 224, 0, 162, 25, 1, 0, 194, 105, 2, 0, 4, 111, 2, 0, 214, 111, 2, 0, 106],
      [16, 1, 240, 0, 40, 156, 2, 0, 98, 156, 2, 0, 218, 156, 2, 0, 106, 120, 1, 0, 222],
      [16, 2, 0, 0, 248, 133, 2, 0, 194, 128, 2, 0, 90, 120, 2, 0, 238, 130, 2, 0, 229],
      [16, 2, 16, 0, 220, 116, 2, 0, 176, 20, 1, 0, 56, 107, 2, 0, 152, 136, 2, 0, 0],
      [16, 2, 32, 0, 254, 138, 2, 0, 94, 139, 2, 0, 172, 137, 2, 0, 118, 19, 1, 0, 152],
      [16, 2, 48, 0, 216, 117, 1, 0, 18, 246, 1, 0, 60, 204, 2, 0, 0, 0, 0, 0, 93]]"

definition r57_image_base :: "u8 list" where
  "r57_image_base = [2, 0, 0, 2, 16, 0, 236]"

definition r58_image :: "u8 list list" where
  "r58_image =
     [[16, 0, 0, 0, 111, 160, 226, 14, 0, 0, 0, 0, 0, 24, 1, 24, 0, 40, 1, 40, 111],
      [16, 0, 16, 0, 2, 40, 3, 40, 0, 41, 1, 41, 2, 41, 3, 41, 4, 41, 5, 41, 134],
      [16, 0, 32, 0, 6, 41, 7, 41, 8, 41, 0, 42, 1, 42, 2, 42, 3, 42, 4, 42, 100],
      [16, 0, 48, 0, 5, 42, 166, 42, 76, 165, 3, 0, 150, 30, 1, 0, 90, 2, 0, 32, 156],
      [16, 0, 64, 0, 164, 2, 0, 32, 22, 2, 0, 32, 4, 2, 0, 32, 204, 1, 0, 32, 159],
      [16, 0, 80, 0, 32, 33, 1, 0, 76, 33, 1, 0, 40, 34, 1, 0, 222, 35, 1, 0, 163],
      [16, 0, 96, 0, 130, 36, 1, 0, 12, 29, 1, 0, 48, 28, 1, 0, 162, 28, 1, 0, 179],
      [16, 0, 112, 0, 92, 28, 1, 0, 6, 41, 1, 0, 240, 3, 0, 32, 246, 32, 1, 0, 173],
      [16, 0, 128, 0, 0, 38, 1, 0, 138, 77, 3, 0, 130, 79, 3, 0, 250, 79, 3, 0, 79],
      [16, 0, 144, 0, 128, 7, 3, 0, 148, 7, 3, 0, 26, 87, 2, 0, 2, 73, 2, 0, 120],
      [16, 0, 160, 0, 114, 71, 3, 0, 54, 38, 1, 0, 178, 16, 3, 0, 96, 220, 1, 0, 53],
      [16, 0, 176, 0, 238, 220, 1, 0, 70, 221, 1, 0, 242, 49, 1, 0, 62, 50, 1, 0, 188],
      [16, 0, 192, 0, 168, 48, 1, 0, 198, 153, 1, 0, 138, 148, 1, 0, 52, 163, 1, 0, 0],
      [16, 0, 208, 0, 4, 167, 1, 0, 176, 170, 1, 0, 230, 134, 1, 0, 132, 134, 1, 0, 161],
      [16, 0, 224, 0, 110, 138, 1, 0, 50, 135, 1, 0, 90, 134, 1, 0, 222, 134, 1, 0, 23],
      [16, 0, 240, 0, 12, 134, 1, 0, 182, 135, 1, 0, 14, 136, 1, 0, 190, 135, 1, 0, 82],
      [16, 1, 0, 0, 194, 135, 1, 0, 92, 136, 1, 0, 22, 136, 1, 0, 72, 136, 1, 0, 80],
      [16, 1, 16, 0, 106, 141, 1, 0, 114, 141, 1, 0, 178, 135, 1, 0, 186, 135, 1, 0, 107],
      [16, 1, 32, 0, 90, 136, 1, 0, 110, 141, 1, 0, 10, 137, 1, 0, 166, 142, 1, 0, 39],
      [16, 1, 48, 0, 252, 184, 1, 0, 122, 185, 1, 0, 184, 185, 1, 0, 242, 155, 1, 0, 214],
      [16, 1, 64, 0, 10, 156, 1, 0, 70, 156, 1, 0, 134, 128, 1, 0, 106, 129, 1, 0, 50],
      [16, 1, 80, 0, 210, 129, 1, 0, 60, 80, 1, 0, 130, 75, 1, 0, 152, 118, 1, 0, 225],
      [16, 1, 96, 0, 0, 76, 1, 0, 220, 113, 1, 0, 94, 132, 3, 0, 108, 129, 3, 0, 31],
      [16, 1, 112, 0, 84, 139, 3, 0, 190, 155, 3, 0, 142, 154, 3, 0, 146, 158, 3, 0, 227],
      [16, 1, 128, 0, 122, 158, 3, 0, 138, 158, 3, 0, 58, 159, 3, 0, 154, 111, 3, 0, 65],
      [16, 1, 144, 0, 202, 158, 3, 0, 136, 146, 3, 0, 174, 146, 3, 0, 214, 146, 3, 0, 41],
      [16, 1, 160, 0, 170, 159, 3, 0, 136, 152, 3, 0, 30, 152, 3, 0, 26, 160, 3, 0, 106],
      [16, 1, 176, 0, 252, 113, 3, 0, 152, 114, 3, 0, 192, 114, 3, 0, 98, 114, 3, 0, 182],
      [16, 1, 192, 0, 236, 42, 3, 0, 34, 22, 3, 0, 176, 25, 3, 0, 6, 23, 3, 0, 239],
      [16, 1, 208, 0, 134, 32, 3, 0, 18, 72, 3, 0, 248, 70, 3, 0, 206, 111, 3, 0, 152],
      [16, 1, 224, 0, 246, 42, 1, 0, 188, 8, 3, 0, 146, 16, 3, 0, 138, 17, 3, 0, 228],
      [16, 1, 240, 0, 6, 63, 3, 0, 166, 63, 3, 0, 86, 65, 3, 0, 248, 159, 1, 0, 157],
      [16, 2, 0, 0, 154, 42, 3, 0, 6, 33, 3, 0, 54, 39, 3, 0, 158, 35, 3, 0, 217],
      [16, 2, 16, 0, 214, 21, 3, 0, 22, 6, 0, 32, 130, 9, 3, 0, 182, 158, 3, 0, 207],
      [16, 2, 32, 0, 126, 158, 3, 0, 134, 158, 3, 0, 130, 158, 3, 0, 152, 35, 1, 0, 169],
      [16, 2, 48, 0, 68, 157, 1, 0, 190, 158, 3, 0, 230, 44, 3, 0, 56, 46, 3, 0, 255],
      [16, 2, 64, 0, 152, 46, 3, 0, 146, 139, 3, 0, 186, 158, 3, 0, 194, 158, 3, 0, 7],
      [16, 2, 80, 0, 142, 72, 2, 0, 198, 158, 3, 0, 138, 15, 0, 32, 150, 20, 0, 32, 220]]"

definition r58_image_base :: "u8 list" where
  "r58_image_base = [2, 0, 0, 2, 16, 0, 236]"

definition l57_typedefs :: "(string \<times> string) list" where
  "l57_typedefs =
     [(''int8'', ''int8_t''),
      (''int16'', ''int16_t''),
      (''BOOL'', ''uint8_t''),
      (''s8'', ''int8_t''),
      (''s16'', ''int16_t''),
      (''s32'', ''int32_t''),
      (''u8'', ''uint8_t''),
      (''u16'', ''uint16_t''),
      (''u32'', ''uint32_t''),
      (''u64'', ''uint64_t''),
      (''uint8'', ''uint8_t''),
      (''uint16'', ''uint16_t''),
      (''uint32'', ''uint32_t''),
      (''bStatus_t'', ''uint8_t''),
      (''tmosTaskID'', ''uint8_t''),
      (''tmosEvents'', ''uint16_t''),
      (''tmosTimer'', ''uint32_t''),
      (''tmosSnvId_t'', ''uint8_t''),
      (''tmosSnvLen_t'', ''uint8_t'')]"

definition l58_typedefs :: "(string \<times> string) list" where
  "l58_typedefs =
     [(''int8'', ''int8_t''),
      (''int16'', ''int16_t''),
      (''BOOL'', ''uint8_t''),
      (''s8'', ''int8_t''),
      (''s16'', ''int16_t''),
      (''s32'', ''int32_t''),
      (''u8'', ''uint8_t''),
      (''u16'', ''uint16_t''),
      (''u32'', ''uint32_t''),
      (''u64'', ''uint64_t''),
      (''uint8'', ''uint8_t''),
      (''uint16'', ''uint16_t''),
      (''uint32'', ''uint32_t''),
      (''bStatus_t'', ''uint8_t''),
      (''tmosTaskID'', ''uint8_t''),
      (''tmosEvents'', ''uint16_t''),
      (''tmosTimer'', ''uint32_t''),
      (''tmosSnvId_t'', ''uint8_t''),
      (''tmosSnvLen_t'', ''uint8_t'')]"

lemma r57_c_TRUE_same [rom_agrees]: "r57_c_TRUE = l57_c_TRUE"
  by (simp only: r57_c_TRUE_def l57_c_TRUE_def)

lemma r57_c_SYS_EVENT_MSG_same [rom_agrees]: "r57_c_SYS_EVENT_MSG = l57_c_SYS_EVENT_MSG"
  by (simp only: r57_c_SYS_EVENT_MSG_def l57_c_SYS_EVENT_MSG_def)

lemma r57_c_SYSTEM_TIME_MICROSEN_same [rom_agrees]: "r57_c_SYSTEM_TIME_MICROSEN = l57_c_SYSTEM_TIME_MICROSEN"
  by (simp only: r57_c_SYSTEM_TIME_MICROSEN_def l57_c_SYSTEM_TIME_MICROSEN_def)

lemma r57_c_LL_TX_POWEER_MINUS_20_DBM_same [rom_agrees]: "r57_c_LL_TX_POWEER_MINUS_20_DBM = l57_c_LL_TX_POWEER_MINUS_20_DBM"
  by (simp only: r57_c_LL_TX_POWEER_MINUS_20_DBM_def l57_c_LL_TX_POWEER_MINUS_20_DBM_def)

lemma r57_c_bleInvalidTaskID_same [rom_agrees]: "r57_c_bleInvalidTaskID = l57_c_bleInvalidTaskID"
  by (simp only: r57_c_bleInvalidTaskID_def l57_c_bleInvalidTaskID_def)

lemma r57_c_INVALID_CONNHANDLE_same [rom_agrees]: "r57_c_INVALID_CONNHANDLE = l57_c_INVALID_CONNHANDLE"
  by (simp only: r57_c_INVALID_CONNHANDLE_def l57_c_INVALID_CONNHANDLE_def)

lemma r57_c_GAP_SERVICE_UUID_same [rom_agrees]: "r57_c_GAP_SERVICE_UUID = l57_c_GAP_SERVICE_UUID"
  by (simp only: r57_c_GAP_SERVICE_UUID_def l57_c_GAP_SERVICE_UUID_def)

lemma r57_c_GATT_PRIMARY_SERVICE_UUID_same [rom_agrees]: "r57_c_GATT_PRIMARY_SERVICE_UUID = l57_c_GATT_PRIMARY_SERVICE_UUID"
  by (simp only: r57_c_GATT_PRIMARY_SERVICE_UUID_def l57_c_GATT_PRIMARY_SERVICE_UUID_def)

lemma r57_c_GATT_CHAR_EXT_PROPS_UUID_same [rom_agrees]: "r57_c_GATT_CHAR_EXT_PROPS_UUID = l57_c_GATT_CHAR_EXT_PROPS_UUID"
  by (simp only: r57_c_GATT_CHAR_EXT_PROPS_UUID_def l57_c_GATT_CHAR_EXT_PROPS_UUID_def)

lemma r57_c_DEVICE_NAME_UUID_same [rom_agrees]: "r57_c_DEVICE_NAME_UUID = l57_c_DEVICE_NAME_UUID"
  by (simp only: r57_c_DEVICE_NAME_UUID_def l57_c_DEVICE_NAME_UUID_def)

lemma r57_c_IMMEDIATE_ALERT_SERV_UUID_same [rom_agrees]: "r57_c_IMMEDIATE_ALERT_SERV_UUID = l57_c_IMMEDIATE_ALERT_SERV_UUID"
  by (simp only: r57_c_IMMEDIATE_ALERT_SERV_UUID_def l57_c_IMMEDIATE_ALERT_SERV_UUID_def)

lemma r57_c_ALERT_LEVEL_UUID_same [rom_agrees]: "r57_c_ALERT_LEVEL_UUID = l57_c_ALERT_LEVEL_UUID"
  by (simp only: r57_c_ALERT_LEVEL_UUID_def l57_c_ALERT_LEVEL_UUID_def)

lemma r57_c_SUP_UNREAD_ALERT_CAT_UUID_same [rom_agrees]: "r57_c_SUP_UNREAD_ALERT_CAT_UUID = l57_c_SUP_UNREAD_ALERT_CAT_UUID"
  by (simp only: r57_c_SUP_UNREAD_ALERT_CAT_UUID_def l57_c_SUP_UNREAD_ALERT_CAT_UUID_def)

lemma r57_c_GATT_UNITLESS_UUID_same [rom_agrees]: "r57_c_GATT_UNITLESS_UUID = l57_c_GATT_UNITLESS_UUID"
  by (simp only: r57_c_GATT_UNITLESS_UUID_def l57_c_GATT_UNITLESS_UUID_def)

lemma r57_c_GATT_UNIT_ANGULAR_VELOCITY_RPM_UUID_same [rom_agrees]: "r57_c_GATT_UNIT_ANGULAR_VELOCITY_RPM_UUID = l57_c_GATT_UNIT_ANGULAR_VELOCITY_RPM_UUID"
  by (simp only: r57_c_GATT_UNIT_ANGULAR_VELOCITY_RPM_UUID_def l57_c_GATT_UNIT_ANGULAR_VELOCITY_RPM_UUID_def)

lemma r57_c_GATT_MSG_EVENT_same [rom_agrees]: "r57_c_GATT_MSG_EVENT = l57_c_GATT_MSG_EVENT"
  by (simp only: r57_c_GATT_MSG_EVENT_def l57_c_GATT_MSG_EVENT_def)

lemma r57_c_ATT_ERR_INVALID_VALUE_same [rom_agrees]: "r57_c_ATT_ERR_INVALID_VALUE = l57_c_ATT_ERR_INVALID_VALUE"
  by (simp only: r57_c_ATT_ERR_INVALID_VALUE_def l57_c_ATT_ERR_INVALID_VALUE_def)

lemma r57_c_ATT_FLOW_CTRL_VIOLATED_EVENT_same [rom_agrees]: "r57_c_ATT_FLOW_CTRL_VIOLATED_EVENT = l57_c_ATT_FLOW_CTRL_VIOLATED_EVENT"
  by (simp only: r57_c_ATT_FLOW_CTRL_VIOLATED_EVENT_def l57_c_ATT_FLOW_CTRL_VIOLATED_EVENT_def)

lemma r57_c_ATT_BT_UUID_SIZE_same [rom_agrees]: "r57_c_ATT_BT_UUID_SIZE = l57_c_ATT_BT_UUID_SIZE"
  by (simp only: r57_c_ATT_BT_UUID_SIZE_def l57_c_ATT_BT_UUID_SIZE_def)

lemma r57_c_GATT_PERMIT_READ_same [rom_agrees]: "r57_c_GATT_PERMIT_READ = l57_c_GATT_PERMIT_READ"
  by (simp only: r57_c_GATT_PERMIT_READ_def l57_c_GATT_PERMIT_READ_def)

lemma r57_c_GATT_MAX_NUM_CONN_same [rom_agrees]: "r57_c_GATT_MAX_NUM_CONN = l57_c_GATT_MAX_NUM_CONN"
  by (simp only: r57_c_GATT_MAX_NUM_CONN_def l57_c_GATT_MAX_NUM_CONN_def)

lemma r57_c_GAP_DEVICE_INIT_DONE_EVENT_same [rom_agrees]: "r57_c_GAP_DEVICE_INIT_DONE_EVENT = l57_c_GAP_DEVICE_INIT_DONE_EVENT"
  by (simp only: r57_c_GAP_DEVICE_INIT_DONE_EVENT_def l57_c_GAP_DEVICE_INIT_DONE_EVENT_def)

lemma r57_c_GAP_CONNHANDLE_INIT_same [rom_agrees]: "r57_c_GAP_CONNHANDLE_INIT = l57_c_GAP_CONNHANDLE_INIT"
  by (simp only: r57_c_GAP_CONNHANDLE_INIT_def l57_c_GAP_CONNHANDLE_INIT_def)

lemma r57_c_GAP_PRIVACY_DISABLED_same [rom_agrees]: "r57_c_GAP_PRIVACY_DISABLED = l57_c_GAP_PRIVACY_DISABLED"
  by (simp only: r57_c_GAP_PRIVACY_DISABLED_def l57_c_GAP_PRIVACY_DISABLED_def)

lemma r57_c_TGAP_GEN_DISC_ADV_MIN_same [rom_agrees]: "r57_c_TGAP_GEN_DISC_ADV_MIN = l57_c_TGAP_GEN_DISC_ADV_MIN"
  by (simp only: r57_c_TGAP_GEN_DISC_ADV_MIN_def l57_c_TGAP_GEN_DISC_ADV_MIN_def)

lemma r57_c_GAP_ADRPT_ADV_IND_same [rom_agrees]: "r57_c_GAP_ADRPT_ADV_IND = l57_c_GAP_ADRPT_ADV_IND"
  by (simp only: r57_c_GAP_ADRPT_ADV_IND_def l57_c_GAP_ADRPT_ADV_IND_def)

lemma r57_c_GAP_INIT_SIGN_COUNTER_same [rom_agrees]: "r57_c_GAP_INIT_SIGN_COUNTER = l57_c_GAP_INIT_SIGN_COUNTER"
  by (simp only: r57_c_GAP_INIT_SIGN_COUNTER_def l57_c_GAP_INIT_SIGN_COUNTER_def)

lemma r57_c_GAP_APPEARE_GENERIC_KEYRING_same [rom_agrees]: "r57_c_GAP_APPEARE_GENERIC_KEYRING = l57_c_GAP_APPEARE_GENERIC_KEYRING"
  by (simp only: r57_c_GAP_APPEARE_GENERIC_KEYRING_def l57_c_GAP_APPEARE_GENERIC_KEYRING_def)

lemma r57_c_GAPROLE_PROFILEROLE_same [rom_agrees]: "r57_c_GAPROLE_PROFILEROLE = l57_c_GAPROLE_PROFILEROLE"
  by (simp only: r57_c_GAPROLE_PROFILEROLE_def l57_c_GAPROLE_PROFILEROLE_def)

lemma r57_c_GAPBOND_PERI_PAIRING_MODE_same [rom_agrees]: "r57_c_GAPBOND_PERI_PAIRING_MODE = l57_c_GAPBOND_PERI_PAIRING_MODE"
  by (simp only: r57_c_GAPBOND_PERI_PAIRING_MODE_def l57_c_GAPBOND_PERI_PAIRING_MODE_def)

lemma r57_c_GAPBOND_PAIRING_STATE_COMPLETE_same [rom_agrees]: "r57_c_GAPBOND_PAIRING_STATE_COMPLETE = l57_c_GAPBOND_PAIRING_STATE_COMPLETE"
  by (simp only: r57_c_GAPBOND_PAIRING_STATE_COMPLETE_def l57_c_GAPBOND_PAIRING_STATE_COMPLETE_def)

lemma r57_c_BLE_NVID_GATT_CFG_START_same [rom_agrees]: "r57_c_BLE_NVID_GATT_CFG_START = l57_c_BLE_NVID_GATT_CFG_START"
  by (simp only: r57_c_BLE_NVID_GATT_CFG_START_def l57_c_BLE_NVID_GATT_CFG_START_def)

lemma r57_c_BLE_NVID_MAX_VAL_same [rom_agrees]: "r57_c_BLE_NVID_MAX_VAL = l57_c_BLE_NVID_MAX_VAL"
  by (simp only: r57_c_BLE_NVID_MAX_VAL_def l57_c_BLE_NVID_MAX_VAL_def)

lemma r57_c_TX_MODE_TX_FINISH_same [rom_agrees]: "r57_c_TX_MODE_TX_FINISH = l57_c_TX_MODE_TX_FINISH"
  by (simp only: r57_c_TX_MODE_TX_FINISH_def l57_c_TX_MODE_TX_FINISH_def)

lemma r57_c_RX_MODE_TX_FINISH_same [rom_agrees]: "r57_c_RX_MODE_TX_FINISH = l57_c_RX_MODE_TX_FINISH"
  by (simp only: r57_c_RX_MODE_TX_FINISH_def l57_c_RX_MODE_TX_FINISH_def)

lemma r57_int8_same [rom_agrees]: "r57_int8 = l57_int8"
  by (simp only: r57_int8_def l57_int8_def rom_agrees)

lemma r57_int16_same [rom_agrees]: "r57_int16 = l57_int16"
  by (simp only: r57_int16_def l57_int16_def rom_agrees)

lemma r57_BOOL_same [rom_agrees]: "r57_BOOL = l57_BOOL"
  by (simp only: r57_BOOL_def l57_BOOL_def rom_agrees)

lemma r57_s8_same [rom_agrees]: "r57_s8 = l57_s8"
  by (simp only: r57_s8_def l57_s8_def rom_agrees)

lemma r57_s16_same [rom_agrees]: "r57_s16 = l57_s16"
  by (simp only: r57_s16_def l57_s16_def rom_agrees)

lemma r57_s32_same [rom_agrees]: "r57_s32 = l57_s32"
  by (simp only: r57_s32_def l57_s32_def rom_agrees)

lemma r57_u8_same [rom_agrees]: "r57_u8 = l57_u8"
  by (simp only: r57_u8_def l57_u8_def rom_agrees)

lemma r57_u16_same [rom_agrees]: "r57_u16 = l57_u16"
  by (simp only: r57_u16_def l57_u16_def rom_agrees)

lemma r57_u32_same [rom_agrees]: "r57_u32 = l57_u32"
  by (simp only: r57_u32_def l57_u32_def rom_agrees)

lemma r57_u64_same [rom_agrees]: "r57_u64 = l57_u64"
  by (simp only: r57_u64_def l57_u64_def rom_agrees)

lemma r57_u8C_same [rom_agrees]: "r57_u8C = l57_u8C"
  by (simp only: r57_u8C_def l57_u8C_def rom_agrees)

lemma r57_u8V_same [rom_agrees]: "r57_u8V = l57_u8V"
  by (simp only: r57_u8V_def l57_u8V_def rom_agrees)

lemma r57_u32V_same [rom_agrees]: "r57_u32V = l57_u32V"
  by (simp only: r57_u32V_def l57_u32V_def rom_agrees)

lemma r57_uint8_same [rom_agrees]: "r57_uint8 = l57_uint8"
  by (simp only: r57_uint8_def l57_uint8_def rom_agrees)

lemma r57_uint16_same [rom_agrees]: "r57_uint16 = l57_uint16"
  by (simp only: r57_uint16_def l57_uint16_def rom_agrees)

lemma r57_uint32_same [rom_agrees]: "r57_uint32 = l57_uint32"
  by (simp only: r57_uint32_def l57_uint32_def rom_agrees)

lemma r57_bStatus_t_same [rom_agrees]: "r57_bStatus_t = l57_bStatus_t"
  by (simp only: r57_bStatus_t_def l57_bStatus_t_def rom_agrees)

lemma r57_tmosTaskID_same [rom_agrees]: "r57_tmosTaskID = l57_tmosTaskID"
  by (simp only: r57_tmosTaskID_def l57_tmosTaskID_def rom_agrees)

lemma r57_tmosEvents_same [rom_agrees]: "r57_tmosEvents = l57_tmosEvents"
  by (simp only: r57_tmosEvents_def l57_tmosEvents_def rom_agrees)

lemma r57_tmosTimer_same [rom_agrees]: "r57_tmosTimer = l57_tmosTimer"
  by (simp only: r57_tmosTimer_def l57_tmosTimer_def rom_agrees)

lemma r57_tmosSnvId_t_same [rom_agrees]: "r57_tmosSnvId_t = l57_tmosSnvId_t"
  by (simp only: r57_tmosSnvId_t_def l57_tmosSnvId_t_def rom_agrees)

lemma r57_tmosSnvLen_t_same [rom_agrees]: "r57_tmosSnvLen_t = l57_tmosSnvLen_t"
  by (simp only: r57_tmosSnvLen_t_def l57_tmosSnvLen_t_def rom_agrees)

lemma r57_pfnSrandCB_same [rom_agrees]: "r57_pfnSrandCB = l57_pfnSrandCB"
  by (simp only: r57_pfnSrandCB_def l57_pfnSrandCB_def rom_agrees)

lemma r57_pfnIdleCB_same [rom_agrees]: "r57_pfnIdleCB = l57_pfnIdleCB"
  by (simp only: r57_pfnIdleCB_def l57_pfnIdleCB_def rom_agrees)

lemma r57_pfnLSICalibrationCB_same [rom_agrees]: "r57_pfnLSICalibrationCB = l57_pfnLSICalibrationCB"
  by (simp only: r57_pfnLSICalibrationCB_def l57_pfnLSICalibrationCB_def rom_agrees)

lemma r57_pfnTempSampleCB_same [rom_agrees]: "r57_pfnTempSampleCB = l57_pfnTempSampleCB"
  by (simp only: r57_pfnTempSampleCB_def l57_pfnTempSampleCB_def rom_agrees)

lemma r57_pfnEventCB_same [rom_agrees]: "r57_pfnEventCB = l57_pfnEventCB"
  by (simp only: r57_pfnEventCB_def l57_pfnEventCB_def rom_agrees)

lemma r57_pfnLibStatusErrorCB_same [rom_agrees]: "r57_pfnLibStatusErrorCB = l57_pfnLibStatusErrorCB"
  by (simp only: r57_pfnLibStatusErrorCB_def l57_pfnLibStatusErrorCB_def rom_agrees)

lemma r57_pTaskEventHandlerFn_same [rom_agrees]: "r57_pTaskEventHandlerFn = l57_pTaskEventHandlerFn"
  by (simp only: r57_pTaskEventHandlerFn_def l57_pTaskEventHandlerFn_def rom_agrees)

lemma r57_pfnFlashReadCB_same [rom_agrees]: "r57_pfnFlashReadCB = l57_pfnFlashReadCB"
  by (simp only: r57_pfnFlashReadCB_def l57_pfnFlashReadCB_def rom_agrees)

lemma r57_pfnFlashWriteCB_same [rom_agrees]: "r57_pfnFlashWriteCB = l57_pfnFlashWriteCB"
  by (simp only: r57_pfnFlashWriteCB_def l57_pfnFlashWriteCB_def rom_agrees)

lemma r57_pfnGetSysClock_same [rom_agrees]: "r57_pfnGetSysClock = l57_pfnGetSysClock"
  by (simp only: r57_pfnGetSysClock_def l57_pfnGetSysClock_def rom_agrees)

lemma r57_bleConfig_t_same [rom_agrees]: "r57_bleConfig_t = l57_bleConfig_t"
  by (simp only: r57_bleConfig_t_def l57_bleConfig_t_def rom_agrees)

lemma r57_blePaControlConfig_t_same [rom_agrees]: "r57_blePaControlConfig_t = l57_blePaControlConfig_t"
  by (simp only: r57_blePaControlConfig_t_def l57_blePaControlConfig_t_def rom_agrees)

lemma r57_tmos_event_hdr_t_same [rom_agrees]: "r57_tmos_event_hdr_t = l57_tmos_event_hdr_t"
  by (simp only: r57_tmos_event_hdr_t_def l57_tmos_event_hdr_t_def rom_agrees)

lemma r57_gapBondLTK_t_same [rom_agrees]: "r57_gapBondLTK_t = l57_gapBondLTK_t"
  by (simp only: r57_gapBondLTK_t_def l57_gapBondLTK_t_def rom_agrees)

lemma r57_gapBondRec_t_same [rom_agrees]: "r57_gapBondRec_t = l57_gapBondRec_t"
  by (simp only: r57_gapBondRec_t_def l57_gapBondRec_t_def rom_agrees)

lemma r57_gapBondCharCfg_t_same [rom_agrees]: "r57_gapBondCharCfg_t = l57_gapBondCharCfg_t"
  by (simp only: r57_gapBondCharCfg_t_def l57_gapBondCharCfg_t_def rom_agrees)

lemma r57_linkSec_t_same [rom_agrees]: "r57_linkSec_t = l57_linkSec_t"
  by (simp only: r57_linkSec_t_def l57_linkSec_t_def rom_agrees)

lemma r57_encParams_t_same [rom_agrees]: "r57_encParams_t = l57_encParams_t"
  by (simp only: r57_encParams_t_def l57_encParams_t_def rom_agrees)

lemma r57_bondEncParams_t_same [rom_agrees]: "r57_bondEncParams_t = l57_bondEncParams_t"
  by (simp only: r57_bondEncParams_t_def l57_bondEncParams_t_def rom_agrees)

lemma r57_linkDBItem_t_same [rom_agrees]: "r57_linkDBItem_t = l57_linkDBItem_t"
  by (simp only: r57_linkDBItem_t_def l57_linkDBItem_t_def rom_agrees)

lemma r57_pfnLinkDBCB_t_same [rom_agrees]: "r57_pfnLinkDBCB_t = l57_pfnLinkDBCB_t"
  by (simp only: r57_pfnLinkDBCB_t_def l57_pfnLinkDBCB_t_def rom_agrees)

lemma r57_pfnPerformFuncCB_t_same [rom_agrees]: "r57_pfnPerformFuncCB_t = l57_pfnPerformFuncCB_t"
  by (simp only: r57_pfnPerformFuncCB_t_def l57_pfnPerformFuncCB_t_def rom_agrees)

lemma r57_attAttrType_t_same [rom_agrees]: "r57_attAttrType_t = l57_attAttrType_t"
  by (simp only: r57_attAttrType_t_def l57_attAttrType_t_def rom_agrees)

lemma r57_attAttrBtType_t_same [rom_agrees]: "r57_attAttrBtType_t = l57_attAttrBtType_t"
  by (simp only: r57_attAttrBtType_t_def l57_attAttrBtType_t_def rom_agrees)

lemma r57_attErrorRsp_t_same [rom_agrees]: "r57_attErrorRsp_t = l57_attErrorRsp_t"
  by (simp only: r57_attErrorRsp_t_def l57_attErrorRsp_t_def rom_agrees)

lemma r57_attExchangeMTUReq_t_same [rom_agrees]: "r57_attExchangeMTUReq_t = l57_attExchangeMTUReq_t"
  by (simp only: r57_attExchangeMTUReq_t_def l57_attExchangeMTUReq_t_def rom_agrees)

lemma r57_attExchangeMTURsp_t_same [rom_agrees]: "r57_attExchangeMTURsp_t = l57_attExchangeMTURsp_t"
  by (simp only: r57_attExchangeMTURsp_t_def l57_attExchangeMTURsp_t_def rom_agrees)

lemma r57_attFindInfoReq_t_same [rom_agrees]: "r57_attFindInfoReq_t = l57_attFindInfoReq_t"
  by (simp only: r57_attFindInfoReq_t_def l57_attFindInfoReq_t_def rom_agrees)

lemma r57_attFindInfoRsp_t_same [rom_agrees]: "r57_attFindInfoRsp_t = l57_attFindInfoRsp_t"
  by (simp only: r57_attFindInfoRsp_t_def l57_attFindInfoRsp_t_def rom_agrees)

lemma r57_attFindByTypeValueReq_t_same [rom_agrees]: "r57_attFindByTypeValueReq_t = l57_attFindByTypeValueReq_t"
  by (simp only: r57_attFindByTypeValueReq_t_def l57_attFindByTypeValueReq_t_def rom_agrees)

lemma r57_attFindByTypeValueRsp_t_same [rom_agrees]: "r57_attFindByTypeValueRsp_t = l57_attFindByTypeValueRsp_t"
  by (simp only: r57_attFindByTypeValueRsp_t_def l57_attFindByTypeValueRsp_t_def rom_agrees)

lemma r57_attReadByTypeReq_t_same [rom_agrees]: "r57_attReadByTypeReq_t = l57_attReadByTypeReq_t"
  by (simp only: r57_attReadByTypeReq_t_def l57_attReadByTypeReq_t_def rom_agrees)

lemma r57_attReadByTypeRsp_t_same [rom_agrees]: "r57_attReadByTypeRsp_t = l57_attReadByTypeRsp_t"
  by (simp only: r57_attReadByTypeRsp_t_def l57_attReadByTypeRsp_t_def rom_agrees)

lemma r57_attReadReq_t_same [rom_agrees]: "r57_attReadReq_t = l57_attReadReq_t"
  by (simp only: r57_attReadReq_t_def l57_attReadReq_t_def rom_agrees)

lemma r57_attReadRsp_t_same [rom_agrees]: "r57_attReadRsp_t = l57_attReadRsp_t"
  by (simp only: r57_attReadRsp_t_def l57_attReadRsp_t_def rom_agrees)

lemma r57_attReadBlobReq_t_same [rom_agrees]: "r57_attReadBlobReq_t = l57_attReadBlobReq_t"
  by (simp only: r57_attReadBlobReq_t_def l57_attReadBlobReq_t_def rom_agrees)

lemma r57_attReadBlobRsp_t_same [rom_agrees]: "r57_attReadBlobRsp_t = l57_attReadBlobRsp_t"
  by (simp only: r57_attReadBlobRsp_t_def l57_attReadBlobRsp_t_def rom_agrees)

lemma r57_attReadMultiReq_t_same [rom_agrees]: "r57_attReadMultiReq_t = l57_attReadMultiReq_t"
  by (simp only: r57_attReadMultiReq_t_def l57_attReadMultiReq_t_def rom_agrees)

lemma r57_attReadMultiRsp_t_same [rom_agrees]: "r57_attReadMultiRsp_t = l57_attReadMultiRsp_t"
  by (simp only: r57_attReadMultiRsp_t_def l57_attReadMultiRsp_t_def rom_agrees)

lemma r57_attReadByGrpTypeReq_t_same [rom_agrees]: "r57_attReadByGrpTypeReq_t = l57_attReadByGrpTypeReq_t"
  by (simp only: r57_attReadByGrpTypeReq_t_def l57_attReadByGrpTypeReq_t_def rom_agrees)

lemma r57_attReadByGrpTypeRsp_t_same [rom_agrees]: "r57_attReadByGrpTypeRsp_t = l57_attReadByGrpTypeRsp_t"
  by (simp only: r57_attReadByGrpTypeRsp_t_def l57_attReadByGrpTypeRsp_t_def rom_agrees)

lemma r57_attWriteReq_t_same [rom_agrees]: "r57_attWriteReq_t = l57_attWriteReq_t"
  by (simp only: r57_attWriteReq_t_def l57_attWriteReq_t_def rom_agrees)

lemma r57_attPrepareWriteReq_t_same [rom_agrees]: "r57_attPrepareWriteReq_t = l57_attPrepareWriteReq_t"
  by (simp only: r57_attPrepareWriteReq_t_def l57_attPrepareWriteReq_t_def rom_agrees)

lemma r57_attPrepareWriteRsp_t_same [rom_agrees]: "r57_attPrepareWriteRsp_t = l57_attPrepareWriteRsp_t"
  by (simp only: r57_attPrepareWriteRsp_t_def l57_attPrepareWriteRsp_t_def rom_agrees)

lemma r57_attExecuteWriteReq_t_same [rom_agrees]: "r57_attExecuteWriteReq_t = l57_attExecuteWriteReq_t"
  by (simp only: r57_attExecuteWriteReq_t_def l57_attExecuteWriteReq_t_def rom_agrees)

lemma r57_attHandleValueNoti_t_same [rom_agrees]: "r57_attHandleValueNoti_t = l57_attHandleValueNoti_t"
  by (simp only: r57_attHandleValueNoti_t_def l57_attHandleValueNoti_t_def rom_agrees)

lemma r57_attHandleValueInd_t_same [rom_agrees]: "r57_attHandleValueInd_t = l57_attHandleValueInd_t"
  by (simp only: r57_attHandleValueInd_t_def l57_attHandleValueInd_t_def rom_agrees)

lemma r57_attFlowCtrlViolatedEvt_t_same [rom_agrees]: "r57_attFlowCtrlViolatedEvt_t = l57_attFlowCtrlViolatedEvt_t"
  by (simp only: r57_attFlowCtrlViolatedEvt_t_def l57_attFlowCtrlViolatedEvt_t_def rom_agrees)

lemma r57_attMtuUpdatedEvt_t_same [rom_agrees]: "r57_attMtuUpdatedEvt_t = l57_attMtuUpdatedEvt_t"
  by (simp only: r57_attMtuUpdatedEvt_t_def l57_attMtuUpdatedEvt_t_def rom_agrees)

lemma r57_attMsg_t_same [rom_agrees]: "r57_attMsg_t = l57_attMsg_t"
  by (simp only: r57_attMsg_t_def l57_attMsg_t_def rom_agrees)

lemma r57_gattFindByTypeValueReq_t_same [rom_agrees]: "r57_gattFindByTypeValueReq_t = l57_gattFindByTypeValueReq_t"
  by (simp only: r57_gattFindByTypeValueReq_t_def l57_gattFindByTypeValueReq_t_def rom_agrees)

lemma r57_gattReadByTypeReq_t_same [rom_agrees]: "r57_gattReadByTypeReq_t = l57_gattReadByTypeReq_t"
  by (simp only: r57_gattReadByTypeReq_t_def l57_gattReadByTypeReq_t_def rom_agrees)

lemma r57_gattWriteLongReq_t_same [rom_agrees]: "r57_gattWriteLongReq_t = l57_gattWriteLongReq_t"
  by (simp only: r57_gattWriteLongReq_t_def l57_gattWriteLongReq_t_def rom_agrees)

lemma r57_gattReliableWritesReq_t_same [rom_agrees]: "r57_gattReliableWritesReq_t = l57_gattReliableWritesReq_t"
  by (simp only: r57_gattReliableWritesReq_t_def l57_gattReliableWritesReq_t_def rom_agrees)

lemma r57_gattMsg_t_same [rom_agrees]: "r57_gattMsg_t = l57_gattMsg_t"
  by (simp only: r57_gattMsg_t_def l57_gattMsg_t_def rom_agrees)

lemma r57_gattMsgEvent_t_same [rom_agrees]: "r57_gattMsgEvent_t = l57_gattMsgEvent_t"
  by (simp only: r57_gattMsgEvent_t_def l57_gattMsgEvent_t_def rom_agrees)

lemma r57_gattAttrType_t_same [rom_agrees]: "r57_gattAttrType_t = l57_gattAttrType_t"
  by (simp only: r57_gattAttrType_t_def l57_gattAttrType_t_def rom_agrees)

lemma r57_gattAttribute_t_same [rom_agrees]: "r57_gattAttribute_t = l57_gattAttribute_t"
  by (simp only: r57_gattAttribute_t_def l57_gattAttribute_t_def rom_agrees)

lemma r57_gattService_t_same [rom_agrees]: "r57_gattService_t = l57_gattService_t"
  by (simp only: r57_gattService_t_def l57_gattService_t_def rom_agrees)

lemma r57_pfnGATTReadAttrCB_t_same [rom_agrees]: "r57_pfnGATTReadAttrCB_t = l57_pfnGATTReadAttrCB_t"
  by (simp only: r57_pfnGATTReadAttrCB_t_def l57_pfnGATTReadAttrCB_t_def rom_agrees)

lemma r57_pfnGATTWriteAttrCB_t_same [rom_agrees]: "r57_pfnGATTWriteAttrCB_t = l57_pfnGATTWriteAttrCB_t"
  by (simp only: r57_pfnGATTWriteAttrCB_t_def l57_pfnGATTWriteAttrCB_t_def rom_agrees)

lemma r57_pfnGATTAuthorizeAttrCB_t_same [rom_agrees]: "r57_pfnGATTAuthorizeAttrCB_t = l57_pfnGATTAuthorizeAttrCB_t"
  by (simp only: r57_pfnGATTAuthorizeAttrCB_t_def l57_pfnGATTAuthorizeAttrCB_t_def rom_agrees)

lemma r57_gattCharCfg_t_same [rom_agrees]: "r57_gattCharCfg_t = l57_gattCharCfg_t"
  by (simp only: r57_gattCharCfg_t_def l57_gattCharCfg_t_def rom_agrees)

lemma r57_gattServiceCBs_t_same [rom_agrees]: "r57_gattServiceCBs_t = l57_gattServiceCBs_t"
  by (simp only: r57_gattServiceCBs_t_def l57_gattServiceCBs_t_def rom_agrees)

lemma r57_gapEventHdr_t_same [rom_agrees]: "r57_gapEventHdr_t = l57_gapEventHdr_t"
  by (simp only: r57_gapEventHdr_t_def l57_gapEventHdr_t_def rom_agrees)

lemma r57_gapDeviceInitDoneEvent_t_same [rom_agrees]: "r57_gapDeviceInitDoneEvent_t = l57_gapDeviceInitDoneEvent_t"
  by (simp only: r57_gapDeviceInitDoneEvent_t_def l57_gapDeviceInitDoneEvent_t_def rom_agrees)

lemma r57_gapSignUpdateEvent_t_same [rom_agrees]: "r57_gapSignUpdateEvent_t = l57_gapSignUpdateEvent_t"
  by (simp only: r57_gapSignUpdateEvent_t_def l57_gapSignUpdateEvent_t_def rom_agrees)

lemma r57_gapDeviceInfoEvent_t_same [rom_agrees]: "r57_gapDeviceInfoEvent_t = l57_gapDeviceInfoEvent_t"
  by (simp only: r57_gapDeviceInfoEvent_t_def l57_gapDeviceInfoEvent_t_def rom_agrees)

lemma r57_gapDevDiscReq_t_same [rom_agrees]: "r57_gapDevDiscReq_t = l57_gapDevDiscReq_t"
  by (simp only: r57_gapDevDiscReq_t_def l57_gapDevDiscReq_t_def rom_agrees)

lemma r57_gapDevRec_t_same [rom_agrees]: "r57_gapDevRec_t = l57_gapDevRec_t"
  by (simp only: r57_gapDevRec_t_def l57_gapDevRec_t_def rom_agrees)

lemma r57_gapDevDiscEvent_t_same [rom_agrees]: "r57_gapDevDiscEvent_t = l57_gapDevDiscEvent_t"
  by (simp only: r57_gapDevDiscEvent_t_def l57_gapDevDiscEvent_t_def rom_agrees)

lemma r57_gapMakeDiscoverableRspEvent_t_same [rom_agrees]: "r57_gapMakeDiscoverableRspEvent_t = l57_gapMakeDiscoverableRspEvent_t"
  by (simp only: r57_gapMakeDiscoverableRspEvent_t_def l57_gapMakeDiscoverableRspEvent_t_def rom_agrees)

lemma r57_gapEndDiscoverableRspEvent_t_same [rom_agrees]: "r57_gapEndDiscoverableRspEvent_t = l57_gapEndDiscoverableRspEvent_t"
  by (simp only: r57_gapEndDiscoverableRspEvent_t_def l57_gapEndDiscoverableRspEvent_t_def rom_agrees)

lemma r57_gapAdvDataUpdateEvent_t_same [rom_agrees]: "r57_gapAdvDataUpdateEvent_t = l57_gapAdvDataUpdateEvent_t"
  by (simp only: r57_gapAdvDataUpdateEvent_t_def l57_gapAdvDataUpdateEvent_t_def rom_agrees)

lemma r57_gapEstLinkReqEvent_t_same [rom_agrees]: "r57_gapEstLinkReqEvent_t = l57_gapEstLinkReqEvent_t"
  by (simp only: r57_gapEstLinkReqEvent_t_def l57_gapEstLinkReqEvent_t_def rom_agrees)

lemma r57_gapLinkUpdateEvent_t_same [rom_agrees]: "r57_gapLinkUpdateEvent_t = l57_gapLinkUpdateEvent_t"
  by (simp only: r57_gapLinkUpdateEvent_t_def l57_gapLinkUpdateEvent_t_def rom_agrees)

lemma r57_gapTerminateLinkEvent_t_same [rom_agrees]: "r57_gapTerminateLinkEvent_t = l57_gapTerminateLinkEvent_t"
  by (simp only: r57_gapTerminateLinkEvent_t_def l57_gapTerminateLinkEvent_t_def rom_agrees)

lemma r57_gapPasskeyNeededEvent_t_same [rom_agrees]: "r57_gapPasskeyNeededEvent_t = l57_gapPasskeyNeededEvent_t"
  by (simp only: r57_gapPasskeyNeededEvent_t_def l57_gapPasskeyNeededEvent_t_def rom_agrees)

lemma r57_pfnPasscodeCB_t_same [rom_agrees]: "r57_pfnPasscodeCB_t = l57_pfnPasscodeCB_t"
  by (simp only: r57_pfnPasscodeCB_t_def l57_pfnPasscodeCB_t_def rom_agrees)

lemma r57_pfnPairStateCB_t_same [rom_agrees]: "r57_pfnPairStateCB_t = l57_pfnPairStateCB_t"
  by (simp only: r57_pfnPairStateCB_t_def l57_pfnPairStateCB_t_def rom_agrees)

lemma r57_gapBondCBs_t_same [rom_agrees]: "r57_gapBondCBs_t = l57_gapBondCBs_t"
  by (simp only: r57_gapBondCBs_t_def l57_gapBondCBs_t_def rom_agrees)

lemma r57_gapRole_States_t_same [rom_agrees]: "r57_gapRole_States_t = l57_gapRole_States_t"
  by (simp only: r57_gapRole_States_t_def l57_gapRole_States_t_def rom_agrees)

lemma r57_gapRoleEvent_t_same [rom_agrees]: "r57_gapRoleEvent_t = l57_gapRoleEvent_t"
  by (simp only: r57_gapRoleEvent_t_def l57_gapRoleEvent_t_def rom_agrees)

lemma r57_gapScanRec_t_same [rom_agrees]: "r57_gapScanRec_t = l57_gapScanRec_t"
  by (simp only: r57_gapScanRec_t_def l57_gapScanRec_t_def rom_agrees)

lemma r57_gapRolesBroadcasterStateNotify_t_same [rom_agrees]: "r57_gapRolesBroadcasterStateNotify_t = l57_gapRolesBroadcasterStateNotify_t"
  by (simp only: r57_gapRolesBroadcasterStateNotify_t_def l57_gapRolesBroadcasterStateNotify_t_def rom_agrees)

lemma r57_gapRolesScanReqRecv_t_same [rom_agrees]: "r57_gapRolesScanReqRecv_t = l57_gapRolesScanReqRecv_t"
  by (simp only: r57_gapRolesScanReqRecv_t_def l57_gapRolesScanReqRecv_t_def rom_agrees)

lemma r57_gapRolesBroadcasterCBs_t_same [rom_agrees]: "r57_gapRolesBroadcasterCBs_t = l57_gapRolesBroadcasterCBs_t"
  by (simp only: r57_gapRolesBroadcasterCBs_t_def l57_gapRolesBroadcasterCBs_t_def rom_agrees)

lemma r57_pfnGapObserverRoleEventCB_t_same [rom_agrees]: "r57_pfnGapObserverRoleEventCB_t = l57_pfnGapObserverRoleEventCB_t"
  by (simp only: r57_pfnGapObserverRoleEventCB_t_def l57_pfnGapObserverRoleEventCB_t_def rom_agrees)

lemma r57_gapRoleObserverCB_t_same [rom_agrees]: "r57_gapRoleObserverCB_t = l57_gapRoleObserverCB_t"
  by (simp only: r57_gapRoleObserverCB_t_def l57_gapRoleObserverCB_t_def rom_agrees)

lemma r57_gapRolesRssiRead_t_same [rom_agrees]: "r57_gapRolesRssiRead_t = l57_gapRolesRssiRead_t"
  by (simp only: r57_gapRolesRssiRead_t_def l57_gapRolesRssiRead_t_def rom_agrees)

lemma r57_gapRolesStateNotify_t_same [rom_agrees]: "r57_gapRolesStateNotify_t = l57_gapRolesStateNotify_t"
  by (simp only: r57_gapRolesStateNotify_t_def l57_gapRolesStateNotify_t_def rom_agrees)

lemma r57_gapRolesParamUpdateCB_t_same [rom_agrees]: "r57_gapRolesParamUpdateCB_t = l57_gapRolesParamUpdateCB_t"
  by (simp only: r57_gapRolesParamUpdateCB_t_def l57_gapRolesParamUpdateCB_t_def rom_agrees)

lemma r57_gapRolesCBs_t_same [rom_agrees]: "r57_gapRolesCBs_t = l57_gapRolesCBs_t"
  by (simp only: r57_gapRolesCBs_t_def l57_gapRolesCBs_t_def rom_agrees)

lemma r57_pfnGapCentralRoleEventCB_t_same [rom_agrees]: "r57_pfnGapCentralRoleEventCB_t = l57_pfnGapCentralRoleEventCB_t"
  by (simp only: r57_pfnGapCentralRoleEventCB_t_def l57_pfnGapCentralRoleEventCB_t_def rom_agrees)

lemma r57_pfnHciDataLenChangeEvCB_t_same [rom_agrees]: "r57_pfnHciDataLenChangeEvCB_t = l57_pfnHciDataLenChangeEvCB_t"
  by (simp only: r57_pfnHciDataLenChangeEvCB_t_def l57_pfnHciDataLenChangeEvCB_t_def rom_agrees)

lemma r57_gapCentralRoleCB_t_same [rom_agrees]: "r57_gapCentralRoleCB_t = l57_gapCentralRoleCB_t"
  by (simp only: r57_gapCentralRoleCB_t_def l57_gapCentralRoleCB_t_def rom_agrees)

lemma r57_pfnRFStatusCB_t_same [rom_agrees]: "r57_pfnRFStatusCB_t = l57_pfnRFStatusCB_t"
  by (simp only: r57_pfnRFStatusCB_t_def l57_pfnRFStatusCB_t_def rom_agrees)

lemma r57_rfConfig_t_same [rom_agrees]: "r57_rfConfig_t = l57_rfConfig_t"
  by (simp only: r57_rfConfig_t_def l57_rfConfig_t_def rom_agrees)

lemma r58_c_TRUE_same [rom_agrees]: "r58_c_TRUE = l58_c_TRUE"
  by (simp only: r58_c_TRUE_def l58_c_TRUE_def)

lemma r58_c_SYS_EVENT_MSG_same [rom_agrees]: "r58_c_SYS_EVENT_MSG = l58_c_SYS_EVENT_MSG"
  by (simp only: r58_c_SYS_EVENT_MSG_def l58_c_SYS_EVENT_MSG_def)

lemma r58_c_SYSTEM_TIME_MICROSEN_same [rom_agrees]: "r58_c_SYSTEM_TIME_MICROSEN = l58_c_SYSTEM_TIME_MICROSEN"
  by (simp only: r58_c_SYSTEM_TIME_MICROSEN_def l58_c_SYSTEM_TIME_MICROSEN_def)

lemma r58_c_LL_TX_POWEER_MINUS_16_DBM_same [rom_agrees]: "r58_c_LL_TX_POWEER_MINUS_16_DBM = l58_c_LL_TX_POWEER_MINUS_16_DBM"
  by (simp only: r58_c_LL_TX_POWEER_MINUS_16_DBM_def l58_c_LL_TX_POWEER_MINUS_16_DBM_def)

lemma r58_c_bleInvalidTaskID_same [rom_agrees]: "r58_c_bleInvalidTaskID = l58_c_bleInvalidTaskID"
  by (simp only: r58_c_bleInvalidTaskID_def l58_c_bleInvalidTaskID_def)

lemma r58_c_INVALID_CONNHANDLE_same [rom_agrees]: "r58_c_INVALID_CONNHANDLE = l58_c_INVALID_CONNHANDLE"
  by (simp only: r58_c_INVALID_CONNHANDLE_def l58_c_INVALID_CONNHANDLE_def)

lemma r58_c_GAP_SERVICE_UUID_same [rom_agrees]: "r58_c_GAP_SERVICE_UUID = l58_c_GAP_SERVICE_UUID"
  by (simp only: r58_c_GAP_SERVICE_UUID_def l58_c_GAP_SERVICE_UUID_def)

lemma r58_c_GATT_PRIMARY_SERVICE_UUID_same [rom_agrees]: "r58_c_GATT_PRIMARY_SERVICE_UUID = l58_c_GATT_PRIMARY_SERVICE_UUID"
  by (simp only: r58_c_GATT_PRIMARY_SERVICE_UUID_def l58_c_GATT_PRIMARY_SERVICE_UUID_def)

lemma r58_c_GATT_CHAR_EXT_PROPS_UUID_same [rom_agrees]: "r58_c_GATT_CHAR_EXT_PROPS_UUID = l58_c_GATT_CHAR_EXT_PROPS_UUID"
  by (simp only: r58_c_GATT_CHAR_EXT_PROPS_UUID_def l58_c_GATT_CHAR_EXT_PROPS_UUID_def)

lemma r58_c_DEVICE_NAME_UUID_same [rom_agrees]: "r58_c_DEVICE_NAME_UUID = l58_c_DEVICE_NAME_UUID"
  by (simp only: r58_c_DEVICE_NAME_UUID_def l58_c_DEVICE_NAME_UUID_def)

lemma r58_c_IMMEDIATE_ALERT_SERV_UUID_same [rom_agrees]: "r58_c_IMMEDIATE_ALERT_SERV_UUID = l58_c_IMMEDIATE_ALERT_SERV_UUID"
  by (simp only: r58_c_IMMEDIATE_ALERT_SERV_UUID_def l58_c_IMMEDIATE_ALERT_SERV_UUID_def)

lemma r58_c_ALERT_LEVEL_UUID_same [rom_agrees]: "r58_c_ALERT_LEVEL_UUID = l58_c_ALERT_LEVEL_UUID"
  by (simp only: r58_c_ALERT_LEVEL_UUID_def l58_c_ALERT_LEVEL_UUID_def)

lemma r58_c_SUP_UNREAD_ALERT_CAT_UUID_same [rom_agrees]: "r58_c_SUP_UNREAD_ALERT_CAT_UUID = l58_c_SUP_UNREAD_ALERT_CAT_UUID"
  by (simp only: r58_c_SUP_UNREAD_ALERT_CAT_UUID_def l58_c_SUP_UNREAD_ALERT_CAT_UUID_def)

lemma r58_c_GATT_UNITLESS_UUID_same [rom_agrees]: "r58_c_GATT_UNITLESS_UUID = l58_c_GATT_UNITLESS_UUID"
  by (simp only: r58_c_GATT_UNITLESS_UUID_def l58_c_GATT_UNITLESS_UUID_def)

lemma r58_c_GATT_UNIT_ANGULAR_VELOCITY_RPM_UUID_same [rom_agrees]: "r58_c_GATT_UNIT_ANGULAR_VELOCITY_RPM_UUID = l58_c_GATT_UNIT_ANGULAR_VELOCITY_RPM_UUID"
  by (simp only: r58_c_GATT_UNIT_ANGULAR_VELOCITY_RPM_UUID_def l58_c_GATT_UNIT_ANGULAR_VELOCITY_RPM_UUID_def)

lemma r58_c_GATT_MSG_EVENT_same [rom_agrees]: "r58_c_GATT_MSG_EVENT = l58_c_GATT_MSG_EVENT"
  by (simp only: r58_c_GATT_MSG_EVENT_def l58_c_GATT_MSG_EVENT_def)

lemma r58_c_ATT_ERR_INVALID_VALUE_same [rom_agrees]: "r58_c_ATT_ERR_INVALID_VALUE = l58_c_ATT_ERR_INVALID_VALUE"
  by (simp only: r58_c_ATT_ERR_INVALID_VALUE_def l58_c_ATT_ERR_INVALID_VALUE_def)

lemma r58_c_ATT_FLOW_CTRL_VIOLATED_EVENT_same [rom_agrees]: "r58_c_ATT_FLOW_CTRL_VIOLATED_EVENT = l58_c_ATT_FLOW_CTRL_VIOLATED_EVENT"
  by (simp only: r58_c_ATT_FLOW_CTRL_VIOLATED_EVENT_def l58_c_ATT_FLOW_CTRL_VIOLATED_EVENT_def)

lemma r58_c_ATT_BT_UUID_SIZE_same [rom_agrees]: "r58_c_ATT_BT_UUID_SIZE = l58_c_ATT_BT_UUID_SIZE"
  by (simp only: r58_c_ATT_BT_UUID_SIZE_def l58_c_ATT_BT_UUID_SIZE_def)

lemma r58_c_GATT_PERMIT_READ_same [rom_agrees]: "r58_c_GATT_PERMIT_READ = l58_c_GATT_PERMIT_READ"
  by (simp only: r58_c_GATT_PERMIT_READ_def l58_c_GATT_PERMIT_READ_def)

lemma r58_c_GATT_CONNECT_NUM_same [rom_agrees]: "r58_c_GATT_CONNECT_NUM = l58_c_GATT_CONNECT_NUM"
  by (simp only: r58_c_GATT_CONNECT_NUM_def l58_c_GATT_CONNECT_NUM_def)

lemma r58_c_GAP_DEVICE_INIT_DONE_EVENT_same [rom_agrees]: "r58_c_GAP_DEVICE_INIT_DONE_EVENT = l58_c_GAP_DEVICE_INIT_DONE_EVENT"
  by (simp only: r58_c_GAP_DEVICE_INIT_DONE_EVENT_def l58_c_GAP_DEVICE_INIT_DONE_EVENT_def)

lemma r58_c_GAP_CONNHANDLE_INIT_same [rom_agrees]: "r58_c_GAP_CONNHANDLE_INIT = l58_c_GAP_CONNHANDLE_INIT"
  by (simp only: r58_c_GAP_CONNHANDLE_INIT_def l58_c_GAP_CONNHANDLE_INIT_def)

lemma r58_c_GAP_PRIVACY_DISABLED_same [rom_agrees]: "r58_c_GAP_PRIVACY_DISABLED = l58_c_GAP_PRIVACY_DISABLED"
  by (simp only: r58_c_GAP_PRIVACY_DISABLED_def l58_c_GAP_PRIVACY_DISABLED_def)

lemma r58_c_TGAP_GEN_DISC_ADV_MIN_same [rom_agrees]: "r58_c_TGAP_GEN_DISC_ADV_MIN = l58_c_TGAP_GEN_DISC_ADV_MIN"
  by (simp only: r58_c_TGAP_GEN_DISC_ADV_MIN_def l58_c_TGAP_GEN_DISC_ADV_MIN_def)

lemma r58_c_TGAP_CONN_EST_INT_PHY_same [rom_agrees]: "r58_c_TGAP_CONN_EST_INT_PHY = l58_c_TGAP_CONN_EST_INT_PHY"
  by (simp only: r58_c_TGAP_CONN_EST_INT_PHY_def l58_c_TGAP_CONN_EST_INT_PHY_def)

lemma r58_c_GAP_PHY_VAL_LE_1M_same [rom_agrees]: "r58_c_GAP_PHY_VAL_LE_1M = l58_c_GAP_PHY_VAL_LE_1M"
  by (simp only: r58_c_GAP_PHY_VAL_LE_1M_def l58_c_GAP_PHY_VAL_LE_1M_def)

lemma r58_c_GAP_PHY_BIT_LE_1M_same [rom_agrees]: "r58_c_GAP_PHY_BIT_LE_1M = l58_c_GAP_PHY_BIT_LE_1M"
  by (simp only: r58_c_GAP_PHY_BIT_LE_1M_def l58_c_GAP_PHY_BIT_LE_1M_def)

lemma r58_c_GAP_PHY_OPTIONS_NOPRE_same [rom_agrees]: "r58_c_GAP_PHY_OPTIONS_NOPRE = l58_c_GAP_PHY_OPTIONS_NOPRE"
  by (simp only: r58_c_GAP_PHY_OPTIONS_NOPRE_def l58_c_GAP_PHY_OPTIONS_NOPRE_def)

lemma r58_c_GAP_ADRPT_ADV_IND_same [rom_agrees]: "r58_c_GAP_ADRPT_ADV_IND = l58_c_GAP_ADRPT_ADV_IND"
  by (simp only: r58_c_GAP_ADRPT_ADV_IND_def l58_c_GAP_ADRPT_ADV_IND_def)

lemma r58_c_GAP_INIT_SIGN_COUNTER_same [rom_agrees]: "r58_c_GAP_INIT_SIGN_COUNTER = l58_c_GAP_INIT_SIGN_COUNTER"
  by (simp only: r58_c_GAP_INIT_SIGN_COUNTER_def l58_c_GAP_INIT_SIGN_COUNTER_def)

lemma r58_c_GAP_ADTYPE_FLAGS_GENERAL_same [rom_agrees]: "r58_c_GAP_ADTYPE_FLAGS_GENERAL = l58_c_GAP_ADTYPE_FLAGS_GENERAL"
  by (simp only: r58_c_GAP_ADTYPE_FLAGS_GENERAL_def l58_c_GAP_ADTYPE_FLAGS_GENERAL_def)

lemma r58_c_GAPROLE_PROFILEROLE_same [rom_agrees]: "r58_c_GAPROLE_PROFILEROLE = l58_c_GAPROLE_PROFILEROLE"
  by (simp only: r58_c_GAPROLE_PROFILEROLE_def l58_c_GAPROLE_PROFILEROLE_def)

lemma r58_c_GAPBOND_PERI_PAIRING_MODE_same [rom_agrees]: "r58_c_GAPBOND_PERI_PAIRING_MODE = l58_c_GAPBOND_PERI_PAIRING_MODE"
  by (simp only: r58_c_GAPBOND_PERI_PAIRING_MODE_def l58_c_GAPBOND_PERI_PAIRING_MODE_def)

lemma r58_c_GAPBOND_PAIRING_STATE_BONDED_same [rom_agrees]: "r58_c_GAPBOND_PAIRING_STATE_BONDED = l58_c_GAPBOND_PAIRING_STATE_BONDED"
  by (simp only: r58_c_GAPBOND_PAIRING_STATE_BONDED_def l58_c_GAPBOND_PAIRING_STATE_BONDED_def)

lemma r58_c_BLE_NVID_GATT_CFG_START_same [rom_agrees]: "r58_c_BLE_NVID_GATT_CFG_START = l58_c_BLE_NVID_GATT_CFG_START"
  by (simp only: r58_c_BLE_NVID_GATT_CFG_START_def l58_c_BLE_NVID_GATT_CFG_START_def)

lemma r58_c_BLE_NVID_MAX_VAL_same [rom_agrees]: "r58_c_BLE_NVID_MAX_VAL = l58_c_BLE_NVID_MAX_VAL"
  by (simp only: r58_c_BLE_NVID_MAX_VAL_def l58_c_BLE_NVID_MAX_VAL_def)

lemma r58_c_GAPROLE_STATE_ADV_MASK_same [rom_agrees]: "r58_c_GAPROLE_STATE_ADV_MASK = l58_c_GAPROLE_STATE_ADV_MASK"
  by (simp only: r58_c_GAPROLE_STATE_ADV_MASK_def l58_c_GAPROLE_STATE_ADV_MASK_def)

lemma r58_c_GAPROLE_STATE_PERIODIC_MASK_same [rom_agrees]: "r58_c_GAPROLE_STATE_PERIODIC_MASK = l58_c_GAPROLE_STATE_PERIODIC_MASK"
  by (simp only: r58_c_GAPROLE_STATE_PERIODIC_MASK_def l58_c_GAPROLE_STATE_PERIODIC_MASK_def)

lemma r58_c_GAPROLE_PERIODIC_STATE_VALID_same [rom_agrees]: "r58_c_GAPROLE_PERIODIC_STATE_VALID = l58_c_GAPROLE_PERIODIC_STATE_VALID"
  by (simp only: r58_c_GAPROLE_PERIODIC_STATE_VALID_def l58_c_GAPROLE_PERIODIC_STATE_VALID_def)

lemma r58_c_TX_MODE_TX_FINISH_same [rom_agrees]: "r58_c_TX_MODE_TX_FINISH = l58_c_TX_MODE_TX_FINISH"
  by (simp only: r58_c_TX_MODE_TX_FINISH_def l58_c_TX_MODE_TX_FINISH_def)

lemma r58_c_RX_MODE_TX_FINISH_same [rom_agrees]: "r58_c_RX_MODE_TX_FINISH = l58_c_RX_MODE_TX_FINISH"
  by (simp only: r58_c_RX_MODE_TX_FINISH_def l58_c_RX_MODE_TX_FINISH_def)

lemma r58_int8_same [rom_agrees]: "r58_int8 = l58_int8"
  by (simp only: r58_int8_def l58_int8_def rom_agrees)

lemma r58_int16_same [rom_agrees]: "r58_int16 = l58_int16"
  by (simp only: r58_int16_def l58_int16_def rom_agrees)

lemma r58_BOOL_same [rom_agrees]: "r58_BOOL = l58_BOOL"
  by (simp only: r58_BOOL_def l58_BOOL_def rom_agrees)

lemma r58_s8_same [rom_agrees]: "r58_s8 = l58_s8"
  by (simp only: r58_s8_def l58_s8_def rom_agrees)

lemma r58_s16_same [rom_agrees]: "r58_s16 = l58_s16"
  by (simp only: r58_s16_def l58_s16_def rom_agrees)

lemma r58_s32_same [rom_agrees]: "r58_s32 = l58_s32"
  by (simp only: r58_s32_def l58_s32_def rom_agrees)

lemma r58_u8_same [rom_agrees]: "r58_u8 = l58_u8"
  by (simp only: r58_u8_def l58_u8_def rom_agrees)

lemma r58_u16_same [rom_agrees]: "r58_u16 = l58_u16"
  by (simp only: r58_u16_def l58_u16_def rom_agrees)

lemma r58_u32_same [rom_agrees]: "r58_u32 = l58_u32"
  by (simp only: r58_u32_def l58_u32_def rom_agrees)

lemma r58_u64_same [rom_agrees]: "r58_u64 = l58_u64"
  by (simp only: r58_u64_def l58_u64_def rom_agrees)

lemma r58_u8C_same [rom_agrees]: "r58_u8C = l58_u8C"
  by (simp only: r58_u8C_def l58_u8C_def rom_agrees)

lemma r58_u8V_same [rom_agrees]: "r58_u8V = l58_u8V"
  by (simp only: r58_u8V_def l58_u8V_def rom_agrees)

lemma r58_u32V_same [rom_agrees]: "r58_u32V = l58_u32V"
  by (simp only: r58_u32V_def l58_u32V_def rom_agrees)

lemma r58_uint8_same [rom_agrees]: "r58_uint8 = l58_uint8"
  by (simp only: r58_uint8_def l58_uint8_def rom_agrees)

lemma r58_uint16_same [rom_agrees]: "r58_uint16 = l58_uint16"
  by (simp only: r58_uint16_def l58_uint16_def rom_agrees)

lemma r58_uint32_same [rom_agrees]: "r58_uint32 = l58_uint32"
  by (simp only: r58_uint32_def l58_uint32_def rom_agrees)

lemma r58_bStatus_t_same [rom_agrees]: "r58_bStatus_t = l58_bStatus_t"
  by (simp only: r58_bStatus_t_def l58_bStatus_t_def rom_agrees)

lemma r58_tmosTaskID_same [rom_agrees]: "r58_tmosTaskID = l58_tmosTaskID"
  by (simp only: r58_tmosTaskID_def l58_tmosTaskID_def rom_agrees)

lemma r58_tmosEvents_same [rom_agrees]: "r58_tmosEvents = l58_tmosEvents"
  by (simp only: r58_tmosEvents_def l58_tmosEvents_def rom_agrees)

lemma r58_tmosTimer_same [rom_agrees]: "r58_tmosTimer = l58_tmosTimer"
  by (simp only: r58_tmosTimer_def l58_tmosTimer_def rom_agrees)

lemma r58_tmosSnvId_t_same [rom_agrees]: "r58_tmosSnvId_t = l58_tmosSnvId_t"
  by (simp only: r58_tmosSnvId_t_def l58_tmosSnvId_t_def rom_agrees)

lemma r58_tmosSnvLen_t_same [rom_agrees]: "r58_tmosSnvLen_t = l58_tmosSnvLen_t"
  by (simp only: r58_tmosSnvLen_t_def l58_tmosSnvLen_t_def rom_agrees)

lemma r58_pfnSrandCB_same [rom_agrees]: "r58_pfnSrandCB = l58_pfnSrandCB"
  by (simp only: r58_pfnSrandCB_def l58_pfnSrandCB_def rom_agrees)

lemma r58_pfnIdleCB_same [rom_agrees]: "r58_pfnIdleCB = l58_pfnIdleCB"
  by (simp only: r58_pfnIdleCB_def l58_pfnIdleCB_def rom_agrees)

lemma r58_pfnLSICalibrationCB_same [rom_agrees]: "r58_pfnLSICalibrationCB = l58_pfnLSICalibrationCB"
  by (simp only: r58_pfnLSICalibrationCB_def l58_pfnLSICalibrationCB_def rom_agrees)

lemma r58_pfnTempSampleCB_same [rom_agrees]: "r58_pfnTempSampleCB = l58_pfnTempSampleCB"
  by (simp only: r58_pfnTempSampleCB_def l58_pfnTempSampleCB_def rom_agrees)

lemma r58_pfnEventCB_same [rom_agrees]: "r58_pfnEventCB = l58_pfnEventCB"
  by (simp only: r58_pfnEventCB_def l58_pfnEventCB_def rom_agrees)

lemma r58_pfnLibStatusErrorCB_same [rom_agrees]: "r58_pfnLibStatusErrorCB = l58_pfnLibStatusErrorCB"
  by (simp only: r58_pfnLibStatusErrorCB_def l58_pfnLibStatusErrorCB_def rom_agrees)

lemma r58_pTaskEventHandlerFn_same [rom_agrees]: "r58_pTaskEventHandlerFn = l58_pTaskEventHandlerFn"
  by (simp only: r58_pTaskEventHandlerFn_def l58_pTaskEventHandlerFn_def rom_agrees)

lemma r58_pfnFlashReadCB_same [rom_agrees]: "r58_pfnFlashReadCB = l58_pfnFlashReadCB"
  by (simp only: r58_pfnFlashReadCB_def l58_pfnFlashReadCB_def rom_agrees)

lemma r58_pfnFlashWriteCB_same [rom_agrees]: "r58_pfnFlashWriteCB = l58_pfnFlashWriteCB"
  by (simp only: r58_pfnFlashWriteCB_def l58_pfnFlashWriteCB_def rom_agrees)

lemma r58_pfnGetSysClock_same [rom_agrees]: "r58_pfnGetSysClock = l58_pfnGetSysClock"
  by (simp only: r58_pfnGetSysClock_def l58_pfnGetSysClock_def rom_agrees)

lemma r58_bleConfig_t_same [rom_agrees]: "r58_bleConfig_t = l58_bleConfig_t"
  by (simp only: r58_bleConfig_t_def l58_bleConfig_t_def rom_agrees)

lemma r58_blePaControlConfig_t_same [rom_agrees]: "r58_blePaControlConfig_t = l58_blePaControlConfig_t"
  by (simp only: r58_blePaControlConfig_t_def l58_blePaControlConfig_t_def rom_agrees)

lemma r58_tmos_event_hdr_t_same [rom_agrees]: "r58_tmos_event_hdr_t = l58_tmos_event_hdr_t"
  by (simp only: r58_tmos_event_hdr_t_def l58_tmos_event_hdr_t_def rom_agrees)

lemma r58_gapBondLTK_t_same [rom_agrees]: "r58_gapBondLTK_t = l58_gapBondLTK_t"
  by (simp only: r58_gapBondLTK_t_def l58_gapBondLTK_t_def rom_agrees)

lemma r58_gapBondRec_t_same [rom_agrees]: "r58_gapBondRec_t = l58_gapBondRec_t"
  by (simp only: r58_gapBondRec_t_def l58_gapBondRec_t_def rom_agrees)

lemma r58_gapBondCharCfg_t_same [rom_agrees]: "r58_gapBondCharCfg_t = l58_gapBondCharCfg_t"
  by (simp only: r58_gapBondCharCfg_t_def l58_gapBondCharCfg_t_def rom_agrees)

lemma r58_linkSec_t_same [rom_agrees]: "r58_linkSec_t = l58_linkSec_t"
  by (simp only: r58_linkSec_t_def l58_linkSec_t_def rom_agrees)

lemma r58_encParams_t_same [rom_agrees]: "r58_encParams_t = l58_encParams_t"
  by (simp only: r58_encParams_t_def l58_encParams_t_def rom_agrees)

lemma r58_linkDBItem_t_same [rom_agrees]: "r58_linkDBItem_t = l58_linkDBItem_t"
  by (simp only: r58_linkDBItem_t_def l58_linkDBItem_t_def rom_agrees)

lemma r58_pfnLinkDBCB_t_same [rom_agrees]: "r58_pfnLinkDBCB_t = l58_pfnLinkDBCB_t"
  by (simp only: r58_pfnLinkDBCB_t_def l58_pfnLinkDBCB_t_def rom_agrees)

lemma r58_pfnPerformFuncCB_t_same [rom_agrees]: "r58_pfnPerformFuncCB_t = l58_pfnPerformFuncCB_t"
  by (simp only: r58_pfnPerformFuncCB_t_def l58_pfnPerformFuncCB_t_def rom_agrees)

lemma r58_attAttrType_t_same [rom_agrees]: "r58_attAttrType_t = l58_attAttrType_t"
  by (simp only: r58_attAttrType_t_def l58_attAttrType_t_def rom_agrees)

lemma r58_attAttrBtType_t_same [rom_agrees]: "r58_attAttrBtType_t = l58_attAttrBtType_t"
  by (simp only: r58_attAttrBtType_t_def l58_attAttrBtType_t_def rom_agrees)

lemma r58_attErrorRsp_t_same [rom_agrees]: "r58_attErrorRsp_t = l58_attErrorRsp_t"
  by (simp only: r58_attErrorRsp_t_def l58_attErrorRsp_t_def rom_agrees)

lemma r58_attExchangeMTUReq_t_same [rom_agrees]: "r58_attExchangeMTUReq_t = l58_attExchangeMTUReq_t"
  by (simp only: r58_attExchangeMTUReq_t_def l58_attExchangeMTUReq_t_def rom_agrees)

lemma r58_attExchangeMTURsp_t_same [rom_agrees]: "r58_attExchangeMTURsp_t = l58_attExchangeMTURsp_t"
  by (simp only: r58_attExchangeMTURsp_t_def l58_attExchangeMTURsp_t_def rom_agrees)

lemma r58_attFindInfoReq_t_same [rom_agrees]: "r58_attFindInfoReq_t = l58_attFindInfoReq_t"
  by (simp only: r58_attFindInfoReq_t_def l58_attFindInfoReq_t_def rom_agrees)

lemma r58_attFindInfoRsp_t_same [rom_agrees]: "r58_attFindInfoRsp_t = l58_attFindInfoRsp_t"
  by (simp only: r58_attFindInfoRsp_t_def l58_attFindInfoRsp_t_def rom_agrees)

lemma r58_attFindByTypeValueReq_t_same [rom_agrees]: "r58_attFindByTypeValueReq_t = l58_attFindByTypeValueReq_t"
  by (simp only: r58_attFindByTypeValueReq_t_def l58_attFindByTypeValueReq_t_def rom_agrees)

lemma r58_attFindByTypeValueRsp_t_same [rom_agrees]: "r58_attFindByTypeValueRsp_t = l58_attFindByTypeValueRsp_t"
  by (simp only: r58_attFindByTypeValueRsp_t_def l58_attFindByTypeValueRsp_t_def rom_agrees)

lemma r58_attReadByTypeReq_t_same [rom_agrees]: "r58_attReadByTypeReq_t = l58_attReadByTypeReq_t"
  by (simp only: r58_attReadByTypeReq_t_def l58_attReadByTypeReq_t_def rom_agrees)

lemma r58_attReadByTypeRsp_t_same [rom_agrees]: "r58_attReadByTypeRsp_t = l58_attReadByTypeRsp_t"
  by (simp only: r58_attReadByTypeRsp_t_def l58_attReadByTypeRsp_t_def rom_agrees)

lemma r58_attReadReq_t_same [rom_agrees]: "r58_attReadReq_t = l58_attReadReq_t"
  by (simp only: r58_attReadReq_t_def l58_attReadReq_t_def rom_agrees)

lemma r58_attReadRsp_t_same [rom_agrees]: "r58_attReadRsp_t = l58_attReadRsp_t"
  by (simp only: r58_attReadRsp_t_def l58_attReadRsp_t_def rom_agrees)

lemma r58_attReadBlobReq_t_same [rom_agrees]: "r58_attReadBlobReq_t = l58_attReadBlobReq_t"
  by (simp only: r58_attReadBlobReq_t_def l58_attReadBlobReq_t_def rom_agrees)

lemma r58_attReadBlobRsp_t_same [rom_agrees]: "r58_attReadBlobRsp_t = l58_attReadBlobRsp_t"
  by (simp only: r58_attReadBlobRsp_t_def l58_attReadBlobRsp_t_def rom_agrees)

lemma r58_attReadMultiReq_t_same [rom_agrees]: "r58_attReadMultiReq_t = l58_attReadMultiReq_t"
  by (simp only: r58_attReadMultiReq_t_def l58_attReadMultiReq_t_def rom_agrees)

lemma r58_attReadMultiRsp_t_same [rom_agrees]: "r58_attReadMultiRsp_t = l58_attReadMultiRsp_t"
  by (simp only: r58_attReadMultiRsp_t_def l58_attReadMultiRsp_t_def rom_agrees)

lemma r58_attReadByGrpTypeReq_t_same [rom_agrees]: "r58_attReadByGrpTypeReq_t = l58_attReadByGrpTypeReq_t"
  by (simp only: r58_attReadByGrpTypeReq_t_def l58_attReadByGrpTypeReq_t_def rom_agrees)

lemma r58_attReadByGrpTypeRsp_t_same [rom_agrees]: "r58_attReadByGrpTypeRsp_t = l58_attReadByGrpTypeRsp_t"
  by (simp only: r58_attReadByGrpTypeRsp_t_def l58_attReadByGrpTypeRsp_t_def rom_agrees)

lemma r58_attWriteReq_t_same [rom_agrees]: "r58_attWriteReq_t = l58_attWriteReq_t"
  by (simp only: r58_attWriteReq_t_def l58_attWriteReq_t_def rom_agrees)

lemma r58_attPrepareWriteReq_t_same [rom_agrees]: "r58_attPrepareWriteReq_t = l58_attPrepareWriteReq_t"
  by (simp only: r58_attPrepareWriteReq_t_def l58_attPrepareWriteReq_t_def rom_agrees)

lemma r58_attPrepareWriteRsp_t_same [rom_agrees]: "r58_attPrepareWriteRsp_t = l58_attPrepareWriteRsp_t"
  by (simp only: r58_attPrepareWriteRsp_t_def l58_attPrepareWriteRsp_t_def rom_agrees)

lemma r58_attExecuteWriteReq_t_same [rom_agrees]: "r58_attExecuteWriteReq_t = l58_attExecuteWriteReq_t"
  by (simp only: r58_attExecuteWriteReq_t_def l58_attExecuteWriteReq_t_def rom_agrees)

lemma r58_attHandleValueNoti_t_same [rom_agrees]: "r58_attHandleValueNoti_t = l58_attHandleValueNoti_t"
  by (simp only: r58_attHandleValueNoti_t_def l58_attHandleValueNoti_t_def rom_agrees)

lemma r58_attHandleValueInd_t_same [rom_agrees]: "r58_attHandleValueInd_t = l58_attHandleValueInd_t"
  by (simp only: r58_attHandleValueInd_t_def l58_attHandleValueInd_t_def rom_agrees)

lemma r58_attFlowCtrlViolatedEvt_t_same [rom_agrees]: "r58_attFlowCtrlViolatedEvt_t = l58_attFlowCtrlViolatedEvt_t"
  by (simp only: r58_attFlowCtrlViolatedEvt_t_def l58_attFlowCtrlViolatedEvt_t_def rom_agrees)

lemma r58_attMtuUpdatedEvt_t_same [rom_agrees]: "r58_attMtuUpdatedEvt_t = l58_attMtuUpdatedEvt_t"
  by (simp only: r58_attMtuUpdatedEvt_t_def l58_attMtuUpdatedEvt_t_def rom_agrees)

lemma r58_attMsg_t_same [rom_agrees]: "r58_attMsg_t = l58_attMsg_t"
  by (simp only: r58_attMsg_t_def l58_attMsg_t_def rom_agrees)

lemma r58_gattFindByTypeValueReq_t_same [rom_agrees]: "r58_gattFindByTypeValueReq_t = l58_gattFindByTypeValueReq_t"
  by (simp only: r58_gattFindByTypeValueReq_t_def l58_gattFindByTypeValueReq_t_def rom_agrees)

lemma r58_gattReadByTypeReq_t_same [rom_agrees]: "r58_gattReadByTypeReq_t = l58_gattReadByTypeReq_t"
  by (simp only: r58_gattReadByTypeReq_t_def l58_gattReadByTypeReq_t_def rom_agrees)

lemma r58_gattWriteLongReq_t_same [rom_agrees]: "r58_gattWriteLongReq_t = l58_gattWriteLongReq_t"
  by (simp only: r58_gattWriteLongReq_t_def l58_gattWriteLongReq_t_def rom_agrees)

lemma r58_gattReliableWritesReq_t_same [rom_agrees]: "r58_gattReliableWritesReq_t = l58_gattReliableWritesReq_t"
  by (simp only: r58_gattReliableWritesReq_t_def l58_gattReliableWritesReq_t_def rom_agrees)

lemma r58_gattMsg_t_same [rom_agrees]: "r58_gattMsg_t = l58_gattMsg_t"
  by (simp only: r58_gattMsg_t_def l58_gattMsg_t_def rom_agrees)

lemma r58_gattMsgEvent_t_same [rom_agrees]: "r58_gattMsgEvent_t = l58_gattMsgEvent_t"
  by (simp only: r58_gattMsgEvent_t_def l58_gattMsgEvent_t_def rom_agrees)

lemma r58_gattAttrType_t_same [rom_agrees]: "r58_gattAttrType_t = l58_gattAttrType_t"
  by (simp only: r58_gattAttrType_t_def l58_gattAttrType_t_def rom_agrees)

lemma r58_gattAttribute_t_same [rom_agrees]: "r58_gattAttribute_t = l58_gattAttribute_t"
  by (simp only: r58_gattAttribute_t_def l58_gattAttribute_t_def rom_agrees)

lemma r58_gattService_t_same [rom_agrees]: "r58_gattService_t = l58_gattService_t"
  by (simp only: r58_gattService_t_def l58_gattService_t_def rom_agrees)

lemma r58_pfnGATTReadAttrCB_t_same [rom_agrees]: "r58_pfnGATTReadAttrCB_t = l58_pfnGATTReadAttrCB_t"
  by (simp only: r58_pfnGATTReadAttrCB_t_def l58_pfnGATTReadAttrCB_t_def rom_agrees)

lemma r58_pfnGATTWriteAttrCB_t_same [rom_agrees]: "r58_pfnGATTWriteAttrCB_t = l58_pfnGATTWriteAttrCB_t"
  by (simp only: r58_pfnGATTWriteAttrCB_t_def l58_pfnGATTWriteAttrCB_t_def rom_agrees)

lemma r58_pfnGATTAuthorizeAttrCB_t_same [rom_agrees]: "r58_pfnGATTAuthorizeAttrCB_t = l58_pfnGATTAuthorizeAttrCB_t"
  by (simp only: r58_pfnGATTAuthorizeAttrCB_t_def l58_pfnGATTAuthorizeAttrCB_t_def rom_agrees)

lemma r58_gattCharCfg_t_same [rom_agrees]: "r58_gattCharCfg_t = l58_gattCharCfg_t"
  by (simp only: r58_gattCharCfg_t_def l58_gattCharCfg_t_def rom_agrees)

lemma r58_gattServiceCBs_t_same [rom_agrees]: "r58_gattServiceCBs_t = l58_gattServiceCBs_t"
  by (simp only: r58_gattServiceCBs_t_def l58_gattServiceCBs_t_def rom_agrees)

lemma r58_gapEventHdr_t_same [rom_agrees]: "r58_gapEventHdr_t = l58_gapEventHdr_t"
  by (simp only: r58_gapEventHdr_t_def l58_gapEventHdr_t_def rom_agrees)

lemma r58_gapDeviceInitDoneEvent_t_same [rom_agrees]: "r58_gapDeviceInitDoneEvent_t = l58_gapDeviceInitDoneEvent_t"
  by (simp only: r58_gapDeviceInitDoneEvent_t_def l58_gapDeviceInitDoneEvent_t_def rom_agrees)

lemma r58_gapSignUpdateEvent_t_same [rom_agrees]: "r58_gapSignUpdateEvent_t = l58_gapSignUpdateEvent_t"
  by (simp only: r58_gapSignUpdateEvent_t_def l58_gapSignUpdateEvent_t_def rom_agrees)

lemma r58_gapDeviceInfoEvent_t_same [rom_agrees]: "r58_gapDeviceInfoEvent_t = l58_gapDeviceInfoEvent_t"
  by (simp only: r58_gapDeviceInfoEvent_t_def l58_gapDeviceInfoEvent_t_def rom_agrees)

lemma r58_gapDirectDeviceInfoEvent_t_same [rom_agrees]: "r58_gapDirectDeviceInfoEvent_t = l58_gapDirectDeviceInfoEvent_t"
  by (simp only: r58_gapDirectDeviceInfoEvent_t_def l58_gapDirectDeviceInfoEvent_t_def rom_agrees)

lemma r58_gapExtAdvDeviceInfoEvent_t_same [rom_agrees]: "r58_gapExtAdvDeviceInfoEvent_t = l58_gapExtAdvDeviceInfoEvent_t"
  by (simp only: r58_gapExtAdvDeviceInfoEvent_t_def l58_gapExtAdvDeviceInfoEvent_t_def rom_agrees)

lemma r58_gapDevDiscReq_t_same [rom_agrees]: "r58_gapDevDiscReq_t = l58_gapDevDiscReq_t"
  by (simp only: r58_gapDevDiscReq_t_def l58_gapDevDiscReq_t_def rom_agrees)

lemma r58_gapDevRec_t_same [rom_agrees]: "r58_gapDevRec_t = l58_gapDevRec_t"
  by (simp only: r58_gapDevRec_t_def l58_gapDevRec_t_def rom_agrees)

lemma r58_gapDevDiscEvent_t_same [rom_agrees]: "r58_gapDevDiscEvent_t = l58_gapDevDiscEvent_t"
  by (simp only: r58_gapDevDiscEvent_t_def l58_gapDevDiscEvent_t_def rom_agrees)

lemma r58_gapMakeDiscoverableRspEvent_t_same [rom_agrees]: "r58_gapMakeDiscoverableRspEvent_t = l58_gapMakeDiscoverableRspEvent_t"
  by (simp only: r58_gapMakeDiscoverableRspEvent_t_def l58_gapMakeDiscoverableRspEvent_t_def rom_agrees)

lemma r58_gapEndDiscoverableRspEvent_t_same [rom_agrees]: "r58_gapEndDiscoverableRspEvent_t = l58_gapEndDiscoverableRspEvent_t"
  by (simp only: r58_gapEndDiscoverableRspEvent_t_def l58_gapEndDiscoverableRspEvent_t_def rom_agrees)

lemma r58_gapMakePeriodicRspEvent_t_same [rom_agrees]: "r58_gapMakePeriodicRspEvent_t = l58_gapMakePeriodicRspEvent_t"
  by (simp only: r58_gapMakePeriodicRspEvent_t_def l58_gapMakePeriodicRspEvent_t_def rom_agrees)

lemma r58_gapEndPeriodicRspEvent_t_same [rom_agrees]: "r58_gapEndPeriodicRspEvent_t = l58_gapEndPeriodicRspEvent_t"
  by (simp only: r58_gapEndPeriodicRspEvent_t_def l58_gapEndPeriodicRspEvent_t_def rom_agrees)

lemma r58_gapSyncEstablishedEvent_t_same [rom_agrees]: "r58_gapSyncEstablishedEvent_t = l58_gapSyncEstablishedEvent_t"
  by (simp only: r58_gapSyncEstablishedEvent_t_def l58_gapSyncEstablishedEvent_t_def rom_agrees)

lemma r58_gapPeriodicAdvDeviceInfoEvent_t_same [rom_agrees]: "r58_gapPeriodicAdvDeviceInfoEvent_t = l58_gapPeriodicAdvDeviceInfoEvent_t"
  by (simp only: r58_gapPeriodicAdvDeviceInfoEvent_t_def l58_gapPeriodicAdvDeviceInfoEvent_t_def rom_agrees)

lemma r58_gapSyncLostEvent_t_same [rom_agrees]: "r58_gapSyncLostEvent_t = l58_gapSyncLostEvent_t"
  by (simp only: r58_gapSyncLostEvent_t_def l58_gapSyncLostEvent_t_def rom_agrees)

lemma r58_gapScanReqReseiveEvent_t_same [rom_agrees]: "r58_gapScanReqReseiveEvent_t = l58_gapScanReqReseiveEvent_t"
  by (simp only: r58_gapScanReqReseiveEvent_t_def l58_gapScanReqReseiveEvent_t_def rom_agrees)

lemma r58_gapAdvDataUpdateEvent_t_same [rom_agrees]: "r58_gapAdvDataUpdateEvent_t = l58_gapAdvDataUpdateEvent_t"
  by (simp only: r58_gapAdvDataUpdateEvent_t_def l58_gapAdvDataUpdateEvent_t_def rom_agrees)

lemma r58_gapEstLinkReqEvent_t_same [rom_agrees]: "r58_gapEstLinkReqEvent_t = l58_gapEstLinkReqEvent_t"
  by (simp only: r58_gapEstLinkReqEvent_t_def l58_gapEstLinkReqEvent_t_def rom_agrees)

lemma r58_gapLinkUpdateEvent_t_same [rom_agrees]: "r58_gapLinkUpdateEvent_t = l58_gapLinkUpdateEvent_t"
  by (simp only: r58_gapLinkUpdateEvent_t_def l58_gapLinkUpdateEvent_t_def rom_agrees)

lemma r58_gapTerminateLinkEvent_t_same [rom_agrees]: "r58_gapTerminateLinkEvent_t = l58_gapTerminateLinkEvent_t"
  by (simp only: r58_gapTerminateLinkEvent_t_def l58_gapTerminateLinkEvent_t_def rom_agrees)

lemma r58_gapPhyUpdateEvent_t_same [rom_agrees]: "r58_gapPhyUpdateEvent_t = l58_gapPhyUpdateEvent_t"
  by (simp only: r58_gapPhyUpdateEvent_t_def l58_gapPhyUpdateEvent_t_def rom_agrees)

lemma r58_gapPasskeyNeededEvent_t_same [rom_agrees]: "r58_gapPasskeyNeededEvent_t = l58_gapPasskeyNeededEvent_t"
  by (simp only: r58_gapPasskeyNeededEvent_t_def l58_gapPasskeyNeededEvent_t_def rom_agrees)

lemma r58_pfnPasscodeCB_t_same [rom_agrees]: "r58_pfnPasscodeCB_t = l58_pfnPasscodeCB_t"
  by (simp only: r58_pfnPasscodeCB_t_def l58_pfnPasscodeCB_t_def rom_agrees)

lemma r58_pfnPairStateCB_t_same [rom_agrees]: "r58_pfnPairStateCB_t = l58_pfnPairStateCB_t"
  by (simp only: r58_pfnPairStateCB_t_def l58_pfnPairStateCB_t_def rom_agrees)

lemma r58_gapBondCBs_t_same [rom_agrees]: "r58_gapBondCBs_t = l58_gapBondCBs_t"
  by (simp only: r58_gapBondCBs_t_def l58_gapBondCBs_t_def rom_agrees)

lemma r58_gapRole_States_t_same [rom_agrees]: "r58_gapRole_States_t = l58_gapRole_States_t"
  by (simp only: r58_gapRole_States_t_def l58_gapRole_States_t_def rom_agrees)

lemma r58_gapRoleEvent_t_same [rom_agrees]: "r58_gapRoleEvent_t = l58_gapRoleEvent_t"
  by (simp only: r58_gapRoleEvent_t_def l58_gapRoleEvent_t_def rom_agrees)

lemma r58_gapScanRec_t_same [rom_agrees]: "r58_gapScanRec_t = l58_gapScanRec_t"
  by (simp only: r58_gapScanRec_t_def l58_gapScanRec_t_def rom_agrees)

lemma r58_gapCreateSync_t_same [rom_agrees]: "r58_gapCreateSync_t = l58_gapCreateSync_t"
  by (simp only: r58_gapCreateSync_t_def l58_gapCreateSync_t_def rom_agrees)

lemma r58_gapRoleSetPathLossReporting_t_same [rom_agrees]: "r58_gapRoleSetPathLossReporting_t = l58_gapRoleSetPathLossReporting_t"
  by (simp only: r58_gapRoleSetPathLossReporting_t_def l58_gapRoleSetPathLossReporting_t_def rom_agrees)

lemma r58_gapRolePowerlevelManagement_t_same [rom_agrees]: "r58_gapRolePowerlevelManagement_t = l58_gapRolePowerlevelManagement_t"
  by (simp only: r58_gapRolePowerlevelManagement_t_def l58_gapRolePowerlevelManagement_t_def rom_agrees)

lemma r58_gapRolesBroadcasterStateNotify_t_same [rom_agrees]: "r58_gapRolesBroadcasterStateNotify_t = l58_gapRolesBroadcasterStateNotify_t"
  by (simp only: r58_gapRolesBroadcasterStateNotify_t_def l58_gapRolesBroadcasterStateNotify_t_def rom_agrees)

lemma r58_gapRolesScanReqRecv_t_same [rom_agrees]: "r58_gapRolesScanReqRecv_t = l58_gapRolesScanReqRecv_t"
  by (simp only: r58_gapRolesScanReqRecv_t_def l58_gapRolesScanReqRecv_t_def rom_agrees)

lemma r58_gapRolesBroadcasterCBs_t_same [rom_agrees]: "r58_gapRolesBroadcasterCBs_t = l58_gapRolesBroadcasterCBs_t"
  by (simp only: r58_gapRolesBroadcasterCBs_t_def l58_gapRolesBroadcasterCBs_t_def rom_agrees)

lemma r58_pfnGapObserverRoleEventCB_t_same [rom_agrees]: "r58_pfnGapObserverRoleEventCB_t = l58_pfnGapObserverRoleEventCB_t"
  by (simp only: r58_pfnGapObserverRoleEventCB_t_def l58_pfnGapObserverRoleEventCB_t_def rom_agrees)

lemma r58_gapRoleObserverCB_t_same [rom_agrees]: "r58_gapRoleObserverCB_t = l58_gapRoleObserverCB_t"
  by (simp only: r58_gapRoleObserverCB_t_def l58_gapRoleObserverCB_t_def rom_agrees)

lemma r58_gapRolesRssiRead_t_same [rom_agrees]: "r58_gapRolesRssiRead_t = l58_gapRolesRssiRead_t"
  by (simp only: r58_gapRolesRssiRead_t_def l58_gapRolesRssiRead_t_def rom_agrees)

lemma r58_gapRolesStateNotify_t_same [rom_agrees]: "r58_gapRolesStateNotify_t = l58_gapRolesStateNotify_t"
  by (simp only: r58_gapRolesStateNotify_t_def l58_gapRolesStateNotify_t_def rom_agrees)

lemma r58_gapRolesParamUpdateCB_t_same [rom_agrees]: "r58_gapRolesParamUpdateCB_t = l58_gapRolesParamUpdateCB_t"
  by (simp only: r58_gapRolesParamUpdateCB_t_def l58_gapRolesParamUpdateCB_t_def rom_agrees)

lemma r58_gapRolesCBs_t_same [rom_agrees]: "r58_gapRolesCBs_t = l58_gapRolesCBs_t"
  by (simp only: r58_gapRolesCBs_t_def l58_gapRolesCBs_t_def rom_agrees)

lemma r58_pfnGapCentralRoleEventCB_t_same [rom_agrees]: "r58_pfnGapCentralRoleEventCB_t = l58_pfnGapCentralRoleEventCB_t"
  by (simp only: r58_pfnGapCentralRoleEventCB_t_def l58_pfnGapCentralRoleEventCB_t_def rom_agrees)

lemma r58_pfnHciDataLenChangeEvCB_t_same [rom_agrees]: "r58_pfnHciDataLenChangeEvCB_t = l58_pfnHciDataLenChangeEvCB_t"
  by (simp only: r58_pfnHciDataLenChangeEvCB_t_def l58_pfnHciDataLenChangeEvCB_t_def rom_agrees)

lemma r58_gapCentralRoleCB_t_same [rom_agrees]: "r58_gapCentralRoleCB_t = l58_gapCentralRoleCB_t"
  by (simp only: r58_gapCentralRoleCB_t_def l58_gapCentralRoleCB_t_def rom_agrees)

lemma r58_pfnRFStatusCB_t_same [rom_agrees]: "r58_pfnRFStatusCB_t = l58_pfnRFStatusCB_t"
  by (simp only: r58_pfnRFStatusCB_t_def l58_pfnRFStatusCB_t_def rom_agrees)

lemma r58_rfConfig_t_same [rom_agrees]: "r58_rfConfig_t = l58_rfConfig_t"
  by (simp only: r58_rfConfig_t_def l58_rfConfig_t_def rom_agrees)

end
