(* ===== verification/Ble_Check.thy ===== *)
theory Ble_Check
  imports Ble_Agree
begin

text \<open>
  What the tables of the Bluetooth interface show: the header of the linked library and the header of the library in ROM
  agree, except for the functions named here; the layout of the events that the applications cast and read; the
  identifiers and the function table in the image that is flashed.
\<close>

section \<open>Agreement of the headers\<close>

lemma d57_f_tmos_rand: "disagree l57_typedefs l57_f_tmos_rand r57_f_tmos_rand = Some []"
  unfolding l57_f_tmos_rand_def r57_f_tmos_rand_def by (simp add: same_proto_def resolve_def l57_typedefs_def)

lemma d57_f_tmos_snv_read: "disagree l57_typedefs l57_f_tmos_snv_read r57_f_tmos_snv_read = Some []"
  unfolding l57_f_tmos_snv_read_def r57_f_tmos_snv_read_def by (simp add: same_proto_def resolve_def l57_typedefs_def)

lemma d57_f_BLE_ReadCfo: "disagree l57_typedefs l57_f_BLE_ReadCfo r57_f_BLE_ReadCfo = Some [''BLE_AccessAddressGenerate'']"
  unfolding l57_f_BLE_ReadCfo_def r57_f_BLE_ReadCfo_def by (simp add: same_proto_def resolve_def l57_typedefs_def)

lemma d57_f_GATT_Indication: "disagree l57_typedefs l57_f_GATT_Indication r57_f_GATT_Indication = Some []"
  unfolding l57_f_GATT_Indication_def r57_f_GATT_Indication_def by (simp add: same_proto_def resolve_def l57_typedefs_def)

lemma d57_f_GATT_FindIncludedServices: "disagree l57_typedefs l57_f_GATT_FindIncludedServices r57_f_GATT_FindIncludedServices = Some []"
  unfolding l57_f_GATT_FindIncludedServices_def r57_f_GATT_FindIncludedServices_def by (simp add: same_proto_def resolve_def l57_typedefs_def)

lemma d57_f_GATT_ReadUsingCharUUID: "disagree l57_typedefs l57_f_GATT_ReadUsingCharUUID r57_f_GATT_ReadUsingCharUUID = Some []"
  unfolding l57_f_GATT_ReadUsingCharUUID_def r57_f_GATT_ReadUsingCharUUID_def by (simp add: same_proto_def resolve_def l57_typedefs_def)

lemma d57_f_GATT_WriteCharValue: "disagree l57_typedefs l57_f_GATT_WriteCharValue r57_f_GATT_WriteCharValue = Some []"
  unfolding l57_f_GATT_WriteCharValue_def r57_f_GATT_WriteCharValue_def by (simp add: same_proto_def resolve_def l57_typedefs_def)

lemma d57_f_GATT_ReadLongCharDesc: "disagree l57_typedefs l57_f_GATT_ReadLongCharDesc r57_f_GATT_ReadLongCharDesc = Some []"
  unfolding l57_f_GATT_ReadLongCharDesc_def r57_f_GATT_ReadLongCharDesc_def by (simp add: same_proto_def resolve_def l57_typedefs_def)

lemma d57_f_GATTServApp_InitCharCfg: "disagree l57_typedefs l57_f_GATTServApp_InitCharCfg r57_f_GATTServApp_InitCharCfg = Some []"
  unfolding l57_f_GATTServApp_InitCharCfg_def r57_f_GATTServApp_InitCharCfg_def by (simp add: same_proto_def resolve_def l57_typedefs_def)

lemma d57_f_GAP_ResolvePrivateAddr: "disagree l57_typedefs l57_f_GAP_ResolvePrivateAddr r57_f_GAP_ResolvePrivateAddr = Some [''GAPRole_SetParameter'']"
  unfolding l57_f_GAP_ResolvePrivateAddr_def r57_f_GAP_ResolvePrivateAddr_def by (simp add: same_proto_def resolve_def l57_typedefs_def)

lemma d57_f_GAPRole_BroadcasterInit: "disagree l57_typedefs l57_f_GAPRole_BroadcasterInit r57_f_GAPRole_BroadcasterInit = Some []"
  unfolding l57_f_GAPRole_BroadcasterInit_def r57_f_GAPRole_BroadcasterInit_def by (simp add: same_proto_def resolve_def l57_typedefs_def)

lemma d57_f_GAPRole_CentralCancelDiscovery: "disagree l57_typedefs l57_f_GAPRole_CentralCancelDiscovery r57_f_GAPRole_CentralCancelDiscovery = Some []"
  unfolding l57_f_GAPRole_CentralCancelDiscovery_def r57_f_GAPRole_CentralCancelDiscovery_def by (simp add: same_proto_def resolve_def l57_typedefs_def)

lemma d57_f_API_LE_ReceiverTestCmd: "disagree l57_typedefs l57_f_API_LE_ReceiverTestCmd r57_f_API_LE_ReceiverTestCmd = Some []"
  unfolding l57_f_API_LE_ReceiverTestCmd_def r57_f_API_LE_ReceiverTestCmd_def by (simp add: same_proto_def resolve_def l57_typedefs_def)

lemmas d57 = d57_f_tmos_rand d57_f_tmos_snv_read d57_f_BLE_ReadCfo d57_f_GATT_Indication d57_f_GATT_FindIncludedServices d57_f_GATT_ReadUsingCharUUID d57_f_GATT_WriteCharValue d57_f_GATT_ReadLongCharDesc d57_f_GATTServApp_InitCharCfg d57_f_GAP_ResolvePrivateAddr d57_f_GAPRole_BroadcasterInit d57_f_GAPRole_CentralCancelDiscovery d57_f_API_LE_ReceiverTestCmd

lemma functions57_disagree: "disagree l57_typedefs l57_functions r57_functions = Some [''BLE_AccessAddressGenerate'', ''GAPRole_SetParameter'']"
  by (simp add: l57_functions_def r57_functions_def d57 d57 [THEN disagree_append])

lemmas slots57 = r57_f_tmos_rand_def r57_f_tmos_snv_read_def r57_f_BLE_ReadCfo_def r57_f_GATT_Indication_def r57_f_GATT_FindIncludedServices_def r57_f_GATT_ReadUsingCharUUID_def r57_f_GATT_WriteCharValue_def r57_f_GATT_ReadLongCharDesc_def r57_f_GATTServApp_InitCharCfg_def r57_f_GAP_ResolvePrivateAddr_def r57_f_GAPRole_BroadcasterInit_def r57_f_GAPRole_CentralCancelDiscovery_def r57_f_API_LE_ReceiverTestCmd_def

lemma d58_f_tmos_rand: "disagree l58_typedefs l58_f_tmos_rand r58_f_tmos_rand = Some []"
  unfolding l58_f_tmos_rand_def r58_f_tmos_rand_def by (simp add: same_proto_def resolve_def l58_typedefs_def)

lemma d58_f_tmos_snv_read: "disagree l58_typedefs l58_f_tmos_snv_read r58_f_tmos_snv_read = Some []"
  unfolding l58_f_tmos_snv_read_def r58_f_tmos_snv_read_def by (simp add: same_proto_def resolve_def l58_typedefs_def)

lemma d58_f_BLE_ReadCfo: "disagree l58_typedefs l58_f_BLE_ReadCfo r58_f_BLE_ReadCfo = Some [''BLE_AccessAddressGenerate'']"
  unfolding l58_f_BLE_ReadCfo_def r58_f_BLE_ReadCfo_def by (simp add: same_proto_def resolve_def l58_typedefs_def)

lemma d58_f_GATT_Indication: "disagree l58_typedefs l58_f_GATT_Indication r58_f_GATT_Indication = Some []"
  unfolding l58_f_GATT_Indication_def r58_f_GATT_Indication_def by (simp add: same_proto_def resolve_def l58_typedefs_def)

lemma d58_f_GATT_FindIncludedServices: "disagree l58_typedefs l58_f_GATT_FindIncludedServices r58_f_GATT_FindIncludedServices = Some []"
  unfolding l58_f_GATT_FindIncludedServices_def r58_f_GATT_FindIncludedServices_def by (simp add: same_proto_def resolve_def l58_typedefs_def)

lemma d58_f_GATT_ReadUsingCharUUID: "disagree l58_typedefs l58_f_GATT_ReadUsingCharUUID r58_f_GATT_ReadUsingCharUUID = Some []"
  unfolding l58_f_GATT_ReadUsingCharUUID_def r58_f_GATT_ReadUsingCharUUID_def by (simp add: same_proto_def resolve_def l58_typedefs_def)

lemma d58_f_GATT_WriteCharValue: "disagree l58_typedefs l58_f_GATT_WriteCharValue r58_f_GATT_WriteCharValue = Some []"
  unfolding l58_f_GATT_WriteCharValue_def r58_f_GATT_WriteCharValue_def by (simp add: same_proto_def resolve_def l58_typedefs_def)

lemma d58_f_GATT_ReadLongCharDesc: "disagree l58_typedefs l58_f_GATT_ReadLongCharDesc r58_f_GATT_ReadLongCharDesc = Some []"
  unfolding l58_f_GATT_ReadLongCharDesc_def r58_f_GATT_ReadLongCharDesc_def by (simp add: same_proto_def resolve_def l58_typedefs_def)

lemma d58_f_GATTServApp_InitCharCfg: "disagree l58_typedefs l58_f_GATTServApp_InitCharCfg r58_f_GATTServApp_InitCharCfg = Some []"
  unfolding l58_f_GATTServApp_InitCharCfg_def r58_f_GATTServApp_InitCharCfg_def by (simp add: same_proto_def resolve_def l58_typedefs_def)

lemma d58_f_GAP_ResolvePrivateAddr: "disagree l58_typedefs l58_f_GAP_ResolvePrivateAddr r58_f_GAP_ResolvePrivateAddr = Some []"
  unfolding l58_f_GAP_ResolvePrivateAddr_def r58_f_GAP_ResolvePrivateAddr_def by (simp add: same_proto_def resolve_def l58_typedefs_def)

lemma d58_f_GAPRole_TerminateSync: "disagree l58_typedefs l58_f_GAPRole_TerminateSync r58_f_GAPRole_TerminateSync = Some []"
  unfolding l58_f_GAPRole_TerminateSync_def r58_f_GAPRole_TerminateSync_def by (simp add: same_proto_def resolve_def l58_typedefs_def)

lemma d58_f_GAPRole_PeripheralInit: "disagree l58_typedefs l58_f_GAPRole_PeripheralInit r58_f_GAPRole_PeripheralInit = Some [''GAPRole_SetHostChanClassification'']"
  unfolding l58_f_GAPRole_PeripheralInit_def r58_f_GAPRole_PeripheralInit_def by (simp add: same_proto_def resolve_def l58_typedefs_def)

lemma d58_f_RF_Tx: "disagree l58_typedefs l58_f_RF_Tx r58_f_RF_Tx = Some []"
  unfolding l58_f_RF_Tx_def r58_f_RF_Tx_def by (simp add: same_proto_def resolve_def l58_typedefs_def)

lemmas d58 = d58_f_tmos_rand d58_f_tmos_snv_read d58_f_BLE_ReadCfo d58_f_GATT_Indication d58_f_GATT_FindIncludedServices d58_f_GATT_ReadUsingCharUUID d58_f_GATT_WriteCharValue d58_f_GATT_ReadLongCharDesc d58_f_GATTServApp_InitCharCfg d58_f_GAP_ResolvePrivateAddr d58_f_GAPRole_TerminateSync d58_f_GAPRole_PeripheralInit d58_f_RF_Tx

lemma functions58_disagree: "disagree l58_typedefs l58_functions r58_functions = Some [''BLE_AccessAddressGenerate'', ''GAPRole_SetHostChanClassification'']"
  by (simp add: l58_functions_def r58_functions_def d58 d58 [THEN disagree_append])

lemmas slots58 = r58_f_tmos_rand_def r58_f_tmos_snv_read_def r58_f_BLE_ReadCfo_def r58_f_GATT_Indication_def r58_f_GATT_FindIncludedServices_def r58_f_GATT_ReadUsingCharUUID_def r58_f_GATT_WriteCharValue_def r58_f_GATT_ReadLongCharDesc_def r58_f_GATTServApp_InitCharCfg_def r58_f_GAP_ResolvePrivateAddr_def r58_f_GAPRole_TerminateSync_def r58_f_GAPRole_PeripheralInit_def r58_f_RF_Tx_def

text \<open>C16: For each chip the two headers of the library, the one for linking and the one for the library in ROM, give
  the same constants, the same identifiers and the same types: names of scalar types with what they stand for, structures
  and unions with the name, the order, the type and the dimensions of each member, the types pointed to, and the result
  and parameter types of the callbacks.  They declare the same functions in the same order, and the prototypes agree but for
  two functions on each chip: the generator of access addresses has no result in the header for ROM; on the CH57x the length
  of \<open>GAPRole_SetParameter\<close> has another width; on the CH58x \<open>GAPRole_SetHostChanClassification\<close> lacks its result type.\<close>

theorem ble_headers_agree:
  shows "r57_constants = l57_constants \<and>
    r58_constants = l58_constants \<and>
    r57_types = l57_types \<and>
    r58_types = l58_types \<and>
    map fst r57_uuids = l57_uuids \<and>
    map fst r58_uuids = l58_uuids \<and>
    disagree l57_typedefs l57_functions r57_functions = Some [''BLE_AccessAddressGenerate'', ''GAPRole_SetParameter''] \<and>
    disagree l58_typedefs l58_functions r58_functions = Some [''BLE_AccessAddressGenerate'', ''GAPRole_SetHostChanClassification'']"
proof (intro conjI)
  show "r57_constants = l57_constants" "r58_constants = l58_constants"
    by (simp_all only: r57_constants_def l57_constants_def r58_constants_def l58_constants_def rom_agrees)
  show "r57_types = l57_types" "r58_types = l58_types"
    by (simp_all only: r57_types_def l57_types_def r58_types_def l58_types_def rom_agrees)
  show "map fst r57_uuids = l57_uuids" "map fst r58_uuids = l58_uuids"
    by (simp_all add: r57_uuids_def l57_uuids_def r58_uuids_def l58_uuids_def)
qed (rule functions57_disagree functions58_disagree)+

section \<open>The image in ROM\<close>

lemma image57_contiguous: "contiguous 0 r57_image"
  by (simp add: r57_image_def ihex_ok_def ihex_address_def)

lemma image57_uuids: "image_uuids r57_image =
     [0x1800, 0x1801, 0x2800, 0x2801, 0x2802, 0x2803, 0x2900, 0x2901, 0x2902, 0x2903, 0x2904, 0x2905, 0x2906,
      0x2907, 0x2908, 0x2A00, 0x2A01, 0x2A02, 0x2A03, 0x2A04, 0x2A05, 0x2AA6]"
  by (simp add: image_uuids_def image_halves_def r57_image_def ihex_data_def)

lemma image57_table: "image_table r57_image =
     [0x2E538, 0x10EEE, 0x110DA, 0x1111A, 0x1108A, 0x11078, 0x2000397A, 0x1113E, 0x11222, 0x1124A, 0x113A4,
      0x1143C, 0x10DFE, 0x10D2E, 0x10D98, 0x10D5A, 0x11820, 0x200039B6, 0x11138, 0x11598, 0x2AA8E, 0x2AC48,
      0x2ACBA, 0x268DA, 0x268EA, 0x20314, 0x1F668, 0x2A0C4, 0x115C6, 0x26F20, 0x1B36C, 0x1B3F2, 0x1B44A,
      0x12062, 0x120AE, 0x11F24, 0x17276, 0x16D4C, 0x17B8E, 0x17F5A, 0x18302, 0x15F90, 0x15F2E, 0x1630C,
      0x15FDC, 0x15F04, 0x15F88, 0x15EB6, 0x16058, 0x160B0, 0x16060, 0x16064, 0x16100, 0x160B8, 0x160EA,
      0x16604, 0x1660C, 0x16054, 0x1605C, 0x160FC, 0x16608, 0x161A8, 0x1677A, 0x190F2, 0x1916C, 0x1919A,
      0x1748A, 0x174A2, 0x174DE, 0x15972, 0x15A3A, 0x15A92, 0x13C58, 0x137CE, 0x15322, 0x13840, 0x15276,
      0x2C568, 0x2C2F0, 0x2CBFE, 0x2D9E0, 0x2D914, 0x2DC5E, 0x2DC5A, 0x2B62A, 0x2DCF2, 0x2B39C, 0x2DC82,
      0x2D282, 0x2D29C, 0x2D2C0, 0x2DD62, 0x2D74C, 0x2D6E2, 0x2DDD2, 0x2B5AA, 0x2B632, 0x2B656, 0x2B5F8,
      0x28638, 0x27520, 0x27B54, 0x27600, 0x2804A, 0x2A164, 0x2A05A, 0x2B3CC, 0x119A2, 0x269C2, 0x26F04,
      0x26FD6, 0x29C28, 0x29C62, 0x29CDA, 0x1786A, 0x285F8, 0x280C2, 0x2785A, 0x282EE, 0x274DC, 0x114B0,
      0x26B38, 0x28898, 0x28AFE, 0x28B5E, 0x289AC, 0x11376, 0x175D8, 0x1F612, 0x2CC3C, 0x0]"
  by (simp add: image_table_def image_halves_def r57_image_def ihex_data_def)

lemma flash_slots57: "flash_slots r57_functions =
     [1, 2, 3, 4, 5, 6, 7, 8, 9, 126, 10, 11, 12, 13, 14, 15, 107, 16, 18, 19, 120, 20, 21, 22, 23, 24, 25, 26,
      128, 27, 108, 121, 109, 110, 28, 29, 30, 31, 32, 33, 34, 35, 36, 37, 38, 39, 40, 41, 42, 43, 44, 45, 46,
      47, 48, 49, 50, 51, 52, 53, 54, 55, 56, 57, 58, 59, 60, 61, 62, 63, 64, 114, 65, 127, 66, 67, 68, 69, 70,
      71, 72, 73, 74, 75, 76, 77, 78, 79, 129, 80, 81, 82, 83, 84, 85, 86, 106, 87, 88, 89, 90, 91, 92, 93, 94,
      95, 96, 97, 98, 99, 100, 101, 102, 103, 115, 116, 117, 118, 119, 104, 105, 111, 112, 113, 122, 123, 124,
      125]"
  by (simp add: flash_slots_def r57_functions_def slots57)

lemma image58_contiguous: "contiguous 0 r58_image"
  by (simp add: r58_image_def ihex_ok_def ihex_address_def)

lemma image58_uuids: "image_uuids r58_image =
     [0x1800, 0x1801, 0x2800, 0x2801, 0x2802, 0x2803, 0x2900, 0x2901, 0x2902, 0x2903, 0x2904, 0x2905, 0x2906,
      0x2907, 0x2908, 0x2A00, 0x2A01, 0x2A02, 0x2A03, 0x2A04, 0x2A05, 0x2AA6]"
  by (simp add: image_uuids_def image_halves_def r58_image_def ihex_data_def)

lemma image58_table: "image_table r58_image =
     [0x3A54C, 0x11E96, 0x2000025A, 0x200002A4, 0x20000216, 0x20000204, 0x200001CC, 0x12120, 0x1214C, 0x12228,
      0x123DE, 0x12482, 0x11D0C, 0x11C30, 0x11CA2, 0x11C5C, 0x12906, 0x200003F0, 0x120F6, 0x12600, 0x34D8A,
      0x34F82, 0x34FFA, 0x30780, 0x30794, 0x2571A, 0x24902, 0x34772, 0x12636, 0x310B2, 0x1DC60, 0x1DCEE,
      0x1DD46, 0x131F2, 0x1323E, 0x130A8, 0x199C6, 0x1948A, 0x1A334, 0x1A704, 0x1AAB0, 0x186E6, 0x18684,
      0x18A6E, 0x18732, 0x1865A, 0x186DE, 0x1860C, 0x187B6, 0x1880E, 0x187BE, 0x187C2, 0x1885C, 0x18816,
      0x18848, 0x18D6A, 0x18D72, 0x187B2, 0x187BA, 0x1885A, 0x18D6E, 0x1890A, 0x18EA6, 0x1B8FC, 0x1B97A,
      0x1B9B8, 0x19BF2, 0x19C0A, 0x19C46, 0x18086, 0x1816A, 0x181D2, 0x1503C, 0x14B82, 0x17698, 0x14C00,
      0x171DC, 0x3845E, 0x3816C, 0x38B54, 0x39BBE, 0x39A8E, 0x39E92, 0x39E7A, 0x39E8A, 0x39F3A, 0x36F9A,
      0x39ECA, 0x39288, 0x392AE, 0x392D6, 0x39FAA, 0x39888, 0x3981E, 0x3A01A, 0x371FC, 0x37298, 0x372C0,
      0x37262, 0x32AEC, 0x31622, 0x319B0, 0x31706, 0x32086, 0x34812, 0x346F8, 0x36FCE, 0x12AF6, 0x308BC,
      0x31092, 0x3118A, 0x33F06, 0x33FA6, 0x34156, 0x19FF8, 0x32A9A, 0x32106, 0x32736, 0x3239E, 0x315D6,
      0x20000616, 0x30982, 0x39EB6, 0x39E7E, 0x39E86, 0x39E82, 0x12398, 0x19D44, 0x39EBE, 0x32CE6, 0x32E38,
      0x32E98, 0x38B92, 0x39EBA, 0x39EC2, 0x2488E, 0x39EC6, 0x20000F8A, 0x20001496]"
  by (simp add: image_table_def image_halves_def r58_image_def ihex_data_def)

lemma flash_slots58: "flash_slots r58_functions =
     [1, 2, 3, 4, 5, 6, 7, 8, 9, 126, 10, 11, 12, 13, 14, 15, 107, 16, 120, 17, 18, 19, 20, 21, 22, 23, 24, 25,
      26, 135, 27, 108, 121, 109, 110, 28, 29, 30, 31, 32, 33, 34, 35, 36, 37, 38, 39, 40, 41, 42, 43, 44, 45,
      46, 47, 48, 49, 50, 51, 52, 53, 54, 55, 56, 57, 58, 59, 60, 61, 62, 63, 64, 114, 65, 127, 66, 67, 68, 69,
      70, 71, 72, 73, 74, 75, 76, 77, 78, 79, 132, 80, 81, 82, 83, 123, 124, 125, 84, 122, 133, 134, 136, 85,
      86, 106, 87, 88, 89, 90, 91, 92, 93, 94, 95, 96, 97, 128, 98, 99, 100, 101, 102, 103, 115, 116, 117, 118,
      119, 104, 105, 111, 112, 113, 129, 130, 131]"
  by (simp add: flash_slots_def r58_functions_def slots58)

text \<open>The value of a constant of the header whose definition is a number or a sum of a name and a number.\<close>

definition const_val :: "const_table \<Rightarrow> string \<Rightarrow> nat" where
  "const_val t x = (case const_num t x of Some n \<Rightarrow> n | None \<Rightarrow> 0)"

definition const_sum :: "const_table \<Rightarrow> string \<Rightarrow> nat option" where
  "const_sum t x =
     (case map_of t x of
        Some (CAdd (CName y) (CNum n)) \<Rightarrow> map_option (\<lambda>k. k + n) (const_num t y)
      | Some (CNum n) \<Rightarrow> Some n
      | _ \<Rightarrow> None)"

text \<open>The RAM of the two chips, start and length, from their linker scripts.\<close>

definition ch57x_ram :: "nat \<times> nat" where
  "ch57x_ram = (0x20003800, 18 * 1024)"

definition ch58x_ram :: "nat \<times> nat" where
  "ch58x_ram = (0x20000000, 32 * 1024)"

text \<open>An address is callable when it is even and lies in the flash of the library or in the RAM of the chip.\<close>

definition callable :: "const_table \<Rightarrow> nat \<times> nat \<Rightarrow> nat \<Rightarrow> bool" where
  "callable t rm a \<longleftrightarrow> a mod 2 = 0 \<and>
     (const_val t ''LIB_FLASH_BASE_ADDRESSS'' \<le> a \<and>
      a < const_val t ''LIB_FLASH_BASE_ADDRESSS'' + const_val t ''LIB_FLASH_MAX_SIZE'' \<or>
      fst rm \<le> a \<and> a < fst rm + snd rm)"

text \<open>The identifiers that the constants of the header name, in its order.\<close>

definition uuid_values :: "const_table list \<Rightarrow> nat list" where
  "uuid_values ts = map (\<lambda>(x, e). case e of CNum n \<Rightarrow> n | _ \<Rightarrow> 0) (concat ts)"

text \<open>Where the header expects the two tables of the image: its segment is the base address, the identifiers start 8 bytes
  and the function table 0x34 bytes behind it.\<close>

definition tables_placed :: "u8 list \<Rightarrow> const_table \<Rightarrow> bool" where
  "tables_placed r t \<longleftrightarrow> ihex_segment r = const_num t ''LIB_FLASH_BASE_ADDRESSS'' \<and>
     const_sum t ''UUID_BASE_ADDRESSS'' = map_option (\<lambda>a. a + 8) (ihex_segment r) \<and>
     const_sum t ''FUNCITON_BASE_ADDRESSS'' = map_option (\<lambda>a. a + 0x34) (ihex_segment r)"

text \<open>The calls of one chip.  Each function has its own slot, in flash or in RAM.  The slots in flash exist in the image and
  hold different callable addresses; the words of the slots in RAM, which the library fills when it runs, lie in the RAM of
  the chip.\<close>

definition calls_resolve :: "u8 list list \<Rightarrow> const_table \<Rightarrow> nat \<times> nat \<Rightarrow> (proto \<times> slot) list \<Rightarrow> bool" where
  "calls_resolve img t rm fs \<longleftrightarrow>
     distinct (map snd fs) \<and> list_all (\<lambda>n. n < length (image_table img)) (flash_slots fs) \<and>
     list_all (\<lambda>n. callable t rm (image_table img ! n)) (flash_slots fs) \<and>
     distinct (map (\<lambda>n. image_table img ! n) (flash_slots fs)) \<and>
     list_all (\<lambda>n. fst rm \<le> const_val t ''RAM_BASE_ADDRESSS'' + 4 * n \<and>
       const_val t ''RAM_BASE_ADDRESSS'' + 4 * n + 4 \<le> fst rm + snd rm) (ram_slots fs)"

text \<open>Distinct indices within each table make distinct slots.\<close>

lemma distinct_slots: "distinct (flash_slots fs) \<Longrightarrow> distinct (ram_slots fs) \<Longrightarrow> distinct (map snd fs)"
proof (induction fs)
  case (Cons f fs)
  have "n \<in> set (flash_slots fs)" if "Flash n \<in> snd ` set fs" for n using that by (fastforce simp: flash_slots_def)
  moreover have "n \<in> set (ram_slots fs)" if "Ram n \<in> snd ` set fs" for n using that by (fastforce simp: ram_slots_def)
  moreover obtain p s where "f = (p, s)" by (cases f)
  ultimately show ?case using Cons by (cases s) (auto simp: flash_slots_def ram_slots_def)
qed simp

lemma ram_slots57: "ram_slots r57_functions = [0]"
  by (simp add: ram_slots_def r57_functions_def slots57)

lemma ram_slots58: "ram_slots r58_functions = []"
  by (simp add: ram_slots_def r58_functions_def slots58)

lemma used57: "map (\<lambda>n. image_table r57_image ! n) (flash_slots r57_functions) =
     [0x10EEE, 0x110DA, 0x1111A, 0x1108A, 0x11078, 0x2000397A, 0x1113E, 0x11222, 0x1124A, 0x11376, 0x113A4,
      0x1143C, 0x10DFE, 0x10D2E, 0x10D98, 0x10D5A, 0x119A2, 0x11820, 0x11138, 0x11598, 0x114B0, 0x2AA8E,
      0x2AC48, 0x2ACBA, 0x268DA, 0x268EA, 0x20314, 0x1F668, 0x1F612, 0x2A0C4, 0x269C2, 0x26B38, 0x26F04,
      0x26FD6, 0x115C6, 0x26F20, 0x1B36C, 0x1B3F2, 0x1B44A, 0x12062, 0x120AE, 0x11F24, 0x17276, 0x16D4C,
      0x17B8E, 0x17F5A, 0x18302, 0x15F90, 0x15F2E, 0x1630C, 0x15FDC, 0x15F04, 0x15F88, 0x15EB6, 0x16058,
      0x160B0, 0x16060, 0x16064, 0x16100, 0x160B8, 0x160EA, 0x16604, 0x1660C, 0x16054, 0x1605C, 0x160FC,
      0x16608, 0x161A8, 0x1677A, 0x190F2, 0x1916C, 0x1786A, 0x1919A, 0x175D8, 0x1748A, 0x174A2, 0x174DE,
      0x15972, 0x15A3A, 0x15A92, 0x13C58, 0x137CE, 0x15322, 0x13840, 0x15276, 0x2C568, 0x2C2F0, 0x2CBFE,
      0x2CC3C, 0x2D9E0, 0x2D914, 0x2DC5E, 0x2DC5A, 0x2B62A, 0x2DCF2, 0x2B39C, 0x2B3CC, 0x2DC82, 0x2D282,
      0x2D29C, 0x2D2C0, 0x2DD62, 0x2D74C, 0x2D6E2, 0x2DDD2, 0x2B5AA, 0x2B632, 0x2B656, 0x2B5F8, 0x28638,
      0x27520, 0x27B54, 0x27600, 0x2804A, 0x285F8, 0x280C2, 0x2785A, 0x282EE, 0x274DC, 0x2A164, 0x2A05A,
      0x29C28, 0x29C62, 0x29CDA, 0x28898, 0x28AFE, 0x28B5E, 0x289AC]"
  unfolding flash_slots57 image57_table by simp

lemma used58: "map (\<lambda>n. image_table r58_image ! n) (flash_slots r58_functions) =
     [0x11E96, 0x2000025A, 0x200002A4, 0x20000216, 0x20000204, 0x200001CC, 0x12120, 0x1214C, 0x12228, 0x12398,
      0x123DE, 0x12482, 0x11D0C, 0x11C30, 0x11CA2, 0x11C5C, 0x12AF6, 0x12906, 0x20000616, 0x200003F0, 0x120F6,
      0x12600, 0x34D8A, 0x34F82, 0x34FFA, 0x30780, 0x30794, 0x2571A, 0x24902, 0x2488E, 0x34772, 0x308BC,
      0x30982, 0x31092, 0x3118A, 0x12636, 0x310B2, 0x1DC60, 0x1DCEE, 0x1DD46, 0x131F2, 0x1323E, 0x130A8,
      0x199C6, 0x1948A, 0x1A334, 0x1A704, 0x1AAB0, 0x186E6, 0x18684, 0x18A6E, 0x18732, 0x1865A, 0x186DE,
      0x1860C, 0x187B6, 0x1880E, 0x187BE, 0x187C2, 0x1885C, 0x18816, 0x18848, 0x18D6A, 0x18D72, 0x187B2,
      0x187BA, 0x1885A, 0x18D6E, 0x1890A, 0x18EA6, 0x1B8FC, 0x1B97A, 0x19FF8, 0x1B9B8, 0x19D44, 0x19BF2,
      0x19C0A, 0x19C46, 0x18086, 0x1816A, 0x181D2, 0x1503C, 0x14B82, 0x17698, 0x14C00, 0x171DC, 0x3845E,
      0x3816C, 0x38B54, 0x38B92, 0x39BBE, 0x39A8E, 0x39E92, 0x39E7A, 0x39E7E, 0x39E86, 0x39E82, 0x39E8A,
      0x39EB6, 0x39EBA, 0x39EC2, 0x39EC6, 0x39F3A, 0x36F9A, 0x36FCE, 0x39ECA, 0x39288, 0x392AE, 0x392D6,
      0x39FAA, 0x39888, 0x3981E, 0x3A01A, 0x371FC, 0x37298, 0x372C0, 0x39EBE, 0x37262, 0x32AEC, 0x31622,
      0x319B0, 0x31706, 0x32086, 0x32A9A, 0x32106, 0x32736, 0x3239E, 0x315D6, 0x34812, 0x346F8, 0x33F06,
      0x33FA6, 0x34156, 0x32CE6, 0x32E38, 0x32E98]"
  unfolding flash_slots58 image58_table by simp

lemmas region_consts = const_val_def r57_c_LIB_FLASH_BASE_ADDRESSS_def r58_c_LIB_FLASH_BASE_ADDRESSS_def

lemma list_all_used: "list_all P (map f xs) \<Longrightarrow> list_all (\<lambda>n. P (f n)) xs"
  by (simp add: list_all_iff)

lemma calls_resolve57: "calls_resolve r57_image r57_c_LIB_FLASH_BASE_ADDRESSS ch57x_ram r57_functions"
  unfolding calls_resolve_def
proof (intro conjI)
  show "distinct (map snd r57_functions)" by (rule distinct_slots) (simp_all add: flash_slots57 ram_slots57)
  show "list_all (\<lambda>n. n < length (image_table r57_image)) (flash_slots r57_functions)"
    unfolding flash_slots57 image57_table by simp
  show "list_all (\<lambda>n. callable r57_c_LIB_FLASH_BASE_ADDRESSS ch57x_ram (image_table r57_image ! n)) (flash_slots r57_functions)"
    by (rule list_all_used) (simp add: used57 callable_def region_consts ch57x_ram_def)
  show "distinct (map (\<lambda>n. image_table r57_image ! n) (flash_slots r57_functions))"
    unfolding used57 by simp
qed (simp add: ram_slots57 region_consts ch57x_ram_def)

lemma calls_resolve58: "calls_resolve r58_image r58_c_LIB_FLASH_BASE_ADDRESSS ch58x_ram r58_functions"
  unfolding calls_resolve_def
proof (intro conjI)
  show "distinct (map snd r58_functions)" by (rule distinct_slots) (simp_all add: flash_slots58 ram_slots58)
  show "list_all (\<lambda>n. n < length (image_table r58_image)) (flash_slots r58_functions)"
    unfolding flash_slots58 image58_table by simp
  show "list_all (\<lambda>n. callable r58_c_LIB_FLASH_BASE_ADDRESSS ch58x_ram (image_table r58_image ! n)) (flash_slots r58_functions)"
    by (rule list_all_used) (simp add: used58 callable_def region_consts ch58x_ram_def)
  show "distinct (map (\<lambda>n. image_table r58_image ! n) (flash_slots r58_functions))"
    unfolding used58 by simp
qed (simp add: ram_slots58 region_consts ch58x_ram_def)

lemma tables_placed57: "tables_placed r57_image_base r57_c_LIB_FLASH_BASE_ADDRESSS"
  by (simp add: tables_placed_def const_sum_def r57_c_LIB_FLASH_BASE_ADDRESSS_def r57_image_base_def ihex_segment_def ihex_ok_def)

lemma tables_placed58: "tables_placed r58_image_base r58_c_LIB_FLASH_BASE_ADDRESSS"
  by (simp add: tables_placed_def const_sum_def r58_c_LIB_FLASH_BASE_ADDRESSS_def r58_image_base_def ihex_segment_def ihex_ok_def)

text \<open>C12: On both chips the image is placed where the header expects its tables, and the records at its head, which hold the
  table of identifiers and the table of functions, are intact and contiguous.  The identifiers are those that the constants
  of the header name, in the order of the header, but the header reads \<open>serviceChangedUUID\<close> at the place of
  \<open>charFormatUUID\<close>, 0x2904, instead of 0x2A05.  Every function is called through a slot of its own; the slots in flash
  exist in the image and hold different callable addresses; the one slot in RAM (\<open>TMOS_SystemProcess\<close> of the CH57x) lies in
  the RAM of the chip.\<close>

theorem rom_image_resolves:
  shows "tables_placed r57_image_base r57_c_LIB_FLASH_BASE_ADDRESSS \<and>
    tables_placed r58_image_base r58_c_LIB_FLASH_BASE_ADDRESSS \<and>
    contiguous 0 r57_image \<and>
    contiguous 0 r58_image \<and>
    image_uuids r57_image = uuid_values
      [l57_c_GAP_SERVICE_UUID, l57_c_GATT_PRIMARY_SERVICE_UUID, l57_c_GATT_CHAR_EXT_PROPS_UUID, l57_c_DEVICE_NAME_UUID] \<and>
    image_uuids r58_image = uuid_values
      [l58_c_GAP_SERVICE_UUID, l58_c_GATT_PRIMARY_SERVICE_UUID, l58_c_GATT_CHAR_EXT_PROPS_UUID, l58_c_DEVICE_NAME_UUID] \<and>
    map (\<lambda>(x, i). image_uuids r57_image ! i) r57_uuids = (image_uuids r57_image)[20 := 0x2904] \<and>
    map (\<lambda>(x, i). image_uuids r58_image ! i) r58_uuids = (image_uuids r58_image)[20 := 0x2904] \<and>
    fst (r57_uuids ! 20) = ''serviceChangedUUID'' \<and>
    fst (r58_uuids ! 20) = ''serviceChangedUUID'' \<and>
    calls_resolve r57_image r57_c_LIB_FLASH_BASE_ADDRESSS ch57x_ram r57_functions \<and>
    calls_resolve r58_image r58_c_LIB_FLASH_BASE_ADDRESSS ch58x_ram r58_functions"
proof (intro conjI)
  show "image_uuids r57_image = uuid_values
      [l57_c_GAP_SERVICE_UUID, l57_c_GATT_PRIMARY_SERVICE_UUID, l57_c_GATT_CHAR_EXT_PROPS_UUID, l57_c_DEVICE_NAME_UUID]"
    unfolding image57_uuids uuid_values_def l57_c_GAP_SERVICE_UUID_def l57_c_GATT_PRIMARY_SERVICE_UUID_def
      l57_c_GATT_CHAR_EXT_PROPS_UUID_def l57_c_DEVICE_NAME_UUID_def by simp
  show "image_uuids r58_image = uuid_values
      [l58_c_GAP_SERVICE_UUID, l58_c_GATT_PRIMARY_SERVICE_UUID, l58_c_GATT_CHAR_EXT_PROPS_UUID, l58_c_DEVICE_NAME_UUID]"
    unfolding image58_uuids uuid_values_def l58_c_GAP_SERVICE_UUID_def l58_c_GATT_PRIMARY_SERVICE_UUID_def
      l58_c_GATT_CHAR_EXT_PROPS_UUID_def l58_c_DEVICE_NAME_UUID_def by simp
  show "map (\<lambda>(x, i). image_uuids r57_image ! i) r57_uuids = (image_uuids r57_image)[20 := 0x2904]"
    "map (\<lambda>(x, i). image_uuids r58_image ! i) r58_uuids = (image_uuids r58_image)[20 := 0x2904]"
    "fst (r57_uuids ! 20) = ''serviceChangedUUID''" "fst (r58_uuids ! 20) = ''serviceChangedUUID''"
    by (simp_all add: image57_uuids image58_uuids r57_uuids_def r58_uuids_def)
qed (rule tables_placed57 tables_placed58 image57_contiguous image58_contiguous calls_resolve57 calls_resolve58)+

section \<open>Layout of events\<close>

text \<open>The two events of the role that the peripheral application reads after a cast, and the message of the attribute
  protocol: each with the offsets of the members it reads.\<close>

definition reads :: "ctype \<Rightarrow> string list list \<Rightarrow> nat option list" where
  "reads t ps = map (\<lambda>p. map_option fst (offset_of p t)) ps"

text \<open>Every event starts with the header of a message followed by the code of the event.\<close>

definition tagged :: "ctype \<Rightarrow> ctype \<Rightarrow> bool" where
  "tagged hdr t \<longleftrightarrow> offset_of [''hdr''] t = Some (0, hdr) \<and> offset_of [''opcode''] t = Some (2, Scalar ''uint8_t'' 1)"

lemmas event_types57 = l57_gapRoleEvent_t_def l57_gapEventHdr_t_def l57_tmos_event_hdr_t_def
  l57_gapDeviceInitDoneEvent_t_def l57_gapDeviceInfoEvent_t_def l57_gapDevDiscEvent_t_def
  l57_gapAdvDataUpdateEvent_t_def l57_gapMakeDiscoverableRspEvent_t_def l57_gapEstLinkReqEvent_t_def
  l57_gapLinkUpdateEvent_t_def l57_gapTerminateLinkEvent_t_def

lemmas msg_types57 = l57_gattMsgEvent_t_def l57_tmos_event_hdr_t_def l57_gattMsg_t_def l57_attExchangeMTUReq_t_def
  l57_attFindInfoReq_t_def l57_attFindByTypeValueReq_t_def l57_attAttrBtType_t_def l57_attReadByTypeReq_t_def
  l57_attAttrType_t_def l57_attReadReq_t_def l57_attReadBlobReq_t_def l57_attReadMultiReq_t_def
  l57_attReadByGrpTypeReq_t_def l57_attWriteReq_t_def l57_attPrepareWriteReq_t_def l57_attExecuteWriteReq_t_def
  l57_gattFindByTypeValueReq_t_def l57_gattReadByTypeReq_t_def l57_gattWriteLongReq_t_def
  l57_gattReliableWritesReq_t_def l57_attErrorRsp_t_def l57_attExchangeMTURsp_t_def l57_attFindInfoRsp_t_def
  l57_attFindByTypeValueRsp_t_def l57_attReadByTypeRsp_t_def l57_attReadRsp_t_def l57_attReadBlobRsp_t_def
  l57_attReadMultiRsp_t_def l57_attReadByGrpTypeRsp_t_def l57_attPrepareWriteRsp_t_def l57_attHandleValueNoti_t_def
  l57_attHandleValueInd_t_def l57_attFlowCtrlViolatedEvt_t_def l57_attMtuUpdatedEvt_t_def

lemmas event_types58 = l58_gapRoleEvent_t_def l58_gapEventHdr_t_def l58_tmos_event_hdr_t_def
  l58_gapDeviceInitDoneEvent_t_def l58_gapDeviceInfoEvent_t_def l58_gapDirectDeviceInfoEvent_t_def
  l58_gapPeriodicAdvDeviceInfoEvent_t_def l58_gapExtAdvDeviceInfoEvent_t_def l58_gapDevDiscEvent_t_def
  l58_gapSyncEstablishedEvent_t_def l58_gapSyncLostEvent_t_def l58_gapScanReqReseiveEvent_t_def
  l58_gapEstLinkReqEvent_t_def l58_gapLinkUpdateEvent_t_def l58_gapTerminateLinkEvent_t_def
  l58_gapPhyUpdateEvent_t_def

lemmas msg_types58 = l58_gattMsgEvent_t_def l58_tmos_event_hdr_t_def l58_gattMsg_t_def l58_attExchangeMTUReq_t_def
  l58_attFindInfoReq_t_def l58_attFindByTypeValueReq_t_def l58_attAttrBtType_t_def l58_attReadByTypeReq_t_def
  l58_attAttrType_t_def l58_attReadReq_t_def l58_attReadBlobReq_t_def l58_attReadMultiReq_t_def
  l58_attReadByGrpTypeReq_t_def l58_attWriteReq_t_def l58_attPrepareWriteReq_t_def l58_attExecuteWriteReq_t_def
  l58_gattFindByTypeValueReq_t_def l58_gattReadByTypeReq_t_def l58_gattWriteLongReq_t_def
  l58_gattReliableWritesReq_t_def l58_attErrorRsp_t_def l58_attExchangeMTURsp_t_def l58_attFindInfoRsp_t_def
  l58_attFindByTypeValueRsp_t_def l58_attReadByTypeRsp_t_def l58_attReadRsp_t_def l58_attReadBlobRsp_t_def
  l58_attReadMultiRsp_t_def l58_attReadByGrpTypeRsp_t_def l58_attPrepareWriteRsp_t_def l58_attHandleValueNoti_t_def
  l58_attHandleValueInd_t_def l58_attFlowCtrlViolatedEvt_t_def l58_attMtuUpdatedEvt_t_def

lemma events_tagged57: "list_all (\<lambda>(x, t). tagged l57_tmos_event_hdr_t t) (members l57_gapRoleEvent_t)"
  by (simp add: event_types57 tagged_def pad_def)

lemma events_tagged58: "list_all (\<lambda>(x, t). tagged l58_tmos_event_hdr_t t) (members l58_gapRoleEvent_t)"
  by (simp add: event_types58 tagged_def pad_def)

definition link_paths :: "string list list" where
  "link_paths = [[''linkCmpl'', ''connectionHandle''], [''linkCmpl'', ''connInterval''], [''linkCmpl'', ''connLatency''],
     [''linkCmpl'', ''connTimeout''], [''linkTerminate'', ''connectionHandle''], [''linkTerminate'', ''reason'']]"

definition msg_paths :: "string list list" where
  "msg_paths = [[''hdr'', ''event''], [''method''], [''msg'', ''exchangeMTUReq'', ''clientRxMTU'']]"

text \<open>C18: Whatever event a callback of the role receives, on both chips, its header is at offset 0 and its code at offset
  2, so reading the code through any member of the union is reading that of the event.  The members that the peripheral
  application reads lie at the same offsets on both chips, and the message of the attribute protocol has its event at 0,
  its method at 4 and the receive size of the client at 8, as \<open>perip_process_msg\<close> reads them.\<close>

theorem event_layouts:
  shows "list_all (\<lambda>(x, t). tagged l57_tmos_event_hdr_t t) (members l57_gapRoleEvent_t) \<and>
    list_all (\<lambda>(x, t). tagged l58_tmos_event_hdr_t t) (members l58_gapRoleEvent_t) \<and>
    reads l57_gapRoleEvent_t link_paths = [Some 10, Some 14, Some 16, Some 18, Some 4, Some 6] \<and>
    reads l58_gapRoleEvent_t link_paths = [Some 10, Some 14, Some 16, Some 18, Some 4, Some 6] \<and>
    reads l57_gattMsgEvent_t msg_paths = [Some 0, Some 4, Some 8] \<and>
    reads l58_gattMsgEvent_t msg_paths = [Some 0, Some 4, Some 8]"
proof (intro conjI)
  show "reads l57_gapRoleEvent_t link_paths = [Some 10, Some 14, Some 16, Some 18, Some 4, Some 6]"
    by (simp add: reads_def link_paths_def event_types57 pad_def)
  show "reads l58_gapRoleEvent_t link_paths = [Some 10, Some 14, Some 16, Some 18, Some 4, Some 6]"
    by (simp add: reads_def link_paths_def event_types58 pad_def)
  show "reads l57_gattMsgEvent_t msg_paths = [Some 0, Some 4, Some 8]"
    by (simp add: reads_def msg_paths_def msg_types57 pad_def)
  show "reads l58_gattMsgEvent_t msg_paths = [Some 0, Some 4, Some 8]"
    by (simp add: reads_def msg_paths_def msg_types58 pad_def)
qed (rule events_tagged57 events_tagged58)+

end
