(* ===== verification/Ble_Macros.thy ===== *)
theory Ble_Macros
  imports Byteorder
begin

text \<open>
  The macros with arguments of \<^verbatim>\<open>lib/ch57x/CH57xBLE_LIB.h\<close>: taking apart and building integers, the handle pairs of an
  attribute protocol response, permissions, and the numbers under which bonding data are stored.  The CH58x header has the
  same text.  Arguments are 32-bit integers, indexes of bonding data are unbounded.
\<close>

section \<open>Bytes of integers\<close>

definition BREAK_UINT32 :: "u32 \<Rightarrow> nat \<Rightarrow> u8" where
  "BREAK_UINT32 var ByteNum = ucast (drop_bit (ByteNum * 8) var AND 0x00FF)"

definition HI_UINT16 :: "u32 \<Rightarrow> u32" where "HI_UINT16 a = drop_bit 8 a AND 0xFF"
definition LO_UINT16 :: "u32 \<Rightarrow> u32" where "LO_UINT16 a = a AND 0xFF"
definition HI_UINT8 :: "u32 \<Rightarrow> u32" where "HI_UINT8 a = drop_bit 4 a AND 0x0F"
definition LO_UINT8 :: "u32 \<Rightarrow> u32" where "LO_UINT8 a = a AND 0x0F"

definition BUILD_UINT32 :: "u32 \<Rightarrow> u32 \<Rightarrow> u32 \<Rightarrow> u32 \<Rightarrow> u32" where
  "BUILD_UINT32 Byte0 Byte1 Byte2 Byte3 =
     (Byte0 AND 0x00FF) + push_bit 8 (Byte1 AND 0x00FF) + push_bit 16 (Byte2 AND 0x00FF) + push_bit 24 (Byte3 AND 0x00FF)"

definition BUILD_UINT16 :: "u32 \<Rightarrow> u32 \<Rightarrow> u16" where
  "BUILD_UINT16 loByte hiByte = ucast ((loByte AND 0x00FF) OR push_bit 8 (hiByte AND 0x00FF))"

definition BV :: "nat \<Rightarrow> u32" where "BV n = push_bit n 1"
definition BF :: "u32 \<Rightarrow> u32 \<Rightarrow> nat \<Rightarrow> u32" where "BF x b s = drop_bit s (x AND b)"

section \<open>Handle pairs\<close>

definition ATT_ATTR_HANDLE_IDX :: "u32 \<Rightarrow> u32" where
  "ATT_ATTR_HANDLE_IDX i = i * (2 + 2)"

definition ATT_GRP_END_HANDLE_IDX :: "u32 \<Rightarrow> u32" where
  "ATT_GRP_END_HANDLE_IDX i = ATT_ATTR_HANDLE_IDX i + 2"

definition ATT_ATTR_HANDLE :: "addr \<Rightarrow> u32 \<Rightarrow> mem \<Rightarrow> u16" where
  "ATT_ATTR_HANDLE info i m =
     BUILD_UINT16 (ucast (m (info + ATT_ATTR_HANDLE_IDX i))) (ucast (m (info + (ATT_ATTR_HANDLE_IDX i + 1))))"

definition ATT_GRP_END_HANDLE :: "addr \<Rightarrow> u32 \<Rightarrow> mem \<Rightarrow> u16" where
  "ATT_GRP_END_HANDLE info i m =
     BUILD_UINT16 (ucast (m (info + ATT_GRP_END_HANDLE_IDX i))) (ucast (m (info + (ATT_GRP_END_HANDLE_IDX i + 1))))"

section \<open>Numbers of stored items\<close>

definition BLE_NVID_GAP_BOND_START :: nat where "BLE_NVID_GAP_BOND_START = 0x20"
definition GAP_BOND_REC_ID_OFFSET :: nat where "GAP_BOND_REC_ID_OFFSET = 0"
definition GAP_BOND_LOCAL_LTK_OFFSET :: nat where "GAP_BOND_LOCAL_LTK_OFFSET = 1"
definition GAP_BOND_DEV_LTK_OFFSET :: nat where "GAP_BOND_DEV_LTK_OFFSET = 2"
definition GAP_BOND_DEV_IRK_OFFSET :: nat where "GAP_BOND_DEV_IRK_OFFSET = 3"
definition GAP_BOND_DEV_CSRK_OFFSET :: nat where "GAP_BOND_DEV_CSRK_OFFSET = 4"
definition GAP_BOND_DEV_SIGN_COUNTER_OFFSET :: nat where "GAP_BOND_DEV_SIGN_COUNTER_OFFSET = 5"
definition GAP_BOND_REC_IDS :: nat where "GAP_BOND_REC_IDS = 6"
definition BLE_NVID_GATT_CFG_START :: nat where "BLE_NVID_GATT_CFG_START = 0x70"
definition BLE_NVID_MAX_VAL :: nat where "BLE_NVID_MAX_VAL = 0x7F"

definition calcNvID :: "nat \<Rightarrow> nat \<Rightarrow> nat" where
  "calcNvID Idx offset = (Idx * GAP_BOND_REC_IDS + offset) + BLE_NVID_GAP_BOND_START"

definition mainRecordNvID :: "nat \<Rightarrow> nat" where "mainRecordNvID bondIdx = calcNvID bondIdx GAP_BOND_REC_ID_OFFSET"
definition localLTKNvID :: "nat \<Rightarrow> nat" where "localLTKNvID bondIdx = calcNvID bondIdx GAP_BOND_LOCAL_LTK_OFFSET"
definition devLTKNvID :: "nat \<Rightarrow> nat" where "devLTKNvID bondIdx = calcNvID bondIdx GAP_BOND_DEV_LTK_OFFSET"
definition devIRKNvID :: "nat \<Rightarrow> nat" where "devIRKNvID bondIdx = calcNvID bondIdx GAP_BOND_DEV_IRK_OFFSET"
definition devCSRKNvID :: "nat \<Rightarrow> nat" where "devCSRKNvID bondIdx = calcNvID bondIdx GAP_BOND_DEV_CSRK_OFFSET"
definition devSignCounterNvID :: "nat \<Rightarrow> nat" where
  "devSignCounterNvID bondIdx = calcNvID bondIdx GAP_BOND_DEV_SIGN_COUNTER_OFFSET"

definition gattCfgNvID :: "nat \<Rightarrow> nat" where "gattCfgNvID Idx = Idx + BLE_NVID_GATT_CFG_START"

section \<open>Properties\<close>

lemma and_ff: "x AND 0xFF = take_bit 8 x" for x :: u32
  by (simp add: take_bit_eq_mask mask_eq_exp_minus_1)

lemma build_bits:
  "bit (BUILD_UINT16 lo hi) n \<longleftrightarrow> (n < 8 \<and> bit lo n) \<or> (8 \<le> n \<and> n < 16 \<and> bit hi (n - 8))"
  unfolding BUILD_UINT16_def and_ff
  by (auto simp: bit_ucast_iff bit_or_iff bit_take_bit_iff bit_push_bit_iff)

lemma build_uint16_bytes: "BUILD_UINT16 (ucast lo) (ucast hi) = (ucast lo OR push_bit 8 (ucast hi) :: u16)" for lo hi :: u8
  by (rule bit_word_eqI) (auto simp: build_bits bit_ucast_iff bit_or_iff bit_push_bit_iff dest: bit_imp_le_length)

lemma and_ff_break: "ucast (BREAK_UINT32 x k) AND (0xFF :: u32) = take_bit 8 (drop_bit (k * 8) x)"
  unfolding and_ff BREAK_UINT32_def
  by (rule bit_word_eqI) (auto simp: bit_take_bit_iff bit_ucast_iff bit_drop_bit_eq)

lemma split_byte: "x = take_bit 8 x + push_bit 8 (drop_bit 8 x)" for x :: u32
  by (metis add.commute bits_ident)

text \<open>What is taken apart byte by byte is built again: every 16-bit value from its low and high byte, every 32-bit
  value from its four bytes.\<close>

theorem build_break:
  shows "BUILD_UINT16 (LO_UINT16 (ucast w)) (HI_UINT16 (ucast w)) = w \<and>
    BUILD_UINT32 (ucast (BREAK_UINT32 x 0)) (ucast (BREAK_UINT32 x 1)) (ucast (BREAK_UINT32 x 2))
      (ucast (BREAK_UINT32 x 3)) = x"
proof (rule conjI)
  show "BUILD_UINT16 (LO_UINT16 (ucast w)) (HI_UINT16 (ucast w)) = w"
    unfolding LO_UINT16_def HI_UINT16_def and_ff
    by (rule bit_word_eqI) (auto simp: build_bits bit_take_bit_iff bit_ucast_iff bit_drop_bit_eq)
  have top: "take_bit 8 (drop_bit 24 x) = drop_bit 24 x"
    by (rule bit_word_eqI) (auto simp: bit_take_bit_iff bit_drop_bit_eq dest: bit_imp_le_length)
  have "x = take_bit 8 x + push_bit 8 (take_bit 8 (drop_bit 8 x) + push_bit 8 (take_bit 8 (drop_bit 16 x) +
      push_bit 8 (take_bit 8 (drop_bit 24 x))))"
    using split_byte [of x] split_byte [of "drop_bit 8 x"] split_byte [of "drop_bit 16 x"]
    by (simp add: top drop_bit_drop_bit)
  from this [symmetric] show "BUILD_UINT32 (ucast (BREAK_UINT32 x 0)) (ucast (BREAK_UINT32 x 1))
      (ucast (BREAK_UINT32 x 2)) (ucast (BREAK_UINT32 x 3)) = x"
    by (simp add: BUILD_UINT32_def and_ff_break push_bit_add push_bit_push_bit add.assoc)
qed

text \<open>The handles of a response are read with the byte order functions.\<close>

lemma handle_pair_reads:
  "ATT_ATTR_HANDLE info i m = sys_get_le16 (info + 4 * i) m"
  "ATT_GRP_END_HANDLE info i m = sys_get_le16 (info + 4 * i + 2) m"
  by (simp_all add: ATT_ATTR_HANDLE_def ATT_GRP_END_HANDLE_def ATT_ATTR_HANDLE_IDX_def ATT_GRP_END_HANDLE_IDX_def
      build_uint16_bytes sys_get_le16_def or.commute algebra_simps)

text \<open>The six items of up to 13 bonds and the 16 configurations of the attribute server are stored under numbers
  that are all different and lie in the ranges set aside for them; a fourteenth bond would take numbers of the
  configurations.\<close>

theorem nv_ids_separate:
  assumes "i < 13" and "j < 13" and "a < GAP_BOND_REC_IDS" and "b < GAP_BOND_REC_IDS" and "c < 16"
  shows "(calcNvID i a = calcNvID j b \<longleftrightarrow> i = j \<and> a = b) \<and>
    BLE_NVID_GAP_BOND_START \<le> calcNvID i a \<and>
    calcNvID i a < gattCfgNvID c \<and>
    gattCfgNvID c \<le> BLE_NVID_MAX_VAL \<and>
    devLTKNvID 13 = gattCfgNvID 0"
proof (intro conjI)
  have "(i * 6 + a) div 6 = i" "(j * 6 + b) div 6 = j" "(i * 6 + a) mod 6 = a" "(j * 6 + b) mod 6 = b"
    using assms by (simp_all add: GAP_BOND_REC_IDS_def)
  then show "calcNvID i a = calcNvID j b \<longleftrightarrow> i = j \<and> a = b"
    unfolding calcNvID_def GAP_BOND_REC_IDS_def by (metis add_right_cancel)
  show "BLE_NVID_GAP_BOND_START \<le> calcNvID i a" "calcNvID i a < gattCfgNvID c" "gattCfgNvID c \<le> BLE_NVID_MAX_VAL"
    using assms
    by (simp_all add: calcNvID_def gattCfgNvID_def GAP_BOND_REC_IDS_def BLE_NVID_GAP_BOND_START_def
        BLE_NVID_GATT_CFG_START_def BLE_NVID_MAX_VAL_def)
  show "devLTKNvID 13 = gattCfgNvID 0"
    by (simp add: devLTKNvID_def calcNvID_def gattCfgNvID_def GAP_BOND_REC_IDS_def BLE_NVID_GAP_BOND_START_def
        BLE_NVID_GATT_CFG_START_def GAP_BOND_DEV_LTK_OFFSET_def)
qed

theorem nv_ids_separate_witness:
  "calcNvID 12 5 = calcNvID 12 5 \<and> calcNvID 12 5 < gattCfgNvID 15 \<and> gattCfgNvID 15 \<le> BLE_NVID_MAX_VAL"
  using nv_ids_separate [of 12 12 5 5 15] by (simp add: GAP_BOND_REC_IDS_def)

end
