(* ===== verification/Peripheral.thy ===== *)
theory Peripheral
  imports Gatt_Tables Adv Pm
begin

text \<open>
  The peripheral application \<^verbatim>\<open>samples/bluetooth/peripheral/src/peripheral.c\<close> with its connection record
  (\<^verbatim>\<open>include/bluetooth/conn.h\<close>): it composes advertising (\<open>Adv\<close>), the services (\<open>Gatt_Services\<close>, \<open>Gatt_Tables\<close>) and the
  power locks (\<open>Pm\<close>) on one task of the Bluetooth library.

  The library is an argument: one state \<open>'g\<close> behind the interfaces that the components use, and \<open>tmos\<close> for the calls of
  the application itself.  Events of the role are records with the members of the unions that the code reads.  What is
  printed is collected as format, without the final line feed, and arguments.  \<open>at\<close> gives the address of each static or
  local variable.
\<close>

section \<open>Connections\<close>

record ble_conn_param =
  connHandle :: u16
  connInterval :: u16
  connSlaveLatency :: u16
  connTimeout :: u16

definition BLE_CONN_PARAM_DEFINE :: ble_conn_param where
  "BLE_CONN_PARAM_DEFINE = \<lparr>connHandle = GAP_CONNHANDLE_INIT, connInterval = 0, connSlaveLatency = 0, connTimeout = 0\<rparr>"

definition BLE_CONN_PARAM_RESET :: "ble_conn_param \<Rightarrow> ble_conn_param" where
  "BLE_CONN_PARAM_RESET c =
     c\<lparr>connHandle := GAP_CONNHANDLE_INIT, connInterval := 0, connSlaveLatency := 0, connTimeout := 0\<rparr>"

section \<open>The library\<close>

datatype tmos_call =
    Register_process
  | Set_event u8 u16 | Reload_task u8 u16 u32 | Stop_task u8 u16
  | Receive u8 | Release addr
  | Start_device u8 addr addr
  | Terminate_link u16
  | Passcode_rsp u16 u8 u32
  | Tmos_rand
  | Ggs_set u8 "u8 list" | Bond_set u16 "u8 list"
  | Ggs_services u32 | Gatt_services u32

record 'g app_lib =
  gap_of :: "'g gap_lib"
  gatt_of :: "'g gatt_lib"
  host_of :: "'g host_lib"
  tmos :: "tmos_call \<Rightarrow> 'g \<Rightarrow> u32 \<times> 'g"

datatype gapRole_States =
    GAPROLE_INIT | GAPROLE_STARTED | GAPROLE_ADVERTISING | GAPROLE_WAITING | GAPROLE_CONNECTED | GAPROLE_CONNECTED_ADV
  | GAPROLE_ERROR

record gapRoleEvent =
  ev_status :: u8
  ev_opcode :: u8
  est_handle :: u16
  est_interval :: u16
  est_latency :: u16
  est_timeout :: u16
  term_handle :: u16
  term_reason :: u8

definition GAP_MAKE_DISCOVERABLE_DONE_EVENT :: u8 where "GAP_MAKE_DISCOVERABLE_DONE_EVENT = 0x03"
definition GAP_END_DISCOVERABLE_DONE_EVENT :: u8 where "GAP_END_DISCOVERABLE_DONE_EVENT = 0x04"
definition GAP_LINK_ESTABLISHED_EVENT :: u8 where "GAP_LINK_ESTABLISHED_EVENT = 0x05"
definition GAP_LINK_TERMINATED_EVENT :: u8 where "GAP_LINK_TERMINATED_EVENT = 0x06"
definition GATT_MSG_EVENT :: u8 where "GATT_MSG_EVENT = 0xB0"
definition GAP_MSG_EVENT :: u8 where "GAP_MSG_EVENT = 0xD0"
definition ATT_MTU_UPDATED_EVENT :: u8 where "ATT_MTU_UPDATED_EVENT = 0x7F"
definition GAPBOND_PAIRING_STATE_STARTED :: u8 where "GAPBOND_PAIRING_STATE_STARTED = 0"
definition GAPBOND_PAIRING_STATE_COMPLETE :: u8 where "GAPBOND_PAIRING_STATE_COMPLETE = 1"
definition GAPBOND_PAIRING_STATE_BONDED :: u8 where "GAPBOND_PAIRING_STATE_BONDED = 2"
definition GAPBOND_PAIRING_STATE_BOND_SAVED :: u8 where "GAPBOND_PAIRING_STATE_BOND_SAVED = 3"
definition GAPBOND_PERI_PAIRING_MODE :: u16 where "GAPBOND_PERI_PAIRING_MODE = 0x400"
definition GAPBOND_PERI_MITM_PROTECTION :: u16 where "GAPBOND_PERI_MITM_PROTECTION = 0x401"
definition GAPBOND_PERI_IO_CAPABILITIES :: u16 where "GAPBOND_PERI_IO_CAPABILITIES = 0x402"
definition GAPBOND_PERI_BONDING_ENABLED :: u16 where "GAPBOND_PERI_BONDING_ENABLED = 0x405"
definition GAPBOND_PAIRING_MODE_WAIT_FOR_REQ :: u8 where "GAPBOND_PAIRING_MODE_WAIT_FOR_REQ = 1"
definition GAPBOND_IO_CAP_DISPLAY_ONLY :: u8 where "GAPBOND_IO_CAP_DISPLAY_ONLY = 0"
definition GGS_DEVICE_NAME_ATT :: u8 where "GGS_DEVICE_NAME_ATT = 0"
definition GAP_ADTYPE_ADV_IND :: u8 where "GAP_ADTYPE_ADV_IND = 0x00"
definition GAP_ADTYPE_ADV_NONCONN_IND :: u8 where "GAP_ADTYPE_ADV_NONCONN_IND = 0x03"
definition GAP_ADVCHAN_ALL :: u8 where "GAP_ADVCHAN_ALL = 0x07"
definition GAP_FILTER_POLICY_ALL :: u8 where "GAP_FILTER_POLICY_ALL = 0x00"
definition GAP_ADTYPE_FLAGS_GENERAL :: u8 where "GAP_ADTYPE_FLAGS_GENERAL = 0x02"
definition GAP_ADTYPE_FLAGS_BREDR_NOT_SUPPORTED :: u8 where "GAP_ADTYPE_FLAGS_BREDR_NOT_SUPPORTED = 0x04"
definition GAP_ADTYPE_FLAGS :: u8 where "GAP_ADTYPE_FLAGS = 0x01"
definition GAP_ADTYPE_16BIT_MORE :: u8 where "GAP_ADTYPE_16BIT_MORE = 0x02"
definition GAP_ADTYPE_LOCAL_NAME_COMPLETE :: u8 where "GAP_ADTYPE_LOCAL_NAME_COMPLETE = 0x09"

section \<open>State\<close>

record 'g perip =
  perip_conn :: ble_conn_param
  perip_taskid :: u8
  test_flag :: bool
  perip_pm :: pm_system
  perip_adv_data :: buf_simple
  perip_machine :: machine
  perip_lib :: 'g
  printed :: "(string \<times> u32 list) list"

definition printk :: "string \<Rightarrow> u32 list \<Rightarrow> 'g perip \<Rightarrow> 'g perip" where
  "printk fmt args s = s\<lparr>printed := printed s @ [(fmt, args)]\<rparr>"

definition app_call :: "'g app_lib \<Rightarrow> tmos_call \<Rightarrow> 'g perip \<Rightarrow> u32 \<times> 'g perip" where
  "app_call lib c s = (let (r, g) = tmos lib c (perip_lib s) in (r, s\<lparr>perip_lib := g\<rparr>))"

definition on_adv :: "('g ble \<Rightarrow> u32 \<times> 'g ble) \<Rightarrow> 'g perip \<Rightarrow> 'g perip" where
  "on_adv f s =
     (let (_, b) = f \<lparr>adv_data = perip_adv_data s, ble_machine = perip_machine s, ble_gap = perip_lib s\<rparr>
      in s\<lparr>perip_adv_data := adv_data b, perip_machine := ble_machine b, perip_lib := ble_gap b\<rparr>)"

definition on_host :: "('g host \<Rightarrow> 'g host) \<Rightarrow> 'g perip \<Rightarrow> 'g perip" where
  "on_host f s =
     (let h = f (host_initial (perip_machine s) (perip_lib s))
      in s\<lparr>perip_machine := host_machine h, perip_lib := host_lib_state h\<rparr>)"

text \<open>The power locks report on the one machine.\<close>

definition on_pm :: "(pm_system \<Rightarrow> pm_system) \<Rightarrow> 'g perip \<Rightarrow> 'g perip" where
  "on_pm f s =
     (let p = f ((perip_pm s)\<lparr>pm_mach := perip_machine s\<rparr>) in s\<lparr>perip_pm := p, perip_machine := pm_mach p\<rparr>)"

definition PRRIP_START_DEVICE :: u16 where "PRRIP_START_DEVICE = push_bit 0 1"
definition PERIP_POLL_NOTIFY_EVENT :: u16 where "PERIP_POLL_NOTIFY_EVENT = push_bit 1 1"
definition TEST_POLL_EVENT :: u16 where "TEST_POLL_EVENT = push_bit 4 1"

section \<open>Pairing\<close>

definition perip_bond_passcode :: "'g app_lib \<Rightarrow> u16 \<Rightarrow> u8 \<Rightarrow> u8 \<Rightarrow> 'g perip \<Rightarrow> 'g perip" where
  "perip_bond_passcode lib connectionHandle uiInputs uiOutputs s =
     (if uiOutputs \<noteq> 0 then
        let (r, s) = app_call lib Tmos_rand s;
            passkey = r mod 1000000;
            s = printk ''Pass key: %06d'' [passkey] s
        in snd (app_call lib (Passcode_rsp connectionHandle SUCCESS passkey) s)
      else s)"

definition pair_state_cause_str :: "u8 \<Rightarrow> string" where
  "pair_state_cause_str state =
     (if state = GAPBOND_PAIRING_STATE_STARTED then ''Pairing started''
      else if state = GAPBOND_PAIRING_STATE_COMPLETE then ''Pairing complete''
      else if state = GAPBOND_PAIRING_STATE_BONDED then ''Bonded''
      else if state = GAPBOND_PAIRING_STATE_BOND_SAVED then ''Bond saved''
      else ''Unknown state'')"

definition perip_pair_state :: "u16 \<Rightarrow> u8 \<Rightarrow> u8 \<Rightarrow> 'g perip \<Rightarrow> 'g perip" where
  "perip_pair_state conn_handle state status s =
     (let s = printk ''Conn %#x '' [ucast conn_handle] s;
          s = printk (pair_state_cause_str state @ '' '') [] s
      in printk (if status \<noteq> 0 then '': ERROR'' else '': SUCCESS'') [] s)"

section \<open>Callbacks of the simple profile\<close>

definition perip_sps_ccc_changed :: "'g app_lib \<Rightarrow> u16 \<Rightarrow> 'g perip \<Rightarrow> 'g perip" where
  "perip_sps_ccc_changed lib config s =
     (let s = printk (if config \<noteq> 0 then ''sps CCC enabled'' else ''sps CCC disabled'') [] s
      in if config \<noteq> 0
         then snd (app_call lib (Reload_task (perip_taskid s) PERIP_POLL_NOTIFY_EVENT (MS1_TO_SYSTEM_TIME 1000)) s)
         else snd (app_call lib (Stop_task (perip_taskid s) PERIP_POLL_NOTIFY_EVENT) s))"

definition perip_sps_value_changed :: "u8 \<Rightarrow> addr \<Rightarrow> u16 \<Rightarrow> 'g perip \<Rightarrow> 'g perip" where
  "perip_sps_value_changed charc v n s =
     (let s = printk ''char %d: '' [ucast charc] s;
          s = fold (\<lambda>i s. printk ''%#x '' [ucast (ram (perip_machine s) (v + of_nat i))] s) [0..<unat n] s
      in printk '''' [] s)"

section \<open>Links\<close>

definition perip_link_established :: "'g app_lib \<Rightarrow> gapRoleEvent \<Rightarrow> 'g perip \<Rightarrow> 'g perip" where
  "perip_link_established lib e s =
     (if connHandle (perip_conn s) \<noteq> GAP_CONNHANDLE_INIT then
        printk ''Connection max...'' [] (snd (app_call lib (Terminate_link (est_handle e)) s))
      else
        let s = s\<lparr>perip_conn := \<lparr>connHandle = est_handle e, connInterval = est_interval e,
              connSlaveLatency = est_latency e, connTimeout = est_timeout e\<rparr>\<rparr>
        in printk ''Conn %#x - (%#x, %#x, %#x)''
             [ucast (est_handle e), ucast (est_interval e), ucast (est_latency e), ucast (est_timeout e)] s)"

definition perip_link_terminated :: "'g app_lib \<Rightarrow> gapRoleEvent \<Rightarrow> 'g perip \<Rightarrow> 'g perip" where
  "perip_link_terminated lib e s =
     (if term_handle e = connHandle (perip_conn s) then
        let s = s\<lparr>perip_conn := BLE_CONN_PARAM_RESET (perip_conn s)\<rparr>;
            (_, s) = app_call lib (Stop_task (perip_taskid s) PERIP_POLL_NOTIFY_EVENT) s
        in on_adv (ble_adv_restart (gap_of lib)) s
      else printk ''ERR..'' [] s)"

definition perip_state_notify :: "'g app_lib \<Rightarrow> gapRole_States \<Rightarrow> gapRoleEvent \<Rightarrow> 'g perip \<Rightarrow> 'g perip" where
  "perip_state_notify lib newState e s =
     (case newState of
        GAPROLE_STARTED \<Rightarrow> printk ''Initialized..'' [] s
      | GAPROLE_ADVERTISING \<Rightarrow>
          if ev_opcode e = GAP_LINK_TERMINATED_EVENT then
            printk ''Advertising..'' [] (printk ''Disconnected.. Reason: %#x'' [ucast (term_reason e)] (perip_link_terminated lib e s))
          else if ev_opcode e = GAP_MAKE_DISCOVERABLE_DONE_EVENT then printk ''Advertising..'' [] s
          else s
      | GAPROLE_CONNECTED \<Rightarrow>
          if ev_opcode e = GAP_LINK_ESTABLISHED_EVENT then printk ''Connected..'' [] (perip_link_established lib e s) else s
      | GAPROLE_CONNECTED_ADV \<Rightarrow>
          if ev_opcode e = GAP_MAKE_DISCOVERABLE_DONE_EVENT then printk ''Connected Advertising..'' [] s else s
      | GAPROLE_WAITING \<Rightarrow>
          if ev_opcode e = GAP_END_DISCOVERABLE_DONE_EVENT then printk ''Waiting for advertising..'' [] s
          else if ev_opcode e = GAP_LINK_TERMINATED_EVENT then
            printk ''Disconnected.. Reason: %#x'' [ucast (term_reason e)] (perip_link_terminated lib e s)
          else if ev_opcode e = GAP_LINK_ESTABLISHED_EVENT then
            if ev_status e \<noteq> SUCCESS then printk ''Waiting for advertising..'' [] s else printk ''Error..'' [] s
          else printk ''Error..%x'' [ucast (ev_opcode e)] s
      | GAPROLE_ERROR \<Rightarrow> printk ''Error..'' [] s
      | _ \<Rightarrow> s)"

section \<open>The task\<close>

text \<open>A message starts with its event; \<open>gattMsgEvent_t\<close> has its method at offset 4 and the message at offset 8.\<close>

definition perip_process_msg :: "addr \<Rightarrow> 'g perip \<Rightarrow> 'g perip" where
  "perip_process_msg pMsg s =
     (let m = ram (perip_machine s)
      in if m pMsg = GAP_MSG_EVENT then s
         else if m pMsg = GATT_MSG_EVENT then
           if m (pMsg + 4) = ATT_MTU_UPDATED_EVENT then printk ''mtu exchange: %d'' [ucast (sys_get_le16 (pMsg + 8) m)] s
           else s
         else s)"

definition perip_poll_notify :: "'g app_lib \<Rightarrow> syms \<Rightarrow> gatt_attribute list \<Rightarrow> 'g perip \<Rightarrow> 'g perip" where
  "perip_poll_notify lib at srv s =
     (let s = printk ''sps notify: '' [] s;
          (st, m, g) = sps_notify (gatt_of lib) srv (connHandle (perip_conn s)) (at ''temp'') 1
            (ram (perip_machine s), perip_lib s);
          s = s\<lparr>perip_machine := (perip_machine s)\<lparr>ram := m\<rparr>, perip_lib := g\<rparr>
      in if st = SUCCESS then
           let s = printk ''%d'' [ucast (m (at ''temp''))] s
           in s\<lparr>perip_machine := (perip_machine s)\<lparr>ram := m(at ''temp'' := m (at ''temp'') + 1)\<rparr>\<rparr>
         else printk ''ERROR'' [] s)"

definition perip_test_poll :: "'g perip \<Rightarrow> 'g perip" where
  "perip_test_poll s =
     (let s = printk ''*'' [] s
      in if \<not> test_flag s
         then on_pm (pm_policy_state_lock_get PM_STATE_SUSPEND_TO_RAM) (s\<lparr>test_flag := True\<rparr>)
         else on_pm (pm_policy_state_lock_put PM_STATE_SUSPEND_TO_RAM) (s\<lparr>test_flag := False\<rparr>))"

definition perip_receive :: "'g app_lib \<Rightarrow> 'g perip \<Rightarrow> 'g perip" where
  "perip_receive lib s =
     (let (pMsg, s) = app_call lib (Receive (perip_taskid s)) s
      in if pMsg \<noteq> NULL then snd (app_call lib (Release pMsg) (perip_process_msg pMsg s)) else s)"

definition perip_start_device :: "'g app_lib \<Rightarrow> syms \<Rightarrow> 'g perip \<Rightarrow> 'g perip" where
  "perip_start_device lib at s =
     (let (ret, s) = app_call lib (Start_device (perip_taskid s) (at ''perip_bond_cb'') (at ''perip_role_cb'')) s
      in s\<lparr>perip_machine := ASSERT_NO_MSG (ret = 0) (perip_machine s)\<rparr>)"

definition perip_process_event ::
  "'g app_lib \<Rightarrow> syms \<Rightarrow> gatt_attribute list \<Rightarrow> u16 \<Rightarrow> 'g perip \<Rightarrow> u16 \<times> 'g perip" where
  "perip_process_event lib at srv event s =
     (if event AND SYS_EVENT_MSG \<noteq> 0 then (event XOR SYS_EVENT_MSG, perip_receive lib s)
      else if event AND PRRIP_START_DEVICE \<noteq> 0 then (event XOR PRRIP_START_DEVICE, perip_start_device lib at s)
      else if event AND PERIP_POLL_NOTIFY_EVENT \<noteq> 0 then
        (event XOR PERIP_POLL_NOTIFY_EVENT, perip_poll_notify lib at srv s)
      else if event AND TEST_POLL_EVENT \<noteq> 0 then (event XOR TEST_POLL_EVENT, perip_test_poll s)
      else (0, s))"

section \<open>Start-up\<close>

text \<open>The device name is a build option, its bytes without the terminator.  The bytes of the advertised elements are
  constants at \<open>ad0\<close>, \<open>ad1\<close> and \<open>sd0\<close>.\<close>

definition BLE_ADV_PARAM_INIT :: "u8 \<Rightarrow> u32 \<Rightarrow> u32 \<Rightarrow> addr \<Rightarrow> ble_adv_param" where
  "BLE_ADV_PARAM_INIT options int_min int_max dir =
     \<lparr>adv_type = options, adv_channel = GAP_ADVCHAN_ALL, adv_filter_policy = GAP_FILTER_POLICY_ALL,
      adv_interval_min = int_min, adv_interval_max = int_max, adv_dir_addr = dir\<rparr>"

definition BLE_ADV_CONN :: ble_adv_param where
  "BLE_ADV_CONN = BLE_ADV_PARAM_INIT GAP_ADTYPE_ADV_IND 100 150 NULL"

definition BLE_ADV_NOCONN :: ble_adv_param where
  "BLE_ADV_NOCONN = BLE_ADV_PARAM_INIT GAP_ADTYPE_ADV_NONCONN_IND 100 150 NULL"

definition BT_DATA :: "u8 \<Rightarrow> addr \<Rightarrow> nat \<Rightarrow> ble_data" where
  "BT_DATA ty data n = \<lparr>bd_len = of_nat n, bd_type = ty, bd_data = data\<rparr>"

definition perip_ad_bytes :: "u8 list \<Rightarrow> (string \<times> u8 list) list" where
  "perip_ad_bytes name =
     [(''ad0'', [GAP_ADTYPE_FLAGS_GENERAL OR GAP_ADTYPE_FLAGS_BREDR_NOT_SUPPORTED]),
      (''ad1'', [ucast SIMPLEPROFILE_SERV_UUID, ucast (drop_bit 8 SIMPLEPROFILE_SERV_UUID)]),
      (''sd0'', name)]"

definition perip_ad :: "syms \<Rightarrow> ble_data list" where
  "perip_ad at = [BT_DATA GAP_ADTYPE_FLAGS (at ''ad0'') 1, BT_DATA GAP_ADTYPE_16BIT_MORE (at ''ad1'') 2]"

definition perip_sd :: "syms \<Rightarrow> u8 list \<Rightarrow> ble_data list" where
  "perip_sd at name = [BT_DATA GAP_ADTYPE_LOCAL_NAME_COMPLETE (at ''sd0'') (length name)]"

definition perip_advertise :: "'g app_lib \<Rightarrow> syms \<Rightarrow> u8 list \<Rightarrow> 'g perip \<Rightarrow> 'g perip" where
  "perip_advertise lib at name =
     on_adv (\<lambda>b. the (ble_adv_enable (gap_of lib) (Some BLE_ADV_CONN) (Some (perip_ad at)) (Some (perip_sd at name)) b))"

definition perip_bond_setup :: "'g app_lib \<Rightarrow> 'g perip \<Rightarrow> 'g perip" where
  "perip_bond_setup lib s =
     (let s = snd (app_call lib (Bond_set GAPBOND_PERI_PAIRING_MODE [GAPBOND_PAIRING_MODE_WAIT_FOR_REQ]) s);
          s = snd (app_call lib (Bond_set GAPBOND_PERI_MITM_PROTECTION [1]) s);
          s = snd (app_call lib (Bond_set GAPBOND_PERI_IO_CAPABILITIES [GAPBOND_IO_CAP_DISPLAY_ONLY]) s)
      in snd (app_call lib (Bond_set GAPBOND_PERI_BONDING_ENABLED [0]) s))"

definition perip_set_char :: "sps_statics \<Rightarrow> u8 \<Rightarrow> addr \<Rightarrow> u8 list \<Rightarrow> 'g perip \<Rightarrow> 'g perip" where
  "perip_set_char st charc local bytes s =
     (let m = mem_write (ram (perip_machine s)) local bytes
      in s\<lparr>perip_machine := (perip_machine s)\<lparr>ram := snd (sps_set_param st charc local (of_nat (length bytes)) m)\<rparr>\<rparr>)"

definition perip_process_init :: "'g app_lib \<Rightarrow> syms \<Rightarrow> sps_statics \<Rightarrow> u8 list \<Rightarrow> 'g perip \<Rightarrow> 'g perip" where
  "perip_process_init lib at st name s =
     (let (tid, s) = app_call lib Register_process s;
          s = s\<lparr>perip_taskid := ucast tid\<rparr>;
          s = perip_advertise lib at name s;
          s = snd (app_call lib (Ggs_set GGS_DEVICE_NAME_ATT (takeWhile (\<lambda>b. b \<noteq> 0) name)) s);
          s = perip_bond_setup lib s;
          s = snd (app_call lib (Ggs_services GATT_ALL_SERVICES) s);
          s = snd (app_call lib (Gatt_services GATT_ALL_SERVICES) s);
          s = on_host (\<lambda>h. snd (device_info_service_register (host_of lib) at h)) s;
          s = on_host (\<lambda>h. snd (snd (simple_service_register (host_of lib) at (at ''sps'') h))) s;
          s = perip_set_char st SIMPLEPROFILE_CHAR1 (at ''charc1'') [1] s;
          s = perip_set_char st SIMPLEPROFILE_CHAR2 (at ''charc2'') [2] s;
          s = perip_set_char st SIMPLEPROFILE_CHAR3 (at ''charc3'') [3] s;
          s = perip_set_char st SIMPLEPROFILE_CHAR4 (at ''charc4'') [4] s;
          s = perip_set_char st SIMPLEPROFILE_CHAR5 (at ''charc5'') [1, 2, 3, 4, 5] s;
          s = snd (app_call lib (Set_event (perip_taskid s) PRRIP_START_DEVICE) s)
      in snd (app_call lib (Reload_task (perip_taskid s) TEST_POLL_EVENT (MS1_TO_SYSTEM_TIME 1000)) s))"

section \<open>One link at a time\<close>

text \<open>
  The specification: the application has at most one link, known by its handle and parameters.  A link that is
  established while there is one is terminated at once; when the link goes down the notification task is stopped and
  advertising starts again; everything else leaves the link alone and asks nothing of the library.
\<close>

record link =
  l_handle :: u16
  l_interval :: u16
  l_latency :: u16
  l_timeout :: u16

datatype app_lib_call = To_tmos tmos_call | To_gap gap_call | To_host host_call

definition established :: "gapRole_States \<Rightarrow> gapRoleEvent \<Rightarrow> bool" where
  "established st e \<longleftrightarrow> st = GAPROLE_CONNECTED \<and> ev_opcode e = GAP_LINK_ESTABLISHED_EVENT"

definition terminated :: "gapRole_States \<Rightarrow> gapRoleEvent \<Rightarrow> bool" where
  "terminated st e \<longleftrightarrow> st \<in> {GAPROLE_ADVERTISING, GAPROLE_WAITING} \<and> ev_opcode e = GAP_LINK_TERMINATED_EVENT"

definition link_step :: "u8 \<Rightarrow> gapRole_States \<times> gapRoleEvent \<Rightarrow> link option \<Rightarrow> link option \<times> app_lib_call list" where
  "link_step tid x l =
     (case x of (st, e) \<Rightarrow>
        (case l of
           None \<Rightarrow>
             (if established st e
              then Some \<lparr>l_handle = est_handle e, l_interval = est_interval e, l_latency = est_latency e, l_timeout = est_timeout e\<rparr>
              else None, [])
         | Some k \<Rightarrow>
             if established st e then (Some k, [To_tmos (Terminate_link (est_handle e))])
             else if terminated st e \<and> term_handle e = l_handle k
             then (None, [To_tmos (Stop_task tid PERIP_POLL_NOTIFY_EVENT), To_gap (Role_parameter GAPROLE_ADVERT_ENABLED [1])])
             else (Some k, [])))"

primrec link_run ::
  "u8 \<Rightarrow> (gapRole_States \<times> gapRoleEvent) list \<Rightarrow> link option \<Rightarrow> link option \<times> app_lib_call list" where
  "link_run tid [] l = (l, [])"
| "link_run tid (x # xs) l =
     (let (l, cs) = link_step tid x l; (l, cs') = link_run tid xs l in (l, cs @ cs'))"

definition link_of :: "'g perip \<Rightarrow> link option" where
  "link_of s =
     (let c = perip_conn s
      in if connHandle c = GAP_CONNHANDLE_INIT then None
         else Some \<lparr>l_handle = connHandle c, l_interval = connInterval c, l_latency = connSlaveLatency c, l_timeout = connTimeout c\<rparr>)"

definition lib_call :: "'g app_lib \<Rightarrow> app_lib_call \<Rightarrow> 'g \<Rightarrow> 'g" where
  "lib_call lib c g = (case c of To_tmos a \<Rightarrow> snd (tmos lib a g) | To_gap a \<Rightarrow> snd (gap_of lib a g) | To_host a \<Rightarrow> snd (host_of lib a g))"

definition event_ok :: "gapRole_States \<times> gapRoleEvent \<Rightarrow> bool" where
  "event_ok x \<longleftrightarrow> est_handle (snd x) \<noteq> GAP_CONNHANDLE_INIT \<and> term_handle (snd x) \<noteq> GAP_CONNHANDLE_INIT"

definition notify_all :: "'g app_lib \<Rightarrow> (gapRole_States \<times> gapRoleEvent) list \<Rightarrow> 'g perip \<Rightarrow> 'g perip" where
  "notify_all lib = fold (\<lambda>(st, e). perip_state_notify lib st e)"

lemma printk_simps [simp]:
  "perip_conn (printk f a s) = perip_conn s" "perip_taskid (printk f a s) = perip_taskid s"
  "perip_lib (printk f a s) = perip_lib s" "perip_machine (printk f a s) = perip_machine s"
  "perip_pm (printk f a s) = perip_pm s" "test_flag (printk f a s) = test_flag s"
  "link_of (printk f a s) = link_of s"
  by (simp_all add: printk_def link_of_def)

lemma app_call_simps [simp]:
  "perip_conn (snd (app_call lib c s)) = perip_conn s" "perip_taskid (snd (app_call lib c s)) = perip_taskid s"
  "perip_lib (snd (app_call lib c s)) = snd (tmos lib c (perip_lib s))"
  "perip_machine (snd (app_call lib c s)) = perip_machine s"
  "perip_pm (snd (app_call lib c s)) = perip_pm s" "test_flag (snd (app_call lib c s)) = test_flag s"
  by (simp_all add: app_call_def split: prod.split)

lemma adv_restart_simps [simp]:
  "perip_conn (on_adv (ble_adv_restart g) s) = perip_conn s"
  "perip_taskid (on_adv (ble_adv_restart g) s) = perip_taskid s"
  "perip_lib (on_adv (ble_adv_restart g) s) = snd (g (Role_parameter GAPROLE_ADVERT_ENABLED [1]) (perip_lib s))"
  "perip_machine (on_adv (ble_adv_restart g) s) = perip_machine s"
  "perip_pm (on_adv (ble_adv_restart g) s) = perip_pm s" "test_flag (on_adv (ble_adv_restart g) s) = test_flag s"
  by (simp_all add: on_adv_def ble_adv_restart_def split: prod.split)

lemmas role_events = GAP_LINK_TERMINATED_EVENT_def GAP_MAKE_DISCOVERABLE_DONE_EVENT_def GAP_LINK_ESTABLISHED_EVENT_def
  GAP_END_DISCOVERABLE_DONE_EVENT_def

text \<open>Only an established or a terminated link reaches a function that changes anything but the console.\<close>

definition console :: "'g perip \<Rightarrow> 'g perip \<Rightarrow> bool" where
  "console s t \<longleftrightarrow> t = s\<lparr>printed := printed t\<rparr>"

lemma console_printk [simp]: "console s s" "console s t \<Longrightarrow> console s (printk f a t)"
proof -
  show "console s s" by (simp add: console_def)
  assume "console s t"
  then obtain p where "t = s\<lparr>printed := p\<rparr>" by (auto simp: console_def)
  then show "console s (printk f a t)" by (simp add: console_def printk_def)
qed

lemma consoleD:
  assumes "console s t"
  shows "perip_conn t = perip_conn s" "perip_taskid t = perip_taskid s" "perip_lib t = perip_lib s"
    "perip_machine t = perip_machine s" "perip_pm t = perip_pm s" "test_flag t = test_flag s" "link_of t = link_of s"
proof -
  obtain p where t: "t = s\<lparr>printed := p\<rparr>" using assms by (auto simp: console_def)
  show "perip_conn t = perip_conn s" "perip_taskid t = perip_taskid s" "perip_lib t = perip_lib s"
    "perip_machine t = perip_machine s" "perip_pm t = perip_pm s" "test_flag t = test_flag s" "link_of t = link_of s"
    by (simp_all add: t link_of_def)
qed

lemma perip_state_notify_cases:
  obtains (established) "established st e" and "console (perip_link_established lib e s) (perip_state_notify lib st e s)"
  | (terminated) "terminated st e" and "\<not> established st e"
      and "console (perip_link_terminated lib e s) (perip_state_notify lib st e s)"
  | (other) "\<not> established st e" and "\<not> terminated st e" and "console s (perip_state_notify lib st e s)"
proof -
  have 1: "console (perip_link_established lib e s) (perip_state_notify lib st e s)" if "established st e"
    using that by (simp add: established_def perip_state_notify_def)
  have 2: "console (perip_link_terminated lib e s) (perip_state_notify lib st e s)" if "terminated st e"
    using that by (auto simp: terminated_def perip_state_notify_def role_events)
  have 3: "console s (perip_state_notify lib st e s)" if "\<not> established st e" "\<not> terminated st e"
    using that by (cases st) (simp_all add: established_def terminated_def perip_state_notify_def)
  show ?thesis using 1 2 3 that by blast
qed

lemma perip_link_established_effect:
  assumes "est_handle e \<noteq> GAP_CONNHANDLE_INIT" and "established st e"
  shows "link_of (perip_link_established lib e s) = fst (link_step (perip_taskid s) (st, e) (link_of s))"
    and "perip_lib (perip_link_established lib e s) =
      fold (lib_call lib) (snd (link_step (perip_taskid s) (st, e) (link_of s))) (perip_lib s)"
    and "perip_taskid (perip_link_established lib e s) = perip_taskid s"
  using assms by (simp_all add: perip_link_established_def link_of_def link_step_def lib_call_def Let_def)

lemma perip_link_terminated_effect:
  assumes "term_handle e \<noteq> GAP_CONNHANDLE_INIT" and "terminated st e" and "\<not> established st e"
  shows "link_of (perip_link_terminated lib e s) = fst (link_step (perip_taskid s) (st, e) (link_of s))"
    and "perip_lib (perip_link_terminated lib e s) =
      fold (lib_call lib) (snd (link_step (perip_taskid s) (st, e) (link_of s))) (perip_lib s)"
    and "perip_taskid (perip_link_terminated lib e s) = perip_taskid s"
  using assms
  by (auto simp: perip_link_terminated_def link_of_def link_step_def lib_call_def BLE_CONN_PARAM_RESET_def Let_def
      case_prod_unfold)

lemma perip_state_notify_step:
  assumes "event_ok (st, e)"
  shows "link_of (perip_state_notify lib st e s) = fst (link_step (perip_taskid s) (st, e) (link_of s))"
    and "perip_lib (perip_state_notify lib st e s) =
      fold (lib_call lib) (snd (link_step (perip_taskid s) (st, e) (link_of s))) (perip_lib s)"
    and "perip_taskid (perip_state_notify lib st e s) = perip_taskid s"
proof -
  have "link_of (perip_state_notify lib st e s) = fst (link_step (perip_taskid s) (st, e) (link_of s)) \<and>
    perip_lib (perip_state_notify lib st e s) =
      fold (lib_call lib) (snd (link_step (perip_taskid s) (st, e) (link_of s))) (perip_lib s) \<and>
    perip_taskid (perip_state_notify lib st e s) = perip_taskid s"
  proof (cases rule: perip_state_notify_cases [of st e lib s])
    case established
    have "est_handle e \<noteq> GAP_CONNHANDLE_INIT" using assms by (simp add: event_ok_def)
    then show ?thesis
      unfolding consoleD(2,3,7) [OF established(2)] using established(1) by (simp add: perip_link_established_effect)
  next
    case terminated
    have "term_handle e \<noteq> GAP_CONNHANDLE_INIT" using assms by (simp add: event_ok_def)
    then show ?thesis
      unfolding consoleD(2,3,7) [OF terminated(3)] using terminated(1,2) by (simp add: perip_link_terminated_effect)
  next
    case other
    then have "link_step (perip_taskid s) (st, e) (link_of s) = (link_of s, [])"
      by (auto simp: link_step_def split: option.split)
    then show ?thesis using consoleD(2,3,7) [OF other(3)] by simp
  qed
  then show "link_of (perip_state_notify lib st e s) = fst (link_step (perip_taskid s) (st, e) (link_of s))"
    "perip_lib (perip_state_notify lib st e s) =
      fold (lib_call lib) (snd (link_step (perip_taskid s) (st, e) (link_of s))) (perip_lib s)"
    "perip_taskid (perip_state_notify lib st e s) = perip_taskid s"
    by blast+
qed

lemma notify_all_run:
  assumes "\<forall>x\<in>set xs. event_ok x"
  shows "link_of (notify_all lib xs s) = fst (link_run (perip_taskid s) xs (link_of s)) \<and>
    perip_lib (notify_all lib xs s) = fold (lib_call lib) (snd (link_run (perip_taskid s) xs (link_of s))) (perip_lib s)"
  using assms
proof (induction xs arbitrary: s)
  case Nil
  show ?case by (simp add: notify_all_def)
next
  case (Cons x xs)
  obtain st e where x: "x = (st, e)" by force
  with Cons.prems have ok: "event_ok (st, e)" by simp
  have "notify_all lib (x # xs) s = notify_all lib xs (perip_state_notify lib st e s)"
    by (simp add: notify_all_def x)
  then show ?case
    using Cons.IH [of "perip_state_notify lib st e s"] Cons.prems
    by (simp add: perip_state_notify_step [OF ok] x Let_def case_prod_unfold)
qed

text \<open>C8: The application refines the specification of a single link.  For any library and any sequence of role
  events with real connection handles, the connection record is the link of the specification and the library has
  seen exactly the calls of the specification, in that order.\<close>

theorem perip_refines_single_link:
  assumes "\<forall>x\<in>set xs. event_ok x"
  shows "link_of (notify_all lib xs s) = fst (link_run (perip_taskid s) xs (link_of s)) \<and>
    perip_lib (notify_all lib xs s) =
      fold (lib_call lib) (snd (link_run (perip_taskid s) xs (link_of s))) (perip_lib s)"
  by (rule notify_all_run [OF assms])

section \<open>The task under any interleaving\<close>

text \<open>The library runs the task's handler and the callbacks of the application in any order.  A step is labelled with the
  number of assertions that its call of the library gives reason for: 1 when the handler starts the device, the library
  answers something other than \<open>SUCCESS\<close> (\<open>bleAlreadyInRequestedMode\<close>) and assertions are compiled in.\<close>

definition refused_starts :: "'g app_lib \<Rightarrow> syms \<Rightarrow> u16 \<Rightarrow> 'g perip \<Rightarrow> nat" where
  "refused_starts lib at ev s =
     (if ev AND SYS_EVENT_MSG = 0 \<and> ev AND PRRIP_START_DEVICE \<noteq> 0 \<and> assert_on (perip_machine s) \<and>
         fst (tmos lib (Start_device (perip_taskid s) (at ''perip_bond_cb'') (at ''perip_role_cb'')) (perip_lib s)) \<noteq> 0
      then 1 else 0)"

inductive perip_step :: "'g app_lib \<Rightarrow> syms \<Rightarrow> gatt_attribute list \<Rightarrow> 'g perip \<Rightarrow> nat \<Rightarrow> 'g perip \<Rightarrow> bool"
  for lib at srv where
  task: "perip_step lib at srv s (refused_starts lib at ev s) (snd (perip_process_event lib at srv ev s))"
| role: "event_ok (st, e) \<Longrightarrow> perip_step lib at srv s 0 (perip_state_notify lib st e s)"
| passcode: "perip_step lib at srv s 0 (perip_bond_passcode lib h i out s)"
| pairing: "perip_step lib at srv s 0 (perip_pair_state h st status s)"
| ccc: "perip_step lib at srv s 0 (perip_sps_ccc_changed lib config s)"
| written: "perip_step lib at srv s 0 (perip_sps_value_changed charc v n s)"

inductive perip_runs :: "'g app_lib \<Rightarrow> syms \<Rightarrow> gatt_attribute list \<Rightarrow> 'g perip \<Rightarrow> nat \<Rightarrow> 'g perip \<Rightarrow> bool"
  for lib at srv s where
  run_start: "perip_runs lib at srv s 0 s"
| run_step: "perip_runs lib at srv s k t \<Longrightarrow> perip_step lib at srv t j u \<Longrightarrow> perip_runs lib at srv s (k + j) u"

text \<open>The invariant: with \<open>c\<close> the counts of the locks that others hold, the task holds one lock of \<open>SUSPEND_TO_RAM\<close> when its
  flag is set and none when it is not; \<open>n\<close> assertions have been reported; without a link all parameters are zero.\<close>

definition perip_inv :: "(pm_state \<Rightarrow> u32) \<Rightarrow> nat \<Rightarrow> 'g perip \<Rightarrow> bool" where
  "perip_inv c n s \<longleftrightarrow>
     state_lock_cnt (perip_pm s) =
       c(PM_STATE_SUSPEND_TO_RAM := c PM_STATE_SUSPEND_TO_RAM + (if test_flag s then 1 else 0)) \<and>
     asserts (perip_machine s) = n \<and>
     (connHandle (perip_conn s) = GAP_CONNHANDLE_INIT \<longrightarrow> perip_conn s = BLE_CONN_PARAM_DEFINE)"

text \<open>What the invariant reads is untouched by the steps that print, call the library or write memory.\<close>

definition same_app :: "'g perip \<Rightarrow> 'g perip \<Rightarrow> bool" where
  "same_app s t \<longleftrightarrow> perip_pm t = perip_pm s \<and> test_flag t = test_flag s \<and> perip_conn t = perip_conn s \<and>
     asserts (perip_machine t) = asserts (perip_machine s)"

lemma same_app_inv: "same_app s t \<Longrightarrow> perip_inv c n s \<Longrightarrow> perip_inv c n t"
  by (simp add: same_app_def perip_inv_def)

lemma same_app_trans: "same_app s t \<Longrightarrow> same_app t u \<Longrightarrow> same_app s u"
  by (simp add: same_app_def)

lemma same_app_simps [simp]:
  "same_app s s" "same_app s (printk f a t) = same_app s t" "same_app s (snd (app_call lib x t)) = same_app s t"
  by (simp_all add: same_app_def)

lemma perip_sps_value_changed_same: "same_app s (perip_sps_value_changed charc v n s)"
proof -
  have "same_app s (fold (\<lambda>i s. printk ''%#x '' [ucast (ram (perip_machine s) (v + of_nat i))] s) is t)"
    if "same_app s t" for "is" and t :: "'a perip"
    using that by (induction "is" arbitrary: t) auto
  then show ?thesis by (simp add: perip_sps_value_changed_def Let_def)
qed

lemma perip_process_msg_same [simp]: "same_app s (perip_process_msg p t) = same_app s t"
  by (simp add: perip_process_msg_def Let_def)

lemma perip_receive_same: "same_app s (perip_receive lib s)"
  by (simp add: perip_receive_def Let_def case_prod_unfold)

lemma perip_start_device_inv:
  assumes "perip_inv c n s" and "ev AND SYS_EVENT_MSG = 0" and "ev AND PRRIP_START_DEVICE \<noteq> 0"
  shows "perip_inv c (n + refused_starts lib at ev s) (perip_start_device lib at s)"
  using assms by (simp add: perip_start_device_def app_call_def perip_inv_def refused_starts_def ASSERT_NO_MSG_def
      assert_printf_def assert_post_action_def case_prod_unfold Let_def)

lemma perip_poll_notify_same: "same_app s (perip_poll_notify lib at srv s)"
  by (simp add: perip_poll_notify_def Let_def case_prod_unfold same_app_def)

lemmas same_steps = perip_receive_same perip_poll_notify_same perip_sps_value_changed_same

lemma sint_increment:
  fixes w :: u32
  assumes "unat w < 2 ^ 31 - 1"
  shows "sint (w + 1) \<ge> 1"
proof -
  have "uint (w + 1) = (uint w + 1) mod 2 ^ 32" by (simp add: uint_word_ariths)
  moreover have "uint w + 1 < 2 ^ 31" using assms by (simp add: unat_eq_nat_uint nat_less_iff del: nat_uint_eq)
  moreover have "sint (w + 1) = signed_take_bit 31 (uint (w + 1))" by (simp only: sint_uint) simp
  ultimately have "sint (w + 1) = uint w + 1"
    using signed_take_bit_int_eq_self [of 31 "uint w + 1"] uint_ge_0 [of w] mod_pos_pos_trivial [of "uint w + 1" "2 ^ 32"]
    by simp
  then show ?thesis using uint_ge_0 [of w] by simp
qed

lemma perip_test_poll_inv:
  assumes "perip_inv c n s" and "unat (c PM_STATE_SUSPEND_TO_RAM) < 2 ^ 31 - 1"
  shows "perip_inv c n (perip_test_poll s)"
proof -
  have "sint (c PM_STATE_SUSPEND_TO_RAM + 1) \<ge> 1"
    using assms(2) by (rule sint_increment)
  then show ?thesis
    using assms(1)
    by (cases "test_flag s")
      (simp_all add: perip_test_poll_def on_pm_def perip_inv_def pm_policy_state_lock_get_def pm_policy_state_lock_put_def
        atomic_inc_def atomic_dec_def atomic_add_def atomic_sub_def ASSERT_NO_MSG_def Let_def)
qed

lemma perip_state_notify_inv:
  assumes "perip_inv c n s" and "event_ok (st, e)"
  shows "perip_inv c n (perip_state_notify lib st e s)"
proof (cases rule: perip_state_notify_cases [of st e lib s])
  case established
  show ?thesis
    unfolding perip_inv_def consoleD [OF established(2)]
    using assms by (simp add: perip_inv_def perip_link_established_def event_ok_def)
next
  case terminated
  show ?thesis
    unfolding perip_inv_def consoleD [OF terminated(3)]
    using assms by (simp add: perip_inv_def perip_link_terminated_def BLE_CONN_PARAM_RESET_def BLE_CONN_PARAM_DEFINE_def
        Let_def case_prod_unfold)
next
  case other
  show ?thesis
    unfolding perip_inv_def consoleD [OF other(3)] using assms(1) by (simp add: perip_inv_def)
qed

lemma perip_process_event_inv:
  assumes "perip_inv c n s" and "unat (c PM_STATE_SUSPEND_TO_RAM) < 2 ^ 31 - 1"
  shows "perip_inv c (n + refused_starts lib at ev s) (snd (perip_process_event lib at srv ev s))"
proof (cases "ev AND SYS_EVENT_MSG = 0 \<and> ev AND PRRIP_START_DEVICE \<noteq> 0")
  case True
  then show ?thesis
    using perip_start_device_inv [OF assms(1), of ev lib at] by (simp add: perip_process_event_def)
next
  case False
  define t where "t = snd (perip_process_event lib at srv ev s)"
  have "t = s \<or> t = perip_test_poll s \<or> same_app s t"
    using False by (auto simp: t_def perip_process_event_def same_steps)
  moreover have "refused_starts lib at ev s = 0" using False by (auto simp: refused_starts_def)
  ultimately show ?thesis
    using assms(1) same_app_inv perip_test_poll_inv [OF assms] by (auto simp: t_def [symmetric])
qed

lemma perip_step_inv:
  assumes "perip_step lib at srv s k t" and "perip_inv c n s" and "unat (c PM_STATE_SUSPEND_TO_RAM) < 2 ^ 31 - 1"
  shows "perip_inv c (n + k) t"
  using assms(1)
proof cases
  case (task ev)
  show ?thesis unfolding task by (rule perip_process_event_inv [OF assms(2,3)])
next
  case (role st e)
  then show ?thesis using assms(2) by (simp add: perip_state_notify_inv)
next
  case (passcode h i out)
  have "same_app s t" by (simp add: passcode perip_bond_passcode_def Let_def case_prod_unfold)
  then show ?thesis using assms(2) passcode same_app_inv by simp
next
  case (pairing h st status)
  have "same_app s t" by (simp add: pairing perip_pair_state_def Let_def)
  then show ?thesis using assms(2) pairing same_app_inv by simp
next
  case (ccc config)
  have "same_app s t" by (simp add: ccc perip_sps_ccc_changed_def Let_def)
  then show ?thesis using assms(2) ccc same_app_inv by simp
next
  case written
  then show ?thesis using assms(2) same_app_inv [OF perip_sps_value_changed_same] by simp
qed

text \<open>C11: However the handler of the task and the callbacks of the application interleave and whatever the library answers,
  the task holds exactly one lock of the state \<open>SUSPEND_TO_RAM\<close> while its flag is set and none otherwise, the locks of the
  other states are not touched, the connection record is the initial one whenever there is no link, and the assertions
  reported are those of the starts of the device that the library refused, and no others.  It holds as long as the count of
  the locks held by others leaves room for one more.\<close>

theorem perip_lock_invariant:
  assumes "perip_runs lib at srv s k t" and "perip_inv c n s" and "unat (c PM_STATE_SUSPEND_TO_RAM) < 2 ^ 31 - 1"
  shows "perip_inv c (n + k) t"
  using assms(1)
proof (induction rule: perip_runs.induct)
  case run_start
  show ?case using assms(2) by simp
next
  case (run_step k t j u)
  show ?case using perip_step_inv [OF run_step(2,3) assms(3)] by (simp add: add.assoc)
qed

section \<open>Draining events\<close>

text \<open>The scheduler of the library calls the handler again with what it returned until nothing is left.\<close>

primrec drain :: "('g perip \<Rightarrow> u16 \<Rightarrow> u16 \<times> 'g perip) \<Rightarrow> nat \<Rightarrow> u16 \<Rightarrow> 'g perip \<Rightarrow> u16 \<times> 'g perip" where
  "drain h 0 ev s = (ev, s)"
| "drain h (Suc n) ev s = (if ev = 0 then (0, s) else let (ev, s) = h s ev in drain h n ev s)"

definition on_event :: "u16 \<Rightarrow> u16 \<Rightarrow> ('g perip \<Rightarrow> 'g perip) \<Rightarrow> 'g perip \<Rightarrow> 'g perip" where
  "on_event ev b f s = (if ev AND b \<noteq> 0 then f s else s)"

lemma and_bit_iff: "ev AND push_bit k 1 \<noteq> 0 \<longleftrightarrow> bit ev k" for ev :: u16
  using and_exp_eq_0_iff_not_bit [of ev k] by (simp add: push_bit_of_1)

lemma event_bits:
  "ev AND SYS_EVENT_MSG \<noteq> 0 \<longleftrightarrow> bit ev 15" "ev AND PRRIP_START_DEVICE \<noteq> 0 \<longleftrightarrow> bit ev 0"
  "ev AND PERIP_POLL_NOTIFY_EVENT \<noteq> 0 \<longleftrightarrow> bit ev 1" "ev AND TEST_POLL_EVENT \<noteq> 0 \<longleftrightarrow> bit ev 4"
  using and_bit_iff [of ev 15] and_bit_iff [of ev 0] and_bit_iff [of ev 1] and_bit_iff [of ev 4]
  by (simp_all add: SYS_EVENT_MSG_def PRRIP_START_DEVICE_def PERIP_POLL_NOTIFY_EVENT_def TEST_POLL_EVENT_def)

text \<open>Clearing a handled event leaves the others.\<close>

lemma event_cleared:
  "bit (ev XOR SYS_EVENT_MSG) n \<longleftrightarrow> (bit ev n \<noteq> (n = 15))" "bit (ev XOR PRRIP_START_DEVICE) n \<longleftrightarrow> (bit ev n \<noteq> (n = 0))"
  "bit (ev XOR PERIP_POLL_NOTIFY_EVENT) n \<longleftrightarrow> (bit ev n \<noteq> (n = 1))" "bit (ev XOR TEST_POLL_EVENT) n \<longleftrightarrow> (bit ev n \<noteq> (n = 4))"
proof -
  have flip: "bit (ev XOR push_bit k 1) n \<longleftrightarrow> (bit ev n \<noteq> (n = k))" if "k < 16" for k
    unfolding bit_xor_iff bit_push_bit_iff bit_1_iff using that by auto
  have "SYS_EVENT_MSG = push_bit 15 1" by (simp add: SYS_EVENT_MSG_def)
  then show "bit (ev XOR SYS_EVENT_MSG) n \<longleftrightarrow> (bit ev n \<noteq> (n = 15))" using flip [of 15] by simp
  show "bit (ev XOR PRRIP_START_DEVICE) n \<longleftrightarrow> (bit ev n \<noteq> (n = 0))" using flip [of 0] by (simp add: PRRIP_START_DEVICE_def)
  show "bit (ev XOR PERIP_POLL_NOTIFY_EVENT) n \<longleftrightarrow> (bit ev n \<noteq> (n = 1))"
    using flip [of 1] by (simp add: PERIP_POLL_NOTIFY_EVENT_def)
  show "bit (ev XOR TEST_POLL_EVENT) n \<longleftrightarrow> (bit ev n \<noteq> (n = 4))" using flip [of 4] by (simp add: TEST_POLL_EVENT_def)
qed

lemma process_event_cases:
  "bit ev 15 \<Longrightarrow> perip_process_event lib at srv ev s = (ev XOR SYS_EVENT_MSG, perip_receive lib s)"
  "\<not> bit ev 15 \<Longrightarrow> bit ev 0 \<Longrightarrow>
     perip_process_event lib at srv ev s = (ev XOR PRRIP_START_DEVICE, perip_start_device lib at s)"
  "\<not> bit ev 15 \<Longrightarrow> \<not> bit ev 0 \<Longrightarrow> bit ev 1 \<Longrightarrow>
     perip_process_event lib at srv ev s = (ev XOR PERIP_POLL_NOTIFY_EVENT, perip_poll_notify lib at srv s)"
  "\<not> bit ev 15 \<Longrightarrow> \<not> bit ev 0 \<Longrightarrow> \<not> bit ev 1 \<Longrightarrow> bit ev 4 \<Longrightarrow>
     perip_process_event lib at srv ev s = (ev XOR TEST_POLL_EVENT, perip_test_poll s)"
  "\<not> bit ev 15 \<Longrightarrow> \<not> bit ev 0 \<Longrightarrow> \<not> bit ev 1 \<Longrightarrow> \<not> bit ev 4 \<Longrightarrow> perip_process_event lib at srv ev s = (0, s)"
  unfolding perip_process_event_def event_bits by (simp_all only: if_True if_False simp_thms)

definition drain_task ::
  "'g app_lib \<Rightarrow> syms \<Rightarrow> gatt_attribute list \<Rightarrow> nat \<Rightarrow> u16 \<Rightarrow> 'g perip \<Rightarrow> u16 \<times> 'g perip" where
  "drain_task lib at srv = drain (\<lambda>s ev. perip_process_event lib at srv ev s)"

lemma drain_task_zero: "drain_task lib at srv n 0 s = (0, s)"
  by (cases n) (simp_all add: drain_task_def)

lemma drain_task_Suc:
  "drain_task lib at srv (Suc n) ev s =
     drain_task lib at srv n (fst (perip_process_event lib at srv ev s)) (snd (perip_process_event lib at srv ev s))"
proof (cases "ev = 0")
  case True
  then show ?thesis by (simp add: drain_task_zero process_event_cases(5))
next
  case False
  then show ?thesis by (simp add: drain_task_def case_prod_unfold Let_def)
qed

text \<open>C17: The handler finishes: whatever events are set, five calls leave none, each of the four events runs its own
  action exactly once, in the order message, start, notification, test, and unknown events are dropped.\<close>

theorem perip_events_drained:
  "drain_task lib at srv 5 ev s =
     (0, on_event ev TEST_POLL_EVENT perip_test_poll
        (on_event ev PERIP_POLL_NOTIFY_EVENT (perip_poll_notify lib at srv)
          (on_event ev PRRIP_START_DEVICE (perip_start_device lib at)
            (on_event ev SYS_EVENT_MSG (perip_receive lib) s))))"
proof -
  have five: "(5::nat) = Suc (Suc (Suc (Suc (Suc 0))))" by simp
  show ?thesis
    unfolding five on_event_def event_bits
    by (cases "bit ev 15"; cases "bit ev 0"; cases "bit ev 1"; cases "bit ev 4")
      (simp_all add: drain_task_Suc drain_task_zero process_event_cases event_cleared)
qed

section \<open>Start-up\<close>

text \<open>A library that records every call, answers the registration of the task with \<open>tid\<close> and everything else with 0.\<close>

definition recording :: "u32 \<Rightarrow> app_lib_call list app_lib" where
  "recording tid =
     \<lparr>gap_of = \<lambda>c g. (0, g @ [To_gap c]),
      gatt_of = \<lparr>bm_alloc = \<lambda>_ _ _ g. (NULL, g), read_char_cfg = \<lambda>_ _. 0, notification = \<lambda>_ _ _ _ _ g. (0, g)\<rparr>,
      host_of = \<lambda>c g. (0, g @ [To_host c]),
      tmos = \<lambda>c g. (if c = Register_process then tid else 0, g @ [To_tmos c])\<rparr>"

lemma recording_run: "snd (run_calls (gap_of (recording tid)) cs (e, g)) = g @ map To_gap cs"
  by (induction cs arbitrary: e g) (simp_all add: recording_def)

lemma app_call_recording:
  "app_call (recording tid) c s = (if c = Register_process then tid else 0, s\<lparr>perip_lib := perip_lib s @ [To_tmos c]\<rparr>)"
  by (simp add: app_call_def recording_def)

lemma perip_set_char_simps [simp]:
  "perip_lib (perip_set_char st c a bs s) = perip_lib s" "perip_taskid (perip_set_char st c a bs s) = perip_taskid s"
  by (simp_all add: perip_set_char_def Let_def)

lemma on_host_simps [simp]: "perip_taskid (on_host f s) = perip_taskid s"
  by (simp add: on_host_def Let_def)

lemma register_recording:
  "perip_lib (on_host (\<lambda>h. snd (device_info_service_register (host_of (recording tid)) at h)) s) = perip_lib s @
     [To_host (Register_service (at ''dev_info_srv'') (of_nat (length (dev_info_srv at))) GATT_MAX_ENCRYPT_KEY_SIZE
       (at ''dis_gatt_cb''))]"
  "perip_lib (on_host (\<lambda>h. snd (snd (simple_service_register (host_of (recording tid)) at cb h))) s) = perip_lib s @
     [To_host (Init_char_cfg INVALID_CONNHANDLE (at ''simpleProfileChar4Config'')),
      To_host (Register_service (at ''simple_srv'') (of_nat (length (simple_srv at))) GATT_MAX_ENCRYPT_KEY_SIZE
       (at ''sps_gatt_cb''))]"
  by (simp_all add: on_host_def host_initial_def device_info_service_register_def simple_service_register_def call_def
      recording_def)

definition perip_statics :: "syms \<Rightarrow> u8 list \<Rightarrow> mem \<Rightarrow> bool" where
  "perip_statics at name m \<longleftrightarrow> list_all (\<lambda>(x, bs). mem_read m (at x) (length bs) = bs) (perip_ad_bytes name)"

text \<open>The advertised payloads: flags 6 and the service 0xFFE0; the complete name.\<close>

lemma perip_payloads:
  assumes "perip_statics at name m" and "length name < 255"
  shows "adv_payload m (perip_ad at) = [2, 1, 6, 3, 2, 0xE0, 0xFF]"
    and "adv_payload m (perip_sd at name) = of_nat (Suc (length name)) # 9 # name"
proof -
  have "mem_read m (at ''ad0'') 1 = [6]" and uuid: "mem_read m (at ''ad1'') (Suc (Suc 0)) = [0xE0, 0xFF]"
    and name: "mem_read m (at ''sd0'') (length name) = name"
    using assms(1)
    by (simp_all add: perip_statics_def perip_ad_bytes_def GAP_ADTYPE_FLAGS_GENERAL_def
        GAP_ADTYPE_FLAGS_BREDR_NOT_SUPPORTED_def SIMPLEPROFILE_SERV_UUID_def)
  moreover have "mem_read m (at ''ad1'') 2 = [0xE0, 0xFF]" using uuid by (simp only: numeral_2_eq_2)
  ultimately show "adv_payload m (perip_ad at) = [2, 1, 6, 3, 2, 0xE0, 0xFF]"
    by (simp add: adv_payload_def ad_encode_def ad_element_def perip_ad_def BT_DATA_def GAP_ADTYPE_FLAGS_def
        GAP_ADTYPE_16BIT_MORE_def)
  have "unat (of_nat (length name) :: u8) = length name" using assms(2) by (simp add: unat_of_nat)
  with name show
    "adv_payload m (perip_sd at name) = of_nat (Suc (length name)) # 9 # name"
    by (simp add: adv_payload_def ad_encode_def ad_element_def perip_sd_def BT_DATA_def
        GAP_ADTYPE_LOCAL_NAME_COMPLETE_def)
qed

lemma perip_advertise_recording:
  assumes "sendable (perip_adv_data s) (Some (perip_ad at))" and "sendable (perip_adv_data s) (Some (perip_sd at name))"
  shows "perip_lib (perip_advertise (recording tid) at name s) = perip_lib s @ map To_gap
      (adv_calls (ram (perip_machine s)) BLE_ADV_CONN (Some (perip_ad at)) (Some (perip_sd at name)))"
    and "perip_taskid (perip_advertise (recording tid) at name s) = perip_taskid s"
proof -
  let ?b = "\<lparr>adv_data = perip_adv_data s, ble_machine = perip_machine s, ble_gap = perip_lib s\<rparr>"
  let ?cs = "adv_calls (ram (perip_machine s)) BLE_ADV_CONN (Some (perip_ad at)) (Some (perip_sd at name))"
  obtain x where x: "ble_adv_enable (gap_of (recording tid)) (Some BLE_ADV_CONN) (Some (perip_ad at))
      (Some (perip_sd at name)) ?b = Some x" and d: "calls_done (gap_of (recording tid)) ?cs ?b x"
    using ble_adv_enable_done [of ?b "Some (perip_ad at)" "Some (perip_sd at name)" "gap_of (recording tid)" BLE_ADV_CONN] assms
    by auto
  have "ble_gap (snd x) = perip_lib s @ map To_gap ?cs"
    using d recording_run [of tid ?cs 0 "perip_lib s"] by (simp add: calls_done_def) (metis snd_conv)
  then show "perip_lib (perip_advertise (recording tid) at name s) = perip_lib s @ map To_gap ?cs"
    by (simp add: perip_advertise_def on_adv_def x case_prod_unfold)
  show "perip_taskid (perip_advertise (recording tid) at name s) = perip_taskid s"
    by (simp add: perip_advertise_def on_adv_def case_prod_unfold Let_def)
qed

text \<open>C21: Start-up asks the library for exactly these things in this order: the task, connectable advertising on all
  channels every 100 to 150 units with the flags, the service and the device name, the name of the device, the four
  settings of the bond manager, the services, and at last the event that starts the device and the periodic test.  The
  name has at most 29 bytes and no zero, and the constants are in place.\<close>

theorem perip_init_order:
  assumes "sendable (perip_adv_data s) (Some (perip_ad at))" and "sendable (perip_adv_data s) (Some (perip_sd at name))"
    and "perip_statics at name (ram (perip_machine s))" and "length name \<le> 29" and "0 \<notin> set name"
  shows "perip_lib (perip_process_init (recording tid) at st name s) = perip_lib s @
    To_tmos Register_process #
    map To_gap
      [Role_parameter GAPROLE_ADVERT_ENABLED [1], Role_parameter GAPROLE_ADV_EVENT_TYPE [0],
       Role_parameter GAPROLE_ADV_CHANNEL_MAP [7], Role_parameter GAPROLE_ADV_FILTER_POLICY [0],
       Gap_value TGAP_DISC_ADV_INT_MIN 100, Gap_value TGAP_DISC_ADV_INT_MAX 150,
       Role_parameter GAPROLE_ADVERT_DATA [2, 1, 6, 3, 2, 0xE0, 0xFF],
       Role_parameter GAPROLE_SCAN_RSP_DATA (of_nat (Suc (length name)) # 9 # name)] @
    map To_tmos
      [Ggs_set 0 name, Bond_set 0x400 [1], Bond_set 0x401 [1], Bond_set 0x402 [0], Bond_set 0x405 [0],
       Ggs_services 0xFFFFFFFF, Gatt_services 0xFFFFFFFF] @
    map To_host
      [Register_service (at ''dev_info_srv'') (of_nat (length (dev_info_srv at))) 16 (at ''dis_gatt_cb''),
       Init_char_cfg INVALID_CONNHANDLE (at ''simpleProfileChar4Config''),
       Register_service (at ''simple_srv'') (of_nat (length (simple_srv at))) 16 (at ''sps_gatt_cb'')] @
    map To_tmos
      [Set_event (ucast tid) PRRIP_START_DEVICE, Reload_task (ucast tid) TEST_POLL_EVENT (MS1_TO_SYSTEM_TIME 1000)]"
proof -
  have n: "takeWhile (\<lambda>b. b \<noteq> 0) name = name" using assms(5) by (auto simp: takeWhile_eq_all_conv)
  have l: "length name < 255" using assms(4) by simp
  show ?thesis
    using assms(1,2)
    by (simp add: perip_process_init_def perip_bond_setup_def app_call_recording perip_advertise_recording
        register_recording n adv_calls_def perip_payloads [OF assms(3) l] BLE_ADV_CONN_def BLE_ADV_PARAM_INIT_def
        GAP_ADTYPE_ADV_IND_def GAP_ADVCHAN_ALL_def GAP_FILTER_POLICY_ALL_def GGS_DEVICE_NAME_ATT_def GAPBOND_PERI_PAIRING_MODE_def
        GAPBOND_PERI_MITM_PROTECTION_def GAPBOND_PERI_IO_CAPABILITIES_def GAPBOND_PERI_BONDING_ENABLED_def
        GAPBOND_PAIRING_MODE_WAIT_FOR_REQ_def GAPBOND_IO_CAP_DISPLAY_ONLY_def GATT_ALL_SERVICES_def
        GATT_MAX_ENCRYPT_KEY_SIZE_def)
qed

section \<open>Examples\<close>

definition perip_example :: "soc_regs \<Rightarrow> mem \<Rightarrow> app_lib_call list perip" where
  "perip_example r m =
     \<lparr>perip_conn = BLE_CONN_PARAM_DEFINE, perip_taskid = 3, test_flag = False, perip_pm = pm_example r,
      perip_adv_data = BUF_SIMPLE_DEFINE 0x20004000 B_MAX_ADV_LEN,
      perip_machine = \<lparr>ram = m, assert_on = True, asserts = 0\<rparr>, perip_lib = [], printed = []\<rparr>"

definition conn_event :: "u16 \<Rightarrow> gapRole_States \<times> gapRoleEvent" where
  "conn_event h = (GAPROLE_CONNECTED, \<lparr>ev_status = 0, ev_opcode = GAP_LINK_ESTABLISHED_EVENT, est_handle = h, est_interval = 80,
     est_latency = 0, est_timeout = 100, term_handle = 0, term_reason = 0\<rparr>)"

definition disc_event :: "u16 \<Rightarrow> gapRole_States \<times> gapRoleEvent" where
  "disc_event h = (GAPROLE_WAITING, \<lparr>ev_status = 0, ev_opcode = GAP_LINK_TERMINATED_EVENT, est_handle = 0, est_interval = 0,
     est_latency = 0, est_timeout = 0, term_handle = h, term_reason = 0x13\<rparr>)"

lemmas perip_examples = perip_example_def conn_event_def disc_event_def

text \<open>A second link is refused, its end is not taken for the end of the first.\<close>

theorem perip_refines_single_link_witness:
  "\<forall>r m. link_of (notify_all (recording 3) [conn_event 1, conn_event 2, disc_event 2, disc_event 1] (perip_example r m)) = None \<and>
     perip_lib (notify_all (recording 3) [conn_event 1, conn_event 2, disc_event 2, disc_event 1] (perip_example r m)) =
       [To_tmos (Terminate_link 2), To_tmos (Stop_task 3 PERIP_POLL_NOTIFY_EVENT),
        To_gap (Role_parameter GAPROLE_ADVERT_ENABLED [1])]"
proof (intro allI)
  fix r m
  let ?xs = "[conn_event 1, conn_event 2, disc_event 2, disc_event 1]"
  have ok: "\<forall>x\<in>set ?xs. event_ok x" by (simp add: perip_examples event_ok_def GAP_CONNHANDLE_INIT_def)
  have s: "link_of (perip_example r m) = None" "perip_taskid (perip_example r m) = 3" "perip_lib (perip_example r m) = []"
    by (simp_all add: link_of_def perip_example_def BLE_CONN_PARAM_DEFINE_def)
  have run: "link_run 3 ?xs None = (None, [To_tmos (Terminate_link 2), To_tmos (Stop_task 3 PERIP_POLL_NOTIFY_EVENT),
        To_gap (Role_parameter GAPROLE_ADVERT_ENABLED [1])])"
    by (simp add: perip_examples link_step_def established_def terminated_def role_events)
  show "link_of (notify_all (recording 3) ?xs (perip_example r m)) = None \<and>
     perip_lib (notify_all (recording 3) ?xs (perip_example r m)) =
       [To_tmos (Terminate_link 2), To_tmos (Stop_task 3 PERIP_POLL_NOTIFY_EVENT),
        To_gap (Role_parameter GAPROLE_ADVERT_ENABLED [1])]"
    using perip_refines_single_link [OF ok, of "recording 3" "perip_example r m"] unfolding s run
    by (simp add: lib_call_def recording_def)
qed

text \<open>A library that has already started the device; the test event takes the lock while others hold two.\<close>

definition started_lib :: "app_lib_call list app_lib" where
  "started_lib = (recording 3)\<lparr>tmos := \<lambda>c g. (0x11, g @ [To_tmos c])\<rparr>"

theorem perip_lock_invariant_witness:
  "\<forall>r m. perip_inv (\<lambda>_. 2) 1 (snd (perip_process_event started_lib (\<lambda>_. 0) [] PRRIP_START_DEVICE
     (perip_test_poll ((perip_example r m)\<lparr>perip_pm := (pm_example r)\<lparr>state_lock_cnt := \<lambda>_. 2\<rparr>\<rparr>))))"
proof (intro allI)
  fix r m
  let ?lib = started_lib and ?s = "(perip_example r m)\<lparr>perip_pm := (pm_example r)\<lparr>state_lock_cnt := \<lambda>_. 2\<rparr>\<rparr>"
  let ?t = "perip_test_poll ?s"
  have "snd (perip_process_event ?lib at srv TEST_POLL_EVENT ?s) = ?t" for at srv
    by (subst process_event_cases(4)) (simp_all add: TEST_POLL_EVENT_def bit_push_bit_iff bit_1_iff)
  moreover have "refused_starts ?lib (\<lambda>_. 0) TEST_POLL_EVENT ?s = 0"
    by (simp add: refused_starts_def TEST_POLL_EVENT_def PRRIP_START_DEVICE_def)
  ultimately have one: "perip_step ?lib (\<lambda>_. 0) [] ?s 0 ?t"
    using perip_step.task [of ?lib "\<lambda>_. 0" "[]" ?s TEST_POLL_EVENT] by simp
  have "asserts (perip_machine ?t) = 0 \<and> assert_on (perip_machine ?t)"
    by (simp add: perip_test_poll_def on_pm_def perip_example_def pm_policy_state_lock_get_def Let_def)
  then have "refused_starts ?lib (\<lambda>_. 0) PRRIP_START_DEVICE ?t = 1"
    by (simp add: refused_starts_def SYS_EVENT_MSG_def PRRIP_START_DEVICE_def started_lib_def)
  then have two: "perip_step ?lib (\<lambda>_. 0) [] ?t 1 (snd (perip_process_event ?lib (\<lambda>_. 0) [] PRRIP_START_DEVICE ?t))"
    using perip_step.task [of ?lib "\<lambda>_. 0" "[]" ?t PRRIP_START_DEVICE] by simp
  have inv: "perip_inv (\<lambda>_. 2) 0 ?s" by (simp add: perip_inv_def perip_example_def BLE_CONN_PARAM_DEFINE_def fun_eq_iff)
  from perip_lock_invariant [OF run_step [OF run_step [OF run_start one] two] inv]
  show "perip_inv (\<lambda>_. 2) 1 (snd (perip_process_event ?lib (\<lambda>_. 0) [] PRRIP_START_DEVICE ?t))" by simp
qed

definition perip_at :: syms where
  "perip_at x = (if x = ''ad0'' then 0x100 else if x = ''ad1'' then 0x110 else if x = ''sd0'' then 0x120 else 0x20001000)"

definition perip_rom :: mem where
  "perip_rom a = (if a = 0x100 then 6 else if a = 0x110 then 0xE0 else if a = 0x111 then 0xFF else if a = 0x120 then 87 else 0)"

theorem perip_init_order_witness:
  "\<forall>r st. hd (perip_lib (perip_process_init (recording 7) perip_at st [87] (perip_example r perip_rom))) = To_tmos Register_process \<and>
    last (perip_lib (perip_process_init (recording 7) perip_at st [87] (perip_example r perip_rom))) =
      To_tmos (Reload_task 7 TEST_POLL_EVENT (MS1_TO_SYSTEM_TIME 1000))"
proof (intro allI)
  fix r st
  let ?s = "perip_example r perip_rom"
  have "sendable (perip_adv_data ?s) (Some (perip_ad perip_at))" "sendable (perip_adv_data ?s) (Some (perip_sd perip_at [87]))"
    by (simp_all add: sendable_def ad_size_def apart_def perip_example_def perip_ad_def perip_sd_def BT_DATA_def perip_at_def
        B_MAX_ADV_LEN_def BUF_SIMPLE_DEFINE_def less_2_cases_iff)
  moreover have "perip_statics perip_at [87] (ram (perip_machine ?s))"
    by (simp add: perip_statics_def perip_ad_bytes_def perip_example_def perip_at_def perip_rom_def mem_read_def
        GAP_ADTYPE_FLAGS_GENERAL_def GAP_ADTYPE_FLAGS_BREDR_NOT_SUPPORTED_def SIMPLEPROFILE_SERV_UUID_def)
  ultimately show "hd (perip_lib (perip_process_init (recording 7) perip_at st [87] ?s)) = To_tmos Register_process \<and>
    last (perip_lib (perip_process_init (recording 7) perip_at st [87] ?s)) =
      To_tmos (Reload_task 7 TEST_POLL_EVENT (MS1_TO_SYSTEM_TIME 1000))"
    by (subst (1 2) perip_init_order) (simp_all add: perip_example_def)
qed

end
