(* ===== verification/Spec2Isabelle.thy ===== *)
theory Spec2Isabelle
  imports Buf Adv Gatt_Services Sys_Slist Sys_Dlist Pmp_Regions Init Uart_Driver Systick Pm Ble_Hal Rand
    Storage Uart_Api Bt_Host Ch58x Gatt_Tables Pp_Macros Util Sfr_Check
    Ble_Check Ble_Macros Peripheral
begin

text \<open>
  A verification development for the WCH IoT SDK, a small kernel, driver and Bluetooth support library in C for the
  CH57x and CH58x RISC-V microcontrollers.  All paths below are paths of the repository.

  \<^bold>\<open>The program and the theories.\<close>  Every theory models the named files function by function, with the names of the
  source; a suffix or prefix is added where a name clashes with another definition.

  \<^item> \<open>Prelude\<close>: the C integer types as words, byte memory, the assertion macro (\<^verbatim>\<open>include/sys/__assert.h\<close>,
    \<^verbatim>\<open>subsys/logging/assert.c\<close>), the error numbers, and the lemmas on words and memory that all theories share.
  \<^item> \<open>Byteorder\<close>: \<^verbatim>\<open>include/sys/byteorder.h\<close>.  Byte order accessors and in-memory reversal.
  \<^item> \<open>Buf\<close>: \<^verbatim>\<open>include/buf/buf.h\<close>, \<^verbatim>\<open>subsys/buf/buf.c\<close>.  The simple buffer as a descriptor over byte memory.
  \<^item> \<open>Node_Queue\<close>, \<open>Sys_Slist\<close>, \<open>Sys_Dlist\<close>: the interface of the intrusive lists and its two implementations
    \<^verbatim>\<open>include/sys/slist.h\<close> (with \<^verbatim>\<open>list_gen.h\<close>) and \<^verbatim>\<open>include/sys/dlist.h\<close> on stores of pointers.
  \<^item> \<open>Atomic\<close>: \<^verbatim>\<open>include/sys/atomic_builtin.h\<close>, \<^verbatim>\<open>atomic.h\<close>.  \<open>Rand\<close>: \<^verbatim>\<open>subsys/random/rand32_timer.c\<close>.
  \<^item> \<open>Time_Units\<close>: \<^verbatim>\<open>include/sys/time_units.h\<close>, the converter and its 84 instances.
  \<^item> \<open>Pmp\<close>, \<open>Pmp_Regions\<close>: \<^verbatim>\<open>arch/riscv/core/core_pmp.c\<close>, memory protection over the control registers and a model of
    how the hardware matches an address.
  \<^item> \<open>Init\<close>: \<^verbatim>\<open>kernel/init.c\<close>, \<^verbatim>\<open>kernel/device.c\<close>, \<^verbatim>\<open>include/device.h\<close>, \<^verbatim>\<open>include/init.h\<close>.
  \<^item> \<open>Soc\<close>: clock, reset and power registers with the safe-access protocol (\<^verbatim>\<open>hal/ch57x/ch57x_hal_clk.c\<close>, \<^verbatim>\<open>_sys.c\<close>,
    \<^verbatim>\<open>_power.c\<close> and their headers).
  \<^item> \<open>Lsi\<close>: the calibration of the low-speed oscillator, last part of \<^verbatim>\<open>hal/ch57x/ch57x_hal_clk.c\<close>, with its floating
    point arithmetic.  \<open>Ch58x\<close>: the functions of \<^verbatim>\<open>hal/ch58x/ch58x_hal_clk.c\<close>, \<^verbatim>\<open>_sys.c\<close> and \<^verbatim>\<open>_power.c\<close> that differ from
    the CH57x, the coarse and fine calibration among them.
  \<^item> \<open>Uart\<close>, \<open>Gpio\<close>, \<open>Adc\<close>: the hardware layers \<^verbatim>\<open>hal/ch57x/ch57x_hal_uart\<close>, \<^verbatim>\<open>_gpio\<close>, \<^verbatim>\<open>_adc\<close>; \<open>Gpio\<close> also the GPIO
    driver \<^verbatim>\<open>drivers/gpio/gpio.c\<close> and \<^verbatim>\<open>drivers/pinctrl/pinctrl.c\<close>.
  \<^item> \<open>Uart_Driver\<close>: \<^verbatim>\<open>drivers/uart/uart.c\<close>.  \<open>Adc_Driver\<close>: \<^verbatim>\<open>drivers/adc/adc.c\<close>, \<^verbatim>\<open>adc_context.h\<close>.
  \<^item> \<open>Rtc\<close>: \<^verbatim>\<open>hal/ch57x/ch57x_hal_rtc.c\<close>, \<^verbatim>\<open>drivers/timer/rtc_timer.c\<close>, \<^verbatim>\<open>kernel/timeout.c\<close>.  \<open>Systick\<close>:
    \<^verbatim>\<open>hal/ch57x/ch57x_hal_systick.c\<close>, \<^verbatim>\<open>drivers/timer/sys_timer.c\<close>.
  \<^item> \<open>Pm\<close>: \<^verbatim>\<open>subsys/pm\<close> and \<^verbatim>\<open>soc/riscv/ch57x/power.c\<close>, over \<open>Rtc\<close>, \<open>Atomic\<close>, \<open>Soc\<close> and \<open>Sys_Slist\<close>.
  \<^item> \<open>Irq\<close>: interrupt masking (\<^verbatim>\<open>include/arch/riscv/arch.h\<close>, \<^verbatim>\<open>csr.h\<close>) and the interrupt controller
    (\<^verbatim>\<open>hal/ch57x/inc/ch57x_hal_pfic.h\<close>, \<^verbatim>\<open>soc/riscv/ch57x/soc_irq.c\<close>).
  \<^item> \<open>Fatal\<close>: the fault entry of \<^verbatim>\<open>soc/riscv/ch57x/soc.c\<close> as instructions, \<^verbatim>\<open>arch/riscv/core/fatal.c\<close>,
    \<^verbatim>\<open>kernel/fatal.c\<close> and the log macro of \<^verbatim>\<open>include/logging/log.h\<close>, over \<open>Irq\<close>.
  \<^item> \<open>Storage\<close>: \<^verbatim>\<open>drivers/flash/flash.c\<close>, \<^verbatim>\<open>drivers/eeprom/eeprom.c\<close>, their interfaces and hardware layer, and the
    storage callbacks of the Bluetooth library, over \<open>Irq\<close> and the log of \<open>Fatal\<close>.
  \<^item> \<open>Uart_Api\<close>: \<^verbatim>\<open>include/drivers/uart.h\<close> over the table of the driver, and the console output of
    \<^verbatim>\<open>drivers/debug/print.c\<close>.
  \<^item> \<open>Bt_Host\<close>: \<^verbatim>\<open>subsys/bluetooth/host/process.c\<close>, \<^verbatim>\<open>gatt.c\<close>, \<^verbatim>\<open>subsys/bluetooth/bt_init.c\<close> and the task of
    \<^verbatim>\<open>subsys/bluetooth/hal/hal.c\<close>.
  \<^item> \<open>Adv\<close>: \<^verbatim>\<open>subsys/bluetooth/host/adv.c\<close> over \<open>Buf\<close>.  \<open>Gatt_Services\<close>: \<^verbatim>\<open>subsys/bluetooth/services\<close>.
    \<open>Gatt_Tables\<close>: the attribute tables of these services, the macros of \<^verbatim>\<open>include/bluetooth/gatt.h\<close>, registration.
    \<open>Ble_Hal\<close>: the temperature read of \<^verbatim>\<open>subsys/bluetooth/hal/hal.c\<close> over \<open>Adc_Driver\<close>.
  \<^item> \<open>Pp_Loops\<close>, \<open>Pp_Macros\<close>: the preprocessor macros of \<^verbatim>\<open>include/sys/util_loops.h\<close>, \<^verbatim>\<open>util_macro.h\<close> and
    \<^verbatim>\<open>util_internal.h\<close> as functions on lists of tokens.  \<open>Util\<close>: the macros and functions of \<^verbatim>\<open>include/sys/util.h\<close> that
    compute, and the powers of two of \<^verbatim>\<open>include/toolchain/gcc.h\<close>.
  \<^item> \<open>Sfr\<close>, \<open>Sfr_Ch57x\<close>, \<open>Sfr_Ch58x\<close>, \<open>Sfr_Check\<close>: the register maps \<^verbatim>\<open>CH573SFR.h\<close> and \<^verbatim>\<open>CH583SFR.h\<close> as tables.
  \<^item> \<open>Ble_Types\<close>, \<open>Ble_Lib57\<close>, \<open>Ble_Rom57\<close>, \<open>Ble_Lib58\<close>, \<open>Ble_Rom58\<close>, \<open>Ble_Agree\<close>, \<open>Ble_Check\<close>: the headers
    \<^verbatim>\<open>CH57xBLE_LIB.h\<close>, \<^verbatim>\<open>CH57xBLE_ROM.h\<close>, \<^verbatim>\<open>CH58xBLE_LIB.h\<close>, \<^verbatim>\<open>CH58xBLE_ROM.h\<close> of the Bluetooth library under \<^verbatim>\<open>lib\<close>: constants,
    the layout of types, prototypes and the slots of the functions in ROM, with the tables at the head of the images
    \<^verbatim>\<open>CH57xBLE_ROM.hex\<close> and \<^verbatim>\<open>CH58xBLE_ROM.hex\<close>.  \<open>Ble_Macros\<close>: the macros of these headers that compute.
  \<^item> \<open>Peripheral\<close>: the application \<^verbatim>\<open>samples/bluetooth/peripheral/src/peripheral.c\<close> over \<open>Adv\<close>, \<open>Gatt_Services\<close>,
    \<open>Gatt_Tables\<close> and \<open>Pm\<close>, with \<^verbatim>\<open>include/bluetooth/conn.h\<close>.

  The CH58x files that exist beside the CH57x ones have, outside what \<open>Ch58x\<close> models, the same text up to names and
  single register bits; the model follows the CH57x, and \<open>chips_agree\<close> lists where the register maps differ.

  \<^bold>\<open>Conventions.\<close>  State is passed explicitly: a record of registers and variables per component, and a function from
  32-bit addresses to bytes for memory that is accessed through pointers; linked structures are stores of pointers.
  Errors are the negated numbers that the code returns, or \<open>Inl\<close> where a value is stored through a pointer.  \<open>None\<close> as
  a result means that the code does not return (a polling loop, by \<open>partial_function\<close>) or that its behaviour is
  undefined (a store through a null pointer, an oversized shift, a division by zero); each use says which.  What the
  environment does is an argument: \<open>io\<close> is the hardware while a loop polls, \<open>wfi\<close> and \<open>rom_reset\<close> the core while it
  sleeps, \<open>reads\<close>, \<open>cyc\<close> and \<open>clock\<close> successive readings of a running counter, \<open>run\<close> and \<open>act\<close> the callbacks of a
  user, \<open>lib\<close> the binary Bluetooth library.  Register bits with side effects (write one to clear, safe access, load
  bits) have their own write functions, from the comments of \<^verbatim>\<open>CH573SFR.h\<close>.  No loop is cut off by fuel: counting loops
  recurse on their bound or come with a termination proof; only the reading client \<open>read_long\<close> of \<open>Gatt_Services\<close> has
  fuel, and its theorem shows that one step more than the length of the value is enough, and the scheduler \<open>drain\<close>
  of \<open>Peripheral\<close>, where five calls are shown to be enough.

  \<^bold>\<open>Interfaces.\<close>  \<open>codec\<close> and \<open>buf_field\<close> (fixed-width encodings and the buffer operations built on them, interpreted
  for the ten widths and byte orders), the queue interface of \<open>Node_Queue\<close> (interpreted for both lists), 
  \<open>sampling_driver\<close> (what \<^verbatim>\<open>adc_context.h\<close> asks of its driver, interpreted for the functions of \<^verbatim>\<open>adc.c\<close>),
  \<open>line_switch\<close> (a bank of set and clear registers, interpreted for enabling and for pending lines), \<open>uart_line\<close>
  and \<open>uart_drain\<close> (what polled output and filling the queue need of a port, interpreted for a port that sends one byte
  in each step) and \<open>polled\<close> with its
  extensions \<open>oscillator\<close> and \<open>calibrator\<close> (a counter that halts and restarts while it is polled, interpreted for a
  counter that toggles on each poll).

  \<^bold>\<open>What is shown.\<close>

  \<^item> Memory: typed stores and loads are inverse, reversal reverses, buffer operations act as list operations inside
    their storage and report exactly the operations that do not fit; ADC reads never write outside the
    buffers they were given, whatever hardware, callback and later reads do; advertising writes only its static buffer.
  \<^item> Lists: every operation of both intrusive lists refines its counterpart on sequences, their searches end.
  \<^item> Protection: an entry matches exactly the region it was set for, the configuration loop changes exactly its
    entries, buffer validation decides as the hardware does unless an entry matches only a part of the buffer (where it
    can be wrong, as an example shows), the image is protected after start-up.
  \<^item> Start-up: memory images are in place, every entry runs once in order, devices are ready iff their entry succeeded.
  \<^item> Time: conversions are exact, the tick handler loses no time on a counter that counts up, alarms lie on boundaries, busy waiting ends.
  \<^item> Drivers: the interrupt handlers acknowledge and call exactly the registered callbacks, transmission sends every
    byte once and in order, a sampling sequence completes at exactly the conversion that the count and the answers of the
    callback determine, with the samples in order, clock setup gives the configured
    frequency, the oscillator calibrations return and report the deviation of the setting they leave.
  \<^item> Power: the order of a suspend and resume, the counting of locks with the report of unbalanced puts, the choice of the policy.
  \<^item> Interrupts: critical sections nest and keep the mask, enabling and disabling lines acts on a set of lines.
  \<^item> Faults and console: a fault reports every saved register and halts masked; console output sends every byte.
  \<^item> Storage: every call issues its command once, with interrupts masked, and passes its status on; a flash read writes whole words.
  \<^item> Bluetooth: the host starts exactly the selected roles, its callbacks are fixed afterwards, the stack starts only
    on a usable heap; advertising data parse back, long values are read completely; the attribute tables are checked
    for agreement of properties, permissions and read functions.
  \<^item> Bluetooth interface: the headers for linking and for ROM agree in constants, types and signatures but for the named
    prototypes, every function has its own slot in the table at the head of the image, the events that are cast have a common head, bonding items do not collide.
  \<^item> The peripheral application: it refines a single link, holds its power lock exactly while its flag is set under any
    interleaving and any answers of the library, finishes its events, and starts with the right calls in order.
  \<^item> Registers: registers are disjoint, nested or listed as aliases, and masks fit the width of the access; the two chips differ only where listed.
  \<^item> Macros: the loops map their argument in order for up to 64 arguments (256 for \<open>LISTIFY\<close>), the list macros drop
    exactly the empty elements, conditions select by the value; bit fields read back, rounding gives the nearest
    multiples, powers of two are decided, byte copies and swaps move exactly their ranges.
  \<^item> Where the code does something else than intended, the theorem states what it does: silent exhaustion of protection
    entries, a buffer validated past an entry that denies a part of it, a region ending at the top of memory, a lock on the
    active state that has an effect, ticks of a counter that counts down, flow control following the word size, lost seconds, the policy's
    wrap-around, an ADC configuration that cannot be restored, leaked notification buffers; further ones are library
    theorems next to the functions they are about.

  \<^bold>\<open>Not modelled.\<close>  The Bluetooth, ROM and in-system-programming libraries are binary: their headers and the tables
  that the headers index are modelled, what the functions do is an argument.  The start code and vector tables are
  assembler.  The pin tables of the boards and the toolchain attributes hold constants and annotations.  The ring
  buffer header declares functions that no file defines.  Formatting of output is the C library; a log line is the
  format and its arguments.  Of the samples only the peripheral application has logic of its own; the others run one
  driver each, and the heart rate sample does not compile.  The calibration of the low-speed oscillator is an argument
  of the clock setup of \<open>Soc\<close> and \<open>Rtc\<close>; \<open>Lsi\<close> models it on its own state.  Outside \<open>Irq\<close>, \<open>Fatal\<close> and \<open>Storage\<close> interrupt
  masking is not a state of its own: functions that lock interrupts run as one step.
\<close>

end
